(* ===== verification/Tinox_Prelude.thy ===== *)
theory Tinox_Prelude
  imports Main "HOL-Library.Word"
begin

text \<open>
  Shared vocabulary of the development: Rust's \<^verbatim>\<open>char\<close> and \<^verbatim>\<open>String\<close>, the machine
  integers the sources use, the character classes of the standard library, and the
  generic lemmas on lists and slices the component theories rely on.

  A Rust \<^verbatim>\<open>char\<close> is a Unicode scalar value. It is modelled by its code point, a natural
  number; \<open>is_scalar\<close> says which numbers are code points of a \<^verbatim>\<open>char\<close>, and
  \<open>char_from_u32\<close> is \<^verbatim>\<open>char::from_u32\<close>. A Rust \<^verbatim>\<open>String\<close> or \<^verbatim>\<open>Vec<char>\<close> is the list
  of its characters. \<open>cc\<close> and \<open>lit\<close> embed Isabelle's character and string literals.
\<close>

named_theorems lex_adv \<open>facts: a lexer operation keeps the input and moves the cursor forward\<close>
named_theorems lex_defs \<open>definitions of the small lexer operations\<close>

type_synonym rchar = nat
type_synonym rstring = "rchar list"
type_synonym u32 = "32 word"
type_synonym u8 = "8 word"

abbreviation cc :: "char \<Rightarrow> rchar" where
  "cc c \<equiv> of_char c"

definition lit :: "string \<Rightarrow> rstring" where
  "lit s = map of_char s"

lemma lit_simps [simp]:
  "lit [] = []"
  "lit (c # cs) = of_char c # lit cs"
  "lit (cs @ ds) = lit cs @ lit ds"
  by (simp_all add: lit_def)

lemma lit_eq_iff [simp]: "lit s = lit t \<longleftrightarrow> s = t"
proof -
  have "inj (of_char :: char \<Rightarrow> nat)" by (simp add: inj_def)
  then show ?thesis by (simp add: lit_def inj_map_eq_map)
qed

lemma length_lit [simp]: "length (lit s) = length s"
  by (simp add: lit_def)

section \<open>Characters\<close>

definition is_scalar :: "nat \<Rightarrow> bool" where
  "is_scalar n \<longleftrightarrow> n < 0xD800 \<or> (0xE000 \<le> n \<and> n < 0x110000)"

definition char_from_u32 :: "nat \<Rightarrow> rchar option" where
  "char_from_u32 n = (if is_scalar n then Some n else None)"

definition is_ascii_digit :: "rchar \<Rightarrow> bool" where
  "is_ascii_digit c \<longleftrightarrow> cc (CHR ''0'') \<le> c \<and> c \<le> cc (CHR ''9'')"

definition is_ascii_lower :: "rchar \<Rightarrow> bool" where
  "is_ascii_lower c \<longleftrightarrow> cc (CHR ''a'') \<le> c \<and> c \<le> cc (CHR ''z'')"

definition is_ascii_upper :: "rchar \<Rightarrow> bool" where
  "is_ascii_upper c \<longleftrightarrow> cc (CHR ''A'') \<le> c \<and> c \<le> cc (CHR ''Z'')"

definition is_ascii_hexdigit :: "rchar \<Rightarrow> bool" where
  "is_ascii_hexdigit c \<longleftrightarrow> is_ascii_digit c
     \<or> (cc (CHR ''a'') \<le> c \<and> c \<le> cc (CHR ''f'')) \<or> (cc (CHR ''A'') \<le> c \<and> c \<le> cc (CHR ''F''))"

lemmas char_class_defs = is_ascii_digit_def is_ascii_lower_def is_ascii_upper_def
  is_ascii_hexdigit_def

text \<open>
  \<^verbatim>\<open>c.to_digit(radix)\<close> for the radices the sources use (at most 16), and
  \<^verbatim>\<open>i64::from_str_radix\<close> on a text without a sign: an empty text, a character that is
  no digit of the radix, or a value beyond \<^verbatim>\<open>i64::MAX\<close> is an error (\<open>None\<close>).
\<close>

definition digit_val :: "nat \<Rightarrow> rchar \<Rightarrow> nat option" where
  "digit_val radix c =
     (let v = (if is_ascii_digit c then c - cc (CHR ''0'')
               else if is_ascii_lower c then c - cc (CHR ''a'') + 10
               else if is_ascii_upper c then c - cc (CHR ''A'') + 10
               else radix)
      in if v < radix then Some v else None)"

fun digits_val :: "nat \<Rightarrow> rstring \<Rightarrow> nat \<Rightarrow> nat option" where
  "digits_val radix [] acc = Some acc"
| "digits_val radix (c # cs) acc =
     (case digit_val radix c of None \<Rightarrow> None
      | Some d \<Rightarrow> digits_val radix cs (acc * radix + d))"

definition i64_max :: int where
  "i64_max = 2 ^ 63 - 1"

definition i64_from_str_radix :: "nat \<Rightarrow> rstring \<Rightarrow> int option" where
  "i64_from_str_radix radix t =
     (if t = [] then None
      else case digits_val radix t 0 of None \<Rightarrow> None
        | Some v \<Rightarrow> if int v \<le> i64_max then Some (int v) else None)"

section \<open>Slices\<close>

text \<open>\<open>slice xs a b\<close> is \<^verbatim>\<open>xs[a..b]\<close>, defined where \<open>a \<le> b \<le> length xs\<close>.\<close>

definition slice :: "'a list \<Rightarrow> nat \<Rightarrow> nat \<Rightarrow> 'a list" where
  "slice xs a b = take (b - a) (drop a xs)"

lemma slice_same [simp]: "slice xs a a = []"
  by (simp add: slice_def)

lemma length_slice [simp]: "a \<le> b \<Longrightarrow> b \<le> length xs \<Longrightarrow> length (slice xs a b) = b - a"
  by (simp add: slice_def)

lemma slice_append [simp]:
  assumes "a \<le> b" and "b \<le> c"
  shows "slice xs a b @ slice xs b c = slice xs a c"
proof -
  have "take (c - a) (drop a xs) = take ((b - a) + (c - b)) (drop a xs)" using assms by simp
  also have "\<dots> = take (b - a) (drop a xs) @ take (c - b) (drop (b - a) (drop a xs))"
    by (rule take_add)
  finally show ?thesis using assms by (simp add: slice_def)
qed

lemma slice_full [simp]: "slice xs 0 (length xs) = xs"
  by (simp add: slice_def)

lemma slice_Suc:
  assumes "a \<le> b" and "b < length xs"
  shows "slice xs a (Suc b) = slice xs a b @ [xs ! b]"
proof -
  have "slice xs b (Suc b) = [xs ! b]"
    using assms by (simp add: slice_def take_Suc_conv_app_nth)
  then show ?thesis using slice_append [of a b "Suc b" xs] assms by simp
qed

lemma slice_append_left [simp]:
  "slice (xs @ ys) (length xs) (length xs + n) = take n ys"
  by (simp add: slice_def)

lemma nth_option_drop: "i < length xs \<Longrightarrow> drop i xs = xs ! i # drop (Suc i) xs"
  by (rule Cons_nth_drop_Suc [symmetric])

section \<open>Sums as results\<close>

text \<open>Rust's \<^verbatim>\<open>Result<T, E>\<close> is \<open>'e + 'a\<close>, with \<open>Inl\<close> for \<^verbatim>\<open>Err\<close> and \<open>Inr\<close> for \<^verbatim>\<open>Ok\<close>.\<close>

fun is_ok :: "'e + 'a \<Rightarrow> bool" where
  "is_ok (Inl _) = False"
| "is_ok (Inr _) = True"

lemma is_ok_iff: "is_ok r \<longleftrightarrow> (\<exists>x. r = Inr x)"
  by (cases r) auto

text \<open>A run whose outcome, seen through \<open>f\<close>, has been computed.\<close>

lemma run_ok:
  assumes "map_sum id f (fst p) = Inr v"
  obtains x s where "p = (Inr x, s)" and "f x = v"
  using assms by (cases p; cases "fst p") auto

section \<open>Words\<close>

lemma unat_of_nat_u32: "n < 2 ^ 32 \<Longrightarrow> unat (of_nat n :: u32) = n"
  by (simp add: unat_of_nat take_bit_nat_eq_self)

lemma of_nat_u32_le_iff:
  "a < 2 ^ 32 \<Longrightarrow> b < 2 ^ 32 \<Longrightarrow> (of_nat a :: u32) \<le> of_nat b \<longleftrightarrow> a \<le> b"
  by (simp add: word_le_nat_alt unat_of_nat_u32)

lemma of_nat_u32_less_iff:
  "a < 2 ^ 32 \<Longrightarrow> b < 2 ^ 32 \<Longrightarrow> (of_nat a :: u32) < of_nat b \<longleftrightarrow> a < b"
  by (simp add: word_less_nat_alt unat_of_nat_u32)

end
