(* ===== verification/Tinox_Common.thy ===== *)
theory Tinox_Common
  imports Tinox_Prelude
begin

text \<open>
  The crate \<^verbatim>\<open>tinox-common\<close> (\<^verbatim>\<open>src/crates/tinox-common/src/lib.rs\<close>): source positions,
  spans, AST nodes with a span and an id, and the errors every phase reports. An error's
  message is the parameter \<open>'m\<close>: the lexer's is the text, the parser's keeps the
  arguments of \<^verbatim>\<open>format!\<close>.
\<close>

record pos =
  offset :: u32
  pos_line :: u32
  pos_column :: u32

record span =
  span_start :: pos
  span_end :: pos

definition pos_dummy :: pos where
  "pos_dummy = \<lparr>offset = 0, pos_line = 1, pos_column = 1\<rparr>"

definition span_new :: "pos \<Rightarrow> pos \<Rightarrow> span" where
  "span_new s e = \<lparr>span_start = s, span_end = e\<rparr>"

definition span_dummy :: span where
  "span_dummy = \<lparr>span_start = pos_dummy, span_end = pos_dummy\<rparr>"

definition span_merge :: "span \<Rightarrow> span \<Rightarrow> span" where
  "span_merge a b =
     \<lparr>span_start = (if offset (span_start a) < offset (span_start b)
                    then span_start a else span_start b),
      span_end = (if offset (span_end a) > offset (span_end b)
                  then span_end a else span_end b)\<rparr>"

text \<open>\<^verbatim>\<open>Spanned<T>\<close>: the id 0 is "unassigned".\<close>

datatype 'a spanned = Spanned (node: 'a) (nspan: span) (nid: u32)

definition spanned_new :: "'a \<Rightarrow> span \<Rightarrow> 'a spanned" where
  "spanned_new n s = Spanned n s 0"

definition spanned_map :: "('a \<Rightarrow> 'b) \<Rightarrow> 'a spanned \<Rightarrow> 'b spanned" where
  "spanned_map f s = Spanned (f (node s)) (nspan s) (nid s)"

record 'm error =
  err_span :: span
  err_message :: 'm

definition error_new :: "span \<Rightarrow> 'm \<Rightarrow> 'm error" where
  "error_new s m = \<lparr>err_span = s, err_message = m\<rparr>"

record 'm error_bag =
  bag_errors :: "'m error list"

definition bag_new :: "'m error_bag" where
  "bag_new = \<lparr>bag_errors = []\<rparr>"

definition bag_push :: "'m error_bag \<Rightarrow> 'm error \<Rightarrow> 'm error_bag" where
  "bag_push b e = b\<lparr>bag_errors := bag_errors b @ [e]\<rparr>"

definition bag_extend :: "'m error_bag \<Rightarrow> 'm error_bag \<Rightarrow> 'm error_bag" where
  "bag_extend b c = b\<lparr>bag_errors := bag_errors b @ bag_errors c\<rparr>"

definition bag_is_empty :: "'m error_bag \<Rightarrow> bool" where
  "bag_is_empty b \<longleftrightarrow> bag_errors b = []"

definition bag_check :: "'m error + 'a \<Rightarrow> 'm error_bag + 'a" where
  "bag_check r = (case r of Inl e \<Rightarrow> Inl (bag_push bag_new e) | Inr x \<Rightarrow> Inr x)"

section \<open>Spans as intervals of offsets\<close>

definition span_valid :: "span \<Rightarrow> bool" where
  "span_valid s \<longleftrightarrow> offset (span_start s) \<le> offset (span_end s)"

definition span_covers :: "span \<Rightarrow> u32 \<Rightarrow> bool" where
  "span_covers s i \<longleftrightarrow> offset (span_start s) \<le> i \<and> i \<le> offset (span_end s)"

lemma merge_offsets [simp]:
  "offset (span_start (span_merge a b)) = min (offset (span_start a)) (offset (span_start b))"
  "offset (span_end (span_merge a b)) = max (offset (span_end a)) (offset (span_end b))"
  by (auto simp: span_merge_def min_def max_def)

end
