(* ===== verification/Tinox_Tokens.thy ===== *)
theory Tinox_Tokens
  imports Tinox_Common
begin

text \<open>
  The token vocabulary of \<^verbatim>\<open>src/crates/tinox-lexer/src/lib.rs\<close>: \<^verbatim>\<open>InterpPart\<close>,
  \<^verbatim>\<open>TokenKind\<close>, \<^verbatim>\<open>Token\<close>, \<^verbatim>\<open>IntSuffix\<close>, \<^verbatim>\<open>FloatType\<close> and \<^verbatim>\<open>Keyword\<close> with its
  \<^verbatim>\<open>lookup\<close>. An \<^verbatim>\<open>i64\<close> is an integer; that the lexer only builds values of the type's
  range is a theorem about it. An \<^verbatim>\<open>f64\<close> is its bit pattern.
\<close>

type_synonym f64 = "64 word"

datatype interp_part = IP_Str rstring | IP_Expr rstring

datatype int_suffix =
  Unsigned8 | Unsigned16 | Unsigned32 | Unsigned64
| Signed8 | Signed16 | Signed32 | Signed64 | Size | Usize

datatype float_type = Float32 | Float64

datatype (plugins only: code size) keyword =
  K_If | K_Else | K_While | K_For | K_Loop | K_Return | K_Break | K_Continue | K_Match
  | K_Case | K_Class | K_Interface | K_Extends | K_Implements | K_Trait | K_Enum | K_New
  | K_This | K_Super | K_SelfValue | K_SelfType | K_Public | K_Private | K_Protected
  | K_Package | K_Static | K_Final | K_Abstract | K_Override | K_Readonly | K_Var | K_Val
  | K_Let | K_Const | K_Mut | K_Fn | K_Fnc | K_Throws | K_Throw | K_Try | K_Catch
  | K_Finally | K_Defer | K_Spawn | K_Channel | K_Send | K_Recv | K_Select | K_Default
  | K_Async | K_Await | K_Module | K_Namespace | K_Import | K_Export | K_As | K_In
  | K_Where | K_Extern | K_Unsafe | K_Ref | K_SizeOf | K_TypeOf | K_Is | K_AsAlias | K_Cast
  | K_Null | K_True | K_False | K_Nothing | K_Never | K_Any | K_DotSelf | K_Immutable

datatype (plugins only: code size) token_kind =
  T_Integer int | T_IntegerSuffix int_suffix | T_Float f64 | T_FloatSuffix float_type
 | T_String rstring | T_RawString rstring | T_InterpString "interp_part list"
 | T_Char rchar | T_Byte u8 | T_Bool bool | T_Ident rstring | T_Keyword keyword | T_Plus
 | T_Minus | T_Star | T_Slash | T_Percent | T_Equals | T_EqualsEquals | T_Bang
 | T_BangEquals | T_Less | T_LessEquals | T_Greater | T_GreaterEquals | T_AmpAmp
 | T_BarBar | T_Caret | T_Tilde | T_Ampersand | T_Bar | T_LessLess | T_GreaterGreater
 | T_GreaterGreaterGreater | T_PlusPlus | T_MinusMinus | T_PlusEquals | T_MinusEquals
 | T_StarEquals | T_SlashEquals | T_PercentEquals | T_AmpersandEquals | T_BarEquals
 | T_CaretEquals | T_LessLessEquals | T_GreaterGreaterEquals
 | T_GreaterGreaterGreaterEquals | T_Dot | T_DotDot | T_DotDotDot | T_Colon | T_ColonColon
 | T_Semicolon | T_Comma | T_At | T_Question | T_QuestionQuestion | T_QuestionColon
 | T_FatArrow | T_ThinArrow | T_Pipe | T_Backslash | T_LParen | T_RParen | T_LBrace
 | T_RBrace | T_LBracket | T_RBracket | T_Comment rstring | T_DocComment rstring
 | T_Whitespace | T_Newline | T_Underscore | T_Eof | T_Error rstring

record token =
  tok_kind :: token_kind
  tok_span :: span

definition token_new :: "token_kind \<Rightarrow> span \<Rightarrow> token" where
  "token_new k s = \<lparr>tok_kind = k, tok_span = s\<rparr>"

definition token_dummy :: "token_kind \<Rightarrow> token" where
  "token_dummy k = \<lparr>tok_kind = k, tok_span = span_dummy\<rparr>"

definition is_trivia :: "token_kind \<Rightarrow> bool" where
  "is_trivia k = (case k of T_Whitespace \<Rightarrow> True | T_Newline \<Rightarrow> True | T_Comment _ \<Rightarrow> True
                  | _ \<Rightarrow> False)"

definition keyword_table :: "(rstring \<times> keyword) list" where
  "keyword_table =
    [(lit ''if'', K_If), (lit ''else'', K_Else), (lit ''while'', K_While), (lit ''for'', K_For),
     (lit ''loop'', K_Loop), (lit ''return'', K_Return), (lit ''break'', K_Break),
     (lit ''continue'', K_Continue), (lit ''match'', K_Match), (lit ''case'', K_Case),
     (lit ''class'', K_Class), (lit ''interface'', K_Interface), (lit ''extends'', K_Extends),
     (lit ''implements'', K_Implements), (lit ''trait'', K_Trait), (lit ''enum'', K_Enum),
     (lit ''new'', K_New), (lit ''this'', K_This), (lit ''super'', K_Super),
     (lit ''self'', K_SelfValue), (lit ''Self'', K_SelfType), (lit ''public'', K_Public),
     (lit ''private'', K_Private), (lit ''protected'', K_Protected),
     (lit ''package'', K_Package), (lit ''static'', K_Static), (lit ''final'', K_Final),
     (lit ''abstract'', K_Abstract), (lit ''override'', K_Override),
     (lit ''readonly'', K_Readonly), (lit ''var'', K_Var), (lit ''val'', K_Val),
     (lit ''let'', K_Let), (lit ''const'', K_Const), (lit ''mut'', K_Mut), (lit ''fn'', K_Fn),
     (lit ''fnc'', K_Fnc), (lit ''throw'', K_Throw), (lit ''throws'', K_Throws),
     (lit ''try'', K_Try), (lit ''catch'', K_Catch), (lit ''finally'', K_Finally),
     (lit ''defer'', K_Defer), (lit ''spawn'', K_Spawn), (lit ''channel'', K_Channel),
     (lit ''send'', K_Send), (lit ''recv'', K_Recv), (lit ''select'', K_Select),
     (lit ''default'', K_Default), (lit ''async'', K_Async), (lit ''await'', K_Await),
     (lit ''module'', K_Module), (lit ''namespace'', K_Namespace), (lit ''import'', K_Import),
     (lit ''export'', K_Export), (lit ''as'', K_As), (lit ''in'', K_In),
     (lit ''where'', K_Where), (lit ''extern'', K_Extern), (lit ''unsafe'', K_Unsafe),
     (lit ''ref'', K_Ref), (lit ''sizeof'', K_SizeOf), (lit ''typeof'', K_TypeOf),
     (lit ''is'', K_Is), (lit ''cast'', K_Cast), (lit ''null'', K_Null), (lit ''true'', K_True),
     (lit ''false'', K_False), (lit ''Nothing'', K_Nothing), (lit ''Never'', K_Never),
     (lit ''Any'', K_Any), (lit ''.self'', K_DotSelf), (lit ''immutable'', K_Immutable)]"

definition keyword_lookup :: "rstring \<Rightarrow> keyword option" where
  "keyword_lookup s = map_of keyword_table s"

section \<open>The keyword table\<close>

text \<open>Every spelling is listed once and no keyword has two spellings.\<close>

lemma keyword_spellings_distinct: "distinct (map fst keyword_table)"
  by (simp add: keyword_table_def)

lemma keyword_values_distinct: "distinct (map snd keyword_table)"
  by (simp add: keyword_table_def)

lemma map_of_inj:
  assumes "distinct (map snd xs)" and "map_of xs a = Some v" and "map_of xs b = Some v"
  shows "a = b"
proof -
  have "(a, v) \<in> set xs" and "(b, v) \<in> set xs" using assms(2,3) by (auto dest: map_of_SomeD)
  then have "(a, v) = (b, v)" using assms(1) inj_onD [of snd "set xs" "(a, v)" "(b, v)"]
    by (simp add: distinct_map)
  then show ?thesis by simp
qed

lemma keyword_lookup_inj:
  "keyword_lookup a = Some k \<Longrightarrow> keyword_lookup b = Some k \<Longrightarrow> a = b"
  unfolding keyword_lookup_def by (rule map_of_inj [OF keyword_values_distinct])

end
