(* ===== verification/Tinox_Float.thy ===== *)
theory Tinox_Float
  imports Tinox_Tokens
begin

text \<open>
  What the lexer uses of Rust's \<^verbatim>\<open>f64\<close>: \<^verbatim>\<open>str::parse::<f64>()\<close> on the texts it builds
  (decimal digits, a point, decimal digits, an optional exponent; no sign, no
  \<^verbatim>\<open>inf\<close> or \<^verbatim>\<open>nan\<close>) and \<^verbatim>\<open>is_finite\<close>. The standard library rounds the decimal to
  the nearest binary64, ties to even, and to infinity beyond the range;
  \<open>f64_of_ratio\<close> is that rounding for a quotient of natural numbers, and the result
  is the bit pattern.
\<close>

fun bitlen :: "nat \<Rightarrow> nat" where
  "bitlen n = (if n = 0 then 0 else Suc (bitlen (n div 2)))"

declare bitlen.simps [simp del]

definition round_half_even :: "nat \<Rightarrow> nat \<Rightarrow> nat" where
  "round_half_even n d =
     (let q = n div d; r = n mod d in
      if 2 * r < d then q else if d < 2 * r then q + 1 else if even q then q else q + 1)"

text \<open>\<open>ilog2_ratio n d\<close> is the exponent \<open>k\<close> with \<open>2 ^ k \<le> n / d < 2 ^ (k + 1)\<close>.\<close>

definition ilog2_ratio :: "nat \<Rightarrow> nat \<Rightarrow> int" where
  "ilog2_ratio n d =
     (let k = int (bitlen n) - int (bitlen d) in
      if (if 0 \<le> k then d * 2 ^ nat k \<le> n else d \<le> n * 2 ^ nat (- k)) then k else k - 1)"

definition f64_infinity_bits :: nat where
  "f64_infinity_bits = 0x7FF * 2 ^ 52"

definition f64_bits :: "nat \<Rightarrow> nat \<Rightarrow> nat" where
  "f64_bits n d =
     (if n = 0 then 0
      else let qe = max (ilog2_ratio n d - 52) (- 1074);
               r = (if 0 \<le> qe then round_half_even n (d * 2 ^ nat qe)
                    else round_half_even (n * 2 ^ nat (- qe)) d)
           in min (nat (1074 + qe) * 2 ^ 52 + r) f64_infinity_bits)"

definition f64_of_ratio :: "nat \<Rightarrow> nat \<Rightarrow> f64" where
  "f64_of_ratio n d = of_nat (f64_bits n d)"

definition f64_of_decimal :: "nat \<Rightarrow> int \<Rightarrow> f64" where
  "f64_of_decimal m e =
     (if 0 \<le> e then f64_of_ratio (m * 10 ^ nat e) 1 else f64_of_ratio m (10 ^ nat (- e)))"

definition f64_is_finite :: "f64 \<Rightarrow> bool" where
  "f64_is_finite b \<longleftrightarrow> take_bit 11 (drop_bit 52 b) \<noteq> 0x7FF"

definition parse_exponent :: "rstring \<Rightarrow> int option" where
  "parse_exponent t =
     (case t of
        [] \<Rightarrow> None
      | c # cs \<Rightarrow>
          let neg = (c = cc (CHR ''-''));
              ds = (if c = cc (CHR ''+'') \<or> c = cc (CHR ''-'') then cs else c # cs)
          in if ds = [] then None
             else map_option (\<lambda>v. if neg then - int v else int v) (digits_val 10 ds 0))"

definition parse_f64 :: "rstring \<Rightarrow> f64 option" where
  "parse_f64 t =
     (let ip = takeWhile is_ascii_digit t; t1 = dropWhile is_ascii_digit t;
          t2 = (case t1 of c # cs \<Rightarrow> if c = cc (CHR ''.'') then cs else t1 | [] \<Rightarrow> []);
          fp = (if t2 = t1 then [] else takeWhile is_ascii_digit t2);
          t3 = (if t2 = t1 then t1 else dropWhile is_ascii_digit t2)
      in if ip @ fp = [] then None
         else case digits_val 10 (ip @ fp) 0 of None \<Rightarrow> None
           | Some m \<Rightarrow>
             (case t3 of
                [] \<Rightarrow> Some (f64_of_decimal m (- int (length fp)))
              | c # cs \<Rightarrow>
                  if c = cc (CHR ''e'') \<or> c = cc (CHR ''E'')
                  then map_option (\<lambda>e. f64_of_decimal m (e - int (length fp))) (parse_exponent cs)
                  else None))"

lemma parse_f64_one_and_a_half: "parse_f64 (lit ''1.5'') = Some 0x3FF8000000000000"
  by (simp add: parse_f64_def char_class_defs digit_val_def f64_of_decimal_def f64_of_ratio_def
      f64_bits_def ilog2_ratio_def round_half_even_def bitlen.simps Let_def f64_infinity_bits_def)

end
