(* ===== verification/Tinox_Lexer.thy ===== *)
theory Tinox_Lexer
  imports Tinox_Float
begin

text \<open>
  The lexer of \<^verbatim>\<open>src/crates/tinox-lexer/src/lib.rs\<close>, operation by operation: the
  \<^verbatim>\<open>Lexer\<close> struct as the record \<open>lexer\<close>, every \<^verbatim>\<open>&mut self\<close> method as a function that
  returns the new lexer, every \<^verbatim>\<open>Result\<close> as a sum. \<^verbatim>\<open>usize\<close> cursors are natural
  numbers (a \<^verbatim>\<open>Vec<char>\<close> is far shorter than \<^verbatim>\<open>usize::MAX\<close>); the \<^verbatim>\<open>u32\<close> line and column
  counters and the \<^verbatim>\<open>as u32\<close> offsets keep their width.
  The loops of the source are the functions named after them; those whose guard is only
  a test of \<^verbatim>\<open>peek()\<close> stop at the end of the input because \<^verbatim>\<open>peek()\<close> answers \<^verbatim>\<open>'\0'\<close>
  there, which no such test accepts (\<open>bump_while_peek\<close>).
\<close>

record lexer =
  lx_chars :: "rchar list"
  lx_pos :: nat
  lx_start :: nat
  lx_line :: u32
  lx_column :: u32
  lx_start_column :: u32

type_synonym lex_error = "rstring error"

abbreviation NL :: rchar where "NL \<equiv> 10"
abbreviation TAB :: rchar where "TAB \<equiv> 9"
abbreviation CR :: rchar where "CR \<equiv> 13"
abbreviation SQUOTE :: rchar where "SQUOTE \<equiv> 39"
abbreviation DQUOTE :: rchar where "DQUOTE \<equiv> 34"
abbreviation BSLASH :: rchar where "BSLASH \<equiv> 92"
abbreviation UNDERSCORE :: rchar where "UNDERSCORE \<equiv> 95"

abbreviation lx_len :: "lexer \<Rightarrow> nat" where
  "lx_len s \<equiv> length (lx_chars s)"

definition lexer_new :: "rstring \<Rightarrow> lexer" where
  "lexer_new input =
     \<lparr>lx_chars = input, lx_pos = 0, lx_start = 0, lx_line = 1, lx_column = 1, lx_start_column = 1\<rparr>"

section \<open>Cursor\<close>

definition char_at :: "lexer \<Rightarrow> nat \<Rightarrow> rchar option" where
  "char_at s i = (if i < lx_len s then Some (lx_chars s ! i) else None)"

definition peek :: "lexer \<Rightarrow> rchar" where
  "peek s = (case char_at s (lx_pos s) of None \<Rightarrow> 0 | Some c \<Rightarrow> c)"

definition peek_next :: "lexer \<Rightarrow> rchar" where
  "peek_next s = (case char_at s (lx_pos s + 1) of None \<Rightarrow> 0 | Some c \<Rightarrow> c)"

definition bump :: "lexer \<Rightarrow> lexer" where
  "bump s = s\<lparr>lx_pos := lx_pos s + 1, lx_column := lx_column s + 1\<rparr>"

definition mk_pos :: "lexer \<Rightarrow> pos" where
  "mk_pos s = \<lparr>offset = of_nat (lx_pos s), pos_line = lx_line s, pos_column = lx_start_column s\<rparr>"

definition mk_span :: "lexer \<Rightarrow> span" where
  "mk_span s = span_new
     \<lparr>offset = of_nat (lx_start s), pos_line = lx_line s, pos_column = lx_start_column s\<rparr>
     \<lparr>offset = of_nat (lx_pos s), pos_line = lx_line s, pos_column = lx_column s\<rparr>"

text \<open>The two ways a method ends: a token over the span read so far, or an error there.\<close>

definition tok :: "token_kind \<Rightarrow> lexer \<Rightarrow> token \<times> lexer" where
  "tok k s = (token_new k (mk_span s), s)"

definition ok_tok :: "token_kind \<Rightarrow> lexer \<Rightarrow> (lex_error + token) \<times> lexer" where
  "ok_tok k s = (Inr (token_new k (mk_span s)), s)"

definition err :: "rstring \<Rightarrow> lexer \<Rightarrow> (lex_error + 'a) \<times> lexer" where
  "err m s = (Inl (error_new (mk_span s) m), s)"

function bump_while :: "(rchar \<Rightarrow> bool) \<Rightarrow> lexer \<Rightarrow> lexer" where
  "bump_while P s = (if lx_pos s < lx_len s \<and> P (peek s) then bump_while P (bump s) else s)"
  by pat_completeness auto
termination
  by (relation "measure (\<lambda>(P, s). lx_len s - lx_pos s)") (auto simp: bump_def)

declare bump_while.simps [simp del]

section \<open>Comments\<close>

definition read_operator :: "lexer \<Rightarrow> token \<times> lexer" where
  "read_operator s =
     (let s1 = bump s in
      if peek s1 = cc (CHR ''='') then tok T_SlashEquals (bump s1) else tok T_Slash s1)"

definition read_line_comment :: "lexer \<Rightarrow> token \<times> lexer" where
  "read_line_comment s =
     (let s1 = bump (bump s); s2 = bump_while (\<lambda>c. c \<noteq> NL) s1
      in tok (T_Comment (slice (lx_chars s2) (lx_pos s1) (lx_pos s2))) s2)"

text \<open>The scan for the closing \<^verbatim>\<open>*/\<close>: its position, or nothing at the end of the input.\<close>

function block_comment_loop :: "lexer \<Rightarrow> nat option \<times> lexer" where
  "block_comment_loop s =
     (if lx_pos s < lx_len s
      then if peek s = cc (CHR ''*'') \<and> peek_next s = cc (CHR ''/'')
           then (Some (lx_pos s), bump (bump s))
           else block_comment_loop
                  (bump (if peek s = NL then s\<lparr>lx_line := lx_line s + 1, lx_column := 0\<rparr> else s))
      else (None, s))"
  by pat_completeness auto
termination
  by (relation "measure (\<lambda>s. lx_len s - lx_pos s)") (auto simp: bump_def)

declare block_comment_loop.simps [simp del]

definition read_block_comment :: "lexer \<Rightarrow> token \<times> lexer" where
  "read_block_comment s =
     (let s1 = bump (bump s);
          is_doc = (peek s1 = cc (CHR ''*''));
          s2 = (if is_doc then bump s1 else s1)
      in case block_comment_loop s2 of (found, s3) \<Rightarrow>
           let text = slice (lx_chars s3) (lx_pos s2)
                        (case found of Some e \<Rightarrow> e | None \<Rightarrow> lx_pos s3)
           in tok (if is_doc then T_DocComment text else T_Comment text) s3)"

section \<open>Escapes\<close>

definition read_hex_digit :: "lexer \<Rightarrow> (lex_error + nat) \<times> lexer" where
  "read_hex_digit s =
     (let ch = peek s; s1 = bump s in
      if is_ascii_digit ch then (Inr (ch - cc (CHR ''0'')), s1)
      else if cc (CHR ''a'') \<le> ch \<and> ch \<le> cc (CHR ''f'') then (Inr (ch - cc (CHR ''a'') + 10), s1)
      else if cc (CHR ''A'') \<le> ch \<and> ch \<le> cc (CHR ''F'') then (Inr (ch - cc (CHR ''A'') + 10), s1)
      else err (lit ''expected hex digit, found: '' @ [ch]) s1)"

definition expect_char :: "rchar \<Rightarrow> lexer \<Rightarrow> (lex_error + unit) \<times> lexer" where
  "expect_char ch s =
     (if peek s = ch then (Inr (), bump s)
      else err (lit ''expected '' @ [SQUOTE, ch, SQUOTE]) s)"

text \<open>\<^verbatim>\<open>while self.peek() != '}' && count < 6\<close>, the first argument counting down from 6.\<close>

primrec unicode_digits :: "nat \<Rightarrow> nat \<Rightarrow> lexer \<Rightarrow> (lex_error + nat) \<times> lexer" where
  "unicode_digits 0 value s = (Inr value, s)"
| "unicode_digits (Suc n) value s =
     (if peek s \<noteq> cc (CHR ''}'')
      then case read_hex_digit s of
             (Inl e, s1) \<Rightarrow> (Inl e, s1)
           | (Inr d, s1) \<Rightarrow> unicode_digits n (value * 16 + d) s1
      else (Inr value, s))"

text \<open>\<^verbatim>\<open>for _ in 0..8\<close> of the \<^verbatim>\<open>\U\<close> escape, with the count as the first argument.\<close>

primrec hex_digits :: "nat \<Rightarrow> nat \<Rightarrow> lexer \<Rightarrow> (lex_error + nat) \<times> lexer" where
  "hex_digits 0 value s = (Inr value, s)"
| "hex_digits (Suc n) value s =
     (case read_hex_digit s of
        (Inl e, s1) \<Rightarrow> (Inl e, s1)
      | (Inr d, s1) \<Rightarrow> hex_digits n (value * 16 + d) s1)"

definition from_u32_or :: "rstring \<Rightarrow> nat \<Rightarrow> lexer \<Rightarrow> (lex_error + rchar) \<times> lexer" where
  "from_u32_or msg n s =
     (case char_from_u32 n of Some c \<Rightarrow> (Inr c, s) | None \<Rightarrow> err msg s)"

definition read_escape :: "lexer \<Rightarrow> (lex_error + rchar) \<times> lexer" where
  "read_escape s =
     (let ch = peek s; s1 = bump s in
      if ch = cc (CHR ''n'') then (Inr NL, s1)
      else if ch = cc (CHR ''t'') then (Inr TAB, s1)
      else if ch = cc (CHR ''r'') then (Inr CR, s1)
      else if ch = BSLASH then (Inr BSLASH, s1)
      else if ch = DQUOTE then (Inr DQUOTE, s1)
      else if ch = SQUOTE then (Inr SQUOTE, s1)
      else if ch = cc (CHR ''0'') then (Inr 0, s1)
      else if ch = cc (CHR ''x'') then
        (case hex_digits 2 0 s1 of
           (Inl e, s2) \<Rightarrow> (Inl e, s2)
         | (Inr code, s2) \<Rightarrow> from_u32_or (lit ''invalid hex escape'') code s2)
      else if ch = cc (CHR ''u'') then
        (case expect_char (cc (CHR ''{'')) s1 of
           (Inl e, s2) \<Rightarrow> (Inl e, s2)
         | (Inr _, s2) \<Rightarrow>
             (case unicode_digits 6 0 s2 of
                (Inl e, s3) \<Rightarrow> (Inl e, s3)
              | (Inr value, s3) \<Rightarrow>
                  (case expect_char (cc (CHR ''}'')) s3 of
                     (Inl e, s4) \<Rightarrow> (Inl e, s4)
                   | (Inr _, s4) \<Rightarrow> from_u32_or (lit ''invalid unicode escape'') value s4)))
      else if ch = cc (CHR ''U'') then
        (case hex_digits 8 0 s1 of
           (Inl e, s2) \<Rightarrow> (Inl e, s2)
         | (Inr value, s2) \<Rightarrow> from_u32_or (lit ''invalid unicode escape'') value s2)
      else err (lit ''unknown escape sequence: '' @ [BSLASH, ch]) s1)"

section \<open>Moving forward\<close>

text \<open>
  What every operation of the lexer does to the cursor: the input and the start of the
  current token stay, the position never moves back. \<open>fwd\<close> is that relation and
  \<open>fwd1\<close> its strict form.
\<close>

definition fwd :: "lexer \<Rightarrow> lexer \<Rightarrow> bool" where
  "fwd s t \<longleftrightarrow> lx_chars t = lx_chars s \<and> lx_start t = lx_start s
     \<and> lx_start_column t = lx_start_column s \<and> lx_pos s \<le> lx_pos t"

definition fwd1 :: "lexer \<Rightarrow> lexer \<Rightarrow> bool" where
  "fwd1 s t \<longleftrightarrow> fwd s t \<and> lx_pos s < lx_pos t"

lemma fwd_refl [simp, lex_adv]: "fwd s s"
  by (simp add: fwd_def)

lemma fwd_trans: "fwd s t \<Longrightarrow> fwd t u \<Longrightarrow> fwd s u"
  by (auto simp: fwd_def)

lemma fwd1_fwd_trans: "fwd1 s t \<Longrightarrow> fwd t u \<Longrightarrow> fwd1 s u"
  by (auto simp: fwd_def fwd1_def)

lemma fwd_fwd1_trans: "fwd s t \<Longrightarrow> fwd1 t u \<Longrightarrow> fwd1 s u"
  by (auto simp: fwd_def fwd1_def)

lemma fwd1_imp_fwd: "fwd1 s t \<Longrightarrow> fwd s t"
  by (simp add: fwd1_def)

lemma fwd_bump [simp, lex_adv]: "fwd s (bump s)" "fwd1 s (bump s)"
  by (simp_all add: fwd_def fwd1_def bump_def)

lemma bump_simps [simp]:
  "lx_chars (bump s) = lx_chars s" "lx_pos (bump s) = Suc (lx_pos s)"
  "lx_start (bump s) = lx_start s" "lx_line (bump s) = lx_line s"
  "lx_column (bump s) = lx_column s + 1" "lx_start_column (bump s) = lx_start_column s"
  by (simp_all add: bump_def)

lemma fwd1_bump_bump [lex_adv]: "fwd1 s (bump (bump s))"
  by (simp add: fwd1_def fwd_def)

lemma fwd_bump_while [lex_adv]: "fwd s (bump_while P s)"
proof (induction P s rule: bump_while.induct)
  case (1 P s)
  show ?case
  proof (cases "lx_pos s < lx_len s \<and> P (peek s)")
    case True
    then have "fwd (bump s) (bump_while P (bump s))" using 1 by simp
    then have "fwd s (bump_while P (bump s))" by (rule fwd_trans [OF fwd_bump(1)])
    then show ?thesis using True by (simp add: bump_while.simps [of P s])
  next
    case False
    then show ?thesis by (auto simp: bump_while.simps [of P s])
  qed
qed

text \<open>
  The loops whose guard only looks at \<^verbatim>\<open>peek()\<close>: the same function, because the guard
  is false at the end of the input.
\<close>

lemma bump_while_peek:
  assumes "\<not> P 0"
  shows "bump_while P s = (if P (peek s) then bump_while P (bump s) else s)"
  using assms by (subst bump_while.simps) (auto simp: peek_def char_at_def)

text \<open>The closed form of the loop: it stops after the longest prefix of the rest in \<open>P\<close>.\<close>

definition rest :: "lexer \<Rightarrow> rchar list" where
  "rest s = drop (lx_pos s) (lx_chars s)"

definition skip :: "nat \<Rightarrow> lexer \<Rightarrow> lexer" where
  "skip n s = s\<lparr>lx_pos := lx_pos s + n, lx_column := lx_column s + of_nat n\<rparr>"

lemma skip_simps [simp]:
  "lx_chars (skip n s) = lx_chars s" "lx_pos (skip n s) = lx_pos s + n"
  "lx_start (skip n s) = lx_start s" "lx_line (skip n s) = lx_line s"
  "lx_column (skip n s) = lx_column s + of_nat n" "lx_start_column (skip n s) = lx_start_column s"
  by (simp_all add: skip_def)

lemma skip_0 [simp]: "skip 0 s = s"
  by (simp add: skip_def)

lemma skip_bump: "skip n (bump s) = skip (Suc n) s"
  by (simp add: skip_def bump_def)

lemma bump_eq_skip: "bump s = skip 1 s"
  by (simp add: skip_def bump_def)

lemma skip_skip [simp]: "skip m (skip n s) = skip (n + m) s"
  by (simp add: skip_def add.assoc)

lemma rest_skip [simp]: "rest (skip n s) = drop n (rest s)"
  by (simp add: rest_def add.commute)

lemma rest_bump [simp]: "rest (bump s) = drop 1 (rest s)"
  by (simp add: bump_eq_skip del: rest_skip) (simp add: rest_def)

lemma rest_nonempty: "lx_pos s < lx_len s \<longleftrightarrow> rest s \<noteq> []"
  by (auto simp: rest_def)

lemma length_rest: "length (rest s) = lx_len s - lx_pos s"
  by (simp add: rest_def)

lemma peek_rest: "peek s = (case rest s of [] \<Rightarrow> 0 | c # _ \<Rightarrow> c)"
  by (auto simp: peek_def char_at_def rest_def nth_option_drop split: list.splits)

lemma char_at_rest: "char_at s (lx_pos s + k) = (if k < length (rest s) then Some (rest s ! k) else None)"
  by (auto simp: char_at_def rest_def)

lemma peek_next_rest: "peek_next s = (case rest s of (_ # c # _) \<Rightarrow> c | _ \<Rightarrow> 0)"
  using char_at_rest [of s 1] by (auto simp: peek_next_def split: list.splits)

lemma bump_while_skip: "bump_while P s = skip (length (takeWhile P (rest s))) s"
proof (induction P s rule: bump_while.induct)
  case (1 P s)
  show ?case
  proof (cases "rest s")
    case Nil
    then show ?thesis by (simp add: bump_while.simps [of P s] rest_nonempty)
  next
    case (Cons c cs)
    then show ?thesis
      using 1 by (auto simp: bump_while.simps [of P s] rest_nonempty peek_rest skip_bump)
  qed
qed

lemma fwd_skip [simp, lex_adv]: "fwd s (skip n s)"
  by (simp add: fwd_def)

lemma slice_rest: "slice (lx_chars s) (lx_pos s) (lx_pos s + n) = take n (rest s)"
  by (simp add: slice_def rest_def)

lemma bump_while_bound: "lx_pos s \<le> lx_len s \<Longrightarrow> lx_pos (bump_while P s) \<le> lx_len s"
  using length_takeWhile_le [of P "rest s"] by (simp add: bump_while_skip length_rest)

section \<open>Escapes move forward\<close>

lemma fwd1_read_hex_digit: "read_hex_digit s = (r, t) \<Longrightarrow> fwd1 s t"
  by (auto simp: read_hex_digit_def Let_def err_def split: if_splits)

lemma fwd_expect_char: "expect_char c s = (r, t) \<Longrightarrow> fwd s t"
  by (auto simp: expect_char_def err_def split: if_splits)

lemma fwd_hex_digits: "hex_digits n v s = (r, t) \<Longrightarrow> fwd s t"
proof (induction n arbitrary: v s)
  case (Suc n)
  then show ?case
    by (auto split: prod.splits sum.splits
        intro: fwd_trans [OF fwd1_imp_fwd] dest: fwd1_read_hex_digit fwd1_imp_fwd)
qed simp

lemma fwd_unicode_digits: "unicode_digits n v s = (r, t) \<Longrightarrow> fwd s t"
proof (induction n arbitrary: v s)
  case (Suc n)
  then show ?case
    by (auto split: prod.splits sum.splits if_splits
        intro: fwd_trans [OF fwd1_imp_fwd] dest: fwd1_read_hex_digit fwd1_imp_fwd)
qed simp

lemma fwd_from_u32_or: "from_u32_or m n s = (r, t) \<Longrightarrow> fwd s t"
  by (auto simp: from_u32_or_def err_def split: option.splits)

lemma fwd1_read_escape:
  assumes "read_escape s = (r, t)"
  shows "fwd1 s t"
proof -
  have "fwd (bump s) t"
    using assms unfolding read_escape_def Let_def
    by (auto simp: err_def split: if_splits prod.splits sum.splits
        dest!: fwd_expect_char fwd_hex_digits fwd_unicode_digits fwd_from_u32_or
        intro: fwd_trans)
  then show ?thesis by (rule fwd1_fwd_trans [OF fwd_bump(2)])
qed

section \<open>String literals\<close>

text \<open>
  The scan of an interpolated expression up to its matching brace: \<open>depth\<close> braces are
  open, \<open>src\<close> is what has been collected.
\<close>

function interp_loop :: "lexer \<Rightarrow> nat \<Rightarrow> rstring \<Rightarrow> rstring \<times> lexer" where
  "interp_loop s depth src =
     (if lx_pos s < lx_len s \<and> depth > 0 then
        let ec = peek s;
            d1 = (if ec = cc (CHR ''{'') then depth + 1 else depth)
        in if ec = cc (CHR ''}'') \<and> d1 - 1 = 0 then (src, bump s)
           else interp_loop (bump s) (if ec = cc (CHR ''}'') then d1 - 1 else d1) (src @ [ec])
      else (src, s))"
  by pat_completeness auto
termination
  by (relation "measure (\<lambda>(s, _, _). lx_len s - lx_pos s)") auto

declare interp_loop.simps [simp del]

lemma fwd_interp_loop: "interp_loop s d src = (r, t) \<Longrightarrow> fwd s t"
proof (induction s d src rule: interp_loop.induct)
  case (1 s d src)
  show ?case
  proof (cases "lx_pos s < lx_len s \<and> d > 0")
    case True
    let ?d1 = "if peek s = cc (CHR ''{'') then d + 1 else d"
    show ?thesis
    proof (cases "peek s = cc (CHR ''}'') \<and> ?d1 - 1 = 0")
      case True
      then show ?thesis using 1(2) \<open>lx_pos s < lx_len s \<and> d > 0\<close>
        by (auto simp: interp_loop.simps [of s d src] Let_def)
    next
      case False
      then have "fwd (bump s) t" using True 1
        by (simp add: interp_loop.simps [of s d src] Let_def split: if_splits)
      then show ?thesis by (rule fwd_trans [OF fwd_bump(1)])
    qed
  next
    case False
    then show ?thesis using 1(2) by (auto simp: interp_loop.simps [of s d src])
  qed
qed

text \<open>
  The body of \<^verbatim>\<open>read_string\<close>'s loop: \<open>cur\<close> is \<^verbatim>\<open>current_str\<close>, \<open>parts\<close> and \<open>interp\<close> are
  \<^verbatim>\<open>parts\<close> and \<^verbatim>\<open>has_interp\<close>.
\<close>

function string_loop ::
  "lexer \<Rightarrow> rstring \<Rightarrow> interp_part list \<Rightarrow> bool
     \<Rightarrow> (lex_error + (rstring \<times> interp_part list \<times> bool)) \<times> lexer" where
  "string_loop s cur parts interp =
     (if lx_pos s < lx_len s \<and> peek s \<noteq> DQUOTE then
        let ch = peek s in
        if ch = NL then err (lit ''unterminated string literal'') s
        else if ch = cc (CHR ''$'') \<and> char_at s (lx_pos s + 1) = Some (cc (CHR ''{'')) then
          (case interp_loop (bump (bump s)) 1 [] of (expr_src, s1) \<Rightarrow>
             string_loop s1 [] (parts @ [IP_Str cur, IP_Expr expr_src]) True)
        else if ch = BSLASH then
          let s1 = bump s in
          if lx_pos s1 \<ge> lx_len s1 then err (lit ''unterminated escape sequence'') s1
          else (case read_escape s1 of
                  (Inl e, s2) \<Rightarrow> (Inl e, s2)
                | (Inr c, s2) \<Rightarrow> string_loop s2 (cur @ [c]) parts interp)
        else string_loop (bump s) (cur @ [ch]) parts interp
      else (Inr (cur, parts, interp), s))"
  by pat_completeness auto
termination
proof (relation "measure (\<lambda>(s, _, _, _). lx_len s - lx_pos s)", goal_cases)
  case (2 s cur parts interp ch expr_src s1)
  then have "fwd (bump (bump s)) s1" by (metis fwd_interp_loop)
  then show ?case using 2 by (auto simp: fwd_def)
next
  case (3 s cur parts interp ch s1 r s2 c)
  then have "fwd1 (bump s) s2" by (metis fwd1_read_escape)
  then show ?case using 3 by (auto simp: fwd_def fwd1_def)
qed auto

declare string_loop.simps [simp del]

definition read_string :: "lexer \<Rightarrow> (lex_error + token) \<times> lexer" where
  "read_string s =
     (case string_loop (bump s) [] [] False of
        (Inl e, s1) \<Rightarrow> (Inl e, s1)
      | (Inr (cur, parts, interp), s1) \<Rightarrow>
          if lx_pos s1 \<ge> lx_len s1 then err (lit ''unterminated string literal'') s1
          else let s2 = bump s1 in
               if interp then ok_tok (T_InterpString (parts @ [IP_Str cur])) s2
               else ok_tok (T_String cur) s2)"

text \<open>
  \<open>count_hashes hashes cs p\<close> is the number \<^verbatim>\<open>h\<close> of \<^verbatim>\<open>#\<close> at \<^verbatim>\<open>check_pos = p\<close> that the inner
  loop of \<^verbatim>\<open>read_raw_string\<close> counts, at most \<^verbatim>\<open>hashes\<close>.
\<close>

primrec count_hashes :: "nat \<Rightarrow> rchar list \<Rightarrow> nat \<Rightarrow> nat" where
  "count_hashes 0 cs p = 0"
| "count_hashes (Suc n) cs p =
     (if p < length cs \<and> cs ! p = cc (CHR ''#'') then Suc (count_hashes n cs (p + 1)) else 0)"

function raw_string_loop :: "lexer \<Rightarrow> nat \<Rightarrow> nat \<Rightarrow> (lex_error + token) \<times> lexer" where
  "raw_string_loop s start hashes =
     (if lx_pos s \<ge> lx_len s then err (lit ''unterminated raw string literal'') s
      else let ch = peek s in
        if ch = DQUOTE \<and> count_hashes hashes (lx_chars s) (lx_pos s + 1) = hashes then
          ok_tok (T_RawString (slice (lx_chars s) start (lx_pos s)))
            (s\<lparr>lx_pos := lx_pos s + 1 + hashes,
               lx_column := lx_column s + of_nat (hashes + 1)\<rparr>)
        else raw_string_loop
               (bump (if ch = NL then s\<lparr>lx_line := lx_line s + 1, lx_column := 0\<rparr> else s))
               start hashes)"
  by pat_completeness auto
termination
  by (relation "measure (\<lambda>(s, _, _). lx_len s - lx_pos s)") auto

declare raw_string_loop.simps [simp del]

definition read_raw_string :: "lexer \<Rightarrow> (lex_error + token) \<times> lexer" where
  "read_raw_string s =
     (let s1 = (if peek s = cc (CHR ''r'') then bump s else s);
          s2 = bump_while (\<lambda>c. c = cc (CHR ''#'')) s1;
          hashes = lx_pos s2 - lx_pos s1
      in if peek s2 \<noteq> DQUOTE
         then err (lit ''expected opening '' @ [DQUOTE] @ lit '' for raw string'') s2
         else let s3 = bump s2 in raw_string_loop s3 (lx_pos s3) hashes)"

section \<open>Character and byte literals\<close>

definition read_char :: "lexer \<Rightarrow> (lex_error + token) \<times> lexer" where
  "read_char s =
     (let s1 = bump s;
          finish = (\<lambda>ch s2. if peek s2 \<noteq> SQUOTE then err (lit ''unterminated char literal'') s2
                            else ok_tok (T_Char ch) (bump s2))
      in if peek s1 = BSLASH then
           (case read_escape (bump s1) of
              (Inl e, s2) \<Rightarrow> (Inl e, s2)
            | (Inr ch, s2) \<Rightarrow> finish ch s2)
         else if peek s1 = SQUOTE then err (lit ''empty character literal'') s1
         else finish (peek s1) (bump s1))"

definition read_byte_literal :: "lexer \<Rightarrow> (lex_error + token) \<times> lexer" where
  "read_byte_literal s =
     (let s1 = bump s;
          finish = (\<lambda>b s2. if peek s2 \<noteq> SQUOTE then err (lit ''unterminated byte literal'') s2
                           else ok_tok (T_Byte b) (bump s2))
      in if peek s1 = BSLASH then
           (case read_escape (bump s1) of
              (Inl e, s2) \<Rightarrow> (Inl e, s2)
            | (Inr ch, s2) \<Rightarrow> finish (of_nat ch) s2)
         else if peek s1 = SQUOTE then err (lit ''empty byte literal'') s1
         else if peek s1 > 127 then err (lit ''byte literal must be in range 0-127'') s1
         else finish (of_nat (peek s1)) (bump s1))"

section \<open>Numbers\<close>

definition is_number_char :: "rchar \<Rightarrow> bool" where
  "is_number_char c \<longleftrightarrow> is_ascii_digit c \<or> c = UNDERSCORE"

text \<open>\<^verbatim>\<open>chars[a..b].iter().filter(|c| **c != '_').collect()\<close>\<close>

definition digits_text :: "lexer \<Rightarrow> nat \<Rightarrow> nat \<Rightarrow> rstring" where
  "digits_text s a b = filter (\<lambda>c. c \<noteq> UNDERSCORE) (slice (lx_chars s) a b)"

text \<open>The suffix at the cursor and the number of characters it has.\<close>

definition int_suffix_at :: "lexer \<Rightarrow> (int_suffix \<times> nat) option" where
  "int_suffix_at s =
     (let c0 = peek s; c1 = peek_next s;
          c2 = char_at s (lx_pos s + 2); c3 = char_at s (lx_pos s + 3);
          u = (c0 = cc (CHR ''u'')); i = (c0 = cc (CHR ''i''));
          siz = (c1 = cc (CHR ''s'') \<and> c2 = Some (cc (CHR ''i'')) \<and> c3 = Some (cc (CHR ''z'')))
      in if u \<and> c1 = cc (CHR ''8'') then Some (Unsigned8, 2)
         else if u \<and> c1 = cc (CHR ''1'') \<and> c2 = Some (cc (CHR ''6'')) then Some (Unsigned16, 3)
         else if u \<and> c1 = cc (CHR ''3'') \<and> c2 = Some (cc (CHR ''2'')) then Some (Unsigned32, 3)
         else if u \<and> c1 = cc (CHR ''6'') \<and> c2 = Some (cc (CHR ''4'')) then Some (Unsigned64, 3)
         else if i \<and> c1 = cc (CHR ''8'') then Some (Signed8, 2)
         else if i \<and> c1 = cc (CHR ''1'') \<and> c2 = Some (cc (CHR ''6'')) then Some (Signed16, 3)
         else if i \<and> c1 = cc (CHR ''3'') \<and> c2 = Some (cc (CHR ''2'')) then Some (Signed32, 3)
         else if i \<and> c1 = cc (CHR ''6'') \<and> c2 = Some (cc (CHR ''4'')) then Some (Signed64, 3)
         else if u \<and> siz then Some (Usize, 4)
         else if i \<and> siz then Some (Size, 4)
         else None)"

text \<open>
  A recognised suffix is un-read: the position goes back, the column does not, and the
  answer is \<^verbatim>\<open>None\<close> either way.
\<close>

definition read_int_suffix :: "lexer \<Rightarrow> int_suffix option \<times> lexer" where
  "read_int_suffix s =
     (let start = lx_pos s;
          s1 = (if peek s = UNDERSCORE then bump s else s)
      in case int_suffix_at s1 of
           Some (_, n) \<Rightarrow> (None, ((bump ^^ n) s1)\<lparr>lx_pos := start\<rparr>)
         | None \<Rightarrow> (None, s1))"

definition read_float_suffix :: "lexer \<Rightarrow> float_type \<times> lexer" where
  "read_float_suffix s =
     (let s1 = (if peek s = UNDERSCORE then bump s else s);
          c0 = peek s1; c1 = peek_next s1; c2 = char_at s1 (lx_pos s1 + 2)
      in if c0 = cc (CHR ''f'') \<and> c1 = cc (CHR ''3'') \<and> c2 = Some (cc (CHR ''2''))
         then (Float32, bump (bump (bump s1)))
         else if c0 = cc (CHR ''f'') \<and> c1 = cc (CHR ''6'') \<and> c2 = Some (cc (CHR ''4''))
         then (Float64, bump (bump (bump s1)))
         else (Float64, s1))"

definition radix_int :: "(rchar \<Rightarrow> bool) \<Rightarrow> nat \<Rightarrow> rstring \<Rightarrow> nat \<Rightarrow> lexer \<Rightarrow> (lex_error + token) \<times> lexer"
  where
  "radix_int is_digit radix msg start s =
     (let s1 = bump_while (\<lambda>c. is_digit c \<or> c = UNDERSCORE) (bump (bump s));
          text = digits_text s1 start (lx_pos s1)
      in case i64_from_str_radix radix (drop 2 text) of
           None \<Rightarrow> err (msg @ text) s1
         | Some v \<Rightarrow> ok_tok (T_Integer v) s1)"

definition read_hex_int :: "nat \<Rightarrow> lexer \<Rightarrow> (lex_error + token) \<times> lexer" where
  "read_hex_int =
     radix_int is_ascii_hexdigit 16 (lit ''invalid or out-of-range hex integer literal: '')"

definition read_octal_int :: "nat \<Rightarrow> lexer \<Rightarrow> (lex_error + token) \<times> lexer" where
  "read_octal_int =
     radix_int (\<lambda>c. is_ascii_digit c \<and> c \<noteq> cc (CHR ''8'') \<and> c \<noteq> cc (CHR ''9'')) 8
       (lit ''invalid or out-of-range octal integer literal: '')"

definition read_binary_int :: "nat \<Rightarrow> lexer \<Rightarrow> (lex_error + token) \<times> lexer" where
  "read_binary_int =
     radix_int (\<lambda>c. c = cc (CHR ''0'') \<or> c = cc (CHR ''1'')) 2
       (lit ''invalid or out-of-range binary integer literal: '')"

text \<open>The float branch of \<^verbatim>\<open>read_number\<close>, entered at the point.\<close>

definition read_float_rest :: "nat \<Rightarrow> lexer \<Rightarrow> (lex_error + token) \<times> lexer" where
  "read_float_rest start s =
     (let s2 = bump_while is_number_char (bump s);
          s3 = (if peek s2 = cc (CHR ''e'') \<or> peek s2 = cc (CHR ''E'')
                then let a = bump s2;
                         b = (if peek a = cc (CHR ''+'') \<or> peek a = cc (CHR ''-'') then bump a else a)
                     in bump_while is_number_char b
                else s2);
          s4 = snd (read_float_suffix s3);
          text = digits_text s4 start (lx_pos s3)
      in case parse_f64 text of
           None \<Rightarrow> err (lit ''invalid float literal: '' @ text) s4
         | Some v \<Rightarrow>
             if \<not> f64_is_finite v
             then err (lit ''float literal out of range for Float64: '' @ text) s4
             else ok_tok (T_Float v) s4)"

text \<open>The decimal branch of \<^verbatim>\<open>read_number\<close>, float or integer.\<close>

definition read_decimal :: "lexer \<Rightarrow> (lex_error + token) \<times> lexer" where
  "read_decimal s =
     (let start = lx_pos s;
          s1 = bump_while is_number_char s;
          preceded_by_dot = (start > 0 \<and> lx_chars s ! (start - 1) = cc (CHR ''.''))
      in if \<not> preceded_by_dot \<and> peek s1 = cc (CHR ''.'')
            \<and> (is_ascii_digit (peek_next s1) \<or> peek_next s1 = UNDERSCORE)
         then read_float_rest start s1
         else case read_int_suffix s1 of (suffix, s2) \<Rightarrow>
           let text = digits_text s2 start (lx_pos s1) in
           (case i64_from_str_radix 10 text of
              None \<Rightarrow> err (lit ''integer literal out of range for Int64: '' @ text) s2
            | Some v \<Rightarrow>
                (case suffix of Some sf \<Rightarrow> ok_tok (T_IntegerSuffix sf) s2
                 | None \<Rightarrow> ok_tok (T_Integer v) s2)))"

definition read_number :: "lexer \<Rightarrow> (lex_error + token) \<times> lexer" where
  "read_number s =
     (let start = lx_pos s; n = peek_next s in
      if peek s = cc (CHR ''0'') then
        if n = cc (CHR ''x'') \<or> n = cc (CHR ''X'') then read_hex_int start s
        else if n = cc (CHR ''o'') \<or> n = cc (CHR ''O'') then read_octal_int start s
        else if n = cc (CHR ''b'') \<or> n = cc (CHR ''B'') then read_binary_int start s
        else if is_ascii_digit n \<or> n = cc (CHR ''.'') \<or> n = UNDERSCORE then read_decimal s
        else ok_tok (T_Integer 0) (bump s)
      else read_decimal s)"

section \<open>Identifiers and keywords\<close>

definition is_ident_char :: "rchar \<Rightarrow> bool" where
  "is_ident_char c \<longleftrightarrow> is_ascii_lower c \<or> is_ascii_upper c \<or> c = UNDERSCORE \<or> is_ascii_digit c"

definition ident_kind :: "rstring \<Rightarrow> token_kind" where
  "ident_kind text =
     (if text = [UNDERSCORE] then T_Underscore
      else if text = lit ''true'' then T_Bool True
      else if text = lit ''false'' then T_Bool False
      else case keyword_lookup text of Some k \<Rightarrow> T_Keyword k | None \<Rightarrow> T_Ident text)"

definition read_ident_or_keyword :: "lexer \<Rightarrow> token \<times> lexer" where
  "read_ident_or_keyword s =
     (let s1 = bump_while is_ident_char s
      in tok (ident_kind (slice (lx_chars s1) (lx_pos s) (lx_pos s1))) s1)"

section \<open>Operators\<close>

definition read_plus :: "lexer \<Rightarrow> token \<times> lexer" where
  "read_plus s =
     (let s1 = bump s in
      if peek s1 = cc (CHR ''+'') then tok T_PlusPlus (bump s1)
      else if peek s1 = cc (CHR ''='') then tok T_PlusEquals (bump s1)
      else tok T_Plus s1)"

definition read_minus :: "lexer \<Rightarrow> token \<times> lexer" where
  "read_minus s =
     (let s1 = bump s in
      if peek s1 = cc (CHR ''-'') then tok T_MinusMinus (bump s1)
      else if peek s1 = cc (CHR ''='') then tok T_MinusEquals (bump s1)
      else if peek s1 = cc (CHR ''>'') then tok T_ThinArrow (bump s1)
      else tok T_Minus s1)"

definition read_star :: "lexer \<Rightarrow> token \<times> lexer" where
  "read_star s =
     (let s1 = bump s in
      if peek s1 = cc (CHR ''='') then tok T_StarEquals (bump s1) else tok T_Star s1)"

definition read_percent :: "lexer \<Rightarrow> token \<times> lexer" where
  "read_percent s =
     (let s1 = bump s in
      if peek s1 = cc (CHR ''='') then tok T_PercentEquals (bump s1) else tok T_Percent s1)"

definition read_equals :: "lexer \<Rightarrow> token \<times> lexer" where
  "read_equals s =
     (let s1 = bump s in
      if peek s1 = cc (CHR ''='') then tok T_EqualsEquals (bump s1)
      else if peek s1 = cc (CHR ''>'') then tok T_FatArrow (bump s1)
      else tok T_Equals s1)"

definition read_bang :: "lexer \<Rightarrow> token \<times> lexer" where
  "read_bang s =
     (let s1 = bump s in
      if peek s1 = cc (CHR ''='') then tok T_BangEquals (bump s1)
      else if peek s1 = cc (CHR ''?'') then tok T_QuestionQuestion (bump s1)
      else tok T_Bang s1)"

definition read_less :: "lexer \<Rightarrow> token \<times> lexer" where
  "read_less s =
     (let s1 = bump s in
      if peek s1 = cc (CHR ''='') then tok T_LessEquals (bump s1)
      else if peek s1 = cc (CHR ''<'') then
        (let s2 = bump s1 in
         if peek s2 = cc (CHR ''='') then tok T_LessLessEquals (bump s2) else tok T_LessLess s2)
      else tok T_Less s1)"

definition read_greater :: "lexer \<Rightarrow> token \<times> lexer" where
  "read_greater s =
     (let s1 = bump s in
      if peek s1 = cc (CHR ''='') then tok T_GreaterEquals (bump s1)
      else if peek s1 = cc (CHR ''>'') then
        (let s2 = bump s1 in
         if peek s2 = cc (CHR ''>'') then
           (let s3 = bump s2 in
            if peek s3 = cc (CHR ''='') then tok T_GreaterGreaterGreaterEquals (bump s3)
            else tok T_GreaterGreaterGreater s3)
         else if peek s2 = cc (CHR ''='') then tok T_GreaterGreaterEquals (bump s2)
         else tok T_GreaterGreater s2)
      else tok T_Greater s1)"

definition read_ampersand :: "lexer \<Rightarrow> token \<times> lexer" where
  "read_ampersand s =
     (let s1 = bump s in
      if peek s1 = cc (CHR ''&'') then tok T_AmpAmp (bump s1)
      else if peek s1 = cc (CHR ''='') then tok T_AmpersandEquals (bump s1)
      else tok T_Ampersand s1)"

definition read_bar :: "lexer \<Rightarrow> token \<times> lexer" where
  "read_bar s =
     (let s1 = bump s in
      if peek s1 = cc (CHR ''|'') then tok T_BarBar (bump s1)
      else if peek s1 = cc (CHR ''='') then tok T_BarEquals (bump s1)
      else tok T_Bar s1)"

definition read_caret :: "lexer \<Rightarrow> token \<times> lexer" where
  "read_caret s =
     (let s1 = bump s in
      if peek s1 = cc (CHR ''='') then tok T_CaretEquals (bump s1) else tok T_Caret s1)"

definition read_dot :: "lexer \<Rightarrow> token \<times> lexer" where
  "read_dot s =
     (let s1 = bump s in
      if peek s1 = cc (CHR ''.'') then
        (let s2 = bump s1 in
         if peek s2 = cc (CHR ''.'') then tok T_DotDotDot (bump s2) else tok T_DotDot s2)
      else tok T_Dot s1)"

definition read_colon :: "lexer \<Rightarrow> token \<times> lexer" where
  "read_colon s =
     (let s1 = bump s in
      if peek s1 = cc (CHR '':'') then tok T_ColonColon (bump s1)
      else if peek s1 = cc (CHR ''='') then tok T_FatArrow (bump s1)
      else tok T_Colon s1)"

definition read_question :: "lexer \<Rightarrow> token \<times> lexer" where
  "read_question s =
     (let s1 = bump s in
      if peek s1 = cc (CHR ''?'') then tok T_QuestionQuestion (bump s1)
      else if peek s1 = cc (CHR '':'') then tok T_QuestionColon (bump s1)
      else tok T_Question s1)"

lemmas operator_defs = read_operator_def read_plus_def read_minus_def read_star_def
  read_percent_def read_equals_def read_bang_def read_less_def read_greater_def
  read_ampersand_def read_bar_def read_caret_def read_dot_def read_colon_def read_question_def

section \<open>One token, all tokens\<close>

text \<open>The characters that are a token of their own.\<close>

definition single_char_kind :: "rchar \<Rightarrow> token_kind option" where
  "single_char_kind ch =
     (if ch = cc (CHR ''~'') then Some T_Tilde
      else if ch = BSLASH then Some T_Backslash
      else if ch = cc (CHR '';'') then Some T_Semicolon
      else if ch = cc (CHR '','') then Some T_Comma
      else if ch = cc (CHR ''@'') then Some T_At
      else if ch = cc (CHR ''('') then Some T_LParen
      else if ch = cc (CHR '')'') then Some T_RParen
      else if ch = cc (CHR ''{'') then Some T_LBrace
      else if ch = cc (CHR ''}'') then Some T_RBrace
      else if ch = cc (CHR ''['') then Some T_LBracket
      else if ch = cc (CHR '']'') then Some T_RBracket
      else None)"

definition oks :: "token \<times> lexer \<Rightarrow> (lex_error + token) \<times> lexer" where
  "oks r = (Inr (fst r), snd r)"

definition read_token :: "lexer \<Rightarrow> (lex_error + token) \<times> lexer" where
  "read_token s =
     (let ch = peek s in
      if ch = NL then
        oks (tok T_Newline ((bump s)\<lparr>lx_line := lx_line (bump s) + 1, lx_column := 1\<rparr>))
      else if ch = cc (CHR '' '') \<or> ch = TAB \<or> ch = CR then oks (tok T_Whitespace (bump s))
      else if ch = cc (CHR ''/'') then
        (if peek_next s = cc (CHR ''/'') then oks (read_line_comment s)
         else if peek_next s = cc (CHR ''*'') then oks (read_block_comment s)
         else oks (read_operator s))
      else if ch = DQUOTE then read_string s
      else if ch = cc (CHR ''r'') then
        (if peek_next s = DQUOTE
            \<or> (peek_next s = cc (CHR ''#'') \<and> char_at s (lx_pos s + 2) = Some DQUOTE)
         then read_raw_string s else oks (read_ident_or_keyword s))
      else if ch = SQUOTE then read_char s
      else if is_ascii_digit ch then read_number s
      else if is_ascii_lower ch \<or> is_ascii_upper ch \<or> ch = UNDERSCORE then
        (if ch = cc (CHR ''b'') \<and> peek_next s = SQUOTE then read_byte_literal (bump s)
         else oks (read_ident_or_keyword s))
      else if ch = cc (CHR ''+'') then oks (read_plus s)
      else if ch = cc (CHR ''-'') then oks (read_minus s)
      else if ch = cc (CHR ''*'') then oks (read_star s)
      else if ch = cc (CHR ''%'') then oks (read_percent s)
      else if ch = cc (CHR ''='') then oks (read_equals s)
      else if ch = cc (CHR ''!'') then oks (read_bang s)
      else if ch = cc (CHR ''<'') then oks (read_less s)
      else if ch = cc (CHR ''>'') then oks (read_greater s)
      else if ch = cc (CHR ''&'') then oks (read_ampersand s)
      else if ch = cc (CHR ''|'') then oks (read_bar s)
      else if ch = cc (CHR ''^'') then oks (read_caret s)
      else if ch = cc (CHR ''.'') then oks (read_dot s)
      else if ch = cc (CHR '':'') then oks (read_colon s)
      else if ch = cc (CHR ''?'') then oks (read_question s)
      else case single_char_kind ch of
             Some k \<Rightarrow> oks (tok k (bump s))
           | None \<Rightarrow> (Inl (error_new (mk_span s) (lit ''unexpected character: '' @ [ch])), bump s))"

definition begin_token :: "lexer \<Rightarrow> lexer" where
  "begin_token s = s\<lparr>lx_start := lx_pos s, lx_start_column := lx_column s\<rparr>"

definition next_token :: "lexer \<Rightarrow> (lex_error + token) \<times> lexer" where
  "next_token s =
     (let s0 = begin_token s in
      if lx_pos s0 \<ge> lx_len s0
      then (Inr (token_new T_Eof (span_new (mk_pos s0) (mk_pos s0))), s0)
      else read_token s0)"

end
