(* ===== verification/Tinox_Lexer_Contract.thy ===== *)
theory Tinox_Lexer_Contract
  imports Tinox_Lexer
begin

text \<open>
  The contract every token reader of the lexer keeps, and that \<^verbatim>\<open>next_token\<close> and
  \<^verbatim>\<open>tokenize\<close> rely on: it moves the cursor forward over the same input, and a token it
  returns is spanned from the token's start to the cursor, inside the input, and is not
  the end marker. The contract is the locale \<open>token_reader\<close>, interpreted for each reader
  of \<open>Tinox_Lexer\<close> and for the dispatch \<open>read_token\<close>.
\<close>

definition reads :: "lexer \<Rightarrow> (lex_error + token) \<times> lexer \<Rightarrow> bool" where
  "reads s out \<longleftrightarrow> fwd1 s (snd out) \<and>
     (case fst out of
        Inl _ \<Rightarrow> True
      | Inr k \<Rightarrow> tok_span k = mk_span (snd out) \<and> lx_pos (snd out) \<le> lx_len s \<and> tok_kind k \<noteq> T_Eof)"

lemma reads_Inl [simp]: "reads s (Inl e, t) \<longleftrightarrow> fwd1 s t"
  by (simp add: reads_def)

lemma reads_err [simp]: "reads s (err m t) \<longleftrightarrow> fwd1 s t"
  by (simp add: reads_def err_def)

lemma reads_ok_tok [simp]:
  "reads s (ok_tok k t) \<longleftrightarrow> fwd1 s t \<and> lx_pos t \<le> lx_len s \<and> k \<noteq> T_Eof"
  by (auto simp: reads_def ok_tok_def token_new_def)

lemma reads_oks_tok [simp]:
  "reads s (oks (tok k t)) \<longleftrightarrow> fwd1 s t \<and> lx_pos t \<le> lx_len s \<and> k \<noteq> T_Eof"
  by (auto simp: reads_def oks_def tok_def token_new_def)

lemma reads_start: "fwd1 s u \<or> fwd s u \<Longrightarrow> reads u out \<Longrightarrow> reads s out"
  by (auto simp: reads_def fwd_def fwd1_def split: sum.splits)

locale token_reader =
  fixes pre :: "lexer \<Rightarrow> bool" and rd :: "lexer \<Rightarrow> (lex_error + token) \<times> lexer"
  assumes contract: "pre s \<Longrightarrow> reads s (rd s)"
begin

lemma moves: "pre s \<Longrightarrow> rd s = (r, t) \<Longrightarrow> fwd1 s t"
  using contract [of s] by (simp add: reads_def)

lemma keeps_input: "pre s \<Longrightarrow> rd s = (r, t) \<Longrightarrow> lx_chars t = lx_chars s \<and> lx_start t = lx_start s"
  using moves [of s r t] by (simp add: fwd1_def fwd_def)

lemma token_at_cursor:
  "pre s \<Longrightarrow> rd s = (Inr k, t) \<Longrightarrow> tok_span k = mk_span t \<and> lx_pos t \<le> lx_len s \<and> tok_kind k \<noteq> T_Eof"
  using contract [of s] by (simp add: reads_def)

lemma token_offsets:
  assumes "pre s" and "rd s = (Inr k, t)"
  shows "offset (span_start (tok_span k)) = of_nat (lx_start s)"
    and "offset (span_end (tok_span k)) = of_nat (lx_pos t)"
  using token_at_cursor [OF assms] keeps_input [OF assms]
  by (simp_all add: mk_span_def span_new_def)

end

section \<open>Where the cursor can be\<close>

lemma peek_in_input: "peek s \<noteq> 0 \<Longrightarrow> lx_pos s < lx_len s"
  by (auto simp: peek_def char_at_def split: if_splits)

lemma peek_next_in_input: "peek_next s \<noteq> 0 \<Longrightarrow> Suc (lx_pos s) < lx_len s"
  by (auto simp: peek_next_def char_at_def split: if_splits)

lemma peek_eq_in_input: "peek s = c \<Longrightarrow> c \<noteq> 0 \<Longrightarrow> Suc (lx_pos s) \<le> lx_len s"
  using peek_in_input [of s] by simp

lemma char_at_in_input: "char_at s i = Some c \<Longrightarrow> i < lx_len s"
  by (simp add: char_at_def split: if_splits)

lemma fwd1_Suc: "fwd1 s (bump t) \<longleftrightarrow> fwd s t"
  by (auto simp: fwd1_def fwd_def)

lemma fwd_bumpI [simp]: "fwd s t \<Longrightarrow> fwd s (bump t)"
  by (auto simp: fwd_def)

lemma fwd1_bump_while: "fwd1 s t \<Longrightarrow> fwd1 s (bump_while P t)"
  by (rule fwd1_fwd_trans [OF _ fwd_bump_while])

lemma fwd_len: "fwd s t \<Longrightarrow> lx_len t = lx_len s"
  by (simp add: fwd_def)

lemmas cursor_simps = Let_def fwd1_Suc peek_eq_in_input

section \<open>The readers keep the contract\<close>

lemma reads_operators:
  assumes "lx_pos s < lx_len s"
  shows "reads s (oks (read_operator s))"
    "reads s (oks (read_plus s))" "reads s (oks (read_minus s))" "reads s (oks (read_star s))"
    "reads s (oks (read_percent s))" "reads s (oks (read_equals s))" "reads s (oks (read_bang s))"
    "reads s (oks (read_less s))" "reads s (oks (read_greater s))"
    "reads s (oks (read_ampersand s))" "reads s (oks (read_bar s))" "reads s (oks (read_caret s))"
    "reads s (oks (read_dot s))" "reads s (oks (read_colon s))" "reads s (oks (read_question s))"
  using assms
  by (auto simp: operator_defs Let_def fwd1_Suc dest!: peek_eq_in_input)

lemma reads_line_comment:
  assumes "peek_next s \<noteq> 0"
  shows "reads s (oks (read_line_comment s))"
  using peek_next_in_input [OF assms] bump_while_bound [of "bump (bump s)"]
  by (auto simp: read_line_comment_def Let_def fwd1_Suc intro!: fwd1_bump_while)

lemma block_comment_loop_bound:
  "block_comment_loop s = (f, t) \<Longrightarrow> lx_pos s \<le> lx_len s
     \<Longrightarrow> fwd s t \<and> lx_pos t \<le> lx_len s
         \<and> (\<forall>e. f = Some e \<longrightarrow> lx_pos s \<le> e \<and> e + 2 = lx_pos t)"
proof (induction s rule: block_comment_loop.induct)
  case (1 s)
  let ?u = "bump (if peek s = NL then s\<lparr>lx_line := lx_line s + 1, lx_column := 0\<rparr> else s)"
  have u: "fwd s ?u" "lx_pos ?u = Suc (lx_pos s)" by (simp_all add: fwd_def)
  consider (close) "lx_pos s < lx_len s" "peek s = cc (CHR ''*'') \<and> peek_next s = cc (CHR ''/'')"
    | (more) "lx_pos s < lx_len s" "\<not> (peek s = cc (CHR ''*'') \<and> peek_next s = cc (CHR ''/''))"
    | (eof) "lx_len s \<le> lx_pos s" by linarith
  then show ?case
  proof cases
    case close
    then have "Suc (lx_pos s) < lx_len s" by (intro peek_next_in_input) simp
    then show ?thesis using 1(2) close by (auto simp: block_comment_loop.simps [of s] fwd_def)
  next
    case more
    then have "block_comment_loop s = block_comment_loop ?u"
      by (simp only: block_comment_loop.simps [of s] if_True if_False)
    with 1(2) have eq: "block_comment_loop ?u = (f, t)" by simp
    have "fwd ?u t \<and> lx_pos t \<le> lx_len ?u
        \<and> (\<forall>e. f = Some e \<longrightarrow> lx_pos ?u \<le> e \<and> e + 2 = lx_pos t)"
      by (rule 1(1) [OF more eq]) (use more u in \<open>simp add: fwd_len\<close>)
    then show ?thesis using u fwd_trans [OF u(1), of t] fwd_len [OF u(1)] by auto
  next
    case eof
    then show ?thesis using 1(2,3) by (auto simp: block_comment_loop.simps [of s])
  qed
qed

lemma reads_block_comment:
  assumes "peek_next s \<noteq> 0"
  shows "reads s (oks (read_block_comment s))"
proof -
  define s1 where "s1 = bump (bump s)"
  define s2 where "s2 = (if peek s1 = cc (CHR ''*'') then bump s1 else s1)"
  obtain f t where loop: "block_comment_loop s2 = (f, t)" by fastforce
  have s2: "fwd1 s s2" by (simp add: s1_def s2_def fwd1_def fwd_def)
  have "lx_pos s2 \<le> lx_len s2"
    using peek_next_in_input [OF assms] peek_eq_in_input [of s1 "cc (CHR ''*'')"]
    by (simp add: s1_def s2_def)
  with loop have "fwd s2 t \<and> lx_pos t \<le> lx_len s2"
    using block_comment_loop_bound by blast
  then have "fwd1 s t" and "lx_pos t \<le> lx_len s"
    using s2 fwd1_fwd_trans [OF s2, of t] fwd_len [OF fwd1_imp_fwd [OF s2]] by simp_all
  then show ?thesis
    unfolding read_block_comment_def Let_def s1_def [symmetric] s2_def [symmetric] loop
    by simp
qed

lemma string_loop_fwd: "string_loop s cur parts interp = (r, t) \<Longrightarrow> fwd s t"
proof (induction s cur parts interp rule: string_loop.induct)
  case (1 s cur parts interp)
  show ?case
  proof (cases "lx_pos s < lx_len s \<and> peek s \<noteq> DQUOTE")
    case False
    then show ?thesis using 1(4) by (auto simp: string_loop.simps [of s])
  next
    case c: True
    let ?interp = "peek s = cc (CHR ''$'') \<and> char_at s (lx_pos s + 1) = Some (cc (CHR ''{''))"
    show ?thesis
    proof (cases "peek s = NL \<or> (\<not> ?interp \<and> peek s = BSLASH \<and> lx_len s \<le> Suc (lx_pos s))")
      case True
      then show ?thesis using 1(4) c by (auto simp: string_loop.simps [of s] Let_def err_def)
    next
      case ne: False
      consider (i) ?interp | (e) "\<not> ?interp" "peek s = BSLASH" | (o) "\<not> ?interp" "peek s \<noteq> BSLASH"
        by blast
      then show ?thesis
      proof cases
        case i
        obtain src u where il: "interp_loop (bump (bump s)) 1 [] = (src, u)" by fastforce
        then have "fwd u t" using i ne c 1(1) [OF c refl] 1(4)
          by (auto simp: string_loop.simps [of s] Let_def)
        moreover have "fwd s u" using fwd_interp_loop [OF il] by (auto simp: fwd_def)
        ultimately show ?thesis by (rule fwd_trans [rotated])
      next
        case e
        obtain x u where re: "read_escape (bump s) = (x, u)" by fastforce
        then have u: "fwd s u" using fwd1_read_escape [OF re] by (auto simp: fwd_def fwd1_def)
        show ?thesis
        proof (cases x)
          case (Inl a)
          then show ?thesis using re e ne c 1(4) u by (auto simp: string_loop.simps [of s] Let_def)
        next
          case (Inr ch)
          then have "fwd u t" using re e ne c 1(2) [OF c refl _ e refl] 1(4)
            by (auto simp: string_loop.simps [of s] Let_def)
          then show ?thesis by (rule fwd_trans [OF u])
        qed
      next
        case o
        then have "fwd (bump s) t" using ne c 1(3) [OF c refl _ o] 1(4)
          by (auto simp: string_loop.simps [of s] Let_def)
        then show ?thesis by (rule fwd_trans [OF fwd_bump(1)])
      qed
    qed
  qed
qed

interpretation rd_string: token_reader "\<lambda>s. lx_pos s < lx_len s" read_string
proof
  fix s assume "lx_pos s < lx_len s"
  obtain r t where loop: "string_loop (bump s) [] [] False = (r, t)" by fastforce
  have "fwd1 s t" by (rule fwd1_fwd_trans [OF fwd_bump(2) string_loop_fwd [OF loop]])
  then show "reads s (read_string s)"
    using loop fwd_len [of s t]
    by (auto simp: read_string_def Let_def fwd1_Suc fwd1_imp_fwd split: sum.splits)
qed

lemma count_hashes_bound:
  "count_hashes n cs p = n \<Longrightarrow> p \<le> length cs \<Longrightarrow> p + n \<le> length cs"
proof (induction n arbitrary: p)
  case (Suc n)
  then show ?case using Suc.IH [of "Suc p"] by (auto split: if_splits)
qed simp

lemma raw_string_loop_reads:
  "lx_pos s \<le> lx_len s \<Longrightarrow> fwd1 u s \<Longrightarrow> reads u (raw_string_loop s st h)"
proof (induction s st h rule: raw_string_loop.induct)
  case (1 s st h)
  let ?v = "bump (if peek s = NL then s\<lparr>lx_line := lx_line s + 1, lx_column := 0\<rparr> else s)"
  have len: "lx_len s = lx_len u" using 1(3) by (simp add: fwd1_def fwd_def)
  consider (eof) "lx_len s \<le> lx_pos s"
    | (close) "lx_pos s < lx_len s" "peek s = DQUOTE \<and> count_hashes h (lx_chars s) (lx_pos s + 1) = h"
    | (more) "lx_pos s < lx_len s" "\<not> (peek s = DQUOTE \<and> count_hashes h (lx_chars s) (lx_pos s + 1) = h)"
    by linarith
  then show ?case
  proof cases
    case eof
    then show ?thesis using 1(3) by (simp add: raw_string_loop.simps [of s])
  next
    case close
    then have "lx_pos s + 1 + h \<le> lx_len s"
      using count_hashes_bound [of h "lx_chars s" "lx_pos s + 1"] by simp
    then show ?thesis using close 1(3) len
      by (auto simp: raw_string_loop.simps [of s] fwd1_def fwd_def)
  next
    case more
    have "reads u (raw_string_loop ?v st h)"
      by (rule 1(1)) (use more 1(3) in \<open>auto simp: fwd1_def fwd_def\<close>)
    moreover have "raw_string_loop s st h = raw_string_loop ?v st h"
      using more by (auto simp: raw_string_loop.simps [of s] Let_def)
    ultimately show ?thesis by simp
  qed
qed

interpretation rd_raw_string: token_reader "\<lambda>s. peek s = cc (CHR ''r'')" read_raw_string
proof
  fix s assume r: "peek s = cc (CHR ''r'')"
  define s2 where "s2 = bump_while (\<lambda>c. c = cc (CHR ''#'')) (bump s)"
  have s2: "fwd1 s s2" by (simp add: s2_def fwd1_bump_while)
  have eq: "read_raw_string s =
      (if peek s2 \<noteq> DQUOTE
       then err (lit ''expected opening '' @ [DQUOTE] @ lit '' for raw string'') s2
       else raw_string_loop (bump s2) (lx_pos (bump s2)) (lx_pos s2 - lx_pos (bump s)))"
    unfolding read_raw_string_def Let_def r s2_def by (simp only: if_True simp_thms)
  have "reads s (raw_string_loop (bump s2) (lx_pos (bump s2)) (lx_pos s2 - lx_pos (bump s)))"
    if "peek s2 = DQUOTE"
    using peek_eq_in_input [OF that] s2
    by (intro raw_string_loop_reads) (simp_all add: fwd1_Suc fwd1_imp_fwd)
  then show "reads s (read_raw_string s)" using s2 by (simp add: eq)
qed

section \<open>Escapes and quoted characters\<close>

lemma fwd1_bumpI [simp]: "fwd1 s t \<Longrightarrow> fwd1 s (bump t)"
  by (simp add: fwd1_Suc fwd1_imp_fwd)

lemma quoted_in_input: "fwd1 s t \<Longrightarrow> peek t = SQUOTE \<Longrightarrow> Suc (lx_pos t) \<le> lx_len s"
  using peek_eq_in_input [of t SQUOTE] fwd_len [OF fwd1_imp_fwd, of s t] by simp

interpretation rd_char: token_reader "\<lambda>s. lx_pos s < lx_len s" read_char
proof
  fix s assume "lx_pos s < lx_len s"
  obtain r t where esc: "read_escape (bump (bump s)) = (r, t)" by fastforce
  have "fwd1 s t" using fwd1_read_escape [OF esc] by (auto simp: fwd1_def fwd_def)
  moreover have "fwd1 s (bump (bump s))" by (simp add: fwd1_Suc)
  ultimately show "reads s (read_char s)"
    using quoted_in_input [of s t] quoted_in_input [of s "bump (bump s)"]
    by (cases r) (auto simp: read_char_def Let_def esc)
qed

interpretation rd_byte: token_reader "\<lambda>s. lx_pos s < lx_len s" read_byte_literal
proof
  fix s assume "lx_pos s < lx_len s"
  obtain r t where esc: "read_escape (bump (bump s)) = (r, t)" by fastforce
  have "fwd1 s t" using fwd1_read_escape [OF esc] by (auto simp: fwd1_def fwd_def)
  moreover have "fwd1 s (bump (bump s))" by (simp add: fwd1_Suc)
  ultimately show "reads s (read_byte_literal s)"
    using quoted_in_input [of s t] quoted_in_input [of s "bump (bump s)"]
    by (cases r) (auto simp: read_byte_literal_def Let_def esc)
qed

section \<open>Numbers, identifiers\<close>

lemma radix_int_reads:
  assumes "peek_next s \<noteq> 0"
  shows "reads s (radix_int P r m st s)"
  using peek_next_in_input [OF assms] bump_while_bound [of "bump (bump s)"]
  by (auto simp: radix_int_def Let_def fwd1_Suc split: option.splits intro!: fwd1_bump_while)

lemma funpow_bump: "(bump ^^ n) s = skip n s"
  by (induction n) (simp_all add: bump_eq_skip)

lemma read_int_suffix_pos:
  assumes "peek s \<noteq> UNDERSCORE" and "read_int_suffix s = (f, t)"
  shows "f = None \<and> lx_pos t = lx_pos s \<and> fwd s t"
  using assms by (auto simp: read_int_suffix_def Let_def funpow_bump fwd_def split: option.splits)

lemma read_float_suffix_fwd:
  assumes "read_float_suffix s = (f, t)"
  shows "fwd s t \<and> (lx_pos s \<le> lx_len s \<longrightarrow> lx_pos t \<le> lx_len s)"
  using assms
  by (auto simp: read_float_suffix_def Let_def split: if_splits
      dest!: char_at_in_input peek_eq_in_input)

lemma bump_while_stops: "\<not> P 0 \<Longrightarrow> \<not> P (peek (bump_while P s))"
proof (induction P s rule: bump_while.induct)
  case (1 P s)
  then show ?case by (cases "lx_pos s < lx_len s \<and> P (peek s)")
      (auto simp: bump_while.simps [of P s] peek_def char_at_def)
qed

lemma read_float_rest_reads:
  assumes "peek s = cc (CHR ''.'')"
  shows "reads s (read_float_rest st s)"
proof -
  define s2 where "s2 = bump_while is_number_char (bump s)"
  define a where "a = bump s2"
  define b where "b = (if peek a = cc (CHR ''+'') \<or> peek a = cc (CHR ''-'') then bump a else a)"
  define s3 where "s3 = (if peek s2 = cc (CHR ''e'') \<or> peek s2 = cc (CHR ''E'')
    then bump_while is_number_char b else s2)"
  obtain f t where suf: "read_float_suffix s3 = (f, t)" by fastforce
  have s2: "fwd1 s s2" "lx_pos s2 \<le> lx_len s"
    using peek_eq_in_input [OF assms] bump_while_bound [of "bump s" is_number_char]
    by (simp_all add: s2_def fwd1_bump_while)
  have b: "fwd s2 b" and "peek s2 \<noteq> 0 \<Longrightarrow> lx_pos b \<le> lx_len s2"
    using peek_in_input [of s2] peek_in_input [of a] by (auto simp: a_def b_def)
  then have s3: "fwd s2 s3" "lx_pos s3 \<le> lx_len s2"
    using s2 fwd_len [OF fwd1_imp_fwd [OF s2(1)]] bump_while_bound [of b is_number_char]
      fwd_trans [OF b fwd_bump_while] fwd_len [OF b]
    by (auto simp: s3_def)
  have "fwd1 s t" "lx_pos t \<le> lx_len s"
    using read_float_suffix_fwd [OF suf] s2 s3 fwd1_fwd_trans [OF s2(1) s3(1)]
      fwd1_fwd_trans [of s s3 t] fwd_len [OF s3(1)] fwd_len [OF fwd1_imp_fwd [OF s2(1)]]
    by auto
  moreover have "read_float_rest st s =
      (let text = digits_text t st (lx_pos s3) in
       case parse_f64 text of
           None \<Rightarrow> err (lit ''invalid float literal: '' @ text) t
         | Some v \<Rightarrow>
             if \<not> f64_is_finite v
             then err (lit ''float literal out of range for Float64: '' @ text) t
             else ok_tok (T_Float v) t)"
    unfolding read_float_rest_def Let_def s2_def [symmetric] a_def [symmetric] b_def [symmetric]
      s3_def [symmetric] suf snd_conv ..
  ultimately show ?thesis by (simp add: Let_def split: option.splits)
qed

lemma read_decimal_reads:
  assumes "is_ascii_digit (peek s)"
  shows "reads s (read_decimal s)"
proof -
  define s1 where "s1 = bump_while is_number_char s"
  have nz: "\<not> is_number_char 0" by (simp add: is_number_char_def char_class_defs)
  have "peek s \<noteq> 0" using assms by (auto simp: char_class_defs)
  then have "lx_pos s < lx_len s" by (rule peek_in_input)
  moreover have "bump_while is_number_char s = bump_while is_number_char (bump s)"
    using assms by (simp add: bump_while_peek [of is_number_char s, OF nz] is_number_char_def)
  ultimately have s1: "fwd1 s s1" "lx_pos s1 \<le> lx_len s"
    using bump_while_bound [of s is_number_char] by (simp_all add: s1_def fwd1_bump_while)
  have stop: "peek s1 \<noteq> UNDERSCORE"
    using bump_while_stops [of is_number_char s, OF nz] by (auto simp: s1_def is_number_char_def)
  obtain f t where suf: "read_int_suffix s1 = (f, t)" by fastforce
  have f: "f = None" "lx_pos t = lx_pos s1" "fwd s1 t" using read_int_suffix_pos [OF stop suf] by simp_all
  then have t: "fwd1 s t" "lx_pos t \<le> lx_len s" using s1 fwd1_fwd_trans by auto
  have fl: "reads s (read_float_rest st s1)" if "peek s1 = cc (CHR ''.'')" for st
    using reads_start [of s s1] read_float_rest_reads [OF that] s1(1) by blast
  show ?thesis
    unfolding read_decimal_def Let_def s1_def [symmetric] suf
    using fl t by (auto simp: f(1) split: option.splits)
qed

interpretation rd_number: token_reader "\<lambda>s. is_ascii_digit (peek s)" read_number
proof
  fix s assume d: "is_ascii_digit (peek s)"
  then have "lx_pos s < lx_len s" by (intro peek_in_input) (auto simp: char_class_defs)
  then show "reads s (read_number s)"
    using read_decimal_reads [OF d] radix_int_reads [of s]
    by (auto simp: read_number_def Let_def read_hex_int_def read_octal_int_def read_binary_int_def
        fwd1_Suc)
qed

lemma ident_kind_not_Eof: "ident_kind t \<noteq> T_Eof"
  by (simp add: ident_kind_def split: option.splits)

interpretation rd_ident: token_reader "\<lambda>s. is_ident_char (peek s)" "\<lambda>s. oks (read_ident_or_keyword s)"
proof
  fix s assume i: "is_ident_char (peek s)"
  have nz: "\<not> is_ident_char 0" by (simp add: is_ident_char_def char_class_defs)
  then have "lx_pos s < lx_len s" using i by (metis peek_in_input)
  moreover have "bump_while is_ident_char s = bump_while is_ident_char (bump s)"
    using i by (simp add: bump_while_peek [of is_ident_char s, OF nz])
  ultimately show "reads s (oks (read_ident_or_keyword s))"
    using bump_while_bound [of s is_ident_char]
    by (simp add: read_ident_or_keyword_def Let_def ident_kind_not_Eof fwd1_bump_while)
qed

section \<open>The dispatch\<close>

lemma single_char_kind_not_Eof: "single_char_kind c \<noteq> Some T_Eof"
  by (simp add: single_char_kind_def)

lemma reads_If:
  "(c \<Longrightarrow> reads s a) \<Longrightarrow> (\<not> c \<Longrightarrow> reads s b) \<Longrightarrow> reads s (if c then a else b)"
  by simp

lemma read_token_contract:
  assumes "lx_pos s < lx_len s"
  shows "reads s (read_token s)"
proof -
  have by_case: "reads s (read_byte_literal (bump s))" if "peek_next s = SQUOTE"
  proof -
    have "Suc (lx_pos s) < lx_len s" using that by (intro peek_next_in_input) simp
    then show ?thesis using rd_byte.contract [of "bump s"] reads_start [of s "bump s"] by simp
  qed
  have id_case: "reads s (oks (read_ident_or_keyword s))"
    if "is_ascii_lower (peek s) \<or> is_ascii_upper (peek s) \<or> peek s = UNDERSCORE"
    using that by (intro rd_ident.contract) (auto simp: is_ident_char_def)
  have r_case: "reads s (oks (read_ident_or_keyword s))" if "peek s = cc (CHR ''r'')"
    by (rule id_case) (simp add: that char_class_defs)
  have one: "reads s (case single_char_kind c of Some k \<Rightarrow> oks (tok k (bump s))
      | None \<Rightarrow> (Inl e, bump s))" for c e
    using assms single_char_kind_not_Eof [of c] by (auto split: option.splits)
  have nl: "fwd1 s ((bump s)\<lparr>lx_line := x, lx_column := y\<rparr>)" for x y
    by (simp add: fwd1_def fwd_def)
  show ?thesis
    unfolding read_token_def Let_def
    by (intro reads_If;
        (rule one | rule reads_operators [OF assms]
         | rule rd_string.contract [OF assms] | rule rd_char.contract [OF assms]
         | (rule by_case r_case id_case rd_raw_string.contract rd_number.contract
              reads_line_comment reads_block_comment, simp; fail)
         | simp add: nl assms Suc_leI))
qed

interpretation rd_token: token_reader "\<lambda>s. lx_pos s < lx_len s" read_token
  by unfold_locales (rule read_token_contract)

end
