(* ===== verification/Tinox_Tokenize.thy ===== *)
theory Tinox_Tokenize
  imports Tinox_Lexer_Contract
begin

text \<open>
  \<^verbatim>\<open>Lexer::tokenize\<close> (\<^verbatim>\<open>src/crates/tinox-lexer/src/lib.rs\<close>): the loop over
  \<^verbatim>\<open>next_token\<close> that drops trivia, collects errors and stops at the end marker. It is a
  total function because every step but the last moves the cursor
  (\<open>next_token_progress\<close>). \<open>lexes\<close> is the specification of an error-free run:
  the sequence of all tokens, trivia included.
\<close>

section \<open>One step\<close>

lemma begin_token_simps [simp]:
  "lx_chars (begin_token s) = lx_chars s" "lx_pos (begin_token s) = lx_pos s"
  "lx_start (begin_token s) = lx_pos s" "lx_line (begin_token s) = lx_line s"
  "lx_column (begin_token s) = lx_column s" "lx_start_column (begin_token s) = lx_column s"
  by (simp_all add: begin_token_def)

definition at_end :: "lexer \<Rightarrow> bool" where
  "at_end s \<longleftrightarrow> lx_pos s \<ge> lx_len s"

lemma next_token_end:
  "at_end s \<Longrightarrow> next_token s =
     (Inr (token_new T_Eof (span_new (mk_pos (begin_token s)) (mk_pos (begin_token s)))), begin_token s)"
  by (simp add: next_token_def at_end_def Let_def)

lemma next_token_inside: "\<not> at_end s \<Longrightarrow> next_token s = read_token (begin_token s)"
  by (simp add: next_token_def at_end_def)

lemma next_token_progress:
  assumes "next_token s = (r, t)" and "\<not> at_end s"
  shows "lx_chars t = lx_chars s" and "lx_pos s < lx_pos t"
  using rd_token.moves [of "begin_token s" r t] assms
  by (simp_all add: next_token_inside at_end_def fwd1_def fwd_def)

lemma next_token_input: "next_token s = (r, t) \<Longrightarrow> lx_chars t = lx_chars s"
  using next_token_progress [of s r t] by (cases "at_end s") (auto simp: next_token_end)

lemma next_token_Eof_iff:
  assumes "next_token s = (Inr k, t)"
  shows "tok_kind k = T_Eof \<longleftrightarrow> at_end s"
proof (cases "at_end s")
  case True
  then show ?thesis using assms by (auto simp: next_token_end token_new_def)
next
  case False
  then show ?thesis
    using assms rd_token.token_at_cursor [of "begin_token s" k t]
    by (simp add: next_token_inside at_end_def)
qed

lemma next_token_error_inside: "next_token s = (Inl e, t) \<Longrightarrow> \<not> at_end s"
  by (cases "at_end s") (simp_all add: next_token_end)

lemma next_token_span:
  assumes "next_token s = (Inr k, t)"
  shows "offset (span_start (tok_span k)) = of_nat (lx_pos s)"
    and "offset (span_end (tok_span k)) = of_nat (lx_pos t)"
    and "lx_pos s \<le> lx_len s \<Longrightarrow> lx_pos t \<le> lx_len s"
proof -
  have "offset (span_start (tok_span k)) = of_nat (lx_pos s)
      \<and> offset (span_end (tok_span k)) = of_nat (lx_pos t)
      \<and> (lx_pos s \<le> lx_len s \<longrightarrow> lx_pos t \<le> lx_len s)"
  proof (cases "at_end s")
    case True
    then show ?thesis
      using assms by (auto simp: next_token_end token_new_def span_new_def mk_pos_def)
  next
    case False
    then have "read_token (begin_token s) = (Inr k, t)" "lx_pos (begin_token s) < lx_len (begin_token s)"
      using assms by (simp_all add: next_token_inside at_end_def)
    then show ?thesis
      using rd_token.token_offsets [of "begin_token s" k t] rd_token.token_at_cursor [of "begin_token s" k t]
      by simp
  qed
  then show "offset (span_start (tok_span k)) = of_nat (lx_pos s)"
    and "offset (span_end (tok_span k)) = of_nat (lx_pos t)"
    and "lx_pos s \<le> lx_len s \<Longrightarrow> lx_pos t \<le> lx_len s" by auto
qed

section \<open>The loop\<close>

function tokenize_loop :: "lexer \<Rightarrow> token list \<Rightarrow> lex_error list \<Rightarrow> token list \<times> lex_error list \<times> lexer"
  where
  "tokenize_loop s tokens errors =
     (case next_token s of
        (Inl e, s1) \<Rightarrow> tokenize_loop (s1\<lparr>lx_pos := lx_pos s1 + 1\<rparr>) tokens (errors @ [e])
      | (Inr t, s1) \<Rightarrow>
          if tok_kind t = T_Eof then (tokens @ [t], errors, s1)
          else tokenize_loop s1 (if is_trivia (tok_kind t) then tokens else tokens @ [t]) errors)"
  by pat_completeness auto
termination
proof (relation "measure (\<lambda>(s, _, _). lx_len s - lx_pos s)", goal_cases)
  case (2 s tokens errors r s1 e)
  then have "next_token s = (Inl e, s1)" by simp
  with next_token_progress [OF this next_token_error_inside [OF this]] next_token_error_inside [OF this]
  show ?case by (auto simp: at_end_def)
next
  case (3 s tokens errors r s1 t)
  then have n: "next_token s = (Inr t, s1)" by simp
  then have "\<not> at_end s" using 3 next_token_Eof_iff by blast
  with next_token_progress [OF n this] show ?case by (auto simp: at_end_def)
qed simp

declare tokenize_loop.simps [simp del]

definition tokenize :: "lexer \<Rightarrow> (lex_error list + token list) \<times> lexer" where
  "tokenize s =
     (case tokenize_loop s [] [] of (tokens, errors, s1) \<Rightarrow>
        (if errors = [] then Inr tokens else Inl errors, s1))"

section \<open>The error-free run\<close>

inductive lexes :: "lexer \<Rightarrow> token list \<Rightarrow> lexer \<Rightarrow> bool" where
  lexes_eof: "next_token s = (Inr t, s1) \<Longrightarrow> tok_kind t = T_Eof \<Longrightarrow> lexes s [t] s1"
| lexes_step: "next_token s = (Inr t, s1) \<Longrightarrow> tok_kind t \<noteq> T_Eof \<Longrightarrow> lexes s1 ts s2
     \<Longrightarrow> lexes s (t # ts) s2"

inductive_cases lexes_consE: "lexes s (t # ts) s'"
inductive_cases lexes_nilE [elim!]: "lexes s [] s'"

abbreviation significant :: "token list \<Rightarrow> token list" where
  "significant \<equiv> filter (\<lambda>t. \<not> is_trivia (tok_kind t))"

lemma tokenize_loop_lexes:
  "tokenize_loop s toks errs = (toks', errs', s') \<Longrightarrow>
     (errs' = [] \<longleftrightarrow> errs = [] \<and> (\<exists>raw s''. lexes s raw s''))
     \<and> (errs' = [] \<longrightarrow> (\<exists>raw. lexes s raw s' \<and> toks' = toks @ significant raw))"
proof (induction s toks errs rule: tokenize_loop.induct)
  case (1 s toks errs)
  obtain r s1 where n: "next_token s = (r, s1)" by fastforce
  show ?case
  proof (cases r)
    case (Inl e)
    then have "\<not> lexes s raw t" for raw t using n by (auto elim: lexes.cases)
    moreover have "errs' \<noteq> []"
      using 1(1) [OF n [symmetric] Inl] 1(3) n Inl by (auto simp: tokenize_loop.simps [of s])
    ultimately show ?thesis by simp
  next
    case (Inr t)
    show ?thesis
    proof (cases "tok_kind t = T_Eof")
      case True
      then have "lexes s [t] s1" using n Inr by (auto intro: lexes_eof)
      moreover have "toks' = toks @ [t]" "errs' = errs" "s' = s1"
        using 1(3) n Inr True by (simp_all add: tokenize_loop.simps [of s])
      moreover have "significant [t] = [t]" using True by (simp add: is_trivia_def)
      ultimately show ?thesis by (metis (no_types, lifting))
    next
      case False
      let ?toks = "if is_trivia (tok_kind t) then toks else toks @ [t]"
      have run: "tokenize_loop s1 ?toks errs = (toks', errs', s')"
        using 1(3) n Inr False by (simp add: tokenize_loop.simps [of s])
      note IH = 1(2) [OF n [symmetric] Inr False run]
      have step: "lexes s raw u \<longleftrightarrow> (\<exists>ts. raw = t # ts \<and> lexes s1 ts u)" for raw u
        using n Inr False by (auto elim: lexes.cases intro: lexes_step)
      show ?thesis using IH by (auto simp: step)
    qed
  qed
qed

lemma tokenize_lexes:
  assumes "tokenize s = (Inr toks, s')"
  shows "\<exists>raw. lexes s raw s' \<and> toks = significant raw"
  using assms tokenize_loop_lexes [of s "[]" "[]"]
  by (auto simp: tokenize_def split: prod.splits if_splits)

section \<open>Tokens tile the input\<close>

definition tok_lo :: "token \<Rightarrow> nat" where
  "tok_lo t = unat (offset (span_start (tok_span t)))"

definition tok_hi :: "token \<Rightarrow> nat" where
  "tok_hi t = unat (offset (span_end (tok_span t)))"

text \<open>The text a token spans in an input.\<close>

definition tok_text :: "rstring \<Rightarrow> token \<Rightarrow> rstring" where
  "tok_text input t = slice input (tok_lo t) (tok_hi t)"

lemma next_token_lo_hi:
  assumes "next_token s = (Inr k, t)" and "lx_pos s \<le> lx_len s" and "lx_len s < 2 ^ 32"
  shows "tok_lo k = lx_pos s" and "tok_hi k = lx_pos t" and "lx_pos t \<le> lx_len t"
    and "lx_pos s \<le> lx_pos t" and "tok_kind k \<noteq> T_Eof \<Longrightarrow> lx_pos s < lx_pos t"
proof -
  have b: "lx_pos t \<le> lx_len s" using next_token_span(3) [OF assms(1,2)] .
  show "tok_lo k = lx_pos s" and "tok_hi k = lx_pos t"
    using next_token_span(1,2) [OF assms(1)] assms(2,3) b
    by (simp_all add: tok_lo_def tok_hi_def unat_of_nat_u32)
  show "lx_pos t \<le> lx_len t" using b next_token_input [OF assms(1)] by simp
  show "tok_kind k \<noteq> T_Eof \<Longrightarrow> lx_pos s < lx_pos t"
    using next_token_progress(2) [OF assms(1)] next_token_Eof_iff [OF assms(1)] by blast
  show "lx_pos s \<le> lx_pos t"
    using next_token_progress(2) [OF assms(1)] assms(1) by (cases "at_end s") (auto simp: next_token_end)
qed

lemma lexes_tile:
  assumes "lexes s raw s'" and "lx_pos s \<le> lx_len s" and "lx_len s < 2 ^ 32"
  shows "successively (\<lambda>a b. tok_hi a = tok_lo b) raw \<and> raw \<noteq> [] \<and> tok_lo (hd raw) = lx_pos s
    \<and> concat (map (tok_text (lx_chars s)) raw) = drop (lx_pos s) (lx_chars s)
    \<and> (\<forall>t \<in> set raw. lx_pos s \<le> tok_lo t \<and> tok_lo t \<le> tok_hi t \<and> tok_hi t \<le> lx_len s
          \<and> (tok_kind t \<noteq> T_Eof \<longrightarrow> tok_lo t < tok_hi t))"
  using assms
proof (induction rule: lexes.induct)
  case (lexes_eof s t s1)
  then have "lx_pos s = lx_len s" "s1 = begin_token s"
    using next_token_Eof_iff [of s t s1] by (auto simp: at_end_def next_token_end)
  then show ?case
    using next_token_lo_hi [OF lexes_eof(1,3,4)] lexes_eof(2) by (simp add: tok_text_def)
next
  case (lexes_step s t s1 ts s2)
  have c: "lx_chars s1 = lx_chars s" using next_token_input lexes_step(1) .
  note lh = next_token_lo_hi [OF lexes_step(1,5,6)]
  have IH: "successively (\<lambda>a b. tok_hi a = tok_lo b) ts \<and> ts \<noteq> [] \<and> tok_lo (hd ts) = lx_pos s1
    \<and> concat (map (tok_text (lx_chars s1)) ts) = drop (lx_pos s1) (lx_chars s1)
    \<and> (\<forall>t \<in> set ts. lx_pos s1 \<le> tok_lo t \<and> tok_lo t \<le> tok_hi t \<and> tok_hi t \<le> lx_len s1
          \<and> (tok_kind t \<noteq> T_Eof \<longrightarrow> tok_lo t < tok_hi t))"
    using lexes_step lh c by simp
  have "tok_text (lx_chars s) t @ drop (lx_pos s1) (lx_chars s) = drop (lx_pos s) (lx_chars s)"
    using slice_append [of "lx_pos s" "lx_pos s1" "lx_len s" "lx_chars s"] lh c
    by (simp add: slice_def tok_text_def)
  then have "concat (map (tok_text (lx_chars s)) (t # ts)) = drop (lx_pos s) (lx_chars s)"
    using IH c by simp
  moreover have "successively (\<lambda>a b. tok_hi a = tok_lo b) (t # ts)"
    using IH lh by (cases ts) auto
  ultimately show ?case using IH lh c lexes_step(2) by auto
qed

text \<open>The end marker comes last and only there.\<close>

lemma lexes_Eof:
  assumes "lexes s raw s'" and "lx_pos s \<le> lx_len s" and "lx_len s < 2 ^ 32"
  shows "tok_kind (last raw) = T_Eof \<and> raw \<noteq> [] \<and> (\<forall>t \<in> set (butlast raw). tok_kind t \<noteq> T_Eof)
    \<and> tok_lo (last raw) = lx_len s"
  using assms
proof (induction rule: lexes.induct)
  case (lexes_eof s t s1)
  then show ?case
    using next_token_lo_hi [OF lexes_eof(1,3,4)] next_token_Eof_iff [of s t s1] by (auto simp: at_end_def)
next
  case (lexes_step s t s1 ts s2)
  have c: "lx_chars s1 = lx_chars s" using next_token_input lexes_step(1) .
  note lh = next_token_lo_hi [OF lexes_step(1,5,6)]
  show ?case using lexes_step lh c by auto
qed

lemma successively_sorted_wrt:
  assumes "successively (\<lambda>a b. tok_hi a = tok_lo b) raw" and "\<forall>t \<in> set raw. tok_lo t \<le> tok_hi t"
  shows "sorted_wrt (\<lambda>a b. tok_hi a \<le> tok_lo b) raw"
  using assms
proof (induction raw)
  case (Cons a raw)
  then show ?case
  proof (cases raw)
    case (Cons b bs)
    have IH: "sorted_wrt (\<lambda>a b. tok_hi a \<le> tok_lo b) raw" using Cons.IH Cons.prems Cons by simp
    have "tok_hi a = tok_lo b" using Cons.prems Cons by simp
    moreover have "tok_lo b \<le> tok_lo x" if "x \<in> set raw" for x
      using that IH Cons Cons.prems(2) by fastforce
    ultimately show ?thesis using IH by simp
  qed simp
qed simp

section \<open>The run is bounded\<close>

lemma tokenize_loop_length:
  "tokenize_loop s toks errs = (toks', errs', s') \<Longrightarrow>
     length toks' + length errs' \<le> length toks + length errs + (lx_len s - lx_pos s) + 1"
proof (induction s toks errs rule: tokenize_loop.induct)
  case (1 s toks errs)
  obtain r s1 where n: "next_token s = (r, s1)" by fastforce
  show ?case
  proof (cases r)
    case (Inl e)
    have "\<not> at_end s" using n Inl next_token_error_inside by blast
    then show ?thesis
      using 1(1) [OF n [symmetric] Inl] 1(3) n Inl next_token_progress [OF n]
      by (auto simp: tokenize_loop.simps [of s] at_end_def)
  next
    case (Inr t)
    show ?thesis
    proof (cases "tok_kind t = T_Eof")
      case True
      then show ?thesis using 1(3) n Inr by (auto simp: tokenize_loop.simps [of s])
    next
      case False
      then have "\<not> at_end s" using n Inr next_token_Eof_iff by blast
      then show ?thesis
        using 1(2) [OF n [symmetric] Inr False] 1(3) n Inr False next_token_progress [OF n]
        by (auto simp: tokenize_loop.simps [of s] at_end_def split: if_splits)
    qed
  qed
qed

lemma tokenize_loop_nonempty: "tokenize_loop s toks errs = (toks', errs', s') \<Longrightarrow> toks' \<noteq> []"
proof (induction s toks errs rule: tokenize_loop.induct)
  case (1 s toks errs)
  then show ?case
    by (auto simp: tokenize_loop.simps [of s toks errs] split: prod.splits sum.splits if_splits)
qed

end
