(* ===== verification/Tinox_Token_Types.thy ===== *)
theory Tinox_Token_Types
  imports Tinox_Tokenize
begin

text \<open>
  Which tokens the lexer can produce: the payloads are values of their Rust types
  (\<^verbatim>\<open>i64\<close> literals in range, \<^verbatim>\<open>f64\<close> literals finite, characters Unicode scalar values),
  identifiers are spelled as identifiers and are no keywords, and the kinds
  \<^verbatim>\<open>IntegerSuffix\<close>, \<^verbatim>\<open>FloatSuffix\<close>, \<^verbatim>\<open>Pipe\<close>, \<^verbatim>\<open>Error\<close> and the keywords \<^verbatim>\<open>True\<close>,
  \<^verbatim>\<open>False\<close>, \<^verbatim>\<open>As_\<close> and \<^verbatim>\<open>DotSelf\<close> are never produced. The contract of
  \<open>Tinox_Lexer_Contract\<close> is extended by that: the locale \<open>typed_reader\<close>.
\<close>

abbreviation scalars :: "rstring \<Rightarrow> bool" where
  "scalars \<equiv> list_all is_scalar"

fun part_ok :: "interp_part \<Rightarrow> bool" where
  "part_ok (IP_Str t) = scalars t"
| "part_ok (IP_Expr t) = scalars t"

definition ident_ok :: "rstring \<Rightarrow> bool" where
  "ident_ok t \<longleftrightarrow> t \<noteq> [] \<and> list_all is_ident_char t \<and> \<not> is_ascii_digit (hd t)
     \<and> t \<noteq> [UNDERSCORE] \<and> t \<noteq> lit ''true'' \<and> t \<noteq> lit ''false'' \<and> keyword_lookup t = None"

definition kind_ok :: "token_kind \<Rightarrow> bool" where
  "kind_ok k = (case k of
      T_Integer v \<Rightarrow> 0 \<le> v \<and> v \<le> i64_max
    | T_IntegerSuffix _ \<Rightarrow> False
    | T_Float f \<Rightarrow> f64_is_finite f
    | T_FloatSuffix _ \<Rightarrow> False
    | T_String t \<Rightarrow> scalars t
    | T_RawString t \<Rightarrow> scalars t
    | T_InterpString ps \<Rightarrow> list_all part_ok ps \<and> length ps \<ge> 3
    | T_Char c \<Rightarrow> is_scalar c
    | T_Ident t \<Rightarrow> ident_ok t
    | T_Keyword w \<Rightarrow> w \<notin> {K_True, K_False, K_AsAlias, K_DotSelf}
    | T_Comment t \<Rightarrow> scalars t
    | T_DocComment t \<Rightarrow> scalars t
    | T_Pipe \<Rightarrow> False
    | T_Error _ \<Rightarrow> False
    | _ \<Rightarrow> True)"

lemma kind_ok_simps [simp]:
  "kind_ok (T_Integer v) \<longleftrightarrow> 0 \<le> v \<and> v \<le> i64_max"
  "kind_ok (T_Float f) \<longleftrightarrow> f64_is_finite f"
  "kind_ok (T_String t) \<longleftrightarrow> scalars t"
  "kind_ok (T_RawString t) \<longleftrightarrow> scalars t"
  "kind_ok (T_InterpString ps) \<longleftrightarrow> list_all part_ok ps \<and> length ps \<ge> 3"
  "kind_ok (T_Char c) \<longleftrightarrow> is_scalar c"
  "kind_ok (T_Byte b)" "kind_ok (T_Bool bv)" "kind_ok T_Eof" "kind_ok T_Underscore"
  "kind_ok (T_Ident t) \<longleftrightarrow> ident_ok t"
  "kind_ok (T_Keyword w) \<longleftrightarrow> w \<notin> {K_True, K_False, K_AsAlias, K_DotSelf}"
  "kind_ok (T_Comment t) \<longleftrightarrow> scalars t"
  "kind_ok (T_DocComment t) \<longleftrightarrow> scalars t"
  "\<not> kind_ok (T_IntegerSuffix sf)"
  by (simp_all add: kind_ok_def)

definition gives_ok :: "(lex_error + token) \<times> lexer \<Rightarrow> bool" where
  "gives_ok out = (case fst out of Inl _ \<Rightarrow> True | Inr k \<Rightarrow> kind_ok (tok_kind k))"

lemma gives_ok_simps [simp]:
  "gives_ok (Inl e, t)" "gives_ok (err m t)"
  "gives_ok (ok_tok k t) \<longleftrightarrow> kind_ok k"
  "gives_ok (oks (tok k t)) \<longleftrightarrow> kind_ok k"
  by (simp_all add: gives_ok_def err_def ok_tok_def oks_def tok_def token_new_def)

locale typed_reader = token_reader +
  assumes typed: "pre s \<Longrightarrow> scalars (lx_chars s) \<Longrightarrow> gives_ok (rd s)"
begin

lemma token_ok: "pre s \<Longrightarrow> scalars (lx_chars s) \<Longrightarrow> rd s = (Inr k, t) \<Longrightarrow> kind_ok (tok_kind k)"
  using typed [of s] by (simp add: gives_ok_def)

end

section \<open>Texts of scalar values\<close>

lemma scalar_0 [simp]: "is_scalar 0"
  by (simp add: is_scalar_def)

lemma scalars_slice [simp]: "scalars xs \<Longrightarrow> scalars (slice xs a b)"
  by (auto simp: slice_def list_all_iff dest: in_set_takeD in_set_dropD)

lemma scalar_peek: "scalars (lx_chars s) \<Longrightarrow> is_scalar (peek s)"
  by (auto simp: peek_def char_at_def list_all_length split: option.splits if_splits)

lemma scalar_from_u32_or: "from_u32_or m n s = (Inr c, t) \<Longrightarrow> is_scalar c"
  by (auto simp: from_u32_or_def char_from_u32_def err_def split: if_splits)

lemma scalar_read_escape:
  assumes "read_escape s = (Inr c, t)"
  shows "is_scalar c"
  using assms unfolding read_escape_def Let_def
  by (auto simp: err_def is_scalar_def split: if_splits prod.splits sum.splits
      dest!: scalar_from_u32_or)

lemma interp_loop_scalars:
  "interp_loop s d src = (r, t) \<Longrightarrow> scalars (lx_chars s) \<Longrightarrow> scalars src \<Longrightarrow> scalars r"
proof (induction s d src rule: interp_loop.induct)
  case (1 s d src)
  show ?case
    using 1(1) [OF _ refl refl] 1(2-)
    by (auto simp: interp_loop.simps [of s d src] Let_def scalar_peek split: if_splits)
qed

section \<open>The readers\<close>

lemma string_loop_scalars:
  "string_loop s cur parts interp = (Inr (cur', parts', interp'), t) \<Longrightarrow> scalars (lx_chars s)
     \<Longrightarrow> scalars cur \<Longrightarrow> list_all part_ok parts \<Longrightarrow> (interp \<longrightarrow> length parts \<ge> 2)
     \<Longrightarrow> scalars cur' \<and> list_all part_ok parts' \<and> (interp' \<longrightarrow> length parts' \<ge> 2)"
proof (induction s cur parts interp rule: string_loop.induct)
  case (1 s cur parts interp)
  note IHs = 1(1) [OF _ refl] 1(2) [OF _ refl _ _ _ refl] 1(3) [OF _ refl]
  note prems = 1(4-)
  let ?interp = "peek s = cc (CHR ''$'') \<and> char_at s (lx_pos s + 1) = Some (cc (CHR ''{''))"
  show ?case
  proof (cases "lx_pos s < lx_len s \<and> peek s \<noteq> DQUOTE")
    case False
    then show ?thesis using prems by (auto simp: string_loop.simps [of s])
  next
    case c: True
    consider (nl) "peek s = NL" | (i) ?interp | (e) "\<not> ?interp" "peek s = BSLASH"
      | (o) "\<not> ?interp" "peek s \<noteq> BSLASH" "peek s \<noteq> NL" by blast
    then show ?thesis
    proof cases
      case nl
      then show ?thesis using prems c by (auto simp: string_loop.simps [of s] err_def)
    next
      case i
      obtain src u where il: "interp_loop (bump (bump s)) 1 [] = (src, u)" by fastforce
      have "lx_chars u = lx_chars s" using fwd_interp_loop [OF il] by (simp add: fwd_def)
      moreover have "scalars src" using interp_loop_scalars [OF il] prems by simp
      ultimately show ?thesis using IHs(1) [OF c _ i] i c prems il
        by (auto simp: string_loop.simps [of s] Let_def)
    next
      case e
      obtain x u where re: "read_escape (bump s) = (x, u)" by fastforce
      have u: "lx_chars u = lx_chars s" using fwd1_read_escape [OF re] by (simp add: fwd1_def fwd_def)
      show ?thesis
      proof (cases "lx_len s \<le> Suc (lx_pos s)")
        case True
        then show ?thesis using e c prems by (auto simp: string_loop.simps [of s] Let_def err_def)
      next
        case in_len: False
        show ?thesis
        proof (cases x)
          case (Inl a)
          then show ?thesis using re e c prems in_len by (auto simp: string_loop.simps [of s] Let_def)
        next
          case (Inr ch)
          then have "is_scalar ch" using re scalar_read_escape by blast
          then show ?thesis using re e c in_len u Inr prems IHs(2) [OF c _ e]
            by (auto simp: string_loop.simps [of s] Let_def)
        qed
      qed
    next
      case o
      then show ?thesis using IHs(3) [OF c _ o(1,2)] o c prems scalar_peek [of s]
        by (auto simp: string_loop.simps [of s] Let_def)
    qed
  qed
qed

interpretation ty_string: typed_reader "\<lambda>s. lx_pos s < lx_len s" read_string
proof unfold_locales
  fix s :: lexer assume "lx_pos s < lx_len s" and sc: "scalars (lx_chars s)"
  obtain r t where loop: "string_loop (bump s) [] [] False = (r, t)" by fastforce
  show "gives_ok (read_string s)"
    using string_loop_scalars [of "bump s" "[]" "[]" False] loop sc
    by (auto simp: read_string_def Let_def split: sum.splits)
qed

lemma raw_string_loop_ok: "scalars (lx_chars s) \<Longrightarrow> gives_ok (raw_string_loop s st h)"
proof (induction s st h rule: raw_string_loop.induct)
  case (1 s st h)
  show ?case using 1(1) [OF _ refl] 1(2) by (auto simp: raw_string_loop.simps [of s] Let_def)
qed

interpretation ty_raw_string: typed_reader "\<lambda>s. peek s = cc (CHR ''r'')" read_raw_string
proof unfold_locales
  fix s :: lexer assume "scalars (lx_chars s)"
  moreover have "lx_chars (bump_while P u) = lx_chars u" for P u by (simp add: bump_while_skip)
  ultimately show "gives_ok (read_raw_string s)"
    by (auto simp: read_raw_string_def Let_def intro!: raw_string_loop_ok)
qed

interpretation ty_char: typed_reader "\<lambda>s. lx_pos s < lx_len s" read_char
proof unfold_locales
  fix s :: lexer assume "scalars (lx_chars s)"
  then have "is_scalar (peek (bump s))" by (simp add: scalar_peek)
  then show "gives_ok (read_char s)"
    by (auto simp: read_char_def Let_def split: prod.splits sum.splits dest: scalar_read_escape)
qed

lemma read_byte_ok: "gives_ok (read_byte_literal s)"
  by (auto simp: read_byte_literal_def Let_def split: prod.splits sum.splits)

lemma i64_from_str_radix_range: "i64_from_str_radix r t = Some v \<Longrightarrow> 0 \<le> v \<and> v \<le> i64_max"
  by (auto simp: i64_from_str_radix_def split: if_splits option.splits)

lemma radix_int_ok: "gives_ok (radix_int P r m st s)"
  by (auto simp: radix_int_def Let_def split: option.splits dest: i64_from_str_radix_range)

lemma read_float_rest_ok: "gives_ok (read_float_rest st s)"
  by (auto simp: read_float_rest_def Let_def split: option.splits)

lemma read_int_suffix_None: "fst (read_int_suffix s) = None"
  by (auto simp: read_int_suffix_def Let_def split: option.splits)

lemma read_decimal_ok: "gives_ok (read_decimal s)"
  using read_int_suffix_None [of "bump_while is_number_char s"]
  by (auto simp: read_decimal_def Let_def read_float_rest_ok split: option.splits prod.splits
      dest: i64_from_str_radix_range)

interpretation ty_number: typed_reader "\<lambda>s. is_ascii_digit (peek s)" read_number
  by unfold_locales
    (auto simp: read_number_def Let_def read_hex_int_def read_octal_int_def read_binary_int_def
      radix_int_ok read_decimal_ok i64_max_def)

section \<open>Identifiers\<close>

lemma keyword_entries:
  "keyword_lookup (lit ''true'') = Some K_True" "keyword_lookup (lit ''false'') = Some K_False"
  "keyword_lookup (lit ''.self'') = Some K_DotSelf"
  by (simp_all add: keyword_lookup_def keyword_table_def)

lemma keyword_no_alias: "keyword_lookup t \<noteq> Some K_AsAlias"
proof
  assume "keyword_lookup t = Some K_AsAlias"
  then have "K_AsAlias \<in> set (map snd keyword_table)"
    by (force simp: keyword_lookup_def dest: map_of_SomeD)
  then show False by (simp add: keyword_table_def)
qed

lemma ident_kind_ok:
  assumes "t \<noteq> []" and "list_all is_ident_char t" and "\<not> is_ascii_digit (hd t)"
  shows "kind_ok (ident_kind t)"
proof -
  have "t \<noteq> lit ''.self''" using assms(2) by (auto simp: is_ident_char_def char_class_defs)
  then have "keyword_lookup t = Some k \<Longrightarrow> t \<noteq> lit ''true'' \<Longrightarrow> t \<noteq> lit ''false''
      \<Longrightarrow> k \<notin> {K_True, K_False, K_AsAlias, K_DotSelf}" for k
    using keyword_no_alias [of t] keyword_entries keyword_lookup_inj by blast
  then show ?thesis using assms by (auto simp: ident_kind_def ident_ok_def split: option.splits)
qed

definition ident_start :: "rchar \<Rightarrow> bool" where
  "ident_start c \<longleftrightarrow> is_ascii_lower c \<or> is_ascii_upper c \<or> c = UNDERSCORE"

lemma ident_start_char: "ident_start c \<Longrightarrow> is_ident_char c \<and> \<not> is_ascii_digit c"
  by (auto simp: ident_start_def is_ident_char_def char_class_defs)

lemma ident_text:
  "slice (lx_chars s) (lx_pos s) (lx_pos (bump_while P s)) = takeWhile P (rest s)"
  by (simp add: bump_while_skip slice_rest flip: takeWhile_eq_take)

interpretation ty_ident: typed_reader "\<lambda>s. ident_start (peek s)" "\<lambda>s. oks (read_ident_or_keyword s)"
proof unfold_locales
  fix s :: lexer assume i: "ident_start (peek s)"
  then show "reads s (oks (read_ident_or_keyword s))"
    using ident_start_char by (blast intro: rd_ident.contract)
  have c: "lx_chars (bump_while is_ident_char s) = lx_chars s" by (simp add: bump_while_skip)
  have "takeWhile is_ident_char (rest s) \<noteq> []"
    "list_all is_ident_char (takeWhile is_ident_char (rest s))"
    "\<not> is_ascii_digit (hd (takeWhile is_ident_char (rest s)))"
    using i ident_start_char [OF i] ident_start_char [of 0]
    by (auto simp: peek_rest list_all_iff dest: set_takeWhileD split: list.splits)
      (auto simp: ident_start_def char_class_defs)
  from ident_kind_ok [OF this] show "gives_ok (oks (read_ident_or_keyword s))"
    by (simp add: read_ident_or_keyword_def Let_def ident_text c)
qed

section \<open>The dispatch\<close>

lemma gives_ok_If: "(c \<Longrightarrow> gives_ok a) \<Longrightarrow> (\<not> c \<Longrightarrow> gives_ok b) \<Longrightarrow> gives_ok (if c then a else b)"
  by simp

lemma operators_ok:
  "gives_ok (oks (read_operator s))"
  "gives_ok (oks (read_plus s))" "gives_ok (oks (read_minus s))" "gives_ok (oks (read_star s))"
  "gives_ok (oks (read_percent s))" "gives_ok (oks (read_equals s))" "gives_ok (oks (read_bang s))"
  "gives_ok (oks (read_less s))" "gives_ok (oks (read_greater s))"
  "gives_ok (oks (read_ampersand s))" "gives_ok (oks (read_bar s))" "gives_ok (oks (read_caret s))"
  "gives_ok (oks (read_dot s))" "gives_ok (oks (read_colon s))" "gives_ok (oks (read_question s))"
  by (simp_all add: operator_defs Let_def kind_ok_def)

lemma comments_ok:
  assumes "scalars (lx_chars s)"
  shows "gives_ok (oks (read_line_comment s))" and "gives_ok (oks (read_block_comment s))"
proof -
  have "lx_chars (bump_while P u) = lx_chars u" for P u by (simp add: bump_while_skip)
  then show "gives_ok (oks (read_line_comment s))"
    using assms by (simp add: read_line_comment_def Let_def)
  have loop: "lx_chars t = lx_chars u" if "block_comment_loop u = (f, t)" for u f t
    using that
  proof (induction u rule: block_comment_loop.induct)
    case (1 u)
    then show ?case by (auto simp: block_comment_loop.simps [of u] split: if_splits)
  qed
  show "gives_ok (oks (read_block_comment s))"
    using assms loop by (auto simp: read_block_comment_def Let_def split: prod.splits option.splits)
qed

lemma single_char_kind_ok: "single_char_kind c = Some k \<Longrightarrow> kind_ok k"
  by (auto simp: single_char_kind_def kind_ok_def split: if_splits)

interpretation ty_token: typed_reader "\<lambda>s. lx_pos s < lx_len s" read_token
proof unfold_locales
  fix s :: lexer assume len: "lx_pos s < lx_len s" and sc: "scalars (lx_chars s)"
  have id_case: "gives_ok (oks (read_ident_or_keyword s))"
    if "is_ascii_lower (peek s) \<or> is_ascii_upper (peek s) \<or> peek s = UNDERSCORE"
    using that sc by (intro ty_ident.typed) (simp_all add: ident_start_def)
  have r_case: "gives_ok (oks (read_ident_or_keyword s))" if "peek s = cc (CHR ''r'')"
    by (rule id_case) (simp add: that char_class_defs)
  have one: "gives_ok (case single_char_kind c of Some k \<Rightarrow> oks (tok k (bump s))
      | None \<Rightarrow> (Inl e, bump s))" for c e
    using single_char_kind_ok [of c] by (auto split: option.splits)
  show "gives_ok (read_token s)"
    unfolding read_token_def Let_def
    by (intro gives_ok_If;
        (rule one | rule operators_ok | rule comments_ok [OF sc] | rule read_byte_ok
         | rule ty_string.typed [OF len sc] | rule ty_char.typed [OF len sc]
         | (rule ty_raw_string.typed [OF _ sc] ty_number.typed [OF _ sc], simp; fail)
         | (rule r_case id_case, simp; fail)
         | simp add: kind_ok_def))
qed

lemma next_token_ok:
  assumes "next_token s = (Inr k, t)" and "scalars (lx_chars s)"
  shows "kind_ok (tok_kind k)"
proof (cases "at_end s")
  case True
  then show ?thesis using assms by (auto simp: next_token_end token_new_def)
next
  case False
  then show ?thesis
    using assms ty_token.token_ok [of "begin_token s" k t] by (simp add: next_token_inside at_end_def)
qed

lemma lexes_ok: "lexes s raw s' \<Longrightarrow> scalars (lx_chars s) \<Longrightarrow> \<forall>t \<in> set raw. kind_ok (tok_kind t)"
proof (induction rule: lexes.induct)
  case (lexes_eof s t s1)
  then show ?case by simp
next
  case (lexes_step s t s1 ts s2)
  then show ?case using next_token_ok [of s t s1] next_token_input [of s "Inr t" s1] by simp
qed

end
