(* ===== verification/Tinox_Lexer_Props.thy ===== *)
theory Tinox_Lexer_Props
  imports Tinox_Token_Types
begin

text \<open>
  What the token stream of \<^verbatim>\<open>Lexer::tokenize\<close> promises its clients: nothing of the input
  is lost, the spans are ordered and lie in the input, the end marker is last, every
  payload is a value of its type, and operators are read by longest match.
\<close>

text \<open>
  C7. When the lexer accepts an input of less than \<open>2 ^ 32\<close> characters, its tokens are
  the significant ones of a sequence of tokens whose texts, put one after the other, are
  the input, each token beginning where the one before ended.
\<close>

theorem tokenize_lossless:
  assumes "length input < 2 ^ 32" and "tokenize (lexer_new input) = (Inr toks, s')"
  shows "\<exists>raw. lexes (lexer_new input) raw s' \<and> toks = significant raw
    \<and> concat (map (tok_text input) raw) = input
    \<and> successively (\<lambda>a b. tok_hi a = tok_lo b) raw"
proof -
  obtain raw where r: "lexes (lexer_new input) raw s'" "toks = significant raw"
    using tokenize_lexes [OF assms(2)] by blast
  moreover have "concat (map (tok_text input) raw) = input"
      "successively (\<lambda>a b. tok_hi a = tok_lo b) raw"
    using lexes_tile [OF r(1)] assms(1) by (simp_all add: lexer_new_def)
  ultimately show ?thesis by blast
qed

theorem tokenize_lossless_witness:
  "\<exists>toks s' raw. tokenize (lexer_new (lit ''a+=1//c'')) = (Inr toks, s')
    \<and> map tok_kind toks = [T_Ident (lit ''a''), T_PlusEquals, T_Integer 1, T_Eof]
    \<and> toks = significant raw \<and> concat (map (tok_text (lit ''a+=1//c'')) raw) = lit ''a+=1//c''"
proof -
  have "map_sum id (map tok_kind) (fst (tokenize (lexer_new (lit ''a+=1//c''))))
      = Inr [T_Ident (lit ''a''), T_PlusEquals, T_Integer 1, T_Eof]"
    by code_simp
  then obtain toks s' where t: "tokenize (lexer_new (lit ''a+=1//c'')) = (Inr toks, s')"
    "map tok_kind toks = [T_Ident (lit ''a''), T_PlusEquals, T_Integer 1, T_Eof]"
    by (elim run_ok)
  have "length (lit ''a+=1//c'') < 2 ^ 32" by simp
  from tokenize_lossless [OF this t(1)] obtain raw where "toks = significant raw"
    "concat (map (tok_text (lit ''a+=1//c'')) raw) = lit ''a+=1//c''" by blast
  with t show ?thesis by (intro exI [of _ toks] exI [of _ s'] exI [of _ raw]) simp
qed

text \<open>
  C8. The spans of an accepted input are non-empty (the end marker's apart), lie in
  the input, and come in source order without overlap.
\<close>

theorem tokenize_ordered:
  assumes "length input < 2 ^ 32" and "tokenize (lexer_new input) = (Inr toks, s')"
  shows "sorted_wrt (\<lambda>a b. tok_hi a \<le> tok_lo b) toks
    \<and> (\<forall>t \<in> set toks. tok_hi t \<le> length input \<and> tok_lo t \<le> tok_hi t
          \<and> (tok_kind t \<noteq> T_Eof \<longrightarrow> tok_lo t < tok_hi t))"
proof -
  obtain raw where r: "lexes (lexer_new input) raw s'" "toks = significant raw"
    using tokenize_lexes [OF assms(2)] by blast
  note tile = lexes_tile [OF r(1)]
  have "sorted_wrt (\<lambda>a b. tok_hi a \<le> tok_lo b) raw"
    using tile assms(1) by (intro successively_sorted_wrt) (auto simp: lexer_new_def)
  then show ?thesis
    using tile assms(1) r(2) by (auto simp: lexer_new_def sorted_wrt_filter)
qed

theorem tokenize_ordered_witness:
  "\<exists>toks s'. tokenize (lexer_new (lit ''if (x)'')) = (Inr toks, s') \<and> length toks = 5
    \<and> sorted_wrt (\<lambda>a b. tok_hi a \<le> tok_lo b) toks"
proof -
  have "map_sum id length (fst (tokenize (lexer_new (lit ''if (x)'')))) = Inr 5" by code_simp
  then obtain toks s' where t: "tokenize (lexer_new (lit ''if (x)'')) = (Inr toks, s')" "length toks = 5"
    by (elim run_ok)
  have "length (lit ''if (x)'') < 2 ^ 32" by simp
  from tokenize_ordered [OF this t(1)] t show ?thesis by (intro exI [of _ toks] exI [of _ s']) simp
qed

text \<open>
  The token list of an accepted input ends with the end marker at the end of the
  input, has it nowhere else and holds no whitespace, newline or comment: what the parser
  relies on.
\<close>

theorem tokenize_eof:
  assumes "length input < 2 ^ 32" and "tokenize (lexer_new input) = (Inr toks, s')"
  shows "toks \<noteq> [] \<and> tok_kind (last toks) = T_Eof \<and> tok_lo (last toks) = length input
    \<and> (\<forall>t \<in> set (butlast toks). tok_kind t \<noteq> T_Eof \<and> \<not> is_trivia (tok_kind t))"
proof -
  obtain raw where r: "lexes (lexer_new input) raw s'" "toks = significant raw"
    using tokenize_lexes [OF assms(2)] by blast
  have e: "tok_kind (last raw) = T_Eof" "raw \<noteq> []" "\<forall>t \<in> set (butlast raw). tok_kind t \<noteq> T_Eof"
    "tok_lo (last raw) = length input"
    using lexes_Eof [OF r(1)] assms(1) by (auto simp: lexer_new_def)
  have "significant raw = significant (butlast raw @ [last raw])" using e(2) by simp
  also have "\<dots> = significant (butlast raw) @ [last raw]"
    using e(1) by (simp add: is_trivia_def)
  finally show ?thesis using e r(2) by auto
qed

theorem tokenize_eof_witness:
  "\<exists>toks s'. tokenize (lexer_new (lit ''x /* y */'')) = (Inr toks, s') \<and> length toks = 2
    \<and> tok_kind (last toks) = T_Eof \<and> tok_lo (last toks) = 9"
proof -
  have "map_sum id length (fst (tokenize (lexer_new (lit ''x /* y */'')))) = Inr 2" by code_simp
  then obtain toks s' where t: "tokenize (lexer_new (lit ''x /* y */'')) = (Inr toks, s')" "length toks = 2"
    by (elim run_ok)
  have "length (lit ''x /* y */'') < 2 ^ 32" by simp
  from tokenize_eof [OF this t(1)] t show ?thesis by (intro exI [of _ toks] exI [of _ s']) simp
qed

text \<open>
  C10. Every token of an accepted text of Unicode scalar values is well typed: integer
  literals lie in the range of \<^verbatim>\<open>i64\<close>, float literals are finite, characters and strings
  hold scalar values, an identifier is spelled as one and is no keyword, and the kinds the
  lexer has no rule for never occur.
\<close>

theorem tokenize_typed:
  assumes "scalars input" and "tokenize (lexer_new input) = (Inr toks, s')"
  shows "\<forall>t \<in> set toks. kind_ok (tok_kind t)"
  using tokenize_lexes [OF assms(2)] lexes_ok [of "lexer_new input"] assms(1)
  by (auto simp: lexer_new_def)

theorem tokenize_typed_witness:
  "\<exists>toks s'. tokenize (lexer_new (lit ''0xff \"a\" z'')) = (Inr toks, s')
    \<and> map tok_kind toks = [T_Integer 255, T_String (lit ''a''), T_Ident (lit ''z''), T_Eof]
    \<and> ident_ok (lit ''z'')"
proof -
  have "map_sum id (map tok_kind) (fst (tokenize (lexer_new (lit ''0xff \"a\" z''))))
      = Inr [T_Integer 255, T_String (lit ''a''), T_Ident (lit ''z''), T_Eof]"
    by code_simp
  then obtain toks s' where t: "tokenize (lexer_new (lit ''0xff \"a\" z'')) = (Inr toks, s')"
    "map tok_kind toks = [T_Integer 255, T_String (lit ''a''), T_Ident (lit ''z''), T_Eof]"
    by (elim run_ok)
  have "scalars (lit ''0xff \"a\" z'')" by (simp add: is_scalar_def)
  from tokenize_typed [OF this t(1)] t(2) have "kind_ok (T_Ident (lit ''z''))" by auto
  with t show ?thesis by (intro exI [of _ toks] exI [of _ s']) simp
qed

text \<open>
  The lexer always ends, and reports at most one token or error per character of the
  input, plus the end marker.
\<close>

theorem tokenize_bounded:
  "case fst (tokenize (lexer_new input)) of
     Inl errs \<Rightarrow> errs \<noteq> [] \<and> length errs \<le> length input
   | Inr toks \<Rightarrow> length toks \<le> length input + 1"
proof -
  obtain toks errs s' where run: "tokenize_loop (lexer_new input) [] [] = (toks, errs, s')"
    using prod_cases3 by blast
  have "length toks + length errs \<le> length input + 1"
    using tokenize_loop_length [OF run] by (simp add: lexer_new_def)
  moreover have "toks \<noteq> []" using tokenize_loop_nonempty [OF run] .
  ultimately show ?thesis using run
    by (cases toks) (auto simp: tokenize_def split: prod.splits)
qed

section \<open>Recovery after an error\<close>

text \<open>A character no token begins with.\<close>

definition unexpected :: "rchar \<Rightarrow> bool" where
  "unexpected c \<longleftrightarrow> \<not> is_ident_char c
     \<and> c \<notin> set ([NL, TAB, CR, DQUOTE, SQUOTE, BSLASH] @ lit '' /+-*%=!<>&|^.:?~;,@(){}[]'')"

lemma rest_begin_token: "rest (begin_token s) = rest s"
  by (simp add: rest_def)

lemma read_token_unexpected:
  assumes "unexpected (peek s)"
  shows "read_token s = (Inl (error_new (mk_span s) (lit ''unexpected character: '' @ [peek s])), bump s)"
proof -
  define c where "c = peek s"
  have "\<not> is_ident_char c" "c \<notin> set ([NL, TAB, CR, DQUOTE, SQUOTE, BSLASH] @ lit '' /+-*%=!<>&|^.:?~;,@(){}[]'')"
    using assms unfolding unexpected_def c_def by blast+
  then have "c \<noteq> cc (CHR ''r'')" "\<not> is_ascii_digit c" "\<not> is_ascii_lower c" "\<not> is_ascii_upper c" "c \<noteq> UNDERSCORE"
    "single_char_kind c = None"
    "c \<notin> set ([NL, TAB, CR, DQUOTE, SQUOTE] @ lit '' /+-*%=!<>&|^.:?'')"
    by (auto simp: is_ident_char_def char_class_defs single_char_kind_def)
  then show ?thesis unfolding read_token_def Let_def c_def [symmetric] by simp
qed

lemma tokenize_loop_unexpected:
  "list_all unexpected (rest s) \<Longrightarrow>
     \<exists>t es s'. tokenize_loop s toks errs = (toks @ [t], errs @ es, s') \<and> 2 * length es = length (rest s) + length (rest s) mod 2"
proof (induction "length (rest s)" arbitrary: s errs rule: less_induct)
  case less
  show ?case
  proof (cases "rest s")
    case Nil
    then have "at_end s" by (metis at_end_def not_less rest_nonempty)
    then show ?thesis
      using Nil by (simp add: tokenize_loop.simps [of s] next_token_end token_new_def)
  next
    case (Cons c cs)
    let ?s1 = "bump (begin_token s)"
    let ?s2 = "?s1\<lparr>lx_pos := lx_pos ?s1 + 1\<rparr>"
    have in_s: "\<not> at_end s" using Cons rest_nonempty [of s] by (simp add: at_end_def)
    have "peek (begin_token s) = c" using Cons by (simp add: peek_rest rest_begin_token)
    moreover have "unexpected c" using less.prems Cons by simp
    ultimately obtain e where n: "next_token s = (Inl e, ?s1)"
      using in_s read_token_unexpected [of "begin_token s"] by (simp add: next_token_inside)
    have r2: "rest ?s2 = drop 2 (rest s)" by (simp add: rest_def)
    have "list_all unexpected (rest ?s2)"
      unfolding r2 using less.prems by (auto simp: list_all_iff dest: in_set_dropD)
    moreover have "length (rest ?s2) < length (rest s)" unfolding r2 using Cons by simp
    ultimately obtain t es s' where IH: "tokenize_loop ?s2 toks (errs @ [e]) = (toks @ [t], (errs @ [e]) @ es, s')"
      "2 * length es = length (rest ?s2) + length (rest ?s2) mod 2"
      using less.hyps by blast
    have "tokenize_loop s toks errs = (toks @ [t], errs @ (e # es), s')"
      using IH(1) n by (simp add: tokenize_loop.simps [of s])
    moreover have "2 * length (e # es) = length (rest s) + length (rest s) mod 2"
      using IH(2) Cons unfolding r2 by (cases cs) auto
    ultimately show ?thesis by blast
  qed
qed

text \<open>
  Recovery skips one character too many: after an unexpected character, already
  consumed by \<^verbatim>\<open>next_token\<close>, the loop moves the position once more, so of a run of
  unexpected characters only every second one is reported.
\<close>

theorem tokenize_reports_every_second:
  assumes "list_all unexpected input" and "input \<noteq> []"
  shows "\<exists>errs. fst (tokenize (lexer_new input)) = Inl errs \<and> length errs = (length input + 1) div 2"
proof -
  have r: "rest (lexer_new input) = input" by (simp add: rest_def lexer_new_def)
  obtain t es s' where run: "tokenize_loop (lexer_new input) [] [] = ([] @ [t], [] @ es, s')"
    and len: "2 * length es = length input + length input mod 2"
    using tokenize_loop_unexpected [of "lexer_new input" "[]" "[]"] assms(1) unfolding r by blast
  have l: "length es = (length input + 1) div 2" using len by presburger
  moreover have "es \<noteq> []" using l assms(2) by (cases input) auto
  ultimately show ?thesis using run by (intro exI [of _ es]) (simp add: tokenize_def)
qed

theorem tokenize_reports_every_second_witness:
  "\<exists>errs. fst (tokenize (lexer_new (lit ''##''))) = Inl errs \<and> length errs = 1"
proof -
  have "list_all unexpected (lit ''##'')" "lit ''##'' \<noteq> []"
    by (simp_all add: unexpected_def is_ident_char_def char_class_defs)
  from tokenize_reports_every_second [OF this] show ?thesis by simp
qed

end
