(* ===== verification/Tinox_Lexer_Operators.thy ===== *)
theory Tinox_Lexer_Operators
  imports Tinox_Token_Types "HOL-Library.Sublist"
begin

text \<open>
  The nest of \<^verbatim>\<open>read_plus\<close>, ..., \<^verbatim>\<open>read_question\<close> against a specification: a table of the
  operators and punctuation, from which the longest one at the cursor is taken.
\<close>

section \<open>Longest match\<close>

definition operator_table :: "(rstring \<times> token_kind) list" where
  "operator_table =
    [(lit ''+'', T_Plus), (lit ''++'', T_PlusPlus), (lit ''+='', T_PlusEquals),
     (lit ''-'', T_Minus), (lit ''--'', T_MinusMinus), (lit ''-='', T_MinusEquals),
     (lit ''->'', T_ThinArrow), (lit ''*'', T_Star), (lit ''*='', T_StarEquals),
     (lit ''/'', T_Slash), (lit ''/='', T_SlashEquals),
     (lit ''%'', T_Percent), (lit ''%='', T_PercentEquals),
     (lit ''='', T_Equals), (lit ''=='', T_EqualsEquals), (lit ''=>'', T_FatArrow),
     (lit ''!'', T_Bang), (lit ''!='', T_BangEquals), (lit ''!?'', T_QuestionQuestion),
     (lit ''<'', T_Less), (lit ''<='', T_LessEquals), (lit ''<<'', T_LessLess),
     (lit ''<<='', T_LessLessEquals), (lit ''>'', T_Greater), (lit ''>='', T_GreaterEquals),
     (lit ''>>'', T_GreaterGreater), (lit ''>>='', T_GreaterGreaterEquals),
     (lit ''>>>'', T_GreaterGreaterGreater), (lit ''>>>='', T_GreaterGreaterGreaterEquals),
     (lit ''&'', T_Ampersand), (lit ''&&'', T_AmpAmp), (lit ''&='', T_AmpersandEquals),
     (lit ''|'', T_Bar), (lit ''||'', T_BarBar), (lit ''|='', T_BarEquals),
     (lit ''^'', T_Caret), (lit ''^='', T_CaretEquals),
     (lit ''.'', T_Dot), (lit ''..'', T_DotDot), (lit ''...'', T_DotDotDot),
     (lit '':'', T_Colon), (lit ''::'', T_ColonColon), (lit '':='', T_FatArrow),
     (lit ''?'', T_Question), (lit ''??'', T_QuestionQuestion), (lit ''?:'', T_QuestionColon),
     (lit ''~'', T_Tilde), ([BSLASH], T_Backslash), (lit '';'', T_Semicolon),
     (lit '','', T_Comma), (lit ''@'', T_At), (lit ''('', T_LParen), (lit '')'', T_RParen),
     (lit ''{'', T_LBrace), (lit ''}'', T_RBrace), (lit ''['', T_LBracket), (lit '']'', T_RBracket)]"

definition starts_comment :: "rstring \<Rightarrow> bool" where
  "starts_comment r \<longleftrightarrow> prefix (lit ''//'') r \<or> prefix (lit ''/*'') r"

definition longest_operator :: "rstring \<Rightarrow> rstring \<Rightarrow> bool" where
  "longest_operator op r \<longleftrightarrow> prefix op r \<and> list_all (\<lambda>(op', _). prefix op' r \<longrightarrow> length op' \<le> length op) operator_table"

lemma oks_tok: "oks (tok k s) = ok_tok k s"
  by (simp add: oks_def tok_def ok_tok_def)

lemma oks_If: "oks (if c then a else b) = (if c then oks a else oks b)"
  by simp

text \<open>Where \<open>read_token\<close> goes, by the first character.\<close>

lemma read_token_dispatch:
  "peek s = cc (CHR ''+'') \<Longrightarrow> read_token s = oks (read_plus s)"
  "peek s = cc (CHR ''-'') \<Longrightarrow> read_token s = oks (read_minus s)"
  "peek s = cc (CHR ''*'') \<Longrightarrow> read_token s = oks (read_star s)"
  "peek s = cc (CHR ''%'') \<Longrightarrow> read_token s = oks (read_percent s)"
  "peek s = cc (CHR ''='') \<Longrightarrow> read_token s = oks (read_equals s)"
  "peek s = cc (CHR ''!'') \<Longrightarrow> read_token s = oks (read_bang s)"
  "peek s = cc (CHR ''<'') \<Longrightarrow> read_token s = oks (read_less s)"
  "peek s = cc (CHR ''>'') \<Longrightarrow> read_token s = oks (read_greater s)"
  "peek s = cc (CHR ''&'') \<Longrightarrow> read_token s = oks (read_ampersand s)"
  "peek s = cc (CHR ''|'') \<Longrightarrow> read_token s = oks (read_bar s)"
  "peek s = cc (CHR ''^'') \<Longrightarrow> read_token s = oks (read_caret s)"
  "peek s = cc (CHR ''.'') \<Longrightarrow> read_token s = oks (read_dot s)"
  "peek s = cc (CHR '':'') \<Longrightarrow> read_token s = oks (read_colon s)"
  "peek s = cc (CHR ''?'') \<Longrightarrow> read_token s = oks (read_question s)"
  "peek s = cc (CHR ''/'') \<Longrightarrow> peek_next s \<noteq> cc (CHR ''/'') \<Longrightarrow> peek_next s \<noteq> cc (CHR ''*'')
     \<Longrightarrow> read_token s = oks (read_operator s)"
  by (simp_all add: read_token_def Let_def char_class_defs)

lemma read_token_single:
  assumes "single_char_kind (peek s) = Some k"
  shows "read_token s = oks (tok k (bump s))"
  using assms by (auto simp: read_token_def Let_def char_class_defs single_char_kind_def split: if_splits)

text \<open>The longest entry of the table, by cases on the entry and on the character after it.\<close>

lemma read_operator:
  assumes "(op, k) \<in> set operator_table" and "longest_operator op (rest s)"
    and "\<not> starts_comment (rest s)"
  shows "read_token s = ok_tok k (skip (length op) s)"
proof -
  obtain r where r: "rest s = op @ r" using assms(2) by (auto simp: longest_operator_def prefix_def)
  have "r = [] \<or> (\<exists>c cs. r = c # cs)" by (cases r) auto
  then show ?thesis
    using assms(1) assms(2,3) r
    unfolding longest_operator_def starts_comment_def
    by (simp add: operator_table_def)
      (elim disjE conjE exE; simp add: operator_defs read_token_dispatch oks_tok Let_def
        peek_rest peek_next_rest bump_eq_skip read_token_single single_char_kind_def)
qed

text \<open>
  Operators and punctuation are read by longest match: the token at the cursor is
  the longest entry of the table that the rest of the input begins with, and exactly its
  characters are consumed. Comments take precedence over the division operators.
\<close>

theorem read_token_longest_operator:
  assumes "(op, k) \<in> set operator_table" and "longest_operator op (rest s)"
    and "\<not> starts_comment (rest s)"
  shows "read_token s = ok_tok k (skip (length op) s)"
  by (rule read_operator [OF assms])

theorem read_token_longest_operator_witness:
  "\<exists>s. rest s = lit ''>>=1'' \<and> longest_operator (lit ''>>='') (rest s)
    \<and> read_token s = ok_tok T_GreaterGreaterEquals (skip 3 s)"
proof -
  let ?s = "lexer_new (lit ''>>=1'')"
  have r: "rest ?s = lit ''>>=1''" by (simp add: rest_def lexer_new_def)
  have "longest_operator (lit ''>>='') (rest ?s)"
    unfolding r by (simp add: longest_operator_def operator_table_def)
  moreover have "\<not> starts_comment (rest ?s)" unfolding r by (simp add: starts_comment_def)
  moreover have "(lit ''>>='', T_GreaterGreaterEquals) \<in> set operator_table"
    by (simp add: operator_table_def)
  ultimately have "read_token ?s = ok_tok T_GreaterGreaterEquals (skip (length (lit ''>>='')) ?s)"
    and "longest_operator (lit ''>>='') (rest ?s)"
    using read_token_longest_operator by blast+
  with r show ?thesis by (intro exI [of _ ?s]) (simp add: numeral_3_eq_3)
qed

end
