(* ===== verification/Tinox_Lexer_Roundtrip.thy ===== *)
theory Tinox_Lexer_Roundtrip
  imports Tinox_Lexer_Operators
begin

text \<open>
  Round trips of the lexer: words, integer literals in the four radices, strings with
  escapes and interpolation, raw strings and characters are read back as the value that
  was written.
\<close>

section \<open>Identifiers and keywords\<close>

lemma keywords_not_wildcard: "list_all (\<lambda>(t, _). t \<noteq> [UNDERSCORE]) keyword_table"
  by code_simp

lemma ident_not_quote: "is_ident_char c \<Longrightarrow> c \<notin> {DQUOTE, SQUOTE, cc (CHR ''#'')}"
  by (auto simp: is_ident_char_def char_class_defs)

lemma zero_not_quote: "(0 :: rchar) \<notin> {DQUOTE, SQUOTE, cc (CHR ''#'')}"
  by simp

lemma read_token_ident:
  assumes "ident_start (peek s)" and "peek_next s \<notin> {DQUOTE, SQUOTE, cc (CHR ''#'')}"
  shows "read_token s = oks (read_ident_or_keyword s)"
proof -
  define c where "c = peek s"
  have "c \<ge> 65" using assms(1) by (auto simp: c_def ident_start_def char_class_defs)
  then have "c \<noteq> NL" "c \<noteq> 32" "c \<noteq> TAB" "c \<noteq> CR" "c \<noteq> 47" "c \<noteq> DQUOTE" "c \<noteq> SQUOTE"
    "\<not> is_ascii_digit c" by (auto simp: char_class_defs)
  moreover have "is_ascii_lower c \<or> is_ascii_upper c \<or> c = UNDERSCORE"
    using assms(1) by (simp add: c_def ident_start_def)
  ultimately show ?thesis
    using assms(2) unfolding read_token_def Let_def c_def [symmetric] by simp
qed

text \<open>
  A word of letters, digits and underscores that does not start with a digit and
  ends where the next character is none of them (nor a quote or \<^verbatim>\<open>#\<close>, which after \<^verbatim>\<open>r\<close>
  and \<^verbatim>\<open>b\<close> begin other literals) is read whole, as the keyword its spelling has in the
  table, as a boolean, as the wildcard, or as an identifier with exactly that spelling.
\<close>

lemma read_token_word:
  assumes "rest s = w @ r" and "w \<noteq> []" and "list_all is_ident_char w" and "ident_start (hd w)"
    and "r = [] \<or> (\<not> is_ident_char (hd r) \<and> hd r \<notin> {DQUOTE, SQUOTE, cc (CHR ''#'')})"
  shows "read_token s = ok_tok (ident_kind w) (skip (length w) s)
    \<and> (ident_kind w = T_Ident w \<longleftrightarrow> ident_ok w)
    \<and> (\<forall>k. (w, k) \<in> set keyword_table \<longrightarrow> k \<notin> {K_True, K_False} \<longrightarrow> ident_kind w = T_Keyword k)"
proof (intro conjI allI impI)
  have tw: "takeWhile is_ident_char (rest s) = w"
    using assms(1,3,5) by (cases r) (auto simp: takeWhile_append list_all_iff)
  have eq: "oks (read_ident_or_keyword s) = ok_tok (ident_kind w) (skip (length w) s)"
    using ident_text [of s is_ident_char]
    by (simp add: read_ident_or_keyword_def Let_def oks_tok bump_while_skip tw)
  have p: "peek s = hd w" using assms(1,2) by (simp add: peek_rest hd_append2 split: list.splits)
      (metis append_is_Nil_conv list.sel(1) hd_append2)
  have n: "peek_next s \<notin> {DQUOTE, SQUOTE, cc (CHR ''#'')}"
  proof (cases "tl w")
    case Nil
    then have "w = [hd w]" using assms(2) by (metis list.collapse)
    then show ?thesis using assms(1,5) by (cases r) (metis append.simps peek_next_rest
        list.simps(4,5) list.sel(1) zero_not_quote, metis append.simps peek_next_rest list.simps(5) list.sel(1) list.distinct(1))
  next
    case (Cons c cs)
    then have "w = hd w # c # cs" using assms(2) by (metis list.collapse)
    then show ?thesis using ident_not_quote [of c] assms(1,3)
      by (metis append_Cons list.pred_inject(2) list.simps(5) peek_next_rest)
  qed
  show "read_token s = ok_tok (ident_kind w) (skip (length w) s)"
    using read_token_ident [of s] n assms(4) p eq by simp
  show "ident_kind w = T_Ident w \<longleftrightarrow> ident_ok w"
    using ident_kind_ok [of w] assms(2-4) ident_start_char [of "hd w"]
    by (auto simp: ident_kind_def ident_ok_def split: option.splits)
  fix k assume k: "(w, k) \<in> set keyword_table" and "k \<notin> {K_True, K_False}"
  moreover have "keyword_lookup w = Some k"
    using k keyword_spellings_distinct by (simp add: keyword_lookup_def)
  moreover have "w \<noteq> [UNDERSCORE]" using k keywords_not_wildcard by (force simp: list_all_iff)
  ultimately show "ident_kind w = T_Keyword k"
    using keyword_entries by (auto simp: ident_kind_def)
qed

section \<open>Integer literals\<close>

definition digit_char :: "nat \<Rightarrow> rchar" where
  "digit_char d = (if d < 10 then cc (CHR ''0'') + d else cc (CHR ''a'') + (d - 10))"

text \<open>The digits of a number, most significant first, in lower case.\<close>

function radix_text :: "nat \<Rightarrow> nat \<Rightarrow> rstring" where
  "radix_text b n =
     (if b < 2 \<or> n < b then [digit_char n] else radix_text b (n div b) @ [digit_char (n mod b)])"
  by pat_completeness auto
termination
  by (relation "measure snd") (auto intro: div_less_dividend)

declare radix_text.simps [simp del]

lemma digit_val_char: "d < b \<Longrightarrow> b \<le> 16 \<Longrightarrow> digit_val b (digit_char d) = Some d"
  by (auto simp: digit_val_def digit_char_def char_class_defs)

lemma digits_val_append:
  "digits_val b (xs @ ys) acc = (case digits_val b xs acc of None \<Rightarrow> None | Some v \<Rightarrow> digits_val b ys v)"
  by (induction xs arbitrary: acc) (auto split: option.splits)

lemma radix_text_nonempty [simp]: "radix_text b n \<noteq> []" "[] \<noteq> radix_text b n"
  by (subst radix_text.simps, simp)+

lemma digits_val_radix_text: "2 \<le> b \<Longrightarrow> b \<le> 16 \<Longrightarrow> digits_val b (radix_text b n) 0 = Some n"
proof (induction b n rule: radix_text.induct)
  case (1 b n)
  then show ?case
    by (cases "n < b") (auto simp: radix_text.simps [of b n] digit_val_char digits_val_append)
qed

lemma i64_from_radix_text:
  "2 \<le> b \<Longrightarrow> b \<le> 16 \<Longrightarrow>
     i64_from_str_radix b (radix_text b n) = (if int n \<le> i64_max then Some (int n) else None)"
  by (simp add: i64_from_str_radix_def digits_val_radix_text)

lemma radix_text_digits:
  "2 \<le> b \<Longrightarrow> b \<le> 16 \<Longrightarrow> c \<in> set (radix_text b n) \<Longrightarrow> \<exists>d < b. c = digit_char d"
proof (induction b n rule: radix_text.induct)
  case (1 b n)
  have "\<exists>d < b. digit_char (n mod b) = digit_char d"
    using 1(2) by (intro exI [of _ "n mod b"]) simp
  then show ?case using 1 by (cases "n < b") (auto simp: radix_text.simps [of b n])
qed

text \<open>The digits of \<open>n\<close> with underscores anywhere between and after them.\<close>

definition written :: "nat \<Rightarrow> nat \<Rightarrow> rstring \<Rightarrow> bool" where
  "written b n w \<longleftrightarrow> filter (\<lambda>c. c \<noteq> UNDERSCORE) w = radix_text b n"

definition ends_number :: "rstring \<Rightarrow> bool" where
  "ends_number r \<longleftrightarrow> r = [] \<or> (\<not> is_ident_char (hd r) \<and> hd r \<noteq> cc (CHR ''.''))"

lemma written_chars:
  assumes "written b n w" and "2 \<le> b" and "b \<le> 16" and "c \<in> set w"
  shows "c = UNDERSCORE \<or> (\<exists>d < b. c = digit_char d)"
proof (cases "c = UNDERSCORE")
  case False
  then have "c \<in> set (radix_text b n)" using assms(1,4) by (simp flip: assms(1) [unfolded written_def])
  then show ?thesis using radix_text_digits assms(2,3) by blast
qed simp

lemma digit_char_decimal: "d < 10 \<Longrightarrow> is_ascii_digit (digit_char d)"
  by (simp add: digit_char_def char_class_defs)

lemma takeWhile_word:
  assumes "\<forall>c \<in> set w. P c" and "r = [] \<or> \<not> P (hd r)"
  shows "takeWhile P (w @ r) = w"
  using assms by (cases r) (auto simp: takeWhile_append)

lemma peek_after:
  assumes "rest s = w @ r"
  shows "peek (skip (length w) s) = (case r of [] \<Rightarrow> 0 | c # _ \<Rightarrow> c)"
  by (simp add: peek_rest assms)

lemma read_decimal_word:
  assumes "rest s = w @ r" and "written 10 n w" and "ends_number r"
  shows "read_decimal s =
     (if int n \<le> i64_max then ok_tok (T_Integer (int n)) (skip (length w) s)
      else err (lit ''integer literal out of range for Int64: '' @ radix_text 10 n) (skip (length w) s))"
proof -
  define s1 where "s1 = skip (length w) s"
  have "\<forall>c \<in> set w. is_number_char c"
    using written_chars [OF assms(2)] digit_char_decimal by (force simp: is_number_char_def)
  moreover have "r = [] \<or> \<not> is_number_char (hd r)"
    using assms(3) by (auto simp: ends_number_def is_number_char_def is_ident_char_def)
  ultimately have b: "bump_while is_number_char s = s1"
    using takeWhile_word [of w is_number_char r] by (simp only: bump_while_skip assms(1) s1_def)
  have p: "peek s1 \<noteq> cc (CHR ''.'')" "peek s1 \<noteq> UNDERSCORE" "peek s1 \<noteq> cc (CHR ''u'')" "peek s1 \<noteq> cc (CHR ''i'')"
    using assms(3) unfolding s1_def peek_after [OF assms(1)]
    by (auto simp: ends_number_def is_ident_char_def char_class_defs split: list.splits)
  have "read_int_suffix s1 = (None, s1)"
    unfolding read_int_suffix_def Let_def int_suffix_at_def using p by simp
  moreover have "digits_text s1 (lx_pos s) (lx_pos s1) = radix_text 10 n"
    using assms(1,2) slice_rest [of s "length w"] by (simp add: digits_text_def s1_def written_def)
  ultimately show ?thesis
    unfolding read_decimal_def Let_def b using p(1) by (simp add: i64_from_radix_text s1_def)
qed

lemma digits_no_prefix: "is_ascii_digit c \<or> c = UNDERSCORE \<Longrightarrow>
  c \<noteq> cc (CHR ''x'') \<and> c \<noteq> cc (CHR ''X'') \<and> c \<noteq> cc (CHR ''o'') \<and> c \<noteq> cc (CHR ''O'')
  \<and> c \<noteq> cc (CHR ''b'') \<and> c \<noteq> cc (CHR ''B'')"
  by (auto simp: char_class_defs)

text \<open>
  A decimal integer literal reads back as the number it writes: the digits of \<open>n\<close>,
  with underscores anywhere after the first one, followed by neither a word character nor
  a point, are the literal \<open>n\<close> when it fits an \<^verbatim>\<open>i64\<close> and are refused otherwise. Exactly
  the literal is consumed.
\<close>

lemma read_number_decimal:
  assumes "rest s = w @ r" and "written 10 n w" and "hd w \<noteq> UNDERSCORE" and "ends_number r"
  shows "read_number s =
     (if int n \<le> i64_max then ok_tok (T_Integer (int n)) (skip (length w) s)
      else err (lit ''integer literal out of range for Int64: '' @ radix_text 10 n) (skip (length w) s))"
proof -
  obtain d ds where w: "w = d # ds" using assms(2) by (cases w) (auto simp: written_def)
  note dec = read_decimal_word [OF assms(1,2,4)]
  show ?thesis
  proof (cases "d = cc (CHR ''0'') \<and> ds = []")
    case True
    have "n = 0" using assms(2) digits_val_radix_text [of 10 n] True
      by (simp add: w written_def flip: assms(2) [unfolded written_def])
        (simp add: w digit_val_def char_class_defs)
    have "\<not> is_ident_char (peek_next s)" "peek_next s \<noteq> cc (CHR ''.'')"
      using assms(1,4) True w
      by (auto simp: peek_next_rest ends_number_def is_ident_char_def char_class_defs split: list.splits)
    then have "read_number s = ok_tok (T_Integer 0) (bump s)"
      using True assms(1)
      unfolding read_number_def Let_def by (auto simp: w peek_rest is_ident_char_def char_class_defs)
    then show ?thesis using \<open>n = 0\<close> True by (simp add: w i64_max_def bump_eq_skip)
  next
    case False
    then have "d \<noteq> cc (CHR ''0'') \<or> (\<exists>c cs. ds = c # cs)" by (cases ds) auto
    moreover have "is_ascii_digit (peek_next s) \<or> peek_next s = UNDERSCORE" if "ds = c # cs" for c cs
    proof -
      have "c \<in> set w" using that w by simp
      then have "is_ascii_digit c \<or> c = UNDERSCORE"
        using written_chars [OF assms(2)] digit_char_decimal by fastforce
      then show ?thesis using assms(1) that w by (simp add: peek_next_rest)
    qed
    ultimately have "read_number s = read_decimal s"
      using assms(1) digits_no_prefix [of "peek_next s"]
      unfolding read_number_def Let_def by (auto simp: peek_rest w)
    then show ?thesis using dec by simp
  qed
qed

text \<open>
  The hexadecimal, octal and binary literals: after \<^verbatim>\<open>0x\<close>, \<^verbatim>\<open>0o\<close> or \<^verbatim>\<open>0b\<close> in either
  case, the digits of \<open>n\<close> in that radix with underscores anywhere are the literal \<open>n\<close>
  when it fits an \<^verbatim>\<open>i64\<close>, and an error otherwise.
\<close>

definition radix_prefixes :: "(rchar \<times> nat) list" where
  "radix_prefixes = [(cc (CHR ''x''), 16), (cc (CHR ''X''), 16), (cc (CHR ''o''), 8),
     (cc (CHR ''O''), 8), (cc (CHR ''b''), 2), (cc (CHR ''B''), 2)]"

lemma radix_int_word:
  assumes "rest s = [cc (CHR ''0''), p] @ w @ r" and "written b n w" and "2 \<le> b" and "b \<le> 16"
    and "\<forall>d < b. P (digit_char d)" and "p \<noteq> UNDERSCORE"
    and "r = [] \<or> (\<not> P (hd r) \<and> hd r \<noteq> UNDERSCORE)"
  shows "radix_int P b m (lx_pos s) s =
     (if int n \<le> i64_max then ok_tok (T_Integer (int n)) (skip (2 + length w) s)
      else err (m @ [cc (CHR ''0''), p] @ radix_text b n) (skip (2 + length w) s))"
proof -
  define s1 where "s1 = skip (2 + length w) s"
  have "takeWhile (\<lambda>c. P c \<or> c = UNDERSCORE) (w @ r) = w"
    using written_chars [OF assms(2-4)] assms(5,7) by (intro takeWhile_word) auto
  moreover have "rest (bump (bump s)) = w @ r" using assms(1) by simp
  ultimately have b: "bump_while (\<lambda>c. P c \<or> c = UNDERSCORE) (bump (bump s)) = s1"
    by (simp only: bump_while_skip) (simp add: s1_def bump_eq_skip)
  have "digits_text s1 (lx_pos s) (lx_pos s1) = [cc (CHR ''0''), p] @ radix_text b n"
    using assms(1,2,6) slice_rest [of s "2 + length w"] by (simp add: digits_text_def s1_def written_def)
  then show ?thesis
    unfolding radix_int_def Let_def b using assms(3,4) by (simp add: i64_from_radix_text s1_def)
qed

theorem read_number_radix:
  assumes "(p, b) \<in> set radix_prefixes" and "rest s = [cc (CHR ''0''), p] @ w @ r"
    and "written b n w" and "ends_number r"
  shows "if int n \<le> i64_max then read_number s = ok_tok (T_Integer (int n)) (skip (2 + length w) s)
     else \<exists>m. read_number s = err m (skip (2 + length w) s)"
proof -
  have p: "peek s = cc (CHR ''0'')" "peek_next s = p" using assms(2) by (simp_all add: peek_rest peek_next_rest)
  have d: "\<forall>d < 16. is_ascii_hexdigit (digit_char d)"
    "\<forall>d < 8. is_ascii_digit (digit_char d) \<and> digit_char d \<noteq> cc (CHR ''8'') \<and> digit_char d \<noteq> cc (CHR ''9'')"
    "\<forall>d < 2. digit_char d = cc (CHR ''0'') \<or> digit_char d = cc (CHR ''1'')"
    by (auto simp: digit_char_def char_class_defs)
  have e: "r = [] \<or> (\<not> is_ascii_hexdigit (hd r) \<and> hd r \<noteq> UNDERSCORE)"
    "r = [] \<or> (\<not> (is_ascii_digit (hd r) \<and> hd r \<noteq> cc (CHR ''8'') \<and> hd r \<noteq> cc (CHR ''9'')) \<and> hd r \<noteq> UNDERSCORE)"
    "r = [] \<or> (\<not> (hd r = cc (CHR ''0'') \<or> hd r = cc (CHR ''1'')) \<and> hd r \<noteq> UNDERSCORE)"
    using assms(4) by (auto simp: ends_number_def is_ident_char_def char_class_defs)
  note lits = radix_int_word [OF assms(2) assms(3), where P = is_ascii_hexdigit]
    radix_int_word [OF assms(2) assms(3), where P = "\<lambda>c. is_ascii_digit c \<and> c \<noteq> cc (CHR ''8'') \<and> c \<noteq> cc (CHR ''9'')"]
    radix_int_word [OF assms(2) assms(3), where P = "\<lambda>c. c = cc (CHR ''0'') \<or> c = cc (CHR ''1'')"]
  consider "b = 16" "p \<in> {cc (CHR ''x''), cc (CHR ''X'')}" | "b = 8" "p \<in> {cc (CHR ''o''), cc (CHR ''O'')}"
    | "b = 2" "p \<in> {cc (CHR ''b''), cc (CHR ''B'')}"
    using assms(1) by (auto simp: radix_prefixes_def)
  then show ?thesis
  proof cases
    case 1
    then have "read_number s = read_hex_int (lx_pos s) s"
      by (auto simp: read_number_def Let_def p)
    then show ?thesis using lits(1) d(1) e(1) 1 by (auto simp: read_hex_int_def)
  next
    case 2
    then have "read_number s = read_octal_int (lx_pos s) s"
      by (auto simp: read_number_def Let_def p)
    then show ?thesis using lits(2) d(2) e(2) 2 by (auto simp: read_octal_int_def)
  next
    case 3
    then have "read_number s = read_binary_int (lx_pos s) s"
      by (auto simp: read_number_def Let_def p)
    then show ?thesis using lits(3) d(3) e(3) 3 by (auto simp: read_binary_int_def)
  qed
qed

theorem read_number_radix_witness:
  "\<exists>s. rest s = lit ''0b1_0'' \<and> read_number s = ok_tok (T_Integer 2) (skip 5 s)"
proof -
  let ?s = "lexer_new (lit ''0b1_0'')"
  have r: "rest ?s = [cc (CHR ''0''), cc (CHR ''b'')] @ lit ''1_0'' @ []"
    by (simp add: rest_def lexer_new_def)
  have "written 2 2 (lit ''1_0'')"
    by (simp add: written_def radix_text.simps [of 2 2] radix_text.simps [of 2 "Suc 0"] digit_char_def)
  moreover have "(cc (CHR ''b''), 2) \<in> set radix_prefixes" by (simp add: radix_prefixes_def)
  moreover have "ends_number []" by (simp add: ends_number_def)
  ultimately have "read_number ?s = ok_tok (T_Integer (int 2)) (skip (2 + length (lit ''1_0'')) ?s)"
    using read_number_radix [of "cc (CHR ''b'')" 2, OF _ r, of 2] by (simp add: i64_max_def)
  with r show ?thesis by (intro exI [of _ ?s]) (simp add: eval_nat_numeral)
qed

end
