(* ===== verification/Tinox_Lexer_Strings.thy ===== *)
theory Tinox_Lexer_Strings
  imports Tinox_Lexer_Roundtrip
begin

text \<open>
  Strings, characters and raw strings: what a printer writes with the escapes of the
  language is read back by \<^verbatim>\<open>read_string\<close>, \<^verbatim>\<open>read_char\<close>, \<^verbatim>\<open>read_escape\<close> and
  \<^verbatim>\<open>read_raw_string\<close>.
\<close>

section \<open>Quoted strings\<close>

definition escape_char :: "rchar \<Rightarrow> rstring" where
  "escape_char c =
     (if c = DQUOTE then [BSLASH, DQUOTE] else if c = BSLASH then [BSLASH, BSLASH]
      else if c = NL then [BSLASH, cc (CHR ''n'')]
      else if c = cc (CHR ''$'') then BSLASH # lit ''x24''
      else [c])"

definition escape :: "rstring \<Rightarrow> rstring" where
  "escape t = concat (map escape_char t)"

lemma escape_simps [simp]: "escape [] = []" "escape (c # t) = escape_char c @ escape t"
  by (simp_all add: escape_def)

lemma rest_two:
  assumes "rest s = a # b # cs"
  shows "Suc (lx_pos s) < lx_len s" and "char_at s (Suc (lx_pos s)) = Some b"
proof -
  show *: "Suc (lx_pos s) < lx_len s" using length_rest [of s] assms by simp
  show "char_at s (Suc (lx_pos s)) = Some b" using char_at_rest [of s 1] assms by simp
qed

lemma hex_digits_2:
  "hex_digits 2 v s = (case read_hex_digit s of
      (Inl e, s1) \<Rightarrow> (Inl e, s1)
    | (Inr d, s1) \<Rightarrow> (case read_hex_digit s1 of
        (Inl e, s2) \<Rightarrow> (Inl e, s2) | (Inr d', s2) \<Rightarrow> (Inr ((v * 16 + d) * 16 + d'), s2)))"
  unfolding numeral_2_eq_2 by (simp split: prod.splits sum.splits)

lemma string_loop_backslash:
  assumes "rest s = BSLASH # x # r" and "read_escape (bump s) = (Inr c, t)"
  shows "string_loop s cur parts i = string_loop t (cur @ [c]) parts i"
  using assms rest_two(1) [OF assms(1)]
  by (simp add: string_loop.simps [of s] peek_rest Let_def)

lemma string_loop_plain:
  assumes "rest s = c # r" and "c \<notin> {DQUOTE, BSLASH, NL, cc (CHR ''$'')}"
  shows "string_loop s cur parts i = string_loop (bump s) (cur @ [c]) parts i"
  using assms by (simp add: string_loop.simps [of s] rest_nonempty peek_rest Let_def)

lemma read_escape_simple:
  assumes "rest s = c # r"
  shows "c = DQUOTE \<Longrightarrow> read_escape s = (Inr DQUOTE, bump s)"
    and "c = BSLASH \<Longrightarrow> read_escape s = (Inr BSLASH, bump s)"
    and "c = SQUOTE \<Longrightarrow> read_escape s = (Inr SQUOTE, bump s)"
    and "c = cc (CHR ''n'') \<Longrightarrow> read_escape s = (Inr NL, bump s)"
  using assms by (simp_all add: read_escape_def peek_rest Let_def)

lemma read_hex_digit_char:
  assumes "rest s = c # r"
  shows "is_ascii_digit c \<Longrightarrow> read_hex_digit s = (Inr (c - cc (CHR ''0'')), bump s)"
  using assms by (simp add: read_hex_digit_def peek_rest Let_def)

lemma read_escape_dollar:
  assumes "rest s = lit ''x24'' @ r"
  shows "read_escape s = (Inr (cc (CHR ''$'')), skip 3 s)"
proof -
  have "rest (bump s) = cc (CHR ''2'') # cc (CHR ''4'') # r" using assms by simp
  then have "read_hex_digit (bump s) = (Inr 2, bump (bump s))"
    "read_hex_digit (bump (bump s)) = (Inr 4, bump (bump (bump s)))"
    using read_hex_digit_char [of "bump s"] read_hex_digit_char [of "bump (bump s)"]
    by (simp_all add: char_class_defs)
  then have "hex_digits 2 0 (bump s) = (Inr 36, skip 3 s)" by (simp add: hex_digits_2 bump_eq_skip)
  then show ?thesis using assms
    by (simp add: read_escape_def peek_rest Let_def from_u32_or_def char_from_u32_def is_scalar_def)
qed

lemma string_loop_escape_char:
  assumes "rest s = escape_char c @ r"
  shows "string_loop s cur parts i = string_loop (skip (length (escape_char c)) s) (cur @ [c]) parts i"
proof -
  have bs: "rest s = BSLASH # x # r' \<Longrightarrow> rest (bump s) = x # r'" for x r' by simp
  consider (q) "c = DQUOTE" | (b) "c = BSLASH" | (n) "c = NL" | (d) "c = cc (CHR ''$'')"
    | (o) "c \<notin> {DQUOTE, BSLASH, NL, cc (CHR ''$'')}" by blast
  then show ?thesis
  proof cases
    case q
    then have r: "rest s = BSLASH # DQUOTE # r" using assms by (simp add: escape_char_def)
    show ?thesis
      using string_loop_backslash [OF r read_escape_simple(1) [OF bs [OF r] refl]] q
      by (simp add: escape_char_def bump_eq_skip)
  next
    case b
    then have r: "rest s = BSLASH # BSLASH # r" using assms by (simp add: escape_char_def)
    show ?thesis
      using string_loop_backslash [OF r read_escape_simple(2) [OF bs [OF r] refl]] b
      by (simp add: escape_char_def bump_eq_skip)
  next
    case n
    then have r: "rest s = BSLASH # cc (CHR ''n'') # r" using assms by (simp add: escape_char_def)
    show ?thesis
      using string_loop_backslash [OF r read_escape_simple(4) [OF bs [OF r] refl]] n
      by (simp add: escape_char_def bump_eq_skip)
  next
    case d
    then have r: "rest s = BSLASH # lit ''x24'' @ r" using assms by (simp add: escape_char_def)
    then have "rest (bump s) = lit ''x24'' @ r" by simp
    moreover have "length (escape_char c) = 4" using d by (simp add: escape_char_def)
    ultimately show ?thesis
      using read_escape_dollar [of "bump s" r]
        string_loop_backslash [of s "cc (CHR ''x'')" "lit ''24'' @ r"] r d
      by (simp add: skip_bump)
  next
    case o
    then show ?thesis using string_loop_plain [of s c r] assms by (simp add: escape_char_def bump_eq_skip)
  qed
qed

lemma string_loop_escape:
  "rest s = escape w @ r \<Longrightarrow>
     string_loop s cur parts i = string_loop (skip (length (escape w)) s) (cur @ w) parts i"
proof (induction w arbitrary: s cur)
  case (Cons c w)
  let ?s = "skip (length (escape_char c)) s"
  have "string_loop s cur parts i = string_loop ?s (cur @ [c]) parts i"
    using string_loop_escape_char [of s c "escape w @ r"] Cons.prems by simp
  moreover have "rest ?s = escape w @ r" using Cons.prems by simp
  ultimately show ?case using Cons.IH [of ?s "cur @ [c]"] by (simp add: add.commute)
qed simp

text \<open>An interpolated source text whose braces match.\<close>

fun balanced :: "nat \<Rightarrow> rstring \<Rightarrow> bool" where
  "balanced d [] \<longleftrightarrow> d = 0"
| "balanced d (c # cs) \<longleftrightarrow>
     (if c = cc (CHR ''{'') then balanced (d + 1) cs
      else if c = cc (CHR ''}'') then d > 0 \<and> balanced (d - 1) cs
      else balanced d cs)"

lemma interp_loop_balanced:
  "rest s = e @ cc (CHR ''}'') # r \<Longrightarrow> balanced d e \<Longrightarrow>
     interp_loop s (Suc d) src = (src @ e, skip (length e + 1) s)"
proof (induction d e arbitrary: s src rule: balanced.induct)
  case (1 d)
  then show ?case
    by (simp add: interp_loop.simps [of s] rest_nonempty peek_rest bump_eq_skip)
next
  case (2 d c cs)
  have r: "rest (bump s) = cs @ cc (CHR ''}'') # r" using 2(4) by simp
  have s: "skip (length cs + 1) (bump s) = skip (length (c # cs) + 1) s" by (simp add: skip_bump)
  consider (o) "c = cc (CHR ''{'')" | (c) "c = cc (CHR ''}'')" | (x) "c \<noteq> cc (CHR ''{'')" "c \<noteq> cc (CHR ''}'')"
    by blast
  then show ?case
  proof cases
    case o
    then have "interp_loop s (Suc d) src = interp_loop (bump s) (Suc (d + 1)) (src @ [c])"
      using 2(4) by (simp add: interp_loop.simps [of s] rest_nonempty peek_rest)
    then show ?thesis using 2(1) [OF o r] 2(5) o s by simp
  next
    case c
    then obtain d' where d: "d = Suc d'" using 2(5) by (cases d) auto
    have "interp_loop s (Suc d) src = interp_loop (bump s) (Suc (d - 1)) (src @ [c])"
      using 2(4) c d by (simp add: interp_loop.simps [of s] rest_nonempty peek_rest)
    then show ?thesis using 2(2) [OF _ c r] 2(5) c s by simp
  next
    case x
    then have "interp_loop s (Suc d) src = interp_loop (bump s) (Suc d) (src @ [c])"
      using 2(4) by (simp add: interp_loop.simps [of s] rest_nonempty peek_rest)
    then show ?thesis using 2(3) [OF x r] 2(5) x s by simp
  qed
qed

definition interp_text :: "rstring \<times> rstring \<Rightarrow> rstring" where
  "interp_text p = lit ''${'' @ fst p @ lit ''}'' @ escape (snd p)"

definition interp_parts :: "rstring \<times> rstring \<Rightarrow> interp_part list" where
  "interp_parts p = [IP_Expr (fst p), IP_Str (snd p)]"

definition string_text :: "rstring \<Rightarrow> (rstring \<times> rstring) list \<Rightarrow> rstring" where
  "string_text t0 ps = [DQUOTE] @ escape t0 @ concat (map interp_text ps) @ [DQUOTE]"

definition string_kind :: "rstring \<Rightarrow> (rstring \<times> rstring) list \<Rightarrow> token_kind" where
  "string_kind t0 ps =
     (if ps = [] then T_String t0 else T_InterpString (IP_Str t0 # concat (map interp_parts ps)))"

lemma string_loop_interp:
  assumes "rest s = lit ''${'' @ e @ lit ''}'' @ r" and "balanced 0 e"
  shows "string_loop s cur parts i =
    string_loop (skip (length e + 3) s) [] (parts @ [IP_Str cur, IP_Expr e]) True"
proof -
  have "rest (bump (bump s)) = e @ cc (CHR ''}'') # r" using assms(1) by simp
  from interp_loop_balanced [OF this assms(2)]
  have "interp_loop (bump (bump s)) 1 [] = (e, skip (length e + 3) s)"
    by (simp add: bump_eq_skip add.commute)
  moreover have "char_at s (lx_pos s + 1) = Some (cc (CHR ''{''))"
    using rest_two(2) [of s] assms(1) by simp
  ultimately show ?thesis
    using assms(1) by (simp add: string_loop.simps [of s] rest_nonempty peek_rest Let_def)
qed

lemma string_loop_parts:
  "rest s = concat (map interp_text ps) @ DQUOTE # r \<Longrightarrow> list_all (balanced 0 \<circ> fst) ps \<Longrightarrow>
     \<exists>cur' parts'. string_loop s cur parts i =
        (Inr (cur', parts', i \<or> ps \<noteq> []), skip (length (concat (map interp_text ps))) s)
      \<and> parts' @ [IP_Str cur'] = parts @ IP_Str cur # concat (map interp_parts ps)"
proof (induction ps arbitrary: s cur parts i)
  case Nil
  then show ?case by (simp add: string_loop.simps [of s] peek_rest)
next
  case (Cons p ps)
  obtain e t where p: "p = (e, t)" by fastforce
  let ?s1 = "skip (length e + 3) s"
  let ?s2 = "skip (length (escape t)) ?s1"
  have r1: "rest ?s1 = escape t @ concat (map interp_text ps) @ DQUOTE # r"
    using Cons.prems(1) drop_append [of "length e + 3" "lit ''${'' @ e @ lit ''}''"]
    by (simp add: p interp_text_def [of "(e, t)"])
  have "string_loop s cur parts i = string_loop ?s1 [] (parts @ [IP_Str cur, IP_Expr e]) True"
    using string_loop_interp [of s e "escape t @ concat (map interp_text ps) @ DQUOTE # r"] Cons.prems
    by (simp add: p interp_text_def [of "(e, t)"])
  also have "\<dots> = string_loop ?s2 t (parts @ [IP_Str cur, IP_Expr e]) True"
    using string_loop_escape [OF r1] by simp
  finally have eq: "string_loop s cur parts i = string_loop ?s2 t (parts @ [IP_Str cur, IP_Expr e]) True" .
  have "rest ?s2 = concat (map interp_text ps) @ DQUOTE # r"
    using r1 by (metis append_eq_conv_conj rest_skip)
  from Cons.IH [OF this, of t "parts @ [IP_Str cur, IP_Expr e]" True] Cons.prems(2)
  show ?case unfolding eq by (auto simp: p interp_parts_def interp_text_def algebra_simps)
qed

text \<open>
  String literals round trip: a text written with its quotes, backslashes,
  newlines and dollar signs escaped, with any number of interpolations \<^verbatim>\<open>${...}\<close> of texts
  with balanced braces, is read as the string token of those parts, and exactly the literal
  is consumed.
\<close>

theorem read_token_string:
  assumes "rest s = string_text t0 ps @ r" and "list_all (balanced 0 \<circ> fst) ps"
  shows "read_token s = ok_tok (string_kind t0 ps) (skip (length (string_text t0 ps)) s)"
proof -
  have r1: "rest (bump s) = escape t0 @ concat (map interp_text ps) @ DQUOTE # r"
    using assms(1) by (simp add: string_text_def)
  let ?s1 = "skip (length (escape t0)) (bump s)"
  let ?s2 = "skip (length (concat (map interp_text ps))) ?s1"
  have r2: "rest ?s1 = concat (map interp_text ps) @ DQUOTE # r"
    using r1 by (metis append_eq_conv_conj rest_skip)
  obtain cur parts where l: "string_loop ?s1 t0 [] False = (Inr (cur, parts, ps \<noteq> []), ?s2)"
    "parts @ [IP_Str cur] = IP_Str t0 # concat (map interp_parts ps)"
    using string_loop_parts [OF r2 assms(2), of t0 "[]" False] by auto
  have r3: "rest ?s2 = DQUOTE # r" using r2 by (metis append_eq_conv_conj rest_skip)
  have "string_loop (bump s) [] [] False = (Inr (cur, parts, ps \<noteq> []), ?s2)"
    using string_loop_escape [OF r1, of "[]" "[]" False] l(1) by simp
  then have "read_string s = ok_tok (string_kind t0 ps) (bump ?s2)"
    using r3 l(2) rest_nonempty [of ?s2]
    by (cases "ps = []") (auto simp: read_string_def Let_def string_kind_def)
  moreover have "bump ?s2 = skip (length (string_text t0 ps)) s"
    by (simp add: string_text_def bump_eq_skip algebra_simps)
  moreover have "read_token s = read_string s"
    using assms(1) by (simp add: read_token_def Let_def peek_rest string_text_def)
  ultimately show ?thesis by simp
qed

theorem read_token_string_witness:
  "\<exists>s. rest s = DQUOTE # lit ''a${x}'' @ [DQUOTE]
    \<and> read_token s = ok_tok (T_InterpString [IP_Str (lit ''a''), IP_Expr (lit ''x''), IP_Str []]) (skip 7 s)"
proof -
  let ?s = "lexer_new (DQUOTE # lit ''a${x}'' @ [DQUOTE])" and ?ps = "[(lit ''x'', [])]"
  have t: "string_text (lit ''a'') ?ps = DQUOTE # lit ''a${x}'' @ [DQUOTE]"
    by (simp add: string_text_def interp_text_def escape_char_def)
  have r: "rest ?s = string_text (lit ''a'') ?ps @ []" unfolding t by (simp add: rest_def lexer_new_def)
  have "list_all (balanced 0 \<circ> fst) ?ps" by simp
  from read_token_string [OF r this] have
    "read_token ?s = ok_tok (string_kind (lit ''a'') ?ps) (skip (length (string_text (lit ''a'') ?ps)) ?s)" .
  then show ?thesis using r unfolding t
    by (intro exI [of _ ?s]) (simp add: string_kind_def interp_parts_def eval_nat_numeral)
qed

section \<open>Unicode escapes and characters\<close>

lemma read_hex_digit_digit:
  assumes "rest s = digit_char d # r" and "d < 16"
  shows "read_hex_digit s = (Inr d, bump s)"
  using assms by (auto simp: read_hex_digit_def peek_rest Let_def digit_char_def char_class_defs)

lemma digit_char_not_brace: "d < 16 \<Longrightarrow> digit_char d \<noteq> cc (CHR ''}'')"
  by (simp add: digit_char_def)

lemma unicode_digits_word:
  "rest s = ds @ cc (CHR ''}'') # r \<Longrightarrow> length ds \<le> n \<Longrightarrow> \<forall>c \<in> set ds. \<exists>d < 16. c = digit_char d
     \<Longrightarrow> digits_val 16 ds v = Some x \<Longrightarrow> unicode_digits n v s = (Inr x, skip (length ds) s)"
proof (induction ds arbitrary: n v s)
  case Nil
  then show ?case by (cases n) (simp_all add: peek_rest)
next
  case (Cons c ds)
  obtain d where d: "d < 16" "c = digit_char d" using Cons.prems(3) by auto
  obtain m where n: "n = Suc m" using Cons.prems(2) by (cases n) auto
  have "read_hex_digit s = (Inr d, bump s)"
    using Cons.prems(1) d by (simp add: read_hex_digit_digit)
  moreover have "peek s \<noteq> cc (CHR ''}'')"
    using Cons.prems(1) d digit_char_not_brace [of d] by (simp add: peek_rest)
  moreover have "unicode_digits m (v * 16 + d) (bump s) = (Inr x, skip (length ds) (bump s))"
    by (rule Cons.IH) (use Cons.prems d n in \<open>auto simp: digit_val_char\<close>)
  ultimately show ?case by (simp add: n skip_bump)
qed

lemma length_radix_text: "2 \<le> b \<Longrightarrow> n < b ^ Suc k \<Longrightarrow> length (radix_text b n) \<le> Suc k"
proof (induction k arbitrary: n)
  case 0
  then show ?case by (simp add: radix_text.simps [of b n])
next
  case (Suc k)
  have "n div b < b ^ Suc k" using Suc.prems by (simp add: less_mult_imp_div_less mult.commute)
  then show ?case using Suc by (cases "n < b") (auto simp: radix_text.simps [of b n])
qed

text \<open>
  The escape \<^verbatim>\<open>\u{...}\<close> of a code point of at most six hexadecimal digits is that
  character when it is a Unicode scalar value, and an error for the others (surrogates and
  beyond \<^verbatim>\<open>10FFFF\<close>); either way exactly the escape is consumed.
\<close>

theorem read_escape_unicode:
  assumes "rest s = lit ''u{'' @ radix_text 16 c @ lit ''}'' @ r" and "c < 16 ^ 6"
  shows "read_escape s =
    (if is_scalar c then (Inr c, skip (length (radix_text 16 c) + 3) s)
     else err (lit ''invalid unicode escape'') (skip (length (radix_text 16 c) + 3) s))"
proof -
  let ?ds = "radix_text 16 c"
  let ?s2 = "bump (bump s)"
  let ?s3 = "skip (length ?ds) ?s2"
  have r2: "rest ?s2 = ?ds @ cc (CHR ''}'') # r" using assms(1) by simp
  have "length ?ds \<le> 6" using length_radix_text [of 16 c 5] assms(2) by simp
  then have "unicode_digits 6 0 ?s2 = (Inr c, ?s3)"
    using unicode_digits_word [OF r2] radix_text_digits [of 16] digits_val_radix_text [of 16 c] by auto
  moreover have "expect_char (cc (CHR ''}'')) ?s3 = (Inr (), bump ?s3)"
    using r2 by (simp add: expect_char_def peek_rest)
  moreover have "expect_char (cc (CHR ''{'')) (bump s) = (Inr (), ?s2)"
    using assms(1) by (simp add: expect_char_def peek_rest)
  moreover have "bump ?s3 = skip (length ?ds + 3) s" by (simp add: bump_eq_skip)
  ultimately show ?thesis using assms(1)
    by (simp add: read_escape_def Let_def peek_rest from_u32_or_def char_from_u32_def)
qed

theorem read_escape_unicode_witness:
  "\<exists>s. rest s = lit ''u{e9}'' \<and> read_escape s = (Inr 233, skip 5 s)"
proof -
  let ?s = "lexer_new (lit ''u{e9}'')"
  have d: "radix_text 16 233 = lit ''e9''"
    by (simp add: radix_text.simps [of 16 233] radix_text.simps [of 16 14] digit_char_def)
  have r: "rest ?s = lit ''u{'' @ radix_text 16 233 @ lit ''}'' @ []"
    unfolding d by (simp add: rest_def lexer_new_def)
  have "read_escape ?s = (Inr 233, skip (length (radix_text 16 233) + 3) ?s)"
    using read_escape_unicode [OF r] by (simp add: is_scalar_def)
  with r show ?thesis unfolding d by (intro exI [of _ ?s]) simp
qed

section \<open>Raw strings\<close>

lemma count_hashes_prefix:
  "count_hashes h cs p = h \<longleftrightarrow> prefix (replicate h (cc (CHR ''#''))) (drop p cs)"
proof (induction h arbitrary: p)
  case (Suc h)
  show ?case
    using Suc.IH [of "p + 1"] nth_option_drop [of p cs] by (cases "p < length cs") simp_all
qed simp

lemma rest_Cons_drop: "rest s = c # cs \<Longrightarrow> drop (Suc (lx_pos s)) (lx_chars s) = cs"
  by (metis drop_Suc list.sel(3) rest_def tl_drop)

lemma rest_line [simp]: "rest (s\<lparr>lx_line := l, lx_column := k\<rparr>) = rest s"
  by (simp add: rest_def)

lemma prefix_replicate_stop:
  "prefix (replicate h a) (w @ b # x) \<Longrightarrow> b \<noteq> a \<Longrightarrow> prefix (replicate h a) w"
proof (induction h arbitrary: w)
  case (Suc h)
  show ?case
  proof (cases w)
    case Nil
    then show ?thesis using Suc.prems by simp
  next
    case (Cons y ys)
    then show ?thesis using Suc.prems Suc.IH [of ys] by auto
  qed
qed simp

lemma raw_string_loop_text:
  assumes "rest s = w @ DQUOTE # replicate h (cc (CHR ''#'')) @ r"
    and "\<not> sublist (DQUOTE # replicate h (cc (CHR ''#''))) w" and "st \<le> lx_pos s"
  shows "\<exists>t s'. raw_string_loop s st h = (Inr t, s')
    \<and> tok_kind t = T_RawString (slice (lx_chars s) st (lx_pos s) @ w)
    \<and> lx_pos s' = lx_pos s + length w + 1 + h"
  using assms
proof (induction w arbitrary: s)
  case Nil
  have d: "drop (Suc (lx_pos s)) (lx_chars s) = replicate h (cc (CHR ''#'')) @ r"
    using rest_Cons_drop [of s] Nil.prems(1) by simp
  have "lx_pos s < lx_len s" "peek s = DQUOTE"
    using Nil.prems(1) by (simp_all add: rest_nonempty peek_rest)
  moreover have "count_hashes h (lx_chars s) (lx_pos s + 1) = h"
    using d by (simp add: count_hashes_prefix)
  ultimately show ?case
    by (simp add: raw_string_loop.simps [of s] Let_def ok_tok_def token_new_def)
next
  case (Cons c w)
  let ?v = "bump (if peek s = NL then s\<lparr>lx_line := lx_line s + 1, lx_column := 0\<rparr> else s)"
  have r: "rest ?v = w @ DQUOTE # replicate h (cc (CHR ''#'')) @ r"
    using Cons.prems(1) by simp
  have p: "lx_pos s < lx_len s" "peek s = c" "lx_chars s ! lx_pos s = c"
    using Cons.prems(1) nth_option_drop [of "lx_pos s" "lx_chars s"]
    by (auto simp: rest_nonempty peek_rest rest_def)
  have "drop (Suc (lx_pos s)) (lx_chars s) = w @ DQUOTE # replicate h (cc (CHR ''#'')) @ r"
    using rest_Cons_drop [of s] Cons.prems(1) by simp
  then have "\<not> (c = DQUOTE \<and> count_hashes h (lx_chars s) (lx_pos s + 1) = h)"
    using Cons.prems(2) prefix_replicate_stop [of h "cc (CHR ''#'')" w DQUOTE]
    by (auto simp: count_hashes_prefix sublist_Cons_right)
  then have "raw_string_loop s st h = raw_string_loop ?v st h"
    using p by (auto simp: raw_string_loop.simps [of s] Let_def)
  moreover have "\<not> sublist (DQUOTE # replicate h (cc (CHR ''#''))) w"
    using Cons.prems(2) by (simp add: sublist_Cons_right)
  moreover have "slice (lx_chars s) st (Suc (lx_pos s)) = slice (lx_chars s) st (lx_pos s) @ [c]"
    using slice_Suc [OF Cons.prems(3) p(1)] p(3) by simp
  moreover have "lx_pos ?v = Suc (lx_pos s)" "lx_chars ?v = lx_chars s" by simp_all
  ultimately show ?case using Cons.IH [OF r] Cons.prems(3) by (simp only:) simp
qed

text \<open>
  Raw string literals: between \<^verbatim>\<open>r"\<close> and \<^verbatim>\<open>"\<close>, or \<^verbatim>\<open>r#"\<close> and \<^verbatim>\<open>"#\<close>, every text that does
  not contain the closing delimiter is taken verbatim, newlines and backslashes
  included, and exactly the literal is consumed.
\<close>

theorem read_token_raw_string:
  assumes "rest s = lit ''r'' @ replicate h (cc (CHR ''#'')) @ DQUOTE # w
      @ DQUOTE # replicate h (cc (CHR ''#'')) @ r"
    and "h \<le> 1" and "\<not> sublist (DQUOTE # replicate h (cc (CHR ''#''))) w"
  shows "\<exists>t s'. read_token s = (Inr t, s') \<and> tok_kind t = T_RawString w
    \<and> lx_pos s' = lx_pos s + length w + 3 + 2 * h"
proof -
  let ?H = "replicate h (cc (CHR ''#''))"
  have r1: "rest (bump s) = ?H @ DQUOTE # w @ DQUOTE # ?H @ r" using assms(1) by simp
  let ?s2 = "skip h (bump s)"
  have "takeWhile (\<lambda>c. c = cc (CHR ''#'')) (rest (bump s)) = ?H"
    unfolding r1 by (intro takeWhile_word) simp_all
  then have b: "bump_while (\<lambda>c. c = cc (CHR ''#'')) (bump s) = ?s2"
    by (simp only: bump_while_skip length_replicate)
  have r2: "rest ?s2 = DQUOTE # w @ DQUOTE # ?H @ r"
    using r1 by (metis append_eq_conv_conj rest_skip length_replicate)
  have p: "peek s = cc (CHR ''r'')" using assms(1) by (simp add: peek_rest)
  have raw: "read_raw_string s = raw_string_loop (bump ?s2) (lx_pos (bump ?s2)) h"
    using r2 unfolding read_raw_string_def Let_def p if_True b simp_thms
    by (simp add: peek_rest [of ?s2])
  have "rest (bump ?s2) = w @ DQUOTE # ?H @ r" using r2 by simp
  from raw_string_loop_text [OF this assms(3) order_refl]
  obtain t s' where "read_raw_string s = (Inr t, s')" "tok_kind t = T_RawString w"
    "lx_pos s' = lx_pos s + length w + 3 + 2 * h"
    unfolding raw by auto
  moreover have "peek_next s = DQUOTE \<or> (peek_next s = cc (CHR ''#'') \<and> char_at s (lx_pos s + 2) = Some DQUOTE)"
  proof (cases "h = 0")
    case True
    then show ?thesis using assms(1) by (simp add: peek_next_rest)
  next
    case False
    then have "h = 1" using assms(2) by simp
    then show ?thesis using assms(1) char_at_rest [of s 2] by (simp add: peek_next_rest)
  qed
  then have "read_token s = read_raw_string s" using p by (simp add: read_token_def Let_def)
  ultimately show ?thesis by simp
qed

theorem read_token_raw_string_witness:
  "\<exists>s t s'. rest s = lit ''r'' @ [DQUOTE, BSLASH, DQUOTE] \<and> read_token s = (Inr t, s')
    \<and> tok_kind t = T_RawString [BSLASH]"
proof -
  let ?s = "lexer_new (lit ''r'' @ [DQUOTE, BSLASH, DQUOTE])"
  have r: "rest ?s = lit ''r'' @ replicate 0 (cc (CHR ''#'')) @ DQUOTE # [BSLASH]
      @ DQUOTE # replicate 0 (cc (CHR ''#'')) @ []"
    by (simp add: rest_def lexer_new_def)
  have "\<not> sublist (DQUOTE # replicate 0 (cc (CHR ''#''))) [BSLASH]" by (simp add: sublist_Cons_right)
  from read_token_raw_string [OF r _ this] show ?thesis using r by auto
qed

end
