(* ===== verification/Tinox_Ast.thy ===== *)
theory Tinox_Ast
  imports Tinox_Tokens
begin

text \<open>
  The syntax trees of \<^verbatim>\<open>src/crates/tinox-parser/src/ast.rs\<close>. Every enum is a datatype with
  the source's variants behind a prefix (\<open>Ty_\<close> types, \<open>Lit_\<close> literals, \<open>P_\<close> patterns,
  \<open>E_\<close> expressions, \<open>S_\<close> statements, \<open>D_\<close> declarations), every struct a record, or a
  datatype with its fields in order where the struct is part of the recursion. A \<^verbatim>\<open>Box\<close> is
  its content, a \<^verbatim>\<open>Vec\<close> a list; \<open>expr\<close> and \<open>stmt\<close> are \<^verbatim>\<open>Spanned\<close> nodes as in the source.
\<close>

type_synonym ident = rstring

definition unknown_file :: rstring where
  "unknown_file = lit ''<unknown>''"

datatype (plugins only: code size) ty =
  Ty_Int8 | Ty_Int16 | Ty_Int32 | Ty_Int64 | Ty_UInt8 | Ty_UInt16 | Ty_UInt32 | Ty_UInt64
| Ty_Float32 | Ty_Float64 | Ty_Bool | Ty_Char | Ty_String | Ty_Nothing | Ty_Never | Ty_Any
| Ty_Infer | Ty_Named ident | Ty_Generic ident "ty list" | Ty_Array ty | Ty_Map ty ty
| Ty_Mutable ty | Ty_Ref ty | Ty_Fn "ty list" ty | Ty_Tuple "ty list" | Ty_Nullable ty

definition ty_unit :: ty where
  "ty_unit = Ty_Nothing"

record field =
  field_name :: ident
  field_type :: ty
  field_span :: span

datatype literal =
  Lit_Integer int | Lit_Float f64 | Lit_String rstring | Lit_Char rchar | Lit_Byte u8
| Lit_Bool bool | Lit_Null

fun literal_ty :: "literal \<Rightarrow> ty" where
  "literal_ty (Lit_Integer _) = Ty_Int64"
| "literal_ty (Lit_Float _) = Ty_Float64"
| "literal_ty (Lit_String _) = Ty_String"
| "literal_ty (Lit_Char _) = Ty_Char"
| "literal_ty (Lit_Byte _) = Ty_UInt8"
| "literal_ty (Lit_Bool _) = Ty_Bool"
| "literal_ty Lit_Null = Ty_Named (lit ''Null'')"

datatype pattern =
  P_Wildcard span
| P_Ident ident "pattern option" span
| P_Literal literal span
| P_Tuple "pattern list" span
| P_EnumVariant ident ident "pattern list" span

datatype annotation_arg =
  AA_Literal literal | AA_EnumValue rstring rstring | AA_Array "annotation_arg list"

record annotation =
  ann_name :: ident
  ann_args :: "annotation_arg list"
  ann_span :: span

record param =
  param_name :: ident
  param_type :: ty
  param_span :: span
  param_annotations :: "annotation list"

datatype binary_op =
  B_Add | B_Sub | B_Mul | B_Div | B_Mod | B_And | B_Or | B_BitAnd | B_BitOr | B_Xor | B_Shl
| B_Shr | B_ShrArith | B_Eq | B_Ne | B_Lt | B_Le | B_Gt | B_Ge

datatype compound_op =
  C_Add | C_Sub | C_Mul | C_Div | C_Mod | C_BitAnd | C_BitOr | C_BitXor | C_Shl | C_Shr
| C_ShrArith

datatype unary_op = U_Neg | U_Not | U_BitNot

section \<open>Expressions and statements\<close>

text \<open>
  \<^verbatim>\<open>MatchCase\<close>, \<^verbatim>\<open>CatchClause\<close> and \<^verbatim>\<open>SelectArm\<close>, over the expression and statement types
  that contain them.
\<close>

datatype 'e match_case = MatchCase (mc_pattern: pattern) (mc_guard: "'e option") (mc_body: 'e) (mc_span: span)
datatype 's catch_clause = CatchClause (cc_param: ident) (cc_ty: ty) (cc_body: 's) (cc_span: span)
datatype ('e, 's) select_arm = SelectArm (sa_channel: 'e) (sa_var: ident) (sa_body: 's) (sa_span: span)

datatype (plugins only: code size) expr_kind =
  E_Literal literal
| E_ArrayLiteral "expr_kind spanned list"
| E_MapLiteral "(expr_kind spanned \<times> expr_kind spanned) list"
| E_Ident ident
| E_Binary binary_op "expr_kind spanned" "expr_kind spanned"
| E_Unary unary_op "expr_kind spanned"
| E_Call "expr_kind spanned" "expr_kind spanned list"
| E_MethodCall "expr_kind spanned" ident "expr_kind spanned list"
| E_Index "expr_kind spanned" "expr_kind spanned"
| E_FieldAccess "expr_kind spanned" ident
| E_This
| E_SuperCall ident "expr_kind spanned list"
| E_New ident "ty list" "expr_kind spanned list"
| E_StructLiteral ident "(ident \<times> expr_kind spanned) list"
| E_Block "stmt_kind spanned list"
| E_If "expr_kind spanned" "expr_kind spanned" "expr_kind spanned option"
| E_While "expr_kind spanned" "expr_kind spanned"
| E_For ident "expr_kind spanned" "expr_kind spanned"
| E_Loop "expr_kind spanned"
| E_Match "expr_kind spanned" "expr_kind spanned match_case list"
| E_Return "expr_kind spanned option"
| E_Break
| E_Continue
| E_Throw "expr_kind spanned"
| E_Try "expr_kind spanned" "stmt_kind spanned catch_clause list" "expr_kind spanned option"
| E_Assign "expr_kind spanned" "expr_kind spanned"
| E_CompoundAssign compound_op "expr_kind spanned" "expr_kind spanned"
| E_Lambda "param list" "ty option" "expr_kind spanned"
| E_Spawn "expr_kind spanned"
| E_Await "expr_kind spanned"
| E_Channel
| E_Send "expr_kind spanned" "expr_kind spanned"
| E_Recv "expr_kind spanned"
| E_Cast "expr_kind spanned" ty
| E_Is "expr_kind spanned" ty
| E_Range "expr_kind spanned" "expr_kind spanned" bool
| E_Tuple "expr_kind spanned list"
| E_TupleIndex "expr_kind spanned" nat
| E_EnumValue ident ident "ty list" "expr_kind spanned list"
and stmt_kind =
  S_Expr "expr_kind spanned"
| S_Let ident "ty option" "expr_kind spanned option"
| S_Var ident "ty option" "expr_kind spanned option" bool
| S_Assignment "expr_kind spanned" "expr_kind spanned"
| S_If "expr_kind spanned" "stmt_kind spanned" "stmt_kind spanned option"
| S_While "expr_kind spanned" "stmt_kind spanned"
| S_For ident "expr_kind spanned" "stmt_kind spanned"
| S_ForC "stmt_kind spanned option" "expr_kind spanned option" "expr_kind spanned option" "stmt_kind spanned"
| S_Loop "stmt_kind spanned"
| S_Return "expr_kind spanned option"
| S_Break
| S_Continue
| S_Throw "expr_kind spanned"
| S_Try "stmt_kind spanned" "stmt_kind spanned catch_clause list" "stmt_kind spanned option"
| S_Defer "stmt_kind spanned"
| S_Block "stmt_kind spanned list"
| S_Select "(expr_kind spanned, stmt_kind spanned) select_arm list" "stmt_kind spanned option"
| S_Empty

type_synonym expr = "expr_kind spanned"
type_synonym stmt = "stmt_kind spanned"

section \<open>Declarations\<close>

datatype visibility = V_Public | V_Private | V_Protected | V_Package

record function_def =
  fn_name :: ident
  fn_type_params :: "rstring list"
  fn_params :: "param list"
  fn_ret_type :: ty
  fn_body :: stmt
  fn_span :: span
  fn_is_async :: bool
  fn_doc :: "rstring option"
  fn_annotations :: "annotation list"
  fn_file :: rstring

record method_def =
  me_name :: ident
  me_type_params :: "rstring list"
  me_params :: "param list"
  me_ret_type :: ty
  me_body :: stmt
  me_static :: bool
  me_visibility :: visibility
  me_span :: span
  me_is_async :: bool
  me_doc :: "rstring option"
  me_annotations :: "annotation list"
  me_file :: rstring

record field_def =
  fd_name :: ident
  fd_type :: ty
  fd_visibility :: visibility
  fd_mutable :: bool
  fd_span :: span
  fd_doc :: "rstring option"
  fd_annotations :: "annotation list"

record class_def =
  cl_name :: ident
  cl_type_params :: "rstring list"
  cl_extends :: "ident option"
  cl_implements :: "ident list"
  cl_fields :: "field_def list"
  cl_methods :: "method_def list"
  cl_span :: span
  cl_doc :: "rstring option"
  cl_annotations :: "annotation list"

record interface_def =
  if_name :: ident
  if_extends :: "ident list"
  if_methods :: "function_def list"
  if_span :: span
  if_doc :: "rstring option"
  if_annotations :: "annotation list"

record enum_variant =
  ev_name :: ident
  ev_args :: "ty list"
  ev_span :: span
  ev_doc :: "rstring option"

record enum_def =
  en_name :: ident
  en_variants :: "enum_variant list"
  en_span :: span
  en_doc :: "rstring option"
  en_annotations :: "annotation list"

record trait_def =
  tr_name :: ident
  tr_methods :: "function_def list"
  tr_span :: span
  tr_doc :: "rstring option"
  tr_annotations :: "annotation list"

record immutable_decl =
  im_name :: ident
  im_fields :: "param list"
  im_span :: span
  im_doc :: "rstring option"
  im_annotations :: "annotation list"

record import_decl =
  imp_path :: "ident list"
  imp_alias :: "ident option"
  imp_span :: span

text \<open>\<^verbatim>\<open>Namespace\<close>, over the declarations it contains.\<close>

datatype 'd namespace = Namespace (ns_name: "ident list") (ns_decls: "'d list") (ns_span: span)
  (ns_annotations: "annotation list")

datatype decl_kind =
  D_Function function_def
| D_Class class_def
| D_Interface interface_def
| D_Enum enum_def
| D_Trait trait_def
| D_Import import_decl
| D_Module ident
| D_Namespace "decl_kind spanned namespace"
| D_Immutable immutable_decl

type_synonym decl = "decl_kind spanned"

record source_file =
  sf_decls :: "decl list"
  sf_span :: span

definition source_file_new :: "decl list \<Rightarrow> source_file" where
  "source_file_new ds = \<lparr>sf_decls = ds, sf_span = span_dummy\<rparr>"

end
