(* ===== verification/Tinox_Parser_State.thy ===== *)
theory Tinox_Parser_State
  imports Tinox_Ast
begin

text \<open>
  The state of \<^verbatim>\<open>Parser\<close> (\<^verbatim>\<open>src/crates/tinox-parser/src/parser.rs\<close>) and the operations on the
  token cursor that every production uses. A production is a function from the state to an
  \<open>outcome\<close>: a value and the new state, an error and the state at that point (callers recover
  from errors, so the state matters), or \<open>PFuel\<close> for a recursion cut off by the fuel of
  \<open>Tinox_Parser\<close>. The combinators \<open>bindp\<close> and \<open>thenp\<close> are the \<^verbatim>\<open>?\<close> operator, \<open>loopp\<close> is a
  \<^verbatim>\<open>loop\<close> whose body says whether to go on (\<open>Inl\<close>) or to leave (\<open>Inr\<close>).
\<close>

section \<open>State and errors\<close>

text \<open>The messages, with the arguments the source formats into them.\<close>

datatype parse_msg =
  M_Text rstring
| M_Expected token_kind token_kind
| M_ExpectedKeyword keyword token_kind
| M_Unexpected token_kind
| M_Interpolation rstring
| M_Select token_kind

type_synonym parse_error = "parse_msg error"

record pstate =
  ps_tokens :: "token list"
  ps_pos :: nat
  ps_errors :: "parse_error list"
  ps_depth :: nat

definition MAX_RECURSION_DEPTH :: nat where
  "MAX_RECURSION_DEPTH = 1000"

definition parser_new :: "token list \<Rightarrow> pstate" where
  "parser_new toks = \<lparr>ps_tokens = toks, ps_pos = 0, ps_errors = [], ps_depth = 0\<rparr>"

datatype 'a outcome = POk 'a pstate | PErr parse_error pstate | PFuel

type_synonym 'a parser = "pstate \<Rightarrow> 'a outcome"

definition retp :: "'a \<Rightarrow> 'a parser" where
  "retp x s = POk x s"

definition bindp :: "'a parser \<Rightarrow> ('a \<Rightarrow> 'b parser) \<Rightarrow> 'b parser" where
  "bindp m f s = (case m s of POk x s1 \<Rightarrow> f x s1 | PErr e s1 \<Rightarrow> PErr e s1 | PFuel \<Rightarrow> PFuel)"

definition thenp :: "'a parser \<Rightarrow> 'b parser \<Rightarrow> 'b parser" where
  "thenp m f = bindp m (\<lambda>_. f)"

primrec loopp :: "nat \<Rightarrow> ('a \<Rightarrow> ('a + 'b) parser) \<Rightarrow> 'a \<Rightarrow> 'b parser" where
  "loopp 0 f a s = PFuel"
| "loopp (Suc n) f a s =
     (case f a s of
        POk r s1 \<Rightarrow> (case r of Inl a1 \<Rightarrow> loopp n f a1 s1 | Inr b \<Rightarrow> POk b s1)
      | PErr e s1 \<Rightarrow> PErr e s1
      | PFuel \<Rightarrow> PFuel)"

section \<open>The cursor\<close>

definition p_peek :: "pstate \<Rightarrow> token" where
  "p_peek s = (if ps_pos s < length (ps_tokens s) then ps_tokens s ! ps_pos s else token_dummy T_Eof)"

abbreviation p_kind :: "pstate \<Rightarrow> token_kind" where
  "p_kind s \<equiv> tok_kind (p_peek s)"

definition p_peek_ahead :: "nat \<Rightarrow> pstate \<Rightarrow> token option" where
  "p_peek_ahead i s =
     (if ps_pos s + i < length (ps_tokens s) then Some (ps_tokens s ! (ps_pos s + i)) else None)"

definition p_kind_ahead :: "nat \<Rightarrow> pstate \<Rightarrow> token_kind option" where
  "p_kind_ahead i s = map_option tok_kind (p_peek_ahead i s)"

definition p_bump :: "pstate \<Rightarrow> pstate" where
  "p_bump s = (if ps_pos s < length (ps_tokens s) then s\<lparr>ps_pos := ps_pos s + 1\<rparr> else s)"

definition p_check :: "token_kind \<Rightarrow> pstate \<Rightarrow> bool" where
  "p_check k s \<longleftrightarrow> p_kind s = k"

definition p_check_keyword :: "keyword \<Rightarrow> pstate \<Rightarrow> bool" where
  "p_check_keyword w s \<longleftrightarrow> p_kind s = T_Keyword w"

definition p_is_at_end :: "pstate \<Rightarrow> bool" where
  "p_is_at_end s \<longleftrightarrow> ps_pos s \<ge> length (ps_tokens s) \<or> p_kind s = T_Eof"

text \<open>
  \<^verbatim>\<open>mk_span\<close> indexes the token list even behind its end; with no token at all it would
  panic. No caller reaches it then: \<^verbatim>\<open>parse\<close> stops at once on an empty list, and a lexed
  text has its end marker.
\<close>

definition p_mk_span :: "pstate \<Rightarrow> span" where
  "p_mk_span s =
     (let tok = (if ps_pos s < length (ps_tokens s) then ps_tokens s ! ps_pos s
                 else ps_tokens s ! (ps_pos s - 1))
      in span_new (span_start (tok_span tok)) (span_start (tok_span tok)))"

section \<open>The cursor as productions\<close>

text \<open>A text in single quotes, for messages.\<close>

definition sq :: "string \<Rightarrow> rstring" where
  "sq t = [39] @ lit t @ [39]"

definition spanp :: "span parser" where "spanp s = POk (p_mk_span s) s"
definition peekp :: "token parser" where "peekp s = POk (p_peek s) s"
definition bumpp :: "unit parser" where "bumpp s = POk () (p_bump s)"
definition checkp :: "token_kind \<Rightarrow> bool parser" where "checkp k s = POk (p_check k s) s"
definition check_keywordp :: "keyword \<Rightarrow> bool parser" where
  "check_keywordp w s = POk (p_check_keyword w s) s"
definition is_at_endp :: "bool parser" where "is_at_endp s = POk (p_is_at_end s) s"

text \<open>\<^verbatim>\<open>Err(self.error(msg))\<close> and \<^verbatim>\<open>Err(Error::new(span, msg))\<close>\<close>

definition errorp :: "rstring \<Rightarrow> 'a parser" where
  "errorp m s = PErr (error_new (p_mk_span s) (M_Text m)) s"

definition error_at :: "span \<Rightarrow> parse_msg \<Rightarrow> 'a parser" where
  "error_at sp m s = PErr (error_new sp m) s"

definition consume :: "token_kind \<Rightarrow> bool parser" where
  "consume k s = (if p_check k s then POk True (p_bump s) else POk False s)"

definition consume_keyword :: "keyword \<Rightarrow> bool parser" where
  "consume_keyword w s = (if p_check_keyword w s then POk True (p_bump s) else POk False s)"

definition expect :: "token_kind \<Rightarrow> unit parser" where
  "expect k s = (if p_check k s then POk () (p_bump s)
     else PErr (error_new (p_mk_span s) (M_Expected k (p_kind s))) s)"

definition expect_keyword :: "keyword \<Rightarrow> unit parser" where
  "expect_keyword w s = (if p_check_keyword w s then POk () (p_bump s)
     else PErr (error_new (p_mk_span s) (M_ExpectedKeyword w (p_kind s))) s)"

definition p_set_kind :: "token_kind \<Rightarrow> pstate \<Rightarrow> pstate" where
  "p_set_kind k s = s\<lparr>ps_tokens := (ps_tokens s)[ps_pos s := (ps_tokens s ! ps_pos s)\<lparr>tok_kind := k\<rparr>]\<rparr>"

definition expect_generic_close :: "unit parser" where
  "expect_generic_close s =
     (if p_check T_Greater s then POk () (p_bump s)
      else if p_check T_GreaterGreater s then POk () (p_set_kind T_Greater s)
      else if p_check T_GreaterGreaterGreater s then POk () (p_set_kind T_GreaterGreater s)
      else errorp (lit ''expected '' @ sq ''>'') s)"

definition ifp :: "bool parser \<Rightarrow> 'a parser \<Rightarrow> 'a parser \<Rightarrow> 'a parser" where
  "ifp c a b = bindp c (\<lambda>x. if x then a else b)"

section \<open>Lists with separators\<close>

text \<open>
  The list loops of the source: \<^verbatim>\<open>v.push(p()?); while self.consume(Comma) { v.push(p()?) }\<close>,
  the same guarded by \<^verbatim>\<open>if !self.check(close)\<close>, and the one that leaves when the closing token
  follows a comma.
\<close>

definition sep_more :: "bool parser \<Rightarrow> nat \<Rightarrow> 'a parser \<Rightarrow> 'a list \<Rightarrow> 'a list parser" where
  "sep_more sep n p acc =
     loopp n (\<lambda>acc. ifp sep (bindp p (\<lambda>x. retp (Inl (acc @ [x])))) (retp (Inr acc))) acc"

definition comma_list :: "nat \<Rightarrow> 'a parser \<Rightarrow> 'a list parser" where
  "comma_list n p = bindp p (\<lambda>x. sep_more (consume T_Comma) n p [x])"

definition comma_list_until :: "token_kind \<Rightarrow> nat \<Rightarrow> 'a parser \<Rightarrow> 'a list parser" where
  "comma_list_until close n p = ifp (checkp close) (retp []) (comma_list n p)"

definition comma_list_trailing :: "token_kind \<Rightarrow> nat \<Rightarrow> 'a parser \<Rightarrow> 'a list parser" where
  "comma_list_trailing close n p =
     ifp (checkp close) (retp [])
       (bindp p (\<lambda>x. loopp n (\<lambda>acc.
          ifp (consume T_Comma)
            (ifp (checkp close) (retp (Inr acc)) (bindp p (\<lambda>x. retp (Inl (acc @ [x])))))
            (retp (Inr acc))) [x]))"

section \<open>Names\<close>

text \<open>Keywords that \<^verbatim>\<open>parse_ident\<close> and \<^verbatim>\<open>parse_method_name\<close> accept as names.\<close>

definition ident_keyword :: "keyword \<Rightarrow> rstring option" where
  "ident_keyword w = (case w of
     K_Default \<Rightarrow> Some (lit ''default'') | K_New \<Rightarrow> Some (lit ''new'') | K_Send \<Rightarrow> Some (lit ''send'')
   | K_Recv \<Rightarrow> Some (lit ''recv'') | K_Is \<Rightarrow> Some (lit ''is'') | _ \<Rightarrow> None)"

definition method_keyword :: "keyword \<Rightarrow> rstring option" where
  "method_keyword w = (case w of
     K_New \<Rightarrow> Some (lit ''new'') | K_Send \<Rightarrow> Some (lit ''send'') | K_Recv \<Rightarrow> Some (lit ''recv'')
   | K_Default \<Rightarrow> Some (lit ''default'') | K_Return \<Rightarrow> Some (lit ''return'') | K_Is \<Rightarrow> Some (lit ''is'')
   | K_As \<Rightarrow> Some (lit ''as'') | _ \<Rightarrow> None)"

definition parse_ident :: "ident parser" where
  "parse_ident s = (case p_kind s of
     T_Ident t \<Rightarrow> POk t (p_bump s)
   | T_Underscore \<Rightarrow> POk (lit ''_'') (p_bump s)
   | T_Keyword w \<Rightarrow>
       (case ident_keyword w of Some t \<Rightarrow> POk t (p_bump s)
        | None \<Rightarrow> errorp (lit ''expected identifier'') s)
   | _ \<Rightarrow> errorp (lit ''expected identifier'') s)"

definition parse_method_name :: "ident parser" where
  "parse_method_name s = (case p_kind s of
     T_Ident t \<Rightarrow> POk t (p_bump s)
   | T_Keyword w \<Rightarrow>
       (case method_keyword w of Some t \<Rightarrow> POk t (p_bump s)
        | None \<Rightarrow> errorp (lit ''expected method name'') s)
   | _ \<Rightarrow> errorp (lit ''expected method name'') s)"

section \<open>Loops that only move the cursor\<close>

function take_doc :: "rstring option parser" where
  "take_doc s =
     (if is_trivia (p_kind s) \<and> \<not> p_is_at_end s
      then (case p_kind s of
              T_DocComment t \<Rightarrow> POk (Some t) (p_bump s)
            | _ \<Rightarrow> take_doc (p_bump s))
      else (case p_kind s of
              T_DocComment t \<Rightarrow> POk (Some t) (p_bump s)
            | _ \<Rightarrow> POk None s))"
  by pat_completeness auto
termination
  by (relation "measure (\<lambda>s. length (ps_tokens s) - ps_pos s)") (auto simp: p_bump_def p_is_at_end_def)

declare take_doc.simps [simp del]

definition sync_keyword :: "keyword \<Rightarrow> bool" where
  "sync_keyword w \<longleftrightarrow> w \<in> {K_Fn, K_Fnc, K_Class, K_Interface, K_Enum, K_Trait, K_Namespace, K_If,
     K_While, K_For, K_Loop, K_Return}"

function synchronize_from :: "nat \<Rightarrow> pstate \<Rightarrow> pstate" where
  "synchronize_from start s =
     (if p_is_at_end s then s
      else case p_kind s of
             T_Semicolon \<Rightarrow> p_bump s
           | T_Keyword w \<Rightarrow>
               if sync_keyword w \<and> ps_pos s > start then s else synchronize_from start (p_bump s)
           | _ \<Rightarrow> synchronize_from start (p_bump s))"
  by pat_completeness auto
termination
  by (relation "measure (\<lambda>(_, s). length (ps_tokens s) - ps_pos s)") (auto simp: p_bump_def p_is_at_end_def)

declare synchronize_from.simps [simp del]

definition p_synchronize :: "pstate \<Rightarrow> pstate" where
  "p_synchronize s = synchronize_from (ps_pos s) s"

text \<open>\<^verbatim>\<open>while !self.check(RBracket) { if at_end { return Err } self.bump(); }\<close> of an array type\<close>

function skip_to_bracket :: "unit parser" where
  "skip_to_bracket s =
     (if p_check T_RBracket s then POk () s
      else if p_is_at_end s then errorp (lit ''expected '' @ sq '']'' @ lit '' in array type'') s
      else skip_to_bracket (p_bump s))"
  by pat_completeness auto
termination
  by (relation "measure (\<lambda>s. length (ps_tokens s) - ps_pos s)") (auto simp: p_bump_def p_is_at_end_def)

declare skip_to_bracket.simps [simp del]

text \<open>
  The change of the bracket depth at a token, the skip over \<^verbatim>\<open><...>\<close>, and the two look-aheads
  over it (\<^verbatim>\<open>i32\<close> depths as integers: they stay within the number of tokens times two).
\<close>

definition angle_step :: "token_kind \<Rightarrow> int" where
  "angle_step k = (case k of T_Less \<Rightarrow> 1 | T_Greater \<Rightarrow> - 1 | T_GreaterGreater \<Rightarrow> - 2 | _ \<Rightarrow> 0)"

function skip_angles :: "int \<Rightarrow> pstate \<Rightarrow> pstate" where
  "skip_angles depth s =
     (if depth > 0 \<and> \<not> p_is_at_end s then skip_angles (depth + angle_step (p_kind s)) (p_bump s) else s)"
  by pat_completeness auto
termination
  by (relation "measure (\<lambda>(_, s). length (ps_tokens s) - ps_pos s)") (auto simp: p_bump_def p_is_at_end_def)

declare skip_angles.simps [simp del]

function angles_end :: "int \<Rightarrow> nat \<Rightarrow> pstate \<Rightarrow> nat option" where
  "angles_end depth i s =
     (if depth > 0
      then case p_kind_ahead i s of None \<Rightarrow> None | Some k \<Rightarrow> angles_end (depth + angle_step k) (i + 1) s
      else Some i)"
  by pat_completeness auto
termination
  by (relation "measure (\<lambda>(_, i, s). length (ps_tokens s) - (ps_pos s + i))")
    (auto simp: p_kind_ahead_def p_peek_ahead_def split: if_splits)

declare angles_end.simps [simp del]

definition is_ident_kind :: "token_kind \<Rightarrow> bool" where
  "is_ident_kind k = (case k of T_Ident _ \<Rightarrow> True | _ \<Rightarrow> False)"

definition ahead_is_ident :: "nat \<Rightarrow> pstate \<Rightarrow> bool" where
  "ahead_is_ident i s = (case p_kind_ahead i s of Some k \<Rightarrow> is_ident_kind k | None \<Rightarrow> False)"

definition generic_followed_by :: "token_kind \<Rightarrow> pstate \<Rightarrow> bool" where
  "generic_followed_by k s \<longleftrightarrow> p_kind s = T_Less \<and> ahead_is_ident 1 s
     \<and> (case angles_end 1 2 s of None \<Rightarrow> False | Some i \<Rightarrow> p_kind_ahead i s = Some k)"

definition is_generic_type_static_call :: "pstate \<Rightarrow> bool" where
  "is_generic_type_static_call = generic_followed_by T_ColonColon"

definition is_generic_method_call :: "pstate \<Rightarrow> bool" where
  "is_generic_method_call = generic_followed_by T_LParen"

text \<open>\<^verbatim>\<open>Ident\<close> followed by \<^verbatim>\<open>:\<close>, and the skip over such a name.\<close>

definition named_arg_ahead :: "pstate \<Rightarrow> bool" where
  "named_arg_ahead s \<longleftrightarrow> is_ident_kind (p_kind s) \<and> p_kind_ahead 1 s = Some T_Colon"

definition skip_arg_name :: "unit parser" where
  "skip_arg_name s = POk () (if named_arg_ahead s then p_bump (p_bump s) else s)"

end
