(* ===== verification/Tinox_Parser_Types.thy ===== *)
theory Tinox_Parser_Types
  imports Tinox_Parser_State
begin

text \<open>
  Types, patterns, annotations and parameters of \<^verbatim>\<open>src/crates/tinox-parser/src/parser.rs\<close>. The
  productions that call themselves, directly or through others, do so through the knot \<open>k\<close>:
  \<open>k nt\<close> is the production of the nonterminal \<open>nt\<close> with less fuel. Every production also has the
  number \<open>n\<close> that bounds its loops. \<open>Tinox_Parser\<close> ties the knot and \<open>Tinox_Parser_Total\<close> shows
  that the fuel it starts with is enough for every input.
\<close>

datatype nonterm =
  N_Expr | N_Assign | N_Ternary | N_Unary | N_Postfix | N_Type | N_Pattern | N_Stmt | N_IfStmt | N_AnnArg

datatype node_val =
  R_Expr expr | R_Type ty | R_Pattern pattern | R_Stmt stmt | R_StmtKind stmt_kind
| R_AnnArg annotation_arg

type_synonym knot = "nonterm \<Rightarrow> node_val parser"

definition nofuel :: "'a parser" where "nofuel s = PFuel"

definition k_expr_at :: "nonterm \<Rightarrow> knot \<Rightarrow> expr parser" where
  "k_expr_at nt k = bindp (k nt) (\<lambda>r. case r of R_Expr e \<Rightarrow> retp e | _ \<Rightarrow> nofuel)"

abbreviation k_expr :: "knot \<Rightarrow> expr parser" where "k_expr \<equiv> k_expr_at N_Expr"
abbreviation k_assign :: "knot \<Rightarrow> expr parser" where "k_assign \<equiv> k_expr_at N_Assign"
abbreviation k_ternary :: "knot \<Rightarrow> expr parser" where "k_ternary \<equiv> k_expr_at N_Ternary"
abbreviation k_unary :: "knot \<Rightarrow> expr parser" where "k_unary \<equiv> k_expr_at N_Unary"
abbreviation k_postfix :: "knot \<Rightarrow> expr parser" where "k_postfix \<equiv> k_expr_at N_Postfix"

definition k_type :: "knot \<Rightarrow> ty parser" where
  "k_type k = bindp (k N_Type) (\<lambda>r. case r of R_Type t \<Rightarrow> retp t | _ \<Rightarrow> nofuel)"

definition k_pattern :: "knot \<Rightarrow> pattern parser" where
  "k_pattern k = bindp (k N_Pattern) (\<lambda>r. case r of R_Pattern t \<Rightarrow> retp t | _ \<Rightarrow> nofuel)"

definition k_stmt :: "knot \<Rightarrow> stmt parser" where
  "k_stmt k = bindp (k N_Stmt) (\<lambda>r. case r of R_Stmt t \<Rightarrow> retp t | _ \<Rightarrow> nofuel)"

definition k_if_stmt :: "knot \<Rightarrow> stmt_kind parser" where
  "k_if_stmt k = bindp (k N_IfStmt) (\<lambda>r. case r of R_StmtKind t \<Rightarrow> retp t | _ \<Rightarrow> nofuel)"

definition k_ann_arg :: "knot \<Rightarrow> annotation_arg parser" where
  "k_ann_arg k = bindp (k N_AnnArg) (\<lambda>r. case r of R_AnnArg t \<Rightarrow> retp t | _ \<Rightarrow> nofuel)"

section \<open>Annotations\<close>

definition parse_annotation_arg :: "nat \<Rightarrow> knot \<Rightarrow> annotation_arg parser" where
  "parse_annotation_arg n k s =
     (let tk = p_peek s in
      case tok_kind tk of
        T_Integer v \<Rightarrow> POk (AA_Literal (Lit_Integer v)) (p_bump s)
      | T_Float f \<Rightarrow> POk (AA_Literal (Lit_Float f)) (p_bump s)
      | T_String t \<Rightarrow> POk (AA_Literal (Lit_String t)) (p_bump s)
      | T_Bool b \<Rightarrow> POk (AA_Literal (Lit_Bool b)) (p_bump s)
      | T_LBracket \<Rightarrow>
          thenp bumpp (bindp (comma_list_trailing T_RBracket n (k_ann_arg k)) (\<lambda>items.
          thenp (expect T_RBracket) (retp (AA_Array items)))) s
      | T_Ident type_name \<Rightarrow>
          thenp bumpp (ifp (consume T_Dot)
            (bindp peekp (\<lambda>v. case tok_kind v of
                T_Ident variant \<Rightarrow> thenp bumpp (retp (AA_EnumValue type_name variant))
              | _ \<Rightarrow> error_at (tok_span tk)
                       (M_Text (lit ''expected TypeName.VariantName for enum annotation argument''))))
            (error_at (tok_span tk)
               (M_Text (lit ''expected TypeName.VariantName for enum annotation argument'')))) s
      | T_Keyword w \<Rightarrow>
          if w = K_True then POk (AA_Literal (Lit_Bool True)) (p_bump s)
          else if w = K_False then POk (AA_Literal (Lit_Bool False)) (p_bump s)
          else error_at (tok_span tk)
                 (M_Text (lit ''expected annotation argument (string, int, float, bool, EnumType.Variant, or [...])'')) s
      | _ \<Rightarrow> error_at (tok_span tk)
               (M_Text (lit ''expected annotation argument (string, int, float, bool, EnumType.Variant, or [...])'')) s)"

text \<open>\<^verbatim>\<open>p().ok()\<close>: an error is dropped, with the cursor where it occurred.\<close>

definition tryp :: "'a parser \<Rightarrow> 'a option parser" where
  "tryp m s = (case m s of POk x s1 \<Rightarrow> POk (Some x) s1 | PErr e s1 \<Rightarrow> POk None s1 | PFuel \<Rightarrow> PFuel)"

definition opt_list :: "'a option \<Rightarrow> 'a list" where
  "opt_list x = (case x of None \<Rightarrow> [] | Some y \<Rightarrow> [y])"

definition parse_annotation_args :: "nat \<Rightarrow> knot \<Rightarrow> annotation_arg list parser" where
  "parse_annotation_args n k =
     ifp (checkp T_LParen)
       (thenp bumpp
         (bindp (ifp (checkp T_RParen) (retp [])
            (bindp (tryp (k_ann_arg k)) (\<lambda>first. case first of
                None \<Rightarrow> retp []
              | Some a \<Rightarrow> loopp n (\<lambda>acc.
                  ifp (consume T_Comma)
                    (bindp (tryp (k_ann_arg k)) (\<lambda>r. retp (Inl (acc @ opt_list r))))
                    (retp (Inr acc))) [a])))
         (\<lambda>args. thenp (tryp (expect T_RParen)) (retp args))))
       (retp [])"

definition parse_annotations :: "nat \<Rightarrow> knot \<Rightarrow> annotation list parser" where
  "parse_annotations n k =
     loopp n (\<lambda>acc s.
       if p_check T_At s \<and> ahead_is_ident 1 s
       then bindp spanp (\<lambda>sp. thenp bumpp (
            bindp (tryp parse_ident) (\<lambda>name.
            bindp (parse_annotation_args n k) (\<lambda>args.
            retp (Inl (acc @ [\<lparr>ann_name = (case name of None \<Rightarrow> [] | Some t \<Rightarrow> t),
                               ann_args = args, ann_span = sp\<rparr>])))))) s
       else POk (Inr acc) s) []"

section \<open>Types\<close>

definition prim_type :: "rstring \<Rightarrow> ty option" where
  "prim_type t =
     (if t = lit ''Int8'' then Some Ty_Int8 else if t = lit ''Int16'' then Some Ty_Int16
      else if t = lit ''Int32'' then Some Ty_Int32 else if t = lit ''Int64'' then Some Ty_Int64
      else if t = lit ''UInt8'' then Some Ty_UInt8 else if t = lit ''UInt16'' then Some Ty_UInt16
      else if t = lit ''UInt32'' then Some Ty_UInt32 else if t = lit ''UInt64'' then Some Ty_UInt64
      else if t = lit ''Float32'' then Some Ty_Float32 else if t = lit ''Float64'' then Some Ty_Float64
      else if t = lit ''Bool'' then Some Ty_Bool else if t = lit ''Char'' then Some Ty_Char
      else if t = lit ''String'' then Some Ty_String else if t = lit ''Nothing'' then Some Ty_Nothing
      else if t = lit ''Never'' then Some Ty_Never else if t = lit ''Any'' then Some Ty_Any
      else None)"

definition parse_type_base :: "nat \<Rightarrow> knot \<Rightarrow> ty parser" where
  "parse_type_base n k =
     ifp (check_keywordp K_Nothing) (thenp bumpp (retp Ty_Nothing))
     (ifp (check_keywordp K_Any) (thenp bumpp (retp Ty_Any))
     (ifp (check_keywordp K_Never) (thenp bumpp (retp Ty_Never))
     (bindp parse_ident (\<lambda>name.
        case prim_type name of
          Some t \<Rightarrow> retp t
        | None \<Rightarrow>
            if name = lit ''Map'' then
              thenp (expect T_Less) (
              bindp (k_type k) (\<lambda>key.
              thenp (expect T_Comma) (
              bindp (k_type k) (\<lambda>val.
              thenp expect_generic_close (
              retp (Ty_Map key val))))))
            else
              ifp (checkp T_Less)
                (thenp bumpp (
                 bindp (comma_list n (k_type k)) (\<lambda>args.
                 thenp expect_generic_close (
                 retp (Ty_Generic name args)))))
                (retp (Ty_Named name))))))"

definition parse_type_suffix :: "nat \<Rightarrow> knot \<Rightarrow> ty \<Rightarrow> ty parser" where
  "parse_type_suffix n k base =
     bindp (loopp n (\<lambda>base.
        ifp (checkp T_LBracket)
          (thenp bumpp (thenp skip_to_bracket (thenp bumpp (retp (Inl (Ty_Array base))))))
          (retp (Inr base))) base) (\<lambda>base.
     bindp (ifp (checkp T_Star) (thenp bumpp (retp (Ty_Ref base))) (retp base)) (\<lambda>base.
     bindp (ifp (consume T_Question) (retp (Ty_Nullable base)) (retp base)) (\<lambda>base.
     ifp (checkp T_LParen)
       (thenp bumpp (
        bindp (comma_list_until T_RParen n (k_type k)) (\<lambda>params.
        thenp (expect T_RParen) (
        thenp (expect T_ThinArrow) (
        bindp (k_type k) (\<lambda>ret.
        retp (Ty_Fn (base # params) ret)))))))
       (retp base))))"

definition parse_type :: "nat \<Rightarrow> knot \<Rightarrow> ty parser" where
  "parse_type n k =
     ifp (checkp T_LParen)
       (thenp bumpp (
        bindp (comma_list_until T_RParen n (k_type k)) (\<lambda>types.
        thenp (expect T_RParen) (
        retp (Ty_Tuple types)))))
     (ifp (checkp T_Star)
       (thenp bumpp (bindp (k_type k) (\<lambda>inner. retp (Ty_Ref inner))))
     (ifp (checkp T_Question)
       (thenp bumpp (bindp (k_type k) (\<lambda>inner. retp (Ty_Ref inner))))
     (ifp (consume_keyword K_Mut)
       (bindp (k_type k) (\<lambda>inner. retp (Ty_Mutable inner)))
     (ifp (check_keywordp K_Fnc)
       (thenp bumpp (
        thenp (expect T_LParen) (
        bindp (comma_list_until T_RParen n (k_type k)) (\<lambda>params.
        thenp (expect T_RParen) (
        bindp (ifp (consume T_ThinArrow) (k_type k) (retp Ty_Nothing)) (\<lambda>ret.
        retp (Ty_Fn params ret)))))))
     (bindp (parse_type_base n k) (\<lambda>base. parse_type_suffix n k base))))))"

definition parse_type_params :: "nat \<Rightarrow> rstring list parser" where
  "parse_type_params n =
     thenp (expect T_Less) (
     bindp (comma_list n parse_ident) (\<lambda>params.
     thenp (expect T_Greater) (
     retp params)))"

section \<open>Parameters\<close>

definition mk_param :: "ident \<Rightarrow> ty \<Rightarrow> span \<Rightarrow> annotation list \<Rightarrow> param" where
  "mk_param nm t sp anns =
     \<lparr>param_name = nm, param_type = t, param_span = sp, param_annotations = anns\<rparr>"

definition parse_param :: "nat \<Rightarrow> knot \<Rightarrow> param parser" where
  "parse_param n k =
     bindp (parse_annotations n k) (\<lambda>anns.
     bindp spanp (\<lambda>sp.
     bindp parse_ident (\<lambda>nm.
     thenp (expect T_Colon) (
     bindp (parse_type n k) (\<lambda>t.
     retp (mk_param nm t sp anns))))))"

text \<open>\<^verbatim>\<open>parse_lambda_param\<close> and \<^verbatim>\<open>parse_fn_lambda_param\<close> are the same production.\<close>

definition parse_lambda_param :: "nat \<Rightarrow> knot \<Rightarrow> param parser" where
  "parse_lambda_param n k =
     bindp spanp (\<lambda>sp.
     bindp parse_ident (\<lambda>nm.
     bindp (ifp (consume T_Colon) (parse_type n k) (retp Ty_Infer)) (\<lambda>t.
     retp (mk_param nm t sp []))))"

section \<open>Patterns\<close>

definition parse_pattern_args :: "nat \<Rightarrow> knot \<Rightarrow> pattern list parser" where
  "parse_pattern_args n k =
     thenp bumpp (
     bindp (comma_list_until T_RParen n (k_pattern k)) (\<lambda>args.
     thenp (expect T_RParen) (
     retp args)))"

definition pattern_literal :: "token_kind \<Rightarrow> literal option" where
  "pattern_literal t = (case t of
     T_Integer v \<Rightarrow> Some (Lit_Integer v)
   | T_Float f \<Rightarrow> Some (Lit_Float f)
   | T_String x \<Rightarrow> Some (Lit_String x)
   | T_Char c \<Rightarrow> Some (Lit_Char c)
   | T_Byte b \<Rightarrow> Some (Lit_Byte b)
   | T_Bool b \<Rightarrow> Some (Lit_Bool b)
   | T_Keyword w \<Rightarrow> if w = K_True then Some (Lit_Bool True)
                   else if w = K_False then Some (Lit_Bool False) else None
   | _ \<Rightarrow> None)"

definition parse_pattern :: "nat \<Rightarrow> knot \<Rightarrow> pattern parser" where
  "parse_pattern n k =
     bindp spanp (\<lambda>sp.
     ifp (checkp T_Underscore) (thenp bumpp (retp (P_Wildcard sp)))
     (ifp (checkp T_LParen)
       (bindp (parse_pattern_args n k) (\<lambda>ps. retp (P_Tuple ps sp)))
     (bindp peekp (\<lambda>tk. case pattern_literal (tok_kind tk) of
        Some l \<Rightarrow> thenp bumpp (retp (P_Literal l sp))
      | None \<Rightarrow>
          bindp parse_ident (\<lambda>name.
          bindp (checkp T_ColonColon) (\<lambda>cc.
          bindp (checkp T_Dot) (\<lambda>dot.
          if cc \<or> dot then
            thenp bumpp (
            bindp parse_ident (\<lambda>variant.
            bindp (ifp (checkp T_LParen) (parse_pattern_args n k) (retp [])) (\<lambda>args.
            retp (P_EnumVariant name variant args sp))))
          else
            ifp (checkp T_LParen)
              (bindp (parse_pattern_args n k) (\<lambda>args. retp (P_EnumVariant name [] args sp)))
              (retp (P_Ident name None sp)))))))))"

end
