(* ===== verification/Tinox_Parser_Expr.thy ===== *)
theory Tinox_Parser_Expr
  imports Tinox_Parser_Types Tinox_Tokenize
begin

text \<open>
  Expressions of \<^verbatim>\<open>src/crates/tinox-parser/src/parser.rs\<close>: the ladder of binary operators,
  unary and postfix expressions, primary expressions with their look-aheads, lambdas, match
  and string interpolation, which lexes and parses the embedded source again. Productions
  call themselves through the knot of \<open>Tinox_Parser_Types\<close>.
\<close>

section \<open>Blocks\<close>

definition p_push_error :: "parse_error \<Rightarrow> pstate \<Rightarrow> pstate" where
  "p_push_error e s = s\<lparr>ps_errors := ps_errors s @ [e]\<rparr>"

definition parse_block_stmts :: "nat \<Rightarrow> knot \<Rightarrow> stmt list parser" where
  "parse_block_stmts n k =
     loopp n (\<lambda>acc s.
       if p_check T_RBrace s \<or> p_is_at_end s then POk (Inr acc) s
       else case k_stmt k s of
              POk st s1 \<Rightarrow> POk (Inl (acc @ [st])) s1
            | PErr e s1 \<Rightarrow>
                let s2 = p_synchronize (p_push_error e s1)
                in POk (if p_check T_RBrace s2 then Inr acc else Inl acc) s2
            | PFuel \<Rightarrow> PFuel) []"

definition parse_block :: "nat \<Rightarrow> knot \<Rightarrow> stmt parser" where
  "parse_block n k =
     bindp spanp (\<lambda>sp.
     thenp (expect T_LBrace) (
     bindp (parse_block_stmts n k) (\<lambda>stmts.
     thenp (expect T_RBrace) (
     retp (spanned_new (S_Block stmts) sp)))))"

section \<open>Arguments\<close>

text \<open>\<^verbatim>\<open>self.bump(); ... self.expect(RParen)?\<close>, the cursor being at the opening parenthesis\<close>

definition call_args :: "nat \<Rightarrow> knot \<Rightarrow> expr list parser" where
  "call_args n k =
     thenp bumpp (
     bindp (comma_list_until T_RParen n (k_expr k)) (\<lambda>args.
     thenp (expect T_RParen) (
     retp args)))"

definition named_call_args :: "nat \<Rightarrow> knot \<Rightarrow> expr list parser" where
  "named_call_args n k =
     thenp bumpp (
     bindp (comma_list_trailing T_RParen n (thenp skip_arg_name (k_expr k))) (\<lambda>args.
     thenp (expect T_RParen) (
     retp args)))"

definition type_args_close :: "nat \<Rightarrow> knot \<Rightarrow> ty list parser" where
  "type_args_close n k =
     thenp bumpp (
     bindp (comma_list n (k_type k)) (\<lambda>args.
     thenp expect_generic_close (
     retp args)))"

section \<open>Primary expressions\<close>

definition parse_expr_str :: "knot \<Rightarrow> rstring \<Rightarrow> span \<Rightarrow> expr parser" where
  "parse_expr_str k src sp s =
     (case fst (tokenize (lexer_new src)) of
        Inl _ \<Rightarrow> error_at sp (M_Interpolation src) s
      | Inr toks \<Rightarrow>
          (case k_expr k (parser_new toks) of
             POk e _ \<Rightarrow> POk e s
           | PErr _ _ \<Rightarrow> error_at sp (M_Interpolation src) s
           | PFuel \<Rightarrow> PFuel))"

definition string_lit :: "rstring \<Rightarrow> span \<Rightarrow> expr" where
  "string_lit t sp = spanned_new (E_Literal (Lit_String t)) sp"

definition interp_part_expr :: "knot \<Rightarrow> span \<Rightarrow> interp_part \<Rightarrow> expr parser" where
  "interp_part_expr k sp p = (case p of
     IP_Str t \<Rightarrow> retp (string_lit t sp)
   | IP_Expr src \<Rightarrow>
       bindp (parse_expr_str k src sp) (\<lambda>inner.
       retp (spanned_new (E_Call (spanned_new (E_Ident (lit ''toString'')) sp) [inner]) sp)))"

primrec interp_concat :: "knot \<Rightarrow> span \<Rightarrow> expr option \<Rightarrow> interp_part list \<Rightarrow> expr parser" where
  "interp_concat k sp acc [] = retp (case acc of None \<Rightarrow> string_lit [] sp | Some e \<Rightarrow> e)"
| "interp_concat k sp acc (p # ps) =
     bindp (interp_part_expr k sp p) (\<lambda>e.
     interp_concat k sp (Some (case acc of
         None \<Rightarrow> e | Some r \<Rightarrow> spanned_new (E_Binary B_Add r e) sp)) ps)"

definition map_entry :: "knot \<Rightarrow> (expr \<times> expr) parser" where
  "map_entry k =
     bindp (k_expr k) (\<lambda>key.
     thenp (expect T_FatArrow) (
     bindp (k_expr k) (\<lambda>val.
     retp (key, val))))"

text \<open>The look-ahead of \<^verbatim>\<open>is_struct_literal\<close>, at the brace.\<close>

definition is_struct_literal :: "pstate \<Rightarrow> bool" where
  "is_struct_literal s =
     (let s1 = p_bump s in
      if p_check T_RBrace s1 then True
      else if is_ident_kind (p_kind s1) then p_check T_Colon (p_bump s1)
      else False)"

definition struct_fields :: "nat \<Rightarrow> knot \<Rightarrow> (ident \<times> expr) list parser" where
  "struct_fields n k =
     loopp n (\<lambda>acc.
       ifp (checkp T_RBrace) (retp (Inr acc))
         (bindp parse_ident (\<lambda>name.
          thenp (expect T_Colon) (
          bindp (k_expr k) (\<lambda>value.
          thenp (ifp (checkp T_RBrace) (retp ()) (expect T_Comma)) (
          retp (Inl (acc @ [(name, value)])))))))) []"

text \<open>\<^verbatim>\<open>Foo<T>\<close> before a struct literal: skipped, or the cursor goes back.\<close>

definition skip_struct_generics :: "unit parser" where
  "skip_struct_generics s =
     (if p_check T_Less s
      then let s1 = skip_angles 1 (p_bump s)
           in POk () (if p_check T_LBrace s1 then s1 else s1\<lparr>ps_pos := ps_pos s\<rparr>)
      else POk () s)"

definition parse_ident_expr :: "nat \<Rightarrow> knot \<Rightarrow> ident \<Rightarrow> span \<Rightarrow> expr parser" where
  "parse_ident_expr n k name sp =
     thenp bumpp (
     thenp skip_struct_generics (\<lambda>s.
       if p_check T_LBrace s \<and> is_struct_literal s
       then thenp bumpp (
            bindp (struct_fields n k) (\<lambda>fields.
            thenp (expect T_RBrace) (
            retp (spanned_new (E_StructLiteral name fields) sp)))) s
       else POk (spanned_new (E_Ident name) sp) s))"

definition parse_if_expr :: "nat \<Rightarrow> knot \<Rightarrow> expr parser" where
  "parse_if_expr n k =
     bindp spanp (\<lambda>sp.
     thenp (expect_keyword K_If) (
     bindp (k_expr k) (\<lambda>cond.
     bindp (k_expr k) (\<lambda>then_branch.
     bindp (ifp (consume_keyword K_Else) (bindp (k_expr k) (\<lambda>e. retp (Some e))) (retp None)) (\<lambda>else_branch.
     retp (spanned_new (E_If cond then_branch else_branch) sp))))))"

definition parse_while_expr :: "nat \<Rightarrow> knot \<Rightarrow> expr parser" where
  "parse_while_expr n k =
     bindp spanp (\<lambda>sp.
     thenp (expect_keyword K_While) (
     bindp (k_expr k) (\<lambda>cond.
     bindp (k_expr k) (\<lambda>body.
     retp (spanned_new (E_While cond body) sp)))))"

definition parse_loop_expr :: "nat \<Rightarrow> knot \<Rightarrow> expr parser" where
  "parse_loop_expr n k =
     bindp spanp (\<lambda>sp.
     thenp (expect_keyword K_Loop) (
     bindp (k_expr k) (\<lambda>body.
     retp (spanned_new (E_Loop body) sp))))"

definition is_block_kind :: "expr \<Rightarrow> bool" where
  "is_block_kind e = (case node e of E_Block _ \<Rightarrow> True | _ \<Rightarrow> False)"

text \<open>
  The separator after a match case: required unless the body is a block or the list ends,
  in which case one comma and one semicolon are skipped.
\<close>

definition skip_separators :: "unit parser" where
  "skip_separators = thenp (consume T_Comma) (thenp (consume T_Semicolon) (retp ()))"

definition require_separator :: "unit parser" where
  "require_separator =
     ifp (checkp T_RBrace) skip_separators
       (ifp (consume T_Comma) (retp ())
         (ifp (consume T_Semicolon) (retp ())
           (errorp (lit ''expected '' @ sq '','' @ lit '' or '' @ sq '';''))))"

definition parse_match_case :: "nat \<Rightarrow> knot \<Rightarrow> expr match_case parser" where
  "parse_match_case n k =
     bindp spanp (\<lambda>sp.
     bindp (k_pattern k) (\<lambda>pat.
     bindp (ifp (consume_keyword K_If) (bindp (k_expr k) (\<lambda>g. retp (Some g))) (retp None)) (\<lambda>guard.
     thenp (expect T_FatArrow) (
     bindp (k_expr k) (\<lambda>body.
     thenp (if is_block_kind body then skip_separators else require_separator) (
     retp (MatchCase pat guard body sp)))))))"

definition parse_match_expr :: "nat \<Rightarrow> knot \<Rightarrow> expr parser" where
  "parse_match_expr n k =
     bindp spanp (\<lambda>sp.
     thenp (expect_keyword K_Match) (
     bindp (k_expr k) (\<lambda>e.
     thenp (expect T_LBrace) (
     bindp (loopp n (\<lambda>acc.
        ifp (checkp T_RBrace) (retp (Inr acc))
          (bindp (parse_match_case n k) (\<lambda>c. retp (Inl (acc @ [c]))))) []) (\<lambda>cases.
     thenp (expect T_RBrace) (
     retp (spanned_new (E_Match e cases) sp)))))))"

definition parse_new_expr :: "nat \<Rightarrow> knot \<Rightarrow> expr parser" where
  "parse_new_expr n k =
     bindp spanp (\<lambda>sp.
     thenp (expect_keyword K_New) (
     bindp parse_ident (\<lambda>cls.
     bindp (ifp (consume T_Less)
       (bindp (comma_list n (k_type k)) (\<lambda>targs.
        thenp (expect T_Greater) (
        retp targs)))
       (retp [])) (\<lambda>type_args.
     thenp (expect T_LParen) (
     bindp (comma_list_until T_RParen n (k_expr k)) (\<lambda>args.
     thenp (expect T_RParen) (
     retp (spanned_new (E_New cls type_args args) sp))))))))"

definition parse_spawn_expr :: "nat \<Rightarrow> knot \<Rightarrow> expr parser" where
  "parse_spawn_expr n k =
     bindp spanp (\<lambda>sp.
     thenp (expect_keyword K_Spawn) (
     bindp (k_expr k) (\<lambda>e. retp (spanned_new (E_Spawn e) sp))))"

definition parse_await_expr :: "nat \<Rightarrow> knot \<Rightarrow> expr parser" where
  "parse_await_expr n k =
     bindp spanp (\<lambda>sp.
     thenp (expect_keyword K_Await) (
     bindp (k_expr k) (\<lambda>e. retp (spanned_new (E_Await e) sp))))"

definition parse_send_expr :: "nat \<Rightarrow> knot \<Rightarrow> expr parser" where
  "parse_send_expr n k =
     bindp spanp (\<lambda>sp.
     thenp (expect_keyword K_Send) (
     bindp (k_expr k) (\<lambda>channel.
     thenp (expect T_ThinArrow) (
     bindp (k_expr k) (\<lambda>value.
     retp (spanned_new (E_Send channel value) sp))))))"

definition parse_recv_expr :: "nat \<Rightarrow> knot \<Rightarrow> expr parser" where
  "parse_recv_expr n k =
     bindp spanp (\<lambda>sp.
     thenp (expect_keyword K_Recv) (
     bindp (k_expr k) (\<lambda>channel. retp (spanned_new (E_Recv channel) sp))))"

definition parse_cast_expr :: "nat \<Rightarrow> knot \<Rightarrow> expr parser" where
  "parse_cast_expr n k =
     bindp spanp (\<lambda>sp.
     thenp (expect_keyword K_Cast) (
     bindp (k_unary k) (\<lambda>e.
     thenp (expect_keyword K_As) (
     bindp (k_type k) (\<lambda>t.
     retp (spanned_new (E_Cast e t) sp))))))"

definition parse_is_expr :: "nat \<Rightarrow> knot \<Rightarrow> expr parser" where
  "parse_is_expr n k =
     bindp spanp (\<lambda>sp.
     thenp (expect_keyword K_Is) (
     bindp (k_expr k) (\<lambda>e.
     thenp (expect T_ThinArrow) (
     bindp (k_type k) (\<lambda>t.
     retp (spanned_new (E_Is e t) sp))))))"

section \<open>Lambdas and parentheses\<close>

definition parse_lambda :: "nat \<Rightarrow> knot \<Rightarrow> expr parser" where
  "parse_lambda n k =
     bindp spanp (\<lambda>sp.
     thenp (expect T_Backslash) (
     bindp (comma_list_until T_ThinArrow n (parse_lambda_param n k)) (\<lambda>params.
     thenp (expect T_ThinArrow) (
     bindp (k_expr k) (\<lambda>body.
     retp (spanned_new (E_Lambda params None body) sp))))))"

definition parse_typed_lambda :: "nat \<Rightarrow> knot \<Rightarrow> expr parser" where
  "parse_typed_lambda n k =
     bindp spanp (\<lambda>sp.
     thenp (expect T_LParen) (
     bindp (comma_list_trailing T_RParen n (parse_lambda_param n k)) (\<lambda>params.
     thenp (expect T_RParen) (
     thenp (expect T_FatArrow) (
     bindp (k_assign k) (\<lambda>body.
     retp (spanned_new (E_Lambda params None body) sp)))))))"

text \<open>\<^verbatim>\<open>parse_fn_lambda\<close> and \<^verbatim>\<open>parse_fnc_lambda\<close>, which differ in the keyword\<close>

definition parse_keyword_lambda :: "keyword \<Rightarrow> nat \<Rightarrow> knot \<Rightarrow> expr parser" where
  "parse_keyword_lambda w n k =
     bindp spanp (\<lambda>sp.
     thenp (expect_keyword w) (
     thenp (expect T_LParen) (
     bindp (comma_list_trailing T_RParen n (parse_lambda_param n k)) (\<lambda>params.
     thenp (expect T_RParen) (
     bindp (ifp (consume T_ThinArrow) (bindp (k_type k) (\<lambda>t. retp (Some t))) (retp None)) (\<lambda>ret_type.
     bindp (k_expr k) (\<lambda>body.
     retp (spanned_new (E_Lambda params ret_type body) sp))))))))"

definition parse_fn_lambda :: "nat \<Rightarrow> knot \<Rightarrow> expr parser" where
  "parse_fn_lambda = parse_keyword_lambda K_Fn"

definition parse_fnc_lambda :: "nat \<Rightarrow> knot \<Rightarrow> expr parser" where
  "parse_fnc_lambda = parse_keyword_lambda K_Fnc"

definition parse_tuple_or_grouped :: "nat \<Rightarrow> knot \<Rightarrow> expr parser" where
  "parse_tuple_or_grouped n k =
     bindp spanp (\<lambda>sp.
     thenp (expect T_LParen) (
     ifp (checkp T_RParen)
       (thenp bumpp (retp (spanned_new (E_Block []) sp)))
       (bindp (k_expr k) (\<lambda>e.
        ifp (checkp T_Comma)
          (thenp bumpp (
           bindp (k_expr k) (\<lambda>e2.
           bindp (sep_more (consume T_Comma) n (k_expr k) [e, e2]) (\<lambda>exprs.
           thenp (expect T_RParen) (
           retp (spanned_new (E_Tuple exprs) sp))))))
          (thenp (expect T_RParen) (retp e))))))"

definition is_typed_lambda :: "pstate \<Rightarrow> bool" where
  "is_typed_lambda s \<longleftrightarrow> ahead_is_ident 1 s \<and> p_kind_ahead 2 s = Some T_Colon"

definition cast_type_name :: "rstring \<Rightarrow> bool" where
  "cast_type_name t \<longleftrightarrow> t \<in> set (map lit [''Int8'', ''Int16'', ''Int32'', ''Int64'', ''UInt8'', ''UInt16'',
     ''UInt32'', ''UInt64'', ''Float32'', ''Float64'', ''Bool'', ''Char'', ''String''])"

definition can_start_cast_operand :: "token_kind \<Rightarrow> bool" where
  "can_start_cast_operand t = (case t of
     T_Ident _ \<Rightarrow> True | T_Integer _ \<Rightarrow> True | T_Float _ \<Rightarrow> True | T_Minus \<Rightarrow> True | T_Bang \<Rightarrow> True
   | T_LParen \<Rightarrow> True | T_Keyword w \<Rightarrow> w = K_This | _ \<Rightarrow> False)"

definition is_c_cast :: "pstate \<Rightarrow> bool" where
  "is_c_cast s \<longleftrightarrow>
     (case p_kind_ahead 1 s of Some (T_Ident t) \<Rightarrow> cast_type_name t | _ \<Rightarrow> False)
     \<and> p_kind_ahead 2 s = Some T_RParen
     \<and> (case p_kind_ahead 3 s of Some t \<Rightarrow> can_start_cast_operand t | None \<Rightarrow> False)"

definition parse_paren_expr :: "nat \<Rightarrow> knot \<Rightarrow> expr parser" where
  "parse_paren_expr n k s =
     (if is_typed_lambda s then parse_typed_lambda n k s
      else if is_c_cast s
      then bindp spanp (\<lambda>sp.
           thenp bumpp (
           bindp (k_type k) (\<lambda>t.
           thenp (expect T_RParen) (
           bindp (k_unary k) (\<lambda>e.
           retp (spanned_new (E_Cast e t) sp)))))) s
      else parse_tuple_or_grouped n k s)"

section \<open>Dispatch on the first token\<close>

definition token_literal :: "token_kind \<Rightarrow> literal option" where
  "token_literal t = (case t of
     T_Integer v \<Rightarrow> Some (Lit_Integer v)
   | T_Float f \<Rightarrow> Some (Lit_Float f)
   | T_String x \<Rightarrow> Some (Lit_String x)
   | T_RawString x \<Rightarrow> Some (Lit_String x)
   | T_Byte b \<Rightarrow> Some (Lit_Byte b)
   | T_Char c \<Rightarrow> Some (Lit_Char c)
   | T_Bool b \<Rightarrow> Some (Lit_Bool b)
   | T_Keyword w \<Rightarrow> if w = K_True then Some (Lit_Bool True)
                   else if w = K_False then Some (Lit_Bool False)
                   else if w = K_Null then Some Lit_Null else None
   | _ \<Rightarrow> None)"

definition parse_super_call :: "nat \<Rightarrow> knot \<Rightarrow> span \<Rightarrow> expr parser" where
  "parse_super_call n k sp =
     thenp bumpp (
     thenp (expect T_Dot) (
     bindp parse_ident (\<lambda>method.
     thenp (expect T_LParen) (
     bindp (comma_list_until T_RParen n (k_expr k)) (\<lambda>args.
     thenp (expect T_RParen) (
     retp (spanned_new (E_SuperCall method args) sp)))))))"

definition ends_return :: "pstate \<Rightarrow> bool" where
  "ends_return s \<longleftrightarrow> p_check T_Semicolon s \<or> p_check T_RBrace s \<or> p_check T_RParen s"

definition parse_return_expr :: "nat \<Rightarrow> knot \<Rightarrow> span \<Rightarrow> expr parser" where
  "parse_return_expr n k sp =
     thenp bumpp (
     bindp (ifp (\<lambda>s. POk (ends_return s) s) (retp None) (bindp (k_expr k) (\<lambda>e. retp (Some e)))) (\<lambda>value.
     retp (spanned_new (E_Return value) sp)))"

text \<open>The arms of \<^verbatim>\<open>parse_primary_expr\<close> for keywords, literals apart, in the order of the source.\<close>

definition parse_keyword_expr :: "nat \<Rightarrow> knot \<Rightarrow> keyword \<Rightarrow> token \<Rightarrow> expr parser" where
  "parse_keyword_expr n k w tk s =
     (let sp = tok_span tk; paren = (p_kind_ahead 1 s = Some T_LParen) in
      case w of
        K_This \<Rightarrow> POk (spanned_new E_This sp) (p_bump s)
      | K_Super \<Rightarrow> parse_super_call n k sp s
      | K_If \<Rightarrow> parse_if_expr n k s
      | K_While \<Rightarrow> parse_while_expr n k s
      | K_Loop \<Rightarrow> parse_loop_expr n k s
      | K_Match \<Rightarrow> parse_match_expr n k s
      | K_New \<Rightarrow> parse_new_expr n k s
      | K_Spawn \<Rightarrow> parse_spawn_expr n k s
      | K_Await \<Rightarrow> parse_await_expr n k s
      | K_Send \<Rightarrow> parse_send_expr n k s
      | K_Recv \<Rightarrow> parse_recv_expr n k s
      | K_Return \<Rightarrow> parse_return_expr n k sp s
      | K_Break \<Rightarrow> POk (spanned_new E_Break sp) (p_bump s)
      | K_Continue \<Rightarrow> POk (spanned_new E_Continue sp) (p_bump s)
      | K_Cast \<Rightarrow> parse_cast_expr n k s
      | K_Is \<Rightarrow> parse_is_expr n k s
      | K_Channel \<Rightarrow> POk (spanned_new E_Channel sp) (p_bump s)
      | K_Fnc \<Rightarrow> if paren then parse_fnc_lambda n k s else error_at sp (M_Unexpected (tok_kind tk)) s
      | K_Fn \<Rightarrow> if paren then parse_fn_lambda n k s else error_at sp (M_Unexpected (tok_kind tk)) s
      | K_Default \<Rightarrow> POk (spanned_new (E_Ident (lit ''default'')) sp) (p_bump s)
      | _ \<Rightarrow> error_at sp (M_Unexpected (tok_kind tk)) s)"

definition block_stmts :: "stmt \<Rightarrow> stmt list" where
  "block_stmts st = (case node st of S_Block stmts \<Rightarrow> stmts | _ \<Rightarrow> [])"

definition parse_primary_expr :: "nat \<Rightarrow> knot \<Rightarrow> expr parser" where
  "parse_primary_expr n k s =
     (let tk = p_peek s; sp = tok_span tk in
      case token_literal (tok_kind tk) of
        Some l \<Rightarrow> POk (spanned_new (E_Literal l) sp) (p_bump s)
      | None \<Rightarrow>
      (case tok_kind tk of
        T_At \<Rightarrow>
          thenp bumpp (
          thenp (expect T_LBrace) (
          bindp (comma_list_trailing T_RBrace n (map_entry k)) (\<lambda>entries.
          thenp (expect T_RBrace) (
          retp (spanned_new (E_MapLiteral entries) sp))))) s
      | T_LBracket \<Rightarrow>
          thenp bumpp (
          bindp (comma_list_trailing T_RBracket n (k_expr k)) (\<lambda>elements.
          thenp (expect T_RBracket) (
          retp (spanned_new (E_ArrayLiteral elements) sp)))) s
      | T_InterpString parts \<Rightarrow> thenp bumpp (interp_concat k sp None parts) s
      | T_Backslash \<Rightarrow> parse_lambda n k s
      | T_LParen \<Rightarrow> parse_paren_expr n k s
      | T_LBrace \<Rightarrow>
          bindp (parse_block n k) (\<lambda>st. retp (spanned_new (E_Block (block_stmts st)) (nspan st))) s
      | T_Ident name \<Rightarrow> parse_ident_expr n k name sp s
      | T_Keyword w \<Rightarrow> parse_keyword_expr n k w tk s
      | _ \<Rightarrow> error_at sp (M_Unexpected (tok_kind tk)) s))"

section \<open>Postfix chains\<close>

definition starts_upper :: "rstring \<Rightarrow> bool" where
  "starts_upper t = (case t of [] \<Rightarrow> False | c # _ \<Rightarrow> is_ascii_upper c)"

definition type_access_name :: "expr \<Rightarrow> ident option" where
  "type_access_name e = (case node e of E_Ident t \<Rightarrow> if starts_upper t then Some t else None | _ \<Rightarrow> None)"

definition has_named_args :: "pstate \<Rightarrow> bool" where
  "has_named_args s \<longleftrightarrow> p_check T_LParen s \<and> ahead_is_ident 1 s \<and> p_kind_ahead 2 s = Some T_Colon"

text \<open>\<^verbatim>\<open>obj.method<T>(args)\<close>: the type arguments are skipped.\<close>

definition skip_method_generics :: "unit parser" where
  "skip_method_generics s = POk () (skip_angles 1 (p_bump s))"

definition dot_member :: "nat \<Rightarrow> knot \<Rightarrow> expr \<Rightarrow> ident \<Rightarrow> expr parser" where
  "dot_member n k e name s =
     (let sp = nspan e in
      case (if has_named_args s \<or> \<not> p_check T_LParen s then type_access_name e else None) of
        Some enum_name \<Rightarrow>
          bindp (ifp (checkp T_LParen) (named_call_args n k) (retp [])) (\<lambda>args.
          retp (spanned_new (E_EnumValue enum_name name [] args) sp)) s
      | None \<Rightarrow>
          if is_generic_method_call s then
            thenp skip_method_generics (
            thenp (expect T_LParen) (
            bindp (comma_list_until T_RParen n (k_expr k)) (\<lambda>args.
            thenp (expect T_RParen) (
            retp (spanned_new (E_MethodCall e name args) sp))))) s
          else if p_check T_LParen s then
            bindp (call_args n k) (\<lambda>args. retp (spanned_new (E_MethodCall e name args) sp)) s
          else POk (spanned_new (E_FieldAccess e name) sp) s)"

definition as_usize :: "int \<Rightarrow> nat" where
  "as_usize i = nat (i mod 2 ^ 64)"

definition dot_access :: "nat \<Rightarrow> knot \<Rightarrow> expr \<Rightarrow> expr parser" where
  "dot_access n k e =
     thenp bumpp (
     bindp peekp (\<lambda>tk. case tok_kind tk of
        T_Integer idx \<Rightarrow> thenp bumpp (retp (spanned_new (E_TupleIndex e (as_usize idx)) (nspan e)))
      | _ \<Rightarrow> bindp parse_method_name (\<lambda>name. dot_member n k e name)))"

definition static_access :: "nat \<Rightarrow> knot \<Rightarrow> expr \<Rightarrow> ty list option \<Rightarrow> expr parser" where
  "static_access n k e pending = (case node e of
     E_Ident enum_name \<Rightarrow>
       thenp bumpp (
       bindp parse_method_name (\<lambda>variant.
       bindp (\<lambda>s. let given = (case pending of None \<Rightarrow> [] | Some ts \<Rightarrow> ts) in
                  if given = [] \<and> is_generic_method_call s then type_args_close n k s
                  else POk given s) (\<lambda>type_args.
       bindp (ifp (checkp T_LParen) (call_args n k) (retp [])) (\<lambda>args.
       retp (spanned_new (E_EnumValue enum_name variant type_args args) (nspan e))))))
   | _ \<Rightarrow> errorp (lit ''expected enum name before ::''))"

text \<open>
  One turn of the loop in \<^verbatim>\<open>parse_postfix_expr\<close>; the loop variable is the expression, the type
  arguments that wait for their \<^verbatim>\<open>::\<close>, and the length of the chain.
\<close>

definition postfix_step :: "nat \<Rightarrow> knot \<Rightarrow> expr \<times> ty list option \<times> nat
    \<Rightarrow> (expr \<times> ty list option \<times> nat + expr) parser" where
  "postfix_step n k st s =
     (case st of (e, pending, chain) \<Rightarrow>
      let go = (\<lambda>e p. retp (Inl (e, p, chain + 1))) in
      if chain + 1 > MAX_RECURSION_DEPTH then errorp (lit ''postfix chain too deep'') s
      else if p_check T_Dot s then bindp (dot_access n k e) (\<lambda>e. go e pending) s
      else if p_check T_ColonColon s then bindp (static_access n k e pending) (\<lambda>e. go e None) s
      else if is_generic_type_static_call s then bindp (type_args_close n k) (\<lambda>args. go e (Some args)) s
      else if p_check T_LBracket s then
        thenp bumpp (
        bindp (k_expr k) (\<lambda>index.
        thenp (expect T_RBracket) (
        go (spanned_new (E_Index e index) (nspan e)) pending))) s
      else if p_check T_DotDot s \<or> p_check T_DotDotDot s then
        (let inclusive = p_check T_DotDotDot s in
         thenp bumpp (
         bindp (k_postfix k) (\<lambda>end_e.
         go (spanned_new (E_Range e end_e inclusive) (nspan e)) pending)) s)
      else if p_check T_LParen s then
        bindp (call_args n k) (\<lambda>args. go (spanned_new (E_Call e args) (nspan e)) pending) s
      else POk (Inr e) s)"

definition parse_postfix_expr :: "nat \<Rightarrow> knot \<Rightarrow> expr parser" where
  "parse_postfix_expr n k =
     bindp (parse_primary_expr n k) (\<lambda>e. loopp n (postfix_step n k) (e, None, 0))"

section \<open>Unary and binary operators\<close>

definition unary_op :: "token_kind \<Rightarrow> unary_op option" where
  "unary_op t = (case t of T_Minus \<Rightarrow> Some U_Neg | T_Bang \<Rightarrow> Some U_Not | T_Tilde \<Rightarrow> Some U_BitNot | _ \<Rightarrow> None)"

definition parse_unary_expr :: "nat \<Rightarrow> knot \<Rightarrow> expr parser" where
  "parse_unary_expr n k s =
     (if p_check T_Plus s then thenp bumpp (k_unary k) s
      else case unary_op (p_kind s) of
             Some op \<Rightarrow>
               thenp bumpp (
               bindp (k_unary k) (\<lambda>operand.
               bindp spanp (\<lambda>sp.
               retp (spanned_new (E_Unary op operand) sp)))) s
           | None \<Rightarrow> parse_postfix_expr n k s)"

definition parse_as_expr :: "nat \<Rightarrow> knot \<Rightarrow> expr parser" where
  "parse_as_expr n k =
     bindp (parse_unary_expr n k) (\<lambda>e.
     loopp n (\<lambda>e.
       ifp (check_keywordp K_As)
         (thenp bumpp (bindp (k_type k) (\<lambda>t. retp (Inl (spanned_new (E_Cast e t) (nspan e))))))
         (retp (Inr e))) e)"

text \<open>A level of left-associative operators over the operands of the next level.\<close>

definition binary_level :: "(token_kind \<Rightarrow> binary_op option) \<Rightarrow> expr parser \<Rightarrow> nat \<Rightarrow> expr parser" where
  "binary_level ops operand n =
     bindp operand (\<lambda>lhs.
     loopp n (\<lambda>lhs s. case ops (p_kind s) of
         Some op \<Rightarrow>
           thenp bumpp (
           bindp operand (\<lambda>rhs.
           retp (Inl (spanned_new (E_Binary op lhs rhs) (nspan lhs))))) s
       | None \<Rightarrow> POk (Inr lhs) s) lhs)"

definition multiplicative_ops :: "token_kind \<Rightarrow> binary_op option" where
  "multiplicative_ops t = (case t of T_Star \<Rightarrow> Some B_Mul | T_Slash \<Rightarrow> Some B_Div | T_Percent \<Rightarrow> Some B_Mod | _ \<Rightarrow> None)"
definition additive_ops :: "token_kind \<Rightarrow> binary_op option" where
  "additive_ops t = (case t of T_Plus \<Rightarrow> Some B_Add | T_Minus \<Rightarrow> Some B_Sub | _ \<Rightarrow> None)"
definition shift_ops :: "token_kind \<Rightarrow> binary_op option" where
  "shift_ops t = (case t of T_LessLess \<Rightarrow> Some B_Shl | T_GreaterGreater \<Rightarrow> Some B_Shr
     | T_GreaterGreaterGreater \<Rightarrow> Some B_ShrArith | _ \<Rightarrow> None)"
definition relational_ops :: "token_kind \<Rightarrow> binary_op option" where
  "relational_ops t = (case t of T_Less \<Rightarrow> Some B_Lt | T_LessEquals \<Rightarrow> Some B_Le | T_Greater \<Rightarrow> Some B_Gt
     | T_GreaterEquals \<Rightarrow> Some B_Ge | _ \<Rightarrow> None)"
definition equality_ops :: "token_kind \<Rightarrow> binary_op option" where
  "equality_ops t = (case t of T_EqualsEquals \<Rightarrow> Some B_Eq | T_BangEquals \<Rightarrow> Some B_Ne | _ \<Rightarrow> None)"
definition bitwise_and_ops :: "token_kind \<Rightarrow> binary_op option" where
  "bitwise_and_ops t = (if t = T_Ampersand then Some B_BitAnd else None)"
definition bitwise_xor_ops :: "token_kind \<Rightarrow> binary_op option" where
  "bitwise_xor_ops t = (if t = T_Caret then Some B_Xor else None)"
definition bitwise_or_ops :: "token_kind \<Rightarrow> binary_op option" where
  "bitwise_or_ops t = (if t = T_Bar then Some B_BitOr else None)"
definition and_ops :: "token_kind \<Rightarrow> binary_op option" where
  "and_ops t = (if t = T_AmpAmp then Some B_And else None)"
definition or_ops :: "token_kind \<Rightarrow> binary_op option" where
  "or_ops t = (if t = T_BarBar then Some B_Or else None)"

definition parse_multiplicative_expr :: "nat \<Rightarrow> knot \<Rightarrow> expr parser" where
  "parse_multiplicative_expr n k = binary_level multiplicative_ops (parse_as_expr n k) n"
definition parse_additive_expr :: "nat \<Rightarrow> knot \<Rightarrow> expr parser" where
  "parse_additive_expr n k = binary_level additive_ops (parse_multiplicative_expr n k) n"
definition parse_shift_expr :: "nat \<Rightarrow> knot \<Rightarrow> expr parser" where
  "parse_shift_expr n k = binary_level shift_ops (parse_additive_expr n k) n"
definition parse_relational_expr :: "nat \<Rightarrow> knot \<Rightarrow> expr parser" where
  "parse_relational_expr n k = binary_level relational_ops (parse_shift_expr n k) n"
definition parse_equality_expr :: "nat \<Rightarrow> knot \<Rightarrow> expr parser" where
  "parse_equality_expr n k = binary_level equality_ops (parse_relational_expr n k) n"
definition parse_bitwise_and_expr :: "nat \<Rightarrow> knot \<Rightarrow> expr parser" where
  "parse_bitwise_and_expr n k = binary_level bitwise_and_ops (parse_equality_expr n k) n"
definition parse_bitwise_xor_expr :: "nat \<Rightarrow> knot \<Rightarrow> expr parser" where
  "parse_bitwise_xor_expr n k = binary_level bitwise_xor_ops (parse_bitwise_and_expr n k) n"
definition parse_bitwise_or_expr :: "nat \<Rightarrow> knot \<Rightarrow> expr parser" where
  "parse_bitwise_or_expr n k = binary_level bitwise_or_ops (parse_bitwise_xor_expr n k) n"
definition parse_and_expr :: "nat \<Rightarrow> knot \<Rightarrow> expr parser" where
  "parse_and_expr n k = binary_level and_ops (parse_bitwise_or_expr n k) n"
definition parse_or_expr :: "nat \<Rightarrow> knot \<Rightarrow> expr parser" where
  "parse_or_expr n k = binary_level or_ops (parse_and_expr n k) n"

definition parse_ternary_expr :: "nat \<Rightarrow> knot \<Rightarrow> expr parser" where
  "parse_ternary_expr n k =
     bindp (parse_or_expr n k) (\<lambda>cond.
     ifp (checkp T_Question)
       (thenp bumpp (
        bindp (parse_or_expr n k) (\<lambda>then_branch.
        thenp (expect T_Colon) (
        bindp (k_ternary k) (\<lambda>else_branch.
        retp (spanned_new (E_If cond then_branch (Some else_branch)) (nspan cond)))))))
       (retp cond))"

section \<open>Assignment, lambda arrows and the depth guard\<close>

fun tuple_params :: "expr list \<Rightarrow> (parse_error + param list)" where
  "tuple_params [] = Inr []"
| "tuple_params (e # es) = (case node e of
     E_Ident name \<Rightarrow>
       (case tuple_params es of Inl er \<Rightarrow> Inl er | Inr ps \<Rightarrow> Inr (mk_param name Ty_Infer (nspan e) [] # ps))
   | _ \<Rightarrow> Inl (error_new (nspan e) (M_Text (lit ''expected identifier in lambda parameter list''))))"

definition expr_to_lambda_params :: "expr \<Rightarrow> (parse_error + param list)" where
  "expr_to_lambda_params e = (case node e of
     E_Ident name \<Rightarrow> Inr [mk_param name Ty_Infer (nspan e) []]
   | E_Tuple es \<Rightarrow> tuple_params es
   | _ \<Rightarrow> Inl (error_new (nspan e)
            (M_Text (lit ''expected identifier or parameter list before '' @ sq ''=>''))))"

definition looks_like_params :: "expr \<Rightarrow> bool" where
  "looks_like_params e = (case node e of E_Ident _ \<Rightarrow> True | E_Tuple _ \<Rightarrow> True | _ \<Rightarrow> False)"

definition compound_op :: "token_kind \<Rightarrow> compound_op option" where
  "compound_op t = (case t of T_PlusEquals \<Rightarrow> Some C_Add | T_MinusEquals \<Rightarrow> Some C_Sub
     | T_StarEquals \<Rightarrow> Some C_Mul | T_SlashEquals \<Rightarrow> Some C_Div | T_PercentEquals \<Rightarrow> Some C_Mod | _ \<Rightarrow> None)"

definition liftp :: "(parse_error + 'a) \<Rightarrow> 'a parser" where
  "liftp r s = (case r of Inl e \<Rightarrow> PErr e s | Inr x \<Rightarrow> POk x s)"

definition parse_assign_expr :: "nat \<Rightarrow> knot \<Rightarrow> expr parser" where
  "parse_assign_expr n k =
     bindp (parse_ternary_expr n k) (\<lambda>lhs s.
       if looks_like_params lhs \<and> p_check T_FatArrow s then
         thenp bumpp (
         bindp (liftp (expr_to_lambda_params lhs)) (\<lambda>params.
         bindp (k_assign k) (\<lambda>body.
         retp (spanned_new (E_Lambda params None body) (nspan lhs))))) s
       else if p_check T_Equals s then
         thenp bumpp (
         bindp (k_assign k) (\<lambda>rhs.
         retp (spanned_new (E_Assign lhs rhs) (nspan lhs)))) s
       else case compound_op (p_kind s) of
         Some op \<Rightarrow>
           thenp bumpp (
           bindp (k_assign k) (\<lambda>rhs.
           retp (spanned_new (E_CompoundAssign op lhs rhs) (nspan lhs)))) s
       | None \<Rightarrow> POk lhs s)"

text \<open>
  The guard of \<^verbatim>\<open>parse_expr\<close> and \<^verbatim>\<open>parse_stmt\<close>: the depth is one more inside, and as before on
  every way out.
\<close>

definition guarded :: "rstring \<Rightarrow> 'a parser \<Rightarrow> 'a parser" where
  "guarded msg p s =
     (let s1 = s\<lparr>ps_depth := ps_depth s + 1\<rparr> in
      if ps_depth s1 > MAX_RECURSION_DEPTH
      then (let s2 = s1\<lparr>ps_depth := ps_depth s1 - 1\<rparr> in PErr (error_new (p_mk_span s2) (M_Text msg)) s2)
      else case p s1 of
             POk x s2 \<Rightarrow> POk x (s2\<lparr>ps_depth := ps_depth s2 - 1\<rparr>)
           | PErr e s2 \<Rightarrow> PErr e (s2\<lparr>ps_depth := ps_depth s2 - 1\<rparr>)
           | PFuel \<Rightarrow> PFuel)"

definition parse_expr :: "nat \<Rightarrow> knot \<Rightarrow> expr parser" where
  "parse_expr n k = guarded (lit ''expression nesting too deep'') (parse_assign_expr n k)"

end
