(* ===== verification/Tinox_Parser_Stmt.thy ===== *)
theory Tinox_Parser_Stmt
  imports Tinox_Parser_Expr
begin

text \<open>
  Statements of \<^verbatim>\<open>src/crates/tinox-parser/src/parser.rs\<close>. A statement that begins with a name is
  parsed by hand-written chains of assignments, calls, indices and members, as in the
  source; the early \<^verbatim>\<open>return Ok(Spanned::new(...))\<close> of those chains is the value of the chain,
  since \<^verbatim>\<open>parse_stmt_inner\<close> wraps every statement in the same span.
\<close>

section \<open>Statements with a keyword\<close>

definition opt_type :: "nat \<Rightarrow> knot \<Rightarrow> ty option parser" where
  "opt_type n k = ifp (consume T_Colon) (bindp (k_type k) (\<lambda>t. retp (Some t))) (retp None)"

definition opt_value :: "nat \<Rightarrow> knot \<Rightarrow> expr option parser" where
  "opt_value n k = ifp (consume T_Equals) (bindp (k_expr k) (\<lambda>e. retp (Some e))) (retp None)"

definition parse_let_stmt :: "nat \<Rightarrow> knot \<Rightarrow> stmt_kind parser" where
  "parse_let_stmt n k =
     thenp (expect_keyword K_Let) (
     bindp parse_ident (\<lambda>name.
     bindp (opt_type n k) (\<lambda>t.
     bindp (opt_value n k) (\<lambda>v.
     thenp (expect T_Semicolon) (
     retp (S_Let name t v))))))"

definition parse_var_stmt :: "nat \<Rightarrow> knot \<Rightarrow> stmt_kind parser" where
  "parse_var_stmt n k =
     thenp (expect_keyword K_Var) (
     bindp parse_ident (\<lambda>name.
     bindp (opt_type n k) (\<lambda>t.
     bindp (opt_value n k) (\<lambda>v.
     thenp (expect T_Semicolon) (
     retp (S_Var name t v True))))))"

definition parse_if_stmt :: "nat \<Rightarrow> knot \<Rightarrow> stmt_kind parser" where
  "parse_if_stmt n k =
     thenp (expect_keyword K_If) (
     bindp (k_expr k) (\<lambda>cond.
     bindp (parse_block n k) (\<lambda>then_branch.
     bindp (ifp (consume_keyword K_Else)
       (ifp (check_keywordp K_If)
         (bindp (k_if_stmt k) (\<lambda>i. retp (Some (spanned_new i span_dummy))))
         (bindp (parse_block n k) (\<lambda>b. retp (Some b))))
       (retp None)) (\<lambda>else_branch.
     retp (S_If cond then_branch else_branch)))))"

definition parse_while_stmt :: "nat \<Rightarrow> knot \<Rightarrow> stmt_kind parser" where
  "parse_while_stmt n k =
     thenp (expect_keyword K_While) (
     bindp (k_expr k) (\<lambda>cond.
     bindp (parse_block n k) (\<lambda>body.
     retp (S_While cond body))))"

definition for_init :: "nat \<Rightarrow> knot \<Rightarrow> stmt option parser" where
  "for_init n k =
     ifp (checkp T_Semicolon) (thenp bumpp (retp None))
       (bindp (ifp (check_keywordp K_Let) (parse_let_stmt n k)
          (ifp (check_keywordp K_Var) (parse_var_stmt n k)
            (bindp (k_expr k) (\<lambda>e. thenp (expect T_Semicolon) (retp (S_Expr e)))))) (\<lambda>st.
        retp (Some (spanned_new st span_dummy))))"

definition for_cond :: "nat \<Rightarrow> knot \<Rightarrow> expr option parser" where
  "for_cond n k =
     ifp (checkp T_Semicolon) (thenp bumpp (retp None)) (bindp (k_expr k) (\<lambda>e. retp (Some e)))"

definition for_update :: "nat \<Rightarrow> knot \<Rightarrow> expr option parser" where
  "for_update n k =
     ifp (checkp T_RParen) (retp None) (bindp (k_expr k) (\<lambda>e. retp (Some e)))"

definition parse_for_stmt :: "nat \<Rightarrow> knot \<Rightarrow> stmt_kind parser" where
  "parse_for_stmt n k =
     thenp bumpp (
     ifp (checkp T_LParen)
       (thenp (expect T_LParen) (
        bindp (for_init n k) (\<lambda>init.
        bindp (for_cond n k) (\<lambda>cond.
        thenp (expect T_Semicolon) (
        bindp (for_update n k) (\<lambda>update.
        thenp (expect T_RParen) (
        bindp (parse_block n k) (\<lambda>body.
        retp (S_ForC init cond update body)))))))))
       (bindp parse_ident (\<lambda>var.
        thenp (expect_keyword K_In) (
        bindp (k_expr k) (\<lambda>iter.
        bindp (parse_block n k) (\<lambda>body.
        retp (S_For var iter body)))))))"

definition parse_loop_stmt :: "nat \<Rightarrow> knot \<Rightarrow> stmt_kind parser" where
  "parse_loop_stmt n k =
     thenp (expect_keyword K_Loop) (
     bindp (parse_block n k) (\<lambda>body.
     retp (S_Loop body)))"

definition parse_return_stmt :: "nat \<Rightarrow> knot \<Rightarrow> stmt_kind parser" where
  "parse_return_stmt n k =
     thenp (expect_keyword K_Return) (
     ifp (checkp T_Semicolon)
       (thenp bumpp (retp (S_Return None)))
       (bindp (k_expr k) (\<lambda>e. thenp (expect T_Semicolon) (retp (S_Return (Some e))))))"

definition parse_throw_stmt :: "nat \<Rightarrow> knot \<Rightarrow> stmt_kind parser" where
  "parse_throw_stmt n k =
     thenp (expect_keyword K_Throw) (
     bindp (k_expr k) (\<lambda>e.
     thenp (expect T_Semicolon) (
     retp (S_Throw e))))"

definition parse_catch :: "nat \<Rightarrow> knot \<Rightarrow> stmt catch_clause parser" where
  "parse_catch n k =
     bindp (consume T_LParen) (\<lambda>has_paren.
     bindp parse_ident (\<lambda>param.
     thenp (expect T_Colon) (
     bindp (k_type k) (\<lambda>t.
     thenp (if has_paren then expect T_RParen else retp ()) (
     bindp (parse_block n k) (\<lambda>body.
     retp (CatchClause param t body span_dummy)))))))"

definition parse_try_stmt :: "nat \<Rightarrow> knot \<Rightarrow> stmt_kind parser" where
  "parse_try_stmt n k =
     thenp (expect_keyword K_Try) (
     bindp (parse_block n k) (\<lambda>body.
     bindp (loopp n (\<lambda>acc.
        ifp (consume_keyword K_Catch)
          (bindp (parse_catch n k) (\<lambda>c. retp (Inl (acc @ [c]))))
          (retp (Inr acc))) []) (\<lambda>catches.
     bindp (ifp (consume_keyword K_Finally) (bindp (parse_block n k) (\<lambda>b. retp (Some b))) (retp None)) (\<lambda>fin.
     retp (S_Try body catches fin)))))"

definition parse_defer_stmt :: "nat \<Rightarrow> knot \<Rightarrow> stmt_kind parser" where
  "parse_defer_stmt n k =
     thenp (expect_keyword K_Defer) (
     bindp (k_stmt k) (\<lambda>st.
     retp (S_Defer st)))"

definition parse_select_arm :: "nat \<Rightarrow> knot \<Rightarrow> (expr, stmt) select_arm list \<times> stmt option
    \<Rightarrow> ((expr, stmt) select_arm list \<times> stmt option) parser" where
  "parse_select_arm n k st =
     bindp spanp (\<lambda>sp.
     ifp (check_keywordp K_Default)
       (thenp bumpp (bindp (parse_block n k) (\<lambda>body. retp (fst st, Some body))))
     (ifp (check_keywordp K_Recv)
       (thenp bumpp (
        bindp (k_expr k) (\<lambda>channel.
        thenp (expect T_ThinArrow) (
        bindp parse_ident (\<lambda>var.
        bindp (parse_block n k) (\<lambda>body.
        retp (fst st @ [SelectArm channel var body sp], snd st)))))))
       (bindp peekp (\<lambda>tk. error_at (tok_span tk) (M_Select (tok_kind tk))))))"

definition parse_select_stmt :: "nat \<Rightarrow> knot \<Rightarrow> stmt_kind parser" where
  "parse_select_stmt n k =
     thenp (expect_keyword K_Select) (
     thenp (expect T_LBrace) (
     bindp (loopp n (\<lambda>st s.
        if p_check T_RBrace s \<or> p_is_at_end s then POk (Inr st) s
        else bindp (parse_select_arm n k st) (\<lambda>st. retp (Inl st)) s) ([], None)) (\<lambda>st.
     thenp (expect T_RBrace) (
     retp (S_Select (fst st) (snd st))))))"

section \<open>Statements that begin with a name\<close>

definition assign_value :: "nat \<Rightarrow> knot \<Rightarrow> expr \<Rightarrow> stmt_kind parser" where
  "assign_value n k target =
     thenp bumpp (
     bindp (k_expr k) (\<lambda>value.
     thenp (expect T_Semicolon) (
     retp (S_Assignment target value))))"

definition compound_value :: "nat \<Rightarrow> knot \<Rightarrow> compound_op \<Rightarrow> expr \<Rightarrow> span \<Rightarrow> stmt_kind parser" where
  "compound_value n k op target sp =
     thenp bumpp (
     bindp (k_expr k) (\<lambda>value.
     thenp (expect T_Semicolon) (
     retp (S_Expr (spanned_new (E_CompoundAssign op target value) sp)))))"

text \<open>\<^verbatim>\<open>[index]\<close> once and then as long as brackets follow\<close>

definition index_once :: "nat \<Rightarrow> knot \<Rightarrow> span \<Rightarrow> expr \<Rightarrow> expr parser" where
  "index_once n k sp obj =
     thenp bumpp (
     bindp (k_expr k) (\<lambda>index.
     thenp (expect T_RBracket) (
     retp (spanned_new (E_Index obj index) sp))))"

definition index_chain :: "nat \<Rightarrow> knot \<Rightarrow> span \<Rightarrow> expr \<Rightarrow> expr parser" where
  "index_chain n k sp obj =
     bindp (index_once n k sp obj) (\<lambda>e.
     loopp n (\<lambda>e.
       ifp (checkp T_LBracket) (bindp (index_once n k sp e) (\<lambda>e. retp (Inl e))) (retp (Inr e))) e)"

text \<open>
  \<^verbatim>\<open>.member\<close> chains: with \<open>assigns\<close>, an assignment to a member ends the statement (\<open>Inr\<close>),
  otherwise the chain's expression goes on (\<open>Inl\<close>).
\<close>

definition member_chain :: "bool \<Rightarrow> nat \<Rightarrow> knot \<Rightarrow> span \<Rightarrow> expr \<Rightarrow> (expr + stmt_kind) parser" where
  "member_chain assigns n k sp =
     loopp n (\<lambda>e.
       ifp (consume T_Dot)
         (bindp parse_ident (\<lambda>field.
          ifp (checkp T_LParen)
            (bindp (call_args n k) (\<lambda>args. retp (Inl (spanned_new (E_MethodCall e field args) sp))))
          (ifp (checkp T_Equals)
            (if assigns
             then bindp (assign_value n k (spanned_new (E_FieldAccess e field) sp)) (\<lambda>st. retp (Inr (Inr st)))
             else retp (Inl (spanned_new (E_FieldAccess e field) sp)))
            (retp (Inl (spanned_new (E_FieldAccess e field) sp))))))
         (retp (Inr (Inl e))))"

definition end_expr_stmt :: "expr \<Rightarrow> stmt_kind parser" where
  "end_expr_stmt e = thenp (expect T_Semicolon) (retp (S_Expr e))"

definition after_chain :: "(expr + stmt_kind) \<Rightarrow> (expr \<Rightarrow> stmt_kind parser) \<Rightarrow> stmt_kind parser" where
  "after_chain r f = (case r of Inl e \<Rightarrow> f e | Inr st \<Rightarrow> retp st)"

definition bracket_stmt :: "nat \<Rightarrow> knot \<Rightarrow> ident \<Rightarrow> span \<Rightarrow> stmt_kind parser" where
  "bracket_stmt n k name sp =
     bindp (index_chain n k sp (spanned_new (E_Ident name) sp)) (\<lambda>target s.
       if p_check T_Equals s then assign_value n k target s
       else case compound_op (p_kind s) of
         Some op \<Rightarrow> compound_value n k op target sp s
       | None \<Rightarrow>
           if p_check T_LParen s then
             bindp (call_args n k) (\<lambda>args. end_expr_stmt (spanned_new (E_Call target args) sp)) s
           else bindp (member_chain True n k sp target) (\<lambda>r. after_chain r end_expr_stmt) s)"

definition member_index_stmt :: "nat \<Rightarrow> knot \<Rightarrow> span \<Rightarrow> expr \<Rightarrow> stmt_kind parser" where
  "member_index_stmt n k sp obj =
     bindp (index_chain n k sp obj) (\<lambda>target.
     ifp (checkp T_Equals) (assign_value n k target)
       (bindp (member_chain False n k sp target) (\<lambda>r. after_chain r (\<lambda>e s.
          if p_check T_Equals s then assign_value n k e s
          else case compound_op (p_kind s) of
            Some op \<Rightarrow> compound_value n k op e sp s
          | None \<Rightarrow> end_expr_stmt e s))))"

definition member_stmt :: "nat \<Rightarrow> knot \<Rightarrow> ident \<Rightarrow> span \<Rightarrow> stmt_kind parser" where
  "member_stmt n k name sp =
     bindp (member_chain True n k sp (spanned_new (E_Ident name) sp)) (\<lambda>r. after_chain r (\<lambda>e.
     ifp (checkp T_LBracket) (member_index_stmt n k sp e) (end_expr_stmt e)))"

definition paren_args :: "nat \<Rightarrow> knot \<Rightarrow> expr list parser" where
  "paren_args n k =
     bindp (comma_list_until T_RParen n (k_expr k)) (\<lambda>args.
     thenp (expect T_RParen) (
     retp args))"

definition static_members :: "nat \<Rightarrow> knot \<Rightarrow> span \<Rightarrow> expr \<Rightarrow> expr parser" where
  "static_members n k sp =
     loopp n (\<lambda>e.
       ifp (consume T_Dot)
         (bindp parse_ident (\<lambda>field.
          ifp (consume T_LParen)
            (bindp (paren_args n k) (\<lambda>a. retp (Inl (spanned_new (E_MethodCall e field a) sp))))
            (retp (Inl (spanned_new (E_FieldAccess e field) sp)))))
         (retp (Inr e)))"

definition static_stmt :: "nat \<Rightarrow> knot \<Rightarrow> ident \<Rightarrow> span \<Rightarrow> stmt_kind parser" where
  "static_stmt n k name sp =
     bindp (loopp n (\<lambda>e.
        ifp (consume T_ColonColon)
          (bindp parse_ident (\<lambda>method.
           bindp (ifp (consume T_LParen) (paren_args n k) (retp [])) (\<lambda>args.
           bindp (static_members n k sp (spanned_new
             (E_EnumValue (case node e of E_Ident x \<Rightarrow> x | _ \<Rightarrow> method) method [] args) (nspan e))) (\<lambda>e.
           retp (Inl e)))))
          (retp (Inr e))) (spanned_new (E_Ident name) sp))
       end_expr_stmt"

definition ident_stmt :: "nat \<Rightarrow> knot \<Rightarrow> stmt_kind parser" where
  "ident_stmt n k =
     bindp peekp (\<lambda>tk. let sp = tok_span tk in
     bindp parse_ident (\<lambda>name s.
       if p_check T_Equals s then assign_value n k (spanned_new (E_Ident name) sp) s
       else case compound_op (p_kind s) of
         Some op \<Rightarrow> compound_value n k op (spanned_new (E_Ident name) sp) sp s
       | None \<Rightarrow>
           if p_check T_LBracket s then bracket_stmt n k name sp s
           else if p_check T_LParen s then
             bindp (call_args n k) (\<lambda>args.
             end_expr_stmt (spanned_new (E_Call (spanned_new (E_Ident name) sp) args) sp)) s
           else if p_check T_Dot s then member_stmt n k name sp s
           else if p_check T_ColonColon s then static_stmt n k name sp s
           else end_expr_stmt (spanned_new (E_Ident name) sp) s))"

definition is_block_expr :: "expr \<Rightarrow> bool" where
  "is_block_expr e = (case node e of E_Match _ _ \<Rightarrow> True | E_Block _ \<Rightarrow> True | E_If _ _ _ \<Rightarrow> True | _ \<Rightarrow> False)"

definition expr_stmt :: "nat \<Rightarrow> knot \<Rightarrow> stmt_kind parser" where
  "expr_stmt n k =
     bindp (parse_expr n k) (\<lambda>e.
     thenp (ifp (\<lambda>s. POk (\<not> is_block_expr e \<and> \<not> p_check T_RBrace s) s)
       (expect T_Semicolon)
       (thenp (consume T_Semicolon) (retp ()))) (
     retp (S_Expr e)))"

section \<open>Any statement\<close>

definition keyword_stmt :: "nat \<Rightarrow> knot \<Rightarrow> keyword \<Rightarrow> stmt_kind parser" where
  "keyword_stmt n k w = (case w of
     K_Let \<Rightarrow> parse_let_stmt n k
   | K_Var \<Rightarrow> parse_var_stmt n k
   | K_If \<Rightarrow> parse_if_stmt n k
   | K_While \<Rightarrow> parse_while_stmt n k
   | K_For \<Rightarrow> parse_for_stmt n k
   | K_Loop \<Rightarrow> parse_loop_stmt n k
   | K_Return \<Rightarrow> parse_return_stmt n k
   | K_Break \<Rightarrow> thenp bumpp (thenp (expect T_Semicolon) (retp S_Break))
   | K_Continue \<Rightarrow> thenp bumpp (thenp (expect T_Semicolon) (retp S_Continue))
   | K_Throw \<Rightarrow> parse_throw_stmt n k
   | K_Try \<Rightarrow> parse_try_stmt n k
   | K_Defer \<Rightarrow> parse_defer_stmt n k
   | K_Select \<Rightarrow> parse_select_stmt n k
   | _ \<Rightarrow> expr_stmt n k)"

definition parse_stmt_kind :: "nat \<Rightarrow> knot \<Rightarrow> stmt_kind parser" where
  "parse_stmt_kind n k s = (case p_kind s of
     T_Keyword w \<Rightarrow> keyword_stmt n k w s
   | T_LBrace \<Rightarrow>
       thenp bumpp (
       bindp (parse_block_stmts n k) (\<lambda>stmts.
       thenp (expect T_RBrace) (
       retp (S_Block stmts)))) s
   | T_Semicolon \<Rightarrow> POk S_Empty (p_bump s)
   | T_Ident _ \<Rightarrow> ident_stmt n k s
   | _ \<Rightarrow> expr_stmt n k s)"

definition parse_stmt_inner :: "nat \<Rightarrow> knot \<Rightarrow> stmt parser" where
  "parse_stmt_inner n k =
     bindp spanp (\<lambda>sp.
     bindp (parse_stmt_kind n k) (\<lambda>st.
     retp (spanned_new st sp)))"

definition parse_stmt :: "nat \<Rightarrow> knot \<Rightarrow> stmt parser" where
  "parse_stmt n k = guarded (lit ''statement nesting too deep'') (parse_stmt_inner n k)"

end
