(* ===== verification/Tinox_Parser_Decl.thy ===== *)
theory Tinox_Parser_Decl
  imports Tinox_Parser_Stmt
begin

text \<open>
  Declarations of \<^verbatim>\<open>src/crates/tinox-parser/src/parser.rs\<close>: functions, classes, interfaces,
  enums, traits, imports, namespaces, externs and immutable records, as productions over the
  knot of \<open>Tinox_Parser_Types\<close>. No declaration contains itself, so this level needs no
  recursion of its own.
\<close>

section \<open>Functions\<close>

definition parse_params :: "nat \<Rightarrow> knot \<Rightarrow> param list parser" where
  "parse_params n k =
     thenp (expect T_LParen) (
     bindp (comma_list_until T_RParen n (parse_param n k)) (\<lambda>params.
     thenp (expect T_RParen) (
     retp params)))"

definition opt_ret_type :: "nat \<Rightarrow> knot \<Rightarrow> ty parser" where
  "opt_ret_type n k = ifp (consume T_ThinArrow) (parse_type n k) (retp Ty_Nothing)"

definition opt_type_params :: "nat \<Rightarrow> rstring list parser" where
  "opt_type_params n = ifp (checkp T_Less) (parse_type_params n) (retp [])"

definition parse_immutable :: "nat \<Rightarrow> knot \<Rightarrow> immutable_decl parser" where
  "parse_immutable n k =
     bindp spanp (\<lambda>sp.
     thenp (expect_keyword K_Immutable) (
     bindp parse_ident (\<lambda>name.
     bindp (parse_params n k) (\<lambda>fields.
     thenp (consume T_Semicolon) (
     retp \<lparr>im_name = name, im_fields = fields, im_span = sp, im_doc = None, im_annotations = []\<rparr>)))))"

definition mk_function :: "ident \<Rightarrow> rstring list \<Rightarrow> param list \<Rightarrow> ty \<Rightarrow> stmt \<Rightarrow> span \<Rightarrow> function_def" where
  "mk_function name tps params ret body sp =
     \<lparr>fn_name = name, fn_type_params = tps, fn_params = params, fn_ret_type = ret, fn_body = body,
      fn_span = sp, fn_is_async = False, fn_doc = None, fn_annotations = [], fn_file = unknown_file\<rparr>"

definition parse_extern_fn :: "nat \<Rightarrow> knot \<Rightarrow> decl_kind parser" where
  "parse_extern_fn n k =
     bindp spanp (\<lambda>sp.
     thenp (expect_keyword K_Extern) (
     thenp (expect_keyword K_Fn) (
     bindp parse_ident (\<lambda>name.
     bindp (parse_params n k) (\<lambda>params.
     bindp (opt_ret_type n k) (\<lambda>ret.
     thenp (expect T_Semicolon) (
     retp (D_Function (mk_function name [] params ret (spanned_new S_Empty sp) sp)))))))))"

definition parse_fn :: "nat \<Rightarrow> knot \<Rightarrow> function_def parser" where
  "parse_fn n k =
     bindp spanp (\<lambda>sp.
     thenp (expect_keyword K_Fn) (
     bindp parse_ident (\<lambda>name.
     bindp (opt_type_params n) (\<lambda>tps.
     bindp (parse_params n k) (\<lambda>params.
     bindp (opt_ret_type n k) (\<lambda>ret.
     bindp (ifp (consume T_Semicolon)
         (bindp spanp (\<lambda>b. retp (spanned_new (S_Block []) b)))
         (parse_block n k)) (\<lambda>body.
     retp (mk_function name tps params ret body sp))))))))"

section \<open>Classes\<close>

definition parse_method :: "nat \<Rightarrow> knot \<Rightarrow> visibility \<Rightarrow> bool \<Rightarrow> method_def parser" where
  "parse_method n k vis static =
     bindp spanp (\<lambda>sp.
     thenp (expect_keyword (if static then K_Fnc else K_Fn)) (
     bindp parse_method_name (\<lambda>name.
     bindp (opt_type_params n) (\<lambda>tps.
     bindp (parse_params n k) (\<lambda>params.
     bindp (opt_ret_type n k) (\<lambda>ret.
     bindp (parse_block n k) (\<lambda>body.
     retp \<lparr>me_name = name, me_type_params = tps, me_params = params, me_ret_type = ret, me_body = body,
           me_static = static, me_visibility = vis, me_span = sp, me_is_async = False, me_doc = None,
           me_annotations = [], me_file = unknown_file\<rparr>)))))))"

definition parse_field :: "nat \<Rightarrow> knot \<Rightarrow> visibility \<Rightarrow> bool \<Rightarrow> field_def parser" where
  "parse_field n k vis mut =
     bindp spanp (\<lambda>sp.
     bindp parse_ident (\<lambda>name.
     thenp (expect T_Colon) (
     bindp (parse_type n k) (\<lambda>t.
     thenp (expect T_Semicolon) (
     retp \<lparr>fd_name = name, fd_type = t, fd_visibility = vis, fd_mutable = mut, fd_span = sp,
           fd_doc = None, fd_annotations = []\<rparr>)))))"

definition parse_visibility :: "visibility parser" where
  "parse_visibility =
     ifp (consume_keyword K_Public) (retp V_Public)
     (ifp (consume_keyword K_Private) (retp V_Private)
     (ifp (consume_keyword K_Protected) (retp V_Protected)
     (thenp (consume_keyword K_Package) (retp V_Package))))"

text \<open>\<^verbatim>\<open>a || b || c\<close>, evaluated from the left and only as far as needed\<close>

definition orp :: "bool parser \<Rightarrow> bool parser \<Rightarrow> bool parser" where
  "orp a b = ifp a (retp True) b"

definition parse_member :: "nat \<Rightarrow> knot \<Rightarrow> field_def list \<times> method_def list
    \<Rightarrow> (field_def list \<times> method_def list) parser" where
  "parse_member n k st =
     bindp (parse_annotations n k) (\<lambda>anns.
     bindp take_doc (\<lambda>doc.
     bindp parse_visibility (\<lambda>vis.
     bindp (orp (consume_keyword K_Var) (orp (consume_keyword K_Let) (consume_keyword K_Mut))) (\<lambda>mut.
     bindp (consume_keyword K_Async) (\<lambda>is_async.
     let add_method = (\<lambda>m. retp (fst st, snd st @
       [m\<lparr>me_is_async := is_async, me_doc := doc, me_annotations := anns\<rparr>])) in
     ifp (check_keywordp K_Fn) (bindp (parse_method n k vis False) add_method)
     (ifp (check_keywordp K_Fnc) (bindp (parse_method n k vis True) add_method)
     (bindp (parse_field n k vis mut) (\<lambda>f.
      retp (fst st @ [f\<lparr>fd_doc := doc, fd_annotations := anns\<rparr>], snd st)))))))))"

definition ident_list :: "nat \<Rightarrow> ident list parser" where
  "ident_list n = comma_list n parse_ident"

definition parse_class :: "nat \<Rightarrow> knot \<Rightarrow> class_def parser" where
  "parse_class n k =
     bindp spanp (\<lambda>sp.
     thenp (expect_keyword K_Class) (
     bindp parse_ident (\<lambda>name.
     bindp (opt_type_params n) (\<lambda>tps.
     bindp (ifp (consume_keyword K_Extends) (bindp parse_ident (\<lambda>e. retp (Some e))) (retp None)) (\<lambda>extends.
     bindp (ifp (consume_keyword K_Implements) (ident_list n) (retp [])) (\<lambda>implements.
     thenp (expect T_LBrace) (
     bindp (loopp n (\<lambda>st.
        ifp (checkp T_RBrace) (retp (Inr st)) (bindp (parse_member n k st) (\<lambda>st. retp (Inl st)))) ([], [])) (\<lambda>st.
     thenp (expect T_RBrace) (
     retp \<lparr>cl_name = name, cl_type_params = tps, cl_extends = extends, cl_implements = implements,
           cl_fields = fst st, cl_methods = snd st, cl_span = sp, cl_doc = None, cl_annotations = []\<rparr>)))))))))"

section \<open>Interfaces, enums, traits\<close>

text \<open>\<^verbatim>\<open>while !self.check(RBrace) { doc; parse_fn }\<close> of interfaces and traits\<close>

definition parse_signatures :: "nat \<Rightarrow> knot \<Rightarrow> function_def list parser" where
  "parse_signatures n k =
     loopp n (\<lambda>acc.
       ifp (checkp T_RBrace) (retp (Inr acc))
         (bindp take_doc (\<lambda>doc.
          bindp (parse_fn n k) (\<lambda>f.
          retp (Inl (acc @ [f\<lparr>fn_doc := doc\<rparr>])))))) []"

definition parse_interface :: "nat \<Rightarrow> knot \<Rightarrow> interface_def parser" where
  "parse_interface n k =
     bindp spanp (\<lambda>sp.
     thenp (expect_keyword K_Interface) (
     bindp parse_ident (\<lambda>name.
     bindp (ifp (consume_keyword K_Extends) (ident_list n) (retp [])) (\<lambda>extends.
     thenp (expect T_LBrace) (
     bindp (parse_signatures n k) (\<lambda>methods.
     thenp (expect T_RBrace) (
     retp \<lparr>if_name = name, if_extends = extends, if_methods = methods, if_span = sp, if_doc = None,
           if_annotations = []\<rparr>)))))))"

definition parse_enum_variant :: "nat \<Rightarrow> knot \<Rightarrow> enum_variant parser" where
  "parse_enum_variant n k =
     bindp spanp (\<lambda>sp.
     bindp parse_ident (\<lambda>name.
     bindp (ifp (consume T_LParen)
        (bindp (comma_list_trailing T_RParen n (thenp skip_arg_name (parse_type n k))) (\<lambda>args.
         thenp (expect T_RParen) (
         retp args)))
        (retp [])) (\<lambda>args.
     retp \<lparr>ev_name = name, ev_args = args, ev_span = sp, ev_doc = None\<rparr>)))"

definition parse_enum :: "nat \<Rightarrow> knot \<Rightarrow> enum_def parser" where
  "parse_enum n k =
     bindp spanp (\<lambda>sp.
     thenp (expect_keyword K_Enum) (
     bindp parse_ident (\<lambda>name.
     thenp (expect T_LBrace) (
     bindp (loopp n (\<lambda>acc.
        ifp (checkp T_RBrace) (retp (Inr acc))
          (bindp take_doc (\<lambda>doc.
           bindp (parse_enum_variant n k) (\<lambda>v.
           thenp require_separator (
           retp (Inl (acc @ [v\<lparr>ev_doc := doc\<rparr>]))))))) []) (\<lambda>variants.
     thenp (expect T_RBrace) (
     retp \<lparr>en_name = name, en_variants = variants, en_span = sp, en_doc = None, en_annotations = []\<rparr>))))))"

definition parse_trait :: "nat \<Rightarrow> knot \<Rightarrow> trait_def parser" where
  "parse_trait n k =
     bindp spanp (\<lambda>sp.
     thenp (expect_keyword K_Trait) (
     bindp parse_ident (\<lambda>name.
     thenp (expect T_LBrace) (
     bindp (parse_signatures n k) (\<lambda>methods.
     thenp (expect T_RBrace) (
     retp \<lparr>tr_name = name, tr_methods = methods, tr_span = sp, tr_doc = None, tr_annotations = []\<rparr>))))))"

definition parse_import :: "nat \<Rightarrow> import_decl parser" where
  "parse_import n =
     bindp spanp (\<lambda>sp.
     thenp (expect_keyword K_Import) (
     bindp parse_ident (\<lambda>first.
     bindp (sep_more (orp (consume T_Dot) (consume T_ColonColon)) n parse_ident [first]) (\<lambda>path.
     bindp (ifp (consume_keyword K_As) (bindp parse_ident (\<lambda>a. retp (Some a))) (retp None)) (\<lambda>alias.
     thenp (expect T_Semicolon) (
     retp \<lparr>imp_path = path, imp_alias = alias, imp_span = sp\<rparr>))))))"

section \<open>Namespaces and top-level declarations\<close>

text \<open>One turn of the loop in \<^verbatim>\<open>parse_namespace\<close>; a declaration it does not know is reported and skipped.\<close>

definition namespace_msg :: rstring where
  "namespace_msg = lit ''expected '' @ sq ''class'' @ lit '', '' @ sq ''interface'' @ lit '', '' @ sq ''enum''
     @ lit '', '' @ sq ''trait'' @ lit '', or '' @ sq ''immutable'' @ lit '' inside namespace''"

definition namespace_error :: "decl list \<Rightarrow> decl list parser" where
  "namespace_error acc s =
     POk acc (p_synchronize (p_push_error (error_new (p_mk_span s) (M_Text namespace_msg)) s))"

definition namespace_item :: "nat \<Rightarrow> knot \<Rightarrow> decl list \<Rightarrow> decl list parser" where
  "namespace_item n k acc =
     bindp take_doc (\<lambda>doc.
     bindp (parse_annotations n k) (\<lambda>anns.
     bindp spanp (\<lambda>sp.
     let add = (\<lambda>d. retp (acc @ [spanned_new d sp])) in
     ifp (check_keywordp K_Class)
       (bindp (parse_class n k) (\<lambda>c. add (D_Class (c\<lparr>cl_doc := doc, cl_annotations := anns\<rparr>))))
     (ifp (check_keywordp K_Interface)
       (bindp (parse_interface n k) (\<lambda>i. add (D_Interface (i\<lparr>if_doc := doc, if_annotations := anns\<rparr>))))
     (ifp (check_keywordp K_Enum)
       (bindp (parse_enum n k) (\<lambda>e. add (D_Enum (e\<lparr>en_doc := doc, en_annotations := anns\<rparr>))))
     (ifp (check_keywordp K_Trait)
       (bindp (parse_trait n k) (\<lambda>t. add (D_Trait (t\<lparr>tr_doc := doc, tr_annotations := anns\<rparr>))))
     (ifp (check_keywordp K_Immutable)
       (bindp (parse_immutable n k) (\<lambda>u. add (D_Immutable u)))
     (ifp (check_keywordp K_Extern)
       (bindp (parse_extern_fn n k) add)
     (ifp (orp (check_keywordp K_Fn) (check_keywordp K_Async))
       (bindp (consume_keyword K_Async) (\<lambda>is_async.
        bindp (parse_fn n k) (\<lambda>f. add (D_Function (f\<lparr>fn_is_async := is_async, fn_annotations := anns\<rparr>)))))
       (namespace_error acc))))))))))"

definition parse_namespace :: "nat \<Rightarrow> knot \<Rightarrow> decl namespace parser" where
  "parse_namespace n k =
     bindp spanp (\<lambda>sp.
     thenp (expect_keyword K_Namespace) (
     bindp parse_ident (\<lambda>first.
     bindp (sep_more (consume T_Dot) n parse_ident [first]) (\<lambda>name.
     thenp (expect T_LBrace) (
     bindp (loopp n (\<lambda>acc s.
        if p_check T_RBrace s \<or> p_is_at_end s then POk (Inr acc) s
        else bindp (namespace_item n k acc) (\<lambda>acc. retp (Inl acc)) s) []) (\<lambda>decls.
     thenp (expect T_RBrace) (
     retp (Namespace name decls sp []))))))))"

definition module_path :: "nat \<Rightarrow> ident parser" where
  "module_path n =
     bindp parse_ident (\<lambda>first.
     loopp n (\<lambda>name.
       ifp (consume T_Dot)
         (bindp parse_ident (\<lambda>x. retp (Inl (name @ lit ''.'' @ x))))
         (retp (Inr name))) first)"

definition parse_decl_kind :: "nat \<Rightarrow> knot \<Rightarrow> annotation list \<Rightarrow> rstring option \<Rightarrow> decl_kind parser" where
  "parse_decl_kind n k anns doc =
     ifp (consume_keyword K_Async)
       (ifp (check_keywordp K_Fn)
         (bindp (parse_fn n k) (\<lambda>f.
          retp (D_Function (f\<lparr>fn_is_async := True, fn_doc := doc, fn_annotations := anns\<rparr>))))
         (errorp (lit ''expected '' @ sq ''fn'' @ lit '' after '' @ sq ''async'')))
     (ifp (check_keywordp K_Fn)
       (bindp (parse_fn n k) (\<lambda>f. retp (D_Function (f\<lparr>fn_doc := doc, fn_annotations := anns\<rparr>))))
     (ifp (check_keywordp K_Class)
       (bindp (parse_class n k) (\<lambda>c. retp (D_Class (c\<lparr>cl_doc := doc, cl_annotations := anns\<rparr>))))
     (ifp (check_keywordp K_Interface)
       (bindp (parse_interface n k) (\<lambda>i. retp (D_Interface (i\<lparr>if_doc := doc, if_annotations := anns\<rparr>))))
     (ifp (check_keywordp K_Enum)
       (bindp (parse_enum n k) (\<lambda>e. retp (D_Enum (e\<lparr>en_doc := doc, en_annotations := anns\<rparr>))))
     (ifp (check_keywordp K_Trait)
       (bindp (parse_trait n k) (\<lambda>t. retp (D_Trait (t\<lparr>tr_doc := doc, tr_annotations := anns\<rparr>))))
     (ifp (check_keywordp K_Import)
       (bindp (parse_import n) (\<lambda>i. retp (D_Import i)))
     (ifp (check_keywordp K_Module)
       (thenp bumpp (
        bindp (module_path n) (\<lambda>name.
        thenp (consume T_Semicolon) (
        retp (D_Module name)))))
     (ifp (check_keywordp K_Namespace)
       (bindp (parse_namespace n k) (\<lambda>ns.
        retp (D_Namespace (Namespace (ns_name ns) (ns_decls ns) (ns_span ns) anns))))
     (ifp (check_keywordp K_Extern)
       (parse_extern_fn n k)
     (ifp (check_keywordp K_Immutable)
       (bindp (parse_immutable n k) (\<lambda>u. retp (D_Immutable (u\<lparr>im_doc := doc, im_annotations := anns\<rparr>))))
       (errorp (lit ''expected declaration''))))))))))))"

definition parse_decl :: "nat \<Rightarrow> knot \<Rightarrow> decl parser" where
  "parse_decl n k =
     bindp (parse_annotations n k) (\<lambda>anns.
     bindp take_doc (\<lambda>doc.
     bindp spanp (\<lambda>sp.
     bindp (parse_decl_kind n k anns doc) (\<lambda>d.
     retp (spanned_new d sp)))))"

end
