(* ===== verification/Tinox_Parser.thy ===== *)
theory Tinox_Parser
  imports Tinox_Parser_Decl
begin

text \<open>
  The knot of the parser's productions and \<^verbatim>\<open>Parser::parse\<close>
  (\<^verbatim>\<open>src/crates/tinox-parser/src/parser.rs\<close>). \<open>call_nt n\<close> is the production of a nonterminal with
  fuel \<open>n\<close>; \<open>parse\<close> starts with more fuel than the weight of the tokens, which
  \<open>Tinox_Parser_Total\<close> shows to be enough.

  A token weighs one; \<^verbatim>\<open>>>\<close> and \<^verbatim>\<open>>>>\<close> weigh two and three because a closing bracket may be split
  off them; a string with interpolations weighs more than the tokens its embedded sources
  can have.
\<close>

definition part_weight :: "interp_part \<Rightarrow> nat" where
  "part_weight p = (case p of IP_Str _ \<Rightarrow> 0 | IP_Expr src \<Rightarrow> length src + 2)"

definition token_weight :: "token_kind \<Rightarrow> nat" where
  "token_weight k = (case k of
     T_GreaterGreater \<Rightarrow> 2
   | T_GreaterGreaterGreater \<Rightarrow> 3
   | T_InterpString ps \<Rightarrow> 1 + sum_list (map part_weight ps)
   | _ \<Rightarrow> 1)"

definition tokens_weight :: "token list \<Rightarrow> nat" where
  "tokens_weight ts = sum_list (map (\<lambda>t. token_weight (tok_kind t)) ts)"

primrec call_nt :: "nat \<Rightarrow> knot" where
  "call_nt 0 nt s = PFuel"
| "call_nt (Suc n) nt s = (case nt of
     N_Expr \<Rightarrow> bindp (parse_expr n (call_nt n)) (\<lambda>e. retp (R_Expr e)) s
   | N_Assign \<Rightarrow> bindp (parse_assign_expr n (call_nt n)) (\<lambda>e. retp (R_Expr e)) s
   | N_Ternary \<Rightarrow> bindp (parse_ternary_expr n (call_nt n)) (\<lambda>e. retp (R_Expr e)) s
   | N_Unary \<Rightarrow> bindp (parse_unary_expr n (call_nt n)) (\<lambda>e. retp (R_Expr e)) s
   | N_Postfix \<Rightarrow> bindp (parse_postfix_expr n (call_nt n)) (\<lambda>e. retp (R_Expr e)) s
   | N_Type \<Rightarrow> bindp (parse_type n (call_nt n)) (\<lambda>t. retp (R_Type t)) s
   | N_Pattern \<Rightarrow> bindp (parse_pattern n (call_nt n)) (\<lambda>p. retp (R_Pattern p)) s
   | N_Stmt \<Rightarrow> bindp (parse_stmt n (call_nt n)) (\<lambda>st. retp (R_Stmt st)) s
   | N_IfStmt \<Rightarrow> bindp (parse_if_stmt n (call_nt n)) (\<lambda>st. retp (R_StmtKind st)) s
   | N_AnnArg \<Rightarrow> bindp (parse_annotation_arg n (call_nt n)) (\<lambda>a. retp (R_AnnArg a)) s)"

definition parse_decls :: "nat \<Rightarrow> knot \<Rightarrow> decl list parser" where
  "parse_decls n k =
     loopp n (\<lambda>decls s.
       if p_is_at_end s then POk (Inr decls) s
       else case parse_decl n k s of
              POk d s1 \<Rightarrow> POk (Inl (decls @ [d])) s1
            | PErr e s1 \<Rightarrow> POk (Inl decls) (p_synchronize (p_push_error e s1))
            | PFuel \<Rightarrow> PFuel) []"

definition parse :: "token list \<Rightarrow> (parse_msg error_bag + source_file) option" where
  "parse toks =
     (let n = tokens_weight toks + 1 in
      case parse_decls n (call_nt n) (parser_new toks) of
        POk decls s \<Rightarrow>
          Some (if ps_errors s = [] then Inr (source_file_new decls)
                else Inl \<lparr>bag_errors = ps_errors s\<rparr>)
      | _ \<Rightarrow> None)"

text \<open>From the source text to the syntax tree: the lexer's errors, the parser's, or the tree.\<close>

definition parse_source :: "rstring \<Rightarrow> ((lex_error list + parse_msg error_bag) + source_file) option" where
  "parse_source src = (case fst (tokenize (lexer_new src)) of
     Inl errs \<Rightarrow> Some (Inl (Inl errs))
   | Inr toks \<Rightarrow> map_option (map_sum Inr id) (parse toks))"

end
