(* ===== verification/Tinox_Parser_Contract.thy ===== *)
theory Tinox_Parser_Contract
  imports Tinox_Parser
begin

text \<open>
  The contract of a production, in the style of a total-correctness logic. The variant is the
  weight of the tokens that are left. \<open>safe n m\<close>: from every state of weight below \<open>n\<close>, \<open>m\<close> does
  not run out of fuel, and on success and on error alike the state it leaves is an advance
  (\<open>adv\<close>) of the one it started in: either the cursor has not moved or the weight has
  decreased, the depth counter is as before, errors have only been added, and no token has
  changed but for its kind. \<open>strict n m\<close>: moreover the weight decreases on success. The rules
  below follow the combinators; the collection \<open>safe_rules\<close> drives the proofs of the productions.
\<close>

named_theorems safe_rules

section \<open>Weights and advances\<close>

definition W :: "pstate \<Rightarrow> nat" where
  "W s = tokens_weight (drop (ps_pos s) (ps_tokens s))"

definition adv :: "pstate \<Rightarrow> pstate \<Rightarrow> bool" where
  "adv s t \<longleftrightarrow> (ps_tokens t = ps_tokens s \<and> ps_pos t = ps_pos s \<or> W t < W s)
     \<and> ps_depth t = ps_depth s
     \<and> (\<exists>es. ps_errors t = ps_errors s @ es)
     \<and> map tok_span (ps_tokens t) = map tok_span (ps_tokens s)"

lemma token_weight_pos [simp]: "0 < token_weight k"
  by (simp add: token_weight_def split: token_kind.splits)

lemma tokens_weight_simps [simp]:
  "tokens_weight [] = 0" "tokens_weight (t # ts) = token_weight (tok_kind t) + tokens_weight ts"
  "tokens_weight (ts @ us) = tokens_weight ts + tokens_weight us"
  by (simp_all add: tokens_weight_def)

lemma W_cong: "ps_tokens t = ps_tokens s \<Longrightarrow> ps_pos t = ps_pos s \<Longrightarrow> W t = W s"
  by (simp add: W_def)

lemma W_update [simp]: "W (s\<lparr>ps_errors := es\<rparr>) = W s" "W (s\<lparr>ps_depth := d\<rparr>) = W s"
  by (simp_all add: W_def)

lemma W_front: "ps_pos s < length (ps_tokens s) \<Longrightarrow>
    W s = token_weight (p_kind s) + tokens_weight (drop (Suc (ps_pos s)) (ps_tokens s))"
  by (simp add: W_def p_peek_def flip: Cons_nth_drop_Suc)

lemma W_bump: "ps_pos s < length (ps_tokens s) \<Longrightarrow> W (p_bump s) + token_weight (p_kind s) = W s"
  by (simp add: W_front) (simp add: p_bump_def W_def)

lemma kind_in_range: "p_kind s \<noteq> T_Eof \<Longrightarrow> ps_pos s < length (ps_tokens s)"
  by (simp add: p_peek_def token_dummy_def split: if_splits)

lemma W_bump_kind: "p_kind s \<noteq> T_Eof \<Longrightarrow> W (p_bump s) < W s"
  using W_bump [OF kind_in_range, of s] token_weight_pos [of "p_kind s"] by linarith

lemma not_at_end_kind: "\<not> p_is_at_end s \<Longrightarrow> p_kind s \<noteq> T_Eof"
  by (simp add: p_is_at_end_def)

lemma adv_refl [simp]: "adv s s"
  by (simp add: adv_def)

lemma adv_W: "adv s t \<Longrightarrow> W t \<le> W s"
  by (auto simp: adv_def dest: W_cong)

lemma adv_trans [trans]: assumes "adv s t" "adv t u" shows "adv s u"
proof -
  have "ps_tokens u = ps_tokens s \<and> ps_pos u = ps_pos s \<or> W u < W s"
    using assms adv_W [OF assms(1)] adv_W [OF assms(2)] unfolding adv_def by auto
  then show ?thesis using assms unfolding adv_def by auto
qed

lemma adv_bump [simp]: "adv s (p_bump s)"
proof (cases "ps_pos s < length (ps_tokens s)")
  case True
  have "W (p_bump s) < W s" using W_bump [OF True] token_weight_pos [of "p_kind s"] by linarith
  then show ?thesis by (simp add: adv_def p_bump_def)
qed (simp add: p_bump_def)

lemma adv_bump_trans: "adv (p_bump s) t \<Longrightarrow> adv s t"
  by (rule adv_trans [OF adv_bump])

lemma adv_push_error [simp]: "adv s (p_push_error e s)"
  by (simp add: adv_def p_push_error_def)

section \<open>The judgements\<close>

definition good :: "bool \<Rightarrow> pstate \<Rightarrow> 'a outcome \<Rightarrow> bool" where
  "good st s out = (case out of
     POk x t \<Rightarrow> adv s t \<and> (st \<longrightarrow> W t < W s) | PErr e t \<Rightarrow> adv s t | PFuel \<Rightarrow> False)"

lemma good_simps [simp]:
  "good st s (POk x t) \<longleftrightarrow> adv s t \<and> (st \<longrightarrow> W t < W s)"
  "good st s (PErr e t) \<longleftrightarrow> adv s t"
  "\<not> good st s PFuel"
  by (simp_all add: good_def)

definition safe :: "nat \<Rightarrow> 'a parser \<Rightarrow> bool" where
  "safe n m \<longleftrightarrow> (\<forall>s. W s < n \<longrightarrow> good False s (m s))"

definition strict :: "nat \<Rightarrow> 'a parser \<Rightarrow> bool" where
  "strict n m \<longleftrightarrow> (\<forall>s. W s < n \<longrightarrow> good True s (m s))"

text \<open>A condition that moves the cursor when it holds, and a loop body that moves it when it goes on.\<close>

definition guards :: "nat \<Rightarrow> bool parser \<Rightarrow> bool" where
  "guards n c \<longleftrightarrow> (\<forall>s. W s < n \<longrightarrow> (\<exists>b t. c s = POk b t \<and> adv s t \<and> (b \<longrightarrow> W t < W s)))"

definition turns :: "nat \<Rightarrow> ('a \<Rightarrow> ('a + 'b) parser) \<Rightarrow> bool" where
  "turns n f \<longleftrightarrow> (\<forall>a s. W s < n \<longrightarrow> good False s (f a s)
     \<and> (\<forall>a1 t. f a s = POk (Inl a1) t \<longrightarrow> W t < W s))"

lemma goodE:
  assumes "good st s out"
  obtains x t where "out = POk x t" "adv s t" "st \<longrightarrow> W t < W s" | e t where "out = PErr e t" "adv s t"
  using assms by (cases out) auto

lemma safeD: "safe n m \<Longrightarrow> W s < n \<Longrightarrow> good False s (m s)"
  by (simp add: safe_def)

lemma strictD: "strict n m \<Longrightarrow> W s < n \<Longrightarrow> good True s (m s)"
  by (simp add: strict_def)

lemma good_True_False: "good True s out \<Longrightarrow> good b s out"
  by (cases out) simp_all

lemma good_False: "good b s out \<Longrightarrow> good False s out"
  by (cases out) simp_all

lemma strict_safe: "strict n m \<Longrightarrow> safe n m"
  by (simp add: strict_def safe_def good_True_False)

lemma safe_less: "safe n m \<Longrightarrow> k \<le> n \<Longrightarrow> safe k m"
  by (auto simp: safe_def)

lemma strict_less: "strict n m \<Longrightarrow> k \<le> n \<Longrightarrow> strict k m"
  by (auto simp: strict_def)

lemma strict_Suc: "strict (Suc n) m \<Longrightarrow> strict n m"
  by (rule strict_less [of "Suc n"]) simp_all

lemma strict_Suc_safe: "strict (Suc n) m \<Longrightarrow> safe n m"
  by (rule strict_safe [OF strict_Suc])

section \<open>Rules for the combinators\<close>

lemma good_bindp:
  assumes "good b s (m s)" and "\<And>x t. m s = POk x t \<Longrightarrow> adv s t \<Longrightarrow> b \<longrightarrow> W t < W s \<Longrightarrow> good c t (f x t)"
  shows "good (b \<or> c) s (bindp m f s)"
  using assms(1)
proof (cases rule: goodE)
  case (1 x t)
  have g: "good c t (f x t)" using assms(2) 1 by blast
  have w: "W t \<le> W s" using 1(2) by (rule adv_W)
  from g show ?thesis
    by (cases rule: goodE) (use 1 w in \<open>auto simp: bindp_def dest: adv_trans adv_W\<close>)
qed (simp add: bindp_def)

lemma safe_retp [safe_rules, intro]: "safe n (retp x)"
  by (simp add: safe_def retp_def)

lemma safe_bindp [safe_rules]: "safe n m \<Longrightarrow> (\<And>x. safe n (f x)) \<Longrightarrow> safe n (bindp m f)"
  unfolding safe_def using good_bindp [where b = False and c = False] by (metis adv_W le_less_trans)

lemma safe_thenp [safe_rules]: "safe n m \<Longrightarrow> safe n f \<Longrightarrow> safe n (thenp m f)"
  unfolding thenp_def by (rule safe_bindp)

lemma safe_ifp [safe_rules]: "safe n c \<Longrightarrow> safe n a \<Longrightarrow> safe n b \<Longrightarrow> safe n (ifp c a b)"
  unfolding ifp_def by (rule safe_bindp) simp_all

lemma safe_if [safe_rules]: "safe n a \<Longrightarrow> safe n b \<Longrightarrow> safe n (if c then a else b)"
  by simp

lemma safe_tryp [safe_rules]: "safe n m \<Longrightarrow> safe n (tryp m)"
  by (auto simp: safe_def tryp_def good_def split: outcome.splits)

text \<open>Once the weight has decreased below a successor, the rest only needs to be safe below it.\<close>

lemma strict_bindp: "strict (Suc n) m \<Longrightarrow> (\<And>x. safe n (f x)) \<Longrightarrow> strict (Suc n) (bindp m f)"
  unfolding strict_def safe_def
  using good_bindp [where b = True and c = False]
  by (metis (no_types, lifting) less_Suc_eq_le less_le_trans)

lemma strict_thenp: "strict (Suc n) m \<Longrightarrow> safe n f \<Longrightarrow> strict (Suc n) (thenp m f)"
  unfolding thenp_def by (rule strict_bindp)

lemma strict_bindp_later: "safe n m \<Longrightarrow> (\<And>x. strict n (f x)) \<Longrightarrow> strict n (bindp m f)"
  unfolding strict_def safe_def
  using good_bindp [where b = False and c = True] by (metis adv_W le_less_trans)

lemma strict_thenp_later: "safe n m \<Longrightarrow> strict n f \<Longrightarrow> strict n (thenp m f)"
  unfolding thenp_def by (rule strict_bindp_later)

lemma strict_bindp_safe: "strict n m \<Longrightarrow> (\<And>x. safe n (f x)) \<Longrightarrow> strict n (bindp m f)"
  unfolding strict_def safe_def
  using good_bindp [where b = True and c = False] by (metis adv_W le_less_trans)

lemma strict_ifp: "safe n c \<Longrightarrow> strict n a \<Longrightarrow> strict n b \<Longrightarrow> strict n (ifp c a b)"
  unfolding ifp_def by (rule strict_bindp_later) simp_all

lemma strict_if: "strict n a \<Longrightarrow> strict n b \<Longrightarrow> strict n (if c then a else b)"
  by simp

lemma guards_safe: "guards n c \<Longrightarrow> safe n c"
  unfolding guards_def safe_def by (metis good_simps(1))

lemma strict_ifp_guards:
  assumes "guards (Suc n) c" "safe n a" "strict (Suc n) b" shows "strict (Suc n) (ifp c a b)"
  unfolding strict_def
proof (intro allI impI)
  fix s assume w: "W s < Suc n"
  obtain x t where c: "c s = POk x t" "adv s t" "x \<longrightarrow> W t < W s" using assms(1) w by (auto simp: guards_def)
  have wt: "W t < Suc n" using adv_W [OF c(2)] w by simp
  show "good True s (ifp c a b s)"
  proof (cases x)
    case True
    with c w have "W t < n" "W t < W s" by auto
    then show ?thesis using safeD [OF assms(2), of t] c True adv_trans [OF c(2)]
      by (fastforce simp: ifp_def bindp_def elim!: goodE dest: adv_W)
  next
    case False
    then show ?thesis using strictD [OF assms(3) wt] c adv_W [OF c(2)] adv_trans [OF c(2)]
      by (auto simp: ifp_def bindp_def elim!: goodE)
  qed
qed

section \<open>Loops\<close>

lemma safe_loopp_gen: "turns n f \<Longrightarrow> W s < n \<Longrightarrow> W s < k \<Longrightarrow> good False s (loopp k f a s)"
proof (induction k arbitrary: a s)
  case (Suc k)
  have g: "good False s (f a s)" and p: "\<And>a1 t. f a s = POk (Inl a1) t \<Longrightarrow> W t < W s"
    using Suc.prems by (auto simp: turns_def)
  from g show ?case
  proof (cases rule: goodE)
    case (1 r t)
    show ?thesis
    proof (cases r)
      case (Inl a1)
      then have less: "W t < W s" using 1 p by blast
      then have "good False t (loopp k f a1 t)" using Suc by simp
      then show ?thesis using 1 Inl by (auto elim!: goodE dest: adv_trans)
    qed (use 1 in simp)
  qed simp
qed simp

lemma safe_loopp [safe_rules]: "turns n f \<Longrightarrow> safe n (loopp n f a)"
  by (simp add: safe_def safe_loopp_gen)

lemma turns_strict: "(\<And>a. strict n (f a)) \<Longrightarrow> turns n f"
  unfolding turns_def strict_def by (metis good_False good_simps(1))

lemma turns_step:
  assumes "\<And>a s. W s < n \<Longrightarrow> good False s (f a s)" and "\<And>a s a1 t. W s < n \<Longrightarrow> f a s = POk (Inl a1) t \<Longrightarrow> W t < W s"
  shows "turns n f"
  using assms by (simp add: turns_def)

lemma turns_ifp:
  assumes "\<And>a. guards n (c a)" "\<And>a. safe n (x a)" "\<And>a. \<exists>y. z a = retp (Inr y)"
  shows "turns n (\<lambda>a. ifp (c a) (x a) (z a))"
proof (rule turns_step)
  fix a s assume w: "W s < n"
  obtain y where z: "z a = retp (Inr y)" using assms(3) by blast
  then show "good False s (ifp (c a) (x a) (z a) s)"
    using safeD [OF safe_ifp [OF guards_safe [OF assms(1)] assms(2) safe_retp] w] by simp
  fix a1 t assume r: "ifp (c a) (x a) (z a) s = POk (Inl a1) t"
  obtain b u where c: "c a s = POk b u" "adv s u" "b \<longrightarrow> W u < W s" using assms(1) w unfolding guards_def by blast
  have "b" using r c z by (cases b) (simp_all add: ifp_def bindp_def retp_def)
  with c w have u: "W u < W s" "W u < n" by auto
  have "good False u (x a u)" using assms(2) u by (simp add: safe_def)
  then show "W t < W s" using r c u \<open>b\<close> by (auto simp: ifp_def bindp_def dest!: adv_W)
qed

lemma turns_until:
  assumes "\<And>a. \<exists>y. x a = retp (Inr y)" "\<And>a. strict n (z a)"
  shows "turns n (\<lambda>a. ifp (checkp k) (x a) (z a))"
proof (rule turns_step)
  fix a s assume w: "W s < n"
  obtain y where x: "x a = retp (Inr y)" using assms(1) by blast
  have g: "good True s (z a s)" using assms(2) w by (simp add: strict_def)
  then show "good False s (ifp (checkp k) (x a) (z a) s)"
    using x by (auto simp: ifp_def bindp_def checkp_def retp_def good_False)
  fix a1 t assume "ifp (checkp k) (x a) (z a) s = POk (Inl a1) t"
  then show "W t < W s" using g x by (auto simp: ifp_def bindp_def checkp_def retp_def split: if_splits)
qed

section \<open>The cursor's operations\<close>

lemma safe_cursor [safe_rules]:
  "safe n spanp" "safe n peekp" "safe n bumpp" "safe n (checkp k)" "safe n (check_keywordp w)"
  "safe n is_at_endp" "safe n (consume k)" "safe n (consume_keyword w)" "safe n skip_arg_name"
  "safe n (liftp r)" "safe n (\<lambda>s. POk (q s) s)"
  by (auto simp: safe_def spanp_def peekp_def bumpp_def checkp_def check_keywordp_def is_at_endp_def
      consume_def consume_keyword_def skip_arg_name_def liftp_def intro: adv_trans [OF adv_bump adv_bump]
      split: sum.splits)

lemma strict_errors [safe_rules]: "strict n (errorp m)" "strict n (error_at sp msg)"
  by (simp_all add: strict_def errorp_def error_at_def)

lemma strict_expect: "k \<noteq> T_Eof \<Longrightarrow> strict n (expect k)"
  by (auto simp: strict_def expect_def p_check_def W_bump_kind)

lemma strict_expect_keyword: "strict n (expect_keyword w)"
  by (auto simp: strict_def expect_keyword_def p_check_keyword_def W_bump_kind)

lemma strict_parse_ident: "strict n parse_ident"
  by (auto simp: strict_def parse_ident_def errorp_def W_bump_kind split: token_kind.splits option.splits)

lemma strict_parse_method_name: "strict n parse_method_name"
  by (auto simp: strict_def parse_method_name_def errorp_def W_bump_kind split: token_kind.splits option.splits)

lemma W_set_kind:
  assumes "ps_pos s < length (ps_tokens s)"
  shows "W (p_set_kind k s) + token_weight (p_kind s) = W s + token_weight k"
proof -
  let ?t = "p_set_kind k s"
  have r: "ps_pos ?t < length (ps_tokens ?t)" "p_kind ?t = k"
    "drop (Suc (ps_pos ?t)) (ps_tokens ?t) = drop (Suc (ps_pos s)) (ps_tokens s)"
    using assms by (simp_all add: p_set_kind_def p_peek_def)
  show ?thesis using W_front [OF assms] W_front [OF r(1)] r by simp
qed

lemma set_kind_spans: "map tok_span (ps_tokens (p_set_kind k s)) = map tok_span (ps_tokens s)"
  by (cases "ps_pos s < length (ps_tokens s)") (simp_all add: p_set_kind_def map_update list_update_same_conv list_update_beyond)

lemma adv_set_kind:
  assumes "p_kind s \<noteq> T_Eof" "token_weight k < token_weight (p_kind s)"
  shows "adv s (p_set_kind k s) \<and> W (p_set_kind k s) < W s"
proof -
  have "W (p_set_kind k s) < W s" using W_set_kind [OF kind_in_range [OF assms(1)], of k] assms(2) by linarith
  then show ?thesis using set_kind_spans [of k s] by (simp add: adv_def) (simp add: p_set_kind_def)
qed

lemma strict_expect_generic_close: "strict n expect_generic_close"
  using adv_set_kind
  by (auto simp: strict_def expect_generic_close_def p_check_def W_bump_kind errorp_def token_weight_def)

text \<open>Induction over the tokens that are left, for the loops that only move the cursor.\<close>

lemma cursor_induct [case_names step]:
  assumes "\<And>s. (\<not> p_is_at_end s \<Longrightarrow> P (p_bump s)) \<Longrightarrow> P s" shows "P s"
proof (induction "length (ps_tokens s) - ps_pos s" arbitrary: s rule: less_induct)
  case less
  show ?case by (rule assms, rule less) (auto simp: p_bump_def p_is_at_end_def)
qed

lemma good_bump: "good False (p_bump s) out \<Longrightarrow> good False s out"
  by (cases out) (auto intro: adv_bump_trans)

lemma safe_take_doc [safe_rules]: "safe n take_doc"
proof -
  have "good False s (take_doc s)" for s
  proof (induction s rule: cursor_induct)
    case (step s)
    have doc: "good False s x \<Longrightarrow>
        good False s (case p_kind s of T_DocComment t \<Rightarrow> POk (Some t) (p_bump s) | _ \<Rightarrow> x)" for x
      by (cases "p_kind s") simp_all
    show ?case by (subst take_doc.simps) (auto intro!: doc intro: good_bump step)
  qed
  then show ?thesis by (simp add: safe_def)
qed

lemma safe_skip_to_bracket [safe_rules]: "safe n skip_to_bracket"
proof -
  have "good False s (skip_to_bracket s)" for s
  proof (induction s rule: cursor_induct)
    case (step s)
    then show ?case by (subst skip_to_bracket.simps) (auto simp: errorp_def intro: good_bump)
  qed
  then show ?thesis by (simp add: safe_def)
qed

lemma adv_skip_angles: "adv s (skip_angles d s)"
proof (induction d s rule: skip_angles.induct)
  case (1 d s)
  then show ?case by (subst skip_angles.simps) (auto intro: adv_bump_trans)
qed

lemma skip_angles_same: "(skip_angles d s)\<lparr>ps_pos := p\<rparr> = s\<lparr>ps_pos := p\<rparr>"
proof (induction d s rule: skip_angles.induct)
  case (1 d s)
  then show ?case by (subst skip_angles.simps) (auto simp: p_bump_def)
qed

lemma safe_skips [safe_rules]: "safe n skip_struct_generics" "safe n skip_method_generics"
proof -
  have "(p_bump s)\<lparr>ps_pos := ps_pos s\<rparr> = s" for s by (simp add: p_bump_def)
  then show "safe n skip_struct_generics" "safe n skip_method_generics"
    by (auto simp: safe_def skip_struct_generics_def skip_method_generics_def Let_def skip_angles_same
        intro: adv_bump_trans adv_skip_angles)
qed

section \<open>Panic-mode recovery\<close>

lemma synchronize_step:
  assumes "P (p_bump s)" "P (synchronize_from p (p_bump s))" "ps_pos s > p \<Longrightarrow> P s" "\<not> p_is_at_end s"
  shows "P (synchronize_from p s)"
  using assms by (subst synchronize_from.simps) (cases "p_kind s"; simp)

lemma adv_synchronize_from: "adv s (synchronize_from p s)"
proof (induction s rule: cursor_induct)
  case (step s)
  show ?case
  proof (cases "p_is_at_end s")
    case True
    then show ?thesis by (subst synchronize_from.simps) simp
  next
    case False
    show ?thesis
      by (rule synchronize_step [where P = "adv s"]) (use False adv_bump_trans [OF step] in simp_all)
  qed
qed

text \<open>Recovery always makes progress: at a keyword it would stop at it first moves over it.\<close>

lemma W_synchronize: "\<not> p_is_at_end s \<Longrightarrow> W (p_synchronize s) < W s"
proof -
  assume n: "\<not> p_is_at_end s"
  have b: "W (p_bump s) < W s" using n by (simp add: W_bump_kind not_at_end_kind)
  have f: "W (synchronize_from p (p_bump s)) < W s" for p
    using adv_W [OF adv_synchronize_from [of "p_bump s" p]] b by simp
  show ?thesis
    unfolding p_synchronize_def
    by (rule synchronize_step [where P = "\<lambda>t. W t < W s"]) (use n b f in simp_all)
qed

lemma at_end_cong: "ps_tokens t = ps_tokens s \<Longrightarrow> ps_pos t = ps_pos s \<Longrightarrow> p_is_at_end t = p_is_at_end s"
  by (simp add: p_is_at_end_def p_peek_def)

lemma recover_progress:
  assumes "\<not> p_is_at_end s" and "adv s t"
  shows "adv s (p_synchronize (p_push_error e t)) \<and> W (p_synchronize (p_push_error e t)) < W s"
proof -
  let ?u = "p_push_error e t"
  have a: "adv s (p_synchronize ?u)"
    unfolding p_synchronize_def by (rule adv_trans [OF adv_trans [OF assms(2) adv_push_error] adv_synchronize_from])
  have w: "W (p_synchronize ?u) \<le> W ?u"
    unfolding p_synchronize_def by (rule adv_W [OF adv_synchronize_from])
  have "W t < W s \<or> \<not> p_is_at_end ?u"
    using assms at_end_cong [of ?u s] by (auto simp: adv_def p_push_error_def)
  then have "W (p_synchronize ?u) < W s"
    using W_synchronize [of ?u] w adv_W [OF assms(2)] by (auto simp: p_push_error_def)
  with a show ?thesis ..
qed

section \<open>Conditions\<close>

text \<open>\<open>starts n m\<close>: as \<open>strict\<close>, but only from a state that is at a token.\<close>

definition starts :: "nat \<Rightarrow> 'a parser \<Rightarrow> bool" where
  "starts n m \<longleftrightarrow> (\<forall>s. W s < n \<longrightarrow> p_kind s \<noteq> T_Eof \<longrightarrow> good True s (m s))"

lemma startsD: "starts n m \<Longrightarrow> W s < n \<Longrightarrow> p_kind s \<noteq> T_Eof \<Longrightarrow> good True s (m s)"
  by (simp add: starts_def)

lemma strict_starts: "strict n m \<Longrightarrow> starts n m"
  by (simp add: strict_def starts_def)

lemma starts_bump: "safe n m \<Longrightarrow> starts (Suc n) (thenp bumpp m)"
proof -
  assume m: "safe n m"
  have "good True s (thenp bumpp m s)" if w: "W s < Suc n" and k: "p_kind s \<noteq> T_Eof" for s
  proof -
    have b: "W (p_bump s) < W s" using k by (rule W_bump_kind)
    then have "good False (p_bump s) (m (p_bump s))" using m w by (simp add: safeD)
    then show ?thesis
      by (cases rule: goodE) (use b in \<open>auto simp: thenp_def bindp_def bumpp_def intro: adv_bump_trans dest: adv_W\<close>)
  qed
  then show ?thesis by (simp add: starts_def)
qed

lemma starts_bindp: "starts (Suc n) m \<Longrightarrow> (\<And>x. safe n (f x)) \<Longrightarrow> starts (Suc n) (bindp m f)"
  unfolding starts_def safe_def
  using good_bindp [where b = True and c = False]
  by (metis (no_types, lifting) less_Suc_eq_le less_le_trans)

lemma strict_check: "k \<noteq> T_Eof \<Longrightarrow> starts n a \<Longrightarrow> strict n b \<Longrightarrow> strict n (ifp (checkp k) a b)"
  by (auto simp: starts_def strict_def ifp_def bindp_def checkp_def p_check_def)

lemma strict_check_keyword: "starts n a \<Longrightarrow> strict n b \<Longrightarrow> strict n (ifp (check_keywordp w) a b)"
  by (auto simp: starts_def strict_def ifp_def bindp_def check_keywordp_def p_check_keyword_def)

lemma guards_consume: "k \<noteq> T_Eof \<Longrightarrow> guards n (consume k)"
  by (auto simp: guards_def consume_def p_check_def W_bump_kind)

lemma guards_consume_keyword: "guards n (consume_keyword w)"
  by (auto simp: guards_def consume_keyword_def p_check_keyword_def W_bump_kind)

lemma guards_orp: "guards n a \<Longrightarrow> guards n b \<Longrightarrow> guards n (orp a b)"
  unfolding guards_def orp_def ifp_def bindp_def retp_def
proof (intro allI impI)
  fix s
  assume a: "\<forall>s. W s < n \<longrightarrow> (\<exists>x t. a s = POk x t \<and> adv s t \<and> (x \<longrightarrow> W t < W s))"
    and b: "\<forall>s. W s < n \<longrightarrow> (\<exists>x t. b s = POk x t \<and> adv s t \<and> (x \<longrightarrow> W t < W s))" and w: "W s < n"
  obtain x t where t: "a s = POk x t" "adv s t" "x \<longrightarrow> W t < W s" using a w by blast
  have "W t \<le> W s" using t(2) by (rule adv_W)
  with w have wt: "W t < n" by simp
  obtain y u where u: "b t = POk y u" "adv t u" "y \<longrightarrow> W u < W t" using b wt by blast
  with \<open>W t \<le> W s\<close> show "\<exists>r u. (case a s of POk x s1 \<Rightarrow> (if x then \<lambda>s. POk True s else b) s1
      | PErr e s1 \<Rightarrow> PErr e s1 | PFuel \<Rightarrow> PFuel) = POk r u \<and> adv s u \<and> (r \<longrightarrow> W u < W s)"
    using t adv_trans [OF t(2) u(2)] by (cases x) auto
qed

lemma check_bump_consume: "ifp (checkp k) (thenp bumpp a) b = ifp (consume k) a b"
  by (auto simp: fun_eq_iff ifp_def bindp_def thenp_def checkp_def consume_def bumpp_def)

lemma check_keyword_bump_consume: "ifp (check_keywordp w) (thenp bumpp a) b = ifp (consume_keyword w) a b"
  by (auto simp: fun_eq_iff ifp_def bindp_def thenp_def check_keywordp_def consume_keyword_def bumpp_def)

section \<open>Lists with separators\<close>

lemma safe_sep_more: "guards n sep \<Longrightarrow> safe n p \<Longrightarrow> safe n (sep_more sep n p acc)"
  unfolding sep_more_def by (intro safe_loopp turns_ifp safe_bindp safe_retp) auto

lemma safe_comma_list [safe_rules]: "safe n p \<Longrightarrow> safe n (comma_list n p)"
  unfolding comma_list_def by (intro safe_bindp safe_sep_more guards_consume) simp_all

lemma strict_comma_list: "strict (Suc n) p \<Longrightarrow> strict (Suc n) (comma_list n p)"
  unfolding comma_list_def
  by (rule strict_bindp) (auto intro!: safe_sep_more guards_consume intro: strict_Suc_safe)

lemma safe_comma_list_until [safe_rules]: "safe n p \<Longrightarrow> safe n (comma_list_until c n p)"
  unfolding comma_list_until_def by (intro safe_ifp safe_retp safe_comma_list safe_cursor)

lemma safe_comma_list_trailing [safe_rules]: "safe n p \<Longrightarrow> safe n (comma_list_trailing c n p)"
  unfolding comma_list_trailing_def
  by (intro safe_ifp safe_bindp safe_retp safe_cursor safe_loopp turns_ifp guards_consume) auto

section \<open>Rules by the first step\<close>

text \<open>
  \<open>strict_rules\<close>: how a production of the knot consumes its first token. They leave what
  follows the token to \<open>safe_rules\<close>.
\<close>

named_theorems strict_rules

lemma strict_spanp [strict_rules]: "(\<And>x. strict n (f x)) \<Longrightarrow> strict n (bindp spanp f)"
  by (rule strict_bindp_later) (simp_all add: safe_rules)

lemma strict_peekp [strict_rules]: "(\<And>x. strict n (f x)) \<Longrightarrow> strict n (bindp peekp f)"
  by (rule strict_bindp_later) (simp_all add: safe_rules)

lemma starts_spanp [strict_rules]: "(\<And>x. starts n (f x)) \<Longrightarrow> starts n (bindp spanp f)"
  by (simp add: starts_def bindp_def spanp_def)

lemma strict_first [strict_rules]:
  "k \<noteq> T_Eof \<Longrightarrow> safe n m \<Longrightarrow> strict (Suc n) (thenp (expect k) m)"
  "safe n m \<Longrightarrow> strict (Suc n) (thenp (expect_keyword w) m)"
  "(\<And>x. safe n (f x)) \<Longrightarrow> strict (Suc n) (bindp parse_ident f)"
  by (simp_all add: strict_thenp strict_bindp strict_expect strict_expect_keyword strict_parse_ident)

lemma strict_ifp_consume [strict_rules]:
  "k \<noteq> T_Eof \<Longrightarrow> safe n a \<Longrightarrow> strict (Suc n) b \<Longrightarrow> strict (Suc n) (ifp (consume k) a b)"
  "safe n a \<Longrightarrow> strict (Suc n) b \<Longrightarrow> strict (Suc n) (ifp (consume_keyword w) a b)"
  by (simp_all add: strict_ifp_guards guards_consume guards_consume_keyword)

lemmas [strict_rules] = strict_check strict_check_keyword starts_bump strict_if strict_errors

lemma starts_Suc: "starts (Suc n) m \<Longrightarrow> starts n m"
  by (simp add: starts_def)

text \<open>\<open>turn_rules\<close>: how the body of a loop consumes its first token.\<close>

named_theorems turn_rules

lemma starts_bump_in_loop [turn_rules]: "safe n m \<Longrightarrow> starts n (thenp bumpp m)"
  by (rule starts_Suc [OF starts_bump])

lemma starts_bindp_in_loop: "starts n m \<Longrightarrow> (\<And>x. safe n (f x)) \<Longrightarrow> starts n (bindp m f)"
  unfolding starts_def safe_def
  using good_bindp [where b = True and c = False] by (metis adv_W le_less_trans)

lemma strict_first_in_loop [turn_rules]:
  "k \<noteq> T_Eof \<Longrightarrow> safe n m \<Longrightarrow> strict n (thenp (expect k) m)"
  "safe n m \<Longrightarrow> strict n (thenp (expect_keyword w) m)"
  "(\<And>x. safe n (f x)) \<Longrightarrow> strict n (bindp parse_ident f)"
  by (simp_all add: thenp_def strict_bindp_safe strict_expect strict_expect_keyword strict_parse_ident)

lemmas [turn_rules] = strict_spanp starts_spanp guards_consume guards_consume_keyword guards_orp

lemma safe_expects [safe_rules]:
  "k \<noteq> T_Eof \<Longrightarrow> safe n (expect k)" "safe n (expect_keyword w)" "safe n parse_ident"
  "safe n parse_method_name" "safe n expect_generic_close" "safe n (errorp m)" "safe n (error_at sp e)"
  by (simp_all add: strict_safe strict_expect strict_expect_keyword strict_parse_ident
      strict_parse_method_name strict_expect_generic_close strict_errors)

text \<open>Branches on data, and on the state.\<close>

lemma safe_case [safe_rules]:
  "safe n a \<Longrightarrow> (\<And>x. safe n (b x)) \<Longrightarrow> safe n (case o1 of None \<Rightarrow> a | Some x \<Rightarrow> b x)"
  "(\<And>x. safe n (c x)) \<Longrightarrow> (\<And>x. safe n (d x)) \<Longrightarrow> safe n (case s1 of Inl x \<Rightarrow> c x | Inr x \<Rightarrow> d x)"
  by (simp_all split: option.splits sum.splits)

lemma safe_if_state [safe_rules]: "safe n a \<Longrightarrow> safe n b \<Longrightarrow> safe n (\<lambda>s. if c s then a s else b s)"
  by (simp add: safe_def)

lemma safe_option_state [safe_rules]:
  "safe n a \<Longrightarrow> (\<And>x. safe n (b x)) \<Longrightarrow> safe n (\<lambda>s. case q s of None \<Rightarrow> a s | Some x \<Rightarrow> b x s)"
  by (simp add: safe_def split: option.splits)

lemma strict_option: "strict n a \<Longrightarrow> (\<And>x. strict n (b x)) \<Longrightarrow> strict n (case o1 of None \<Rightarrow> a | Some x \<Rightarrow> b x)"
  by (simp split: option.splits)

lemma turns_if_state:
  assumes "\<And>a s. c a s \<Longrightarrow> p_kind s \<noteq> T_Eof" "\<And>a. starts n (x a)"
  shows "turns n (\<lambda>a s. if c a s then x a s else POk (Inr (y a)) s)"
proof (rule turns_step)
  fix a s assume w: "W s < n"
  have x: "c a s \<Longrightarrow> good True s (x a s)" by (rule startsD [OF assms(2) w assms(1)])
  then show "good False s (if c a s then x a s else POk (Inr (y a)) s)" by (auto intro: good_True_False)
  fix a1 t assume "(if c a s then x a s else POk (Inr (y a)) s) = POk (Inl a1) t"
  then show "W t < W s" using x by (auto split: if_splits)
qed

lemma ifp_checkp: "ifp (checkp k) a b = (\<lambda>s. if p_check k s then a s else b s)"
  by (simp add: fun_eq_iff ifp_def bindp_def checkp_def)

lemma retp_state: "retp x = (\<lambda>s. POk x s)"
  by (simp add: fun_eq_iff retp_def)

lemma turns_check:
  assumes "k \<noteq> T_Eof" "\<And>a. starts n (x a)"
  shows "turns n (\<lambda>a. ifp (checkp k) (x a) (retp (Inr (y a))))"
  unfolding ifp_checkp retp_state
  by (rule turns_if_state) (use assms in \<open>auto simp: p_check_def\<close>)

lemmas [turn_rules] = turns_check turns_if_state turns_ifp turns_until

end
