(* ===== verification/Tinox_Token_Weight.thy ===== *)
theory Tinox_Token_Weight
  imports Tinox_Token_Types Tinox_Parser_Contract
begin

text \<open>
  A lexed text weighs at most one more than it has characters: no token weighs more than the
  characters it was read from, embedded sources of interpolated strings included. This is
  what bounds the parser's recursion into interpolated strings.
\<close>

section \<open>Weights of single tokens\<close>

definition light :: "(lex_error + token) \<times> lexer \<Rightarrow> bool" where
  "light out = (case fst out of Inl _ \<Rightarrow> True | Inr k \<Rightarrow> token_weight (tok_kind k) = 1)"

definition weighs :: "lexer \<Rightarrow> (lex_error + token) \<times> lexer \<Rightarrow> bool" where
  "weighs s out = (case fst out of
     Inl _ \<Rightarrow> True | Inr k \<Rightarrow> token_weight (tok_kind k) \<le> max 1 (lx_pos (snd out) - lx_pos s))"

lemma weighs_light: "light out \<Longrightarrow> weighs s out"
  by (auto simp: light_def weighs_def split: sum.splits)

lemma light_simps [simp]:
  "light (Inl e, t)" "light (err m t)"
  "light (ok_tok k t) \<longleftrightarrow> token_weight k = 1" "light (oks (tok k t)) \<longleftrightarrow> token_weight k = 1"
  by (simp_all add: light_def err_def ok_tok_def oks_def tok_def token_new_def)

lemma light_ident_kind: "token_weight (ident_kind t) = 1"
  by (simp add: ident_kind_def token_weight_def split: option.splits)

lemma light_single_char: "single_char_kind c = Some k \<Longrightarrow> token_weight k = 1"
  by (auto simp: single_char_kind_def token_weight_def split: if_splits)

lemma light_operators:
  "light (oks (read_operator s))"
  "light (oks (read_plus s))" "light (oks (read_minus s))" "light (oks (read_star s))"
  "light (oks (read_percent s))" "light (oks (read_equals s))" "light (oks (read_bang s))"
  "light (oks (read_less s))" "light (oks (read_ampersand s))" "light (oks (read_bar s))"
  "light (oks (read_caret s))" "light (oks (read_dot s))" "light (oks (read_colon s))"
  "light (oks (read_question s))"
  by (simp_all add: operator_defs Let_def token_weight_def)

lemma light_comments: "light (oks (read_line_comment s))" "light (oks (read_block_comment s))"
  by (auto simp: read_line_comment_def read_block_comment_def Let_def token_weight_def split: prod.splits option.splits)

lemma light_raw_loop: "light (raw_string_loop s st h)"
proof (induction s st h rule: raw_string_loop.induct)
  case (1 s st h)
  show ?case using 1(1) [OF _ refl] by (auto simp: raw_string_loop.simps [of s] Let_def token_weight_def)
qed

lemma light_kinds [simp]:
  "token_weight (T_RawString x) = 1" "token_weight (T_String x) = 1" "token_weight (T_Char c) = 1"
  "token_weight (T_Byte b) = 1" "token_weight (T_Integer v) = 1" "token_weight (T_IntegerSuffix q) = 1"
  "token_weight (T_Float f) = 1" "token_weight (T_FloatSuffix g) = 1"
  by (simp_all add: token_weight_def)

lemma light_text_literals: "light (read_raw_string s)" "light (read_char s)" "light (read_byte_literal s)"
  by (auto simp: read_raw_string_def light_raw_loop read_char_def read_byte_literal_def Let_def
      split: prod.splits sum.splits)

lemma light_integers: "light (radix_int P r m st s)"
  by (auto simp: radix_int_def Let_def split: option.splits)

lemma light_floats: "light (read_float_rest st s)"
  by (auto simp: read_float_rest_def Let_def split: option.splits)

lemma light_decimals: "light (read_decimal s)"
  using read_int_suffix_None [of "bump_while is_number_char s"]
  by (auto simp: read_decimal_def Let_def light_floats split: option.splits prod.splits)

lemma light_words: "light (oks (read_ident_or_keyword s))"
  by (simp add: read_ident_or_keyword_def Let_def light_ident_kind)

lemmas light_literals = light_text_literals light_integers light_floats light_decimals light_words

lemma light_number: "light (read_number s)"
  by (auto simp: read_number_def Let_def read_hex_int_def read_octal_int_def read_binary_int_def
      light_literals token_weight_def)

lemma weighs_greater: "weighs s (oks (read_greater s))"
  by (auto simp: read_greater_def Let_def weighs_def oks_def tok_def token_new_def token_weight_def)

section \<open>Interpolated strings\<close>

lemma interp_loop_length:
  "interp_loop s d src = (r, t) \<Longrightarrow> length r + lx_pos s \<le> length src + lx_pos t"
proof (induction s d src rule: interp_loop.induct)
  case (1 s d src)
  let ?d1 = "if peek s = cc (CHR ''{'') then d + 1 else d"
  consider (out) "\<not> (lx_pos s < lx_len s \<and> d > 0)"
    | (stop) "lx_pos s < lx_len s \<and> d > 0" "peek s = cc (CHR ''}'') \<and> ?d1 - 1 = 0"
    | (more) "lx_pos s < lx_len s \<and> d > 0" "\<not> (peek s = cc (CHR ''}'') \<and> ?d1 - 1 = 0)" by blast
  then show ?case
  proof cases
    case more
    then have "interp_loop (bump s) (if peek s = cc (CHR ''}'') then ?d1 - 1 else ?d1) (src @ [peek s]) = (r, t)"
      using 1(2) by (simp add: interp_loop.simps [of s d src] Let_def split: if_splits)
    then show ?thesis using 1(1) [OF more(1) refl refl more(2)] by simp
  qed (use 1(2) in \<open>auto simp: interp_loop.simps [of s d src] Let_def\<close>)
qed

lemma part_weight_simps [simp]: "part_weight (IP_Str t) = 0" "part_weight (IP_Expr t) = length t + 2"
  by (simp_all add: part_weight_def)

abbreviation parts_weight :: "interp_part list \<Rightarrow> nat" where
  "parts_weight ps \<equiv> sum_list (map part_weight ps)"

lemma string_loop_weight:
  "string_loop s cur parts interp = (Inr (cur', parts', interp'), t)
     \<Longrightarrow> parts_weight parts' + lx_pos s \<le> parts_weight parts + lx_pos t"
proof (induction s cur parts interp rule: string_loop.induct)
  case (1 s cur parts interp)
  note IHs = 1(1) [OF _ refl] 1(2) [OF _ refl _ _ _ refl] 1(3) [OF _ refl]
  note prem = 1(4)
  let ?interp = "peek s = cc (CHR ''$'') \<and> char_at s (lx_pos s + 1) = Some (cc (CHR ''{''))"
  show ?case
  proof (cases "lx_pos s < lx_len s \<and> peek s \<noteq> DQUOTE")
    case False
    then show ?thesis using prem by (auto simp: string_loop.simps [of s])
  next
    case c: True
    consider (nl) "peek s = NL" | (i) ?interp "peek s \<noteq> NL" | (e) "\<not> ?interp" "peek s = BSLASH" "peek s \<noteq> NL"
      | (o) "\<not> ?interp" "peek s \<noteq> BSLASH" "peek s \<noteq> NL" by blast
    then show ?thesis
    proof cases
      case nl
      then show ?thesis using prem c by (auto simp: string_loop.simps [of s] err_def)
    next
      case i
      obtain src u where il: "interp_loop (bump (bump s)) 1 [] = (src, u)" by fastforce
      have "char_at s (lx_pos s + 1) = Some (cc (CHR ''{''))" using i by simp
      then have "lx_pos s + 1 < lx_len s" by (auto simp: char_at_def split: if_splits)
      then have "lx_pos (bump (bump s)) = lx_pos s + 2" by simp
      then have "length src + 2 + lx_pos s \<le> lx_pos u" using interp_loop_length [OF il] by simp
      moreover have "string_loop u [] (parts @ [IP_Str cur, IP_Expr src]) True = (Inr (cur', parts', interp'), t)"
        using prem i c il by (simp add: string_loop.simps [of s cur] Let_def)
      ultimately show ?thesis using IHs(1) [OF c i(2,1) il [symmetric]] by simp
    next
      case e
      obtain x u where re: "read_escape (bump s) = (x, u)" by fastforce
      have u: "lx_pos s \<le> lx_pos u" using fwd1_read_escape [OF re] by (auto simp: fwd1_def fwd_def)
      show ?thesis
        using prem e c re u IHs(2) [OF c _ e(1,2)]
        by (auto simp: string_loop.simps [of s cur] Let_def err_def split: sum.splits if_splits)
    next
      case o
      then show ?thesis using IHs(3) [OF c _ o(1,2)] c prem
        by (auto simp: string_loop.simps [of s cur] Let_def split: if_splits)
    qed
  qed
qed

lemma weighs_string: "lx_pos s < lx_len s \<Longrightarrow> weighs s (read_string s)"
proof -
  assume "lx_pos s < lx_len s"
  then have b: "lx_pos (bump s) = lx_pos s + 1" by simp
  obtain r t where loop: "string_loop (bump s) [] [] False = (r, t)" by fastforce
  have "parts_weight p + lx_pos s + 1 \<le> lx_pos t" if "r = Inr (c, p, i)" for c p i
    using string_loop_weight [of "bump s" "[]" "[]" False c p i t] loop that b by simp
  then show ?thesis using loop
    by (fastforce simp: read_string_def Let_def weighs_def ok_tok_def oks_def tok_def token_new_def
        token_weight_def err_def split: sum.splits)
qed

section \<open>Lexed texts\<close>

lemma weighs_If: "(c \<Longrightarrow> weighs s a) \<Longrightarrow> (\<not> c \<Longrightarrow> weighs s b) \<Longrightarrow> weighs s (if c then a else b)"
  by simp

lemma weighs_token: "lx_pos s < lx_len s \<Longrightarrow> weighs s (read_token s)"
proof -
  assume len: "lx_pos s < lx_len s"
  have one: "light (case single_char_kind c of Some k \<Rightarrow> oks (tok k (bump s)) | None \<Rightarrow> (Inl e, bump s))" for c e
    using light_single_char [of c] by (auto split: option.splits)
  show ?thesis
    unfolding read_token_def Let_def
    by (intro weighs_If;
        (rule weighs_string [OF len] weighs_greater
         | (rule weighs_light, rule one light_operators light_comments light_literals light_number)
         | (rule weighs_light, simp add: token_weight_def)))
qed

lemma next_token_weight:
  assumes "next_token s = (Inr k, t)" "tok_kind k \<noteq> T_Eof"
  shows "token_weight (tok_kind k) + lx_pos s \<le> lx_pos t"
proof -
  have e: "\<not> at_end s" using assms by (auto simp: next_token_end token_new_def)
  have "weighs (begin_token s) (next_token s)"
    using e weighs_token [of "begin_token s"] by (simp add: next_token_inside at_end_def)
  then show ?thesis using assms(1) next_token_progress [OF assms(1) e] by (simp add: weighs_def)
qed

lemma lexes_weight: "lexes s raw s' \<Longrightarrow> lx_pos s \<le> lx_len s \<Longrightarrow> tokens_weight raw + lx_pos s \<le> lx_len s + 1"
proof (induction rule: lexes.induct)
  case (lexes_eof s t s1)
  then show ?case by (simp add: token_weight_def)
next
  case (lexes_step s t s1 ts s2)
  have "\<not> at_end s" using lexes_step by (auto simp: next_token_end token_new_def)
  then have "lx_chars s1 = lx_chars s" "lx_pos s1 \<le> lx_len s1"
    using lexes_step next_token_input [of s "Inr t" s1] next_token_span(3) [of s t s1] by simp_all
  then show ?case using lexes_step next_token_weight [of s t s1] by simp
qed

lemma tokens_weight_filter: "tokens_weight (filter P ts) \<le> tokens_weight ts"
  by (induction ts) simp_all

theorem lexed_weight:
  assumes "fst (tokenize (lexer_new src)) = Inr toks" shows "tokens_weight toks \<le> length src + 1"
proof -
  obtain s' where "tokenize (lexer_new src) = (Inr toks, s')" using assms by (cases "tokenize (lexer_new src)") auto
  then obtain raw where raw: "lexes (lexer_new src) raw s'" "toks = significant raw" using tokenize_lexes by blast
  have "tokens_weight raw \<le> length src + 1" using lexes_weight [OF raw(1)] by (simp add: lexer_new_def)
  then show ?thesis using tokens_weight_filter [of _ raw] raw(2) le_trans by blast
qed

end
