(* ===== verification/Tinox_Parser_Total_Types.thy ===== *)
theory Tinox_Parser_Total_Types
  imports Tinox_Token_Weight
begin

text \<open>
  Every production keeps the contract of \<open>Tinox_Parser_Contract\<close>, given that the knot it calls
  keeps it with less fuel: the locale \<open>knot_contract\<close>. The interpretation for \<open>call_nt\<close> is by
  induction on the fuel, in \<open>Tinox_Parser_Total\<close>. Here: annotations, types, parameters and patterns.
\<close>

definition shape :: "nonterm \<Rightarrow> node_val \<Rightarrow> bool" where
  "shape nt r = (case nt of
     N_Type \<Rightarrow> (\<exists>t. r = R_Type t)
   | N_Pattern \<Rightarrow> (\<exists>p. r = R_Pattern p)
   | N_Stmt \<Rightarrow> (\<exists>st. r = R_Stmt st)
   | N_IfStmt \<Rightarrow> (\<exists>st. r = R_StmtKind st)
   | N_AnnArg \<Rightarrow> (\<exists>a. r = R_AnnArg a)
   | _ \<Rightarrow> (\<exists>e. r = R_Expr e))"

definition expr_nt :: "nonterm \<Rightarrow> bool" where
  "expr_nt nt \<longleftrightarrow> nt \<in> {N_Expr, N_Assign, N_Ternary, N_Unary, N_Postfix}"

lemma strict_shaped:
  assumes "strict n m" "\<And>s r t. m s = POk r t \<Longrightarrow> f r \<in> range retp"
  shows "strict n (bindp m f)"
  unfolding strict_def
proof (intro allI impI)
  fix s assume "W s < n"
  from strictD [OF assms(1) this] show "good True s (bindp m f s)"
  proof (cases rule: goodE)
    case (1 r t)
    then obtain x where "f r = retp x" using assms(2) [of s r t] by blast
    with 1 show ?thesis by (simp add: bindp_def retp_def)
  qed (simp add: bindp_def)
qed

locale knot_contract =
  fixes n :: nat and k :: knot
  assumes knot_strict: "strict n (k nt)"
    and knot_shape: "k nt s = POk r t \<Longrightarrow> shape nt r"
begin

lemma strict_knot:
  "expr_nt nt \<Longrightarrow> strict n (k_expr_at nt k)" "strict n (k_type k)" "strict n (k_pattern k)"
  "strict n (k_stmt k)" "strict n (k_if_stmt k)" "strict n (k_ann_arg k)"
  unfolding k_expr_at_def k_type_def k_pattern_def k_stmt_def k_if_stmt_def k_ann_arg_def
  by (rule strict_shaped [OF knot_strict], drule knot_shape, auto simp: shape_def expr_nt_def)+

lemma safe_knot [safe_rules]:
  "safe n (k_expr_at N_Expr k)" "safe n (k_expr_at N_Assign k)" "safe n (k_expr_at N_Ternary k)"
  "safe n (k_expr_at N_Unary k)" "safe n (k_expr_at N_Postfix k)" "safe n (k_type k)"
  "safe n (k_pattern k)" "safe n (k_stmt k)" "safe n (k_if_stmt k)" "safe n (k_ann_arg k)"
  by (rule strict_safe, rule strict_knot, (simp add: expr_nt_def)?)+

section \<open>Annotations, types, parameters\<close>

lemma strict_annotation_arg: "strict (Suc n) (parse_annotation_arg n k)"
proof -
  have arr: "starts (Suc n) (thenp bumpp (bindp (comma_list_trailing T_RBracket n (k_ann_arg k)) (\<lambda>items.
      thenp (expect T_RBracket) (retp (AA_Array items)))))"
    by (intro strict_rules safe_rules) simp_all
  have dot: "safe n (case tok_kind v of T_Ident variant \<Rightarrow> thenp bumpp (retp (AA_EnumValue nm variant))
      | _ \<Rightarrow> error_at sp msg)" for v nm sp msg
    by (cases "tok_kind v") (simp_all add: safe_rules)
  have nm: "starts (Suc n) (thenp bumpp (ifp (consume T_Dot)
      (bindp peekp (\<lambda>v. case tok_kind v of
          T_Ident variant \<Rightarrow> thenp bumpp (retp (AA_EnumValue nm variant)) | _ \<Rightarrow> error_at sp msg))
      (error_at sp msg)))" for nm sp msg
    by (intro strict_rules safe_rules dot)
  show ?thesis
    unfolding strict_def
  proof (intro allI impI)
    fix s assume w: "W s < Suc n"
    show "good True s (parse_annotation_arg n k s)"
      using startsD [OF arr w] startsD [OF nm w]
      by (cases "p_kind s") (simp_all add: parse_annotation_arg_def Let_def W_bump_kind error_at_def
          del: lit_simps)
  qed
qed

lemma safe_annotation_args [safe_rules]: "safe n (parse_annotation_args n k)"
  unfolding parse_annotation_args_def
  by (intro safe_rules turn_rules) auto

lemma safe_annotations [safe_rules]: "safe n (parse_annotations n k)"
  unfolding parse_annotations_def
  by (intro safe_rules turn_rules) (auto simp: p_check_def)

lemma strict_type_base: "strict (Suc n) (parse_type_base n k)"
  unfolding parse_type_base_def
  by (intro strict_rules safe_rules) simp_all

lemma safe_type_suffix [safe_rules]: "safe n (parse_type_suffix n k base)"
  unfolding parse_type_suffix_def
  by (intro safe_rules turn_rules) simp_all

lemma strict_type: "strict (Suc n) (parse_type n k)"
  unfolding parse_type_def
  by (intro strict_rules safe_rules strict_bindp [OF strict_type_base]) simp_all

lemma safe_type [safe_rules]: "safe n (parse_type n k)"
  by (rule strict_Suc_safe [OF strict_type])

lemma safe_type_params [safe_rules]: "safe n (parse_type_params n)"
  unfolding parse_type_params_def by (intro safe_rules) simp_all

lemma strict_param: "strict n (parse_param n k)"
  unfolding parse_param_def
  by (intro strict_bindp_later [OF safe_annotations] turn_rules safe_rules) simp

lemma strict_lambda_param: "strict (Suc n) (parse_lambda_param n k)"
  unfolding parse_lambda_param_def by (intro strict_rules safe_rules)

lemma safe_params [safe_rules]: "safe n (parse_param n k)" "safe n (parse_lambda_param n k)"
  by (rule strict_safe [OF strict_param], rule strict_Suc_safe [OF strict_lambda_param])

section \<open>Patterns\<close>

lemma starts_pattern_args: "starts (Suc n) (parse_pattern_args n k)"
  unfolding parse_pattern_args_def by (intro strict_rules safe_rules) simp

lemma safe_pattern_args [safe_rules]: "safe n (parse_pattern_args n k)"
  unfolding parse_pattern_args_def by (intro safe_rules) simp

lemma pattern_literal_Eof [simp]: "pattern_literal T_Eof = None"
  by (simp add: pattern_literal_def)

lemma strict_pattern: "strict (Suc n) (parse_pattern n k)"
proof -
  have rest: "safe n (bindp (checkp T_ColonColon) (\<lambda>cc. bindp (checkp T_Dot) (\<lambda>dot.
      if cc \<or> dot then thenp bumpp (bindp parse_ident (\<lambda>variant.
          bindp (ifp (checkp T_LParen) (parse_pattern_args n k) (retp [])) (\<lambda>args.
          retp (P_EnumVariant name variant args sp))))
      else ifp (checkp T_LParen) (bindp (parse_pattern_args n k) (\<lambda>args. retp (P_EnumVariant name [] args sp)))
        (retp (P_Ident name None sp)))))" for name sp
    by (intro safe_rules)
  have lit: "starts (Suc n) (thenp bumpp (retp (P_Literal l sp)))" for l sp
    by (intro strict_rules safe_rules)
  have lits: "strict (Suc n) (bindp peekp (\<lambda>tk. case pattern_literal (tok_kind tk) of
      Some l \<Rightarrow> thenp bumpp (retp (P_Literal l sp)) | None \<Rightarrow> m))" if m: "strict (Suc n) m" for m sp
    unfolding strict_def
  proof (intro allI impI)
    fix s assume w: "W s < Suc n"
    show "good True s (bindp peekp (\<lambda>tk. case pattern_literal (tok_kind tk) of
        Some l \<Rightarrow> thenp bumpp (retp (P_Literal l sp)) | None \<Rightarrow> m) s)"
      using strictD [OF m w] startsD [OF lit w, of _ sp]
      by (cases "p_kind s = T_Eof") (auto simp: bindp_def peekp_def split: option.splits)
  qed
  show ?thesis
    unfolding parse_pattern_def
    by (intro strict_rules safe_rules lits rest starts_bindp [OF starts_pattern_args]) simp_all
qed

end

end
