(* ===== verification/Tinox_Parser_Total_Expr.thy ===== *)
theory Tinox_Parser_Total_Expr
  imports Tinox_Parser_Total_Types
begin

text \<open>
  The productions of expressions keep the contract of \<open>Tinox_Parser_Contract\<close>.
\<close>

lemma token_literal_Eof [simp]: "token_literal T_Eof = None"
  by (simp add: token_literal_def)

lemma unary_op_Eof [simp]: "unary_op T_Eof = None"
  by (simp add: unary_op_def)

lemma compound_op_Eof [simp]: "Tinox_Parser_Expr.compound_op T_Eof = None"
  by (simp add: Tinox_Parser_Expr.compound_op_def)

lemma good_after_bump:
  assumes "p_kind s \<noteq> T_Eof" "good False (p_bump s) out" shows "good True s out"
  using assms(2)
proof (cases rule: goodE)
  case (1 x t)
  then show ?thesis using W_bump_kind [OF assms(1)] adv_W [OF 1(2)] adv_bump_trans [OF 1(2)] by simp
qed (simp add: adv_bump_trans)

text \<open>A statement list: each turn parses a statement or recovers, and both consume a token.\<close>

context knot_contract
begin

section \<open>Blocks and arguments\<close>

lemma safe_block_stmts [safe_rules]: "safe n (parse_block_stmts n k)"
proof -
  have "turns n (\<lambda>acc s. if p_check T_RBrace s \<or> p_is_at_end s then POk (Inr acc) s
       else case k_stmt k s of
              POk st s1 \<Rightarrow> POk (Inl (acc @ [st])) s1
            | PErr e s1 \<Rightarrow>
                let s2 = p_synchronize (p_push_error e s1)
                in POk (if p_check T_RBrace s2 then Inr acc else Inl acc) s2
            | PFuel \<Rightarrow> PFuel)" (is "turns n ?f")
  proof (rule turns_step)
    fix acc :: "stmt list" and s assume w: "W s < n"
    let ?go = "\<not> (p_check T_RBrace s \<or> p_is_at_end s)"
    have r: "good False s (?f acc s) \<and> (\<forall>a1 t. ?f acc s = POk (Inl a1) t \<longrightarrow> W t < W s)"
    proof (cases ?go)
      case False
      then show ?thesis by simp
    next
      case go: True
      then have ne: "\<not> p_is_at_end s" by simp
      from strictD [OF strict_knot(4) w] show ?thesis
      proof (cases rule: goodE)
        case (2 e t)
        then show ?thesis using go recover_progress [OF ne 2(2), of e] by (simp add: Let_def)
      qed (use go in simp)
    qed
    show "good False s (?f acc s)" using r by blast
    fix a1 t assume "?f acc s = POk (Inl a1) t"
    then show "W t < W s" using r by blast
  qed
  then show ?thesis unfolding parse_block_stmts_def by (rule safe_loopp)
qed

lemma strict_block: "strict (Suc n) (parse_block n k)"
  unfolding parse_block_def by (intro strict_rules safe_rules) simp_all

lemma safe_block [safe_rules]: "safe n (parse_block n k)"
  by (rule strict_Suc_safe [OF strict_block])

lemma starts_args:
  "starts (Suc n) (call_args n k)" "starts (Suc n) (named_call_args n k)" "starts (Suc n) (type_args_close n k)"
  unfolding call_args_def named_call_args_def type_args_close_def
  by (intro strict_rules safe_rules; simp)+

lemma safe_args [safe_rules]:
  "safe n (call_args n k)" "safe n (named_call_args n k)" "safe n (type_args_close n k)"
  unfolding call_args_def named_call_args_def type_args_close_def
  by (intro safe_rules; simp)+

section \<open>Primary expressions\<close>

text \<open>The embedded source of an interpolation is lighter than the token it came in.\<close>

lemma parse_expr_str_good:
  assumes "length src + 1 < n" shows "good False s (parse_expr_str k src sp s)"
proof (cases "fst (tokenize (lexer_new src))")
  case (Inr toks)
  have "W (parser_new toks) < n" using lexed_weight [OF Inr] assms by (simp add: W_def parser_new_def)
  from strictD [OF strict_knot(1) this, of N_Expr]
  have "good True (parser_new toks) (k_expr k (parser_new toks))" by (simp add: expr_nt_def)
  then show ?thesis
    by (cases rule: goodE) (simp_all add: parse_expr_str_def Inr error_at_def)
qed (simp add: parse_expr_str_def error_at_def)

lemma interp_concat_good:
  "parts_weight ps \<le> n \<Longrightarrow> good False s (interp_concat k sp acc ps s)"
proof (induction ps arbitrary: acc s)
  case (Cons p ps)
  have part: "good False s (interp_part_expr k sp p s)" for s
  proof (cases p)
    case (IP_Expr src)
    then have "length src + 1 < n" using Cons.prems by simp
    from parse_expr_str_good [OF this] show ?thesis
      by (cases rule: goodE [of False s "parse_expr_str k src sp s"])
        (simp_all add: interp_part_expr_def IP_Expr bindp_def retp_def)
  qed (simp add: interp_part_expr_def retp_def)
  have "good (False \<or> False) s (bindp (interp_part_expr k sp p) (\<lambda>e. interp_concat k sp (Some (case acc of
         None \<Rightarrow> e | Some r \<Rightarrow> spanned_new (E_Binary B_Add r e) sp)) ps) s)"
    by (rule good_bindp [OF part]) (use Cons in simp)
  then show ?case by simp
qed (simp add: retp_def)

lemma safe_struct_fields [safe_rules]: "safe n (struct_fields n k)"
  unfolding struct_fields_def by (intro safe_rules turn_rules) auto

lemma starts_ident_expr: "starts (Suc n) (parse_ident_expr n k name sp)"
  unfolding parse_ident_expr_def by (intro strict_rules safe_rules) simp

lemma strict_keyword_exprs:
  "strict (Suc n) (parse_if_expr n k)" "strict (Suc n) (parse_while_expr n k)" "strict (Suc n) (parse_loop_expr n k)"
  "strict (Suc n) (parse_new_expr n k)" "strict (Suc n) (parse_spawn_expr n k)" "strict (Suc n) (parse_await_expr n k)"
  "strict (Suc n) (parse_send_expr n k)" "strict (Suc n) (parse_recv_expr n k)" "strict (Suc n) (parse_cast_expr n k)"
  "strict (Suc n) (parse_is_expr n k)"
  unfolding parse_if_expr_def parse_while_expr_def parse_loop_expr_def parse_new_expr_def parse_spawn_expr_def
    parse_await_expr_def parse_send_expr_def parse_recv_expr_def parse_cast_expr_def parse_is_expr_def
  by (intro strict_rules safe_rules; simp)+

lemma safe_separators [safe_rules]: "safe n skip_separators" "safe n require_separator"
  unfolding skip_separators_def require_separator_def by (intro safe_rules)+

lemma strict_match_case: "strict n (parse_match_case n k)"
  unfolding parse_match_case_def
  by (intro strict_spanp strict_bindp_safe [OF strict_knot(3)] safe_rules) simp

lemma strict_match: "strict (Suc n) (parse_match_expr n k)"
  unfolding parse_match_expr_def
  by (intro strict_rules safe_rules turns_until strict_bindp_safe [OF strict_match_case]) auto

lemma strict_lambdas:
  "strict (Suc n) (parse_lambda n k)" "strict (Suc n) (parse_typed_lambda n k)"
  "strict (Suc n) (parse_fn_lambda n k)" "strict (Suc n) (parse_fnc_lambda n k)"
  unfolding parse_lambda_def parse_typed_lambda_def parse_fn_lambda_def parse_fnc_lambda_def parse_keyword_lambda_def
  by (intro strict_rules safe_rules; simp)+

lemma strict_tuple_or_grouped: "strict (Suc n) (parse_tuple_or_grouped n k)"
  unfolding parse_tuple_or_grouped_def
  by (intro strict_rules safe_rules safe_sep_more guards_consume) simp_all

lemma starts_paren_expr: "starts (Suc n) (parse_paren_expr n k)"
proof -
  have c: "starts (Suc n) (bindp spanp (\<lambda>sp. thenp bumpp (bindp (k_type k) (\<lambda>t. thenp (expect T_RParen) (
      bindp (k_unary k) (\<lambda>e. retp (spanned_new (E_Cast e t) sp)))))))"
    by (intro strict_rules safe_rules) simp
  show ?thesis using startsD [OF c] strictD [OF strict_lambdas(2)] strictD [OF strict_tuple_or_grouped]
    by (simp add: starts_def parse_paren_expr_def)
qed

lemma starts_super_return:
  "starts (Suc n) (parse_super_call n k sp)" "starts (Suc n) (parse_return_expr n k sp)"
  unfolding parse_super_call_def parse_return_expr_def by (intro strict_rules safe_rules; simp)+

lemma keyword_expr_good:
  assumes w: "W s < Suc n" and kw: "p_kind s = T_Keyword kw"
  shows "good True s (parse_keyword_expr n k kw tk s)"
proof -
  have b: "W (p_bump s) < W s" using kw by (simp add: W_bump_kind)
  note prods = strict_keyword_exprs [THEN strictD, OF w] strict_match [THEN strictD, OF w]
    strict_lambdas [THEN strictD, OF w] starts_super_return [THEN startsD, OF w]
  show ?thesis using prods b kw
    by (cases kw) (simp_all add: parse_keyword_expr_def error_at_def)
qed

lemma strict_primary: "strict (Suc n) (parse_primary_expr n k)"
  unfolding strict_def
proof (intro allI impI)
  fix s assume w: "W s < Suc n"
  have m: "starts (Suc n) (thenp bumpp (thenp (expect T_LBrace) (
      bindp (comma_list_trailing T_RBrace n (map_entry k)) (\<lambda>entries.
      thenp (expect T_RBrace) (retp (spanned_new (E_MapLiteral entries) sp))))))" for sp
    unfolding map_entry_def by (intro strict_rules safe_rules) simp_all
  have a: "starts (Suc n) (thenp bumpp (bindp (comma_list_trailing T_RBracket n (k_expr k)) (\<lambda>elements.
      thenp (expect T_RBracket) (retp (spanned_new (E_ArrayLiteral elements) sp)))))" for sp
    by (intro strict_rules safe_rules) simp_all
  have bl: "strict (Suc n) (bindp (parse_block n k) (\<lambda>st. retp (spanned_new (E_Block (block_stmts st)) (nspan st))))"
    by (rule strict_bindp [OF strict_block]) (rule safe_retp)
  have interp: "good True s (thenp bumpp (interp_concat k sp None ps) s)" if i: "p_kind s = T_InterpString ps" for ps sp
  proof -
    have "W (p_bump s) + (1 + parts_weight ps) = W s"
      using W_bump [of s] kind_in_range [of s] i by (simp add: token_weight_def)
    then have "parts_weight ps \<le> n" using w by simp
    then show ?thesis using good_after_bump [OF _ interp_concat_good, of s ps sp None] i
      by (simp add: thenp_def bindp_def bumpp_def)
  qed
  note prods = startsD [OF m w] startsD [OF a w] strictD [OF bl w] strictD [OF strict_lambdas(1) w]
    startsD [OF starts_paren_expr w] startsD [OF starts_ident_expr w] keyword_expr_good [OF w]
  show "good True s (parse_primary_expr n k s)"
  proof (cases "token_literal (p_kind s)")
    case (Some l)
    then have "p_kind s \<noteq> T_Eof" by auto
    then show ?thesis using Some by (simp add: parse_primary_expr_def Let_def W_bump_kind)
  next
    case None
    then show ?thesis using prods interp
      by (cases "p_kind s") (simp_all add: parse_primary_expr_def Let_def error_at_def)
  qed
qed

section \<open>Postfix chains\<close>

lemma safe_dot_member [safe_rules]: "safe n (dot_member n k e name)"
proof -
  have "safe n (bindp (ifp (checkp T_LParen) (named_call_args n k) (retp [])) (\<lambda>args.
          retp (spanned_new (E_EnumValue en name [] args) sp)))" for en sp
    by (intro safe_rules)
  moreover have "safe n (thenp skip_method_generics (thenp (expect T_LParen) (
      bindp (comma_list_until T_RParen n (k_expr k)) (\<lambda>args. thenp (expect T_RParen) (
      retp (spanned_new (E_MethodCall e name args) sp))))))" for sp
    by (intro safe_rules) simp_all
  moreover have "safe n (bindp (call_args n k) (\<lambda>args. retp (spanned_new (E_MethodCall e name args) sp)))" for sp
    by (intro safe_rules)
  ultimately show ?thesis
    by (simp add: safe_def dot_member_def Let_def split: option.splits)
qed

lemma starts_dot_access: "starts (Suc n) (dot_access n k e)"
proof -
  have "safe n (case tok_kind tk of
        T_Integer idx \<Rightarrow> thenp bumpp (retp (spanned_new (E_TupleIndex e (as_usize idx)) (nspan e)))
      | _ \<Rightarrow> bindp parse_method_name (\<lambda>name. dot_member n k e name))" for tk
    by (cases "tok_kind tk") (simp_all add: safe_rules)
  then show ?thesis unfolding dot_access_def by (intro strict_rules safe_rules)
qed

lemma starts_static_access: "starts (Suc n) (static_access n k e pending)"
proof -
  have "safe n (\<lambda>s. let given = (case pending of None \<Rightarrow> [] | Some ts \<Rightarrow> ts) in
      if given = [] \<and> is_generic_method_call s then type_args_close n k s else POk given s)"
    unfolding Let_def by (intro safe_rules)
  then have "starts (Suc n) (thenp bumpp (bindp parse_method_name (\<lambda>variant.
       bindp (\<lambda>s. let given = (case pending of None \<Rightarrow> [] | Some ts \<Rightarrow> ts) in
                  if given = [] \<and> is_generic_method_call s then type_args_close n k s
                  else POk given s) (\<lambda>type_args.
       bindp (ifp (checkp T_LParen) (call_args n k) (retp [])) (\<lambda>args.
       retp (spanned_new (E_EnumValue en variant type_args args) (nspan e)))))))" for en
    by (intro strict_rules safe_rules)
  moreover have "starts (Suc n) (errorp msg)" for msg by (intro strict_starts strict_errors)
  ultimately show ?thesis by (cases "node e") (simp_all add: static_access_def)
qed

lemma generic_call_kind: "is_generic_type_static_call s \<Longrightarrow> p_kind s \<noteq> T_Eof"
  by (simp add: is_generic_type_static_call_def generic_followed_by_def)

lemma turns_postfix: "turns n (postfix_step n k)"
proof (rule turns_step)
  fix st :: "expr \<times> ty list option \<times> nat" and s assume w: "W s < n"
  obtain e pending chain where st: "st = (e, pending, chain)" by (cases st)
  let ?go = "\<lambda>e p. retp (Inl (e, p, chain + 1)) :: (expr \<times> ty list option \<times> nat + expr) parser"
  have index: "starts n (thenp bumpp (bindp (k_expr k) (\<lambda>index. thenp (expect T_RBracket) (
      ?go (spanned_new (E_Index e index) (nspan e)) pending))))"
    by (intro turn_rules safe_rules) simp
  have range: "starts n (thenp bumpp (bindp (k_postfix k) (\<lambda>end_e.
      ?go (spanned_new (E_Range e end_e incl) (nspan e)) pending)))" for incl
    by (intro turn_rules safe_rules)
  have rest: "starts n (bindp (dot_access n k e) (\<lambda>e. ?go e pending))"
    "starts n (bindp (static_access n k e pending) (\<lambda>e. ?go e None))"
    "starts n (bindp (type_args_close n k) (\<lambda>args. ?go e (Some args)))"
    "starts n (bindp (call_args n k) (\<lambda>args. ?go (spanned_new (E_Call e args) (nspan e)) pending))"
    by (intro starts_bindp_in_loop safe_retp starts_Suc [OF starts_dot_access] starts_Suc [OF starts_static_access]
        starts_args [THEN starts_Suc])+
  note prods = rest [THEN startsD, OF w] startsD [OF index w] startsD [OF range w]
  have r: "good True s (postfix_step n k st s) \<or> postfix_step n k st s = POk (Inr e) s"
  proof (cases "p_kind s = T_Eof")
    case True
    then show ?thesis using generic_call_kind [of s] by (auto simp: postfix_step_def st Let_def errorp_def p_check_def)
  next
    case False
    then show ?thesis using prods by (simp add: postfix_step_def st Let_def errorp_def)
  qed
  then show "good False s (postfix_step n k st s)" by (auto intro: good_False)
  fix a1 t assume "postfix_step n k st s = POk (Inl a1) t"
  with r show "W t < W s" by simp
qed

lemma strict_postfix: "strict (Suc n) (parse_postfix_expr n k)"
  unfolding parse_postfix_expr_def
  by (intro strict_bindp [OF strict_primary] safe_loopp turns_postfix)

section \<open>Operators\<close>

lemma strict_unary: "strict (Suc n) (parse_unary_expr n k)"
  unfolding strict_def
proof (intro allI impI)
  fix s assume w: "W s < Suc n"
  have plus: "starts (Suc n) (thenp bumpp (k_unary k))" by (intro strict_rules safe_rules)
  have ops: "starts (Suc n) (thenp bumpp (bindp (k_unary k) (\<lambda>operand. bindp spanp (\<lambda>sp.
      retp (spanned_new (E_Unary op operand) sp)))))" for op by (intro strict_rules safe_rules)
  have "unary_op (p_kind s) \<noteq> None \<Longrightarrow> p_kind s \<noteq> T_Eof" by auto
  then show "good True s (parse_unary_expr n k s)"
    using startsD [OF plus w] startsD [OF ops w] strictD [OF strict_postfix w]
    by (auto simp: parse_unary_expr_def p_check_def split: option.splits)
qed

lemma strict_as: "strict (Suc n) (parse_as_expr n k)"
  unfolding parse_as_expr_def check_keyword_bump_consume
  by (intro strict_bindp [OF strict_unary] safe_rules turn_rules) auto

lemma turns_ops:
  assumes "ops T_Eof = None" "safe n operand"
  shows "turns n (\<lambda>lhs s. case ops (p_kind s) of
      Some op \<Rightarrow> thenp bumpp (bindp operand (\<lambda>rhs. retp (Inl (spanned_new (E_Binary op lhs rhs) (nspan lhs))))) s
    | None \<Rightarrow> POk (Inr lhs) s)" (is "turns n ?f")
proof (rule turns_step)
  fix lhs :: expr and s assume w: "W s < n"
  have "starts n (thenp bumpp (bindp operand (\<lambda>rhs. retp (Inl (spanned_new (E_Binary op lhs rhs) (nspan lhs))))))"
    for op by (intro turn_rules safe_rules assms(2))
  note op = startsD [OF this w]
  have "ops (p_kind s) \<noteq> None \<Longrightarrow> p_kind s \<noteq> T_Eof" using assms(1) by auto
  then have g: "good (ops (p_kind s) \<noteq> None) s (?f lhs s)" using op by (cases "ops (p_kind s)") simp_all
  then show "good False s (?f lhs s)" by (rule good_False)
  fix a1 t assume "?f lhs s = POk (Inl a1) t"
  with g show "W t < W s" by (cases "ops (p_kind s)") auto
qed

lemma strict_level:
  assumes "ops T_Eof = None" "strict (Suc n) operand" shows "strict (Suc n) (binary_level ops operand n)"
  unfolding binary_level_def
  by (intro strict_bindp [OF assms(2)] safe_loopp turns_ops assms(1) strict_Suc_safe [OF assms(2)])

lemma strict_or: "strict (Suc n) (parse_or_expr n k)"
  unfolding parse_or_expr_def parse_and_expr_def parse_bitwise_or_expr_def parse_bitwise_xor_expr_def
    parse_bitwise_and_expr_def parse_equality_expr_def parse_relational_expr_def parse_shift_expr_def
    parse_additive_expr_def parse_multiplicative_expr_def
  by (intro strict_level strict_as)
    (simp_all add: or_ops_def and_ops_def bitwise_or_ops_def bitwise_xor_ops_def bitwise_and_ops_def equality_ops_def
      relational_ops_def shift_ops_def additive_ops_def multiplicative_ops_def)

lemma strict_ternary: "strict (Suc n) (parse_ternary_expr n k)"
  unfolding parse_ternary_expr_def
  by (intro strict_bindp [OF strict_or] safe_rules strict_Suc_safe [OF strict_or]) simp_all

lemma strict_assign: "strict (Suc n) (parse_assign_expr n k)"
  unfolding parse_assign_expr_def
  by (intro strict_bindp [OF strict_ternary] safe_rules)

end

section \<open>The depth guard\<close>

lemma adv_depth:
  "adv (s\<lparr>ps_depth := Suc (ps_depth s)\<rparr>) t \<Longrightarrow> adv s (t\<lparr>ps_depth := ps_depth t - Suc 0\<rparr>)"
  by (simp add: adv_def)

lemma strict_guarded: "strict m p \<Longrightarrow> strict m (guarded msg p)"
  unfolding strict_def
proof (intro allI impI)
  fix s assume p: "\<forall>s. W s < m \<longrightarrow> good True s (p s)" and w: "W s < m"
  let ?s1 = "s\<lparr>ps_depth := Suc (ps_depth s)\<rparr>"
  have "good True ?s1 (p ?s1)" using p w by simp
  then show "good True s (guarded msg p s)"
    by (cases rule: goodE) (simp_all add: guarded_def Let_def adv_depth)
qed

context knot_contract
begin

lemma strict_expr: "strict (Suc n) (parse_expr n k)"
  unfolding parse_expr_def by (rule strict_guarded [OF strict_assign])

lemma safe_expr [safe_rules]: "safe n (parse_expr n k)"
  by (rule strict_Suc_safe [OF strict_expr])

end

end
