(* ===== verification/Tinox_Parser_Total.thy ===== *)
theory Tinox_Parser_Total
  imports Tinox_Parser_Total_Expr
begin

text \<open>
  The productions of statements and declarations keep the contract of
  \<open>Tinox_Parser_Contract\<close>; the knot does, by induction on its fuel, which is the
  interpretation of \<open>knot_contract\<close>; and so the parser returns on every list of tokens with the
  fuel it starts with.
\<close>

text \<open>
  \<open>recovers n m\<close>: \<open>m\<close>, started anywhere after a state that is not at the end, leaves that state behind.
  It is what the loops over declarations need, whose bodies report an error and go on.
\<close>

definition recovers :: "nat \<Rightarrow> 'a parser \<Rightarrow> bool" where
  "recovers n m \<longleftrightarrow> (\<forall>s0 s. W s0 < n \<longrightarrow> \<not> p_is_at_end s0 \<longrightarrow> adv s0 s \<longrightarrow> good True s0 (m s))"

lemma recovers_strict: "strict n m \<Longrightarrow> recovers n m"
  unfolding recovers_def
proof (intro allI impI)
  fix s0 s assume m: "strict n m" and w: "W s0 < n" and a: "adv s0 s"
  have "W s \<le> W s0" using a by (rule adv_W)
  then have "good True s (m s)" using m w by (simp add: strictD)
  then show "good True s0 (m s)"
    by (cases rule: goodE) (use \<open>W s \<le> W s0\<close> adv_trans [OF a] in auto)
qed

lemma recovers_bindp:
  assumes "safe n m" "\<And>x. recovers n (f x)" shows "recovers n (bindp m f)"
  unfolding recovers_def
proof (intro allI impI)
  fix s0 s assume w: "W s0 < n" and e: "\<not> p_is_at_end s0" and a: "adv s0 s"
  have "good False s (m s)" using assms(1) w adv_W [OF a] by (simp add: safeD)
  then show "good True s0 (bindp m f s)"
  proof (cases rule: goodE)
    case (1 x t)
    then show ?thesis using assms(2) w e adv_trans [OF a 1(2)] by (simp add: bindp_def recovers_def)
  qed (use adv_trans [OF a] in \<open>simp add: bindp_def\<close>)
qed

lemma recovers_ifp: "safe n c \<Longrightarrow> recovers n a \<Longrightarrow> recovers n b \<Longrightarrow> recovers n (ifp c a b)"
  unfolding ifp_def by (rule recovers_bindp) simp_all

lemma recovers_namespace_error: "recovers n (namespace_error acc)"
  by (simp add: recovers_def namespace_error_def recover_progress)

lemma turns_recovers:
  assumes "\<And>a. recovers n (x a)" "\<And>a s. p_is_at_end s \<Longrightarrow> c a s"
  shows "turns n (\<lambda>a s. if c a s then POk (Inr (y a)) s else x a s)"
proof (rule turns_step)
  fix a s assume w: "W s < n"
  have r: "\<not> c a s \<Longrightarrow> good True s (x a s)"
    using assms(1) [of a] assms(2) [of s a] w unfolding recovers_def by (meson adv_refl)
  then show "good False s (if c a s then POk (Inr (y a)) s else x a s)" by (auto intro: good_False)
  fix a1 t assume "(if c a s then POk (Inr (y a)) s else x a s) = POk (Inl a1) t"
  then show "W t < W s" using r by (auto split: if_splits)
qed

context knot_contract
begin

section \<open>Statements\<close>

lemma safe_opts [safe_rules]: "safe n (opt_type n k)" "safe n (opt_value n k)"
  unfolding opt_type_def opt_value_def by (intro safe_rules)+

lemma strict_let_var: "strict (Suc n) (parse_let_stmt n k)" "strict (Suc n) (parse_var_stmt n k)"
  unfolding parse_let_stmt_def parse_var_stmt_def by (intro strict_rules safe_rules; simp)+

lemma safe_let_var [safe_rules]: "safe n (parse_let_stmt n k)" "safe n (parse_var_stmt n k)"
  by (rule strict_Suc_safe [OF strict_let_var(1)], rule strict_Suc_safe [OF strict_let_var(2)])

lemma safe_for_parts [safe_rules]: "safe n (for_init n k)" "safe n (for_cond n k)" "safe n (for_update n k)"
  unfolding for_init_def for_cond_def for_update_def by (intro safe_rules; simp)+

lemma safe_catch [safe_rules]: "safe n (parse_catch n k)"
  unfolding parse_catch_def by (intro safe_rules) simp_all

lemma strict_select_arm: "strict n (parse_select_arm n k st)"
proof -
  have d: "starts n (thenp bumpp (bindp (parse_block n k) (\<lambda>body. retp (fst st, Some body))))"
    by (intro turn_rules safe_rules)
  have r: "starts n (thenp bumpp (bindp (k_expr k) (\<lambda>channel. thenp (expect T_ThinArrow) (
        bindp parse_ident (\<lambda>var. bindp (parse_block n k) (\<lambda>body.
        retp (fst st @ [SelectArm channel var body sp], snd st)))))))" for sp
    by (intro turn_rules safe_rules) simp
  show ?thesis unfolding parse_select_arm_def
    by (intro strict_spanp strict_check_keyword d r strict_peekp strict_errors)
qed

lemma safe_select_loop: "safe n (loopp n (\<lambda>st s. if p_check T_RBrace s \<or> p_is_at_end s then POk (Inr st) s
    else bindp (parse_select_arm n k st) (\<lambda>st. retp (Inl st)) s) st0)"
  by (intro safe_loopp turns_recovers recovers_strict strict_bindp_safe strict_select_arm safe_retp) simp

lemma strict_keyword_stmts:
  "strict (Suc n) (parse_if_stmt n k)" "strict (Suc n) (parse_while_stmt n k)" "strict (Suc n) (parse_loop_stmt n k)"
  "strict (Suc n) (parse_return_stmt n k)" "strict (Suc n) (parse_throw_stmt n k)"
  "strict (Suc n) (parse_defer_stmt n k)"
  unfolding parse_if_stmt_def parse_while_stmt_def parse_loop_stmt_def parse_return_stmt_def parse_throw_stmt_def
    parse_defer_stmt_def
  by (intro strict_rules safe_rules; simp)+

lemma starts_for: "starts (Suc n) (parse_for_stmt n k)"
  unfolding parse_for_stmt_def by (intro strict_rules safe_rules) simp_all

lemma strict_try: "strict (Suc n) (parse_try_stmt n k)"
  unfolding parse_try_stmt_def by (intro strict_rules safe_rules turn_rules) auto

lemma strict_select: "strict (Suc n) (parse_select_stmt n k)"
  unfolding parse_select_stmt_def by (intro strict_rules safe_rules safe_select_loop) simp_all

subsection \<open>Statements that begin with a name\<close>

lemma safe_values [safe_rules]: "safe n (assign_value n k target)" "safe n (compound_value n k op target sp)"
  "safe n (index_once n k sp obj)" "safe n (end_expr_stmt e)" "safe n (paren_args n k)"
  unfolding assign_value_def compound_value_def index_once_def end_expr_stmt_def paren_args_def
  by (intro safe_rules; simp)+

lemma starts_index_once: "starts n (index_once n k sp obj)"
  unfolding index_once_def by (intro turn_rules safe_rules) simp

lemma safe_index_chain [safe_rules]: "safe n (index_chain n k sp obj)"
  unfolding index_chain_def
  by (intro safe_rules turns_check starts_bindp_in_loop starts_index_once) simp

lemma safe_member_chain [safe_rules]: "safe n (member_chain assigns n k sp e)"
  unfolding member_chain_def by (intro safe_rules turn_rules) auto

lemma safe_after_chain [safe_rules]: "(\<And>e. safe n (f e)) \<Longrightarrow> safe n (after_chain r f)"
  unfolding after_chain_def by (intro safe_rules)

lemma safe_member_index [safe_rules]: "safe n (member_index_stmt n k sp obj)"
  unfolding member_index_stmt_def by (intro safe_rules)

lemma safe_name_stmts [safe_rules]: "safe n (bracket_stmt n k name sp)" "safe n (member_stmt n k name sp)"
  unfolding bracket_stmt_def member_stmt_def by (intro safe_rules)+

lemma safe_static_members [safe_rules]: "safe n (static_members n k sp e)"
  unfolding static_members_def by (intro safe_rules turn_rules) auto

lemma safe_static_stmt [safe_rules]: "safe n (static_stmt n k name sp)"
  unfolding static_stmt_def by (intro safe_rules turn_rules) auto

lemma strict_ident_stmt: "strict (Suc n) (ident_stmt n k)"
  unfolding ident_stmt_def Let_def by (intro strict_rules safe_rules)

lemma strict_expr_stmt: "strict (Suc n) (expr_stmt n k)"
  unfolding expr_stmt_def by (intro strict_bindp [OF strict_expr] safe_rules) simp_all

lemma strict_stmt: "strict (Suc n) (parse_stmt n k)"
proof -
  have kind: "good True s (parse_stmt_kind n k s)" if w: "W s < Suc n" for s
  proof -
    have brk: "starts (Suc n) (thenp bumpp (thenp (expect T_Semicolon) (retp st)))" for st :: stmt_kind
      by (intro strict_rules safe_rules) simp
    have blk: "starts (Suc n) (thenp bumpp (bindp (parse_block_stmts n k) (\<lambda>stmts.
        thenp (expect T_RBrace) (retp (S_Block stmts)))))"
      by (intro strict_rules safe_rules) simp
    note prods = strict_keyword_stmts [THEN strictD, OF w] strict_let_var [THEN strictD, OF w]
      startsD [OF starts_for w] strictD [OF strict_try w] strictD [OF strict_select w]
      startsD [OF brk w] strictD [OF strict_expr_stmt w]
    have "good True s (keyword_stmt n k kw s)" if "p_kind s = T_Keyword kw" for kw
      using prods that by (cases kw) (simp_all add: keyword_stmt_def)
    then show ?thesis
      using startsD [OF blk w] strictD [OF strict_ident_stmt w] strictD [OF strict_expr_stmt w]
      by (cases "p_kind s") (simp_all add: parse_stmt_kind_def W_bump_kind)
  qed
  then have "strict (Suc n) (parse_stmt_kind n k)" by (simp add: strict_def)
  then have "strict (Suc n) (parse_stmt_inner n k)"
    unfolding parse_stmt_inner_def by (intro strict_spanp strict_bindp safe_retp)
  then show ?thesis unfolding parse_stmt_def by (rule strict_guarded)
qed

section \<open>Declarations\<close>

lemma safe_signature [safe_rules]:
  "safe n (parse_params n k)" "safe n (opt_ret_type n k)" "safe n (opt_type_params n)"
  unfolding parse_params_def opt_ret_type_def opt_type_params_def by (intro safe_rules; simp)+

lemma strict_functions: "strict n (parse_fn n k)" "strict n (parse_extern_fn n k)" "strict n (parse_immutable n k)"
  "strict n (parse_method n k vis st)" "strict n (parse_field n k vis mut)"
  unfolding parse_fn_def parse_extern_fn_def parse_immutable_def parse_method_def parse_field_def
  by (intro turn_rules safe_rules; simp)+

lemma safe_functions [safe_rules]: "safe n (parse_fn n k)" "safe n (parse_method n k vis st)"
  "safe n (parse_field n k vis mut)"
  by (rule strict_safe, rule strict_functions)+

lemma safe_visibility [safe_rules]: "safe n parse_visibility"
  unfolding parse_visibility_def by (intro safe_rules)

lemma safe_orp [safe_rules]: "safe n a \<Longrightarrow> safe n b \<Longrightarrow> safe n (orp a b)"
  unfolding orp_def by (intro safe_rules)

lemma strict_member: "strict n (parse_member n k st)"
  unfolding parse_member_def Let_def
  by (intro strict_bindp_later [OF safe_annotations] strict_bindp_later [OF safe_take_doc]
      strict_bindp_later [OF safe_visibility] strict_bindp_later [OF safe_orp]
      strict_bindp_later [OF safe_cursor(8)] strict_ifp strict_bindp_safe strict_functions safe_rules)

lemma safe_ident_list [safe_rules]: "safe n (ident_list n)"
  unfolding ident_list_def by (intro safe_rules)

lemma strict_class: "strict n (parse_class n k)"
  unfolding parse_class_def
  by (intro turn_rules safe_rules strict_bindp_safe [OF strict_member]) auto

lemma safe_signatures [safe_rules]: "safe n (parse_signatures n k)"
  unfolding parse_signatures_def
  by (intro safe_rules turns_until strict_bindp_later [OF safe_take_doc] strict_bindp_safe [OF strict_functions(1)]) auto

lemma strict_variant: "strict n (parse_enum_variant n k)"
  unfolding parse_enum_variant_def by (intro turn_rules safe_rules) simp

lemma strict_types: "strict n (parse_interface n k)" "strict n (parse_trait n k)" "strict n (parse_import n)"
  unfolding parse_interface_def parse_trait_def parse_import_def
  by (intro turn_rules safe_rules safe_sep_more; simp)+

lemma strict_enum: "strict n (parse_enum n k)"
  unfolding parse_enum_def
  by (intro turn_rules safe_rules strict_bindp_later [OF safe_take_doc] strict_bindp_safe [OF strict_variant]) auto

lemma recovers_item: "recovers n (namespace_item n k acc)"
  unfolding namespace_item_def Let_def
  by (intro recovers_bindp [OF safe_take_doc] recovers_bindp [OF safe_annotations] recovers_bindp [OF safe_cursor(1)]
      recovers_ifp recovers_namespace_error recovers_strict strict_bindp_safe strict_class strict_types strict_enum
      strict_functions strict_bindp_later [OF safe_cursor(8)] safe_rules)

lemma recovers_then: "recovers n m \<Longrightarrow> recovers n (bindp m (\<lambda>x. retp (f x)))"
  unfolding recovers_def
proof (intro allI impI)
  fix s0 s
  assume m: "\<forall>s0 s. W s0 < n \<longrightarrow> \<not> p_is_at_end s0 \<longrightarrow> adv s0 s \<longrightarrow> good True s0 (m s)"
    and s: "W s0 < n" "\<not> p_is_at_end s0" "adv s0 s"
  then have "good True s0 (m s)" by blast
  then show "good True s0 (bindp m (\<lambda>x. retp (f x)) s)"
    by (cases rule: goodE) (simp_all add: bindp_def retp_def)
qed

lemma strict_namespace: "strict n (parse_namespace n k)"
  unfolding parse_namespace_def
  by (intro turn_rules safe_rules safe_sep_more turns_recovers recovers_then [OF recovers_item]) simp_all

lemma safe_module_path [safe_rules]: "safe n (module_path n)"
  unfolding module_path_def by (intro safe_rules turn_rules) auto

lemma strict_decl: "strict n (parse_decl n k)"
proof -
  have mod: "starts n (thenp bumpp (bindp (module_path n) (\<lambda>name. thenp (consume T_Semicolon) (retp (D_Module name)))))"
    by (intro turn_rules safe_rules)
  have "strict n (parse_decl_kind n k anns doc)" for anns doc
    unfolding parse_decl_kind_def
    by (intro strict_ifp [OF safe_cursor(8)] strict_check_keyword strict_starts strict_bindp_safe
        strict_class strict_types strict_enum strict_functions strict_namespace mod strict_errors safe_rules)
  then show ?thesis
    unfolding parse_decl_def
    by (intro strict_bindp_later [OF safe_annotations] strict_bindp_later [OF safe_take_doc] strict_spanp
        strict_bindp_safe safe_retp)
qed

end

section \<open>The knot, and the whole parser\<close>

lemma call_nt_shape: "call_nt n nt s = POk r t \<Longrightarrow> shape nt r"
  by (cases n; cases nt) (auto simp: shape_def bindp_def retp_def split: outcome.splits)

lemma call_nt_contract: "knot_contract n (call_nt n)"
proof (induction n)
  case 0
  show ?case by unfold_locales (auto simp: strict_def call_nt_shape)
next
  case (Suc n)
  note ks = knot_contract.strict_expr [OF Suc] knot_contract.strict_assign [OF Suc]
    knot_contract.strict_ternary [OF Suc] knot_contract.strict_unary [OF Suc]
    knot_contract.strict_postfix [OF Suc] knot_contract.strict_type [OF Suc]
    knot_contract.strict_pattern [OF Suc] knot_contract.strict_stmt [OF Suc]
    knot_contract.strict_keyword_stmts(1) [OF Suc] knot_contract.strict_annotation_arg [OF Suc]
  show ?case
  proof unfold_locales
    fix nt
    show "strict (Suc n) (call_nt (Suc n) nt)"
      using ks [THEN strict_bindp, OF safe_retp] by (cases nt) (simp_all add: strict_def)
  qed (rule call_nt_shape)
qed

interpretation knot: knot_contract n "call_nt n" for n
  by (rule call_nt_contract)

lemma recovering:
  assumes "strict n m"
  shows "recovers n (\<lambda>s. case m s of POk x t \<Rightarrow> POk (f x) t
    | PErr e t \<Rightarrow> POk z (p_synchronize (p_push_error e t)) | PFuel \<Rightarrow> PFuel)"
  unfolding recovers_def
proof (intro allI impI)
  fix s0 s assume "W s0 < n" and e: "\<not> p_is_at_end s0" and "adv s0 s"
  then have "good True s0 (m s)" using recovers_strict [OF assms] by (simp add: recovers_def)
  then show "good True s0 (case m s of POk x t \<Rightarrow> POk (f x) t
      | PErr e t \<Rightarrow> POk z (p_synchronize (p_push_error e t)) | PFuel \<Rightarrow> PFuel)"
    by (cases rule: goodE) (simp_all add: recover_progress [OF e])
qed

lemma loopp_post:
  assumes "loopp m f a s = POk b t" and "\<And>a s b t. f a s = POk (Inr b) t \<Longrightarrow> Q t" shows "Q t"
  using assms(1)
proof (induction m arbitrary: a s)
  case (Suc m)
  then show ?case using assms(2) by (auto split: outcome.splits sum.splits)
qed simp

lemma loopp_no_error:
  assumes "\<And>a s e t. f a s \<noteq> PErr e t" shows "loopp m f a s \<noteq> PErr e t"
proof (induction m arbitrary: a s)
  case (Suc m)
  then show ?case using assms by (auto split: outcome.splits sum.splits)
qed simp

lemma parse_decls_run:
  assumes "W s < n"
  shows "\<exists>decls t. parse_decls n (call_nt n) s = POk decls t \<and> adv s t \<and> p_is_at_end t"
proof -
  let ?f = "\<lambda>decls s. if p_is_at_end s then POk (Inr decls) s
       else case parse_decl n (call_nt n) s of
              POk d s1 \<Rightarrow> POk (Inl (decls @ [d])) s1
            | PErr e s1 \<Rightarrow> POk (Inl decls) (p_synchronize (p_push_error e s1))
            | PFuel \<Rightarrow> PFuel"
  have run: "parse_decls n (call_nt n) s = loopp n ?f [] s" by (simp add: parse_decls_def)
  have "turns n ?f" by (intro turns_recovers recovering knot.strict_decl)
  then have g: "good False s (loopp n ?f [] s)" by (rule safeD [OF safe_loopp assms])
  have "loopp n ?f [] s \<noteq> PErr e t" for e t
    by (rule loopp_no_error) (simp split: outcome.splits)
  with g obtain decls t where r: "loopp n ?f [] s = POk decls t" "adv s t" by (cases "loopp n ?f [] s") auto
  have "p_is_at_end t" using r(1) by (rule loopp_post) (simp split: outcome.splits if_splits)
  with r run show ?thesis by auto
qed

text \<open>
  C13. The parser is total: from every list of tokens, well-formed or not, the fuel it starts
  with is enough. It stops at the end of the input, with the recursion depth back at zero and
  the tokens' positions untouched, and it returns the tree exactly when it recorded no
  error, and otherwise all the errors it recorded.
\<close>

theorem parse_total:
  "\<exists>decls s. parse_decls (tokens_weight toks + 1) (call_nt (tokens_weight toks + 1)) (parser_new toks) = POk decls s
     \<and> p_is_at_end s \<and> ps_depth s = 0 \<and> map tok_span (ps_tokens s) = map tok_span toks
     \<and> parse toks = Some (if ps_errors s = [] then Inr (source_file_new decls) else Inl \<lparr>bag_errors = ps_errors s\<rparr>)"
proof -
  have "W (parser_new toks) < tokens_weight toks + 1" by (simp add: W_def parser_new_def)
  then obtain decls s where
    "parse_decls (tokens_weight toks + 1) (call_nt (tokens_weight toks + 1)) (parser_new toks) = POk decls s"
    "adv (parser_new toks) s" "p_is_at_end s" using parse_decls_run by blast
  then show ?thesis by (intro exI [of _ decls] exI [of _ s]) (simp add: parse_def Let_def adv_def parser_new_def)
qed

end
