(* ===== verification/Tinox_Parser_Precedence.thy ===== *)
theory Tinox_Parser_Precedence
  imports Tinox_Parser_Total
begin

text \<open>
  Precedence and associativity. \<open>sexp\<close> is the language of literals, names, unary and binary
  operators and conditionals; \<open>pr i a\<close> writes such an expression at level \<open>i\<close> with the fewest
  parentheses. Parsing what was written gives back the expression: the ladder of the
  parser's binary levels implements the table of precedences \<open>lev\<close>, all binary operators
  associate to the left, and conditionals to the right.
\<close>

section \<open>Expressions and how they are written\<close>

datatype sexp = X_Int int | X_Var rstring | X_Un unary_op sexp | X_Bin binary_op sexp sexp | X_Cond sexp sexp sexp

definition op_level :: "binary_op \<Rightarrow> nat" where
  "op_level op = (case op of
     B_Or \<Rightarrow> 2 | B_And \<Rightarrow> 3 | B_BitOr \<Rightarrow> 4 | B_Xor \<Rightarrow> 5 | B_BitAnd \<Rightarrow> 6 | B_Eq \<Rightarrow> 7 | B_Ne \<Rightarrow> 7
   | B_Lt \<Rightarrow> 8 | B_Le \<Rightarrow> 8 | B_Gt \<Rightarrow> 8 | B_Ge \<Rightarrow> 8 | B_Shl \<Rightarrow> 9 | B_Shr \<Rightarrow> 9 | B_ShrArith \<Rightarrow> 9
   | B_Add \<Rightarrow> 10 | B_Sub \<Rightarrow> 10 | B_Mul \<Rightarrow> 11 | B_Div \<Rightarrow> 11 | B_Mod \<Rightarrow> 11)"

definition op_token :: "binary_op \<Rightarrow> token_kind" where
  "op_token op = (case op of
     B_Or \<Rightarrow> T_BarBar | B_And \<Rightarrow> T_AmpAmp | B_BitOr \<Rightarrow> T_Bar | B_Xor \<Rightarrow> T_Caret | B_BitAnd \<Rightarrow> T_Ampersand
   | B_Eq \<Rightarrow> T_EqualsEquals | B_Ne \<Rightarrow> T_BangEquals | B_Lt \<Rightarrow> T_Less | B_Le \<Rightarrow> T_LessEquals | B_Gt \<Rightarrow> T_Greater
   | B_Ge \<Rightarrow> T_GreaterEquals | B_Shl \<Rightarrow> T_LessLess | B_Shr \<Rightarrow> T_GreaterGreater
   | B_ShrArith \<Rightarrow> T_GreaterGreaterGreater | B_Add \<Rightarrow> T_Plus | B_Sub \<Rightarrow> T_Minus | B_Mul \<Rightarrow> T_Star | B_Div \<Rightarrow> T_Slash
   | B_Mod \<Rightarrow> T_Percent)"

definition un_token :: "unary_op \<Rightarrow> token_kind" where
  "un_token u = (case u of U_Neg \<Rightarrow> T_Minus | U_Not \<Rightarrow> T_Bang | U_BitNot \<Rightarrow> T_Tilde)"

primrec lev :: "sexp \<Rightarrow> nat" where
  "lev (X_Int v) = 14"
| "lev (X_Var x) = 14"
| "lev (X_Un u a) = 13"
| "lev (X_Bin op a b) = op_level op"
| "lev (X_Cond c a b) = 1"

definition paren :: "bool \<Rightarrow> token_kind list \<Rightarrow> token_kind list" where
  "paren b ks = (if b then T_LParen # ks @ [T_RParen] else ks)"

primrec body :: "sexp \<Rightarrow> token_kind list" where
  "body (X_Int v) = [T_Integer v]"
| "body (X_Var x) = [T_Ident x]"
| "body (X_Un u a) = un_token u # paren (lev a < 13) (body a)"
| "body (X_Bin op a b) =
     paren (lev a < op_level op) (body a) @ op_token op # paren (lev b < Suc (op_level op)) (body b)"
| "body (X_Cond c a b) =
     paren (lev c < 2) (body c) @ T_Question # paren (lev a < 2) (body a) @ T_Colon # paren (lev b < 1) (body b)"

definition pr :: "nat \<Rightarrow> sexp \<Rightarrow> token_kind list" where
  "pr i a = paren (lev a < i) (body a)"

text \<open>How deep the parentheses nest.\<close>

definition wrap :: "nat \<Rightarrow> sexp \<Rightarrow> nat" where "wrap i a = (if lev a < i then 1 else 0)"

primrec nest :: "sexp \<Rightarrow> nat" where
  "nest (X_Int v) = 0"
| "nest (X_Var x) = 0"
| "nest (X_Un u a) = wrap 13 a + nest a"
| "nest (X_Bin op a b) = max (wrap (op_level op) a + nest a) (wrap (Suc (op_level op)) b + nest b)"
| "nest (X_Cond c a b) = max (wrap 2 c + nest c) (max (wrap 2 a + nest a) (wrap 1 b + nest b))"

definition nst :: "nat \<Rightarrow> sexp \<Rightarrow> nat" where "nst i a = wrap i a + nest a"

text \<open>The syntax tree of an expression, whatever its spans.\<close>

primrec tree_of :: "sexp \<Rightarrow> expr \<Rightarrow> bool" where
  "tree_of (X_Int v) e = (node e = E_Literal (Lit_Integer v))"
| "tree_of (X_Var x) e = (node e = E_Ident x)"
| "tree_of (X_Un u a) e = (case node e of E_Unary u1 e1 \<Rightarrow> u1 = u \<and> tree_of a e1 | _ \<Rightarrow> False)"
| "tree_of (X_Bin op a b) e = (case node e of
     E_Binary op1 e1 e2 \<Rightarrow> op1 = op \<and> tree_of a e1 \<and> tree_of b e2 | _ \<Rightarrow> False)"
| "tree_of (X_Cond c a b) e = (case node e of
     E_If e1 e2 (Some e3) \<Rightarrow> tree_of c e1 \<and> tree_of a e2 \<and> tree_of b e3 | _ \<Rightarrow> False)"

section \<open>The ladder of levels\<close>

definition level_ops :: "nat \<Rightarrow> token_kind \<Rightarrow> binary_op option" where
  "level_ops i = (if i = 2 then or_ops else if i = 3 then and_ops else if i = 4 then bitwise_or_ops
     else if i = 5 then bitwise_xor_ops else if i = 6 then bitwise_and_ops else if i = 7 then equality_ops
     else if i = 8 then relational_ops else if i = 9 then shift_ops else if i = 10 then additive_ops
     else multiplicative_ops)"

definition lp :: "nat \<Rightarrow> nat \<Rightarrow> knot \<Rightarrow> expr parser" where
  "lp i = (if i = 1 then parse_ternary_expr else if i = 2 then parse_or_expr else if i = 3 then parse_and_expr
     else if i = 4 then parse_bitwise_or_expr else if i = 5 then parse_bitwise_xor_expr
     else if i = 6 then parse_bitwise_and_expr else if i = 7 then parse_equality_expr
     else if i = 8 then parse_relational_expr else if i = 9 then parse_shift_expr
     else if i = 10 then parse_additive_expr else if i = 11 then parse_multiplicative_expr
     else if i = 12 then parse_as_expr else if i = 13 then parse_unary_expr else parse_postfix_expr)"

lemma binary_cases:
  assumes "2 \<le> i" "i \<le> (11::nat)"
  obtains "i = 2" | "i = 3" | "i = 4" | "i = 5" | "i = 6" | "i = 7" | "i = 8" | "i = 9" | "i = 10" | "i = 11"
proof -
  have "i = 2 \<or> i = 3 \<or> i = 4 \<or> i = 5 \<or> i = 6 \<or> i = 7 \<or> i = 8 \<or> i = 9 \<or> i = 10 \<or> i = 11"
    using assms by presburger
  then show thesis using that by blast
qed

lemma lp_binary: "2 \<le> i \<Longrightarrow> i \<le> 11 \<Longrightarrow> lp i n k = binary_level (level_ops i) (lp (Suc i) n k) n"
  by (erule (1) binary_cases)
    (simp_all add: lp_def level_ops_def parse_or_expr_def parse_and_expr_def parse_bitwise_or_expr_def
      parse_bitwise_xor_expr_def parse_bitwise_and_expr_def parse_equality_expr_def parse_relational_expr_def
      parse_shift_expr_def parse_additive_expr_def parse_multiplicative_expr_def)

text \<open>The level at which a token continues an expression; 0 for a token that ends it.\<close>

definition rank :: "token_kind \<Rightarrow> nat" where
  "rank k = (case k of
     T_Question \<Rightarrow> 1 | T_BarBar \<Rightarrow> 2 | T_AmpAmp \<Rightarrow> 3 | T_Bar \<Rightarrow> 4 | T_Caret \<Rightarrow> 5 | T_Ampersand \<Rightarrow> 6
   | T_EqualsEquals \<Rightarrow> 7 | T_BangEquals \<Rightarrow> 7 | T_Less \<Rightarrow> 8 | T_LessEquals \<Rightarrow> 8 | T_Greater \<Rightarrow> 8 | T_GreaterEquals \<Rightarrow> 8
   | T_LessLess \<Rightarrow> 9 | T_GreaterGreater \<Rightarrow> 9 | T_GreaterGreaterGreater \<Rightarrow> 9 | T_Plus \<Rightarrow> 10 | T_Minus \<Rightarrow> 10
   | T_Star \<Rightarrow> 11 | T_Slash \<Rightarrow> 11 | T_Percent \<Rightarrow> 11 | T_Keyword w \<Rightarrow> if w = K_As then 12 else 0
   | T_Dot \<Rightarrow> 14 | T_ColonColon \<Rightarrow> 14 | T_LBracket \<Rightarrow> 14 | T_DotDot \<Rightarrow> 14 | T_DotDotDot \<Rightarrow> 14 | T_LParen \<Rightarrow> 14
   | _ \<Rightarrow> 0)"

lemma level_ops_rank: "2 \<le> i \<Longrightarrow> i \<le> 11 \<Longrightarrow> rank k \<noteq> i \<Longrightarrow> level_ops i k = None"
  by (cases k; erule (1) binary_cases)
    (simp_all add: rank_def level_ops_def or_ops_def and_ops_def bitwise_or_ops_def bitwise_xor_ops_def
      bitwise_and_ops_def equality_ops_def relational_ops_def shift_ops_def additive_ops_def multiplicative_ops_def)

lemma op_level_range: "2 \<le> op_level op \<and> op_level op \<le> 11"
  by (cases op) (simp_all add: op_level_def)

lemma op_token_level: "level_ops (op_level op) (op_token op) = Some op" "rank (op_token op) = op_level op"
  by (cases op; simp add: op_level_def op_token_def level_ops_def rank_def or_ops_def and_ops_def bitwise_or_ops_def
      bitwise_xor_ops_def bitwise_and_ops_def equality_ops_def relational_ops_def shift_ops_def additive_ops_def
      multiplicative_ops_def)+

section \<open>The tokens ahead\<close>

definition kinds :: "pstate \<Rightarrow> token_kind list" where
  "kinds s = map tok_kind (drop (ps_pos s) (ps_tokens s))"

definition fw :: "nat \<Rightarrow> pstate \<Rightarrow> pstate" where
  "fw j s = s\<lparr>ps_pos := ps_pos s + j\<rparr>"

definition first :: "token_kind list \<Rightarrow> token_kind" where
  "first ks = (case ks of [] \<Rightarrow> T_Eof | k # _ \<Rightarrow> k)"

lemma first_simps [simp]: "first (k # ks) = k" "first [] = T_Eof"
  by (simp_all add: first_def)

lemma fw_simps [simp]: "fw i (fw j s) = fw (j + i) s" "ps_depth (fw j s) = ps_depth s" "kinds (fw j s) = drop j (kinds s)"
  by (simp_all add: fw_def kinds_def drop_map add.commute)

lemma kinds_depth [simp]: "kinds (s\<lparr>ps_depth := d\<rparr>) = kinds s" "fw j (s\<lparr>ps_depth := d\<rparr>) = (fw j s)\<lparr>ps_depth := d\<rparr>"
  by (simp_all add: kinds_def fw_def)

lemma p_kind_kinds: "p_kind s = first (kinds s)"
proof (cases "ps_pos s < length (ps_tokens s)")
  case True
  then show ?thesis by (simp add: p_peek_def kinds_def flip: Cons_nth_drop_Suc)
qed (simp add: p_peek_def kinds_def token_dummy_def)

lemma bump_fw: "kinds s = k # ks \<Longrightarrow> p_bump s = fw 1 s"
  by (cases "ps_pos s < length (ps_tokens s)") (simp_all add: p_bump_def fw_def kinds_def)

lemma W_kinds: "W s = sum_list (map token_weight (kinds s))"
  by (simp add: W_def tokens_weight_def kinds_def comp_def)

lemma W_fw: "kinds s = ks @ rs \<Longrightarrow> ks \<noteq> [] \<Longrightarrow> W (fw (length ks) s) < W s"
  by (cases ks) (simp_all add: W_kinds add_pos_nonneg)

lemma W_pos: "kinds s = k # ks \<Longrightarrow> W s \<le> n \<Longrightarrow> 0 < n"
proof -
  assume k: "kinds s = k # ks" and w: "W s \<le> n"
  have "W s = token_weight k + sum_list (map token_weight ks)" by (simp add: W_kinds k)
  with w show "0 < n" using token_weight_pos [of k] by linarith
qed

lemma kind_ahead: "p_kind_ahead i s = Some k \<Longrightarrow> k = kinds s ! i \<and> i < length (kinds s)"
  by (auto simp: p_kind_ahead_def p_peek_ahead_def kinds_def split: if_splits)

text \<open>With no brace and no \<^verbatim>\<open>::\<close> ahead, the look-aheads for type arguments find none.\<close>

definition plain :: "token_kind list \<Rightarrow> bool" where
  "plain ks \<longleftrightarrow> T_LBrace \<notin> set ks \<and> T_ColonColon \<notin> set ks"

lemma plain_append [simp]: "plain (xs @ ys) \<longleftrightarrow> plain xs \<and> plain ys" "plain []"
  "plain (x # ys) \<longleftrightarrow> x \<noteq> T_LBrace \<and> x \<noteq> T_ColonColon \<and> plain ys"
  by (auto simp: plain_def)

lemma plain_drop: "plain ks \<Longrightarrow> plain (drop j ks)"
  by (auto simp: plain_def dest: in_set_dropD)

lemma no_generic_static: "plain (kinds s) \<Longrightarrow> \<not> is_generic_type_static_call s"
proof
  assume p: "plain (kinds s)" and "is_generic_type_static_call s"
  then obtain i where "p_kind_ahead i s = Some T_ColonColon"
    by (auto simp: is_generic_type_static_call_def generic_followed_by_def split: option.splits)
  then have "T_ColonColon \<in> set (kinds s)" using kind_ahead by (metis nth_mem)
  then show False using p by (simp add: plain_def)
qed

lemma plain_no_brace: "plain (kinds s) \<Longrightarrow> \<not> p_check T_LBrace s"
  by (cases "kinds s") (auto simp: p_check_def p_kind_kinds plain_def)

lemma plain_bump: "plain (kinds s) \<Longrightarrow> plain (kinds (p_bump s))"
proof (cases "kinds s")
  case Nil
  then show ?thesis by (auto simp: p_bump_def kinds_def)
next
  case (Cons k ks)
  then show "plain (kinds s) \<Longrightarrow> ?thesis" by (simp add: bump_fw)
qed

lemma plain_skip_angles: "plain (kinds s) \<Longrightarrow> plain (kinds (skip_angles d s))"
proof (induction d s rule: skip_angles.induct)
  case (1 d s)
  then show ?case by (subst skip_angles.simps) (auto simp: plain_bump)
qed

lemma skip_struct_generics_plain: "plain (kinds s) \<Longrightarrow> skip_struct_generics s = POk () s"
proof -
  assume p: "plain (kinds s)"
  have "\<not> p_check T_LBrace (skip_angles 1 (p_bump s))"
    by (intro plain_no_brace plain_skip_angles plain_bump p)
  moreover have "(p_bump s)\<lparr>ps_pos := ps_pos s\<rparr> = s" by (simp add: p_bump_def)
  ultimately show ?thesis by (simp add: skip_struct_generics_def Let_def skip_angles_same)
qed

section \<open>Steps of the ladder\<close>

lemma check_kinds [simp]: "p_check k s \<longleftrightarrow> first (kinds s) = k" "p_check_keyword w s \<longleftrightarrow> first (kinds s) = T_Keyword w"
  by (simp_all add: p_check_def p_check_keyword_def p_kind_kinds)

abbreviation level_turn :: "nat \<Rightarrow> nat \<Rightarrow> expr \<Rightarrow> (expr + expr) parser" where
  "level_turn i n \<equiv> \<lambda>lhs s. case level_ops i (p_kind s) of
     Some op \<Rightarrow> thenp bumpp (bindp (lp (Suc i) n (call_nt n)) (\<lambda>rhs.
       retp (Inl (spanned_new (E_Binary op lhs rhs) (nspan lhs))))) s
   | None \<Rightarrow> POk (Inr lhs) s"

lemma loopp_stop: "0 < m \<Longrightarrow> f a s = POk (Inr b) t \<Longrightarrow> loopp m f a s = POk b t"
  by (cases m) simp_all

lemma loopp_turn: "W s < m \<Longrightarrow> f a s = POk (Inl a1) t \<Longrightarrow> W t < W s
    \<Longrightarrow> \<exists>m1. loopp m f a s = loopp m1 f a1 t \<and> W t < m1"
  by (cases m) auto

lemma lp_enter:
  "2 \<le> i \<Longrightarrow> i \<le> 11 \<Longrightarrow> lp (Suc i) n (call_nt n) s = POk e t
     \<Longrightarrow> lp i n (call_nt n) s = loopp n (level_turn i n) e t"
  by (simp add: lp_binary binary_level_def bindp_def)

text \<open>A level that the expression does not use passes it on.\<close>

lemma lp_pass:
  assumes r: "lp (Suc i) n (call_nt n) s = POk e t" and "1 \<le> i" "i \<le> 12" and "rank (p_kind t) < i" and "W t < n"
  shows "lp i n (call_nt n) s = POk e t"
proof -
  consider "i = 1" | "2 \<le> i" "i \<le> 11" | "i = 12" using assms by linarith
  then show ?thesis
  proof cases
    case 1
    moreover have "p_kind t \<noteq> T_Question" using 1 assms(4) by (auto simp: rank_def)
    ultimately show ?thesis using r
      by (simp add: lp_def numeral_2_eq_2 [symmetric] parse_ternary_expr_def bindp_def ifp_def checkp_def p_check_def retp_def
          del: check_kinds)
  next
    case 2
    then show ?thesis using lp_enter [OF 2 r] level_ops_rank [OF 2, of "p_kind t"] assms
      by (simp add: loopp_stop)
  next
    case 3
    moreover have "p_kind t \<noteq> T_Keyword K_As" using 3 assms(4) by (auto simp: rank_def)
    ultimately show ?thesis using r assms
      by (simp add: lp_def parse_as_expr_def bindp_def ifp_def check_keywordp_def p_check_keyword_def retp_def loopp_stop
          del: check_kinds)
  qed
qed

definition starts_primary :: "token_kind \<Rightarrow> bool" where
  "starts_primary k = (case k of T_Integer _ \<Rightarrow> True | T_Ident _ \<Rightarrow> True | T_LParen \<Rightarrow> True | _ \<Rightarrow> False)"

lemma lp_unary_pass: "starts_primary (p_kind s) \<Longrightarrow> lp 13 n k s = lp 14 n k s"
  by (cases "p_kind s") (simp_all add: lp_def parse_unary_expr_def unary_op_def starts_primary_def p_check_def del: check_kinds)

lemma postfix_stops:
  assumes "rank (p_kind t) < 14" "plain (kinds t)" "0 < m"
  shows "loopp m (postfix_step n k) (e, None, 0) t = POk e t"
proof (rule loopp_stop [OF assms(3)])
  have "p_kind t \<notin> {T_Dot, T_ColonColon, T_LBracket, T_DotDot, T_DotDotDot, T_LParen}"
    using assms(1) by (auto simp: rank_def)
  then show "postfix_step n k (e, None, 0) t = POk (Inr e) t"
    using no_generic_static [OF assms(2)]
    by (simp add: postfix_step_def Let_def MAX_RECURSION_DEPTH_def p_check_def del: check_kinds)
qed

lemma call_nt_pos: "W s < n \<Longrightarrow> \<exists>m. n = Suc m \<and> W s \<le> m"
  by (cases n) simp_all

section \<open>Reading back\<close>

definition parses :: "nat \<Rightarrow> sexp \<Rightarrow> bool" where
  "parses i a \<longleftrightarrow> (\<forall>n s rs. kinds s = pr i a @ rs \<longrightarrow> rank (first rs) < i \<longrightarrow> plain (kinds s) \<longrightarrow> W s \<le> n
     \<longrightarrow> ps_depth s + nst i a \<le> MAX_RECURSION_DEPTH
     \<longrightarrow> (\<exists>e. lp i n (call_nt n) s = POk e (fw (length (pr i a)) s) \<and> tree_of a e))"

text \<open>As \<open>parses\<close>, but with operators of the same level still to come.\<close>

definition chained :: "nat \<Rightarrow> sexp \<Rightarrow> bool" where
  "chained i a \<longleftrightarrow> (\<forall>n s rs. kinds s = pr i a @ rs \<longrightarrow> rank (first rs) \<le> i \<longrightarrow> plain (kinds s) \<longrightarrow> W s \<le> n
     \<longrightarrow> ps_depth s + nst i a \<le> MAX_RECURSION_DEPTH
     \<longrightarrow> (\<exists>e m. lp i n (call_nt n) s = loopp m (level_turn i n) e (fw (length (pr i a)) s)
            \<and> W (fw (length (pr i a)) s) < m \<and> tree_of a e))"

lemma parsesD:
  assumes "parses i a" "kinds s = pr i a @ rs" "rank (first rs) < i" "plain (kinds s)" "W s \<le> n"
    "ps_depth s + nst i a \<le> MAX_RECURSION_DEPTH"
  obtains e where "lp i n (call_nt n) s = POk e (fw (length (pr i a)) s)" "tree_of a e"
  using assms unfolding parses_def by blast

lemma body_nonempty [simp]: "body a \<noteq> []"
  by (cases a) simp_all

lemma pr_nonempty [simp]: "pr i a \<noteq> []"
  by (simp add: pr_def paren_def)

lemma lev_range: "1 \<le> lev a \<and> lev a \<le> 14"
  by (cases a) (simp_all add: op_level_def split: binary_op.splits)

lemma pr_within: "i \<le> lev a \<Longrightarrow> pr i a = body a" "i \<le> lev a \<Longrightarrow> nst i a = nest a"
  "lev a < i \<Longrightarrow> pr i a = T_LParen # body a @ [T_RParen]" "lev a < i \<Longrightarrow> nst i a = Suc (nest a)"
  by (simp_all add: pr_def paren_def nst_def wrap_def)

text \<open>What is written at a level is read at that level and at every looser one.\<close>

lemma parses_looser:
  assumes "parses (Suc i) a" "pr i a = pr (Suc i) a" "nst i a = nst (Suc i) a" "1 \<le> i" "i \<le> 12"
  shows "parses i a"
  unfolding parses_def
proof (intro allI impI)
  fix n s rs
  assume k: "kinds s = pr i a @ rs" and r: "rank (first rs) < i" and p: "plain (kinds s)" and w: "W s \<le> n"
    and d: "ps_depth s + nst i a \<le> MAX_RECURSION_DEPTH"
  obtain e where e: "lp (Suc i) n (call_nt n) s = POk e (fw (length (pr i a)) s)" "tree_of a e"
    using parsesD [OF assms(1), of s rs n] k r p w d assms(2,3) by auto
  have "W (fw (length (pr i a)) s) < n" using W_fw [OF k] w by simp
  moreover have "p_kind (fw (length (pr i a)) s) = first rs" using k by (simp add: p_kind_kinds)
  ultimately show "\<exists>e. lp i n (call_nt n) s = POk e (fw (length (pr i a)) s) \<and> tree_of a e"
    using lp_pass [OF e(1) assms(4,5)] r e(2) by auto
qed

lemma parses_13: "parses 14 a \<Longrightarrow> pr 13 a = pr 14 a \<Longrightarrow> nst 13 a = nst 14 a \<Longrightarrow> starts_primary (first (pr 14 a)) \<Longrightarrow> parses 13 a"
  unfolding parses_def
proof (intro allI impI)
  fix n s rs
  assume a: "\<forall>n s rs. kinds s = pr 14 a @ rs \<longrightarrow> rank (first rs) < 14 \<longrightarrow> plain (kinds s) \<longrightarrow> W s \<le> n
     \<longrightarrow> ps_depth s + nst 14 a \<le> MAX_RECURSION_DEPTH
     \<longrightarrow> (\<exists>e. lp 14 n (call_nt n) s = POk e (fw (length (pr 14 a)) s) \<and> tree_of a e)"
    and eq: "pr 13 a = pr 14 a" "nst 13 a = nst 14 a" and sp: "starts_primary (first (pr 14 a))"
    and s: "kinds s = pr 13 a @ rs" "rank (first rs) < 13" "plain (kinds s)" "W s \<le> n"
      "ps_depth s + nst 13 a \<le> MAX_RECURSION_DEPTH"
  have "p_kind s = first (pr 14 a)" using s(1) eq by (cases "pr 14 a") (simp_all add: p_kind_kinds)
  then have "lp 13 n (call_nt n) s = lp 14 n (call_nt n) s" using sp lp_unary_pass by simp
  moreover have "rank (first rs) < 14" using s(2) by simp
  ultimately show "\<exists>e. lp 13 n (call_nt n) s = POk e (fw (length (pr 13 a)) s) \<and> tree_of a e"
    using a s eq by metis
qed

lemma chains_of_parses:
  assumes "parses (Suc i) a" "pr i a = pr (Suc i) a" "nst i a = nst (Suc i) a" "2 \<le> i" "i \<le> 11"
  shows "chained i a"
  unfolding chained_def
proof (intro allI impI)
  fix n s rs
  assume k: "kinds s = pr i a @ rs" and r: "rank (first rs) \<le> i" and p: "plain (kinds s)" and w: "W s \<le> n"
    and d: "ps_depth s + nst i a \<le> MAX_RECURSION_DEPTH"
  obtain e where e: "lp (Suc i) n (call_nt n) s = POk e (fw (length (pr i a)) s)" "tree_of a e"
    using parsesD [OF assms(1), of s rs n] k r p w d assms(2,3) by auto
  have "W (fw (length (pr i a)) s) < n" using W_fw [OF k] w by simp
  with lp_enter [OF assms(4,5) e(1)] e(2)
  show "\<exists>e m. lp i n (call_nt n) s = loopp m (level_turn i n) e (fw (length (pr i a)) s)
      \<and> W (fw (length (pr i a)) s) < m \<and> tree_of a e" by blast
qed

lemma parses_of_chains:
  assumes "chained i a" "2 \<le> i" "i \<le> 11" shows "parses i a"
  unfolding parses_def
proof (intro allI impI)
  fix n s rs
  assume k: "kinds s = pr i a @ rs" and r: "rank (first rs) < i" and p: "plain (kinds s)" and w: "W s \<le> n"
    and d: "ps_depth s + nst i a \<le> MAX_RECURSION_DEPTH"
  let ?t = "fw (length (pr i a)) s"
  obtain e m where e: "lp i n (call_nt n) s = loopp m (level_turn i n) e ?t" "W ?t < m" "tree_of a e"
    using assms(1) k r p w d unfolding chained_def by (meson less_imp_le)
  have "level_ops i (p_kind ?t) = None" using level_ops_rank [OF assms(2,3), of "first rs"] r k by (simp add: p_kind_kinds)
  then have "loopp m (level_turn i n) e ?t = POk e ?t" using e(2) by (intro loopp_stop) auto
  with e show "\<exists>e. lp i n (call_nt n) s = POk e ?t \<and> tree_of a e" by auto
qed

section \<open>Atoms and parentheses\<close>

lemma parses_atom: "parses 14 (X_Int v)" "parses 14 (X_Var x)"
  unfolding parses_def
proof (safe)
  fix n s rs
  assume k: "kinds s = pr 14 (X_Int v) @ rs" and r: "rank (first rs) < 14" and p: "plain (kinds s)" and w: "W s \<le> n"
  have ks: "kinds s = T_Integer v # rs" using k by (simp add: pr_def paren_def)
  have "0 < n" using ks w by (rule W_pos)
  then show "\<exists>e. lp 14 n (call_nt n) s = POk e (fw (length (pr 14 (X_Int v))) s) \<and> tree_of (X_Int v) e"
    using ks bump_fw [OF ks] p r postfix_stops [of "fw 1 s" n n "call_nt n"]
    by (simp add: lp_def parse_postfix_expr_def bindp_def parse_primary_expr_def Let_def p_kind_kinds token_literal_def
        pr_def paren_def spanned_new_def)
next
  fix n s rs
  assume k: "kinds s = pr 14 (X_Var x) @ rs" and r: "rank (first rs) < 14" and p: "plain (kinds s)" and w: "W s \<le> n"
  have ks: "kinds s = T_Ident x # rs" using k by (simp add: pr_def paren_def)
  have n: "0 < n" using ks w by (rule W_pos)
  have pl: "plain (kinds (fw 1 s))" using p ks by simp
  show "\<exists>e. lp 14 n (call_nt n) s = POk e (fw (length (pr 14 (X_Var x))) s) \<and> tree_of (X_Var x) e"
    using ks n bump_fw [OF ks] r pl skip_struct_generics_plain [OF pl] plain_no_brace [OF pl]
      postfix_stops [of "fw 1 s" n n "call_nt n"]
    by (simp add: lp_def parse_postfix_expr_def bindp_def parse_primary_expr_def Let_def p_kind_kinds token_literal_def
        pr_def paren_def spanned_new_def parse_ident_expr_def thenp_def bumpp_def)
qed

lemma body_first: "first (body a @ rs) \<noteq> T_RParen"
  by (induction a arbitrary: rs) (auto simp: paren_def un_token_def split: unary_op.splits)

text \<open>A name at the start is followed by an operator, unless it is all there is.\<close>

lemma body_second:
  "body a = T_Ident x # ks \<Longrightarrow> (ks = [] \<and> a = X_Var x) \<or> (\<exists>k ks1. ks = k # ks1 \<and> (k = T_Question \<or> k \<in> range op_token))"
proof (induction a arbitrary: ks)
  case (X_Bin op a b)
  show ?case
  proof (cases "lev a < op_level op")
    case False
    then obtain ks1 where "body a = T_Ident x # ks1" "ks = ks1 @ op_token op # paren (lev b < Suc (op_level op)) (body b)"
      using X_Bin.prems by (cases "body a") (auto simp: paren_def)
    then show ?thesis using X_Bin.IH(1) by auto
  qed (use X_Bin.prems in \<open>simp add: paren_def\<close>)
next
  case (X_Cond c a b)
  show ?case
  proof (cases "lev c < 2")
    case False
    then obtain ks1 where "body c = T_Ident x # ks1"
      "ks = ks1 @ T_Question # paren (lev a < 2) (body a) @ T_Colon # paren (lev b < 1) (body b)"
      using X_Cond.prems by (cases "body c") (auto simp: paren_def)
    then show ?thesis using X_Cond.IH(1) by auto
  qed (use X_Cond.prems in \<open>simp add: paren_def\<close>)
qed (auto simp: un_token_def split: unary_op.splits)

lemma op_token_other: "op_token op \<noteq> T_Colon" "op_token op \<noteq> T_RParen" "plain [op_token op]"
  by (cases op; simp add: op_token_def)+

lemma paren_lookahead:
  assumes k: "kinds s = T_LParen # body a @ T_RParen # rs" and l: "lev a < 14"
  shows "\<not> is_typed_lambda s \<and> \<not> is_c_cast s"
proof (cases "\<exists>x. p_kind_ahead 1 s = Some (T_Ident x)")
  case False
  then show ?thesis
    by (auto simp: is_typed_lambda_def is_c_cast_def ahead_is_ident_def is_ident_kind_def split: option.splits token_kind.splits)
next
  case True
  then obtain x where "p_kind_ahead 1 s = Some (T_Ident x)" by blast
  then have "(body a @ T_RParen # rs) ! 0 = T_Ident x" using kind_ahead [of 1 s] k by simp
  then obtain ks where ks: "body a = T_Ident x # ks" by (cases "body a") auto
  from body_second [OF ks] obtain k1 ks1 where k1: "ks = k1 # ks1" "k1 = T_Question \<or> k1 \<in> range op_token"
    using l by auto
  have "p_kind_ahead 2 s = Some k2 \<Longrightarrow> k2 = k1" for k2
    using kind_ahead [of 2 s k2] k ks k1 by (simp add: numeral_2_eq_2)
  moreover have "k1 \<noteq> T_Colon" "k1 \<noteq> T_RParen" using k1(2) op_token_other(1,2) [THEN not_sym] by auto
  ultimately show ?thesis by (auto simp: is_typed_lambda_def is_c_cast_def)
qed

lemma k_expr_reads:
  assumes a: "parses 1 a" and k: "kinds s = body a @ T_RParen # rs" and p: "plain (kinds s)" and w: "W s < n"
    and d: "Suc (ps_depth s) + nest a \<le> MAX_RECURSION_DEPTH"
  shows "\<exists>e. k_expr (call_nt n) s = POk e (fw (length (body a)) s) \<and> tree_of a e"
proof -
  obtain m where m: "n = Suc m" "W s \<le> m" using call_nt_pos [OF w] by blast
  let ?s = "s\<lparr>ps_depth := Suc (ps_depth s)\<rparr>"
  have l: "pr 1 a = body a" "nst 1 a = nest a" using lev_range [of a] by (simp_all add: pr_within)
  obtain e where e: "lp 1 m (call_nt m) ?s = POk e (fw (length (body a)) ?s)" "tree_of a e"
    using parsesD [OF a, of ?s "T_RParen # rs" m] k p m(2) d l by (auto simp: rank_def)
  have "p_kind (fw (length (body a)) ?s) = T_RParen" using k by (simp add: p_kind_kinds)
  then have "parse_assign_expr m (call_nt m) ?s = POk e (fw (length (body a)) ?s)"
    using e(1) by (simp add: parse_assign_expr_def bindp_def lp_def p_check_def Tinox_Parser_Expr.compound_op_def del: check_kinds)
  then have "parse_expr m (call_nt m) s = POk e (fw (length (body a)) s)"
    using d by (simp add: parse_expr_def guarded_def Let_def fw_def)
  then show ?thesis using e(2) by (simp add: m(1) k_expr_at_def bindp_def retp_def)
qed

lemma parses_paren:
  assumes a: "parses 1 a" and l: "lev a < 14" shows "parses 14 a"
  unfolding parses_def
proof (intro allI impI)
  fix n s rs
  assume "kinds s = pr 14 a @ rs" and r: "rank (first rs) < 14" and p: "plain (kinds s)" and w: "W s \<le> n"
    and "ps_depth s + nst 14 a \<le> MAX_RECURSION_DEPTH"
  then have k: "kinds s = T_LParen # body a @ T_RParen # rs" and d: "Suc (ps_depth s) + nest a \<le> MAX_RECURSION_DEPTH"
    using l by (simp_all add: pr_within)
  let ?b = "length (body a)"
  have s1: "kinds (fw 1 s) = body a @ T_RParen # rs" and w1: "W (fw 1 s) < n"
    using k w W_fw [of s "[T_LParen]"] by simp_all
  obtain e where e: "k_expr (call_nt n) (fw 1 s) = POk e (fw (1 + ?b) s)" "tree_of a e"
    using k_expr_reads [OF a s1 _ w1] p d k by auto
  have s2: "kinds (fw (1 + ?b) s) = T_RParen # rs" using k by simp
  have s3: "kinds (fw (2 + ?b) s) = rs" using k by simp
  have "parse_tuple_or_grouped n (call_nt n) s = POk e (fw (2 + ?b) s)"
    using k s2 e(1) body_first [of a "T_RParen # rs"] s1 bump_fw [OF k] bump_fw [OF s2]
    by (simp add: parse_tuple_or_grouped_def bindp_def thenp_def ifp_def spanp_def checkp_def expect_def retp_def)
  then have "parse_primary_expr n (call_nt n) s = POk e (fw (2 + ?b) s)"
    using paren_lookahead [OF k l] k
    by (simp add: parse_primary_expr_def Let_def p_kind_kinds token_literal_def parse_paren_expr_def)
  moreover have "loopp n (postfix_step n (call_nt n)) (e, None, 0) (fw (2 + ?b) s) = POk e (fw (2 + ?b) s)"
    by (rule postfix_stops) (use r p k s3 W_pos [OF k w] in \<open>auto simp: p_kind_kinds\<close>)
  ultimately have "lp 14 n (call_nt n) s = POk e (fw (2 + ?b) s)"
    by (simp add: lp_def parse_postfix_expr_def bindp_def)
  moreover have "length (pr 14 a) = 2 + ?b" using l by (simp add: pr_within)
  ultimately show "\<exists>e. lp 14 n (call_nt n) s = POk e (fw (length (pr 14 a)) s) \<and> tree_of a e" using e(2) by simp
qed

section \<open>Operators\<close>

lemma un_token_op: "unary_op (un_token u) = Some u" "un_token u \<noteq> T_Plus"
  by (cases u; simp add: unary_op_def un_token_def)+

lemma parses_un:
  assumes a: "parses 13 a" shows "parses 13 (X_Un u a)"
  unfolding parses_def
proof (intro allI impI)
  fix n s rs
  assume "kinds s = pr 13 (X_Un u a) @ rs" and r: "rank (first rs) < 13" and p: "plain (kinds s)" and w: "W s \<le> n"
    and "ps_depth s + nst 13 (X_Un u a) \<le> MAX_RECURSION_DEPTH"
  then have k: "kinds s = un_token u # pr 13 a @ rs" and d: "ps_depth s + nst 13 a \<le> MAX_RECURSION_DEPTH"
    by (simp_all add: pr_def paren_def nst_def wrap_def)
  have w1: "W (fw 1 s) < n" using k w W_fw [of s "[un_token u]"] by simp
  obtain m where m: "n = Suc m" "W (fw 1 s) \<le> m" using call_nt_pos [OF w1] by blast
  obtain e where e: "lp 13 m (call_nt m) (fw 1 s) = POk e (fw (length (pr 13 a)) (fw 1 s))" "tree_of a e"
    using parsesD [OF a, of "fw 1 s" rs m] k r p m d by auto
  have "k_unary (call_nt n) (fw 1 s) = POk e (fw (1 + length (pr 13 a)) s)"
    using e(1) by (simp add: m(1) k_expr_at_def bindp_def retp_def lp_def)
  then have "\<exists>e1. lp 13 n (call_nt n) s = POk e1 (fw (1 + length (pr 13 a)) s) \<and> tree_of (X_Un u a) e1"
    using k bump_fw [OF k] un_token_op [of u] e(2)
    by (simp add: lp_def parse_unary_expr_def p_kind_kinds thenp_def bindp_def bumpp_def spanp_def retp_def spanned_new_def)
  then show "\<exists>e. lp 13 n (call_nt n) s = POk e (fw (length (pr 13 (X_Un u a))) s) \<and> tree_of (X_Un u a) e"
    by (simp add: pr_def paren_def)
qed

lemma chains_bin:
  assumes a: "chained (op_level op) a" and b: "parses (Suc (op_level op)) b"
  shows "chained (op_level op) (X_Bin op a b)"
  unfolding chained_def
proof (intro allI impI)
  fix n s rs
  let ?l = "op_level op"
  note l = op_level_range [of op]
  assume "kinds s = pr ?l (X_Bin op a b) @ rs" and r: "rank (first rs) \<le> ?l" and p: "plain (kinds s)" and w: "W s \<le> n"
    and "ps_depth s + nst ?l (X_Bin op a b) \<le> MAX_RECURSION_DEPTH"
  then have k: "kinds s = pr ?l a @ op_token op # pr (Suc ?l) b @ rs"
    and da: "ps_depth s + nst ?l a \<le> MAX_RECURSION_DEPTH" and db: "ps_depth s + nst (Suc ?l) b \<le> MAX_RECURSION_DEPTH"
    by (simp_all add: pr_def paren_def nst_def wrap_def)
  let ?t = "fw (length (pr ?l a)) s" and ?u = "fw (length (pr ?l a) + 1) s"
  let ?v = "fw (length (pr ?l a) + 1 + length (pr (Suc ?l) b)) s"
  have ra: "rank (first (op_token op # pr (Suc ?l) b @ rs)) \<le> ?l" by (simp add: op_token_level(2))
  obtain e m where e: "lp ?l n (call_nt n) s = loopp m (level_turn ?l n) e ?t" "W ?t < m" "tree_of a e"
    using a k ra p w da unfolding chained_def by blast
  have kt: "kinds ?t = op_token op # pr (Suc ?l) b @ rs" and ku: "kinds ?u = pr (Suc ?l) b @ rs" using k by simp_all
  have wt: "W ?t < W s" using W_fw [OF k] by simp
  have wu: "W ?u < W ?t" using W_fw [of ?t "[op_token op]"] kt by simp
  have wv: "W ?v < W ?u" using W_fw [OF ku] by (simp add: add.assoc)
  obtain f where f: "lp (Suc ?l) n (call_nt n) ?u = POk f ?v" "tree_of b f"
    using parsesD [OF b ku, of n] r p k db wu wt w by (auto simp: add.assoc)
  let ?e1 = "spanned_new (E_Binary op e f) (nspan e)"
  have turn: "level_turn ?l n e ?t = POk (Inl ?e1) ?v"
    using kt bump_fw [OF kt] f(1) op_token_level(1) [of op]
    by (simp add: p_kind_kinds thenp_def bindp_def bumpp_def retp_def)
  obtain m1 where "loopp m (level_turn ?l n) e ?t = loopp m1 (level_turn ?l n) ?e1 ?v" "W ?v < m1"
    using loopp_turn [where f = "level_turn ?l n", OF e(2) turn less_trans [OF wv wu]] by blast
  moreover have "tree_of (X_Bin op a b) ?e1" using e(3) f(2) by (simp add: spanned_new_def)
  moreover have "?v = fw (length (pr ?l (X_Bin op a b))) s" by (simp add: pr_def paren_def add.assoc)
  ultimately show "\<exists>e m. lp ?l n (call_nt n) s = loopp m (level_turn ?l n) e (fw (length (pr ?l (X_Bin op a b))) s)
      \<and> W (fw (length (pr ?l (X_Bin op a b))) s) < m \<and> tree_of (X_Bin op a b) e"
    using e(1) by (intro exI [of _ ?e1] exI [of _ m1]) simp
qed

lemma parses_cond:
  assumes c: "parses 2 c" and a: "parses 2 a" and b: "parses 1 b" shows "parses 1 (X_Cond c a b)"
  unfolding parses_def
proof (intro allI impI)
  fix n s rs
  assume "kinds s = pr 1 (X_Cond c a b) @ rs" and r: "rank (first rs) < 1" and p: "plain (kinds s)" and w: "W s \<le> n"
    and "ps_depth s + nst 1 (X_Cond c a b) \<le> MAX_RECURSION_DEPTH"
  then have k: "kinds s = pr 2 c @ T_Question # pr 2 a @ T_Colon # pr 1 b @ rs"
    and d: "ps_depth s + nst 2 c \<le> MAX_RECURSION_DEPTH" "ps_depth s + nst 2 a \<le> MAX_RECURSION_DEPTH"
      "ps_depth s + nst 1 b \<le> MAX_RECURSION_DEPTH"
    by (simp_all add: pr_def paren_def nst_def wrap_def)
  let ?i = "length (pr 2 c)" and ?j = "length (pr 2 c) + 1 + length (pr 2 a)"
  obtain e1 where e1: "lp 2 n (call_nt n) s = POk e1 (fw ?i s)" "tree_of c e1"
    using parsesD [OF c k _ p w d(1)] by (auto simp: rank_def)
  have k1: "kinds (fw ?i s) = T_Question # pr 2 a @ T_Colon # pr 1 b @ rs"
    and k2: "kinds (fw (?i + 1) s) = pr 2 a @ T_Colon # pr 1 b @ rs"
    and k3: "kinds (fw ?j s) = T_Colon # pr 1 b @ rs" and k4: "kinds (fw (?j + 1) s) = pr 1 b @ rs" using k by simp_all
  have w2: "W (fw (?i + 1) s) < W s" using W_fw [of s "pr 2 c @ [T_Question]"] k by simp
  have w4: "W (fw (?j + 1) s) < W s" using W_fw [of s "pr 2 c @ T_Question # pr 2 a @ [T_Colon]"] k by (simp add: add.assoc)
  obtain e2 where e2: "lp 2 n (call_nt n) (fw (?i + 1) s) = POk e2 (fw ?j s)" "tree_of a e2"
    using parsesD [OF a k2, of n] p k w w2 d(2) by (auto simp: rank_def)
  obtain m where m: "n = Suc m" "W (fw (?j + 1) s) \<le> m" using call_nt_pos [of "fw (?j + 1) s" n] w4 w by auto
  obtain e3 where e3: "lp 1 m (call_nt m) (fw (?j + 1) s) = POk e3 (fw (?j + 1 + length (pr 1 b)) s)" "tree_of b e3"
    using parsesD [OF b k4 r, of m] p k m(2) d(3) by (auto simp: add.assoc)
  have "k_ternary (call_nt n) (fw (?j + 1) s) = POk e3 (fw (?j + 1 + length (pr 1 b)) s)"
    using e3(1) by (simp add: m(1) k_expr_at_def bindp_def retp_def lp_def)
  then have "\<exists>e. lp 1 n (call_nt n) s = POk e (fw (?j + 1 + length (pr 1 b)) s) \<and> tree_of (X_Cond c a b) e"
    using e1 e2 e3(2) k1 k3 bump_fw [OF k1] bump_fw [OF k3]
    by (simp add: lp_def parse_ternary_expr_def bindp_def thenp_def ifp_def checkp_def bumpp_def expect_def retp_def
        spanned_new_def)
  then show "\<exists>e. lp 1 n (call_nt n) s = POk e (fw (length (pr 1 (X_Cond c a b))) s) \<and> tree_of (X_Cond c a b) e"
    by (simp add: pr_def paren_def add.assoc)
qed

section \<open>Every expression at every level\<close>

lemma first_14: "starts_primary (first (pr 14 a))"
  by (cases a) (simp_all add: pr_def paren_def starts_primary_def op_level_def split: binary_op.splits)

lemma parses_down:
  assumes "parses j a" and "1 \<le> i" "i \<le> j" "j \<le> 14" and "j \<le> lev a \<or> lev a < i"
  shows "parses i a"
  using assms(3)
proof (induction rule: inc_induct)
  case (step m)
  have same: "pr m a = pr (Suc m) a" "nst m a = nst (Suc m) a"
    using assms(5) step.hyps by (auto simp: pr_within)
  show ?case
  proof (cases "m = 13")
    case True
    then show ?thesis using parses_13 [of a] step.IH same first_14 by simp
  next
    case False
    then show ?thesis using parses_looser [OF step.IH same] assms step.hyps by simp
  qed
qed (rule assms(1))

lemma all_levels:
  assumes core: "parses (lev a) a" and i: "1 \<le> i" "i \<le> 14" shows "parses i a"
proof (cases "i \<le> lev a")
  case True
  then show ?thesis using parses_down [OF core i(1)] lev_range [of a] by simp
next
  case False
  then have "parses 14 a" using parses_paren parses_down [OF core, of 1] lev_range [of a] i by simp
  then show ?thesis using parses_down [of 14 a i] False i by simp
qed

lemma chains_other: "parses (Suc i) a \<Longrightarrow> lev a \<noteq> i \<Longrightarrow> 2 \<le> i \<Longrightarrow> i \<le> 11 \<Longrightarrow> chained i a"
  by (rule chains_of_parses) (auto simp: pr_def nst_def wrap_def paren_def)

lemma reads_back:
  "(\<forall>i. 1 \<le> i \<and> i \<le> 14 \<longrightarrow> parses i a) \<and> (\<forall>i. 2 \<le> i \<and> i \<le> 11 \<longrightarrow> chained i a)"
proof (induction a)
  case (X_Bin op a b)
  note l = op_level_range [of op]
  have c: "chained (op_level op) (X_Bin op a b)" using X_Bin l by (intro chains_bin) auto
  then have "parses (lev (X_Bin op a b)) (X_Bin op a b)" using parses_of_chains l by simp
  then have p: "parses i (X_Bin op a b)" if "1 \<le> i" "i \<le> 14" for i using all_levels that by blast
  have "chained i (X_Bin op a b)" if "2 \<le> i" "i \<le> 11" for i
    using c chains_other [OF p, of i] that by (cases "i = op_level op") auto
  with p show ?case by blast
next
  case (X_Un u a)
  have p: "parses i (X_Un u a)" if "1 \<le> i" "i \<le> 14" for i
    by (rule all_levels [OF _ that]) (use X_Un in \<open>simp add: parses_un\<close>)
  then show ?case using chains_other [OF p] by simp
next
  case (X_Cond c a b)
  have p: "parses i (X_Cond c a b)" if "1 \<le> i" "i \<le> 14" for i
    by (rule all_levels [OF _ that]) (use X_Cond parses_cond [of c a b] in simp)
  then show ?case using chains_other [OF p] by simp
next
  case (X_Int v)
  have p: "parses i (X_Int v)" if "1 \<le> i" "i \<le> 14" for i
    by (rule all_levels [OF _ that]) (simp add: parses_atom)
  then show ?case using chains_other [OF p] by simp
next
  case (X_Var x)
  have p: "parses i (X_Var x)" if "1 \<le> i" "i \<le> 14" for i
    by (rule all_levels [OF _ that]) (simp add: parses_atom)
  then show ?case using chains_other [OF p] by simp
qed

text \<open>The tokens after which an expression is complete.\<close>

definition ends_expr :: "token_kind \<Rightarrow> bool" where
  "ends_expr k \<longleftrightarrow> rank k = 0 \<and> k \<noteq> T_FatArrow \<and> k \<noteq> T_Equals \<and> Tinox_Parser_Expr.compound_op k = None"

text \<open>The ladder at its first level, with the guard on the depth around it.\<close>

lemma parse_expr_reads:
  assumes "kinds s = pr 1 a @ rs" and "ends_expr (first rs)" and "plain (kinds s)" and "W s \<le> n"
    and "ps_depth s + 1 + nest a \<le> MAX_RECURSION_DEPTH"
  shows "\<exists>e. parse_expr n (call_nt n) s = POk e (s\<lparr>ps_pos := ps_pos s + length (pr 1 a)\<rparr>) \<and> tree_of a e"
proof -
  let ?s = "s\<lparr>ps_depth := Suc (ps_depth s)\<rparr>" and ?l = "length (pr 1 a)"
  have "parses 1 a" "nst 1 a = nest a" using reads_back [of a] lev_range [of a] by (simp_all add: nst_def wrap_def)
  then obtain e where e: "lp 1 n (call_nt n) ?s = POk e (fw ?l ?s)" "tree_of a e"
    using parsesD [of 1 a ?s rs n] assms by (auto simp: ends_expr_def)
  have "p_kind (fw ?l ?s) = first rs" using assms(1) by (simp add: p_kind_kinds)
  then have "parse_assign_expr n (call_nt n) ?s = POk e (fw ?l ?s)"
    using e(1) assms(2)
    by (simp add: parse_assign_expr_def bindp_def lp_def p_check_def ends_expr_def del: check_kinds)
  then have "parse_expr n (call_nt n) s = POk e (fw ?l s)"
    using assms(5) by (simp add: parse_expr_def guarded_def Let_def fw_def)
  then show ?thesis using e(2) by (auto simp: fw_def)
qed

text \<open>
  C14. Precedence and associativity. An expression over literals, names, unary and binary
  operators and conditionals, written with the fewest parentheses and followed by a token that
  ends it (and by no brace and no \<^verbatim>\<open>::\<close>, which the look-aheads for type arguments search
  for), is parsed to its tree, and exactly its tokens are consumed, as long as its parentheses
  nest no deeper than the depth limit allows.
\<close>

theorem parse_expr_precedence:
  assumes "kinds s = pr 1 a @ rs" and "ends_expr (first rs)" and "plain (kinds s)" and "W s \<le> n"
    and "ps_depth s + 1 + nest a \<le> MAX_RECURSION_DEPTH"
  shows "\<exists>e. parse_expr n (call_nt n) s = POk e (s\<lparr>ps_pos := ps_pos s + length (pr 1 a)\<rparr>) \<and> tree_of a e"
  by (rule parse_expr_reads [OF assms])

text \<open>\<^verbatim>\<open>a - 1 - b * (c + 2);\<close>: the subtractions associate to the left.\<close>

definition sample_sexp :: sexp where
  "sample_sexp = X_Bin B_Sub (X_Bin B_Sub (X_Var (lit ''a'')) (X_Int 1))
     (X_Bin B_Mul (X_Var (lit ''b'')) (X_Bin B_Add (X_Var (lit ''c'')) (X_Int 2)))"

definition sample_state :: pstate where
  "sample_state = parser_new (map token_dummy (pr 1 sample_sexp @ [T_Semicolon]))"

theorem parse_expr_precedence_witness:
  "pr 1 sample_sexp = [T_Ident (lit ''a''), T_Minus, T_Integer 1, T_Minus, T_Ident (lit ''b''), T_Star, T_LParen,
     T_Ident (lit ''c''), T_Plus, T_Integer 2, T_RParen]
   \<and> (\<exists>e. parse_expr 20 (call_nt 20) sample_state = POk e (sample_state\<lparr>ps_pos := 11\<rparr>) \<and> tree_of sample_sexp e)"
proof -
  have p: "pr 1 sample_sexp = [T_Ident (lit ''a''), T_Minus, T_Integer 1, T_Minus, T_Ident (lit ''b''), T_Star, T_LParen,
     T_Ident (lit ''c''), T_Plus, T_Integer 2, T_RParen]" by code_simp
  have k: "kinds sample_state = pr 1 sample_sexp @ [T_Semicolon]"
    by (simp add: kinds_def sample_state_def parser_new_def token_dummy_def comp_def)
  have "\<exists>e. parse_expr 20 (call_nt 20) sample_state
      = POk e (sample_state\<lparr>ps_pos := ps_pos sample_state + length (pr 1 sample_sexp)\<rparr>) \<and> tree_of sample_sexp e"
  proof (rule parse_expr_precedence [OF k])
    show "ends_expr (first [T_Semicolon])" by (simp add: ends_expr_def rank_def Tinox_Parser_Expr.compound_op_def)
    show "plain (kinds sample_state)" "W sample_state \<le> 20"
      unfolding W_kinds k p by (simp_all add: token_weight_def)
    show "ps_depth sample_state + 1 + nest sample_sexp \<le> MAX_RECURSION_DEPTH"
      by (simp add: sample_state_def parser_new_def MAX_RECURSION_DEPTH_def sample_sexp_def wrap_def op_level_def)
  qed
  moreover have l: "ps_pos sample_state + length (pr 1 sample_sexp) = 11"
    unfolding p by (simp add: sample_state_def parser_new_def)
  ultimately show ?thesis unfolding l using p by (intro conjI)
qed

end
