(* ===== verification/Tinox_Node_Ids.thy ===== *)
theory Tinox_Node_Ids
  imports Tinox_Ast "HOL-Library.State_Monad"
begin

text \<open>
  \<^verbatim>\<open>assign_node_ids\<close> (\<^verbatim>\<open>src/crates/tinox-parser/src/node_ids.rs\<close>): the pass that numbers every
  expression of a source file; the type table that the code generator reads is keyed by
  these numbers. \<^verbatim>\<open>Numberer\<close> is the state \<^verbatim>\<open>next\<close> of a state monad (a \<^verbatim>\<open>u32\<close> that wraps around,
  as in a release build), its methods are the \<open>num_\<close> functions. The recursion goes through
  the containers by their map functions: a container of visitors is visited in the order of
  the source by the \<open>visit_\<close> functions.
\<close>

type_synonym 'a numbering = "(u32, 'a) state"

section \<open>The pass\<close>

text \<open>\<^verbatim>\<open>e.id = self.next; self.next += 1;\<close> and then the children.\<close>

definition visit_e :: "'k numbering spanned \<Rightarrow> 'k spanned numbering" where
  "visit_e e = do {n \<leftarrow> State_Monad.get; _ \<leftarrow> State_Monad.set (n + 1); k \<leftarrow> node e;
     State_Monad.return (Spanned k (nspan e) n)}"

definition visit_s :: "'k numbering spanned \<Rightarrow> 'k spanned numbering" where
  "visit_s s = do {k \<leftarrow> node s; State_Monad.return (Spanned k (nspan s) (nid s))}"

definition visit_es :: "'k numbering spanned list \<Rightarrow> 'k spanned list numbering" where
  "visit_es = State_Monad.traverse_list visit_e"

definition visit_ss :: "'k numbering spanned list \<Rightarrow> 'k spanned list numbering" where
  "visit_ss = State_Monad.traverse_list visit_s"

definition visit_opt :: "('a \<Rightarrow> 'b numbering) \<Rightarrow> 'a option \<Rightarrow> 'b option numbering" where
  "visit_opt f x = (case x of None \<Rightarrow> State_Monad.return None
     | Some y \<Rightarrow> do {z \<leftarrow> f y; State_Monad.return (Some z)})"

definition visit_eo :: "'k numbering spanned option \<Rightarrow> 'k spanned option numbering" where
  "visit_eo = visit_opt visit_e"

definition visit_so :: "'k numbering spanned option \<Rightarrow> 'k spanned option numbering" where
  "visit_so = visit_opt visit_s"

definition visit_pair :: "'k numbering spanned \<times> 'k numbering spanned \<Rightarrow> ('k spanned \<times> 'k spanned) numbering" where
  "visit_pair p = do {k \<leftarrow> visit_e (fst p); v \<leftarrow> visit_e (snd p); State_Monad.return (k, v)}"

definition visit_field :: "ident \<times> 'k numbering spanned \<Rightarrow> (ident \<times> 'k spanned) numbering" where
  "visit_field p = do {e \<leftarrow> visit_e (snd p); State_Monad.return (fst p, e)}"

definition visit_case :: "'k numbering spanned match_case \<Rightarrow> 'k spanned match_case numbering" where
  "visit_case c = do {g \<leftarrow> visit_eo (mc_guard c); b \<leftarrow> visit_e (mc_body c);
     State_Monad.return (MatchCase (mc_pattern c) g b (mc_span c))}"

definition visit_catch :: "'k numbering spanned catch_clause \<Rightarrow> 'k spanned catch_clause numbering" where
  "visit_catch c = do {b \<leftarrow> visit_s (cc_body c);
     State_Monad.return (CatchClause (cc_param c) (cc_ty c) b (cc_span c))}"

definition visit_arm ::
  "('k numbering spanned, 'l numbering spanned) select_arm \<Rightarrow> ('k spanned, 'l spanned) select_arm numbering" where
  "visit_arm a = do {c \<leftarrow> visit_e (sa_channel a); b \<leftarrow> visit_s (sa_body a);
     State_Monad.return (SelectArm c (sa_var a) b (sa_span a))}"

definition "visit_prs = State_Monad.traverse_list visit_pair"
definition "visit_flds = State_Monad.traverse_list visit_field"
definition "visit_mcs = State_Monad.traverse_list visit_case"
definition "visit_ccs = State_Monad.traverse_list visit_catch"
definition "visit_sas = State_Monad.traverse_list visit_arm"

primrec num_ekind :: "expr_kind \<Rightarrow> expr_kind numbering" and num_skind :: "stmt_kind \<Rightarrow> stmt_kind numbering" where
  "num_ekind (E_Literal x) = State_Monad.return (E_Literal x)"
| "num_ekind (E_ArrayLiteral es) = do {es' \<leftarrow> visit_es (map (map_spanned num_ekind) es); State_Monad.return (E_ArrayLiteral es')}"
| "num_ekind (E_MapLiteral ps) = do {ps' \<leftarrow> visit_prs (map (map_prod (map_spanned num_ekind) (map_spanned num_ekind)) ps); State_Monad.return (E_MapLiteral ps')}"
| "num_ekind (E_Ident x) = State_Monad.return (E_Ident x)"
| "num_ekind (E_Binary x e1 e2) = do {
       e1' \<leftarrow> visit_e (map_spanned num_ekind e1);
       e2' \<leftarrow> visit_e (map_spanned num_ekind e2);
       State_Monad.return (E_Binary x e1' e2')}"
| "num_ekind (E_Unary x e) = do {e' \<leftarrow> visit_e (map_spanned num_ekind e); State_Monad.return (E_Unary x e')}"
| "num_ekind (E_Call e es) = do {
       e' \<leftarrow> visit_e (map_spanned num_ekind e);
       es' \<leftarrow> visit_es (map (map_spanned num_ekind) es);
       State_Monad.return (E_Call e' es')}"
| "num_ekind (E_MethodCall e x es) = do {
       e' \<leftarrow> visit_e (map_spanned num_ekind e);
       es' \<leftarrow> visit_es (map (map_spanned num_ekind) es);
       State_Monad.return (E_MethodCall e' x es')}"
| "num_ekind (E_Index e1 e2) = do {
       e1' \<leftarrow> visit_e (map_spanned num_ekind e1);
       e2' \<leftarrow> visit_e (map_spanned num_ekind e2);
       State_Monad.return (E_Index e1' e2')}"
| "num_ekind (E_FieldAccess e x) = do {e' \<leftarrow> visit_e (map_spanned num_ekind e); State_Monad.return (E_FieldAccess e' x)}"
| "num_ekind E_This = State_Monad.return E_This"
| "num_ekind (E_SuperCall x es) = do {es' \<leftarrow> visit_es (map (map_spanned num_ekind) es); State_Monad.return (E_SuperCall x es')}"
| "num_ekind (E_New x1 x2 es) = do {es' \<leftarrow> visit_es (map (map_spanned num_ekind) es); State_Monad.return (E_New x1 x2 es')}"
| "num_ekind (E_StructLiteral x fs) = do {fs' \<leftarrow> visit_flds (map (map_prod id (map_spanned num_ekind)) fs); State_Monad.return (E_StructLiteral x fs')}"
| "num_ekind (E_Block ss) = do {ss' \<leftarrow> visit_ss (map (map_spanned num_skind) ss); State_Monad.return (E_Block ss')}"
| "num_ekind (E_If e1 e2 eo) = do {
       e1' \<leftarrow> visit_e (map_spanned num_ekind e1);
       e2' \<leftarrow> visit_e (map_spanned num_ekind e2);
       eo' \<leftarrow> visit_eo (map_option (map_spanned num_ekind) eo);
       State_Monad.return (E_If e1' e2' eo')}"
| "num_ekind (E_While e1 e2) = do {
       e1' \<leftarrow> visit_e (map_spanned num_ekind e1);
       e2' \<leftarrow> visit_e (map_spanned num_ekind e2);
       State_Monad.return (E_While e1' e2')}"
| "num_ekind (E_For x e1 e2) = do {
       e1' \<leftarrow> visit_e (map_spanned num_ekind e1);
       e2' \<leftarrow> visit_e (map_spanned num_ekind e2);
       State_Monad.return (E_For x e1' e2')}"
| "num_ekind (E_Loop e) = do {e' \<leftarrow> visit_e (map_spanned num_ekind e); State_Monad.return (E_Loop e')}"
| "num_ekind (E_Match e cs) = do {
       e' \<leftarrow> visit_e (map_spanned num_ekind e);
       cs' \<leftarrow> visit_mcs (map (map_match_case (map_spanned num_ekind)) cs);
       State_Monad.return (E_Match e' cs')}"
| "num_ekind (E_Return eo) = do {eo' \<leftarrow> visit_eo (map_option (map_spanned num_ekind) eo); State_Monad.return (E_Return eo')}"
| "num_ekind E_Break = State_Monad.return E_Break"
| "num_ekind E_Continue = State_Monad.return E_Continue"
| "num_ekind (E_Throw e) = do {e' \<leftarrow> visit_e (map_spanned num_ekind e); State_Monad.return (E_Throw e')}"
| "num_ekind (E_Try e hs eo) = do {
       e' \<leftarrow> visit_e (map_spanned num_ekind e);
       hs' \<leftarrow> visit_ccs (map (map_catch_clause (map_spanned num_skind)) hs);
       eo' \<leftarrow> visit_eo (map_option (map_spanned num_ekind) eo);
       State_Monad.return (E_Try e' hs' eo')}"
| "num_ekind (E_Assign e1 e2) = do {
       e1' \<leftarrow> visit_e (map_spanned num_ekind e1);
       e2' \<leftarrow> visit_e (map_spanned num_ekind e2);
       State_Monad.return (E_Assign e1' e2')}"
| "num_ekind (E_CompoundAssign x e1 e2) = do {
       e1' \<leftarrow> visit_e (map_spanned num_ekind e1);
       e2' \<leftarrow> visit_e (map_spanned num_ekind e2);
       State_Monad.return (E_CompoundAssign x e1' e2')}"
| "num_ekind (E_Lambda x1 x2 e) = do {e' \<leftarrow> visit_e (map_spanned num_ekind e); State_Monad.return (E_Lambda x1 x2 e')}"
| "num_ekind (E_Spawn e) = do {e' \<leftarrow> visit_e (map_spanned num_ekind e); State_Monad.return (E_Spawn e')}"
| "num_ekind (E_Await e) = do {e' \<leftarrow> visit_e (map_spanned num_ekind e); State_Monad.return (E_Await e')}"
| "num_ekind E_Channel = State_Monad.return E_Channel"
| "num_ekind (E_Send e1 e2) = do {
       e1' \<leftarrow> visit_e (map_spanned num_ekind e1);
       e2' \<leftarrow> visit_e (map_spanned num_ekind e2);
       State_Monad.return (E_Send e1' e2')}"
| "num_ekind (E_Recv e) = do {e' \<leftarrow> visit_e (map_spanned num_ekind e); State_Monad.return (E_Recv e')}"
| "num_ekind (E_Cast e x) = do {e' \<leftarrow> visit_e (map_spanned num_ekind e); State_Monad.return (E_Cast e' x)}"
| "num_ekind (E_Is e x) = do {e' \<leftarrow> visit_e (map_spanned num_ekind e); State_Monad.return (E_Is e' x)}"
| "num_ekind (E_Range e1 e2 x) = do {
       e1' \<leftarrow> visit_e (map_spanned num_ekind e1);
       e2' \<leftarrow> visit_e (map_spanned num_ekind e2);
       State_Monad.return (E_Range e1' e2' x)}"
| "num_ekind (E_Tuple es) = do {es' \<leftarrow> visit_es (map (map_spanned num_ekind) es); State_Monad.return (E_Tuple es')}"
| "num_ekind (E_TupleIndex e x) = do {e' \<leftarrow> visit_e (map_spanned num_ekind e); State_Monad.return (E_TupleIndex e' x)}"
| "num_ekind (E_EnumValue x1 x2 x3 es) = do {es' \<leftarrow> visit_es (map (map_spanned num_ekind) es); State_Monad.return (E_EnumValue x1 x2 x3 es')}"
| "num_skind (S_Expr e) = do {e' \<leftarrow> visit_e (map_spanned num_ekind e); State_Monad.return (S_Expr e')}"
| "num_skind (S_Let x1 x2 eo) = do {eo' \<leftarrow> visit_eo (map_option (map_spanned num_ekind) eo); State_Monad.return (S_Let x1 x2 eo')}"
| "num_skind (S_Var x1 x2 eo x3) = do {eo' \<leftarrow> visit_eo (map_option (map_spanned num_ekind) eo); State_Monad.return (S_Var x1 x2 eo' x3)}"
| "num_skind (S_Assignment e1 e2) = do {
       e1' \<leftarrow> visit_e (map_spanned num_ekind e1);
       e2' \<leftarrow> visit_e (map_spanned num_ekind e2);
       State_Monad.return (S_Assignment e1' e2')}"
| "num_skind (S_If e s so) = do {
       e' \<leftarrow> visit_e (map_spanned num_ekind e);
       s' \<leftarrow> visit_s (map_spanned num_skind s);
       so' \<leftarrow> visit_so (map_option (map_spanned num_skind) so);
       State_Monad.return (S_If e' s' so')}"
| "num_skind (S_While e s) = do {
       e' \<leftarrow> visit_e (map_spanned num_ekind e);
       s' \<leftarrow> visit_s (map_spanned num_skind s);
       State_Monad.return (S_While e' s')}"
| "num_skind (S_For x e s) = do {
       e' \<leftarrow> visit_e (map_spanned num_ekind e);
       s' \<leftarrow> visit_s (map_spanned num_skind s);
       State_Monad.return (S_For x e' s')}"
| "num_skind (S_ForC so eo1 eo2 s) = do {
       so' \<leftarrow> visit_so (map_option (map_spanned num_skind) so);
       eo1' \<leftarrow> visit_eo (map_option (map_spanned num_ekind) eo1);
       eo2' \<leftarrow> visit_eo (map_option (map_spanned num_ekind) eo2);
       s' \<leftarrow> visit_s (map_spanned num_skind s);
       State_Monad.return (S_ForC so' eo1' eo2' s')}"
| "num_skind (S_Loop s) = do {s' \<leftarrow> visit_s (map_spanned num_skind s); State_Monad.return (S_Loop s')}"
| "num_skind (S_Return eo) = do {eo' \<leftarrow> visit_eo (map_option (map_spanned num_ekind) eo); State_Monad.return (S_Return eo')}"
| "num_skind S_Break = State_Monad.return S_Break"
| "num_skind S_Continue = State_Monad.return S_Continue"
| "num_skind (S_Throw e) = do {e' \<leftarrow> visit_e (map_spanned num_ekind e); State_Monad.return (S_Throw e')}"
| "num_skind (S_Try s hs so) = do {
       s' \<leftarrow> visit_s (map_spanned num_skind s);
       hs' \<leftarrow> visit_ccs (map (map_catch_clause (map_spanned num_skind)) hs);
       so' \<leftarrow> visit_so (map_option (map_spanned num_skind) so);
       State_Monad.return (S_Try s' hs' so')}"
| "num_skind (S_Defer s) = do {s' \<leftarrow> visit_s (map_spanned num_skind s); State_Monad.return (S_Defer s')}"
| "num_skind (S_Block ss) = do {ss' \<leftarrow> visit_ss (map (map_spanned num_skind) ss); State_Monad.return (S_Block ss')}"
| "num_skind (S_Select ars so) = do {
       ars' \<leftarrow> visit_sas (map (map_select_arm (map_spanned num_ekind) (map_spanned num_skind)) ars);
       so' \<leftarrow> visit_so (map_option (map_spanned num_skind) so);
       State_Monad.return (S_Select ars' so')}"
| "num_skind S_Empty = State_Monad.return S_Empty"

definition num_expr :: "expr \<Rightarrow> expr numbering" where
  "num_expr e = visit_e (map_spanned num_ekind e)"

definition num_stmt :: "stmt \<Rightarrow> stmt numbering" where
  "num_stmt s = visit_s (map_spanned num_skind s)"

text \<open>The declarations: only bodies of functions and methods hold expressions.\<close>

definition num_function :: "function_def \<Rightarrow> function_def numbering" where
  "num_function f = do {b \<leftarrow> num_stmt (fn_body f); State_Monad.return (f\<lparr>fn_body := b\<rparr>)}"

definition num_method :: "method_def \<Rightarrow> method_def numbering" where
  "num_method f = do {b \<leftarrow> num_stmt (me_body f); State_Monad.return (f\<lparr>me_body := b\<rparr>)}"

definition visit_ns :: "'k numbering spanned namespace \<Rightarrow> 'k spanned namespace numbering" where
  "visit_ns ns = do {ds \<leftarrow> visit_ss (ns_decls ns);
     State_Monad.return (Namespace (ns_name ns) ds (ns_span ns) (ns_annotations ns))}"

primrec num_dkind :: "decl_kind \<Rightarrow> decl_kind numbering" where
  "num_dkind (D_Function f) = do {f' \<leftarrow> num_function f; State_Monad.return (D_Function f')}"
| "num_dkind (D_Class c) = do {ms \<leftarrow> State_Monad.traverse_list num_method (cl_methods c);
       State_Monad.return (D_Class (c\<lparr>cl_methods := ms\<rparr>))}"
| "num_dkind (D_Interface i) = do {fs \<leftarrow> State_Monad.traverse_list num_function (if_methods i);
       State_Monad.return (D_Interface (i\<lparr>if_methods := fs\<rparr>))}"
| "num_dkind (D_Enum e) = State_Monad.return (D_Enum e)"
| "num_dkind (D_Trait t) = do {fs \<leftarrow> State_Monad.traverse_list num_function (tr_methods t);
       State_Monad.return (D_Trait (t\<lparr>tr_methods := fs\<rparr>))}"
| "num_dkind (D_Import i) = State_Monad.return (D_Import i)"
| "num_dkind (D_Module n) = State_Monad.return (D_Module n)"
| "num_dkind (D_Namespace ns) = do {ns' \<leftarrow> visit_ns (map_namespace (map_spanned num_dkind) ns);
       State_Monad.return (D_Namespace ns')}"
| "num_dkind (D_Immutable d) = State_Monad.return (D_Immutable d)"

definition num_decl :: "decl \<Rightarrow> decl numbering" where
  "num_decl d = visit_s (map_spanned num_dkind d)"

definition assign_node_ids :: "source_file \<Rightarrow> source_file \<times> u32" where
  "assign_node_ids sf =
     (case run_state (State_Monad.traverse_list num_decl (sf_decls sf)) 1 of (ds, n) \<Rightarrow>
        (sf\<lparr>sf_decls := ds\<rparr>, n))"

section \<open>Specification: the ids of a tree, and a tree without ids\<close>

definition ids_e :: "u32 list spanned \<Rightarrow> u32 list" where "ids_e e = nid e # node e"
definition ids_s :: "u32 list spanned \<Rightarrow> u32 list" where "ids_s s = node s"
definition ids_opt :: "('a \<Rightarrow> u32 list) \<Rightarrow> 'a option \<Rightarrow> u32 list" where
  "ids_opt f x = (case x of None \<Rightarrow> [] | Some y \<Rightarrow> f y)"

definition ids_list :: "('a \<Rightarrow> u32 list) \<Rightarrow> 'a list \<Rightarrow> u32 list" where
  "ids_list f xs = concat (map f xs)"

definition "ids_es = ids_list ids_e"
definition "ids_ss = ids_list ids_s"
definition "ids_eo = ids_opt ids_e"
definition "ids_so = ids_opt ids_s"
definition "ids_prs = ids_list (\<lambda>p. ids_e (fst p) @ ids_e (snd p))"
definition ids_flds :: "(ident \<times> u32 list spanned) list \<Rightarrow> u32 list" where
  "ids_flds = ids_list (\<lambda>f. ids_e (snd f))"
definition "ids_mcs = ids_list (\<lambda>c. ids_eo (mc_guard c) @ ids_e (mc_body c))"
definition "ids_ccs = ids_list (\<lambda>c. ids_s (cc_body c))"
definition "ids_sas = ids_list (\<lambda>a. ids_e (sa_channel a) @ ids_s (sa_body a))"

primrec ids_ekind :: "expr_kind \<Rightarrow> u32 list" and ids_skind :: "stmt_kind \<Rightarrow> u32 list" where
  "ids_ekind (E_Literal x) = []"
| "ids_ekind (E_ArrayLiteral es) = ids_es (map (map_spanned ids_ekind) es)"
| "ids_ekind (E_MapLiteral ps) = ids_prs (map (map_prod (map_spanned ids_ekind) (map_spanned ids_ekind)) ps)"
| "ids_ekind (E_Ident x) = []"
| "ids_ekind (E_Binary x e1 e2) = ids_e (map_spanned ids_ekind e1) @ ids_e (map_spanned ids_ekind e2)"
| "ids_ekind (E_Unary x e) = ids_e (map_spanned ids_ekind e)"
| "ids_ekind (E_Call e es) = ids_e (map_spanned ids_ekind e) @ ids_es (map (map_spanned ids_ekind) es)"
| "ids_ekind (E_MethodCall e x es) = ids_e (map_spanned ids_ekind e) @ ids_es (map (map_spanned ids_ekind) es)"
| "ids_ekind (E_Index e1 e2) = ids_e (map_spanned ids_ekind e1) @ ids_e (map_spanned ids_ekind e2)"
| "ids_ekind (E_FieldAccess e x) = ids_e (map_spanned ids_ekind e)"
| "ids_ekind E_This = []"
| "ids_ekind (E_SuperCall x es) = ids_es (map (map_spanned ids_ekind) es)"
| "ids_ekind (E_New x1 x2 es) = ids_es (map (map_spanned ids_ekind) es)"
| "ids_ekind (E_StructLiteral x fs) = ids_flds (map (map_prod id (map_spanned ids_ekind)) fs)"
| "ids_ekind (E_Block ss) = ids_ss (map (map_spanned ids_skind) ss)"
| "ids_ekind (E_If e1 e2 eo) = ids_e (map_spanned ids_ekind e1) @ ids_e (map_spanned ids_ekind e2) @ ids_eo (map_option (map_spanned ids_ekind) eo)"
| "ids_ekind (E_While e1 e2) = ids_e (map_spanned ids_ekind e1) @ ids_e (map_spanned ids_ekind e2)"
| "ids_ekind (E_For x e1 e2) = ids_e (map_spanned ids_ekind e1) @ ids_e (map_spanned ids_ekind e2)"
| "ids_ekind (E_Loop e) = ids_e (map_spanned ids_ekind e)"
| "ids_ekind (E_Match e cs) = ids_e (map_spanned ids_ekind e) @ ids_mcs (map (map_match_case (map_spanned ids_ekind)) cs)"
| "ids_ekind (E_Return eo) = ids_eo (map_option (map_spanned ids_ekind) eo)"
| "ids_ekind E_Break = []"
| "ids_ekind E_Continue = []"
| "ids_ekind (E_Throw e) = ids_e (map_spanned ids_ekind e)"
| "ids_ekind (E_Try e hs eo) = ids_e (map_spanned ids_ekind e) @ ids_ccs (map (map_catch_clause (map_spanned ids_skind)) hs) @ ids_eo (map_option (map_spanned ids_ekind) eo)"
| "ids_ekind (E_Assign e1 e2) = ids_e (map_spanned ids_ekind e1) @ ids_e (map_spanned ids_ekind e2)"
| "ids_ekind (E_CompoundAssign x e1 e2) = ids_e (map_spanned ids_ekind e1) @ ids_e (map_spanned ids_ekind e2)"
| "ids_ekind (E_Lambda x1 x2 e) = ids_e (map_spanned ids_ekind e)"
| "ids_ekind (E_Spawn e) = ids_e (map_spanned ids_ekind e)"
| "ids_ekind (E_Await e) = ids_e (map_spanned ids_ekind e)"
| "ids_ekind E_Channel = []"
| "ids_ekind (E_Send e1 e2) = ids_e (map_spanned ids_ekind e1) @ ids_e (map_spanned ids_ekind e2)"
| "ids_ekind (E_Recv e) = ids_e (map_spanned ids_ekind e)"
| "ids_ekind (E_Cast e x) = ids_e (map_spanned ids_ekind e)"
| "ids_ekind (E_Is e x) = ids_e (map_spanned ids_ekind e)"
| "ids_ekind (E_Range e1 e2 x) = ids_e (map_spanned ids_ekind e1) @ ids_e (map_spanned ids_ekind e2)"
| "ids_ekind (E_Tuple es) = ids_es (map (map_spanned ids_ekind) es)"
| "ids_ekind (E_TupleIndex e x) = ids_e (map_spanned ids_ekind e)"
| "ids_ekind (E_EnumValue x1 x2 x3 es) = ids_es (map (map_spanned ids_ekind) es)"
| "ids_skind (S_Expr e) = ids_e (map_spanned ids_ekind e)"
| "ids_skind (S_Let x1 x2 eo) = ids_eo (map_option (map_spanned ids_ekind) eo)"
| "ids_skind (S_Var x1 x2 eo x3) = ids_eo (map_option (map_spanned ids_ekind) eo)"
| "ids_skind (S_Assignment e1 e2) = ids_e (map_spanned ids_ekind e1) @ ids_e (map_spanned ids_ekind e2)"
| "ids_skind (S_If e s so) = ids_e (map_spanned ids_ekind e) @ ids_s (map_spanned ids_skind s) @ ids_so (map_option (map_spanned ids_skind) so)"
| "ids_skind (S_While e s) = ids_e (map_spanned ids_ekind e) @ ids_s (map_spanned ids_skind s)"
| "ids_skind (S_For x e s) = ids_e (map_spanned ids_ekind e) @ ids_s (map_spanned ids_skind s)"
| "ids_skind (S_ForC so eo1 eo2 s) = ids_so (map_option (map_spanned ids_skind) so) @ ids_eo (map_option (map_spanned ids_ekind) eo1) @ ids_eo (map_option (map_spanned ids_ekind) eo2) @ ids_s (map_spanned ids_skind s)"
| "ids_skind (S_Loop s) = ids_s (map_spanned ids_skind s)"
| "ids_skind (S_Return eo) = ids_eo (map_option (map_spanned ids_ekind) eo)"
| "ids_skind S_Break = []"
| "ids_skind S_Continue = []"
| "ids_skind (S_Throw e) = ids_e (map_spanned ids_ekind e)"
| "ids_skind (S_Try s hs so) = ids_s (map_spanned ids_skind s) @ ids_ccs (map (map_catch_clause (map_spanned ids_skind)) hs) @ ids_so (map_option (map_spanned ids_skind) so)"
| "ids_skind (S_Defer s) = ids_s (map_spanned ids_skind s)"
| "ids_skind (S_Block ss) = ids_ss (map (map_spanned ids_skind) ss)"
| "ids_skind (S_Select ars so) = ids_sas (map (map_select_arm (map_spanned ids_ekind) (map_spanned ids_skind)) ars) @ ids_so (map_option (map_spanned ids_skind) so)"
| "ids_skind S_Empty = []"

definition blank_e :: "'k spanned \<Rightarrow> 'k spanned" where
  "blank_e e = Spanned (node e) (nspan e) 0"

definition "blank_es = map blank_e"
definition "blank_eo = map_option blank_e"
definition "blank_prs = map (map_prod blank_e blank_e)"
definition blank_flds :: "(ident \<times> 'k spanned) list \<Rightarrow> (ident \<times> 'k spanned) list" where
  "blank_flds = map (map_prod id blank_e)"
definition "blank_mcs = map (map_match_case blank_e)"
definition blank_sas :: "('k spanned, 'l) select_arm list \<Rightarrow> ('k spanned, 'l) select_arm list" where
  "blank_sas = map (map_select_arm blank_e id)"

primrec erase_ekind :: "expr_kind \<Rightarrow> expr_kind" and erase_skind :: "stmt_kind \<Rightarrow> stmt_kind" where
  "erase_ekind (E_Literal x) = E_Literal x"
| "erase_ekind (E_ArrayLiteral es) = E_ArrayLiteral (blank_es (map (map_spanned erase_ekind) es))"
| "erase_ekind (E_MapLiteral ps) = E_MapLiteral (blank_prs (map (map_prod (map_spanned erase_ekind) (map_spanned erase_ekind)) ps))"
| "erase_ekind (E_Ident x) = E_Ident x"
| "erase_ekind (E_Binary x e1 e2) = E_Binary x (blank_e (map_spanned erase_ekind e1)) (blank_e (map_spanned erase_ekind e2))"
| "erase_ekind (E_Unary x e) = E_Unary x (blank_e (map_spanned erase_ekind e))"
| "erase_ekind (E_Call e es) = E_Call (blank_e (map_spanned erase_ekind e)) (blank_es (map (map_spanned erase_ekind) es))"
| "erase_ekind (E_MethodCall e x es) = E_MethodCall (blank_e (map_spanned erase_ekind e)) x (blank_es (map (map_spanned erase_ekind) es))"
| "erase_ekind (E_Index e1 e2) = E_Index (blank_e (map_spanned erase_ekind e1)) (blank_e (map_spanned erase_ekind e2))"
| "erase_ekind (E_FieldAccess e x) = E_FieldAccess (blank_e (map_spanned erase_ekind e)) x"
| "erase_ekind E_This = E_This"
| "erase_ekind (E_SuperCall x es) = E_SuperCall x (blank_es (map (map_spanned erase_ekind) es))"
| "erase_ekind (E_New x1 x2 es) = E_New x1 x2 (blank_es (map (map_spanned erase_ekind) es))"
| "erase_ekind (E_StructLiteral x fs) = E_StructLiteral x (blank_flds (map (map_prod id (map_spanned erase_ekind)) fs))"
| "erase_ekind (E_Block ss) = E_Block (map (map_spanned erase_skind) ss)"
| "erase_ekind (E_If e1 e2 eo) = E_If (blank_e (map_spanned erase_ekind e1)) (blank_e (map_spanned erase_ekind e2)) (blank_eo (map_option (map_spanned erase_ekind) eo))"
| "erase_ekind (E_While e1 e2) = E_While (blank_e (map_spanned erase_ekind e1)) (blank_e (map_spanned erase_ekind e2))"
| "erase_ekind (E_For x e1 e2) = E_For x (blank_e (map_spanned erase_ekind e1)) (blank_e (map_spanned erase_ekind e2))"
| "erase_ekind (E_Loop e) = E_Loop (blank_e (map_spanned erase_ekind e))"
| "erase_ekind (E_Match e cs) = E_Match (blank_e (map_spanned erase_ekind e)) (blank_mcs (map (map_match_case (map_spanned erase_ekind)) cs))"
| "erase_ekind (E_Return eo) = E_Return (blank_eo (map_option (map_spanned erase_ekind) eo))"
| "erase_ekind E_Break = E_Break"
| "erase_ekind E_Continue = E_Continue"
| "erase_ekind (E_Throw e) = E_Throw (blank_e (map_spanned erase_ekind e))"
| "erase_ekind (E_Try e hs eo) = E_Try (blank_e (map_spanned erase_ekind e)) (map (map_catch_clause (map_spanned erase_skind)) hs) (blank_eo (map_option (map_spanned erase_ekind) eo))"
| "erase_ekind (E_Assign e1 e2) = E_Assign (blank_e (map_spanned erase_ekind e1)) (blank_e (map_spanned erase_ekind e2))"
| "erase_ekind (E_CompoundAssign x e1 e2) = E_CompoundAssign x (blank_e (map_spanned erase_ekind e1)) (blank_e (map_spanned erase_ekind e2))"
| "erase_ekind (E_Lambda x1 x2 e) = E_Lambda x1 x2 (blank_e (map_spanned erase_ekind e))"
| "erase_ekind (E_Spawn e) = E_Spawn (blank_e (map_spanned erase_ekind e))"
| "erase_ekind (E_Await e) = E_Await (blank_e (map_spanned erase_ekind e))"
| "erase_ekind E_Channel = E_Channel"
| "erase_ekind (E_Send e1 e2) = E_Send (blank_e (map_spanned erase_ekind e1)) (blank_e (map_spanned erase_ekind e2))"
| "erase_ekind (E_Recv e) = E_Recv (blank_e (map_spanned erase_ekind e))"
| "erase_ekind (E_Cast e x) = E_Cast (blank_e (map_spanned erase_ekind e)) x"
| "erase_ekind (E_Is e x) = E_Is (blank_e (map_spanned erase_ekind e)) x"
| "erase_ekind (E_Range e1 e2 x) = E_Range (blank_e (map_spanned erase_ekind e1)) (blank_e (map_spanned erase_ekind e2)) x"
| "erase_ekind (E_Tuple es) = E_Tuple (blank_es (map (map_spanned erase_ekind) es))"
| "erase_ekind (E_TupleIndex e x) = E_TupleIndex (blank_e (map_spanned erase_ekind e)) x"
| "erase_ekind (E_EnumValue x1 x2 x3 es) = E_EnumValue x1 x2 x3 (blank_es (map (map_spanned erase_ekind) es))"
| "erase_skind (S_Expr e) = S_Expr (blank_e (map_spanned erase_ekind e))"
| "erase_skind (S_Let x1 x2 eo) = S_Let x1 x2 (blank_eo (map_option (map_spanned erase_ekind) eo))"
| "erase_skind (S_Var x1 x2 eo x3) = S_Var x1 x2 (blank_eo (map_option (map_spanned erase_ekind) eo)) x3"
| "erase_skind (S_Assignment e1 e2) = S_Assignment (blank_e (map_spanned erase_ekind e1)) (blank_e (map_spanned erase_ekind e2))"
| "erase_skind (S_If e s so) = S_If (blank_e (map_spanned erase_ekind e)) (map_spanned erase_skind s) (map_option (map_spanned erase_skind) so)"
| "erase_skind (S_While e s) = S_While (blank_e (map_spanned erase_ekind e)) (map_spanned erase_skind s)"
| "erase_skind (S_For x e s) = S_For x (blank_e (map_spanned erase_ekind e)) (map_spanned erase_skind s)"
| "erase_skind (S_ForC so eo1 eo2 s) = S_ForC (map_option (map_spanned erase_skind) so) (blank_eo (map_option (map_spanned erase_ekind) eo1)) (blank_eo (map_option (map_spanned erase_ekind) eo2)) (map_spanned erase_skind s)"
| "erase_skind (S_Loop s) = S_Loop (map_spanned erase_skind s)"
| "erase_skind (S_Return eo) = S_Return (blank_eo (map_option (map_spanned erase_ekind) eo))"
| "erase_skind S_Break = S_Break"
| "erase_skind S_Continue = S_Continue"
| "erase_skind (S_Throw e) = S_Throw (blank_e (map_spanned erase_ekind e))"
| "erase_skind (S_Try s hs so) = S_Try (map_spanned erase_skind s) (map (map_catch_clause (map_spanned erase_skind)) hs) (map_option (map_spanned erase_skind) so)"
| "erase_skind (S_Defer s) = S_Defer (map_spanned erase_skind s)"
| "erase_skind (S_Block ss) = S_Block (map (map_spanned erase_skind) ss)"
| "erase_skind (S_Select ars so) = S_Select (blank_sas (map (map_select_arm (map_spanned erase_ekind) (map_spanned erase_skind)) ars)) (map_option (map_spanned erase_skind) so)"
| "erase_skind S_Empty = S_Empty"

section \<open>Numbering in sequence\<close>

definition ids_from :: "u32 \<Rightarrow> nat \<Rightarrow> u32 list" where
  "ids_from n k = map (\<lambda>i. n + of_nat i) [0..<k]"

lemma ids_from_0 [simp]: "ids_from n 0 = []"
  by (simp add: ids_from_def)

lemma length_ids_from [simp]: "length (ids_from n k) = k"
  by (simp add: ids_from_def)

lemma ids_from_Suc: "ids_from n (Suc k) = n # ids_from (n + 1) k"
  unfolding ids_from_def upt_conv_Cons [OF zero_less_Suc] map_Suc_upt [symmetric]
  by (simp add: add.assoc)

lemma ids_from_add: "ids_from n (a + b) = ids_from n a @ ids_from (n + of_nat a) b"
  by (induction a arbitrary: n) (simp_all add: ids_from_Suc add.assoc)

text \<open>
  The contract of a visitor \<open>m\<close> of a tree \<open>x\<close>: it hands out the next numbers in the order of
  \<open>ids\<close>, moves the counter by as many, and changes nothing that \<open>er\<close> keeps.
\<close>

definition numbers :: "('a \<Rightarrow> u32 list) \<Rightarrow> ('a \<Rightarrow> 'b) \<Rightarrow> 'a numbering \<Rightarrow> 'a \<Rightarrow> bool" where
  "numbers ids er m x \<longleftrightarrow> (\<forall>n.
     snd (run_state m n) = n + of_nat (length (ids x))
     \<and> ids (fst (run_state m n)) = ids_from n (length (ids x))
     \<and> er (fst (run_state m n)) = er x)"

lemma numbersD:
  assumes "numbers ids er m x"
  shows "snd (run_state m n) = n + of_nat (length (ids x))"
    and "ids (fst (run_state m n)) = ids_from n (length (ids x))"
    and "er (fst (run_state m n)) = er x"
  using assms by (simp_all add: numbers_def)

lemma numbersI:
  assumes "\<And>n. snd (run_state m n) = n + of_nat (length (ids x))"
    and "\<And>n. ids (fst (run_state m n)) = ids_from n (length (ids x))"
    and "\<And>n. er (fst (run_state m n)) = er x"
  shows "numbers ids er m x"
  using assms by (simp add: numbers_def)

lemma numbers_list:
  assumes "\<And>x. x \<in> set xs \<Longrightarrow> numbers ids er (vis (f x)) x"
  shows "numbers (ids_list ids) (map er) (State_Monad.traverse_list vis (map f xs)) xs"
  using assms
proof (induction xs)
  case (Cons x xs)
  then have "numbers ids er (vis (f x)) x"
    "numbers (ids_list ids) (map er) (State_Monad.traverse_list vis (map f xs)) xs" by simp_all
  note D = numbersD [OF this(1)] numbersD [OF this(2), unfolded ids_list_def]
  show ?case
    by (rule numbersI) (simp_all add: split_beta ids_list_def D ids_from_add add.assoc)
qed (simp add: numbers_def ids_list_def)

lemma numbers_opt:
  assumes "\<And>x. y = Some x \<Longrightarrow> numbers ids er (vis (f x)) x"
  shows "numbers (ids_opt ids) (map_option er) (visit_opt vis (map_option f y)) y"
proof (cases y)
  case (Some x)
  then have "numbers ids er (vis (f x)) x" using assms by simp
  note D = numbersD [OF this]
  show ?thesis by (rule numbersI) (simp_all add: Some ids_opt_def visit_opt_def split_beta D)
qed (simp add: numbers_def visit_opt_def ids_opt_def)

text \<open>The containers of the syntax trees, over a kind \<open>'k\<close> that is numbered by \<open>nk\<close>.\<close>

lemma numbers_e:
  assumes "\<And>k. k \<in> set_spanned e \<Longrightarrow> numbers idk erk (nk k) k"
  shows "numbers (\<lambda>e. ids_e (map_spanned idk e)) (\<lambda>e. blank_e (map_spanned erk e))
    (visit_e (map_spanned nk e)) e"
proof -
  obtain k sp i where e: "e = Spanned k sp i" by (cases e)
  note D = numbersD [OF assms, of k]
  show ?thesis
    by (rule numbersI) (simp_all add: e visit_e_def ids_e_def blank_e_def split_beta D ids_from_Suc)
qed

lemma numbers_s:
  assumes "\<And>k. k \<in> set_spanned e \<Longrightarrow> numbers idk erk (nk k) k"
  shows "numbers (\<lambda>e. ids_s (map_spanned idk e)) (map_spanned erk) (visit_s (map_spanned nk e)) e"
proof -
  obtain k sp i where e: "e = Spanned k sp i" by (cases e)
  note D = numbersD [OF assms, of k]
  show ?thesis
    by (rule numbersI) (simp_all add: e visit_s_def ids_s_def split_beta D)
qed

lemma numbers_cong:
  assumes "numbers ids er m x" and "\<And>x. ids' x = ids x" and "\<And>x. er' x = er x"
  shows "numbers ids' er' m x"
  using assms by (simp add: numbers_def)

lemma numbers_es:
  assumes "\<And>e k. e \<in> set es \<Longrightarrow> k \<in> set_spanned e \<Longrightarrow> numbers idk erk (nk k) k"
  shows "numbers (\<lambda>es. ids_es (map (map_spanned idk) es)) (\<lambda>es. blank_es (map (map_spanned erk) es))
    (visit_es (map (map_spanned nk) es)) es"
proof -
  have "numbers (\<lambda>e. ids_e (map_spanned idk e)) (\<lambda>e. blank_e (map_spanned erk e))
      (visit_e (map_spanned nk e)) e" if "e \<in> set es" for e
    by (rule numbers_e) (rule assms [OF that])
  from numbers_list [where f = "map_spanned nk" and vis = visit_e, OF this] show ?thesis
    unfolding visit_es_def
    by (rule numbers_cong) (simp_all add: ids_es_def blank_es_def ids_list_def comp_def)
qed

lemma numbers_ss:
  assumes "\<And>e k. e \<in> set es \<Longrightarrow> k \<in> set_spanned e \<Longrightarrow> numbers idk erk (nk k) k"
  shows "numbers (\<lambda>es. ids_ss (map (map_spanned idk) es)) (map (map_spanned erk))
    (visit_ss (map (map_spanned nk) es)) es"
proof -
  have "numbers (\<lambda>e. ids_s (map_spanned idk e)) (map_spanned erk) (visit_s (map_spanned nk e)) e"
    if "e \<in> set es" for e
    by (rule numbers_s) (rule assms [OF that])
  from numbers_list [where f = "map_spanned nk" and vis = visit_s, OF this] show ?thesis
    unfolding visit_ss_def
    by (rule numbers_cong) (simp_all add: ids_ss_def ids_list_def comp_def)
qed

lemma numbers_eo:
  assumes "\<And>e k. eo = Some e \<Longrightarrow> k \<in> set_spanned e \<Longrightarrow> numbers idk erk (nk k) k"
  shows "numbers (\<lambda>eo. ids_eo (map_option (map_spanned idk) eo))
    (\<lambda>eo. blank_eo (map_option (map_spanned erk) eo)) (visit_eo (map_option (map_spanned nk) eo)) eo"
proof -
  have "numbers (\<lambda>e. ids_e (map_spanned idk e)) (\<lambda>e. blank_e (map_spanned erk e))
      (visit_e (map_spanned nk e)) e" if "eo = Some e" for e
    by (rule numbers_e) (rule assms [OF that])
  from numbers_opt [where f = "map_spanned nk" and vis = visit_e, OF this] show ?thesis
    unfolding visit_eo_def
    by (rule numbers_cong)
      (auto simp: ids_eo_def blank_eo_def ids_opt_def option.map_comp comp_def split: option.splits)
qed

lemma numbers_so:
  assumes "\<And>e k. eo = Some e \<Longrightarrow> k \<in> set_spanned e \<Longrightarrow> numbers idk erk (nk k) k"
  shows "numbers (\<lambda>eo. ids_so (map_option (map_spanned idk) eo)) (map_option (map_spanned erk))
    (visit_so (map_option (map_spanned nk) eo)) eo"
proof -
  have "numbers (\<lambda>e. ids_s (map_spanned idk e)) (map_spanned erk) (visit_s (map_spanned nk e)) e"
    if "eo = Some e" for e
    by (rule numbers_s) (rule assms [OF that])
  from numbers_opt [where f = "map_spanned nk" and vis = visit_s, OF this] show ?thesis
    unfolding visit_so_def
    by (rule numbers_cong) (auto simp: ids_so_def ids_opt_def split: option.splits)
qed

lemma numbers_prs:
  assumes "\<And>p e k. p \<in> set ps \<Longrightarrow> e \<in> Basic_BNFs.fsts p \<Longrightarrow> k \<in> set_spanned e \<Longrightarrow> numbers idk erk (nk k) k"
    and "\<And>p e k. p \<in> set ps \<Longrightarrow> e \<in> Basic_BNFs.snds p \<Longrightarrow> k \<in> set_spanned e \<Longrightarrow> numbers idk erk (nk k) k"
  shows "numbers (\<lambda>ps. ids_prs (map (map_prod (map_spanned idk) (map_spanned idk)) ps))
    (\<lambda>ps. blank_prs (map (map_prod (map_spanned erk) (map_spanned erk)) ps))
    (visit_prs (map (map_prod (map_spanned nk) (map_spanned nk)) ps)) ps"
proof -
  have "numbers (\<lambda>p. ids_e (map_spanned idk (fst p)) @ ids_e (map_spanned idk (snd p)))
      (map_prod (\<lambda>e. blank_e (map_spanned erk e)) (\<lambda>e. blank_e (map_spanned erk e)))
      (visit_pair (map_prod (map_spanned nk) (map_spanned nk) p)) p" if p: "p \<in> set ps" for p
  proof -
    obtain a b where ab: "p = (a, b)" by (cases p)
    have "\<And>k. k \<in> set_spanned a \<Longrightarrow> numbers idk erk (nk k) k" "\<And>k. k \<in> set_spanned b \<Longrightarrow> numbers idk erk (nk k) k"
      using assms(1) [OF p] assms(2) [OF p] ab by simp_all
    note D = numbersD [OF numbers_e [OF this(1)]] numbersD [OF numbers_e [OF this(2)]]
    show ?thesis
      by (rule numbersI) (simp_all add: ab visit_pair_def split_beta D ids_from_add add.assoc)
  qed
  from numbers_list [where f = "map_prod (map_spanned nk) (map_spanned nk)" and vis = visit_pair, OF this] show ?thesis
    unfolding visit_prs_def
    by (rule numbers_cong) (auto simp: ids_prs_def blank_prs_def ids_list_def comp_def map_prod_def split_beta)
qed

lemma numbers_flds:
  assumes "\<And>p e k. p \<in> set ps \<Longrightarrow> e \<in> Basic_BNFs.snds p \<Longrightarrow> k \<in> set_spanned e \<Longrightarrow> numbers idk erk (nk k) k"
  shows "numbers (\<lambda>ps. ids_flds (map (map_prod id (map_spanned idk)) ps))
    (\<lambda>ps. blank_flds (map (map_prod id (map_spanned erk)) ps))
    (visit_flds (map (map_prod id (map_spanned nk)) ps)) ps"
proof -
  have "numbers (\<lambda>p. ids_e (map_spanned idk (snd p))) (map_prod id (\<lambda>e. blank_e (map_spanned erk e)))
      (visit_field (map_prod id (map_spanned nk) p)) p" if p: "p \<in> set ps" for p
  proof -
    obtain a b where ab: "p = (a, b)" by (cases p)
    have "\<And>k. k \<in> set_spanned b \<Longrightarrow> numbers idk erk (nk k) k" using assms [OF p] ab by simp
    note D = numbersD [OF numbers_e [OF this]]
    show ?thesis by (rule numbersI) (simp_all add: ab visit_field_def split_beta D)
  qed
  from numbers_list [where f = "map_prod id (map_spanned nk)" and vis = visit_field, OF this] show ?thesis
    unfolding visit_flds_def
    by (rule numbers_cong) (auto simp: ids_flds_def blank_flds_def ids_list_def comp_def map_prod_def split_beta)
qed

lemma numbers_mcs:
  assumes "\<And>c e k. c \<in> set cs \<Longrightarrow> e \<in> set_match_case c \<Longrightarrow> k \<in> set_spanned e \<Longrightarrow> numbers idk erk (nk k) k"
  shows "numbers (\<lambda>cs. ids_mcs (map (map_match_case (map_spanned idk)) cs))
    (\<lambda>cs. blank_mcs (map (map_match_case (map_spanned erk)) cs))
    (visit_mcs (map (map_match_case (map_spanned nk)) cs)) cs"
proof -
  have "numbers (\<lambda>c. ids_eo (map_option (map_spanned idk) (mc_guard c)) @ ids_e (map_spanned idk (mc_body c)))
      (map_match_case (\<lambda>e. blank_e (map_spanned erk e)))
      (visit_case (map_match_case (map_spanned nk) c)) c" if "c \<in> set cs" for c
  proof -
    obtain p g b sp where c: "c = MatchCase p g b sp" by (cases c)
    have g: "numbers idk erk (nk k) k" if "g = Some e" "k \<in> set_spanned e" for e k
      using assms [OF \<open>c \<in> set cs\<close>, of e k] that c by auto
    have b: "numbers idk erk (nk k) k" if "k \<in> set_spanned b" for k
      using assms [OF \<open>c \<in> set cs\<close>, of b k] that c by auto
    have "numbers (\<lambda>eo. ids_eo (map_option (map_spanned idk) eo))
        (\<lambda>eo. blank_eo (map_option (map_spanned erk) eo)) (visit_eo (map_option (map_spanned nk) g)) g"
      by (rule numbers_eo) (rule g)
    note D = numbersD [OF this] numbersD [OF numbers_e [OF b]]
    have opt: "map_option (\<lambda>e. blank_e (map_spanned erk e)) x = blank_eo (map_option (map_spanned erk) x)" for x
      by (simp add: blank_eo_def option.map_comp comp_def)
    show ?thesis
      by (rule numbersI) (simp_all add: c visit_case_def split_beta D opt ids_from_add add.assoc)
  qed
  from numbers_list [where f = "map_match_case (map_spanned nk)" and vis = visit_case, OF this] show ?thesis
    unfolding visit_mcs_def
    by (rule numbers_cong)
      (simp_all add: ids_mcs_def blank_mcs_def ids_list_def comp_def match_case.map_comp match_case.map_sel)
qed

lemma numbers_ccs:
  assumes "\<And>c e k. c \<in> set cs \<Longrightarrow> e \<in> set_catch_clause c \<Longrightarrow> k \<in> set_spanned e \<Longrightarrow> numbers idk erk (nk k) k"
  shows "numbers (\<lambda>cs. ids_ccs (map (map_catch_clause (map_spanned idk)) cs))
    (map (map_catch_clause (map_spanned erk)))
    (visit_ccs (map (map_catch_clause (map_spanned nk)) cs)) cs"
proof -
  have "numbers (\<lambda>c. ids_s (map_spanned idk (cc_body c))) (map_catch_clause (map_spanned erk))
      (visit_catch (map_catch_clause (map_spanned nk) c)) c" if "c \<in> set cs" for c
  proof -
    obtain p t b sp where c: "c = CatchClause p t b sp" by (cases c)
    have "\<And>k. k \<in> set_spanned b \<Longrightarrow> numbers idk erk (nk k) k"
      using assms [OF \<open>c \<in> set cs\<close>] c by simp
    note D = numbersD [OF numbers_s [OF this]]
    show ?thesis by (rule numbersI) (simp_all add: c visit_catch_def split_beta D)
  qed
  from numbers_list [where f = "map_catch_clause (map_spanned nk)" and vis = visit_catch, OF this] show ?thesis
    unfolding visit_ccs_def
    by (rule numbers_cong) (simp_all add: ids_ccs_def ids_list_def comp_def catch_clause.map_sel)
qed

lemma numbers_sas:
  assumes "\<And>a e k. a \<in> set as \<Longrightarrow> e \<in> set1_select_arm a \<Longrightarrow> k \<in> set_spanned e \<Longrightarrow> numbers idk erk (nk k) k"
    and "\<And>a e k. a \<in> set as \<Longrightarrow> e \<in> set2_select_arm a \<Longrightarrow> k \<in> set_spanned e \<Longrightarrow> numbers idl erl (nl k) k"
  shows "numbers (\<lambda>as. ids_sas (map (map_select_arm (map_spanned idk) (map_spanned idl)) as))
    (\<lambda>as. blank_sas (map (map_select_arm (map_spanned erk) (map_spanned erl)) as))
    (visit_sas (map (map_select_arm (map_spanned nk) (map_spanned nl)) as)) as"
proof -
  have "numbers (\<lambda>a. ids_e (map_spanned idk (sa_channel a)) @ ids_s (map_spanned idl (sa_body a)))
      (map_select_arm (\<lambda>e. blank_e (map_spanned erk e)) (map_spanned erl))
      (visit_arm (map_select_arm (map_spanned nk) (map_spanned nl) a)) a" if "a \<in> set as" for a
  proof -
    obtain c v b sp where a: "a = SelectArm c v b sp" by (cases a)
    have "\<And>k. k \<in> set_spanned c \<Longrightarrow> numbers idk erk (nk k) k" "\<And>k. k \<in> set_spanned b \<Longrightarrow> numbers idl erl (nl k) k"
      using assms(1) [OF \<open>a \<in> set as\<close>] assms(2) [OF \<open>a \<in> set as\<close>] a by simp_all
    note D = numbersD [OF numbers_e [OF this(1)]] numbersD [OF numbers_s [OF this(2)]]
    show ?thesis by (rule numbersI) (simp_all add: a visit_arm_def split_beta D ids_from_add add.assoc)
  qed
  from numbers_list [where f = "map_select_arm (map_spanned nk) (map_spanned nl)" and vis = visit_arm, OF this] show ?thesis
    unfolding visit_sas_def
    by (rule numbers_cong)
      (simp_all add: ids_sas_def blank_sas_def ids_list_def comp_def select_arm.map_comp select_arm.map_sel)
qed

section \<open>Every tree\<close>

lemmas visit_rules =
  numbersD [OF numbers_e [of _ ids_ekind erase_ekind num_ekind]]
  numbersD [OF numbers_s [of _ ids_skind erase_skind num_skind]]
  numbersD [OF numbers_es [of _ ids_ekind erase_ekind num_ekind]]
  numbersD [OF numbers_ss [of _ ids_skind erase_skind num_skind]]
  numbersD [OF numbers_eo [of _ ids_ekind erase_ekind num_ekind]]
  numbersD [OF numbers_so [of _ ids_skind erase_skind num_skind]]
  numbersD [OF numbers_prs [of _ ids_ekind erase_ekind num_ekind]]
  numbersD [OF numbers_flds [of _ ids_ekind erase_ekind num_ekind]]
  numbersD [OF numbers_mcs [of _ ids_ekind erase_ekind num_ekind]]
  numbersD [OF numbers_ccs [of _ ids_skind erase_skind num_skind]]
  numbersD [OF numbers_sas [of _ ids_ekind erase_ekind num_ekind ids_skind erase_skind num_skind]]

lemma numbers_kinds:
  "numbers ids_ekind erase_ekind (num_ekind k) k"
  "numbers ids_skind erase_skind (num_skind s) s"
  by (induction k and s)
    (rule numbersI; simp add: split_beta visit_rules ids_from_add add.assoc)+

definition stmt_ids :: "stmt \<Rightarrow> u32 list" where
  "stmt_ids s = ids_s (map_spanned ids_skind s)"

definition erase_stmt :: "stmt \<Rightarrow> stmt" where
  "erase_stmt s = map_spanned erase_skind s"

lemma numbers_stmt: "numbers stmt_ids erase_stmt (num_stmt s) s"
  unfolding num_stmt_def
  by (rule numbers_cong [OF numbers_s [OF numbers_kinds(2)]]) (simp_all add: stmt_ids_def erase_stmt_def)

definition function_ids :: "function_def \<Rightarrow> u32 list" where "function_ids f = stmt_ids (fn_body f)"
definition method_ids :: "method_def \<Rightarrow> u32 list" where "method_ids m = stmt_ids (me_body m)"
definition erase_function :: "function_def \<Rightarrow> function_def" where
  "erase_function f = f\<lparr>fn_body := erase_stmt (fn_body f)\<rparr>"
definition erase_method :: "method_def \<Rightarrow> method_def" where
  "erase_method m = m\<lparr>me_body := erase_stmt (me_body m)\<rparr>"

lemma numbers_function: "numbers function_ids erase_function (num_function f) f"
  by (rule numbersI) (simp_all add: num_function_def function_ids_def erase_function_def split_beta
      numbersD [OF numbers_stmt])

lemma numbers_method: "numbers method_ids erase_method (num_method f) f"
  by (rule numbersI) (simp_all add: num_method_def method_ids_def erase_method_def split_beta
      numbersD [OF numbers_stmt])

primrec ids_dkind :: "decl_kind \<Rightarrow> u32 list" where
  "ids_dkind (D_Function f) = function_ids f"
| "ids_dkind (D_Class c) = ids_list method_ids (cl_methods c)"
| "ids_dkind (D_Interface i) = ids_list function_ids (if_methods i)"
| "ids_dkind (D_Enum e) = []"
| "ids_dkind (D_Trait t) = ids_list function_ids (tr_methods t)"
| "ids_dkind (D_Import i) = []"
| "ids_dkind (D_Module n) = []"
| "ids_dkind (D_Namespace ns) = ids_ss (ns_decls (map_namespace (map_spanned ids_dkind) ns))"
| "ids_dkind (D_Immutable d) = []"

primrec erase_dkind :: "decl_kind \<Rightarrow> decl_kind" where
  "erase_dkind (D_Function f) = D_Function (erase_function f)"
| "erase_dkind (D_Class c) = D_Class (c\<lparr>cl_methods := map erase_method (cl_methods c)\<rparr>)"
| "erase_dkind (D_Interface i) = D_Interface (i\<lparr>if_methods := map erase_function (if_methods i)\<rparr>)"
| "erase_dkind (D_Enum e) = D_Enum e"
| "erase_dkind (D_Trait t) = D_Trait (t\<lparr>tr_methods := map erase_function (tr_methods t)\<rparr>)"
| "erase_dkind (D_Import i) = D_Import i"
| "erase_dkind (D_Module n) = D_Module n"
| "erase_dkind (D_Namespace ns) = D_Namespace (map_namespace (map_spanned erase_dkind) ns)"
| "erase_dkind (D_Immutable d) = D_Immutable d"

lemmas method_list_rules =
  numbersD [OF numbers_list [of _ method_ids erase_method num_method "\<lambda>x. x", OF numbers_method, simplified]]
  numbersD [OF numbers_list [of _ function_ids erase_function num_function "\<lambda>x. x", OF numbers_function, simplified]]

lemma numbers_ns:
  assumes "\<And>d k. d \<in> set_namespace ns \<Longrightarrow> k \<in> set_spanned d \<Longrightarrow> numbers idk erk (nk k) k"
  shows "numbers (\<lambda>ns. ids_ss (ns_decls (map_namespace (map_spanned idk) ns)))
    (map_namespace (map_spanned erk)) (visit_ns (map_namespace (map_spanned nk) ns)) ns"
proof -
  obtain n ds sp an where ns: "ns = Namespace n ds sp an" by (cases ns)
  have "numbers (\<lambda>es. ids_ss (map (map_spanned idk) es)) (map (map_spanned erk))
      (visit_ss (map (map_spanned nk) ds)) ds"
    using assms ns by (intro numbers_ss) simp
  note D = numbersD [OF this]
  show ?thesis by (rule numbersI) (simp_all add: ns visit_ns_def split_beta D)
qed

lemma numbers_dkind: "numbers ids_dkind erase_dkind (num_dkind d) d"
proof (induction d)
  case (D_Namespace ns)
  note D = numbersD [OF numbers_ns [of ns ids_dkind erase_dkind num_dkind, OF D_Namespace]]
  show ?case by (rule numbersI) (simp_all add: split_beta D)
qed (rule numbersI; simp add: split_beta numbersD [OF numbers_function] method_list_rules)+

definition file_ids :: "source_file \<Rightarrow> u32 list" where
  "file_ids sf = ids_ss (map (map_spanned ids_dkind) (sf_decls sf))"

definition erase_file :: "source_file \<Rightarrow> source_file" where
  "erase_file sf = sf\<lparr>sf_decls := map (map_spanned erase_dkind) (sf_decls sf)\<rparr>"

lemma numbers_decl: "numbers (\<lambda>d. ids_s (map_spanned ids_dkind d)) (map_spanned erase_dkind) (num_decl d) d"
  unfolding num_decl_def by (rule numbers_s) (rule numbers_dkind)

lemma assign_node_ids_numbers:
  assumes "assign_node_ids sf = (sf', nxt)"
  shows "file_ids sf' = ids_from 1 (length (file_ids sf))"
    and "nxt = 1 + of_nat (length (file_ids sf))" and "erase_file sf' = erase_file sf"
proof -
  have "numbers (ids_list (\<lambda>d. ids_s (map_spanned ids_dkind d))) (map (map_spanned erase_dkind))
      (State_Monad.traverse_list num_decl (map (\<lambda>x. x) (sf_decls sf))) (sf_decls sf)"
    by (rule numbers_list) (rule numbers_decl)
  note D = numbersD [OF this, of 1, simplified]
  have e: "file_ids u = ids_list (\<lambda>d. ids_s (map_spanned ids_dkind d)) (sf_decls u)" for u :: source_file
    by (simp add: file_ids_def ids_ss_def ids_list_def comp_def)
  obtain ds n where run: "run_state (State_Monad.traverse_list num_decl (sf_decls sf)) 1 = (ds, n)"
    by fastforce
  then have sf': "sf' = sf\<lparr>sf_decls := ds\<rparr>" "nxt = n"
    using assms by (simp_all add: assign_node_ids_def)
  show "file_ids sf' = ids_from 1 (length (file_ids sf))"
    and "nxt = 1 + of_nat (length (file_ids sf))"
    using D(1,2) by (simp_all add: e run sf')
  show "erase_file sf' = erase_file sf"
    using D(3) by (simp add: erase_file_def run sf')
qed

lemma ids_from_distinct:
  assumes "k < 2 ^ 32"
  shows "distinct (ids_from 1 k)" and "0 \<notin> set (ids_from 1 k)"
proof -
  have w: "unat (1 + of_nat i :: u32) = Suc i" if "i < k" for i
    using that assms unat_of_nat_u32 [of "Suc i"] by simp
  show "distinct (ids_from 1 k)"
    unfolding ids_from_def distinct_map
  proof (intro conjI inj_onI)
    fix i j assume ij: "i \<in> set [0..<k]" "j \<in> set [0..<k]" "(1 + of_nat i :: u32) = 1 + of_nat j"
    then have "unat (1 + of_nat i :: u32) = unat (1 + of_nat j :: u32)" by simp
    then show "i = j" using w [of i] w [of j] ij(1,2) by simp
  qed simp
  show "0 \<notin> set (ids_from 1 k)"
  proof
    assume "0 \<in> set (ids_from 1 k)"
    then obtain i where "i < k" "(1 + of_nat i :: u32) = 0" by (auto simp: ids_from_def)
    then show False using w [of i] by simp
  qed
qed

text \<open>
  The numbering pass gives the expressions of a source file, in the order of the
  traversal, the numbers from 1 on, returns the nxt free number, and changes nothing
  else of the tree: no expression is forgotten, duplicated or moved.
\<close>

theorem assign_node_ids_sequence:
  "case assign_node_ids sf of (sf', nxt) \<Rightarrow>
     file_ids sf' = map (\<lambda>i. 1 + of_nat i) [0..<length (file_ids sf)]
     \<and> nxt = 1 + of_nat (length (file_ids sf)) \<and> erase_file sf' = erase_file sf"
  using assign_node_ids_numbers [of sf] by (cases "assign_node_ids sf") (simp add: ids_from_def)

text \<open>
  C21. With fewer than \<open>2 ^ 32\<close> expressions every expression has a number of its own, and
  none has 0, the number that means "unassigned": the type table can be keyed by it.
\<close>

theorem assign_node_ids_unique:
  assumes "length (file_ids sf) < 2 ^ 32" and "assign_node_ids sf = (sf', nxt)"
  shows "distinct (file_ids sf') \<and> 0 \<notin> set (file_ids sf') \<and> length (file_ids sf') = length (file_ids sf)"
  using assign_node_ids_numbers(1) [OF assms(2)] ids_from_distinct [OF assms(1)] by simp

text \<open>A file with one function, whose body is the statement \<^verbatim>\<open>x + 1;\<close>.\<close>

definition sample_expr :: expr where
  "sample_expr = spanned_new (E_Binary B_Add (spanned_new (E_Ident (lit ''x'')) span_dummy)
     (spanned_new (E_Literal (Lit_Integer 1)) span_dummy)) span_dummy"

definition sample_file :: source_file where
  "sample_file = source_file_new [spanned_new (D_Function
     \<lparr>fn_name = lit ''f'', fn_type_params = [], fn_params = [], fn_ret_type = Ty_Nothing,
      fn_body = spanned_new (S_Block [spanned_new (S_Expr sample_expr) span_dummy]) span_dummy,
      fn_span = span_dummy, fn_is_async = False, fn_doc = None, fn_annotations = [],
      fn_file = unknown_file\<rparr>) span_dummy]"

theorem assign_node_ids_unique_witness:
  "\<exists>sf' nxt. assign_node_ids sample_file = (sf', nxt) \<and> file_ids sf' = [1, 2, 3] \<and> distinct (file_ids sf')"
proof -
  have l: "file_ids sample_file = [0, 0, 0]" by code_simp
  obtain sf' nxt where run: "assign_node_ids sample_file = (sf', nxt)" by fastforce
  have "file_ids (fst (assign_node_ids sample_file)) = [1, 2, 3]" by code_simp
  moreover have "length (file_ids sample_file) < 2 ^ 32" by (simp add: l)
  ultimately show ?thesis using assign_node_ids_unique [OF _ run] run by simp
qed

end
