(* ===== verification/Tinox_Strings.thy ===== *)
theory Tinox_Strings
  imports Tinox_Prelude
begin

text \<open>
  The operations on \<^verbatim>\<open>str\<close> and \<^verbatim>\<open>Path\<close> of Rust's standard library that the package manager
  uses, on strings as lists of code points.
\<close>

section \<open>Whitespace\<close>

text \<open>\<^verbatim>\<open>char::is_whitespace\<close>: the Unicode property White_Space.\<close>

definition is_whitespace :: "rchar \<Rightarrow> bool" where
  "is_whitespace c \<longleftrightarrow> (9 \<le> c \<and> c \<le> 13) \<or> c \<in> {0x20, 0x85, 0xA0, 0x1680, 0x2028, 0x2029, 0x202F, 0x205F, 0x3000}
     \<or> (0x2000 \<le> c \<and> c \<le> 0x200A)"

definition is_ascii_whitespace :: "rchar \<Rightarrow> bool" where
  "is_ascii_whitespace c \<longleftrightarrow> c \<in> {9, 10, 12, 13, 32}"

definition trim_end_by :: "('a \<Rightarrow> bool) \<Rightarrow> 'a list \<Rightarrow> 'a list" where
  "trim_end_by p t = rev (dropWhile p (rev t))"

definition trim_by :: "('a \<Rightarrow> bool) \<Rightarrow> 'a list \<Rightarrow> 'a list" where
  "trim_by p t = trim_end_by p (dropWhile p t)"

definition trim :: "rstring \<Rightarrow> rstring" where "trim = trim_by is_whitespace"

definition trim_start :: "rstring \<Rightarrow> rstring" where "trim_start = dropWhile is_whitespace"

definition trim_matches :: "rchar \<Rightarrow> rstring \<Rightarrow> rstring" where "trim_matches c = trim_by (\<lambda>x. x = c)"

definition trim_end_matches :: "rchar \<Rightarrow> rstring \<Rightarrow> rstring" where "trim_end_matches c = trim_end_by (\<lambda>x. x = c)"

section \<open>Searching\<close>

definition starts_with :: "rstring \<Rightarrow> rstring \<Rightarrow> bool" where
  "starts_with p t \<longleftrightarrow> take (length p) t = p"

definition ends_with :: "rstring \<Rightarrow> rstring \<Rightarrow> bool" where
  "ends_with p t \<longleftrightarrow> length p \<le> length t \<and> drop (length t - length p) t = p"

text \<open>\<^verbatim>\<open>t.find(p)\<close>, as what follows the first occurrence; \<^verbatim>\<open>split_once\<close> on a character.\<close>

fun after_first :: "rstring \<Rightarrow> rstring \<Rightarrow> rstring option" where
  "after_first p t =
     (if starts_with p t then Some (drop (length p) t)
      else case t of [] \<Rightarrow> None | _ # u \<Rightarrow> after_first p u)"

declare after_first.simps [simp del]

definition split_once :: "rchar \<Rightarrow> rstring \<Rightarrow> (rstring \<times> rstring) option" where
  "split_once c t =
     (if c \<in> set t then Some (takeWhile (\<lambda>x. x \<noteq> c) t, tl (dropWhile (\<lambda>x. x \<noteq> c) t)) else None)"

text \<open>\<^verbatim>\<open>t.split(c).next_back()\<close>\<close>

definition last_segment :: "rchar \<Rightarrow> rstring \<Rightarrow> rstring" where
  "last_segment c t = rev (takeWhile (\<lambda>x. x \<noteq> c) (rev t))"

definition ascii_lower :: "rchar \<Rightarrow> rchar" where
  "ascii_lower c = (if is_ascii_upper c then c + 32 else c)"

definition eq_ignore_ascii_case :: "rstring \<Rightarrow> rstring \<Rightarrow> bool" where
  "eq_ignore_ascii_case a b \<longleftrightarrow> map ascii_lower a = map ascii_lower b"

section \<open>Lines\<close>

abbreviation LF :: rchar where "LF \<equiv> 10"
abbreviation CR :: rchar where "CR \<equiv> 13"

definition strip_cr :: "rstring \<Rightarrow> rstring" where
  "strip_cr l = (if l \<noteq> [] \<and> last l = CR then butlast l else l)"

text \<open>\<^verbatim>\<open>str::lines\<close>: a line feed ends a line, with the carriage return before it.\<close>

function lines :: "rstring \<Rightarrow> rstring list" where
  "lines t = (if t = [] then []
     else let l = takeWhile (\<lambda>x. x \<noteq> LF) t in
       case dropWhile (\<lambda>x. x \<noteq> LF) t of [] \<Rightarrow> [l] | _ # u \<Rightarrow> strip_cr l # lines u)"
  by pat_completeness auto
termination
proof (relation "measure length", goal_cases)
  case (2 t l c u)
  then show ?case using length_dropWhile_le [of "\<lambda>x. x \<noteq> LF" t] by simp
qed simp

declare lines.simps [simp del]

text \<open>\<^verbatim>\<open>join("\n")\<close>\<close>

fun join_lines :: "rstring list \<Rightarrow> rstring" where
  "join_lines [] = []"
| "join_lines [l] = l"
| "join_lines (l # ls) = l @ [LF] @ join_lines ls"

section \<open>Paths\<close>

text \<open>
  \<^verbatim>\<open>Path::join\<close> on Unix: an absolute second path replaces the first. \<open>components\<close> are the
  names a path consists of, as \<^verbatim>\<open>Path::components\<close> gives them: empty names and \<^verbatim>\<open>.\<close> do not count.
\<close>

abbreviation SLASH :: rchar where "SLASH \<equiv> 47"

definition path_join :: "rstring \<Rightarrow> rstring \<Rightarrow> rstring" where
  "path_join p q =
     (if q \<noteq> [] \<and> hd q = SLASH then q
      else if p = [] \<or> last p = SLASH then p @ q
      else p @ [SLASH] @ q)"

function segments :: "rstring \<Rightarrow> rstring list" where
  "segments t =
     (case dropWhile (\<lambda>x. x \<noteq> SLASH) t of
        [] \<Rightarrow> [takeWhile (\<lambda>x. x \<noteq> SLASH) t]
      | _ # u \<Rightarrow> takeWhile (\<lambda>x. x \<noteq> SLASH) t # segments u)"
  by pat_completeness auto
termination
proof (relation "measure length", goal_cases)
  case (2 t c u)
  then show ?case using length_dropWhile_le [of "\<lambda>x. x \<noteq> SLASH" t] by simp
qed simp

declare segments.simps [simp del]

definition components :: "rstring \<Rightarrow> rstring list" where
  "components p = filter (\<lambda>c. c \<noteq> [] \<and> c \<noteq> lit ''.'') (segments p)"

section \<open>Lemmas\<close>

lemma dropWhile_all [simp]: "(\<And>x. x \<in> set xs \<Longrightarrow> p x) \<Longrightarrow> dropWhile p xs = []"
  by (simp add: dropWhile_eq_Nil_conv)

lemma trim_by_Nil [simp]: "trim_by p [] = []" "trim_end_by p [] = []" "trim [] = []"
  by (simp_all add: trim_by_def trim_end_by_def trim_def)

lemma trim_end_by_snoc [simp]: "trim_end_by p (xs @ [x]) = (if p x then trim_end_by p xs else xs @ [x])"
  by (simp add: trim_end_by_def)

lemma trim_by_Cons: "trim_by p (x # xs) = (if p x then trim_by p xs else trim_end_by p (x # xs))"
  by (simp add: trim_by_def)

lemma trim_end_by_cong_last: "\<not> p x \<Longrightarrow> trim_end_by p (ys @ x # zs) = ys @ x # trim_end_by p zs"
proof -
  assume p: "\<not> p x"
  show ?thesis
  proof (cases "\<exists>z \<in> set zs. \<not> p z")
    case True
    then show ?thesis by (auto simp: trim_end_by_def dropWhile_append1)
  next
    case False
    then have "dropWhile p (rev zs) = []" by simp
    then show ?thesis using p False by (auto simp: trim_end_by_def dropWhile_append)
  qed
qed

text \<open>A text whose ends are not trimmed away.\<close>

definition tight :: "('a \<Rightarrow> bool) \<Rightarrow> 'a list \<Rightarrow> bool" where
  "tight p t \<longleftrightarrow> t \<noteq> [] \<longrightarrow> \<not> p (hd t) \<and> \<not> p (last t)"

lemma dropWhile_hd: "t \<noteq> [] \<Longrightarrow> \<not> p (hd t) \<Longrightarrow> dropWhile p t = t"
  by (cases t) simp_all

lemma trim_by_tight: "tight p t \<Longrightarrow> trim_by p t = t"
proof (cases t rule: rev_cases)
  case (snoc ys y)
  assume "tight p t"
  then have "\<not> p (hd t)" "\<not> p y" using snoc by (auto simp: tight_def)
  then show ?thesis using snoc dropWhile_hd [of t p] by (simp add: trim_by_def)
qed simp

lemma trim_by_surround:
  assumes "\<And>x. x \<in> set as \<Longrightarrow> p x" "\<And>x. x \<in> set bs \<Longrightarrow> p x" "tight p t"
  shows "trim_by p (as @ t @ bs) = t"
proof (cases "t = []")
  case True
  have "dropWhile p (as @ bs) = []" using assms(1,2) by (intro dropWhile_all) auto
  then show ?thesis using True by (simp add: trim_by_def)
next
  case False
  then have h: "\<not> p (hd t)" "\<not> p (last t)" using assms(3) by (simp_all add: tight_def)
  have "dropWhile p (as @ t @ bs) = t @ bs"
    using assms(1) h False by (cases t) (simp_all add: dropWhile_append2)
  moreover have "trim_end_by p (t @ bs) = t"
  proof -
    have "t = butlast t @ [last t]" using False by simp
    moreover have "trim_end_by p bs = []" using assms(2) by (simp add: trim_end_by_def)
    ultimately show ?thesis using trim_end_by_cong_last [where p = p and x = "last t", OF h(2), of "butlast t" bs] by (metis append_Cons append_assoc append_Nil)
  qed
  ultimately show ?thesis by (simp add: trim_by_def)
qed

lemma lines_Nil [simp]: "lines [] = []"
  by (simp add: lines.simps)

lemma takeWhile_LF: "LF \<notin> set l \<Longrightarrow> takeWhile (\<lambda>x. x \<noteq> LF) (l @ LF # u) = l \<and> dropWhile (\<lambda>x. x \<noteq> LF) (l @ LF # u) = LF # u"
  by (induction l) auto

lemma lines_line: "LF \<notin> set l \<Longrightarrow> lines (l @ LF # u) = strip_cr l # lines u"
  using takeWhile_LF [of l u] by (subst lines.simps) (simp add: Let_def)

lemma lines_last: "LF \<notin> set l \<Longrightarrow> lines l = (if l = [] then [] else [l])"
proof -
  assume "LF \<notin> set l"
  then have "takeWhile (\<lambda>x. x \<noteq> LF) l = l" "dropWhile (\<lambda>x. x \<noteq> LF) l = []"
    by (auto simp: takeWhile_eq_all_conv intro!: dropWhile_all)
  then show ?thesis by (subst lines.simps) (simp add: Let_def)
qed

text \<open>Lines each ended by a line feed, and what follows them.\<close>

lemma lines_concat:
  "(\<And>l. l \<in> set ls \<Longrightarrow> LF \<notin> set l) \<Longrightarrow> lines (concat (map (\<lambda>l. l @ [LF]) ls) @ u) = map strip_cr ls @ lines u"
  by (induction ls) (simp_all add: lines_line)

lemma lines_no_LF: "l \<in> set (lines t) \<Longrightarrow> LF \<notin> set l"
proof (induction t rule: lines.induct)
  case (1 t)
  let ?l = "takeWhile (\<lambda>x. x \<noteq> LF) t"
  have l: "LF \<notin> set ?l" by (auto dest: set_takeWhileD)
  then have c: "LF \<notin> set (strip_cr ?l)" by (auto simp: strip_cr_def dest: in_set_butlastD)
  show ?case
  proof (cases "t = []")
    case False
    then show ?thesis using 1 l c
      by (subst (asm) (2) lines.simps) (auto simp: Let_def split: list.splits)
  qed (use 1 in simp)
qed

lemma strip_cr_trim: "trim (strip_cr l) = trim l"
proof (cases "l \<noteq> [] \<and> last l = CR")
  case True
  then obtain m where m: "l = m @ [CR]" by (metis append_butlast_last_id)
  have w: "is_whitespace CR" by (simp add: is_whitespace_def)
  have "trim (m @ [CR]) = trim m"
  proof (cases "\<exists>x \<in> set m. \<not> is_whitespace x")
    case True
    then show ?thesis using w by (auto simp: trim_def trim_by_def dropWhile_append1)
  next
    case False
    then have "dropWhile is_whitespace m = []" "dropWhile is_whitespace (m @ [CR]) = []"
      using w by (auto intro!: dropWhile_all)
    then show ?thesis by (simp add: trim_def trim_by_def)
  qed
  then show ?thesis using m by (simp add: strip_cr_def)
qed (auto simp: strip_cr_def)

end
