(* ===== verification/Tinox_Pm_Lock.thy ===== *)
theory Tinox_Pm_Lock
  imports Tinox_Strings
begin

text \<open>
  The data of the package manager (\<^verbatim>\<open>src/crates/tinox/src/pm.rs\<close>): manifests, dependencies and the
  lock file, where a dependency is downloaded from and installed to, and how its checksum is
  pinned. The contract of a store of entries under keys is the locale \<open>keyed_store\<close>; the lock
  file is one (by coordinates), and so is the list of dependencies that \<^verbatim>\<open>tinox add\<close> updates
  (by group and artifact).
\<close>

record package =
  pk_name :: rstring
  pk_version :: rstring
  pk_description :: rstring

record repository =
  rp_id :: rstring
  rp_url :: rstring

record dependency =
  dp_group :: rstring
  dp_artifact_id :: rstring
  dp_version :: rstring
  dp_url :: "rstring option"
  dp_repository :: "rstring option"
  dp_sha256 :: "rstring option"

record tinox_manifest =
  mf_package :: "package option"
  mf_dependencies :: "dependency list"
  mf_repositories :: "repository list"

record lock_entry =
  le_group :: rstring
  le_artifact_id :: rstring
  le_version :: rstring
  le_url :: rstring
  le_sha256 :: rstring

type_synonym tinox_lock = "lock_entry list"

type_synonym coord = "rstring \<times> rstring \<times> rstring"

definition dep_coord :: "dependency \<Rightarrow> coord" where
  "dep_coord d = (dp_group d, dp_artifact_id d, dp_version d)"

definition entry_coord :: "lock_entry \<Rightarrow> coord" where
  "entry_coord e = (le_group e, le_artifact_id e, le_version e)"

datatype pm_error =
  PE_UrlAndRepository coord
| PE_UnknownRepository coord rstring
| PE_PathSegment rstring rstring
| PE_NoHome
| PE_Checksum coord rstring rstring rstring
| PE_Download rstring rstring
| PE_Extract rstring

section \<open>Where a dependency comes from\<close>

definition DEFAULT_REPOSITORY_URL :: rstring where
  "DEFAULT_REPOSITORY_URL = lit ''https://central.tinox-lang.de''"

definition repository_path :: "rstring \<Rightarrow> dependency \<Rightarrow> rstring" where
  "repository_path base dep =
     trim_end_matches SLASH base @ lit ''/api/v1/'' @ dp_group dep @ lit ''/'' @ dp_artifact_id dep @ lit ''/'' @ dp_version dep"

definition effective_download_url :: "dependency \<Rightarrow> tinox_manifest \<Rightarrow> pm_error + rstring" where
  "effective_download_url dep owning = (case dp_url dep of
     Some url \<Rightarrow>
       if dp_repository dep \<noteq> None then Inl (PE_UrlAndRepository (dep_coord dep)) else Inr url
   | None \<Rightarrow>
       (case dp_repository dep of
          Some i \<Rightarrow>
            (case List.find (\<lambda>r. rp_id r = i) (mf_repositories owning) of
               Some r \<Rightarrow> Inr (repository_path (rp_url r) dep)
             | None \<Rightarrow> Inl (PE_UnknownRepository (dep_coord dep) i))
        | None \<Rightarrow> Inr (repository_path DEFAULT_REPOSITORY_URL dep)))"

section \<open>Where a dependency is installed\<close>

definition sanitize_path_component :: "rstring \<Rightarrow> rstring \<Rightarrow> pm_error + unit" where
  "sanitize_path_component value field =
     (if value = [] \<or> value = lit ''.'' \<or> value = lit ''..'' \<or> SLASH \<in> set value \<or> 92 \<in> set value \<or> 0 \<in> set value
      then Inl (PE_PathSegment field value) else Inr ())"

definition bind_result :: "'e + 'a \<Rightarrow> ('a \<Rightarrow> 'e + 'b) \<Rightarrow> 'e + 'b" where
  "bind_result r f = (case r of Inl e \<Rightarrow> Inl e | Inr x \<Rightarrow> f x)"

definition join_all :: "rstring \<Rightarrow> rstring list \<Rightarrow> rstring" where
  "join_all = foldl path_join"

definition dep_install_dir :: "rstring \<Rightarrow> dependency \<Rightarrow> pm_error + rstring" where
  "dep_install_dir root dep =
     bind_result (sanitize_path_component (dp_group dep) (lit ''group'')) (\<lambda>_.
     bind_result (sanitize_path_component (dp_artifact_id dep) (lit ''artifactId'')) (\<lambda>_.
     bind_result (sanitize_path_component (dp_version dep) (lit ''version'')) (\<lambda>_.
     Inr (join_all root [lit ''.tinox'', lit ''deps'', dp_group dep, dp_artifact_id dep, dp_version dep]))))"

text \<open>\<open>home\<close> is what \<^verbatim>\<open>tinox_home_dir\<close> finds in the environment.\<close>

definition global_dep_install_dir :: "rstring option \<Rightarrow> dependency \<Rightarrow> pm_error + rstring" where
  "global_dep_install_dir home dep =
     (let repo_id = (case dp_repository dep of Some i \<Rightarrow> i | None \<Rightarrow> lit ''central'') in
      bind_result (sanitize_path_component repo_id (lit ''repository'')) (\<lambda>_.
      bind_result (sanitize_path_component (dp_group dep) (lit ''group'')) (\<lambda>_.
      bind_result (sanitize_path_component (dp_artifact_id dep) (lit ''artifactId'')) (\<lambda>_.
      bind_result (sanitize_path_component (dp_version dep) (lit ''version'')) (\<lambda>_.
      case home of
        None \<Rightarrow> Inl PE_NoHome
      | Some h \<Rightarrow> Inr (join_all h [lit ''.tinox'', lit ''repository'', repo_id, dp_group dep,
                                   dp_artifact_id dep, dp_version dep]))))))"

definition resolved_install_dir :: "rstring \<Rightarrow> rstring option \<Rightarrow> dependency \<Rightarrow> pm_error + rstring" where
  "resolved_install_dir root home dep =
     (if dp_url dep \<noteq> None then dep_install_dir root dep else global_dep_install_dir home dep)"

section \<open>The lock file\<close>

definition lock_entry_for :: "tinox_lock \<Rightarrow> dependency \<Rightarrow> lock_entry option" where
  "lock_entry_for lock dep =
     List.find (\<lambda>e. le_group e = dp_group dep \<and> le_artifact_id e = dp_artifact_id dep
                    \<and> le_version e = dp_version dep) lock"

definition upsert_lock_entry :: "tinox_lock \<Rightarrow> lock_entry \<Rightarrow> tinox_lock" where
  "upsert_lock_entry lock entry =
     filter (\<lambda>e. \<not> (le_group e = le_group entry \<and> le_artifact_id e = le_artifact_id entry
                    \<and> le_version e = le_version entry)) lock @ [entry]"

text \<open>The change \<^verbatim>\<open>cmd_add\<close> makes to the dependencies of the manifest.\<close>

definition add_dependency :: "dependency list \<Rightarrow> dependency \<Rightarrow> dependency list" where
  "add_dependency deps dep =
     filter (\<lambda>d. \<not> (dp_group d = dp_group dep \<and> dp_artifact_id d = dp_artifact_id dep)) deps @ [dep]"

definition expected_checksum :: "dependency \<Rightarrow> rstring \<Rightarrow> tinox_lock \<Rightarrow> bool \<Rightarrow> rstring option" where
  "expected_checksum dep url lock update = (case dp_sha256 dep of
     Some h \<Rightarrow> Some h
   | None \<Rightarrow>
       if update then None
       else case lock_entry_for lock dep of
              Some e \<Rightarrow> if le_url e = url then Some (le_sha256 e) else None
            | None \<Rightarrow> None)"

definition verify_checksum :: "dependency \<Rightarrow> rstring \<Rightarrow> tinox_lock \<Rightarrow> bool \<Rightarrow> rstring \<Rightarrow> pm_error + unit" where
  "verify_checksum dep url lock update actual = (case expected_checksum dep url lock update of
     Some expected \<Rightarrow>
       if \<not> eq_ignore_ascii_case expected actual
       then Inl (PE_Checksum (dep_coord dep) url expected actual) else Inr ()
   | None \<Rightarrow> Inr ())"

section \<open>The contract of a store\<close>

text \<open>
  \<open>get\<close> and \<open>put\<close> on a store of entries, each under its key. \<open>inv\<close> is the store's invariant.
\<close>

locale keyed_store =
  fixes key :: "'e \<Rightarrow> 'k" and get :: "'s \<Rightarrow> 'k \<Rightarrow> 'e option" and put :: "'s \<Rightarrow> 'e \<Rightarrow> 's" and inv :: "'s \<Rightarrow> bool"
  assumes get_put: "get (put s e) k = (if k = key e then Some e else get s k)"
    and inv_put: "inv s \<Longrightarrow> inv (put s e)"
    and get_key: "get s k = Some e \<Longrightarrow> key e = k"
begin

lemma get_puts: "get (foldl put s es) k = (case List.find (\<lambda>e. key e = k) (rev es) of Some e \<Rightarrow> Some e | None \<Rightarrow> get s k)"
proof (induction es rule: rev_induct)
  case (snoc e es)
  then show ?case by (auto simp: get_put split: option.splits)
qed simp

lemma inv_puts: "inv s \<Longrightarrow> inv (foldl put s es)"
  by (induction es rule: rev_induct) (simp_all add: inv_put)

lemma refines_map: "get (put s e) = (get s)(key e \<mapsto> e)"
  by (rule ext) (simp add: get_put)

end

text \<open>Both stores of the package manager are lists that drop the old entry and append the new one.\<close>

definition list_put :: "('e \<Rightarrow> 'k) \<Rightarrow> 'e list \<Rightarrow> 'e \<Rightarrow> 'e list" where
  "list_put key xs e = filter (\<lambda>x. key x \<noteq> key e) xs @ [e]"

definition list_get :: "('e \<Rightarrow> 'k) \<Rightarrow> 'e list \<Rightarrow> 'k \<Rightarrow> 'e option" where
  "list_get key xs k = List.find (\<lambda>x. key x = k) xs"

lemma find_append: "List.find p (xs @ ys) = (case List.find p xs of Some x \<Rightarrow> Some x | None \<Rightarrow> List.find p ys)"
  by (induction xs) simp_all

lemma find_filter_other: "k \<noteq> key e \<Longrightarrow>
    List.find (\<lambda>x. key x = k) (filter (\<lambda>x. key x \<noteq> key e) xs) = List.find (\<lambda>x. key x = k) xs"
  by (induction xs) auto

lemma find_filter_same: "List.find (\<lambda>x. key x = key e) (filter (\<lambda>x. key x \<noteq> key e) xs) = None"
  by (induction xs) auto

lemma keyed_list: "keyed_store key (list_get key) (list_put key) (\<lambda>xs. distinct (map key xs))"
proof unfold_locales
  show "list_get key (list_put key s e) k = (if k = key e then Some e else list_get key s k)" for s e k
    by (auto simp: list_get_def list_put_def find_append find_filter_same find_filter_other split: option.splits)
  show "distinct (map key (list_put key s e))" if "distinct (map key s)" for s e
    using that by (auto simp: list_put_def distinct_map_filter)
  show "key e = k" if "list_get key s k = Some e" for s k e
    using that by (auto simp: list_get_def find_Some_iff)
qed

lemma upsert_is_put: "upsert_lock_entry = list_put entry_coord"
  by (simp add: fun_eq_iff upsert_lock_entry_def list_put_def entry_coord_def)

lemma lock_get: "lock_entry_for lock dep = list_get entry_coord lock (dep_coord dep)"
  by (simp add: lock_entry_for_def list_get_def entry_coord_def dep_coord_def)

definition dep_artifact :: "dependency \<Rightarrow> rstring \<times> rstring" where
  "dep_artifact d = (dp_group d, dp_artifact_id d)"

lemma add_is_put: "add_dependency = list_put dep_artifact"
  by (simp add: fun_eq_iff add_dependency_def list_put_def dep_artifact_def)

interpretation lock: keyed_store entry_coord "list_get entry_coord" upsert_lock_entry "\<lambda>l. distinct (map entry_coord l)"
  unfolding upsert_is_put by (rule keyed_list)

interpretation deps: keyed_store dep_artifact "list_get dep_artifact" add_dependency "\<lambda>l. distinct (map dep_artifact l)"
  unfolding add_is_put by (rule keyed_list)

text \<open>
  C16. The lock file refines a map from coordinates to entries: however many entries are
  written, a lookup finds the last one written for the coordinates, or the one that was
  there before, and coordinates stay distinct if they were.
\<close>

theorem lock_refines_map:
  "lock_entry_for (foldl upsert_lock_entry l es) dep
     = (foldl (\<lambda>m e. m(entry_coord e \<mapsto> e)) (list_get entry_coord l) es) (dep_coord dep)
   \<and> (distinct (map entry_coord l) \<longrightarrow> distinct (map entry_coord (foldl upsert_lock_entry l es)))"
proof -
  have "list_get entry_coord (foldl upsert_lock_entry l es) = foldl (\<lambda>m e. m(entry_coord e \<mapsto> e)) (list_get entry_coord l) es"
    by (induction es arbitrary: l) (simp_all add: lock.refines_map)
  then show ?thesis by (simp add: lock_get lock.inv_puts)
qed

definition sample_dep :: dependency where
  "sample_dep = \<lparr>dp_group = lit ''org'', dp_artifact_id = lit ''json'', dp_version = lit ''1.2'', dp_url = None,
     dp_repository = None, dp_sha256 = None\<rparr>"

definition sample_entry :: "rstring \<Rightarrow> lock_entry" where
  "sample_entry h = \<lparr>le_group = lit ''org'', le_artifact_id = lit ''json'', le_version = lit ''1.2'',
     le_url = lit ''https://central.tinox-lang.de/api/v1/org/json/1.2'', le_sha256 = h\<rparr>"

theorem lock_refines_map_witness:
  "map_option le_sha256 (lock_entry_for (foldl upsert_lock_entry [] [sample_entry (lit ''aa''), sample_entry (lit ''bb'')]) sample_dep)
     = Some (lit ''bb'')
   \<and> distinct (map entry_coord (foldl upsert_lock_entry [] [sample_entry (lit ''aa''), sample_entry (lit ''bb'')]))"
  using lock_refines_map [of "[]" "[sample_entry (lit ''aa''), sample_entry (lit ''bb'')]" sample_dep]
  by (simp add: entry_coord_def dep_coord_def sample_entry_def sample_dep_def)

text \<open>
  What the lock pins. Once the entry of an installed dependency is in the lock, whatever is
  written for other coordinates afterwards, the same dependency from the same URL is
  accepted exactly with the checksum that was recorded, up to the case of its hexadecimal
  digits; a checksum in the manifest takes precedence over the lock.
\<close>

theorem lock_pins_checksum:
  assumes "entry_coord e = dep_coord dep" and "\<forall>x \<in> set es. entry_coord x \<noteq> dep_coord dep"
  shows "verify_checksum dep (le_url e) (foldl upsert_lock_entry (upsert_lock_entry l e) es) False actual = Inr ()
     \<longleftrightarrow> eq_ignore_ascii_case (case dp_sha256 dep of Some h \<Rightarrow> h | None \<Rightarrow> le_sha256 e) actual"
proof -
  have "List.find (\<lambda>x. entry_coord x = dep_coord dep) (rev es) = None" using assms(2) by (auto simp: find_None_iff)
  then have "lock_entry_for (foldl upsert_lock_entry (upsert_lock_entry l e) es) dep = Some e"
    using assms(1) by (simp add: lock_get lock.get_puts lock.get_put)
  then show ?thesis by (auto simp: verify_checksum_def expected_checksum_def split: option.splits)
qed

theorem lock_pins_checksum_witness:
  "verify_checksum sample_dep (le_url (sample_entry (lit ''ab''))) (upsert_lock_entry [] (sample_entry (lit ''ab''))) False (lit ''AB'')
     = Inr ()
   \<and> verify_checksum sample_dep (le_url (sample_entry (lit ''ab''))) (upsert_lock_entry [] (sample_entry (lit ''ab''))) False (lit ''cd'')
     \<noteq> Inr ()"
  using lock_pins_checksum [of "sample_entry (lit ''ab'')" sample_dep "[]" "[]" "lit ''AB''"]
    lock_pins_checksum [of "sample_entry (lit ''ab'')" sample_dep "[]" "[]" "lit ''cd''"]
  by (simp add: entry_coord_def dep_coord_def sample_entry_def sample_dep_def eq_ignore_ascii_case_def ascii_lower_def
      is_ascii_upper_def)

section \<open>Paths stay inside their root\<close>

lemma segments_name: "SLASH \<notin> set q \<Longrightarrow> segments q = [q]"
proof -
  assume "SLASH \<notin> set q"
  then have "takeWhile (\<lambda>x. x \<noteq> SLASH) q = q" "dropWhile (\<lambda>x. x \<noteq> SLASH) q = []"
    by (auto simp: takeWhile_eq_all_conv intro!: dropWhile_all)
  then show ?thesis by (subst segments.simps) simp
qed

lemma segments_snoc: "SLASH \<notin> set q \<Longrightarrow> segments (p @ SLASH # q) = segments p @ [q]"
proof (induction p rule: segments.induct)
  case (1 p)
  show ?case
  proof (cases "SLASH \<in> set p")
    case True
    then obtain a b where p: "p = a @ SLASH # b" "SLASH \<notin> set a" by (meson split_list_first)
    have w: "takeWhile (\<lambda>x. x \<noteq> SLASH) (a @ SLASH # c) = a" "dropWhile (\<lambda>x. x \<noteq> SLASH) (a @ SLASH # c) = SLASH # c" for c
      using p(2) by (induction a) auto
    have "segments (b @ SLASH # q) = segments b @ [q]" by (rule 1) (use p w 1(2) in simp_all)
    then show ?thesis using p(1) w by (subst (1 2) segments.simps) simp
  next
    case False
    then have w: "takeWhile (\<lambda>x. x \<noteq> SLASH) (p @ SLASH # q) = p" "dropWhile (\<lambda>x. x \<noteq> SLASH) (p @ SLASH # q) = SLASH # q"
      by (induction p) auto
    then show ?thesis using False 1(2) by (subst segments.simps) (simp add: segments_name)
  qed
qed

text \<open>A name that \<open>sanitize_path_component\<close> lets pass is one component below what it is joined to.\<close>

definition plain_segment :: "rstring \<Rightarrow> bool" where
  "plain_segment q \<longleftrightarrow> q \<noteq> [] \<and> q \<noteq> lit ''.'' \<and> q \<noteq> lit ''..'' \<and> SLASH \<notin> set q"

lemma components_join: "plain_segment q \<Longrightarrow> components (path_join p q) = components p @ [q]"
proof -
  assume q: "plain_segment q"
  then have s: "SLASH \<notin> set q" and c: "q \<noteq> []" "q \<noteq> lit ''.''" by (auto simp: plain_segment_def)
  have h: "\<not> (q \<noteq> [] \<and> hd q = SLASH)" using s by (cases q) auto
  show ?thesis
  proof (cases "p = [] \<or> last p = SLASH")
    case False
    then show ?thesis using h c segments_snoc [OF s, of p] by (auto simp: path_join_def components_def)
  next
    case True
    show ?thesis
    proof (cases "p = []")
      case True
      have "components ([] :: rstring) = []" by (simp add: components_def segments_name)
      then show ?thesis using True h c s by (auto simp: path_join_def components_def segments_name)
    next
      case ne: False
      then obtain p1 where p1: "p = p1 @ [SLASH]" using True by (metis append_butlast_last_id)
      have "components p = components p1" using segments_snoc [of "[]" p1] p1 by (simp add: components_def)
      moreover have "path_join p q = p1 @ SLASH # q" using p1 h by (auto simp: path_join_def)
      ultimately show ?thesis using c segments_snoc [OF s, of p1] by (simp add: components_def)
    qed
  qed
qed

lemma components_join_all: "list_all plain_segment qs \<Longrightarrow> components (join_all p qs) = components p @ qs"
  by (induction qs arbitrary: p) (simp_all add: join_all_def components_join)

lemma sanitize_ok: "sanitize_path_component q f = Inr u \<Longrightarrow> plain_segment q"
  by (auto simp: sanitize_path_component_def plain_segment_def split: if_splits)

lemma bind_result_Inr: "bind_result r f = Inr y \<longleftrightarrow> (\<exists>x. r = Inr x \<and> f x = Inr y)"
  by (simp add: bind_result_def split: sum.splits)

lemma fixed_segments: "plain_segment (lit ''.tinox'')" "plain_segment (lit ''deps'')" "plain_segment (lit ''repository'')"
  by (simp_all add: plain_segment_def)

definition coord_segments :: "dependency \<Rightarrow> rstring list" where
  "coord_segments d = [dp_group d, dp_artifact_id d, dp_version d]"

lemma dep_install_dir_components:
  assumes "dep_install_dir root dep = Inr dir"
  shows "components dir = components root @ [lit ''.tinox'', lit ''deps''] @ coord_segments dep
     \<and> list_all plain_segment (coord_segments dep)"
proof -
  have s: "list_all plain_segment (coord_segments dep)"
    using assms by (auto simp: dep_install_dir_def bind_result_Inr coord_segments_def dest: sanitize_ok)
  have "dir = join_all root ([lit ''.tinox'', lit ''deps''] @ coord_segments dep)"
    using assms by (auto simp: dep_install_dir_def bind_result_Inr coord_segments_def)
  then show ?thesis using s fixed_segments components_join_all [of "[lit ''.tinox'', lit ''deps''] @ coord_segments dep" root]
    by (simp del: lit_simps)
qed

lemma global_install_dir_components:
  assumes "global_dep_install_dir home dep = Inr dir"
  shows "\<exists>h. home = Some h \<and> components dir = components h @ [lit ''.tinox'', lit ''repository'',
      case dp_repository dep of Some i \<Rightarrow> i | None \<Rightarrow> lit ''central''] @ coord_segments dep
     \<and> list_all plain_segment ((case dp_repository dep of Some i \<Rightarrow> i | None \<Rightarrow> lit ''central'') # coord_segments dep)"
proof -
  let ?r = "case dp_repository dep of Some i \<Rightarrow> i | None \<Rightarrow> lit ''central''"
  have s: "list_all plain_segment (?r # coord_segments dep)"
    using assms by (auto simp: global_dep_install_dir_def Let_def bind_result_Inr coord_segments_def dest: sanitize_ok)
  obtain h where h: "home = Some h" "dir = join_all h ([lit ''.tinox'', lit ''repository'', ?r] @ coord_segments dep)"
    using assms by (auto simp: global_dep_install_dir_def Let_def bind_result_Inr coord_segments_def split: option.splits)
  have "list_all plain_segment ([lit ''.tinox'', lit ''repository'', ?r] @ coord_segments dep)"
    using s fixed_segments by (simp del: lit_simps)
  then show ?thesis using h s components_join_all by blast
qed

text \<open>
  C17. A dependency is installed below its root and nowhere else, whatever its manifest says: the
  install directory has exactly the three components of the coordinates more than
  \<^verbatim>\<open>.tinox/deps\<close> of the project (or than the repository's directory in the global cache), none
  of which is \<^verbatim>\<open>..\<close> or contains a separator; and different coordinates never share a directory.
\<close>

theorem install_dir_contained:
  assumes "resolved_install_dir root home dep = Inr dir"
  shows "\<exists>base fixed. base \<in> {root} \<union> set_option home \<and> components dir = components base @ fixed @ coord_segments dep
       \<and> lit ''..'' \<notin> set (fixed @ coord_segments dep) \<and> (\<forall>c \<in> set (fixed @ coord_segments dep). SLASH \<notin> set c \<and> c \<noteq> [])
       \<and> (\<forall>dep1. resolved_install_dir root home dep1 = Inr dir \<longrightarrow> dep_coord dep1 = dep_coord dep)"
proof -
  have last3: "xs @ coord_segments a = ys @ coord_segments b \<Longrightarrow> dep_coord a = dep_coord b" for xs ys a b
    by (auto simp: coord_segments_def dep_coord_def dest: arg_cong [where f = rev])
  have comp: "\<exists>base fixed. base \<in> {root} \<union> set_option home \<and> components dir = components base @ fixed @ coord_segments d
      \<and> list_all plain_segment (fixed @ coord_segments d)" if r: "resolved_install_dir root home d = Inr dir" for d
  proof (cases "dp_url d")
    case (Some u)
    then have "dep_install_dir root d = Inr dir" using r by (simp add: resolved_install_dir_def)
    from dep_install_dir_components [OF this] show ?thesis using fixed_segments
      by (intro exI [of _ root] exI [of _ "[lit ''.tinox'', lit ''deps'']"]) (simp del: lit_simps)
  next
    case None
    then have "global_dep_install_dir home d = Inr dir" using r by (simp add: resolved_install_dir_def)
    then obtain h where h: "home = Some h" "components dir = components h @ [lit ''.tinox'', lit ''repository'',
        case dp_repository d of Some i \<Rightarrow> i | None \<Rightarrow> lit ''central''] @ coord_segments d"
      "list_all plain_segment ((case dp_repository d of Some i \<Rightarrow> i | None \<Rightarrow> lit ''central'') # coord_segments d)"
      using global_install_dir_components by blast
    then show ?thesis using fixed_segments
      by (intro exI [of _ h] exI [of _ "[lit ''.tinox'', lit ''repository'', case dp_repository d of Some i \<Rightarrow> i | None \<Rightarrow> lit ''central'']"])
        (simp del: lit_simps)
  qed
  obtain base fixed where b: "base \<in> {root} \<union> set_option home" "components dir = components base @ fixed @ coord_segments dep"
    "list_all plain_segment (fixed @ coord_segments dep)" using comp [OF assms] by blast
  have "dep_coord dep1 = dep_coord dep" if "resolved_install_dir root home dep1 = Inr dir" for dep1
    using comp [OF that] b(2) last3 by (metis append_assoc)
  moreover have "plain_segment c" if "c \<in> set (fixed @ coord_segments dep)" for c
    using b(3) that by (simp add: list_all_iff)
  ultimately show ?thesis using b(1,2)
    by (intro exI [of _ base] exI [of _ fixed]) (auto simp: plain_segment_def)
qed

theorem install_dir_contained_witness:
  "resolved_install_dir (lit ''/p'') (Some (lit ''/h'')) (sample_dep\<lparr>dp_url := Some (lit ''u'')\<rparr>) = Inr (lit ''/p/.tinox/deps/org/json/1.2'')
   \<and> (\<exists>base fixed. base \<in> {lit ''/p'', lit ''/h''}
        \<and> components (lit ''/p/.tinox/deps/org/json/1.2'') = components base @ fixed @ map lit [''org'', ''json'', ''1.2''])"
proof -
  have r: "resolved_install_dir (lit ''/p'') (Some (lit ''/h'')) (sample_dep\<lparr>dp_url := Some (lit ''u'')\<rparr>)
      = Inr (lit ''/p/.tinox/deps/org/json/1.2'')" by code_simp
  show ?thesis using r install_dir_contained [OF r]
    by (auto simp: coord_segments_def sample_dep_def simp del: lit_simps)
qed

end
