(* ===== verification/Tinox_Pm_Manifest.thy ===== *)
theory Tinox_Pm_Manifest
  imports Tinox_Pm_Lock
begin

text \<open>
  The manifest \<^verbatim>\<open>tinox.toml\<close> as \<^verbatim>\<open>parse_manifest\<close> reads it and \<^verbatim>\<open>write_manifest\<close> rewrites it
  (\<^verbatim>\<open>src/crates/tinox/src/pm.rs\<close>). The reader is a fold over the trimmed lines, the writer keeps the lines
  it does not own and appends the tables it rebuilds. The files themselves are arguments and results.
\<close>

abbreviation DQ :: rchar where "DQ \<equiv> 34"

section \<open>Reading\<close>

datatype manifest_section = MS_None | MS_Package | MS_Dependency | MS_Repository | MS_Other

definition manifest_section_for :: "rstring \<Rightarrow> manifest_section" where
  "manifest_section_for header =
     (if header = lit ''[[dependencies]]'' then MS_Dependency
      else if header = lit ''[[repositories]]'' then MS_Repository
      else if header = lit ''[package]'' then MS_Package
      else MS_Other)"

definition parse_toml_kv :: "rstring \<Rightarrow> (rstring \<times> rstring) option" where
  "parse_toml_kv line = (case split_once 61 line of
     None \<Rightarrow> None
   | Some (key, val) \<Rightarrow> Some (trim key, trim_matches DQ (trim val)))"

definition empty_dep :: dependency where
  "empty_dep = \<lparr>dp_group = [], dp_artifact_id = [], dp_version = [], dp_url = None, dp_repository = None, dp_sha256 = None\<rparr>"

definition empty_repo :: repository where
  "empty_repo = \<lparr>rp_id = [], rp_url = []\<rparr>"

text \<open>The variables of \<^verbatim>\<open>parse_manifest\<close>.\<close>

record manifest_state =
  ms_section :: manifest_section
  ms_name :: rstring
  ms_version :: rstring
  ms_description :: rstring
  ms_have_package :: bool
  ms_dependencies :: "dependency list"
  ms_cur :: dependency
  ms_have_cur :: bool
  ms_repositories :: "repository list"
  ms_cur_repo :: repository
  ms_have_cur_repo :: bool

definition manifest_init :: manifest_state where
  "manifest_init = \<lparr>ms_section = MS_None, ms_name = [], ms_version = [], ms_description = [], ms_have_package = False,
     ms_dependencies = [], ms_cur = empty_dep, ms_have_cur = False,
     ms_repositories = [], ms_cur_repo = empty_repo, ms_have_cur_repo = False\<rparr>"

definition close_dep :: "manifest_state \<Rightarrow> manifest_state" where
  "close_dep s = (if ms_have_cur s
     then s\<lparr>ms_dependencies := ms_dependencies s @ [ms_cur s], ms_cur := empty_dep, ms_have_cur := False\<rparr> else s)"

definition close_repo :: "manifest_state \<Rightarrow> manifest_state" where
  "close_repo s = (if ms_have_cur_repo s
     then s\<lparr>ms_repositories := ms_repositories s @ [ms_cur_repo s], ms_cur_repo := empty_repo, ms_have_cur_repo := False\<rparr> else s)"

definition manifest_header :: "rstring \<Rightarrow> manifest_state \<Rightarrow> manifest_state" where
  "manifest_header line s =
     (let sec = manifest_section_for line; s1 = (close_repo (close_dep s))\<lparr>ms_section := sec\<rparr> in
      case sec of
        MS_Dependency \<Rightarrow> s1\<lparr>ms_have_cur := True\<rparr>
      | MS_Repository \<Rightarrow> s1\<lparr>ms_have_cur_repo := True\<rparr>
      | MS_Package \<Rightarrow> s1\<lparr>ms_have_package := True\<rparr>
      | _ \<Rightarrow> s1)"

definition package_key :: "rstring \<Rightarrow> rstring \<Rightarrow> manifest_state \<Rightarrow> manifest_state" where
  "package_key key val s =
     (if key = lit ''name'' then s\<lparr>ms_name := val\<rparr>
      else if key = lit ''version'' then s\<lparr>ms_version := val\<rparr>
      else if key = lit ''description'' then s\<lparr>ms_description := val\<rparr>
      else s)"

definition dependency_key :: "rstring \<Rightarrow> rstring \<Rightarrow> dependency \<Rightarrow> dependency" where
  "dependency_key key val d =
     (if key = lit ''group'' then d\<lparr>dp_group := val\<rparr>
      else if key = lit ''artifactId'' then d\<lparr>dp_artifact_id := val\<rparr>
      else if key = lit ''version'' then d\<lparr>dp_version := val\<rparr>
      else if key = lit ''url'' \<and> val \<noteq> [] then d\<lparr>dp_url := Some val\<rparr>
      else if key = lit ''repository'' \<and> val \<noteq> [] then d\<lparr>dp_repository := Some val\<rparr>
      else if key = lit ''sha256'' \<and> val \<noteq> [] then d\<lparr>dp_sha256 := Some val\<rparr>
      else d)"

definition repository_key :: "rstring \<Rightarrow> rstring \<Rightarrow> repository \<Rightarrow> repository" where
  "repository_key key val r =
     (if key = lit ''id'' then r\<lparr>rp_id := val\<rparr>
      else if key = lit ''url'' then r\<lparr>rp_url := val\<rparr>
      else r)"

definition manifest_kv :: "rstring \<Rightarrow> rstring \<Rightarrow> manifest_state \<Rightarrow> manifest_state" where
  "manifest_kv key val s = (case ms_section s of
     MS_Package \<Rightarrow> package_key key val s
   | MS_Dependency \<Rightarrow> s\<lparr>ms_cur := dependency_key key val (ms_cur s)\<rparr>
   | MS_Repository \<Rightarrow> s\<lparr>ms_cur_repo := repository_key key val (ms_cur_repo s)\<rparr>
   | _ \<Rightarrow> s)"

text \<open>The body of the loop, on a line as it is; \<open>is_header\<close> is its first test.\<close>

definition is_header :: "rstring \<Rightarrow> bool" where
  "is_header line \<longleftrightarrow> starts_with (lit ''['') line"

definition manifest_line :: "manifest_state \<Rightarrow> rstring \<Rightarrow> manifest_state" where
  "manifest_line s raw_line =
     (let line = trim raw_line in
      if is_header line then manifest_header line s
      else case parse_toml_kv line of
             None \<Rightarrow> s
           | Some (key, val) \<Rightarrow> manifest_kv key val s)"

definition manifest_finish :: "manifest_state \<Rightarrow> tinox_manifest" where
  "manifest_finish s =
     \<lparr>mf_package = (if ms_have_package s
        then Some \<lparr>pk_name = ms_name s, pk_version = ms_version s, pk_description = ms_description s\<rparr> else None),
      mf_dependencies = ms_dependencies s @ (if ms_have_cur s then [ms_cur s] else []),
      mf_repositories = ms_repositories s @ (if ms_have_cur_repo s then [ms_cur_repo s] else [])\<rparr>"

definition parse_manifest :: "rstring \<Rightarrow> tinox_manifest" where
  "parse_manifest content = manifest_finish (foldl manifest_line manifest_init (lines content))"

section \<open>Writing\<close>

definition kv_line :: "rstring \<Rightarrow> rstring \<Rightarrow> rstring" where
  "kv_line key val = key @ lit '' = '' @ [DQ] @ val @ [DQ]"

definition kv_opt :: "rstring \<Rightarrow> rstring option \<Rightarrow> rstring" where
  "kv_opt key v = (case v of None \<Rightarrow> [] | Some val \<Rightarrow> kv_line key val @ [LF])"

definition format_dependency :: "dependency \<Rightarrow> rstring" where
  "format_dependency d =
     lit ''[[dependencies]]'' @ [LF] @ kv_line (lit ''group'') (dp_group d) @ [LF]
     @ kv_line (lit ''artifactId'') (dp_artifact_id d) @ [LF] @ kv_line (lit ''version'') (dp_version d) @ [LF]
     @ kv_opt (lit ''url'') (dp_url d) @ kv_opt (lit ''repository'') (dp_repository d) @ kv_opt (lit ''sha256'') (dp_sha256 d)"

definition format_repository :: "repository \<Rightarrow> rstring" where
  "format_repository r =
     lit ''[[repositories]]'' @ [LF] @ kv_line (lit ''id'') (rp_id r) @ [LF] @ kv_line (lit ''url'') (rp_url r) @ [LF]"

definition package_lines :: "package \<Rightarrow> rstring list" where
  "package_lines p = [kv_line (lit ''name'') (pk_name p), kv_line (lit ''version'') (pk_version p),
     kv_line (lit ''description'') (pk_description p)]"

text \<open>The loop of \<^verbatim>\<open>write_manifest\<close>: the lines put out, the current section, \<^verbatim>\<open>saw_package_header\<close>.\<close>

definition owned_key :: "rstring \<Rightarrow> bool" where
  "owned_key line \<longleftrightarrow> (case parse_toml_kv line of
     Some (k, _) \<Rightarrow> k = lit ''name'' \<or> k = lit ''version'' \<or> k = lit ''description'' | None \<Rightarrow> False)"

type_synonym writer = "rstring list \<times> manifest_section \<times> bool"

definition write_line :: "package option \<Rightarrow> writer \<Rightarrow> rstring \<Rightarrow> writer" where
  "write_line pkg w raw_line = (case w of (out, section, saw) \<Rightarrow>
     let line = trim raw_line in
     if is_header line then
       (let sec = manifest_section_for line in
        if sec = MS_Dependency \<or> sec = MS_Repository then (out, sec, saw)
        else if sec = MS_Package then
          (out @ [raw_line] @ (case pkg of Some p \<Rightarrow> package_lines p | None \<Rightarrow> []), sec, True)
        else (out @ [raw_line], sec, saw))
     else case section of
            MS_Dependency \<Rightarrow> (out, section, saw)
          | MS_Repository \<Rightarrow> (out, section, saw)
          | MS_Package \<Rightarrow> if owned_key line then (out, section, saw) else (out @ [raw_line], section, saw)
          | _ \<Rightarrow> (out @ [raw_line], section, saw))"

text \<open>The tables of one kind: a blank line, then the tables with a blank line between two of them.\<close>

definition tables :: "('a \<Rightarrow> rstring) \<Rightarrow> 'a list \<Rightarrow> rstring" where
  "tables f xs = (if xs = [] then [] else LF # butlast (concat (map (\<lambda>x. f x @ [LF]) xs)))"

definition kept_content :: "rstring list \<Rightarrow> rstring" where
  "kept_content out = (let content = join_lines out in
     if content \<noteq> [] \<and> last content \<noteq> LF then content @ [LF] else content)"

definition package_block :: "package \<Rightarrow> rstring" where
  "package_block p = lit ''[package]'' @ [LF] @ concat (map (\<lambda>l. l @ [LF]) (package_lines p))"

definition write_manifest :: "rstring \<Rightarrow> tinox_manifest \<Rightarrow> rstring" where
  "write_manifest existing m =
     (case foldl (write_line (mf_package m)) ([], MS_None, False) (lines existing) of (out, _, saw) \<Rightarrow>
        kept_content out
        @ (if saw then [] else case mf_package m of Some p \<Rightarrow> package_block p | None \<Rightarrow> [])
        @ tables format_repository (mf_repositories m)
        @ tables format_dependency (mf_dependencies m))"

section \<open>Readers of lines\<close>

text \<open>
  A reader that folds over the lines of a text, sees them trimmed and skips blank ones. Such a reader
  cannot tell \<^verbatim>\<open>kept_content\<close> from the lines it was made of.
\<close>

locale line_reader =
  fixes f :: "'s \<Rightarrow> rstring \<Rightarrow> 's"
  assumes blank: "f s [] = s"
    and trimmed: "trim a = trim b \<Longrightarrow> f s a = f s b"
begin

definition rd :: "'s \<Rightarrow> rstring \<Rightarrow> 's" where
  "rd s t = foldl f s (lines t)"

lemma rd_Nil: "rd s [] = s"
  by (simp add: rd_def)

lemma rd_line: "LF \<notin> set l \<Longrightarrow> rd s (l @ LF # u) = rd (f s l) u"
  using trimmed [OF strip_cr_trim, of s l] by (simp add: rd_def lines_line)

lemma rd_blank: "rd s (LF # u) = rd s u"
  using rd_line [of "[]" s u] by (simp add: blank)

lemma rd_lines:
  "(\<And>l. l \<in> set ls \<Longrightarrow> LF \<notin> set l) \<Longrightarrow> rd s (concat (map (\<lambda>l. l @ [LF]) ls) @ u) = rd (foldl f s ls) u"
  by (induction ls arbitrary: s) (simp_all add: rd_line)

lemma rd_kept:
  assumes "\<And>l. l \<in> set out \<Longrightarrow> LF \<notin> set l"
  shows "rd s (kept_content out @ u) = rd (foldl f s out) u"
proof (cases out rule: rev_cases)
  case (snoc ls l)
  have j: "join_lines (ls @ [l]) = concat (map (\<lambda>l. l @ [LF]) ls) @ l" for ls and l :: rstring
    by (induction ls rule: join_lines.induct) simp_all
  have LF: "LF \<notin> set l" using assms snoc by simp
  show ?thesis
  proof (cases "l = []")
    case False
    moreover have "last l \<noteq> LF" using LF last_in_set [OF False] by metis
    ultimately have "kept_content out = concat (map (\<lambda>l. l @ [LF]) out)"
      using snoc by (simp add: kept_content_def j Let_def)
    then show ?thesis using rd_lines [OF assms] by simp
  next
    case True
    have "join_lines out = concat (map (\<lambda>l. l @ [LF]) ls)" using snoc True j [of ls l] by simp
    moreover have "ls \<noteq> [] \<Longrightarrow> last (concat (map (\<lambda>l. l @ [LF]) ls)) = LF" by (cases ls rule: rev_cases) simp_all
    ultimately have "kept_content out = concat (map (\<lambda>l. l @ [LF]) ls)"
      by (cases "ls = []") (simp_all add: kept_content_def Let_def)
    then show ?thesis using rd_lines [of ls s u] assms snoc True blank by simp
  qed
qed (simp add: kept_content_def Let_def)

end

section \<open>What the writer can write\<close>

definition plain_value :: "rstring \<Rightarrow> bool" where
  "plain_value v \<longleftrightarrow> LF \<notin> set v"

definition good_value :: "rstring \<Rightarrow> bool" where
  "good_value v \<longleftrightarrow> plain_value v \<and> (v \<noteq> [] \<longrightarrow> hd v \<noteq> DQ \<and> last v \<noteq> DQ)"

definition good_option :: "rstring option \<Rightarrow> bool" where
  "good_option v \<longleftrightarrow> (case v of None \<Rightarrow> True | Some x \<Rightarrow> good_value x \<and> x \<noteq> [])"

definition good_package :: "package \<Rightarrow> bool" where
  "good_package p \<longleftrightarrow> good_value (pk_name p) \<and> good_value (pk_version p) \<and> good_value (pk_description p)"

definition good_dependency :: "dependency \<Rightarrow> bool" where
  "good_dependency d \<longleftrightarrow> good_value (dp_group d) \<and> good_value (dp_artifact_id d) \<and> good_value (dp_version d)
     \<and> good_option (dp_url d) \<and> good_option (dp_repository d) \<and> good_option (dp_sha256 d)"

definition good_repository :: "repository \<Rightarrow> bool" where
  "good_repository r \<longleftrightarrow> good_value (rp_id r) \<and> good_value (rp_url r)"

definition good_manifest :: "tinox_manifest \<Rightarrow> bool" where
  "good_manifest m \<longleftrightarrow> (case mf_package m of None \<Rightarrow> True | Some p \<Rightarrow> good_package p)
     \<and> list_all good_dependency (mf_dependencies m) \<and> list_all good_repository (mf_repositories m)"

definition has_package_header :: "rstring \<Rightarrow> bool" where
  "has_package_header content \<longleftrightarrow> lit ''[package]'' \<in> set (map trim (lines content))"

section \<open>Reading one line that was written\<close>

lemma split_once_append: "c \<notin> set a \<Longrightarrow> split_once c (a @ c # b) = Some (a, b)"
  by (induction a) (auto simp: split_once_def split: if_splits)

lemma parse_toml_kv_line:
  assumes "61 \<notin> set key" "trim (key @ lit '' '') = key" "good_value v"
  shows "parse_toml_kv (kv_line key v) = Some (key, v)"
proof -
  let ?v = "lit '' '' @ [DQ] @ v @ [DQ]"
  have "split_once 61 (kv_line key v) = Some (key @ lit '' '', ?v)"
    using assms(1) split_once_append [of 61 "key @ lit '' ''" ?v] by (simp add: kv_line_def)
  moreover have "trim ?v = [DQ] @ v @ [DQ]"
    using trim_by_surround [of "lit '' ''" is_whitespace "[]" "[DQ] @ v @ [DQ]"]
    by (simp add: trim_def is_whitespace_def tight_def)
  moreover have "trim_matches DQ ([DQ] @ v @ [DQ]) = v"
    unfolding trim_matches_def
    using assms(3) by (intro trim_by_surround) (auto simp: tight_def good_value_def)
  ultimately show ?thesis using assms(2) by (simp add: parse_toml_kv_def)
qed

definition manifest_keys :: "rstring set" where
  "manifest_keys = lit ` {''name'', ''version'', ''description'', ''group'', ''artifactId'', ''url'', ''repository'', ''sha256'', ''id''}"

lemma key_props:
  assumes "key \<in> manifest_keys"
  shows "61 \<notin> set key" "trim (key @ lit '' '') = key" "key \<noteq> []" "\<not> is_whitespace (hd key)" "hd key \<noteq> 91" "LF \<notin> set key"
  using assms by (auto simp: manifest_keys_def trim_def trim_by_def trim_end_by_def is_whitespace_def)

lemma trim_kv_line:
  assumes "key \<in> manifest_keys" shows "trim (kv_line key v) = kv_line key v"
  unfolding trim_def using key_props [OF assms]
  by (intro trim_by_tight) (auto simp: tight_def kv_line_def is_whitespace_def [of DQ])

lemma manifest_line_kv:
  assumes "key \<in> manifest_keys" "good_value v"
  shows "manifest_line s (kv_line key v) = manifest_kv key v s"
proof -
  have "\<not> is_header (kv_line key v)"
    using key_props [OF assms(1)] by (cases key) (auto simp: is_header_def starts_with_def kv_line_def)
  then show ?thesis
    using assms key_props [OF assms(1)]
    by (simp add: manifest_line_def trim_kv_line parse_toml_kv_line)
qed

lemma strip_cr_kv_line: "strip_cr (kv_line key v) = kv_line key v"
  by (simp add: strip_cr_def kv_line_def)

lemma manifest_line_blank [simp]: "manifest_line s [] = s"
  by (simp add: manifest_line_def is_header_def starts_with_def parse_toml_kv_def split_once_def)

lemma manifest_line_trim: "trim a = trim b \<Longrightarrow> manifest_line s a = manifest_line s b"
  by (simp add: manifest_line_def)

interpretation manifest: line_reader manifest_line
  by unfold_locales (simp, rule manifest_line_trim)

lemma parse_manifest_rd: "parse_manifest t = manifest_finish (manifest.rd manifest_init t)"
  by (simp add: parse_manifest_def manifest.rd_def)


section \<open>Reading back the tables\<close>

text \<open>In the reader an open table is not empty only while it is the current section.\<close>

definition closed_empty :: "manifest_state \<Rightarrow> bool" where
  "closed_empty s \<longleftrightarrow> (\<not> ms_have_cur s \<longrightarrow> ms_cur s = empty_dep) \<and> (\<not> ms_have_cur_repo s \<longrightarrow> ms_cur_repo s = empty_repo)
     \<and> (ms_section s = MS_Dependency \<longrightarrow> ms_have_cur s) \<and> (ms_section s = MS_Repository \<longrightarrow> ms_have_cur_repo s)"

lemma closed_empty_init: "closed_empty manifest_init"
  by (simp add: closed_empty_def manifest_init_def)

lemma closed_empty_header: "closed_empty s \<Longrightarrow> closed_empty (manifest_header line s)"
  by (auto simp: closed_empty_def manifest_header_def close_dep_def close_repo_def Let_def split: manifest_section.splits)

lemma closed_empty_kv: "closed_empty s \<Longrightarrow> closed_empty (manifest_kv key val s)"
  by (auto simp: closed_empty_def manifest_kv_def package_key_def split: manifest_section.splits)

lemma closed_empty_line: "closed_empty s \<Longrightarrow> closed_empty (manifest_line s line)"
  by (simp add: manifest_line_def Let_def closed_empty_header closed_empty_kv split: option.split prod.split)

lemma is_header_lit:
  "is_header (lit ''[[dependencies]]'')" "is_header (lit ''[[repositories]]'')" "is_header (lit ''[package]'')"
  by (simp_all add: is_header_def starts_with_def)

lemma trim_header_lit:
  "trim (lit ''[[dependencies]]'') = lit ''[[dependencies]]''" "trim (lit ''[[repositories]]'') = lit ''[[repositories]]''"
  "trim (lit ''[package]'') = lit ''[package]''"
  unfolding trim_def by (intro trim_by_tight; simp add: tight_def is_whitespace_def)+

lemma manifest_line_header:
  "manifest_line s (lit ''[[dependencies]]'') = manifest_header (lit ''[[dependencies]]'') s"
  "manifest_line s (lit ''[[repositories]]'') = manifest_header (lit ''[[repositories]]'') s"
  "manifest_line s (lit ''[package]'') = manifest_header (lit ''[package]'') s"
  by (simp_all add: manifest_line_def trim_header_lit is_header_lit Let_def del: lit_simps)

lemma LF_kv_line: "key \<in> manifest_keys \<Longrightarrow> good_value v \<Longrightarrow> LF \<notin> set (kv_line key v)"
  using key_props [of key] by (auto simp: kv_line_def good_value_def plain_value_def)

lemma rd_kv:
  assumes "key \<in> manifest_keys" "good_value v"
  shows "manifest.rd s (kv_line key v @ LF # u) = manifest.rd (manifest_kv key v s) u"
  using manifest.rd_line [OF LF_kv_line [OF assms]] by (simp add: manifest_line_kv [OF assms])

lemma rd_kv_opt:
  assumes "key \<in> manifest_keys" "good_option v"
  shows "manifest.rd s (kv_opt key v @ u) = manifest.rd (case v of None \<Rightarrow> s | Some x \<Rightarrow> manifest_kv key x s) u"
  using assms by (auto simp: kv_opt_def good_option_def rd_kv split: option.splits)

lemma LF_header:
  "LF \<notin> set (lit ''[[dependencies]]'')" "LF \<notin> set (lit ''[[repositories]]'')" "LF \<notin> set (lit ''[package]'')"
  by simp_all

lemma rd_header:
  "manifest.rd s (lit ''[[dependencies]]'' @ LF # u) = manifest.rd (manifest_header (lit ''[[dependencies]]'') s) u"
  "manifest.rd s (lit ''[[repositories]]'' @ LF # u) = manifest.rd (manifest_header (lit ''[[repositories]]'') s) u"
  "manifest.rd s (lit ''[package]'' @ LF # u) = manifest.rd (manifest_header (lit ''[package]'') s) u"
  by (simp_all only: manifest.rd_line [OF LF_header(1)] manifest.rd_line [OF LF_header(2)]
      manifest.rd_line [OF LF_header(3)] manifest_line_header)

definition open_dep :: "dependency \<Rightarrow> manifest_state \<Rightarrow> manifest_state" where
  "open_dep d s = (close_repo (close_dep s))\<lparr>ms_section := MS_Dependency, ms_have_cur := True, ms_cur := d\<rparr>"

definition open_repo :: "repository \<Rightarrow> manifest_state \<Rightarrow> manifest_state" where
  "open_repo r s = (close_repo (close_dep s))\<lparr>ms_section := MS_Repository, ms_have_cur_repo := True, ms_cur_repo := r\<rparr>"

lemma manifest_keys_lit [simp]:
  "lit ''name'' \<in> manifest_keys" "lit ''version'' \<in> manifest_keys" "lit ''description'' \<in> manifest_keys"
  "lit ''group'' \<in> manifest_keys" "lit ''artifactId'' \<in> manifest_keys" "lit ''url'' \<in> manifest_keys"
  "lit ''repository'' \<in> manifest_keys" "lit ''sha256'' \<in> manifest_keys" "lit ''id'' \<in> manifest_keys"
  by (simp_all add: manifest_keys_def del: lit_simps)

lemma rd_repository:
  assumes "good_repository r"
  shows "manifest.rd s (format_repository r @ u) = manifest.rd (open_repo r s) u"
proof -
  have "manifest_kv (lit ''url'') (rp_url r) (manifest_kv (lit ''id'') (rp_id r) (manifest_header (lit ''[[repositories]]'') s)) = open_repo r s"
    by (simp add: manifest_kv_def manifest_header_def manifest_section_for_def open_repo_def repository_key_def Let_def)
  then show ?thesis
    using assms by (simp add: format_repository_def rd_header rd_kv good_repository_def del: lit_simps)
qed


lemma manifest_kv_open_dep: "manifest_kv key v (open_dep d s) = open_dep (dependency_key key v d) s"
  by (simp add: manifest_kv_def open_dep_def)

lemma manifest_header_open_dep:
  "closed_empty s \<Longrightarrow> manifest_header (lit ''[[dependencies]]'') s = open_dep empty_dep s"
  by (auto simp: manifest_header_def manifest_section_for_def open_dep_def Let_def closed_empty_def close_dep_def close_repo_def)

lemma dependency_key_text:
  "dependency_key (lit ''group'') v d = d\<lparr>dp_group := v\<rparr>"
  "dependency_key (lit ''artifactId'') v d = d\<lparr>dp_artifact_id := v\<rparr>"
  "dependency_key (lit ''version'') v d = d\<lparr>dp_version := v\<rparr>"
  "v \<noteq> [] \<Longrightarrow> dependency_key (lit ''url'') v d = d\<lparr>dp_url := Some v\<rparr>"
  "v \<noteq> [] \<Longrightarrow> dependency_key (lit ''repository'') v d = d\<lparr>dp_repository := Some v\<rparr>"
  "v \<noteq> [] \<Longrightarrow> dependency_key (lit ''sha256'') v d = d\<lparr>dp_sha256 := Some v\<rparr>"
  by (simp_all add: dependency_key_def)

lemma rd_opt_dep:
  assumes "key \<in> manifest_keys" "good_option v"
  shows "manifest.rd (open_dep d s) (kv_opt key v @ u)
     = manifest.rd (open_dep (case v of None \<Rightarrow> d | Some x \<Rightarrow> dependency_key key x d) s) u"
  using rd_kv_opt [OF assms] by (simp add: manifest_kv_open_dep split: option.split)

lemma rd_dependency:
  assumes "good_dependency d" "closed_empty s"
  shows "manifest.rd s (format_dependency d @ u) = manifest.rd (open_dep d s) u"
proof -
  let ?o = "\<lambda>key v d. case v of None \<Rightarrow> d | Some x \<Rightarrow> dependency_key key x d"
  let ?d = "empty_dep\<lparr>dp_group := dp_group d, dp_artifact_id := dp_artifact_id d, dp_version := dp_version d\<rparr>"
  have "?o (lit ''sha256'') (dp_sha256 d) (?o (lit ''repository'') (dp_repository d) (?o (lit ''url'') (dp_url d) ?d)) = d"
    using assms(1)
    by (cases d) (simp add: good_dependency_def good_option_def empty_dep_def dependency_key_text del: lit_simps split: option.splits)
  then show ?thesis
    using assms
    by (simp add: format_dependency_def rd_header rd_kv rd_opt_dep good_dependency_def manifest_kv_open_dep
        manifest_header_open_dep dependency_key_text del: lit_simps)
qed

text \<open>What the state will make a manifest of, as lists that only grow.\<close>

definition all_deps :: "manifest_state \<Rightarrow> dependency list" where
  "all_deps s = ms_dependencies s @ (if ms_have_cur s then [ms_cur s] else [])"

definition all_repos :: "manifest_state \<Rightarrow> repository list" where
  "all_repos s = ms_repositories s @ (if ms_have_cur_repo s then [ms_cur_repo s] else [])"

definition pkg_part :: "manifest_state \<Rightarrow> bool \<times> rstring \<times> rstring \<times> rstring" where
  "pkg_part s = (ms_have_package s, ms_name s, ms_version s, ms_description s)"

lemma manifest_finish_parts:
  "manifest_finish s = \<lparr>mf_package = (case pkg_part s of (h, n, v, d) \<Rightarrow>
     if h then Some \<lparr>pk_name = n, pk_version = v, pk_description = d\<rparr> else None),
     mf_dependencies = all_deps s, mf_repositories = all_repos s\<rparr>"
  by (simp add: manifest_finish_def pkg_part_def all_deps_def all_repos_def)

lemma open_dep_parts:
  "closed_empty s \<Longrightarrow> closed_empty (open_dep d s)" "all_deps (open_dep d s) = all_deps s @ [d]"
  "all_repos (open_dep d s) = all_repos s" "pkg_part (open_dep d s) = pkg_part s"
  by (auto simp: closed_empty_def open_dep_def close_dep_def close_repo_def all_deps_def all_repos_def pkg_part_def)

lemma open_repo_parts:
  "closed_empty s \<Longrightarrow> closed_empty (open_repo r s)" "all_repos (open_repo r s) = all_repos s @ [r]"
  "all_deps (open_repo r s) = all_deps s" "pkg_part (open_repo r s) = pkg_part s"
  by (auto simp: closed_empty_def open_repo_def close_dep_def close_repo_def all_deps_def all_repos_def pkg_part_def)

lemma fold_open_dep_parts:
  "closed_empty s \<Longrightarrow> closed_empty (fold open_dep ds s) \<and> all_deps (fold open_dep ds s) = all_deps s @ ds
     \<and> all_repos (fold open_dep ds s) = all_repos s \<and> pkg_part (fold open_dep ds s) = pkg_part s"
  by (induction ds arbitrary: s) (simp_all add: open_dep_parts)

lemma fold_open_repo_parts:
  "closed_empty s \<Longrightarrow> closed_empty (fold open_repo rs s) \<and> all_repos (fold open_repo rs s) = all_repos s @ rs
     \<and> all_deps (fold open_repo rs s) = all_deps s \<and> pkg_part (fold open_repo rs s) = pkg_part s"
  by (induction rs arbitrary: s) (simp_all add: open_repo_parts)

text \<open>A sequence of tables reads as the sequence of what each table does.\<close>

lemma tables_unfold: "tables f (xs @ [x]) = LF # concat (map (\<lambda>x. f x @ [LF]) xs) @ f x"
  by (simp add: tables_def butlast_append)

lemma rd_tables:
  assumes "\<And>s u x. I s \<Longrightarrow> x \<in> set xs \<Longrightarrow> manifest.rd s (f x @ u) = manifest.rd (g x s) u"
    and "\<And>s x. I s \<Longrightarrow> I (g x s)" and "I s"
  shows "manifest.rd s (tables f xs @ u) = manifest.rd (fold g xs s) u"
proof (cases xs rule: rev_cases)
  case Nil then show ?thesis by (simp add: tables_def)
next
  case (snoc ys y)
  have inv: "I (fold g zs s)" for zs using assms(2,3) by (induction zs arbitrary: s) simp_all
  have "manifest.rd s (concat (map (\<lambda>x. f x @ [LF]) zs) @ w) = manifest.rd (fold g zs s) w"
    if "set zs \<subseteq> set xs" "I s" for zs s w
    using that assms(1,2) by (induction zs arbitrary: s) (simp_all add: manifest.rd_blank)
  then have "manifest.rd s (tables f xs @ u) = manifest.rd (fold g ys s) (f y @ u)"
    using snoc assms(3) by (auto simp: tables_unfold manifest.rd_blank)
  then show ?thesis using assms(1) inv [of ys] snoc by simp
qed

lemmas closed_empty_open = open_dep_parts(1) open_repo_parts(1)


section \<open>Reading back the kept lines\<close>

definition set_package :: "package \<Rightarrow> manifest_state \<Rightarrow> manifest_state" where
  "set_package p s = s\<lparr>ms_name := pk_name p, ms_version := pk_version p, ms_description := pk_description p\<rparr>"

lemma package_lines_read:
  assumes "good_package p" "ms_section s = MS_Package"
  shows "foldl manifest_line s (package_lines p) = set_package p s"
  using assms
  by (simp add: package_lines_def manifest_line_kv good_package_def manifest_kv_def del: lit_simps)
     (simp add: package_key_def set_package_def)

lemma LF_package_lines: "good_package p \<Longrightarrow> l \<in> set (package_lines p) \<Longrightarrow> LF \<notin> set l"
  by (auto simp: package_lines_def good_package_def LF_kv_line simp del: lit_simps)

lemma rd_package_block:
  assumes "good_package p"
  shows "manifest.rd s (package_block p @ u) = manifest.rd (set_package p (manifest_header (lit ''[package]'') s)) u"
proof -
  let ?h = "manifest_header (lit ''[package]'') s"
  have "ms_section ?h = MS_Package" by (simp add: manifest_header_def manifest_section_for_def Let_def)
  then show ?thesis
    using assms manifest.rd_lines [of "package_lines p" ?h u] LF_package_lines [OF assms]
    by (simp add: package_block_def rd_header package_lines_read del: lit_simps)
qed

definition good_pkg_opt :: "package option \<Rightarrow> bool" where
  "good_pkg_opt pkg \<longleftrightarrow> (case pkg of None \<Rightarrow> True | Some p \<Rightarrow> good_package p)"

definition pkg_values :: "package option \<Rightarrow> bool \<Rightarrow> bool \<times> rstring \<times> rstring \<times> rstring" where
  "pkg_values pkg saw = (case pkg of Some p \<Rightarrow> if saw then (True, pk_name p, pk_version p, pk_description p) else (False, [], [], [])
     | None \<Rightarrow> (saw, [], [], []))"

text \<open>The reader's state on the lines put out so far.\<close>

definition kept_inv :: "package option \<Rightarrow> writer \<Rightarrow> bool" where
  "kept_inv pkg w \<longleftrightarrow> (case w of (out, sec, saw) \<Rightarrow>
     let s = foldl manifest_line manifest_init out in
     (\<forall>l \<in> set out. LF \<notin> set l) \<and> closed_empty s \<and> all_deps s = [] \<and> all_repos s = []
     \<and> (sec \<notin> {MS_Dependency, MS_Repository} \<longrightarrow> ms_section s = sec) \<and> pkg_part s = pkg_values pkg saw)"

lemma header_parts:
  assumes "closed_empty s" "all_deps s = []" "all_repos s = []"
    "manifest_section_for line \<notin> {MS_Dependency, MS_Repository}"
  shows "closed_empty (manifest_header line s)" "all_deps (manifest_header line s) = []" "all_repos (manifest_header line s) = []"
    "ms_section (manifest_header line s) = manifest_section_for line"
    "pkg_part (manifest_header line s) =
       (if manifest_section_for line = MS_Package then (True, snd (pkg_part s)) else pkg_part s)"
  using assms
  by (auto simp: manifest_header_def Let_def close_dep_def close_repo_def all_deps_def all_repos_def closed_empty_def pkg_part_def
      split: manifest_section.splits if_splits)

lemma set_package_parts:
  "closed_empty (set_package p s) = closed_empty s" "all_deps (set_package p s) = all_deps s" "all_repos (set_package p s) = all_repos s"
  "ms_section (set_package p s) = ms_section s" "pkg_part (set_package p s) = (fst (pkg_part s), pk_name p, pk_version p, pk_description p)"
  by (simp_all add: set_package_def closed_empty_def all_deps_def all_repos_def pkg_part_def)

lemma manifest_line_is_header: "is_header (trim raw) \<Longrightarrow> manifest_line s raw = manifest_header (trim raw) s"
  by (simp add: manifest_line_def Let_def)

lemma manifest_line_skipped:
  assumes "\<not> is_header (trim raw)" "ms_section s \<in> {MS_None, MS_Other} \<or> (ms_section s = MS_Package \<and> \<not> owned_key (trim raw))"
  shows "manifest_line s raw = s"
  using assms
  by (auto simp: manifest_line_def Let_def manifest_kv_def package_key_def owned_key_def
      simp del: lit_simps split: option.splits if_splits)

lemma kept_inv_header:
  assumes "kept_inv pkg (out, sec, saw)" "good_pkg_opt pkg" "LF \<notin> set raw" "is_header (trim raw)"
  shows "kept_inv pkg (write_line pkg (out, sec, saw) raw)"
proof -
  let ?s = "foldl manifest_line manifest_init out" and ?k = "manifest_section_for (trim raw)"
  let ?h = "manifest_header (trim raw) ?s"
  have inv: "closed_empty ?s" "all_deps ?s = []" "all_repos ?s = []" "pkg_part ?s = pkg_values pkg saw" "\<forall>l \<in> set out. LF \<notin> set l"
    using assms(1) by (simp_all add: kept_inv_def Let_def)
  consider (table) "?k \<in> {MS_Dependency, MS_Repository}" | (package) "?k = MS_Package" | (other) "?k \<notin> {MS_Dependency, MS_Repository, MS_Package}"
    by blast
  then show ?thesis
  proof cases
    case table
    then show ?thesis using assms(1,4) by (auto simp: write_line_def kept_inv_def Let_def)
  next
    case package
    note h = header_parts [OF inv(1-3), of "trim raw"]
    show ?thesis
    proof (cases pkg)
      case None
      then show ?thesis using package h inv assms(3,4)
        by (simp add: write_line_def kept_inv_def Let_def manifest_line_is_header pkg_values_def)
    next
      case (Some p)
      then have "foldl manifest_line ?h (package_lines p) = set_package p ?h"
        using package h assms(2) by (intro package_lines_read) (simp_all add: good_pkg_opt_def)
      then show ?thesis using Some package h inv assms LF_package_lines [of p]
        by (auto simp: write_line_def kept_inv_def Let_def manifest_line_is_header pkg_values_def good_pkg_opt_def set_package_parts)
    qed
  next
    case other
    then show ?thesis using header_parts [OF inv(1-3), of "trim raw"] inv assms(3,4)
      by (auto simp: write_line_def kept_inv_def Let_def manifest_line_is_header)
  qed
qed

lemma kept_inv_line:
  assumes "kept_inv pkg (out, sec, saw)" "LF \<notin> set raw" "\<not> is_header (trim raw)"
  shows "kept_inv pkg (write_line pkg (out, sec, saw) raw)"
  using assms
  by (cases sec) (auto simp: write_line_def kept_inv_def Let_def manifest_line_skipped)

lemma kept_inv_lines:
  assumes "good_pkg_opt pkg" "\<forall>l \<in> set ls. LF \<notin> set l" "kept_inv pkg w"
  shows "kept_inv pkg (foldl (write_line pkg) w ls)"
  using assms(2,3)
proof (induction ls arbitrary: w)
  case (Cons l ls)
  have "kept_inv pkg (write_line pkg w l)"
    using kept_inv_header [OF _ assms(1), of _ _ _ l] kept_inv_line [of pkg _ _ _ l] Cons.prems by (cases w) (metis list.set_intros(1))
  then show ?case using Cons by simp
qed simp

lemma kept_inv_start: "kept_inv pkg ([], MS_None, False)"
  by (simp add: kept_inv_def closed_empty_init all_deps_def all_repos_def pkg_part_def pkg_values_def split: option.split)
     (simp add: manifest_init_def)

lemma section_package: "manifest_section_for line = MS_Package \<longleftrightarrow> line = lit ''[package]''"
  by (simp add: manifest_section_for_def)

lemma write_line_saw:
  "snd (snd (write_line pkg w raw)) \<longleftrightarrow> snd (snd w) \<or> trim raw = lit ''[package]''"
proof -
  have "manifest_section_for (trim raw) = MS_Package \<Longrightarrow> is_header (trim raw)"
    using is_header_lit(3) by (simp add: section_package)
  then show ?thesis
    unfolding section_package [symmetric]
    by (auto simp: write_line_def Let_def split: prod.splits manifest_section.splits)
qed

lemma write_lines_saw:
  "snd (snd (foldl (write_line pkg) w ls)) \<longleftrightarrow> snd (snd w) \<or> lit ''[package]'' \<in> set (map trim ls)"
  by (induction ls arbitrary: w) (auto simp: write_line_saw simp del: lit_simps)


section \<open>A manifest reads back\<close>

definition package_state :: "package option \<Rightarrow> bool \<Rightarrow> manifest_state \<Rightarrow> manifest_state" where
  "package_state pkg saw s =
     (if saw then s else case pkg of Some p \<Rightarrow> set_package p (manifest_header (lit ''[package]'') s) | None \<Rightarrow> s)"

lemma rd_package_opt:
  assumes "good_pkg_opt pkg"
  shows "manifest.rd s ((if saw then [] else case pkg of Some p \<Rightarrow> package_block p | None \<Rightarrow> []) @ u)
     = manifest.rd (package_state pkg saw s) u"
  using assms by (auto simp: package_state_def good_pkg_opt_def rd_package_block simp del: lit_simps split: option.split)

lemma package_state_parts:
  assumes "closed_empty s" "all_deps s = []" "all_repos s = []" "pkg_part s = pkg_values pkg saw"
  shows "closed_empty (package_state pkg saw s)" "all_deps (package_state pkg saw s) = []" "all_repos (package_state pkg saw s) = []"
    "pkg_part (package_state pkg saw s) = pkg_values pkg (saw \<or> pkg \<noteq> None)"
  using header_parts [OF assms(1-3), of "lit ''[package]''"] assms
  by (auto simp: package_state_def set_package_parts pkg_values_def section_package manifest_section_for_def split: option.splits)

lemma rd_written:
  assumes "good_manifest m"
  shows "manifest.rd manifest_init (write_manifest existing m) =
    (case foldl (write_line (mf_package m)) ([], MS_None, False) (lines existing) of (out, _, saw) \<Rightarrow>
      fold open_dep (mf_dependencies m) (fold open_repo (mf_repositories m)
        (package_state (mf_package m) saw (foldl manifest_line manifest_init out))))"
proof -
  let ?w = "foldl (write_line (mf_package m)) ([], MS_None, False) (lines existing)"
  obtain out sec saw where w: "?w = (out, sec, saw)" by (cases ?w)
  let ?s = "package_state (mf_package m) saw (foldl manifest_line manifest_init out)"
  have pkg: "good_pkg_opt (mf_package m)" using assms by (simp add: good_manifest_def good_pkg_opt_def)
  have "kept_inv (mf_package m) ?w"
    by (rule kept_inv_lines [OF pkg _ kept_inv_start]) (simp add: lines_no_LF)
  then have inv: "\<forall>l \<in> set out. LF \<notin> set l" "closed_empty ?s"
    using package_state_parts(1) by (auto simp: w kept_inv_def Let_def)
  have "manifest.rd manifest_init (write_manifest existing m) =
      manifest.rd ?s (tables format_repository (mf_repositories m) @ tables format_dependency (mf_dependencies m))"
    using inv by (simp add: write_manifest_def w manifest.rd_kept rd_package_opt [OF pkg])
  also have "\<dots> = manifest.rd (fold open_repo (mf_repositories m) ?s) (tables format_dependency (mf_dependencies m))"
    by (rule rd_tables [where I = closed_empty])
       (use assms inv in \<open>auto simp: good_manifest_def list_all_iff rd_repository closed_empty_open\<close>)
  also have "\<dots> = fold open_dep (mf_dependencies m) (fold open_repo (mf_repositories m) ?s)"
    using rd_tables [where I = closed_empty and u = "[]" and f = format_dependency and g = open_dep and xs = "mf_dependencies m"]
      assms fold_open_repo_parts [OF inv(2)]
    by (auto simp: good_manifest_def list_all_iff rd_dependency closed_empty_open manifest.rd_Nil)
  finally show ?thesis by (simp add: w)
qed

lemma manifest_reads_back:
  assumes "good_manifest m" "mf_package m \<noteq> None \<or> \<not> has_package_header existing"
  shows "parse_manifest (write_manifest existing m) = m"
proof -
  let ?w = "foldl (write_line (mf_package m)) ([], MS_None, False) (lines existing)"
  obtain out sec saw where w: "?w = (out, sec, saw)" by (cases ?w)
  let ?s = "package_state (mf_package m) saw (foldl manifest_line manifest_init out)"
  have pkg: "good_pkg_opt (mf_package m)" using assms by (simp add: good_manifest_def good_pkg_opt_def)
  have "kept_inv (mf_package m) ?w"
    by (rule kept_inv_lines [OF pkg _ kept_inv_start]) (simp add: lines_no_LF)
  then have p: "closed_empty ?s" "all_deps ?s = []" "all_repos ?s = []"
      "pkg_part ?s = pkg_values (mf_package m) (saw \<or> mf_package m \<noteq> None)"
    using package_state_parts by (auto simp: w kept_inv_def Let_def)
  have "saw \<longrightarrow> mf_package m \<noteq> None"
    using assms(2) write_lines_saw [of "mf_package m" "([], MS_None, False)" "lines existing"]
    by (auto simp: w has_package_header_def simp del: lit_simps)
  then have "manifest_finish (fold open_dep (mf_dependencies m) (fold open_repo (mf_repositories m) ?s)) = m"
    using fold_open_repo_parts [OF p(1), of "mf_repositories m"] p
      fold_open_dep_parts [of "fold open_repo (mf_repositories m) ?s" "mf_dependencies m"]
    by (cases m) (auto simp: manifest_finish_parts pkg_values_def split: option.splits)
  then show ?thesis by (simp add: parse_manifest_rd rd_written [OF assms(1)] w)
qed

section \<open>What is read can be written\<close>

lemma trim_by_set: "set (trim_by p t) \<subseteq> set t"
  by (auto simp: trim_by_def trim_end_by_def dest!: set_dropWhileD)

lemma trim_by_hd: "trim_by p t \<noteq> [] \<Longrightarrow> \<not> p (hd (trim_by p t)) \<and> \<not> p (last (trim_by p t))"
proof (induction t)
  case (Cons x t)
  show ?case
  proof (cases "p x")
    case True then show ?thesis using Cons by (simp add: trim_by_Cons)
  next
    case False
    have "trim_end_by p (x # t) = x # trim_end_by p t" using trim_end_by_cong_last [where p = p and x = x, OF False, of "[]" t] by simp
    moreover have "last (x # trim_end_by p t) = (if trim_end_by p t = [] then x else last (trim_end_by p t))" by simp
    moreover have "trim_end_by p t \<noteq> [] \<Longrightarrow> \<not> p (last (trim_end_by p t))"
      by (auto simp: trim_end_by_def last_rev hd_dropWhile)
    ultimately show ?thesis using False by (simp add: trim_by_Cons)
  qed
qed simp

lemma trim_trim [simp]: "trim (trim t) = trim t"
  unfolding trim_def using trim_by_hd [of is_whitespace t] by (intro trim_by_tight) (simp add: tight_def)

lemma split_once_set: "split_once c t = Some (a, b) \<Longrightarrow> set a \<subseteq> set t \<and> set b \<subseteq> set t"
  by (auto simp: split_once_def dest: set_takeWhileD set_dropWhileD dest!: list.set_sel(2) [rotated] split: if_splits)

lemma parse_toml_kv_good:
  assumes "LF \<notin> set line" "parse_toml_kv line = Some (k, v)"
  shows "good_value v"
proof -
  obtain a b where s: "split_once 61 line = Some (a, b)" and v: "v = trim_by (\<lambda>x. x = DQ) (trim_by is_whitespace b)"
    using assms(2) by (auto simp: parse_toml_kv_def trim_matches_def trim_def split: option.splits)
  have "set v \<subseteq> set line"
    using split_once_set [OF s] trim_by_set [of is_whitespace b] trim_by_set [of "\<lambda>x. x = DQ" "trim_by is_whitespace b"]
    unfolding v by blast
  then have "LF \<notin> set v" using assms(1) by blast
  then show ?thesis
    using trim_by_hd [of "\<lambda>x. x = DQ" "trim_by is_whitespace b"] by (simp add: good_value_def plain_value_def v)
qed

definition good_state :: "manifest_state \<Rightarrow> bool" where
  "good_state s \<longleftrightarrow> good_value (ms_name s) \<and> good_value (ms_version s) \<and> good_value (ms_description s)
     \<and> list_all good_dependency (ms_dependencies s) \<and> good_dependency (ms_cur s)
     \<and> list_all good_repository (ms_repositories s) \<and> good_repository (ms_cur_repo s)"

lemma good_empty [simp]: "good_value []" "good_dependency empty_dep" "good_repository empty_repo"
  by (simp_all add: good_value_def plain_value_def good_dependency_def good_repository_def empty_dep_def empty_repo_def good_option_def)

lemma good_state_header: "good_state s \<Longrightarrow> good_state (manifest_header line s)"
  by (auto simp: good_state_def manifest_header_def close_dep_def close_repo_def Let_def split: manifest_section.splits)

lemma good_keys:
  assumes "good_value v"
  shows "good_dependency d \<Longrightarrow> good_dependency (dependency_key key v d)" "good_repository r \<Longrightarrow> good_repository (repository_key key v r)"
    "good_state s \<Longrightarrow> good_state (package_key key v s)"
  using assms
  by (auto simp: dependency_key_def good_dependency_def good_option_def repository_key_def good_repository_def
      package_key_def good_state_def simp del: lit_simps)

lemma good_state_kv: "good_state s \<Longrightarrow> good_value v \<Longrightarrow> good_state (manifest_kv key v s)"
  by (auto simp: manifest_kv_def good_keys split: manifest_section.splits) (auto simp: good_state_def good_keys)

lemma good_state_line: "good_state s \<Longrightarrow> LF \<notin> set line \<Longrightarrow> good_state (manifest_line s line)"
  using trim_by_set [of is_whitespace line]
  by (auto simp: manifest_line_def Let_def trim_def good_state_header good_state_kv split: option.splits
      dest!: parse_toml_kv_good [rotated])

lemma good_state_lines:
  "good_state s \<Longrightarrow> \<forall>l \<in> set ls. LF \<notin> set l \<Longrightarrow> good_state (foldl manifest_line s ls)"
  by (induction ls arbitrary: s) (simp_all add: good_state_line)

lemma parse_manifest_good: "good_manifest (parse_manifest t)"
proof -
  have "good_state manifest_init" by (simp add: good_state_def manifest_init_def)
  then have "good_state (foldl manifest_line manifest_init (lines t))"
    by (rule good_state_lines) (simp add: lines_no_LF)
  then show ?thesis
    by (simp add: parse_manifest_def manifest_finish_def good_manifest_def good_state_def good_package_def)
qed

lemma have_package_lines:
  "ms_have_package (foldl manifest_line s ls) \<longleftrightarrow> ms_have_package s \<or> lit ''[package]'' \<in> set (map trim ls)"
proof (induction ls arbitrary: s)
  case (Cons l ls)
  have "ms_have_package (manifest_line s l) \<longleftrightarrow> ms_have_package s \<or> trim l = lit ''[package]''"
  proof (cases "is_header (trim l)")
    case True
    then show ?thesis
      unfolding section_package [symmetric]
      by (auto simp: manifest_line_is_header manifest_header_def close_dep_def close_repo_def Let_def split: manifest_section.splits)
  next
    case False
    then have "trim l \<noteq> lit ''[package]''" using is_header_lit(3) by metis
    then show ?thesis
      using False by (auto simp: manifest_line_def Let_def manifest_kv_def package_key_def simp del: lit_simps
          split: option.split manifest_section.split)
  qed
  then show ?case using Cons by (auto simp del: lit_simps)
qed simp

lemma parse_manifest_package: "mf_package (parse_manifest t) \<noteq> None \<longleftrightarrow> has_package_header t"
  using have_package_lines [of manifest_init "lines t"]
  by (simp add: parse_manifest_def manifest_finish_def has_package_header_def manifest_init_def del: lit_simps)


section \<open>Properties\<close>

text \<open>
  C22. What \<^verbatim>\<open>write_manifest\<close> writes over any existing file reads back as the manifest that was written:
  package, repositories and dependencies, in order and with every field. The values must be writable
  (no line break, not beginning or ending with a quote, optional fields not empty), and a manifest without
  package data must not be written over a file that has a \<^verbatim>\<open>[package]\<close> header.
\<close>

theorem manifest_roundtrip:
  assumes "good_manifest m" "mf_package m \<noteq> None \<or> \<not> has_package_header existing"
  shows "parse_manifest (write_manifest existing m) = m"
  using assms by (rule manifest_reads_back)

theorem manifest_roundtrip_witness:
  "let m = \<lparr>mf_package = None,
      mf_dependencies = [\<lparr>dp_group = lit ''g'', dp_artifact_id = lit ''a'', dp_version = lit ''1'', dp_url = None,
        dp_repository = Some (lit ''r''), dp_sha256 = None\<rparr>],
      mf_repositories = [\<lparr>rp_id = lit ''r'', rp_url = lit ''u=v''\<rparr>]\<rparr>
   in parse_manifest (write_manifest (lit ''[metrics]'' @ [LF] @ lit ''enabled = true'') m) = m"
  unfolding Let_def
proof (rule manifest_roundtrip, goal_cases)
  case 1
  show ?case by (simp add: good_manifest_def good_dependency_def good_repository_def good_option_def good_value_def plain_value_def)
next
  case 2
  have "lines (lit ''[metrics]'' @ LF # lit ''enabled = true'') = [lit ''[metrics]'', lit ''enabled = true'']"
    by (subst lines_line) (simp_all add: lines_last strip_cr_def)
  moreover have "trim (lit ''[metrics]'') = lit ''[metrics]''" "trim (lit ''enabled = true'') = lit ''enabled = true''"
    unfolding trim_def by (intro trim_by_tight; simp add: tight_def is_whitespace_def)+
  ultimately have "\<not> has_package_header (lit ''[metrics]'' @ [LF] @ lit ''enabled = true'')"
    by (simp add: has_package_header_def)
  then show ?case by blast
qed

text \<open>
  Rewriting a manifest with what was read from it changes nothing that is read: for every file, the
  manifest read from the rewritten file is the one read before, and a dependency added to it (as
  \<^verbatim>\<open>cmd_add\<close> adds one) is found there beside all the others.
\<close>

theorem manifest_rewrite_stable:
  "parse_manifest (write_manifest c (parse_manifest c)) = parse_manifest c
   \<and> (\<forall>d. good_dependency d \<longrightarrow>
        parse_manifest (write_manifest c ((parse_manifest c)\<lparr>mf_dependencies := add_dependency (mf_dependencies (parse_manifest c)) d\<rparr>))
        = (parse_manifest c)\<lparr>mf_dependencies := add_dependency (mf_dependencies (parse_manifest c)) d\<rparr>)"
proof (intro conjI allI impI)
  have p: "mf_package (parse_manifest c) \<noteq> None \<or> \<not> has_package_header c" using parse_manifest_package by blast
  then show "parse_manifest (write_manifest c (parse_manifest c)) = parse_manifest c"
    using manifest_reads_back [OF parse_manifest_good] by blast
  fix d assume "good_dependency d"
  then have "good_manifest ((parse_manifest c)\<lparr>mf_dependencies := add_dependency (mf_dependencies (parse_manifest c)) d\<rparr>)"
    using parse_manifest_good [of c] by (auto simp: good_manifest_def add_dependency_def list_all_iff)
  then show "parse_manifest (write_manifest c ((parse_manifest c)\<lparr>mf_dependencies := add_dependency (mf_dependencies (parse_manifest c)) d\<rparr>))
        = (parse_manifest c)\<lparr>mf_dependencies := add_dependency (mf_dependencies (parse_manifest c)) d\<rparr>"
    using p by (intro manifest_reads_back) simp_all
qed

theorem manifest_rewrite_stable_witness:
  "let m = parse_manifest (lit ''[package]''); d = empty_dep\<lparr>dp_group := lit ''g'', dp_artifact_id := lit ''a'', dp_version := lit ''1''\<rparr>;
       m' = m\<lparr>mf_dependencies := add_dependency (mf_dependencies m) d\<rparr>
   in good_dependency d \<and> parse_manifest (write_manifest (lit ''[package]'') m') = m'"
proof -
  have "good_dependency (empty_dep\<lparr>dp_group := lit ''g'', dp_artifact_id := lit ''a'', dp_version := lit ''1''\<rparr>)"
    by (simp add: good_dependency_def good_value_def plain_value_def good_option_def empty_dep_def)
  then show ?thesis using manifest_rewrite_stable [of "lit ''[package]''"] by (simp add: Let_def del: lit_simps)
qed

end
