(* ===== verification/Tinox_Config.thy ===== *)
theory Tinox_Config
  imports Tinox_Pm_Manifest
begin

text \<open>
  The other readers of \<^verbatim>\<open>tinox.toml\<close> (\<^verbatim>\<open>src/crates/tinox/src/main.rs\<close>): each looks for the nearest manifest
  above the working directory and folds over its lines, acting on those of one section. The locale
  \<open>section_reader\<close> is what they share; it shows that rewriting the manifest with \<^verbatim>\<open>write_manifest\<close> is
  invisible to them. Directories are lists of names, innermost first, so that \<^verbatim>\<open>PathBuf::pop\<close> is the tail;
  what is in them is an argument.
\<close>

section \<open>The nearest manifest\<close>

datatype toml_file = Toml_Absent | Toml_Unreadable | Toml_Content rstring

type_synonym dir = "rstring list"

fun find_project_root_from :: "(dir \<Rightarrow> toml_file) \<Rightarrow> dir \<Rightarrow> dir option" where
  "find_project_root_from toml dir =
     (if toml dir \<noteq> Toml_Absent then Some dir
      else case dir of [] \<Rightarrow> None | _ # parent \<Rightarrow> find_project_root_from toml parent)"

declare find_project_root_from.simps [simp del]

definition find_project_root :: "(dir \<Rightarrow> toml_file) \<Rightarrow> dir option \<Rightarrow> dir option" where
  "find_project_root toml cwd = (case cwd of None \<Rightarrow> None | Some d \<Rightarrow> find_project_root_from toml d)"

text \<open>The content a reader works on; \<open>None\<close> when there is no working directory, no manifest or it is unreadable.\<close>

definition nearest_content :: "(dir \<Rightarrow> toml_file) \<Rightarrow> dir option \<Rightarrow> rstring option" where
  "nearest_content toml cwd = (case find_project_root toml cwd of
     None \<Rightarrow> None
   | Some d \<Rightarrow> (case toml d of Toml_Content c \<Rightarrow> Some c | _ \<Rightarrow> None))"

section \<open>Values\<close>

definition strip_prefix :: "rstring \<Rightarrow> rstring \<Rightarrow> rstring option" where
  "strip_prefix p t = (if starts_with p t then Some (drop (length p) t) else None)"

definition strip_suffix :: "rstring \<Rightarrow> rstring \<Rightarrow> rstring option" where
  "strip_suffix p t = (if ends_with p t then Some (take (length t - length p) t) else None)"

text \<open>\<^verbatim>\<open>rest.trim().strip_prefix('=').map(|s| s.trim()).unwrap_or(dflt)\<close>\<close>

definition toml_value :: "rstring \<Rightarrow> rstring \<Rightarrow> rstring" where
  "toml_value dflt r = (case strip_prefix (lit ''='') (trim r) of Some v \<Rightarrow> trim v | None \<Rightarrow> dflt)"

text \<open>\<^verbatim>\<open>str::parse\<close> for an unsigned integer type with the given largest value.\<close>

definition parse_unsigned :: "nat \<Rightarrow> rstring \<Rightarrow> nat option" where
  "parse_unsigned limit t =
     (let ds = (if t \<noteq> [] \<and> hd t = 43 then tl t else t);
          n = foldl (\<lambda>n d. 10 * n + (d - 48)) 0 ds in
      if ds = [] \<or> \<not> list_all (\<lambda>d. 48 \<le> d \<and> d \<le> 57) ds \<or> limit < n then None else Some n)"

definition U16_MAX :: nat where "U16_MAX = 65535"
definition USIZE_MAX :: nat where "USIZE_MAX = 18446744073709551615"

function split_on :: "rchar \<Rightarrow> rstring \<Rightarrow> rstring list" where
  "split_on c t =
     (case dropWhile (\<lambda>x. x \<noteq> c) t of
        [] \<Rightarrow> [t]
      | _ # u \<Rightarrow> takeWhile (\<lambda>x. x \<noteq> c) t # split_on c u)"
  by pat_completeness auto
termination
proof (relation "measure (\<lambda>(c, t). length t)", goal_cases)
  case (2 c t x u)
  then show ?case using length_dropWhile_le [of "\<lambda>x. x \<noteq> c" t] by simp
qed simp

declare split_on.simps [simp del]

definition parse_toml_array :: "rstring \<Rightarrow> rstring list" where
  "parse_toml_array r =
     (let inner = (case strip_prefix (lit ''['') (trim r) of
                     None \<Rightarrow> []
                   | Some s \<Rightarrow> (case strip_suffix (lit '']'') s of None \<Rightarrow> [] | Some i \<Rightarrow> i)) in
      filter (\<lambda>s. s \<noteq> []) (map (\<lambda>s. trim_matches DQ (trim s)) (split_on 44 inner)))"

section \<open>The readers\<close>

text \<open>One line of a reader of the section \<open>header\<close>: \<open>opened\<close> acts on the header, \<open>act\<close> on a line of the section.\<close>

definition section_line ::
  "rstring \<Rightarrow> ('s \<Rightarrow> 's) \<Rightarrow> ('s \<Rightarrow> rstring \<Rightarrow> 's) \<Rightarrow> bool \<times> 's \<Rightarrow> rstring \<Rightarrow> bool \<times> 's" where
  "section_line header opened act st raw_line =
     (case st of (inside, s) \<Rightarrow>
      let line = trim raw_line in
      if is_header line then (line = header, if line = header then opened s else s)
      else if \<not> inside then (inside, s)
      else (inside, act s line))"

definition read_section :: "rstring \<Rightarrow> ('s \<Rightarrow> 's) \<Rightarrow> ('s \<Rightarrow> rstring \<Rightarrow> 's) \<Rightarrow> 's \<Rightarrow> rstring \<Rightarrow> 's" where
  "read_section header opened act s content = snd (foldl (section_line header opened act) (False, s) (lines content))"

text \<open>\<^verbatim>\<open>read_project_entry\<close> returns at the first entry, so a found entry is kept.\<close>

definition entry_line :: "rstring option \<Rightarrow> rstring \<Rightarrow> rstring option" where
  "entry_line found line = (case found of
     Some e \<Rightarrow> Some e
   | None \<Rightarrow>
       (case strip_prefix (lit ''entry'') line of
          None \<Rightarrow> None
        | Some r \<Rightarrow>
            (case strip_prefix (lit ''='') (trim r) of
               None \<Rightarrow> None
             | Some v \<Rightarrow> (let entry = trim_matches DQ (trim v) in if entry \<noteq> [] then Some entry else None))))"

definition read_project_entry :: "rstring \<Rightarrow> rstring option" where
  "read_project_entry = read_section (lit ''[package]'') id entry_line None"

definition metrics_line :: "bool \<times> rstring \<Rightarrow> rstring \<Rightarrow> bool \<times> rstring" where
  "metrics_line s line = (case s of (enabled, path) \<Rightarrow>
     case strip_prefix (lit ''enabled'') line of
       Some r \<Rightarrow> (toml_value [] r = lit ''true'', path)
     | None \<Rightarrow>
         (case strip_prefix (lit ''path'') line of
            Some r \<Rightarrow> (enabled, trim_matches DQ (toml_value (lit ''/metrics'') r))
          | None \<Rightarrow> (enabled, path)))"

definition metrics_of :: "rstring \<Rightarrow> rstring option" where
  "metrics_of content =
     (case read_section (lit ''[metrics]'') id metrics_line (False, lit ''/metrics'') content of
        (enabled, path) \<Rightarrow> if enabled then Some path else None)"

definition read_metrics_config :: "(dir \<Rightarrow> toml_file) \<Rightarrow> dir option \<Rightarrow> rstring option" where
  "read_metrics_config toml cwd = Option.bind (nearest_content toml cwd) metrics_of"

definition banner_line :: "bool \<Rightarrow> rstring \<Rightarrow> bool" where
  "banner_line banner line = (case strip_prefix (lit ''banner'') line of
     Some r \<Rightarrow> toml_value (lit ''true'') r \<noteq> lit ''false''
   | None \<Rightarrow> banner)"

definition banner_of :: "rstring \<Rightarrow> bool" where
  "banner_of = read_section (lit ''[startup]'') id banner_line True"

definition read_startup_banner_config :: "(dir \<Rightarrow> toml_file) \<Rightarrow> dir option \<Rightarrow> bool" where
  "read_startup_banner_config toml cwd = (case nearest_content toml cwd of Some c \<Rightarrow> banner_of c | None \<Rightarrow> True)"

record db_config =
  db_driver :: rstring
  db_url :: rstring
  db_pool :: nat

definition database_line :: "bool \<times> db_config \<Rightarrow> rstring \<Rightarrow> bool \<times> db_config" where
  "database_line s line = (case s of (found, db) \<Rightarrow>
     case strip_prefix (lit ''driver'') line of
       Some r \<Rightarrow> (found, db\<lparr>db_driver := trim_matches DQ (toml_value [] r)\<rparr>)
     | None \<Rightarrow>
     (case strip_prefix (lit ''url'') line of
       Some r \<Rightarrow> (found, db\<lparr>db_url := trim_matches DQ (toml_value [] r)\<rparr>)
     | None \<Rightarrow>
     (case strip_prefix (lit ''pool'') line of
       Some r \<Rightarrow> (found, db\<lparr>db_pool := (case parse_unsigned USIZE_MAX (toml_value (lit ''1'') r) of Some n \<Rightarrow> n | None \<Rightarrow> 1)\<rparr>)
     | None \<Rightarrow> (found, db))))"

definition mark_found :: "bool \<times> 'a \<Rightarrow> bool \<times> 'a" where
  "mark_found s = (True, snd s)"

definition database_of :: "rstring \<Rightarrow> db_config option" where
  "database_of content =
     (case read_section (lit ''[database]'') mark_found database_line (False, \<lparr>db_driver = [], db_url = [], db_pool = 1\<rparr>) content of
        (found, db) \<Rightarrow> if found \<and> db_driver db \<noteq> [] then Some db else None)"

definition read_database_config :: "(dir \<Rightarrow> toml_file) \<Rightarrow> dir option \<Rightarrow> db_config option" where
  "read_database_config toml cwd = Option.bind (nearest_content toml cwd) database_of"

record docker_config =
  dk_ports :: "nat list"
  dk_image :: "rstring option"
  dk_base :: "rstring option"
  dk_extra_packages :: "rstring list"

definition set_nonempty :: "rstring \<Rightarrow> rstring option \<Rightarrow> rstring option" where
  "set_nonempty v old = (if v \<noteq> [] then Some v else old)"

definition docker_line :: "bool \<times> docker_config \<Rightarrow> rstring \<Rightarrow> bool \<times> docker_config" where
  "docker_line s line = (case s of (found, cfg) \<Rightarrow>
     case strip_prefix (lit ''ports'') line of
       Some r \<Rightarrow> (found, cfg\<lparr>dk_ports := List.map_filter (parse_unsigned U16_MAX) (parse_toml_array (toml_value [] r))\<rparr>)
     | None \<Rightarrow>
     (case strip_prefix (lit ''extra_packages'') line of
       Some r \<Rightarrow> (found, cfg\<lparr>dk_extra_packages := parse_toml_array (toml_value [] r)\<rparr>)
     | None \<Rightarrow>
     (case strip_prefix (lit ''image'') line of
       Some r \<Rightarrow> (found, cfg\<lparr>dk_image := set_nonempty (trim_matches DQ (toml_value [] r)) (dk_image cfg)\<rparr>)
     | None \<Rightarrow>
     (case strip_prefix (lit ''base'') line of
       Some r \<Rightarrow> (found, cfg\<lparr>dk_base := set_nonempty (trim_matches DQ (toml_value [] r)) (dk_base cfg)\<rparr>)
     | None \<Rightarrow> (found, cfg)))))"

definition docker_of :: "rstring \<Rightarrow> docker_config option" where
  "docker_of content =
     (case read_section (lit ''[docker]'') mark_found docker_line
             (False, \<lparr>dk_ports = [], dk_image = None, dk_base = None, dk_extra_packages = []\<rparr>) content of
        (found, cfg) \<Rightarrow> if found then Some cfg else None)"

definition read_docker_config :: "(dir \<Rightarrow> toml_file) \<Rightarrow> dir option \<Rightarrow> docker_config option" where
  "read_docker_config toml cwd = Option.bind (nearest_content toml cwd) docker_of"

record dev_config =
  dv_enabled :: bool
  dv_port :: nat
  dv_devui_image :: "rstring option"

definition dev_line :: "bool \<times> dev_config \<Rightarrow> rstring \<Rightarrow> bool \<times> dev_config" where
  "dev_line s line = (case s of (found, cfg) \<Rightarrow>
     case strip_prefix (lit ''enabled'') line of
       Some r \<Rightarrow> (found, cfg\<lparr>dv_enabled := (toml_value [] r = lit ''true'')\<rparr>)
     | None \<Rightarrow>
     (case strip_prefix (lit ''port'') line of
       Some r \<Rightarrow> (found, case parse_unsigned U16_MAX (toml_value [] r) of Some p \<Rightarrow> cfg\<lparr>dv_port := p\<rparr> | None \<Rightarrow> cfg)
     | None \<Rightarrow>
     (case strip_prefix (lit ''devui_image'') line of
       Some r \<Rightarrow> (found, cfg\<lparr>dv_devui_image := set_nonempty (trim_matches DQ (toml_value [] r)) (dv_devui_image cfg)\<rparr>)
     | None \<Rightarrow> (found, cfg))))"

definition dev_of :: "rstring \<Rightarrow> dev_config option" where
  "dev_of content =
     (case read_section (lit ''[dev]'') mark_found dev_line (False, \<lparr>dv_enabled = False, dv_port = 9090, dv_devui_image = None\<rparr>) content of
        (found, cfg) \<Rightarrow> if found then Some cfg else None)"

definition read_dev_config :: "(dir \<Rightarrow> toml_file) \<Rightarrow> dir option \<Rightarrow> dev_config option" where
  "read_dev_config toml cwd = Option.bind (nearest_content toml cwd) dev_of"

text \<open>\<^verbatim>\<open>read_project_name\<close> and \<^verbatim>\<open>read_project_version\<close>: the first line of the whole file with that key.\<close>

fun first_key :: "rstring \<Rightarrow> rstring list \<Rightarrow> rstring option" where
  "first_key key [] = None"
| "first_key key (raw_line # ls) =
     (case strip_prefix key (trim raw_line) of
        None \<Rightarrow> first_key key ls
      | Some r \<Rightarrow>
          (case strip_prefix (lit ''='') (trim r) of
             None \<Rightarrow> first_key key ls
           | Some v \<Rightarrow> (let x = trim_matches DQ (trim v) in if x \<noteq> [] then Some x else first_key key ls)))"

definition read_project_name :: "(dir \<Rightarrow> toml_file) \<Rightarrow> dir option \<Rightarrow> rstring option" where
  "read_project_name toml cwd = Option.bind (nearest_content toml cwd) (\<lambda>c. first_key (lit ''name'') (lines c))"

definition read_project_version :: "(dir \<Rightarrow> toml_file) \<Rightarrow> dir option \<Rightarrow> rstring option" where
  "read_project_version toml cwd = Option.bind (nearest_content toml cwd) (\<lambda>c. first_key (lit ''version'') (lines c))"

section \<open>Rewriting the manifest is invisible to a section reader\<close>

lemma blank_not_header [simp]: "\<not> is_header []"
  by (simp add: is_header_def starts_with_def)

locale section_reader =
  fixes header :: rstring and opened :: "'s \<Rightarrow> 's" and act :: "'s \<Rightarrow> rstring \<Rightarrow> 's"
  assumes no_table: "manifest_section_for header \<in> {MS_Package, MS_Other}"
    and act_blank: "act s [] = s"
    and package_idle: "header = lit ''[package]'' \<Longrightarrow> opened s = s"
    and package_keys: "header = lit ''[package]'' \<Longrightarrow> owned_key line \<Longrightarrow> trim line = line \<Longrightarrow> act s line = s"
begin

abbreviation "ln \<equiv> section_line header opened act"

lemma ln_blank: "ln st [] = st"
  by (cases st) (simp add: section_line_def act_blank)

lemma ln_trim: "trim a = trim b \<Longrightarrow> ln st a = ln st b"
  by (cases st) (simp add: section_line_def)

sublocale line_reader ln
  by unfold_locales (rule ln_blank, rule ln_trim)

lemma read_section_rd: "read_section header opened act s c = snd (rd (False, s) c)"
  by (simp add: read_section_def rd_def)

text \<open>A text is quiet when it changes nothing of what was read, whatever section is open before it.\<close>

definition quiet :: "rstring \<Rightarrow> bool" where
  "quiet t \<longleftrightarrow> (\<forall>st u. \<exists>i. rd st (t @ u) = rd (i, snd st) u)"

lemma quiet_Nil: "quiet []"
  unfolding quiet_def by (metis append_Nil prod.collapse)

lemma quiet_append: "quiet t \<Longrightarrow> quiet u \<Longrightarrow> quiet (t @ u)"
  unfolding quiet_def by (metis append_assoc snd_conv)

lemma quiet_LF: "quiet [LF]"
  unfolding quiet_def by (metis append_Cons append_Nil prod.collapse rd_blank)

lemma quiet_concat: "(\<And>t. t \<in> set ts \<Longrightarrow> quiet t) \<Longrightarrow> quiet (concat ts)"
  by (induction ts) (simp_all add: quiet_Nil quiet_append)

lemma ln_outside: "\<not> is_header (trim l) \<Longrightarrow> ln (False, s) l = (False, s)"
  by (simp add: section_line_def)

lemma foldl_outside: "(\<And>l. l \<in> set ls \<Longrightarrow> \<not> is_header (trim l)) \<Longrightarrow> foldl ln (False, s) ls = (False, s)"
  by (induction ls) (simp_all add: ln_outside)

lemma foldl_owned:
  assumes "header = lit ''[package]'' \<or> \<not> i" "\<And>l. l \<in> set ls \<Longrightarrow> \<not> is_header (trim l) \<and> owned_key (trim l)"
  shows "foldl ln (i, s) ls = (i, s)"
  using assms(2) by (induction ls) (use assms(1) in \<open>auto simp: section_line_def package_keys\<close>)

lemma ln_header: "is_header (trim h) \<Longrightarrow> ln st h = (trim h = header, if trim h = header then opened (snd st) else snd st)"
  by (cases st) (simp add: section_line_def Let_def)

lemma quiet_lines:
  assumes "\<And>l. l \<in> set (h # ls) \<Longrightarrow> LF \<notin> set l" "is_header (trim h)" "\<And>l. l \<in> set ls \<Longrightarrow> \<not> is_header (trim l)"
    "trim h \<noteq> header \<or> trim h = lit ''[package]'' \<and> (\<forall>l \<in> set ls. owned_key (trim l))"
  shows "quiet (concat (map (\<lambda>l. l @ [LF]) (h # ls)))"
proof -
  have "\<exists>i. foldl ln st (h # ls) = (i, snd st)" for st
  proof (cases "trim h = header")
    case True
    then have p: "header = lit ''[package]''" "\<forall>l \<in> set ls. owned_key (trim l)" using assms(4) by simp_all
    have "ln st h = (True, snd st)" using True package_idle [OF p(1)] by (simp add: ln_header [OF assms(2)])
    then show ?thesis using foldl_owned [of True ls] p assms(3) by auto
  next
    case False
    then have "ln st h = (False, snd st)" by (simp add: ln_header [OF assms(2)])
    then show ?thesis using foldl_outside [OF assms(3)] by auto
  qed
  then show ?thesis using rd_lines [OF assms(1)] unfolding quiet_def by metis
qed

lemma quiet_tables: "(\<And>x. x \<in> set xs \<Longrightarrow> quiet (f x)) \<Longrightarrow> quiet (tables f xs)"
proof (cases xs rule: rev_cases)
  case (snoc ys y)
  assume q: "\<And>x. x \<in> set xs \<Longrightarrow> quiet (f x)"
  have "quiet (concat (map (\<lambda>x. f x @ [LF]) ys))"
    using q snoc by (intro quiet_concat) (auto intro: quiet_append quiet_LF)
  then show ?thesis
    using quiet_append [OF quiet_LF quiet_append [of _ "f y"]] q snoc by (simp add: tables_unfold)
qed (simp add: tables_def quiet_Nil)

text \<open>The reader on the lines the writer keeps, against the reader on all the lines.\<close>

definition same :: "rstring list \<Rightarrow> writer \<Rightarrow> 's \<Rightarrow> bool" where
  "same ls w s \<longleftrightarrow> (case w of (out, sec, saw) \<Rightarrow>
     snd (foldl ln (False, s) out) = snd (foldl ln (False, s) ls)
     \<and> (fst (foldl ln (False, s) ls) \<longrightarrow> manifest_section_for header = sec)
     \<and> (sec \<notin> {MS_Dependency, MS_Repository} \<longrightarrow> fst (foldl ln (False, s) out) = fst (foldl ln (False, s) ls)))"

lemma same_header:
  assumes "same ls (out, sec, saw) s" "is_header (trim raw)"
    "\<And>p l. pkg = Some p \<Longrightarrow> l \<in> set (package_lines p) \<Longrightarrow> \<not> is_header (trim l) \<and> owned_key (trim l)"
  shows "same (ls @ [raw]) (write_line pkg (out, sec, saw) raw) s"
proof -
  have eq: "snd (foldl ln (False, s) out) = snd (foldl ln (False, s) ls)" using assms(1) by (simp add: same_def)
  let ?k = "manifest_section_for (trim raw)"
  consider (table) "?k \<in> {MS_Dependency, MS_Repository}" | (package) "?k = MS_Package" | (other) "?k \<notin> {MS_Dependency, MS_Repository, MS_Package}"
    by blast
  then show ?thesis
  proof cases
    case table
    then have "trim raw \<noteq> header" using no_table by auto
    then show ?thesis using table eq assms(2) by (auto simp: same_def write_line_def ln_header Let_def)
  next
    case package
    then have "trim raw = lit ''[package]''" by (simp add: section_package)
    then have "foldl ln (trim raw = header, a) (case pkg of Some p \<Rightarrow> package_lines p | None \<Rightarrow> []) = (trim raw = header, a)" for a
      using assms(3) by (intro foldl_owned) (auto split: option.splits)
    then show ?thesis using package eq assms(2) by (auto simp: same_def write_line_def ln_header Let_def)
  next
    case other
    then show ?thesis using eq assms(2) by (auto simp: same_def write_line_def ln_header Let_def)
  qed
qed

lemma same_line:
  assumes "same ls (out, sec, saw) s" "\<not> is_header (trim raw)"
  shows "same (ls @ [raw]) (write_line pkg (out, sec, saw) raw) s"
proof -
  obtain i a where i: "foldl ln (False, s) ls = (i, a)" by fastforce
  obtain j b where j: "foldl ln (False, s) out = (j, b)" by fastforce
  have inv: "b = a" "i \<longrightarrow> manifest_section_for header = sec" "sec \<notin> {MS_Dependency, MS_Repository} \<longrightarrow> j = i"
    using assms(1) by (simp_all add: same_def i j)
  have step: "ln (i, a) raw = (i, if i then act a (trim raw) else a)" for i a
    using assms(2) by (simp add: section_line_def Let_def)
  have "sec \<in> {MS_Dependency, MS_Repository} \<Longrightarrow> \<not> i" using inv(2) no_table by auto
  moreover have "i \<Longrightarrow> sec = MS_Package \<Longrightarrow> owned_key (trim raw) \<Longrightarrow> act a (trim raw) = a"
    using inv(2) package_keys by (simp add: section_package)
  ultimately show ?thesis
    using inv assms(2) by (cases sec) (auto simp: same_def write_line_def Let_def i j step)
qed

lemma same_lines:
  assumes "\<And>p l. pkg = Some p \<Longrightarrow> l \<in> set (package_lines p) \<Longrightarrow> \<not> is_header (trim l) \<and> owned_key (trim l)"
  shows "same ls (foldl (write_line pkg) ([], MS_None, False) ls) s"
proof (induction ls rule: rev_induct)
  case (snoc l ls)
  then show ?case
    using same_header [OF _ _ assms, of ls _ _ _ s l pkg] same_line [of ls _ _ _ s l pkg]
    by (cases "foldl (write_line pkg) ([], MS_None, False) ls") fastforce
qed (simp add: same_def)

lemma frame:
  assumes pkg: "\<And>p l. mf_package m = Some p \<Longrightarrow> l \<in> set (package_lines p) \<Longrightarrow> \<not> is_header (trim l) \<and> owned_key (trim l)"
    and LF: "\<And>l. l \<in> set (fst (foldl (write_line (mf_package m)) ([], MS_None, False) (lines c))) \<Longrightarrow> LF \<notin> set l"
    and q: "\<And>p. mf_package m = Some p \<Longrightarrow> quiet (package_block p)"
      "\<And>r. r \<in> set (mf_repositories m) \<Longrightarrow> quiet (format_repository r)"
      "\<And>d. d \<in> set (mf_dependencies m) \<Longrightarrow> quiet (format_dependency d)"
  shows "read_section header opened act s (write_manifest c m) = read_section header opened act s c"
proof -
  obtain out sec saw where w: "foldl (write_line (mf_package m)) ([], MS_None, False) (lines c) = (out, sec, saw)"
    by (metis prod.exhaust)
  let ?p = "if saw then [] else case mf_package m of Some p \<Rightarrow> package_block p | None \<Rightarrow> []"
  let ?t = "?p @ tables format_repository (mf_repositories m) @ tables format_dependency (mf_dependencies m)"
  have "quiet ?p" using q(1) by (auto simp: quiet_Nil split: option.split)
  then have "quiet ?t" by (intro quiet_append quiet_tables q)
  then have "snd (rd st ?t) = snd st" for st unfolding quiet_def by (metis append_Nil2 rd_Nil snd_conv)
  moreover have "snd (foldl ln (False, s) out) = snd (foldl ln (False, s) (lines c))"
    using same_lines [where pkg = "mf_package m" and ls = "lines c" and s = s] pkg by (simp add: same_def w)
  moreover have "\<And>l. l \<in> set out \<Longrightarrow> LF \<notin> set l" using LF by (simp add: w)
  ultimately show ?thesis
    by (simp add: read_section_rd write_manifest_def w rd_kept) (simp add: rd_def)
qed

end

section \<open>The written tables are quiet\<close>

lemma not_header_kv: "key \<in> manifest_keys \<Longrightarrow> \<not> is_header (trim (kv_line key v))"
  using key_props [of key] by (cases key) (auto simp: trim_kv_line is_header_def starts_with_def, simp add: kv_line_def)

lemma package_lines_owned:
  assumes "good_package p" "l \<in> set (package_lines p)"
  shows "\<not> is_header (trim l) \<and> owned_key (trim l)"
proof -
  obtain key v where "l = kv_line key v" "key \<in> {lit ''name'', lit ''version'', lit ''description''}" "good_value v"
    using assms by (auto simp: package_lines_def good_package_def simp del: lit_simps)
  moreover from this have "key \<in> manifest_keys" by (auto simp del: lit_simps)
  ultimately show ?thesis
    using not_header_kv [of key v] key_props [of key]
    by (auto simp: owned_key_def trim_kv_line parse_toml_kv_line simp del: lit_simps)
qed

definition opt_lines :: "rstring \<Rightarrow> rstring option \<Rightarrow> rstring list" where
  "opt_lines key v = (case v of None \<Rightarrow> [] | Some x \<Rightarrow> [kv_line key x])"

definition dependency_lines :: "dependency \<Rightarrow> rstring list" where
  "dependency_lines d =
     [kv_line (lit ''group'') (dp_group d), kv_line (lit ''artifactId'') (dp_artifact_id d), kv_line (lit ''version'') (dp_version d)]
     @ opt_lines (lit ''url'') (dp_url d) @ opt_lines (lit ''repository'') (dp_repository d) @ opt_lines (lit ''sha256'') (dp_sha256 d)"

definition repository_lines :: "repository \<Rightarrow> rstring list" where
  "repository_lines r = [kv_line (lit ''id'') (rp_id r), kv_line (lit ''url'') (rp_url r)]"

lemma format_lines:
  "format_dependency d = concat (map (\<lambda>l. l @ [LF]) (lit ''[[dependencies]]'' # dependency_lines d))"
  "format_repository r = concat (map (\<lambda>l. l @ [LF]) (lit ''[[repositories]]'' # repository_lines r))"
  "package_block p = concat (map (\<lambda>l. l @ [LF]) (lit ''[package]'' # package_lines p))"
  by (simp_all add: format_dependency_def dependency_lines_def kv_opt_def opt_lines_def format_repository_def repository_lines_def
      package_block_def del: lit_simps split: option.split)

lemma opt_lines_set: "l \<in> set (opt_lines key v) \<longleftrightarrow> (\<exists>x. v = Some x \<and> l = kv_line key x)"
  by (auto simp: opt_lines_def split: option.split)

lemma table_lines:
  assumes "good_dependency d \<and> l \<in> set (dependency_lines d) \<or> good_repository r \<and> l \<in> set (repository_lines r)"
  shows "LF \<notin> set l \<and> \<not> is_header (trim l)"
  using assms
  by (auto simp: dependency_lines_def repository_lines_def opt_lines_set good_dependency_def good_repository_def good_option_def
      LF_kv_line not_header_kv simp del: lit_simps split: option.splits)

context section_reader
begin

lemma quiet_package: "good_package p \<Longrightarrow> quiet (package_block p)"
  unfolding format_lines
  by (rule quiet_lines)
     (use package_lines_owned [of p] LF_package_lines [of p] LF_header trim_header_lit is_header_lit in \<open>auto simp del: lit_simps\<close>)

lemma table_not_mine: "lit ''[[dependencies]]'' \<noteq> header" "lit ''[[repositories]]'' \<noteq> header"
  using no_table by (auto simp: manifest_section_for_def)

lemma quiet_repository: "good_repository r \<Longrightarrow> quiet (format_repository r)"
  unfolding format_lines
  by (rule quiet_lines)
     (use table_lines [where r = r] LF_header trim_header_lit is_header_lit table_not_mine in \<open>auto simp del: lit_simps\<close>)

lemma quiet_dependency: "good_dependency d \<Longrightarrow> quiet (format_dependency d)"
  unfolding format_lines
  by (rule quiet_lines)
     (use table_lines [where d = d] LF_header trim_header_lit is_header_lit table_not_mine in \<open>auto simp del: lit_simps\<close>)

lemma kept_no_LF:
  assumes "good_manifest m" "l \<in> set (fst (foldl (write_line (mf_package m)) ([], MS_None, False) (lines c)))"
  shows "LF \<notin> set l"
proof -
  have pkg: "good_pkg_opt (mf_package m)" using assms(1) by (simp add: good_manifest_def good_pkg_opt_def)
  have "kept_inv (mf_package m) (foldl (write_line (mf_package m)) ([], MS_None, False) (lines c))"
    by (rule kept_inv_lines [OF pkg _ kept_inv_start]) (simp add: lines_no_LF)
  then show ?thesis using assms(2) by (auto simp: kept_inv_def Let_def split: prod.splits)
qed

lemma unchanged:
  assumes "good_manifest m"
  shows "read_section header opened act s (write_manifest c m) = read_section header opened act s c"
proof (rule frame)
  show "\<And>p l. mf_package m = Some p \<Longrightarrow> l \<in> set (package_lines p) \<Longrightarrow> \<not> is_header (trim l) \<and> owned_key (trim l)"
    using assms package_lines_owned by (auto simp: good_manifest_def)
qed (use assms kept_no_LF quiet_package quiet_repository quiet_dependency in \<open>auto simp: good_manifest_def list_all_iff\<close>)

end

section \<open>The readers of the command line tool\<close>

lemma strip_prefix_Nil [simp]: "p \<noteq> [] \<Longrightarrow> strip_prefix p [] = None" "strip_prefix (lit (x # xs)) [] = None"
  by (simp_all add: strip_prefix_def starts_with_def)

interpretation metrics: section_reader "lit ''[metrics]''" id metrics_line
  by unfold_locales (simp_all add: manifest_section_for_def metrics_line_def split: prod.split)

interpretation startup: section_reader "lit ''[startup]''" id banner_line
  by unfold_locales (simp_all add: manifest_section_for_def banner_line_def)

interpretation database: section_reader "lit ''[database]''" mark_found database_line
  by unfold_locales (simp_all add: manifest_section_for_def database_line_def split: prod.split)

interpretation docker: section_reader "lit ''[docker]''" mark_found docker_line
  by unfold_locales (simp_all add: manifest_section_for_def docker_line_def split: prod.split)

interpretation dev: section_reader "lit ''[dev]''" mark_found dev_line
  by unfold_locales (simp_all add: manifest_section_for_def dev_line_def split: prod.split)

lemma trim_hd:
  assumes "t \<noteq> []" "\<not> is_whitespace (hd t)" shows "trim t \<noteq> [] \<and> hd (trim t) = hd t"
proof -
  obtain x u where t: "t = x # u" using assms(1) by (cases t) auto
  then have "trim t = x # trim_end_by is_whitespace u"
    using assms(2) trim_end_by_cong_last [where p = is_whitespace and x = x and ys = "[]" and zs = u] by (simp add: trim_def trim_by_Cons)
  then show ?thesis by (simp add: t)
qed

lemma owned_not_entry:
  assumes "owned_key line" shows "strip_prefix (lit ''entry'') line = None"
proof (rule ccontr)
  assume "strip_prefix (lit ''entry'') line \<noteq> None"
  then obtain u where u: "line = 101 # u"
    by (cases line) (auto simp: strip_prefix_def starts_with_def split: if_splits)
  obtain a b where s: "split_once 61 line = Some (a, b)" and k: "trim a \<in> {lit ''name'', lit ''version'', lit ''description''}"
    using assms by (auto simp: owned_key_def parse_toml_kv_def simp del: lit_simps split: option.splits)
  have "a = 101 # takeWhile (\<lambda>x. x \<noteq> 61) u" using s u by (auto simp: split_once_def split: if_splits)
  then show False using trim_hd [of a] k by (auto simp: is_whitespace_def)
qed

interpretation entry: section_reader "lit ''[package]''" id entry_line
  by unfold_locales (auto simp: manifest_section_for_def entry_line_def owned_not_entry simp del: lit_simps split: option.split)

text \<open>
  C23. Rewriting the manifest (\<^verbatim>\<open>tinox add\<close>) leaves every other setting of the project as it was: the entry
  file, the metrics, banner, database, container and development settings read from the rewritten file are
  those read from the file before, for every content and every writable manifest.
\<close>

theorem config_survives_write:
  assumes "good_manifest m"
  shows "read_project_entry (write_manifest c m) = read_project_entry c
    \<and> metrics_of (write_manifest c m) = metrics_of c
    \<and> banner_of (write_manifest c m) = banner_of c
    \<and> database_of (write_manifest c m) = database_of c
    \<and> docker_of (write_manifest c m) = docker_of c
    \<and> dev_of (write_manifest c m) = dev_of c"
  unfolding read_project_entry_def metrics_of_def banner_of_def database_of_def docker_of_def dev_of_def
    entry.unchanged [OF assms] metrics.unchanged [OF assms] startup.unchanged [OF assms] database.unchanged [OF assms]
    docker.unchanged [OF assms] dev.unchanged [OF assms]
  by simp

theorem config_survives_write_witness:
  "let c = lit ''[dev]'' @ [LF] @ lit ''enabled = true'';
       m = \<lparr>mf_package = None, mf_dependencies = [empty_dep\<lparr>dp_group := lit ''g''\<rparr>], mf_repositories = []\<rparr>
   in dev_of (write_manifest c m) = dev_of c"
proof -
  have "good_manifest \<lparr>mf_package = None, mf_dependencies = [empty_dep\<lparr>dp_group := lit ''g''\<rparr>], mf_repositories = []\<rparr>"
    by (simp add: good_manifest_def good_dependency_def good_value_def plain_value_def good_option_def empty_dep_def)
  from config_survives_write [OF this] show ?thesis by (simp add: Let_def)
qed

text \<open>
  The project root is the nearest directory with a manifest: \<^verbatim>\<open>find_project_root_from\<close> gives a directory
  exactly when it is the start or an ancestor of it, has a \<^verbatim>\<open>tinox.toml\<close>, and none further in has one; it gives
  none exactly when no such directory exists.
\<close>

theorem find_project_root_nearest:
  "find_project_root_from toml start = Some d \<longleftrightarrow>
     (\<exists>inner. start = inner @ d \<and> toml d \<noteq> Toml_Absent \<and>
       (\<forall>k < length inner. toml (drop k start) = Toml_Absent))"
proof (induction start)
  case Nil
  show ?case by (subst find_project_root_from.simps) auto
next
  case (Cons x start)
  show ?case
  proof (cases "toml (x # start) = Toml_Absent")
    case True
    have "(\<exists>inner. x # start = inner @ d \<and> toml d \<noteq> Toml_Absent \<and> (\<forall>k < length inner. toml (drop k (x # start)) = Toml_Absent))
      \<longleftrightarrow> (\<exists>inner. start = inner @ d \<and> toml d \<noteq> Toml_Absent \<and> (\<forall>k < length inner. toml (drop k start) = Toml_Absent))"
      (is "(\<exists>i. ?L i) \<longleftrightarrow> (\<exists>i. ?R i)")
    proof
      assume "\<exists>i. ?L i"
      then obtain i where i: "?L i" by blast
      then obtain j where j: "i = x # j" using True by (cases i) auto
      have "toml (drop k start) = Toml_Absent" if "k < length j" for k
        using i j that by (auto dest: spec [of _ "Suc k"])
      then have "?R j" using i j by simp
      then show "\<exists>i. ?R i" by blast
    next
      assume "\<exists>i. ?R i"
      then obtain i where i: "?R i" by blast
      then have "?L (x # i)" using True by (auto simp: less_Suc_eq_0_disj)
      then show "\<exists>i. ?L i" by blast
    qed
    then show ?thesis using True Cons.IH by (subst find_project_root_from.simps) simp
  next
    case False
    then have "(\<exists>inner. x # start = inner @ d \<and> toml d \<noteq> Toml_Absent \<and> (\<forall>k < length inner. toml (drop k (x # start)) = Toml_Absent))
      \<longleftrightarrow> d = x # start"
      by (auto simp: Cons_eq_append_conv)
    then show ?thesis using False by (subst find_project_root_from.simps) auto
  qed
qed

theorem find_project_root_nearest_witness:
  "find_project_root_from (\<lambda>d. if length d \<le> 1 then Toml_Content [] else Toml_Absent) [lit ''src'', lit ''app'', lit ''home'']
     = Some [lit ''home'']"
  unfolding find_project_root_nearest
  by (rule exI [of _ "[lit ''src'', lit ''app'']"]) (simp add: less_Suc_eq numeral_2_eq_2 del: lit_simps)

end
