(* ===== verification/Tinox_Pm_Walk.thy ===== *)
theory Tinox_Pm_Walk
  imports Tinox_Config
begin

text \<open>
  Depth-first walks over the dependencies of packages (\<^verbatim>\<open>src/crates/tinox/src/pm.rs\<close>). Two operations of the
  package manager are such walks, the installation and the search of the global cache; both guard against
  cycles and diamonds with a set of visited coordinates. The locale \<open>guarded_walk\<close> is what they share: with
  finitely many coordinates the walk ends, its result does not depend on the fuel, and it marks coordinates
  for good. \<open>static_walk\<close> adds that what a visit leads to does not depend on the state, and shows that the
  walk visits exactly what is reachable.
\<close>

section \<open>A guarded walk\<close>

fun walk_all :: "('c \<Rightarrow> 's \<Rightarrow> 's option) \<Rightarrow> 'c list \<Rightarrow> 's \<Rightarrow> 's option" where
  "walk_all f [] s = Some s"
| "walk_all f (c # cs) s = (case f c s of None \<Rightarrow> None | Some s' \<Rightarrow> walk_all f cs s')"

lemma walk_all_mono:
  "(\<And>c s s'. f c s = Some s' \<Longrightarrow> g c s = Some s') \<Longrightarrow> walk_all f cs s = Some s' \<Longrightarrow> walk_all g cs s = Some s'"
  by (induction cs arbitrary: s) (auto split: option.splits)

lemma walk_all_rel:
  assumes "reflp R" "transp R" "\<And>c s s'. c \<in> set cs \<Longrightarrow> f c s = Some s' \<Longrightarrow> R s s'" "walk_all f cs s = Some s'"
  shows "R s s'"
  using assms(3,4)
proof (induction cs arbitrary: s)
  case Nil then show ?case using assms(1) by (simp add: reflpD)
next
  case (Cons c cs)
  then obtain t where t: "f c s = Some t" "walk_all f cs t = Some s'" by (auto split: option.splits)
  have "R s t" using Cons.prems(1) [OF _ t(1)] by simp
  moreover have "R t s'" by (rule Cons.IH [OF _ t(2)]) (use Cons.prems(1) in auto)
  ultimately show ?case using assms(2) by (rule transpD [rotated])
qed

locale guarded_walk =
  fixes walk :: "nat \<Rightarrow> 'c \<Rightarrow> 's \<Rightarrow> 's option"
    and key :: "'c \<Rightarrow> 'k" and seen :: "'s \<Rightarrow> 'k set" and visit :: "'c \<Rightarrow> 's \<Rightarrow> 's \<times> 'c list"
  assumes walk_0: "walk 0 c s = None"
    and walk_Suc: "walk (Suc n) c s =
      (if key c \<in> seen s then Some s else walk_all (walk n) (snd (visit c s)) (fst (visit c s)))"
    and seen_visit: "seen (fst (visit c s)) = insert (key c) (seen s)"
begin

lemma walk_more: "walk n c s = Some s' \<Longrightarrow> walk (Suc n) c s = Some s'"
proof (induction n arbitrary: c s s')
  case (Suc n)
  show ?case
  proof (cases "key c \<in> seen s")
    case True then show ?thesis using Suc.prems by (simp add: walk_Suc)
  next
    case False
    then have "walk_all (walk n) (snd (visit c s)) (fst (visit c s)) = Some s'" using Suc.prems by (simp add: walk_Suc)
    then have "walk_all (walk (Suc n)) (snd (visit c s)) (fst (visit c s)) = Some s'"
      using Suc.IH by (rule walk_all_mono [rotated])
    then show ?thesis using False by (subst walk_Suc) simp
  qed
qed (simp add: walk_0)

lemma walk_fuel: "walk n c s = Some s' \<Longrightarrow> n \<le> m \<Longrightarrow> walk m c s = Some s'"
  by (induction m) (auto simp: le_Suc_eq intro: walk_more)

lemma walk_all_fuel: "walk_all (walk n) cs s = Some s' \<Longrightarrow> n \<le> m \<Longrightarrow> walk_all (walk m) cs s = Some s'"
  by (erule walk_all_mono [rotated]) (rule walk_fuel)

lemma walk_grows: "walk n c s = Some s' \<Longrightarrow> seen s \<subseteq> seen s' \<and> key c \<in> seen s'"
proof (induction n arbitrary: c s s')
  case (Suc n)
  show ?case
  proof (cases "key c \<in> seen s")
    case True then show ?thesis using Suc.prems by (simp add: walk_Suc)
  next
    case False
    then have "walk_all (walk n) (snd (visit c s)) (fst (visit c s)) = Some s'" using Suc.prems by (simp add: walk_Suc)
    then have "seen (fst (visit c s)) \<subseteq> seen s'"
      by (rule walk_all_rel [rotated 3, where R = "\<lambda>s s'. seen s \<subseteq> seen s'"])
         (use Suc.IH in \<open>auto intro!: reflpI transpI\<close>)
    then show ?thesis by (simp add: seen_visit)
  qed
qed (simp add: walk_0)

lemma walk_all_grows: "walk_all (walk n) cs s = Some s' \<Longrightarrow> seen s \<subseteq> seen s' \<and> key ` set cs \<subseteq> seen s'"
proof (induction cs arbitrary: s)
  case (Cons c cs)
  then obtain t where "walk n c s = Some t" "walk_all (walk n) cs t = Some s'" by (auto split: option.splits)
  then show ?case using Cons.IH [of t] walk_grows [of n c s t] by auto
qed simp

text \<open>With the coordinates in a finite set, one more unit of fuel than there are unvisited coordinates is enough.\<close>

lemma walk_keeps:
  assumes "\<And>c s. I s \<Longrightarrow> I (fst (visit c s))"
  shows "walk n c s = Some s' \<Longrightarrow> I s \<Longrightarrow> I s'"
proof (induction n arbitrary: c s s')
  case (Suc n)
  show ?case
  proof (cases "key c \<in> seen s")
    case True then show ?thesis using Suc.prems by (simp add: walk_Suc)
  next
    case False
    then have "walk_all (walk n) (snd (visit c s)) (fst (visit c s)) = Some s'" using Suc.prems by (simp add: walk_Suc)
    then have "I (fst (visit c s)) \<longrightarrow> I s'"
      by (rule walk_all_rel [rotated 3, where R = "\<lambda>s s'. I s \<longrightarrow> I s'"])
         (use Suc.IH in \<open>auto intro!: reflpI transpI\<close>)
    then show ?thesis using assms Suc.prems(2) by blast
  qed
qed (simp add: walk_0)

lemma walks_keep:
  assumes "\<And>c s. I s \<Longrightarrow> I (fst (visit c s))" "walk_all (walk n) cs s = Some s'" "I s"
  shows "I s'"
proof -
  have "I s \<longrightarrow> I s'"
    by (rule walk_all_rel [OF _ _ _ assms(2), where R = "\<lambda>s s'. I s \<longrightarrow> I s'"])
       (use walk_keeps [of I, OF assms(1)] in \<open>auto intro!: reflpI transpI\<close>)
  then show ?thesis using assms(3) by blast
qed

lemma walk_all_total:
  assumes U: "finite U"
    and I: "\<And>c s. I s \<Longrightarrow> I (fst (visit c s))"
    and f: "\<And>c s. key c \<in> U \<Longrightarrow> I s \<Longrightarrow> card (U - seen s) < n \<Longrightarrow> \<exists>s'. walk n c s = Some s'"
    and cs: "key ` set cs \<subseteq> U" and n: "card (U - seen s) < n" and s: "I s"
  shows "\<exists>s'. walk_all (walk n) cs s = Some s'"
  using cs n s
proof (induction cs arbitrary: s)
  case (Cons c cs)
  then obtain t where t: "walk n c s = Some t" using f by fastforce
  then have "card (U - seen t) \<le> card (U - seen s)" using walk_grows [of n c s t] U by (intro card_mono) auto
  moreover have "I t" using walk_keeps [of I, OF I t] Cons.prems(3) by blast
  ultimately show ?case using Cons t by simp
qed simp

lemma walk_total:
  assumes U: "finite U" and I: "\<And>c s. I s \<Longrightarrow> I (fst (visit c s))"
    and closed: "\<And>c s. key c \<in> U \<Longrightarrow> I s \<Longrightarrow> key ` set (snd (visit c s)) \<subseteq> U"
  shows "key c \<in> U \<Longrightarrow> I s \<Longrightarrow> card (U - seen s) < n \<Longrightarrow> \<exists>s'. walk n c s = Some s'"
proof (induction n arbitrary: c s)
  case (Suc n)
  show ?case
  proof (cases "key c \<in> seen s")
    case False
    have "U - seen (fst (visit c s)) = (U - seen s) - {key c}" by (auto simp: seen_visit)
    then have "card (U - seen (fst (visit c s))) < card (U - seen s)"
      using Suc.prems False U by (simp add: card_Diff1_less del: card_Diff_insert)
    then have "\<exists>s'. walk_all (walk n) (snd (visit c s)) (fst (visit c s)) = Some s'"
      using Suc.prems(3) I [OF Suc.prems(2)]
      by (intro walk_all_total [where I = I, OF U I Suc.IH closed [OF Suc.prems(1,2)]]) simp_all
    then show ?thesis using False by (simp add: walk_Suc)
  qed (simp add: walk_Suc)
qed simp

lemma walks_total:
  assumes "finite U" "\<And>c s. I s \<Longrightarrow> I (fst (visit c s))"
    "\<And>c s. key c \<in> U \<Longrightarrow> I s \<Longrightarrow> key ` set (snd (visit c s)) \<subseteq> U"
    "key ` set cs \<subseteq> U" "I s" "card U < n"
  shows "\<exists>s'. walk_all (walk n) cs s = Some s'"
proof -
  have "card (U - seen s) < n" using assms(1,6) by (meson Diff_subset card_mono le_less_trans)
  then show ?thesis
    using walk_all_total [where I = I, OF assms(1,2) _ assms(4) _ assms(5)] walk_total [where I = I, OF assms(1,2,3)] by blast
qed

end

section \<open>What a walk reaches\<close>

inductive_set reachable :: "('c \<Rightarrow> 'c list) \<Rightarrow> 'c list \<Rightarrow> 'c set" for succs roots where
  root: "c \<in> set roots \<Longrightarrow> c \<in> reachable succs roots"
| succ: "c \<in> reachable succs roots \<Longrightarrow> d \<in> set (succs c) \<Longrightarrow> d \<in> reachable succs roots"

locale static_walk = guarded_walk walk key seen visit
  for walk :: "nat \<Rightarrow> 'c \<Rightarrow> 's \<Rightarrow> 's option"
    and key :: "'c \<Rightarrow> 'k" and seen :: "'s \<Rightarrow> 'k set" and visit :: "'c \<Rightarrow> 's \<Rightarrow> 's \<times> 'c list" +
  fixes succs :: "'c \<Rightarrow> 'c list" and outs :: "'s \<Rightarrow> 'o set" and emits :: "'c \<Rightarrow> 'o set"
  assumes visit_succs: "snd (visit c s) = succs c"
    and visit_outs: "outs (fst (visit c s)) = outs s \<union> emits c"
begin

definition news :: "'c set \<Rightarrow> 's \<Rightarrow> 's \<Rightarrow> 'c set" where
  "news R s s' = {c \<in> R. key c \<in> seen s' - seen s}"

definition explored :: "'c set \<Rightarrow> 's \<Rightarrow> 's \<Rightarrow> bool" where
  "explored R s s' \<longleftrightarrow> seen s \<subseteq> seen s' \<and> seen s' \<subseteq> seen s \<union> key ` R
     \<and> (\<forall>c \<in> news R s s'. key ` set (succs c) \<subseteq> seen s') \<and> outs s' = outs s \<union> (\<Union>c \<in> news R s s'. emits c)"

lemma explored_refl: "reflp (explored R)"
  by (auto simp: explored_def news_def intro!: reflpI)

lemma news_trans: "seen s \<subseteq> seen t \<Longrightarrow> seen t \<subseteq> seen u \<Longrightarrow> news R s u = news R s t \<union> news R t u"
  by (auto simp: news_def)

lemma explored_trans: "transp (explored R)"
proof (rule transpI)
  fix s t u assume st: "explored R s t" and tu: "explored R t u"
  then have n: "news R s u = news R s t \<union> news R t u" by (intro news_trans) (simp_all add: explored_def)
  have "outs u = outs s \<union> (\<Union>c \<in> news R s u. emits c)"
  proof -
    have "outs t = outs s \<union> (\<Union>c \<in> news R s t. emits c)" "outs u = outs t \<union> (\<Union>c \<in> news R t u. emits c)"
      using st tu by (simp_all add: explored_def)
    then show ?thesis by (simp only: n UN_Un Un_assoc)
  qed
  moreover have "key ` set (succs c) \<subseteq> seen u" if "c \<in> news R s u" for c
  proof -
    have "seen t \<subseteq> seen u" using tu by (simp add: explored_def)
    moreover have "c \<in> news R s t \<or> c \<in> news R t u" using that by (simp add: n)
    moreover have "\<forall>c \<in> news R s t. key ` set (succs c) \<subseteq> seen t" "\<forall>c \<in> news R t u. key ` set (succs c) \<subseteq> seen u"
      using st tu by (simp_all add: explored_def)
    ultimately show ?thesis by (metis subset_trans)
  qed
  moreover have "seen s \<subseteq> seen u \<and> seen u \<subseteq> seen s \<union> key ` R" 
  proof -
    have "seen s \<subseteq> seen t" "seen t \<subseteq> seen s \<union> key ` R" "seen t \<subseteq> seen u" "seen u \<subseteq> seen t \<union> key ` R"
      using st tu by (simp_all add: explored_def)
    then show ?thesis by blast
  qed
  ultimately show "explored R s u" by (simp add: explored_def)
qed

definition coherent :: "'c set \<Rightarrow> bool" where
  "coherent R \<longleftrightarrow> (\<forall>c \<in> R. set (succs c) \<subseteq> R) \<and>
     (\<forall>c \<in> R. \<forall>d \<in> R. key c = key d \<longrightarrow> emits c = emits d \<and> set (succs c) = set (succs d))"

lemma walk_explored:
  assumes R: "coherent R"
  shows "walk n c s = Some s' \<Longrightarrow> c \<in> R \<Longrightarrow> explored R s s'"
proof (induction n arbitrary: c s s')
  case (Suc n)
  show ?case
  proof (cases "key c \<in> seen s")
    case True then show ?thesis using Suc.prems explored_refl [THEN reflpD] by (simp add: walk_Suc)
  next
    case False
    let ?s = "fst (visit c s)"
    have w: "walk_all (walk n) (succs c) ?s = Some s'" using Suc.prems False by (simp add: walk_Suc visit_succs)
    have sub: "set (succs c) \<subseteq> R" using R Suc.prems(2) unfolding coherent_def by blast
    have "explored R t t'" if "d \<in> set (succs c)" "walk n d t = Some t'" for d t t'
      using Suc.IH sub that by blast
    then have e: "explored R ?s s'"
      using walk_all_rel [where R = "explored R", OF explored_refl explored_trans _ w] by blast
    have k: "key ` set (succs c) \<subseteq> seen s'" using walk_all_grows [OF w] by blast
    have same: "emits d = emits c" "set (succs d) = set (succs c)" if "d \<in> R" "key d = key c" for d
      using R Suc.prems(2) that unfolding coherent_def by blast+
    have n: "news R s s' = {d \<in> R. key d = key c} \<union> news R ?s s'"
      using e False by (auto simp: news_def explored_def seen_visit)
    have "outs s' = outs s \<union> (\<Union>d \<in> news R s s'. emits d)"
    proof -
      have "(\<Union>d \<in> {d \<in> R. key d = key c}. emits d) = emits c" using same(1) Suc.prems(2) by blast
      moreover have "outs s' = outs s \<union> emits c \<union> (\<Union>d \<in> news R ?s s'. emits d)"
        using e unfolding explored_def visit_outs by blast
      ultimately show ?thesis by (simp only: n UN_Un Un_assoc)
    qed
    moreover have "\<forall>d \<in> news R s s'. key ` set (succs d) \<subseteq> seen s'"
    proof
      fix d assume "d \<in> news R s s'"
      then consider "d \<in> R" "key d = key c" | "d \<in> news R ?s s'" unfolding n by blast
      then show "key ` set (succs d) \<subseteq> seen s'"
        by cases (use same(2) k e in \<open>simp_all add: explored_def\<close>)
    qed
    moreover have "seen s \<subseteq> seen s' \<and> seen s' \<subseteq> seen s \<union> key ` R"
      using e Suc.prems(2) by (auto simp: explored_def seen_visit)
    ultimately show ?thesis by (simp add: explored_def)
  qed
qed (simp add: walk_0)

lemma walks_reach:
  assumes R: "coherent (reachable succs cs)" and w: "walk_all (walk n) cs s = Some s'" and s: "seen s = {}" "outs s = {}"
  shows "seen s' = key ` reachable succs cs" "outs s' = (\<Union>c \<in> reachable succs cs. emits c)"
proof -
  let ?R = "reachable succs cs"
  have "explored ?R t t'" if "d \<in> set cs" "walk n d t = Some t'" for d t t'
    using walk_explored [OF R that(2)] reachable.root [OF that(1)] by blast
  then have e: "explored ?R s s'"
    using walk_all_rel [where R = "explored ?R", OF explored_refl explored_trans _ w] by blast
  have "key c \<in> seen s'" if "c \<in> ?R" for c
    using that
  proof (induction rule: reachable.induct)
    case (root c) then show ?case using walk_all_grows [OF w] by blast
  next
    case (succ c d)
    then have "c \<in> news ?R s s'" using s by (simp add: news_def)
    then show ?case using e succ.hyps(2) unfolding explored_def by blast
  qed
  then show k: "seen s' = key ` ?R" using e s by (auto simp: explored_def)
  then show "outs s' = (\<Union>c \<in> ?R. emits c)" using e s by (auto simp: explored_def news_def)
qed

end

end
