(* ===== verification/Tinox_Pm_Encoding.thy ===== *)
theory Tinox_Pm_Encoding
  imports Tinox_Strings
begin

unbundle bit_operations_syntax

text \<open>
  The artifact envelope of a registry (\<^verbatim>\<open>parse_registry_envelope\<close>, \<^verbatim>\<open>extract_json_string_field\<close>
  and \<^verbatim>\<open>base64_decode\<close> of \<^verbatim>\<open>src/crates/tinox/src/pm.rs\<close>), on bytes as 8-bit words, with UTF-8 as
  \<^verbatim>\<open>std::str::from_utf8\<close> and \<^verbatim>\<open>str::bytes\<close> have it. The reference encoders are RFC 4648's base64 and
  the JSON text that the registry writes.
\<close>

section \<open>UTF-8\<close>

definition utf8_char :: "rchar \<Rightarrow> u8 list" where
  "utf8_char c =
     (if c < 0x80 then [of_nat c]
      else if c < 0x800 then [of_nat (0xC0 + c div 0x40), of_nat (0x80 + c mod 0x40)]
      else if c < 0x10000 then
        [of_nat (0xE0 + c div 0x1000), of_nat (0x80 + c div 0x40 mod 0x40), of_nat (0x80 + c mod 0x40)]
      else [of_nat (0xF0 + c div 0x40000), of_nat (0x80 + c div 0x1000 mod 0x40),
            of_nat (0x80 + c div 0x40 mod 0x40), of_nat (0x80 + c mod 0x40)])"

definition utf8_bytes :: "rstring \<Rightarrow> u8 list" where
  "utf8_bytes t = concat (map utf8_char t)"

definition utf8_cont :: "u8 \<Rightarrow> bool" where
  "utf8_cont b \<longleftrightarrow> 0x80 \<le> unat b \<and> unat b < 0xC0"

text \<open>One scalar value: no overlong form, no surrogate, nothing beyond \<^verbatim>\<open>0x10FFFF\<close>.\<close>

fun utf8_decode :: "u8 list \<Rightarrow> rstring option" where
  "utf8_decode [] = Some []"
| "utf8_decode (b # bs) =
     (if unat b < 0x80 then map_option (Cons (unat b)) (utf8_decode bs)
      else if 0xC2 \<le> unat b \<and> unat b < 0xE0 then
        (case bs of
           b1 # bs1 \<Rightarrow>
             if utf8_cont b1 then map_option (Cons ((unat b - 0xC0) * 0x40 + (unat b1 - 0x80))) (utf8_decode bs1) else None
         | _ \<Rightarrow> None)
      else if 0xE0 \<le> unat b \<and> unat b < 0xF0 then
        (case bs of
           b1 # b2 # bs2 \<Rightarrow>
             (let c = (unat b - 0xE0) * 0x1000 + (unat b1 - 0x80) * 0x40 + (unat b2 - 0x80) in
              if utf8_cont b1 \<and> utf8_cont b2 \<and> 0x800 \<le> c \<and> is_scalar c then map_option (Cons c) (utf8_decode bs2) else None)
         | _ \<Rightarrow> None)
      else if 0xF0 \<le> unat b \<and> unat b < 0xF5 then
        (case bs of
           b1 # b2 # b3 # bs3 \<Rightarrow>
             (let c = (unat b - 0xF0) * 0x40000 + (unat b1 - 0x80) * 0x1000 + (unat b2 - 0x80) * 0x40 + (unat b3 - 0x80) in
              if utf8_cont b1 \<and> utf8_cont b2 \<and> utf8_cont b3 \<and> 0x10000 \<le> c \<and> is_scalar c
              then map_option (Cons c) (utf8_decode bs3) else None)
         | _ \<Rightarrow> None)
      else None)"

section \<open>Base64\<close>

definition b64_val :: "u8 \<Rightarrow> u8 option" where
  "b64_val c =
     (if 65 \<le> c \<and> c \<le> 90 then Some (c - 65)
      else if 97 \<le> c \<and> c \<le> 122 then Some (c - 97 + 26)
      else if 48 \<le> c \<and> c \<le> 57 then Some (c - 48 + 52)
      else if c = 43 then Some 62
      else if c = 47 then Some 63
      else None)"

abbreviation PAD :: u8 where "PAD \<equiv> 61"

text \<open>The loop of \<^verbatim>\<open>base64_decode\<close>, on the bytes from index \<^verbatim>\<open>i\<close> on.\<close>

fun base64_loop :: "u8 list \<Rightarrow> u8 list \<Rightarrow> u8 list option" where
  "base64_loop [] out = Some out"
| "base64_loop [b0] out = None"
| "base64_loop (b0 # b1 # bs) out =
     (case b64_val b0 of None \<Rightarrow> None | Some c0 \<Rightarrow>
      (case b64_val b1 of None \<Rightarrow> None | Some c1 \<Rightarrow>
       (let out1 = out @ [push_bit 2 c0 OR drop_bit 4 c1] in
        case bs of
          [] \<Rightarrow> Some out1
        | b2 # bs2 \<Rightarrow>
            if b2 = PAD then Some out1
            else (case b64_val b2 of None \<Rightarrow> None | Some c2 \<Rightarrow>
              (let out2 = out1 @ [push_bit 4 c1 OR drop_bit 2 c2] in
               case bs2 of
                 [] \<Rightarrow> Some out2
               | b3 # bs3 \<Rightarrow>
                   if b3 = PAD then Some out2
                   else (case b64_val b3 of None \<Rightarrow> None
                         | Some c3 \<Rightarrow> base64_loop bs3 (out2 @ [push_bit 6 c2 OR c3])))))))"

definition byte_is_whitespace :: "u8 \<Rightarrow> bool" where
  "byte_is_whitespace b \<longleftrightarrow> is_ascii_whitespace (unat b)"

definition base64_decode :: "rstring \<Rightarrow> u8 list option" where
  "base64_decode input = base64_loop (filter (\<lambda>b. \<not> byte_is_whitespace b) (utf8_bytes input)) []"

section \<open>The envelope\<close>

abbreviation QUOTE :: rchar where "QUOTE \<equiv> 34"
abbreviation BACKSLASH :: rchar where "BACKSLASH \<equiv> 92"

fun json_string_rest :: "bool \<Rightarrow> rstring \<Rightarrow> rstring \<Rightarrow> rstring option" where
  "json_string_rest escaped res [] = None"
| "json_string_rest escaped res (c # cs) =
     (if escaped then json_string_rest False (res @ [c]) cs
      else if c = BACKSLASH then json_string_rest True res cs
      else if c = QUOTE then Some res
      else json_string_rest False (res @ [c]) cs)"

definition extract_json_string_field :: "rstring \<Rightarrow> rstring \<Rightarrow> rstring option" where
  "extract_json_string_field json fld =
     (case after_first ([QUOTE] @ fld @ [QUOTE]) json of None \<Rightarrow> None | Some after_key \<Rightarrow>
      (case after_first (lit '':'') after_key of None \<Rightarrow> None | Some after_colon \<Rightarrow>
       (case trim_start after_colon of
          [] \<Rightarrow> None
        | c # cs \<Rightarrow> if c \<noteq> QUOTE then None else json_string_rest False [] cs)))"

definition parse_registry_envelope :: "u8 list \<Rightarrow> (rstring \<times> u8 list) option" where
  "parse_registry_envelope bytes =
     (case utf8_decode bytes of None \<Rightarrow> None | Some text \<Rightarrow>
      (let trimmed = trim_start text in
       if \<not> starts_with (lit ''{'') trimmed then None
       else
         case extract_json_string_field trimmed (lit ''filename'') of None \<Rightarrow> None | Some filename \<Rightarrow>
         (case extract_json_string_field trimmed (lit ''contentBase64'') of None \<Rightarrow> None | Some content \<Rightarrow>
          (case base64_decode content of None \<Rightarrow> None | Some decoded \<Rightarrow> Some (filename, decoded)))))"

section \<open>The reference encoders\<close>

definition b64_char :: "u8 \<Rightarrow> rchar" where
  "b64_char s =
     (if s < 26 then 65 + unat s
      else if s < 52 then 97 + (unat s - 26)
      else if s < 62 then 48 + (unat s - 52)
      else if s = 62 then 43 else 47)"

fun base64_encode :: "u8 list \<Rightarrow> rstring" where
  "base64_encode [] = []"
| "base64_encode [a] = [b64_char (drop_bit 2 a), b64_char (push_bit 4 (take_bit 2 a)), 61, 61]"
| "base64_encode [a, b] =
     [b64_char (drop_bit 2 a), b64_char (push_bit 4 (take_bit 2 a) OR drop_bit 4 b),
      b64_char (push_bit 2 (take_bit 4 b)), 61]"
| "base64_encode (a # b # c # cs) =
     [b64_char (drop_bit 2 a), b64_char (push_bit 4 (take_bit 2 a) OR drop_bit 4 b),
      b64_char (push_bit 2 (take_bit 4 b) OR drop_bit 6 c), b64_char (take_bit 6 c)] @ base64_encode cs"

primrec json_escape :: "rstring \<Rightarrow> rstring" where
  "json_escape [] = []"
| "json_escape (c # cs) =
     (if c = QUOTE \<or> c = BACKSLASH then BACKSLASH # c # json_escape cs else c # json_escape cs)"

definition json_field :: "rstring \<Rightarrow> rstring \<Rightarrow> rstring" where
  "json_field key v = QUOTE # key @ QUOTE # lit '':'' @ QUOTE # v @ [QUOTE]"

definition envelope :: "rstring \<Rightarrow> u8 list \<Rightarrow> rstring" where
  "envelope filename content =
     lit ''{'' @ json_field (lit ''filename'') (json_escape filename) @ lit '',''
       @ json_field (lit ''contentBase64'') (base64_encode content) @ lit ''}''"

section \<open>Base64 reads back\<close>

lemma u8_of_nat: "n < 256 \<Longrightarrow> unat (of_nat n :: u8) = n"
  by (simp add: unat_of_nat take_bit_eq_mod)

lemma b64_char_props:
  assumes "s < (64 :: u8)"
  shows "b64_char s < 128" "b64_char s \<noteq> 61"
    "\<not> is_ascii_whitespace (b64_char s)" "b64_char s \<noteq> QUOTE" "b64_char s \<noteq> BACKSLASH"
  using assms
  by (auto simp: b64_char_def word_less_nat_alt is_ascii_whitespace_def)

lemma b64_val_nat:
  "b64_val c =
     (if 65 \<le> unat c \<and> unat c \<le> 90 then Some (c - 65)
      else if 97 \<le> unat c \<and> unat c \<le> 122 then Some (c - 97 + 26)
      else if 48 \<le> unat c \<and> unat c \<le> 57 then Some (c - 48 + 52)
      else if unat c = 43 then Some 62
      else if unat c = 47 then Some 63
      else None)"
proof -
  have "c = 43 \<longleftrightarrow> unat c = 43" "c = 47 \<longleftrightarrow> unat c = 47" by (simp_all add: word_unat_eq_iff)
  then show ?thesis by (simp add: b64_val_def word_le_nat_alt)
qed

lemma b64_val_char:
  assumes "s < (64 :: u8)"
  shows "b64_val (of_nat (b64_char s)) = Some s"
proof -
  let ?c = "of_nat (b64_char s) :: u8"
  have n: "unat s < 64" using assms by (simp add: word_less_nat_alt)
  have u: "unat ?c = b64_char s"
    using b64_char_props(1) [OF assms] by (simp add: u8_of_nat)
  consider (upper) "unat s < 26" | (lower) "26 \<le> unat s" "unat s < 52" | (digit) "52 \<le> unat s" "unat s < 62"
    | (plus) "unat s = 62" | (slash) "unat s = 63"
    using n by linarith
  then show ?thesis
  proof cases
    case upper
    then have "b64_char s = 65 + unat s" by (simp add: b64_char_def word_less_nat_alt)
    then show ?thesis using upper u by (simp add: b64_val_nat)
  next
    case lower
    then have "b64_char s = 97 + (unat s - 26)" by (simp add: b64_char_def word_less_nat_alt)
    then show ?thesis using lower u by (simp add: b64_val_nat of_nat_diff)
  next
    case digit
    then have "b64_char s = 48 + (unat s - 52)" by (simp add: b64_char_def word_less_nat_alt)
    then show ?thesis using digit u by (auto simp: b64_val_nat of_nat_diff)
  next
    case plus
    then have "s = 62" by (simp add: word_unat_eq_iff)
    then show ?thesis by (simp add: b64_char_def b64_val_def)
  next
    case slash
    then have "s = 63" by (simp add: word_unat_eq_iff)
    then show ?thesis by (simp add: b64_char_def b64_val_def)
  qed
qed

lemma sextet_bits: "(s :: u8) < 64 \<longleftrightarrow> (\<forall>n \<ge> 6. \<not> bit s n)"
proof -
  have "s < 64 \<longleftrightarrow> take_bit 6 (unat s) = unat s"
    by (simp add: word_less_nat_alt take_bit_nat_eq_self_iff)
  also have "\<dots> \<longleftrightarrow> (\<forall>n \<ge> 6. \<not> bit (unat s) n)"
  proof
    assume "take_bit 6 (unat s) = unat s"
    then show "\<forall>n \<ge> 6. \<not> bit (unat s) n" by (metis bit_take_bit_iff not_less)
  next
    assume "\<forall>n \<ge> 6. \<not> bit (unat s) n"
    then show "take_bit 6 (unat s) = unat s" by (intro bit_eqI) (metis bit_take_bit_iff not_less)
  qed
  also have "\<dots> \<longleftrightarrow> (\<forall>n \<ge> 6. \<not> bit s n)"
    by (auto simp: bit_unsigned_iff dest: bit_imp_le_length)
  finally show ?thesis .
qed

lemma sextet_high: "drop_bit 2 (a :: u8) < 64"
  unfolding sextet_bits by (auto simp: bit_simps dest: bit_imp_le_length)

lemma sextet_mid: "push_bit 4 (take_bit 2 (a :: u8)) OR drop_bit 4 b < 64"
  unfolding sextet_bits by (auto simp: bit_simps dest: bit_imp_le_length)

lemma sextet_mid_end: "push_bit 4 (take_bit 2 (a :: u8)) < 64"
  unfolding sextet_bits by (auto simp: bit_simps dest: bit_imp_le_length)

lemma sextet_next: "push_bit 2 (take_bit 4 (a :: u8)) OR drop_bit 6 b < 64"
  unfolding sextet_bits by (auto simp: bit_simps dest: bit_imp_le_length)

lemma sextet_next_end: "push_bit 2 (take_bit 4 (a :: u8)) < 64"
  unfolding sextet_bits by (auto simp: bit_simps dest: bit_imp_le_length)

lemma sextet_low: "take_bit 6 (a :: u8) < 64"
  unfolding sextet_bits by (auto simp: bit_simps dest: bit_imp_le_length)

lemmas sextets = sextet_high sextet_mid sextet_mid_end sextet_next sextet_next_end sextet_low

lemma bit_back:
  "bit a (Suc (Suc (n - 2))) \<longleftrightarrow> (if n < 2 then bit a 2 else bit a n)"
  "bit a (4 + (n - 4)) \<longleftrightarrow> (if n < 4 then bit a 4 else bit a n)"
  by (auto simp: numeral_2_eq_2 Suc_diff_Suc not_less Suc_diff_le)

lemma octet_first: "push_bit 2 (drop_bit 2 a) OR drop_bit 4 (push_bit 4 (take_bit 2 a) OR drop_bit 4 b) = (a :: u8)"
  by (rule bit_word_eqI) (auto simp: bit_simps bit_back dest: bit_imp_le_length split: if_splits)

lemma octet_first_end: "push_bit 2 (drop_bit 2 a) OR drop_bit 4 (push_bit 4 (take_bit 2 a)) = (a :: u8)"
  by (rule bit_word_eqI) (auto simp: bit_simps bit_back split: if_splits)

lemma octet_second:
  "push_bit 4 (push_bit 4 (take_bit 2 a) OR drop_bit 4 b) OR drop_bit 2 (push_bit 2 (take_bit 4 b) OR drop_bit 6 c) = (b :: u8)"
  by (rule bit_word_eqI) (auto simp: bit_simps bit_back dest: bit_imp_le_length split: if_splits)

lemma octet_second_end:
  "push_bit 4 (push_bit 4 (take_bit 2 a) OR drop_bit 4 b) OR drop_bit 2 (push_bit 2 (take_bit 4 b)) = (b :: u8)"
  by (rule bit_word_eqI) (auto simp: bit_simps bit_back split: if_splits)

lemma octet_third: "push_bit 6 (push_bit 2 (take_bit 4 b) OR drop_bit 6 c) OR take_bit 6 c = (c :: u8)"
  by (rule bit_word_eqI) (auto simp: bit_simps bit_back dest: bit_imp_le_length split: if_splits)

lemma octet_rest:
  "push_bit 4 (drop_bit 4 b) OR drop_bit 2 (push_bit 2 (take_bit 4 b)) = (b :: u8)"
  "push_bit 6 (drop_bit 6 c) OR take_bit 6 c = (c :: u8)"
  using octet_second_end [of 0 b] octet_third [of 0 c] by simp_all

lemmas octets = octet_first octet_first_end octet_second octet_second_end octet_third octet_rest

lemma b64_char_not_pad: "s < 64 \<Longrightarrow> (of_nat (b64_char s) :: u8) \<noteq> PAD"
  using b64_char_props [of s] u8_of_nat [of "b64_char s"] by (auto simp: word_unat_eq_iff)

lemmas b64_simps = b64_val_char b64_char_not_pad sextets octets

lemma base64_loop_encode:
  "base64_loop (map of_nat (base64_encode bs)) out = Some (out @ bs)"
  by (induction bs arbitrary: out rule: base64_encode.induct) (simp_all add: b64_simps)

lemma base64_encode_chars:
  assumes "c \<in> set (base64_encode bs)"
  shows "c < 128 \<and> \<not> is_ascii_whitespace c \<and> c \<noteq> QUOTE \<and> c \<noteq> BACKSLASH"
  using assms
  by (induction bs rule: base64_encode.induct)
     (auto simp: sextets b64_char_props is_ascii_whitespace_def [of 61])

lemma utf8_bytes_ascii: "\<forall>c \<in> set t. c < 128 \<Longrightarrow> utf8_bytes t = map of_nat t"
  by (induction t) (auto simp: utf8_bytes_def utf8_char_def)

lemma filter_map_of_nat:
  "\<forall>c \<in> set t. c < 128 \<Longrightarrow>
   filter (\<lambda>b. \<not> byte_is_whitespace b) (map of_nat t) = map of_nat (filter (\<lambda>c. \<not> is_ascii_whitespace c) t)"
  by (induction t) (auto simp: byte_is_whitespace_def u8_of_nat)

lemma base64_decode_encoded:
  assumes "filter (\<lambda>c. \<not> is_ascii_whitespace c) t = base64_encode bs"
  shows "base64_decode t = Some bs"
proof -
  have "c < 128" if "c \<in> set t" for c
  proof (cases "is_ascii_whitespace c")
    case True then show ?thesis by (auto simp: is_ascii_whitespace_def)
  next
    case False
    then have "c \<in> set (filter (\<lambda>c. \<not> is_ascii_whitespace c) t)" using that by simp
    then have "c \<in> set (base64_encode bs)" using assms by simp
    then show ?thesis using base64_encode_chars by blast
  qed
  then show ?thesis
    using assms by (simp add: base64_decode_def utf8_bytes_ascii filter_map_of_nat base64_loop_encode)
qed

section \<open>UTF-8 reads back\<close>

lemma utf8_decode_char:
  assumes "is_scalar c"
  shows "utf8_decode (utf8_char c @ bs) = map_option (Cons c) (utf8_decode bs)"
proof -
  have b: "c < 0x110000" using assms by (auto simp: is_scalar_def)
  have q: "c div 4096 = c div 64 div 64" "c div 262144 = c div 64 div 64 div 64"
    by (simp_all add: div_mult2_eq [symmetric])
  have e2: "c div 64 * 64 + c mod 64 = c" by simp
  have e3: "c div 4096 * 4096 + c div 64 mod 64 * 64 + c mod 64 = c"
    unfolding q using e2 div_mult_mod_eq [of "c div 64" 64] by linarith
  have e4: "c div 262144 * 262144 + c div 4096 mod 64 * 4096 + c div 64 mod 64 * 64 + c mod 64 = c"
    unfolding q using e2 div_mult_mod_eq [of "c div 64" 64] div_mult_mod_eq [of "c div 64 div 64" 64] by linarith
  consider "c < 0x80" | "0x80 \<le> c" "c < 0x800" | "0x800 \<le> c" "c < 0x10000" | "0x10000 \<le> c" by linarith
  then show ?thesis
  proof cases
    case 1 then show ?thesis by (simp add: utf8_char_def u8_of_nat)
  next
    case 2
    then have "2 \<le> c div 64" "c div 64 < 32" by linarith+
    then show ?thesis using 2 e2 by (auto simp: utf8_char_def u8_of_nat utf8_cont_def simp del: of_nat_add)
  next
    case 3
    then have "c div 4096 < 16" by linarith
    then show ?thesis using 3 e3 assms by (simp add: utf8_char_def u8_of_nat utf8_cont_def Let_def del: of_nat_add)
  next
    case 4
    then have "c div 262144 < 5" using b by linarith
    then show ?thesis using 4 e4 assms by (simp add: utf8_char_def u8_of_nat utf8_cont_def Let_def del: of_nat_add)
  qed
qed

lemma utf8_decode_bytes: "\<forall>c \<in> set t. is_scalar c \<Longrightarrow> utf8_decode (utf8_bytes t) = Some t"
  by (induction t) (simp_all add: utf8_bytes_def utf8_decode_char)

section \<open>The envelope reads back\<close>

lemma json_string_rest_escape: "json_string_rest False r (json_escape f @ QUOTE # u) = Some (r @ f)"
  by (induction f arbitrary: r) simp_all

lemma json_escape_id: "QUOTE \<notin> set f \<Longrightarrow> BACKSLASH \<notin> set f \<Longrightarrow> json_escape f = f"
  by (induction f) auto

lemma starts_with_Cons: "starts_with (a # p) (c # t) \<longleftrightarrow> a = c \<and> starts_with p t"
  by (auto simp: starts_with_def)

lemma starts_with_Nil [simp]: "starts_with [] t" "starts_with (a # p) [] \<longleftrightarrow> False"
  by (simp_all add: starts_with_def)

lemma after_first_here: "after_first p (p @ t) = Some t"
  by (subst after_first.simps) (simp add: starts_with_def)

lemma after_first_skip: "\<not> starts_with p (c # t) \<Longrightarrow> after_first p (c # t) = after_first p t"
  by (subst after_first.simps) simp

lemma ends_with_iff: "ends_with p t \<longleftrightarrow> (\<exists>u. t = u @ p)"
  by (auto simp: ends_with_def) (metis append_take_drop_id)

lemma starts_with_escaped:
  assumes "QUOTE \<notin> set g" "BACKSLASH \<notin> set g"
  shows "starts_with (g @ [QUOTE]) (json_escape f @ QUOTE # t) \<longleftrightarrow> f = g"
  using assms
proof (induction g arbitrary: f)
  case Nil
  then show ?case by (cases f) (auto simp: starts_with_Cons)
next
  case (Cons a g)
  then show ?case by (cases f) (auto simp: starts_with_Cons)
qed

lemma after_first_escaped:
  assumes g: "QUOTE \<notin> set g" "BACKSLASH \<notin> set g" and t: "\<not> starts_with (g @ [QUOTE]) t"
    and f: "\<not> ends_with (QUOTE # g) f"
  shows "after_first (QUOTE # g @ [QUOTE]) (json_escape f @ QUOTE # t) = after_first (QUOTE # g @ [QUOTE]) t"
  using f
proof (induction f)
  case Nil
  then show ?case using t by (simp add: after_first_skip starts_with_Cons)
next
  case (Cons c f)
  have "\<not> ends_with (QUOTE # g) f" using Cons.prems by (auto simp: ends_with_iff)
  moreover have "c = QUOTE \<Longrightarrow> f \<noteq> g" using Cons.prems by (auto simp: ends_with_iff)
  ultimately show ?case
    using Cons.IH g by (auto simp: after_first_skip starts_with_Cons starts_with_escaped)
qed


lemma not_starts_with_lit:
  "\<not> starts_with (lit ''contentBase64'' @ [QUOTE]) (lit ''filename'' @ t)"
  "\<not> starts_with (lit ''contentBase64'' @ [QUOTE]) (lit '':'' @ t)"
  "\<not> starts_with (lit ''contentBase64'' @ [QUOTE]) (lit '','' @ t)"
  by (simp_all add: starts_with_Cons)

lemma extract_filename:
  "extract_json_string_field (envelope f bs) (lit ''filename'') = Some f"
proof -
  let ?t = "lit '','' @ json_field (lit ''contentBase64'') (base64_encode bs) @ lit ''}''"
  have "after_first (QUOTE # lit ''filename'' @ [QUOTE]) (envelope f bs)
      = Some (lit '':'' @ QUOTE # json_escape f @ QUOTE # ?t)"
    using after_first_here [of "QUOTE # lit ''filename'' @ [QUOTE]" "lit '':'' @ QUOTE # json_escape f @ QUOTE # ?t"]
    by (simp add: envelope_def json_field_def after_first_skip starts_with_Cons)
  moreover have "after_first (lit '':'') (lit '':'' @ QUOTE # json_escape f @ QUOTE # ?t) = Some (QUOTE # json_escape f @ QUOTE # ?t)"
    by (rule after_first_here)
  ultimately show ?thesis
    by (simp add: extract_json_string_field_def trim_start_def is_whitespace_def json_string_rest_escape del: lit_simps)
qed

lemma extract_content:
  assumes "f \<noteq> lit ''contentBase64''" "\<not> ends_with (QUOTE # lit ''contentBase64'') f"
  shows "extract_json_string_field (envelope f bs) (lit ''contentBase64'') = Some (base64_encode bs)"
proof -
  let ?p = "QUOTE # lit ''contentBase64'' @ [QUOTE]"
  let ?v = "QUOTE # base64_encode bs @ QUOTE # lit ''}''"
  have q: "QUOTE \<notin> set (lit ''contentBase64'')" "BACKSLASH \<notin> set (lit ''contentBase64'')" by simp_all
  have "after_first ?p (envelope f bs) = after_first ?p (QUOTE # json_escape f @ QUOTE # lit '','' @ ?p @ lit '':'' @ ?v)"
    by (simp add: envelope_def json_field_def after_first_skip starts_with_Cons)
  also have "\<dots> = after_first ?p (json_escape f @ QUOTE # lit '','' @ ?p @ lit '':'' @ ?v)"
    using starts_with_escaped [OF q] assms(1) by (simp add: after_first_skip starts_with_Cons del: lit_simps)
  also have "\<dots> = after_first ?p (lit '','' @ ?p @ lit '':'' @ ?v)"
    by (rule after_first_escaped [OF q not_starts_with_lit(3) assms(2)])
  also have "\<dots> = after_first ?p (?p @ lit '':'' @ ?v)"
    by (simp add: after_first_skip starts_with_Cons)
  also have "\<dots> = Some (lit '':'' @ ?v)" by (rule after_first_here)
  finally have "after_first ?p (envelope f bs) = Some (lit '':'' @ ?v)" .
  moreover have "after_first (lit '':'') (lit '':'' @ ?v) = Some ?v" by (rule after_first_here)
  moreover have "json_escape (base64_encode bs) = base64_encode bs"
    using base64_encode_chars by (intro json_escape_id) blast+
  ultimately show ?thesis
    using json_string_rest_escape [of "[]" "base64_encode bs" "lit ''}''"]
    by (simp add: extract_json_string_field_def trim_start_def is_whitespace_def del: lit_simps)
qed

lemma json_escape_scalars: "\<forall>c \<in> set f. is_scalar c \<Longrightarrow> \<forall>c \<in> set (json_escape f). is_scalar c"
  by (induction f) (auto simp: is_scalar_def)

lemma envelope_scalars:
  assumes "\<forall>c \<in> set f. is_scalar c" shows "\<forall>c \<in> set (envelope f bs). is_scalar c"
  using json_escape_scalars [OF assms] base64_encode_chars [of _ bs]
  by (force simp: envelope_def json_field_def is_scalar_def)

text \<open>
  Base64 reads back: whatever ASCII whitespace a registry breaks the text with, \<^verbatim>\<open>base64_decode\<close> of
  the standard (RFC 4648, padded) encoding of some bytes is exactly those bytes.
\<close>

theorem base64_roundtrip:
  assumes "filter (\<lambda>c. \<not> is_ascii_whitespace c) t = base64_encode bs"
  shows "base64_decode t = Some bs"
  using assms by (rule base64_decode_encoded)

theorem base64_roundtrip_witness: "base64_decode (lit ''Zm9v YmE='') = Some [102, 111, 111, 98, 97]"
proof (rule base64_roundtrip)
  show "filter (\<lambda>c. \<not> is_ascii_whitespace c) (lit ''Zm9v YmE='') = base64_encode [102, 111, 111, 98, 97]"
    by code_simp
qed

text \<open>
  C24. The envelope of a registry reads back: for every file name of Unicode characters, quotes and
  backslashes included, and every content, \<^verbatim>\<open>parse_registry_envelope\<close> gives the file name and the bytes
  of the content. The name must not end with the key of the other field after a quote: the search for the
  key is a plain text search and would stop inside the name.
\<close>

theorem envelope_roundtrip:
  assumes "\<forall>c \<in> set f. is_scalar c" "f \<noteq> lit ''contentBase64''" "\<not> ends_with (QUOTE # lit ''contentBase64'') f"
  shows "parse_registry_envelope (utf8_bytes (envelope f bs)) = Some (f, bs)"
proof -
  have "trim_start (envelope f bs) = envelope f bs" "starts_with (lit ''{'') (envelope f bs)"
    by (simp_all add: envelope_def trim_start_def is_whitespace_def starts_with_Cons)
  moreover have "base64_decode (base64_encode bs) = Some bs"
    using base64_encode_chars by (intro base64_decode_encoded filter_True) blast
  ultimately show ?thesis
    using assms
    by (simp add: parse_registry_envelope_def utf8_decode_bytes envelope_scalars extract_filename extract_content Let_def del: lit_simps)
qed

theorem envelope_roundtrip_witness:
  "parse_registry_envelope (utf8_bytes (envelope (lit ''a.tnx'') [0, 255])) = Some (lit ''a.tnx'', [0, 255])"
  by (rule envelope_roundtrip) (simp_all add: is_scalar_def ends_with_def)

end
