(* ===== verification/Tinox_Pm_Install.thy ===== *)
theory Tinox_Pm_Install
  imports Tinox_Pm_Walk Tinox_Pm_Encoding
begin

text \<open>
  Installing dependencies (\<^verbatim>\<open>src/crates/tinox/src/pm.rs\<close>): downloads with retries, the verification and
  installation of one artifact, the transitive walk, \<^verbatim>\<open>tinox install\<close> and \<^verbatim>\<open>tinox add\<close>, and the directories of
  installed packages for the import resolution. The network, the hash, the archive formats, the home directory
  and the outcome of the file operations are the record \<open>pm_env\<close>; the directories that exist, with the
  \<^verbatim>\<open>tinox.toml\<close> each contains, and the number of requests made are the state.
\<close>

section \<open>The surroundings\<close>

datatype http_result =
  Http_Ok "u8 list option" \<comment> \<open>the body, or that reading it fails\<close>
| Http_Status nat rstring
| Http_Transport rstring

datatype archive_kind = Tar_Gz | Zip

datatype rename_outcome = Renamed | Raced toml_file | Rename_Failed rstring

record pm_env =
  env_get :: "rstring \<Rightarrow> nat \<Rightarrow> http_result" \<comment> \<open>the answer to a URL at the n-th request\<close>
  env_sha256 :: "u8 list \<Rightarrow> rstring"
  env_unpack :: "archive_kind \<Rightarrow> u8 list \<Rightarrow> rstring \<Rightarrow> rstring + toml_file"
  env_write :: "rstring \<Rightarrow> u8 list \<Rightarrow> rstring option"
  env_mkdir :: "rstring \<Rightarrow> rstring option"
  env_rename :: "rstring \<Rightarrow> rstring \<Rightarrow> rename_outcome"
  env_suffix :: "nat \<Rightarrow> rstring" \<comment> \<open>process id and counter, printed\<close>
  env_home :: "rstring option"

record pm_world =
  pw_requests :: nat
  pw_staged :: nat
  pw_dirs :: "rstring \<Rightarrow> toml_file option" \<comment> \<open>directories that exist, with their manifest\<close>

section \<open>Downloading\<close>

definition MAX_ATTEMPTS :: nat where "MAX_ATTEMPTS = 4"

datatype get_error = Get_Error rstring | Get_Panic

text \<open>The attempts left, the requests made so far, the last error. The pauses between attempts have no effect here.\<close>

fun get_loop :: "(nat \<Rightarrow> http_result) \<Rightarrow> nat \<Rightarrow> nat \<Rightarrow> rstring option \<Rightarrow> (get_error + u8 list option) \<times> nat" where
  "get_loop answer 0 k last_err = (Inl (case last_err of Some e \<Rightarrow> Get_Error e | None \<Rightarrow> Get_Panic), k)"
| "get_loop answer (Suc n) k last_err = (case answer k of
     Http_Ok body \<Rightarrow> (Inr body, Suc k)
   | Http_Status code msg \<Rightarrow>
       if \<not> (500 \<le> code \<and> code < 600) then (Inl (Get_Error msg), Suc k)
       else get_loop answer n (Suc k) (Some msg)
   | Http_Transport msg \<Rightarrow> get_loop answer n (Suc k) (Some msg))"

definition get_with_retry :: "pm_env \<Rightarrow> rstring \<Rightarrow> nat \<Rightarrow> (get_error + u8 list option) \<times> nat" where
  "get_with_retry env url k = get_loop (env_get env url) MAX_ATTEMPTS k None"

section \<open>Installing one dependency\<close>

definition file_name :: "rstring \<Rightarrow> rstring" where
  "file_name p = last_segment SLASH p"

definition parent_dir :: "rstring \<Rightarrow> rstring" where
  "parent_dir p = take (length p - length (file_name p) - 1) p"

definition staging_dir :: "pm_env \<Rightarrow> rstring \<Rightarrow> nat \<Rightarrow> rstring" where
  "staging_dir env install_dir n =
     path_join (parent_dir install_dir) (lit ''.'' @ file_name install_dir @ lit ''-staging-'' @ env_suffix env n)"

text \<open>
  The dispatch on the artifact's name. Lower-casing to compare with \<^verbatim>\<open>.tar.gz\<close>, \<^verbatim>\<open>.tgz\<close> and \<^verbatim>\<open>.zip\<close> is ASCII
  lower-casing: no other character has one of these letters as its lower case.
\<close>

definition extract_artifact :: "pm_env \<Rightarrow> rstring \<Rightarrow> u8 list \<Rightarrow> rstring \<Rightarrow> pm_error + toml_file" where
  "extract_artifact env name bytes staging =
     (let name_lower = map ascii_lower name;
          unpack = (\<lambda>kind. case env_unpack env kind bytes staging of Inl e \<Rightarrow> Inl (PE_Extract e) | Inr t \<Rightarrow> Inr t) in
      if ends_with (lit ''.tar.gz'') name_lower \<or> ends_with (lit ''.tgz'') name_lower then unpack Tar_Gz
      else if ends_with (lit ''.zip'') name_lower then unpack Zip
      else
        (let filename = (if ends_with (lit ''.tnx'') name then name else name @ lit ''.tnx'') in
         case env_write env (path_join staging filename) bytes of
           Some e \<Rightarrow> Inl (PE_Extract e)
         | None \<Rightarrow> Inr Toml_Absent))"

definition unwrap_artifact :: "u8 list \<Rightarrow> rstring \<Rightarrow> u8 list \<times> rstring" where
  "unwrap_artifact raw url = (case parse_registry_envelope raw of
     Some (filename, decoded) \<Rightarrow> (decoded, filename)
   | None \<Rightarrow> (raw, last_segment SLASH url))"

text \<open>From the verified bytes to the installed directory: staging, extraction, the rename into place.\<close>

definition place_artifact ::
  "pm_env \<Rightarrow> rstring \<Rightarrow> rstring \<Rightarrow> u8 list \<Rightarrow> rstring \<Rightarrow> pm_world \<Rightarrow> (pm_error + rstring option) \<times> pm_world" where
  "place_artifact env install_dir name bytes sha w =
     (let staging = staging_dir env install_dir (pw_staged w); w1 = w\<lparr>pw_staged := Suc (pw_staged w)\<rparr> in
      case env_mkdir env staging of Some e \<Rightarrow> (Inl (PE_Extract e), w1) | None \<Rightarrow>
      (case extract_artifact env name bytes staging of Inl e \<Rightarrow> (Inl e, w1) | Inr toml \<Rightarrow>
       (case env_mkdir env (parent_dir install_dir) of Some e \<Rightarrow> (Inl (PE_Extract e), w1) | None \<Rightarrow>
        (case env_rename env staging install_dir of
           Renamed \<Rightarrow> (Inr (Some sha), w1\<lparr>pw_dirs := (pw_dirs w1)(install_dir := Some toml)\<rparr>)
         | Raced other \<Rightarrow> (Inr (Some sha), w1\<lparr>pw_dirs := (pw_dirs w1)(install_dir := Some other)\<rparr>)
         | Rename_Failed e \<Rightarrow> (Inl (PE_Extract e), w1)))))"

definition install_dep ::
  "pm_env \<Rightarrow> rstring \<Rightarrow> dependency \<Rightarrow> rstring \<Rightarrow> tinox_lock \<Rightarrow> bool \<Rightarrow> pm_world
     \<Rightarrow> (pm_error + rstring option) \<times> pm_world" where
  "install_dep env root dep url lock update w =
     (case resolved_install_dir root (env_home env) dep of Inl e \<Rightarrow> (Inl e, w) | Inr install_dir \<Rightarrow>
      if pw_dirs w install_dir \<noteq> None then (Inr None, w)
      else
       (case get_with_retry env url (pw_requests w) of (response, k) \<Rightarrow>
        let w1 = w\<lparr>pw_requests := k\<rparr> in
        case response of
          Inl (Get_Error e) \<Rightarrow> (Inl (PE_Download url e), w1)
        | Inl Get_Panic \<Rightarrow> (Inl (PE_Download url []), w1)
        | Inr None \<Rightarrow> (Inl (PE_Download url []), w1)
        | Inr (Some raw) \<Rightarrow>
            (case unwrap_artifact raw url of (bytes, name) \<Rightarrow>
             let sha = env_sha256 env bytes in
             case verify_checksum dep url lock update sha of
               Inl e \<Rightarrow> (Inl e, w1)
             | Inr _ \<Rightarrow> place_artifact env install_dir name bytes sha w1)))"

section \<open>The transitive walk\<close>

text \<open>\<^verbatim>\<open>read_manifest\<close> on the \<^verbatim>\<open>tinox.toml\<close> of a directory.\<close>

definition default_manifest :: tinox_manifest where
  "default_manifest = \<lparr>mf_package = None, mf_dependencies = [], mf_repositories = []\<rparr>"

definition read_manifest :: "toml_file \<Rightarrow> tinox_manifest option" where
  "read_manifest t = (case t of
     Toml_Absent \<Rightarrow> Some default_manifest
   | Toml_Unreadable \<Rightarrow> None
   | Toml_Content c \<Rightarrow> Some (parse_manifest c))"

record install_state =
  is_world :: pm_world
  is_lock :: tinox_lock
  is_visited :: "coord set"
  is_changed :: bool
  is_ok :: nat
  is_fail :: nat

definition count_ok :: "install_state \<Rightarrow> install_state" where
  "count_ok s = s\<lparr>is_ok := Suc (is_ok s)\<rparr>"

definition count_fail :: "install_state \<Rightarrow> install_state" where
  "count_fail s = s\<lparr>is_fail := Suc (is_fail s)\<rparr>"

definition pin :: "dependency \<Rightarrow> rstring \<Rightarrow> rstring \<Rightarrow> install_state \<Rightarrow> install_state" where
  "pin dep url sha s = s\<lparr>is_lock := upsert_lock_entry (is_lock s)
      \<lparr>le_group = dp_group dep, le_artifact_id = dp_artifact_id dep, le_version = dp_version dep, le_url = url, le_sha256 = sha\<rparr>,
    is_changed := True\<rparr>"

text \<open>The dependencies that the installed package declares, each with the manifest that declares it.\<close>

definition sub_dependencies ::
  "pm_env \<Rightarrow> rstring \<Rightarrow> dependency \<Rightarrow> pm_world \<Rightarrow> (dependency \<times> tinox_manifest) list" where
  "sub_dependencies env root dep w = (case resolved_install_dir root (env_home env) dep of
     Inl _ \<Rightarrow> []
   | Inr install_dir \<Rightarrow>
       (case read_manifest (case pw_dirs w install_dir of Some t \<Rightarrow> t | None \<Rightarrow> Toml_Absent) of
          None \<Rightarrow> []
        | Some sub \<Rightarrow> map (\<lambda>d. (d, sub)) (mf_dependencies sub)))"

text \<open>One visit: everything \<^verbatim>\<open>install_dep_transitively\<close> does before the loop over the further dependencies.\<close>

definition install_visit ::
  "pm_env \<Rightarrow> rstring \<Rightarrow> bool \<Rightarrow> dependency \<times> tinox_manifest \<Rightarrow> install_state
     \<Rightarrow> install_state \<times> (dependency \<times> tinox_manifest) list" where
  "install_visit env root update c s =
     (case c of (dep, owning) \<Rightarrow>
      let s0 = s\<lparr>is_visited := insert (dep_coord dep) (is_visited s)\<rparr> in
      case effective_download_url dep owning of
        Inl e \<Rightarrow> (count_fail s0, [])
      | Inr url \<Rightarrow>
          (case install_dep env root dep url (is_lock s0) update (is_world s0) of (r, w) \<Rightarrow>
           let s1 = s0\<lparr>is_world := w\<rparr> in
           case r of
             Inr (Some sha) \<Rightarrow> (count_ok (pin dep url sha s1), sub_dependencies env root dep w)
           | Inr None \<Rightarrow> (count_ok s1, sub_dependencies env root dep w)
           | Inl e \<Rightarrow> (count_fail s1, [])))"

primrec install_dep_transitively ::
  "nat \<Rightarrow> pm_env \<Rightarrow> rstring \<Rightarrow> bool \<Rightarrow> dependency \<times> tinox_manifest \<Rightarrow> install_state \<Rightarrow> install_state option" where
  "install_dep_transitively 0 env root update c s = None"
| "install_dep_transitively (Suc n) env root update c s =
     (if dep_coord (fst c) \<in> is_visited s then Some s
      else case install_visit env root update c s of
             (s1, subs) \<Rightarrow> walk_all (install_dep_transitively n env root update) subs s1)"

text \<open>
  \<^verbatim>\<open>tinox install\<close> in a project at \<open>root\<close>, from the manifest and the lock it reads there: whether all went well,
  the lock and whether it must be written, the state left behind.
\<close>

definition install_start :: "pm_world \<Rightarrow> tinox_lock \<Rightarrow> install_state" where
  "install_start w lock = \<lparr>is_world = w, is_lock = lock, is_visited = {}, is_changed = False, is_ok = 0, is_fail = 0\<rparr>"

definition cmd_install ::
  "nat \<Rightarrow> pm_env \<Rightarrow> rstring \<Rightarrow> bool \<Rightarrow> toml_file \<Rightarrow> tinox_lock option \<Rightarrow> pm_world \<Rightarrow> (bool \<times> install_state option) option" where
  "cmd_install n env root update toml lock w =
     (case read_manifest toml of None \<Rightarrow> Some (False, None) | Some m \<Rightarrow>
      if mf_dependencies m = [] then Some (True, None)
      else
       (case lock of None \<Rightarrow> Some (False, None) | Some l \<Rightarrow>
        (case walk_all (install_dep_transitively n env root update) (map (\<lambda>d. (d, m)) (mf_dependencies m)) (install_start w l) of
           None \<Rightarrow> None
         | Some s \<Rightarrow> Some (is_fail s = 0, Some s))))"

text \<open>\<^verbatim>\<open>tinox add\<close>: the new content of \<^verbatim>\<open>tinox.toml\<close> and the state after installing the dependency.\<close>

definition cmd_add ::
  "nat \<Rightarrow> pm_env \<Rightarrow> rstring \<Rightarrow> rstring list \<Rightarrow> toml_file \<Rightarrow> tinox_lock option \<Rightarrow> pm_world \<Rightarrow> (rstring \<times> install_state) option option" where
  "cmd_add n env root args toml lock w = (case args of
     grp # artifact_id # version # url # _ \<Rightarrow>
       (let dep = \<lparr>dp_group = grp, dp_artifact_id = artifact_id, dp_version = version, dp_url = Some url,
                   dp_repository = None, dp_sha256 = None\<rparr> in
        case read_manifest toml of None \<Rightarrow> Some None | Some m \<Rightarrow>
        (let m1 = m\<lparr>mf_dependencies := add_dependency (mf_dependencies m) dep\<rparr>;
             existing = (case toml of Toml_Content c \<Rightarrow> c | _ \<Rightarrow> []);
             l = (case lock of Some l \<Rightarrow> l | None \<Rightarrow> []) in
         map_option (\<lambda>s. Some (write_manifest existing m1, s))
           (install_dep_transitively n env root False (dep, m1) (install_start w l))))
   | _ \<Rightarrow> Some None)"

section \<open>The directories for the import resolution\<close>

record dep_walk =
  dw_dirs :: "rstring list"
  dw_missing :: "coord list"
  dw_visited :: "coord set"

text \<open>The dependencies without a URL that the manifest of a cached package declares.\<close>

definition registry_deps :: "tinox_manifest \<Rightarrow> dependency list" where
  "registry_deps m = filter (\<lambda>d. dp_url d = None) (mf_dependencies m)"

definition collect_visit ::
  "rstring option \<Rightarrow> (rstring \<Rightarrow> toml_file option) \<Rightarrow> dependency \<Rightarrow> dep_walk \<Rightarrow> dep_walk \<times> dependency list" where
  "collect_visit home dirs dep s =
     (let s0 = s\<lparr>dw_visited := insert (dep_coord dep) (dw_visited s)\<rparr> in
      case global_dep_install_dir home dep of
        Inl _ \<Rightarrow> (s0, [])
      | Inr dir \<Rightarrow>
          (case dirs dir of
             None \<Rightarrow> (s0\<lparr>dw_missing := dw_missing s0 @ [dep_coord dep]\<rparr>, [])
           | Some toml \<Rightarrow>
               (s0\<lparr>dw_dirs := dw_dirs s0 @ [dir]\<rparr>,
                case read_manifest toml of None \<Rightarrow> [] | Some sub \<Rightarrow> registry_deps sub)))"

primrec collect_global_dep_dir ::
  "nat \<Rightarrow> rstring option \<Rightarrow> (rstring \<Rightarrow> toml_file option) \<Rightarrow> dependency \<Rightarrow> dep_walk \<Rightarrow> dep_walk option" where
  "collect_global_dep_dir 0 home dirs dep s = None"
| "collect_global_dep_dir (Suc n) home dirs dep s =
     (if dep_coord dep \<in> dw_visited s then Some s
      else case collect_visit home dirs dep s of
             (s1, subs) \<Rightarrow> walk_all (collect_global_dep_dir n home dirs) subs s1)"

definition global_dep_dirs ::
  "nat \<Rightarrow> rstring option \<Rightarrow> (rstring \<Rightarrow> toml_file option) \<Rightarrow> tinox_manifest \<Rightarrow> (rstring list \<times> coord list) option" where
  "global_dep_dirs n home dirs m =
     map_option (\<lambda>s. (dw_dirs s, dw_missing s))
       (walk_all (collect_global_dep_dir n home dirs) (registry_deps m) \<lparr>dw_dirs = [], dw_missing = [], dw_visited = {}\<rparr>)"

definition installed_dep_dirs ::
  "nat \<Rightarrow> rstring option \<Rightarrow> (rstring \<Rightarrow> toml_file option) \<Rightarrow> (rstring \<Rightarrow> rstring list option) \<Rightarrow> (rstring \<Rightarrow> bool)
     \<Rightarrow> rstring \<Rightarrow> tinox_manifest \<Rightarrow> (rstring list \<times> coord list) option" where
  "installed_dep_dirs n home dirs read_dir is_dir root m =
     (let entries = (\<lambda>p. case read_dir p of Some es \<Rightarrow> es | None \<Rightarrow> []);
          local_dirs = filter is_dir (concat (map (\<lambda>grp. concat (map entries (entries grp)))
            (entries (join_all root [lit ''.tinox'', lit ''deps''])))) in
      map_option (\<lambda>(global_dirs, missing). (local_dirs @ global_dirs, missing)) (global_dep_dirs n home dirs m))"

section \<open>The two walks\<close>

interpretation install: guarded_walk "\<lambda>n. install_dep_transitively n env root update" "\<lambda>c. dep_coord (fst c)"
  is_visited "install_visit env root update" for env root update
proof unfold_locales
  show "is_visited (fst (install_visit env root update c s)) = insert (dep_coord (fst c)) (is_visited s)" for c s
    by (simp add: install_visit_def count_ok_def count_fail_def pin_def Let_def split: prod.split sum.split option.split)
qed (simp_all split: prod.split)

text \<open>What the cache leads to from a dependency, and what it gives for it.\<close>

definition cached_deps :: "rstring option \<Rightarrow> (rstring \<Rightarrow> toml_file option) \<Rightarrow> dependency \<Rightarrow> dependency list" where
  "cached_deps home dirs dep = (case global_dep_install_dir home dep of
     Inl _ \<Rightarrow> []
   | Inr dir \<Rightarrow>
       (case dirs dir of
          None \<Rightarrow> []
        | Some toml \<Rightarrow> (case read_manifest toml of None \<Rightarrow> [] | Some sub \<Rightarrow> registry_deps sub)))"

definition cache_entry :: "rstring option \<Rightarrow> (rstring \<Rightarrow> toml_file option) \<Rightarrow> dependency \<Rightarrow> (rstring + coord) set" where
  "cache_entry home dirs dep = (case global_dep_install_dir home dep of
     Inl _ \<Rightarrow> {}
   | Inr dir \<Rightarrow> if dirs dir = None then {Inr (dep_coord dep)} else {Inl dir})"

interpretation collect: static_walk "\<lambda>n. collect_global_dep_dir n home dirs" dep_coord dw_visited
  "collect_visit home dirs" "cached_deps home dirs" "\<lambda>s. Inl ` set (dw_dirs s) \<union> Inr ` set (dw_missing s)"
  "cache_entry home dirs" for home dirs
proof unfold_locales
  show "dw_visited (fst (collect_visit home dirs c s)) = insert (dep_coord c) (dw_visited s)" for c s
    by (simp add: collect_visit_def Let_def split: sum.split option.split)
  show "snd (collect_visit home dirs c s) = cached_deps home dirs c" for c s
    by (simp add: collect_visit_def cached_deps_def Let_def split: sum.split option.split)
  show "Inl ` set (dw_dirs (fst (collect_visit home dirs c s))) \<union> Inr ` set (dw_missing (fst (collect_visit home dirs c s)))
      = Inl ` set (dw_dirs s) \<union> Inr ` set (dw_missing s) \<union> cache_entry home dirs c" for c s
    by (auto simp: collect_visit_def cache_entry_def Let_def split: sum.splits option.splits)
qed (simp_all split: prod.split)

section \<open>Downloads\<close>

text \<open>Failures worth another attempt: the transport, and the statuses of server errors.\<close>

definition transient :: "http_result \<Rightarrow> bool" where
  "transient r \<longleftrightarrow> (case r of Http_Ok _ \<Rightarrow> False | Http_Status code _ \<Rightarrow> 500 \<le> code \<and> code < 600 | Http_Transport _ \<Rightarrow> True)"

definition get_result :: "http_result \<Rightarrow> get_error + u8 list option" where
  "get_result r = (case r of Http_Ok b \<Rightarrow> Inr b | Http_Status _ msg \<Rightarrow> Inl (Get_Error msg) | Http_Transport msg \<Rightarrow> Inl (Get_Error msg))"

lemma get_loop_spec:
  "get_loop answer n k last_err = (r, k') \<Longrightarrow> 0 < n \<Longrightarrow>
     k < k' \<and> k' \<le> k + n \<and> r = get_result (answer (k' - 1)) \<and> (\<forall>i. k \<le> i \<and> i < k' - 1 \<longrightarrow> transient (answer i))
     \<and> (transient (answer (k' - 1)) \<longrightarrow> k' = k + n)"
proof (induction n arbitrary: k last_err)
  case (Suc n)
  show ?case
  proof (cases "transient (answer k) \<and> 0 < n")
    case True
    then obtain e where "get_loop answer n (Suc k) e = (r, k')"
      using Suc.prems(1) by (auto simp: transient_def split: http_result.splits if_splits)
    from Suc.IH [OF this] True
    have H: "Suc k < k'" "k' \<le> Suc k + n" "r = get_result (answer (k' - 1))"
      "\<forall>i. Suc k \<le> i \<and> i < k' - 1 \<longrightarrow> transient (answer i)" "transient (answer (k' - 1)) \<longrightarrow> k' = Suc k + n" by simp_all
    have "transient (answer i)" if "k \<le> i" "i < k' - 1" for i
      using H(4) True that by (cases "i = k") auto
    then show ?thesis using H by auto
  next
    case False
    then have "r = get_result (answer k) \<and> k' = Suc k"
      using Suc.prems(1) by (cases n) (auto simp: transient_def get_result_def split: http_result.splits if_splits)
    then show ?thesis using False by auto
  qed
qed simp

text \<open>
  A download makes at least one and at most four requests; it goes on exactly while the answers are
  transient failures (a server error or a broken transport), so another status such as 404 is final, and its
  result is that of the last request. The \<^verbatim>\<open>expect\<close> at the end of \<^verbatim>\<open>get_with_retry\<close> never fails.
\<close>

theorem get_with_retry_bounded:
  "case get_with_retry env url k of (r, k') \<Rightarrow>
     k < k' \<and> k' \<le> k + 4 \<and> r = get_result (env_get env url (k' - 1)) \<and> r \<noteq> Inl Get_Panic
     \<and> list_all (\<lambda>i. transient (env_get env url i)) [k..<k' - 1]
     \<and> (transient (env_get env url (k' - 1)) = (k' = k + 4 \<and> transient (env_get env url (k + 3))))"
proof -
  obtain r k' where r: "get_with_retry env url k = (r, k')" by fastforce
  have "get_result x \<noteq> Inl Get_Panic" for x by (simp add: get_result_def split: http_result.split)
  moreover have "k < k' \<and> k' \<le> k + 4 \<and> r = get_result (env_get env url (k' - 1))
      \<and> (\<forall>i. k \<le> i \<and> i < k' - 1 \<longrightarrow> transient (env_get env url i)) \<and> (transient (env_get env url (k' - 1)) \<longrightarrow> k' = k + 4)"
    using get_loop_spec [of "env_get env url" 4 k None r k'] r by (simp add: get_with_retry_def MAX_ATTEMPTS_def)
  moreover have "k + 4 - 1 = k + 3" by simp
  ultimately show ?thesis using r by (auto simp: list_all_iff add.commute [of k 3])
qed

section \<open>One installation\<close>

lemma place_artifact_cases:
  assumes "place_artifact env dir name bytes sha w = (r, w')"
  shows "(\<exists>e. r = Inl e \<and> pw_dirs w' = pw_dirs w) \<or> (r = Inr (Some sha) \<and> (\<exists>t. pw_dirs w' = (pw_dirs w)(dir := Some t)))"
  using assms by (auto simp: place_artifact_def Let_def split: option.splits sum.splits rename_outcome.splits)

lemma install_dep_cases:
  assumes "install_dep env root dep url lock update w = (r, w')"
  shows "(\<exists>e. r = Inl e \<and> pw_dirs w' = pw_dirs w) \<or> (r = Inr None \<and> w' = w) \<or>
    (\<exists>bytes dir t. r = Inr (Some (env_sha256 env bytes)) \<and> resolved_install_dir root (env_home env) dep = Inr dir
       \<and> pw_dirs w dir = None \<and> pw_dirs w' = (pw_dirs w)(dir := Some t)
       \<and> verify_checksum dep url lock update (env_sha256 env bytes) = Inr ())"
proof -
  consider "(\<exists>e. r = Inl e \<and> pw_dirs w' = pw_dirs w) \<or> (r = Inr None \<and> w' = w)"
    | (placed) bytes name dir k where "resolved_install_dir root (env_home env) dep = Inr dir" "pw_dirs w dir = None"
        "verify_checksum dep url lock update (env_sha256 env bytes) = Inr ()"
        "place_artifact env dir name bytes (env_sha256 env bytes) (w\<lparr>pw_requests := k\<rparr>) = (r, w')"
    using assms
    by (auto simp: install_dep_def Let_def split: sum.splits if_splits prod.splits get_error.splits option.splits)
  then show ?thesis
  proof cases
    case placed
    from place_artifact_cases [OF placed(4)] placed(1-3) show ?thesis by auto
  qed blast
qed


section \<open>The walk\<close>

text \<open>Directories are only added.\<close>

definition dirs_kept :: "pm_world \<Rightarrow> pm_world \<Rightarrow> bool" where
  "dirs_kept w w' \<longleftrightarrow> pw_dirs w \<subseteq>\<^sub>m pw_dirs w'"

lemma install_dep_kept: "install_dep env root dep url lock update w = (r, w') \<Longrightarrow> dirs_kept w w'"
  using install_dep_cases [of env root dep url lock update w r w'] by (auto simp: dirs_kept_def map_le_def)

lemma install_visit_kept: "dirs_kept (is_world s) (is_world (fst (install_visit env root update c s)))"
proof -
  have "dirs_kept w w" for w by (simp add: dirs_kept_def)
  then show ?thesis
    by (auto simp: install_visit_def count_ok_def count_fail_def pin_def Let_def install_dep_kept
        split: prod.split sum.split option.split)
qed

text \<open>Every visit counts its coordinate once, as installed or as failed.\<close>

definition counted :: "install_state \<Rightarrow> bool" where
  "counted s \<longleftrightarrow> finite (is_visited s) \<and> is_ok s + is_fail s = card (is_visited s)"

lemma install_visit_counted:
  "counted s \<Longrightarrow> dep_coord (fst c) \<notin> is_visited s \<Longrightarrow> counted (fst (install_visit env root update c s))"
  by (auto simp: install_visit_def counted_def count_ok_def count_fail_def pin_def Let_def split: prod.split sum.split option.split)

lemma install_walk_kept:
  assumes "walk_all (install_dep_transitively n env root update) cs s = Some s'"
  shows "dirs_kept (is_world s) (is_world s')"
proof (rule install.walks_keep [where I = "\<lambda>t. dirs_kept (is_world s) (is_world t)", OF _ assms])
  fix c and t :: install_state assume "dirs_kept (is_world s) (is_world t)"
  then show "dirs_kept (is_world s) (is_world (fst (install_visit env root update c t)))"
    using install_visit_kept [of t env root update c] by (auto simp: dirs_kept_def intro: map_le_trans)
qed (simp add: dirs_kept_def)

lemma install_walk_counted:
  "install_dep_transitively n env root update c s = Some s' \<Longrightarrow> counted s \<Longrightarrow> counted s'"
proof (induction n arbitrary: c s s')
  case (Suc n)
  show ?case
  proof (cases "dep_coord (fst c) \<in> is_visited s")
    case False
    let ?v = "install_visit env root update c s"
    have "walk_all (install_dep_transitively n env root update) (snd ?v) (fst ?v) = Some s'"
      using Suc.prems(1) False by (simp split: prod.splits)
    then have "counted (fst ?v) \<longrightarrow> counted s'"
      by (rule walk_all_rel [rotated 3, where R = "\<lambda>s s'. counted s \<longrightarrow> counted s'"])
         (use Suc.IH in \<open>auto intro!: reflpI transpI\<close>)
    then show ?thesis using install_visit_counted [OF Suc.prems(2) False] by blast
  qed (use Suc.prems in simp)
qed simp

text \<open>The coordinates that a directory's manifest can lead to.\<close>

definition declares :: "coord set \<Rightarrow> toml_file \<Rightarrow> bool" where
  "declares U t \<longleftrightarrow> (case read_manifest t of None \<Rightarrow> True | Some m \<Rightarrow> dep_coord ` set (mf_dependencies m) \<subseteq> U)"

definition env_declares :: "coord set \<Rightarrow> pm_env \<Rightarrow> bool" where
  "env_declares U env \<longleftrightarrow> (\<forall>kind bytes dest t. env_unpack env kind bytes dest = Inr t \<longrightarrow> declares U t)
     \<and> (\<forall>p q t. env_rename env p q = Raced t \<longrightarrow> declares U t)"

definition world_declares :: "coord set \<Rightarrow> pm_world \<Rightarrow> bool" where
  "world_declares U w \<longleftrightarrow> (\<forall>d t. pw_dirs w d = Some t \<longrightarrow> declares U t)"

lemma declares_absent: "declares U Toml_Absent"
  by (simp add: declares_def read_manifest_def default_manifest_def)

lemma extract_declares: "env_declares U env \<Longrightarrow> extract_artifact env name bytes staging = Inr t \<Longrightarrow> declares U t"
  by (auto simp: extract_artifact_def Let_def env_declares_def declares_absent split: if_splits sum.splits option.splits)

lemma place_declares:
  assumes "env_declares U env" "place_artifact env dir name bytes sha w = (r, w')" "world_declares U w"
  shows "world_declares U w'"
  using assms extract_declares [OF assms(1)]
  by (auto simp: place_artifact_def world_declares_def env_declares_def Let_def
      split: option.splits sum.splits rename_outcome.splits if_splits)

lemma install_dep_declares:
  assumes "env_declares U env" "install_dep env root dep url lock update w = (r, w')" "world_declares U w"
  shows "world_declares U w'"
proof -
  have "world_declares U (w\<lparr>pw_requests := k\<rparr>)" for k using assms(3) by (simp add: world_declares_def)
  then show ?thesis
    using assms place_declares [OF assms(1)]
    by (auto simp: install_dep_def Let_def split: sum.splits if_splits prod.splits get_error.splits option.splits)
qed

lemma sub_dependencies_declares:
  "world_declares U w \<Longrightarrow> (\<lambda>c. dep_coord (fst c)) ` set (sub_dependencies env root dep w) \<subseteq> U"
  using declares_absent [of U]
  by (auto simp: sub_dependencies_def world_declares_def declares_def split: sum.splits option.splits)
     (metis image_subset_iff option.distinct(1) option.inject)+

lemma install_visit_declares:
  assumes "env_declares U env" "world_declares U (is_world s)"
  shows "world_declares U (is_world (fst (install_visit env root update c s)))"
    "(\<lambda>c. dep_coord (fst c)) ` set (snd (install_visit env root update c s)) \<subseteq> U"
  using assms(2) install_dep_declares [OF assms(1)] sub_dependencies_declares
  by (auto simp: install_visit_def count_ok_def count_fail_def pin_def Let_def split: prod.splits sum.splits option.splits)

text \<open>
  C19. \<^verbatim>\<open>tinox install\<close> ends and does its work, whatever cycles and diamonds the dependencies have: when the packages
  declare only finitely many coordinates, the walk needs no more nested calls than there are coordinates. It
  then has visited every dependency of the project, counted every visited coordinate exactly once as
  installed or as failed, reports success exactly when none failed, and has left every directory that was
  installed before as it was.
\<close>

theorem cmd_install_complete:
  assumes "finite U" "env_declares U env" "world_declares U w"
    and "read_manifest toml = Some m" "mf_dependencies m \<noteq> []" "dep_coord ` set (mf_dependencies m) \<subseteq> U" "card U < n"
  shows "\<exists>s. cmd_install n env root update toml (Some l) w = Some (is_fail s = 0, Some s)
    \<and> dep_coord ` set (mf_dependencies m) \<subseteq> is_visited s
    \<and> is_ok s + is_fail s = card (is_visited s)
    \<and> pw_dirs w \<subseteq>\<^sub>m pw_dirs (is_world s)"
proof -
  let ?cs = "map (\<lambda>d. (d, m)) (mf_dependencies m)" and ?f = "install_dep_transitively n env root update"
  have "\<exists>s. walk_all ?f ?cs (install_start w l) = Some s"
  proof (rule install.walks_total [where I = "\<lambda>s. world_declares U (is_world s)"])
    show "(\<lambda>c. dep_coord (fst c)) ` set ?cs \<subseteq> U" using assms(6) by auto
  qed (use assms in \<open>simp_all add: install_visit_declares install_start_def\<close>)
  then obtain s where s: "walk_all ?f ?cs (install_start w l) = Some s" by blast
  have "counted (install_start w l) \<longrightarrow> counted s"
    by (rule walk_all_rel [OF _ _ _ s, where R = "\<lambda>s s'. counted s \<longrightarrow> counted s'"])
       (use install_walk_counted in \<open>auto intro!: reflpI transpI\<close>)
  then have "is_ok s + is_fail s = card (is_visited s)" by (simp add: counted_def install_start_def)
  moreover have "dep_coord ` set (mf_dependencies m) \<subseteq> is_visited s"
    using install.walk_all_grows [OF s] by (simp add: image_image)
  moreover have "pw_dirs w \<subseteq>\<^sub>m pw_dirs (is_world s)"
    using install_walk_kept [OF s] by (simp add: dirs_kept_def install_start_def)
  ultimately show ?thesis using assms(4,5) s by (simp add: cmd_install_def)
qed

definition walk_dep :: dependency where
  "walk_dep = empty_dep\<lparr>dp_group := lit ''g'', dp_artifact_id := lit ''a'', dp_version := lit ''1''\<rparr>"

definition walk_manifest :: tinox_manifest where
  "walk_manifest = \<lparr>mf_package = None, mf_dependencies = [walk_dep], mf_repositories = []\<rparr>"

definition walk_env :: pm_env where
  "walk_env = \<lparr>env_get = (\<lambda>_ _. Http_Status 404 []), env_sha256 = (\<lambda>_. []), env_unpack = (\<lambda>_ _ _. Inr Toml_Absent),
     env_write = (\<lambda>_ _. None), env_mkdir = (\<lambda>_. None), env_rename = (\<lambda>_ _. Renamed), env_suffix = (\<lambda>_. []), env_home = None\<rparr>"

lemma walk_manifest_good: "good_manifest walk_manifest"
  by (simp add: good_manifest_def walk_manifest_def walk_dep_def good_dependency_def good_value_def plain_value_def good_option_def empty_dep_def)

lemma walk_manifest_read: "read_manifest (Toml_Content (write_manifest [] walk_manifest)) = Some walk_manifest"
  using manifest_reads_back [OF walk_manifest_good, of "[]"] by (simp add: read_manifest_def has_package_header_def)

theorem cmd_install_complete_witness:
  "\<exists>s. cmd_install 2 walk_env (lit ''p'') False (Toml_Content (write_manifest [] walk_manifest)) (Some [])
         \<lparr>pw_requests = 0, pw_staged = 0, pw_dirs = (\<lambda>_. None)\<rparr> = Some (is_fail s = 0, Some s)
     \<and> dep_coord ` set (mf_dependencies walk_manifest) \<subseteq> is_visited s
     \<and> is_ok s + is_fail s = card (is_visited s)
     \<and> (\<lambda>_. None) \<subseteq>\<^sub>m pw_dirs (is_world s)"
  using cmd_install_complete [of "{dep_coord walk_dep}" walk_env "\<lparr>pw_requests = 0, pw_staged = 0, pw_dirs = (\<lambda>_. None)\<rparr>"
      "Toml_Content (write_manifest [] walk_manifest)" walk_manifest 2 "lit ''p''" False "[]"]
  by (simp add: walk_manifest_read)
     (simp add: env_declares_def world_declares_def declares_absent walk_env_def walk_manifest_def)

section \<open>The search of the cache\<close>

lemma same_install_dir:
  "dep_coord c = dep_coord d \<Longrightarrow> dp_repository c = dp_repository d \<Longrightarrow> global_dep_install_dir home c = global_dep_install_dir home d"
  by (simp only: dep_coord_def prod.inject global_dep_install_dir_def)

lemma collect_coherent:
  assumes "\<forall>c \<in> reachable (cached_deps home dirs) cs. \<forall>d \<in> reachable (cached_deps home dirs) cs.
      dep_coord c = dep_coord d \<longrightarrow> dp_repository c = dp_repository d"
  shows "collect.coherent home dirs (reachable (cached_deps home dirs) cs)"
proof -
  let ?R = "reachable (cached_deps home dirs) cs"
  have "cache_entry home dirs c = cache_entry home dirs d \<and> cached_deps home dirs c = cached_deps home dirs d"
    if "dep_coord c = dep_coord d" "dp_repository c = dp_repository d" for c d
    using same_install_dir [OF that] that(1) by (simp add: cache_entry_def cached_deps_def split: sum.split)
  then have "\<forall>c \<in> ?R. \<forall>d \<in> ?R. dep_coord c = dep_coord d \<longrightarrow>
      cache_entry home dirs c = cache_entry home dirs d \<and> set (cached_deps home dirs c) = set (cached_deps home dirs d)"
    using assms by metis
  moreover have "\<forall>c \<in> ?R. set (cached_deps home dirs c) \<subseteq> ?R" using reachable.succ by (metis subsetI)
  ultimately show ?thesis unfolding collect.coherent_def by blast
qed

definition cache_coords :: "(rstring \<Rightarrow> toml_file option) \<Rightarrow> tinox_manifest \<Rightarrow> coord set" where
  "cache_coords dirs m = dep_coord ` (set (registry_deps m) \<union>
     (\<Union>d \<in> dom dirs. case read_manifest (the (dirs d)) of None \<Rightarrow> {} | Some sub \<Rightarrow> set (registry_deps sub)))"

lemma cache_coords_finite: "finite (dom dirs) \<Longrightarrow> finite (cache_coords dirs m)"
  by (auto simp: cache_coords_def split: option.split)

lemma cached_deps_coords: "dep_coord ` set (cached_deps home dirs c) \<subseteq> cache_coords dirs m"
proof
  fix k assume "k \<in> dep_coord ` set (cached_deps home dirs c)"
  then obtain x where x: "x \<in> set (cached_deps home dirs c)" "k = dep_coord x" by blast
  then obtain d t sub where "dirs d = Some t" "read_manifest t = Some sub" "x \<in> set (registry_deps sub)"
    by (auto simp: cached_deps_def split: sum.splits option.splits) metis
  then have "x \<in> (\<Union>d \<in> dom dirs. case read_manifest (the (dirs d)) of None \<Rightarrow> {} | Some sub \<Rightarrow> set (registry_deps sub))"
    by (intro UN_I [of d]) auto
  then show "k \<in> cache_coords dirs m" using x(2) by (simp add: cache_coords_def)
qed

lemma cache_entry_iff:
  "Inl x \<in> cache_entry home dirs c \<longleftrightarrow> global_dep_install_dir home c = Inr x \<and> x \<in> dom dirs"
  "Inr k \<in> cache_entry home dirs c \<longleftrightarrow> (\<exists>dir. global_dep_install_dir home c = Inr dir \<and> dir \<notin> dom dirs \<and> k = dep_coord c)"
  by (auto simp: cache_entry_def split: sum.splits)

text \<open>
  C20. The search of the global cache finds exactly what the project reaches: with finitely many cached packages
  it ends, and the directories it gives are those of the cached packages that the project's registry
  dependencies lead to, through the manifests of cached packages, however they are nested or cyclic; what it
  reports missing are the coordinates reached that are not cached. This holds when the reached dependencies
  agree on the repository of a coordinate (the visited set distinguishes coordinates only).
\<close>

theorem global_dep_dirs_reachable:
  assumes "finite (dom dirs)"
    and "\<forall>c \<in> reachable (cached_deps home dirs) (registry_deps m). \<forall>d \<in> reachable (cached_deps home dirs) (registry_deps m).
           dep_coord c = dep_coord d \<longrightarrow> dp_repository c = dp_repository d"
    and "card (cache_coords dirs m) < n"
  shows "\<exists>ds ms. global_dep_dirs n home dirs m = Some (ds, ms)
    \<and> set ds = {dir \<in> dom dirs. \<exists>c \<in> reachable (cached_deps home dirs) (registry_deps m). global_dep_install_dir home c = Inr dir}
    \<and> set ms = {dep_coord c | c dir. c \<in> reachable (cached_deps home dirs) (registry_deps m)
                  \<and> global_dep_install_dir home c = Inr dir \<and> dir \<notin> dom dirs}"
proof -
  let ?R = "reachable (cached_deps home dirs) (registry_deps m)"
  let ?s0 = "\<lparr>dw_dirs = [], dw_missing = [], dw_visited = {}\<rparr>"
  have "\<exists>s. walk_all (collect_global_dep_dir n home dirs) (registry_deps m) ?s0 = Some s"
  proof (rule collect.walks_total [where I = "\<lambda>_. True", OF cache_coords_finite [OF assms(1)]])
    show "dep_coord ` set (registry_deps m) \<subseteq> cache_coords dirs m" by (auto simp: cache_coords_def)
  qed (simp_all add: collect.visit_succs cached_deps_coords assms(3))
  then obtain s where s: "walk_all (collect_global_dep_dir n home dirs) (registry_deps m) ?s0 = Some s" by blast
  have "Inl ` set (dw_dirs s) \<union> Inr ` set (dw_missing s) = (\<Union>c \<in> ?R. cache_entry home dirs c)"
    by (rule collect.walks_reach(2) [OF collect_coherent [OF assms(2)] s]) simp_all
  then have o: "x \<in> Inl ` set (dw_dirs s) \<union> Inr ` set (dw_missing s) \<longleftrightarrow> (\<exists>c \<in> ?R. x \<in> cache_entry home dirs c)" for x
    by auto
  have "x \<in> set (dw_dirs s) \<longleftrightarrow> (\<exists>c \<in> ?R. Inl x \<in> cache_entry home dirs c)" for x using o [of "Inl x"] by auto
  then have "set (dw_dirs s) = {dir \<in> dom dirs. \<exists>c \<in> ?R. global_dep_install_dir home c = Inr dir}"
    unfolding cache_entry_iff by blast
  moreover have "k \<in> set (dw_missing s) \<longleftrightarrow> (\<exists>c \<in> ?R. Inr k \<in> cache_entry home dirs c)" for k using o [of "Inr k"] by auto
  then have "set (dw_missing s) = {dep_coord c | c dir. c \<in> ?R \<and> global_dep_install_dir home c = Inr dir \<and> dir \<notin> dom dirs}"
    unfolding cache_entry_iff by blast
  ultimately show ?thesis using s by (simp add: global_dep_dirs_def)
qed

theorem global_dep_dirs_reachable_witness:
  "\<exists>ds ms. global_dep_dirs 2 (Some (lit ''h'')) (\<lambda>_. None) walk_manifest = Some (ds, ms)
    \<and> set ms = {dep_coord c | c dir. c \<in> reachable (cached_deps (Some (lit ''h'')) (\<lambda>_. None)) (registry_deps walk_manifest)
                  \<and> global_dep_install_dir (Some (lit ''h'')) c = Inr dir \<and> dir \<notin> dom (\<lambda>_. None :: toml_file option)}"
proof -
  let ?D = "\<lambda>_. None :: toml_file option"
  have d: "registry_deps walk_manifest = [walk_dep]" by (simp add: registry_deps_def walk_manifest_def walk_dep_def empty_dep_def)
  have n: "cached_deps home ?D c = []" for home c by (simp add: cached_deps_def split: sum.split)
  have "c = walk_dep" if "c \<in> reachable (cached_deps (Some (lit ''h'')) ?D) [walk_dep]" for c
    using that by (induction rule: reachable.induct) (simp_all add: n)
  then have r: "\<forall>c \<in> reachable (cached_deps (Some (lit ''h'')) ?D) (registry_deps walk_manifest).
      \<forall>d \<in> reachable (cached_deps (Some (lit ''h'')) ?D) (registry_deps walk_manifest). dep_coord c = dep_coord d \<longrightarrow> dp_repository c = dp_repository d"
    unfolding d by metis
  have f: "finite (dom ?D)" and n2: "card (cache_coords ?D walk_manifest) < 2" by (simp_all add: cache_coords_def d)
  from global_dep_dirs_reachable [OF f r n2] show ?thesis by (elim exE conjE) (intro exI conjI)
qed

end
