(* ===== verification/Tinox_Imports.thy ===== *)
theory Tinox_Imports
  imports Tinox_Parser_Total Tinox_Node_Ids Tinox_Pm_Install "HOL-Library.List_Lexorder"
begin

text \<open>
  The front end of the compiler (\<^verbatim>\<open>src/crates/tinox/src/main.rs\<close>): the checks on a single file, the
  resolution of imports to files and the merging of the imported declarations, and the first part of
  \<^verbatim>\<open>compile_file\<close>, up to the tree that the type checker gets. It composes the lexer, the parser, the
  package manager's directories and the numbering of the tree. The file system is an argument.
\<close>

section \<open>The file system\<close>

record file_env =
  fe_canonicalize :: "rstring \<Rightarrow> rstring option" \<comment> \<open>fails when there is no such file\<close>
  fe_is_dir :: "rstring \<Rightarrow> bool"
  fe_read_dir :: "rstring \<Rightarrow> rstring list option"
  fe_read :: "rstring \<Rightarrow> rstring option"
  fe_stdlib :: "rstring option" \<comment> \<open>\<^verbatim>\<open>stdlib_dir()\<close>\<close>

definition parent_path :: "rstring \<Rightarrow> rstring" where
  "parent_path p = (let q = parent_dir p in if q = [] \<and> p \<noteq> [] \<and> hd p = SLASH then [SLASH] else q)"

definition has_tnx_extension :: "rstring \<Rightarrow> bool" where
  "has_tnx_extension p \<longleftrightarrow> ends_with (lit ''.tnx'') (file_name p) \<and> 4 < length (file_name p)"

definition file_stem :: "rstring \<Rightarrow> rstring" where
  "file_stem p = (let n = file_name p in
     case dropWhile (\<lambda>c. c \<noteq> 46) (rev n) of [] \<Rightarrow> n | _ # pre \<Rightarrow> if pre = [] then n else rev pre)"

datatype import_error =
  IE_ReadDir rstring
| IE_EmptyDir rstring
| IE_Canonicalize rstring
| IE_Ambiguous rstring "rstring list"
| IE_NotInstalled rstring rstring
| IE_Extended rstring
| IE_NoStdlib rstring
| IE_NoSuchStdlib rstring
| IE_NotFound rstring
| IE_Read rstring
| IE_Lexer rstring "lex_error list"
| IE_Parse rstring "parse_msg error_bag"
| IE_ParseFuel rstring \<comment> \<open>never: see \<open>load_import_fuel\<close>\<close>
| IE_TypeName rstring rstring
| IE_ManyTypes rstring "rstring list"
| IE_TopLevelFn rstring "rstring list"

section \<open>Checks on a single file\<close>

text \<open>
  The recursions into namespaces go through the mapped namespace: \<open>names_of\<close> collects what the
  declarations of a namespace give.
\<close>

definition names_of :: "rstring list spanned namespace \<Rightarrow> rstring list" where
  "names_of ns = concat (map node (ns_decls ns))"

primrec type_decl_names :: "decl_kind \<Rightarrow> rstring list" where
  "type_decl_names (D_Function f) = []"
| "type_decl_names (D_Class c) = [cl_name c]"
| "type_decl_names (D_Interface i) = [if_name i]"
| "type_decl_names (D_Enum e) = [en_name e]"
| "type_decl_names (D_Trait t) = []"
| "type_decl_names (D_Import i) = []"
| "type_decl_names (D_Module n) = []"
| "type_decl_names (D_Namespace ns) = names_of (map_namespace (map_spanned type_decl_names) ns)"
| "type_decl_names (D_Immutable d) = []"

definition collect_type_decl_names :: "decl list \<Rightarrow> rstring list" where
  "collect_type_decl_names ds = concat (map (\<lambda>d. type_decl_names (node d)) ds)"

definition check_one_type_per_file :: "decl list \<Rightarrow> rstring \<Rightarrow> import_error + unit" where
  "check_one_type_per_file ds path = (case collect_type_decl_names ds of
     [] \<Rightarrow> Inr ()
   | [only] \<Rightarrow> if only = file_stem path then Inr () else Inl (IE_TypeName path only)
   | many \<Rightarrow> Inl (IE_ManyTypes path many))"

primrec top_level_fn_names :: "decl_kind \<Rightarrow> rstring list" where
  "top_level_fn_names (D_Function f) = (if node (fn_body f) = S_Empty then [] else [fn_name f])"
| "top_level_fn_names (D_Class c) = []"
| "top_level_fn_names (D_Interface i) = []"
| "top_level_fn_names (D_Enum e) = []"
| "top_level_fn_names (D_Trait t) = []"
| "top_level_fn_names (D_Import i) = []"
| "top_level_fn_names (D_Module n) = []"
| "top_level_fn_names (D_Namespace ns) = names_of (map_namespace (map_spanned top_level_fn_names) ns)"
| "top_level_fn_names (D_Immutable d) = []"

definition collect_top_level_fn_names :: "decl list \<Rightarrow> rstring list" where
  "collect_top_level_fn_names ds = concat (map (\<lambda>d. top_level_fn_names (node d)) ds)"

definition check_no_top_level_fn :: "decl list \<Rightarrow> rstring \<Rightarrow> import_error + unit" where
  "check_no_top_level_fn ds path = (let names = collect_top_level_fn_names ds in
     if names = [] then Inr () else Inl (IE_TopLevelFn path names))"

primrec is_class_main :: "decl_kind \<Rightarrow> bool" where
  "is_class_main (D_Function f) = False"
| "is_class_main (D_Class c) = (cl_name c = lit ''Main'')"
| "is_class_main (D_Interface i) = False"
| "is_class_main (D_Enum e) = False"
| "is_class_main (D_Trait t) = False"
| "is_class_main (D_Import i) = False"
| "is_class_main (D_Module n) = False"
| "is_class_main (D_Namespace ns) = list_ex node (ns_decls (map_namespace (map_spanned is_class_main) ns))"
| "is_class_main (D_Immutable d) = False"

definition has_class_named_main :: "decl list \<Rightarrow> bool" where
  "has_class_named_main ds = list_ex (\<lambda>d. is_class_main (node d)) ds"

primrec stamp_decl :: "rstring \<Rightarrow> decl_kind \<Rightarrow> decl_kind" where
  "stamp_decl file (D_Function f) = D_Function (f\<lparr>fn_file := file\<rparr>)"
| "stamp_decl file (D_Class c) = D_Class (c\<lparr>cl_methods := map (\<lambda>m. m\<lparr>me_file := file\<rparr>) (cl_methods c)\<rparr>)"
| "stamp_decl file (D_Interface i) = D_Interface i"
| "stamp_decl file (D_Enum e) = D_Enum e"
| "stamp_decl file (D_Trait t) = D_Trait t"
| "stamp_decl file (D_Import i) = D_Import i"
| "stamp_decl file (D_Module n) = D_Module n"
| "stamp_decl file (D_Namespace ns) = D_Namespace (map_namespace (map_spanned (stamp_decl file)) ns)"
| "stamp_decl file (D_Immutable d) = D_Immutable d"

definition stamp_file_identity_with :: "decl list \<Rightarrow> rstring \<Rightarrow> decl list" where
  "stamp_file_identity_with ds file = map (map_spanned (stamp_decl file)) ds"

definition stamp_file_identity :: "file_env \<Rightarrow> decl list \<Rightarrow> rstring \<Rightarrow> decl list" where
  "stamp_file_identity fe ds path =
     stamp_file_identity_with ds (case fe_canonicalize fe path of Some p \<Rightarrow> p | None \<Rightarrow> path)"

section \<open>From an import to files\<close>

fun sequence_option :: "('a \<Rightarrow> 'b option) \<Rightarrow> 'a list \<Rightarrow> 'a + 'b list" where
  "sequence_option f [] = Inr []"
| "sequence_option f (x # xs) = (case f x of
     None \<Rightarrow> Inl x
   | Some y \<Rightarrow> (case sequence_option f xs of Inl z \<Rightarrow> Inl z | Inr ys \<Rightarrow> Inr (y # ys)))"

text \<open>The entries of one directory are sorted by their names.\<close>

definition resolve_module_paths :: "file_env \<Rightarrow> rstring \<Rightarrow> rstring \<Rightarrow> rstring \<Rightarrow> import_error + rstring list option" where
  "resolve_module_paths fe base rel_file rel_dir =
     (case fe_canonicalize fe (path_join base rel_file) of
        Some p \<Rightarrow> Inr (Some [p])
      | None \<Rightarrow>
          (let dir = path_join base rel_dir in
           if \<not> fe_is_dir fe dir then Inr None
           else case fe_read_dir fe dir of
                  None \<Rightarrow> Inl (IE_ReadDir dir)
                | Some entries \<Rightarrow>
                    (let files = filter has_tnx_extension entries in
                     if files = [] then Inl (IE_EmptyDir dir)
                     else case sequence_option (fe_canonicalize fe) (sort_key file_name files) of
                            Inl p \<Rightarrow> Inl (IE_Canonicalize p)
                          | Inr ps \<Rightarrow> Inr (Some ps))))"

definition dep_dir_coordinate :: "rstring \<Rightarrow> rstring" where
  "dep_dir_coordinate dep_dir =
     (case take 3 (rev ((if dep_dir \<noteq> [] \<and> hd dep_dir = SLASH then [[SLASH]] else []) @ components dep_dir)) of
        [a, b, c] \<Rightarrow> c @ lit '':'' @ b @ lit '':'' @ a
      | _ \<Rightarrow> dep_dir)"

definition resolve_in_dep_dirs :: "file_env \<Rightarrow> rstring list \<Rightarrow> rstring \<Rightarrow> rstring \<Rightarrow> import_error + rstring list option" where
  "resolve_in_dep_dirs fe dep_dirs rel_file rel_dir =
     (let matches = List.map_filter (\<lambda>d. case resolve_module_paths fe d rel_file rel_dir of
                                            Inr (Some p) \<Rightarrow> Some (d, p) | _ \<Rightarrow> None) dep_dirs in
      case matches of
        [] \<Rightarrow> Inr None
      | [m] \<Rightarrow> Inr (Some (snd m))
      | m # _ \<Rightarrow>
          (let coords = map (\<lambda>m. dep_dir_coordinate (fst m)) matches in
           if list_all (\<lambda>c. c = hd coords) coords then Inr (Some (snd m))
           else Inl (IE_Ambiguous rel_file coords)))"

definition CORE_MODULES :: "rstring list" where
  "CORE_MODULES = map lit
    [''array'', ''collections'', ''set'', ''queue'', ''heap'', ''trie'', ''graph'', ''iter'',
     ''sort'', ''option'', ''result'', ''cache'', ''pool'',
     ''math'', ''mathf'', ''mathx'', ''complex'', ''decimal'',
     ''string'', ''fmt'', ''format'', ''encoding'',
     ''io'', ''fs'', ''env'', ''process'', ''debug'', ''socket'',
     ''semaphore'', ''time'', ''cron'', ''events'',
     ''logger'', ''validation'', ''regex'', ''random'', ''hash'', ''uuid'',
     ''base64'', ''hex'', ''uri'']"

definition rel_dir_of :: "rstring list \<Rightarrow> rstring" where
  "rel_dir_of segs = foldl path_join [] segs"

definition rel_file_of :: "rstring list \<Rightarrow> rstring" where
  "rel_file_of segs = (if segs = [] then [] else path_join (rel_dir_of (butlast segs)) (last segs @ lit ''.tnx''))"

definition is_core_path :: "rstring list \<Rightarrow> bool" where
  "is_core_path path \<longleftrightarrow> 3 \<le> length path \<and> path ! 1 = lit ''core''"

definition resolve_stdlib :: "file_env \<Rightarrow> coord list \<Rightarrow> rstring list \<Rightarrow> import_error + rstring list" where
  "resolve_stdlib fe missing path =
     (if is_core_path path \<and> path ! 2 \<notin> set CORE_MODULES then
        (case List.find (\<lambda>(g, a, v). g = lit ''tinox.core'' \<and> a = path ! 2) missing of
           Some (g, a, v) \<Rightarrow> Inl (IE_NotInstalled a v)
         | None \<Rightarrow> Inl (IE_Extended (path ! 2)))
      else
        (let tail = (if is_core_path path then drop 2 path else [last path]) in
         case fe_stdlib fe of
           None \<Rightarrow> Inl (IE_NoStdlib (rel_file_of path))
         | Some dir \<Rightarrow>
             (case resolve_module_paths fe dir (rel_file_of tail) (rel_dir_of tail) of
                Inl e \<Rightarrow> Inl e
              | Inr None \<Rightarrow> Inl (IE_NoSuchStdlib (rel_file_of tail))
              | Inr (Some ps) \<Rightarrow> Inr ps)))"

text \<open>The order of resolution: beside the importing file, in the installed dependencies, in the standard library.\<close>

definition resolve_import ::
  "file_env \<Rightarrow> rstring list \<Rightarrow> coord list \<Rightarrow> rstring \<Rightarrow> rstring list \<Rightarrow> import_error + rstring list" where
  "resolve_import fe dep_dirs missing base path =
     (let rel_file = rel_file_of path; rel_dir = rel_dir_of path in
      case resolve_module_paths fe base rel_file rel_dir of
        Inl e \<Rightarrow> Inl e
      | Inr (Some ps) \<Rightarrow> Inr ps
      | Inr None \<Rightarrow>
          (case resolve_in_dep_dirs fe dep_dirs rel_file rel_dir of
             Inl e \<Rightarrow> Inl e
           | Inr (Some ps) \<Rightarrow> Inr ps
           | Inr None \<Rightarrow>
               if path \<noteq> [] \<and> hd path = lit ''tinox'' then resolve_stdlib fe missing path
               else Inl (IE_NotFound rel_file)))"

section \<open>Loading and merging\<close>

definition load_source :: "file_env \<Rightarrow> rstring \<Rightarrow> import_error + decl list" where
  "load_source fe path =
     (case fe_read fe path of None \<Rightarrow> Inl (IE_Read path) | Some src \<Rightarrow>
      (case parse_source src of
         None \<Rightarrow> Inl (IE_ParseFuel path)
       | Some (Inl (Inl errs)) \<Rightarrow> Inl (IE_Lexer path errs)
       | Some (Inl (Inr bag)) \<Rightarrow> Inl (IE_Parse path bag)
       | Some (Inr sf) \<Rightarrow>
           bind_result (check_one_type_per_file (sf_decls sf) path) (\<lambda>_.
           bind_result (check_no_top_level_fn (sf_decls sf) path) (\<lambda>_.
           Inr (stamp_file_identity fe (sf_decls sf) path)))))"

definition imports_of :: "decl list \<Rightarrow> rstring list list" where
  "imports_of ds = List.map_filter (\<lambda>d. case node d of D_Import i \<Rightarrow> Some (imp_path i) | _ \<Rightarrow> None) ds"

definition own_decls :: "decl list \<Rightarrow> decl list" where
  "own_decls ds = filter (\<lambda>d. case node d of D_Import _ \<Rightarrow> False | D_Module _ \<Rightarrow> False | _ \<Rightarrow> True) ds"

type_synonym merge = "decl list \<times> rstring set"

text \<open>The two loops of \<^verbatim>\<open>resolve_imports\<close>; \<open>load\<close> loads a file with all it imports.\<close>

fun merge_files ::
  "(rstring \<Rightarrow> rstring set \<Rightarrow> (import_error + merge) option) \<Rightarrow> rstring list \<Rightarrow> merge \<Rightarrow> (import_error + merge) option" where
  "merge_files load [] m = Some (Inr m)"
| "merge_files load (p # ps) (acc, visited) =
     (if p \<in> visited then merge_files load ps (acc, visited)
      else case load p (insert p visited) of
             None \<Rightarrow> None
           | Some (Inl e) \<Rightarrow> Some (Inl e)
           | Some (Inr (ds, visited')) \<Rightarrow> merge_files load ps (acc @ ds, visited'))"

fun merge_imports ::
  "(rstring list \<Rightarrow> import_error + rstring list) \<Rightarrow> (rstring \<Rightarrow> rstring set \<Rightarrow> (import_error + merge) option)
     \<Rightarrow> rstring list list \<Rightarrow> merge \<Rightarrow> (import_error + merge) option" where
  "merge_imports resolve load [] m = Some (Inr m)"
| "merge_imports resolve load (i # is) m = (case resolve i of
     Inl e \<Rightarrow> Some (Inl e)
   | Inr ps \<Rightarrow>
       (case merge_files load ps m of
          None \<Rightarrow> None
        | Some (Inl e) \<Rightarrow> Some (Inl e)
        | Some (Inr m') \<Rightarrow> merge_imports resolve load is m'))"

primrec resolve_imports ::
  "nat \<Rightarrow> file_env \<Rightarrow> rstring list \<Rightarrow> coord list \<Rightarrow> decl list \<Rightarrow> rstring \<Rightarrow> rstring set \<Rightarrow> (import_error + merge) option" where
  "resolve_imports 0 fe dep_dirs missing decls base visited = None"
| "resolve_imports (Suc n) fe dep_dirs missing decls base visited =
     (case merge_imports (resolve_import fe dep_dirs missing base)
             (\<lambda>p v. case load_source fe p of
                      Inl e \<Rightarrow> Some (Inl e)
                    | Inr ds \<Rightarrow> resolve_imports n fe dep_dirs missing ds (parent_path p) v)
             (imports_of decls) ([], visited) of
        None \<Rightarrow> None
      | Some (Inl e) \<Rightarrow> Some (Inl e)
      | Some (Inr (imported, visited')) \<Rightarrow> Some (Inr (imported @ own_decls decls, visited')))"

text \<open>
  \<^verbatim>\<open>compile_file\<close> up to the type checker: load the file, resolve its imports against the installed
  dependencies, number the tree.
\<close>

definition compile_front ::
  "nat \<Rightarrow> file_env \<Rightarrow> rstring list \<times> coord list \<Rightarrow> rstring \<Rightarrow> (import_error + source_file \<times> u32) option" where
  "compile_front n fe deps input_path =
     (case load_source fe input_path of
        Inl e \<Rightarrow> Some (Inl e)
      | Inr decls \<Rightarrow>
          map_option (map_sum id (\<lambda>(ds, _). assign_node_ids (source_file_new ds)))
            (resolve_imports n fe (fst deps) (snd deps) decls (parent_path input_path)
              (set_option (fe_canonicalize fe input_path))))"

section \<open>Imports resolve to canonical paths\<close>

definition canonical :: "file_env \<Rightarrow> rstring set" where
  "canonical fe = {p. \<exists>q. fe_canonicalize fe q = Some p}"

lemma sequence_option_set: "sequence_option f xs = Inr ys \<Longrightarrow> set ys \<subseteq> {y. \<exists>x. f x = Some y}"
  by (induction xs arbitrary: ys) (auto split: option.splits sum.splits)

lemma resolve_module_paths_canonical:
  "resolve_module_paths fe base f d = Inr (Some ps) \<Longrightarrow> set ps \<subseteq> canonical fe"
  using sequence_option_set [of "fe_canonicalize fe"]
  by (fastforce simp: resolve_module_paths_def canonical_def Let_def split: option.splits if_splits sum.splits)

lemma resolve_in_dep_dirs_match:
  assumes "resolve_in_dep_dirs fe dirs f d = Inr (Some ps)"
  shows "\<exists>dir \<in> set dirs. resolve_module_paths fe dir f d = Inr (Some ps)"
proof -
  let ?g = "\<lambda>dir. case resolve_module_paths fe dir f d of Inr (Some p) \<Rightarrow> Some (dir, p) | _ \<Rightarrow> None"
  obtain m where m: "m \<in> set (List.map_filter ?g dirs)" "snd m = ps"
    using assms by (auto simp: resolve_in_dep_dirs_def Let_def split: list.splits if_splits)
  then obtain dir where "dir \<in> set dirs" "?g dir = Some m" by (auto simp: List.map_filter_def)
  then show ?thesis using m(2) by (auto split: sum.splits option.splits)
qed

lemma resolve_stdlib_canonical: "resolve_stdlib fe missing path = Inr ps \<Longrightarrow> set ps \<subseteq> canonical fe"
  using resolve_module_paths_canonical
  by (fastforce simp: resolve_stdlib_def Let_def split: if_splits option.splits sum.splits)

lemma resolve_import_canonical:
  assumes "resolve_import fe dep_dirs missing base path = Inr ps" shows "set ps \<subseteq> canonical fe"
proof -
  let ?f = "rel_file_of path" and ?d = "rel_dir_of path"
  consider "resolve_module_paths fe base ?f ?d = Inr (Some ps)" | "resolve_in_dep_dirs fe dep_dirs ?f ?d = Inr (Some ps)"
    | "resolve_stdlib fe missing path = Inr ps"
    using assms by (auto simp: resolve_import_def Let_def split: option.splits sum.splits if_splits)
  then show ?thesis
    by cases (use resolve_module_paths_canonical resolve_in_dep_dirs_match resolve_stdlib_canonical in blast)+
qed

section \<open>What merging gives\<close>

definition file_decls :: "file_env \<Rightarrow> rstring \<Rightarrow> decl list" where
  "file_decls fe p = (case load_source fe p of Inr ds \<Rightarrow> own_decls ds | Inl _ \<Rightarrow> [])"

text \<open>All imports of some declarations lead to visited files.\<close>

definition imports_within :: "file_env \<Rightarrow> rstring list \<Rightarrow> coord list \<Rightarrow> rstring \<Rightarrow> decl list \<Rightarrow> rstring set \<Rightarrow> bool" where
  "imports_within fe dd md base ds v \<longleftrightarrow>
     (\<forall>i \<in> set (imports_of ds). \<exists>ps. resolve_import fe dd md base i = Inr ps \<and> set ps \<subseteq> v)"

definition loaded_within :: "file_env \<Rightarrow> rstring list \<Rightarrow> coord list \<Rightarrow> rstring \<Rightarrow> rstring set \<Rightarrow> bool" where
  "loaded_within fe dd md p v \<longleftrightarrow>
     (\<exists>ds. load_source fe p = Inr ds \<and> imports_within fe dd md (parent_path p) ds v)"

definition merges :: "file_env \<Rightarrow> rstring list \<Rightarrow> coord list \<Rightarrow> merge \<Rightarrow> merge \<Rightarrow> bool" where
  "merges fe dd md m m' \<longleftrightarrow> (\<exists>ps. distinct ps \<and> set ps \<inter> snd m = {} \<and> snd m' = snd m \<union> set ps
     \<and> fst m' = fst m @ concat (map (file_decls fe) ps) \<and> (\<forall>p \<in> set ps. loaded_within fe dd md p (snd m')))"

lemma imports_within_mono: "imports_within fe dd md base ds v \<Longrightarrow> v \<subseteq> v' \<Longrightarrow> imports_within fe dd md base ds v'"
  unfolding imports_within_def by (meson subset_trans)

lemma loaded_within_mono: "loaded_within fe dd md p v \<Longrightarrow> v \<subseteq> v' \<Longrightarrow> loaded_within fe dd md p v'"
  unfolding loaded_within_def using imports_within_mono by blast

lemma merges_refl: "merges fe dd md m m"
  unfolding merges_def by (intro exI [of _ "[]"]) simp

lemma merges_trans:
  assumes "merges fe dd md a b" "merges fe dd md b c"
  shows "merges fe dd md a c"
proof -
  obtain ps where ps: "distinct ps" "set ps \<inter> snd a = {}" "snd b = snd a \<union> set ps"
    "fst b = fst a @ concat (map (file_decls fe) ps)" "\<forall>p \<in> set ps. loaded_within fe dd md p (snd b)"
    using assms(1) unfolding merges_def by blast
  obtain qs where qs: "distinct qs" "set qs \<inter> snd b = {}" "snd c = snd b \<union> set qs"
    "fst c = fst b @ concat (map (file_decls fe) qs)" "\<forall>p \<in> set qs. loaded_within fe dd md p (snd c)"
    using assms(2) unfolding merges_def by blast
  have "\<forall>p \<in> set ps. loaded_within fe dd md p (snd c)" using ps(5) qs(3) loaded_within_mono by (metis Un_upper1)
  then show ?thesis
    unfolding merges_def using ps qs by (intro exI [of _ "ps @ qs"]) auto
qed

lemma merges_visited: "merges fe dd md m m' \<Longrightarrow> snd m \<subseteq> snd m'"
  unfolding merges_def by blast

text \<open>A loader that merges what a file imports and then the file itself.\<close>

definition good_load :: "file_env \<Rightarrow> rstring list \<Rightarrow> coord list \<Rightarrow> (rstring \<Rightarrow> rstring set \<Rightarrow> (import_error + merge) option) \<Rightarrow> bool" where
  "good_load fe dd md load \<longleftrightarrow> (\<forall>p v ds v'. load p v = Some (Inr (ds, v')) \<longrightarrow>
     (\<exists>imported. merges fe dd md ([], v) (imported, v') \<and> ds = imported @ file_decls fe p \<and> loaded_within fe dd md p v'))"

lemma merges_file:
  assumes "merges fe dd md ([], insert p v) (imported, v')" "p \<notin> v" "loaded_within fe dd md p v'"
  shows "merges fe dd md (acc, v) (acc @ imported @ file_decls fe p, v')"
proof -
  obtain ps where "distinct ps" "set ps \<inter> insert p v = {}" "v' = insert p v \<union> set ps"
    "imported = concat (map (file_decls fe) ps)" "\<forall>p \<in> set ps. loaded_within fe dd md p v'"
    using assms(1) unfolding merges_def by auto
  then show ?thesis
    unfolding merges_def using assms(2,3) by (intro exI [of _ "ps @ [p]"]) auto
qed

lemma merge_files_merges:
  assumes "good_load fe dd md load"
  shows "merge_files load ps m = Some (Inr m') \<Longrightarrow> merges fe dd md m m' \<and> set ps \<subseteq> snd m'"
proof (induction ps arbitrary: m)
  case Nil then show ?case by (simp add: merges_refl)
next
  case (Cons p ps)
  obtain acc v where m: "m = (acc, v)" by fastforce
  show ?case
  proof (cases "p \<in> v")
    case True
    then have "merges fe dd md m m' \<and> set ps \<subseteq> snd m'" using Cons m by simp
    then show ?thesis using True merges_visited [of fe dd md m m'] m by auto
  next
    case False
    then obtain ds v1 where l: "load p (insert p v) = Some (Inr (ds, v1))" and r: "merge_files load ps (acc @ ds, v1) = Some (Inr m')"
      using Cons.prems m by (auto split: option.splits sum.splits)
    obtain imported where i: "merges fe dd md ([], insert p v) (imported, v1)" "ds = imported @ file_decls fe p" "loaded_within fe dd md p v1"
      using assms l unfolding good_load_def by blast
    have "merges fe dd md m (acc @ ds, v1)" using merges_file [OF i(1) False i(3)] i(2) m by simp
    moreover have "p \<in> v1" using merges_visited [OF i(1)] by simp
    moreover have "merges fe dd md (acc @ ds, v1) m'" "set ps \<subseteq> snd m'" using Cons.IH [OF r] by simp_all
    ultimately have "merges fe dd md m m'" "set (p # ps) \<subseteq> snd m'"
      using merges_visited [of fe dd md "(acc @ ds, v1)" m'] by (blast intro: merges_trans, auto)
    then show ?thesis by blast
  qed
qed

lemma merge_imports_merges:
  assumes "good_load fe dd md load"
  shows "merge_imports resolve load is m = Some (Inr m') \<Longrightarrow>
    merges fe dd md m m' \<and> (\<forall>i \<in> set is. \<exists>ps. resolve i = Inr ps \<and> set ps \<subseteq> snd m')"
proof (induction "is" arbitrary: m)
  case Nil then show ?case by (simp add: merges_refl)
next
  case (Cons i "is")
  then obtain ps m1 where r: "resolve i = Inr ps" and f: "merge_files load ps m = Some (Inr m1)"
    and g: "merge_imports resolve load is m1 = Some (Inr m')"
    by (auto split: option.splits sum.splits)
  have m1: "merges fe dd md m m1" "set ps \<subseteq> snd m1" and m': "merges fe dd md m1 m'"
    and im: "\<forall>i \<in> set is. \<exists>ps. resolve i = Inr ps \<and> set ps \<subseteq> snd m'"
    using merge_files_merges [OF assms f] Cons.IH [OF g] by simp_all
  have "merges fe dd md m m'" using m1(1) m' by (rule merges_trans)
  moreover have "set ps \<subseteq> snd m'" using m1(2) merges_visited [OF m'] by (rule subset_trans)
  ultimately show ?case using r im by simp
qed

text \<open>The loader of \<^verbatim>\<open>resolve_imports\<close> with the given fuel.\<close>

definition loader ::
  "nat \<Rightarrow> file_env \<Rightarrow> rstring list \<Rightarrow> coord list \<Rightarrow> rstring \<Rightarrow> rstring set \<Rightarrow> (import_error + merge) option" where
  "loader n fe dd md = (\<lambda>p v. case load_source fe p of
     Inl e \<Rightarrow> Some (Inl e) | Inr ds \<Rightarrow> resolve_imports n fe dd md ds (parent_path p) v)"

lemma resolve_imports_Suc:
  "resolve_imports (Suc n) fe dd md decls base v =
     (case merge_imports (resolve_import fe dd md base) (loader n fe dd md) (imports_of decls) ([], v) of
        None \<Rightarrow> None
      | Some (Inl e) \<Rightarrow> Some (Inl e)
      | Some (Inr (imported, v')) \<Rightarrow> Some (Inr (imported @ own_decls decls, v')))"
  by (simp add: loader_def)

lemma good_loader_step:
  assumes "\<And>decls base v out v'. resolve_imports n fe dd md decls base v = Some (Inr (out, v')) \<Longrightarrow>
     \<exists>imported. merges fe dd md ([], v) (imported, v') \<and> out = imported @ own_decls decls \<and> imports_within fe dd md base decls v'"
  shows "good_load fe dd md (loader n fe dd md)"
  unfolding good_load_def
proof (intro allI impI)
  fix p v ds v' assume "loader n fe dd md p v = Some (Inr (ds, v'))"
  then obtain ds0 where "load_source fe p = Inr ds0" "resolve_imports n fe dd md ds0 (parent_path p) v = Some (Inr (ds, v'))"
    by (auto simp: loader_def split: sum.splits)
  then show "\<exists>imported. merges fe dd md ([], v) (imported, v') \<and> ds = imported @ file_decls fe p \<and> loaded_within fe dd md p v'"
    using assms by (fastforce simp: file_decls_def loaded_within_def)
qed

lemma resolve_imports_merges:
  "resolve_imports n fe dd md decls base v = Some (Inr (out, v')) \<Longrightarrow>
     \<exists>imported. merges fe dd md ([], v) (imported, v') \<and> out = imported @ own_decls decls \<and> imports_within fe dd md base decls v'"
proof (induction n arbitrary: decls base v out v')
  case (Suc n)
  note g = good_loader_step [OF Suc.IH]
  obtain imported where
    m: "merge_imports (resolve_import fe dd md base) (loader n fe dd md) (imports_of decls) ([], v) = Some (Inr (imported, v'))"
    and out: "out = imported @ own_decls decls"
    using Suc.prems unfolding resolve_imports_Suc by (auto split: option.splits sum.splits)
  from merge_imports_merges [OF g m] out show ?case by (auto simp: imports_within_def)
qed simp

section \<open>Merging ends\<close>

definition ready :: "rstring set \<Rightarrow> nat \<Rightarrow> (rstring \<Rightarrow> rstring set \<Rightarrow> (import_error + merge) option) \<Rightarrow> bool" where
  "ready F n load \<longleftrightarrow> (\<forall>p v. p \<in> F \<longrightarrow> card (F - v) < n \<longrightarrow> load p v \<noteq> None)"

lemma merge_files_total:
  assumes "finite F" "ready F n load" "good_load fe dd md load"
  shows "set ps \<subseteq> F \<Longrightarrow> card (F - snd m) < Suc n \<Longrightarrow> merge_files load ps m \<noteq> None"
proof (induction ps arbitrary: m)
  case (Cons p ps)
  obtain acc v where m: "m = (acc, v)" by fastforce
  show ?case
  proof (cases "p \<in> v")
    case True then show ?thesis using Cons m by simp
  next
    case False
    have "F - insert p v = (F - v) - {p}" by blast
    then have c: "card (F - insert p v) < card (F - v)"
      using assms(1) False Cons.prems(1) by (simp add: card_Diff1_less del: card_Diff_insert)
    then have "load p (insert p v) \<noteq> None" using assms(2) Cons.prems m by (simp add: ready_def)
    moreover have "merge_files load ps (acc @ ds, v1) \<noteq> None" if l: "load p (insert p v) = Some (Inr (ds, v1))" for ds v1
    proof -
      have "insert p v \<subseteq> v1" using assms(3) l merges_visited unfolding good_load_def by fastforce
      then have "card (F - v1) \<le> card (F - v)" using assms(1) by (intro card_mono) auto
      then show ?thesis using Cons m by simp
    qed
    ultimately show ?thesis using False m by (auto split: sum.splits)
  qed
qed simp

lemma merge_imports_total:
  assumes "finite F" "ready F n load" "good_load fe dd md load" "\<And>i ps. resolve i = Inr ps \<Longrightarrow> set ps \<subseteq> F"
  shows "card (F - snd m) < Suc n \<Longrightarrow> merge_imports resolve load is m \<noteq> None"
proof (induction "is" arbitrary: m)
  case (Cons i "is")
  show ?case
  proof (cases "resolve i")
    case (Inr ps)
    have "merge_files load ps m \<noteq> None" using merge_files_total [OF assms(1-3)] assms(4) [OF Inr] Cons.prems by blast
    moreover have "merge_imports resolve load is m' \<noteq> None" if "merge_files load ps m = Some (Inr m')" for m'
    proof -
      have "snd m \<subseteq> snd m'" using merge_files_merges [OF assms(3) that] merges_visited by blast
      then have "card (F - snd m') \<le> card (F - snd m)" using assms(1) by (intro card_mono) auto
      then show ?thesis using Cons by simp
    qed
    ultimately show ?thesis using Inr by (auto split: sum.splits)
  qed simp
qed simp

lemmas good_loader = good_loader_step [OF resolve_imports_merges]

lemma resolve_imports_total:
  assumes "finite (canonical fe)"
  shows "card (canonical fe - v) < n \<Longrightarrow> resolve_imports n fe dd md decls base v \<noteq> None"
proof (induction n arbitrary: decls base v)
  case (Suc n)
  have "ready (canonical fe) n (loader n fe dd md)"
    using Suc.IH by (simp add: ready_def loader_def split: sum.split)
  then have "merge_imports (resolve_import fe dd md base) (loader n fe dd md) (imports_of decls) ([], v) \<noteq> None"
    using Suc.prems by (intro merge_imports_total [OF assms _ good_loader resolve_import_canonical]) simp_all
  then show ?case unfolding resolve_imports_Suc by (auto split: sum.splits prod.splits)
qed simp

lemma parse_source_returns: "\<exists>r. parse_source src = Some r"
proof (cases "fst (tokenize (lexer_new src))")
  case (Inr toks)
  have "W (parser_new toks) < tokens_weight toks + 1" by (simp add: W_def parser_new_def)
  then obtain decls s where
    "parse_decls (tokens_weight toks + 1) (call_nt (tokens_weight toks + 1)) (parser_new toks) = POk decls s"
    using parse_decls_run by blast
  then show ?thesis using Inr by (simp add: parse_source_def parse_def Let_def)
qed (simp add: parse_source_def)

lemma load_import_fuel: "load_source fe p \<noteq> Inl (IE_ParseFuel q)"
proof (cases "fe_read fe p")
  case (Some src)
  obtain r where "parse_source src = Some r" using parse_source_returns by blast
  then show ?thesis
    using Some
    by (simp add: load_source_def bind_result_def check_one_type_per_file_def check_no_top_level_fn_def Let_def
        split: sum.split list.split)
qed (simp add: load_source_def)

section \<open>Properties\<close>

text \<open>
  C2. Imports are resolved completely, once, and to an end, however the files import each other: with finitely
  many files \<^verbatim>\<open>resolve_imports\<close> returns, and unless it reports an error its result consists of the own
  declarations (no import, no module declaration) of every newly visited file, each file once, followed by
  those of the importing file itself; every import of each of these files was resolved to visited files.
\<close>

theorem resolve_imports_once:
  assumes "finite (canonical fe)" "card (canonical fe) < n"
  shows "case resolve_imports n fe dep_dirs missing decls base visited of
      None \<Rightarrow> False
    | Some (Inl e) \<Rightarrow> True
    | Some (Inr (out, visited')) \<Rightarrow>
        imports_within fe dep_dirs missing base decls visited'
        \<and> (\<exists>ps. distinct ps \<and> set ps \<inter> visited = {} \<and> visited' = visited \<union> set ps
             \<and> out = concat (map (file_decls fe) ps) @ own_decls decls
             \<and> list_all (\<lambda>p. loaded_within fe dep_dirs missing p visited') ps)"
proof -
  have "card (canonical fe - visited) < n"
    using assms by (meson Diff_subset card_mono le_less_trans)
  then have t: "resolve_imports n fe dep_dirs missing decls base visited \<noteq> None"
    by (rule resolve_imports_total [OF assms(1)])
  have "imports_within fe dep_dirs missing base decls v' \<and> (\<exists>ps. distinct ps \<and> set ps \<inter> visited = {} \<and> v' = visited \<union> set ps
             \<and> out = concat (map (file_decls fe) ps) @ own_decls decls
             \<and> list_all (\<lambda>p. loaded_within fe dep_dirs missing p v') ps)"
    if "resolve_imports n fe dep_dirs missing decls base visited = Some (Inr (out, v'))" for out v'
    using resolve_imports_merges [OF that] by (auto simp: merges_def list_all_iff)
  then show ?thesis using t by (auto split: option.splits sum.splits)
qed

lemma parse_empty_source: "parse_source [] = Some (Inr (source_file_new []))"
  by code_simp

text \<open>A file system with two empty files that import nothing.\<close>

definition two_files :: file_env where
  "two_files = \<lparr>fe_canonicalize = (\<lambda>p. if p \<in> {lit ''/a.tnx'', lit ''/b.tnx''} then Some p else None),
     fe_is_dir = (\<lambda>_. False), fe_read_dir = (\<lambda>_. None), fe_read = (\<lambda>_. Some []), fe_stdlib = None\<rparr>"

lemma two_files_canonical: "finite (canonical two_files)" "card (canonical two_files) < 3"
proof -
  have "{p. \<exists>q. (if q \<in> S then Some q else None) = Some p} = S" for S :: "rstring set" by (auto split: if_splits)
  then have c: "canonical two_files = {lit ''/a.tnx'', lit ''/b.tnx''}"
    by (simp only: canonical_def two_files_def file_env.simps)
  show "finite (canonical two_files)" "card (canonical two_files) < 3"
    unfolding c by (simp_all add: card_insert_if)
qed

theorem resolve_imports_once_witness:
  "resolve_imports 3 two_files [] [] [spanned_new (D_Import \<lparr>imp_path = [lit ''b''], imp_alias = None, imp_span = span_dummy\<rparr>) span_dummy]
     (lit ''/'') {lit ''/a.tnx''} \<noteq> None"
proof
  let ?d = "spanned_new (D_Import \<lparr>imp_path = [lit ''b''], imp_alias = None, imp_span = span_dummy\<rparr>) span_dummy"
  assume "resolve_imports 3 two_files [] [] [?d] (lit ''/'') {lit ''/a.tnx''} = None"
  with resolve_imports_once [OF two_files_canonical, where dep_dirs = "[]" and missing = "[]" and decls = "[?d]"
      and base = "lit ''/''" and visited = "{lit ''/a.tnx''}"]
  show False by (simp only: option.case)
qed

end
