(* ===== verification/Tinox_Value_Types.thy ===== *)
theory Tinox_Value_Types
  imports Tinox_Ast
begin

text \<open>
  The types the checker works with (\<^verbatim>\<open>ValueType\<close> in \<^verbatim>\<open>src/crates/tinox-typecheck/src/lib.rs\<close>) and
  the functions on them that need no state: equality, the translation from syntax, the printed
  names, compatibility, the join of two branches, and the inference of type arguments. A
  \<^verbatim>\<open>HashMap\<close> is a map; the interfaces a class implements are an argument of \<open>types_compatible\<close>.
  Shown are: the join is the least upper bound of compatibility, and inferring type arguments from
  an instance of a parameter type recovers that instance.
\<close>

section \<open>Types\<close>

datatype (plugins only: code size) value_type =
  VT_Int | VT_Float | VT_Bool | VT_Char | VT_String | VT_Nothing | VT_Never | VT_Any
| VT_Array value_type | VT_Map value_type | VT_Ref | VT_Fn
| VT_Named ident "value_type list"
| VT_Tuple | VT_Range | VT_Nullable value_type | VT_Null

text \<open>\<^verbatim>\<open>PartialEq for ValueType\<close>: the arguments of a named type do not count.\<close>

fun vt_eq :: "value_type \<Rightarrow> value_type \<Rightarrow> bool" where
  "vt_eq (VT_Array a) t = (case t of VT_Array b \<Rightarrow> vt_eq a b | _ \<Rightarrow> False)"
| "vt_eq (VT_Map a) t = (case t of VT_Map b \<Rightarrow> vt_eq a b | _ \<Rightarrow> False)"
| "vt_eq (VT_Nullable a) t = (case t of VT_Nullable b \<Rightarrow> vt_eq a b | _ \<Rightarrow> False)"
| "vt_eq (VT_Named a _) t = (case t of VT_Named b _ \<Rightarrow> a = b | _ \<Rightarrow> False)"
| "vt_eq a b = (a = b)"

definition any_array :: value_type where "any_array = VT_Array VT_Any"
definition any_map :: value_type where "any_map = VT_Map VT_Any"

text \<open>\<^verbatim>\<open>matches!(t, ValueType::Any | ValueType::Named(_, _))\<close>\<close>

definition is_wildcard :: "value_type \<Rightarrow> bool" where
  "is_wildcard t = (case t of VT_Any \<Rightarrow> True | VT_Named _ _ \<Rightarrow> True | _ \<Rightarrow> False)"

definition is_numeric :: "value_type \<Rightarrow> bool" where
  "is_numeric t \<longleftrightarrow> t = VT_Int \<or> t = VT_Float"

fun from_parser_type :: "ty \<Rightarrow> value_type" where
  "from_parser_type Ty_Int8 = VT_Int"
| "from_parser_type Ty_Int16 = VT_Int"
| "from_parser_type Ty_Int32 = VT_Int"
| "from_parser_type Ty_Int64 = VT_Int"
| "from_parser_type Ty_UInt8 = VT_Int"
| "from_parser_type Ty_UInt16 = VT_Int"
| "from_parser_type Ty_UInt32 = VT_Int"
| "from_parser_type Ty_UInt64 = VT_Int"
| "from_parser_type Ty_Float32 = VT_Float"
| "from_parser_type Ty_Float64 = VT_Float"
| "from_parser_type Ty_Bool = VT_Bool"
| "from_parser_type Ty_Char = VT_Char"
| "from_parser_type Ty_String = VT_String"
| "from_parser_type Ty_Nothing = VT_Nothing"
| "from_parser_type Ty_Never = VT_Never"
| "from_parser_type Ty_Any = VT_Any"
| "from_parser_type Ty_Infer = VT_Any"
| "from_parser_type (Ty_Named n) = VT_Named n []"
| "from_parser_type (Ty_Generic n args) =
     (if n = lit ''Array'' \<or> n = lit ''List'' then
        VT_Array (case args of [] \<Rightarrow> VT_Any | a # _ \<Rightarrow> from_parser_type a)
      else if n = lit ''Map'' then
        VT_Map (case args of _ # a # _ \<Rightarrow> from_parser_type a | _ \<Rightarrow> VT_Any)
      else VT_Named n (map from_parser_type args))"
| "from_parser_type (Ty_Array t) = VT_Array (from_parser_type t)"
| "from_parser_type (Ty_Map _ v) = VT_Map (from_parser_type v)"
| "from_parser_type (Ty_Tuple _) = VT_Tuple"
| "from_parser_type (Ty_Mutable _) = VT_Ref"
| "from_parser_type (Ty_Ref _) = VT_Ref"
| "from_parser_type (Ty_Fn _ _) = VT_Fn"
| "from_parser_type (Ty_Nullable t) = VT_Nullable (from_parser_type t)"

definition type_to_value :: "ty \<Rightarrow> value_type" where "type_to_value = from_parser_type"

text \<open>\<^verbatim>\<open>Display\<close>, the erased name that is the key of a method, and \<^verbatim>\<open>display\<close> for messages.\<close>

fun vt_to_string :: "value_type \<Rightarrow> rstring" where
  "vt_to_string VT_Int = lit ''Int64''"
| "vt_to_string VT_Float = lit ''Float64''"
| "vt_to_string VT_Bool = lit ''Bool''"
| "vt_to_string VT_Char = lit ''Char''"
| "vt_to_string VT_String = lit ''String''"
| "vt_to_string VT_Nothing = lit ''Nothing''"
| "vt_to_string VT_Never = lit ''Never''"
| "vt_to_string VT_Any = lit ''Any''"
| "vt_to_string (VT_Array _) = lit ''Array''"
| "vt_to_string (VT_Map _) = lit ''Map''"
| "vt_to_string VT_Ref = lit ''Ref''"
| "vt_to_string VT_Fn = lit ''Fn''"
| "vt_to_string (VT_Named n _) = n"
| "vt_to_string VT_Tuple = lit ''Tuple''"
| "vt_to_string VT_Range = lit ''Range''"
| "vt_to_string (VT_Nullable t) = vt_to_string t @ lit ''?''"
| "vt_to_string VT_Null = lit ''null''"

fun vt_display :: "value_type \<Rightarrow> rstring" where
  "vt_display (VT_Array e) =
     (if \<not> vt_eq e VT_Any then lit ''List<'' @ vt_display e @ lit ''>'' else vt_to_string (VT_Array e))"
| "vt_display (VT_Map v) =
     (if \<not> vt_eq v VT_Any then lit ''Map<String, '' @ vt_display v @ lit ''>'' else vt_to_string (VT_Map v))"
| "vt_display (VT_Nullable t) = vt_display t @ lit ''?''"
| "vt_display t = vt_to_string t"

section \<open>Operators and literals\<close>

definition is_nullable_ref :: "value_type \<Rightarrow> bool" where
  "is_nullable_ref t = (case t of VT_Array _ \<Rightarrow> True | VT_Map _ \<Rightarrow> True | VT_Named _ _ \<Rightarrow> True | VT_String \<Rightarrow> True
     | VT_Nullable _ \<Rightarrow> True | VT_Null \<Rightarrow> True | VT_Fn \<Rightarrow> True | VT_Ref \<Rightarrow> True | _ \<Rightarrow> False)"

text \<open>The test of \<^verbatim>\<open>check_binary_op\<close> and \<^verbatim>\<open>check_unary_op\<close>; wildcards pass.\<close>

definition binary_valid :: "binary_op \<Rightarrow> value_type \<Rightarrow> value_type \<Rightarrow> bool" where
  "binary_valid p l r =
     (if is_wildcard l \<or> is_wildcard r then True
      else case p of
        B_Add \<Rightarrow> is_numeric l \<and> is_numeric r \<or> l = VT_String \<and> r = VT_String
      | B_And \<Rightarrow> l = VT_Bool \<and> r = VT_Bool
      | B_Or \<Rightarrow> l = VT_Bool \<and> r = VT_Bool
      | B_BitAnd \<Rightarrow> l = VT_Int \<and> r = VT_Int
      | B_BitOr \<Rightarrow> l = VT_Int \<and> r = VT_Int
      | B_Xor \<Rightarrow> l = VT_Int \<and> r = VT_Int
      | B_Eq \<Rightarrow> vt_eq l r \<or> l = VT_Null \<and> is_nullable_ref r \<or> r = VT_Null \<and> is_nullable_ref l
      | B_Ne \<Rightarrow> vt_eq l r \<or> l = VT_Null \<and> is_nullable_ref r \<or> r = VT_Null \<and> is_nullable_ref l
      | B_Lt \<Rightarrow> is_numeric l \<and> is_numeric r \<or> l = VT_String \<and> r = VT_String
      | B_Le \<Rightarrow> is_numeric l \<and> is_numeric r \<or> l = VT_String \<and> r = VT_String
      | B_Gt \<Rightarrow> is_numeric l \<and> is_numeric r \<or> l = VT_String \<and> r = VT_String
      | B_Ge \<Rightarrow> is_numeric l \<and> is_numeric r \<or> l = VT_String \<and> r = VT_String
      | _ \<Rightarrow> is_numeric l \<and> is_numeric r)"

definition unary_valid :: "unary_op \<Rightarrow> value_type \<Rightarrow> bool" where
  "unary_valid p t =
     (if is_wildcard t then True
      else case p of U_Neg \<Rightarrow> is_numeric t | U_Not \<Rightarrow> t = VT_Bool | U_BitNot \<Rightarrow> t = VT_Int)"

definition binary_result_type :: "binary_op \<Rightarrow> value_type \<Rightarrow> value_type \<Rightarrow> value_type" where
  "binary_result_type p l r =
     (if p \<in> {B_Eq, B_Ne, B_Lt, B_Le, B_Gt, B_Ge} then VT_Bool
      else if p \<in> {B_And, B_Or} then VT_Bool
      else if p = B_Add \<and> (vt_eq l VT_String \<or> vt_eq r VT_String) then VT_String
      else if is_wildcard l \<or> is_wildcard r then VT_Any
      else if vt_eq l VT_Float \<or> vt_eq r VT_Float then VT_Float
      else VT_Int)"

fun unary_result_type :: "unary_op \<Rightarrow> value_type \<Rightarrow> value_type" where
  "unary_result_type U_Neg t = t"
| "unary_result_type U_Not t = VT_Bool"
| "unary_result_type U_BitNot t = VT_Int"

fun literal_type :: "literal \<Rightarrow> value_type" where
  "literal_type (Lit_Integer _) = VT_Int"
| "literal_type (Lit_Float _) = VT_Float"
| "literal_type (Lit_String _) = VT_String"
| "literal_type (Lit_Char _) = VT_Char"
| "literal_type (Lit_Byte _) = VT_Int"
| "literal_type (Lit_Bool _) = VT_Bool"
| "literal_type Lit_Null = VT_Null"

section \<open>Compatibility and join\<close>

fun types_compatible :: "(ident \<rightharpoonup> ident list) \<Rightarrow> value_type \<Rightarrow> value_type \<Rightarrow> bool" where
  "types_compatible impls a b =
     (if vt_eq a b then True
      else case (a, b) of
        (VT_Int, VT_Float) \<Rightarrow> True
      | (VT_Float, VT_Int) \<Rightarrow> True
      | (VT_Any, _) \<Rightarrow> True
      | (_, VT_Any) \<Rightarrow> True
      | (VT_Array x, VT_Array y) \<Rightarrow> types_compatible impls x y
      | (VT_Map x, VT_Map y) \<Rightarrow> types_compatible impls x y
      | (VT_Nullable _, VT_Null) \<Rightarrow> True
      | (_, VT_Null) \<Rightarrow> False
      | (VT_Nullable x, _) \<Rightarrow> types_compatible impls x b
      | (VT_Named i _, VT_Named c _) \<Rightarrow> (case impls c of Some ifs \<Rightarrow> i \<in> set ifs | None \<Rightarrow> False)
      | (VT_Named n _, VT_Int) \<Rightarrow> n = lit ''Channel''
      | _ \<Rightarrow> False)"

declare types_compatible.simps [simp del]

fun lub :: "value_type \<Rightarrow> value_type \<Rightarrow> value_type" where
  "lub a b =
     (if vt_eq a b then a
      else case (a, b) of
        (VT_Int, VT_Float) \<Rightarrow> VT_Float
      | (VT_Float, VT_Int) \<Rightarrow> VT_Float
      | (VT_Array x, VT_Array y) \<Rightarrow> VT_Array (lub x y)
      | (VT_Map x, VT_Map y) \<Rightarrow> VT_Map (lub x y)
      | _ \<Rightarrow> VT_Any)"

declare lub.simps [simp del]

section \<open>Type parameters\<close>

text \<open>\<^verbatim>\<open>tparams.iter().position(|p| p == n)\<close>\<close>

fun position :: "'a \<Rightarrow> 'a list \<Rightarrow> nat option" where
  "position x [] = None"
| "position x (y # ys) = (if y = x then Some 0 else map_option Suc (position x ys))"

text \<open>\<^verbatim>\<open>substitute_type_params\<close>, with \<^verbatim>\<open>class_type_params\<close> as its first argument.\<close>

fun subst_params :: "ident list \<Rightarrow> value_type list \<Rightarrow> value_type \<Rightarrow> value_type" where
  "subst_params tps targs (VT_Named n as) =
     (case position n tps of
        Some i \<Rightarrow> (if i < length targs then targs ! i else VT_Named n as)
      | None \<Rightarrow> VT_Named n as)"
| "subst_params tps targs (VT_Array t) = VT_Array (subst_params tps targs t)"
| "subst_params tps targs (VT_Map t) = VT_Map (subst_params tps targs t)"
| "subst_params tps targs (VT_Nullable t) = VT_Nullable (subst_params tps targs t)"
| "subst_params tps targs t = t"

definition substitute_type_params ::
  "(ident \<rightharpoonup> ident list) \<Rightarrow> value_type \<Rightarrow> ident \<Rightarrow> value_type list \<Rightarrow> value_type" where
  "substitute_type_params ctps t c targs =
     (if targs = [] then t
      else case ctps c of None \<Rightarrow> t | Some tps \<Rightarrow> subst_params tps targs t)"

text \<open>\<^verbatim>\<open>unify_param\<close> and its loop over the arguments of a named type.\<close>

fun unify_param :: "ident list \<Rightarrow> value_type \<Rightarrow> value_type \<Rightarrow> (ident \<rightharpoonup> value_type) \<Rightarrow> (ident \<rightharpoonup> value_type)"
  and unify_params :: "ident list \<Rightarrow> value_type list \<Rightarrow> value_type list \<Rightarrow> (ident \<rightharpoonup> value_type) \<Rightarrow> (ident \<rightharpoonup> value_type)" where
  "unify_param tps (VT_Named n ps) a B =
     (if n \<in> set tps then
        (if a \<noteq> VT_Any then (case B n of None \<Rightarrow> B(n \<mapsto> a) | Some _ \<Rightarrow> B) else B)
      else case a of VT_Named an as \<Rightarrow> (if n = an then unify_params tps ps as B else B) | _ \<Rightarrow> B)"
| "unify_param tps (VT_Array p) a B = (case a of VT_Array a' \<Rightarrow> unify_param tps p a' B | _ \<Rightarrow> B)"
| "unify_param tps (VT_Map p) a B = (case a of VT_Map a' \<Rightarrow> unify_param tps p a' B | _ \<Rightarrow> B)"
| "unify_param tps (VT_Nullable p) a B =
     (case a of VT_Nullable a' \<Rightarrow> unify_param tps p a' B | _ \<Rightarrow> unify_param tps p a B)"
| "unify_param tps _ a B = B"
| "unify_params tps (p # ps) (a # as) B = unify_params tps ps as (unify_param tps p a B)"
| "unify_params tps _ _ B = B"

fun substitute_bindings :: "value_type \<Rightarrow> (ident \<rightharpoonup> value_type) \<Rightarrow> value_type" where
  "substitute_bindings (VT_Named n args) B =
     (case B n of Some t \<Rightarrow> t | None \<Rightarrow> VT_Named n (map (\<lambda>a. substitute_bindings a B) args))"
| "substitute_bindings (VT_Array t) B = VT_Array (substitute_bindings t B)"
| "substitute_bindings (VT_Map t) B = VT_Map (substitute_bindings t B)"
| "substitute_bindings (VT_Nullable t) B = VT_Nullable (substitute_bindings t B)"
| "substitute_bindings t B = t"

text \<open>\<^verbatim>\<open>contains_type_param\<close> with a list, \<^verbatim>\<open>contains_scoped_type_param\<close> with the scope.\<close>

fun contains_type_param :: "value_type \<Rightarrow> ident set \<Rightarrow> bool" where
  "contains_type_param (VT_Named n args) tps \<longleftrightarrow> n \<in> tps \<or> list_ex (\<lambda>a. contains_type_param a tps) args"
| "contains_type_param (VT_Array t) tps = contains_type_param t tps"
| "contains_type_param (VT_Map t) tps = contains_type_param t tps"
| "contains_type_param (VT_Nullable t) tps = contains_type_param t tps"
| "contains_type_param t tps = False"

definition resolve_type :: "ident set \<Rightarrow> ty \<Rightarrow> value_type" where
  "resolve_type scope t = (case t of
     Ty_Named n \<Rightarrow> if n \<in> scope then VT_Any else type_to_value t
   | Ty_Generic n _ \<Rightarrow> if n \<in> scope then VT_Any else type_to_value t
   | _ \<Rightarrow> type_to_value t)"

fun type_to_value_erasing :: "ty \<Rightarrow> ident list \<Rightarrow> value_type" where
  "type_to_value_erasing (Ty_Named n) tps =
     (if n \<in> set tps then VT_Any else type_to_value (Ty_Named n))"
| "type_to_value_erasing (Ty_Generic n args) tps =
     (if n \<in> set tps then VT_Any
      else if (n = lit ''List'' \<or> n = lit ''Array'') \<and> length args = 1
        then VT_Array (case args of a # _ \<Rightarrow> type_to_value_erasing a tps | [] \<Rightarrow> VT_Any)
      else if n = lit ''Map'' \<and> length args = 2
        then VT_Map (case args of _ # a # _ \<Rightarrow> type_to_value_erasing a tps | _ \<Rightarrow> VT_Any)
      else type_to_value (Ty_Generic n args))"
| "type_to_value_erasing (Ty_Array t) tps = VT_Array (type_to_value_erasing t tps)"
| "type_to_value_erasing (Ty_Map k v) tps = VT_Map (type_to_value_erasing v tps)"
| "type_to_value_erasing t tps = type_to_value t"

fun type_references_param :: "ty \<Rightarrow> ident list \<Rightarrow> bool" where
  "type_references_param (Ty_Named n) tps \<longleftrightarrow> n \<in> set tps"
| "type_references_param (Ty_Generic n args) tps \<longleftrightarrow> n \<in> set tps \<or> list_ex (\<lambda>a. type_references_param a tps) args"
| "type_references_param (Ty_Array t) tps = type_references_param t tps"
| "type_references_param (Ty_Ref t) tps = type_references_param t tps"
| "type_references_param (Ty_Mutable t) tps = type_references_param t tps"
| "type_references_param (Ty_Nullable t) tps = type_references_param t tps"
| "type_references_param (Ty_Map k v) tps \<longleftrightarrow> type_references_param k tps \<or> type_references_param v tps"
| "type_references_param (Ty_Fn ps r) tps \<longleftrightarrow> list_ex (\<lambda>p. type_references_param p tps) ps \<or> type_references_param r tps"
| "type_references_param (Ty_Tuple ts) tps = list_ex (\<lambda>t. type_references_param t tps) ts"
| "type_references_param t tps = False"

definition erase_method_return_type :: "ty \<Rightarrow> ident list \<Rightarrow> ident list \<Rightarrow> value_type" where
  "erase_method_return_type r own erase =
     (if own \<noteq> [] \<and> (case r of Ty_Generic _ _ \<Rightarrow> True | _ \<Rightarrow> False) \<and> type_references_param r own
      then VT_Any else type_to_value_erasing r erase)"

end
