(* ===== verification/Tinox_Value_Types_Props.thy ===== *)
theory Tinox_Value_Types_Props
  imports Tinox_Value_Types
begin

text \<open>
  Properties of the types of the checker: equality is an equivalence that compatibility
  respects, the join of two branches is a least upper bound, null safety, and the inference of
  type arguments by \<open>unify_param\<close> inverts \<open>substitute_bindings\<close>.
\<close>

section \<open>Equality\<close>

lemma vt_eq_refl [simp]: "vt_eq a a"
  by (induction a) simp_all

lemma vt_eq_sym: "vt_eq a b \<Longrightarrow> vt_eq b a"
  by (induction a b rule: vt_eq.induct) (auto split: value_type.splits)

lemma vt_eq_trans: "vt_eq a b \<Longrightarrow> vt_eq b c \<Longrightarrow> vt_eq a c"
proof (induction a b arbitrary: c rule: vt_eq.induct)
qed (auto split: value_type.splits)

text \<open>A type without arguments is equal only to itself.\<close>

lemma vt_eq_atom [simp]:
  "vt_eq a VT_Int \<longleftrightarrow> a = VT_Int" "vt_eq a VT_Float \<longleftrightarrow> a = VT_Float" "vt_eq a VT_Bool \<longleftrightarrow> a = VT_Bool"
  "vt_eq a VT_Char \<longleftrightarrow> a = VT_Char" "vt_eq a VT_String \<longleftrightarrow> a = VT_String" "vt_eq a VT_Nothing \<longleftrightarrow> a = VT_Nothing"
  "vt_eq a VT_Never \<longleftrightarrow> a = VT_Never" "vt_eq a VT_Any \<longleftrightarrow> a = VT_Any" "vt_eq a VT_Ref \<longleftrightarrow> a = VT_Ref"
  "vt_eq a VT_Fn \<longleftrightarrow> a = VT_Fn" "vt_eq a VT_Tuple \<longleftrightarrow> a = VT_Tuple" "vt_eq a VT_Range \<longleftrightarrow> a = VT_Range"
  "vt_eq a VT_Null \<longleftrightarrow> a = VT_Null"
  by (cases a; simp)+

section \<open>Compatibility\<close>

lemma compatible_refl: "vt_eq a b \<Longrightarrow> types_compatible I a b"
  by (subst types_compatible.simps) simp

lemma compatible_any_left [simp]: "types_compatible I VT_Any b"
  by (subst types_compatible.simps) (cases b; simp)

lemma compatible_any_right [simp]: "types_compatible I a VT_Any"
  by (subst types_compatible.simps) (cases a; simp)

lemma compatible_array [simp]: "types_compatible I (VT_Array a) (VT_Array b) = types_compatible I a b"
  by (subst types_compatible.simps) (auto intro: compatible_refl)

lemma compatible_map [simp]: "types_compatible I (VT_Map a) (VT_Map b) = types_compatible I a b"
  by (subst types_compatible.simps) (auto intro: compatible_refl)

text \<open>Null safety: only a nullable type, \<^verbatim>\<open>null\<close> itself and the dynamic type take \<^verbatim>\<open>null\<close>.\<close>

lemma compatible_null: "types_compatible I a VT_Null \<longleftrightarrow> a = VT_Null \<or> a = VT_Any \<or> (\<exists>t. a = VT_Nullable t)"
  by (subst types_compatible.simps) (cases a; simp)

lemma compatible_nullable: "types_compatible I t b \<Longrightarrow> b \<noteq> VT_Null \<Longrightarrow> types_compatible I (VT_Nullable t) b"
  by (subst types_compatible.simps) (cases b; simp)

section \<open>The join\<close>

lemma lub_array: "\<not> vt_eq a b \<Longrightarrow> lub (VT_Array a) (VT_Array b) = VT_Array (lub a b)"
  by (subst lub.simps) simp

lemma lub_map: "\<not> vt_eq a b \<Longrightarrow> lub (VT_Map a) (VT_Map b) = VT_Map (lub a b)"
  by (subst lub.simps) simp

lemma lub_eq: "vt_eq a b \<Longrightarrow> lub a b = a"
  by (subst lub.simps) simp

text \<open>The join in the cases the code distinguishes.\<close>

lemma lub_cases:
  fixes a b :: value_type
  obtains (eq) "vt_eq a b" "lub a b = a"
  | (num) "{a, b} = {VT_Int, VT_Float}" "lub a b = VT_Float"
  | (array) x y where "a = VT_Array x" "b = VT_Array y" "\<not> vt_eq x y" "lub a b = VT_Array (lub x y)"
  | (map) x y where "a = VT_Map x" "b = VT_Map y" "\<not> vt_eq x y" "lub a b = VT_Map (lub x y)"
  | (any) "lub a b = VT_Any"
proof (cases "vt_eq a b")
  case True then show ?thesis by (auto intro: eq lub_eq)
next
  case False
  then show ?thesis
    using num array map any by (cases a; cases b; simp add: lub.simps insert_commute)
qed

lemma lub_upper: "types_compatible I (lub a b) a \<and> types_compatible I (lub a b) b"
proof (induction a b rule: lub.induct)
  case (1 a b)
  show ?case
  proof (cases rule: lub_cases [of a b])
    case eq then show ?thesis by (simp add: compatible_refl)
  next
    case num
    then have "a = VT_Int \<and> b = VT_Float \<or> a = VT_Float \<and> b = VT_Int" by (auto simp: doubleton_eq_iff)
    then show ?thesis using num(2) by (auto simp: types_compatible.simps)
  next
    case (array x y) then show ?thesis using 1(1) [of a b x y] by simp
  next
    case (map x y) then show ?thesis using 1(2) [of a b x y] by simp
  next
    case any then show ?thesis by simp
  qed
qed

lemma compatible_nullable_array [simp]:
  "types_compatible I (VT_Nullable d) (VT_Array a) = types_compatible I d (VT_Array a)"
  by (subst types_compatible.simps) simp

lemma compatible_array_cases:
  "types_compatible I c (VT_Array a) \<Longrightarrow> c = VT_Any \<or> (\<exists>d. c = VT_Array d) \<or> (\<exists>d. c = VT_Nullable d)"
  by (subst (asm) types_compatible.simps) (cases c; simp)

lemma compatible_nullable_map [simp]:
  "types_compatible I (VT_Nullable d) (VT_Map a) = types_compatible I d (VT_Map a)"
  by (subst types_compatible.simps) simp

lemma compatible_map_cases:
  "types_compatible I c (VT_Map a) \<Longrightarrow> c = VT_Any \<or> (\<exists>d. c = VT_Map d) \<or> (\<exists>d. c = VT_Nullable d)"
  by (subst (asm) types_compatible.simps) (cases c; simp)

lemma lub_least: "types_compatible I c a \<Longrightarrow> types_compatible I c b \<Longrightarrow> types_compatible I c (lub a b)"
proof (induction a b arbitrary: c rule: lub.induct)
  case (1 a b)
  show ?case
  proof (cases rule: lub_cases [of a b])
    case num
    then have "lub a b = a \<or> lub a b = b" by (auto simp: doubleton_eq_iff)
    then show ?thesis using 1(3,4) by auto
  next
    case (array x y)
    have "types_compatible I c (VT_Array x) \<Longrightarrow> types_compatible I c (VT_Array y) \<Longrightarrow>
        types_compatible I c (VT_Array (lub x y))" for c
    proof (induction c)
      case (VT_Array d) then show ?case using 1(1) [of a b x y] array by simp
    next
      case (VT_Nullable d) then show ?case by simp
    qed (auto dest: compatible_array_cases)
    then show ?thesis using array 1(3,4) by simp
  next
    case (map x y)
    have "types_compatible I c (VT_Map x) \<Longrightarrow> types_compatible I c (VT_Map y) \<Longrightarrow>
        types_compatible I c (VT_Map (lub x y))" for c
    proof (induction c)
      case (VT_Map d) then show ?case using 1(2) [of a b x y] map by simp
    next
      case (VT_Nullable d) then show ?case by simp
    qed (auto dest: compatible_map_cases)
    then show ?thesis using map 1(3,4) by simp
  next
    case eq then show ?thesis using 1(3) by simp
  next
    case any then show ?thesis by simp
  qed
qed



section \<open>Inference of type arguments\<close>

fun tparams_of :: "ident set \<Rightarrow> value_type \<Rightarrow> ident set" where
  "tparams_of T (VT_Named n ps) = (if n \<in> T then {n} else \<Union> (tparams_of T ` set ps))"
| "tparams_of T (VT_Array t) = tparams_of T t"
| "tparams_of T (VT_Map t) = tparams_of T t"
| "tparams_of T (VT_Nullable t) = tparams_of T t"
| "tparams_of T t = {}"

lemma map_add_restrict_Un: "B ++ \<sigma> |` X ++ \<sigma> |` Y = B ++ \<sigma> |` (X \<union> Y)"
  by (auto simp: map_add_def restrict_map_def fun_eq_iff split: option.splits)

lemma unify_substitute:
  assumes "dom \<sigma> \<subseteq> set tps" "VT_Any \<notin> ran \<sigma>"
  shows "tparams_of (set tps) p \<subseteq> dom \<sigma> \<Longrightarrow> B \<subseteq>\<^sub>m \<sigma> \<Longrightarrow>
    unify_param tps p (substitute_bindings p \<sigma>) B = B ++ \<sigma> |` tparams_of (set tps) p"
proof (induction p arbitrary: B)
  case (VT_Named n ps)
  show ?case
  proof (cases "n \<in> set tps")
    case True
    then obtain t where t: "\<sigma> n = Some t" using VT_Named.prems(1) by auto
    then have "t \<noteq> VT_Any" using assms(2) by (auto simp: ran_def)
    moreover have "B n = None \<or> B n = Some t" using VT_Named.prems(2) t by (auto simp: map_le_def dom_def)
    ultimately show ?thesis using True t by (auto simp: map_add_def restrict_map_def fun_eq_iff split: option.splits)
  next
    case False
    then have s: "\<sigma> n = None" using assms(1) by auto
    have "unify_params tps qs (map (\<lambda>a. substitute_bindings a \<sigma>) qs) B
        = B ++ \<sigma> |` (\<Union> (tparams_of (set tps) ` set qs))"
      if "set qs \<subseteq> set ps" "B \<subseteq>\<^sub>m \<sigma>" for qs B
      using that
    proof (induction qs arbitrary: B)
      case (Cons q qs)
      let ?C = "B ++ \<sigma> |` tparams_of (set tps) q"
      have C: "unify_param tps q (substitute_bindings q \<sigma>) B = ?C"
        by (rule VT_Named.IH) (use Cons.prems VT_Named.prems(1) False in auto)
      have "?C \<subseteq>\<^sub>m \<sigma>"
        using Cons.prems(2) by (rule map_add_le_mapI) (auto simp: map_le_def)
      then have "unify_params tps qs (map (\<lambda>a. substitute_bindings a \<sigma>) qs) ?C
          = ?C ++ \<sigma> |` (\<Union> (tparams_of (set tps) ` set qs))"
        using Cons by auto
      then show ?case using C by (simp add: map_add_restrict_Un)
    qed simp
    from this [of ps B] show ?thesis using False s VT_Named.prems by simp
  qed
qed simp_all

lemma substitute_agree:
  assumes "dom \<sigma> \<subseteq> T" "tparams_of T p \<subseteq> dom \<sigma>"
  shows "substitute_bindings p (\<sigma> |` tparams_of T p) = substitute_bindings p \<sigma>"
proof -
  have "substitute_bindings q (\<sigma> |` A) = substitute_bindings q \<sigma>"
    if "tparams_of T q \<subseteq> dom \<sigma>" "tparams_of T q \<subseteq> A" for q A
    using that
  proof (induction q)
    case (VT_Named n ps)
    show ?case
    proof (cases "n \<in> T")
      case True then show ?thesis using VT_Named.prems by auto
    next
      case False
      then have "\<sigma> n = None" using assms(1) by auto
      moreover from this have "(\<sigma> |` A) n = None" by (simp add: restrict_map_def)
      moreover have "\<forall>a \<in> set ps. substitute_bindings a (\<sigma> |` A) = substitute_bindings a \<sigma>"
        using VT_Named False by (simp add: UN_subset_iff)
      ultimately show ?thesis by simp
    qed
  qed simp_all
  then show ?thesis using assms(2) by blast
qed

text \<open>
  Type arguments are inferred completely: if an argument has the type of a parameter with its type parameters
  replaced, matching the parameter type against the argument finds exactly these replacements, and
  applying them gives the type of the argument back.
\<close>

theorem unify_param_recovers:
  assumes "dom \<sigma> \<subseteq> set tps" "VT_Any \<notin> ran \<sigma>" "tparams_of (set tps) p \<subseteq> dom \<sigma>"
  shows "unify_param tps p (substitute_bindings p \<sigma>) Map.empty = \<sigma> |` tparams_of (set tps) p
    \<and> substitute_bindings p (unify_param tps p (substitute_bindings p \<sigma>) Map.empty) = substitute_bindings p \<sigma>"
  using unify_substitute [OF assms, of Map.empty] substitute_agree [OF assms(1,3)] by simp

theorem unify_param_recovers_witness:
  "unify_param [lit ''K'', lit ''V''] (VT_Named (lit ''Pair'') [VT_Named (lit ''K'') [], VT_Array (VT_Named (lit ''V'') [])])
     (VT_Named (lit ''Pair'') [VT_String, VT_Array VT_Int]) Map.empty = [lit ''K'' \<mapsto> VT_String, lit ''V'' \<mapsto> VT_Int]"
proof -
  let ?p = "VT_Named (lit ''Pair'') [VT_Named (lit ''K'') [], VT_Array (VT_Named (lit ''V'') [])]"
  let ?s = "[lit ''K'' \<mapsto> VT_String, lit ''V'' \<mapsto> VT_Int]"
  have "substitute_bindings ?p ?s = VT_Named (lit ''Pair'') [VT_String, VT_Array VT_Int]"
    "tparams_of (set [lit ''K'', lit ''V'']) ?p = dom ?s"
    by (auto simp del: lit_simps)
  then show ?thesis
    using unify_param_recovers [of ?s "[lit ''K'', lit ''V'']" ?p]
    by (simp del: lit_simps add: restrict_map_def dom_def fun_eq_iff)
qed

end
