(* ===== verification/Tinox_Annotation_Registry.thy ===== *)
theory Tinox_Annotation_Registry
  imports Tinox_Ast
begin

text \<open>
  The registry of \<^verbatim>\<open>AnnotationProcessor::new\<close> (\<^verbatim>\<open>src/crates/tinox-typecheck/src/annotations.rs\<close>): the
  annotations the compiler knows, in the order of their registration.
\<close>

text \<open>\<^verbatim>\<open>AnnotationTarget\<close>, \<^verbatim>\<open>AnnotationInfo\<close>\<close>

datatype target = AT_Function | AT_Method | AT_Class | AT_Field | AT_Interface | AT_Enum | AT_Trait
  | AT_Namespace | AT_Param

record annotation_info =
  ai_name :: ident
  ai_targets :: "target list"
  ai_min_args :: nat
  ai_max_args :: nat
  ai_description :: rstring

type_synonym registry = "ident \<rightharpoonup> annotation_info"

definition info_entry :: "ident \<Rightarrow> target list \<Rightarrow> nat \<Rightarrow> nat \<Rightarrow> rstring \<Rightarrow> ident \<times> annotation_info" where
  "info_entry name targets lo hi description =
     (name, \<lparr>ai_name = name, ai_targets = targets, ai_min_args = lo, ai_max_args = hi, ai_description = description\<rparr>)"

definition registry_1 :: "(ident \<times> annotation_info) list" where
  "registry_1 = [
     info_entry (lit ''GET'') [AT_Method] 0 1
       (lit ''Marks a method as a GET endpoint. Optional path arg, or use @Path.''),
     info_entry (lit ''POST'') [AT_Method] 0 1
       (lit ''Marks a method as a POST endpoint. Optional path arg, or use @Path.''),
     info_entry (lit ''PUT'') [AT_Method] 0 1
       (lit ''Marks a method as a PUT endpoint. Optional path arg, or use @Path.''),
     info_entry (lit ''PATCH'') [AT_Method] 0 1
       (lit ''Marks a method as a PATCH endpoint. Optional path arg, or use @Path.''),
     info_entry (lit ''DELETE'') [AT_Method] 0 1
       (lit ''Marks a method as a DELETE endpoint. Optional path arg, or use @Path.''),
     info_entry (lit ''Path'') [AT_Class, AT_Method] 1 1
       (lit ''Sets the URL path prefix for a controller or route''),
     info_entry (lit ''Produces'') [AT_Method] 1 1
       (lit ''Specifies the response content type''),
     info_entry (lit ''Consumes'') [AT_Method] 1 1
       (lit ''Specifies the accepted request content type''),
     info_entry (lit ''StatusCode'') [AT_Method] 1 1
       (lit ''Sets the default HTTP status code for the response''),
     info_entry (lit ''Auth'') [AT_Method, AT_Class] 1 1
       (lit ''Requires authentication (\"bearer\" or \"basic\")''),
     info_entry (lit ''OIDCRolesAllowed'') [AT_Method] 1 1
       (lit ''Requires a verified OIDC access token (RS256/JWKS, IdP config via OIDC_ISSUER/OIDC_JWKS_URI/OIDC_AUDIENCE env vars) carrying at least one of the listed realm roles''),
     info_entry (lit ''PathParam'') [AT_Param] 0 0
       (lit ''Binds a `:name` path segment (same name as the parameter) to this parameter '' @ [8212] @ lit '' String/Int64/Int32/Bool/Float64/Float32''),
     info_entry (lit ''QueryParam'') [AT_Param] 0 0
       (lit ''Binds a query string key (same name as the parameter) to this parameter '' @ [8212] @ lit '' String/Int64/Int32/Bool/Float64/Float32''),
     info_entry (lit ''PostParam'') [AT_Param] 0 0
       (lit ''Binds the deserialized JSON request body to this parameter '' @ [8212] @ lit '' type must be @JsonSerializable'')]"

definition registry_2 :: "(ident \<times> annotation_info) list" where
  "registry_2 = [
     info_entry (lit ''HttpContext'') [AT_Param] 0 0
       (lit ''Binds the request/response handle to this parameter '' @ [8212] @ lit '' type must be HttpContext''),
     info_entry (lit ''annotation'') [AT_Class] 0 0
       (lit ''Marks a class as an annotation definition''),
     info_entry (lit ''WebsocketEndpoint'') [AT_Class] 1 2
       (lit ''@WebsocketEndpoint(\"/path\"[, port]) '' @ [8212] @ lit '' marks a class as a WebSocket endpoint; the compiler generates an auto-run accept/message loop as `main` (port defaults to the TINOX_PORT env var, else 8080). Only valid when the file defines no `main` and has exactly one @WebsocketEndpoint class.''),
     info_entry (lit ''OnOpen'') [AT_Method] 0 0
       (lit ''Marks the method called once a WebSocket connection is accepted; signature fn(conn: Int64) -> Nothing''),
     info_entry (lit ''OnMessage'') [AT_Method] 0 0
       (lit ''Marks the method called for each incoming message; exact signature depends on the enclosing class annotation: fn(conn: Int64, msg: String) -> Nothing for @WebsocketEndpoint, fn(msg: Amqp10Message) -> Nothing for @Amqp10Consumer, fn(msg: AmqpMessage091) -> Nothing for @Amqp091Consumer''),
     info_entry (lit ''OnClose'') [AT_Method] 0 0
       (lit ''Marks the method called when the connection ends (Close/EOF/protocol error); signature fn(conn: Int64) -> Nothing''),
     info_entry (lit ''Http3RestController'') [AT_Class] 3 3
       (lit ''@Http3RestController(port, certPath, keyPath) '' @ [8212] @ lit '' marks a class whose @GET/@POST/@PUT/@PATCH/@DELETE methods (anywhere in the program) should be served over HTTP/3 (QUIC) via tinox.core.http3_server.Http3Server, instead of the TCP auto-server. Requires `import tinox.core.http3_server;` and a runtime built with TINOX_HTTP3=1. Only valid when the file defines no `main`, has exactly one @Http3RestController class, and no @WebsocketEndpoint/@Amqp10Consumer/@Amqp091Consumer.''),
     info_entry (lit ''Amqp10Consumer'') [AT_Class] 5 5
       (lit ''@Amqp10Consumer(host, port, user, pass, address) '' @ [8212] @ lit '' marks a class as an auto-run AMQP-1.0 receiver; the compiler generates a connect/begin/attach/grantCredit/nextMessage/ack loop as `main` that calls the class'' @ [39] @ lit ''s @OnMessage method for each delivered message. Only valid when the file defines no `main` and has exactly one @Amqp10Consumer class.''),
     info_entry (lit ''Amqp091Consumer'') [AT_Class] 6 6
       (lit ''@Amqp091Consumer(host, port, vhost, user, pass, queue) '' @ [8212] @ lit '' marks a class as an auto-run AMQP-0-9-1 receiver; the compiler generates a connect/open/qos/consume/nextMessage/ack loop as `main` that calls the class'' @ [39] @ lit ''s @OnMessage method for each delivered message. Only valid when the file defines no `main` and has exactly one @Amqp091Consumer class.''),
     info_entry (lit ''Config'') [AT_Field] 1 1
       (lit ''Injects a value from application.properties into the field''),
     info_entry (lit ''Log'') [AT_Class] 0 0
       (lit ''Injects a '' @ [39] @ lit ''log: Logger'' @ [39] @ lit '' field initialized with Logger::new(ClassName)''),
     info_entry (lit ''ApplicationComponent'') [AT_Class] 0 0
       (lit ''Lazy singleton '' @ [8212] @ lit '' one instance for the lifetime of the application''),
     info_entry (lit ''Startup'') [AT_Class] 0 0
       (lit ''Eager singleton '' @ [8212] @ lit '' created immediately at application startup''),
     info_entry (lit ''HttpRequestScoped'') [AT_Class] 0 0
       (lit ''One instance per HTTP request, lives as long as the request'')]"

definition registry_3 :: "(ident \<times> annotation_info) list" where
  "registry_3 = [
     info_entry (lit ''Inject'') [AT_Field] 0 0
       (lit ''Marks a field for compile-time dependency injection''),
     info_entry (lit ''Test'') [AT_Method] 0 1
       (lit ''@Test[(\"description\")] '' @ [8212] @ lit '' marks a method as a test case''),
     info_entry (lit ''Command'') [AT_Class] 1 3
       (lit ''@Command(\"name\", \"description\"[, \"version\"]) '' @ [8212] @ lit '' marks a class as a CLI command''),
     info_entry (lit ''Option'') [AT_Field] 1 3
       (lit ''@Option(\"--long,-s\", \"description\"[, required]) '' @ [8212] @ lit '' CLI option backed by a field''),
     info_entry (lit ''Argument'') [AT_Field] 1 3
       (lit ''@Argument(index, \"description\"[, required]) '' @ [8212] @ lit '' positional CLI argument''),
     info_entry (lit ''Sensitive'') [AT_Field] 0 0
       (lit ''Marks a field as fully sensitive '' @ [8212] @ lit '' logged as '' @ [39] @ lit ''***'' @ [39]),
     info_entry (lit ''Masked'') [AT_Field] 0 0
       (lit ''Marks a field for partial masking in logs (shows first/last chars)''),
     info_entry (lit ''DoNotSerialize'') [AT_Field] 0 0
       (lit ''Excludes a field from all serialization (JSON, XML, etc.)''),
     info_entry (lit ''Timed'') [AT_Function, AT_Method] 0 1
       (lit ''@Timed[(\"label\")] '' @ [8212] @ lit '' records execution time as a Prometheus summary''),
     info_entry (lit ''Counted'') [AT_Function, AT_Method] 0 1
       (lit ''@Counted[(\"label\")] '' @ [8212] @ lit '' increments a Prometheus counter on each call''),
     info_entry (lit ''Gauge'') [AT_Field] 1 1
       (lit ''@Gauge(\"label\") '' @ [8212] @ lit '' tracks a numeric field as a Prometheus gauge''),
     info_entry (lit ''Entity'') [AT_Class] 0 0
       (lit ''Marks a class as a database entity''),
     info_entry (lit ''Table'') [AT_Class] 1 1
       (lit ''@Table(\"table_name\") '' @ [8212] @ lit '' sets the DB table name''),
     info_entry (lit ''Id'') [AT_Field] 0 0
       (lit ''Marks field as primary key'')]"

definition registry_4 :: "(ident \<times> annotation_info) list" where
  "registry_4 = [
     info_entry (lit ''Column'') [AT_Field] 0 1
       (lit ''@Column[(\"col_name\")] '' @ [8212] @ lit '' maps field to DB column''),
     info_entry (lit ''GeneratedValue'') [AT_Field] 0 0
       (lit ''ID is generated by the DB (AUTO_INCREMENT / SERIAL)''),
     info_entry (lit ''NotNull'') [AT_Field] 0 0
       (lit ''Column is NOT NULL''),
     info_entry (lit ''inline'') [AT_Function, AT_Method] 0 1
       (lit ''Hints that the function should be inlined''),
     info_entry (lit ''deprecated'') [AT_Function, AT_Method, AT_Class] 0 1
       (lit ''Marks the declaration as deprecated'')]"

text \<open>A later registration of a name replaces an earlier one.\<close>

definition processor_new :: registry where
  "processor_new = map_of (rev (registry_1 @ registry_2 @ registry_3 @ registry_4))"

end
