(* ===== verification/Tinox_Annotations.thy ===== *)
theory Tinox_Annotations
  imports Tinox_Annotation_Registry
begin

text \<open>
  The validation of annotations (\<^verbatim>\<open>validate_annotations\<close> of \<^verbatim>\<open>src/crates/tinox-typecheck/src/annotations.rs\<close>):
  every annotation is known, stands at a place it may stand at and has a possible number of arguments, and
  the parameters and result of a REST handler can be bound. Errors are values that carry the arguments of
  \<^verbatim>\<open>format!\<close>.
\<close>

datatype annotation_msg =
  AM_CannotApply ident target "target list"
| AM_TooFew ident nat nat
| AM_TooMany ident nat nat
| AM_Unknown ident
| AM_NoBinding ident
| AM_ManyBindings ident "ident list"
| AM_NotScalar ident ident ty
| AM_NotPost ident ty
| AM_NotContext ident ty
| AM_NotReturnable ident ty

definition usize_max :: nat where "usize_max = 2 ^ 64 - 1"

definition register_custom_annotation :: "ident \<Rightarrow> registry \<Rightarrow> registry" where
  "register_custom_annotation name reg = reg(name \<mapsto>
     \<lparr>ai_name = name,
      ai_targets = [AT_Function, AT_Method, AT_Class, AT_Field, AT_Interface, AT_Enum, AT_Trait, AT_Namespace],
      ai_min_args = 0, ai_max_args = usize_max,
      ai_description = lit ''User-defined annotation @'' @ name\<rparr>)"

section \<open>One annotation\<close>

definition validate_one :: "registry \<Rightarrow> target \<Rightarrow> annotation \<Rightarrow> annotation_msg error list" where
  "validate_one reg t a = map (error_new (ann_span a))
     (case reg (ann_name a) of
        None \<Rightarrow> [AM_Unknown (ann_name a)]
      | Some info \<Rightarrow>
          (if t \<notin> set (ai_targets info) then [AM_CannotApply (ann_name a) t (ai_targets info)] else [])
          @ (if length (ann_args a) < ai_min_args info
             then [AM_TooFew (ann_name a) (ai_min_args info) (length (ann_args a))] else [])
          @ (if length (ann_args a) > ai_max_args info
             then [AM_TooMany (ann_name a) (ai_max_args info) (length (ann_args a))] else []))"

definition validate :: "registry \<Rightarrow> target \<Rightarrow> annotation list \<Rightarrow> annotation_msg error list" where
  "validate reg t as = concat (map (validate_one reg t) as)"

definition has_annotation :: "string \<Rightarrow> annotation list \<Rightarrow> bool" where
  "has_annotation name as \<longleftrightarrow> list_ex (\<lambda>a. ann_name a = lit name) as"

section \<open>REST handlers\<close>

definition is_supported_param_scalar_type :: "ty \<Rightarrow> bool" where
  "is_supported_param_scalar_type t \<longleftrightarrow>
     t \<in> {Ty_String, Ty_Int64, Ty_Int32, Ty_Bool, Ty_Float64, Ty_Float32}"

definition is_json_serializable_class_type :: "ident set \<Rightarrow> ty \<Rightarrow> bool" where
  "is_json_serializable_class_type js t \<longleftrightarrow> (case t of Ty_Named n \<Rightarrow> n \<in> js | _ \<Rightarrow> False)"

definition is_json_serializable_list_type :: "ident set \<Rightarrow> ty \<Rightarrow> bool" where
  "is_json_serializable_list_type js t \<longleftrightarrow> (case t of
     Ty_Generic name args \<Rightarrow> (name = lit ''List'' \<or> name = lit ''Array'')
       \<and> (case args of [] \<Rightarrow> False | a # _ \<Rightarrow> is_json_serializable_class_type js a)
   | Ty_Array inner \<Rightarrow> is_json_serializable_class_type js inner
   | _ \<Rightarrow> False)"

definition is_http_context_type :: "ty \<Rightarrow> bool" where
  "is_http_context_type t \<longleftrightarrow> t = Ty_Named (lit ''HttpContext'')"

definition is_verb :: "ident \<Rightarrow> bool" where
  "is_verb n \<longleftrightarrow> n \<in> {lit ''GET'', lit ''POST'', lit ''PUT'', lit ''PATCH'', lit ''DELETE''}"

definition is_binding :: "ident \<Rightarrow> bool" where
  "is_binding n \<longleftrightarrow> n \<in> {lit ''PathParam'', lit ''QueryParam'', lit ''PostParam'', lit ''HttpContext''}"

definition check_binding :: "ident set \<Rightarrow> param \<Rightarrow> ident \<Rightarrow> annotation_msg list" where
  "check_binding js p b =
     (let t = param_type p; n = param_name p in
      if b = lit ''PathParam'' \<or> b = lit ''QueryParam'' then
        (if is_supported_param_scalar_type t then [] else [AM_NotScalar b n t])
      else if b = lit ''PostParam'' then
        (if is_json_serializable_class_type js t then [] else [AM_NotPost n t])
      else (if is_http_context_type t then [] else [AM_NotContext n t]))"

definition validate_route_param :: "ident set \<Rightarrow> param \<Rightarrow> annotation_msg error list" where
  "validate_route_param js p = map (error_new (param_span p))
     (case filter (\<lambda>a. is_binding (ann_name a)) (param_annotations p) of
        [] \<Rightarrow> [AM_NoBinding (param_name p)]
      | [b] \<Rightarrow> check_binding js p (ann_name b)
      | bs \<Rightarrow> [AM_ManyBindings (param_name p) (map ann_name bs)])"

definition returnable :: "ident set \<Rightarrow> ty \<Rightarrow> bool" where
  "returnable js t \<longleftrightarrow> is_http_context_type t \<or> is_json_serializable_class_type js t
     \<or> is_json_serializable_list_type js t \<or> t \<in> {Ty_String, Ty_Int64, Ty_Int32, Ty_Bool}"

definition validate_route_params :: "ident set \<Rightarrow> method_def \<Rightarrow> annotation_msg error list" where
  "validate_route_params js m =
     (if \<not> list_ex (\<lambda>a. is_verb (ann_name a)) (me_annotations m) then []
      else concat (map (validate_route_param js) (me_params m))
        @ (if returnable js (me_ret_type m) then []
           else [error_new (me_span m) (AM_NotReturnable (me_name m) (me_ret_type m))]))"

section \<open>Declarations\<close>

definition validate_params :: "registry \<Rightarrow> param list \<Rightarrow> annotation_msg error list" where
  "validate_params reg ps = concat (map (\<lambda>p. validate reg AT_Param (param_annotations p)) ps)"

definition validate_method :: "registry \<Rightarrow> ident set \<Rightarrow> method_def \<Rightarrow> annotation_msg error list" where
  "validate_method reg js m = validate reg AT_Method (me_annotations m) @ validate_params reg (me_params m)
     @ validate_route_params js m"

definition validate_signature :: "registry \<Rightarrow> target \<Rightarrow> function_def \<Rightarrow> annotation_msg error list" where
  "validate_signature reg t f = validate reg t (fn_annotations f) @ validate_params reg (fn_params f)"

primrec validate_decl :: "registry \<Rightarrow> ident set \<Rightarrow> decl_kind \<Rightarrow> annotation_msg error list" where
  "validate_decl reg js (D_Function f) = validate_signature reg AT_Function f"
| "validate_decl reg js (D_Class c) =
     validate reg AT_Class (cl_annotations c)
     @ concat (map (\<lambda>f. validate reg AT_Field (fd_annotations f)) (cl_fields c))
     @ concat (map (validate_method reg js) (cl_methods c))"
| "validate_decl reg js (D_Interface i) =
     validate reg AT_Interface (if_annotations i) @ concat (map (validate_signature reg AT_Method) (if_methods i))"
| "validate_decl reg js (D_Enum e) = validate reg AT_Enum (en_annotations e)"
| "validate_decl reg js (D_Trait t) =
     validate reg AT_Trait (tr_annotations t) @ concat (map (validate_signature reg AT_Method) (tr_methods t))"
| "validate_decl reg js (D_Import i) = []"
| "validate_decl reg js (D_Module n) = []"
| "validate_decl reg js (D_Namespace ns) = validate reg AT_Namespace (ns_annotations ns)
     @ concat (map node (ns_decls (map_namespace (map_spanned (validate_decl reg js)) ns)))"
| "validate_decl reg js (D_Immutable d) = []"

text \<open>\<^verbatim>\<open>collect_custom_annotation_classes\<close>, \<^verbatim>\<open>collect_json_serializable_classes\<close>\<close>

primrec collect_custom :: "decl_kind \<Rightarrow> registry \<Rightarrow> registry" where
  "collect_custom (D_Function f) = id"
| "collect_custom (D_Class c) =
     (if has_annotation ''annotation'' (cl_annotations c) then register_custom_annotation (cl_name c) else id)"
| "collect_custom (D_Interface i) = id"
| "collect_custom (D_Enum e) = id"
| "collect_custom (D_Trait t) = id"
| "collect_custom (D_Import i) = id"
| "collect_custom (D_Module n) = id"
| "collect_custom (D_Namespace ns) = fold node (ns_decls (map_namespace (map_spanned collect_custom) ns))"
| "collect_custom (D_Immutable d) = id"

primrec json_classes :: "decl_kind \<Rightarrow> ident set" where
  "json_classes (D_Function f) = {}"
| "json_classes (D_Class c) = (if has_annotation ''JsonSerializable'' (cl_annotations c) then {cl_name c} else {})"
| "json_classes (D_Interface i) = {}"
| "json_classes (D_Enum e) = {}"
| "json_classes (D_Trait t) = {}"
| "json_classes (D_Import i) = {}"
| "json_classes (D_Module n) = {}"
| "json_classes (D_Namespace ns) = \<Union> (set (map node (ns_decls (map_namespace (map_spanned json_classes) ns))))"
| "json_classes (D_Immutable d) = {}"

definition collect_custom_annotation_classes :: "decl list \<Rightarrow> registry \<Rightarrow> registry" where
  "collect_custom_annotation_classes ds = fold (\<lambda>d. collect_custom (node d)) ds"

definition collect_json_serializable_classes :: "decl list \<Rightarrow> ident set" where
  "collect_json_serializable_classes ds = \<Union> (set (map (\<lambda>d. json_classes (node d)) ds))"

definition validate_annotations :: "source_file \<Rightarrow> annotation_msg error list" where
  "validate_annotations sf =
     (let reg = collect_custom_annotation_classes (sf_decls sf) processor_new;
          js = collect_json_serializable_classes (sf_decls sf)
      in concat (map (\<lambda>d. validate_decl reg js (node d)) (sf_decls sf)))"

end
