(* ===== verification/Tinox_Checker_State.thy ===== *)
theory Tinox_Checker_State
  imports Tinox_Value_Types Tinox_Annotations
begin

text \<open>
  The state of \<^verbatim>\<open>TypeChecker\<close> (\<^verbatim>\<open>src/crates/tinox-typecheck/src/lib.rs\<close>) and the operations of the
  checks. The tables that declarations fill are one record, \<open>tables\<close>; what changes while bodies
  are checked is the rest of \<open>tc\<close>. A check is a function from the state to a value and the new
  state, or \<open>None\<close> if it does not return: \<^verbatim>\<open>is_subclass_or_equal\<close> is a loop over the superclasses
  that no test for cycles guards. A \<^verbatim>\<open>HashMap\<close> is a map, or an association list where its keys are
  enumerated. Errors carry the arguments of their message.
\<close>

named_theorems tc_ok \<open>checks that satisfy the contract of Tinox_Checker_State\<close>

section \<open>State\<close>

text \<open>
  \<^verbatim>\<open>TypeError\<close>, whose spans are in the error; \<open>TM_Conformance\<close> are the messages of \<^verbatim>\<open>check_class\<close> about
  a class, an interface and a method of it; \<open>TM_Text\<close> is \<^verbatim>\<open>Error::new\<close> with another formatted text.
\<close>

datatype conformance =
  Wrong_Param_Count nat nat
| Param_Mismatch nat value_type value_type
| Return_Mismatch value_type value_type
| Not_Implemented

datatype type_msg =
  TM_UndefinedVariable ident
| TM_UndefinedFunction ident
| TM_TypeMismatch rstring rstring
| TM_BinaryOpTypeMismatch binary_op rstring rstring
| TM_UnaryOpTypeMismatch unary_op rstring
| TM_InvalidArgumentCount nat nat
| TM_InvalidFieldAccess rstring
| TM_IndexNotInteger
| TM_FieldNotFound ident ident
| TM_CannotAssignToImmutable ident
| TM_BreakOutsideLoop
| TM_ContinueOutsideLoop
| TM_ThrowTypeMismatch rstring
| TM_InvalidRangeType rstring
| TM_CannotInferType
| TM_DuplicateDefinition ident
| TM_UndefinedInterface ident
| TM_InterfaceMethodConflict ident ident ident
| TM_PrivateAccess ident ident
| TM_ProtectedAccess ident ident
| TM_UnresolvedStaticPath ident ident
| TM_UnknownStaticMethod ident ident
| TM_UnknownEnumVariant ident ident
| TM_Conformance ident ident ident conformance
| TM_Text rstring
| TM_Annotation annotation_msg

type_synonym type_error = "type_msg error"

text \<open>\<^verbatim>\<open>FunctionSignature\<close>\<close>

record fsig =
  sig_params :: "(ident \<times> value_type) list"
  sig_ret :: value_type

record tables =
  tb_functions :: "ident \<rightharpoonup> fsig"
  enums :: "ident \<rightharpoonup> ident list"
  enum_variant_payloads :: "ident \<rightharpoonup> value_type list"
  interfaces :: "(ident \<times> (ident \<times> fsig) list) list"
  interface_extends :: "(ident \<times> ident list \<times> span) list"
  interface_implementations :: "ident \<rightharpoonup> ident list"
  class_parents :: "ident \<rightharpoonup> ident"
  method_visibility :: "ident \<rightharpoonup> visibility"
  field_visibility :: "ident \<rightharpoonup> visibility"
  known_class_names :: "ident set"
  generic_class_names :: "ident set"
  class_type_params :: "ident \<rightharpoonup> ident list"
  method_uses_this :: "ident set"
  generic_method_param_types :: "ident \<rightharpoonup> value_type list \<times> ident list"
  class_fields :: "ident \<rightharpoonup> ident list"
  generic_instance_fn_arg_hints :: "ident \<rightharpoonup> (nat \<times> value_type list) list"

record tc =
  tc_tables :: tables
  tc_errors :: "type_error list"
  tc_vars :: "(ident \<times> value_type \<times> bool) list"
  tc_in_loop :: bool
  tc_class :: "ident option"
  tc_tparams :: "ident set"
  tc_ret :: "value_type option"
  tc_types :: "u32 \<rightharpoonup> value_type"

type_synonym 'a tcm = "tc \<Rightarrow> ('a \<times> tc) option"

text \<open>\<^verbatim>\<open>format!("{}_{}", c, m)\<close> and \<^verbatim>\<open>format!("{}.{}", c, f)\<close>, \<^verbatim>\<open>format!("{}::{}", e, v)\<close>\<close>

definition method_key :: "ident \<Rightarrow> ident \<Rightarrow> ident" where "method_key c m = c @ lit ''_'' @ m"
definition field_key :: "ident \<Rightarrow> ident \<Rightarrow> ident" where "field_key c f = c @ lit ''.'' @ f"
definition variant_key :: "ident \<Rightarrow> ident \<Rightarrow> ident" where "variant_key e v = e @ lit ''::'' @ v"

section \<open>Checks as state transformers\<close>

definition rett :: "'a \<Rightarrow> 'a tcm" where
  "rett x s = Some (x, s)"

definition bindt :: "'a tcm \<Rightarrow> ('a \<Rightarrow> 'b tcm) \<Rightarrow> 'b tcm" where
  "bindt m f s = (case m s of None \<Rightarrow> None | Some (x, s') \<Rightarrow> f x s')"

definition thent :: "'a tcm \<Rightarrow> 'b tcm \<Rightarrow> 'b tcm" where
  "thent m f = bindt m (\<lambda>_. f)"

definition gett :: "(tc \<Rightarrow> 'a) \<Rightarrow> 'a tcm" where
  "gett f s = Some (f s, s)"

text \<open>\<^verbatim>\<open>self.errors.push\<close>, unconditionally and under a condition.\<close>

definition errort :: "span \<Rightarrow> type_msg \<Rightarrow> unit tcm" where
  "errort sp m s = Some ((), s\<lparr>tc_errors := tc_errors s @ [error_new sp m]\<rparr>)"

definition whent :: "bool \<Rightarrow> unit tcm \<Rightarrow> unit tcm" where
  "whent b m = (if b then m else rett ())"

definition var_of :: "ident \<Rightarrow> tc \<Rightarrow> (value_type \<times> bool) option" where
  "var_of x s = map_of (tc_vars s) x"

definition insert_var :: "ident \<Rightarrow> value_type \<Rightarrow> bool \<Rightarrow> unit tcm" where
  "insert_var x t m s = Some ((), s\<lparr>tc_vars := (x, t, m) # tc_vars s\<rparr>)"

text \<open>
  The save and restore idioms: \<^verbatim>\<open>enter_scope\<close> and \<^verbatim>\<open>exit_scope\<close>, \<^verbatim>\<open>was_in_loop\<close>, and the return
  type of the function or lambda that is checked.
\<close>

definition scoped :: "'a tcm \<Rightarrow> 'a tcm" where
  "scoped m s = (case m s of None \<Rightarrow> None | Some (x, s') \<Rightarrow> Some (x, s'\<lparr>tc_vars := tc_vars s\<rparr>))"

definition in_loopt :: "'a tcm \<Rightarrow> 'a tcm" where
  "in_loopt m s = (case m (s\<lparr>tc_in_loop := True\<rparr>) of None \<Rightarrow> None
     | Some (x, s') \<Rightarrow> Some (x, s'\<lparr>tc_in_loop := tc_in_loop s\<rparr>))"

definition returningt :: "value_type option \<Rightarrow> 'a tcm \<Rightarrow> 'a tcm" where
  "returningt r m s = (case m (s\<lparr>tc_ret := r\<rparr>) of None \<Rightarrow> None
     | Some (x, s') \<Rightarrow> Some (x, s'\<lparr>tc_ret := tc_ret s\<rparr>))"

text \<open>A \<^verbatim>\<open>for\<close> loop over checks, for their effect, with their values, and as an accumulation.\<close>

primrec eacht :: "('a \<Rightarrow> 'b tcm) \<Rightarrow> 'a list \<Rightarrow> unit tcm" where
  "eacht f [] = rett ()"
| "eacht f (x # xs) = thent (f x) (eacht f xs)"

primrec mapt :: "('a \<Rightarrow> 'b tcm) \<Rightarrow> 'a list \<Rightarrow> 'b list tcm" where
  "mapt f [] = rett []"
| "mapt f (x # xs) = bindt (f x) (\<lambda>y. bindt (mapt f xs) (\<lambda>ys. rett (y # ys)))"

primrec foldt :: "('a \<Rightarrow> 'c \<Rightarrow> 'c tcm) \<Rightarrow> 'a list \<Rightarrow> 'c \<Rightarrow> 'c tcm" where
  "foldt f [] c = rett c"
| "foldt f (x # xs) c = bindt (f x c) (foldt f xs)"

section \<open>The superclass loop\<close>

partial_function (option) superclass_loop :: "(ident \<rightharpoonup> ident) \<Rightarrow> ident \<Rightarrow> ident \<Rightarrow> bool option" where
  "superclass_loop parents base current =
     (case parents current of
        None \<Rightarrow> Some False
      | Some parent \<Rightarrow> if parent = base then Some True else superclass_loop parents base parent)"

declare superclass_loop.simps [code]

definition is_subclass_or_equal :: "(ident \<rightharpoonup> ident) \<Rightarrow> ident \<Rightarrow> ident \<Rightarrow> bool option" where
  "is_subclass_or_equal parents candidate base =
     (if candidate = base then Some True else superclass_loop parents base candidate)"

definition check_member_visibility :: "ident \<Rightarrow> ident \<Rightarrow> visibility \<Rightarrow> span \<Rightarrow> unit tcm" where
  "check_member_visibility class member v sp s =
     (case v of
        V_Private \<Rightarrow>
          whent (tc_class s \<noteq> Some class) (errort sp (TM_PrivateAccess class member)) s
      | V_Protected \<Rightarrow>
          (case (case tc_class s of None \<Rightarrow> Some False
                 | Some c \<Rightarrow> is_subclass_or_equal (class_parents (tc_tables s)) c class) of
             None \<Rightarrow> None
           | Some allowed \<Rightarrow> whent (\<not> allowed) (errort sp (TM_ProtectedAccess class member)) s)
      | _ \<Rightarrow> Some ((), s))"

section \<open>Small checks\<close>

definition check_binary_op :: "binary_op \<Rightarrow> value_type \<Rightarrow> value_type \<Rightarrow> span \<Rightarrow> unit tcm" where
  "check_binary_op p l r sp =
     whent (\<not> binary_valid p l r) (errort sp (TM_BinaryOpTypeMismatch p (vt_to_string l) (vt_to_string r)))"

definition check_unary_op :: "unary_op \<Rightarrow> value_type \<Rightarrow> span \<Rightarrow> unit tcm" where
  "check_unary_op p t sp = whent (\<not> unary_valid p t) (errort sp (TM_UnaryOpTypeMismatch p (vt_to_string t)))"

text \<open>\<^verbatim>\<open>if !self.types_compatible(expected, found) { push(TypeMismatch) }\<close>\<close>

definition expect_type :: "value_type \<Rightarrow> value_type \<Rightarrow> span \<Rightarrow> unit tcm" where
  "expect_type expected found sp s =
     whent (\<not> types_compatible (interface_implementations (tc_tables s)) expected found)
       (errort sp (TM_TypeMismatch (vt_display expected) (vt_display found))) s"

text \<open>A condition is a \<^verbatim>\<open>Bool\<close> or a wildcard.\<close>

definition check_condition :: "value_type \<Rightarrow> span \<Rightarrow> unit tcm" where
  "check_condition t sp =
     whent (\<not> vt_eq t VT_Bool \<and> \<not> is_wildcard t) (errort sp (TM_TypeMismatch (lit ''Bool'') (vt_display t)))"

definition check_count :: "nat \<Rightarrow> nat \<Rightarrow> span \<Rightarrow> unit tcm" where
  "check_count expected found sp = whent (expected \<noteq> found) (errort sp (TM_InvalidArgumentCount expected found))"

definition contains_scoped_type_param :: "value_type \<Rightarrow> tc \<Rightarrow> bool" where
  "contains_scoped_type_param t s = contains_type_param t (tc_tparams s)"

text \<open>
  \<^verbatim>\<open>bind_pattern_vars\<close>, on the variables; the arguments of a variant get the declared types of its
  payload as far as these go.
\<close>

fun bind_pattern_vars ::
  "(ident \<rightharpoonup> value_type list) \<Rightarrow> pattern \<Rightarrow> value_type \<Rightarrow>
     (ident \<times> value_type \<times> bool) list \<Rightarrow> (ident \<times> value_type \<times> bool) list"
  and bind_patterns ::
  "(ident \<rightharpoonup> value_type list) \<Rightarrow> pattern list \<Rightarrow> value_type list \<Rightarrow>
     (ident \<times> value_type \<times> bool) list \<Rightarrow> (ident \<times> value_type \<times> bool) list" where
  "bind_pattern_vars P (P_Ident n inner _) t vs =
     (let vs' = (n, t, False) # vs in case inner of None \<Rightarrow> vs' | Some p \<Rightarrow> bind_pattern_vars P p t vs')"
| "bind_pattern_vars P (P_EnumVariant e v args _) t vs =
     (let variant_name = (if v = [] then e else v);
          payloads = (case t of VT_Named n _ \<Rightarrow> P (variant_key n variant_name) | _ \<Rightarrow> None)
      in bind_patterns P args (case payloads of None \<Rightarrow> [] | Some ts \<Rightarrow> ts) vs)"
| "bind_pattern_vars P (P_Tuple ps _) t vs = bind_patterns P ps [] vs"
| "bind_pattern_vars P (P_Wildcard _) t vs = vs"
| "bind_pattern_vars P (P_Literal _ _) t vs = vs"
| "bind_patterns P [] ts vs = vs"
| "bind_patterns P (p # ps) ts vs =
     bind_patterns P ps (tl ts) (bind_pattern_vars P p (case ts of [] \<Rightarrow> VT_Any | t # _ \<Rightarrow> t) vs)"

definition bind_patternt :: "pattern \<Rightarrow> value_type \<Rightarrow> unit tcm" where
  "bind_patternt p t s =
     Some ((), s\<lparr>tc_vars := bind_pattern_vars (enum_variant_payloads (tc_tables s)) p t (tc_vars s)\<rparr>)"

end
