(* ===== verification/Tinox_Checker.thy ===== *)
theory Tinox_Checker
  imports Tinox_Checker_State
begin

text \<open>
  The checks of \<^verbatim>\<open>TypeChecker\<close>: \<^verbatim>\<open>infer_type\<close> and \<^verbatim>\<open>check_stmt\<close> with everything they call, then
  functions, classes and source files. The recursion over the tree is structural: \<open>infer_kind\<close>
  and \<open>check_kind\<close> turn a node into its check, and the operations take the checks of the parts.
  Besides its type, an expression offers what a caller looks at before: the check of a lambda with
  hints for its parameters; a statement offers the expression it consists of.
\<close>

section \<open>Checks of nodes\<close>

datatype (plugins only: size) inference =
  Inference (run: "span \<Rightarrow> value_type tcm") (with_hints: "value_type list \<Rightarrow> value_type option tcm")

datatype (plugins only: size) stmt_check =
  Stmt_Check (check: "span \<Rightarrow> bool tcm") (expr_of: "inference spanned option")

text \<open>An expression that is not a lambda.\<close>

definition plain :: "(span \<Rightarrow> value_type tcm) \<Rightarrow> inference" where
  "plain f = Inference f (\<lambda>_. rett None)"

definition plain_stmt :: "(span \<Rightarrow> bool tcm) \<Rightarrow> stmt_check" where
  "plain_stmt f = Stmt_Check f None"

text \<open>\<^verbatim>\<open>infer_type\<close>: the type of a numbered node is computed once.\<close>

definition infer_type :: "inference spanned \<Rightarrow> value_type tcm" where
  "infer_type e s =
     (case (if nid e \<noteq> 0 then tc_types s (nid e) else None) of
        Some t \<Rightarrow> Some (t, s)
      | None \<Rightarrow>
          (case run (node e) (nspan e) s of
             None \<Rightarrow> None
           | Some (t, s') \<Rightarrow>
               Some (t, if nid e \<noteq> 0 then s'\<lparr>tc_types := (tc_types s')(nid e \<mapsto> t)\<rparr> else s')))"

definition check_stmt :: "stmt_check spanned \<Rightarrow> bool tcm" where
  "check_stmt s = check (node s) (nspan s)"

definition infer_opt :: "inference spanned option \<Rightarrow> unit tcm" where
  "infer_opt eo = (case eo of None \<Rightarrow> rett () | Some e \<Rightarrow> thent (infer_type e) (rett ()))"

definition check_opt :: "stmt_check spanned option \<Rightarrow> bool tcm" where
  "check_opt so = (case so of None \<Rightarrow> rett False | Some s \<Rightarrow> check_stmt s)"

definition nth_opt :: "'a list \<Rightarrow> nat \<Rightarrow> 'a option" where
  "nth_opt xs i = (if i < length xs then Some (xs ! i) else None)"

text \<open>\<^verbatim>\<open>sig.params.first().map(|(n, _)| n == "self")\<close>, with the value of an empty list.\<close>

definition first_is_self :: "fsig \<Rightarrow> bool" where
  "first_is_self sg = (case sig_params sg of (n, _) # _ \<Rightarrow> n = lit ''self'' | [] \<Rightarrow> False)"

text \<open>Arguments against parameters, pairwise as far as both go.\<close>

definition check_args :: "inference spanned list \<Rightarrow> (ident \<times> value_type) list \<Rightarrow> unit tcm" where
  "check_args args params = eacht (\<lambda>(a, (_, expected)).
     bindt (infer_type a) (\<lambda>t. expect_type expected t (nspan a))) (zip args params)"

section \<open>Lambdas\<close>

fun bind_hinted :: "param list \<Rightarrow> value_type list \<Rightarrow> unit tcm" where
  "bind_hinted [] hints = rett ()"
| "bind_hinted (p # ps) hints =
     (let declared = type_to_value (param_type p);
          bound = (if vt_eq declared VT_Any then (case hints of [] \<Rightarrow> VT_Any | h # _ \<Rightarrow> h) else declared)
      in thent (insert_var (param_name p) bound False) (bind_hinted ps (tl hints)))"

definition infer_lambda_with_param_hints ::
  "param list \<Rightarrow> ty option \<Rightarrow> inference spanned \<Rightarrow> value_type list \<Rightarrow> value_type option tcm" where
  "infer_lambda_with_param_hints ps r body hints =
     scoped (thent (bind_hinted ps hints)
       (let lambda_ret = map_option type_to_value r
        in bindt (returningt lambda_ret (infer_type body))
             (\<lambda>t. rett (Some (case lambda_ret of Some t' \<Rightarrow> t' | None \<Rightarrow> t)))))"

definition infer_lambda :: "param list \<Rightarrow> ty option \<Rightarrow> inference spanned \<Rightarrow> span \<Rightarrow> value_type tcm" where
  "infer_lambda ps r body sp =
     thent (scoped (thent (eacht (\<lambda>p. insert_var (param_name p) (type_to_value (param_type p)) False) ps)
         (returningt (map_option type_to_value r) (infer_type body))))
       (rett VT_Fn)"

section \<open>Calls\<close>

definition unify_generic_return ::
  "ident \<Rightarrow> value_type \<Rightarrow> inference spanned list \<Rightarrow> ty list \<Rightarrow> value_type option tcm" where
  "unify_generic_return key ret args explicit =
     bindt (gett (\<lambda>s. generic_method_param_types (tc_tables s) key)) (\<lambda>g. case g of
       None \<Rightarrow> rett None
     | Some (ptys, tps) \<Rightarrow>
         if \<not> contains_type_param ret (set tps) then rett None
         else bindt (mapt infer_type args) (\<lambda>atys.
           let aligned = (if length atys = length ptys then ptys
                          else if length atys + 1 = length ptys then tl ptys else []);
               B0 = foldl (\<lambda>B (n, t). B(n \<mapsto> type_to_value t)) Map.empty (zip tps explicit);
               B = foldl (\<lambda>B (p, a). unify_param tps p a B) B0 (zip aligned atys);
               resolved = substitute_bindings ret B
           in bindt (gett (contains_scoped_type_param resolved)) (\<lambda>scoped_param.
                rett (if \<not> contains_type_param resolved (set tps) \<and> \<not> scoped_param
                      then Some resolved else None))))"

definition check_class_method_call ::
  "ident \<Rightarrow> ident \<Rightarrow> inference spanned list \<Rightarrow> ty list \<Rightarrow> span \<Rightarrow> value_type option tcm" where
  "check_class_method_call class m args targs sp =
     (let key = method_key class m in
      bindt (gett (\<lambda>s. tb_functions (tc_tables s) key)) (\<lambda>f. case f of
        None \<Rightarrow> rett None
      | Some sg \<Rightarrow>
          thent (eacht infer_type args)
          (bindt (gett (\<lambda>s. first_is_self sg \<and> key \<in> method_uses_this (tc_tables s))) (\<lambda>uses_this.
           let is_instance = first_is_self sg;
               declared = (if is_instance then length (sig_params sg) - 1 else length (sig_params sg));
               n = length args;
               count_ok = (if \<not> is_instance then n = declared
                           else if uses_this then n = declared + 1
                           else n = declared \<or> n = declared + 1)
           in thent (whent (\<not> count_ok)
                  (errort sp (TM_InvalidArgumentCount (if uses_this then declared + 1 else declared) n)))
                (bindt (unify_generic_return key (sig_ret sg) args targs) (\<lambda>r.
                   rett (Some (case r of Some t \<Rightarrow> t | None \<Rightarrow> sig_ret sg))))))))"

definition variadic_prefixes :: "string list" where
  "variadic_prefixes = [''http'', ''Http'', ''socket'', ''Socket'', ''env'', ''Env'', ''regex'', ''Regex'',
     ''zip'', ''xml'', ''uri'', ''uuid'', ''random'', ''process'', ''dir'', ''file'', ''Pool_'', ''Heap_'', ''String_'']"

definition variadic_names :: "string list" where
  "variadic_names = [''print'', ''println'', ''open'', ''now'', ''sleep'', ''fromCharCode'', ''charCodeAt'',
     ''sha256Hash'', ''md5Hash'', ''sha1Hash'', ''wsAcceptKey'', ''hmacSha256Hash'', ''aesEncryptRaw'',
     ''aesDecryptRaw'', ''base64Encode'', ''base64Decode'', ''base64EncodeChar'', ''gcCollect'', ''memoryUsage'',
     ''printStackTrace'', ''processExit'', ''sinf'', ''cosf'', ''tanf'', ''logf'', ''log10f'', ''sqrtf'', ''expf'',
     ''powf'', ''fabsf'', ''floorf'', ''ceilf'']"

text \<open>\<^verbatim>\<open>name.starts_with(p)\<close>\<close>

definition has_prefix :: "rstring \<Rightarrow> rstring \<Rightarrow> bool" where
  "has_prefix p t \<longleftrightarrow> take (length p) t = p"

definition is_variadic :: "ident \<Rightarrow> bool" where
  "is_variadic n \<longleftrightarrow> n \<in> set (map lit variadic_names) \<or> list_ex (\<lambda>p. has_prefix (lit p) n) variadic_prefixes"

text \<open>\<^verbatim>\<open>join\<close> reads its elements as strings.\<close>

definition check_join :: "ident \<Rightarrow> inference spanned list \<Rightarrow> unit tcm" where
  "check_join name args =
     (case args of
        a # _ \<Rightarrow>
          if name = lit ''join'' \<or> name = lit ''Array_join'' then
            bindt (infer_type a) (\<lambda>t. case t of
              VT_Array e \<Rightarrow> whent (\<not> vt_eq e VT_String \<and> \<not> vt_eq e VT_Any)
                (errort (nspan a) (TM_TypeMismatch (lit ''List<String>'') (lit ''List<'' @ vt_display e @ lit ''>'')))
            | _ \<Rightarrow> rett ())
          else rett ()
      | [] \<Rightarrow> rett ())"

text \<open>\<^verbatim>\<open>check_call\<close> on a name: a function, a variable that holds a lambda, a static method of the class.\<close>

definition check_call_known :: "ident \<Rightarrow> fsig \<Rightarrow> inference spanned list \<Rightarrow> span \<Rightarrow> value_type tcm" where
  "check_call_known name sg args sp =
     thent (check_join name args)
       (if is_variadic name then thent (eacht infer_type args) (rett (sig_ret sg))
        else thent (check_count (length (sig_params sg)) (length args) sp)
          (thent (check_args args (sig_params sg)) (rett (sig_ret sg))))"

definition check_call_unknown :: "ident \<Rightarrow> inference spanned list \<Rightarrow> span \<Rightarrow> value_type tcm" where
  "check_call_unknown name args sp =
     thent (errort sp (TM_UndefinedFunction name)) (thent (eacht infer_type args) (rett VT_Any))"

definition is_static_method :: "ident \<Rightarrow> tc \<Rightarrow> bool" where
  "is_static_method key s = (case tb_functions (tc_tables s) key of Some sg \<Rightarrow> \<not> first_is_self sg | None \<Rightarrow> False)"

definition check_call_name :: "ident \<Rightarrow> inference spanned list \<Rightarrow> span \<Rightarrow> value_type tcm" where
  "check_call_name name args sp =
     bindt (gett (\<lambda>s. tb_functions (tc_tables s) name)) (\<lambda>f. case f of
       Some sg \<Rightarrow> check_call_known name sg args sp
     | None \<Rightarrow> bindt (gett (var_of name)) (\<lambda>v.
         if map_option fst v = Some VT_Fn then thent (eacht infer_type args) (rett VT_Any)
         else bindt (gett tc_class) (\<lambda>c. case c of
           None \<Rightarrow> check_call_unknown name args sp
         | Some class \<Rightarrow> bindt (gett (is_static_method (method_key class name))) (\<lambda>static.
             if static then bindt (check_class_method_call class name args [] sp) (\<lambda>r. case r of
               Some t \<Rightarrow> rett t
             | None \<Rightarrow> check_call_unknown name args sp)
             else check_call_unknown name args sp))))"

text \<open>\<^verbatim>\<open>check_call\<close>; the name is given if the callee is an identifier.\<close>

definition check_call ::
  "ident option \<Rightarrow> inference spanned \<Rightarrow> inference spanned list \<Rightarrow> span \<Rightarrow> value_type tcm" where
  "check_call name f args sp = (case name of
     Some n \<Rightarrow> check_call_name n args sp
   | None \<Rightarrow> thent (infer_type f) (thent (eacht infer_type args) (rett VT_Any)))"

section \<open>Method calls\<close>

text \<open>\<^verbatim>\<open>Class.method(args)\<close>; \<open>None\<close> if the receiver is a value.\<close>

definition static_call :: "ident option \<Rightarrow> ident \<Rightarrow> inference spanned list \<Rightarrow> span \<Rightarrow> value_type option tcm" where
  "static_call receiver m args sp = (case receiver of None \<Rightarrow> rett None | Some class \<Rightarrow>
     (let key = method_key class m in
      bindt (gett (\<lambda>s. (var_of class s, tb_functions (tc_tables s) key))) (\<lambda>(v, f). case f of
        None \<Rightarrow> rett None
      | Some sg \<Rightarrow>
          if v = None then
            (let expected = (if first_is_self sg then tl (sig_params sg) else sig_params sg)
             in thent (check_count (length expected) (length args) sp)
                  (thent (check_args args expected) (rett (Some (sig_ret sg)))))
          else if \<not> first_is_self sg then bindt (check_call_name key args sp) (\<lambda>t. rett (Some t))
          else rett None)))"

text \<open>
  The lambda of \<^verbatim>\<open>map\<close>, \<^verbatim>\<open>filter\<close>, \<^verbatim>\<open>forEach\<close> and \<^verbatim>\<open>reduce\<close> is checked with the element type before the
  call is; lambdas for function parameters of a generic class with the type arguments of the receiver.
\<close>

definition array_lambda :: "value_type \<Rightarrow> ident \<Rightarrow> inference spanned list \<Rightarrow> value_type option tcm" where
  "array_lambda obj_ty m args = (case obj_ty of
     VT_Array elem \<Rightarrow>
       (let lambda_arg = (if m \<in> {lit ''map'', lit ''filter'', lit ''forEach''} then nth_opt args 0
                          else if m = lit ''reduce'' then nth_opt args 1 else None)
        in case lambda_arg of None \<Rightarrow> rett None
           | Some l \<Rightarrow>
               bindt (if m = lit ''reduce'' then
                        (case nth_opt args 0 of Some a \<Rightarrow> bindt (infer_type a) (\<lambda>t. rett [t, elem])
                         | None \<Rightarrow> rett [VT_Any, elem])
                      else rett [elem])
                 (with_hints (node l)))
   | _ \<Rightarrow> rett None)"

definition hinted_lambdas :: "value_type \<Rightarrow> ident \<Rightarrow> inference spanned list \<Rightarrow> unit tcm" where
  "hinted_lambdas obj_ty key args = (case obj_ty of
     VT_Named cn targs \<Rightarrow>
       bindt (gett (\<lambda>s. (generic_instance_fn_arg_hints (tc_tables s) key, class_type_params (tc_tables s)))) (\<lambda>(h, ctps).
         case h of None \<Rightarrow> rett ()
         | Some entries \<Rightarrow> eacht (\<lambda>(i, raw). case nth_opt args i of
             None \<Rightarrow> rett None
           | Some l \<Rightarrow> with_hints (node l) (map (\<lambda>t. substitute_type_params ctps t cn targs) raw)) entries)
   | _ \<Rightarrow> rett ())"

text \<open>The type of the result where it depends on the receiver.\<close>

definition refine_result ::
  "value_type \<Rightarrow> ident \<Rightarrow> inference spanned list \<Rightarrow> value_type option \<Rightarrow> value_type \<Rightarrow> value_type tcm" where
  "refine_result obj_ty m args lambda_ret generic_ret = (case obj_ty of
     VT_Map v \<Rightarrow>
       rett (if m = lit ''get'' then v else if m = lit ''values'' then VT_Array v else generic_ret)
   | VT_Array e \<Rightarrow>
       if m \<in> {lit ''first'', lit ''last'', lit ''find'', lit ''max'', lit ''min''} \<and> \<not> vt_eq e VT_Any then rett e
       else if m \<in> {lit ''pop'', lit ''sort'', lit ''reverse'', lit ''slice'', lit ''unique'', lit ''take'', lit ''skip'',
           lit ''toList''} \<and> \<not> vt_eq e VT_Any then rett (VT_Array e)
       else if m = lit ''map'' then
         rett (VT_Array (case lambda_ret of None \<Rightarrow> VT_Any | Some VT_Nothing \<Rightarrow> VT_Any | Some VT_Never \<Rightarrow> VT_Any
           | Some t \<Rightarrow> t))
       else if m = lit ''filter'' then rett (VT_Array e)
       else if m = lit ''forEach'' then rett VT_Nothing
       else if m = lit ''reduce'' then
         (case nth_opt args 0 of None \<Rightarrow> rett e
          | Some a \<Rightarrow> bindt (infer_type a) (\<lambda>t. rett (if t = VT_Any then e else t)))
       else rett generic_ret
   | _ \<Rightarrow> rett generic_ret)"

definition method_call ::
  "inference spanned \<Rightarrow> value_type \<Rightarrow> ident \<Rightarrow> inference spanned list \<Rightarrow> span \<Rightarrow> value_type tcm" where
  "method_call obj obj_ty m args sp =
     (let class = vt_to_string obj_ty; key = method_key class m in
      bindt (gett (\<lambda>s. (var_of (field_key class m) s, method_visibility (tc_tables s) key))) (\<lambda>(fld, vis).
        if map_option fst fld = Some VT_Fn then thent (eacht infer_type args) (rett VT_Any)
        else
          thent (case vis of Some v \<Rightarrow> check_member_visibility class m v sp | None \<Rightarrow> rett ())
          (bindt (array_lambda obj_ty m args) (\<lambda>lambda_ret.
           thent (hinted_lambdas obj_ty key args)
           (bindt (check_call_name key (obj # args) sp) (\<lambda>call_ret.
            bindt (gett (\<lambda>s. tb_functions (tc_tables s) key)) (\<lambda>f.
            bindt (case f of None \<Rightarrow> rett None
                   | Some sg \<Rightarrow> unify_generic_return key (sig_ret sg) (obj # args) []) (\<lambda>r.
            refine_result obj_ty m args lambda_ret (case r of Some t \<Rightarrow> t | None \<Rightarrow> call_ret)))))))))"

definition infer_method_call ::
  "ident option \<Rightarrow> inference spanned \<Rightarrow> ident \<Rightarrow> inference spanned list \<Rightarrow> span \<Rightarrow> value_type tcm" where
  "infer_method_call receiver obj m args sp =
     bindt (static_call receiver m args sp) (\<lambda>r. case r of
       Some t \<Rightarrow> rett t
     | None \<Rightarrow> bindt (infer_type obj) (\<lambda>obj_ty.
         if vt_eq obj_ty VT_Any then thent (eacht infer_type args) (rett VT_Any)
         else method_call obj obj_ty m args sp))"

section \<open>The other expressions\<close>

definition infer_ident :: "ident \<Rightarrow> span \<Rightarrow> value_type tcm" where
  "infer_ident x sp = bindt (gett (\<lambda>s. (var_of x s, tb_functions (tc_tables s) x, x \<in> known_class_names (tc_tables s))))
     (\<lambda>(v, f, c). case v of
        Some (t, _) \<Rightarrow> rett t
      | None \<Rightarrow> if f \<noteq> None then rett VT_Fn
                else if c then rett VT_Any
                else thent (errort sp (TM_UndefinedVariable x)) (rett VT_Any))"

definition infer_index :: "inference spanned \<Rightarrow> inference spanned \<Rightarrow> span \<Rightarrow> value_type tcm" where
  "infer_index obj index sp =
     bindt (infer_type obj) (\<lambda>ot. bindt (infer_type index) (\<lambda>it.
       let valid = (case ot of VT_Map _ \<Rightarrow> it = VT_String \<or> it = VT_Any | VT_String \<Rightarrow> True | VT_Any \<Rightarrow> True
                    | _ \<Rightarrow> it = VT_Int \<or> it = VT_Any)
       in thent (whent (\<not> valid) (errort sp TM_IndexNotInteger))
            (rett (case ot of VT_String \<Rightarrow> VT_String | VT_Array e \<Rightarrow> e | VT_Map v \<Rightarrow> v | _ \<Rightarrow> VT_Any))))"

definition infer_field :: "inference spanned \<Rightarrow> ident \<Rightarrow> span \<Rightarrow> value_type tcm" where
  "infer_field obj f sp =
     bindt (infer_type obj) (\<lambda>ot. case ot of
       VT_Named n targs \<Rightarrow>
         bindt (gett (\<lambda>s. (field_visibility (tc_tables s) (field_key n f), var_of (field_key n f) s))) (\<lambda>(vis, v).
           thent (case vis of Some w \<Rightarrow> check_member_visibility n f w sp | None \<Rightarrow> rett ())
           (case v of
              Some (t, _) \<Rightarrow> bindt (gett (\<lambda>s. class_type_params (tc_tables s)))
                (\<lambda>ctps. rett (substitute_type_params ctps t n targs))
            | None \<Rightarrow> bindt (gett (\<lambda>s. (list_ex (\<lambda>(k, _). has_prefix (n @ lit ''.'') k) (tc_vars s),
                  n \<in> known_class_names (tc_tables s), n \<in> generic_class_names (tc_tables s)))) (\<lambda>(any_field, known, generic).
                thent (whent (any_field \<or> known \<and> \<not> generic) (errort sp (TM_FieldNotFound n f))) (rett VT_Any))))
     | _ \<Rightarrow> thent (whent (\<not> vt_eq ot VT_Any) (errort sp (TM_InvalidFieldAccess (vt_to_string ot)))) (rett VT_Any))"

definition infer_this :: "value_type tcm" where
  "infer_this = bindt (gett (var_of (lit ''self''))) (\<lambda>v. rett (case v of Some (t, _) \<Rightarrow> t | None \<Rightarrow> VT_Named (lit ''Self'') []))"

definition infer_super_call :: "ident \<Rightarrow> inference spanned list \<Rightarrow> span \<Rightarrow> value_type tcm" where
  "infer_super_call m args sp =
     bindt (gett (\<lambda>s. (tc_class s, Option.bind (tc_class s) (class_parents (tc_tables s))))) (\<lambda>(c, p).
       case c of
         None \<Rightarrow> thent (errort sp (TM_Text (lit ''super call is only valid inside a class method'')))
           (thent (eacht infer_type args) (rett VT_Any))
       | Some current \<Rightarrow> (case p of
           None \<Rightarrow> thent (errort sp (TM_Text (lit ''class '' @ current @ lit '' has no parent class for super call'')))
             (thent (eacht infer_type args) (rett VT_Any))
         | Some parent \<Rightarrow> bindt (gett (\<lambda>s. tb_functions (tc_tables s) (method_key parent m))) (\<lambda>f. case f of
             None \<Rightarrow> thent (errort sp (TM_Text (lit ''parent class '' @ parent @ lit '' has no method '' @ [39] @ m @ [39])))
               (thent (eacht infer_type args) (rett VT_Any))
           | Some sg \<Rightarrow> thent (check_count (length (sig_params sg) - 1) (length args) sp)
               (thent (check_args args (drop 1 (sig_params sg))) (rett (sig_ret sg))))))"

text \<open>\<^verbatim>\<open>missing.join(", ")\<close>\<close>

fun join_idents :: "ident list \<Rightarrow> rstring" where
  "join_idents [] = []"
| "join_idents [x] = x"
| "join_idents (x # xs) = x @ lit '', '' @ join_idents xs"

text \<open>The field initializers, with the bindings of the type parameters they determine.\<close>

definition struct_field ::
  "ident \<Rightarrow> ident list option \<Rightarrow> ident \<times> inference spanned \<Rightarrow> (ident \<rightharpoonup> value_type) \<Rightarrow> (ident \<rightharpoonup> value_type) tcm" where
  "struct_field name tparams fe B =
     bindt (infer_type (snd fe)) (\<lambda>ft. case tparams of
       None \<Rightarrow> rett B
     | Some tps \<Rightarrow> bindt (gett (var_of (field_key name (fst fe)))) (\<lambda>d.
         rett (case d of None \<Rightarrow> B | Some (decl_ty, _) \<Rightarrow> unify_param tps decl_ty ft B)))"

definition check_struct_fields :: "ident \<Rightarrow> ident list \<Rightarrow> span \<Rightarrow> unit tcm" where
  "check_struct_fields name given sp =
     bindt (gett (\<lambda>s. if name \<in> generic_class_names (tc_tables s) then None else class_fields (tc_tables s) name)) (\<lambda>a.
       case a of None \<Rightarrow> rett ()
       | Some all_fields \<Rightarrow>
           (let missing = filter (\<lambda>f. f \<notin> set given) all_fields in
            thent (whent (missing \<noteq> []) (errort sp (TM_Text (lit ''struct literal for '' @ [39] @ name @ [39]
                @ lit '' is missing field(s): '' @ join_idents missing))))
              (eacht (\<lambda>f. whent (f \<notin> set all_fields) (errort sp (TM_FieldNotFound name f))) given)))"

definition infer_struct_literal :: "ident \<Rightarrow> (ident \<times> inference spanned) list \<Rightarrow> span \<Rightarrow> value_type tcm" where
  "infer_struct_literal name flds sp =
     bindt (gett (\<lambda>s. class_type_params (tc_tables s) name)) (\<lambda>tparams.
     bindt (foldt (struct_field name tparams) flds Map.empty) (\<lambda>B.
     bindt (gett tc_tparams) (\<lambda>scope.
       let targs = (case tparams of
             Some tps \<Rightarrow>
               if tps \<noteq> [] \<and> list_all (\<lambda>tp. B tp \<noteq> None) tps
                  \<and> \<not> list_ex (\<lambda>tp. contains_type_param (the (B tp)) scope) tps
               then map (\<lambda>tp. the (B tp)) tps else []
           | None \<Rightarrow> [])
       in thent (check_struct_fields name (map fst flds) sp) (rett (VT_Named name targs)))))"

definition infer_block :: "stmt_check spanned list \<Rightarrow> value_type tcm" where
  "infer_block ss = scoped (thent (eacht check_stmt ss)
     (if ss = [] then rett VT_Nothing
      else case expr_of (node (last ss)) of Some e \<Rightarrow> infer_type e | None \<Rightarrow> rett VT_Nothing))"

definition infer_if ::
  "inference spanned \<Rightarrow> inference spanned \<Rightarrow> inference spanned option \<Rightarrow> value_type tcm" where
  "infer_if c t eo =
     bindt (infer_type c) (\<lambda>ct. thent (check_condition ct (nspan c))
       (bindt (infer_type t) (\<lambda>tt. case eo of
          None \<Rightarrow> rett VT_Nothing
        | Some e \<Rightarrow> bindt (infer_type e) (\<lambda>et. rett (lub tt et)))))"

definition infer_case :: "value_type \<Rightarrow> inference spanned match_case \<Rightarrow> value_type tcm" where
  "infer_case scrutinee c = scoped (thent (bind_patternt (mc_pattern c) scrutinee) (infer_type (mc_body c)))"

definition infer_match :: "inference spanned \<Rightarrow> inference spanned match_case list \<Rightarrow> value_type tcm" where
  "infer_match e cs =
     bindt (infer_type e) (\<lambda>t. bindt (mapt (infer_case t) cs) (\<lambda>ts.
       rett (case ts of [] \<Rightarrow> VT_Any | u # us \<Rightarrow> foldl lub u us)))"

definition infer_recv :: "inference spanned \<Rightarrow> value_type tcm" where
  "infer_recv e = bindt (infer_type e) (\<lambda>t. rett (case t of
     VT_Named n [a] \<Rightarrow> if n = lit ''Channel'' then a else VT_Int
   | _ \<Rightarrow> VT_Int))"

definition infer_range :: "inference spanned \<Rightarrow> inference spanned \<Rightarrow> span \<Rightarrow> value_type tcm" where
  "infer_range a b sp =
     bindt (infer_type a) (\<lambda>at. bindt (infer_type b) (\<lambda>bt.
       thent (whent (at \<noteq> VT_Int \<or> bt \<noteq> VT_Int)
           (errort sp (TM_InvalidRangeType (vt_to_string at @ lit ''..'' @ vt_to_string bt))))
         (rett VT_Range)))"

definition infer_enum_value ::
  "ident \<Rightarrow> ident \<Rightarrow> ty list \<Rightarrow> inference spanned list \<Rightarrow> span \<Rightarrow> value_type tcm" where
  "infer_enum_value name variant targs args sp =
     bindt (check_class_method_call name variant args targs sp) (\<lambda>r. case r of
       Some t \<Rightarrow> rett t
     | None \<Rightarrow> thent (eacht infer_type args)
         (bindt (gett (\<lambda>s. (enums (tc_tables s) name, name \<in> known_class_names (tc_tables s),
             name \<in> generic_class_names (tc_tables s), name \<in> tc_tparams s))) (\<lambda>(en, known, generic, tparam).
           if en = None \<and> \<not> known \<and> \<not> tparam then
             thent (errort sp (TM_UnresolvedStaticPath name variant)) (rett VT_Any)
           else if known \<and> \<not> generic \<and> \<not> tparam then
             thent (errort sp (TM_UnknownStaticMethod name variant)) (rett VT_Any)
           else if en = None \<and> (known \<or> tparam) then rett VT_Any
           else
             thent (case en of Some vs \<Rightarrow> whent (variant \<notin> set vs) (errort sp (TM_UnknownEnumVariant name variant))
                    | None \<Rightarrow> rett ())
               (rett (VT_Named name [])))))"

text \<open>The join of the elements of a literal; \<^verbatim>\<open>Any\<close> for none.\<close>

definition join_type :: "value_type option \<Rightarrow> value_type \<Rightarrow> value_type option" where
  "join_type acc t = Some (case acc of None \<Rightarrow> t | Some a \<Rightarrow> lub a t)"

definition infer_array_literal :: "inference spanned list \<Rightarrow> value_type tcm" where
  "infer_array_literal es =
     bindt (foldt (\<lambda>e acc. bindt (infer_type e) (\<lambda>t. rett (join_type acc t))) es None)
       (\<lambda>r. rett (VT_Array (case r of None \<Rightarrow> VT_Any | Some t \<Rightarrow> t)))"

definition infer_map_literal :: "(inference spanned \<times> inference spanned) list \<Rightarrow> value_type tcm" where
  "infer_map_literal kvs =
     bindt (foldt (\<lambda>kv acc. thent (infer_type (fst kv)) (bindt (infer_type (snd kv)) (\<lambda>t. rett (join_type acc t)))) kvs None)
       (\<lambda>r. rett (VT_Map (case r of None \<Rightarrow> VT_Any | Some t \<Rightarrow> t)))"

section \<open>Statements\<close>

text \<open>\<^verbatim>\<open>let\<close> and \<^verbatim>\<open>var\<close>: an annotation wins over the type of the value and is checked against it.\<close>

definition declared_type :: "ty option \<Rightarrow> inference spanned option \<Rightarrow> value_type option tcm" where
  "declared_type ty value = (case value of
     Some v \<Rightarrow> bindt (infer_type v) (\<lambda>vt. case ty of
         Some t \<Rightarrow> thent (expect_type (type_to_value t) vt (nspan v)) (rett (Some (type_to_value t)))
       | None \<Rightarrow> rett (Some vt))
   | None \<Rightarrow> rett (map_option type_to_value ty))"

definition check_declaration :: "ident \<Rightarrow> ty option \<Rightarrow> inference spanned option \<Rightarrow> bool \<Rightarrow> span \<Rightarrow> bool tcm" where
  "check_declaration name ty value mut sp =
     bindt (gett (var_of name)) (\<lambda>old.
       thent (whent (old \<noteq> None) (errort sp (TM_DuplicateDefinition name)))
       (bindt (declared_type ty value) (\<lambda>t.
          thent (case t of Some t \<Rightarrow> insert_var name t mut | None \<Rightarrow> errort sp TM_CannotInferType) (rett False))))"

definition check_assignment :: "ident option \<Rightarrow> inference spanned \<Rightarrow> inference spanned \<Rightarrow> span \<Rightarrow> bool tcm" where
  "check_assignment target_name target value sp =
     bindt (infer_type target) (\<lambda>tt. bindt (infer_type value) (\<lambda>vt.
       thent (expect_type tt vt sp)
       (thent (case target_name of None \<Rightarrow> rett ()
          | Some n \<Rightarrow> bindt (gett (var_of n)) (\<lambda>v.
              case v of Some (_, mut) \<Rightarrow> whent (\<not> mut) (errort sp (TM_CannotAssignToImmutable n)) | None \<Rightarrow> rett ()))
         (rett False))))"

definition check_if :: "inference spanned \<Rightarrow> stmt_check spanned \<Rightarrow> stmt_check spanned option \<Rightarrow> bool tcm" where
  "check_if c t eo =
     bindt (infer_type c) (\<lambda>ct. thent (check_condition ct (nspan c))
       (bindt (check_stmt t) (\<lambda>then_returns. bindt (check_opt eo) (\<lambda>else_returns.
          rett (then_returns \<and> else_returns)))))"

definition check_while :: "inference spanned \<Rightarrow> stmt_check spanned \<Rightarrow> bool tcm" where
  "check_while c b =
     bindt (infer_type c) (\<lambda>ct. thent (check_condition ct (nspan c))
       (thent (in_loopt (check_stmt b)) (rett False)))"

text \<open>The variable of a \<^verbatim>\<open>for\<close> loop holds an element; it stays declared after the loop.\<close>

definition element_type :: "value_type \<Rightarrow> value_type" where
  "element_type t = (case t of VT_Range \<Rightarrow> VT_Int | VT_Array e \<Rightarrow> e | VT_String \<Rightarrow> VT_String | _ \<Rightarrow> t)"

definition check_for :: "ident \<Rightarrow> inference spanned \<Rightarrow> stmt_check spanned \<Rightarrow> bool tcm" where
  "check_for x e b =
     bindt (infer_type e) (\<lambda>it.
       thent (in_loopt (thent (insert_var x (element_type it) False) (check_stmt b))) (rett False))"

definition check_for_c ::
  "stmt_check spanned option \<Rightarrow> inference spanned option \<Rightarrow> inference spanned option \<Rightarrow> stmt_check spanned \<Rightarrow> bool tcm" where
  "check_for_c init cond update body =
     thent (check_opt init)
     (thent (case cond of None \<Rightarrow> rett ()
         | Some c \<Rightarrow> bindt (infer_type c) (\<lambda>ct. check_condition ct (nspan c)))
     (thent (infer_opt update)
     (thent (in_loopt (check_stmt body)) (rett False))))"

definition check_return :: "inference spanned option \<Rightarrow> bool tcm" where
  "check_return eo = (case eo of
     None \<Rightarrow> rett True
   | Some e \<Rightarrow> bindt (infer_type e) (\<lambda>t. bindt (gett tc_ret) (\<lambda>r.
       thent (case r of Some expected \<Rightarrow> expect_type expected t (nspan e) | None \<Rightarrow> rett ()) (rett True))))"

definition check_jump :: "type_msg \<Rightarrow> span \<Rightarrow> bool tcm" where
  "check_jump msg sp = bindt (gett tc_in_loop) (\<lambda>l. thent (whent (\<not> l) (errort sp msg)) (rett False))"

definition check_throw :: "inference spanned \<Rightarrow> bool tcm" where
  "check_throw e = bindt (infer_type e) (\<lambda>t.
     thent (whent (vt_to_string t \<noteq> lit ''String'' \<and> \<not> vt_eq t VT_Any)
         (errort (nspan e) (TM_ThrowTypeMismatch (vt_to_string t))))
       (rett True))"

definition check_catch :: "stmt_check spanned catch_clause \<Rightarrow> bool tcm" where
  "check_catch c = thent (insert_var (cc_param c) (type_to_value (cc_ty c)) False) (check_stmt (cc_body c))"

definition check_try ::
  "stmt_check spanned \<Rightarrow> stmt_check spanned catch_clause list \<Rightarrow> stmt_check spanned option \<Rightarrow> bool tcm" where
  "check_try b hs f = thent (check_stmt b) (thent (eacht check_catch hs) (thent (check_opt f) (rett False)))"

definition check_block :: "stmt_check spanned list \<Rightarrow> bool tcm" where
  "check_block ss = scoped (foldt (\<lambda>s _. check_stmt s) ss False)"

definition check_arm :: "(inference spanned, stmt_check spanned) select_arm \<Rightarrow> bool tcm" where
  "check_arm a = thent (infer_type (sa_channel a))
     (scoped (thent (insert_var (sa_var a) VT_Int False) (check_stmt (sa_body a))))"

definition check_select ::
  "(inference spanned, stmt_check spanned) select_arm list \<Rightarrow> stmt_check spanned option \<Rightarrow> bool tcm" where
  "check_select arms d = thent (eacht check_arm arms) (thent (check_opt d) (rett False))"

section \<open>The recursion\<close>

definition ident_of :: "expr \<Rightarrow> ident option" where
  "ident_of e = (case node e of E_Ident x \<Rightarrow> Some x | _ \<Rightarrow> None)"

text \<open>\<^verbatim>\<open>infer_type_inner\<close> and \<^verbatim>\<open>check_stmt\<close>, one equation per arm.\<close>

primrec infer_kind :: "expr_kind \<Rightarrow> inference" and check_kind :: "stmt_kind \<Rightarrow> stmt_check" where
  "infer_kind (E_Literal x) = plain (\<lambda>sp. rett (literal_type x))"
| "infer_kind (E_ArrayLiteral es) = plain (\<lambda>sp. infer_array_literal (map (map_spanned infer_kind) es))"
| "infer_kind (E_MapLiteral kvs) = plain (\<lambda>sp. infer_map_literal (map (map_prod (map_spanned infer_kind) (map_spanned infer_kind)) kvs))"
| "infer_kind (E_Ident x) = plain (infer_ident x)"
| "infer_kind (E_Binary p l r) = plain (\<lambda>sp. bindt (infer_type (map_spanned infer_kind l)) (\<lambda>lt. bindt (infer_type (map_spanned infer_kind r)) (\<lambda>rt.
       thent (check_binary_op p lt rt sp) (rett (binary_result_type p lt rt)))))"
| "infer_kind (E_Unary p x) = plain (\<lambda>sp. bindt (infer_type (map_spanned infer_kind x)) (\<lambda>t.
       thent (check_unary_op p t sp) (rett (unary_result_type p t))))"
| "infer_kind (E_Call f args) = plain (check_call (ident_of f) (map_spanned infer_kind f) (map (map_spanned infer_kind) args))"
| "infer_kind (E_MethodCall obj m args) = plain (infer_method_call (ident_of obj) (map_spanned infer_kind obj) m (map (map_spanned infer_kind) args))"
| "infer_kind (E_Index obj i) = plain (infer_index (map_spanned infer_kind obj) (map_spanned infer_kind i))"
| "infer_kind (E_FieldAccess obj f) = plain (infer_field (map_spanned infer_kind obj) f)"
| "infer_kind E_This = plain (\<lambda>sp. infer_this)"
| "infer_kind (E_SuperCall m args) = plain (infer_super_call m (map (map_spanned infer_kind) args))"
| "infer_kind (E_New c targs args) = plain (\<lambda>sp. thent (eacht infer_type (map (map_spanned infer_kind) args)) (rett (VT_Named c [])))"
| "infer_kind (E_StructLiteral n fs) = plain (infer_struct_literal n (map (map_prod id (map_spanned infer_kind)) fs))"
| "infer_kind (E_Block ss) = plain (\<lambda>sp. infer_block (map (map_spanned check_kind) ss))"
| "infer_kind (E_If c t eo) = plain (\<lambda>sp. infer_if (map_spanned infer_kind c) (map_spanned infer_kind t) (map_option (map_spanned infer_kind) eo))"
| "infer_kind (E_While c b) = plain (\<lambda>sp. bindt (infer_type (map_spanned infer_kind c)) (\<lambda>ct.
       thent (check_condition ct (nspan c)) (thent (infer_type (map_spanned infer_kind b)) (rett VT_Nothing))))"
| "infer_kind (E_For x it b) = plain (\<lambda>sp. bindt (infer_type (map_spanned infer_kind it)) (\<lambda>t.
       thent (insert_var x t False) (thent (infer_type (map_spanned infer_kind b)) (rett VT_Nothing))))"
| "infer_kind (E_Loop b) = plain (\<lambda>sp. thent (infer_type (map_spanned infer_kind b)) (rett VT_Never))"
| "infer_kind (E_Match x cs) = plain (\<lambda>sp. infer_match (map_spanned infer_kind x) (map (map_match_case (map_spanned infer_kind)) cs))"
| "infer_kind (E_Return eo) = plain (\<lambda>sp. thent (infer_opt (map_option (map_spanned infer_kind) eo)) (rett VT_Never))"
| "infer_kind E_Break = plain (\<lambda>sp. rett VT_Never)"
| "infer_kind E_Continue = plain (\<lambda>sp. rett VT_Never)"
| "infer_kind (E_Throw x) = plain (\<lambda>sp. thent (infer_type (map_spanned infer_kind x)) (rett VT_Never))"
| "infer_kind (E_Try b hs f) = plain (\<lambda>sp. thent (infer_type (map_spanned infer_kind b))
       (thent (eacht (\<lambda>c. check_stmt (cc_body c)) (map (map_catch_clause (map_spanned check_kind)) hs))
       (thent (infer_opt (map_option (map_spanned infer_kind) f)) (rett VT_Any))))"
| "infer_kind (E_Assign t v) = plain (\<lambda>sp. thent (infer_type (map_spanned infer_kind t)) (infer_type (map_spanned infer_kind v)))"
| "infer_kind (E_CompoundAssign p t v) = plain (\<lambda>sp. thent (infer_type (map_spanned infer_kind t)) (infer_type (map_spanned infer_kind v)))"
| "infer_kind (E_Lambda ps r b) = Inference (infer_lambda ps r (map_spanned infer_kind b)) (infer_lambda_with_param_hints ps r (map_spanned infer_kind b))"
| "infer_kind (E_Spawn x) = plain (\<lambda>sp. thent (infer_type (map_spanned infer_kind x)) (rett VT_Int))"
| "infer_kind (E_Await x) = plain (\<lambda>sp. thent (infer_type (map_spanned infer_kind x)) (rett VT_Int))"
| "infer_kind E_Channel = plain (\<lambda>sp. rett VT_Int)"
| "infer_kind (E_Send c v) = plain (\<lambda>sp. thent (infer_type (map_spanned infer_kind c)) (thent (infer_type (map_spanned infer_kind v)) (rett VT_Nothing)))"
| "infer_kind (E_Recv x) = plain (\<lambda>sp. infer_recv (map_spanned infer_kind x))"
| "infer_kind (E_Cast x t) = plain (\<lambda>sp. thent (infer_type (map_spanned infer_kind x)) (rett (type_to_value t)))"
| "infer_kind (E_Is x t) = plain (\<lambda>sp. thent (infer_type (map_spanned infer_kind x)) (rett VT_Bool))"
| "infer_kind (E_Range a b incl) = plain (infer_range (map_spanned infer_kind a) (map_spanned infer_kind b))"
| "infer_kind (E_Tuple es) = plain (\<lambda>sp. thent (eacht infer_type (map (map_spanned infer_kind) es)) (rett VT_Tuple))"
| "infer_kind (E_TupleIndex x i) = plain (\<lambda>sp. thent (infer_type (map_spanned infer_kind x)) (rett VT_Any))"
| "infer_kind (E_EnumValue n v targs args) = plain (infer_enum_value n v targs (map (map_spanned infer_kind) args))"
| "check_kind (S_Expr x) = Stmt_Check (\<lambda>sp. bindt (infer_type (map_spanned infer_kind x)) (\<lambda>t. rett (vt_eq t VT_Never))) (Some (map_spanned infer_kind x))"
| "check_kind (S_Let x t v) = plain_stmt (check_declaration x t (map_option (map_spanned infer_kind) v) False)"
| "check_kind (S_Var x t v mut) = plain_stmt (check_declaration x t (map_option (map_spanned infer_kind) v) mut)"
| "check_kind (S_Assignment t v) = plain_stmt (check_assignment (ident_of t) (map_spanned infer_kind t) (map_spanned infer_kind v))"
| "check_kind (S_If c t eo) = plain_stmt (\<lambda>sp. check_if (map_spanned infer_kind c) (map_spanned check_kind t) (map_option (map_spanned check_kind) eo))"
| "check_kind (S_While c b) = plain_stmt (\<lambda>sp. check_while (map_spanned infer_kind c) (map_spanned check_kind b))"
| "check_kind (S_For x it b) = plain_stmt (\<lambda>sp. check_for x (map_spanned infer_kind it) (map_spanned check_kind b))"
| "check_kind (S_ForC i c u b) = plain_stmt (\<lambda>sp. check_for_c (map_option (map_spanned check_kind) i) (map_option (map_spanned infer_kind) c) (map_option (map_spanned infer_kind) u) (map_spanned check_kind b))"
| "check_kind (S_Loop b) = plain_stmt (\<lambda>sp. thent (in_loopt (check_stmt (map_spanned check_kind b))) (rett False))"
| "check_kind (S_Return eo) = plain_stmt (\<lambda>sp. check_return (map_option (map_spanned infer_kind) eo))"
| "check_kind S_Break = plain_stmt (check_jump TM_BreakOutsideLoop)"
| "check_kind S_Continue = plain_stmt (check_jump TM_ContinueOutsideLoop)"
| "check_kind (S_Throw x) = plain_stmt (\<lambda>sp. check_throw (map_spanned infer_kind x))"
| "check_kind (S_Try b hs f) = plain_stmt (\<lambda>sp. check_try (map_spanned check_kind b) (map (map_catch_clause (map_spanned check_kind)) hs) (map_option (map_spanned check_kind) f))"
| "check_kind (S_Defer b) = plain_stmt (\<lambda>sp. thent (check_stmt (map_spanned check_kind b)) (rett False))"
| "check_kind (S_Block ss) = plain_stmt (\<lambda>sp. check_block (map (map_spanned check_kind) ss))"
| "check_kind (S_Select arms d) = plain_stmt (\<lambda>sp. check_select (map (map_select_arm (map_spanned infer_kind) (map_spanned check_kind)) arms) (map_option (map_spanned check_kind) d))"
| "check_kind S_Empty = plain_stmt (\<lambda>sp. rett False)"

definition infer_expr :: "expr \<Rightarrow> value_type tcm" where
  "infer_expr e = infer_type (map_spanned infer_kind e)"

definition check_statement :: "stmt \<Rightarrow> bool tcm" where
  "check_statement s = check_stmt (map_spanned check_kind s)"

section \<open>Functions and classes\<close>

text \<open>The parameters in scope, the return type, the body, and whether a return is missing.\<close>

definition check_function :: "function_def \<Rightarrow> unit tcm" where
  "check_function f s =
     (let scope = set (fn_type_params f);
          expected = resolve_type scope (fn_ret_type f);
          is_extern = (case node (fn_body f) of S_Empty \<Rightarrow> True | _ \<Rightarrow> False)
      in case scoped (thent (eacht (\<lambda>p. insert_var (param_name p) (resolve_type scope (param_type p)) False) (fn_params f))
             (bindt (returningt (Some expected) (check_statement (fn_body f))) (\<lambda>has_return.
                whent (\<not> is_extern \<and> \<not> vt_eq expected VT_Nothing \<and> \<not> vt_eq expected VT_Never \<and> \<not> has_return)
                  (errort (fn_span f) (TM_Text (lit ''missing return statement''))))))
           (s\<lparr>tc_tparams := scope\<rparr>) of
        None \<Rightarrow> None
      | Some (x, s') \<Rightarrow> Some ((), s'\<lparr>tc_tparams := tc_tparams s\<rparr>))"

definition check_method :: "class_def \<Rightarrow> method_def \<Rightarrow> unit tcm" where
  "check_method c m s =
     (let erase = cl_type_params c @ me_type_params m;
          expected = type_to_value_erasing (me_ret_type m) erase
      in case scoped (thent (insert_var (lit ''self'') (VT_Named (cl_name c) []) False)
             (thent (eacht (\<lambda>p. insert_var (param_name p) (type_to_value_erasing (param_type p) erase) False) (me_params m))
             (bindt (returningt (Some expected) (check_statement (me_body m))) (\<lambda>has_return.
                whent (\<not> vt_eq expected VT_Nothing \<and> \<not> vt_eq expected VT_Never \<and> \<not> has_return)
                  (errort (me_span m) (TM_Text (lit ''missing return statement'')))))))
           (s\<lparr>tc_tparams := set (me_type_params m)\<rparr>) of
        None \<Rightarrow> None
      | Some (x, s') \<Rightarrow> Some ((), s'\<lparr>tc_tparams := tc_tparams s\<rparr>))"

text \<open>The interface check of \<^verbatim>\<open>check_class\<close>: what a method of the class lacks of what is required.\<close>

definition method_conformance ::
  "(ident \<rightharpoonup> ident list) \<Rightarrow> (ident \<rightharpoonup> fsig) \<Rightarrow> ident \<Rightarrow> ident \<times> fsig \<Rightarrow> conformance list" where
  "method_conformance impls fs class req =
     (case fs (method_key class (fst req)) of
        None \<Rightarrow> [Not_Implemented]
      | Some sg \<Rightarrow>
          (let count = length (sig_params sg) - 1; wanted = sig_params (snd req) in
           if count \<noteq> length wanted then [Wrong_Param_Count (length wanted) count]
           else map (\<lambda>(i, (_, ct), (_, rt)). Param_Mismatch i rt ct)
                 (filter (\<lambda>(i, (_, ct), (_, rt)). \<not> types_compatible impls ct rt)
                   (enumerate 0 (zip (drop 1 (sig_params sg)) wanted)))
             @ (if types_compatible impls (sig_ret sg) (sig_ret (snd req)) then []
                else [Return_Mismatch (sig_ret (snd req)) (sig_ret sg)])))"

definition class_conformance :: "tables \<Rightarrow> class_def \<Rightarrow> type_msg list" where
  "class_conformance T c = concat (map (\<lambda>iface. case map_of (interfaces T) iface of
     None \<Rightarrow> []
   | Some methods \<Rightarrow> concat (map (\<lambda>req. map (TM_Conformance (cl_name c) iface (fst req))
       (method_conformance (interface_implementations T) (tb_functions T) (cl_name c) req)) methods))
   (cl_implements c))"

definition check_class :: "class_def \<Rightarrow> unit tcm" where
  "check_class c s =
     (case eacht (check_method c) (cl_methods c) (s\<lparr>tc_class := Some (cl_name c)\<rparr>) of
        None \<Rightarrow> None
      | Some (x, s') \<Rightarrow>
          (let T = tc_tables s' in
           Some ((), s'\<lparr>tc_class := tc_class s,
             tc_errors := tc_errors s' @ map (error_new (cl_span c)) (class_conformance T c),
             tc_tables := T\<lparr>interface_implementations :=
               (interface_implementations T)(cl_name c \<mapsto> cl_implements c)\<rparr>\<rparr>)))"

definition check_decl :: "decl \<Rightarrow> unit tcm" where
  "check_decl d = (case node d of
     D_Function f \<Rightarrow> check_function f
   | D_Class c \<Rightarrow> check_class c
   | _ \<Rightarrow> rett ())"

end
