(* ===== verification/Tinox_Checker_Contract.thy ===== *)
theory Tinox_Checker_Contract
  imports Tinox_Checker
begin

text \<open>
  What every check of \<open>Tinox_Checker\<close> does to the state. The locale \<open>check_contract\<close> asks of a relation
  between states that the few primitive steps of the checks satisfy it and that it survives the
  save and restore idioms, and of a condition that it makes the loop over superclasses return; it
  shows that then every check satisfies the relation, and returns where the condition holds. The
  instance \<open>frame\<close> says what a check may change at all.
\<close>

section \<open>The superclass loop\<close>

definition parent_rel :: "(ident \<rightharpoonup> ident) \<Rightarrow> (ident \<times> ident) set" where
  "parent_rel P = {(c, p). P c = Some p}"

text \<open>No chain of superclasses goes on forever.\<close>

definition classes_end :: "(ident \<rightharpoonup> ident) \<Rightarrow> bool" where
  "classes_end P \<longleftrightarrow> wf ((parent_rel P)\<inverse>)"

lemma superclass_loop_returns:
  assumes "classes_end P"
  shows "superclass_loop P b c \<noteq> None"
  using assms unfolding classes_end_def
proof (induction c rule: wf_induct_rule)
  case (less c)
  show ?case
  proof (cases "P c")
    case (Some p)
    then have "superclass_loop P b p \<noteq> None" using less by (simp add: parent_rel_def)
    then show ?thesis using Some by (subst superclass_loop.simps) (simp del: not_None_eq)
  qed (simp add: superclass_loop.simps)
qed

lemma is_subclass_returns: "classes_end P \<Longrightarrow> is_subclass_or_equal P c b \<noteq> None"
  using superclass_loop_returns [of P b c] by (simp add: is_subclass_or_equal_def del: not_None_eq)

section \<open>The contract\<close>

locale check_contract =
  fixes R :: "tc \<Rightarrow> tc \<Rightarrow> bool" and W :: "tc \<Rightarrow> bool"
  assumes refl [simp]: "R s s"
    and trans: "R s t \<Longrightarrow> R t u \<Longrightarrow> R s u"
    and W_step: "R s t \<Longrightarrow> W s \<Longrightarrow> W t"
    and error_step: "R s (s\<lparr>tc_errors := tc_errors s @ es\<rparr>)"
    and var_step: "R s (s\<lparr>tc_vars := vs @ tc_vars s\<rparr>)"
    and types_step: "R s (s\<lparr>tc_types := (tc_types s)(i \<mapsto> ty)\<rparr>)"
    and scope_step: "R s t \<Longrightarrow> R s (t\<lparr>tc_vars := tc_vars s\<rparr>)"
    and loop_step: "R (s\<lparr>tc_in_loop := l\<rparr>) t \<Longrightarrow> R s (t\<lparr>tc_in_loop := tc_in_loop s\<rparr>)"
    and ret_step: "R (s\<lparr>tc_ret := r\<rparr>) t \<Longrightarrow> R s (t\<lparr>tc_ret := tc_ret s\<rparr>)"
    and W_loop: "W s \<Longrightarrow> W (s\<lparr>tc_in_loop := l\<rparr>)"
    and W_ret: "W s \<Longrightarrow> W (s\<lparr>tc_ret := r\<rparr>)"
    and W_ends: "W s \<Longrightarrow> is_subclass_or_equal (class_parents (tc_tables s)) c b \<noteq> None"
begin

definition ok :: "'a tcm \<Rightarrow> bool" where
  "ok m \<longleftrightarrow> (\<forall>s. case m s of None \<Rightarrow> \<not> W s | Some (x, s') \<Rightarrow> R s s')"

lemma okI: "(\<And>s. m s = None \<Longrightarrow> \<not> W s) \<Longrightarrow> (\<And>s x s'. m s = Some (x, s') \<Longrightarrow> R s s') \<Longrightarrow> ok m"
  by (auto simp: ok_def split: option.splits)

lemma okD: "ok m \<Longrightarrow> m s = Some (x, s') \<Longrightarrow> R s s'"
  by (auto simp: ok_def dest: spec [of _ s])

lemma ok_returns: "ok m \<Longrightarrow> W s \<Longrightarrow> \<exists>x s'. m s = Some (x, s') \<and> R s s'"
  by (auto simp: ok_def dest: spec [of _ s] split: option.splits)

lemma ok_rett [tc_ok]: "ok (rett x)"
  by (simp add: ok_def rett_def)

lemma ok_gett [tc_ok]: "ok (gett f)"
  by (simp add: ok_def gett_def)

lemma ok_bindt [tc_ok]:
  assumes "ok m" "\<And>x. ok (f x)"
  shows "ok (bindt m f)"
proof (rule okI)
  fix s assume "bindt m f s = None"
  then consider "m s = None" | x s' where "m s = Some (x, s')" "f x s' = None"
    by (auto simp: bindt_def split: option.splits)
  then show "\<not> W s"
  proof cases
    case 1 then show ?thesis using ok_returns [OF assms(1)] by fastforce
  next
    case 2
    then have "\<not> W s'" using ok_returns [OF assms(2) [of x], of s'] by auto
    then show ?thesis using W_step [OF okD [OF assms(1) 2(1)]] by blast
  qed
next
  fix s y t assume "bindt m f s = Some (y, t)"
  then obtain x s' where "m s = Some (x, s')" "f x s' = Some (y, t)"
    by (auto simp: bindt_def split: option.splits)
  then show "R s t" using okD [OF assms(1)] okD [OF assms(2)] trans by blast
qed

lemma ok_thent [tc_ok]: "ok m \<Longrightarrow> ok f \<Longrightarrow> ok (thent m f)"
  by (simp add: thent_def ok_bindt)

lemma ok_errort [tc_ok]: "ok (errort sp m)"
  by (simp add: ok_def errort_def error_step)

lemma ok_whent [tc_ok]: "ok m \<Longrightarrow> ok (whent b m)"
  by (simp add: whent_def ok_rett)

lemma ok_insert_var [tc_ok]: "ok (insert_var x t m)"
  using var_step [of _ "[(x, t, m)]"] by (simp add: ok_def insert_var_def)

lemma ok_scoped [tc_ok]: "ok m \<Longrightarrow> ok (scoped m)"
  by (rule okI) (auto simp: scoped_def split: option.splits dest: okD ok_returns intro: scope_step)

lemma ok_in_loopt [tc_ok]: "ok m \<Longrightarrow> ok (in_loopt m)"
  by (rule okI) (auto simp: in_loopt_def split: option.splits dest: okD ok_returns W_loop [of _ True] intro: loop_step)

lemma ok_returningt [tc_ok]: "ok m \<Longrightarrow> ok (returningt r m)"
  by (rule okI) (auto simp: returningt_def split: option.splits dest: okD ok_returns W_ret [of _ r] intro: ret_step)

lemma ok_eacht [tc_ok]: "(\<And>x. x \<in> set xs \<Longrightarrow> ok (f x)) \<Longrightarrow> ok (eacht f xs)"
  by (induction xs) (auto intro: tc_ok)

lemma ok_mapt [tc_ok]: "(\<And>x. x \<in> set xs \<Longrightarrow> ok (f x)) \<Longrightarrow> ok (mapt f xs)"
  by (induction xs) (auto intro!: tc_ok)

lemma ok_foldt [tc_ok]: "(\<And>x c. x \<in> set xs \<Longrightarrow> ok (f x c)) \<Longrightarrow> ok (foldt f xs c)"
  by (induction xs arbitrary: c) (auto intro!: tc_ok)

lemma ok_if: "(b \<Longrightarrow> ok m) \<Longrightarrow> (\<not> b \<Longrightarrow> ok n) \<Longrightarrow> ok (if b then m else n)"
  by simp

lemma ok_case_option: "(x = None \<Longrightarrow> ok m) \<Longrightarrow> (\<And>y. x = Some y \<Longrightarrow> ok (f y)) \<Longrightarrow> ok (case x of None \<Rightarrow> m | Some y \<Rightarrow> f y)"
  by (cases x) simp_all

text \<open>Checks that look at the state first.\<close>

lemma ok_look: "(\<And>x. ok (m x)) \<Longrightarrow> ok (\<lambda>s. m (f s) s)"
  by (auto simp: ok_def)

lemma ok_expect_type [tc_ok]: "ok (expect_type e t sp)"
  unfolding expect_type_def
  by (rule ok_look [where f = "\<lambda>s. \<not> types_compatible (interface_implementations (tc_tables s)) e t"])
     (intro tc_ok)

lemma ok_visibility [tc_ok]: "ok (check_member_visibility c m v sp)"
  by (rule okI)
    (auto simp: check_member_visibility_def whent_def rett_def errort_def error_step dest: W_ends
      split: visibility.splits option.splits if_splits)

lemma ok_bind_pattern [tc_ok]: "ok (bind_patternt p t)"
proof -
  have "(\<exists>ws. bind_pattern_vars P p t vs = ws @ vs)" "(\<exists>ws. bind_patterns P ps ts vs = ws @ vs)" for P p t vs ps ts
  proof (induction P p t vs and P ps ts vs rule: bind_pattern_vars_bind_patterns.induct)
    case (1 P n inner sp t vs)
    show ?case
    proof (cases inner)
      case (Some p)
      then obtain ws where "bind_pattern_vars P p t ((n, t, False) # vs) = ws @ (n, t, False) # vs" using 1 by blast
      then show ?thesis using Some by (intro exI [of _ "ws @ [(n, t, False)]"]) simp
    qed simp
  next
    case (2 P e v args sp t vs)
    then show ?case by (simp add: Let_def)
  next
    case (7 P q qs ts vs)
    then show ?case by (metis append_assoc bind_patterns.simps(2))
  qed auto
  then show ?thesis by (auto simp: ok_def bind_patternt_def intro: var_step) (metis var_step)
qed

lemma ok_small [tc_ok]:
  "ok (check_binary_op p l r sp)" "ok (check_unary_op q t sp)" "ok (check_condition t sp)" "ok (check_count m n sp)"
  by (auto simp: check_binary_op_def check_unary_op_def check_condition_def check_count_def intro: tc_ok)

section \<open>Nodes\<close>

definition ok_inference :: "inference \<Rightarrow> bool" where
  "ok_inference i \<longleftrightarrow> (\<forall>sp. ok (run i sp)) \<and> (\<forall>hs. ok (with_hints i hs))"

definition ok_stmt_check :: "stmt_check \<Rightarrow> bool" where
  "ok_stmt_check c \<longleftrightarrow> (\<forall>sp. ok (check c sp)) \<and> (\<forall>e. expr_of c = Some e \<longrightarrow> ok_inference (node e))"

lemma ok_infer_type [tc_ok]: "ok_inference (node e) \<Longrightarrow> ok (infer_type e)"
proof (rule okI)
  fix s assume "ok_inference (node e)" "infer_type e s = None"
  then show "\<not> W s"
    using ok_returns [of "run (node e) (nspan e)" s] by (auto simp: infer_type_def ok_inference_def split: option.splits if_splits)
next
  fix s t s' assume e: "ok_inference (node e)" and i: "infer_type e s = Some (t, s')"
  show "R s s'"
  proof (cases "\<exists>u. run (node e) (nspan e) s = Some (t, u) \<and> (s' = u \<or> s' = u\<lparr>tc_types := (tc_types u)(nid e \<mapsto> t)\<rparr>)")
    case True
    then obtain u where "run (node e) (nspan e) s = Some (t, u)" "s' = u \<or> s' = u\<lparr>tc_types := (tc_types u)(nid e \<mapsto> t)\<rparr>" by blast
    moreover from this have "R s u" using e by (auto simp: ok_inference_def dest: okD)
    ultimately show ?thesis using trans types_step by blast
  next
    case False
    then show ?thesis using i by (auto simp: infer_type_def split: option.splits if_splits)
  qed
qed

lemma ok_check_stmt [tc_ok]: "ok_stmt_check (node c) \<Longrightarrow> ok (check_stmt c)"
  by (auto simp: check_stmt_def [abs_def] ok_stmt_check_def)

lemma ok_with_hints [tc_ok]: "ok_inference (node e) \<Longrightarrow> ok (with_hints (node e) hs)"
  by (simp add: ok_inference_def)

section \<open>Operations\<close>

lemma nth_opt_in: "nth_opt xs i = Some x \<Longrightarrow> x \<in> set xs"
  by (auto simp: nth_opt_def split: if_splits)

lemma ok_infer_opt [tc_ok]: "\<forall>e \<in> set_option eo. ok_inference (node e) \<Longrightarrow> ok (infer_opt eo)"
  by (auto simp: infer_opt_def Let_def intro!: tc_ok ok_case_option split: prod.splits)

lemma ok_check_opt [tc_ok]: "\<forall>c \<in> set_option so. ok_stmt_check (node c) \<Longrightarrow> ok (check_opt so)"
  by (auto simp: check_opt_def Let_def intro!: tc_ok ok_case_option split: prod.splits)

lemma ok_check_args [tc_ok]: "\<forall>a \<in> set args. ok_inference (node a) \<Longrightarrow> ok (check_args args ps)"
  by (auto simp: check_args_def intro!: tc_ok dest: set_zip_leftD)

lemma ok_bind_hinted [tc_ok]: "ok (bind_hinted ps hs)"
  by (induction ps hs rule: bind_hinted.induct) (auto simp: Let_def intro: tc_ok)

lemma ok_lambda_hints [tc_ok]: "ok_inference (node b) \<Longrightarrow> ok (infer_lambda_with_param_hints ps r b hs)"
  by (auto simp: infer_lambda_with_param_hints_def Let_def intro!: tc_ok ok_case_option split: prod.splits)

lemma ok_lambda [tc_ok]: "ok_inference (node b) \<Longrightarrow> ok (infer_lambda ps r b sp)"
  by (auto simp: infer_lambda_def Let_def intro!: tc_ok ok_case_option split: prod.splits)

lemma ok_unify [tc_ok]: "\<forall>a \<in> set args. ok_inference (node a) \<Longrightarrow> ok (unify_generic_return k t args ex)"
  by (auto simp: unify_generic_return_def Let_def intro!: tc_ok ok_case_option split: prod.splits)

lemma ok_class_method_call [tc_ok]: "\<forall>a \<in> set args. ok_inference (node a) \<Longrightarrow> ok (check_class_method_call c m args ts sp)"
  by (auto simp: check_class_method_call_def Let_def intro!: tc_ok ok_case_option split: prod.splits)

lemma ok_join [tc_ok]: "\<forall>a \<in> set args. ok_inference (node a) \<Longrightarrow> ok (check_join n args)"
  by (auto simp: check_join_def Let_def intro!: tc_ok ok_case_option split: prod.splits list.splits value_type.splits)

lemma ok_call_known [tc_ok]: "\<forall>a \<in> set args. ok_inference (node a) \<Longrightarrow> ok (check_call_known n sg args sp)"
  by (auto simp: check_call_known_def Let_def intro!: tc_ok ok_case_option split: prod.splits)

lemma ok_call_unknown [tc_ok]: "\<forall>a \<in> set args. ok_inference (node a) \<Longrightarrow> ok (check_call_unknown n args sp)"
  by (auto simp: check_call_unknown_def Let_def intro!: tc_ok ok_case_option split: prod.splits)

lemma ok_call_name [tc_ok]: "\<forall>a \<in> set args. ok_inference (node a) \<Longrightarrow> ok (check_call_name n args sp)"
  by (auto simp: check_call_name_def Let_def intro!: tc_ok ok_case_option split: prod.splits)

lemma ok_call [tc_ok]: "ok_inference (node f) \<Longrightarrow> \<forall>a \<in> set args. ok_inference (node a) \<Longrightarrow> ok (check_call n f args sp)"
  by (auto simp: check_call_def Let_def intro!: tc_ok ok_case_option split: prod.splits)

lemma ok_static_call [tc_ok]: "\<forall>a \<in> set args. ok_inference (node a) \<Longrightarrow> ok (static_call r m args sp)"
  by (auto simp: static_call_def Let_def intro!: tc_ok ok_case_option split: prod.splits)

lemma ok_array_lambda [tc_ok]: "\<forall>a \<in> set args. ok_inference (node a) \<Longrightarrow> ok (array_lambda t m args)"
  by (auto simp: array_lambda_def Let_def intro!: tc_ok ok_case_option dest: nth_opt_in split: prod.splits value_type.splits)

lemma ok_hinted_lambdas [tc_ok]: "\<forall>a \<in> set args. ok_inference (node a) \<Longrightarrow> ok (hinted_lambdas t m args)"
  by (auto simp: hinted_lambdas_def Let_def intro!: tc_ok ok_case_option dest: nth_opt_in split: prod.splits value_type.splits)

lemma ok_refine [tc_ok]: "\<forall>a \<in> set args. ok_inference (node a) \<Longrightarrow> ok (refine_result t m args lr gr)"
  unfolding refine_result_def
  by (cases t; simp only: value_type.case; intro tc_ok ok_if ok_case_option; blast dest: nth_opt_in)

lemma ok_method_call [tc_ok]: "ok_inference (node obj) \<Longrightarrow> \<forall>a \<in> set args. ok_inference (node a) \<Longrightarrow> ok (method_call obj t m args sp)"
  by (auto simp: method_call_def Let_def intro!: tc_ok ok_case_option split: prod.splits)

lemma ok_infer_method_call [tc_ok]: "ok_inference (node obj) \<Longrightarrow> \<forall>a \<in> set args. ok_inference (node a) \<Longrightarrow> ok (infer_method_call r obj m args sp)"
  by (auto simp: infer_method_call_def Let_def intro!: tc_ok ok_case_option split: prod.splits)

lemma ok_ident [tc_ok]: "ok (infer_ident x sp)"
  by (auto simp: infer_ident_def Let_def intro!: tc_ok ok_case_option split: prod.splits)

lemma ok_index [tc_ok]: "ok_inference (node a) \<Longrightarrow> ok_inference (node b) \<Longrightarrow> ok (infer_index a b sp)"
  by (auto simp: infer_index_def Let_def intro!: tc_ok ok_case_option split: prod.splits)

lemma ok_field [tc_ok]: "ok_inference (node a) \<Longrightarrow> ok (infer_field a f sp)"
  by (auto simp: infer_field_def Let_def intro!: tc_ok ok_case_option split: prod.splits value_type.splits)

lemma ok_this [tc_ok]: "ok (infer_this)"
  by (auto simp: infer_this_def Let_def intro!: tc_ok ok_case_option split: prod.splits)

lemma ok_super_call [tc_ok]: "\<forall>a \<in> set args. ok_inference (node a) \<Longrightarrow> ok (infer_super_call m args sp)"
  by (auto simp: infer_super_call_def Let_def intro!: tc_ok ok_case_option split: prod.splits)

lemma ok_struct_field [tc_ok]: "ok_inference (node (snd fe)) \<Longrightarrow> ok (struct_field n tps fe B)"
  by (auto simp: struct_field_def Let_def intro!: tc_ok ok_case_option split: prod.splits)

lemma ok_check_struct_fields [tc_ok]: "ok (check_struct_fields n gs sp)"
  by (auto simp: check_struct_fields_def Let_def intro!: tc_ok ok_case_option split: prod.splits)

lemma ok_struct_literal [tc_ok]: "\<forall>f \<in> set fs. ok_inference (node (snd f)) \<Longrightarrow> ok (infer_struct_literal n fs sp)"
  by (auto simp: infer_struct_literal_def Let_def intro!: tc_ok ok_case_option split: prod.splits)

lemma ok_block [tc_ok]: "\<forall>c \<in> set ss. ok_stmt_check (node c) \<Longrightarrow> ok (infer_block ss)"
  by (auto simp: infer_block_def ok_stmt_check_def Let_def intro!: tc_ok ok_case_option split: prod.splits)

lemma ok_infer_if [tc_ok]: "ok_inference (node c) \<Longrightarrow> ok_inference (node t) \<Longrightarrow> \<forall>e \<in> set_option eo. ok_inference (node e) \<Longrightarrow> ok (infer_if c t eo)"
  by (auto simp: infer_if_def Let_def intro!: tc_ok ok_case_option split: prod.splits)

lemma ok_case [tc_ok]: "ok_inference (node (mc_body c)) \<Longrightarrow> ok (infer_case t c)"
  by (auto simp: infer_case_def Let_def intro!: tc_ok ok_case_option split: prod.splits)

lemma ok_match [tc_ok]: "ok_inference (node x) \<Longrightarrow> \<forall>c \<in> set cs. ok_inference (node (mc_body c)) \<Longrightarrow> ok (infer_match x cs)"
  by (auto simp: infer_match_def Let_def intro!: tc_ok ok_case_option split: prod.splits)

lemma ok_recv [tc_ok]: "ok_inference (node x) \<Longrightarrow> ok (infer_recv x)"
  by (auto simp: infer_recv_def Let_def intro!: tc_ok ok_case_option split: prod.splits)

lemma ok_range [tc_ok]: "ok_inference (node a) \<Longrightarrow> ok_inference (node b) \<Longrightarrow> ok (infer_range a b sp)"
  by (auto simp: infer_range_def Let_def intro!: tc_ok ok_case_option split: prod.splits)

lemma ok_enum_value [tc_ok]: "\<forall>a \<in> set args. ok_inference (node a) \<Longrightarrow> ok (infer_enum_value n v ts args sp)"
  by (auto simp: infer_enum_value_def Let_def intro!: tc_ok ok_case_option split: prod.splits)

lemma ok_array_literal [tc_ok]: "\<forall>a \<in> set args. ok_inference (node a) \<Longrightarrow> ok (infer_array_literal args)"
  by (auto simp: infer_array_literal_def Let_def intro!: tc_ok ok_case_option split: prod.splits)

lemma ok_map_literal [tc_ok]: "\<forall>kv \<in> set kvs. ok_inference (node (fst kv)) \<and> ok_inference (node (snd kv)) \<Longrightarrow> ok (infer_map_literal kvs)"
  by (auto simp: infer_map_literal_def Let_def intro!: tc_ok ok_case_option split: prod.splits)

lemma ok_declared_type [tc_ok]: "\<forall>e \<in> set_option eo. ok_inference (node e) \<Longrightarrow> ok (declared_type t eo)"
  by (auto simp: declared_type_def Let_def intro!: tc_ok ok_case_option split: prod.splits)

lemma ok_declaration [tc_ok]: "\<forall>e \<in> set_option eo. ok_inference (node e) \<Longrightarrow> ok (check_declaration n t eo mut sp)"
  by (auto simp: check_declaration_def Let_def intro!: tc_ok ok_case_option split: prod.splits)

lemma ok_assignment [tc_ok]: "ok_inference (node a) \<Longrightarrow> ok_inference (node b) \<Longrightarrow> ok (check_assignment n a b sp)"
  by (auto simp: check_assignment_def Let_def intro!: tc_ok ok_case_option split: prod.splits)

lemma ok_check_if [tc_ok]: "ok_inference (node a) \<Longrightarrow> ok_stmt_check (node t) \<Longrightarrow> \<forall>c \<in> set_option so. ok_stmt_check (node c) \<Longrightarrow> ok (check_if a t so)"
  by (auto simp: check_if_def Let_def intro!: tc_ok ok_case_option split: prod.splits)

lemma ok_while [tc_ok]: "ok_inference (node a) \<Longrightarrow> ok_stmt_check (node b) \<Longrightarrow> ok (check_while a b)"
  by (auto simp: check_while_def Let_def intro!: tc_ok ok_case_option split: prod.splits)

lemma ok_for [tc_ok]: "ok_inference (node a) \<Longrightarrow> ok_stmt_check (node b) \<Longrightarrow> ok (check_for x a b)"
  by (auto simp: check_for_def Let_def intro!: tc_ok ok_case_option split: prod.splits)

lemma ok_for_c [tc_ok]: "\<forall>c \<in> set_option so. ok_stmt_check (node c) \<Longrightarrow> \<forall>e \<in> set_option eo. ok_inference (node e) \<Longrightarrow> \<forall>e \<in> set_option uo. ok_inference (node e) \<Longrightarrow> ok_stmt_check (node b) \<Longrightarrow> ok (check_for_c so eo uo b)"
  by (auto simp: check_for_c_def Let_def intro!: tc_ok ok_case_option split: prod.splits)

lemma ok_return [tc_ok]: "\<forall>e \<in> set_option eo. ok_inference (node e) \<Longrightarrow> ok (check_return eo)"
  by (auto simp: check_return_def Let_def intro!: tc_ok ok_case_option split: prod.splits)

lemma ok_jump [tc_ok]: "ok (check_jump m sp)"
  by (auto simp: check_jump_def Let_def intro!: tc_ok ok_case_option split: prod.splits)

lemma ok_throw [tc_ok]: "ok_inference (node x) \<Longrightarrow> ok (check_throw x)"
  by (auto simp: check_throw_def Let_def intro!: tc_ok ok_case_option split: prod.splits)

lemma ok_catch [tc_ok]: "ok_stmt_check (node (cc_body h)) \<Longrightarrow> ok (check_catch h)"
  by (auto simp: check_catch_def Let_def intro!: tc_ok ok_case_option split: prod.splits)

lemma ok_try [tc_ok]: "ok_stmt_check (node b) \<Longrightarrow> \<forall>h \<in> set hs. ok_stmt_check (node (cc_body h)) \<Longrightarrow> \<forall>c \<in> set_option so. ok_stmt_check (node c) \<Longrightarrow> ok (check_try b hs so)"
  by (auto simp: check_try_def Let_def intro!: tc_ok ok_case_option split: prod.splits)

lemma ok_check_block [tc_ok]: "\<forall>c \<in> set ss. ok_stmt_check (node c) \<Longrightarrow> ok (check_block ss)"
  by (auto simp: check_block_def Let_def intro!: tc_ok ok_case_option split: prod.splits)

lemma ok_arm [tc_ok]: "ok_inference (node (sa_channel a)) \<Longrightarrow> ok_stmt_check (node (sa_body a)) \<Longrightarrow> ok (check_arm a)"
  by (auto simp: check_arm_def Let_def intro!: tc_ok ok_case_option split: prod.splits)

lemma ok_select [tc_ok]: "\<forall>a \<in> set as. ok_inference (node (sa_channel a)) \<and> ok_stmt_check (node (sa_body a)) \<Longrightarrow> \<forall>c \<in> set_option so. ok_stmt_check (node c) \<Longrightarrow> ok (check_select as so)"
  by (auto simp: check_select_def Let_def intro!: tc_ok ok_case_option split: prod.splits)

section \<open>The recursion\<close>

lemma node_in: "node x \<in> set_spanned x"
  by (cases x) simp

lemma parts_in:
  "mc_body c \<in> set_match_case c" "cc_body h \<in> set_catch_clause h"
  "sa_channel a \<in> set1_select_arm a" "sa_body a \<in> set2_select_arm a"
  by (cases c, simp, cases h, simp, cases a, simp, cases a, simp)

lemma ok_plain: "(\<And>sp. ok (f sp)) \<Longrightarrow> ok_inference (plain f)"
  by (simp add: ok_inference_def plain_def ok_rett)

lemma ok_plain_stmt: "(\<And>sp. ok (f sp)) \<Longrightarrow> ok_stmt_check (plain_stmt f)"
  by (simp add: ok_stmt_check_def plain_stmt_def)

lemma ok_kinds: "ok_inference (infer_kind k)" "ok_stmt_check (check_kind c)"
proof (induction k and c)
  case (E_Lambda ps r b)
  then show ?case by (auto simp: ok_inference_def spanned.map_sel node_in intro!: tc_ok)
next
  case (S_Expr x)
  then show ?case by (auto simp: ok_stmt_check_def ok_inference_def spanned.map_sel node_in intro!: tc_ok)
next
  case (E_Match x cs)
  have "\<forall>c \<in> set cs. ok_inference (infer_kind (node (mc_body c)))" by (blast intro: E_Match(2) parts_in node_in)
  then show ?case using E_Match(1)
    by (auto simp: spanned.map_sel node_in match_case.map_sel intro!: ok_plain tc_ok)
next
  case (E_Try b hs f)
  have "\<forall>h \<in> set hs. ok_stmt_check (check_kind (node (cc_body h)))" by (blast intro: E_Try(2) parts_in node_in)
  then show ?case using E_Try(1,3)
    by (auto simp: spanned.map_sel node_in catch_clause.map_sel intro!: ok_plain tc_ok)
next
  case (S_Try b hs f)
  have "\<forall>h \<in> set hs. ok_stmt_check (check_kind (node (cc_body h)))" by (blast intro: S_Try(2) parts_in node_in)
  then show ?case using S_Try(1,3)
    by (auto simp: spanned.map_sel node_in catch_clause.map_sel intro!: ok_plain_stmt tc_ok)
next
  case (S_Select as d)
  have "\<forall>a \<in> set as. ok_inference (infer_kind (node (sa_channel a)))" by (blast intro: S_Select(1) parts_in node_in)
  moreover have "\<forall>a \<in> set as. ok_stmt_check (check_kind (node (sa_body a)))" by (blast intro: S_Select(2) parts_in node_in)
  ultimately show ?case using S_Select(3)
    by (auto simp: spanned.map_sel node_in select_arm.map_sel intro!: ok_plain_stmt tc_ok)
qed (auto simp: spanned.map_sel node_in split_beta map_prod_def
    intro!: ok_plain ok_plain_stmt tc_ok)

lemma ok_infer_expr [tc_ok]: "ok (infer_expr e)"
  by (auto simp: infer_expr_def spanned.map_sel ok_kinds intro: tc_ok)

lemma ok_check_statement [tc_ok]: "ok (check_statement c)"
  by (auto simp: check_statement_def spanned.map_sel ok_kinds intro: tc_ok)

end

section \<open>The frame of a check\<close>

text \<open>
  A check changes nothing of the tables, the class, the type parameters, the expected return type and
  the loop flag; it only adds errors, shadows variables but never removes one, and only
  adds types of nodes.
\<close>

definition frame :: "tc \<Rightarrow> tc \<Rightarrow> bool" where
  "frame s t \<longleftrightarrow> tc_tables t = tc_tables s \<and> tc_class t = tc_class s \<and> tc_tparams t = tc_tparams s
     \<and> tc_ret t = tc_ret s \<and> tc_in_loop t = tc_in_loop s
     \<and> (\<exists>es. tc_errors t = tc_errors s @ es) \<and> (\<exists>vs. tc_vars t = vs @ tc_vars s)
     \<and> dom (tc_types s) \<subseteq> dom (tc_types t)"

interpretation fr: check_contract frame "\<lambda>s. classes_end (class_parents (tc_tables s))"
proof
  fix s t u assume "frame s t" "frame t u"
  then obtain es fs vs ws where "tc_errors t = tc_errors s @ es" "tc_errors u = tc_errors t @ fs"
    "tc_vars t = vs @ tc_vars s" "tc_vars u = ws @ tc_vars t" by (auto simp: frame_def)
  then have "tc_errors u = tc_errors s @ es @ fs" "tc_vars u = (ws @ vs) @ tc_vars s" by simp_all
  then show "frame s u" using \<open>frame s t\<close> \<open>frame t u\<close> unfolding frame_def by (metis subset_trans)
next
  fix s c b assume "classes_end (class_parents (tc_tables s))"
  then show "is_subclass_or_equal (class_parents (tc_tables s)) c b \<noteq> None" by (rule is_subclass_returns)
qed (auto simp: frame_def)

end
