(* ===== verification/Tinox_Checker_Builtins.thy ===== *)
theory Tinox_Checker_Builtins
  imports Tinox_Checker_State
begin

text \<open>
  \<^verbatim>\<open>TypeChecker::new\<close>: the state before any declaration, with the signatures of the built-in functions.
  The lists are in the order of the source, with its loops over names written out; the list
  methods repeat the array methods registered up to that point. A later entry replaces an
  earlier one of the same name.
\<close>

type_synonym builtin = "string \<times> (string \<times> value_type) list \<times> value_type"

definition builtins_core :: "builtin list" where
  "builtins_core = [
    (''print'', [(''value'', VT_Any)], VT_Nothing),
    (''println'', [(''value'', VT_Any)], VT_Nothing),
    (''len'', [(''value'', VT_Any)], VT_Int),
    (''assert'', [(''cond'', VT_Bool)], VT_Nothing),
    (''first'', [(''arr'', any_array)], VT_Int),
    (''last'', [(''arr'', any_array)], VT_Int),
    (''slice'', [(''arr'', any_array), (''from'', VT_Int), (''to'', VT_Int)], any_array),
    (''abs'', [(''x'', VT_Any)], VT_Any),
    (''min'', [(''a'', VT_Any), (''b'', VT_Any)], VT_Any),
    (''max'', [(''a'', VT_Any), (''b'', VT_Any)], VT_Any),
    (''sqrt'', [(''x'', VT_Float)], VT_Float),
    (''push'', [(''arr'', any_array), (''val'', VT_Any)], any_array),
    (''pop'', [(''arr'', any_array)], any_array),
    (''charAt'', [(''s'', VT_String), (''i'', VT_Int)], VT_String),
    (''toInt'', [(''value'', VT_String)], VT_Int),
    (''toFloat'', [(''value'', VT_String)], VT_Float),
    (''toString'', [(''value'', VT_Any)], VT_String),
    (''pow'', [(''base'', VT_Any), (''exp'', VT_Any)], VT_Float),
    (''floor'', [(''x'', VT_Any)], VT_Float),
    (''ceil'', [(''x'', VT_Any)], VT_Float),
    (''round'', [(''x'', VT_Any)], VT_Float),
    (''exit'', [(''code'', VT_Int)], VT_Nothing),
    (''contains'', [(''col'', VT_Any), (''val'', VT_Any)], VT_Any),
    (''indexOf'', [(''col'', VT_Any), (''val'', VT_Any)], VT_Any),
    (''toUpper'', [(''s'', VT_String)], VT_String),
    (''toLower'', [(''s'', VT_String)], VT_String),
    (''trim'', [(''s'', VT_String)], VT_String),
    (''startsWith'', [(''s'', VT_String), (''pat'', VT_String)], VT_Bool),
    (''endsWith'', [(''s'', VT_String), (''pat'', VT_String)], VT_Bool),
    (''sort'', [(''arr'', any_array)], any_array),
    (''reverse'', [(''arr'', any_array)], any_array)]"

definition builtins_array :: "builtin list" where
  "builtins_array = [
    (''Array_len'', [(''arr'', any_array)], VT_Int),
    (''Array_push'', [(''arr'', any_array), (''v'', VT_Any)], any_array),
    (''Array_pop'', [(''arr'', any_array)], any_array),
    (''Array_first'', [(''arr'', any_array)], VT_Any),
    (''Array_last'', [(''arr'', any_array)], VT_Any),
    (''Array_sort'', [(''arr'', any_array)], any_array),
    (''Array_reverse'', [(''arr'', any_array)], any_array),
    (''Array_contains'', [(''arr'', any_array), (''v'', VT_Any)], VT_Bool),
    (''Array_indexOf'', [(''arr'', any_array), (''v'', VT_Any)], VT_Int),
    (''Array_slice'', [(''arr'', any_array), (''from'', VT_Int), (''to'', VT_Int)], any_array),
    (''Array_insert'', [(''arr'', any_array), (''i'', VT_Int), (''v'', VT_Any)], VT_Nothing),
    (''Array_map'', [(''arr'', any_array), (''f'', VT_Fn)], any_array),
    (''Array_filter'', [(''arr'', any_array), (''f'', VT_Fn)], any_array),
    (''Array_forEach'', [(''arr'', any_array), (''f'', VT_Fn)], VT_Nothing),
    (''Array_reduce'', [(''arr'', any_array), (''init'', VT_Any), (''f'', VT_Fn)], VT_Any)]"

definition builtins_1 :: "builtin list" where
  "builtins_1 = [
    (''String_len'', [(''s'', VT_String)], VT_Int),
    (''String_charAt'', [(''s'', VT_String), (''i'', VT_Int)], VT_String),
    (''String_toInt'', [(''s'', VT_String)], VT_Int),
    (''String_toFloat'', [(''s'', VT_String)], VT_Float),
    (''String_toString'', [(''s'', VT_String)], VT_String),
    (''String_contains'', [(''s'', VT_String), (''p'', VT_String)], VT_Bool),
    (''String_indexOf'', [(''s'', VT_String), (''p'', VT_String)], VT_Int),
    (''String_startsWith'', [(''s'', VT_String), (''p'', VT_String)], VT_Bool),
    (''String_endsWith'', [(''s'', VT_String), (''p'', VT_String)], VT_Bool),
    (''String_toUpper'', [(''s'', VT_Any)], VT_String),
    (''String_toLower'', [(''s'', VT_Any)], VT_String),
    (''String_trim'', [(''s'', VT_Any)], VT_String),
    (''String_toLowerCase'', [(''s'', VT_Any)], VT_String),
    (''String_toUpperCase'', [(''s'', VT_Any)], VT_String),
    (''String_reverse'', [(''s'', VT_Any)], VT_String),
    (''Any_toUpper'', [(''s'', VT_Any)], VT_String),
    (''Any_toLower'', [(''s'', VT_Any)], VT_String),
    (''Any_trim'', [(''s'', VT_Any)], VT_String),
    (''Any_toLowerCase'', [(''s'', VT_Any)], VT_String),
    (''Any_toUpperCase'', [(''s'', VT_Any)], VT_String),
    (''String_substring'', [(''s'', VT_String), (''from'', VT_Int), (''to'', VT_Int)], VT_String),
    (''String_replace'', [(''s'', VT_String), (''from'', VT_String), (''to'', VT_String)], VT_String),
    (''Float64_sqrt'', [(''self'', VT_Float)], VT_Float),
    (''Float64_abs'', [(''self'', VT_Float)], VT_Float),
    (''Float64_floor'', [(''self'', VT_Float)], VT_Float),
    (''Float64_ceil'', [(''self'', VT_Float)], VT_Float),
    (''Float64_round'', [(''self'', VT_Float)], VT_Float),
    (''Int64_toFloat'', [(''self'', VT_Float)], VT_Float),
    (''Float64_toInt'', [(''self'', VT_Float)], VT_Int),
    (''Float64_toString'', [(''self'', VT_Float)], VT_String),
    (''split'', [(''s'', VT_String), (''delim'', VT_String)], VT_Array VT_String),
    (''String_split'', [(''s'', VT_String), (''delim'', VT_String)], VT_Array VT_String),
    (''join'', [(''arr'', any_array), (''sep'', VT_String)], VT_String),
    (''Array_join'', [(''arr'', any_array), (''sep'', VT_String)], VT_String),
    (''Map_new'', [], any_map),
    (''Map_get'', [(''m'', any_map), (''key'', VT_Any)], VT_Any),
    (''Map_insert'', [(''m'', any_map), (''key'', VT_Any), (''val'', VT_Any)], VT_Nothing),
    (''Map_contains'', [(''m'', any_map), (''key'', VT_Any)], VT_Bool),
    (''Map_remove'', [(''m'', any_map), (''key'', VT_Any)], VT_Nothing),
    (''Map_len'', [(''m'', any_map)], VT_Int),
    (''Map_keys'', [(''m'', any_map)], VT_Array VT_String),
    (''Map_values'', [(''m'', any_map)], any_array),
    (''Map_set'', [(''m'', any_map), (''k'', VT_Any), (''v'', VT_Any)], VT_Nothing),
    (''Int64_toString'', [(''v'', VT_Any)], VT_String),
    (''Int32_toString'', [(''v'', VT_Any)], VT_String),
    (''Int_toString'', [(''v'', VT_Any)], VT_String),
    (''Float64_toString'', [(''v'', VT_Any)], VT_String),
    (''Float32_toString'', [(''v'', VT_Any)], VT_String),
    (''Float_toString'', [(''v'', VT_Any)], VT_String),
    (''Bool_toString'', [(''v'', VT_Any)], VT_String),
    (''httpServerCreate'', [(''port'', VT_Int)], VT_Int),
    (''httpServerBoundPort'', [(''fd'', VT_Int)], VT_Int),
    (''httpServerAcceptConn'', [(''fd'', VT_Int)], VT_Int),
    (''httpServerReadRequest'', [(''fd'', VT_Int)], VT_String),
    (''httpServerSendRaw'', [(''fd'', VT_Int), (''data'', VT_String)], VT_Nothing),
    (''httpServerCloseConn'', [(''fd'', VT_Int)], VT_Nothing),
    (''httpServerClose'', [(''fd'', VT_Int)], VT_Nothing),
    (''httpServerCreateTls'', [(''port'', VT_Int), (''certPath'', VT_String), (''keyPath'', VT_String)], VT_Int),
    (''httpServerAcceptTls'', [(''fd'', VT_Int)], VT_Int),
    (''httpServerAcceptConnHandle'', [(''fd'', VT_Int)], VT_Int),
    (''httpConnReadRequest'', [(''conn'', VT_Int)], VT_String),
    (''httpConnSendRaw'', [(''conn'', VT_Int), (''data'', VT_String)], VT_Nothing),
    (''httpConnFromFd'', [(''fd'', VT_Int)], VT_Int),
    (''httpConnFromFdTls'', [(''fd'', VT_Int), (''host'', VT_String), (''verify'', VT_Bool)], VT_Int),
    (''httpConnReadN'', [(''conn'', VT_Int), (''n'', VT_Int)], VT_Array VT_Int),
    (''httpConnWriteBytes'', [(''conn'', VT_Int), (''bytes'', VT_Array VT_Int)], VT_Int),
    (''httpConnClose'', [(''conn'', VT_Int)], VT_Nothing),
    (''open'', [(''path'', VT_String), (''mode'', VT_String)], VT_Named (lit ''File'') []),
    (''fileExists'', [(''path'', VT_String)], VT_Bool),
    (''deleteFile'', [(''path'', VT_String)], VT_Nothing),
    (''File_read'', [(''f'', VT_Named (lit ''File'') [])], VT_String)]"

definition builtins_2 :: "builtin list" where
  "builtins_2 = [
    (''File_readLine'', [(''f'', VT_Named (lit ''File'') [])], VT_String),
    (''File_write'', [(''f'', VT_Named (lit ''File'') []), (''s'', VT_String)], VT_Nothing),
    (''File_close'', [(''f'', VT_Named (lit ''File'') [])], VT_Nothing),
    (''File_eof'', [(''f'', VT_Named (lit ''File'') [])], VT_Bool),
    (''String_charCodeAt'', [(''s'', VT_String), (''i'', VT_Int)], VT_Int),
    (''String_lastIndexOf'', [(''s'', VT_String), (''p'', VT_String)], VT_Int),
    (''String_repeat'', [(''s'', VT_String), (''n'', VT_Int)], VT_String),
    (''String_padLeft'', [(''s'', VT_String), (''n'', VT_Int), (''c'', VT_String)], VT_String),
    (''String_padRight'', [(''s'', VT_String), (''n'', VT_Int), (''c'', VT_String)], VT_String),
    (''fromCharCode'', [(''n'', VT_Any)], VT_String),
    (''charCodeAt'', [(''n'', VT_Any)], VT_String),
    (''Array_removeAt'', [(''arr'', any_array), (''i'', VT_Int)], VT_Nothing),
    (''List_removeAt'', [(''arr'', any_array), (''i'', VT_Int)], VT_Nothing),
    (''now'', [], VT_Int),
    (''Time_now'', [], VT_Int),
    (''Time_format'', [(''t'', VT_Int), (''fmt'', VT_String)], VT_String),
    (''Time_parse'', [(''s'', VT_String)], VT_Int),
    (''Time_diff'', [(''a'', VT_Int), (''b'', VT_Int)], VT_Int),
    (''sleep'', [(''ms'', VT_Int)], VT_Nothing),
    (''sleep_ms'', [(''ms'', VT_Int)], VT_Nothing),
    (''Time_toString'', [(''t'', VT_Any)], VT_String),
    (''regexIsMatch'', [(''s'', VT_String), (''p'', VT_String)], VT_Bool),
    (''regexFindFirst'', [(''s'', VT_String), (''p'', VT_String)], VT_String),
    (''regexFindAll'', [(''s'', VT_String), (''p'', VT_String)], VT_Array VT_String),
    (''regexReplaceAll'', [(''s'', VT_String), (''p'', VT_String)], VT_String),
    (''regexSplit'', [(''s'', VT_String), (''p'', VT_String)], VT_Array VT_String),
    (''regexMatchGroups'', [(''pattern'', VT_String), (''subject'', VT_String), (''offset'', VT_Int), (''icase'', VT_Int)], any_array),
    (''envGet'', [(''k'', VT_String)], VT_String),
    (''envSet'', [(''k'', VT_String)], VT_Nothing),
    (''envRemove'', [(''k'', VT_String)], VT_Nothing),
    (''envCurrentDir'', [(''k'', VT_String)], VT_String),
    (''envSetCurrentDir'', [(''k'', VT_String)], VT_Nothing),
    (''processExit'', [], VT_Nothing),
    (''processId'', [], VT_Int),
    (''processArgs'', [], VT_Array VT_String),
    (''printStackTrace'', [], VT_Nothing),
    (''gcCollect'', [], VT_Nothing),
    (''memoryUsage'', [], VT_Int),
    (''tinox_counter_inc'', [(''name'', VT_String)], VT_Nothing),
    (''tinox_histogram_record'', [(''name'', VT_String), (''ns'', VT_Int)], VT_Nothing),
    (''tinox_gauge_set'', [(''name'', VT_String), (''value'', VT_Int)], VT_Nothing),
    (''tinox_metrics_prometheus'', [], VT_String),
    (''tinox_clock_nanos'', [], VT_Int),
    (''randomInt'', [(''min'', VT_Int), (''max'', VT_Int)], VT_Int),
    (''randomFloat'', [], VT_Float),
    (''sha256Hash'', [(''data'', VT_String)], VT_String),
    (''md5Hash'', [(''data'', VT_String)], VT_String),
    (''sha1Hash'', [(''data'', VT_String)], VT_String),
    (''wsAcceptKey'', [(''data'', VT_String)], VT_String),
    (''hmacSha256Hash'', [(''data'', VT_String)], VT_String),
    (''base64Encode'', [(''data'', VT_String)], VT_String),
    (''base64Decode'', [(''data'', VT_String)], VT_String),
    (''base64EncodeChar'', [(''data'', VT_String)], VT_String)]"

definition builtins_3 :: "builtin list" where
  "builtins_3 = [
    (''aesEncryptRaw'', [(''data'', VT_String), (''key'', VT_String)], VT_String),
    (''aesDecryptRaw'', [(''data'', VT_String), (''key'', VT_String)], VT_String),
    (''hmacSha256Bytes'', [(''data'', VT_Array VT_Int), (''key'', VT_Array VT_Int)], VT_Array VT_Int),
    (''sha256Bytes'', [(''data'', VT_Array VT_Int)], VT_Array VT_Int),
    (''uuidGenerate'', [], VT_String),
    (''uriEncode'', [(''s'', VT_String)], VT_String),
    (''uriDecode'', [(''s'', VT_String)], VT_String),
    (''uriEncodeComponent'', [(''s'', VT_String)], VT_String),
    (''uriDecodeComponent'', [(''s'', VT_String)], VT_String),
    (''sinf'', [(''x'', VT_Float)], VT_Float),
    (''cosf'', [(''x'', VT_Float)], VT_Float),
    (''tanf'', [(''x'', VT_Float)], VT_Float),
    (''logf'', [(''x'', VT_Float)], VT_Float),
    (''log10f'', [(''x'', VT_Float)], VT_Float),
    (''sqrtf'', [(''x'', VT_Float)], VT_Float),
    (''expf'', [(''x'', VT_Float)], VT_Float),
    (''powf'', [(''x'', VT_Float)], VT_Float),
    (''fabsf'', [(''x'', VT_Float)], VT_Float),
    (''floorf'', [(''x'', VT_Float)], VT_Float),
    (''ceilf'', [(''x'', VT_Float)], VT_Float),
    (''fileReadAllText'', [(''path'', VT_String)], VT_String),
    (''fileWriteAllText'', [(''path'', VT_String)], VT_Nothing),
    (''fileDelete'', [(''path'', VT_String)], VT_Nothing),
    (''fileClose'', [(''path'', VT_String)], VT_Nothing),
    (''dirList'', [(''path'', VT_String)], VT_Array VT_String),
    (''dirCreate'', [(''path'', VT_String)], VT_Nothing),
    (''dirDelete'', [(''path'', VT_String)], VT_Nothing),
    (''socketCreateTcp'', [], VT_Int),
    (''socketCreateUdp'', [], VT_Int),
    (''socketConnect'', [(''fd'', VT_Int), (''v'', VT_Any)], VT_Bool),
    (''socketBind'', [(''fd'', VT_Int), (''v'', VT_Any)], VT_Bool),
    (''socketListen'', [(''fd'', VT_Int), (''v'', VT_Any)], VT_Bool),
    (''socketAccept'', [(''fd'', VT_Int)], VT_Int),
    (''socketSend'', [(''fd'', VT_Int), (''data'', VT_String)], VT_Int),
    (''socketReceive'', [(''fd'', VT_Int), (''size'', VT_Int)], VT_String),
    (''socketClose'', [(''fd'', VT_Int)], VT_Nothing),
    (''httpGet'', [(''url'', VT_String)], VT_Named (lit ''HttpResponse'') []),
    (''httpPost'', [(''url'', VT_String)], VT_Named (lit ''HttpResponse'') []),
    (''httpPut'', [(''url'', VT_String)], VT_Named (lit ''HttpResponse'') []),
    (''httpDelete'', [(''url'', VT_String)], VT_Named (lit ''HttpResponse'') []),
    (''httpPatch'', [(''url'', VT_String)], VT_Named (lit ''HttpResponse'') []),
    (''httpSetHeader'', [(''v'', VT_Any)], VT_String),
    (''httpClearHeaders'', [(''v'', VT_Any)], VT_Nothing),
    (''httpHeader'', [(''v'', VT_Any)], VT_String),
    (''httpBody'', [(''v'', VT_Any)], VT_String),
    (''httpStatusCode'', [(''v'', VT_Any)], VT_Int),
    (''HttpResponse_statusCode'', [(''r'', VT_Named (lit ''HttpResponse'') [])], VT_Int),
    (''HttpResponse_body'', [(''r'', VT_Named (lit ''HttpResponse'') [])], VT_String),
    (''HttpServer_get'', [(''srv'', VT_Named (lit ''HttpServer'') []), (''path'', VT_String), (''handler'', VT_Fn)], VT_Nothing),
    (''HttpServer_post'', [(''srv'', VT_Named (lit ''HttpServer'') []), (''path'', VT_String), (''handler'', VT_Fn)], VT_Nothing),
    (''HttpServer_put'', [(''srv'', VT_Named (lit ''HttpServer'') []), (''path'', VT_String), (''handler'', VT_Fn)], VT_Nothing),
    (''HttpServer_delete'', [(''srv'', VT_Named (lit ''HttpServer'') []), (''path'', VT_String), (''handler'', VT_Fn)], VT_Nothing),
    (''HttpServer_patch'', [(''srv'', VT_Named (lit ''HttpServer'') []), (''path'', VT_String), (''handler'', VT_Fn)], VT_Nothing),
    (''HttpServer_use'', [(''srv'', VT_Named (lit ''HttpServer'') []), (''path'', VT_String), (''handler'', VT_Fn)], VT_Nothing),
    (''HttpServer_listen'', [(''srv'', VT_Named (lit ''HttpServer'') [])], VT_Nothing),
    (''HttpServer_stop'', [(''srv'', VT_Named (lit ''HttpServer'') [])], VT_Nothing),
    (''Heap_comparator'', [(''h'', VT_Any), (''a'', VT_Any), (''b'', VT_Any)], VT_Bool),
    (''Pool_factory'', [(''p'', VT_Any)], VT_Any),
    (''xmlAttr'', [(''node'', VT_Any)], VT_String),
    (''xmlTagName'', [(''node'', VT_Any)], VT_String),
    (''xmlTextContent'', [(''node'', VT_Any)], VT_String),
    (''xmlChildren'', [(''node'', VT_Any)], any_array),
    (''zipAddFile'', [(''path'', VT_String)], VT_Nothing),
    (''zipExtractFile'', [(''path'', VT_String)], VT_Nothing),
    (''zipListEntries'', [(''path'', VT_String)], any_array),
    (''zipRemoveFile'', [(''path'', VT_String)], VT_Nothing),
    (''log'', [(''x'', VT_Float)], VT_Float),
    (''exp'', [(''x'', VT_Float)], VT_Float),
    (''fabs'', [(''x'', VT_Float)], VT_Float),
    (''sin'', [(''x'', VT_Float)], VT_Float),
    (''cos'', [(''x'', VT_Float)], VT_Float),
    (''tan'', [(''x'', VT_Float)], VT_Float),
    (''log10'', [(''x'', VT_Float)], VT_Float),
    (''mathTgamma'', [(''x'', VT_Float)], VT_Float),
    (''mathLgamma'', [(''x'', VT_Float)], VT_Float),
    (''mathCbrt'', [(''x'', VT_Float)], VT_Float),
    (''mathTrunc'', [(''x'', VT_Float)], VT_Float),
    (''mathRint'', [(''x'', VT_Float)], VT_Float),
    (''mathLogb'', [(''x'', VT_Float)], VT_Float),
    (''mathLog2'', [(''x'', VT_Float)], VT_Float),
    (''mathLog10'', [(''x'', VT_Float)], VT_Float),
    (''mathExp2'', [(''x'', VT_Float)], VT_Float),
    (''mathExp10'', [(''x'', VT_Float)], VT_Float),
    (''atan2'', [(''y'', VT_Float), (''x'', VT_Float)], VT_Float),
    (''mathIsNan'', [(''x'', VT_Float)], VT_Int),
    (''mathIsInfinite'', [(''x'', VT_Float)], VT_Int),
    (''mathIsNormal'', [(''x'', VT_Float)], VT_Int)]"

definition builtins_4 :: "builtin list" where
  "builtins_4 = [
    (''mathNan'', [], VT_Float),
    (''mathInf'', [], VT_Float),
    (''envDump'', [], VT_String),
    (''currentTimeSecs'', [], VT_Int),
    (''strftimeStr'', [(''fmt'', VT_String), (''t'', VT_Int)], VT_String),
    (''fromdateStr'', [(''s'', VT_String)], VT_Int),
    (''printStderr'', [(''msg'', VT_String)], VT_Nothing),
    (''isStdinTty'', [], VT_Int),
    (''isStdoutTty'', [], VT_Int)]"

text \<open>\<^verbatim>\<open>arr_key.replacen("Array_", "List_", 1)\<close> for the keys that start with \<^verbatim>\<open>Array_\<close>\<close>

definition list_methods :: "builtin list \<Rightarrow> builtin list" where
  "list_methods bs = map (\<lambda>(n, sg). (''List_'' @ drop 6 n, sg)) (filter (\<lambda>(n, _). take 6 n = ''Array_'') bs)"

definition builtin_list :: "builtin list" where
  "builtin_list = (let bs = builtins_core @ builtins_array in bs @ list_methods bs @ builtins_1 @ builtins_2 @ builtins_3 @ builtins_4)"

definition builtin_functions :: "ident \<rightharpoonup> fsig" where
  "builtin_functions = map_of (rev (map (\<lambda>(n, ps, r).
     (lit n, \<lparr>sig_params = map (\<lambda>(x, t). (lit x, t)) ps, sig_ret = r\<rparr>)) builtin_list))"

definition empty_tables :: tables where
  "empty_tables = \<lparr>tb_functions = Map.empty, enums = Map.empty, enum_variant_payloads = Map.empty, interfaces = [],
     interface_extends = [], interface_implementations = Map.empty, class_parents = Map.empty,
     method_visibility = Map.empty, field_visibility = Map.empty, known_class_names = {}, generic_class_names = {},
     class_type_params = Map.empty, method_uses_this = {}, generic_method_param_types = Map.empty,
     class_fields = Map.empty, generic_instance_fn_arg_hints = Map.empty\<rparr>"

definition checker_new :: tc where
  "checker_new = \<lparr>tc_tables = empty_tables\<lparr>tb_functions := builtin_functions\<rparr>, tc_errors = [], tc_vars = [],
     tc_in_loop = False, tc_class = None, tc_tparams = {}, tc_ret = None, tc_types = Map.empty\<rparr>"

end
