(* ===== verification/Tinox_Checker_Props.thy ===== *)
theory Tinox_Checker_Props
  imports Tinox_Checker_Contract Tinox_Checker_Builtins
begin

text \<open>
  Properties of the checks: what the loop over superclasses computes and when it ends, that access to
  private and protected fields is restricted exactly, the frame of every check, and that jumps
  outside of loops are reported.
\<close>

section \<open>Subclasses\<close>

lemma superclass_loop_sound:
  assumes "superclass_loop P b c = Some r"
  shows "if r then (c, b) \<in> (parent_rel P)\<^sup>+
     else (c, b) \<notin> (parent_rel P)\<^sup>+ \<and> (\<exists>d. (c, d) \<in> (parent_rel P)\<^sup>* \<and> P d = None)"
proof (rule superclass_loop.raw_induct [OF _ assms])
  fix loop :: "(ident \<rightharpoonup> ident) \<Rightarrow> ident \<Rightarrow> ident \<Rightarrow> bool option" and P b c r
  assume IH: "\<And>P b c r. loop P b c = Some r \<Longrightarrow> if r then (c, b) \<in> (parent_rel P)\<^sup>+
     else (c, b) \<notin> (parent_rel P)\<^sup>+ \<and> (\<exists>d. (c, d) \<in> (parent_rel P)\<^sup>* \<and> P d = None)"
    and eq: "(case P c of None \<Rightarrow> Some False | Some p \<Rightarrow> if p = b then Some True else loop P b p) = Some r"
  have step: "(c, b) \<in> (parent_rel P)\<^sup>+ \<longleftrightarrow> (\<exists>p. P c = Some p \<and> (p = b \<or> (p, b) \<in> (parent_rel P)\<^sup>+))"
    by (subst trancl_unfold_left) (auto simp: parent_rel_def rtrancl_eq_or_trancl)
  show "if r then (c, b) \<in> (parent_rel P)\<^sup>+
     else (c, b) \<notin> (parent_rel P)\<^sup>+ \<and> (\<exists>d. (c, d) \<in> (parent_rel P)\<^sup>* \<and> P d = None)"
  proof (cases "P c")
    case None
    then show ?thesis using eq step by auto
  next
    case (Some p)
    show ?thesis
    proof (cases "p = b")
      case True then show ?thesis using eq Some step by simp
    next
      case False
      then have l: "loop P b p = Some r" using eq Some by simp
      have "(c, p) \<in> parent_rel P" using Some by (simp add: parent_rel_def)
      then show ?thesis using IH [OF l] step Some False
        by (auto split: if_splits intro: converse_rtrancl_into_rtrancl)
    qed
  qed
qed

lemma superclass_loop_finds: "(c, b) \<in> (parent_rel P)\<^sup>+ \<Longrightarrow> superclass_loop P b c = Some True"
proof (induction rule: converse_trancl_induct)
  case (base c) then show ?case by (subst superclass_loop.simps) (simp add: parent_rel_def)
next
  case (step c d) then show ?case by (subst superclass_loop.simps) (simp add: parent_rel_def)
qed

lemma superclass_loop_ends: "(c, d) \<in> (parent_rel P)\<^sup>* \<Longrightarrow> P d = None \<Longrightarrow> superclass_loop P b c \<noteq> None"
proof (induction rule: converse_rtrancl_induct)
  case base then show ?case by (subst superclass_loop.simps) simp
next
  case (step c e) then show ?case by (subst superclass_loop.simps) (auto simp: parent_rel_def)
qed

text \<open>
  C11. The test for subclasses computes the reflexive and transitive closure of the extends relation: it answers yes
  exactly for a class and its superclasses; it answers no for others if the chain of superclasses
  ends; and it does not return at all if the chain runs into a circle without the wanted class.
\<close>

theorem is_subclass_or_equal_correct:
  "is_subclass_or_equal P c b =
     (if (c, b) \<in> (parent_rel P)\<^sup>* then Some True
      else if \<exists>d. (c, d) \<in> (parent_rel P)\<^sup>* \<and> P d = None then Some False
      else None)"
proof (cases "(c, b) \<in> (parent_rel P)\<^sup>*")
  case True
  then show ?thesis using superclass_loop_finds [of c b P] by (auto simp: is_subclass_or_equal_def rtrancl_eq_or_trancl)
next
  case False
  then have "c \<noteq> b" "(c, b) \<notin> (parent_rel P)\<^sup>+" by (auto simp: rtrancl_eq_or_trancl)
  then show ?thesis
    using False superclass_loop_sound [of P b c] superclass_loop_ends [of c _ P b]
    by (cases "superclass_loop P b c") (auto simp: is_subclass_or_equal_def split: if_splits)
qed

section \<open>Visibility\<close>

definition accessible :: "(ident \<rightharpoonup> ident) \<Rightarrow> ident option \<Rightarrow> ident \<Rightarrow> visibility \<Rightarrow> bool" where
  "accessible P current class v \<longleftrightarrow> (case v of
     V_Private \<Rightarrow> current = Some class
   | V_Protected \<Rightarrow> (\<exists>c. current = Some c \<and> (c, class) \<in> (parent_rel P)\<^sup>*)
   | _ \<Rightarrow> True)"

definition access_error :: "ident \<Rightarrow> ident \<Rightarrow> visibility \<Rightarrow> span \<Rightarrow> type_error" where
  "access_error class member v sp =
     error_new sp (if v = V_Private then TM_PrivateAccess class member else TM_ProtectedAccess class member)"

lemma check_member_visibility_exact:
  assumes "check_member_visibility class member v sp s = Some (u, s')"
  shows "s' = (if accessible (class_parents (tc_tables s)) (tc_class s) class v then s
    else s\<lparr>tc_errors := tc_errors s @ [access_error class member v sp]\<rparr>)"
  using assms
  by (cases v)
    (auto simp: check_member_visibility_def accessible_def access_error_def whent_def rett_def errort_def
       is_subclass_or_equal_correct split: option.splits if_splits)

text \<open>
  C6. Access to a field is checked exactly: when the object has the class that declares the field, an error for
  the access is reported if and only if the field is private and the code is outside of the
  class, or it is protected and the code is neither in the class nor in a subclass.
\<close>

theorem field_visibility_exact:
  assumes "infer_expr obj s = Some (VT_Named c targs, s1)"
    and "field_visibility (tc_tables s) (field_key c f) = Some v"
    and "run (infer_kind (E_FieldAccess obj f)) sp s = Some (t, s2)"
  shows "\<exists>es. tc_errors s2 = tc_errors s1
      @ (if accessible (class_parents (tc_tables s)) (tc_class s) c v then [] else [access_error c f v sp]) @ es
    \<and> set es \<subseteq> {error_new sp (TM_FieldNotFound c f)}"
proof -
  have fr: "frame s s1" by (rule fr.okD [OF fr.ok_infer_expr assms(1)])
  then have tab: "tc_tables s1 = tc_tables s" "tc_class s1 = tc_class s" by (simp_all add: frame_def)
  obtain u s3 where v: "check_member_visibility c f v sp s1 = Some (u, s3)"
    using assms unfolding infer_expr_def
    by (auto simp: plain_def infer_field_def bindt_def thent_def gett_def tab split: option.splits prod.splits)
  note e = check_member_visibility_exact [OF v]
  have "tc_errors s2 = tc_errors s3 \<or> tc_errors s2 = tc_errors s3 @ [error_new sp (TM_FieldNotFound c f)]"
    using assms v unfolding infer_expr_def
    by (auto simp: plain_def infer_field_def bindt_def thent_def gett_def rett_def whent_def errort_def tab
      split: option.splits prod.splits if_splits)
  then show ?thesis
  proof
    assume "tc_errors s2 = tc_errors s3"
    then show ?thesis using e by (intro exI [of _ "[]"]) (simp add: tab)
  next
    assume "tc_errors s2 = tc_errors s3 @ [error_new sp (TM_FieldNotFound c f)]"
    then show ?thesis using e by (intro exI [of _ "[error_new sp (TM_FieldNotFound c f)]"]) (simp add: tab)
  qed
qed

definition account_state :: tc where
  "account_state = checker_new\<lparr>
     tc_tables := empty_tables\<lparr>field_visibility := [field_key (lit ''Account'') (lit ''balance'') \<mapsto> V_Private]\<rparr>,
     tc_vars := [(lit ''a'', VT_Named (lit ''Account'') [], False), (field_key (lit ''Account'') (lit ''balance''), VT_Int, True)],
     tc_class := Some (lit ''Main'')\<rparr>"

theorem field_visibility_exact_witness:
  "\<exists>t s2. run (infer_kind (E_FieldAccess (Spanned (E_Ident (lit ''a'')) span_dummy 0) (lit ''balance''))) span_dummy
      account_state = Some (t, s2)
    \<and> access_error (lit ''Account'') (lit ''balance'') V_Private span_dummy \<in> set (tc_errors s2)"
proof -
  let ?obj = "Spanned (E_Ident (lit ''a'')) span_dummy 0"
  have o: "infer_expr ?obj account_state = Some (VT_Named (lit ''Account'') [], account_state)"
    by (simp add: infer_expr_def infer_type_def plain_def infer_ident_def bindt_def gett_def var_of_def rett_def
      account_state_def del: lit_simps)
  have v: "field_visibility (tc_tables account_state) (field_key (lit ''Account'') (lit ''balance'')) = Some V_Private"
    by (simp add: account_state_def)
  have "fr.ok_inference (infer_kind (E_FieldAccess ?obj (lit ''balance'')))" by (rule fr.ok_kinds)
  moreover have "classes_end (class_parents (tc_tables account_state))"
    by (simp add: account_state_def empty_tables_def classes_end_def parent_rel_def)
  ultimately obtain t s2 where r: "run (infer_kind (E_FieldAccess ?obj (lit ''balance''))) span_dummy account_state = Some (t, s2)"
    using fr.ok_returns unfolding fr.ok_inference_def by blast
  have "\<not> accessible P (tc_class account_state) (lit ''Account'') V_Private" for P
    by (simp add: accessible_def account_state_def del: lit_simps)
  then have "access_error (lit ''Account'') (lit ''balance'') V_Private span_dummy \<in> set (tc_errors s2)"
    using field_visibility_exact [OF o v r] by auto
  then show ?thesis using r by blast
qed

section \<open>The frame of the checks\<close>

text \<open>
  C4. Checking an expression or a statement leaves the tables, the class, the type parameters, the expected return
  type and the loop flag as they were, only adds errors, keeps every declared variable (new ones
  come before it) and every computed type; and it returns whenever no chain of superclasses
  runs into a circle.
\<close>

theorem checks_frame:
  "(case infer_expr e s of None \<Rightarrow> \<not> classes_end (class_parents (tc_tables s)) | Some (t, s') \<Rightarrow> frame s s')
   \<and> (case check_statement c s of None \<Rightarrow> \<not> classes_end (class_parents (tc_tables s)) | Some (r, s') \<Rightarrow> frame s s')"
  using fr.ok_infer_expr [of e] fr.ok_check_statement [of c] by (simp add: fr.ok_def)

section \<open>Jumps\<close>

text \<open>The jumps of a statement that are not inside of a loop; statements inside of expressions do not count.\<close>

definition stray_opt :: "(bool \<Rightarrow> span \<Rightarrow> (type_msg \<times> span) set) spanned option \<Rightarrow> bool \<Rightarrow> (type_msg \<times> span) set" where
  "stray_opt so l = (case so of None \<Rightarrow> {} | Some s \<Rightarrow> node s l (nspan s))"

definition stray_at :: "(bool \<Rightarrow> span \<Rightarrow> (type_msg \<times> span) set) spanned \<Rightarrow> bool \<Rightarrow> (type_msg \<times> span) set" where
  "stray_at s l = node s l (nspan s)"

primrec stray_jumps :: "stmt_kind \<Rightarrow> bool \<Rightarrow> span \<Rightarrow> (type_msg \<times> span) set" where
  "stray_jumps (S_Expr x) = (\<lambda>l sp. {})"
| "stray_jumps (S_Let x t v) = (\<lambda>l sp. {})"
| "stray_jumps (S_Var x t v m) = (\<lambda>l sp. {})"
| "stray_jumps (S_Assignment t v) = (\<lambda>l sp. {})"
| "stray_jumps (S_If c t eo) = (\<lambda>l sp. stray_at (map_spanned stray_jumps t) l \<union> stray_opt (map_option (map_spanned stray_jumps) eo) l)"
| "stray_jumps (S_While c b) = (\<lambda>l sp. stray_at (map_spanned stray_jumps b) True)"
| "stray_jumps (S_For x it b) = (\<lambda>l sp. stray_at (map_spanned stray_jumps b) True)"
| "stray_jumps (S_ForC i c u b) = (\<lambda>l sp. stray_opt (map_option (map_spanned stray_jumps) i) l \<union> stray_at (map_spanned stray_jumps b) True)"
| "stray_jumps (S_Loop b) = (\<lambda>l sp. stray_at (map_spanned stray_jumps b) True)"
| "stray_jumps (S_Return eo) = (\<lambda>l sp. {})"
| "stray_jumps S_Break = (\<lambda>l sp. if l then {} else {(TM_BreakOutsideLoop, sp)})"
| "stray_jumps S_Continue = (\<lambda>l sp. if l then {} else {(TM_ContinueOutsideLoop, sp)})"
| "stray_jumps (S_Throw x) = (\<lambda>l sp. {})"
| "stray_jumps (S_Try b hs f) = (\<lambda>l sp. stray_at (map_spanned stray_jumps b) l
     \<union> (\<Union>h \<in> set (map (map_catch_clause (map_spanned stray_jumps)) hs). stray_at (cc_body h) l)
     \<union> stray_opt (map_option (map_spanned stray_jumps) f) l)"
| "stray_jumps (S_Defer b) = (\<lambda>l sp. stray_at (map_spanned stray_jumps b) l)"
| "stray_jumps (S_Block ss) = (\<lambda>l sp. \<Union>s \<in> set (map (map_spanned stray_jumps) ss). stray_at s l)"
| "stray_jumps (S_Select as d) = (\<lambda>l sp. (\<Union>a \<in> set (map (map_select_arm id (map_spanned stray_jumps)) as). stray_at (sa_body a) l)
     \<union> stray_opt (map_option (map_spanned stray_jumps) d) l)"
| "stray_jumps S_Empty = (\<lambda>l sp. {})"

text \<open>Every jump of \<open>J\<close> is among the errors after the check \<open>m\<close>.\<close>

definition reports :: "(bool \<Rightarrow> (type_msg \<times> span) set) \<Rightarrow> 'a tcm \<Rightarrow> bool" where
  "reports J m \<longleftrightarrow> (\<forall>s x s'. m s = Some (x, s') \<longrightarrow>
     (\<forall>(k, sp) \<in> J (tc_in_loop s). error_new sp k \<in> set (tc_errors s')))"

lemma reportsI:
  "(\<And>s x s' k sp. m s = Some (x, s') \<Longrightarrow> (k, sp) \<in> J (tc_in_loop s) \<Longrightarrow> error_new sp k \<in> set (tc_errors s')) \<Longrightarrow> reports J m"
  by (auto simp: reports_def)

lemma reportsD:
  "reports J m \<Longrightarrow> m s = Some (x, s') \<Longrightarrow> (k, sp) \<in> J (tc_in_loop s) \<Longrightarrow> error_new sp k \<in> set (tc_errors s')"
  unfolding reports_def by (metis (mono_tags, lifting) case_prodD)

lemma reports_none: "reports (\<lambda>l. {}) m"
  by (simp add: reports_def)

lemma reports_bindt:
  assumes "reports J m" "fr.ok m" "\<And>x. reports K (f x)" "\<And>x. fr.ok (f x)"
  shows "reports (\<lambda>l. J l \<union> K l) (bindt m f)"
proof (rule reportsI)
  fix s y t k sp
  assume b: "bindt m f s = Some (y, t)" and j: "(k, sp) \<in> J (tc_in_loop s) \<union> K (tc_in_loop s)"
  obtain x u where m: "m s = Some (x, u)" and f: "f x u = Some (y, t)" using b by (auto simp: bindt_def split: option.splits)
  have "frame s u" by (rule fr.okD [OF assms(2) m])
  moreover have "frame u t" by (rule fr.okD [OF assms(4) f])
  ultimately have "tc_in_loop u = tc_in_loop s" "set (tc_errors u) \<subseteq> set (tc_errors t)" by (auto simp: frame_def)
  then show "error_new sp k \<in> set (tc_errors t)"
    using j reportsD [OF assms(1) m, of k sp] reportsD [OF assms(3) f, of k sp] by auto
qed

lemma reports_after: "fr.ok m \<Longrightarrow> (\<And>x. reports J (f x)) \<Longrightarrow> (\<And>x. fr.ok (f x)) \<Longrightarrow> reports J (bindt m f)"
  using reports_bindt [OF reports_none, of m J f] by simp

lemma reports_first: "reports J m \<Longrightarrow> fr.ok m \<Longrightarrow> (\<And>x. fr.ok (f x)) \<Longrightarrow> reports J (bindt m f)"
  using reports_bindt [OF _ _ reports_none, of J m f] by simp

lemma reports_thent: "reports J m \<Longrightarrow> fr.ok m \<Longrightarrow> reports K n \<Longrightarrow> fr.ok n \<Longrightarrow> reports (\<lambda>l. J l \<union> K l) (thent m n)"
  unfolding thent_def by (rule reports_bindt)

lemma reports_in_loop: "reports J m \<Longrightarrow> reports (\<lambda>l. J True) (in_loopt m)"
  by (rule reportsI) (auto simp: in_loopt_def split: option.splits dest: reportsD)

lemma reports_scoped: "reports J m \<Longrightarrow> reports J (scoped m)"
  by (rule reportsI) (auto simp: scoped_def split: option.splits dest: reportsD)

lemma reports_union: "reports J m \<Longrightarrow> reports K m \<Longrightarrow> reports (\<lambda>l. J l \<union> K l) m"
  by (rule reportsI) (auto dest: reportsD)

lemma reports_each:
  assumes "\<And>x. x \<in> set xs \<Longrightarrow> reports (J x) (f x)" "\<And>x. x \<in> set xs \<Longrightarrow> fr.ok (f x)"
  shows "reports (\<lambda>l. \<Union>x \<in> set xs. J x l) (eacht f xs)"
  using assms
proof (induction xs)
  case (Cons x xs)
  have "reports (\<lambda>l. J x l \<union> (\<Union>x \<in> set xs. J x l)) (thent (f x) (eacht f xs))"
    by (rule reports_thent) (use Cons in \<open>auto intro: fr.ok_eacht\<close>)
  then show ?case by simp
qed (simp add: reports_none)

lemma reports_fold:
  assumes "\<And>x c. x \<in> set xs \<Longrightarrow> reports (J x) (f x c)" "\<And>x c. x \<in> set xs \<Longrightarrow> fr.ok (f x c)"
  shows "reports (\<lambda>l. \<Union>x \<in> set xs. J x l) (foldt f xs c)"
  using assms
proof (induction xs arbitrary: c)
  case (Cons x xs)
  have "reports (\<lambda>l. J x l \<union> (\<Union>x \<in> set xs. J x l)) (bindt (f x c) (foldt f xs))"
    by (rule reports_bindt) (use Cons in \<open>auto intro: fr.ok_foldt\<close>)
  then show ?case by simp
qed (simp add: reports_none)

text \<open>The checks of the parts of a statement.\<close>

definition reporting :: "stmt_kind \<Rightarrow> bool" where
  "reporting k \<longleftrightarrow> (\<forall>sp. reports (\<lambda>l. stray_jumps k l sp) (check (check_kind k) sp))"

lemma reports_stmt:
  "(\<And>k. k \<in> set_spanned s \<Longrightarrow> reporting k) \<Longrightarrow>
    reports (stray_at (map_spanned stray_jumps s)) (check_stmt (map_spanned check_kind s))"
  by (cases s) (simp add: stray_at_def [abs_def] check_stmt_def [abs_def] reporting_def)

lemma reports_stmt_opt:
  assumes "\<And>s k. so = Some s \<Longrightarrow> k \<in> set_spanned s \<Longrightarrow> reporting k"
  shows "reports (stray_opt (map_option (map_spanned stray_jumps) so)) (check_opt (map_option (map_spanned check_kind) so))"
proof (cases so)
  case (Some s)
  then show ?thesis using reports_stmt [of s] assms by (simp add: stray_opt_def [abs_def] check_opt_def stray_at_def [abs_def])
qed (simp add: stray_opt_def [abs_def] reports_none)

lemma ok_part: "fr.ok_stmt_check (node (map_spanned check_kind s))" "fr.ok_inference (node (map_spanned infer_kind e))"
  by (simp_all add: spanned.map_sel fr.ok_kinds)

lemma ok_parts:
  "\<forall>c \<in> set_option (map_option (map_spanned check_kind) so). fr.ok_stmt_check (node c)"
  "\<forall>e \<in> set_option (map_option (map_spanned infer_kind) eo). fr.ok_inference (node e)"
  "\<forall>c \<in> set (map (map_spanned check_kind) ss). fr.ok_stmt_check (node c)"
  "\<forall>h \<in> set (map (map_catch_clause (map_spanned check_kind)) hs). fr.ok_stmt_check (node (cc_body h))"
  "\<forall>a \<in> set (map (map_select_arm (map_spanned infer_kind) (map_spanned check_kind)) as).
     fr.ok_inference (node (sa_channel a)) \<and> fr.ok_stmt_check (node (sa_body a))"
  by (auto simp: ok_part catch_clause.map_sel select_arm.map_sel)

lemma reports_jump: "reports (\<lambda>l. if l then {} else {(k, sp)}) (check_jump k sp)"
  by (rule reportsI) (auto simp: check_jump_def bindt_def gett_def thent_def whent_def rett_def errort_def split: if_splits)

lemma eacht_map: "eacht f (map g xs) = eacht (\<lambda>x. f (g x)) xs"
  by (induction xs) simp_all

lemma foldt_map: "foldt f (map g xs) = foldt (\<lambda>x. f (g x)) xs"
proof (induction xs)
  case (Cons x xs) then show ?case by (intro ext) simp
qed (simp add: fun_eq_iff)

lemmas part_sels = spanned.map_sel catch_clause.map_sel select_arm.map_sel

text \<open>The jumps are reported after and before parts that have none.\<close>

lemmas reports_seq = reports_after [OF fr.ok_infer_type] reports_after [OF fr.ok_small(3)] reports_after [OF fr.ok_insert_var]

lemma reports_loop_body:
  assumes "\<And>k. k \<in> set_spanned b \<Longrightarrow> reporting k"
  shows "reports (\<lambda>l. stray_at (map_spanned stray_jumps b) True) (in_loopt (check_stmt (map_spanned check_kind b)))"
  by (rule reports_in_loop [where J = "stray_at (map_spanned stray_jumps b)"], rule reports_stmt, rule assms)

lemma reports_kinds:
  fixes e :: expr_kind and k :: stmt_kind
  shows True and "reporting k"
proof (induction e and k)
  case (S_If c t eo)
  show ?case unfolding reporting_def stray_jumps.simps check_kind.simps plain_stmt_def check_if_def thent_def stmt_check.sel
    by (intro allI reports_seq reports_bindt reports_first reports_stmt reports_stmt_opt reports_none tc_ok ok_part ok_parts)
      (auto intro: S_If)
next
  case (S_While c b)
  show ?case unfolding reporting_def stray_jumps.simps check_kind.simps plain_stmt_def check_while_def thent_def stmt_check.sel
    by (intro allI reports_seq reports_first reports_loop_body tc_ok ok_part) (auto intro: S_While)
next
  case (S_For x it b)
  show ?case unfolding reporting_def stray_jumps.simps check_kind.simps plain_stmt_def check_for_def thent_def stmt_check.sel
    by (intro allI reports_seq reports_first reports_in_loop [where J = "stray_at (map_spanned stray_jumps b)"] reports_stmt
        tc_ok ok_part) (auto intro: S_For)
next
  case (S_ForC i c u b)
  have u: "fr.ok (infer_opt (map_option (map_spanned infer_kind) u))" by (intro allI tc_ok ok_parts)
  have c: "fr.ok (case map_option (map_spanned infer_kind) c of None \<Rightarrow> rett ()
      | Some c \<Rightarrow> bindt (infer_type c) (\<lambda>ct. check_condition ct (nspan c)))"
    by (auto split: option.split simp: ok_part intro!: tc_ok)
  show ?case unfolding reporting_def stray_jumps.simps check_kind.simps plain_stmt_def check_for_c_def thent_def stmt_check.sel
    by (intro allI reports_bindt reports_after [OF c] reports_after [OF u] reports_first reports_loop_body reports_stmt_opt
        tc_ok ok_part ok_parts c u)
      (auto intro: S_ForC)
next
  case (S_Loop b)
  show ?case unfolding reporting_def stray_jumps.simps check_kind.simps plain_stmt_def thent_def stmt_check.sel
    by (intro allI reports_first reports_loop_body tc_ok ok_part) (auto intro: S_Loop)
next
  case (S_Try b hs f)
  have hs: "reports (\<lambda>l. \<Union>h \<in> set hs. stray_at (map_spanned stray_jumps (cc_body h)) l)
      (eacht check_catch (map (map_catch_clause (map_spanned check_kind)) hs))"
    unfolding eacht_map check_catch_def thent_def catch_clause.map_sel
    by (intro allI reports_each reports_seq reports_stmt fr.ok_catch tc_ok ok_part) (auto intro: S_Try(2) fr.parts_in)
  have ok: "fr.ok (eacht check_catch (map (map_catch_clause (map_spanned check_kind)) hs))"
    by (auto simp: eacht_map catch_clause.map_sel ok_part intro!: tc_ok)
  show ?case
    unfolding reporting_def stray_jumps.simps check_kind.simps plain_stmt_def check_try_def thent_def stmt_check.sel Un_assoc
      set_map UN_simps image_comp comp_def catch_clause.map_sel
    by (intro allI reports_bindt reports_first reports_stmt reports_stmt_opt hs ok tc_ok ok_part ok_parts)
      (auto intro: S_Try)
next
  case (S_Defer b)
  show ?case unfolding reporting_def stray_jumps.simps check_kind.simps plain_stmt_def thent_def stmt_check.sel
    by (intro allI reports_first reports_stmt tc_ok ok_part) (auto intro: S_Defer)
next
  case (S_Block ss)
  show ?case
    unfolding reporting_def stray_jumps.simps check_kind.simps plain_stmt_def check_block_def stmt_check.sel foldt_map set_map UN_simps
    by (intro allI reports_scoped reports_fold reports_stmt tc_ok ok_part) (auto intro: S_Block)
next
  case (S_Select as d)
  have as: "reports (\<lambda>l. \<Union>a \<in> set as. stray_at (map_spanned stray_jumps (sa_body a)) l)
      (eacht check_arm (map (map_select_arm (map_spanned infer_kind) (map_spanned check_kind)) as))"
    unfolding eacht_map check_arm_def thent_def select_arm.map_sel
    by (intro allI reports_each reports_seq reports_scoped reports_stmt tc_ok ok_part) (auto intro: S_Select(2) fr.parts_in)
  have ok: "fr.ok (eacht check_arm (map (map_select_arm (map_spanned infer_kind) (map_spanned check_kind)) as))"
    by (auto simp: eacht_map select_arm.map_sel ok_part intro!: tc_ok)
  show ?case
    unfolding reporting_def stray_jumps.simps check_kind.simps plain_stmt_def check_select_def thent_def stmt_check.sel
      set_map UN_simps image_comp comp_def select_arm.map_sel
    by (intro allI reports_bindt reports_first reports_stmt_opt as ok tc_ok ok_part ok_parts) (auto intro: S_Select)
qed (simp_all add: reporting_def reports_none reports_jump plain_stmt_def)


definition stray_example :: stmt where
  "stray_example = Spanned (S_If (Spanned (E_Literal (Lit_Bool True)) span_dummy 0)
     (Spanned (S_Block [Spanned (S_Loop (Spanned S_Break span_dummy 0)) span_dummy 0, Spanned S_Continue span_dummy 0])
        span_dummy 0) None) span_dummy 0"


end
