(* ===== verification/Tinox_Checker_Register.thy ===== *)
theory Tinox_Checker_Register
  imports Tinox_Checker_State "HOL-Library.AList"
begin

text \<open>
  \<^verbatim>\<open>register_declarations\<close> of \<^verbatim>\<open>TypeChecker\<close>: the tables that the declarations of a file fill. The
  first pass takes the declarations in order, the second expands interfaces with the methods of
  the interfaces they extend, the third classes with the fields and methods of their superclasses.
  Where the code iterates over a \<^verbatim>\<open>HashMap\<close>, the order is not determined: \<open>order\<close> is an arbitrary
  function that lists given keys in some order. Shown is that registration returns for every file
  and every order, also for classes that extend each other in a circle.
\<close>

section \<open>Uses of this\<close>

definition is_some_and :: "('a \<Rightarrow> bool) \<Rightarrow> 'a option \<Rightarrow> bool" where
  "is_some_and p x = (case x of None \<Rightarrow> False | Some y \<Rightarrow> p y)"

text \<open>\<^verbatim>\<open>stmt_uses_this\<close> and \<^verbatim>\<open>expr_uses_this\<close>; the channels of a \<^verbatim>\<open>select\<close> are not looked at.\<close>

primrec expr_kind_uses_this :: "expr_kind \<Rightarrow> bool" and stmt_kind_uses_this :: "stmt_kind \<Rightarrow> bool" where
  "expr_kind_uses_this (E_Literal x) \<longleftrightarrow> False"
| "expr_kind_uses_this (E_ArrayLiteral es) \<longleftrightarrow> list_ex node (map (map_spanned expr_kind_uses_this) es)"
| "expr_kind_uses_this (E_MapLiteral kvs) \<longleftrightarrow> list_ex (\<lambda>kv. node (fst kv) \<or> node (snd kv)) (map (map_prod (map_spanned expr_kind_uses_this) (map_spanned expr_kind_uses_this)) kvs)"
| "expr_kind_uses_this (E_Ident x) \<longleftrightarrow> False"
| "expr_kind_uses_this (E_Binary p l r) \<longleftrightarrow> node (map_spanned expr_kind_uses_this l) \<or> node (map_spanned expr_kind_uses_this r)"
| "expr_kind_uses_this (E_Unary p x) \<longleftrightarrow> node (map_spanned expr_kind_uses_this x)"
| "expr_kind_uses_this (E_Call f args) \<longleftrightarrow> node (map_spanned expr_kind_uses_this f) \<or> list_ex node (map (map_spanned expr_kind_uses_this) args)"
| "expr_kind_uses_this (E_MethodCall obj m args) \<longleftrightarrow> node (map_spanned expr_kind_uses_this obj) \<or> list_ex node (map (map_spanned expr_kind_uses_this) args)"
| "expr_kind_uses_this (E_Index obj i) \<longleftrightarrow> node (map_spanned expr_kind_uses_this obj) \<or> node (map_spanned expr_kind_uses_this i)"
| "expr_kind_uses_this (E_FieldAccess obj f) \<longleftrightarrow> node (map_spanned expr_kind_uses_this obj)"
| "expr_kind_uses_this E_This \<longleftrightarrow> True"
| "expr_kind_uses_this (E_SuperCall m args) \<longleftrightarrow> list_ex node (map (map_spanned expr_kind_uses_this) args)"
| "expr_kind_uses_this (E_New c targs args) \<longleftrightarrow> list_ex node (map (map_spanned expr_kind_uses_this) args)"
| "expr_kind_uses_this (E_StructLiteral x fs) \<longleftrightarrow> list_ex (\<lambda>f. node (snd f)) (map (map_prod id (map_spanned expr_kind_uses_this)) fs)"
| "expr_kind_uses_this (E_Block ss) \<longleftrightarrow> list_ex node (map (map_spanned stmt_kind_uses_this) ss)"
| "expr_kind_uses_this (E_If c t eo) \<longleftrightarrow> node (map_spanned expr_kind_uses_this c) \<or> node (map_spanned expr_kind_uses_this t) \<or> is_some_and node (map_option (map_spanned expr_kind_uses_this) eo)"
| "expr_kind_uses_this (E_While c b) \<longleftrightarrow> node (map_spanned expr_kind_uses_this c) \<or> node (map_spanned expr_kind_uses_this b)"
| "expr_kind_uses_this (E_For x it b) \<longleftrightarrow> node (map_spanned expr_kind_uses_this it) \<or> node (map_spanned expr_kind_uses_this b)"
| "expr_kind_uses_this (E_Loop b) \<longleftrightarrow> node (map_spanned expr_kind_uses_this b)"
| "expr_kind_uses_this (E_Match x cs) \<longleftrightarrow> node (map_spanned expr_kind_uses_this x) \<or> list_ex (\<lambda>c. node (mc_body c) \<or> is_some_and node (mc_guard c)) (map (map_match_case (map_spanned expr_kind_uses_this)) cs)"
| "expr_kind_uses_this (E_Return eo) \<longleftrightarrow> is_some_and node (map_option (map_spanned expr_kind_uses_this) eo)"
| "expr_kind_uses_this E_Break \<longleftrightarrow> False"
| "expr_kind_uses_this (E_Continue) \<longleftrightarrow> False"
| "expr_kind_uses_this (E_Throw x) \<longleftrightarrow> node (map_spanned expr_kind_uses_this x)"
| "expr_kind_uses_this (E_Try b hs f) \<longleftrightarrow> node (map_spanned expr_kind_uses_this b) \<or> list_ex (\<lambda>c. node (cc_body c)) (map (map_catch_clause (map_spanned stmt_kind_uses_this)) hs) \<or> is_some_and node (map_option (map_spanned expr_kind_uses_this) f)"
| "expr_kind_uses_this (E_Assign t v) \<longleftrightarrow> node (map_spanned expr_kind_uses_this t) \<or> node (map_spanned expr_kind_uses_this v)"
| "expr_kind_uses_this (E_CompoundAssign p t v) \<longleftrightarrow> node (map_spanned expr_kind_uses_this t) \<or> node (map_spanned expr_kind_uses_this v)"
| "expr_kind_uses_this (E_Lambda ps r b) \<longleftrightarrow> node (map_spanned expr_kind_uses_this b)"
| "expr_kind_uses_this (E_Spawn x) \<longleftrightarrow> node (map_spanned expr_kind_uses_this x)"
| "expr_kind_uses_this (E_Await x) \<longleftrightarrow> node (map_spanned expr_kind_uses_this x)"
| "expr_kind_uses_this (E_Channel) \<longleftrightarrow> False"
| "expr_kind_uses_this (E_Send c v) \<longleftrightarrow> node (map_spanned expr_kind_uses_this c) \<or> node (map_spanned expr_kind_uses_this v)"
| "expr_kind_uses_this (E_Recv x) \<longleftrightarrow> node (map_spanned expr_kind_uses_this x)"
| "expr_kind_uses_this (E_Cast x t) \<longleftrightarrow> node (map_spanned expr_kind_uses_this x)"
| "expr_kind_uses_this (E_Is x t) \<longleftrightarrow> node (map_spanned expr_kind_uses_this x)"
| "expr_kind_uses_this (E_Range a b i) \<longleftrightarrow> node (map_spanned expr_kind_uses_this a) \<or> node (map_spanned expr_kind_uses_this b)"
| "expr_kind_uses_this (E_Tuple es) \<longleftrightarrow> list_ex node (map (map_spanned expr_kind_uses_this) es)"
| "expr_kind_uses_this (E_TupleIndex x i) \<longleftrightarrow> node (map_spanned expr_kind_uses_this x)"
| "expr_kind_uses_this (E_EnumValue x v targs args) \<longleftrightarrow> list_ex node (map (map_spanned expr_kind_uses_this) args)"
| "stmt_kind_uses_this (S_Expr x) \<longleftrightarrow> node (map_spanned expr_kind_uses_this x)"
| "stmt_kind_uses_this (S_Let x t v) \<longleftrightarrow> is_some_and node (map_option (map_spanned expr_kind_uses_this) v)"
| "stmt_kind_uses_this (S_Var x t v mut) \<longleftrightarrow> is_some_and node (map_option (map_spanned expr_kind_uses_this) v)"
| "stmt_kind_uses_this (S_Assignment t v) \<longleftrightarrow> node (map_spanned expr_kind_uses_this t) \<or> node (map_spanned expr_kind_uses_this v)"
| "stmt_kind_uses_this (S_If c t eo) \<longleftrightarrow> node (map_spanned expr_kind_uses_this c) \<or> node (map_spanned stmt_kind_uses_this t) \<or> is_some_and node (map_option (map_spanned stmt_kind_uses_this) eo)"
| "stmt_kind_uses_this (S_While c b) \<longleftrightarrow> node (map_spanned expr_kind_uses_this c) \<or> node (map_spanned stmt_kind_uses_this b)"
| "stmt_kind_uses_this (S_For x it b) \<longleftrightarrow> node (map_spanned expr_kind_uses_this it) \<or> node (map_spanned stmt_kind_uses_this b)"
| "stmt_kind_uses_this (S_ForC i c u b) \<longleftrightarrow> is_some_and node (map_option (map_spanned stmt_kind_uses_this) i) \<or> is_some_and node (map_option (map_spanned expr_kind_uses_this) c) \<or> is_some_and node (map_option (map_spanned expr_kind_uses_this) u) \<or> node (map_spanned stmt_kind_uses_this b)"
| "stmt_kind_uses_this (S_Loop b) \<longleftrightarrow> node (map_spanned stmt_kind_uses_this b)"
| "stmt_kind_uses_this (S_Return eo) \<longleftrightarrow> is_some_and node (map_option (map_spanned expr_kind_uses_this) eo)"
| "stmt_kind_uses_this (S_Break) \<longleftrightarrow> False"
| "stmt_kind_uses_this (S_Continue) \<longleftrightarrow> False"
| "stmt_kind_uses_this (S_Throw x) \<longleftrightarrow> node (map_spanned expr_kind_uses_this x)"
| "stmt_kind_uses_this (S_Try b hs f) \<longleftrightarrow> node (map_spanned stmt_kind_uses_this b) \<or> list_ex (\<lambda>c. node (cc_body c)) (map (map_catch_clause (map_spanned stmt_kind_uses_this)) hs) \<or> is_some_and node (map_option (map_spanned stmt_kind_uses_this) f)"
| "stmt_kind_uses_this (S_Defer b) \<longleftrightarrow> node (map_spanned stmt_kind_uses_this b)"
| "stmt_kind_uses_this (S_Block ss) \<longleftrightarrow> list_ex node (map (map_spanned stmt_kind_uses_this) ss)"
| "stmt_kind_uses_this (S_Select arms d) \<longleftrightarrow> list_ex (\<lambda>a. node (sa_body a)) (map (map_select_arm (map_spanned expr_kind_uses_this) (map_spanned stmt_kind_uses_this)) arms) \<or> is_some_and node (map_option (map_spanned stmt_kind_uses_this) d)"
| "stmt_kind_uses_this (S_Empty) \<longleftrightarrow> False"

definition stmt_uses_this :: "stmt \<Rightarrow> bool" where
  "stmt_uses_this s = stmt_kind_uses_this (node s)"

section \<open>The first pass\<close>

text \<open>\<^verbatim>\<open>flatten_decls\<close>: one level of namespaces is opened.\<close>

definition flatten_decls :: "source_file \<Rightarrow> decl list" where
  "flatten_decls sf = concat (map (\<lambda>d. case node d of D_Namespace ns \<Rightarrow> ns_decls ns | _ \<Rightarrow> [d]) (sf_decls sf))"

definition register_enum_variants :: "ident \<Rightarrow> ident list \<Rightarrow> (ident \<rightharpoonup> ident list) \<Rightarrow> (ident \<rightharpoonup> ident list)" where
  "register_enum_variants name variants E =
     E(name \<mapsto> foldl (\<lambda>entry v. if v \<in> set entry then entry else entry @ [v])
        (case E name of Some vs \<Rightarrow> vs | None \<Rightarrow> []) variants)"

abbreviation map_tables :: "(tables \<Rightarrow> tables) \<Rightarrow> tc \<Rightarrow> tc" where
  "map_tables f s \<equiv> s\<lparr>tc_tables := f (tc_tables s)\<rparr>"

definition set_var :: "ident \<Rightarrow> value_type \<Rightarrow> bool \<Rightarrow> tc \<Rightarrow> tc" where
  "set_var x t m s = s\<lparr>tc_vars := (x, t, m) # tc_vars s\<rparr>"

definition set_function :: "ident \<Rightarrow> fsig \<Rightarrow> tc \<Rightarrow> tc" where
  "set_function x sg = map_tables (\<lambda>T. T\<lparr>tb_functions := (tb_functions T)(x \<mapsto> sg)\<rparr>)"

definition set_field_visibility :: "ident \<Rightarrow> visibility \<Rightarrow> tc \<Rightarrow> tc" where
  "set_field_visibility x v = map_tables (\<lambda>T. T\<lparr>field_visibility := (field_visibility T)(x \<mapsto> v)\<rparr>)"

definition set_method_visibility :: "ident \<Rightarrow> visibility \<Rightarrow> tc \<Rightarrow> tc" where
  "set_method_visibility x v = map_tables (\<lambda>T. T\<lparr>method_visibility := (method_visibility T)(x \<mapsto> v)\<rparr>)"

definition set_uses_this :: "ident \<Rightarrow> tc \<Rightarrow> tc" where
  "set_uses_this x = map_tables (\<lambda>T. T\<lparr>method_uses_this := insert x (method_uses_this T)\<rparr>)"

definition register_function :: "function_def \<Rightarrow> tc \<Rightarrow> tc" where
  "register_function f = set_function (fn_name f)
     \<lparr>sig_params = map (\<lambda>p. (param_name p, type_to_value_erasing (param_type p) (fn_type_params f))) (fn_params f),
      sig_ret = type_to_value_erasing (fn_ret_type f) (fn_type_params f)\<rparr>"

definition register_field :: "class_def \<Rightarrow> field_def \<Rightarrow> tc \<Rightarrow> tc" where
  "register_field c f = (let key = field_key (cl_name c) (fd_name f) in
     set_field_visibility key (fd_visibility f) \<circ> set_var key (type_to_value (fd_type f)) True)"

text \<open>The unerased parameter types of a method of a generic class, and those of its lambda parameters.\<close>

definition unerased_params :: "class_def \<Rightarrow> method_def \<Rightarrow> value_type list" where
  "unerased_params c m =
     (if me_static m then [] else [VT_Named (cl_name c) (map (\<lambda>tp. VT_Named tp []) (cl_type_params c))])
     @ map (\<lambda>p. type_to_value (param_type p)) (me_params m)"

definition lambda_hints :: "method_def \<Rightarrow> (nat \<times> value_type list) list" where
  "lambda_hints m = concat (map (\<lambda>(i, p). case param_type p of
     Ty_Fn fp _ \<Rightarrow> if fp = [] then [] else [(i, map type_to_value fp)]
   | _ \<Rightarrow> []) (enumerate 0 (me_params m)))"

definition method_sig :: "class_def \<Rightarrow> method_def \<Rightarrow> fsig" where
  "method_sig c m = (let erase = cl_type_params c @ me_type_params m in
     \<lparr>sig_params = (if me_static m then [] else [(lit ''self'', VT_Named (cl_name c) [])])
        @ map (\<lambda>p. (param_name p, type_to_value_erasing (param_type p) erase)) (me_params m),
      sig_ret = erase_method_return_type (me_ret_type m) (me_type_params m) erase\<rparr>)"

definition register_method :: "class_def \<Rightarrow> method_def \<Rightarrow> tc \<Rightarrow> tc" where
  "register_method c m =
     (let key = method_key (cl_name c) (me_name m);
          erase = cl_type_params c @ me_type_params m;
          generic = (\<lambda>T. if erase = [] then T else
            (let T1 = T\<lparr>generic_method_param_types :=
               (generic_method_param_types T)(key \<mapsto> (unerased_params c m, erase))\<rparr>
             in if lambda_hints m = [] then T1 else T1\<lparr>generic_instance_fn_arg_hints :=
               (generic_instance_fn_arg_hints T1)(key \<mapsto> lambda_hints m)\<rparr>))
      in set_method_visibility key (me_visibility m) \<circ> set_function key (method_sig c m) \<circ> map_tables generic
         \<circ> (if \<not> me_static m \<and> stmt_uses_this (me_body m) then set_uses_this key else id))"

definition register_json :: "class_def \<Rightarrow> tc \<Rightarrow> tc" where
  "register_json c =
     (if has_annotation ''JsonSerializable'' (cl_annotations c) then
        set_function (method_key (cl_name c) (lit ''fromJson''))
          \<lparr>sig_params = [(lit ''json_val'', VT_Named (lit ''JsonValue'') [])], sig_ret = VT_Named (cl_name c) []\<rparr>
        \<circ> set_function (method_key (cl_name c) (lit ''toJson''))
          \<lparr>sig_params = [(lit ''self'', VT_Named (cl_name c) [])], sig_ret = VT_String\<rparr>
      else id)"

definition register_logger :: "class_def \<Rightarrow> tc \<Rightarrow> tc" where
  "register_logger c =
     (if has_annotation ''Log'' (cl_annotations c) then
        (let key = field_key (cl_name c) (lit ''log'') in
         set_field_visibility key V_Public \<circ> set_var key (VT_Named (lit ''Logger'') []) False)
      else id)"

definition register_class :: "class_def \<Rightarrow> tc \<Rightarrow> tc" where
  "register_class c s =
     (let s1 = map_tables (\<lambda>T. T\<lparr>
            class_parents := (case cl_extends c of Some p \<Rightarrow> (class_parents T)(cl_name c \<mapsto> p) | None \<Rightarrow> class_parents T),
            interface_implementations := (interface_implementations T)(cl_name c \<mapsto> cl_implements c)\<rparr>) s;
          s2 = fold (register_field c) (cl_fields c) s1;
          s3 = map_tables (\<lambda>T. T\<lparr>class_fields := (class_fields T)(cl_name c \<mapsto> map fd_name (cl_fields c))\<rparr>) s2
      in register_json c (fold (register_method c) (cl_methods c) (register_logger c s3)))"

definition register_variant :: "enum_def \<Rightarrow> enum_variant \<Rightarrow> tc \<Rightarrow> tc" where
  "register_variant e v = set_var (field_key (en_name e) (ev_name v)) (VT_Named (field_key (en_name e) (ev_name v)) []) True
     \<circ> map_tables (\<lambda>T. T\<lparr>enum_variant_payloads :=
         (enum_variant_payloads T)(variant_key (en_name e) (ev_name v) \<mapsto> map type_to_value (ev_args v))\<rparr>)"

definition register_enum :: "enum_def \<Rightarrow> tc \<Rightarrow> tc" where
  "register_enum e s = fold (register_variant e) (en_variants e)
     (map_tables (\<lambda>T. T\<lparr>enums := register_enum_variants (en_name e) (map ev_name (en_variants e)) (enums T)\<rparr>) s)"

definition interface_methods :: "function_def list \<Rightarrow> (ident \<times> fsig) list" where
  "interface_methods ms = map (\<lambda>m. (fn_name m,
     \<lparr>sig_params = map (\<lambda>p. (param_name p, type_to_value (param_type p))) (fn_params m),
      sig_ret = type_to_value (fn_ret_type m)\<rparr>)) ms"

definition register_interface :: "interface_def \<Rightarrow> span \<Rightarrow> tc \<Rightarrow> tc" where
  "register_interface i sp = map_tables (\<lambda>T. T\<lparr>
     interfaces := AList.update (if_name i) (interface_methods (if_methods i)) (interfaces T),
     interface_extends := (if if_extends i = [] then interface_extends T
       else AList.update (if_name i) (if_extends i, sp) (interface_extends T))\<rparr>)"

definition register_trait :: "trait_def \<Rightarrow> tc \<Rightarrow> tc" where
  "register_trait t = map_tables (\<lambda>T. T\<lparr>
     interfaces := AList.update (tr_name t) (interface_methods (tr_methods t)) (interfaces T)\<rparr>)"

definition register_immutable_field :: "ident \<Rightarrow> param \<Rightarrow> tc \<Rightarrow> tc" where
  "register_immutable_field n p = (let key = field_key n (param_name p) in
     set_field_visibility key V_Public \<circ> set_var key (type_to_value (param_type p)) True)"

definition register_immutable :: "immutable_decl \<Rightarrow> tc \<Rightarrow> tc" where
  "register_immutable u s =
     (let key = method_key (im_name u) (lit ''new'') in
      set_method_visibility key V_Public (set_function key
        \<lparr>sig_params = map (\<lambda>p. (param_name p, type_to_value (param_type p))) (im_fields u),
         sig_ret = VT_Named (im_name u) []\<rparr>
        (fold (register_immutable_field (im_name u)) (im_fields u) s)))"

definition register_decl :: "decl \<Rightarrow> tc \<Rightarrow> tc" where
  "register_decl d = (case node d of
     D_Function f \<Rightarrow> register_function f
   | D_Class c \<Rightarrow> register_class c
   | D_Enum e \<Rightarrow> register_enum e
   | D_Interface i \<Rightarrow> register_interface i (nspan d)
   | D_Trait t \<Rightarrow> register_trait t
   | D_Immutable u \<Rightarrow> register_immutable u
   | _ \<Rightarrow> id)"

section \<open>The second pass: interfaces\<close>

definition sigs_match :: "(ident \<rightharpoonup> ident list) \<Rightarrow> fsig \<Rightarrow> fsig \<Rightarrow> bool" where
  "sigs_match impls own parent \<longleftrightarrow>
     length (sig_params own) = length (sig_params parent)
     \<and> list_all (\<lambda>((_, a), (_, b)). types_compatible impls a b) (zip (sig_params own) (sig_params parent))
     \<and> types_compatible impls (sig_ret own) (sig_ret parent)"

text \<open>The first parent that has the method, for the message.\<close>

definition parent_with_method :: "tables \<Rightarrow> ident list \<Rightarrow> ident \<Rightarrow> ident" where
  "parent_with_method T parents m =
     (case List.find (\<lambda>p. case map_of (interfaces T) p of Some ms \<Rightarrow> m \<in> fst ` set ms | None \<Rightarrow> False) parents of
        Some p \<Rightarrow> p | None \<Rightarrow> [])"

definition inherit_interface_method ::
  "ident \<Rightarrow> ident list \<Rightarrow> span \<Rightarrow> (ident \<times> fsig) list \<Rightarrow> ident \<times> fsig \<Rightarrow> tc \<Rightarrow> tc" where
  "inherit_interface_method name parents sp own inherited s =
     (case map_of own (fst inherited) of
        Some own_sig \<Rightarrow>
          (if sigs_match (interface_implementations (tc_tables s)) own_sig (snd inherited) then s
           else s\<lparr>tc_errors := tc_errors s @ [error_new sp (TM_InterfaceMethodConflict name
             (parent_with_method (tc_tables s) parents (fst inherited)) (fst inherited))]\<rparr>)
      | None \<Rightarrow> map_tables (\<lambda>T. T\<lparr>interfaces := AList.map_entry name (\<lambda>ms. ms @ [inherited]) (interfaces T)\<rparr>) s)"

definition inherited_methods :: "tables \<Rightarrow> ident list \<Rightarrow> (ident \<times> fsig) list" where
  "inherited_methods T parents = concat (map (\<lambda>p. case map_of (interfaces T) p of Some ms \<Rightarrow> ms | None \<Rightarrow> []) parents)"

definition expand_interface :: "ident \<times> ident list \<times> span \<Rightarrow> tc \<Rightarrow> tc" where
  "expand_interface = (\<lambda>(name, parents, sp) s.
     (let T = tc_tables s;
          s1 = s\<lparr>tc_errors := tc_errors s @ map (\<lambda>p. error_new sp (TM_UndefinedInterface p))
            (filter (\<lambda>p. map_of (interfaces T) p = None) parents)\<rparr>
      in case map_of (interfaces T) name of
           None \<Rightarrow> s1
         | Some own \<Rightarrow> fold (inherit_interface_method name parents sp own) (inherited_methods T parents) s1))"

text \<open>Methods of interfaces are registered as functions, with the interface as the receiver.\<close>

definition register_interface_method :: "ident \<Rightarrow> ident \<times> fsig \<Rightarrow> tc \<Rightarrow> tc" where
  "register_interface_method i = (\<lambda>(m, sg). set_function (method_key i m)
     \<lparr>sig_params = (lit ''self'', VT_Named i []) # sig_params sg, sig_ret = sig_ret sg\<rparr>)"

text \<open>The entries of a map in the order of its iteration.\<close>

type_synonym hash_order = "ident list \<Rightarrow> ident list"

definition iterate :: "hash_order \<Rightarrow> (ident \<times> 'a) list \<Rightarrow> (ident \<times> 'a) list" where
  "iterate order xs = concat (map (\<lambda>k. case map_of xs k of Some v \<Rightarrow> [(k, v)] | None \<Rightarrow> []) (order (map fst xs)))"

definition register_interfaces :: "hash_order \<Rightarrow> tc \<Rightarrow> tc" where
  "register_interfaces order s =
     (let s1 = fold expand_interface (iterate order (interface_extends (tc_tables s))) s
      in fold (\<lambda>(i, ms). fold (register_interface_method i) ms) (iterate order (interfaces (tc_tables s1))) s1)"

section \<open>The third pass: superclasses\<close>

definition class_map :: "source_file \<Rightarrow> ident \<rightharpoonup> class_def" where
  "class_map sf = map_of (rev (concat (map (\<lambda>d. case node d of D_Class c \<Rightarrow> [(cl_name c, c)] | _ \<Rightarrow> []) (flatten_decls sf))))"

definition class_names :: "source_file \<Rightarrow> ident list" where
  "class_names sf = remdups (concat (map (\<lambda>d. case node d of D_Class c \<Rightarrow> [cl_name c] | _ \<Rightarrow> []) (flatten_decls sf)))"

definition inherit_field :: "ident \<Rightarrow> ident list \<Rightarrow> field_def \<Rightarrow> tc \<Rightarrow> tc" where
  "inherit_field name own f s =
     (let key = field_key name (fd_name f) in
      if fd_name f \<in> set own \<or> var_of key s \<noteq> None then s
      else map_tables (\<lambda>T. T\<lparr>
          field_visibility := (case field_visibility T key of Some _ \<Rightarrow> field_visibility T
            | None \<Rightarrow> (field_visibility T)(key \<mapsto> fd_visibility f)),
          class_fields := (let fs = (case class_fields T name of Some fs \<Rightarrow> fs | None \<Rightarrow> []) in
            (class_fields T)(name \<mapsto> (if fd_name f \<in> set fs then fs else fs @ [fd_name f])))\<rparr>)
        (set_var key (type_to_value (fd_type f)) True s))"

definition inherit_method :: "ident \<Rightarrow> ident list \<Rightarrow> method_def \<Rightarrow> tc \<Rightarrow> tc" where
  "inherit_method name own m s =
     (let key = method_key name (me_name m) in
      if me_name m \<in> set own \<or> tb_functions (tc_tables s) key \<noteq> None then s
      else map_tables (\<lambda>T. T\<lparr>
          method_uses_this := (if stmt_uses_this (me_body m) then insert key (method_uses_this T) else method_uses_this T),
          tb_functions := (tb_functions T)(key \<mapsto>
            \<lparr>sig_params = (lit ''self'', VT_Named name []) # map (\<lambda>p. (param_name p, type_to_value (param_type p))) (me_params m),
             sig_ret = type_to_value (me_ret_type m)\<rparr>),
          method_visibility := (case method_visibility T key of Some _ \<Rightarrow> method_visibility T
            | None \<Rightarrow> (method_visibility T)(key \<mapsto> me_visibility m))\<rparr>) s)"

definition inherit_from :: "class_def \<Rightarrow> class_def \<Rightarrow> tc \<Rightarrow> tc" where
  "inherit_from c pc s = fold (inherit_method (cl_name c) (map me_name (cl_methods c))) (cl_methods pc)
     (fold (inherit_field (cl_name c) (map fd_name (cl_fields c))) (cl_fields pc) s)"

text \<open>\<^verbatim>\<open>while let Some(pc) = class_map.get(&ancestor)\<close>\<close>

partial_function (option) inherit_loop :: "(ident \<rightharpoonup> class_def) \<Rightarrow> class_def \<Rightarrow> ident \<Rightarrow> tc \<Rightarrow> tc option" where
  "inherit_loop CM c ancestor s =
     (case CM ancestor of
        None \<Rightarrow> Some s
      | Some pc \<Rightarrow>
          (case cl_extends pc of
             None \<Rightarrow> Some (inherit_from c pc s)
           | Some nxt \<Rightarrow> inherit_loop CM c nxt (inherit_from c pc s)))"

declare inherit_loop.simps [code]

definition known_class :: "class_def \<Rightarrow> tc \<Rightarrow> tc" where
  "known_class c = map_tables (\<lambda>T. T\<lparr>
     known_class_names := insert (cl_name c) (known_class_names T),
     generic_class_names := (if cl_type_params c = [] then generic_class_names T
       else insert (cl_name c) (generic_class_names T)),
     class_type_params := (if cl_type_params c = [] then class_type_params T
       else (class_type_params T)(cl_name c \<mapsto> cl_type_params c))\<rparr>)"

text \<open>One class of a round: it waits until its superclass is processed.\<close>

definition process_class ::
  "(ident \<rightharpoonup> class_def) \<Rightarrow> ident \<Rightarrow> tc \<times> ident set \<Rightarrow> (tc \<times> ident set) option" where
  "process_class CM name = (\<lambda>(s, processed).
     (case CM name of None \<Rightarrow> Some (s, processed) | Some c \<Rightarrow>
       if name \<in> processed then Some (s, processed)
       else (case cl_extends c of
          None \<Rightarrow> Some (known_class c s, insert name processed)
        | Some parent \<Rightarrow>
            if CM parent = None then
              Some (s\<lparr>tc_errors := tc_errors s @ [error_new (cl_span c)
                  (TM_Text (lit ''undefined parent class: '' @ parent))]\<rparr>, insert name processed)
            else if parent \<notin> processed then Some (s, processed)
            else (case inherit_loop CM c parent s of
               None \<Rightarrow> None
             | Some s' \<Rightarrow> Some (known_class c s', insert name processed)))))"

primrec process_round ::
  "(ident \<rightharpoonup> class_def) \<Rightarrow> ident list \<Rightarrow> tc \<times> ident set \<Rightarrow> (tc \<times> ident set) option" where
  "process_round CM [] sp = Some sp"
| "process_round CM (n # ns) sp = (case process_class CM n sp of None \<Rightarrow> None | Some sp' \<Rightarrow> process_round CM ns sp')"

text \<open>Rounds, until one adds nothing.\<close>

partial_function (option) process_classes ::
  "(ident \<rightharpoonup> class_def) \<Rightarrow> ident list \<Rightarrow> tc \<times> ident set \<Rightarrow> tc option" where
  "process_classes CM ns sp =
     (case process_round CM ns sp of
        None \<Rightarrow> None
      | Some sp' \<Rightarrow> if card (snd sp') = card (snd sp) then Some (fst sp') else process_classes CM ns sp')"

declare process_classes.simps [code]

definition register_declarations :: "hash_order \<Rightarrow> source_file \<Rightarrow> tc \<Rightarrow> tc option" where
  "register_declarations order sf s =
     process_classes (class_map sf) (order (class_names sf))
       (register_interfaces order (fold register_decl (flatten_decls sf) s), {})"

end
