(* ===== verification/Tinox_Typecheck.thy ===== *)
theory Tinox_Typecheck
  imports Tinox_Checker Tinox_Checker_Register Tinox_Checker_Builtins
begin

text \<open>
  The entry points of \<^verbatim>\<open>src/crates/tinox-typecheck/src/lib.rs\<close>: registration, the checks of all
  declarations, then the validation of the annotations.
\<close>

text \<open>The errors of the annotations, among those of the types\<close>

definition annotation_errors :: "source_file \<Rightarrow> type_error list" where
  "annotation_errors sf = map (\<lambda>e. error_new (err_span e) (TM_Annotation (err_message e))) (validate_annotations sf)"

definition check_source_file :: "hash_order \<Rightarrow> source_file \<Rightarrow> unit tcm" where
  "check_source_file order sf s =
     (case register_declarations order sf s of None \<Rightarrow> None | Some s1 \<Rightarrow>
      (case eacht check_decl (flatten_decls sf) s1 of None \<Rightarrow> None | Some (_, s2) \<Rightarrow>
         Some ((), s2\<lparr>tc_errors := tc_errors s2 @ annotation_errors sf\<rparr>)))"

text \<open>\<^verbatim>\<open>check\<close>: the file itself, or the errors, which are taken out of the state.\<close>

definition tc_check :: "hash_order \<Rightarrow> source_file \<Rightarrow> (type_msg error_bag + source_file) tcm" where
  "tc_check order sf =
     thent (check_source_file order sf)
       (\<lambda>s. if tc_errors s = [] then Some (Inr sf, s)
            else Some (Inl \<lparr>bag_errors = tc_errors s\<rparr>, s\<lparr>tc_errors := []\<rparr>))"

definition typecheck :: "hash_order \<Rightarrow> source_file \<Rightarrow> (type_msg error_bag + source_file) option" where
  "typecheck order sf = map_option fst (tc_check order sf checker_new)"

primrec register_preludes :: "hash_order \<Rightarrow> source_file list \<Rightarrow> tc \<Rightarrow> tc option" where
  "register_preludes order [] s = Some s"
| "register_preludes order (p # ps) s =
     (case register_declarations order p s of None \<Rightarrow> None
      | Some s' \<Rightarrow> register_preludes order ps (s'\<lparr>tc_errors := []\<rparr>))"

definition typecheck_with_prelude ::
  "hash_order \<Rightarrow> source_file \<Rightarrow> source_file list \<Rightarrow> (type_msg error_bag + source_file) option" where
  "typecheck_with_prelude order sf preludes =
     (case register_preludes order preludes checker_new of None \<Rightarrow> None
      | Some s \<Rightarrow> map_option fst (tc_check order sf s))"

text \<open>\<^verbatim>\<open>interface_info\<close> and \<^verbatim>\<open>expr_value_types\<close>, what the code generator reads.\<close>

definition interface_info :: "tc \<Rightarrow> (ident \<rightharpoonup> ident list) \<times> (ident \<rightharpoonup> ident list)" where
  "interface_info s = (\<lambda>i. map_option (map fst) (map_of (interfaces (tc_tables s)) i),
     interface_implementations (tc_tables s))"

definition expr_value_types :: "tc \<Rightarrow> u32 \<rightharpoonup> value_type" where
  "expr_value_types s = tc_types s"

end
