(* ===== verification/Tinox_Typecheck_Props.thy ===== *)
theory Tinox_Typecheck_Props
  imports Tinox_Typecheck Tinox_Checker_Contract
begin

text \<open>
  The type checker as a whole ends. Registration ends for every file: a class takes over the members of
  its superclasses only when its superclass is done, so classes in a circle are never taken up and
  the rounds stop. The checks end if the chains of superclasses do.
\<close>

section \<open>Registration\<close>

inductive chain_ends :: "(ident \<rightharpoonup> class_def) \<Rightarrow> ident \<Rightarrow> bool" for CM where
  outside: "CM a = None \<Longrightarrow> chain_ends CM a"
| top: "CM a = Some c \<Longrightarrow> cl_extends c = None \<Longrightarrow> chain_ends CM a"
| up: "CM a = Some c \<Longrightarrow> cl_extends c = Some p \<Longrightarrow> chain_ends CM p \<Longrightarrow> chain_ends CM a"

lemma inherit_loop_returns: "chain_ends CM a \<Longrightarrow> inherit_loop CM c a s \<noteq> None"
  by (induction arbitrary: s rule: chain_ends.induct) (subst inherit_loop.simps, simp)+

lemma process_class_returns:
  assumes "\<forall>q \<in> P. chain_ends CM q"
  shows "\<exists>s' P'. process_class CM n (s, P) = Some (s', P') \<and> (\<forall>q \<in> P'. chain_ends CM q) \<and> P \<subseteq> P' \<and> P' \<subseteq> insert n P"
proof (cases "CM n")
  case (Some c)
  show ?thesis
  proof (cases "n \<in> P \<or> (\<exists>p. cl_extends c = Some p \<and> CM p \<noteq> None \<and> p \<notin> P)")
    case True then show ?thesis using Some assms by (auto simp: process_class_def)
  next
    case new: False
    have "\<exists>s'. process_class CM n (s, P) = Some (s', insert n P)"
    proof (cases "cl_extends c")
      case None then show ?thesis using Some new by (simp add: process_class_def)
    next
      case p: (Some p)
      show ?thesis
      proof (cases "CM p = None")
        case True then show ?thesis using Some p new by (simp add: process_class_def)
      next
        case False
        then have "p \<in> P" using new p by blast
        then have "inherit_loop CM c p s \<noteq> None" using assms inherit_loop_returns by blast
        then show ?thesis using Some p new \<open>p \<in> P\<close> False by (auto simp: process_class_def)
      qed
    qed
    moreover have "chain_ends CM n"
      using Some new assms by (cases "cl_extends c") (auto intro: chain_ends.intros)
    ultimately show ?thesis using assms by auto
  qed
qed (use assms in \<open>auto simp: process_class_def\<close>)

lemma process_round_returns:
  "\<forall>q \<in> P. chain_ends CM q \<Longrightarrow>
     \<exists>s' P'. process_round CM ns (s, P) = Some (s', P') \<and> (\<forall>q \<in> P'. chain_ends CM q) \<and> P \<subseteq> P' \<and> P' \<subseteq> set ns \<union> P"
proof (induction ns arbitrary: s P)
  case (Cons n ns)
  obtain s1 P1 where 1: "process_class CM n (s, P) = Some (s1, P1)" "\<forall>q \<in> P1. chain_ends CM q" "P \<subseteq> P1" "P1 \<subseteq> insert n P"
    using process_class_returns [OF Cons.prems] by blast
  obtain s2 P2 where "process_round CM ns (s1, P1) = Some (s2, P2)" "\<forall>q \<in> P2. chain_ends CM q" "P1 \<subseteq> P2" "P2 \<subseteq> set ns \<union> P1"
    using Cons.IH [OF 1(2)] by blast
  then show ?case using 1 by (intro exI [of _ s2] exI [of _ P2]) auto
qed simp

lemma process_classes_returns:
  "finite P \<Longrightarrow> \<forall>q \<in> P. chain_ends CM q \<Longrightarrow> process_classes CM ns (s, P) \<noteq> None"
proof (induction "card (set ns - P)" arbitrary: s P rule: less_induct)
  case less
  obtain s' P' where r: "process_round CM ns (s, P) = Some (s', P')" "\<forall>q \<in> P'. chain_ends CM q" "P \<subseteq> P'" "P' \<subseteq> set ns \<union> P"
    using process_round_returns [OF less.prems(2)] by blast
  have fin: "finite P'" using r(4) less.prems(1) by (auto intro: finite_subset)
  show ?case
  proof (cases "card P' = card P")
    case True then show ?thesis using r(1) by (subst process_classes.simps) simp
  next
    case False
    then have "P' \<noteq> P" by blast
    then obtain q where "q \<in> P'" "q \<notin> P" using r(3) by blast
    then have "set ns - P' \<subset> set ns - P" using r(3,4) by blast
    then have "card (set ns - P') < card (set ns - P)" by (intro psubset_card_mono) auto
    then have "process_classes CM ns (s', P') \<noteq> None" by (rule less.hyps) (use fin r(2) in auto)
    then show ?thesis using r(1) False by (subst process_classes.simps) (simp del: not_None_eq)
  qed
qed

text \<open>
  The registration of the declarations of a file always comes to an end, in whatever order hash maps
  are iterated, and also when classes extend each other in a circle.
\<close>

theorem register_declarations_returns: "\<exists>s'. register_declarations order sf s = Some s'"
  using process_classes_returns [of "{}" "class_map sf" "order (class_names sf)"]
  by (auto simp: register_declarations_def)

section \<open>The superclasses of a program\<close>

definition add_superclass :: "decl \<Rightarrow> (ident \<rightharpoonup> ident) \<Rightarrow> (ident \<rightharpoonup> ident)" where
  "add_superclass d P = (case node d of
     D_Class c \<Rightarrow> (case cl_extends c of Some p \<Rightarrow> P(cl_name c \<mapsto> p) | None \<Rightarrow> P)
   | _ \<Rightarrow> P)"

definition superclasses :: "source_file list \<Rightarrow> ident \<rightharpoonup> ident" where
  "superclasses sfs = fold add_superclass (concat (map flatten_decls sfs)) Map.empty"

abbreviation parents :: "tc \<Rightarrow> ident \<rightharpoonup> ident" where
  "parents s \<equiv> class_parents (tc_tables s)"

lemma parents_set [simp]:
  "parents (set_var x t m s) = parents s" "parents (set_function x sg s) = parents s"
  "parents (set_field_visibility x v s) = parents s" "parents (set_method_visibility x v s) = parents s"
  "parents (set_uses_this x s) = parents s"
  by (simp_all add: set_var_def set_function_def set_field_visibility_def set_method_visibility_def set_uses_this_def)

lemma parents_fold: "(\<And>x s. parents (f x s) = parents s) \<Longrightarrow> parents (fold f xs s) = parents s"
  by (induction xs arbitrary: s) simp_all

lemma parents_register [simp]:
  "parents (register_function f s) = parents s" "parents (register_field c fd s) = parents s"
  "parents (register_method c m s) = parents s" "parents (register_json c s) = parents s"
  "parents (register_logger c s) = parents s" "parents (register_variant e v s) = parents s"
  "parents (register_interface i sp s) = parents s" "parents (register_trait t s) = parents s"
  "parents (register_immutable_field n p s) = parents s" "parents (register_interface_method j q s) = parents s"
  by (simp_all add: register_function_def register_field_def register_method_def register_json_def register_logger_def
      register_variant_def register_interface_def register_trait_def register_immutable_field_def
      register_interface_method_def Let_def split_beta)

lemma parents_register_folds [simp]:
  "parents (register_enum e s) = parents s" "parents (register_immutable u s) = parents s"
  by (simp_all add: register_enum_def register_immutable_def Let_def parents_fold)

lemma parents_register_decl: "parents (register_decl d s) = add_superclass d (parents s)"
  by (auto simp: register_decl_def add_superclass_def register_class_def Let_def parents_fold split: decl_kind.split option.split)

lemma parents_register_decls: "parents (fold register_decl ds s) = fold add_superclass ds (parents s)"
  by (induction ds arbitrary: s) (simp_all add: parents_register_decl)

lemma parents_interfaces [simp]: "parents (register_interfaces order s) = parents s"
proof -
  have "parents (inherit_interface_method n ps sp own m s) = parents s" for n ps sp own m s
    by (simp add: inherit_interface_method_def split: option.split)
  then have "parents (expand_interface i s) = parents s" for i s
    by (simp add: expand_interface_def split_beta Let_def parents_fold split: option.split)
  then show ?thesis by (simp add: register_interfaces_def Let_def split_beta parents_fold)
qed

lemma parents_inherit_from [simp]: "parents (inherit_from c pc s) = parents s"
  by (simp add: inherit_from_def parents_fold inherit_field_def inherit_method_def Let_def)

lemma parents_inherit_loop: "inherit_loop CM c a s = Some s' \<Longrightarrow> parents s' = parents s"
proof (erule inherit_loop.raw_induct [rotated])
  fix loop CM c a s s'
  assume IH: "\<And>CM c a s s'. loop CM c a s = Some s' \<Longrightarrow> parents s' = parents s"
    and eq: "(case CM a of None \<Rightarrow> Some s | Some pc \<Rightarrow> (case cl_extends pc of None \<Rightarrow> Some (inherit_from c pc s)
       | Some nxt \<Rightarrow> loop CM c nxt (inherit_from c pc s))) = Some s'"
  then show "parents s' = parents s"
    by (auto split: option.splits dest!: IH)
qed

lemma parents_process_class: "process_class CM n sp = Some sp' \<Longrightarrow> parents (fst sp') = parents (fst sp)"
  by (auto simp: process_class_def known_class_def split_beta split: option.splits if_splits dest!: parents_inherit_loop)

lemma parents_process_round: "process_round CM ns sp = Some sp' \<Longrightarrow> parents (fst sp') = parents (fst sp)"
  by (induction ns arbitrary: sp) (auto split: option.splits dest: parents_process_class)

lemma parents_process_classes: "process_classes CM ns sp = Some s' \<Longrightarrow> parents s' = parents (fst sp)"
proof (erule process_classes.raw_induct [rotated])
  fix loop CM ns sp s'
  assume IH: "\<And>CM ns sp s'. loop CM ns sp = Some s' \<Longrightarrow> parents s' = parents (fst sp)"
    and eq: "(case process_round CM ns sp of None \<Rightarrow> None
       | Some sp' \<Rightarrow> if card (snd sp') = card (snd sp) then Some (fst sp') else loop CM ns sp') = Some s'"
  then show "parents s' = parents (fst sp)"
    by (auto split: option.splits if_splits dest!: IH parents_process_round)
qed

lemma parents_register_declarations:
  "register_declarations order sf s = Some s' \<Longrightarrow> parents s' = fold add_superclass (flatten_decls sf) (parents s)"
  by (auto simp: register_declarations_def parents_register_decls dest: parents_process_classes)

section \<open>The checks of declarations\<close>

text \<open>Declarations change the tables only where interfaces are recorded, so the superclasses stay.\<close>

definition runs :: "unit tcm \<Rightarrow> bool" where
  "runs m \<longleftrightarrow> (\<forall>s. classes_end (parents s) \<longrightarrow> (\<exists>u s'. m s = Some (u, s') \<and> parents s' = parents s))"

lemma runsD: "runs m \<Longrightarrow> classes_end (parents s) \<Longrightarrow> \<exists>u s'. m s = Some (u, s') \<and> parents s' = parents s"
  by (simp add: runs_def)

lemma runs_ok: "fr.ok m \<Longrightarrow> runs m"
  unfolding runs_def by (metis fr.ok_returns frame_def)

lemma runs_each: "(\<And>x. x \<in> set xs \<Longrightarrow> runs (f x)) \<Longrightarrow> runs (eacht f xs)"
proof (induction xs)
  case (Cons x xs)
  have "runs (f x)" "runs (eacht f xs)" using Cons by simp_all
  show ?case unfolding runs_def
  proof (intro allI impI)
    fix s assume e: "classes_end (parents s)"
    obtain u t where t: "f x s = Some (u, t)" "parents t = parents s" using runsD [OF \<open>runs (f x)\<close> e] by blast
    obtain v w where "eacht f xs t = Some (v, w)" "parents w = parents t"
      using runsD [OF \<open>runs (eacht f xs)\<close>, of t] e t(2) by auto
    then show "\<exists>u s'. eacht f (x # xs) s = Some (u, s') \<and> parents s' = parents s"
      using t by (simp add: thent_def bindt_def)
  qed
qed (simp add: runs_def rett_def)

lemma runs_scope:
  assumes "runs m"
  shows "runs (\<lambda>s. case m (s\<lparr>tc_tparams := T\<rparr>) of None \<Rightarrow> None | Some (x, s') \<Rightarrow> Some ((), s'\<lparr>tc_tparams := tc_tparams s\<rparr>))"
  unfolding runs_def
proof (intro allI impI)
  fix s assume "classes_end (parents s)"
  then obtain u s' where "m (s\<lparr>tc_tparams := T\<rparr>) = Some (u, s')" "parents s' = parents s"
    using runsD [OF assms, of "s\<lparr>tc_tparams := T\<rparr>"] by auto
  then show "\<exists>u t. (case m (s\<lparr>tc_tparams := T\<rparr>) of None \<Rightarrow> None | Some (x, s') \<Rightarrow> Some ((), s'\<lparr>tc_tparams := tc_tparams s\<rparr>))
      = Some (u, t) \<and> parents t = parents s" by simp
qed

lemma runs_function: "runs (check_function f)"
  unfolding check_function_def [abs_def] Let_def
  by (rule runs_scope, rule runs_ok) (auto intro!: tc_ok)

lemma runs_method: "runs (check_method c m)"
  unfolding check_method_def [abs_def] Let_def
  by (rule runs_scope, rule runs_ok) (auto intro!: tc_ok)

lemma runs_class: "runs (check_class c)"
  unfolding runs_def
proof (intro allI impI)
  fix s assume "classes_end (parents s)"
  then have e: "classes_end (parents (s\<lparr>tc_class := Some (cl_name c)\<rparr>))" by simp
  then obtain u s' where "eacht (check_method c) (cl_methods c) (s\<lparr>tc_class := Some (cl_name c)\<rparr>) = Some (u, s')"
    "parents s' = parents s"
    using runsD [OF runs_each [OF runs_method] e] by fastforce
  then show "\<exists>u t. check_class c s = Some (u, t) \<and> parents t = parents s"
    by (simp add: check_class_def Let_def)
qed

lemma runs_decl: "runs (check_decl d)"
  by (auto simp: check_decl_def runs_function runs_class split: decl_kind.split intro!: runs_ok tc_ok)

lemma register_preludes_returns:
  "\<exists>s'. register_preludes order ps s = Some s'
     \<and> parents s' = fold add_superclass (concat (map flatten_decls ps)) (parents s)"
proof (induction ps arbitrary: s)
  case (Cons p ps)
  obtain t where t: "register_declarations order p s = Some t"
    using process_classes_returns [of "{}" "class_map p" "order (class_names p)"]
    by (fastforce simp: register_declarations_def)
  then show ?case
    using Cons.IH [of "t\<lparr>tc_errors := []\<rparr>"] parents_register_declarations [OF t] by simp
qed simp

lemma typecheck_total:
  assumes "classes_end (superclasses (preludes @ [sf]))"
  shows "\<exists>r. typecheck_with_prelude order sf preludes = Some r
    \<and> (case r of Inr sf' \<Rightarrow> sf' = sf \<and> validate_annotations sf = [] | Inl bag \<Rightarrow> bag_errors bag \<noteq> [])"
proof -
  have new: "parents checker_new = Map.empty" by (simp add: checker_new_def empty_tables_def)
  obtain s where s: "register_preludes order preludes checker_new = Some s"
    "parents s = fold add_superclass (concat (map flatten_decls preludes)) Map.empty"
    using register_preludes_returns [of order preludes checker_new] new by auto
  obtain t where t: "register_declarations order sf s = Some t"
    using process_classes_returns [of "{}" "class_map sf" "order (class_names sf)"]
    by (fastforce simp: register_declarations_def)
  have "classes_end (parents t)"
    using assms parents_register_declarations [OF t] s(2) by (simp add: superclasses_def)
  then obtain u v where "eacht check_decl (flatten_decls sf) t = Some (u, v)"
    using runsD [OF runs_each [where f = check_decl], OF runs_decl] by blast
  then show ?thesis
    using s(1) t by (auto simp: typecheck_with_prelude_def tc_check_def thent_def bindt_def check_source_file_def
      annotation_errors_def)
qed

end
