(* ===== verification/Tinox_Annotation_Process.thy ===== *)
theory Tinox_Annotation_Process
  imports Tinox_Annotations Tinox_Strings
begin

text \<open>
  The processing of annotations (\<^verbatim>\<open>process_annotations\<close> of \<^verbatim>\<open>src/crates/tinox-typecheck/src/annotations.rs\<close>):
  routes, injected components, configuration, commands, tests, metrics, entities and consumers, collected
  from the tree for the code generator.
\<close>

section \<open>Results\<close>

datatype route_param_kind = RP_PathParam | RP_QueryParam | RP_PostParam | RP_HttpContext

record route_param_binding =
  rb_kind :: route_param_kind
  rb_name :: ident
  rb_type :: ty

record route_info =
  ri_method :: ident
  ri_path :: rstring
  ri_class_name :: ident
  ri_method_name :: ident
  ri_status_code :: "int option"
  ri_produces :: "rstring option"
  ri_consumes :: "rstring option"
  ri_auth_type :: "rstring option"
  ri_oidc_roles :: "rstring list"
  ri_is_static :: bool
  ri_params :: "route_param_binding list"
  ri_return_type :: ty

datatype di_scope = DI_Application | DI_Startup | DI_HttpRequest

record di_inject_field =
  dj_field_name :: ident
  dj_field_type :: ident

record di_component_info =
  dc_class_name :: ident
  dc_scope :: di_scope
  dc_inject_fields :: "di_inject_field list"

record config_field_info =
  cf_class_name :: ident
  cf_field_name :: ident
  cf_config_key :: rstring
  cf_field_llvm_type :: rstring

record log_mask_field_info =
  lm_class_name :: ident
  lm_field_name :: ident

record test_info =
  ti_class_name :: ident
  ti_method_name :: ident
  ti_description :: rstring

record entity_field_info =
  ef_field_name :: ident
  ef_column_name :: rstring
  ef_is_id :: bool
  ef_is_generated :: bool
  ef_not_null :: bool
  ef_field_llvm_type :: rstring

record entity_info =
  ei_class_name :: ident
  ei_table_name :: rstring
  ei_fields :: "entity_field_info list"

record cli_option_info =
  co_field_name :: ident
  co_names :: "rstring list"
  co_description :: rstring
  co_required :: bool
  co_field_type :: rstring

record cli_argument_info =
  ca_field_name :: ident
  ca_index :: nat
  ca_description :: rstring
  ca_required :: bool
  ca_field_type :: rstring

record cli_command_info =
  cm_class_name :: ident
  cm_cmd_name :: rstring
  cm_description :: rstring
  cm_version :: "rstring option"
  cm_options :: "cli_option_info list"
  cm_arguments :: "cli_argument_info list"

datatype metric_kind = MK_Timed | MK_Counted | MK_Gauge

record ws_endpoint_info =
  ws_class_name :: ident
  ws_path :: rstring
  ws_port :: "int option"
  ws_on_open :: "ident option"
  ws_on_message :: "ident option"
  ws_on_close :: "ident option"

record amqp10_consumer_info =
  a10_class_name :: ident
  a10_host :: rstring
  a10_port :: int
  a10_user :: rstring
  a10_pass :: rstring
  a10_address :: rstring
  a10_on_message :: "ident option"

record amqp091_consumer_info =
  a91_class_name :: ident
  a91_host :: rstring
  a91_port :: int
  a91_vhost :: rstring
  a91_user :: rstring
  a91_pass :: rstring
  a91_queue :: rstring
  a91_on_message :: "ident option"

record http3_controller_info =
  h3_class_name :: ident
  h3_port :: int
  h3_cert_path :: rstring
  h3_key_path :: rstring

record metric_info =
  mi_kind :: metric_kind
  mi_metric_name :: rstring
  mi_class_name :: ident
  mi_fn_name :: ident

record annotation_result =
  route_entries :: "route_info list"
  inline_functions :: "ident set"
  inline_methods :: "(ident \<times> ident) set"
  deprecated_warnings :: "rstring list"
  custom_annotation_names :: "ident list"
  di_components :: "di_component_info list"
  log_classes :: "ident set"
  config_fields :: "config_field_info list"
  sensitive_fields :: "log_mask_field_info list"
  masked_fields :: "log_mask_field_info list"
  do_not_serialize_fields :: "log_mask_field_info list"
  json_serializable_classes :: "ident list"
  cli_commands :: "cli_command_info list"
  test_entries :: "test_info list"
  metric_entries :: "metric_info list"
  entity_entries :: "entity_info list"
  ws_endpoints :: "ws_endpoint_info list"
  amqp10_consumers :: "amqp10_consumer_info list"
  amqp091_consumers :: "amqp091_consumer_info list"
  http3_rest_controllers :: "http3_controller_info list"

definition result_default :: annotation_result where
  "result_default = \<lparr>route_entries = [], inline_functions = {}, inline_methods = {}, deprecated_warnings = [],
     custom_annotation_names = [], di_components = [], log_classes = {}, config_fields = [], sensitive_fields = [],
     masked_fields = [], do_not_serialize_fields = [], json_serializable_classes = [], cli_commands = [],
     test_entries = [], metric_entries = [], entity_entries = [], ws_endpoints = [], amqp10_consumers = [],
     amqp091_consumers = [], http3_rest_controllers = []\<rparr>"

section \<open>Arguments of annotations\<close>

definition arg_at :: "nat \<Rightarrow> annotation \<Rightarrow> annotation_arg option" where
  "arg_at i a = (if i < length (ann_args a) then Some (ann_args a ! i) else None)"

fun string_of_arg :: "annotation_arg option \<Rightarrow> rstring option" where
  "string_of_arg (Some (AA_Literal (Lit_String s))) = Some s"
| "string_of_arg _ = None"

fun int_of_arg :: "annotation_arg option \<Rightarrow> int option" where
  "int_of_arg (Some (AA_Literal (Lit_Integer n))) = Some n"
| "int_of_arg _ = None"

fun bool_of_arg :: "annotation_arg option \<Rightarrow> bool option" where
  "bool_of_arg (Some (AA_Literal (Lit_Bool b))) = Some b"
| "bool_of_arg _ = None"

abbreviation "string_arg i a \<equiv> string_of_arg (arg_at i a)"
abbreviation "int_arg i a \<equiv> int_of_arg (arg_at i a)"
abbreviation "bool_arg i a \<equiv> bool_of_arg (arg_at i a)"

definition or_else :: "'a option \<Rightarrow> 'a \<Rightarrow> 'a" where
  "or_else x d = (case x of Some y \<Rightarrow> y | None \<Rightarrow> d)"

text \<open>\<^verbatim>\<open>if let Some(x) = ... { slot = Some(x) }\<close>\<close>

definition overwrite :: "'a option \<Rightarrow> 'a option \<Rightarrow> 'a option" where
  "overwrite x old = (case x of Some y \<Rightarrow> Some y | None \<Rightarrow> old)"

definition media_type_arg_to_mime :: "annotation_arg \<Rightarrow> rstring option" where
  "media_type_arg_to_mime a = (case a of
     AA_EnumValue t v \<Rightarrow>
       if t = lit ''MediaType'' then
         (if v = lit ''APPLICATION_JSON'' then Some (lit ''application/json'')
          else if v = lit ''PLAIN_TEXT'' then Some (lit ''text/plain'')
          else None)
       else None
   | AA_Literal l \<Rightarrow> (case l of Lit_String s \<Rightarrow> Some s | _ \<Rightarrow> None)
   | AA_Array _ \<Rightarrow> None)"

definition field_type_to_cli_str :: "ty \<Rightarrow> rstring" where
  "field_type_to_cli_str t = (case t of Ty_Bool \<Rightarrow> lit ''Bool'' | Ty_String \<Rightarrow> lit ''String'' | _ \<Rightarrow> lit ''Int'')"

definition field_type_to_llvm :: "ty \<Rightarrow> rstring" where
  "field_type_to_llvm t = (case t of Ty_String \<Rightarrow> lit ''i8*'' | Ty_Bool \<Rightarrow> lit ''i1'' | _ \<Rightarrow> lit ''i64'')"

text \<open>\<^verbatim>\<open>annotations.iter().find(|a| a.name == name)\<close>\<close>

definition find_annotation :: "string \<Rightarrow> annotation list \<Rightarrow> annotation option" where
  "find_annotation name as = find (\<lambda>a. ann_name a = lit name) as"

section \<open>Fields\<close>

definition collect_config_fields :: "ident \<Rightarrow> field_def list \<Rightarrow> config_field_info list" where
  "collect_config_fields class_name fs = List.map_filter (\<lambda>f.
     case find_annotation ''Config'' (fd_annotations f) of None \<Rightarrow> None | Some a \<Rightarrow>
     (case string_arg 0 a of None \<Rightarrow> None | Some key \<Rightarrow>
        Some \<lparr>cf_class_name = class_name, cf_field_name = fd_name f, cf_config_key = key,
          cf_field_llvm_type = field_type_to_llvm (fd_type f)\<rparr>)) fs"

definition collect_inject_fields :: "field_def list \<Rightarrow> di_inject_field list" where
  "collect_inject_fields fs = List.map_filter (\<lambda>f. case fd_type f of
       Ty_Named t \<Rightarrow> Some \<lparr>dj_field_name = fd_name f, dj_field_type = t\<rparr> | _ \<Rightarrow> None)
     (filter (\<lambda>f. has_annotation ''Inject'' (fd_annotations f)) fs)"

definition collect_log_mask_fields :: "string \<Rightarrow> ident \<Rightarrow> field_def list \<Rightarrow> log_mask_field_info list" where
  "collect_log_mask_fields name class_name fs =
     map (\<lambda>f. \<lparr>lm_class_name = class_name, lm_field_name = fd_name f\<rparr>)
       (filter (\<lambda>f. has_annotation name (fd_annotations f)) fs)"

text \<open>\<^verbatim>\<open>s.split(c)\<close>, \<^verbatim>\<open>i as usize\<close>, and \<^verbatim>\<open>to_lowercase\<close> on an identifier, whose characters are ASCII.\<close>

fun split_at_char :: "rchar \<Rightarrow> rstring \<Rightarrow> rstring list" where
  "split_at_char c [] = [[]]"
| "split_at_char c (x # xs) =
     (if x = c then [] # split_at_char c xs
      else case split_at_char c xs of [] \<Rightarrow> [[x]] | y # ys \<Rightarrow> (x # y) # ys)"

definition as_usize :: "int \<Rightarrow> nat" where "as_usize i = nat (i mod 2 ^ 64)"

definition ident_to_lowercase :: "ident \<Rightarrow> rstring" where "ident_to_lowercase = map ascii_lower"

definition option_names :: "rstring \<Rightarrow> rstring list" where
  "option_names s = filter (\<lambda>n. n \<noteq> []) (map trim (split_at_char (cc (CHR '','')) s))"

definition cli_option :: "field_def \<Rightarrow> annotation \<Rightarrow> cli_option_info" where
  "cli_option f a = \<lparr>co_field_name = fd_name f, co_names = option_names (or_else (string_arg 0 a) []),
     co_description = or_else (string_arg 1 a) [], co_required = or_else (bool_arg 2 a) False,
     co_field_type = field_type_to_cli_str (fd_type f)\<rparr>"

definition cli_argument :: "field_def \<Rightarrow> annotation \<Rightarrow> cli_argument_info" where
  "cli_argument f a = \<lparr>ca_field_name = fd_name f,
     ca_index = (case int_arg 0 a of Some i \<Rightarrow> as_usize i | None \<Rightarrow> 0),
     ca_description = or_else (string_arg 1 a) [], ca_required = or_else (bool_arg 2 a) False,
     ca_field_type = field_type_to_cli_str (fd_type f)\<rparr>"

definition annotated :: "string \<Rightarrow> field_def list \<Rightarrow> (field_def \<times> annotation) list" where
  "annotated name fs = concat (map (\<lambda>f. map (Pair f) (filter (\<lambda>a. ann_name a = lit name) (fd_annotations f))) fs)"

definition cli_command :: "class_def \<Rightarrow> annotation \<Rightarrow> cli_command_info" where
  "cli_command c a = \<lparr>cm_class_name = cl_name c, cm_cmd_name = or_else (string_arg 0 a) (cl_name c),
     cm_description = or_else (string_arg 1 a) [], cm_version = string_arg 2 a,
     cm_options = map (\<lambda>(f, x). cli_option f x) (annotated ''Option'' (cl_fields c)),
     cm_arguments = map (\<lambda>(f, x). cli_argument f x) (annotated ''Argument'' (cl_fields c))\<rparr>"

definition entity_field :: "field_def \<Rightarrow> entity_field_info" where
  "entity_field f = \<lparr>ef_field_name = fd_name f,
     ef_column_name = or_else (Option.bind (find_annotation ''Column'' (fd_annotations f)) (string_arg 0)) (fd_name f),
     ef_is_id = has_annotation ''Id'' (fd_annotations f),
     ef_is_generated = has_annotation ''GeneratedValue'' (fd_annotations f),
     ef_not_null = has_annotation ''NotNull'' (fd_annotations f),
     ef_field_llvm_type = field_type_to_llvm (fd_type f)\<rparr>"

definition entity_of :: "class_def \<Rightarrow> entity_info list" where
  "entity_of c =
     (if list_ex (\<lambda>a. ann_name a = lit ''Entity'' \<or> ann_name a = lit ''Table'') (cl_annotations c) then
        [\<lparr>ei_class_name = cl_name c,
          ei_table_name = or_else (Option.bind (find_annotation ''Table'' (cl_annotations c)) (string_arg 0))
            (ident_to_lowercase (cl_name c)),
          ei_fields = map entity_field (cl_fields c)\<rparr>]
      else [])"

section \<open>Routes\<close>

text \<open>The variables of \<^verbatim>\<open>extract_route_from_method\<close>\<close>

record route_vars =
  rv_http_method :: "ident option"
  rv_method_path :: "rstring option"
  rv_status_code :: "int option"
  rv_produces :: "rstring option"
  rv_consumes :: "rstring option"
  rv_auth :: "rstring option"
  rv_oidc_roles :: "rstring list"

definition string_items :: "annotation_arg list \<Rightarrow> rstring list" where
  "string_items items = List.map_filter (\<lambda>i. string_of_arg (Some i)) items"

definition route_annotation :: "annotation \<Rightarrow> route_vars \<Rightarrow> route_vars" where
  "route_annotation a v =
     (let n = ann_name a in
      if is_verb n then v\<lparr>rv_http_method := Some n, rv_method_path := overwrite (string_arg 0 a) (rv_method_path v)\<rparr>
      else if n = lit ''Path'' then v\<lparr>rv_method_path := overwrite (string_arg 0 a) (rv_method_path v)\<rparr>
      else if n = lit ''StatusCode'' then v\<lparr>rv_status_code := overwrite (int_arg 0 a) (rv_status_code v)\<rparr>
      else if n = lit ''Produces'' then v\<lparr>rv_produces := Option.bind (arg_at 0 a) media_type_arg_to_mime\<rparr>
      else if n = lit ''Consumes'' then v\<lparr>rv_consumes := Option.bind (arg_at 0 a) media_type_arg_to_mime\<rparr>
      else if n = lit ''Auth'' then v\<lparr>rv_auth := overwrite (string_arg 0 a) (rv_auth v)\<rparr>
      else if n = lit ''OIDCRolesAllowed'' then
        (case arg_at 0 a of Some (AA_Array items) \<Rightarrow> v\<lparr>rv_oidc_roles := string_items items\<rparr> | _ \<Rightarrow> v)
      else v)"

definition join_path :: "rstring option \<Rightarrow> rstring \<Rightarrow> rstring" where
  "join_path base p = (case base of
     None \<Rightarrow> p
   | Some b \<Rightarrow>
       if p = [] then b
       else if ends_with [SLASH] b \<and> starts_with [SLASH] p then butlast b @ p
       else if ends_with [SLASH] b \<or> starts_with [SLASH] p then b @ p
       else b @ [SLASH] @ p)"

definition binding_kind :: "ident \<Rightarrow> route_param_kind option" where
  "binding_kind n =
     (if n = lit ''PathParam'' then Some RP_PathParam
      else if n = lit ''QueryParam'' then Some RP_QueryParam
      else if n = lit ''PostParam'' then Some RP_PostParam
      else if n = lit ''HttpContext'' then Some RP_HttpContext
      else None)"

text \<open>\<^verbatim>\<open>iter().find_map(f)\<close>\<close>

fun find_map :: "('a \<Rightarrow> 'b option) \<Rightarrow> 'a list \<Rightarrow> 'b option" where
  "find_map f [] = None"
| "find_map f (x # xs) = (case f x of Some y \<Rightarrow> Some y | None \<Rightarrow> find_map f xs)"

definition route_param :: "param \<Rightarrow> route_param_binding option" where
  "route_param p = map_option (\<lambda>k. \<lparr>rb_kind = k, rb_name = param_name p, rb_type = param_type p\<rparr>)
     (find_map (\<lambda>a. binding_kind (ann_name a)) (param_annotations p))"

definition extract_route_from_method ::
  "method_def \<Rightarrow> ident \<Rightarrow> rstring option \<Rightarrow> rstring option \<Rightarrow> route_info option" where
  "extract_route_from_method m class_name base auth =
     (let v = fold route_annotation (me_annotations m)
        \<lparr>rv_http_method = None, rv_method_path = None, rv_status_code = None, rv_produces = None,
         rv_consumes = None, rv_auth = auth, rv_oidc_roles = []\<rparr>
      in case rv_http_method v of
        None \<Rightarrow> None
      | Some verb \<Rightarrow> Some \<lparr>ri_method = verb, ri_path = join_path base (or_else (rv_method_path v) []),
          ri_class_name = class_name, ri_method_name = me_name m, ri_status_code = rv_status_code v,
          ri_produces = rv_produces v, ri_consumes = rv_consumes v, ri_auth_type = rv_auth v,
          ri_oidc_roles = rv_oidc_roles v, ri_is_static = me_static m,
          ri_params = List.map_filter route_param (me_params m), ri_return_type = me_ret_type m\<rparr>)"

section \<open>Classes\<close>

text \<open>The variables of \<^verbatim>\<open>process_class_annotations\<close>, with the result it extends\<close>

record class_vars =
  cv_base_path :: "rstring option"
  cv_auth :: "rstring option"
  cv_di_scope :: "di_scope option"
  cv_ws_path :: "rstring option"
  cv_ws_port :: "int option"
  cv_amqp10 :: "(rstring \<times> int \<times> rstring \<times> rstring \<times> rstring) option"
  cv_amqp091 :: "(rstring \<times> int \<times> rstring \<times> rstring \<times> rstring \<times> rstring) option"
  cv_http3 :: "(int \<times> rstring \<times> rstring) option"
  cv_result :: annotation_result

definition amqp10_args :: "annotation \<Rightarrow> (rstring \<times> int \<times> rstring \<times> rstring \<times> rstring) option" where
  "amqp10_args a = (case (string_arg 0 a, int_arg 1 a, string_arg 2 a, string_arg 3 a, string_arg 4 a) of
     (Some host, Some port, Some user, Some pass, Some address) \<Rightarrow> Some (host, port, user, pass, address)
   | _ \<Rightarrow> None)"

definition amqp091_args :: "annotation \<Rightarrow> (rstring \<times> int \<times> rstring \<times> rstring \<times> rstring \<times> rstring) option" where
  "amqp091_args a =
     (case (string_arg 0 a, int_arg 1 a, string_arg 2 a, string_arg 3 a, string_arg 4 a, string_arg 5 a) of
        (Some host, Some port, Some vhost, Some user, Some pass, Some queue) \<Rightarrow>
          Some (host, port, vhost, user, pass, queue)
      | _ \<Rightarrow> None)"

definition http3_args :: "annotation \<Rightarrow> (int \<times> rstring \<times> rstring) option" where
  "http3_args a = (case (int_arg 0 a, string_arg 1 a, string_arg 2 a) of
     (Some port, Some cert, Some key) \<Rightarrow> Some (port, cert, key)
   | _ \<Rightarrow> None)"

abbreviation QUOTE :: rchar where "QUOTE \<equiv> 39"

definition deprecation :: "rstring \<Rightarrow> rstring \<Rightarrow> annotation \<Rightarrow> rstring" where
  "deprecation what name a = what @ [32, QUOTE] @ name @ [QUOTE] @ lit '' is deprecated''
     @ (case string_arg 0 a of Some s \<Rightarrow> lit '': '' @ s | None \<Rightarrow> [])"

definition push_deprecated :: "rstring \<Rightarrow> annotation_result \<Rightarrow> annotation_result" where
  "push_deprecated w r = r\<lparr>deprecated_warnings := deprecated_warnings r @ [w]\<rparr>"

definition class_annotation :: "class_def \<Rightarrow> annotation \<Rightarrow> class_vars \<Rightarrow> class_vars" where
  "class_annotation c a v =
     (let n = ann_name a; r = cv_result v in
      if n = lit ''Path'' then v\<lparr>cv_base_path := overwrite (string_arg 0 a) (cv_base_path v)\<rparr>
      else if n = lit ''WebsocketEndpoint'' then
        v\<lparr>cv_ws_path := overwrite (string_arg 0 a) (cv_ws_path v), cv_ws_port := overwrite (int_arg 1 a) (cv_ws_port v)\<rparr>
      else if n = lit ''Amqp10Consumer'' then v\<lparr>cv_amqp10 := overwrite (amqp10_args a) (cv_amqp10 v)\<rparr>
      else if n = lit ''Amqp091Consumer'' then v\<lparr>cv_amqp091 := overwrite (amqp091_args a) (cv_amqp091 v)\<rparr>
      else if n = lit ''Http3RestController'' then v\<lparr>cv_http3 := overwrite (http3_args a) (cv_http3 v)\<rparr>
      else if n = lit ''Auth'' then v\<lparr>cv_auth := overwrite (string_arg 0 a) (cv_auth v)\<rparr>
      else if n = lit ''deprecated'' then v\<lparr>cv_result := push_deprecated (deprecation (lit ''class'') (cl_name c) a) r\<rparr>
      else if n = lit ''annotation'' then
        v\<lparr>cv_result := r\<lparr>custom_annotation_names := custom_annotation_names r @ [cl_name c]\<rparr>\<rparr>
      else if n = lit ''ApplicationComponent'' then v\<lparr>cv_di_scope := Some DI_Application\<rparr>
      else if n = lit ''Startup'' then v\<lparr>cv_di_scope := Some DI_Startup\<rparr>
      else if n = lit ''HttpRequestScoped'' then v\<lparr>cv_di_scope := Some DI_HttpRequest\<rparr>
      else if n = lit ''Log'' then v\<lparr>cv_result := r\<lparr>log_classes := insert (cl_name c) (log_classes r)\<rparr>\<rparr>
      else if n = lit ''Command'' then
        v\<lparr>cv_result := r\<lparr>cli_commands := cli_commands r @ [cli_command c a]\<rparr>\<rparr>
      else v)"

definition class_vars_of :: "class_def \<Rightarrow> annotation_result \<Rightarrow> class_vars" where
  "class_vars_of c r = fold (class_annotation c) (cl_annotations c)
     \<lparr>cv_base_path = None, cv_auth = None, cv_di_scope = None, cv_ws_path = None, cv_ws_port = None,
      cv_amqp10 = None, cv_amqp091 = None, cv_http3 = None, cv_result = r\<rparr>"

text \<open>The part of the class that does not depend on its methods\<close>

definition process_class_fields :: "class_def \<Rightarrow> di_scope option \<Rightarrow> annotation_result \<Rightarrow> annotation_result" where
  "process_class_fields c scope r =
     (let name = cl_name c; fs = cl_fields c in
      r\<lparr>di_components := di_components r @ (case scope of None \<Rightarrow> [] | Some s \<Rightarrow>
          [\<lparr>dc_class_name = name, dc_scope = s, dc_inject_fields = collect_inject_fields fs\<rparr>]),
        config_fields := config_fields r @ collect_config_fields name fs,
        sensitive_fields := sensitive_fields r @ collect_log_mask_fields ''Sensitive'' name fs,
        masked_fields := masked_fields r @ collect_log_mask_fields ''Masked'' name fs,
        do_not_serialize_fields := do_not_serialize_fields r @ collect_log_mask_fields ''DoNotSerialize'' name fs,
        json_serializable_classes := json_serializable_classes r
          @ (if has_annotation ''JsonSerializable'' (cl_annotations c) then [name] else []),
        entity_entries := entity_entries r @ entity_of c\<rparr>)"

definition metric :: "annotation \<Rightarrow> rstring \<Rightarrow> ident \<Rightarrow> ident \<Rightarrow> metric_info" where
  "metric a label class_name f =
     \<lparr>mi_kind = (if ann_name a = lit ''Timed'' then MK_Timed else MK_Counted),
      mi_metric_name = or_else (string_arg 0 a) label, mi_class_name = class_name, mi_fn_name = f\<rparr>"

definition method_annotation :: "ident \<Rightarrow> method_def \<Rightarrow> annotation \<Rightarrow> annotation_result \<Rightarrow> annotation_result" where
  "method_annotation class_name m a r =
     (let n = ann_name a in
      if n = lit ''inline'' then r\<lparr>inline_methods := insert (class_name, me_name m) (inline_methods r)\<rparr>
      else if n = lit ''deprecated'' then
        push_deprecated (deprecation (lit ''method'') (class_name @ lit ''.'' @ me_name m) a) r
      else if n = lit ''Test'' then
        r\<lparr>test_entries := test_entries r @ [\<lparr>ti_class_name = class_name, ti_method_name = me_name m,
            ti_description = or_else (string_arg 0 a) (me_name m)\<rparr>]\<rparr>
      else if n = lit ''Timed'' \<or> n = lit ''Counted'' then
        r\<lparr>metric_entries := metric_entries r
            @ [metric a (class_name @ lit ''_'' @ me_name m) class_name (me_name m)]\<rparr>
      else r)"

definition process_method :: "ident \<Rightarrow> rstring option \<Rightarrow> rstring option \<Rightarrow> method_def \<Rightarrow> annotation_result \<Rightarrow> annotation_result" where
  "process_method class_name base auth m r =
     fold (method_annotation class_name m) (me_annotations m)
       (r\<lparr>route_entries := route_entries r
           @ (case extract_route_from_method m class_name base auth of None \<Rightarrow> [] | Some i \<Rightarrow> [i])\<rparr>)"

text \<open>The last method with the annotation, as the loops over the methods leave it\<close>

definition last_method :: "string \<Rightarrow> method_def list \<Rightarrow> ident option" where
  "last_method name ms = fold (\<lambda>m found. fold (\<lambda>a found. if ann_name a = lit name then Some (me_name m) else found)
     (me_annotations m) found) ms None"

definition process_endpoints :: "class_def \<Rightarrow> class_vars \<Rightarrow> annotation_result \<Rightarrow> annotation_result" where
  "process_endpoints c v r =
     (let name = cl_name c; ms = cl_methods c in
      r\<lparr>ws_endpoints := ws_endpoints r @ (case cv_ws_path v of None \<Rightarrow> [] | Some path \<Rightarrow>
          [\<lparr>ws_class_name = name, ws_path = path, ws_port = cv_ws_port v, ws_on_open = last_method ''OnOpen'' ms,
            ws_on_message = last_method ''OnMessage'' ms, ws_on_close = last_method ''OnClose'' ms\<rparr>]),
        amqp10_consumers := amqp10_consumers r @ (case cv_amqp10 v of None \<Rightarrow> [] | Some (host, port, user, pass, address) \<Rightarrow>
          [\<lparr>a10_class_name = name, a10_host = host, a10_port = port, a10_user = user, a10_pass = pass,
            a10_address = address, a10_on_message = last_method ''OnMessage'' ms\<rparr>]),
        amqp091_consumers := amqp091_consumers r
          @ (case cv_amqp091 v of None \<Rightarrow> [] | Some (host, port, vhost, user, pass, queue) \<Rightarrow>
          [\<lparr>a91_class_name = name, a91_host = host, a91_port = port, a91_vhost = vhost, a91_user = user,
            a91_pass = pass, a91_queue = queue, a91_on_message = last_method ''OnMessage'' ms\<rparr>]),
        http3_rest_controllers := http3_rest_controllers r
          @ (case cv_http3 v of None \<Rightarrow> [] | Some (port, cert, key) \<Rightarrow>
          [\<lparr>h3_class_name = name, h3_port = port, h3_cert_path = cert, h3_key_path = key\<rparr>])\<rparr>)"

definition process_class_annotations :: "class_def \<Rightarrow> annotation_result \<Rightarrow> annotation_result" where
  "process_class_annotations c r =
     (let v = class_vars_of c r in
      process_endpoints c v
        (fold (process_method (cl_name c) (cv_base_path v) (cv_auth v)) (cl_methods c)
          (process_class_fields c (cv_di_scope v) (cv_result v))))"

section \<open>Functions, namespaces, programs\<close>

definition function_annotation :: "function_def \<Rightarrow> annotation \<Rightarrow> annotation_result \<Rightarrow> annotation_result" where
  "function_annotation f a r =
     (let n = ann_name a in
      if n = lit ''inline'' then r\<lparr>inline_functions := insert (fn_name f) (inline_functions r)\<rparr>
      else if n = lit ''deprecated'' then push_deprecated (deprecation (lit ''function'') (fn_name f) a) r
      else if n = lit ''Timed'' \<or> n = lit ''Counted'' then
        r\<lparr>metric_entries := metric_entries r @ [metric a (fn_name f) [] (fn_name f)]\<rparr>
      else r)"

definition process_function_annotations :: "function_def \<Rightarrow> annotation_result \<Rightarrow> annotation_result" where
  "process_function_annotations f = fold (function_annotation f) (fn_annotations f)"

primrec process_decl :: "decl_kind \<Rightarrow> annotation_result \<Rightarrow> annotation_result" where
  "process_decl (D_Function f) = process_function_annotations f"
| "process_decl (D_Class c) = process_class_annotations c"
| "process_decl (D_Interface i) = id"
| "process_decl (D_Enum e) = id"
| "process_decl (D_Trait t) = id"
| "process_decl (D_Import i) = id"
| "process_decl (D_Module n) = id"
| "process_decl (D_Namespace ns) = fold node (ns_decls (map_namespace (map_spanned process_decl) ns))"
| "process_decl (D_Immutable d) = id"

definition process_annotations :: "source_file \<Rightarrow> annotation_result" where
  "process_annotations sf = fold (\<lambda>d. process_decl (node d)) (sf_decls sf) result_default"

end
