(* ===== verification/Tinox_Compile.thy ===== *)
theory Tinox_Compile
  imports Tinox_Imports Tinox_Typecheck_Props Tinox_Annotation_Process
begin

text \<open>
  \<^verbatim>\<open>compile_file\<close> of \<^verbatim>\<open>src/crates/tinox/src/main.rs\<close> up to the code generator: the front end, the numbering,
  the type checker on the merged tree, the processing of annotations and the checks on their result. Two
  things come from outside: the value of the environment variable \<^verbatim>\<open>TINOX_PORT\<close>, where it is a number, and the
  order in which the ports are looked at (a \<^verbatim>\<open>HashMap\<close>).
\<close>

datatype compile_error =
  CE_Front import_error
| CE_Type "type_msg error_bag"
| CE_NoMain rstring
| CE_PortClash int "ident list"
| CE_ManyHttp3 nat "ident list"

text \<open>What the code generator is given\<close>

record codegen_input =
  ci_tree :: source_file
  ci_interfaces :: "(ident \<rightharpoonup> ident list) \<times> (ident \<rightharpoonup> ident list)"
  ci_types :: "u32 \<rightharpoonup> value_type"
  ci_annotations :: annotation_result

definition endpoint_port :: "int option \<Rightarrow> ws_endpoint_info \<Rightarrow> int" where
  "endpoint_port env e = (case ws_port e of Some p \<Rightarrow> p | None \<Rightarrow> (case env of Some p \<Rightarrow> p | None \<Rightarrow> 8080))"

definition classes_on :: "int option \<Rightarrow> ws_endpoint_info list \<Rightarrow> int \<Rightarrow> ident list" where
  "classes_on env es p = map ws_class_name (filter (\<lambda>e. endpoint_port env e = p) es)"

type_synonym port_order = "int list \<Rightarrow> int list"

definition port_clash :: "port_order \<Rightarrow> int option \<Rightarrow> ws_endpoint_info list \<Rightarrow> int option" where
  "port_clash order env es =
     find (\<lambda>p. 1 < length (classes_on env es p)) (order (remdups (map (endpoint_port env) es)))"

definition http3_clash :: "annotation_result \<Rightarrow> compile_error option" where
  "http3_clash ann = (let hs = http3_rest_controllers ann in
     if 1 < length hs then Some (CE_ManyHttp3 (length hs) (map h3_class_name hs)) else None)"

definition check_endpoints ::
  "port_order \<Rightarrow> int option \<Rightarrow> rstring \<Rightarrow> decl list \<Rightarrow> annotation_result \<Rightarrow> compile_error option" where
  "check_endpoints order env input ds ann =
     (if cli_commands ann = [] \<and> \<not> has_class_named_main ds then Some (CE_NoMain input)
      else case port_clash order env (ws_endpoints ann) of
        Some p \<Rightarrow> Some (CE_PortClash p (classes_on env (ws_endpoints ann) p))
      | None \<Rightarrow> http3_clash ann)"

definition compile_to_codegen ::
  "nat \<Rightarrow> file_env \<Rightarrow> rstring list \<times> coord list \<Rightarrow> hash_order \<Rightarrow> port_order \<Rightarrow> int option \<Rightarrow> rstring \<Rightarrow>
     (compile_error + codegen_input) option" where
  "compile_to_codegen n fe deps order ports env input =
     (case compile_front n fe deps input of
        None \<Rightarrow> None
      | Some (Inl e) \<Rightarrow> Some (Inl (CE_Front e))
      | Some (Inr (sf, _)) \<Rightarrow>
         (case tc_check order sf checker_new of
            None \<Rightarrow> None
          | Some (Inl bag, _) \<Rightarrow> Some (Inl (CE_Type bag))
          | Some (Inr _, s) \<Rightarrow>
             (let ann = process_annotations sf in
              case check_endpoints ports env input (sf_decls sf) ann of
                Some e \<Rightarrow> Some (Inl e)
              | None \<Rightarrow> Some (Inr \<lparr>ci_tree = sf, ci_interfaces = interface_info s,
                  ci_types = expr_value_types s, ci_annotations = ann\<rparr>))))"

section \<open>The parts end\<close>

lemma compile_front_total:
  assumes "finite (canonical fe)" "card (canonical fe) < n"
  shows "compile_front n fe deps input \<noteq> None"
proof (cases "load_source fe input")
  case (Inr decls)
  let ?v = "set_option (fe_canonicalize fe input)"
  have "card (canonical fe - ?v) < n" using assms by (meson Diff_subset card_mono le_less_trans)
  then have "resolve_imports n fe (fst deps) (snd deps) decls (parent_path input) ?v \<noteq> None"
    by (rule resolve_imports_total [OF assms(1)])
  then show ?thesis using Inr by (auto simp: compile_front_def)
qed (simp add: compile_front_def)

lemma tc_check_returns:
  assumes "classes_end (superclasses [sf])"
  shows "\<exists>r s. tc_check order sf checker_new = Some (r, s)
    \<and> (case r of Inr sf' \<Rightarrow> sf' = sf \<and> validate_annotations sf = [] | Inl bag \<Rightarrow> bag_errors bag \<noteq> [])"
  using typecheck_total [of "[]" sf order] assms by (auto simp: typecheck_with_prelude_def)

lemma distinct_iff_filter: "distinct xs \<longleftrightarrow> (\<forall>p. length (filter (\<lambda>q. q = p) xs) \<le> 1)"
proof (induction xs)
  case (Cons x xs)
  have one: "length (filter (\<lambda>q. q = x) xs) = 0 \<longleftrightarrow> x \<notin> set xs" by (auto simp: filter_empty_conv)
  show ?case
  proof
    assume d: "distinct (x # xs)"
    then have "filter (\<lambda>q. q = x) xs = []" using one by simp
    moreover have "\<forall>p. length (filter (\<lambda>q. q = p) xs) \<le> 1" using d Cons.IH by simp
    ultimately show "\<forall>p. length (filter (\<lambda>q. q = p) (x # xs)) \<le> 1" by simp
  next
    assume a: "\<forall>p. length (filter (\<lambda>q. q = p) (x # xs)) \<le> 1"
    have "length (filter (\<lambda>q. q = p) xs) \<le> 1" for p
      using spec [OF a, of p] by (cases "x = p") simp_all
    moreover have "length (filter (\<lambda>q. q = x) xs) = 0" using spec [OF a, of x] by simp
    ultimately show "distinct (x # xs)" using Cons.IH one by simp
  qed
qed simp

lemma port_clash_None:
  assumes "\<forall>ps. set (order ps) = set ps" and none: "port_clash order env es = None"
  shows "distinct (map (endpoint_port env) es)"
  unfolding distinct_iff_filter
proof
  fix p
  let ?g = "endpoint_port env"
  have a: "\<forall>q \<in> ?g ` set es. length (filter (\<lambda>e. ?g e = q) es) \<le> 1"
    using none assms(1) by (auto simp: port_clash_def find_None_iff classes_on_def not_less)
  have e: "length (filter (\<lambda>q. q = p) (map ?g es)) = length (filter (\<lambda>e. ?g e = p) es)"
    by (simp add: filter_map comp_def)
  show "length (filter (\<lambda>q. q = p) (map ?g es)) \<le> 1"
  proof (cases "p \<in> ?g ` set es")
    case True
    then show ?thesis using bspec [OF a True] e by simp
  next
    case False
    then have "filter (\<lambda>e. ?g e = p) es = []" by (auto simp: filter_empty_conv)
    then show ?thesis using e by simp
  qed
qed

section \<open>An empty program\<close>

lemma empty_source: "load_source two_files p = Inr []"
proof -
  have "collect_type_decl_names [] = []" "collect_top_level_fn_names [] = []" "\<And>f. stamp_file_identity_with [] f = []" by code_simp+
  then show ?thesis
    by (simp add: load_source_def two_files_def parse_empty_source source_file_new_def check_one_type_per_file_def
        check_no_top_level_fn_def bind_result_def stamp_file_identity_def)
qed

lemma empty_program: "compile_front 3 two_files ([], []) (lit ''/a.tnx'') = Some (Inr (source_file_new [], 1))"
proof -
  have "resolve_imports (Suc n) two_files [] [] [] b v = Some (Inr ([], v))" for n b v
    by (simp add: imports_of_def own_decls_def)
  then have "resolve_imports 3 two_files [] [] [] b v = Some (Inr ([], v))" for b v
    by (metis numeral_3_eq_3)
  moreover have "assign_node_ids (source_file_new []) = (source_file_new [], 1)"
    by (simp add: assign_node_ids_def source_file_new_def)
  ultimately show ?thesis by (simp add: compile_front_def empty_source)
qed

lemma empty_classes_end: "classes_end (superclasses [source_file_new []])"
  by (simp add: superclasses_def classes_end_def parent_rel_def source_file_new_def flatten_decls_def)

end
