(* ===== verification/Tinox_Annotation_Props.thy ===== *)
theory Tinox_Annotation_Props
  imports Tinox_Annotation_Process
begin

text \<open>
  What the processing of annotations may rely on once they are validated: the routes that the code generator
  gets bind every parameter of their handler, in order and with a type that can be bound.
\<close>

section \<open>The classes of a program\<close>

primrec classes_in :: "decl_kind \<Rightarrow> class_def set" where
  "classes_in (D_Function f) = {}"
| "classes_in (D_Class c) = {c}"
| "classes_in (D_Interface i) = {}"
| "classes_in (D_Enum e) = {}"
| "classes_in (D_Trait t) = {}"
| "classes_in (D_Import i) = {}"
| "classes_in (D_Module n) = {}"
| "classes_in (D_Namespace ns) = \<Union> (set (map node (ns_decls (map_namespace (map_spanned classes_in) ns))))"
| "classes_in (D_Immutable d) = {}"

definition program_classes :: "source_file \<Rightarrow> class_def set" where
  "program_classes sf = (\<Union>d \<in> set (sf_decls sf). classes_in (node d))"

lemma nodes_of_namespace:
  "map node (ns_decls (map_namespace (map_spanned f) ns)) = map (\<lambda>d. f (node d)) (ns_decls ns)"
  by (cases ns) (simp add: spanned.map_sel comp_def)

lemma namespace_member: "d \<in> set (ns_decls ns) \<Longrightarrow> d \<in> set_namespace ns" "node d \<in> set_spanned d"
  by (cases ns, simp) (cases d, simp)

lemma fold_nodes: "fold node xs = fold (\<lambda>f. f) (map node xs)"
  by (induction xs) simp_all

section \<open>Routes come from methods\<close>

definition is_route_of :: "class_def set \<Rightarrow> route_info \<Rightarrow> bool" where
  "is_route_of cs ri \<longleftrightarrow> (\<exists>c \<in> cs. \<exists>m \<in> set (cl_methods c). \<exists>base auth.
     extract_route_from_method m (cl_name c) base auth = Some ri)"

definition adds_routes :: "class_def set \<Rightarrow> (annotation_result \<Rightarrow> annotation_result) \<Rightarrow> bool" where
  "adds_routes cs f \<longleftrightarrow> (\<forall>r. set (route_entries (f r)) \<subseteq> set (route_entries r) \<union> Collect (is_route_of cs))"

lemma adds_routes_mono: "adds_routes cs f \<Longrightarrow> cs \<subseteq> ds \<Longrightarrow> adds_routes ds f"
  unfolding adds_routes_def is_route_of_def by blast

lemma adds_routes_id [simp]: "adds_routes cs id" "adds_routes cs (\<lambda>r. r)"
  by (simp_all add: adds_routes_def)

lemma adds_routes_comp: "adds_routes cs f \<Longrightarrow> adds_routes cs g \<Longrightarrow> adds_routes cs (\<lambda>r. g (f r))"
  unfolding adds_routes_def by blast

lemma adds_routes_fold: "(\<And>x. x \<in> set xs \<Longrightarrow> adds_routes cs (h x)) \<Longrightarrow> adds_routes cs (fold h xs)"
proof (induction xs)
  case (Cons x xs)
  then have "adds_routes cs (h x)" "adds_routes cs (fold h xs)" by simp_all
  from adds_routes_comp [OF this] show ?case by (simp add: comp_def)
qed simp

lemma adds_routes_keep: "(\<And>r. route_entries (f r) = route_entries r) \<Longrightarrow> adds_routes cs f"
  by (simp add: adds_routes_def)

lemma routes_method_annotation [simp]: "route_entries (method_annotation n m a r) = route_entries r"
  by (simp add: method_annotation_def push_deprecated_def Let_def del: lit_simps)

lemma routes_function_annotation [simp]: "route_entries (function_annotation f a r) = route_entries r"
  by (simp add: function_annotation_def push_deprecated_def Let_def del: lit_simps)

lemma routes_class_annotation: "route_entries (cv_result (class_annotation c a v)) = route_entries (cv_result v)"
  by (simp add: class_annotation_def push_deprecated_def Let_def del: lit_simps)

lemma routes_class_vars: "route_entries (cv_result (class_vars_of c r)) = route_entries r"
proof -
  have "route_entries (cv_result (fold (class_annotation c) as v)) = route_entries (cv_result v)" for as v
    by (induction as arbitrary: v) (simp_all add: routes_class_annotation)
  then show ?thesis by (simp add: class_vars_of_def)
qed

lemma adds_routes_method:
  assumes "c \<in> cs" "m \<in> set (cl_methods c)"
  shows "adds_routes cs (process_method (cl_name c) base auth m)"
proof -
  let ?i = "extract_route_from_method m (cl_name c) base auth"
  let ?f = "\<lambda>r. r\<lparr>route_entries := route_entries r @ (case ?i of None \<Rightarrow> [] | Some i \<Rightarrow> [i])\<rparr>"
  have r: "is_route_of cs ri" if "?i = Some ri" for ri
    using assms that unfolding is_route_of_def by blast
  have f: "adds_routes cs ?f" using r by (auto simp: adds_routes_def split: option.splits)
  have g: "adds_routes cs (fold (method_annotation (cl_name c) m) (me_annotations m))"
    by (intro adds_routes_fold adds_routes_keep) simp
  have "process_method (cl_name c) base auth m
      = (\<lambda>r. fold (method_annotation (cl_name c) m) (me_annotations m) (?f r))"
    by (simp add: fun_eq_iff process_method_def)
  then show ?thesis using adds_routes_comp [OF f g] by simp
qed

lemma adds_routes_class: "c \<in> cs \<Longrightarrow> adds_routes cs (process_class_annotations c)"
proof -
  assume c: "c \<in> cs"
  have m: "adds_routes cs (fold (process_method (cl_name c) base auth) (cl_methods c))" for base auth
    using c by (intro adds_routes_fold adds_routes_method) simp_all
  have "route_entries (process_endpoints c v r) = route_entries r" for v r
    by (simp add: process_endpoints_def Let_def)
  moreover have "route_entries (process_class_fields c d r) = route_entries r" for d r
    by (simp add: process_class_fields_def Let_def)
  ultimately show ?thesis
    using m by (simp add: adds_routes_def process_class_annotations_def Let_def)
      (metis routes_class_vars)
qed

lemma adds_routes_decl: "adds_routes (classes_in d) (process_decl d)"
proof (induction d)
  case (D_Namespace ns)
  let ?cs = "classes_in (D_Namespace ns)"
  have "adds_routes ?cs (process_decl (node d))" if "d \<in> set (ns_decls ns)" for d
  proof (rule adds_routes_mono)
    show "adds_routes (classes_in (node d)) (process_decl (node d))"
      using D_Namespace namespace_member that by blast
    show "classes_in (node d) \<subseteq> ?cs" using that by (auto simp: nodes_of_namespace)
  qed
  then have "adds_routes ?cs (fold (\<lambda>f. f) (map (\<lambda>d. process_decl (node d)) (ns_decls ns)))"
    by (intro adds_routes_fold) auto
  then show ?case by (simp add: fold_nodes nodes_of_namespace)
qed (simp_all add: adds_routes_class adds_routes_fold adds_routes_keep process_function_annotations_def)

lemma process_annotations_routes:
  assumes "ri \<in> set (route_entries (process_annotations sf))" shows "is_route_of (program_classes sf) ri"
proof -
  have "adds_routes (program_classes sf) (\<lambda>r. fold (\<lambda>d. process_decl (node d)) (sf_decls sf) r)"
    by (intro adds_routes_fold adds_routes_mono [OF adds_routes_decl]) (auto simp: program_classes_def)
  then have "set (route_entries (process_annotations sf))
      \<subseteq> set (route_entries result_default) \<union> Collect (is_route_of (program_classes sf))"
    by (simp add: adds_routes_def process_annotations_def)
  moreover have "route_entries result_default = []" by (simp add: result_default_def)
  ultimately show ?thesis using assms by auto
qed

section \<open>Validated methods\<close>

lemma validated_method:
  "validate_decl reg js d = [] \<Longrightarrow> c \<in> classes_in d \<Longrightarrow> m \<in> set (cl_methods c) \<Longrightarrow> validate_route_params js m = []"
proof (induction d)
  case (D_Namespace ns)
  then obtain d where d: "d \<in> set (ns_decls ns)" "c \<in> classes_in (node d)" by (auto simp: nodes_of_namespace)
  moreover have "validate_decl reg js (node d) = []" using D_Namespace.prems(1) d(1) by (simp add: nodes_of_namespace)
  ultimately show ?case using D_Namespace.IH namespace_member D_Namespace.prems(3) by blast
qed (simp_all add: validate_method_def)

lemma verb_of_annotations:
  "\<not> list_ex (\<lambda>a. is_verb (ann_name a)) as \<Longrightarrow>
   rv_http_method (fold route_annotation as v) = rv_http_method v"
proof (induction as arbitrary: v)
  case (Cons a as)
  then have "rv_http_method (route_annotation a v) = rv_http_method v"
    by (simp add: route_annotation_def Let_def split: option.splits annotation_arg.splits)
  then show ?case using Cons by simp
qed simp

lemma extracted_route:
  assumes "extract_route_from_method m n base auth = Some ri"
  shows "list_ex (\<lambda>a. is_verb (ann_name a)) (me_annotations m)" "ri_class_name ri = n"
    "ri_method_name ri = me_name m" "ri_return_type ri = me_ret_type m"
    "ri_params ri = List.map_filter route_param (me_params m)"
proof -
  let ?v = "\<lparr>rv_http_method = None, rv_method_path = None, rv_status_code = None, rv_produces = None,
         rv_consumes = None, rv_auth = auth, rv_oidc_roles = []\<rparr>"
  have "rv_http_method (fold route_annotation (me_annotations m) ?v) \<noteq> rv_http_method ?v"
    using assms by (auto simp: extract_route_from_method_def Let_def split: option.splits)
  then show "list_ex (\<lambda>a. is_verb (ann_name a)) (me_annotations m)" using verb_of_annotations by blast
qed (use assms in \<open>auto simp: extract_route_from_method_def Let_def split: option.splits\<close>)

section \<open>Bindings\<close>

fun kind_name :: "route_param_kind \<Rightarrow> ident" where
  "kind_name RP_PathParam = lit ''PathParam''"
| "kind_name RP_QueryParam = lit ''QueryParam''"
| "kind_name RP_PostParam = lit ''PostParam''"
| "kind_name RP_HttpContext = lit ''HttpContext''"

fun bindable :: "ident set \<Rightarrow> route_param_kind \<Rightarrow> ty \<Rightarrow> bool" where
  "bindable js RP_PathParam t = is_supported_param_scalar_type t"
| "bindable js RP_QueryParam t = is_supported_param_scalar_type t"
| "bindable js RP_PostParam t = is_json_serializable_class_type js t"
| "bindable js RP_HttpContext t = is_http_context_type t"

definition binds :: "ident set \<Rightarrow> param \<Rightarrow> route_param_binding \<Rightarrow> bool" where
  "binds js p b \<longleftrightarrow> rb_name b = param_name p \<and> rb_type b = param_type p \<and> bindable js (rb_kind b) (rb_type b)
     \<and> map ann_name (filter (\<lambda>a. is_binding (ann_name a)) (param_annotations p)) = [kind_name (rb_kind b)]"

lemma binding_kind_name: "is_binding n \<longleftrightarrow> (\<exists>k. binding_kind n = Some k)" "binding_kind n = Some k \<Longrightarrow> kind_name k = n"
  by (auto simp: is_binding_def binding_kind_def split: if_splits)

lemma check_binding_kind: "binding_kind n = Some k \<Longrightarrow> check_binding js p n = [] \<longleftrightarrow> bindable js k (param_type p)"
  by (auto simp: check_binding_def binding_kind_def Let_def split: if_splits simp del: lit_simps)

lemma find_map_single:
  assumes "filter (\<lambda>a. f a \<noteq> None) xs = [x]" shows "find_map f xs = f x"
  using assms by (induction xs) (auto split: if_splits option.splits)

lemma validated_param:
  assumes "validate_route_param js p = []" shows "\<exists>b. route_param p = Some b \<and> binds js p b"
proof -
  let ?bs = "filter (\<lambda>a. is_binding (ann_name a)) (param_annotations p)"
  obtain a where a: "?bs = [a]" "check_binding js p (ann_name a) = []"
    using assms by (auto simp: validate_route_param_def split: list.splits)
  then have "a \<in> set ?bs" by simp
  then obtain k where k: "binding_kind (ann_name a) = Some k" using binding_kind_name(1) by auto
  have "filter (\<lambda>a. binding_kind (ann_name a) \<noteq> None) (param_annotations p) = [a]"
    using a(1) by (simp add: binding_kind_name(1))
  then have "route_param p = Some \<lparr>rb_kind = k, rb_name = param_name p, rb_type = param_type p\<rparr>"
    using find_map_single k by (fastforce simp: route_param_def)
  then show ?thesis
    using a k check_binding_kind [OF k] binding_kind_name(2) [OF k] by (simp add: binds_def)
qed

lemma validated_params:
  assumes "\<forall>p \<in> set ps. validate_route_param js p = []"
  shows "list_all2 (binds js) ps (List.map_filter route_param ps)"
  using assms
proof (induction ps)
  case (Cons p ps)
  then obtain b where "route_param p = Some b" "binds js p b" using validated_param by force
  then show ?case using Cons by (simp add: map_filter_simps)
qed (simp add: map_filter_simps)

section \<open>A program with a route\<close>

definition bare :: "string \<Rightarrow> annotation" where
  "bare n = \<lparr>ann_name = lit n, ann_args = [], ann_span = span_dummy\<rparr>"

definition rest_param :: param where
  "rest_param = \<lparr>param_name = lit ''id'', param_type = Ty_Int64, param_span = span_dummy,
     param_annotations = [bare ''PathParam'']\<rparr>"

definition rest_method :: method_def where
  "rest_method = \<lparr>me_name = lit ''show'', me_type_params = [], me_params = [rest_param], me_ret_type = Ty_String,
     me_body = spanned_new S_Empty span_dummy, me_static = False, me_visibility = V_Public, me_span = span_dummy,
     me_is_async = False, me_doc = None, me_annotations = [bare ''GET''], me_file = []\<rparr>"

definition rest_class :: class_def where
  "rest_class = \<lparr>cl_name = lit ''Shop'', cl_type_params = [], cl_extends = None, cl_implements = [], cl_fields = [],
     cl_methods = [rest_method], cl_span = span_dummy, cl_doc = None, cl_annotations = []\<rparr>"

definition rest_program :: source_file where
  "rest_program = source_file_new [spanned_new (D_Class rest_class) span_dummy]"

lemmas rest_defs = bare_def rest_param_def rest_method_def rest_class_def rest_program_def source_file_new_def
  spanned_new_def

lemma info_entry_cong: "n = n' \<Longrightarrow> info_entry n ts lo hi d = info_entry n' ts lo hi d"
  by simp

lemma lookup_entry:
  "map_of (rev []) k = None"
  "map_of (rev (info_entry n ts lo hi d # es)) k = (case map_of (rev es) k of Some v \<Rightarrow> Some v
     | None \<Rightarrow> if k = n then Some \<lparr>ai_name = n, ai_targets = ts, ai_min_args = lo, ai_max_args = hi, ai_description = d\<rparr>
       else None)"
  "map_of (rev (es @ fs)) k = (case map_of (rev fs) k of Some v \<Rightarrow> Some v | None \<Rightarrow> map_of (rev es) k)"
  by (simp_all add: info_entry_def map_add_def split: option.split)

definition bounds_of :: "ident \<Rightarrow> (target list \<times> nat \<times> nat) option" where
  "bounds_of n = map_option (\<lambda>i. (ai_targets i, ai_min_args i, ai_max_args i)) (processor_new n)"

lemma bounds_entries:
  "bounds_of (lit ''GET'') = Some ([AT_Method], 0, 1)"
  "bounds_of (lit ''PathParam'') = Some ([AT_Param], 0, 0)"
  "bounds_of (lit ''OIDCRolesAllowed'') = Some ([AT_Method], 1, 1)"
  unfolding bounds_of_def processor_new_def registry_1_def registry_2_def registry_3_def registry_4_def
  by (simp_all add: lookup_entry cong: info_entry_cong del: lit_simps rev.simps rev_append)

lemma validate_one_bounds:
  "bounds_of (ann_name a) = Some (ts, lo, hi) \<Longrightarrow>
   validate_one processor_new t a = [] \<longleftrightarrow> t \<in> set ts \<and> lo \<le> length (ann_args a) \<and> length (ann_args a) \<le> hi"
  by (auto simp: bounds_of_def validate_one_def split: if_splits)

lemma rest_valid: "validate_annotations rest_program = []"
  by (simp add: validate_one_bounds bounds_entries validate_annotations_def rest_defs collect_custom_annotation_classes_def has_annotation_def
      validate_def validate_method_def validate_params_def validate_route_params_def is_verb_def
      validate_route_param_def is_binding_def check_binding_def is_supported_param_scalar_type_def returnable_def
      del: lit_simps)

lemma rest_route: "route_entries (process_annotations rest_program) = [the (extract_route_from_method rest_method (lit ''Shop'') None None)]"
  by (simp add: process_annotations_def rest_defs process_class_annotations_def Let_def process_endpoints_def
     process_class_fields_def class_vars_of_def process_method_def method_annotation_def result_default_def
     extract_route_from_method_def route_annotation_def is_verb_def del: lit_simps)
text \<open>A list of roles that is not written as an array passes the validation, and no role is required.\<close>

lemma oidc_roles_dropped:
  assumes "ann_name a = lit ''OIDCRolesAllowed''" "ann_args a = [AA_Literal l]"
  shows "validate_one processor_new AT_Method a = []" "rv_oidc_roles (route_annotation a v) = rv_oidc_roles v"
proof -
  show "validate_one processor_new AT_Method a = []"
    using assms validate_one_bounds [of a] by (simp add: bounds_entries del: lit_simps)
  show "rv_oidc_roles (route_annotation a v) = rv_oidc_roles v"
    using assms by (simp add: route_annotation_def is_verb_def arg_at_def Let_def del: lit_simps)
qed

section \<open>The property\<close>

text \<open>
  C5. A route of a program whose annotations are valid belongs to a method of a class, at any depth of
  namespaces; it binds every parameter of the method, in order, each by the one binding annotation that
  the parameter has and that its type admits, and the result can be sent.
\<close>

theorem validated_routes_bind:
  assumes "validate_annotations sf = []" "ri \<in> set (route_entries (process_annotations sf))"
  defines "js \<equiv> collect_json_serializable_classes (sf_decls sf)"
  shows "\<exists>c \<in> program_classes sf. \<exists>m \<in> set (cl_methods c).
    ri_class_name ri = cl_name c \<and> ri_method_name ri = me_name m \<and> ri_return_type ri = me_ret_type m
    \<and> returnable js (me_ret_type m) \<and> list_all2 (binds js) (me_params m) (ri_params ri)"
proof -
  obtain c m base auth where c: "c \<in> program_classes sf" "m \<in> set (cl_methods c)"
    and r: "extract_route_from_method m (cl_name c) base auth = Some ri"
    using process_annotations_routes [OF assms(2)] by (auto simp: is_route_of_def)
  have "validate_route_params js m = []"
    using assms(1) c by (auto simp: validate_annotations_def program_classes_def js_def Let_def dest: validated_method)
  with extracted_route(1) [OF r] have v: "\<forall>p \<in> set (me_params m). validate_route_param js p = []"
    "returnable js (me_ret_type m)"
    by (auto simp: validate_route_params_def split: if_splits)
  show ?thesis using c v validated_params [OF v(1)] extracted_route(2-5) [OF r] by auto
qed

theorem validated_routes_bind_witness:
  "\<exists>ri \<in> set (route_entries (process_annotations rest_program)). map rb_name (ri_params ri) = [lit ''id'']"
proof -
  obtain ri where ri: "ri \<in> set (route_entries (process_annotations rest_program))" by (simp add: rest_route)
  obtain c m where m: "c \<in> program_classes rest_program" "m \<in> set (cl_methods c)"
    and b: "list_all2 (binds (collect_json_serializable_classes (sf_decls rest_program))) (me_params m) (ri_params ri)"
    using validated_routes_bind [OF rest_valid ri] by blast
  have "me_params m = [rest_param]"
    using m by (simp add: program_classes_def rest_program_def source_file_new_def spanned_new_def rest_class_def
        rest_method_def)
  then have "map rb_name (ri_params ri) = [lit ''id'']"
    using b by (auto simp: list_all2_Cons1 binds_def rest_param_def simp del: lit_simps)
  then show ?thesis using ri by (rule bexI)
qed

end
