(* ===== verification/Tinox_Float_Show.thy ===== *)
theory Tinox_Float_Show
  imports Tinox_Lexer_Roundtrip
begin

text \<open>
  \<^verbatim>\<open>Display\<close> of Rust's numbers: \<^verbatim>\<open>{}\<close> on an \<^verbatim>\<open>f64\<close> prints, without an exponent, the shortest decimal that
  reads back as the number, of those the nearest one to it.
\<close>

definition show_nat :: "nat \<Rightarrow> rstring" where
  "show_nat n = radix_text 10 n"

definition show_int :: "int \<Rightarrow> rstring" where
  "show_int i = (if i < 0 then cc (CHR ''-'') # show_nat (nat (- i)) else show_nat (nat i))"

text \<open>A finite positive number as a quotient\<close>

definition f64_ratio :: "f64 \<Rightarrow> nat \<times> nat" where
  "f64_ratio b =
     (let e = unat (take_bit 11 (drop_bit 52 b)); m = unat (take_bit 52 b);
          s = (if e = 0 then m else m + 2 ^ 52); q = int (max e 1) - 1075
      in if 0 \<le> q then (s * 2 ^ nat q, 1) else (s, 2 ^ nat (- q)))"

text \<open>\<open>ilog10_ratio n d\<close> is the exponent \<open>k\<close> with \<open>10 ^ (k - 1) \<le> n / d < 10 ^ k\<close>.\<close>

definition ilog10_ratio :: "nat \<Rightarrow> nat \<Rightarrow> int" where
  "ilog10_ratio n d =
     (let k = int (length (show_nat n)) - int (length (show_nat d)) in
      if (if 0 \<le> k then d * 10 ^ nat k \<le> n else d \<le> n * 10 ^ nat (- k)) then k + 1 else k)"

text \<open>The decimals with \<open>p\<close> digits on both sides of the number that read back as it, the nearer one first\<close>

definition decimals :: "f64 \<Rightarrow> nat \<Rightarrow> (nat \<times> int) list" where
  "decimals b p =
     (let (n, d) = f64_ratio b; s = int p - ilog10_ratio n d;
          (n', d') = (if 0 \<le> s then (n * 10 ^ nat s, d) else (n, d * 10 ^ nat (- s)));
          lo = n' div d'; r = n' mod d';
          both = (if r = 0 then [lo] else if 2 * r \<le> d' then [lo, lo + 1] else [lo + 1, lo])
      in map (\<lambda>c. (c, - s)) (filter (\<lambda>c. f64_of_decimal c (- s) = b) both))"

text \<open>Seventeen digits are always enough.\<close>

definition shortest_decimal :: "f64 \<Rightarrow> nat \<times> int" where
  "shortest_decimal b = (case concat (map (decimals b) [1..<18]) of x # _ \<Rightarrow> x | [] \<Rightarrow> (0, 0))"

definition place_point :: "rstring \<Rightarrow> int \<Rightarrow> rstring" where
  "place_point ds k =
     (if k \<le> 0 then lit ''0.'' @ replicate (nat (- k)) (cc (CHR ''0'')) @ ds
      else if nat k < length ds then take (nat k) ds @ lit ''.'' @ drop (nat k) ds
      else ds @ replicate (nat k - length ds) (cc (CHR ''0'')))"

definition show_f64 :: "f64 \<Rightarrow> rstring" where
  "show_f64 b =
     (let neg = bit b 63; a = take_bit 63 b; sign = (if neg then lit ''-'' else []) in
      if take_bit 11 (drop_bit 52 b) = 0x7FF then
        (if take_bit 52 b = 0 then sign @ lit ''inf'' else lit ''NaN'')
      else if a = 0 then sign @ lit ''0''
      else let (c, e) = shortest_decimal a; ds = show_nat c in sign @ place_point ds (int (length ds) + e))"

end
