(* ===== verification/Tinox_Formatter.thy ===== *)
theory Tinox_Formatter
  imports Tinox_Ast Tinox_Strings Tinox_Float_Show
begin

text \<open>
  The formatter (\<^verbatim>\<open>src/crates/tinox-parser/src/formatter.rs\<close>). Its only state is the indentation, which
  every method leaves as it found it: an argument, the last one, of the functions that use it.
\<close>

section \<open>Text\<close>

text \<open>\<^verbatim>\<open>parts.join(", ")\<close>, with the separator as an argument\<close>

fun sep_by :: "rstring \<Rightarrow> rstring list \<Rightarrow> rstring" where
  "sep_by s [] = []"
| "sep_by s [x] = x"
| "sep_by s (x # xs) = x @ s @ sep_by s xs"

abbreviation "commas \<equiv> sep_by (lit '', '')"

definition ind :: "nat \<Rightarrow> rstring" where
  "ind n = concat (replicate n (lit ''    ''))"

abbreviation QUOTE_CHAR :: rchar where "QUOTE_CHAR \<equiv> 39"
abbreviation DQUOTE :: rchar where "DQUOTE \<equiv> 34"

definition strip_suffix :: "rstring \<Rightarrow> rstring \<Rightarrow> rstring" where
  "strip_suffix p t = (if ends_with p t then take (length t - length p) t else t)"

definition braces :: "rstring \<Rightarrow> nat \<Rightarrow> rstring" where
  "braces body n = ind n @ lit ''{'' @ [LF] @ body @ ind n @ lit ''}''"

section \<open>Documentation, types, literals, patterns\<close>

definition fmt_doc_line :: "nat \<Rightarrow> rstring \<Rightarrow> rstring" where
  "fmt_doc_line n line =
     (let t = trim line in
      if t = lit ''*/'' \<or> t = [] then []
      else let c = trim (strip_suffix (lit ''*/'') (dropWhile (\<lambda>x. x = cc (CHR ''*'')) t)) in
        if c = [] then [] else ind n @ lit '' * '' @ c @ [LF])"

definition fmt_doc :: "rstring option \<Rightarrow> nat \<Rightarrow> rstring" where
  "fmt_doc doc n = (case doc of
     None \<Rightarrow> []
   | Some d \<Rightarrow>
       if length (lines d) \<le> 1 then
         ind n @ lit ''/** '' @ trim (strip_suffix (lit ''*/'') (trim d)) @ lit '' */'' @ [LF]
       else ind n @ lit ''/**'' @ [LF] @ concat (map (fmt_doc_line n) (lines d)) @ ind n @ lit '' */'' @ [LF])"

primrec fmt_type :: "ty \<Rightarrow> rstring" where
  "fmt_type Ty_Int8 = lit ''Int8''"
| "fmt_type Ty_Int16 = lit ''Int16''"
| "fmt_type Ty_Int32 = lit ''Int32''"
| "fmt_type Ty_Int64 = lit ''Int64''"
| "fmt_type Ty_UInt8 = lit ''UInt8''"
| "fmt_type Ty_UInt16 = lit ''UInt16''"
| "fmt_type Ty_UInt32 = lit ''UInt32''"
| "fmt_type Ty_UInt64 = lit ''UInt64''"
| "fmt_type Ty_Float32 = lit ''Float32''"
| "fmt_type Ty_Float64 = lit ''Float64''"
| "fmt_type Ty_Bool = lit ''Bool''"
| "fmt_type Ty_Char = lit ''Char''"
| "fmt_type Ty_String = lit ''String''"
| "fmt_type Ty_Nothing = lit ''Nothing''"
| "fmt_type Ty_Never = lit ''Never''"
| "fmt_type Ty_Any = lit ''Any''"
| "fmt_type Ty_Infer = lit ''_''"
| "fmt_type (Ty_Named n) = n"
| "fmt_type (Ty_Generic name args) = name @ lit ''<'' @ commas (map fmt_type args) @ lit ''>''"
| "fmt_type (Ty_Array t) = lit ''Array<'' @ fmt_type t @ lit ''>''"
| "fmt_type (Ty_Map k v) = lit ''Map<'' @ fmt_type k @ lit '', '' @ fmt_type v @ lit ''>''"
| "fmt_type (Ty_Mutable t) = lit ''mut '' @ fmt_type t"
| "fmt_type (Ty_Ref t) = lit ''&'' @ fmt_type t"
| "fmt_type (Ty_Fn ps r) = lit ''fn('' @ commas (map fmt_type ps) @ lit '') -> '' @ fmt_type r"
| "fmt_type (Ty_Tuple ts) = lit ''('' @ commas (map fmt_type ts) @ lit '')''"
| "fmt_type (Ty_Nullable t) = fmt_type t @ lit ''?''"

definition fmt_type_params :: "rstring list \<Rightarrow> rstring" where
  "fmt_type_params ps = (if ps = [] then [] else lit ''<'' @ commas ps @ lit ''>'')"

fun fmt_visibility :: "visibility \<Rightarrow> rstring" where
  "fmt_visibility V_Public = []"
| "fmt_visibility V_Private = lit ''private ''"
| "fmt_visibility V_Protected = lit ''protected ''"
| "fmt_visibility V_Package = []"

fun fmt_literal :: "literal \<Rightarrow> rstring" where
  "fmt_literal (Lit_Integer i) = show_int i"
| "fmt_literal (Lit_Float f) = (let s = show_f64 f in if cc (CHR ''.'') \<in> set s then s else s @ lit ''.0'')"
| "fmt_literal (Lit_String s) = [DQUOTE] @ s @ [DQUOTE]"
| "fmt_literal (Lit_Char c) = [QUOTE_CHAR, c, QUOTE_CHAR]"
| "fmt_literal (Lit_Byte b) = show_nat (unat b) @ lit ''b''"
| "fmt_literal (Lit_Bool b) = (if b then lit ''true'' else lit ''false'')"
| "fmt_literal Lit_Null = lit ''null''"

primrec fmt_annotation_arg :: "annotation_arg \<Rightarrow> rstring" where
  "fmt_annotation_arg (AA_Literal l) = fmt_literal l"
| "fmt_annotation_arg (AA_EnumValue t v) = t @ lit ''.'' @ v"
| "fmt_annotation_arg (AA_Array items) = lit ''['' @ commas (map fmt_annotation_arg items) @ lit '']''"

definition fmt_annotation :: "nat \<Rightarrow> annotation \<Rightarrow> rstring" where
  "fmt_annotation n a =
     (if ann_args a = [] then ind n @ lit ''@'' @ ann_name a @ [LF]
      else ind n @ lit ''@'' @ ann_name a @ lit ''('' @ commas (map fmt_annotation_arg (ann_args a)) @ lit '')'' @ [LF])"

definition fmt_annotations :: "annotation list \<Rightarrow> nat \<Rightarrow> rstring" where
  "fmt_annotations as n = concat (map (fmt_annotation n) as)"

fun fmt_binop :: "binary_op \<Rightarrow> rstring" where
  "fmt_binop B_Add = lit ''+''" | "fmt_binop B_Sub = lit ''-''" | "fmt_binop B_Mul = lit ''*''"
| "fmt_binop B_Div = lit ''/''" | "fmt_binop B_Mod = lit ''%''" | "fmt_binop B_And = lit ''&&''"
| "fmt_binop B_Or = lit ''||''" | "fmt_binop B_BitAnd = lit ''&''" | "fmt_binop B_BitOr = lit ''|''"
| "fmt_binop B_Xor = lit ''^''" | "fmt_binop B_Shl = lit ''<<''" | "fmt_binop B_Shr = lit ''>>''"
| "fmt_binop B_ShrArith = lit ''>>>''" | "fmt_binop B_Eq = lit ''==''" | "fmt_binop B_Ne = lit ''!=''"
| "fmt_binop B_Lt = lit ''<''" | "fmt_binop B_Le = lit ''<=''" | "fmt_binop B_Gt = lit ''>''"
| "fmt_binop B_Ge = lit ''>=''"

fun fmt_unop :: "unary_op \<Rightarrow> rstring" where
  "fmt_unop U_Neg = lit ''-''" | "fmt_unop U_Not = lit ''!''" | "fmt_unop U_BitNot = lit ''~''"

fun fmt_compound_op :: "compound_op \<Rightarrow> rstring" where
  "fmt_compound_op C_Add = lit ''+''" | "fmt_compound_op C_Sub = lit ''-''" | "fmt_compound_op C_Mul = lit ''*''"
| "fmt_compound_op C_Div = lit ''/''" | "fmt_compound_op C_Mod = lit ''%''" | "fmt_compound_op C_BitAnd = lit ''&''"
| "fmt_compound_op C_BitOr = lit ''|''" | "fmt_compound_op C_BitXor = lit ''^''" | "fmt_compound_op C_Shl = lit ''<<''"
| "fmt_compound_op C_Shr = lit ''>>''" | "fmt_compound_op C_ShrArith = lit ''>>>''"

definition with_args :: "rstring \<Rightarrow> rstring list \<Rightarrow> rstring" where
  "with_args f args = f @ lit ''('' @ commas args @ lit '')''"

definition fmt_variant :: "ident \<Rightarrow> ident \<Rightarrow> rstring list \<Rightarrow> rstring" where
  "fmt_variant e v args = (if args = [] then e @ lit ''::'' @ v else with_args (e @ lit ''::'' @ v) args)"

primrec fmt_pattern :: "pattern \<Rightarrow> rstring" where
  "fmt_pattern (P_Wildcard sp) = lit ''_''"
| "fmt_pattern (P_Ident name sub sp) =
     (case map_option fmt_pattern sub of Some p \<Rightarrow> name @ lit '' @ '' @ p | None \<Rightarrow> name)"
| "fmt_pattern (P_Literal l sp) = fmt_literal l"
| "fmt_pattern (P_Tuple ps sp) = lit ''('' @ commas (map fmt_pattern ps) @ lit '')''"
| "fmt_pattern (P_EnumVariant e v args sp) = fmt_variant e v (map fmt_pattern args)"

definition fmt_params :: "param list \<Rightarrow> rstring" where
  "fmt_params ps = commas (map (\<lambda>p. param_name p @ lit '': '' @ fmt_type (param_type p)) ps)"

section \<open>Statements and expressions\<close>

text \<open>
  The text of a statement, and whether it is a block or an \<^verbatim>\<open>if\<close>: \<^verbatim>\<open>fmt_block_stmt\<close> and the \<^verbatim>\<open>else\<close> of an
  \<^verbatim>\<open>if\<close> treat these apart.
\<close>

type_synonym printer = "nat \<Rightarrow> rstring"

datatype stmt_form = Form_Block | Form_If | Form_Other

type_synonym stmt_text = "stmt_form \<times> printer"

definition fmt_block_stmt :: "stmt_text spanned \<Rightarrow> printer" where
  "fmt_block_stmt s n =
     (if fst (node s) = Form_Block then snd (node s) n
      else ind n @ lit ''{'' @ [LF] @ ind (n + 1) @ snd (node s) n @ [LF] @ ind n @ lit ''}'')"

definition fmt_line :: "nat \<Rightarrow> stmt_text spanned \<Rightarrow> rstring" where
  "fmt_line n s = (let t = snd (node s) n in if t = [] then [] else ind n @ t @ [LF])"

definition fmt_block :: "stmt_text spanned list \<Rightarrow> printer" where
  "fmt_block ss n = braces (concat (map (fmt_line (n + 1)) ss)) n"

definition optional :: "rstring \<Rightarrow> rstring option \<Rightarrow> rstring" where
  "optional pre x = (case x of Some t \<Rightarrow> pre @ t | None \<Rightarrow> [])"

definition on_opt :: "'a spanned option \<Rightarrow> ('a \<Rightarrow> rstring) \<Rightarrow> rstring option" where
  "on_opt x f = map_option (\<lambda>e. f (node e)) x"

definition fmt_binding :: "string \<Rightarrow> ident \<Rightarrow> ty option \<Rightarrow> printer spanned option \<Rightarrow> printer" where
  "fmt_binding kw name t v n = lit kw @ lit '' '' @ name @ optional (lit '': '') (map_option fmt_type t)
     @ optional (lit '' = '') (on_opt v (\<lambda>p. p n)) @ lit '';''"

definition fmt_else :: "stmt_text spanned option \<Rightarrow> printer" where
  "fmt_else eo n = (case eo of
     None \<Rightarrow> []
   | Some s \<Rightarrow>
       if fst (node s) = Form_If then [LF] @ lit ''else '' @ snd (node s) n
       else [LF] @ ind n @ lit ''else'' @ [LF] @ fmt_block_stmt s n)"

definition fmt_catch :: "nat \<Rightarrow> stmt_text spanned catch_clause \<Rightarrow> rstring" where
  "fmt_catch n c = [LF] @ ind n @ lit ''catch '' @ cc_param c @ lit '': '' @ fmt_type (cc_ty c) @ [LF]
     @ fmt_block_stmt (cc_body c) n"

definition fmt_arm :: "nat \<Rightarrow> (printer spanned, stmt_text spanned) select_arm \<Rightarrow> rstring" where
  "fmt_arm n a = ind n @ lit ''recv '' @ node (sa_channel a) n @ lit '' -> '' @ sa_var a @ [LF]
     @ fmt_block_stmt (sa_body a) n @ [LF]"

definition fmt_select :: "(printer spanned, stmt_text spanned) select_arm list \<Rightarrow> stmt_text spanned option \<Rightarrow> printer" where
  "fmt_select arms d n = lit ''select'' @ [LF] @ braces (concat (map (fmt_arm (n + 1)) arms)
     @ (case d of None \<Rightarrow> [] | Some s \<Rightarrow> ind (n + 1) @ lit ''default'' @ [LF] @ fmt_block_stmt s (n + 1) @ [LF])) n"

definition texts :: "printer spanned list \<Rightarrow> nat \<Rightarrow> rstring list" where
  "texts es n = map (\<lambda>e. node e n) es"

definition fmt_case :: "nat \<Rightarrow> printer spanned match_case \<Rightarrow> rstring" where
  "fmt_case n c = ind n @ fmt_pattern (mc_pattern c)
     @ optional (lit '' if '') (on_opt (mc_guard c) (\<lambda>p. p n)) @ lit '' => '' @ node (mc_body c) n @ lit '';'' @ [LF]"

definition curly :: "rstring \<Rightarrow> rstring" where
  "curly t = lit ''{ '' @ t @ lit '' }''"

primrec fmt_expr :: "expr_kind \<Rightarrow> printer" and fmt_stmt :: "stmt_kind \<Rightarrow> stmt_text" where
  "fmt_expr (E_Literal l) = (\<lambda>n. fmt_literal l)"
| "fmt_expr (E_ArrayLiteral es) = (\<lambda>n. lit ''['' @ commas (texts (map (map_spanned fmt_expr) es) n) @ lit '']'')"
| "fmt_expr (E_MapLiteral kvs) = (\<lambda>n. lit ''@'' @ lit ''{'' @ commas (map (\<lambda>(k, v). node k n @ lit '' => '' @ node v n)
       (map (map_prod (map_spanned fmt_expr) (map_spanned fmt_expr)) kvs)) @ lit ''}'')"
| "fmt_expr (E_Ident x) = (\<lambda>n. x)"
| "fmt_expr (E_Binary op l r) = (\<lambda>n. node (map_spanned fmt_expr l) n @ lit '' '' @ fmt_binop op @ lit '' ''
       @ node (map_spanned fmt_expr r) n)"
| "fmt_expr (E_Unary op e) = (\<lambda>n. fmt_unop op @ node (map_spanned fmt_expr e) n)"
| "fmt_expr (E_Call f es) = (\<lambda>n. with_args (node (map_spanned fmt_expr f) n) (texts (map (map_spanned fmt_expr) es) n))"
| "fmt_expr (E_MethodCall ob m es) = (\<lambda>n. with_args (node (map_spanned fmt_expr ob) n @ lit ''.'' @ m)
       (texts (map (map_spanned fmt_expr) es) n))"
| "fmt_expr (E_Index a i) = (\<lambda>n. node (map_spanned fmt_expr a) n @ lit ''['' @ node (map_spanned fmt_expr i) n @ lit '']'')"
| "fmt_expr (E_FieldAccess ob f) = (\<lambda>n. node (map_spanned fmt_expr ob) n @ lit ''.'' @ f)"
| "fmt_expr E_This = (\<lambda>n. lit ''this'')"
| "fmt_expr (E_SuperCall m es) = (\<lambda>n. with_args (lit ''super.'' @ m) (texts (map (map_spanned fmt_expr) es) n))"
| "fmt_expr (E_New c ts es) = (\<lambda>n. with_args (lit ''new '' @ c @ fmt_type_params (map fmt_type ts))
       (texts (map (map_spanned fmt_expr) es) n))"
| "fmt_expr (E_StructLiteral name fs) = (\<lambda>n. name @ lit '' ''
       @ curly (commas (map (\<lambda>(k, v). k @ lit '': '' @ node v n) (map (map_prod id (map_spanned fmt_expr)) fs))))"
| "fmt_expr (E_Block ss) = (\<lambda>n. curly (sep_by (lit '' '')
       (filter (\<lambda>t. t \<noteq> []) (map (\<lambda>s. snd (node s) n) (map (map_spanned fmt_stmt) ss)))))"
| "fmt_expr (E_If c t eo) = (\<lambda>n. lit ''if '' @ node (map_spanned fmt_expr c) n @ lit '' ''
       @ curly (node (map_spanned fmt_expr t) n)
       @ optional (lit '' else '') (on_opt (map_option (map_spanned fmt_expr) eo) (\<lambda>p. curly (p n))))"
| "fmt_expr (E_While c b) = (\<lambda>n. lit ''while '' @ node (map_spanned fmt_expr c) n @ lit '' ''
       @ curly (node (map_spanned fmt_expr b) n))"
| "fmt_expr (E_For x it b) = (\<lambda>n. lit ''for '' @ x @ lit '' in '' @ node (map_spanned fmt_expr it) n @ lit '' ''
       @ curly (node (map_spanned fmt_expr b) n))"
| "fmt_expr (E_Loop b) = (\<lambda>n. lit ''loop '' @ curly (node (map_spanned fmt_expr b) n))"
| "fmt_expr (E_Match e cs) = (\<lambda>n. lit ''match '' @ node (map_spanned fmt_expr e) n @ [LF]
       @ braces (concat (map (fmt_case (n + 1)) (map (map_match_case (map_spanned fmt_expr)) cs))) n)"
| "fmt_expr (E_Return eo) = (\<lambda>n. lit ''return'' @ optional (lit '' '') (on_opt (map_option (map_spanned fmt_expr) eo) (\<lambda>p. p n)))"
| "fmt_expr E_Break = (\<lambda>n. lit ''break'')"
| "fmt_expr E_Continue = (\<lambda>n. lit ''continue'')"
| "fmt_expr (E_Throw e) = (\<lambda>n. lit ''throw '' @ node (map_spanned fmt_expr e) n)"
| "fmt_expr (E_Try b hs f) = (\<lambda>n. lit ''try '' @ curly (node (map_spanned fmt_expr b) n)
       @ concat (map (\<lambda>c. lit '' catch '' @ cc_param c @ lit '': '' @ fmt_type (cc_ty c) @ lit '' ''
           @ curly (snd (node (cc_body c)) n)) (map (map_catch_clause (map_spanned fmt_stmt)) hs))
       @ optional (lit '' finally '') (on_opt (map_option (map_spanned fmt_expr) f) (\<lambda>p. curly (p n))))"
| "fmt_expr (E_Assign t v) = (\<lambda>n. node (map_spanned fmt_expr t) n @ lit '' = '' @ node (map_spanned fmt_expr v) n)"
| "fmt_expr (E_CompoundAssign op t v) = (\<lambda>n. node (map_spanned fmt_expr t) n @ lit '' '' @ fmt_compound_op op @ lit ''= ''
       @ node (map_spanned fmt_expr v) n)"
| "fmt_expr (E_Lambda ps rt b) = (\<lambda>n. lit ''|'' @ fmt_params ps @ lit ''|'' @ optional (lit '' -> '') (map_option fmt_type rt)
       @ lit '' => '' @ node (map_spanned fmt_expr b) n)"
| "fmt_expr (E_Spawn e) = (\<lambda>n. lit ''spawn '' @ node (map_spanned fmt_expr e) n)"
| "fmt_expr (E_Await e) = (\<lambda>n. lit ''await '' @ node (map_spanned fmt_expr e) n)"
| "fmt_expr E_Channel = (\<lambda>n. lit ''channel'')"
| "fmt_expr (E_Send c v) = (\<lambda>n. lit ''send '' @ node (map_spanned fmt_expr c) n @ lit '' -> '' @ node (map_spanned fmt_expr v) n)"
| "fmt_expr (E_Recv e) = (\<lambda>n. lit ''recv '' @ node (map_spanned fmt_expr e) n)"
| "fmt_expr (E_Cast e t) = (\<lambda>n. node (map_spanned fmt_expr e) n @ lit '' as '' @ fmt_type t)"
| "fmt_expr (E_Is e t) = (\<lambda>n. node (map_spanned fmt_expr e) n @ lit '' is '' @ fmt_type t)"
| "fmt_expr (E_Range a b incl) = (\<lambda>n. node (map_spanned fmt_expr a) n @ (if incl then lit ''...'' else lit ''..'')
       @ node (map_spanned fmt_expr b) n)"
| "fmt_expr (E_Tuple es) = (\<lambda>n. lit ''('' @ commas (texts (map (map_spanned fmt_expr) es) n) @ lit '')'')"
| "fmt_expr (E_TupleIndex e i) = (\<lambda>n. node (map_spanned fmt_expr e) n @ lit ''.'' @ show_nat i)"
| "fmt_expr (E_EnumValue e v ts es) = (\<lambda>n. fmt_variant e v (texts (map (map_spanned fmt_expr) es) n))"
| "fmt_stmt (S_Expr e) = (Form_Other, \<lambda>n. node (map_spanned fmt_expr e) n @ lit '';'')"
| "fmt_stmt (S_Let x t v) = (Form_Other, fmt_binding ''let'' x t (map_option (map_spanned fmt_expr) v))"
| "fmt_stmt (S_Var x t v m) = (Form_Other, fmt_binding ''var'' x t (map_option (map_spanned fmt_expr) v))"
| "fmt_stmt (S_Assignment t v) = (Form_Other, \<lambda>n. node (map_spanned fmt_expr t) n @ lit '' = ''
       @ node (map_spanned fmt_expr v) n @ lit '';'')"
| "fmt_stmt (S_If c t eo) = (Form_If, \<lambda>n. lit ''if '' @ node (map_spanned fmt_expr c) n @ [LF]
       @ fmt_block_stmt (map_spanned fmt_stmt t) n @ fmt_else (map_option (map_spanned fmt_stmt) eo) n)"
| "fmt_stmt (S_While c b) = (Form_Other, \<lambda>n. lit ''while '' @ node (map_spanned fmt_expr c) n @ [LF]
       @ fmt_block_stmt (map_spanned fmt_stmt b) n)"
| "fmt_stmt (S_For x it b) = (Form_Other, \<lambda>n. lit ''for '' @ x @ lit '' in '' @ node (map_spanned fmt_expr it) n @ [LF]
       @ fmt_block_stmt (map_spanned fmt_stmt b) n)"
| "fmt_stmt (S_ForC i c u b) = (Form_Other, \<lambda>n. lit ''for ''
       @ optional [] (on_opt (map_option (map_spanned fmt_stmt) i) (\<lambda>s. trim_end_matches (cc (CHR '';'')) (snd s n)))
       @ lit ''; '' @ optional [] (on_opt (map_option (map_spanned fmt_expr) c) (\<lambda>p. p n))
       @ lit ''; '' @ optional [] (on_opt (map_option (map_spanned fmt_expr) u) (\<lambda>p. p n)) @ [LF]
       @ fmt_block_stmt (map_spanned fmt_stmt b) n)"
| "fmt_stmt (S_Loop b) = (Form_Other, \<lambda>n. lit ''loop'' @ [LF] @ fmt_block_stmt (map_spanned fmt_stmt b) n)"
| "fmt_stmt (S_Return eo) = (Form_Other, \<lambda>n. lit ''return''
       @ optional (lit '' '') (on_opt (map_option (map_spanned fmt_expr) eo) (\<lambda>p. p n)) @ lit '';'')"
| "fmt_stmt S_Break = (Form_Other, \<lambda>n. lit ''break;'')"
| "fmt_stmt S_Continue = (Form_Other, \<lambda>n. lit ''continue;'')"
| "fmt_stmt (S_Throw e) = (Form_Other, \<lambda>n. lit ''throw '' @ node (map_spanned fmt_expr e) n @ lit '';'')"
| "fmt_stmt (S_Try b hs f) = (Form_Other, \<lambda>n. lit ''try'' @ [LF] @ fmt_block_stmt (map_spanned fmt_stmt b) n
       @ concat (map (fmt_catch n) (map (map_catch_clause (map_spanned fmt_stmt)) hs))
       @ (case map_option (map_spanned fmt_stmt) f of None \<Rightarrow> []
          | Some s \<Rightarrow> [LF] @ ind n @ lit ''finally'' @ [LF] @ fmt_block_stmt s n))"
| "fmt_stmt (S_Defer s) = (Form_Other, \<lambda>n. lit ''defer '' @ curly (snd (node (map_spanned fmt_stmt s)) n))"
| "fmt_stmt (S_Block ss) = (Form_Block, fmt_block (map (map_spanned fmt_stmt) ss))"
| "fmt_stmt (S_Select arms d) = (Form_Other, fmt_select (map (map_select_arm (map_spanned fmt_expr) (map_spanned fmt_stmt)) arms)
       (map_option (map_spanned fmt_stmt) d))"
| "fmt_stmt S_Empty = (Form_Other, \<lambda>n. [])"

definition fmt_body :: "stmt \<Rightarrow> printer" where
  "fmt_body s = fmt_block_stmt (map_spanned fmt_stmt s)"

section \<open>Declarations\<close>

definition fmt_fn :: "function_def \<Rightarrow> printer" where
  "fmt_fn f n = fmt_annotations (fn_annotations f) n @ fmt_doc (fn_doc f) n
     @ (if fn_is_async f then lit ''async '' else []) @ lit ''fn '' @ fn_name f @ fmt_type_params (fn_type_params f)
     @ lit ''('' @ fmt_params (fn_params f) @ lit '') -> '' @ fmt_type (fn_ret_type f) @ [LF] @ fmt_body (fn_body f) n"

definition fmt_method :: "method_def \<Rightarrow> printer" where
  "fmt_method m n = fmt_annotations (me_annotations m) n @ fmt_doc (me_doc m) n
     @ ind n @ fmt_visibility (me_visibility m) @ (if me_is_async m then lit ''async '' else [])
     @ (if me_static m then lit ''fnc'' else lit ''fn'') @ lit '' '' @ me_name m
     @ lit ''('' @ fmt_params (me_params m) @ lit '') -> '' @ fmt_type (me_ret_type m) @ [LF] @ fmt_body (me_body m) n"

definition fmt_field :: "nat \<Rightarrow> field_def \<Rightarrow> rstring" where
  "fmt_field n f = fmt_annotations (fd_annotations f) n @ fmt_doc (fd_doc f) n @ ind n
     @ fmt_visibility (fd_visibility f) @ (if fd_mutable f then lit ''var '' else []) @ fd_name f @ lit '': ''
     @ fmt_type (fd_type f) @ lit '';'' @ [LF]"

definition fmt_class :: "class_def \<Rightarrow> printer" where
  "fmt_class c n = fmt_annotations (cl_annotations c) n @ fmt_doc (cl_doc c) n @ ind n
     @ lit ''class '' @ cl_name c @ fmt_type_params (cl_type_params c) @ optional (lit '' extends '') (cl_extends c)
     @ (if cl_implements c = [] then [] else lit '' implements '' @ commas (cl_implements c)) @ [LF]
     @ braces (concat (map (fmt_field (n + 1)) (cl_fields c))
        @ (if cl_fields c \<noteq> [] \<and> cl_methods c \<noteq> [] then [LF] else [])
        @ sep_by [LF] (map (\<lambda>m. fmt_method m (n + 1) @ [LF]) (cl_methods c))) n"

definition fmt_signature :: "nat \<Rightarrow> function_def \<Rightarrow> rstring" where
  "fmt_signature n f = ind n @ fmt_doc (fn_doc f) n @ lit ''fn '' @ fn_name f @ fmt_type_params (fn_type_params f)
     @ lit ''('' @ fmt_params (fn_params f) @ lit '') -> '' @ fmt_type (fn_ret_type f) @ lit '';'' @ [LF]"

definition fmt_interface :: "interface_def \<Rightarrow> printer" where
  "fmt_interface i n = fmt_annotations (if_annotations i) n @ fmt_doc (if_doc i) n @ ind n
     @ lit ''interface '' @ if_name i @ (if if_extends i = [] then [] else lit '' extends '' @ commas (if_extends i)) @ [LF]
     @ braces (concat (map (fmt_signature (n + 1)) (if_methods i))) n"

definition fmt_enum_variant :: "nat \<Rightarrow> enum_variant \<Rightarrow> rstring" where
  "fmt_enum_variant n v = ind n @ fmt_doc (ev_doc v) n
     @ (if ev_args v = [] then ev_name v else with_args (ev_name v) (map fmt_type (ev_args v))) @ lit '';'' @ [LF]"

definition fmt_enum :: "enum_def \<Rightarrow> printer" where
  "fmt_enum e n = fmt_annotations (en_annotations e) n @ fmt_doc (en_doc e) n @ ind n @ lit ''enum '' @ en_name e @ [LF]
     @ braces (concat (map (fmt_enum_variant (n + 1)) (en_variants e))) n"

definition fmt_trait :: "trait_def \<Rightarrow> printer" where
  "fmt_trait t n = fmt_annotations (tr_annotations t) n @ fmt_doc (tr_doc t) n @ ind n @ lit ''trait '' @ tr_name t @ [LF]
     @ braces (concat (map (fmt_signature (n + 1)) (tr_methods t))) n"

definition fmt_import :: "import_decl \<Rightarrow> rstring" where
  "fmt_import i = lit ''import '' @ sep_by (lit ''::'') (imp_path i) @ optional (lit '' as '') (imp_alias i) @ lit '';''"

definition fmt_namespace :: "printer spanned namespace \<Rightarrow> printer" where
  "fmt_namespace ns n = lit ''namespace '' @ sep_by (lit ''.'') (ns_name ns) @ [LF]
     @ braces (sep_by [LF] (map (\<lambda>d. ind (n + 1) @ node d (n + 1) @ [LF]) (ns_decls ns))) n"

definition fmt_immutable :: "immutable_decl \<Rightarrow> printer" where
  "fmt_immutable u n = fmt_doc (im_doc u) n @ with_args (lit ''immutable '' @ im_name u)
     (map (\<lambda>f. param_name f @ lit '': '' @ fmt_type (param_type f)) (im_fields u))"

primrec fmt_decl :: "decl_kind \<Rightarrow> printer" where
  "fmt_decl (D_Function f) = fmt_fn f"
| "fmt_decl (D_Class c) = fmt_class c"
| "fmt_decl (D_Interface i) = fmt_interface i"
| "fmt_decl (D_Enum e) = fmt_enum e"
| "fmt_decl (D_Trait t) = fmt_trait t"
| "fmt_decl (D_Import i) = (\<lambda>n. fmt_import i)"
| "fmt_decl (D_Module name) = (\<lambda>n. lit ''module '' @ name @ lit '';'')"
| "fmt_decl (D_Namespace ns) = fmt_namespace (map_namespace (map_spanned fmt_decl) ns)"
| "fmt_decl (D_Immutable u) = fmt_immutable u"

definition format :: "source_file \<Rightarrow> rstring" where
  "format sf = sep_by [LF] (map (\<lambda>d. fmt_decl (node d) 0 @ [LF]) (sf_decls sf))"

end
