(* ===== verification/Tinox_Formatter_Props.thy ===== *)
theory Tinox_Formatter_Props
  imports Tinox_Formatter Tinox_Lexer_Operators Tinox_Parser_Precedence
begin

text \<open>
  The formatter against the lexer and the parser. It prints no parentheses, so that it loses the structure of
  an expression that needs them; an expression that needs none is read back from its text.
\<close>

section \<open>Reading a text piece by piece\<close>

text \<open>The significant tokens between two states of the lexer\<close>

inductive lexes_to :: "lexer \<Rightarrow> token_kind list \<Rightarrow> lexer \<Rightarrow> bool" where
  reads_none: "lexes_to s [] s"
| reads_token: "next_token s = (Inr t, s1) \<Longrightarrow> \<not> is_trivia (tok_kind t) \<Longrightarrow> tok_kind t \<noteq> T_Eof \<Longrightarrow> lexes_to s1 ks s2
     \<Longrightarrow> lexes_to s (tok_kind t # ks) s2"
| reads_trivia: "next_token s = (Inr t, s1) \<Longrightarrow> is_trivia (tok_kind t) \<Longrightarrow> lexes_to s1 ks s2 \<Longrightarrow> lexes_to s ks s2"

lemma reads_append: "lexes_to s ks t \<Longrightarrow> lexes_to t ls u \<Longrightarrow> lexes_to s (ks @ ls) u"
  by (induction rule: lexes_to.induct) (auto intro: lexes_to.intros)

lemma trivia_not_Eof: "is_trivia k \<Longrightarrow> k \<noteq> T_Eof"
  by (auto simp: is_trivia_def)

lemma reads_loop:
  "lexes_to s ks t \<Longrightarrow> \<exists>ts'. map tok_kind ts' = ks \<and> tokenize_loop s ts es = tokenize_loop t (ts @ ts') es"
proof (induction arbitrary: ts rule: lexes_to.induct)
  case (reads_token s t s1 ks s2)
  obtain ts' where ts': "map tok_kind ts' = ks"
    "tokenize_loop s1 (ts @ [t]) es = tokenize_loop s2 ((ts @ [t]) @ ts') es"
    using reads_token.IH by blast
  have "tokenize_loop s ts es = tokenize_loop s1 (ts @ [t]) es"
    using reads_token.hyps(1-3) by (simp add: tokenize_loop.simps [of s])
  then show ?case using ts' by (intro exI [of _ "t # ts'"]) simp
next
  case (reads_trivia s t s1 ks s2)
  have "tokenize_loop s ts es = tokenize_loop s1 ts es"
    using reads_trivia.hyps(1,2) trivia_not_Eof by (simp add: tokenize_loop.simps [of s])
  then show ?case using reads_trivia.IH by metis
qed (auto intro: exI [of _ "[]"])

lemma at_end_rest: "at_end s \<longleftrightarrow> rest s = []"
  by (simp add: at_end_def rest_def)

lemma reads_tokenize:
  assumes "lexes_to (lexer_new t) ks s" "rest s = []"
  shows "\<exists>ts s'. tokenize (lexer_new t) = (Inr ts, s') \<and> map tok_kind ts = ks @ [T_Eof]"
proof -
  obtain ts where ts: "map tok_kind ts = ks" "tokenize_loop (lexer_new t) [] [] = tokenize_loop s ts []"
    using reads_loop [OF assms(1), of "[]" "[]"] by auto
  obtain e s' where "next_token s = (Inr e, s')" "tok_kind e = T_Eof"
    using next_token_end [of s] assms(2) by (simp add: at_end_rest token_new_def)
  then have "tokenize_loop s ts [] = (ts @ [e], [], s')" by (simp add: tokenize_loop.simps [of s])
  then show ?thesis using ts \<open>tok_kind e = T_Eof\<close> by (simp add: tokenize_def)
qed

lemma rest_after_begin [simp]: "rest (begin_token s) = rest s"
  by (simp add: rest_def)

text \<open>One token, when the text at the cursor begins with its characters\<close>

lemma reads_one:
  assumes "rest s = w @ r" "w \<noteq> []" "read_token (begin_token s) = ok_tok k (skip (length w) (begin_token s))"
    and "\<not> is_trivia k" "k \<noteq> T_Eof"
  shows "\<exists>s'. lexes_to s [k] s' \<and> rest s' = r"
proof -
  have "next_token s = (Inr (token_new k (mk_span (skip (length w) (begin_token s)))), skip (length w) (begin_token s))"
    using assms(1-3) by (simp add: next_token_inside at_end_rest ok_tok_def)
  then have "lexes_to s [k] (skip (length w) (begin_token s))"
    using reads_token [of s _ _ "[]", OF _ _ _ reads_none] assms(4,5) by (fastforce simp: token_new_def)
  then show ?thesis using assms(1) by (intro exI [of _ "skip (length w) (begin_token s)"]) simp
qed

lemma reads_space:
  assumes "rest s = 32 # r" shows "\<exists>s'. lexes_to s [] s' \<and> rest s' = r"
proof -
  have "peek (begin_token s) = 32" using assms by (simp add: peek_rest)
  then have "next_token s = ok_tok T_Whitespace (bump (begin_token s))"
    using assms by (simp add: next_token_inside at_end_rest read_token_def oks_tok)
  then have "lexes_to s [] (bump (begin_token s))"
    using reads_trivia [OF _ _ reads_none, of s] by (simp add: ok_tok_def token_new_def is_trivia_def)
  then show ?thesis using assms by (intro exI [of _ "bump (begin_token s)"]) simp
qed

definition spaced :: "rstring \<Rightarrow> bool" where
  "spaced r \<longleftrightarrow> r = [] \<or> hd r = 32"

lemma space_ends: "spaced r \<Longrightarrow> r = [] \<or> (\<not> is_ident_char (hd r) \<and> hd r \<notin> {DQUOTE, SQUOTE, cc (CHR ''#'')})"
  "spaced r \<Longrightarrow> ends_number r"
  by (auto simp: spaced_def ends_number_def is_ident_char_def char_class_defs)

lemma reads_word:
  assumes "ident_ok w" "rest s = w @ r" "spaced r" shows "\<exists>s'. lexes_to s [T_Ident w] s' \<and> rest s' = r"
proof (rule reads_one [OF assms(2)])
  have w: "w \<noteq> []" "list_all is_ident_char w" "\<not> is_ascii_digit (hd w)" using assms(1) by (auto simp: ident_ok_def)
  then have "ident_start (hd w)" by (cases w) (auto simp: ident_start_def is_ident_char_def)
  then show "read_token (begin_token s) = ok_tok (T_Ident w) (skip (length w) (begin_token s))"
    using read_token_word [of "begin_token s" w r] assms space_ends(1) [OF assms(3)] w by auto
  show "w \<noteq> []" by (rule w)
qed (simp_all add: is_trivia_def)

lemma first_digit: "\<exists>d < 10. hd (radix_text 10 n) = digit_char d"
  using radix_text_digits [of 10 "hd (radix_text 10 n)" n] by simp

lemma reads_number:
  assumes "int n \<le> i64_max" "rest s = radix_text 10 n @ r" "spaced r"
  shows "\<exists>s'. lexes_to s [T_Integer (int n)] s' \<and> rest s' = r"
proof (rule reads_one [OF assms(2)])
  obtain d where d: "d < 10" "hd (radix_text 10 n) = digit_char d" using first_digit by blast
  have "peek (begin_token s) = hd (radix_text 10 n)"
    using assms(2) by (simp add: peek_rest hd_append split: list.splits) (metis append_is_Nil_conv hd_append2 list.sel(1) radix_text_nonempty(1))
  then have "is_ascii_digit (peek (begin_token s))" using d digit_char_decimal by simp
  then have "read_token (begin_token s) = read_number (begin_token s)"
    by (auto simp: read_token_def Let_def char_class_defs)
  moreover have "filter (\<lambda>c. c \<noteq> UNDERSCORE) (radix_text 10 n) = radix_text 10 n"
    using radix_text_digits [of 10 UNDERSCORE n] by (auto simp: filter_id_conv digit_char_def split: if_splits)
  then have "written 10 n (radix_text 10 n)" by (simp add: written_def)
  ultimately show "read_token (begin_token s)
      = ok_tok (T_Integer (int n)) (skip (length (radix_text 10 n)) (begin_token s))"
    using read_number_decimal [of "begin_token s" "radix_text 10 n" r n] assms(1,2) space_ends(2) [OF assms(3)] d
    by (simp add: digit_char_def)
qed (simp_all add: is_trivia_def)

section \<open>Operators\<close>

lemma op_entry: "(fmt_binop op, op_token op) \<in> set operator_table"
  by (cases op) (simp_all add: operator_table_def op_token_def)

lemma op_longest: "spaced r \<Longrightarrow> longest_operator (fmt_binop op) (fmt_binop op @ r) \<and> \<not> starts_comment (fmt_binop op @ r)"
  by (cases op; cases r) (auto simp: longest_operator_def operator_table_def starts_comment_def spaced_def)

lemma reads_op:
  assumes "rest s = fmt_binop op @ r" "spaced r" shows "\<exists>s'. lexes_to s [op_token op] s' \<and> rest s' = r"
proof (rule reads_one [OF assms(1)])
  show "read_token (begin_token s) = ok_tok (op_token op) (skip (length (fmt_binop op)) (begin_token s))"
    using read_operator [OF op_entry, of op "begin_token s"] op_longest [OF assms(2)] assms(1) by simp
  show "fmt_binop op \<noteq> []" "\<not> is_trivia (op_token op)" "op_token op \<noteq> T_Eof"
    by (cases op; simp add: op_token_def is_trivia_def)+
qed

lemma un_entry: "(fmt_unop u, un_token u) \<in> set operator_table"
  by (cases u) (simp_all add: operator_table_def un_token_def)

lemma un_longest:
  "is_ident_char (hd r) \<Longrightarrow> r \<noteq> [] \<Longrightarrow>
   longest_operator (fmt_unop u) (fmt_unop u @ r) \<and> \<not> starts_comment (fmt_unop u @ r)"
  by (cases u; cases r)
    (auto simp: longest_operator_def operator_table_def starts_comment_def is_ident_char_def char_class_defs)

lemma reads_un:
  assumes "rest s = fmt_unop u @ r" "is_ident_char (hd r)" "r \<noteq> []"
  shows "\<exists>s'. lexes_to s [un_token u] s' \<and> rest s' = r"
proof (rule reads_one [OF assms(1)])
  show "read_token (begin_token s) = ok_tok (un_token u) (skip (length (fmt_unop u)) (begin_token s))"
    using read_operator [OF un_entry, of u "begin_token s"] un_longest [OF assms(2,3)] assms(1) by simp
  show "fmt_unop u \<noteq> []" "\<not> is_trivia (un_token u)" "un_token u \<noteq> T_Eof"
    by (cases u; simp add: un_token_def is_trivia_def)+
qed

section \<open>Expressions without parentheses\<close>

text \<open>
  Expressions over names, numbers and operators that the fewest parentheses are none for. The operand of a
  unary operator is a name or a number.
\<close>

fun is_atom :: "sexp \<Rightarrow> bool" where
  "is_atom (X_Int v) \<longleftrightarrow> 0 \<le> v \<and> v \<le> i64_max"
| "is_atom (X_Var x) \<longleftrightarrow> ident_ok x"
| "is_atom _ \<longleftrightarrow> False"

primrec parenless :: "sexp \<Rightarrow> bool" where
  "parenless (X_Int v) \<longleftrightarrow> is_atom (X_Int v)"
| "parenless (X_Var x) \<longleftrightarrow> is_atom (X_Var x)"
| "parenless (X_Un u a) \<longleftrightarrow> is_atom a"
| "parenless (X_Bin op a b) \<longleftrightarrow> op_level op \<le> lev a \<and> op_level op < lev b \<and> parenless a \<and> parenless b"
| "parenless (X_Cond c a b) \<longleftrightarrow> False"

lemma node_map: "node (map_spanned f e) = f (node e)"
  by (cases e) simp

lemma fmt_atom:
  assumes "tree_of a e" "is_atom a" "rest s = fmt_expr (node e) n @ r" "spaced r"
  shows "\<exists>s'. lexes_to s (body a) s' \<and> rest s' = r"
proof (cases a)
  case (X_Int v)
  then have "0 \<le> v" "v \<le> i64_max" "fmt_expr (node e) n = radix_text 10 (nat v)"
    using assms(1,2) by (simp_all add: show_int_def show_nat_def)
  then show ?thesis using reads_number [of "nat v" s r] assms(3,4) X_Int by simp
next
  case (X_Var x)
  then show ?thesis using reads_word [of x s r] assms by simp
qed (use assms in simp_all)

lemma atom_start:
  assumes "tree_of a e" "is_atom a" shows "fmt_expr (node e) n \<noteq> []" "is_ident_char (hd (fmt_expr (node e) n))"
proof -
  have "fmt_expr (node e) n \<noteq> [] \<and> is_ident_char (hd (fmt_expr (node e) n))"
  proof (cases a)
    case (X_Int v)
    obtain d where "d < 10" "hd (radix_text 10 (nat v)) = digit_char d" using first_digit by blast
    then show ?thesis
      using X_Int assms digit_char_decimal [of d] by (simp add: show_int_def show_nat_def is_ident_char_def)
  next
    case (X_Var x)
    then show ?thesis using assms by (cases x) (auto simp: ident_ok_def)
  qed (use assms in simp_all)
  then show "fmt_expr (node e) n \<noteq> []" "is_ident_char (hd (fmt_expr (node e) n))" by simp_all
qed

lemma formatted_reads:
  "tree_of a e \<Longrightarrow> parenless a \<Longrightarrow> rest s = fmt_expr (node e) n @ r \<Longrightarrow> spaced r \<Longrightarrow>
   \<exists>s'. lexes_to s (body a) s' \<and> rest s' = r"
proof (induction a arbitrary: e s r)
  case (X_Un u a)
  then obtain e1 where e: "node e = E_Unary u e1" "tree_of a e1" by (auto split: expr_kind.splits)
  let ?t = "fmt_expr (node e1) n"
  have a: "is_atom a" using X_Un.prems(2) by simp
  have "rest s = fmt_unop u @ (?t @ r)" using X_Un.prems(3) e(1) by (simp add: node_map)
  from reads_un [OF this] atom_start [OF e(2) a]
  obtain s1 where s1: "lexes_to s [un_token u] s1" "rest s1 = ?t @ r" by (auto simp: hd_append)
  obtain s2 where s2: "lexes_to s1 (body a) s2" "rest s2 = r"
    using fmt_atom [OF e(2) a s1(2) X_Un.prems(4)] by blast
  have "body (X_Un u a) = [un_token u] @ body a" using a by (cases a) (simp_all add: paren_def)
  then show ?case using reads_append [OF s1(1) s2(1)] s2(2) by auto
next
  case (X_Bin op a b)
  then obtain e1 e2 where e: "node e = E_Binary op e1 e2" "tree_of a e1" "tree_of b e2"
    by (auto split: expr_kind.splits)
  let ?t1 = "fmt_expr (node e1) n" and ?t2 = "fmt_expr (node e2) n"
  have "rest s = ?t1 @ 32 # (fmt_binop op @ 32 # (?t2 @ r))" using X_Bin.prems(3) e(1) by (simp add: node_map)
  then obtain s1 where s1: "lexes_to s (body a) s1" "rest s1 = 32 # (fmt_binop op @ 32 # (?t2 @ r))"
    using X_Bin.IH(1) [OF e(2)] X_Bin.prems(2) by (force simp: spaced_def)
  obtain s2 where s2: "lexes_to s1 [] s2" "rest s2 = fmt_binop op @ 32 # (?t2 @ r)"
    using reads_space [OF s1(2)] by blast
  obtain s3 where s3: "lexes_to s2 [op_token op] s3" "rest s3 = 32 # (?t2 @ r)"
    using reads_op [OF s2(2)] by (auto simp: spaced_def)
  obtain s4 where s4: "lexes_to s3 [] s4" "rest s4 = ?t2 @ r" using reads_space [OF s3(2)] by blast
  obtain s5 where s5: "lexes_to s4 (body b) s5" "rest s5 = r"
    using X_Bin.IH(2) [OF e(3) _ s4(2) X_Bin.prems(4)] X_Bin.prems(2) by auto
  have "body (X_Bin op a b) = body a @ [] @ [op_token op] @ [] @ body b"
    using X_Bin.prems(2) by (simp add: paren_def)
  moreover have "lexes_to s (body a @ [] @ [op_token op] @ [] @ body b) s5"
    by (intro reads_append [OF s1(1)] reads_append [OF s2(1)] reads_append [OF s3(1)] reads_append [OF s4(1)] s5(1))
  ultimately show ?case using s5(2) by auto
qed (use fmt_atom in \<open>fastforce+\<close>)

lemma parenless_tokens: "parenless a \<Longrightarrow> plain (body a) \<and> nest a = 0"
proof (induction a)
  case (X_Un u a)
  then show ?case by (cases a; cases u) (simp_all add: plain_def paren_def un_token_def wrap_def)
next
  case (X_Bin op a b)
  then show ?case using op_token_other(3) [of op] by (auto simp: paren_def wrap_def plain_def)
qed (simp_all add: plain_def)

text \<open>
  C15. The formatter, the lexer and the parser fit together: an expression over names, integers and operators
  that needs no parentheses is formatted to a text that is read, without an error and to its end, as the same
  expression.
\<close>

theorem formatted_expr_reads_back:
  assumes "parenless a" "tree_of a e"
  shows "\<exists>ts s. tokenize (lexer_new (fmt_expr (node e) n)) = (Inr ts, s)
    \<and> (\<forall>fuel \<ge> W (parser_new ts). \<exists>e' s'. parse_expr fuel (call_nt fuel) (parser_new ts) = POk e' s'
         \<and> tree_of a e' \<and> p_kind s' = T_Eof)"
proof -
  have r: "rest (lexer_new (fmt_expr (node e) n)) = fmt_expr (node e) n @ []" by (simp add: rest_def lexer_new_def)
  obtain s where "lexes_to (lexer_new (fmt_expr (node e) n)) (body a) s" "rest s = []"
    using formatted_reads [OF assms(2,1) r] by (auto simp: spaced_def)
  then obtain ts s' where ts: "tokenize (lexer_new (fmt_expr (node e) n)) = (Inr ts, s')"
    "map tok_kind ts = body a @ [T_Eof]"
    using reads_tokenize by blast
  have p: "pr 1 a = body a" using lev_range [of a] by (simp add: pr_def paren_def)
  have k: "kinds (parser_new ts) = pr 1 a @ [T_Eof]" using ts(2) p by (simp add: kinds_def parser_new_def)
  have "\<exists>e' s'. parse_expr fuel (call_nt fuel) (parser_new ts) = POk e' s' \<and> tree_of a e' \<and> p_kind s' = T_Eof"
    if f: "W (parser_new ts) \<le> fuel" for fuel
  proof -
    let ?s = "(parser_new ts)\<lparr>ps_pos := ps_pos (parser_new ts) + length (pr 1 a)\<rparr>"
    have e: "ends_expr (first [T_Eof])"
      by (simp add: ends_expr_def rank_def Tinox_Parser_Expr.compound_op_def)
    have pl: "plain (kinds (parser_new ts))"
      using k p parenless_tokens [OF assms(1)] by (simp add: plain_def)
    have d: "ps_depth (parser_new ts) + 1 + nest a \<le> MAX_RECURSION_DEPTH"
      using parenless_tokens [OF assms(1)] by (simp add: parser_new_def MAX_RECURSION_DEPTH_def)
    obtain e' where "parse_expr fuel (call_nt fuel) (parser_new ts) = POk e' ?s" "tree_of a e'"
      using parse_expr_reads [OF k e pl f d] by blast
    moreover have "p_kind ?s = T_Eof"
    proof -
      have "kinds (fw (length (pr 1 a)) (parser_new ts)) = [T_Eof]" using k by simp
      then show ?thesis by (simp add: p_kind_kinds fw_def)
    qed
    ultimately show ?thesis by blast
  qed
  then show ?thesis using ts(1) by blast
qed

text \<open>\<^verbatim>\<open>-a + 2 * b\<close>\<close>

definition sample_parenless :: sexp where
  "sample_parenless = X_Bin B_Add (X_Un U_Neg (X_Var (lit ''a''))) (X_Bin B_Mul (X_Int 2) (X_Var (lit ''b'')))"

definition at_dummy :: "expr_kind \<Rightarrow> expr" where "at_dummy k = spanned_new k span_dummy"

definition sample_tree :: expr where
  "sample_tree = at_dummy (E_Binary B_Add (at_dummy (E_Unary U_Neg (at_dummy (E_Ident (lit ''a'')))))
     (at_dummy (E_Binary B_Mul (at_dummy (E_Literal (Lit_Integer 2))) (at_dummy (E_Ident (lit ''b''))))))"

theorem formatted_expr_reads_back_witness:
  "fmt_expr (node sample_tree) 0 = lit ''-a + 2 * b''
   \<and> (\<exists>ts s e' s'. tokenize (lexer_new (lit ''-a + 2 * b'')) = (Inr ts, s)
     \<and> parse_expr (W (parser_new ts)) (call_nt (W (parser_new ts))) (parser_new ts) = POk e' s'
     \<and> tree_of sample_parenless e')"
proof -
  have "ident_ok (lit ''a'')" "ident_ok (lit ''b'')" by code_simp+
  then have a: "parenless sample_parenless"
    by (simp add: sample_parenless_def op_level_def i64_max_def del: lit_simps)
  have e: "tree_of sample_parenless sample_tree"
    by (simp add: sample_parenless_def sample_tree_def at_dummy_def spanned_new_def)
  have t: "fmt_expr (node sample_tree) 0 = lit ''-a + 2 * b''"
    by (simp add: sample_tree_def at_dummy_def spanned_new_def show_int_def show_nat_def radix_text.simps digit_char_def)
  show ?thesis using formatted_expr_reads_back [OF a e, where n = 0] unfolding t by blast
qed

text \<open>Parentheses are lost: \<^verbatim>\<open>(a + b) * c\<close> and \<^verbatim>\<open>a + b * c\<close> are formatted to the same text.\<close>

lemma formatter_loses_parentheses:
  "fmt_expr (E_Binary B_Mul (at_dummy (E_Binary B_Add a b)) c) n
   = fmt_expr (E_Binary B_Add a (at_dummy (E_Binary B_Mul b c))) n"
  by (simp add: at_dummy_def spanned_new_def node_map)

end
