(* ===== verification/Tinox_Codegen_Types.thy ===== *)
theory Tinox_Codegen_Types
  imports Tinox_Value_Types Tinox_Strings Tinox_Pm_Encoding
begin

text \<open>
  How the code generator (\<^verbatim>\<open>src/crates/tinox-codegen/src/codegen.rs\<close>) writes down types: LLVM types and
  the markers of containers, both texts as in the code, the discriminators of enum variants, and the way
  back from an LLVM type or a marker to a type. Shown are: lowering and its inverse agree, the marker of an
  element is what indexing makes of the marker of a container, and on which types the lowering of syntax
  and the lowering of the checker's types agree, on which the names of specialisations depend.
\<close>

type_synonym u64 = "64 word"

abbreviation star :: rchar where "star \<equiv> cc (CHR ''*'')"

definition strip_pre :: "rstring \<Rightarrow> rstring \<Rightarrow> rstring option" where
  "strip_pre p t = (if starts_with p t then Some (drop (length p) t) else None)"

text \<open>\<^verbatim>\<open>t.ends_with('*')\<close>\<close>

definition is_pointer :: "rstring \<Rightarrow> bool" where
  "is_pointer t \<longleftrightarrow> t \<noteq> [] \<and> last t = star"

section \<open>LLVM types\<close>

fun type_to_llvm :: "ty \<Rightarrow> rstring" where
  "type_to_llvm Ty_Int8 = lit ''i8''"
| "type_to_llvm Ty_Int16 = lit ''i16''"
| "type_to_llvm Ty_Int32 = lit ''i32''"
| "type_to_llvm Ty_Int64 = lit ''i64''"
| "type_to_llvm Ty_UInt8 = lit ''i8''"
| "type_to_llvm Ty_UInt16 = lit ''i16''"
| "type_to_llvm Ty_UInt32 = lit ''i32''"
| "type_to_llvm Ty_UInt64 = lit ''i64''"
| "type_to_llvm Ty_Float32 = lit ''float''"
| "type_to_llvm Ty_Float64 = lit ''double''"
| "type_to_llvm Ty_Bool = lit ''i1''"
| "type_to_llvm Ty_Char = lit ''i32''"
| "type_to_llvm Ty_String = lit ''i8*''"
| "type_to_llvm Ty_Nothing = lit ''void''"
| "type_to_llvm (Ty_Named _) = lit ''i64*''"
| "type_to_llvm (Ty_Generic n args) =
     (if n = lit ''Array'' then (case args of [] \<Rightarrow> lit ''i64*'' | t # _ \<Rightarrow> type_to_llvm t @ [star])
      else if n = lit ''Channel'' then lit ''i64''
      else lit ''i64*'')"
| "type_to_llvm (Ty_Ref t) = type_to_llvm t @ [star]"
| "type_to_llvm (Ty_Mutable t) = type_to_llvm t"
| "type_to_llvm (Ty_Array t) = type_to_llvm t @ [star]"
| "type_to_llvm (Ty_Map _ _) = lit ''i8*''"
| "type_to_llvm (Ty_Tuple _) = lit ''i64*''"
| "type_to_llvm (Ty_Nullable t) = type_to_llvm t"
| "type_to_llvm Ty_Never = lit ''i64''"
| "type_to_llvm Ty_Any = lit ''i64''"
| "type_to_llvm Ty_Infer = lit ''i64''"
| "type_to_llvm (Ty_Fn _ _) = lit ''i64''"

text \<open>\<^verbatim>\<open>type_to_llvm_inst\<close>: values of an enum are plain numbers.\<close>

definition type_to_llvm_inst :: "ident set \<Rightarrow> ty \<Rightarrow> rstring" where
  "type_to_llvm_inst enums t = (case t of
       Ty_Named n \<Rightarrow> if n \<in> enums then lit ''i64'' else type_to_llvm t
     | _ \<Rightarrow> type_to_llvm t)"

function llvm_ty_to_parser_type :: "rstring \<Rightarrow> ty" where
  "llvm_ty_to_parser_type t =
     (if t = lit ''i64'' then Ty_Int64
      else if t = lit ''i32'' then Ty_Int32
      else if t = lit ''i16'' then Ty_Int16
      else if t = lit ''i8'' then Ty_Int8
      else if t = lit ''double'' then Ty_Float64
      else if t = lit ''float'' then Ty_Float32
      else if t = lit ''i1'' then Ty_Bool
      else if t = lit ''i8*'' then Ty_String
      else if t = lit ''void'' then Ty_Nothing
      else if is_pointer t then Ty_Ref (llvm_ty_to_parser_type (butlast t))
      else Ty_Named t)"
  by auto
termination by (relation "measure length") (auto simp: is_pointer_def)

declare llvm_ty_to_parser_type.simps [simp del]

definition is_float :: "rstring \<Rightarrow> bool" where
  "is_float t \<longleftrightarrow> t = lit ''float'' \<or> t = lit ''double''"

definition int_bit_width :: "rstring \<Rightarrow> nat option" where
  "int_bit_width t =
     (if t = lit ''i1'' then Some 1 else if t = lit ''i8'' then Some 8 else if t = lit ''i16'' then Some 16
      else if t = lit ''i32'' then Some 32 else if t = lit ''i64'' then Some 64 else None)"

definition slot_llvm_ty :: "rstring \<Rightarrow> rstring" where
  "slot_llvm_ty t = (if t = lit ''double'' then lit ''double'' else if is_pointer t then t else lit ''i64'')"

text \<open>The types of the checker.\<close>

fun valuetype_to_llvm :: "value_type \<Rightarrow> rstring" where
  "valuetype_to_llvm VT_Int = lit ''i64''"
| "valuetype_to_llvm VT_Float = lit ''double''"
| "valuetype_to_llvm VT_Bool = lit ''i1''"
| "valuetype_to_llvm VT_Char = lit ''i32''"
| "valuetype_to_llvm VT_String = lit ''i8*''"
| "valuetype_to_llvm (VT_Named _ _) = lit ''i64*''"
| "valuetype_to_llvm (VT_Array _) = lit ''i64*''"
| "valuetype_to_llvm (VT_Map _) = lit ''i64*''"
| "valuetype_to_llvm (VT_Nullable t) = valuetype_to_llvm t"
| "valuetype_to_llvm _ = lit ''i64''"

section \<open>Markers\<close>

text \<open>
  The marker of a value says what \<^verbatim>\<open>infer_struct_type\<close> knows of it: the class of an object, or the kind of a
  container with that of its elements. The element of a list is looked at together with its own marker.
\<close>

definition is_container_name :: "ident \<Rightarrow> bool" where
  "is_container_name n \<longleftrightarrow> n = lit ''List'' \<or> n = lit ''Array'' \<or> n = lit ''Map''"

definition nested_list :: "rstring option \<Rightarrow> rstring" where
  "nested_list m = (case m of Some im \<Rightarrow> lit ''Array:'' @ im | None \<Rightarrow> lit ''Array'')"

definition list_marker :: "ty \<Rightarrow> rstring option \<Rightarrow> rstring" where
  "list_marker t m = (case t of
       Ty_String \<Rightarrow> lit ''Array:String''
     | Ty_Float32 \<Rightarrow> lit ''Array:Float''
     | Ty_Float64 \<Rightarrow> lit ''Array:Float''
     | Ty_Named c \<Rightarrow> lit ''List:'' @ c
     | Ty_Generic n _ \<Rightarrow> if \<not> is_container_name n then lit ''List:'' @ n else nested_list m
     | _ \<Rightarrow> nested_list m)"

definition map_marker :: "ty \<Rightarrow> rstring option \<Rightarrow> rstring" where
  "map_marker t m = (case t of
       Ty_String \<Rightarrow> lit ''Map:String''
     | Ty_Float32 \<Rightarrow> lit ''Map:Float''
     | Ty_Float64 \<Rightarrow> lit ''Map:Float''
     | Ty_Named c \<Rightarrow> lit ''Map:'' @ c
     | _ \<Rightarrow> (case m of Some vm \<Rightarrow> lit ''Map:'' @ vm | None \<Rightarrow> lit ''Map''))"

fun container_marker :: "ty \<Rightarrow> rstring option" where
  "container_marker (Ty_Array t) = Some (list_marker t (container_marker t))"
| "container_marker (Ty_Generic n args) =
     (if n = lit ''List'' \<or> n = lit ''Array'' then
        (case args of [] \<Rightarrow> None | t # _ \<Rightarrow> Some (list_marker t (container_marker t)))
      else None)"
| "container_marker (Ty_Map _ v) = Some (map_marker v (container_marker v))"
| "container_marker (Ty_Mutable t) = container_marker t"
| "container_marker (Ty_Ref t) = container_marker t"
| "container_marker _ = None"

definition map_val_marker :: "rstring \<Rightarrow> rstring option" where
  "map_val_marker m = strip_pre (lit ''Map:'') m"

definition is_map_marker :: "rstring \<Rightarrow> bool" where
  "is_map_marker m \<longleftrightarrow> m = lit ''Map'' \<or> starts_with (lit ''Map:'') m"

definition elem_marker :: "rstring \<Rightarrow> rstring option" where
  "elem_marker m = (case strip_pre (lit ''List:'') m of
       Some c \<Rightarrow> Some c
     | None \<Rightarrow> (case map_val_marker m of
         Some vm \<Rightarrow> Some vm
       | None \<Rightarrow> if m = lit ''Array:String'' then Some (lit ''String'')
           else if m = lit ''Array:Float'' then Some (lit ''Float'')
           else strip_pre (lit ''Array:'') m))"

fun extract_class_type_name :: "ty \<Rightarrow> rstring option" where
  "extract_class_type_name (Ty_Mutable t) = (case container_marker t of Some m \<Rightarrow> Some m | None \<Rightarrow> extract_class_type_name t)"
| "extract_class_type_name (Ty_Ref t) = (case container_marker t of Some m \<Rightarrow> Some m | None \<Rightarrow> extract_class_type_name t)"
| "extract_class_type_name t = (case container_marker t of Some m \<Rightarrow> Some m | None \<Rightarrow>
     (case t of Ty_Named n \<Rightarrow> Some n | Ty_Generic n _ \<Rightarrow> Some n | _ \<Rightarrow> None))"

function marker_to_type :: "rstring \<Rightarrow> ty" where
  "marker_to_type m = (case strip_pre (lit ''List:'') m of
       Some c \<Rightarrow> Ty_Generic (lit ''List'') [Ty_Named c]
     | None \<Rightarrow>
         if m = lit ''Array:String'' then Ty_Generic (lit ''List'') [Ty_String]
         else if m = lit ''Array:Float'' then Ty_Generic (lit ''List'') [Ty_Float64]
         else if m = lit ''Array'' \<or> starts_with (lit ''Array:'') m then Ty_Generic (lit ''List'') [Ty_Int64]
         else if m = lit ''Map'' then Ty_Map Ty_String Ty_Int64
         else if starts_with (lit ''Map:'') m then
           Ty_Map Ty_String (if drop 4 m = lit ''String'' then Ty_String
             else if drop 4 m = lit ''Float'' then Ty_Float64
             else marker_to_type (drop 4 m))
         else Ty_Named m)"
  by auto
termination
proof (relation "measure length")
  fix m assume "starts_with (lit ''Map:'') m"
  then show "(drop 4 m, m) \<in> measure length" by (cases m) (simp_all add: starts_with_def)
qed simp

declare marker_to_type.simps [simp del]

text \<open>The suffix in the name of a specialised method, which keeps the names of classes.\<close>

fun join_with :: "rstring \<Rightarrow> rstring list \<Rightarrow> rstring" where
  "join_with s [] = []"
| "join_with s [x] = x"
| "join_with s (x # y # ys) = x @ s @ join_with s (y # ys)"

primrec type_suffix :: "ty \<Rightarrow> rstring" where
  "type_suffix (Ty_Named n) = n"
| "type_suffix Ty_String = lit ''String''"
| "type_suffix Ty_Int64 = lit ''Int64''"
| "type_suffix Ty_Float64 = lit ''Float64''"
| "type_suffix Ty_Bool = lit ''Bool''"
| "type_suffix (Ty_Generic n args) = n @ lit ''_'' @ join_with (lit ''_'') (map type_suffix args)"
| "type_suffix (Ty_Array t) = lit ''List_'' @ type_suffix t"
| "type_suffix (Ty_Map k v) = lit ''Map''"
| "type_suffix Ty_Int8 = lit ''T''"
| "type_suffix Ty_Int16 = lit ''T''"
| "type_suffix Ty_Int32 = lit ''T''"
| "type_suffix Ty_UInt8 = lit ''T''"
| "type_suffix Ty_UInt16 = lit ''T''"
| "type_suffix Ty_UInt32 = lit ''T''"
| "type_suffix Ty_UInt64 = lit ''T''"
| "type_suffix Ty_Float32 = lit ''T''"
| "type_suffix Ty_Char = lit ''T''"
| "type_suffix Ty_Nothing = lit ''T''"
| "type_suffix Ty_Never = lit ''T''"
| "type_suffix Ty_Any = lit ''T''"
| "type_suffix Ty_Infer = lit ''T''"
| "type_suffix (Ty_Mutable t) = lit ''T''"
| "type_suffix (Ty_Ref t) = lit ''T''"
| "type_suffix (Ty_Fn ps r) = lit ''T''"
| "type_suffix (Ty_Tuple ts) = lit ''T''"
| "type_suffix (Ty_Nullable t) = lit ''T''"

section \<open>Names of specialisations\<close>

type_synonym bindings = "ident \<rightharpoonup> rstring"

definition replace_char :: "rchar \<Rightarrow> rchar \<Rightarrow> rstring \<Rightarrow> rstring" where
  "replace_char a b t = map (\<lambda>c. if c = a then b else c) t"

text \<open>Collecting pairs into a \<^verbatim>\<open>HashMap\<close>: a later pair replaces an earlier one.\<close>

definition collect_pairs :: "('k \<times> 'v) list \<Rightarrow> 'k \<rightharpoonup> 'v" where
  "collect_pairs xs = map_of (rev xs)"

definition mangle_generic_name :: "ident \<Rightarrow> ident list \<Rightarrow> bindings \<Rightarrow> rstring" where
  "mangle_generic_name n tps b =
     (let suffix = map (\<lambda>tp. replace_char (cc (CHR '' '')) (cc (CHR ''_''))
            (replace_char star (cc (CHR ''P'')) (case b tp of Some t \<Rightarrow> t | None \<Rightarrow> lit ''i64''))) tps
      in if suffix = [] then n else n @ lit ''__'' @ join_with (lit ''__'') suffix)"

text \<open>The name of the instance of a class, from the syntax of its arguments; the generic classes are given by their type parameters.\<close>

definition effective_class_name :: "(ident \<rightharpoonup> ident list) \<Rightarrow> ident \<Rightarrow> ty list \<Rightarrow> rstring" where
  "effective_class_name gcs c args =
     (if args = [] then c
      else case gcs c of None \<Rightarrow> c
        | Some tps \<Rightarrow> mangle_generic_name c tps (collect_pairs (zip tps (map type_to_llvm args))))"

text \<open>The same name, and every other marker, from the type that the checker has exported.\<close>

primrec valuetype_to_marker :: "(ident \<rightharpoonup> ident list) \<Rightarrow> value_type \<Rightarrow> rstring option" where
  "valuetype_to_marker gcs VT_String = Some (lit ''String'')"
| "valuetype_to_marker gcs VT_Float = Some (lit ''Float'')"
| "valuetype_to_marker gcs (VT_Named n args) =
     (if args = [] then Some n
      else case gcs n of None \<Rightarrow> Some n
        | Some tps \<Rightarrow> Some (mangle_generic_name n tps (collect_pairs (zip tps (map valuetype_to_llvm args)))))"
| "valuetype_to_marker gcs (VT_Array e) = Some (case e of
       VT_String \<Rightarrow> lit ''Array:String''
     | VT_Float \<Rightarrow> lit ''Array:Float''
     | VT_Named c _ \<Rightarrow> lit ''List:'' @ c
     | _ \<Rightarrow> nested_list (valuetype_to_marker gcs e))"
| "valuetype_to_marker gcs (VT_Map v) = Some (case valuetype_to_marker gcs v of
       Some m \<Rightarrow> lit ''Map:'' @ m | None \<Rightarrow> lit ''Map'')"
| "valuetype_to_marker gcs (VT_Nullable t) = valuetype_to_marker gcs t"
| "valuetype_to_marker gcs VT_Int = None"
| "valuetype_to_marker gcs VT_Bool = None"
| "valuetype_to_marker gcs VT_Char = None"
| "valuetype_to_marker gcs VT_Nothing = None"
| "valuetype_to_marker gcs VT_Never = None"
| "valuetype_to_marker gcs VT_Any = None"
| "valuetype_to_marker gcs VT_Ref = None"
| "valuetype_to_marker gcs VT_Fn = None"
| "valuetype_to_marker gcs VT_Tuple = None"
| "valuetype_to_marker gcs VT_Range = None"
| "valuetype_to_marker gcs VT_Null = None"

section \<open>Variants of enums\<close>

definition fnv1a :: "rstring \<Rightarrow> u64" where
  "fnv1a n = fold (\<lambda>b h. (xor h (ucast b)) * 0x100000001b3) (utf8_bytes n) 0xcbf29ce484222325"

text \<open>The results are \<^verbatim>\<open>i64\<close>; the cast from \<^verbatim>\<open>u64\<close> keeps the bits.\<close>

definition enum_discriminator :: "rstring \<Rightarrow> int" where
  "enum_discriminator n = sint (fnv1a n)"

definition enum_discriminator_noarg :: "rstring \<Rightarrow> int" where
  "enum_discriminator_noarg n = sint (fnv1a n mod 65536)"

fun payload_kind :: "ty \<Rightarrow> rstring" where
  "payload_kind Ty_String = lit ''String''"
| "payload_kind (Ty_Map k v) = (case container_marker (Ty_Map k v) of Some m \<Rightarrow> m | None \<Rightarrow> lit ''Map'')"
| "payload_kind (Ty_Array t) = (case container_marker (Ty_Array t) of Some m \<Rightarrow> m | None \<Rightarrow> lit ''Array'')"
| "payload_kind (Ty_Generic n args) =
     (if n = lit ''List'' then (case container_marker (Ty_Generic n args) of Some m \<Rightarrow> m | None \<Rightarrow> lit ''Array'')
      else lit ''Other'')"
| "payload_kind Ty_Float32 = lit ''Float''"
| "payload_kind Ty_Float64 = lit ''Float''"
| "payload_kind (Ty_Mutable t) = payload_kind t"
| "payload_kind (Ty_Ref t) = payload_kind t"
| "payload_kind _ = lit ''Other''"

section \<open>Lowering and its inverse\<close>

text \<open>The texts that are LLVM types: the scalars, and pointers to types.\<close>

inductive llvm_type :: "rstring \<Rightarrow> bool" where
  scalar: "t \<in> {lit ''i8'', lit ''i16'', lit ''i32'', lit ''i64'', lit ''float'', lit ''double'', lit ''i1'', lit ''void''}
    \<Longrightarrow> llvm_type t"
| pointer: "llvm_type t \<Longrightarrow> llvm_type (t @ [star])"

lemma llvm_i8p: "llvm_type (lit ''i8*'')" and llvm_i64p: "llvm_type (lit ''i64*'')"
  using pointer [OF scalar, of "lit ''i8''"] pointer [OF scalar, of "lit ''i64''"] by simp_all

lemma type_to_llvm_type: "llvm_type (type_to_llvm t)"
  by (induction t rule: type_to_llvm.induct)
    (auto simp: llvm_i8p llvm_i64p scalar pointer [simplified] simp del: lit_simps split: list.splits)

lemma llvm_pointer_inverse:
  "llvm_ty_to_parser_type (t @ [star]) = (if t = lit ''i8'' then Ty_String else Ty_Ref (llvm_ty_to_parser_type t))"
  by (subst llvm_ty_to_parser_type.simps) (auto simp: is_pointer_def)

text \<open>Taking an LLVM type back to a type and lowering it again changes nothing.\<close>

lemma lower_llvm_type: "llvm_type t \<Longrightarrow> type_to_llvm (llvm_ty_to_parser_type t) = t"
proof (induction rule: llvm_type.induct)
  case (scalar t)
  then show ?case by (subst llvm_ty_to_parser_type.simps) auto
qed (auto simp: llvm_pointer_inverse [simplified])

section \<open>Elements\<close>

definition value_marker :: "ty \<Rightarrow> rstring option" where
  "value_marker t = (case t of
       Ty_String \<Rightarrow> Some (lit ''String'') | Ty_Float32 \<Rightarrow> Some (lit ''Float'') | Ty_Float64 \<Rightarrow> Some (lit ''Float'')
     | Ty_Named c \<Rightarrow> Some c
     | Ty_Generic n _ \<Rightarrow> if is_container_name n then container_marker t else Some n
     | _ \<Rightarrow> container_marker t)"

lemma strip_pre_append [simp]: "strip_pre p (p @ t) = Some t"
  by (simp add: strip_pre_def starts_with_def)

lemma elem_list_marker: "elem_marker (list_marker t (container_marker t)) = value_marker t"
proof -
  have "elem_marker (lit ''List:'' @ c) = Some c" for c by (simp add: elem_marker_def del: lit_simps)
  moreover have "elem_marker (nested_list m) = m" for m
    by (cases m) (auto simp: nested_list_def elem_marker_def map_val_marker_def strip_pre_def starts_with_def)
  moreover have "elem_marker (lit ''Array:String'') = Some (lit ''String'')" "elem_marker (lit ''Array:Float'') = Some (lit ''Float'')"
    by (simp_all add: elem_marker_def map_val_marker_def strip_pre_def starts_with_def)
  ultimately show ?thesis
    by (cases t) (simp_all add: list_marker_def value_marker_def is_container_name_def del: lit_simps)
qed

section \<open>Agreement with the types of the checker\<close>

text \<open>
  The types on which both lowerings agree. Not among them: the narrow numbers, which the checker
  takes for \<^verbatim>\<open>Int64\<close> and \<^verbatim>\<open>Float64\<close>, references, maps, tuples, channels and arrays of anything but
  64-bit numbers.
\<close>

fun lowered_alike :: "ty \<Rightarrow> bool" where
  "lowered_alike (Ty_Generic n args) =
     (if n = lit ''Array'' then (case args of [] \<Rightarrow> True | t # _ \<Rightarrow> type_to_llvm t = lit ''i64'') else n \<noteq> lit ''Channel'')"
| "lowered_alike (Ty_Array t) \<longleftrightarrow> type_to_llvm t = lit ''i64''"
| "lowered_alike (Ty_Mutable t) \<longleftrightarrow> type_to_llvm t = lit ''i64''"
| "lowered_alike (Ty_Nullable t) \<longleftrightarrow> lowered_alike t"
| "lowered_alike t \<longleftrightarrow> t \<in> {Ty_Int64, Ty_UInt64, Ty_Float64, Ty_Bool, Ty_Char, Ty_String, Ty_Never, Ty_Any, Ty_Infer}
     \<or> (case t of Ty_Named _ \<Rightarrow> True | Ty_Fn _ _ \<Rightarrow> True | _ \<Rightarrow> False)"

lemma star_i64: "lit ''i64*'' = t @ [star] \<longleftrightarrow> t = lit ''i64''"
proof -
  have "lit ''i64*'' = lit ''i64'' @ [star]" by simp
  then show ?thesis by (auto simp del: lit_simps)
qed

lemma pointer_not_i64: "lit ''i64'' \<noteq> t @ [star]"
proof
  assume "lit ''i64'' = t @ [star]"
  then have "last (lit ''i64'') = star" by (simp del: lit_simps)
  then show False by simp
qed

lemma lowering_agrees: "valuetype_to_llvm (from_parser_type t) = type_to_llvm t \<longleftrightarrow> lowered_alike t"
proof (induction t rule: lowered_alike.induct)
  case (1 n args)
  show ?case using star_i64 by (auto split: list.splits)
next
  case (2 t)
  show ?case using star_i64 by auto
next
  case 3
  then show ?case by auto
qed (use pointer_not_i64 in auto)

text \<open>
  C29. The name of an instance of a generic class is found in two ways: from the syntax of the type arguments
  where the instance is created, and from the type that the checker has exported where it is used. Both give the same name
  if every argument is lowered alike, that is (\<open>lowering_agrees\<close>) if it is a 64-bit number, a boolean, a character,
  a string, a class or another generic type, a function, or such a type made nullable.
\<close>

theorem instance_names_agree:
  assumes "gcs c = Some tps" "args \<noteq> []" "\<forall>t \<in> set args. lowered_alike t"
  shows "valuetype_to_marker gcs (VT_Named c (map from_parser_type args)) = Some (effective_class_name gcs c args)"
proof -
  have "map valuetype_to_llvm (map from_parser_type args) = map type_to_llvm args"
    using assms(3) lowering_agrees by simp
  then show ?thesis using assms(1,2) by (simp add: effective_class_name_def del: map_map)
qed

theorem instance_names_agree_witness:
  "valuetype_to_marker [lit ''Box'' \<mapsto> [lit ''T'']] (VT_Named (lit ''Box'') (map from_parser_type [Ty_Nullable Ty_String]))
     = Some (effective_class_name [lit ''Box'' \<mapsto> [lit ''T'']] (lit ''Box'') [Ty_Nullable Ty_String])
   \<and> effective_class_name [lit ''Box'' \<mapsto> [lit ''T'']] (lit ''Box'') [Ty_Nullable Ty_String] = lit ''Box__i8P''"
proof
  show "valuetype_to_marker [lit ''Box'' \<mapsto> [lit ''T'']] (VT_Named (lit ''Box'') (map from_parser_type [Ty_Nullable Ty_String]))
     = Some (effective_class_name [lit ''Box'' \<mapsto> [lit ''T'']] (lit ''Box'') [Ty_Nullable Ty_String])"
    by (rule instance_names_agree) simp_all
qed (simp add: effective_class_name_def mangle_generic_name_def collect_pairs_def replace_char_def)

text \<open>A box of a map has two names.\<close>

lemma map_instance_names_differ:
  "valuetype_to_marker [lit ''Box'' \<mapsto> [lit ''T'']] (VT_Named (lit ''Box'') [from_parser_type (Ty_Map Ty_String Ty_Int64)]) = Some (lit ''Box__i64P'')"
  "effective_class_name [lit ''Box'' \<mapsto> [lit ''T'']] (lit ''Box'') [Ty_Map Ty_String Ty_Int64] = lit ''Box__i8P''"
  by (simp_all add: effective_class_name_def mangle_generic_name_def collect_pairs_def replace_char_def)

section \<open>Discriminators\<close>

text \<open>A variant without arguments is a number that no pointer can be taken for.\<close>

lemma noarg_discriminator_bound: "0 \<le> enum_discriminator_noarg n \<and> enum_discriminator_noarg n \<le> 65535"
proof -
  define u where "u = uint (fnv1a n mod 65536)"
  have "0 \<le> u" "u < 65536" by (simp_all add: u_def uint_mod)
  then have "signed_take_bit 63 u = u" by (intro signed_take_bit_int_eq_self) simp_all
  moreover have "enum_discriminator_noarg n = signed_take_bit 63 u"
    by (simp add: enum_discriminator_noarg_def u_def sint_uint)
  ultimately show ?thesis using \<open>0 \<le> u\<close> \<open>u < 65536\<close> by linarith
qed

end
