(* ===== verification/Tinox_Codegen_Effects.thy ===== *)
theory Tinox_Codegen_Effects
  imports Tinox_Ast
begin

text \<open>
  The throw analysis of \<^verbatim>\<open>src/crates/tinox-codegen/src/codegen.rs\<close>: which functions and methods may
  throw, so that a check of the error slot is emitted only after calls that can set it. A \<^verbatim>\<open>HashSet\<close> of
  names is a set. The fixpoint loop is total: every round but the last finds a name. Shown is that its
  result is reachability in the call graph: a name is in the sets exactly if a chain of calls leads from
  one of its bodies to a place that throws by itself.
\<close>

section \<open>Expressions and statements that may throw\<close>

text \<open>\<open>tf\<close> are the throwing free functions, \<open>tm\<close> the base names of throwing methods.\<close>

type_synonym throw_test = "ident set \<Rightarrow> ident set \<Rightarrow> bool"

definition any_may_throw :: "throw_test spanned list \<Rightarrow> throw_test" where
  "any_may_throw ts tf tm = list_ex (\<lambda>t. node t tf tm) ts"

definition opt_may_throw :: "throw_test spanned option \<Rightarrow> throw_test" where
  "opt_may_throw t tf tm = (case t of None \<Rightarrow> False | Some x \<Rightarrow> node x tf tm)"

definition case_may_throw :: "throw_test spanned match_case \<Rightarrow> throw_test" where
  "case_may_throw c tf tm = (node (mc_body c) tf tm \<or> opt_may_throw (mc_guard c) tf tm)"

primrec expr_may_throw :: "expr_kind \<Rightarrow> throw_test" and stmt_may_throw :: "stmt_kind \<Rightarrow> throw_test" where
  "expr_may_throw (E_Throw e) = (\<lambda>tf tm. True)"
| "expr_may_throw (E_Call f args) = (\<lambda>tf tm. case node f of
       E_Ident n \<Rightarrow> n \<in> tf \<or> n \<in> tm \<or> any_may_throw (map (map_spanned expr_may_throw) args) tf tm
     | _ \<Rightarrow> True)"
| "expr_may_throw (E_MethodCall obj m args) = (\<lambda>tf tm. m \<in> tm \<or> node (map_spanned expr_may_throw obj) tf tm
     \<or> any_may_throw (map (map_spanned expr_may_throw) args) tf tm)"
| "expr_may_throw (E_SuperCall m args) = (\<lambda>tf tm. m \<in> tm \<or> any_may_throw (map (map_spanned expr_may_throw) args) tf tm)"
| "expr_may_throw (E_EnumValue en v ts args) = (\<lambda>tf tm. v \<in> tm \<or> any_may_throw (map (map_spanned expr_may_throw) args) tf tm)"
| "expr_may_throw (E_New c ts args) = (\<lambda>tf tm. True)"
| "expr_may_throw (E_Await e) = (\<lambda>tf tm. True)"
| "expr_may_throw (E_Recv e) = (\<lambda>tf tm. True)"
| "expr_may_throw (E_Spawn e) = (\<lambda>tf tm. True)"
| "expr_may_throw (E_Literal l) = (\<lambda>tf tm. False)"
| "expr_may_throw (E_Ident n) = (\<lambda>tf tm. False)"
| "expr_may_throw E_This = (\<lambda>tf tm. False)"
| "expr_may_throw E_Channel = (\<lambda>tf tm. False)"
| "expr_may_throw (E_Binary p l r) = (\<lambda>tf tm. node (map_spanned expr_may_throw l) tf tm \<or> node (map_spanned expr_may_throw r) tf tm)"
| "expr_may_throw (E_Unary p e) = (\<lambda>tf tm. node (map_spanned expr_may_throw e) tf tm)"
| "expr_may_throw (E_Index obj i) = (\<lambda>tf tm. node (map_spanned expr_may_throw obj) tf tm \<or> node (map_spanned expr_may_throw i) tf tm)"
| "expr_may_throw (E_FieldAccess obj f) = (\<lambda>tf tm. node (map_spanned expr_may_throw obj) tf tm)"
| "expr_may_throw (E_ArrayLiteral es) = any_may_throw (map (map_spanned expr_may_throw) es)"
| "expr_may_throw (E_Tuple es) = any_may_throw (map (map_spanned expr_may_throw) es)"
| "expr_may_throw (E_MapLiteral kvs) = (\<lambda>tf tm. list_ex (\<lambda>(k, v). node k tf tm \<or> node v tf tm)
       (map (map_prod (map_spanned expr_may_throw) (map_spanned expr_may_throw)) kvs))"
| "expr_may_throw (E_StructLiteral n fs) = (\<lambda>tf tm. list_ex (\<lambda>(f, v). node v tf tm)
       (map (map_prod id (map_spanned expr_may_throw)) fs))"
| "expr_may_throw (E_Block ss) = any_may_throw (map (map_spanned stmt_may_throw) ss)"
| "expr_may_throw (E_If c t e) = (\<lambda>tf tm. node (map_spanned expr_may_throw c) tf tm \<or> node (map_spanned expr_may_throw t) tf tm
     \<or> opt_may_throw (map_option (map_spanned expr_may_throw) e) tf tm)"
| "expr_may_throw (E_While c b) = (\<lambda>tf tm. node (map_spanned expr_may_throw c) tf tm \<or> node (map_spanned expr_may_throw b) tf tm)"
| "expr_may_throw (E_For x it b) = (\<lambda>tf tm. node (map_spanned expr_may_throw it) tf tm \<or> node (map_spanned expr_may_throw b) tf tm)"
| "expr_may_throw (E_Loop b) = (\<lambda>tf tm. node (map_spanned expr_may_throw b) tf tm)"
| "expr_may_throw (E_Match e cs) = (\<lambda>tf tm. node (map_spanned expr_may_throw e) tf tm
     \<or> list_ex (\<lambda>c. case_may_throw c tf tm) (map (map_match_case (map_spanned expr_may_throw)) cs))"
| "expr_may_throw (E_Return v) = opt_may_throw (map_option (map_spanned expr_may_throw) v)"
| "expr_may_throw (E_Assign t v) = (\<lambda>tf tm. node (map_spanned expr_may_throw t) tf tm \<or> node (map_spanned expr_may_throw v) tf tm)"
| "expr_may_throw (E_CompoundAssign p t v) = (\<lambda>tf tm. node (map_spanned expr_may_throw t) tf tm \<or> node (map_spanned expr_may_throw v) tf tm)"
| "expr_may_throw (E_Lambda ps r b) = (\<lambda>tf tm. False)"
| "expr_may_throw (E_Send ch v) = (\<lambda>tf tm. node (map_spanned expr_may_throw ch) tf tm \<or> node (map_spanned expr_may_throw v) tf tm)"
| "expr_may_throw (E_Cast e t) = (\<lambda>tf tm. node (map_spanned expr_may_throw e) tf tm)"
| "expr_may_throw (E_Is e t) = (\<lambda>tf tm. node (map_spanned expr_may_throw e) tf tm)"
| "expr_may_throw (E_Range a b incl) = (\<lambda>tf tm. node (map_spanned expr_may_throw a) tf tm \<or> node (map_spanned expr_may_throw b) tf tm)"
| "expr_may_throw (E_TupleIndex t i) = (\<lambda>tf tm. node (map_spanned expr_may_throw t) tf tm)"
| "expr_may_throw E_Break = (\<lambda>tf tm. False)"
| "expr_may_throw E_Continue = (\<lambda>tf tm. False)"
| "expr_may_throw (E_Try b cs f) = (\<lambda>tf tm. True)"
| "stmt_may_throw (S_Expr e) = (\<lambda>tf tm. node (map_spanned expr_may_throw e) tf tm)"
| "stmt_may_throw (S_Let x t v) = opt_may_throw (map_option (map_spanned expr_may_throw) v)"
| "stmt_may_throw (S_Var x t v mu) = opt_may_throw (map_option (map_spanned expr_may_throw) v)"
| "stmt_may_throw (S_Assignment t v) = (\<lambda>tf tm. node (map_spanned expr_may_throw t) tf tm \<or> node (map_spanned expr_may_throw v) tf tm)"
| "stmt_may_throw (S_If c t e) = (\<lambda>tf tm. node (map_spanned expr_may_throw c) tf tm \<or> node (map_spanned stmt_may_throw t) tf tm
     \<or> opt_may_throw (map_option (map_spanned stmt_may_throw) e) tf tm)"
| "stmt_may_throw (S_While c b) = (\<lambda>tf tm. node (map_spanned expr_may_throw c) tf tm \<or> node (map_spanned stmt_may_throw b) tf tm)"
| "stmt_may_throw (S_For x it b) = (\<lambda>tf tm. node (map_spanned expr_may_throw it) tf tm \<or> node (map_spanned stmt_may_throw b) tf tm)"
| "stmt_may_throw (S_ForC i c u b) = (\<lambda>tf tm. opt_may_throw (map_option (map_spanned stmt_may_throw) i) tf tm
     \<or> opt_may_throw (map_option (map_spanned expr_may_throw) c) tf tm
     \<or> opt_may_throw (map_option (map_spanned expr_may_throw) u) tf tm
     \<or> node (map_spanned stmt_may_throw b) tf tm)"
| "stmt_may_throw (S_Loop b) = (\<lambda>tf tm. node (map_spanned stmt_may_throw b) tf tm)"
| "stmt_may_throw (S_Block ss) = any_may_throw (map (map_spanned stmt_may_throw) ss)"
| "stmt_may_throw (S_Return v) = opt_may_throw (map_option (map_spanned expr_may_throw) v)"
| "stmt_may_throw (S_Throw e) = (\<lambda>tf tm. True)"
| "stmt_may_throw (S_Try b cs f) = (\<lambda>tf tm. node (map_spanned stmt_may_throw b) tf tm
     \<or> list_ex (\<lambda>c. node (cc_body c) tf tm) (map (map_catch_clause (map_spanned stmt_may_throw)) cs)
     \<or> opt_may_throw (map_option (map_spanned stmt_may_throw) f) tf tm)"
| "stmt_may_throw (S_Defer s) = (\<lambda>tf tm. node (map_spanned stmt_may_throw s) tf tm)"
| "stmt_may_throw (S_Select arms d) = (\<lambda>tf tm.
     list_ex (\<lambda>a. node (sa_body a) tf tm) (map (map_select_arm (map_spanned expr_may_throw) (map_spanned stmt_may_throw)) arms)
     \<or> opt_may_throw (map_option (map_spanned stmt_may_throw) d) tf tm)"
| "stmt_may_throw S_Break = (\<lambda>tf tm. False)"
| "stmt_may_throw S_Continue = (\<lambda>tf tm. False)"
| "stmt_may_throw S_Empty = (\<lambda>tf tm. False)"

text \<open>The check of one node, without its parts: \<^verbatim>\<open>gen_expr\<close> makes it after every node it has emitted.\<close>

fun expr_directly_may_throw :: "expr_kind \<Rightarrow> throw_test" where
  "expr_directly_may_throw (E_Call f args) tf tm = (case node f of E_Ident n \<Rightarrow> n \<in> tf \<or> n \<in> tm | _ \<Rightarrow> True)"
| "expr_directly_may_throw (E_MethodCall obj m args) tf tm = (m \<in> tm)"
| "expr_directly_may_throw (E_SuperCall m args) tf tm = (m \<in> tm)"
| "expr_directly_may_throw (E_EnumValue en v ts args) tf tm = (v \<in> tm)"
| "expr_directly_may_throw (E_New c ts args) tf tm = True"
| "expr_directly_may_throw (E_Await e) tf tm = True"
| "expr_directly_may_throw (E_Recv e) tf tm = True"
| "expr_directly_may_throw (E_Spawn e) tf tm = True"
| "expr_directly_may_throw e tf tm = False"

section \<open>The fixpoint\<close>

text \<open>A body with its name; the flag tells methods from free functions.\<close>

type_synonym body_entry = "ident \<times> stmt \<times> bool"

primrec collect_bodies :: "decl_kind \<Rightarrow> body_entry list" where
  "collect_bodies (D_Function f) = [(fn_name f, fn_body f, False)]"
| "collect_bodies (D_Class c) = map (\<lambda>m. (me_name m, me_body m, True)) (cl_methods c)"
| "collect_bodies (D_Interface i) = map (\<lambda>m. (fn_name m, fn_body m, True)) (if_methods i)"
| "collect_bodies (D_Enum e) = []"
| "collect_bodies (D_Trait t) = []"
| "collect_bodies (D_Import i) = []"
| "collect_bodies (D_Module n) = []"
| "collect_bodies (D_Namespace ns) = concat (map node (ns_decls (map_namespace (map_spanned collect_bodies) ns)))"
| "collect_bodies (D_Immutable d) = []"

type_synonym effects = "ident set \<times> ident set"

definition found :: "effects \<Rightarrow> bool \<Rightarrow> ident \<Rightarrow> bool" where
  "found e is_method n \<longleftrightarrow> (if is_method then n \<in> snd e else n \<in> fst e)"

definition insert_effect :: "bool \<Rightarrow> ident \<Rightarrow> effects \<Rightarrow> effects" where
  "insert_effect is_method n e = (if is_method then (fst e, insert n (snd e)) else (insert n (fst e), snd e))"

text \<open>One round: the sets grow while it runs, and the flag tells whether they did.\<close>

fun throw_round :: "body_entry list \<Rightarrow> effects \<Rightarrow> effects \<times> bool" where
  "throw_round [] e = (e, False)"
| "throw_round ((n, body, is_method) # fns) e =
     (if found e is_method n then throw_round fns e
      else if stmt_may_throw (node body) (fst e) (snd e)
        then (fst (throw_round fns (insert_effect is_method n e)), True)
        else throw_round fns e)"

text \<open>The names still outside of the sets, which is the measure of the loop.\<close>

definition missing :: "body_entry list \<Rightarrow> effects \<Rightarrow> nat" where
  "missing fns e = card {(m, n). (\<exists>b. (n, b, m) \<in> set fns) \<and> \<not> found e m n}"

lemma found_insert [simp]:
  "found (insert_effect m n e) m' n' \<longleftrightarrow> m' = m \<and> n' = n \<or> found e m' n'"
  by (auto simp: found_def insert_effect_def)

lemma round_grows: "found e m n \<Longrightarrow> found (fst (throw_round fns e)) m n"
  by (induction fns e rule: throw_round.induct) auto

lemma round_changed: "snd (throw_round fns e) \<Longrightarrow> \<exists>n b m. (n, b, m) \<in> set fns \<and> \<not> found e m n \<and> found (fst (throw_round fns e)) m n"
proof (induction fns e rule: throw_round.induct)
  case (2 n b m fns e)
  have "found (fst (throw_round fns (insert_effect m n e))) m n" by (rule round_grows) simp
  then show ?case using 2 by (auto split: if_splits)
qed simp

lemma finite_entries: "finite {(m, n). (\<exists>b. (n, b, m) \<in> set fns) \<and> P m n}"
proof (rule finite_subset)
  show "{(m, n). (\<exists>b. (n, b, m) \<in> set fns) \<and> P m n} \<subseteq> (\<lambda>(n, b, m). (m, n)) ` set fns" by force
qed simp

lemma round_missing: "snd (throw_round fns e) \<Longrightarrow> missing fns (fst (throw_round fns e)) < missing fns e"
  unfolding missing_def using round_changed [of fns e] round_grows [of e _ _ fns]
  by (intro psubset_card_mono finite_entries) blast

function throw_loop :: "body_entry list \<Rightarrow> effects \<Rightarrow> effects" where
  "throw_loop fns e = (let (e', changed) = throw_round fns e in if changed then throw_loop fns e' else e')"
  by auto
termination
  by (relation "measure (\<lambda>(fns, e). missing fns e)") (auto intro: round_missing dest: sym simp: prod_eq_iff)

declare throw_loop.simps [simp del]

lemma throw_loop_unfold:
  "throw_loop fns e = (if snd (throw_round fns e) then throw_loop fns (fst (throw_round fns e)) else fst (throw_round fns e))"
  by (subst throw_loop.simps) (simp add: split_beta)

lemma throw_loop_induct:
  assumes "\<And>e. \<not> snd (throw_round fns e) \<Longrightarrow> P e" "\<And>e. snd (throw_round fns e) \<Longrightarrow> P (fst (throw_round fns e)) \<Longrightarrow> P e"
  shows "P e"
  by (induction "missing fns e" arbitrary: e rule: less_induct) (metis assms round_missing)

definition file_bodies :: "source_file \<Rightarrow> body_entry list" where
  "file_bodies sf = concat (map (\<lambda>d. collect_bodies (node d)) (sf_decls sf))"

definition analyze_throw_effects :: "source_file \<Rightarrow> effects" where
  "analyze_throw_effects sf = throw_loop (file_bodies sf) ({}, {})"

section \<open>What a body does\<close>

text \<open>
  The places of a body that may throw when the body runs: places that throw by themselves, calls of a free
  name, calls of a method. The body of a lambda does not count: it runs when the lambda is called.
\<close>

datatype throw_site = Site_Direct | Site_Call ident | Site_Method ident

fun site_in :: "effects \<Rightarrow> throw_site \<Rightarrow> bool" where
  "site_in e Site_Direct = True"
| "site_in e (Site_Call n) = (found e False n \<or> found e True n)"
| "site_in e (Site_Method n) = found e True n"

definition all_sites :: "throw_site set spanned list \<Rightarrow> throw_site set" where
  "all_sites ts = \<Union> (set (map node ts))"

definition opt_sites :: "throw_site set spanned option \<Rightarrow> throw_site set" where
  "opt_sites t = \<Union> (node ` set_option t)"

primrec expr_sites :: "expr_kind \<Rightarrow> throw_site set" and stmt_sites :: "stmt_kind \<Rightarrow> throw_site set" where
  "expr_sites (E_Literal l) = {}"
| "expr_sites (E_ArrayLiteral es) = all_sites (map (map_spanned expr_sites) es)"
| "expr_sites (E_MapLiteral kvs) = (\<Union>(k, v) \<in> set (map (map_prod (map_spanned expr_sites) (map_spanned expr_sites)) kvs). node k \<union> node v)"
| "expr_sites (E_Ident n) = {}"
| "expr_sites (E_Binary p l r) = node (map_spanned expr_sites l) \<union> node (map_spanned expr_sites r)"
| "expr_sites (E_Unary p e) = node (map_spanned expr_sites e)"
| "expr_sites (E_Call f args) = (case node f of
       E_Ident n \<Rightarrow> insert (Site_Call n) (all_sites (map (map_spanned expr_sites) args)) | _ \<Rightarrow> {Site_Direct})"
| "expr_sites (E_MethodCall obj m args) = insert (Site_Method m) (node (map_spanned expr_sites obj) \<union> all_sites (map (map_spanned expr_sites) args))"
| "expr_sites (E_Index obj i) = node (map_spanned expr_sites obj) \<union> node (map_spanned expr_sites i)"
| "expr_sites (E_FieldAccess obj f) = node (map_spanned expr_sites obj)"
| "expr_sites E_This = {}"
| "expr_sites (E_SuperCall m args) = insert (Site_Method m) (all_sites (map (map_spanned expr_sites) args))"
| "expr_sites (E_New c ts args) = {Site_Direct}"
| "expr_sites (E_StructLiteral n fs) = (\<Union>(f, v) \<in> set (map (map_prod id (map_spanned expr_sites)) fs). node v)"
| "expr_sites (E_Block ss) = all_sites (map (map_spanned stmt_sites) ss)"
| "expr_sites (E_If c t e) = node (map_spanned expr_sites c) \<union> node (map_spanned expr_sites t) \<union> opt_sites (map_option (map_spanned expr_sites) e)"
| "expr_sites (E_While c b) = node (map_spanned expr_sites c) \<union> node (map_spanned expr_sites b)"
| "expr_sites (E_For x it b) = node (map_spanned expr_sites it) \<union> node (map_spanned expr_sites b)"
| "expr_sites (E_Loop b) = node (map_spanned expr_sites b)"
| "expr_sites (E_Match e cs) = node (map_spanned expr_sites e)
     \<union> (\<Union>c \<in> set (map (map_match_case (map_spanned expr_sites)) cs). node (mc_body c) \<union> opt_sites (mc_guard c))"
| "expr_sites (E_Return v) = opt_sites (map_option (map_spanned expr_sites) v)"
| "expr_sites E_Break = {}"
| "expr_sites E_Continue = {}"
| "expr_sites (E_Throw e) = {Site_Direct}"
| "expr_sites (E_Try b cs f) = {Site_Direct}"
| "expr_sites (E_Assign t v) = node (map_spanned expr_sites t) \<union> node (map_spanned expr_sites v)"
| "expr_sites (E_CompoundAssign p t v) = node (map_spanned expr_sites t) \<union> node (map_spanned expr_sites v)"
| "expr_sites (E_Lambda ps r b) = {}"
| "expr_sites (E_Spawn e) = {Site_Direct}"
| "expr_sites (E_Await e) = {Site_Direct}"
| "expr_sites E_Channel = {}"
| "expr_sites (E_Send ch v) = node (map_spanned expr_sites ch) \<union> node (map_spanned expr_sites v)"
| "expr_sites (E_Recv e) = {Site_Direct}"
| "expr_sites (E_Cast e t) = node (map_spanned expr_sites e)"
| "expr_sites (E_Is e t) = node (map_spanned expr_sites e)"
| "expr_sites (E_Range a b incl) = node (map_spanned expr_sites a) \<union> node (map_spanned expr_sites b)"
| "expr_sites (E_Tuple es) = all_sites (map (map_spanned expr_sites) es)"
| "expr_sites (E_TupleIndex t i) = node (map_spanned expr_sites t)"
| "expr_sites (E_EnumValue en v ts args) = insert (Site_Method v) (all_sites (map (map_spanned expr_sites) args))"
| "stmt_sites (S_Expr e) = node (map_spanned expr_sites e)"
| "stmt_sites (S_Let x t v) = opt_sites (map_option (map_spanned expr_sites) v)"
| "stmt_sites (S_Var x t v mu) = opt_sites (map_option (map_spanned expr_sites) v)"
| "stmt_sites (S_Assignment t v) = node (map_spanned expr_sites t) \<union> node (map_spanned expr_sites v)"
| "stmt_sites (S_If c t e) = node (map_spanned expr_sites c) \<union> node (map_spanned stmt_sites t) \<union> opt_sites (map_option (map_spanned stmt_sites) e)"
| "stmt_sites (S_While c b) = node (map_spanned expr_sites c) \<union> node (map_spanned stmt_sites b)"
| "stmt_sites (S_For x it b) = node (map_spanned expr_sites it) \<union> node (map_spanned stmt_sites b)"
| "stmt_sites (S_ForC i c u b) = opt_sites (map_option (map_spanned stmt_sites) i) \<union> opt_sites (map_option (map_spanned expr_sites) c)
     \<union> opt_sites (map_option (map_spanned expr_sites) u) \<union> node (map_spanned stmt_sites b)"
| "stmt_sites (S_Loop b) = node (map_spanned stmt_sites b)"
| "stmt_sites (S_Return v) = opt_sites (map_option (map_spanned expr_sites) v)"
| "stmt_sites S_Break = {}"
| "stmt_sites S_Continue = {}"
| "stmt_sites (S_Throw e) = {Site_Direct}"
| "stmt_sites (S_Try b cs f) = node (map_spanned stmt_sites b) \<union> (\<Union>c \<in> set (map (map_catch_clause (map_spanned stmt_sites)) cs). node (cc_body c))
     \<union> opt_sites (map_option (map_spanned stmt_sites) f)"
| "stmt_sites (S_Defer s) = node (map_spanned stmt_sites s)"
| "stmt_sites (S_Block ss) = all_sites (map (map_spanned stmt_sites) ss)"
| "stmt_sites (S_Select arms d) = (\<Union>a \<in> set (map (map_select_arm (map_spanned expr_sites) (map_spanned stmt_sites)) arms). node (sa_body a))
     \<union> opt_sites (map_option (map_spanned stmt_sites) d)"
| "stmt_sites S_Empty = {}"

section \<open>The analysis finds the sites\<close>

definition hits :: "effects \<Rightarrow> throw_site set \<Rightarrow> bool" where
  "hits e X \<longleftrightarrow> (\<exists>x \<in> X. site_in e x)"

lemma hits_simps [simp]:
  "\<not> hits e {}"
  "hits e (insert x X) \<longleftrightarrow> site_in e x \<or> hits e X"
  "hits e (X \<union> Y) \<longleftrightarrow> hits e X \<or> hits e Y"
  "hits e (\<Union>i \<in> I. F i) \<longleftrightarrow> (\<exists>i \<in> I. hits e (F i))"
  by (auto simp: hits_def)

lemma hits_all: "hits e (all_sites (map (map_spanned f) ts)) \<longleftrightarrow> (\<exists>t \<in> set ts. hits e (f (node t)))"
  by (auto simp: all_sites_def spanned.map_sel)

lemma hits_opt: "hits e (opt_sites (map_option (map_spanned f) t)) \<longleftrightarrow> (\<exists>x. t = Some x \<and> hits e (f (node x)))"
  by (cases t) (auto simp: opt_sites_def spanned.map_sel)

lemma any_may_throw: "any_may_throw (map (map_spanned f) ts) tf tm \<longleftrightarrow> (\<exists>t \<in> set ts. f (node t) tf tm)"
  by (auto simp: any_may_throw_def list_ex_iff spanned.map_sel)

lemma opt_may_throw: "opt_may_throw (map_option (map_spanned f) t) tf tm \<longleftrightarrow> (\<exists>x. t = Some x \<and> f (node x) tf tm)"
  by (cases t) (auto simp: opt_may_throw_def spanned.map_sel)

lemmas throw_rules = hits_all hits_opt any_may_throw opt_may_throw case_may_throw_def list_ex_iff
  spanned.map_sel match_case.map_sel catch_clause.map_sel select_arm.map_sel

lemma node_mem: "node x \<in> set_spanned x"
  by (cases x) simp

lemma part_mem:
  "mc_body c \<in> set_match_case c" "mc_guard c = Some g \<Longrightarrow> g \<in> set_match_case c"
  "cc_body h \<in> set_catch_clause h" "sa_channel a \<in> set1_select_arm a" "sa_body a \<in> set2_select_arm a"
  by (cases c, simp, cases c, simp, cases h, simp, cases a, simp, cases a, simp)

lemma may_throw_sites:
  "expr_may_throw k tf tm \<longleftrightarrow> hits (tf, tm) (expr_sites k)"
  "stmt_may_throw s tf tm \<longleftrightarrow> hits (tf, tm) (stmt_sites s)"
proof (induction k and s)
  case (E_Call f args)
  then show ?case by (auto simp: throw_rules node_mem found_def split: expr_kind.splits)
next
  case (E_MapLiteral kvs)
  have "\<forall>p \<in> set kvs. expr_may_throw (node (fst p)) tf tm = hits (tf, tm) (expr_sites (node (fst p)))"
    by (metis E_MapLiteral(1) node_mem prod.collapse prod_set_simps(1) singletonI)
  moreover have "\<forall>p \<in> set kvs. expr_may_throw (node (snd p)) tf tm = hits (tf, tm) (expr_sites (node (snd p)))"
    by (metis E_MapLiteral(2) node_mem prod.collapse prod_set_simps(2) singletonI)
  ultimately show ?case by (simp add: throw_rules split_beta)
next
  case (E_StructLiteral n fs)
  have "\<forall>p \<in> set fs. expr_may_throw (node (snd p)) tf tm = hits (tf, tm) (expr_sites (node (snd p)))"
    by (metis E_StructLiteral(1) node_mem prod.collapse prod_set_simps(2) singletonI)
  then show ?case by (simp add: throw_rules split_beta)
next
  case (E_Match e cs)
  have "\<forall>c \<in> set cs. expr_may_throw (node (mc_body c)) tf tm = hits (tf, tm) (expr_sites (node (mc_body c)))"
    by (metis E_Match(2) part_mem node_mem)
  moreover have "\<forall>c \<in> set cs. \<forall>g. mc_guard c = Some g \<longrightarrow> expr_may_throw (node g) tf tm = hits (tf, tm) (expr_sites (node g))"
    by (metis E_Match(2) part_mem node_mem)
  ultimately show ?case using E_Match(1) by (simp add: throw_rules node_mem) blast
next
  case (S_Try b hs f)
  have "\<forall>h \<in> set hs. stmt_may_throw (node (cc_body h)) tf tm = hits (tf, tm) (stmt_sites (node (cc_body h)))"
    by (metis S_Try(2) part_mem node_mem)
  then show ?case using S_Try(1,3) by (auto simp: throw_rules node_mem)
next
  case (S_Select as d)
  have "\<forall>a \<in> set as. stmt_may_throw (node (sa_body a)) tf tm = hits (tf, tm) (stmt_sites (node (sa_body a)))"
    by (metis S_Select(2) part_mem node_mem)
  then show ?case using S_Select(3) by (auto simp: throw_rules node_mem)
qed (auto simp: throw_rules node_mem found_def)

section \<open>The result of the loop\<close>

text \<open>
  Reachability: a body leads to a throw if one of its sites throws by itself or calls a name one of whose
  bodies leads to a throw. A call of a free name counts for functions and methods of that name.
\<close>

inductive leads_to_throw :: "body_entry list \<Rightarrow> bool \<Rightarrow> ident \<Rightarrow> bool" for fns where
  direct: "(n, b, m) \<in> set fns \<Longrightarrow> Site_Direct \<in> stmt_sites (node b) \<Longrightarrow> leads_to_throw fns m n"
| call: "(n, b, m) \<in> set fns \<Longrightarrow> Site_Call k \<in> stmt_sites (node b) \<Longrightarrow> leads_to_throw fns m' k \<Longrightarrow> leads_to_throw fns m n"
| via_method: "(n, b, m) \<in> set fns \<Longrightarrow> Site_Method k \<in> stmt_sites (node b) \<Longrightarrow> leads_to_throw fns True k \<Longrightarrow> leads_to_throw fns m n"

definition only_leading :: "body_entry list \<Rightarrow> effects \<Rightarrow> bool" where
  "only_leading fns e \<longleftrightarrow> (\<forall>m n. found e m n \<longrightarrow> leads_to_throw fns m n)"

lemma leads_if_body:
  assumes "(n, b, m) \<in> set fns" "only_leading fns e" "stmt_may_throw (node b) (fst e) (snd e)"
  shows "leads_to_throw fns m n"
proof -
  obtain x where "x \<in> stmt_sites (node b)" "site_in e x" using assms(3) by (auto simp: may_throw_sites hits_def)
  then show ?thesis using assms(1,2) by (cases x) (auto simp: only_leading_def intro: leads_to_throw.intros)
qed

lemma round_sound:
  "set fns \<subseteq> set all \<Longrightarrow> only_leading all e \<Longrightarrow> only_leading all (fst (throw_round fns e))"
proof (induction fns e rule: throw_round.induct)
  case (2 n b m fns e)
  then show ?case using leads_if_body [of n b m all e] by (auto simp: only_leading_def)
qed simp

lemma round_fixed:
  "\<not> snd (throw_round fns e) \<Longrightarrow> fst (throw_round fns e) = e
     \<and> (\<forall>(n, b, m) \<in> set fns. stmt_may_throw (node b) (fst e) (snd e) \<longrightarrow> found e m n)"
  by (induction fns e rule: throw_round.induct) (auto split: if_splits)

lemma loop_sound: "only_leading fns e \<Longrightarrow> only_leading fns (throw_loop fns e)"
proof (induction e rule: throw_loop_induct [of fns])
  case (1 e)
  then show ?case by (subst throw_loop_unfold) (simp add: round_fixed)
next
  case (2 e)
  then show ?case by (subst throw_loop_unfold) (simp add: round_sound)
qed

lemma loop_closed:
  "(n, b, m) \<in> set fns \<Longrightarrow> stmt_may_throw (node b) (fst (throw_loop fns e)) (snd (throw_loop fns e)) \<Longrightarrow> found (throw_loop fns e) m n"
proof (induction e rule: throw_loop_induct [of fns])
  case (1 e)
  then have "throw_loop fns e = e" by (subst throw_loop_unfold) (simp add: round_fixed)
  then show ?case using 1 round_fixed by fastforce
next
  case (2 e)
  then have "throw_loop fns e = throw_loop fns (fst (throw_round fns e))" by (subst throw_loop_unfold) simp
  then show ?case using 2 by simp
qed

lemma loop_complete: "leads_to_throw fns m n \<Longrightarrow> found (throw_loop fns e) m n"
proof (induction rule: leads_to_throw.induct)
  case (direct n b m)
  then show ?case by (intro loop_closed) (auto simp: may_throw_sites hits_def intro!: bexI [of _ Site_Direct])
next
  case (call n b m k m')
  then have "site_in (throw_loop fns e) (Site_Call k)" by (cases m') auto
  then show ?case using call(1,2) by (intro loop_closed) (auto simp: may_throw_sites hits_def simp del: site_in.simps)
next
  case (via_method n b m k)
  then show ?case by (intro loop_closed) (auto simp: may_throw_sites hits_def intro!: bexI [of _ "Site_Method k"])
qed


text \<open>The check of a node is implied by the check of the expression: whoever skips the latter loses nothing.\<close>

lemma directly_may_throw: "expr_directly_may_throw k tf tm \<Longrightarrow> expr_may_throw k tf tm"
  by (cases k) (auto split: expr_kind.splits)

text \<open>A call through a variable that holds a lambda looks like the call of a free function and is not counted.\<close>

abbreviation here :: "'a \<Rightarrow> 'a spanned" where
  "here k \<equiv> spanned_new k span_dummy"

lemma lambda_call_not_counted:
  fixes e :: expr and g :: ident
  defines "body \<equiv> S_Block [here (S_Let g None (Some (here (E_Lambda [] None (here (E_Throw e)))))),
        here (S_Expr (here (E_Call (here (E_Ident g)) [])))]"
  shows "throw_loop [(x, here body, False)] ({}, {}) = ({}, {})"
proof -
  have "\<not> stmt_may_throw body {} {}"
    by (simp add: body_def any_may_throw_def opt_may_throw_def spanned_new_def)
  then show ?thesis by (subst throw_loop_unfold) (simp add: found_def spanned_new_def)
qed

end
