(* ===== verification/Tinox_Codegen_Tables.thy ===== *)
theory Tinox_Codegen_Tables
  imports Tinox_Codegen_Types Tinox_Codegen_Effects
begin

text \<open>
  The tables that \<^verbatim>\<open>CodeGen::gen\<close> (\<^verbatim>\<open>src/crates/tinox-codegen/src/codegen.rs\<close>) fills before it emits any body:
  layouts of structs, types of fields, methods with their owners, signatures, generics, enums and their
  variants. A \<^verbatim>\<open>HashMap\<close> is a map, a \<^verbatim>\<open>HashSet\<close> a set. Recursion along superclasses is a \<open>partial_function\<close>:
  a circular inheritance, on which the code does not return, is \<open>None\<close>. The sum inside has the
  error that \<^verbatim>\<open>gen\<close> returns for two classes of one name.
\<close>

section \<open>The tables\<close>

datatype codegen_error = CG_DuplicateClass ident span | CG_FieldNotInLayout ident ident span

type_synonym signature = "rstring \<times> rstring list"

record cg_tables =
  struct_layouts :: "ident \<rightharpoonup> ident list"
  struct_field_class_types :: "ident \<rightharpoonup> ident \<rightharpoonup> rstring"
  struct_field_llvm_types :: "ident \<rightharpoonup> ident \<rightharpoonup> rstring"
  fn_field_sigs :: "ident \<rightharpoonup> ident \<rightharpoonup> signature"
  defined_classes :: "ident set"
  cg_class_parents :: "ident \<rightharpoonup> ident"
  classes_with_vtable :: "ident set"
  vtable_layouts :: "ident \<rightharpoonup> ident list"
  vtable_sizes :: "ident \<rightharpoonup> nat"
  generic_methods :: "rstring \<rightharpoonup> method_def"
  method_impl :: "rstring \<rightharpoonup> rstring"
  method_ret_types :: "rstring \<rightharpoonup> rstring"
  method_ret_class :: "rstring \<rightharpoonup> rstring"
  method_param_types :: "rstring \<rightharpoonup> ty list"
  static_method_keys :: "rstring set"
  fn_sigs :: "rstring \<rightharpoonup> signature"
  generic_fns :: "ident \<rightharpoonup> function_def"
  generic_class_defs :: "ident \<rightharpoonup> class_def"
  known_enum_types :: "ident set"
  known_enum_variants :: "ident set"
  variant_owner :: "ident \<rightharpoonup> ident option"
  enum_variant_payloads :: "ident \<rightharpoonup> rstring list"
  interface_method_ret_types :: "ident \<rightharpoonup> ident \<rightharpoonup> ty"
  class_named_types :: "ident set"
  generic_instance_methods :: "rstring \<rightharpoonup> ident \<times> bindings \<times> method_def"
  generated_specializations :: "rstring set"
  class_implements :: "ident \<rightharpoonup> ident list"
  known_interfaces :: "ident set"
  throwing_free_fns :: "ident set"
  throwing_method_basenames :: "ident set"
  type_param_aliases :: "ident \<rightharpoonup> rstring"
  methodcall_result_markers :: "u32 \<rightharpoonup> rstring"
  expr_value_types :: "u32 \<rightharpoonup> value_type"

text \<open>\<^verbatim>\<open>CodeGen::new\<close>, for these tables, and \<^verbatim>\<open>set_interface_info\<close>\<close>

definition tables_new :: cg_tables where
  "tables_new = \<lparr>struct_layouts = Map.empty, struct_field_class_types = Map.empty, struct_field_llvm_types = Map.empty,
     fn_field_sigs = Map.empty, defined_classes = {}, cg_class_parents = Map.empty, classes_with_vtable = {},
     vtable_layouts = Map.empty, vtable_sizes = Map.empty, generic_methods = Map.empty, method_impl = Map.empty,
     method_ret_types = Map.empty, method_ret_class = Map.empty, method_param_types = Map.empty, static_method_keys = {},
     fn_sigs = Map.empty, generic_fns = Map.empty, generic_class_defs = Map.empty, known_enum_types = {},
     known_enum_variants = {}, variant_owner = Map.empty, enum_variant_payloads = Map.empty,
     interface_method_ret_types = Map.empty, class_named_types = {},
     generic_instance_methods = Map.empty, generated_specializations = {}, class_implements = Map.empty, known_interfaces = {},
     throwing_free_fns = {}, throwing_method_basenames = {}, type_param_aliases = Map.empty, methodcall_result_markers = Map.empty,
     expr_value_types = Map.empty\<rparr>"

definition set_interface_info :: "(ident \<rightharpoonup> ident list) \<Rightarrow> (ident \<rightharpoonup> ident list) \<Rightarrow> cg_tables \<Rightarrow> cg_tables" where
  "set_interface_info layouts implements t =
     t\<lparr>known_interfaces := dom layouts, vtable_layouts := layouts, class_implements := implements,
       classes_with_vtable := classes_with_vtable t \<union> {c. \<exists>i more. implements c = Some (i # more)}\<rparr>"

section \<open>Declarations one level into namespaces\<close>

definition shallow :: "decl list \<Rightarrow> decl_kind list" where
  "shallow ds = concat (map (\<lambda>d. case node d of D_Namespace ns \<Rightarrow> map node (ns_decls ns) | k \<Rightarrow> [k]) ds)"

definition all_classes :: "source_file \<Rightarrow> class_def list" where
  "all_classes sf = concat (map (\<lambda>k. case k of D_Class c \<Rightarrow> [c] | _ \<Rightarrow> []) (shallow (sf_decls sf)))"

definition all_immutables :: "source_file \<Rightarrow> immutable_decl list" where
  "all_immutables sf = concat (map (\<lambda>k. case k of D_Immutable u \<Rightarrow> [u] | _ \<Rightarrow> []) (shallow (sf_decls sf)))"

definition class_ast_map :: "source_file \<Rightarrow> ident \<rightharpoonup> class_def" where
  "class_ast_map sf = collect_pairs (map (\<lambda>c. (cl_name c, c)) (all_classes sf))"

text \<open>\<^verbatim>\<open>collect_interface_method_ret_types\<close> does recur into namespaces.\<close>

primrec interface_ret_types :: "decl_kind \<Rightarrow> (ident \<rightharpoonup> ident \<rightharpoonup> ty) \<Rightarrow> (ident \<rightharpoonup> ident \<rightharpoonup> ty)" where
  "interface_ret_types (D_Function f) = id"
| "interface_ret_types (D_Class c) = id"
| "interface_ret_types (D_Interface i) = (\<lambda>out. out(if_name i \<mapsto>
     (case out (if_name i) of Some m \<Rightarrow> m | None \<Rightarrow> Map.empty) ++ collect_pairs (map (\<lambda>m. (fn_name m, fn_ret_type m)) (if_methods i))))"
| "interface_ret_types (D_Enum e) = id"
| "interface_ret_types (D_Trait x) = id"
| "interface_ret_types (D_Import i) = id"
| "interface_ret_types (D_Module n) = id"
| "interface_ret_types (D_Namespace ns) = fold node (ns_decls (map_namespace (map_spanned interface_ret_types) ns))"
| "interface_ret_types (D_Immutable d) = id"

definition collect_interface_method_ret_types :: "source_file \<Rightarrow> cg_tables \<Rightarrow> cg_tables" where
  "collect_interface_method_ret_types sf t = t\<lparr>interface_method_ret_types :=
     fold (\<lambda>d. interface_ret_types (node d)) (sf_decls sf) (interface_method_ret_types t)\<rparr>"

section \<open>Along superclasses\<close>

text \<open>
  The four \<^verbatim>\<open>collect_\<close> functions recur alike: what the superclass gives is extended with the own fields.
\<close>

partial_function (option) collect_up ::
  "(class_def \<Rightarrow> 'a \<Rightarrow> 'a) \<Rightarrow> 'a \<Rightarrow> (ident \<rightharpoonup> class_def) \<Rightarrow> ident \<Rightarrow> 'a option" where
  "collect_up own e cm n = (case cm n of
       None \<Rightarrow> Some e
     | Some c \<Rightarrow> (case cl_extends c of
         None \<Rightarrow> Some (own c e)
       | Some p \<Rightarrow> Option.bind (collect_up own e cm p) (\<lambda>r. Some (own c r))))"

definition own_fields :: "class_def \<Rightarrow> ident list \<Rightarrow> ident list" where
  "own_fields c fs = fold (\<lambda>f fs. if fd_name f \<in> set fs then fs else fs @ [fd_name f]) (cl_fields c) fs"

definition collect_inherited_fields :: "(ident \<rightharpoonup> class_def) \<Rightarrow> ident \<Rightarrow> ident list option" where
  "collect_inherited_fields = collect_up own_fields []"

definition downgrade_list :: "rstring \<Rightarrow> (ident \<Rightarrow> bool) \<Rightarrow> rstring \<Rightarrow> rstring" where
  "downgrade_list plain known m =
     (case strip_pre (lit ''List:'') m of Some c \<Rightarrow> if \<not> known c then plain else m | None \<Rightarrow> m)"

definition collect_field_class_types :: "(ident \<rightharpoonup> class_def) \<Rightarrow> ident \<Rightarrow> (ident \<rightharpoonup> rstring) option" where
  "collect_field_class_types cm = collect_up (\<lambda>c r. fold (\<lambda>f r. case extract_class_type_name (fd_type f) of
       None \<Rightarrow> r
     | Some n \<Rightarrow> r(fd_name f \<mapsto> downgrade_list (lit ''List'') (\<lambda>x. cm x \<noteq> None) n)) (cl_fields c) r) Map.empty cm"

definition collect_fn_field_sigs :: "(ident \<rightharpoonup> class_def) \<Rightarrow> ident \<Rightarrow> (ident \<rightharpoonup> signature) option" where
  "collect_fn_field_sigs = collect_up (\<lambda>c r. fold (\<lambda>f r. case fd_type f of
       Ty_Fn ps t \<Rightarrow> r(fd_name f \<mapsto> (type_to_llvm t, map type_to_llvm ps)) | _ \<Rightarrow> r) (cl_fields c) r) Map.empty"

definition collect_field_llvm_types :: "(ident \<rightharpoonup> class_def) \<Rightarrow> ident \<Rightarrow> (ident \<rightharpoonup> rstring) option" where
  "collect_field_llvm_types = collect_up (\<lambda>c r. fold (\<lambda>f r. r(fd_name f \<mapsto> type_to_llvm (fd_type f))) (cl_fields c) r) Map.empty"

definition impl_key :: "ident \<Rightarrow> ident \<Rightarrow> rstring" where
  "impl_key c m = c @ lit ''_'' @ m"

partial_function (option) owner_loop :: "(ident \<rightharpoonup> class_def) \<Rightarrow> ident \<Rightarrow> ident \<Rightarrow> rstring option option" where
  "owner_loop cm m current = (case cm current of
       None \<Rightarrow> Some None
     | Some c \<Rightarrow> if \<exists>x \<in> set (cl_methods c). me_name x = m then Some (Some (impl_key current m))
         else (case cl_extends c of Some p \<Rightarrow> owner_loop cm m p | None \<Rightarrow> Some None))"

definition resolve_method_owner :: "(ident \<rightharpoonup> class_def) \<Rightarrow> ident \<Rightarrow> ident \<Rightarrow> rstring option" where
  "resolve_method_owner cm c m = map_option (\<lambda>r. case r of Some k \<Rightarrow> k | None \<Rightarrow> impl_key c m) (owner_loop cm m c)"

partial_function (option) field_declaring_class :: "cg_tables \<Rightarrow> ident \<Rightarrow> ident \<Rightarrow> ident option" where
  "field_declaring_class t c f = (case cg_class_parents t c of
       Some p \<Rightarrow> (case struct_layouts t p of
           Some fs \<Rightarrow> if f \<in> set fs then field_declaring_class t p f else Some c
         | None \<Rightarrow> Some c)
     | None \<Rightarrow> Some c)"

section \<open>Enums\<close>

definition register_variant_payloads :: "ident \<Rightarrow> rstring list \<Rightarrow> cg_tables \<Rightarrow> cg_tables" where
  "register_variant_payloads v kinds t = (case enum_variant_payloads t v of
       Some old \<Rightarrow> if length kinds \<le> length old then t
         else t\<lparr>enum_variant_payloads := (enum_variant_payloads t)(v \<mapsto> kinds)\<rparr>
     | None \<Rightarrow> t\<lparr>enum_variant_payloads := (enum_variant_payloads t)(v \<mapsto> kinds)\<rparr>)"

definition register_variant_owner :: "ident \<Rightarrow> ident \<Rightarrow> cg_tables \<Rightarrow> cg_tables" where
  "register_variant_owner en v t = (case variant_owner t v of
       None \<Rightarrow> t\<lparr>variant_owner := (variant_owner t)(v \<mapsto> Some en)\<rparr>
     | Some (Some old) \<Rightarrow> if old \<noteq> en then t\<lparr>variant_owner := (variant_owner t)(v \<mapsto> None)\<rparr> else t
     | Some None \<Rightarrow> t)"

definition variant_discriminator_key :: "cg_tables \<Rightarrow> ident option \<Rightarrow> ident \<Rightarrow> rstring" where
  "variant_discriminator_key t hint v = (case hint of
       Some en \<Rightarrow> en @ lit ''::'' @ v
     | None \<Rightarrow> (case variant_owner t v of Some (Some en) \<Rightarrow> en @ lit ''::'' @ v | _ \<Rightarrow> v))"

definition register_variant :: "ident \<Rightarrow> enum_variant \<Rightarrow> cg_tables \<Rightarrow> cg_tables" where
  "register_variant en v t =
     register_variant_payloads (ev_name v) (map payload_kind (ev_args v))
       (register_variant_owner en (ev_name v) (t\<lparr>known_enum_variants := insert (ev_name v) (known_enum_variants t)\<rparr>))"

definition register_enum :: "enum_def \<Rightarrow> cg_tables \<Rightarrow> cg_tables" where
  "register_enum e t = fold (register_variant (en_name e)) (en_variants e) (t\<lparr>known_enum_types := insert (en_name e) (known_enum_types t)\<rparr>)"

definition register_enums :: "source_file \<Rightarrow> cg_tables \<Rightarrow> cg_tables" where
  "register_enums sf = fold (\<lambda>k. case k of D_Enum e \<Rightarrow> register_enum e | _ \<Rightarrow> id) (shallow (sf_decls sf))"

section \<open>Immutables\<close>

definition register_immutable :: "immutable_decl \<Rightarrow> cg_tables \<Rightarrow> cg_tables" where
  "register_immutable u t =
     (let fs = im_fields u; n = im_name u in
      t\<lparr>defined_classes := insert n (defined_classes t),
        struct_layouts := (struct_layouts t)(n \<mapsto> map param_name fs),
        struct_field_class_types := (struct_field_class_types t)(n \<mapsto>
          collect_pairs (concat (map (\<lambda>f. case param_type f of Ty_Named c \<Rightarrow> [(param_name f, c)] | _ \<Rightarrow> []) fs))),
        struct_field_llvm_types := (struct_field_llvm_types t)(n \<mapsto> collect_pairs (map (\<lambda>f. (param_name f, type_to_llvm (param_type f))) fs)),
        fn_field_sigs := (fn_field_sigs t)(n \<mapsto> collect_pairs (concat (map (\<lambda>f. case param_type f of
          Ty_Fn ps r \<Rightarrow> [(param_name f, (type_to_llvm r, map type_to_llvm ps))] | _ \<Rightarrow> []) fs))),
        method_ret_types := (method_ret_types t)(n @ lit ''_new'' \<mapsto> lit ''i64*'')\<rparr>)"

section \<open>Classes\<close>

text \<open>The layout and the types of fields, as the four collecting functions give them\<close>

definition insert_layout :: "(ident \<rightharpoonup> class_def) \<Rightarrow> ident \<Rightarrow> (ident list \<Rightarrow> ident list) \<Rightarrow>
    ((ident \<rightharpoonup> rstring) \<Rightarrow> (ident \<rightharpoonup> rstring)) \<Rightarrow> ((ident \<rightharpoonup> rstring) \<Rightarrow> (ident \<rightharpoonup> rstring)) \<Rightarrow> cg_tables \<Rightarrow> cg_tables option" where
  "insert_layout cm n layout classes llvm t =
     Option.bind (collect_inherited_fields cm n) (\<lambda>fs.
     Option.bind (collect_field_class_types cm n) (\<lambda>ct.
     Option.bind (collect_field_llvm_types cm n) (\<lambda>lt.
     Option.bind (collect_fn_field_sigs cm n) (\<lambda>fts.
       Some (t\<lparr>struct_layouts := (struct_layouts t)(n \<mapsto> layout fs),
         struct_field_class_types := (struct_field_class_types t)(n \<mapsto> classes ct),
         struct_field_llvm_types := (struct_field_llvm_types t)(n \<mapsto> llvm lt),
         fn_field_sigs := (fn_field_sigs t)(n \<mapsto> fts)\<rparr>)))))"

text \<open>The class that a method or a function returns, if the tables know it by now\<close>

definition known_return :: "cg_tables \<Rightarrow> ty \<Rightarrow> rstring option" where
  "known_return t r = (case r of
       Ty_Named c \<Rightarrow> if c \<in> defined_classes t \<or> struct_layouts t c \<noteq> None then Some c else None
     | _ \<Rightarrow> map_option (downgrade_list (lit ''Array'') (\<lambda>c. c \<in> defined_classes t)) (container_marker r))"

definition insert_return :: "rstring \<Rightarrow> ty \<Rightarrow> cg_tables \<Rightarrow> cg_tables" where
  "insert_return k r t = (case known_return t r of
       Some m \<Rightarrow> t\<lparr>method_ret_class := (method_ret_class t)(k \<mapsto> m)\<rparr> | None \<Rightarrow> t)"

definition register_method :: "ident \<Rightarrow> method_def \<Rightarrow> cg_tables \<Rightarrow> cg_tables" where
  "register_method c m t =
     (let k = impl_key c (me_name m) in
      if me_type_params m \<noteq> [] then t\<lparr>generic_methods := (generic_methods t)(k \<mapsto> m)\<rparr>
      else
        (let t1 = insert_return k (me_ret_type m) (t\<lparr>method_impl := (method_impl t)(k \<mapsto> k),
               method_ret_types := (method_ret_types t)(k \<mapsto> type_to_llvm_inst (known_enum_types t) (me_ret_type m)),
               static_method_keys := (if me_static m then insert k (static_method_keys t) else static_method_keys t)\<rparr>)
         in t1\<lparr>method_param_types := (method_param_types t1)(k \<mapsto> map param_type (me_params m))\<rparr>))"

text \<open>The methods of an ancestor that the class neither has nor has got from a nearer ancestor\<close>

primrec inherit_methods :: "(ident \<rightharpoonup> class_def) \<Rightarrow> class_def \<Rightarrow> ident \<Rightarrow> method_def list \<Rightarrow> cg_tables \<Rightarrow> cg_tables option" where
  "inherit_methods cm c a [] t = Some t"
| "inherit_methods cm c a (m # ms) t =
     (if me_name m \<in> me_name ` set (cl_methods c) \<or> method_impl t (impl_key (cl_name c) (me_name m)) \<noteq> None
      then inherit_methods cm c a ms t
      else Option.bind (resolve_method_owner cm a (me_name m)) (\<lambda>owner.
        inherit_methods cm c a ms (t\<lparr>
          method_impl := (method_impl t)(impl_key (cl_name c) (me_name m) \<mapsto> owner),
          method_ret_types := (method_ret_types t)(impl_key (cl_name c) (me_name m) \<mapsto>
            type_to_llvm_inst (known_enum_types t) (me_ret_type m))\<rparr>)))"

partial_function (option) inherit_all :: "(ident \<rightharpoonup> class_def) \<Rightarrow> class_def \<Rightarrow> ident option \<Rightarrow> cg_tables \<Rightarrow> cg_tables option" where
  "inherit_all cm c ancestor t = (case ancestor of
       None \<Rightarrow> Some t
     | Some a \<Rightarrow> (case cm a of
         None \<Rightarrow> Some t
       | Some ac \<Rightarrow> Option.bind (inherit_methods cm c a (cl_methods ac) t) (inherit_all cm c (cl_extends ac))))"

text \<open>The slots of the table of a class: the methods of its interfaces, each once\<close>

definition vtable_methods :: "cg_tables \<Rightarrow> ident list \<Rightarrow> ident list" where
  "vtable_methods t ifaces = fold (\<lambda>i ms. case vtable_layouts t i of
       None \<Rightarrow> ms | Some xs \<Rightarrow> fold (\<lambda>m ms. if m \<in> set ms then ms else ms @ [m]) xs ms) ifaces []"

definition has_vtable :: "cg_tables \<Rightarrow> class_def \<Rightarrow> bool" where
  "has_vtable t c \<longleftrightarrow> cl_implements c \<noteq> [] \<or> cl_name c \<in> classes_with_vtable t"

definition is_log_class :: "class_def \<Rightarrow> bool" where
  "is_log_class c \<longleftrightarrow> (\<exists>a \<in> set (cl_annotations c). ann_name a = lit ''Log'')"

definition class_layout :: "cg_tables \<Rightarrow> class_def \<Rightarrow> ident list \<Rightarrow> ident list" where
  "class_layout t c fs = (if has_vtable t c then [lit ''__vtable__''] else []) @ fs
     @ (if is_log_class c then [lit ''log''] else [])"

definition class_head :: "class_def \<Rightarrow> cg_tables \<Rightarrow> cg_tables" where
  "class_head c t =
     (let n = cl_name c;
          t2 = (case cl_extends c of Some p \<Rightarrow> t\<lparr>cg_class_parents := (cg_class_parents t)(n \<mapsto> p)\<rparr> | None \<Rightarrow> t)
      in if has_vtable t c
        then t2\<lparr>classes_with_vtable := insert n (classes_with_vtable t2),
          vtable_sizes := (vtable_sizes t2)(n \<mapsto> length (vtable_methods t2 (cl_implements c)))\<rparr>
        else t2)"

definition register_class :: "(ident \<rightharpoonup> class_def) \<Rightarrow> class_def \<Rightarrow> cg_tables \<Rightarrow> (codegen_error + cg_tables) option" where
  "register_class cm c t0 =
     (let n = cl_name c; t1 = t0\<lparr>defined_classes := insert n (defined_classes t0)\<rparr> in
      if cl_type_params c \<noteq> [] then
        (if struct_layouts t1 n = None then map_option Inr (insert_layout cm n id id id t1) else Some (Inr t1))
      else (case collect_inherited_fields cm n of
           None \<Rightarrow> None
         | Some fs \<Rightarrow>
             if struct_layouts t1 n \<noteq> None then Some (Inl (CG_DuplicateClass n (cl_span c)))
             else map_option Inr
               (Option.bind (insert_layout cm n (class_layout t1 c)
                  (\<lambda>ct. if is_log_class c then ct(lit ''log'' \<mapsto> lit ''Logger'') else ct)
                  (\<lambda>lt. if is_log_class c then lt(lit ''log'' \<mapsto> lit ''i64*'') else lt) (class_head c t1)) (\<lambda>t2.
                inherit_all cm c (cl_extends c) (fold (register_method n) (cl_methods c) t2)))))"

primrec register_classes :: "(ident \<rightharpoonup> class_def) \<Rightarrow> class_def list \<Rightarrow> cg_tables \<Rightarrow> (codegen_error + cg_tables) option" where
  "register_classes cm [] t = Some (Inr t)"
| "register_classes cm (c # cs) t = Option.bind (register_class cm c t) (\<lambda>r. case r of
       Inl e \<Rightarrow> Some (Inl e) | Inr t' \<Rightarrow> register_classes cm cs t')"

section \<open>Signatures, and all tables\<close>

definition register_function :: "bool \<Rightarrow> function_def \<Rightarrow> cg_tables \<Rightarrow> cg_tables" where
  "register_function toplevel f t =
     (if fn_type_params f \<noteq> [] then t\<lparr>generic_fns := (generic_fns t)(fn_name f \<mapsto> f)\<rparr>
      else
        (let n = (if toplevel \<and> fn_name f = lit ''main'' then lit ''tinox_main'' else fn_name f);
             t1 = t\<lparr>fn_sigs := (fn_sigs t)(n \<mapsto> (type_to_llvm_inst (known_enum_types t) (fn_ret_type f),
               map (\<lambda>p. type_to_llvm (param_type p)) (fn_params f)))\<rparr>
         in if toplevel then insert_return n (fn_ret_type f) t1 else t1))"

definition register_signature :: "bool \<Rightarrow> decl_kind \<Rightarrow> cg_tables \<Rightarrow> cg_tables" where
  "register_signature toplevel k = (case k of
       D_Function f \<Rightarrow> register_function toplevel f
     | D_Class c \<Rightarrow> (if cl_type_params c \<noteq> [] then (\<lambda>t. t\<lparr>generic_class_defs := (generic_class_defs t)(cl_name c \<mapsto> c)\<rparr>) else id)
     | D_Enum e \<Rightarrow> register_enum e
     | _ \<Rightarrow> id)"

definition register_signatures :: "source_file \<Rightarrow> cg_tables \<Rightarrow> cg_tables" where
  "register_signatures sf = fold (\<lambda>d. case node d of
       D_Namespace ns \<Rightarrow> fold (\<lambda>x. register_signature False (node x)) (ns_decls ns)
     | k \<Rightarrow> register_signature True k) (sf_decls sf)"

text \<open>\<^verbatim>\<open>entry(k).or_insert\<close>, and the methods that annotations add\<close>

definition or_insert :: "'k \<Rightarrow> 'v \<Rightarrow> ('k \<rightharpoonup> 'v) \<Rightarrow> ('k \<rightharpoonup> 'v)" where
  "or_insert k v m = (case m k of Some _ \<Rightarrow> m | None \<Rightarrow> m(k \<mapsto> v))"

definition pre_register_to_string :: "ident list \<Rightarrow> cg_tables \<Rightarrow> cg_tables" where
  "pre_register_to_string cs t =
     t\<lparr>method_ret_types := fold (\<lambda>c. or_insert (c @ lit ''_toString'') (lit ''i8*'')) cs (method_ret_types t)\<rparr>"

definition pre_register_to_json :: "ident list \<Rightarrow> cg_tables \<Rightarrow> cg_tables" where
  "pre_register_to_json cs t =
     t\<lparr>method_ret_types := fold (\<lambda>c. or_insert (c @ lit ''_toJson'') (lit ''i8*'')) cs (method_ret_types t)\<rparr>"

definition pre_register_from_json :: "ident list \<Rightarrow> cg_tables \<Rightarrow> cg_tables" where
  "pre_register_from_json cs t =
     t\<lparr>fn_sigs := fold (\<lambda>c. or_insert (c @ lit ''_fromJson'') (lit ''i64*'', [lit ''i64*''])) cs (fn_sigs t),
       method_ret_types := fold (\<lambda>c. or_insert (c @ lit ''_fromJson'') (lit ''i64*'')) cs (method_ret_types t)\<rparr>"

text \<open>The result of the throw analysis is kept for the bodies.\<close>

definition store_effects :: "source_file \<Rightarrow> cg_tables \<Rightarrow> cg_tables" where
  "store_effects sf t = t\<lparr>throwing_free_fns := fst (analyze_throw_effects sf),
     throwing_method_basenames := snd (analyze_throw_effects sf)\<rparr>"

text \<open>
  All that is registered before the first line of code: \<open>masked\<close> are the classes with sensitive or masked
  fields, \<open>json\<close> those that are serialized.
\<close>

definition fill_tables :: "ident list \<Rightarrow> ident list \<Rightarrow> source_file \<Rightarrow> cg_tables \<Rightarrow> (codegen_error + cg_tables) option" where
  "fill_tables masked json sf t =
     (let t1 = fold register_immutable (all_immutables sf) (store_effects sf (register_enums sf (collect_interface_method_ret_types sf t)))
      in map_option (map_sum id (\<lambda>t2. pre_register_from_json json (pre_register_to_json json
           (pre_register_to_string masked (register_signatures sf t2)))))
         (register_classes (class_ast_map sf) (all_classes sf) t1))"

section \<open>Struct types\<close>

text \<open>\<open>register_named_struct_type\<close> gives the slots of the LLVM struct, unless a field is a \<^verbatim>\<open>float\<close>.\<close>

definition struct_slots :: "cg_tables \<Rightarrow> ident \<Rightarrow> rstring list option" where
  "struct_slots t n =
     (let layout = (case struct_layouts t n of Some fs \<Rightarrow> fs | None \<Rightarrow> []);
          types = (case struct_field_llvm_types t n of Some m \<Rightarrow> m | None \<Rightarrow> Map.empty)
      in if \<exists>f \<in> set layout. types f = Some (lit ''float'') then None
         else Some (map (\<lambda>f. slot_llvm_ty (case types f of Some x \<Rightarrow> x | None \<Rightarrow> lit ''i64'')) layout))"

definition register_named_struct_type :: "ident \<Rightarrow> cg_tables \<Rightarrow> rstring option \<times> cg_tables" where
  "register_named_struct_type n t = (case struct_slots t n of
       None \<Rightarrow> (None, t)
     | Some slots \<Rightarrow> (Some (lit ''%class.'' @ n @ lit '' = type { '' @ join_with (lit '', '') slots @ lit '' }''),
         t\<lparr>class_named_types := insert n (class_named_types t)\<rparr>))"

fun slot_of :: "'a \<Rightarrow> 'a list \<Rightarrow> nat option" where
  "slot_of x [] = None"
| "slot_of x (y # ys) = (if y = x then Some 0 else map_option Suc (slot_of x ys))"

definition checked_typed_offset :: "cg_tables \<Rightarrow> ident \<Rightarrow> ident \<Rightarrow> span \<Rightarrow> codegen_error + int" where
  "checked_typed_offset t n f sp = (case Option.bind (struct_layouts t n) (slot_of f) of
       Some p \<Rightarrow> Inr (int p) | None \<Rightarrow> Inl (CG_FieldNotInLayout f n sp))"

end
