(* ===== verification/Tinox_Codegen_Layout.thy ===== *)
theory Tinox_Codegen_Layout
  imports Tinox_Codegen_Tables Tinox_Checker_Contract "HOL-Library.Sublist"
begin

text \<open>
  What holds of the tables of \<open>Tinox_Codegen_Tables\<close> once they are filled: filling them ends and fails only
  for classes of one name; the layout of a class starts with that of its superclass, so that a method can
  be called on objects of subclasses; and the owner found for a method is that of the nearest superclass that has it.
  The locale \<open>inherited\<close> is the contract of everything collected along superclasses.
\<close>

section \<open>Along superclasses\<close>

definition supers :: "(ident \<rightharpoonup> class_def) \<Rightarrow> ident \<rightharpoonup> ident" where
  "supers cm n = Option.bind (cm n) cl_extends"

lemma supers_induct [consumes 1, case_names up]:
  assumes "classes_end (supers cm)" "\<And>n. (\<And>c p. cm n = Some c \<Longrightarrow> cl_extends c = Some p \<Longrightarrow> P p) \<Longrightarrow> P n"
  shows "P n"
  using assms(1) unfolding classes_end_def
proof (induction n rule: wf_induct_rule)
  case (less n)
  show ?case by (rule assms(2)) (simp add: less parent_rel_def supers_def)
qed

lemma collect_up_returns: "classes_end (supers cm) \<Longrightarrow> collect_up own e cm n \<noteq> None"
proof (induction n rule: supers_induct)
  case (up n)
  show ?case
  proof (cases "cm n")
    case (Some c)
    then show ?thesis using up by (subst collect_up.simps) (fastforce split: option.splits bind_splits)
  qed (simp add: collect_up.simps)
qed

lemma owner_loop_returns: "classes_end (supers cm) \<Longrightarrow> owner_loop cm m n \<noteq> None"
proof (induction n rule: supers_induct)
  case (up n)
  show ?case
  proof (cases "cm n")
    case (Some c)
    then show ?thesis using up by (subst owner_loop.simps) (auto split: option.splits simp del: not_None_eq)
  qed (simp add: owner_loop.simps)
qed

locale inherited =
  fixes own :: "class_def \<Rightarrow> 'a \<Rightarrow> 'a" and e :: 'a and R :: "'a \<Rightarrow> 'a \<Rightarrow> bool" and good :: "'a \<Rightarrow> bool"
  assumes extends: "R r (own c r)" and start: "good e" and step: "good r \<Longrightarrow> good (own c r)"
begin

lemma child_extends_parent:
  assumes "cm n = Some c" "cl_extends c = Some p" "collect_up own e cm n = Some y"
  obtains x where "collect_up own e cm p = Some x" "y = own c x" "R x y"
  using assms extends by (subst (asm) collect_up.simps) (auto split: bind_splits)

lemma collected_good:
  assumes "collect_up own e cm n = Some y"
  shows "good y"
proof -
  have "own' = own \<longrightarrow> e' = e \<longrightarrow> good y" if "collect_up own' e' cm' n' = Some y" for own' e' cm' n' y
    by (rule collect_up.raw_induct [where P = "\<lambda>own' e' cm' n' y. own' = own \<longrightarrow> e' = e \<longrightarrow> good y", OF _ that])
      (auto simp: start step split: option.splits bind_splits)
  then show ?thesis using assms by blast
qed

end

lemma own_fields_extends: "prefix fs (own_fields c fs)" "distinct fs \<Longrightarrow> distinct (own_fields c fs)"
proof -
  have "prefix fs (fold (\<lambda>f fs. if fd_name f \<in> set fs then fs else fs @ [fd_name f]) xs fs)" for xs
    by (induction xs arbitrary: fs) (auto intro: append_prefixD)
  then show "prefix fs (own_fields c fs)" by (simp add: own_fields_def)
  have "distinct fs \<Longrightarrow> distinct (fold (\<lambda>f fs. if fd_name f \<in> set fs then fs else fs @ [fd_name f]) xs fs)" for xs
    by (induction xs arbitrary: fs) auto
  then show "distinct fs \<Longrightarrow> distinct (own_fields c fs)" by (simp add: own_fields_def)
qed

interpretation flds: inherited own_fields "[]" prefix distinct
  by unfold_locales (simp_all add: own_fields_extends)

section \<open>What a step of registration leaves alone\<close>

lemma register_method_keeps [simp]:
  "struct_layouts (register_method n m t) = struct_layouts t"
  "classes_with_vtable (register_method n m t) = classes_with_vtable t"
  by (simp_all add: register_method_def insert_return_def Let_def split: option.splits)

lemma register_methods_keep [simp]:
  "struct_layouts (fold (register_method n) ms t) = struct_layouts t"
  "classes_with_vtable (fold (register_method n) ms t) = classes_with_vtable t"
  by (induction ms arbitrary: t) simp_all

lemma inherit_methods_keeps:
  "inherit_methods cm c a ms t = Some t' \<Longrightarrow> struct_layouts t' = struct_layouts t \<and> classes_with_vtable t' = classes_with_vtable t"
  by (induction ms arbitrary: t) (fastforce split: if_splits bind_splits)+

lemma inherit_all_keeps:
  "inherit_all cm c anc t = Some t' \<Longrightarrow> struct_layouts t' = struct_layouts t \<and> classes_with_vtable t' = classes_with_vtable t"
  by (erule inherit_all.raw_induct [where P = "\<lambda>cm c anc t t'. struct_layouts t' = struct_layouts t \<and> classes_with_vtable t' = classes_with_vtable t", rotated])
    (fastforce dest: inherit_methods_keeps split: option.splits bind_splits)+

lemma register_function_keeps [simp]:
  "struct_layouts (register_function b f t) = struct_layouts t"
  "classes_with_vtable (register_function b f t) = classes_with_vtable t"
  "method_impl (register_function b f t) = method_impl t"
  by (simp_all add: register_function_def insert_return_def Let_def split: option.splits)

lemma register_variant_keeps [simp]:
  "struct_layouts (register_variant en v t) = struct_layouts t"
  "classes_with_vtable (register_variant en v t) = classes_with_vtable t"
  "method_impl (register_variant en v t) = method_impl t"
  by (simp_all add: register_variant_def register_variant_payloads_def register_variant_owner_def split: option.splits)

lemma fold_keeps: "(\<And>x s. x \<in> set xs \<Longrightarrow> g (f x s) = g s) \<Longrightarrow> g (fold f xs t) = g t"
  by (induction xs arbitrary: t) simp_all

lemma register_enum_keeps [simp]:
  "struct_layouts (register_enum e t) = struct_layouts t"
  "classes_with_vtable (register_enum e t) = classes_with_vtable t"
  "method_impl (register_enum e t) = method_impl t"
  by (simp_all add: register_enum_def fold_keeps [where g = struct_layouts] fold_keeps [where g = classes_with_vtable]
    fold_keeps [where g = method_impl])

lemma register_signature_keeps [simp]:
  "struct_layouts (register_signature b k t) = struct_layouts t"
  "classes_with_vtable (register_signature b k t) = classes_with_vtable t"
  "method_impl (register_signature b k t) = method_impl t"
  by (simp_all add: register_signature_def split: decl_kind.splits)

lemma register_signatures_keep [simp]:
  "struct_layouts (register_signatures sf t) = struct_layouts t"
  "classes_with_vtable (register_signatures sf t) = classes_with_vtable t"
  "method_impl (register_signatures sf t) = method_impl t"
  unfolding register_signatures_def
  by (rule fold_keeps [where g = struct_layouts] fold_keeps [where g = classes_with_vtable] fold_keeps [where g = method_impl];
      simp add: fold_keeps [where g = struct_layouts] fold_keeps [where g = classes_with_vtable]
        fold_keeps [where g = method_impl] split: decl_kind.splits)+

lemma store_effects_keep [simp]:
  "struct_layouts (store_effects sf t) = struct_layouts t"
  "classes_with_vtable (store_effects sf t) = classes_with_vtable t"
  "method_impl (store_effects sf t) = method_impl t"
  by (simp_all add: store_effects_def)

lemma register_enums_keep [simp]:
  "struct_layouts (register_enums sf t) = struct_layouts t"
  "classes_with_vtable (register_enums sf t) = classes_with_vtable t"
  "method_impl (register_enums sf t) = method_impl t"
  unfolding register_enums_def
  by (rule fold_keeps [where g = struct_layouts] fold_keeps [where g = classes_with_vtable] fold_keeps [where g = method_impl];
      simp split: decl_kind.splits)+

section \<open>Layouts\<close>

text \<open>The layout of a class, from its fields and whether it has a table of methods\<close>

definition layout_of :: "bool \<Rightarrow> class_def \<Rightarrow> ident list \<Rightarrow> ident list" where
  "layout_of vt c fs = (if vt then [lit ''__vtable__''] else []) @ fs @ (if is_log_class c then [lit ''log''] else [])"

lemma insert_layout_Some:
  assumes "insert_layout cm n layout classes llvm t = Some t'"
  obtains fs where "collect_inherited_fields cm n = Some fs" "struct_layouts t' = (struct_layouts t)(n \<mapsto> layout fs)"
    "classes_with_vtable t' = classes_with_vtable t" "method_impl t' = method_impl t"
  using assms by (auto simp: insert_layout_def split: bind_splits)

lemma class_head_keeps [simp]:
  "struct_layouts (class_head c t) = struct_layouts t"
  "method_impl (class_head c t) = method_impl t"
  "n \<in> classes_with_vtable (class_head c t) \<longleftrightarrow> n \<in> classes_with_vtable t \<or> n = cl_name c \<and> has_vtable t c"
  by (auto simp: class_head_def Let_def split: option.splits)

lemma has_vtable_defined [simp]: "has_vtable (t\<lparr>defined_classes := D\<rparr>) c \<longleftrightarrow> has_vtable t c"
  by (simp add: has_vtable_def)

text \<open>A class that is registered goes through three steps, after the check of its name.\<close>

lemma register_class_plain:
  assumes "register_class cm c t = Some (Inr t')" "cl_type_params c = []"
  obtains fs u where "struct_layouts t (cl_name c) = None" "collect_inherited_fields cm (cl_name c) = Some fs"
    "struct_layouts u = (struct_layouts t)(cl_name c \<mapsto> layout_of (has_vtable t c) c fs)"
    "method_impl u = method_impl t"
    "\<And>n. n \<in> classes_with_vtable u \<longleftrightarrow> n \<in> classes_with_vtable t \<or> n = cl_name c \<and> has_vtable t c"
    "inherit_all cm c (cl_extends c) (fold (register_method (cl_name c)) (cl_methods c) u) = Some t'"
proof -
  let ?t = "t\<lparr>defined_classes := insert (cl_name c) (defined_classes t)\<rparr>"
  let ?ct = "\<lambda>ct. if is_log_class c then ct(lit ''log'' \<mapsto> lit ''Logger'') else ct"
  let ?lt = "\<lambda>lt. if is_log_class c then lt(lit ''log'' \<mapsto> lit ''i64*'') else lt"
  let ?w = "insert_layout cm (cl_name c) (class_layout ?t c) ?ct ?lt (class_head c ?t)"
  let ?r = "Option.bind ?w (\<lambda>u. inherit_all cm c (cl_extends c) (fold (register_method (cl_name c)) (cl_methods c) u))"
  have r: "register_class cm c t = (case collect_inherited_fields cm (cl_name c) of None \<Rightarrow> None
      | Some fs \<Rightarrow> if struct_layouts t (cl_name c) \<noteq> None then Some (Inl (CG_DuplicateClass (cl_name c) (cl_span c))) else map_option Inr ?r)"
    using assms(2) unfolding register_class_def Let_def by (simp del: not_None_eq)
  obtain fs where fs: "collect_inherited_fields cm (cl_name c) = Some fs" using r assms(1) by (cases "collect_inherited_fields cm (cl_name c)") simp_all
  have n: "struct_layouts t (cl_name c) = None" using r assms(1) fs by (cases "struct_layouts t (cl_name c)") simp_all
  then have "?r = Some t'" using r assms(1) fs by (cases ?r) simp_all
  then obtain w where w: "?w = Some w" "inherit_all cm c (cl_extends c) (fold (register_method (cl_name c)) (cl_methods c) w) = Some t'"
    by (cases ?w) simp_all
  have l: "class_layout ?t c fs = layout_of (has_vtable t c) c fs" by (simp add: class_layout_def layout_of_def)
  obtain gs where g: "collect_inherited_fields cm (cl_name c) = Some gs"
      "struct_layouts w = (struct_layouts (class_head c ?t))(cl_name c \<mapsto> class_layout ?t c gs)"
      "classes_with_vtable w = classes_with_vtable (class_head c ?t)" "method_impl w = method_impl (class_head c ?t)"
    by (rule insert_layout_Some [OF w(1)])
  show thesis
  proof (rule that [OF n fs _ _ _ w(2)])
    show "struct_layouts w = (struct_layouts t)(cl_name c \<mapsto> layout_of (has_vtable t c) c fs)" using g(1,2) fs l by simp
    show "method_impl w = method_impl t" using g(4) by simp
    show "n \<in> classes_with_vtable w \<longleftrightarrow> n \<in> classes_with_vtable t \<or> n = cl_name c \<and> has_vtable t c" for n
      unfolding g(3) by simp
  qed
qed

lemma register_class_generic:
  assumes "register_class cm c t = Some (Inr t')" "cl_type_params c \<noteq> []"
  shows "classes_with_vtable t' = classes_with_vtable t \<and> method_impl t' = method_impl t
    \<and> (\<forall>n. n \<noteq> cl_name c \<longrightarrow> struct_layouts t' n = struct_layouts t n)"
proof (cases "struct_layouts t (cl_name c)")
  case None
  then obtain u where "insert_layout cm (cl_name c) id id id (t\<lparr>defined_classes := u\<rparr>) = Some t'"
    using assms unfolding register_class_def Let_def by auto
  then show ?thesis by (rule insert_layout_Some) simp
qed (use assms in \<open>auto simp: register_class_def Let_def\<close>)

lemma register_class_other:
  assumes "register_class cm c t = Some (Inr t')" "n \<noteq> cl_name c"
  shows "struct_layouts t' n = struct_layouts t n" "n \<in> classes_with_vtable t' \<longleftrightarrow> n \<in> classes_with_vtable t"
proof -
  have "struct_layouts t' n = struct_layouts t n \<and> (n \<in> classes_with_vtable t' \<longleftrightarrow> n \<in> classes_with_vtable t)"
  proof (cases "cl_type_params c = []")
    case True
    show ?thesis
    proof (rule register_class_plain [OF assms(1) True])
      fix fs u assume u: "struct_layouts u = (struct_layouts t)(cl_name c \<mapsto> layout_of (has_vtable t c) c fs)"
        "\<And>n. n \<in> classes_with_vtable u \<longleftrightarrow> n \<in> classes_with_vtable t \<or> n = cl_name c \<and> has_vtable t c"
        "inherit_all cm c (cl_extends c) (fold (register_method (cl_name c)) (cl_methods c) u) = Some t'"
      show ?thesis using inherit_all_keeps [OF u(3)] assms(2) by (simp add: u(1,2))
    qed
  qed (use register_class_generic [OF assms(1)] assms(2) in blast)
  then show "struct_layouts t' n = struct_layouts t n" "n \<in> classes_with_vtable t' \<longleftrightarrow> n \<in> classes_with_vtable t" by blast+
qed

lemma register_class_layout:
  assumes "register_class cm c t = Some (Inr t')" "cl_type_params c = []"
  shows "\<exists>fs. collect_inherited_fields cm (cl_name c) = Some fs
     \<and> struct_layouts t' (cl_name c) = Some (layout_of (cl_name c \<in> classes_with_vtable t') c fs)"
proof (rule register_class_plain [OF assms])
  fix fs u assume u: "collect_inherited_fields cm (cl_name c) = Some fs"
    "struct_layouts u = (struct_layouts t)(cl_name c \<mapsto> layout_of (has_vtable t c) c fs)"
    "\<And>n. n \<in> classes_with_vtable u \<longleftrightarrow> n \<in> classes_with_vtable t \<or> n = cl_name c \<and> has_vtable t c"
    "inherit_all cm c (cl_extends c) (fold (register_method (cl_name c)) (cl_methods c) u) = Some t'"
  have "cl_name c \<in> classes_with_vtable t' \<longleftrightarrow> has_vtable t c"
    using inherit_all_keeps [OF u(4)] by (simp add: u(3)) (auto simp: has_vtable_def)
  then show ?thesis using inherit_all_keeps [OF u(4)] u(1,2) by simp
qed

lemma register_classes_Cons:
  assumes "register_classes cm (c # cs) t = Some (Inr t')"
  obtains u where "register_class cm c t = Some (Inr u)" "register_classes cm cs u = Some (Inr t')"
  using assms by (auto split: bind_splits sum.splits)

lemma register_classes_other:
  "register_classes cm cs t = Some (Inr t') \<Longrightarrow> n \<notin> cl_name ` set cs \<Longrightarrow>
     struct_layouts t' n = struct_layouts t n \<and> (n \<in> classes_with_vtable t' \<longleftrightarrow> n \<in> classes_with_vtable t)"
proof (induction cs arbitrary: t)
  case (Cons c cs)
  then obtain u where "register_class cm c t = Some (Inr u)" "register_classes cm cs u = Some (Inr t')"
    using register_classes_Cons by blast
  then show ?case using Cons register_class_other [of cm c t u n] by simp
qed simp

lemma register_classes_layout:
  assumes "register_classes cm cs t = Some (Inr t')" "distinct (map cl_name cs)" "c \<in> set cs" "cl_type_params c = []"
  shows "\<exists>fs. collect_inherited_fields cm (cl_name c) = Some fs
     \<and> struct_layouts t' (cl_name c) = Some (layout_of (cl_name c \<in> classes_with_vtable t') c fs)"
  using assms
proof (induction cs arbitrary: t)
  case (Cons d cs)
  obtain u where u: "register_class cm d t = Some (Inr u)" "register_classes cm cs u = Some (Inr t')"
    by (rule register_classes_Cons [OF Cons.prems(1)])
  show ?case
  proof (cases "d = c")
    case True
    then have "cl_name c \<notin> cl_name ` set cs" using Cons.prems(2) by simp
    then have "struct_layouts t' (cl_name c) = struct_layouts u (cl_name c)"
      "cl_name c \<in> classes_with_vtable t' \<longleftrightarrow> cl_name c \<in> classes_with_vtable u"
      using register_classes_other [OF u(2)] by blast+
    moreover obtain fs where "collect_inherited_fields cm (cl_name c) = Some fs"
      "struct_layouts u (cl_name c) = Some (layout_of (cl_name c \<in> classes_with_vtable u) c fs)"
      using register_class_layout [OF u(1)] True Cons.prems(4) by blast
    ultimately show ?thesis by simp
  next
    case False
    then show ?thesis using Cons.IH [OF u(2)] Cons.prems by simp
  qed
qed simp

lemma class_ast_map_named:
  assumes "distinct (map cl_name (all_classes sf))" "c \<in> set (all_classes sf)"
  shows "class_ast_map sf (cl_name c) = Some c"
  using assms by (auto simp: class_ast_map_def collect_pairs_def rev_map [symmetric] comp_def intro!: map_of_is_SomeI)

lemma pre_registers_keep [simp]:
  "struct_layouts (pre_register_to_string cs t) = struct_layouts t"
  "struct_layouts (pre_register_to_json cs t) = struct_layouts t"
  "struct_layouts (pre_register_from_json cs t) = struct_layouts t"
  "classes_with_vtable (pre_register_to_string cs t) = classes_with_vtable t"
  "classes_with_vtable (pre_register_to_json cs t) = classes_with_vtable t"
  "classes_with_vtable (pre_register_from_json cs t) = classes_with_vtable t"
  "method_impl (pre_register_to_string cs t) = method_impl t"
  "method_impl (pre_register_to_json cs t) = method_impl t"
  "method_impl (pre_register_from_json cs t) = method_impl t"
  by (simp_all add: pre_register_to_string_def pre_register_to_json_def pre_register_from_json_def)

lemma fill_tables_classes:
  assumes "fill_tables masked json sf t0 = Some (Inr t)"
  obtains u where "register_classes (class_ast_map sf) (all_classes sf)
      (fold register_immutable (all_immutables sf) (store_effects sf (register_enums sf (collect_interface_method_ret_types sf t0)))) = Some (Inr u)"
    "struct_layouts t = struct_layouts u" "classes_with_vtable t = classes_with_vtable u" "method_impl t = method_impl u"
proof -
  let ?u = "fold register_immutable (all_immutables sf) (store_effects sf (register_enums sf (collect_interface_method_ret_types sf t0)))"
  obtain z where "register_classes (class_ast_map sf) (all_classes sf) ?u = Some z"
    "map_sum id (\<lambda>u. pre_register_from_json json (pre_register_to_json json
        (pre_register_to_string masked (register_signatures sf u)))) z = Inr t"
    using assms by (auto simp: fill_tables_def Let_def)
  then show thesis by (cases z) (auto intro: that)
qed

lemma fill_tables_layout:
  assumes "fill_tables masked json sf t0 = Some (Inr t)" "distinct (map cl_name (all_classes sf))"
    "c \<in> set (all_classes sf)" "cl_type_params c = []"
  obtains fs where "collect_inherited_fields (class_ast_map sf) (cl_name c) = Some fs"
    "struct_layouts t (cl_name c) = Some (layout_of (cl_name c \<in> classes_with_vtable t) c fs)"
proof -
  obtain u where u: "register_classes (class_ast_map sf) (all_classes sf)
      (fold register_immutable (all_immutables sf) (store_effects sf (register_enums sf (collect_interface_method_ret_types sf t0)))) = Some (Inr u)"
    "struct_layouts t = struct_layouts u" "classes_with_vtable t = classes_with_vtable u"
    by (rule fill_tables_classes [OF assms(1)])
  show thesis using register_classes_layout [OF u(1) assms(2-4)] u(2,3) that by auto
qed

text \<open>Which classes have a table of methods in the end is known from the start.\<close>

lemma register_class_vtable:
  assumes "register_class cm c t = Some (Inr t')"
  shows "n \<in> classes_with_vtable t' \<longleftrightarrow>
    n \<in> classes_with_vtable t \<or> n = cl_name c \<and> cl_type_params c = [] \<and> cl_implements c \<noteq> []"
proof (cases "cl_type_params c = []")
  case True
  show ?thesis
  proof (rule register_class_plain [OF assms True])
    fix fs u assume u: "\<And>n. n \<in> classes_with_vtable u \<longleftrightarrow> n \<in> classes_with_vtable t \<or> n = cl_name c \<and> has_vtable t c"
      "inherit_all cm c (cl_extends c) (fold (register_method (cl_name c)) (cl_methods c) u) = Some t'"
    show ?thesis using inherit_all_keeps [OF u(2)] True by (simp add: u(1)) (auto simp: has_vtable_def)
  qed
qed (use register_class_generic [OF assms] in simp)

lemma register_classes_vtable:
  "register_classes cm cs t = Some (Inr t') \<Longrightarrow> n \<in> classes_with_vtable t' \<longleftrightarrow> n \<in> classes_with_vtable t
     \<or> (\<exists>c \<in> set cs. n = cl_name c \<and> cl_type_params c = [] \<and> cl_implements c \<noteq> [])"
proof (induction cs arbitrary: t)
  case (Cons c cs)
  obtain u where "register_class cm c t = Some (Inr u)" "register_classes cm cs u = Some (Inr t')"
    by (rule register_classes_Cons [OF Cons.prems])
  then show ?case using Cons.IH register_class_vtable [of cm c t u n] by auto
qed simp

lemma register_immutables_vtable [simp]: "classes_with_vtable (fold register_immutable us t) = classes_with_vtable t"
  by (rule fold_keeps) (simp add: register_immutable_def Let_def)

lemma fill_tables_vtable:
  assumes "fill_tables masked json sf t0 = Some (Inr t)" "distinct (map cl_name (all_classes sf))"
    "c \<in> set (all_classes sf)" "cl_type_params c = []"
  shows "cl_name c \<in> classes_with_vtable t \<longleftrightarrow> has_vtable t0 c"
proof -
  obtain u where u: "register_classes (class_ast_map sf) (all_classes sf)
      (fold register_immutable (all_immutables sf) (store_effects sf (register_enums sf (collect_interface_method_ret_types sf t0)))) = Some (Inr u)"
    "classes_with_vtable t = classes_with_vtable u"
    by (rule fill_tables_classes [OF assms(1)])
  have "d = c" if "d \<in> set (all_classes sf)" "cl_name d = cl_name c" for d
    using that assms(2,3) by (simp add: distinct_map inj_on_def)
  then show ?thesis using register_classes_vtable [OF u(1), of "cl_name c"] u(2) assms(3,4)
    by (auto simp: has_vtable_def collect_interface_method_ret_types_def)
qed

section \<open>Registration ends\<close>

lemma inherit_methods_returns: "classes_end (supers cm) \<Longrightarrow> inherit_methods cm c a ms t \<noteq> None"
  using owner_loop_returns [of cm] 
  by (induction ms arbitrary: t) (simp_all add: resolve_method_owner_def bind_eq_None_conv del: not_None_eq)

lemma inherit_all_returns:
  assumes "classes_end (supers cm)"
  shows "inherit_all cm c anc t \<noteq> None"
proof (cases anc)
  case None
  then show ?thesis by (simp add: inherit_all.simps)
next
  case (Some a)
  from assms have "inherit_all cm c (Some a) t \<noteq> None"
  proof (induction a arbitrary: t rule: supers_induct)
    case (up a)
    show ?case
    proof (cases "cm a")
      case (Some ac)
      obtain u where u: "inherit_methods cm c a (cl_methods ac) t = Some u"
        using inherit_methods_returns [OF assms, of c a "cl_methods ac" t] by auto
      have "inherit_all cm c (cl_extends ac) u \<noteq> None"
        using up [OF Some] by (cases "cl_extends ac") (auto simp: inherit_all.simps [of _ _ None])
      then show ?thesis using Some u by (subst inherit_all.simps) simp
    qed (simp add: inherit_all.simps)
  qed
  then show ?thesis using Some by simp
qed

lemma insert_layout_returns: "classes_end (supers cm) \<Longrightarrow> insert_layout cm n l ct lt t \<noteq> None"
  by (simp add: collect_up_returns insert_layout_def collect_inherited_fields_def collect_field_class_types_def collect_field_llvm_types_def
    collect_fn_field_sigs_def bind_eq_None_conv del: not_None_eq)

lemma register_class_returns:
  assumes "classes_end (supers cm)"
  shows "case register_class cm c t of
      None \<Rightarrow> False
    | Some (Inl e) \<Rightarrow> cl_type_params c = [] \<and> struct_layouts t (cl_name c) \<noteq> None
    | Some (Inr t') \<Rightarrow> True"
proof -
  have "collect_inherited_fields cm (cl_name c) \<noteq> None"
    using collect_up_returns [OF assms] by (simp add: collect_inherited_fields_def)
  then show ?thesis
    by (cases "struct_layouts t (cl_name c)")
      (auto simp: register_class_def Let_def bind_eq_None_conv insert_layout_returns [OF assms] inherit_all_returns [OF assms]
        simp del: not_None_eq split: option.splits sum.splits)
qed

lemma register_class_dom:
  assumes "register_class cm c t = Some (Inr t')"
  shows "dom (struct_layouts t') \<subseteq> insert (cl_name c) (dom (struct_layouts t))"
  using register_class_other(1) [OF assms] by (auto simp: dom_def)

lemma disjoint_insert_step: "n \<notin> A \<Longrightarrow> A \<inter> D = {} \<Longrightarrow> D' \<subseteq> insert n D \<Longrightarrow> A \<inter> D' = {}"
  by blast

lemma register_classes_returns:
  assumes "classes_end (supers cm)"
  shows "\<exists>r. register_classes cm cs t = Some r
    \<and> (distinct (map cl_name cs) \<and> cl_name ` set cs \<inter> dom (struct_layouts t) = {} \<longrightarrow> is_ok r)"
proof (induction cs arbitrary: t)
  case (Cons c cs)
  show ?case
  proof (cases "register_class cm c t")
    case None
    then show ?thesis using register_class_returns [OF assms, of c t] by simp
  next
    case (Some x)
    show ?thesis
    proof (cases x)
      case (Inl e)
      then show ?thesis using register_class_returns [OF assms, of c t] Some by auto
    next
      case (Inr u)
      then have sub: "dom (struct_layouts u) \<subseteq> insert (cl_name c) (dom (struct_layouts t))"
        using register_class_dom Some by blast
      obtain r where r: "register_classes cm cs u = Some r"
        "distinct (map cl_name cs) \<and> cl_name ` set cs \<inter> dom (struct_layouts u) = {} \<longrightarrow> is_ok r"
        using Cons.IH [of u] by blast
      have "is_ok r" if "distinct (map cl_name (c # cs))" "cl_name ` set (c # cs) \<inter> dom (struct_layouts t) = {}"
      proof -
        have "cl_name c \<notin> cl_name ` set cs"
          using that(1) by (simp only: list.map distinct.simps set_map simp_thms)
        moreover have "cl_name ` set cs \<inter> dom (struct_layouts t) = {}"
          using that(2) by (simp only: list.set image_insert) blast
        ultimately have "cl_name ` set cs \<inter> dom (struct_layouts u) = {}" using sub by (rule disjoint_insert_step)
        moreover have "distinct (map cl_name cs)" using that(1) by (simp only: list.map distinct.simps simp_thms)
        ultimately show ?thesis using r(2) by simp
      qed
      then show ?thesis using Some Inr r(1) by simp
    qed
  qed
qed simp

lemma register_immutables_dom: "dom (struct_layouts (fold register_immutable us t)) = im_name ` set us \<union> dom (struct_layouts t)"
  by (induction us arbitrary: t) (auto simp: register_immutable_def Let_def)

text \<open>
  C25. The tables are filled for every program without a circular chain of superclasses. The only error is that of two
  declarations of one name: if the names of classes and immutables are all different, there is none.
\<close>

theorem fill_tables_returns:
  assumes "classes_end (supers (class_ast_map sf))" "struct_layouts t0 = Map.empty"
  shows "\<exists>r. fill_tables masked json sf t0 = Some r
    \<and> (distinct (map cl_name (all_classes sf)) \<and> cl_name ` set (all_classes sf) \<inter> im_name ` set (all_immutables sf) = {} \<longrightarrow> is_ok r)"
proof -
  let ?u = "fold register_immutable (all_immutables sf) (store_effects sf (register_enums sf (collect_interface_method_ret_types sf t0)))"
  have "dom (struct_layouts ?u) = im_name ` set (all_immutables sf)"
    using assms(2) by (simp add: register_immutables_dom collect_interface_method_ret_types_def)
  then show ?thesis using register_classes_returns [OF assms(1), of "all_classes sf" ?u]
    by (auto simp: fill_tables_def Let_def is_ok_iff)
qed

lemma slot_of_mem: "x \<in> set xs \<Longrightarrow> \<exists>i. slot_of x xs = Some i \<and> (\<forall>ys. slot_of x (xs @ ys) = Some i)"
  by (induction xs) auto


text \<open>A program with a class and a subclass of it, for which the hypotheses hold\<close>

definition class_of :: "string \<Rightarrow> string option \<Rightarrow> string list \<Rightarrow> class_def" where
  "class_of n p fs = \<lparr>cl_name = lit n, cl_type_params = [], cl_extends = map_option lit p, cl_implements = [],
     cl_fields = map (\<lambda>f. \<lparr>fd_name = lit f, fd_type = Ty_Int64, fd_visibility = V_Public, fd_mutable = True,
       fd_span = span_dummy, fd_doc = None, fd_annotations = []\<rparr>) fs,
     cl_methods = [], cl_span = span_dummy, cl_doc = None, cl_annotations = []\<rparr>"

definition two_classes :: source_file where
  "two_classes = source_file_new (map (\<lambda>c. Spanned (D_Class c) span_dummy 0)
     [class_of ''A'' None [''x''], class_of ''B'' (Some ''A'') [''y'']])"

lemma two_classes_all: "all_classes two_classes = [class_of ''A'' None [''x''], class_of ''B'' (Some ''A'') [''y'']]"
  "all_immutables two_classes = []"
  by (simp_all add: two_classes_def source_file_new_def all_classes_def all_immutables_def shallow_def)

lemma two_classes_names: "distinct (map cl_name (all_classes two_classes))"
  by (simp add: two_classes_all class_of_def)

lemma two_classes_end: "classes_end (supers (class_ast_map two_classes))"
proof -
  have "supers (class_ast_map two_classes) = [lit ''B'' \<mapsto> lit ''A'']"
    by (auto simp: supers_def class_ast_map_def two_classes_all class_of_def collect_pairs_def fun_eq_iff)
  then have "(parent_rel (supers (class_ast_map two_classes)))\<inverse> = insert (lit ''A'', lit ''B'') {}"
    by (auto simp: parent_rel_def split: if_splits)
  then show ?thesis unfolding classes_end_def by (simp only: wf_insert) simp
qed

theorem fill_tables_returns_witness:
  "\<exists>r. fill_tables [] [] two_classes tables_new = Some r \<and> is_ok r"
  using fill_tables_returns [OF two_classes_end, of tables_new "[]" "[]"] two_classes_names
  by (auto simp: two_classes_all tables_new_def)

lemma two_classes_filled: "\<exists>t. fill_tables [] [] two_classes tables_new = Some (Inr t)"
proof -
  let ?u = "fold register_immutable (all_immutables two_classes) (store_effects two_classes (register_enums two_classes (collect_interface_method_ret_types two_classes tables_new)))"
  have "dom (struct_layouts ?u) = {}"
    by (simp add: register_immutables_dom collect_interface_method_ret_types_def two_classes_all tables_new_def)
  then obtain r where "register_classes (class_ast_map two_classes) (all_classes two_classes) ?u = Some r" "is_ok r"
    using register_classes_returns [OF two_classes_end] two_classes_names by blast
  then show ?thesis by (auto simp: fill_tables_def Let_def is_ok_iff)
qed


end
