(* ===== verification/Tinox_Codegen_Dispatch.thy ===== *)
theory Tinox_Codegen_Dispatch
  imports Tinox_Codegen_Layout
begin

text \<open>
  The table of owners (\<open>method_impl\<close>), by which a call of an inherited method is directed to the class that defines it:
  its entries are what the walk up the superclasses finds. The keys of the table are the names of class and method with an underscore in between;
  they tell classes apart if no name of a class has an underscore.
\<close>

section \<open>Keys\<close>

abbreviation underscore :: rchar where "underscore \<equiv> cc (CHR ''_'')"

lemma impl_key_inject:
  assumes "impl_key c m = impl_key c' m'" "underscore \<notin> set c" "underscore \<notin> set c'"
  shows "c = c' \<and> m = m'"
proof -
  have eq: "c @ underscore # m = c' @ underscore # m'" using assms(1) by (simp add: impl_key_def)
  have "takeWhile (\<lambda>x. x \<noteq> underscore) (d @ underscore # n) = d" if "underscore \<notin> set d" for d n
    using that by (induction d) auto
  then have "c = c'" using arg_cong [OF eq, of "takeWhile (\<lambda>x. x \<noteq> underscore)"] assms(2,3) by metis
  then show ?thesis using eq by simp
qed

lemma impl_key_distinct:
  "c \<noteq> c' \<Longrightarrow> underscore \<notin> set c \<Longrightarrow> underscore \<notin> set c' \<Longrightarrow> impl_key c m \<noteq> impl_key c' m'"
  using impl_key_inject by blast

lemma impl_key_same [simp]: "impl_key c m = impl_key c m' \<longleftrightarrow> m = m'"
  by (simp add: impl_key_def)

text \<open>Two classes may share a key: a method of one is then called for that of the other.\<close>

lemma impl_keys_clash: "impl_key (lit ''A'') (lit ''b_c'') = impl_key (lit ''A_b'') (lit ''c'')"
  by (simp add: impl_key_def)

section \<open>One class\<close>

definition impl :: "cg_tables \<Rightarrow> ident \<Rightarrow> ident \<Rightarrow> rstring option" where
  "impl t c m = method_impl t (impl_key c m)"

definition owns :: "class_def \<Rightarrow> ident \<Rightarrow> bool" where
  "owns c m \<longleftrightarrow> m \<in> me_name ` set (cl_methods c)"

lemma register_method_impl [simp]:
  "method_impl (register_method n x t) = (if me_type_params x = []
     then (method_impl t)(impl_key n (me_name x) \<mapsto> impl_key n (me_name x)) else method_impl t)"
  by (simp add: register_method_def insert_return_def Let_def split: option.splits)

lemma register_methods_impl:
  "impl (fold (register_method n) ms t) n m =
     (if \<exists>x \<in> set ms. me_name x = m \<and> me_type_params x = [] then Some (impl_key n m) else impl t n m)"
  by (induction ms arbitrary: t) (auto simp: impl_def)

lemma register_methods_impl_other:
  "\<forall>m. k \<noteq> impl_key n m \<Longrightarrow> method_impl (fold (register_method n) ms t) k = method_impl t k"
  by (induction ms arbitrary: t) auto

lemma owner_loop_own: "cm a = Some c \<Longrightarrow> owns c m \<Longrightarrow> owner_loop cm m a = Some (Some (impl_key a m))"
  by (subst owner_loop.simps) (force simp: owns_def)

lemma inherit_methods_impl:
  assumes "inherit_methods cm c a ms t = Some t'" "cm a = Some ac" "set ms \<subseteq> set (cl_methods ac)"
  shows "impl t' (cl_name c) m = (if owns c m \<or> impl t (cl_name c) m \<noteq> None then impl t (cl_name c) m
       else if m \<in> me_name ` set ms then Some (impl_key a m) else None)
     \<and> (\<forall>k. (\<forall>m. k \<noteq> impl_key (cl_name c) m) \<longrightarrow> method_impl t' k = method_impl t k)"
  using assms(1,3)
proof (induction ms arbitrary: t)
  case (Cons x ms)
  have "owns ac (me_name x)" using Cons.prems(2) by (auto simp: owns_def)
  then have o: "resolve_method_owner cm a (me_name x) = Some (impl_key a (me_name x))"
    using owner_loop_own [of cm a ac] assms(2) by (simp add: resolve_method_owner_def)
  show ?case
  proof (cases "owns c (me_name x) \<or> impl t (cl_name c) (me_name x) \<noteq> None")
    case True
    then have "inherit_methods cm c a ms t = Some t'" using Cons.prems(1) by (simp add: owns_def impl_def)
    from Cons.IH [OF this] Cons.prems(2) show ?thesis using True by auto
  next
    case False
    define u where "u = t\<lparr>method_impl := (method_impl t)(impl_key (cl_name c) (me_name x) \<mapsto> impl_key a (me_name x)),
      method_ret_types := (method_ret_types t)(impl_key (cl_name c) (me_name x) \<mapsto> type_to_llvm_inst (known_enum_types t) (me_ret_type x))\<rparr>"
    have "inherit_methods cm c a ms u = Some t'" using Cons.prems(1) False o by (simp add: owns_def impl_def u_def)
    from Cons.IH [OF this] Cons.prems(2) show ?thesis using False by (auto simp: u_def impl_def)
  qed
qed (simp add: impl_def)

lemma inherit_all_impl:
  assumes "inherit_all cm c anc t = Some t'"
  shows "(if owns c m \<or> impl t (cl_name c) m \<noteq> None then impl t' (cl_name c) m = impl t (cl_name c) m
       else (case anc of None \<Rightarrow> impl t' (cl_name c) m = None | Some a \<Rightarrow> owner_loop cm m a = Some (impl t' (cl_name c) m)))
     \<and> (\<forall>k. (\<forall>m. k \<noteq> impl_key (cl_name c) m) \<longrightarrow> method_impl t' k = method_impl t k)"
proof (rule inherit_all.raw_induct [OF _ assms])
  fix loop :: "(ident \<rightharpoonup> class_def) \<Rightarrow> class_def \<Rightarrow> ident option \<Rightarrow> cg_tables \<Rightarrow> cg_tables option" and cm c anc t t'
  let ?P = "\<lambda>cm c anc t t'. (if owns c m \<or> impl t (cl_name c) m \<noteq> None then impl t' (cl_name c) m = impl t (cl_name c) m
       else (case anc of None \<Rightarrow> impl t' (cl_name c) m = None | Some a \<Rightarrow> owner_loop cm m a = Some (impl t' (cl_name c) m)))
     \<and> (\<forall>k. (\<forall>m. k \<noteq> impl_key (cl_name c) m) \<longrightarrow> method_impl t' k = method_impl t k)"
  assume IH: "\<And>cm c anc t t'. loop cm c anc t = Some t' \<Longrightarrow> ?P cm c anc t t'"
    and eq: "(case anc of None \<Rightarrow> Some t | Some a \<Rightarrow> (case cm a of None \<Rightarrow> Some t
       | Some ac \<Rightarrow> Option.bind (inherit_methods cm c a (cl_methods ac) t) (loop cm c (cl_extends ac)))) = Some t'"
  show "?P cm c anc t t'"
  proof (cases anc)
    case None
    then show ?thesis using eq by (auto simp: impl_def)
  next
    case (Some a)
    show ?thesis
    proof (cases "cm a")
      case None
      then show ?thesis using eq Some by (auto simp: owner_loop.simps)
    next
      case ac: (Some ac)
      obtain u where u: "inherit_methods cm c a (cl_methods ac) t = Some u" "loop cm c (cl_extends ac) u = Some t'"
        using eq Some ac by (auto split: bind_splits)
      have step: "owner_loop cm m a = (if owns ac m then Some (Some (impl_key a m))
          else case cl_extends ac of None \<Rightarrow> Some None | Some p \<Rightarrow> owner_loop cm m p)"
        using ac by (subst owner_loop.simps) (auto simp: owns_def split: option.splits)
      have "impl u (cl_name c) m = (if owns c m \<or> impl t (cl_name c) m \<noteq> None then impl t (cl_name c) m
          else if owns ac m then Some (impl_key a m) else None)"
        "\<forall>k. (\<forall>m. k \<noteq> impl_key (cl_name c) m) \<longrightarrow> method_impl u k = method_impl t k"
        using inherit_methods_impl [OF u(1) ac order.refl] by (simp_all add: owns_def)
      then show ?thesis using IH [OF u(2)] Some step
        by (auto split: option.splits if_splits)
    qed
  qed
qed

definition no_generic :: "class_def \<Rightarrow> ident \<Rightarrow> bool" where
  "no_generic c m \<longleftrightarrow> (\<forall>x \<in> set (cl_methods c). me_name x = m \<longrightarrow> me_type_params x = [])"

lemma register_class_impl_other:
  assumes "register_class cm c t = Some (Inr t')" "\<forall>m. k \<noteq> impl_key (cl_name c) m"
  shows "method_impl t' k = method_impl t k"
proof (cases "cl_type_params c = []")
  case True
  show ?thesis
  proof (rule register_class_plain [OF assms(1) True])
    fix u assume u: "method_impl u = method_impl t"
      "inherit_all cm c (cl_extends c) (fold (register_method (cl_name c)) (cl_methods c) u) = Some t'"
    show ?thesis using inherit_all_impl [OF u(2)] register_methods_impl_other [OF assms(2)] assms(2) u(1) by metis
  qed
qed (use register_class_generic [OF assms(1)] in simp)

lemma register_class_impl:
  assumes "register_class cm c t = Some (Inr t')" "cl_type_params c = []" "cm (cl_name c) = Some c"
    "impl t (cl_name c) m = None" "no_generic c m"
  shows "owner_loop cm m (cl_name c) = Some (impl t' (cl_name c) m)"
proof (rule register_class_plain [OF assms(1,2)])
  fix u assume u: "method_impl u = method_impl t"
    "inherit_all cm c (cl_extends c) (fold (register_method (cl_name c)) (cl_methods c) u) = Some t'"
  have "impl u (cl_name c) m = None" using assms(4) u(1) by (simp add: impl_def)
  then have v: "impl (fold (register_method (cl_name c)) (cl_methods c) u) (cl_name c) m
      = (if owns c m then Some (impl_key (cl_name c) m) else None)"
    using assms(5) by (auto simp: register_methods_impl owns_def no_generic_def)
  have "owner_loop cm m (cl_name c) = (if owns c m then Some (Some (impl_key (cl_name c) m))
      else case cl_extends c of None \<Rightarrow> Some None | Some p \<Rightarrow> owner_loop cm m p)"
    using assms(3) by (subst owner_loop.simps) (auto simp: owns_def split: option.splits)
  then show ?thesis using inherit_all_impl [OF u(2), of m] v by (auto split: if_splits option.splits)
qed

section \<open>All classes\<close>

lemma register_classes_impl_other:
  "register_classes cm cs t = Some (Inr t') \<Longrightarrow> \<forall>c \<in> set cs. \<forall>m. k \<noteq> impl_key (cl_name c) m \<Longrightarrow> method_impl t' k = method_impl t k"
proof (induction cs arbitrary: t)
  case (Cons c cs)
  obtain u where "register_class cm c t = Some (Inr u)" "register_classes cm cs u = Some (Inr t')"
    by (rule register_classes_Cons [OF Cons.prems(1)])
  then show ?case using Cons.IH [of u] Cons.prems(2) register_class_impl_other [of cm c t u k] by simp
qed simp

lemma register_classes_impl:
  assumes "register_classes cm cs t = Some (Inr t')" "distinct (map cl_name cs)" "\<forall>c \<in> set cs. underscore \<notin> set (cl_name c)"
    "c \<in> set cs" "cl_type_params c = []" "cm (cl_name c) = Some c" "impl t (cl_name c) m = None" "no_generic c m"
  shows "owner_loop cm m (cl_name c) = Some (impl t' (cl_name c) m)"
  using assms(1,2,3,4,7)
proof (induction cs arbitrary: t)
  case (Cons d cs)
  obtain u where u: "register_class cm d t = Some (Inr u)" "register_classes cm cs u = Some (Inr t')"
    by (rule register_classes_Cons [OF Cons.prems(1)])
  show ?case
  proof (cases "d = c")
    case True
    have "\<forall>e \<in> set cs. cl_name c \<noteq> cl_name e" using Cons.prems(2) True by force
    then have "\<forall>e \<in> set cs. \<forall>m'. impl_key (cl_name c) m \<noteq> impl_key (cl_name e) m'"
      using impl_key_distinct Cons.prems(3,4) by (metis list.set_intros(2))
    then have "impl t' (cl_name c) m = impl u (cl_name c) m"
      unfolding impl_def by (rule register_classes_impl_other [OF u(2)])
    then show ?thesis using register_class_impl [of cm c t u m] u(1) True assms(5,6,8) Cons.prems(5) by simp
  next
    case False
    then have "c \<in> set cs" "cl_name d \<notin> cl_name ` set cs" using Cons.prems(2,4) by simp_all
    then have "cl_name c \<noteq> cl_name d" by (metis image_eqI)
    then have "\<forall>m'. impl_key (cl_name c) m \<noteq> impl_key (cl_name d) m'"
      using impl_key_distinct Cons.prems(3,4) by (metis list.set_intros(1))
    then have "impl u (cl_name c) m = impl t (cl_name c) m"
      unfolding impl_def by (rule register_class_impl_other [OF u(1)])
    then show ?thesis using Cons.IH [OF u(2)] Cons.prems False by simp
  qed
qed simp

lemma register_immutables_impl [simp]: "method_impl (fold register_immutable us t) = method_impl t"
  by (rule fold_keeps) (simp add: register_immutable_def Let_def)

text \<open>
  C27. The owners in the table are those that a walk up the superclasses finds: for a class and a method name, the entry
  is the nearest class, from the class itself upwards, that defines a method of that name, and there is none if no class
  up the chain does. This holds if classes have different names without underscores, for names
  that the class itself does not use for a generic method.
\<close>

theorem method_impl_nearest:
  assumes "fill_tables masked json sf t0 = Some (Inr t)" "method_impl t0 = Map.empty"
    and "distinct (map cl_name (all_classes sf))" "\<forall>c \<in> set (all_classes sf). underscore \<notin> set (cl_name c)"
    and "c \<in> set (all_classes sf)" "cl_type_params c = []" "no_generic c m"
  shows "owner_loop (class_ast_map sf) m (cl_name c) = Some (method_impl t (impl_key (cl_name c) m))"
proof -
  obtain u where u: "register_classes (class_ast_map sf) (all_classes sf)
      (fold register_immutable (all_immutables sf) (store_effects sf (register_enums sf (collect_interface_method_ret_types sf t0)))) = Some (Inr u)"
    "method_impl t = method_impl u"
    by (rule fill_tables_classes [OF assms(1)])
  have "owner_loop (class_ast_map sf) m (cl_name c) = Some (impl u (cl_name c) m)"
    by (rule register_classes_impl [OF u(1) assms(3-6) class_ast_map_named [OF assms(3,5)] _ assms(7)])
      (simp add: impl_def collect_interface_method_ret_types_def assms(2))
  then show ?thesis using u(2) by (simp add: impl_def)
qed

theorem method_impl_nearest_witness:
  "\<exists>t. fill_tables [] [] two_classes tables_new = Some (Inr t)
     \<and> owner_loop (class_ast_map two_classes) (lit ''f'') (lit ''B'') = Some (method_impl t (impl_key (lit ''B'') (lit ''f'')))"
proof -
  let ?B = "class_of ''B'' (Some ''A'') [''y'']"
  obtain t where t: "fill_tables [] [] two_classes tables_new = Some (Inr t)"
    using two_classes_filled by blast
  have "owner_loop (class_ast_map two_classes) (lit ''f'') (cl_name ?B) = Some (method_impl t (impl_key (cl_name ?B) (lit ''f'')))"
    by (rule method_impl_nearest [OF t _ two_classes_names])
      (simp_all add: two_classes_all class_of_def tables_new_def no_generic_def)
  then show ?thesis using t by (auto simp: class_of_def)
qed

end
