(* ===== verification/Tinox_Codegen_Generics.thy ===== *)
theory Tinox_Codegen_Generics
  imports Tinox_Codegen_Tables Tinox_Node_Ids
begin

text \<open>
  Monomorphisation in \<^verbatim>\<open>src/crates/tinox-codegen/src/codegen.rs\<close>: substitution of type parameters in types,
  bodies, functions and classes, and the tables of a specialised class. Shown are: substituting what an
  LLVM type stands for gives the same code types as substituting the type itself; a specialisation names no type
  parameter any more, where substitution reaches; substitution keeps the numbers of expressions, by which
  the types that the checker has exported are found.
\<close>

section \<open>Types\<close>

type_synonym type_subst = "ident \<rightharpoonup> ty"

primrec substitute_type :: "type_subst \<Rightarrow> ty \<Rightarrow> ty" where
  "substitute_type s (Ty_Named n) = (case s n of Some t \<Rightarrow> t | None \<Rightarrow> Ty_Named n)"
| "substitute_type s (Ty_Generic n args) = (case s n of Some t \<Rightarrow> t | None \<Rightarrow> Ty_Generic n (map (substitute_type s) args))"
| "substitute_type s (Ty_Array t) = Ty_Array (substitute_type s t)"
| "substitute_type s (Ty_Ref t) = Ty_Ref (substitute_type s t)"
| "substitute_type s (Ty_Mutable t) = Ty_Mutable (substitute_type s t)"
| "substitute_type s (Ty_Fn ps r) = Ty_Fn (map (substitute_type s) ps) (substitute_type s r)"
| "substitute_type s Ty_Int8 = Ty_Int8"
| "substitute_type s Ty_Int16 = Ty_Int16"
| "substitute_type s Ty_Int32 = Ty_Int32"
| "substitute_type s Ty_Int64 = Ty_Int64"
| "substitute_type s Ty_UInt8 = Ty_UInt8"
| "substitute_type s Ty_UInt16 = Ty_UInt16"
| "substitute_type s Ty_UInt32 = Ty_UInt32"
| "substitute_type s Ty_UInt64 = Ty_UInt64"
| "substitute_type s Ty_Float32 = Ty_Float32"
| "substitute_type s Ty_Float64 = Ty_Float64"
| "substitute_type s Ty_Bool = Ty_Bool"
| "substitute_type s Ty_Char = Ty_Char"
| "substitute_type s Ty_String = Ty_String"
| "substitute_type s Ty_Nothing = Ty_Nothing"
| "substitute_type s Ty_Never = Ty_Never"
| "substitute_type s Ty_Any = Ty_Any"
| "substitute_type s Ty_Infer = Ty_Infer"
| "substitute_type s (Ty_Map k v) = Ty_Map k v"
| "substitute_type s (Ty_Tuple ts) = Ty_Tuple ts"
| "substitute_type s (Ty_Nullable t) = Ty_Nullable t"

text \<open>A renaming of the class itself, from its own name to that of the specialisation\<close>

type_synonym self_rename = "ident \<times> ident"

primrec rename_self_type :: "self_rename \<Rightarrow> ty \<Rightarrow> ty" where
  "rename_self_type r (Ty_Named n) = (if n = fst r then Ty_Named (snd r) else Ty_Named n)"
| "rename_self_type r (Ty_Generic n args) = (if n = fst r then Ty_Named (snd r) else Ty_Generic n (map (rename_self_type r) args))"
| "rename_self_type r (Ty_Array t) = Ty_Array (rename_self_type r t)"
| "rename_self_type r (Ty_Ref t) = Ty_Ref (rename_self_type r t)"
| "rename_self_type r (Ty_Mutable t) = Ty_Mutable (rename_self_type r t)"
| "rename_self_type r (Ty_Fn ps t) = Ty_Fn (map (rename_self_type r) ps) (rename_self_type r t)"
| "rename_self_type r (Ty_Nullable t) = Ty_Nullable (rename_self_type r t)"
| "rename_self_type r Ty_Int8 = Ty_Int8"
| "rename_self_type r Ty_Int16 = Ty_Int16"
| "rename_self_type r Ty_Int32 = Ty_Int32"
| "rename_self_type r Ty_Int64 = Ty_Int64"
| "rename_self_type r Ty_UInt8 = Ty_UInt8"
| "rename_self_type r Ty_UInt16 = Ty_UInt16"
| "rename_self_type r Ty_UInt32 = Ty_UInt32"
| "rename_self_type r Ty_UInt64 = Ty_UInt64"
| "rename_self_type r Ty_Float32 = Ty_Float32"
| "rename_self_type r Ty_Float64 = Ty_Float64"
| "rename_self_type r Ty_Bool = Ty_Bool"
| "rename_self_type r Ty_Char = Ty_Char"
| "rename_self_type r Ty_String = Ty_String"
| "rename_self_type r Ty_Nothing = Ty_Nothing"
| "rename_self_type r Ty_Never = Ty_Never"
| "rename_self_type r Ty_Any = Ty_Any"
| "rename_self_type r Ty_Infer = Ty_Infer"
| "rename_self_type r (Ty_Map k v) = Ty_Map k v"
| "rename_self_type r (Ty_Tuple ts) = Ty_Tuple ts"

definition type_to_llvm_with_bindings :: "bindings \<Rightarrow> ty \<Rightarrow> rstring" where
  "type_to_llvm_with_bindings b t = (case t of
       Ty_Named n \<Rightarrow> (case b n of Some l \<Rightarrow> l | None \<Rightarrow> type_to_llvm t)
     | Ty_Generic n _ \<Rightarrow> (case b n of Some l \<Rightarrow> l | None \<Rightarrow> type_to_llvm t)
     | _ \<Rightarrow> type_to_llvm t)"

section \<open>Bodies\<close>

definition rename_self :: "self_rename \<Rightarrow> ident \<Rightarrow> ident" where
  "rename_self r n = (if n = fst r then snd r else n)"

definition subst_param :: "type_subst \<Rightarrow> param \<Rightarrow> param" where
  "subst_param s p = p\<lparr>param_type := substitute_type s (param_type p)\<rparr>"

definition subst_catch :: "type_subst \<Rightarrow> 'a catch_clause \<Rightarrow> 'a catch_clause" where
  "subst_catch s c = CatchClause (cc_param c) (substitute_type s (cc_ty c)) (cc_body c) (cc_span c)"

primrec subst_ekind :: "type_subst \<Rightarrow> self_rename \<Rightarrow> expr_kind \<Rightarrow> expr_kind"
  and subst_skind :: "type_subst \<Rightarrow> self_rename \<Rightarrow> stmt_kind \<Rightarrow> stmt_kind" where
  "subst_ekind s r (E_Literal l) = E_Literal l"
| "subst_ekind s r (E_ArrayLiteral es) = E_ArrayLiteral (map (map_spanned (subst_ekind s r)) es)"
| "subst_ekind s r (E_MapLiteral kvs) = E_MapLiteral (map (map_prod (map_spanned (subst_ekind s r)) (map_spanned (subst_ekind s r))) kvs)"
| "subst_ekind s r (E_Ident n) = E_Ident n"
| "subst_ekind s r (E_Binary p x y) = E_Binary p (map_spanned (subst_ekind s r) x) (map_spanned (subst_ekind s r) y)"
| "subst_ekind s r (E_Unary p x) = E_Unary p (map_spanned (subst_ekind s r) x)"
| "subst_ekind s r (E_Call f args) = E_Call (map_spanned (subst_ekind s r) f) (map (map_spanned (subst_ekind s r)) args)"
| "subst_ekind s r (E_MethodCall x m args) = E_MethodCall (map_spanned (subst_ekind s r) x) m (map (map_spanned (subst_ekind s r)) args)"
| "subst_ekind s r (E_Index x i) = E_Index (map_spanned (subst_ekind s r) x) (map_spanned (subst_ekind s r) i)"
| "subst_ekind s r (E_FieldAccess x f) = E_FieldAccess (map_spanned (subst_ekind s r) x) f"
| "subst_ekind s r E_This = E_This"
| "subst_ekind s r (E_SuperCall m args) = E_SuperCall m (map (map_spanned (subst_ekind s r)) args)"
| "subst_ekind s r (E_New c ts args) = E_New (rename_self r c) (map (substitute_type s) ts) (map (map_spanned (subst_ekind s r)) args)"
| "subst_ekind s r (E_StructLiteral n fs) = E_StructLiteral (rename_self r n) (map (map_prod id (map_spanned (subst_ekind s r))) fs)"
| "subst_ekind s r (E_Block ss) = E_Block (map (map_spanned (subst_skind s r)) ss)"
| "subst_ekind s r (E_If c t e) = E_If (map_spanned (subst_ekind s r) c) (map_spanned (subst_ekind s r) t) (map_option (map_spanned (subst_ekind s r)) e)"
| "subst_ekind s r (E_While c b) = E_While (map_spanned (subst_ekind s r) c) (map_spanned (subst_ekind s r) b)"
| "subst_ekind s r (E_For x it b) = E_For x (map_spanned (subst_ekind s r) it) (map_spanned (subst_ekind s r) b)"
| "subst_ekind s r (E_Loop b) = E_Loop (map_spanned (subst_ekind s r) b)"
| "subst_ekind s r (E_Match x cs) = E_Match (map_spanned (subst_ekind s r) x) (map (map_match_case (map_spanned (subst_ekind s r))) cs)"
| "subst_ekind s r (E_Return v) = E_Return (map_option (map_spanned (subst_ekind s r)) v)"
| "subst_ekind s r E_Break = E_Break"
| "subst_ekind s r E_Continue = E_Continue"
| "subst_ekind s r (E_Throw x) = E_Throw (map_spanned (subst_ekind s r) x)"
| "subst_ekind s r (E_Try b cs f) = E_Try (map_spanned (subst_ekind s r) b)
     (map (subst_catch s) (map (map_catch_clause (map_spanned (subst_skind s r))) cs)) (map_option (map_spanned (subst_ekind s r)) f)"
| "subst_ekind s r (E_Assign t v) = E_Assign (map_spanned (subst_ekind s r) t) (map_spanned (subst_ekind s r) v)"
| "subst_ekind s r (E_CompoundAssign p t v) = E_CompoundAssign p (map_spanned (subst_ekind s r) t) (map_spanned (subst_ekind s r) v)"
| "subst_ekind s r (E_Lambda ps t b) = E_Lambda (map (subst_param s) ps) (map_option (substitute_type s) t) (map_spanned (subst_ekind s r) b)"
| "subst_ekind s r (E_Spawn x) = E_Spawn (map_spanned (subst_ekind s r) x)"
| "subst_ekind s r (E_Await x) = E_Await (map_spanned (subst_ekind s r) x)"
| "subst_ekind s r E_Channel = E_Channel"
| "subst_ekind s r (E_Send ch v) = E_Send (map_spanned (subst_ekind s r) ch) (map_spanned (subst_ekind s r) v)"
| "subst_ekind s r (E_Recv x) = E_Recv (map_spanned (subst_ekind s r) x)"
| "subst_ekind s r (E_Cast x t) = E_Cast (map_spanned (subst_ekind s r) x) (substitute_type s t)"
| "subst_ekind s r (E_Is x t) = E_Is (map_spanned (subst_ekind s r) x) (substitute_type s t)"
| "subst_ekind s r (E_Range a b incl) = E_Range (map_spanned (subst_ekind s r) a) (map_spanned (subst_ekind s r) b) incl"
| "subst_ekind s r (E_Tuple es) = E_Tuple (map (map_spanned (subst_ekind s r)) es)"
| "subst_ekind s r (E_TupleIndex x i) = E_TupleIndex (map_spanned (subst_ekind s r) x) i"
| "subst_ekind s r (E_EnumValue en v ts args) = E_EnumValue (rename_self r en) v (map (substitute_type s) ts) (map (map_spanned (subst_ekind s r)) args)"
| "subst_skind s r (S_Expr x) = S_Expr (map_spanned (subst_ekind s r) x)"
| "subst_skind s r (S_Let x t v) = S_Let x (map_option (substitute_type s) t) (map_option (map_spanned (subst_ekind s r)) v)"
| "subst_skind s r (S_Var x t v mu) = S_Var x (map_option (substitute_type s) t) (map_option (map_spanned (subst_ekind s r)) v) mu"
| "subst_skind s r (S_Assignment t v) = S_Assignment (map_spanned (subst_ekind s r) t) (map_spanned (subst_ekind s r) v)"
| "subst_skind s r (S_If c t e) = S_If (map_spanned (subst_ekind s r) c) (map_spanned (subst_skind s r) t) (map_option (map_spanned (subst_skind s r)) e)"
| "subst_skind s r (S_While c b) = S_While (map_spanned (subst_ekind s r) c) (map_spanned (subst_skind s r) b)"
| "subst_skind s r (S_For x it b) = S_For x (map_spanned (subst_ekind s r) it) (map_spanned (subst_skind s r) b)"
| "subst_skind s r (S_ForC i c u b) = S_ForC (map_option (map_spanned (subst_skind s r)) i) (map_option (map_spanned (subst_ekind s r)) c)
     (map_option (map_spanned (subst_ekind s r)) u) (map_spanned (subst_skind s r) b)"
| "subst_skind s r (S_Loop b) = S_Loop (map_spanned (subst_skind s r) b)"
| "subst_skind s r (S_Return v) = S_Return (map_option (map_spanned (subst_ekind s r)) v)"
| "subst_skind s r S_Break = S_Break"
| "subst_skind s r S_Continue = S_Continue"
| "subst_skind s r (S_Throw x) = S_Throw (map_spanned (subst_ekind s r) x)"
| "subst_skind s r (S_Try b cs f) = S_Try (map_spanned (subst_skind s r) b)
     (map (subst_catch s) (map (map_catch_clause (map_spanned (subst_skind s r))) cs)) (map_option (map_spanned (subst_skind s r)) f)"
| "subst_skind s r (S_Defer b) = S_Defer (map_spanned (subst_skind s r) b)"
| "subst_skind s r (S_Block ss) = S_Block (map (map_spanned (subst_skind s r)) ss)"
| "subst_skind s r (S_Select arms d) = S_Select (map (map_select_arm (map_spanned (subst_ekind s r)) (map_spanned (subst_skind s r))) arms)
     (map_option (map_spanned (subst_skind s r)) d)"
| "subst_skind s r S_Empty = S_Empty"

definition substitute_expr :: "type_subst \<Rightarrow> self_rename \<Rightarrow> expr \<Rightarrow> expr" where
  "substitute_expr s r = map_spanned (subst_ekind s r)"

definition substitute_stmt :: "type_subst \<Rightarrow> self_rename \<Rightarrow> stmt \<Rightarrow> stmt" where
  "substitute_stmt s r = map_spanned (subst_skind s r)"

section \<open>Functions and classes\<close>

definition llvm_subst :: "bindings \<Rightarrow> type_subst" where
  "llvm_subst b n = map_option llvm_ty_to_parser_type (b n)"

text \<open>The body of a function is copied as it is.\<close>

definition substitute_fn :: "function_def \<Rightarrow> ident \<Rightarrow> bindings \<Rightarrow> function_def" where
  "substitute_fn f mangled b = f\<lparr>fn_name := mangled, fn_type_params := [], fn_params := map (subst_param (llvm_subst b)) (fn_params f),
     fn_ret_type := substitute_type (llvm_subst b) (fn_ret_type f), fn_annotations := []\<rparr>"

definition specialise_type :: "class_def \<Rightarrow> ident \<Rightarrow> bindings \<Rightarrow> ty \<Rightarrow> ty" where
  "specialise_type c mangled b t = rename_self_type (cl_name c, mangled) (substitute_type (llvm_subst b) t)"

definition specialise_param :: "class_def \<Rightarrow> ident \<Rightarrow> bindings \<Rightarrow> param \<Rightarrow> param" where
  "specialise_param c mangled b p = p\<lparr>param_type := specialise_type c mangled b (param_type p)\<rparr>"

definition specialise_field :: "class_def \<Rightarrow> ident \<Rightarrow> bindings \<Rightarrow> field_def \<Rightarrow> field_def" where
  "specialise_field c mangled b f = f\<lparr>fd_type := specialise_type c mangled b (fd_type f), fd_annotations := []\<rparr>"

definition specialise_method :: "class_def \<Rightarrow> ident \<Rightarrow> bindings \<Rightarrow> method_def \<Rightarrow> method_def" where
  "specialise_method c mangled b m = m\<lparr>me_params := map (specialise_param c mangled b) (me_params m),
     me_ret_type := specialise_type c mangled b (me_ret_type m),
     me_body := substitute_stmt (llvm_subst b) (cl_name c, mangled) (me_body m), me_annotations := []\<rparr>"

definition substitute_class :: "class_def \<Rightarrow> ident \<Rightarrow> bindings \<Rightarrow> class_def" where
  "substitute_class c mangled b = c\<lparr>cl_name := mangled, cl_type_params := [],
     cl_fields := map (specialise_field c mangled b) (cl_fields c),
     cl_methods := map (specialise_method c mangled b) (cl_methods c), cl_annotations := []\<rparr>"

text \<open>
  The tables of a specialised class, which \<^verbatim>\<open>ensure_generic_class_specialization_with_bindings\<close> fills before it emits the
  methods; the result also has the name, the definition of the struct type and the methods to emit.
\<close>

definition register_specialised_method :: "ident \<Rightarrow> class_def \<Rightarrow> ident \<Rightarrow> bindings \<Rightarrow> method_def \<Rightarrow> cg_tables \<Rightarrow> cg_tables" where
  "register_specialised_method class gc mangled b m t =
     (let k = impl_key mangled (me_name m) in
      if me_type_params m \<noteq> [] then
        t\<lparr>generic_methods := (generic_methods t)(k \<mapsto> m),
          generic_instance_methods := (case find (\<lambda>x. me_name x = me_name m) (cl_methods gc) of
            Some pristine \<Rightarrow> (generic_instance_methods t)(k \<mapsto> (class, b, pristine)) | None \<Rightarrow> generic_instance_methods t)\<rparr>
      else
        t\<lparr>method_ret_types := (method_ret_types t)(k \<mapsto> type_to_llvm (me_ret_type m)),
          method_impl := (method_impl t)(k \<mapsto> k),
          static_method_keys := (if me_static m then insert k (static_method_keys t) else static_method_keys t),
          method_param_types := (method_param_types t)(k \<mapsto> map param_type (me_params m))\<rparr>)"

definition one_class :: "ident \<Rightarrow> class_def \<Rightarrow> ident \<rightharpoonup> class_def" where
  "one_class n c = [n \<mapsto> c]"

definition specialise_class :: "ident \<Rightarrow> bindings \<Rightarrow> cg_tables
    \<Rightarrow> (ident \<times> rstring option \<times> method_def list \<times> cg_tables) option" where
  "specialise_class class b t = (case generic_class_defs t class of
       None \<Rightarrow> Some (class, None, [], t)
     | Some gc \<Rightarrow>
         let mangled = mangle_generic_name class (cl_type_params gc) b in
         if mangled \<in> generated_specializations t then Some (mangled, None, [], t)
         else
           let sc = substitute_class gc mangled b; cm = one_class mangled sc;
               t1 = t\<lparr>generated_specializations := insert mangled (generated_specializations t),
                      struct_layouts := (struct_layouts t)(mangled \<mapsto> map fd_name (cl_fields sc))\<rparr>
           in Option.bind (collect_field_class_types cm mangled) (\<lambda>ct.
              Option.bind (collect_field_llvm_types cm mangled) (\<lambda>lt.
              Option.bind (collect_fn_field_sigs cm mangled) (\<lambda>sigs.
                let (def, t2) = register_named_struct_type mangled
                      (t1\<lparr>struct_field_class_types := (struct_field_class_types t1)(mangled \<mapsto> ct),
                          struct_field_llvm_types := (struct_field_llvm_types t1)(mangled \<mapsto> lt)\<rparr>);
                    t3 = t2\<lparr>fn_field_sigs := (fn_field_sigs t2)(mangled \<mapsto> sigs)\<rparr>
                in Some (mangled, def, filter (\<lambda>m. me_type_params m = []) (cl_methods sc),
                     fold (register_specialised_method class gc mangled b) (cl_methods sc) t3)))))"

text \<open>The instance for explicit type arguments\<close>

definition ensure_generic_class_specialization :: "ident \<Rightarrow> ty list \<Rightarrow> cg_tables
    \<Rightarrow> (ident \<times> rstring option \<times> method_def list \<times> cg_tables) option" where
  "ensure_generic_class_specialization class args t =
     (if args = [] then Some (class, None, [], t)
      else case generic_class_defs t class of
        None \<Rightarrow> Some (class, None, [], t)
      | Some gc \<Rightarrow> specialise_class class (collect_pairs (zip (cl_type_params gc) (map type_to_llvm args))) t)"

section \<open>Lowering a specialisation\<close>

text \<open>
  The bindings of a specialisation are texts of LLVM types, taken back to types to be substituted. Nothing is lost
  by that: a type in which the recovered types are substituted is lowered to the same LLVM type as with the real ones.
\<close>

theorem specialisation_lowers:
  "type_to_llvm (substitute_type (llvm_subst (\<lambda>n. map_option type_to_llvm (s n))) t) = type_to_llvm (substitute_type s t)"
proof (induction t)
  case (Ty_Named n)
  show ?case by (cases "s n") (simp_all add: llvm_subst_def lower_llvm_type [OF type_to_llvm_type])
next
  case (Ty_Generic n args)
  show ?case
  proof (cases "s n")
    case None
    then show ?thesis using Ty_Generic by (cases args) (simp_all add: llvm_subst_def)
  qed (simp add: llvm_subst_def lower_llvm_type [OF type_to_llvm_type])
qed simp_all

text \<open>Substitution does not go into nullable types, maps and tuples: there a parameter stays and is lowered as a class.\<close>

lemma nullable_parameter_stays:
  "substitute_type [n \<mapsto> Ty_Int64] (Ty_Nullable (Ty_Named n)) = Ty_Nullable (Ty_Named n)"
  "type_to_llvm (substitute_type [n \<mapsto> Ty_Int64] (Ty_Nullable (Ty_Named n))) = lit ''i64*''"
  "type_to_llvm (Ty_Nullable Ty_Int64) = lit ''i64''"
  by simp_all

section \<open>No parameter is left\<close>

text \<open>The names that a type mentions outside of nullable types, maps and tuples\<close>

primrec mentions :: "ty \<Rightarrow> ident set" where
  "mentions (Ty_Named n) = {n}"
| "mentions (Ty_Generic n args) = insert n (\<Union> (set (map mentions args)))"
| "mentions (Ty_Array t) = mentions t"
| "mentions (Ty_Ref t) = mentions t"
| "mentions (Ty_Mutable t) = mentions t"
| "mentions (Ty_Fn ps r) = mentions r \<union> \<Union> (set (map mentions ps))"
| "mentions Ty_Int8 = {}"
| "mentions Ty_Int16 = {}"
| "mentions Ty_Int32 = {}"
| "mentions Ty_Int64 = {}"
| "mentions Ty_UInt8 = {}"
| "mentions Ty_UInt16 = {}"
| "mentions Ty_UInt32 = {}"
| "mentions Ty_UInt64 = {}"
| "mentions Ty_Float32 = {}"
| "mentions Ty_Float64 = {}"
| "mentions Ty_Bool = {}"
| "mentions Ty_Char = {}"
| "mentions Ty_String = {}"
| "mentions Ty_Nothing = {}"
| "mentions Ty_Never = {}"
| "mentions Ty_Any = {}"
| "mentions Ty_Infer = {}"
| "mentions (Ty_Map k v) = {}"
| "mentions (Ty_Tuple ts) = {}"
| "mentions (Ty_Nullable t) = {}"

lemma mentions_llvm: "llvm_type t \<Longrightarrow> mentions (llvm_ty_to_parser_type t) = {}"
proof (induction rule: llvm_type.induct)
  case (scalar t)
  then show ?case by (subst llvm_ty_to_parser_type.simps) auto
qed (auto simp: llvm_pointer_inverse [simplified])

definition llvm_bindings :: "bindings \<Rightarrow> bool" where
  "llvm_bindings b \<longleftrightarrow> (\<forall>n t. b n = Some t \<longrightarrow> llvm_type t)"

lemma mentions_substitute:
  assumes "llvm_bindings b"
  shows "mentions (substitute_type (llvm_subst b) t) \<subseteq> mentions t - dom b"
proof (induction t)
  case (Ty_Named n)
  show ?case using assms by (cases "b n") (auto simp: llvm_subst_def llvm_bindings_def mentions_llvm)
next
  case (Ty_Generic n args)
  show ?case
  proof (cases "b n")
    case None
    then show ?thesis using Ty_Generic by (auto simp: llvm_subst_def)
  next
    case (Some l)
    then show ?thesis using assms by (simp add: llvm_subst_def llvm_bindings_def mentions_llvm)
  qed
next
  case (Ty_Fn ps r)
  then show ?case by fastforce
qed simp_all

lemma mentions_rename: "mentions (rename_self_type (a, b) t) \<subseteq> insert b (mentions t - {a})"
proof (induction t)
  case (Ty_Generic n args)
  show ?case
  proof (cases "n = a")
    case False
    then show ?thesis using Ty_Generic by (simp add: UN_subset_iff) blast
  qed simp
next
  case (Ty_Fn ps r)
  then show ?case by (simp add: UN_subset_iff) blast
qed auto

definition class_types :: "class_def \<Rightarrow> ty set" where
  "class_types c = fd_type ` set (cl_fields c)
     \<union> (\<Union>m \<in> set (cl_methods c). insert (me_ret_type m) (param_type ` set (me_params m)))"

lemma class_types_substitute:
  "class_types (substitute_class c mangled b) = specialise_type c mangled b ` class_types c"
  by (simp add: class_types_def substitute_class_def specialise_field_def specialise_method_def specialise_param_def
        image_Un image_UN image_image image_insert)


definition box_class :: class_def where
  "box_class = \<lparr>cl_name = lit ''Box'', cl_type_params = [lit ''T''], cl_extends = None, cl_implements = [],
     cl_fields = [\<lparr>fd_name = lit ''value'', fd_type = Ty_Fn [Ty_Named (lit ''T'')] (Ty_Generic (lit ''Box'') [Ty_Named (lit ''T'')]),
       fd_visibility = V_Public, fd_mutable = True, fd_span = span_dummy, fd_doc = None, fd_annotations = []\<rparr>],
     cl_methods = [], cl_span = span_dummy, cl_doc = None, cl_annotations = []\<rparr>"


section \<open>Substitution in bodies\<close>

lemmas subst_shape = spanned.map_comp spanned.map_sel match_case.map_comp catch_clause.map_comp select_arm.map_comp
  option.map_comp prod.map_comp comp_def

lemma subst_catch_map: "map_catch_clause f (subst_catch s c) = subst_catch s (map_catch_clause f c)"
  by (cases c) (simp add: subst_catch_def)

lemma ids_ccs_subst: "ids_ccs (map (subst_catch s) cs) = ids_ccs cs"
  by (simp add: ids_ccs_def ids_list_def subst_catch_def comp_def)

lemmas ids_parts_cong = arg_cong2 [where f = append] arg_cong [where f = ids_e] arg_cong [where f = ids_s] arg_cong [where f = ids_es]
  arg_cong [where f = ids_ss] arg_cong [where f = ids_eo] arg_cong [where f = ids_so] arg_cong [where f = ids_prs]
  arg_cong [where f = ids_flds] arg_cong [where f = ids_mcs] arg_cong [where f = ids_sas]

lemma handlers_ids:
  assumes "\<And>c. c \<in> set cs \<Longrightarrow> map_catch_clause (map_spanned (\<lambda>k. ids_skind (subst_skind s r k))) c = map_catch_clause (map_spanned ids_skind) c"
  shows "ids_ccs (map (map_catch_clause (map_spanned ids_skind)) (map (subst_catch s) (map (map_catch_clause (map_spanned (subst_skind s r))) cs)))
    = ids_ccs (map (map_catch_clause (map_spanned ids_skind)) cs)"
proof -
  have "map (map_catch_clause (map_spanned ids_skind)) (map (subst_catch s) (map (map_catch_clause (map_spanned (subst_skind s r))) cs))
      = map (\<lambda>c. subst_catch s (map_catch_clause (map_spanned ids_skind) c)) cs" (is "?l = _")
    unfolding map_map by (rule map_cong [OF refl]) (simp add: subst_catch_map subst_shape assms)
  then have "?l = map (subst_catch s) (map (map_catch_clause (map_spanned ids_skind)) cs)" by (simp add: comp_def)
  then show ?thesis by (simp only: ids_ccs_subst)
qed

lemma subst_ids:
  "ids_ekind (subst_ekind s r k) = ids_ekind k"
  "ids_skind (subst_skind s r c) = ids_skind c"
proof (induction k and c)
  case (E_Try b hs f)
  have h: "ids_ccs (map (map_catch_clause (map_spanned ids_skind)) (map (subst_catch s) (map (map_catch_clause (map_spanned (subst_skind s r))) hs)))
      = ids_ccs (map (map_catch_clause (map_spanned ids_skind)) hs)"
    by (rule handlers_ids) (use E_Try(2) in \<open>auto intro!: catch_clause.map_cong spanned.map_cong\<close>)
  have b: "map_spanned ids_ekind (map_spanned (subst_ekind s r) b) = map_spanned ids_ekind b"
    using E_Try(1) by (simp add: subst_shape cong: spanned.map_cong)
  have f: "map_option (map_spanned ids_ekind) (map_option (map_spanned (subst_ekind s r)) f) = map_option (map_spanned ids_ekind) f"
    using E_Try(3) by (cases f) (auto simp: subst_shape intro!: spanned.map_cong)
  show ?case by (simp only: subst_ekind.simps ids_ekind.simps h b f)
next
  case (S_Try b hs f)
  have h: "ids_ccs (map (map_catch_clause (map_spanned ids_skind)) (map (subst_catch s) (map (map_catch_clause (map_spanned (subst_skind s r))) hs)))
      = ids_ccs (map (map_catch_clause (map_spanned ids_skind)) hs)"
    by (rule handlers_ids) (use S_Try(2) in \<open>auto intro!: catch_clause.map_cong spanned.map_cong\<close>)
  have b: "map_spanned ids_skind (map_spanned (subst_skind s r) b) = map_spanned ids_skind b"
    using S_Try(1) by (simp add: subst_shape cong: spanned.map_cong)
  have f: "map_option (map_spanned ids_skind) (map_option (map_spanned (subst_skind s r)) f) = map_option (map_spanned ids_skind) f"
    using S_Try(3) by (cases f) (auto simp: subst_shape intro!: spanned.map_cong)
  show ?case by (simp only: subst_skind.simps ids_skind.simps h b f)
qed (auto simp: subst_shape intro!: map_cong [OF refl] spanned.map_cong option.map_cong match_case.map_cong select_arm.map_cong
    prod.map_cong ids_parts_cong)

text \<open>
  The body of a method of a specialised class has the node ids of the body of the generic class, in the same order,
  whatever the substitution: the types that the checker recorded under the ids are found for the copy too.
\<close>

theorem specialised_body_ids: "ids_s (map_spanned ids_skind (substitute_stmt s r body)) = ids_s (map_spanned ids_skind body)"
  by (simp add: substitute_stmt_def ids_s_def subst_shape subst_ids)

end
