(* ===== verification/Tinox_Codegen_Emit.thy ===== *)
theory Tinox_Codegen_Emit
  imports Tinox_Codegen_Tables Tinox_Float_Show "HOL-Library.AList"
begin

text \<open>
  How the code generator writes LLVM code (\<^verbatim>\<open>src/crates/tinox-codegen/src/codegen.rs\<close>): the text built so far, the
  counter of temporaries, the table of string constants, and the small operations by which everything else
  is emitted: conversions of values, accesses to arrays, literals, the texts of constants. The code is text as in
  the source. Their properties are in \<open>Tinox_Codegen_Ssa\<close>, \<open>Tinox_Codegen_Slots\<close> and \<open>Tinox_Codegen_Debug\<close>.
\<close>

section \<open>The state\<close>

record emitter =
  ir :: rstring
  lambda_ir :: rstring
  str_consts :: "(rstring \<times> rstring) list"
  temp_count :: nat

definition emitter_new :: emitter where
  "emitter_new = \<lparr>ir = [], lambda_ir = [], str_consts = [], temp_count = 0\<rparr>"

text \<open>\<^verbatim>\<open>writeln!(&mut self.ir, ...)\<close>, with the parts of the line\<close>

definition emit_line :: "rstring list \<Rightarrow> emitter \<Rightarrow> emitter" where
  "emit_line ps s = s\<lparr>ir := ir s @ concat ps @ [LF]\<rparr>"

definition temp_name :: "nat \<Rightarrow> rstring" where
  "temp_name n = lit ''%tmp.'' @ show_nat n"

definition temp :: "emitter \<Rightarrow> rstring \<times> emitter" where
  "temp s = (temp_name (temp_count s), s\<lparr>temp_count := temp_count s + 1\<rparr>)"

definition new_bb :: "rstring \<Rightarrow> emitter \<Rightarrow> rstring \<times> emitter" where
  "new_bb n s = (n @ lit ''_'' @ show_nat (temp_count s), s\<lparr>temp_count := temp_count s + 1\<rparr>)"

text \<open>A new temporary and the line that assigns it, with what the line starts with\<close>

definition assign :: "rstring \<Rightarrow> rstring list \<Rightarrow> emitter \<Rightarrow> rstring \<times> emitter" where
  "assign ind ps s = (let (c, s1) = temp s in (c, emit_line (ind # c # lit '' = '' # ps) s1))"

abbreviation indent :: rstring where "indent \<equiv> lit ''  ''"

text \<open>A text in the table of string constants, under a label with the size of the table\<close>

definition intern_string :: "rstring \<Rightarrow> rstring \<Rightarrow> emitter \<Rightarrow> rstring \<times> emitter" where
  "intern_string p t s = (let l = p @ show_nat (length (str_consts s)) in (l, s\<lparr>str_consts := AList.update l t (str_consts s)\<rparr>))"

definition const_ptr :: "rstring \<Rightarrow> rstring \<Rightarrow> rstring" where
  "const_ptr l t = (let n = show_nat (length (utf8_bytes t) + 1) in
     lit ''getelementptr ['' @ n @ lit '' x i8], ['' @ n @ lit '' x i8]* @'' @ l @ lit '', i64 0, i64 0'')"

definition make_string_const :: "rstring \<Rightarrow> emitter \<Rightarrow> rstring \<times> emitter" where
  "make_string_const t s = (let (l, s1) = intern_string (lit ''__metric_str_'') t s in (const_ptr l t, s1))"

definition emit_histogram_record :: "rstring \<Rightarrow> rstring \<Rightarrow> emitter \<Rightarrow> emitter" where
  "emit_histogram_record label start s =
     (let (e, s1) = temp s; (d, s2) = temp s1; (p, s3) = make_string_const label s2
      in emit_line [lit ''call void @tinox_histogram_record(i8* '', p, lit '', i64 '', d, lit '')'']
           (emit_line [d, lit '' = sub i64 '', e, lit '', '', start]
             (emit_line [e, lit '' = call i64 @tinox_clock_nanos()''] s3)))"

section \<open>Conversions of values\<close>

text \<open>The name of the value that the conversion leaves, and the code\<close>

definition small_int :: "rstring \<Rightarrow> bool" where
  "small_int t \<longleftrightarrow> t = lit ''i8'' \<or> t = lit ''i16'' \<or> t = lit ''i32''"

definition any_pointer :: "rstring \<Rightarrow> bool" where
  "any_pointer t \<longleftrightarrow> is_pointer t \<or> t = lit ''ptr''"

definition coerce_map_value :: "rstring \<Rightarrow> rstring option \<Rightarrow> emitter \<Rightarrow> (rstring \<times> rstring) \<times> emitter" where
  "coerce_map_value raw m s = (case Option.bind m map_val_marker of
       Some v \<Rightarrow>
         if v = lit ''String'' then (let (p, s1) = assign [] [lit ''inttoptr i64 '', raw, lit '' to i8*''] s in ((p, lit ''i8*''), s1))
         else if v = lit ''Float'' then (let (f, s1) = assign [] [lit ''bitcast i64 '', raw, lit '' to double''] s in ((f, lit ''double''), s1))
         else ((raw, lit ''i64''), s)
     | None \<Rightarrow> ((raw, lit ''i64''), s))"

definition emit_map_key :: "rstring \<Rightarrow> rstring \<Rightarrow> emitter \<Rightarrow> rstring \<times> emitter" where
  "emit_map_key key t s =
     (if t = lit ''i8*'' then (key, s)
      else if t = lit ''i1'' then assign [] [lit ''call i8* @tinox_bool_to_string(i1 '', key, lit '')''] s
      else if is_float t then assign [] [lit ''call i8* @tinox_float_to_string(double '', key, lit '')''] s
      else if small_int t then
        (let (e, s1) = assign [] [lit ''sext '', t, lit '' '', key, lit '' to i64''] s
         in assign [] [lit ''call i8* @tinox_int_to_string(i64 '', e, lit '')''] s1)
      else if t = lit ''i64'' then assign [] [lit ''call i8* @tinox_int_to_string(i64 '', key, lit '')''] s
      else if any_pointer t then assign [] [lit ''bitcast '', t, lit '' '', key, lit '' to i8*''] s
      else assign [] [lit ''inttoptr i64 '', key, lit '' to i8*''] s)"

definition array_slot_to_typed :: "rstring \<Rightarrow> rstring \<Rightarrow> bool \<Rightarrow> emitter \<Rightarrow> rstring \<times> emitter" where
  "array_slot_to_typed raw t float_bits s =
     (if t = lit ''i64'' then (raw, s)
      else if t = lit ''double'' then assign [] [lit (if float_bits then ''bitcast i64 '' else ''sitofp i64 ''), raw, lit '' to double''] s
      else if any_pointer t then assign [] [lit ''inttoptr i64 '', raw, lit '' to '', t] s
      else if starts_with (lit ''i'') t then assign [] [lit ''trunc i64 '', raw, lit '' to '', t] s
      else (raw, s))"

definition typed_to_array_slot :: "rstring \<Rightarrow> rstring \<Rightarrow> emitter \<Rightarrow> rstring \<times> emitter" where
  "typed_to_array_slot v t s =
     (if t = lit ''i64'' then (v, s)
      else if t = lit ''double'' then assign [] [lit ''bitcast double '', v, lit '' to i64''] s
      else if t = lit ''i1'' then assign [] [lit ''zext i1 '', v, lit '' to i64''] s
      else if any_pointer t then assign [] [lit ''ptrtoint '', t, lit '' '', v, lit '' to i64''] s
      else if starts_with (lit ''i'') t then assign [] [lit ''sext '', t, lit '' '', v, lit '' to i64''] s
      else (v, s))"

definition coerce_to_i64 :: "rstring \<Rightarrow> rstring \<Rightarrow> emitter \<Rightarrow> rstring \<times> emitter" where
  "coerce_to_i64 v t s =
     (if t = lit ''i64'' then (v, s)
      else if t = lit ''double'' then assign indent [lit ''bitcast double '', v, lit '' to i64''] s
      else if t = lit ''i1'' then assign indent [lit ''zext i1 '', v, lit '' to i64''] s
      else if is_pointer t then assign indent [lit ''ptrtoint '', t, lit '' '', v, lit '' to i64''] s
      else if small_int t then assign indent [lit ''sext '', t, lit '' '', v, lit '' to i64''] s
      else (v, s))"

definition coerce_to_slot :: "rstring \<Rightarrow> rstring \<Rightarrow> rstring \<Rightarrow> emitter \<Rightarrow> rstring \<times> emitter" where
  "coerce_to_slot v t slot s =
     (if t = slot \<or> t = [] then (v, s)
      else if slot = lit ''double'' then
        (if t = lit ''i64'' then assign indent [lit ''bitcast i64 '', v, lit '' to double''] s else (v, s))
      else if is_pointer slot then
        (if t = lit ''i64'' then assign indent [lit ''inttoptr i64 '', v, lit '' to '', slot] s
         else if any_pointer t then assign indent [lit ''bitcast '', t, lit '' '', v, lit '' to '', slot] s
         else (v, s))
      else coerce_to_i64 v t s)"

definition emit_i1 :: "rstring \<Rightarrow> rstring \<Rightarrow> emitter \<Rightarrow> rstring \<times> emitter" where
  "emit_i1 v t s = (if t = lit ''i1'' then (v, s) else assign [] [lit ''icmp ne '', t, lit '' '', v, lit '', 0''] s)"

text \<open>A division that the runtime checks, into a temporary of the caller\<close>

definition emit_checked_idiv :: "rstring \<Rightarrow> rstring \<Rightarrow> rstring \<Rightarrow> rstring \<Rightarrow> bool \<Rightarrow> emitter \<Rightarrow> emitter" where
  "emit_checked_idiv res t l r is_rem s =
     (let f = lit (if is_rem then ''tinox_checked_srem'' else ''tinox_checked_sdiv'') in
      if t = lit ''i64'' then
        emit_line [res, lit '' = call i64 @'', f, lit ''(i64 '', l, lit '', i64 '', r, lit '')''] s
      else if small_int t then
        (let (le, s1) = assign [] [lit ''sext '', t, lit '' '', l, lit '' to i64''] s;
             (re, s2) = assign [] [lit ''sext '', t, lit '' '', r, lit '' to i64''] s1;
             (wide, s3) = assign [] [lit ''call i64 @'', f, lit ''(i64 '', le, lit '', i64 '', re, lit '')''] s2
         in emit_line [res, lit '' = trunc i64 '', wide, lit '' to '', t] s3)
      else emit_line [res, lit '' = '', lit (if is_rem then ''srem'' else ''sdiv''), lit '' '', t, lit '' '', l, lit '', '', r] s)"

section \<open>Arrays, fields and results\<close>

definition emit_array_len :: "rstring \<Rightarrow> emitter \<Rightarrow> rstring \<times> emitter" where
  "emit_array_len h s =
     (let (p, s1) = assign [] [lit ''getelementptr i64, ptr '', h, lit '', i64 0''] s
      in assign [] [lit ''load i64, i64* '', p] s1)"

definition emit_array_data :: "rstring \<Rightarrow> emitter \<Rightarrow> rstring \<times> emitter" where
  "emit_array_data h s =
     (let (p, s1) = assign [] [lit ''getelementptr i64, ptr '', h, lit '', i64 2''] s;
          (d, s2) = assign [] [lit ''load i64, i64* '', p] s1
      in assign [] [lit ''inttoptr i64 '', d, lit '' to i64*''] s2)"

definition try_typed_field_store :: "cg_tables \<Rightarrow> ident option \<Rightarrow> rstring \<Rightarrow> ident \<Rightarrow> span \<Rightarrow> rstring \<Rightarrow> rstring \<Rightarrow> emitter
    \<Rightarrow> codegen_error + bool \<times> emitter" where
  "try_typed_field_store t c obj f sp v vt s = (case c of
       None \<Rightarrow> Inr (False, s)
     | Some n \<Rightarrow>
         if n \<notin> class_named_types t then Inr (False, s)
         else (case checked_typed_offset t n f sp of
             Inl e \<Rightarrow> Inl e
           | Inr off \<Rightarrow>
               let slot = slot_llvm_ty (case Option.bind (struct_field_llvm_types t n) (\<lambda>m. m f) of Some l \<Rightarrow> l | None \<Rightarrow> lit ''i64'');
                   (x, s1) = coerce_to_slot v vt slot s;
                   (p, s2) = assign [] [lit ''getelementptr %class.'', n, lit '', ptr '', obj, lit '', i32 0, i32 '', show_int off] s1
               in Inr (True, emit_line [lit ''store '', slot, lit '' '', x, lit '', '', slot, lit ''* '', p] s2)))"

definition closure_call_args :: "rstring \<Rightarrow> rstring \<Rightarrow> rstring" where
  "closure_call_args args env = (let a = trim args in if a = [] then lit ''i64* '' @ env else a @ lit '', i64* '' @ env)"

text \<open>The default result of a function, by its LLVM type\<close>

definition emit_ret_default :: "rstring \<Rightarrow> emitter \<Rightarrow> emitter" where
  "emit_ret_default t =
     (if t = lit ''void'' \<or> t = [] then emit_line [lit ''ret void'']
      else if t = lit ''double'' then emit_line [lit ''ret double 0.0'']
      else if t = lit ''float'' then emit_line [lit ''ret float 0.0'']
      else if any_pointer t then emit_line [lit ''ret '', t, lit '' null'']
      else emit_line [lit ''ret '', t, lit '' 0''])"

definition last_is_terminator :: "emitter \<Rightarrow> bool" where
  "last_is_terminator s = (lines (ir s) \<noteq> [] \<and>
     (let t = trim (last (lines (ir s))) in
      starts_with (lit ''ret '') t \<or> t = lit ''ret void'' \<or> starts_with (lit ''br '') t \<or> t = lit ''unreachable'' \<or> starts_with (lit ''switch '') t))"

section \<open>Literals\<close>

definition gen_literal :: "literal \<Rightarrow> emitter \<Rightarrow> (rstring \<times> rstring) \<times> emitter" where
  "gen_literal l s = (case l of
       Lit_Integer n \<Rightarrow> ((show_int n, lit ''i64''), s)
     | Lit_Float f \<Rightarrow>
         (let t = show_f64 f in
          ((if cc (CHR ''.'') \<in> set t \<or> cc (CHR ''e'') \<in> set t \<or> cc (CHR ''E'') \<in> set t then t else t @ lit ''.0'', lit ''double''), s))
     | Lit_String t \<Rightarrow>
         (let (n, s1) = intern_string (lit ''str'') t s; (p, s2) = assign [] [const_ptr n t] s1 in ((p, lit ''i8*''), s2))
     | Lit_Bool b \<Rightarrow> ((lit (if b then ''1'' else ''0''), lit ''i1''), s)
     | Lit_Char c \<Rightarrow> ((show_nat c, lit ''i32''), s)
     | Lit_Byte b \<Rightarrow> ((show_nat (unat b), lit ''i8''), s)
     | Lit_Null \<Rightarrow> ((lit ''0'', lit ''i64''), s))"

end
