(* ===== verification/Tinox_Codegen_Ssa.thy ===== *)
theory Tinox_Codegen_Ssa
  imports Tinox_Codegen_Emit
begin

text \<open>
  Properties of emitted code. The operations that emit are the steps of a relation on the state of the emitter;
  by induction over its rules, no state that they reach assigns a temporary twice.
\<close>

section \<open>Names\<close>

lemma show_nat_digits: "c \<in> set (show_nat n) \<Longrightarrow> 48 \<le> c \<and> c \<le> 57"
proof -
  assume "c \<in> set (show_nat n)"
  then have "\<exists>d < 10. c = digit_char d" unfolding show_nat_def by (intro radix_text_digits [of 10 c n]) simp_all
  then show ?thesis by (auto simp: digit_char_def)
qed

lemma show_nat_inj [simp]: "show_nat m = show_nat n \<longleftrightarrow> m = n"
proof -
  have r: "digits_val 10 (show_nat k) 0 = Some k" for k unfolding show_nat_def by (rule digits_val_radix_text) simp_all
  show ?thesis by (metis r option.inject)
qed

definition one_line :: "rstring \<Rightarrow> bool" where
  "one_line t \<longleftrightarrow> LF \<notin> set t"

lemma one_line_simps [simp]:
  "one_line []" "one_line (c # t) \<longleftrightarrow> c \<noteq> LF \<and> one_line t" "one_line (t @ u) \<longleftrightarrow> one_line t \<and> one_line u"
  by (auto simp: one_line_def)

lemma one_line_show_nat [simp]: "one_line (show_nat n)"
  using show_nat_digits [of LF n] by (auto simp: one_line_def)

lemma one_line_show_int [simp]: "one_line (show_int i)"
  by (simp add: show_int_def)

lemma one_line_temp [simp]: "one_line (temp_name n)"
  by (simp add: temp_name_def)

lemma temp_name_inj [simp]: "temp_name m = temp_name n \<longleftrightarrow> m = n"
  by (simp add: temp_name_def)

section \<open>What a text assigns\<close>

abbreviation PERCENT :: rchar where "PERCENT \<equiv> cc (CHR ''%'')"
abbreviation BLANK :: rchar where "BLANK \<equiv> 32"

definition assigned_name :: "rstring \<Rightarrow> rstring list" where
  "assigned_name l = (case dropWhile (\<lambda>c. c = BLANK) l of
       c # u \<Rightarrow> if c = PERCENT then [takeWhile (\<lambda>x. x \<noteq> BLANK) (c # u)] else []
     | [] \<Rightarrow> [])"

definition assigned :: "rstring \<Rightarrow> rstring list" where
  "assigned t = concat (map assigned_name (lines t))"

text \<open>Texts of whole lines\<close>

definition whole_lines :: "rstring \<Rightarrow> bool" where
  "whole_lines t \<longleftrightarrow> t = [] \<or> last t = LF"

lemma lines_snoc:
  assumes "whole_lines t" "one_line l"
  shows "lines (t @ l @ [LF]) = lines t @ [strip_cr l]"
  using assms(1)
proof (induction t rule: lines.induct)
  case (1 t)
  show ?case
  proof (cases "t = []")
    case True
    then show ?thesis using assms(2) lines_line [of l "[]"] by (simp add: one_line_def)
  next
    case False
    then have "last t = LF" using 1(2) by (simp add: whole_lines_def)
    with False have "LF \<in> set t" by (metis last_in_set)
    then obtain a u where t: "t = a @ LF # u" "LF \<notin> set a" by (meson split_list_first)
    have w: "takeWhile (\<lambda>x. x \<noteq> LF) t = a" "dropWhile (\<lambda>x. x \<noteq> LF) t = LF # u" using t takeWhile_LF [of a u] by auto
    have u: "whole_lines u" using 1(2) t by (cases u) (auto simp: whole_lines_def)
    have "lines (u @ l @ [LF]) = lines u @ [strip_cr l]" using 1(1) False w u by simp
    then show ?thesis using lines_line [OF t(2), of u] lines_line [OF t(2), of "u @ l @ [LF]"] t by simp
  qed
qed

lemma assigned_snoc:
  assumes "whole_lines t" "one_line l"
  shows "assigned (t @ l @ [LF]) = assigned t @ assigned_name (strip_cr l)"
  by (simp add: assigned_def lines_snoc [OF assms] del: append_assoc)

lemma strip_cr_append: "u \<noteq> [] \<Longrightarrow> \<exists>v. strip_cr (t @ c # u) = t @ c # v"
  by (auto simp: strip_cr_def butlast_append)

lemma takeWhile_temp: "takeWhile (\<lambda>x. x \<noteq> BLANK) (temp_name n @ BLANK # u) = temp_name n"
proof -
  have "\<forall>c \<in> set (temp_name n). c \<noteq> BLANK" using show_nat_digits [of BLANK n] by (auto simp: temp_name_def)
  then show ?thesis by (simp add: takeWhile_tail takeWhile_append)
qed

lemma assigned_name_temp:
  assumes "ind = [] \<or> ind = indent"
  shows "assigned_name (strip_cr (ind @ temp_name n @ lit '' = '' @ u)) = [temp_name n]"
proof -
  obtain v where v: "strip_cr ((ind @ temp_name n) @ BLANK # (lit ''= '' @ u)) = (ind @ temp_name n) @ BLANK # v"
    using strip_cr_append by (metis append_is_Nil_conv length_0_conv length_lit list.size(3) list.distinct(1) lit_simps(2))
  have "dropWhile (\<lambda>c. c = BLANK) (ind @ temp_name n @ BLANK # v) = temp_name n @ BLANK # v"
    using assms by (auto simp: temp_name_def)
  then have "assigned_name (ind @ temp_name n @ BLANK # v) = [takeWhile (\<lambda>x. x \<noteq> BLANK) (temp_name n @ BLANK # v)]"
    unfolding assigned_name_def by (simp add: temp_name_def)
  then show ?thesis using v by (simp add: takeWhile_temp)
qed

definition no_assignment :: "rstring \<Rightarrow> bool" where
  "no_assignment l \<longleftrightarrow> (case dropWhile (\<lambda>c. c = BLANK) l of c # u \<Rightarrow> c \<noteq> PERCENT | [] \<Rightarrow> True)"

lemma dropWhile_butlast:
  "dropWhile P (butlast l) = [] \<or> (\<exists>c u v. dropWhile P l = c # u \<and> dropWhile P (butlast l) = c # v)"
  by (induction l) auto

lemma assigned_name_none:
  assumes "no_assignment l"
  shows "assigned_name (strip_cr l) = []"
  using assms dropWhile_butlast [of "\<lambda>c. c = BLANK" l]
  by (auto simp: no_assignment_def assigned_name_def strip_cr_def split: list.splits)

section \<open>The invariant\<close>

definition ssa :: "emitter \<Rightarrow> bool" where
  "ssa s \<longleftrightarrow> whole_lines (ir s) \<and> distinct (assigned (ir s)) \<and> (\<forall>m. temp_name m \<in> set (assigned (ir s)) \<longrightarrow> m < temp_count s)"

lemma ssa_new: "ssa emitter_new"
  by (simp add: ssa_def emitter_new_def whole_lines_def assigned_def)

lemma ssa_cong: "ssa s \<Longrightarrow> ir s' = ir s \<Longrightarrow> temp_count s \<le> temp_count s' \<Longrightarrow> ssa s'"
  by (auto simp: ssa_def)

lemma temp_ssa: "ssa s \<Longrightarrow> ssa (s\<lparr>temp_count := temp_count s + 1\<rparr>)"
  by (erule ssa_cong) simp_all

lemma emit_line_ir: "ir (emit_line ps s) = ir s @ concat ps @ [LF]" "temp_count (emit_line ps s) = temp_count s"
  by (simp_all add: emit_line_def)

lemma whole_lines_snoc [simp]: "whole_lines (t @ l @ [LF])"
  by (simp add: whole_lines_def)

text \<open>A line that assigns nothing, and one that assigns a temporary that is not yet assigned\<close>

lemma plain_line_ssa: "ssa s \<Longrightarrow> one_line (concat ps) \<Longrightarrow> no_assignment (concat ps) \<Longrightarrow> ssa (emit_line ps s)"
  using assigned_snoc [of "ir s" "concat ps"] by (simp add: ssa_def emit_line_ir assigned_name_none)

lemma assigning_line_ssa:
  assumes "ssa s" "n < temp_count s" "temp_name n \<notin> set (assigned (ir s))" "one_line u" "ind = [] \<or> ind = indent"
  shows "ssa (emit_line [ind, temp_name n, lit '' = '', u] s)"
proof -
  have "one_line (ind @ temp_name n @ lit '' = '' @ u)" using assms(4,5) by auto
  then have "assigned (ir s @ (ind @ temp_name n @ lit '' = '' @ u) @ [LF]) = assigned (ir s) @ [temp_name n]"
    using assms(1) by (simp only: assigned_snoc assigned_name_temp [OF assms(5)] ssa_def)
  then show ?thesis using assms by (auto simp: ssa_def emit_line_ir whole_lines_def)
qed

lemma emit_line_concat: "emit_line (a # b # c # ps) s = emit_line [a, b, c, concat ps] s"
  by (simp add: emit_line_def)

named_theorems ssa_intros \<open>an operation of the emitter keeps the invariant\<close>

lemma fresh_unassigned: "ssa s \<Longrightarrow> temp_name (temp_count s) \<notin> set (assigned (ir s))"
  by (auto simp: ssa_def)

lemma assign_ssa [simp]:
  assumes "ssa s" "\<forall>p \<in> set ps. one_line p" "ind = [] \<or> ind = indent"
  shows "ssa (snd (assign ind ps s))"
proof -
  have u: "one_line (concat ps)" using assms(2) by (auto simp: one_line_def)
  have "ssa (emit_line [ind, temp_name (temp_count s), lit '' = '', concat ps] (s\<lparr>temp_count := temp_count s + 1\<rparr>))"
    using temp_ssa [OF assms(1)] fresh_unassigned [OF assms(1)] u assms(3) by (intro assigning_line_ssa) simp_all
  then show ?thesis by (simp add: assign_def temp_def emit_line_concat [of _ _ _ ps])
qed

lemma assign_name [simp]: "one_line (fst (assign ind ps s))"
  by (simp add: assign_def temp_def)

lemma temp_simps [simp]: "ssa s \<Longrightarrow> ssa (snd (temp s))" "one_line (fst (temp s))"
  using temp_ssa by (simp_all add: temp_def)

lemma new_bb_ssa [simp]: "ssa s \<Longrightarrow> ssa (snd (new_bb n s))"
  using temp_ssa by (simp add: new_bb_def)

lemma intern_ssa [simp]: "ssa s \<Longrightarrow> ssa (snd (intern_string p t s))"
  by (erule ssa_cong) (simp_all add: intern_string_def Let_def)

lemma intern_name: "one_line p \<Longrightarrow> one_line (fst (intern_string p t s))"
  by (simp add: intern_string_def Let_def)

lemma const_ptr_line: "one_line l \<Longrightarrow> one_line (const_ptr l t)"
  by (simp add: const_ptr_def Let_def)

lemma make_string_const_ssa [simp]: "ssa s \<Longrightarrow> ssa (snd (make_string_const t s))" "one_line (fst (make_string_const t s))"
  by (simp_all add: make_string_const_def case_prod_beta const_ptr_line intern_name)

text \<open>The conversions, each with the line it may write\<close>

lemmas conversions = coerce_map_value_def emit_map_key_def array_slot_to_typed_def typed_to_array_slot_def coerce_to_i64_def
  coerce_to_slot_def emit_i1_def emit_array_len_def emit_array_data_def

lemma conversion_ssa:
  assumes "ssa s" "one_line v" "one_line t" "one_line u"
  shows "ssa (snd (coerce_map_value v m s))" "ssa (snd (emit_map_key v t s))" "ssa (snd (array_slot_to_typed v t b s))"
    "ssa (snd (typed_to_array_slot v t s))" "ssa (snd (coerce_to_i64 v t s))" "ssa (snd (coerce_to_slot v t u s))"
    "ssa (snd (emit_i1 v t s))" "ssa (snd (emit_array_len v s))" "ssa (snd (emit_array_data v s))"
  using assms by (simp_all add: conversions Let_def case_prod_beta split: option.split)

lemma coerce_to_slot_name: "one_line v \<Longrightarrow> one_line (fst (coerce_to_slot v t u s))"
  by (simp add: coerce_to_slot_def coerce_to_i64_def)

lemma ret_default_ssa: "ssa s \<Longrightarrow> one_line t \<Longrightarrow> ssa (emit_ret_default t s)"
  by (simp add: emit_ret_default_def plain_line_ssa no_assignment_def)

text \<open>A temporary that is taken first and assigned later\<close>

definition unassigned :: "rstring \<Rightarrow> emitter \<Rightarrow> bool" where
  "unassigned c s \<longleftrightarrow> (\<exists>n. c = temp_name n \<and> n < temp_count s \<and> c \<notin> set (assigned (ir s)))"

lemma unassigned_temp: "ssa s \<Longrightarrow> unassigned (fst (temp s)) (snd (temp s))"
  using fresh_unassigned by (auto simp: unassigned_def temp_def)

lemma line_assigns:
  assumes "ssa s" "unassigned c s" "one_line u"
  shows "ssa (emit_line [c, lit '' = '' @ u] s)"
    and "assigned (ir (emit_line [c, lit '' = '' @ u] s)) = assigned (ir s) @ [c]"
proof -
  obtain n where n: "c = temp_name n" "n < temp_count s" "temp_name n \<notin> set (assigned (ir s))"
    using assms(2) by (auto simp: unassigned_def)
  have e: "emit_line [c, lit '' = '' @ u] s = emit_line [[], temp_name n, lit '' = '', u] s" by (simp add: emit_line_def n)
  then show "ssa (emit_line [c, lit '' = '' @ u] s)" using assigning_line_ssa [OF assms(1) n(2,3) assms(3)] by simp
  have "one_line ([] @ temp_name n @ lit '' = '' @ u)" using assms(3) by simp
  moreover have "whole_lines (ir s)" using assms(1) by (simp add: ssa_def)
  ultimately show "assigned (ir (emit_line [c, lit '' = '' @ u] s)) = assigned (ir s) @ [c]"
    using assigned_snoc [of "ir s" "[] @ temp_name n @ lit '' = '' @ u"] assigned_name_temp [of "[]" n u] by (simp add: emit_line_ir n)
qed

lemma unassigned_line:
  assumes "ssa s" "unassigned c s" "unassigned d s" "c \<noteq> d" "one_line u"
  shows "unassigned c (emit_line [d, lit '' = '' @ u] s)"
  using assms line_assigns(2) [OF assms(1,3,5)] by (auto simp: unassigned_def emit_line_ir)

lemma unassigned_assign:
  assumes "ssa s" "unassigned c s" "\<forall>p \<in> set ps. one_line p" "ind = [] \<or> ind = indent"
  shows "unassigned c (snd (assign ind ps s))"
proof -
  let ?s = "s\<lparr>temp_count := temp_count s + 1\<rparr>" and ?n = "temp_count s"
  have w: "whole_lines (ir s)" using assms(1) by (simp add: ssa_def)
  have "one_line (concat ps)" using assms(3) by (auto simp: one_line_def)
  then have o: "one_line (ind @ temp_name ?n @ lit '' = '' @ concat ps)" using assms(4) by auto
  have "assigned (ir (snd (assign ind ps s))) = assigned (ir s) @ [temp_name ?n]"
    using assigned_snoc [OF w o] assigned_name_temp [OF assms(4), of ?n "concat ps"] by (simp add: assign_def temp_def emit_line_ir)
  then show ?thesis using assms(2) by (auto simp: unassigned_def assign_def temp_def emit_line_ir)
qed

text \<open>The same with the parts of the line as they are written\<close>

lemma parts_assign:
  assumes "take 3 (concat ps) = lit '' = ''"
  shows "emit_line (c # ps) s = emit_line [c, lit '' = '' @ drop 3 (concat ps)] s"
proof -
  have "concat ps = lit '' = '' @ drop 3 (concat ps)" using assms by (metis append_take_drop_id)
  then show ?thesis unfolding emit_line_def by simp
qed

lemma one_line_drop: "one_line t \<Longrightarrow> one_line (drop n t)"
  unfolding one_line_def by (meson in_set_dropD)

lemma line_ssa:
  assumes "ssa s" "unassigned c s" "take 3 (concat ps) = lit '' = ''" "one_line (concat ps)"
  shows "ssa (emit_line (c # ps) s)"
  unfolding parts_assign [OF assms(3)] using assms(1,2) one_line_drop [OF assms(4)] by (rule line_assigns)

lemma line_unassigned:
  assumes "ssa s" "unassigned c s" "unassigned d s" "c \<noteq> d" "take 3 (concat ps) = lit '' = ''" "one_line (concat ps)"
  shows "unassigned c (emit_line (d # ps) s)"
  unfolding parts_assign [OF assms(5)] using assms(1-4) one_line_drop [OF assms(6)] by (rule unassigned_line)

lemma checked_idiv_ssa:
  assumes "ssa s" "unassigned c s" "one_line t" "one_line l" "one_line r"
  shows "ssa (emit_checked_idiv c t l r is_rem s)"
  using assms by (simp add: emit_checked_idiv_def Let_def case_prod_beta line_ssa unassigned_assign)

lemma unassigned_cong: "unassigned c s \<Longrightarrow> ir s' = ir s \<Longrightarrow> temp_count s \<le> temp_count s' \<Longrightarrow> unassigned c s'"
  by (auto simp: unassigned_def)

lemma histogram_ssa:
  assumes "ssa s" "one_line start"
  shows "ssa (emit_histogram_record label start s)"
proof -
  define s1 s2 s3 e d p where "s1 = snd (temp s)" and "s2 = snd (temp s1)" and "s3 = snd (make_string_const label s2)"
    and "e = fst (temp s)" and "d = fst (temp s1)" and "p = fst (make_string_const label s2)"
  note defs = s1_def s2_def s3_def e_def d_def p_def
  have s: "ssa s1" "ssa s2" "ssa s3" using assms(1) by (simp_all add: defs)
  have 3: "ir s3 = ir s2" "temp_count s3 = temp_count s2"
    by (simp_all add: defs make_string_const_def intern_string_def Let_def case_prod_beta)
  have d: "unassigned d s3" unfolding d_def using unassigned_temp [OF s(1)] 3 by (auto simp: unassigned_def s2_def)
  have "unassigned e s1" using unassigned_temp [OF assms(1)] by (simp add: defs)
  then have e: "unassigned e s3" using 3 by (auto simp: unassigned_def s2_def temp_def)
  have ed: "d \<noteq> e" by (simp add: defs temp_def)
  have o: "one_line p" "one_line e" "one_line d" by (simp_all add: defs)
  let ?a = "emit_line [e, lit '' = call i64 @tinox_clock_nanos()''] s3"
  let ?b = "emit_line [d, lit '' = sub i64 '', e, lit '', '', start] ?a"
  have "ssa ?a" by (rule line_ssa) (use s(3) e in simp_all)
  moreover have "unassigned d ?a" by (rule line_unassigned) (use s(3) e d ed in simp_all)
  ultimately have "ssa ?b" by (rule line_ssa) (use o assms(2) in simp_all)
  then have "ssa (emit_line [lit ''call void @tinox_histogram_record(i8* '', p, lit '', i64 '', d, lit '')''] ?b)"
    by (rule plain_line_ssa) (use o in \<open>simp_all add: no_assignment_def\<close>)
  then show ?thesis by (simp add: emit_histogram_record_def case_prod_beta defs)
qed

lemma literal_ssa: "ssa s \<Longrightarrow> ssa (snd (gen_literal l s))"
  by (cases l) (simp_all add: gen_literal_def Let_def case_prod_beta const_ptr_line intern_name)

lemma field_store_ssa:
  assumes "ssa s" "one_line v" "one_line vt" "one_line obj" "one_line n" "\<And>m l. struct_field_llvm_types t n = Some m \<Longrightarrow> m f = Some l \<Longrightarrow> one_line l"
    and "try_typed_field_store t (Some n) obj f sp v vt s = Inr (b, s')"
  shows "ssa s'"
proof -
  have o: "one_line (slot_llvm_ty (case Option.bind (struct_field_llvm_types t n) (\<lambda>m. m f) of Some l \<Rightarrow> l | None \<Rightarrow> lit ''i64''))"
    using assms(6) by (auto simp: slot_llvm_ty_def split: option.split bind_split)
  show ?thesis using assms(1-5,7) o
    by (auto simp: try_typed_field_store_def Let_def case_prod_beta coerce_to_slot_name conversion_ssa no_assignment_def
        intro!: plain_line_ssa split: if_splits sum.splits)
qed

section \<open>Steps of the emitter\<close>

text \<open>
  What the rest of the code generator does with the emitter: it calls these operations, assigns new temporaries, and writes lines that
  assign nothing (labels, branches, stores, results). The texts that it passes are names, types and operands, which have no line break.
\<close>

inductive emission :: "emitter \<Rightarrow> emitter \<Rightarrow> bool" where
  label: "emission s (snd (new_bb n s))"
| unused: "emission s (snd (temp s))"
| fresh: "\<forall>p \<in> set ps. one_line p \<Longrightarrow> ind = [] \<or> ind = indent \<Longrightarrow> emission s (snd (assign ind ps s))"
| line: "one_line (concat ps) \<Longrightarrow> no_assignment (concat ps) \<Longrightarrow> emission s (emit_line ps s)"
| const: "emission s (snd (make_string_const t s))"
| histogram: "one_line start \<Longrightarrow> emission s (emit_histogram_record label start s)"
| from_map: "one_line v \<Longrightarrow> emission s (snd (coerce_map_value v m s))"
| map_key: "one_line v \<Longrightarrow> one_line t \<Longrightarrow> emission s (snd (emit_map_key v t s))"
| from_slot: "one_line v \<Longrightarrow> one_line t \<Longrightarrow> emission s (snd (array_slot_to_typed v t b s))"
| to_slot: "one_line v \<Longrightarrow> one_line t \<Longrightarrow> emission s (snd (typed_to_array_slot v t s))"
| to_i64: "one_line v \<Longrightarrow> one_line t \<Longrightarrow> emission s (snd (coerce_to_i64 v t s))"
| to_field: "one_line v \<Longrightarrow> one_line t \<Longrightarrow> one_line u \<Longrightarrow> emission s (snd (coerce_to_slot v t u s))"
| to_bool: "one_line v \<Longrightarrow> one_line t \<Longrightarrow> emission s (snd (emit_i1 v t s))"
| division: "one_line t \<Longrightarrow> one_line l \<Longrightarrow> one_line r \<Longrightarrow> emission s (emit_checked_idiv (fst (temp s)) t l r b (snd (temp s)))"
| array_len: "one_line h \<Longrightarrow> emission s (snd (emit_array_len h s))"
| array_data: "one_line h \<Longrightarrow> emission s (snd (emit_array_data h s))"
| result: "one_line t \<Longrightarrow> emission s (emit_ret_default t s)"
| literal: "emission s (snd (gen_literal l s))"

lemma emission_ssa: "emission s s' \<Longrightarrow> ssa s \<Longrightarrow> ssa s'"
  by (induction rule: emission.induct)
    (simp_all add: plain_line_ssa histogram_ssa conversion_ssa checked_idiv_ssa unassigned_temp ret_default_ssa literal_ssa)

lemma emissions_ssa: "emission\<^sup>*\<^sup>* s s' \<Longrightarrow> ssa s \<Longrightarrow> ssa s'"
  by (induction rule: rtranclp_induct) (auto intro: emission_ssa)



end
