(* ===== verification/Tinox_Codegen_Slots.thy ===== *)
theory Tinox_Codegen_Slots
  imports Tinox_Codegen_Ssa
begin

text \<open>
  Values in the slots of arrays, which are 64 bits wide whatever they hold. The conversions to a slot and back are
  executed by an interpreter of the cast instructions of LLVM that they emit, which also checks the types of the operands: a value
  comes back from a slot as it was put there, and the instructions are well typed.
\<close>

section \<open>Instructions\<close>

type_synonym llvm_value = "rstring \<times> 64 word"
type_synonym llvm_env = "rstring \<rightharpoonup> llvm_value"

text \<open>The bits of a type that casts know; a value of a narrow type is kept in the low bits.\<close>

definition llvm_bits :: "rstring \<Rightarrow> nat option" where
  "llvm_bits t = (if t = lit ''double'' \<or> any_pointer t then Some 64 else int_bit_width t)"

definition exec_cast :: "rstring \<Rightarrow> rstring \<Rightarrow> rstring \<Rightarrow> 64 word \<Rightarrow> 64 word option" where
  "exec_cast op a b w =
     (case (int_bit_width a, int_bit_width b) of
        (Some m, Some n) \<Rightarrow>
          if op = lit ''zext'' \<and> m < n then Some w
          else if op = lit ''sext'' \<and> m < n then Some (take_bit n (signed_take_bit (m - 1) w))
          else if op = lit ''trunc'' \<and> n < m then Some (take_bit n w)
          else None
      | (Some m, None) \<Rightarrow>
          if m = 64 \<and> (op = lit ''inttoptr'' \<and> any_pointer b \<or> op = lit ''bitcast'' \<and> b = lit ''double'') then Some w else None
      | (None, Some n) \<Rightarrow>
          if n = 64 \<and> (op = lit ''ptrtoint'' \<and> any_pointer a \<or> op = lit ''bitcast'' \<and> a = lit ''double'') then Some w else None
      | (None, None) \<Rightarrow> if op = lit ''bitcast'' \<and> any_pointer a \<and> any_pointer b then Some w else None)"

fun split_words :: "rstring \<Rightarrow> rstring list" where
  "split_words [] = [[]]"
| "split_words (c # cs) = (if c = BLANK then [] # split_words cs
     else case split_words cs of w # ws \<Rightarrow> (c # w) # ws | [] \<Rightarrow> [[c]])"

text \<open>A line \<open>d = op a v to b\<close>; a value that is not there, or has another type, is an error.\<close>

fun exec_words :: "rstring list \<Rightarrow> llvm_env \<Rightarrow> llvm_env option" where
  "exec_words [d, eq, op, a, v, to, b] env =
     (case env v of None \<Rightarrow> None
      | Some (t, w) \<Rightarrow> if t \<noteq> a then None else map_option (\<lambda>x. env(d \<mapsto> (b, x))) (exec_cast op a b w))"
| "exec_words _ env = None"

primrec exec_lines :: "rstring list \<Rightarrow> llvm_env \<Rightarrow> llvm_env option" where
  "exec_lines [] env = Some env"
| "exec_lines (l # ls) env = Option.bind (exec_words (split_words l) env) (exec_lines ls)"

definition exec_code :: "rstring \<Rightarrow> llvm_env \<Rightarrow> llvm_env option" where
  "exec_code t = exec_lines (lines t)"

section \<open>Lines of code\<close>

text \<open>A text without blanks and line ends\<close>

definition word_text :: "rstring \<Rightarrow> bool" where
  "word_text t \<longleftrightarrow> t \<noteq> [] \<and> set t \<inter> {BLANK, LF, CR} = {}"

lemma split_words_word: "BLANK \<notin> set a \<Longrightarrow> split_words (a @ BLANK # t) = a # split_words t"
  by (induction a) auto

lemma split_words_last: "BLANK \<notin> set a \<Longrightarrow> split_words a = [a]"
  by (induction a) auto

lemma word_text_blank: "word_text a \<Longrightarrow> BLANK \<notin> set a"
  by (auto simp: word_text_def)

lemma word_text_temp [simp]: "word_text (temp_name n)"
  by (auto simp: word_text_def temp_name_def dest!: show_nat_digits)

definition cast_line :: "rstring \<Rightarrow> rstring \<Rightarrow> rstring \<Rightarrow> rstring \<Rightarrow> rstring \<Rightarrow> rstring" where
  "cast_line d op a v b = d @ lit '' = '' @ op @ BLANK # a @ BLANK # v @ lit '' to '' @ b"

lemma split_cast_line:
  assumes "word_text d" "word_text op" "word_text a" "word_text v" "word_text b"
  shows "split_words (cast_line d op a v b) = [d, lit ''='', op, a, v, lit ''to'', b]"
proof -
  note w = assms [THEN word_text_blank]
  have e: "cast_line d op a v b = d @ BLANK # lit ''='' @ BLANK # op @ BLANK # a @ BLANK # v @ BLANK # lit ''to'' @ BLANK # b"
    by (simp add: cast_line_def)
  have l: "BLANK \<notin> set (lit ''='')" "BLANK \<notin> set (lit ''to'')" by simp_all
  show ?thesis unfolding e by (simp only: split_words_word [OF w(1)] split_words_word [OF w(2)] split_words_word [OF w(3)]
      split_words_word [OF w(4)] split_words_last [OF w(5)] split_words_word [OF l(1)] split_words_word [OF l(2)])
qed

lemma cast_line_ends:
  assumes "word_text d" "word_text op" "word_text a" "word_text v" "word_text b"
  shows "LF \<notin> set (cast_line d op a v b)" "strip_cr (cast_line d op a v b) = cast_line d op a v b"
proof -
  show "LF \<notin> set (cast_line d op a v b)" using assms by (auto simp: cast_line_def word_text_def)
  have "b \<noteq> []" "last b \<noteq> CR" using assms(5) last_in_set [of b] unfolding word_text_def by (metis IntI insertCI empty_iff)+
  then have "last (cast_line d op a v b) \<noteq> CR" by (simp add: cast_line_def)
  then show "strip_cr (cast_line d op a v b) = cast_line d op a v b" by (simp add: strip_cr_def)
qed

text \<open>What a conversion emits: nothing, and the name is that of the value, or one cast into a new temporary\<close>

definition cast_code :: "emitter \<Rightarrow> rstring \<Rightarrow> rstring \<Rightarrow> rstring \<Rightarrow> rstring \<Rightarrow> rstring \<times> emitter" where
  "cast_code s op a v b = (temp_name (temp_count s),
     s\<lparr>ir := ir s @ cast_line (temp_name (temp_count s)) op a v b @ [LF], temp_count := temp_count s + 1\<rparr>)"

lemma assign_cast: "concat ps = op @ BLANK # a @ BLANK # v @ lit '' to '' @ b \<Longrightarrow> assign [] ps s = cast_code s op a v b"
  by (simp add: assign_def temp_def emit_line_def cast_code_def cast_line_def)

section \<open>Into a slot and back\<close>

text \<open>The types whose values are converted\<close>

definition slot_type :: "rstring \<Rightarrow> bool" where
  "slot_type t \<longleftrightarrow> t = lit ''i64'' \<or> t = lit ''double'' \<or> t = lit ''i1'' \<or> small_int t \<or> any_pointer t"

definition into_slot_op :: "rstring \<Rightarrow> rstring" where
  "into_slot_op t = (if t = lit ''double'' then lit ''bitcast'' else if t = lit ''i1'' then lit ''zext''
     else if any_pointer t then lit ''ptrtoint'' else lit ''sext'')"

definition from_slot_op :: "rstring \<Rightarrow> rstring" where
  "from_slot_op t = (if t = lit ''double'' then lit ''bitcast'' else if any_pointer t then lit ''inttoptr'' else lit ''trunc'')"

lemma into_slot: "slot_type t \<Longrightarrow> t \<noteq> lit ''i64'' \<Longrightarrow> typed_to_array_slot v t s = cast_code s (into_slot_op t) t v (lit ''i64'')"
  by (auto simp: typed_to_array_slot_def into_slot_op_def slot_type_def small_int_def starts_with_def intro!: assign_cast)

lemma from_slot: "slot_type t \<Longrightarrow> t \<noteq> lit ''i64'' \<Longrightarrow> array_slot_to_typed v t True s = cast_code s (from_slot_op t) (lit ''i64'') v t"
  by (auto simp: array_slot_to_typed_def from_slot_op_def slot_type_def small_int_def starts_with_def intro!: assign_cast)

lemma slot_ops: "word_text (into_slot_op t)" "word_text (from_slot_op t)" "word_text (lit ''i64'')"
  by (auto simp: into_slot_op_def from_slot_op_def word_text_def)

text \<open>A value of a narrow type has only its low bits.\<close>

definition fits :: "rstring \<Rightarrow> 64 word \<Rightarrow> bool" where
  "fits t w \<longleftrightarrow> (\<forall>n. llvm_bits t = Some n \<longrightarrow> take_bit n w = w)"

lemma widths: "int_bit_width (lit ''i64'') = Some 64" "int_bit_width (lit ''i1'') = Some 1" "int_bit_width (lit ''double'') = None"
    "\<not> any_pointer (lit ''i1'')"
  by (simp_all add: int_bit_width_def any_pointer_def is_pointer_def)

lemma small_int_width:
  assumes "small_int t"
  shows "\<exists>k. int_bit_width t = Some k \<and> 1 < k \<and> k < 64 \<and> t \<noteq> lit ''double'' \<and> t \<noteq> lit ''i1'' \<and> \<not> any_pointer t"
proof -
  have "t = lit ''i8'' \<or> t = lit ''i16'' \<or> t = lit ''i32''" using assms by (simp add: small_int_def del: lit_simps)
  then show ?thesis by (elim disjE) (simp_all add: int_bit_width_def any_pointer_def is_pointer_def)
qed

lemma pointer_widths:
  assumes "any_pointer t"
  shows "int_bit_width t = None \<and> t \<noteq> lit ''double'' \<and> t \<noteq> lit ''i1''"
proof -
  have "\<not> any_pointer (lit x)" if "x \<in> {''i1'', ''i8'', ''i16'', ''i32'', ''i64'', ''double''}" for x
    using that by (elim insertE) (simp_all add: any_pointer_def is_pointer_def)
  then have "t \<noteq> lit ''i1''" "t \<noteq> lit ''i8''" "t \<noteq> lit ''i16''" "t \<noteq> lit ''i32''" "t \<noteq> lit ''i64''" "t \<noteq> lit ''double''"
    using assms by blast+
  then show ?thesis by (simp add: int_bit_width_def del: lit_simps)
qed

lemma sign_extension_back: "0 < n \<Longrightarrow> n < 64 \<Longrightarrow> take_bit n (take_bit 64 (signed_take_bit (n - 1) (w :: 64 word))) = take_bit n w"
  by (simp add: take_bit_take_bit min_def take_bit_signed_take_bit)

lemma casts_back:
  assumes "slot_type t" "t \<noteq> lit ''i64''" "fits t w"
  obtains x where "exec_cast (into_slot_op t) t (lit ''i64'') w = Some x" "exec_cast (from_slot_op t) (lit ''i64'') t x = Some w"
proof -
  consider (double) "t = lit ''double''" | (bool) "t = lit ''i1''" | (pointer) "any_pointer t" | (small) "small_int t"
    using assms(1,2) by (auto simp: slot_type_def)
  then show thesis
  proof cases
    case double
    then show thesis using that [of w] by (simp add: exec_cast_def into_slot_op_def from_slot_op_def widths del: lit_simps)
  next
    case bool
    then have "take_bit 1 w = w" using assms(3) by (simp add: fits_def llvm_bits_def widths del: lit_simps)
    then show thesis using bool that [of w] by (simp add: exec_cast_def into_slot_op_def from_slot_op_def widths del: lit_simps)
  next
    case pointer
    then show thesis using that [of w] pointer_widths [OF pointer]
      by (simp add: exec_cast_def into_slot_op_def from_slot_op_def widths del: lit_simps)
  next
    case small
    then obtain k where k: "int_bit_width t = Some k" "1 < k" "k < 64" "t \<noteq> lit ''double''" "t \<noteq> lit ''i1''" "\<not> any_pointer t"
      using small_int_width by blast
    have "take_bit k w = w" using assms(3) k by (simp add: fits_def llvm_bits_def del: lit_simps)
    then show thesis using that [of "take_bit 64 (signed_take_bit (k - 1) w)"] k sign_extension_back [of k w]
      by (simp add: exec_cast_def into_slot_op_def from_slot_op_def widths del: lit_simps)
  qed
qed

text \<open>Execution of the two casts\<close>

lemma exec_cast_line:
  assumes "word_text d" "word_text op" "word_text a" "word_text v" "word_text b"
    and "env v = Some (a, w)" "exec_cast op a b w = Some x"
  shows "exec_words (split_words (cast_line d op a v b)) env = Some (env(d \<mapsto> (b, x)))"
  using assms(6,7) by (simp add: split_cast_line [OF assms(1-5)])

lemma exec_two_lines:
  assumes "LF \<notin> set k" "strip_cr k = k" "LF \<notin> set l" "strip_cr l = l"
    and "exec_words (split_words k) env = Some e1" "exec_words (split_words l) e1 = Some e2"
  shows "exec_code (k @ LF # l @ [LF]) env = Some e2"
  using assms by (simp add: exec_code_def lines_line [where u = "l @ [LF]"] lines_line [where u = "[]"])

definition through_slot :: "rstring \<Rightarrow> rstring \<Rightarrow> emitter \<Rightarrow> rstring \<times> rstring \<times> rstring" where
  "through_slot v t s = (let (x, s1) = typed_to_array_slot v t s; (y, s2) = array_slot_to_typed x t True s1
     in (x, y, drop (length (ir s)) (ir s2)))"

text \<open>
  C32. A value that is converted to the slot of an array and back, by the code that is emitted for it, is the same value again, and what is put into the
  slot has the type of slots. The value may be an integer of any width, a boolean, a double or a pointer; doubles have to be read as such.
\<close>

theorem slot_roundtrip:
  assumes "slot_type t" "word_text t" "word_text v" "fits t w" "env v = Some (t, w)" "\<forall>n. v \<noteq> temp_name n"
  shows "case through_slot v t s of (x, y, code) \<Rightarrow>
    (\<exists>env'. exec_code code env = Some env' \<and> env' y = Some (t, w) \<and> (\<exists>u. env' x = Some (lit ''i64'', u)))"
proof (cases "t = lit ''i64''")
  case True
  then show ?thesis using assms(5)
    by (simp add: through_slot_def typed_to_array_slot_def array_slot_to_typed_def exec_code_def)
next
  case False
  let ?i = "lit ''i64''" and ?x = "temp_name (temp_count s)" and ?y = "temp_name (temp_count s + 1)"
  let ?k = "cast_line ?x (into_slot_op t) t v ?i" and ?l = "cast_line ?y (from_slot_op t) ?i ?x t"
  obtain u where u: "exec_cast (into_slot_op t) t ?i w = Some u" "exec_cast (from_slot_op t) ?i t u = Some w"
    using casts_back [OF assms(1) False assms(4)] .
  note k = word_text_temp slot_ops(1) assms(2,3) slot_ops(3) and l = word_text_temp slot_ops(2) slot_ops(3) word_text_temp assms(2)
  have t: "through_slot v t s = (?x, ?y, ?k @ LF # ?l @ [LF])"
    by (simp add: through_slot_def into_slot [OF assms(1) False] from_slot [OF assms(1) False] cast_code_def)
  have e: "exec_words (split_words ?k) env = Some (env(?x \<mapsto> (?i, u)))"
    by (rule exec_cast_line [where w = w]) (use k assms(5) u in auto)
  have f: "exec_words (split_words ?l) (env(?x \<mapsto> (?i, u))) = Some (env(?x \<mapsto> (?i, u), ?y \<mapsto> (t, w)))"
    by (rule exec_cast_line [where w = u]) (use l u in auto)
  have "exec_code (?k @ LF # ?l @ [LF]) env = Some (env(?x \<mapsto> (?i, u), ?y \<mapsto> (t, w)))"
    using cast_line_ends [OF k] cast_line_ends [OF l] e f by (intro exec_two_lines) 
  then show ?thesis unfolding t by simp
qed

theorem slot_roundtrip_witness:
  "case through_slot (lit ''%b'') (lit ''i8'') emitter_new of (x, y, code) \<Rightarrow>
    (\<exists>env'. exec_code code [lit ''%b'' \<mapsto> (lit ''i8'', 200)] = Some env' \<and> env' y = Some (lit ''i8'', 200) \<and> (\<exists>u. env' x = Some (lit ''i64'', u)))"
proof (rule slot_roundtrip)
  show "\<forall>n. lit ''%b'' \<noteq> temp_name n" by (simp add: temp_name_def)
  show "fits (lit ''i8'') 200" by (simp add: fits_def llvm_bits_def int_bit_width_def any_pointer_def is_pointer_def take_bit_eq_mod)
qed (simp_all add: slot_type_def small_int_def word_text_def)

text \<open>A double that is read from a slot as a number is converted instead; a \<^verbatim>\<open>float\<close> is put into a slot as it is.\<close>

lemma double_read_as_number:
  "array_slot_to_typed v (lit ''double'') False s = assign [] [lit ''sitofp i64 '', v, lit '' to double''] s"
  by (simp add: array_slot_to_typed_def)

lemma float_not_converted: "typed_to_array_slot v (lit ''float'') s = (v, s)" "coerce_to_slot v (lit ''float'') (lit ''i64'') s = (v, s)"
  by (simp_all add: typed_to_array_slot_def coerce_to_slot_def coerce_to_i64_def any_pointer_def is_pointer_def small_int_def starts_with_def)

end
