(* ===== verification/Tinox_Codegen_Debug.thy ===== *)
theory Tinox_Codegen_Debug
  imports Tinox_Codegen_Ssa Tinox_Pm_Install
begin

text \<open>
  String constants and debug information in \<^verbatim>\<open>src/crates/tinox-codegen/src/codegen.rs\<close>: the escapes of texts in LLVM
  code, the numbered metadata nodes and the locations that calls get. Shown are: an escaped text is read back
  as it was, in the number of bytes announced; every metadata node is defined once, under the number it is
  referred to by, whatever functions are emitted; the pass that adds locations changes nothing but lines of calls.
\<close>

section \<open>Escapes\<close>

text \<open>\<^verbatim>\<open>{:02X}\<close> of a number below 256\<close>

definition hex_upper :: "nat \<Rightarrow> rchar" where
  "hex_upper d = (if d < 10 then cc (CHR ''0'') + d else cc (CHR ''A'') + (d - 10))"

definition hex_byte :: "nat \<Rightarrow> rstring" where
  "hex_byte n = [hex_upper (n div 16), hex_upper (n mod 16)]"

abbreviation BACKSLASH :: rchar where "BACKSLASH \<equiv> 0x5C"
abbreviation QUOTE :: rchar where "QUOTE \<equiv> 0x22"

definition escape_llvm_char :: "rchar \<Rightarrow> rstring" where
  "escape_llvm_char c =
     (if c = QUOTE then [BACKSLASH, cc (CHR ''2''), cc (CHR ''2'')]
      else if c = BACKSLASH then [BACKSLASH, cc (CHR ''5''), cc (CHR ''C'')]
      else if c = LF then [BACKSLASH, cc (CHR ''0''), cc (CHR ''A'')]
      else if c = CR then [BACKSLASH, cc (CHR ''0''), cc (CHR ''D'')]
      else if c = 9 then [BACKSLASH, cc (CHR ''0''), cc (CHR ''9'')]
      else if c < 0x20 then BACKSLASH # hex_byte c
      else [c])"

definition escape_llvm_string :: "rstring \<Rightarrow> rstring" where
  "escape_llvm_string t = concat (map escape_llvm_char t)"

definition escape_di_char :: "rchar \<Rightarrow> rstring" where
  "escape_di_char c =
     (if c = QUOTE then [BACKSLASH, cc (CHR ''2''), cc (CHR ''2'')]
      else if c = BACKSLASH then [BACKSLASH, cc (CHR ''5''), cc (CHR ''C'')]
      else [c])"

definition escape_di_string :: "rstring \<Rightarrow> rstring" where
  "escape_di_string t = concat (map escape_di_char t)"

text \<open>
  How LLVM reads the text between the quotes: a backslash and two hexadecimal digits stand for the byte, two backslashes for one,
  and a quote ends the text. Result are the characters and what follows the quote.
\<close>

fun llvm_unescape :: "rstring \<Rightarrow> (rstring \<times> rstring) option" where
  "llvm_unescape [] = None"
| "llvm_unescape (c # t) =
     (if c = QUOTE then Some ([], t)
      else if c = BACKSLASH then
        (case t of
           a # b # u \<Rightarrow>
             if a = BACKSLASH then map_option (map_prod ((#) BACKSLASH) id) (llvm_unescape (b # u))
             else (case (digit_val 16 a, digit_val 16 b) of
                (Some x, Some y) \<Rightarrow> map_option (map_prod ((#) (16 * x + y)) id) (llvm_unescape u)
              | _ \<Rightarrow> map_option (map_prod ((#) BACKSLASH) id) (llvm_unescape t))
         | _ \<Rightarrow> map_option (map_prod ((#) BACKSLASH) id) (llvm_unescape t))
      else map_option (map_prod ((#) c) id) (llvm_unescape t))"

text \<open>The constants at the end of the module, in the order of the table (in the source that of a hash map)\<close>

definition string_constant :: "rstring \<times> rstring \<Rightarrow> rstring list" where
  "string_constant e = [lit ''@'', fst e, lit '' = private constant ['', show_nat (length (utf8_bytes (snd e)) + 1), lit '' x i8] c'',
     [QUOTE], escape_llvm_string (snd e), [BACKSLASH], lit ''00'', [QUOTE]]"

definition emit_string_constants :: "emitter \<Rightarrow> emitter" where
  "emit_string_constants s = fold (\<lambda>e. emit_line (string_constant e)) (str_consts s) s"

lemma hex_upper_val: "d < 16 \<Longrightarrow> digit_val 16 (hex_upper d) = Some d"
  by (auto simp: hex_upper_def digit_val_def char_class_defs)

lemma unescape_char: "llvm_unescape (escape_llvm_char c @ t) = map_option (map_prod ((#) c) id) (llvm_unescape t)"
proof -
  have d: "digit_val 16 50 = Some 2" "digit_val 16 53 = Some 5" "digit_val 16 67 = Some 12" "digit_val 16 48 = Some 0"
    "digit_val 16 65 = Some 10" "digit_val 16 68 = Some 13" "digit_val 16 57 = Some 9"
    by (simp_all add: digit_val_def char_class_defs)
  have h: "c < 32 \<Longrightarrow> digit_val 16 (hex_upper (c div 16)) = Some (c div 16)" "digit_val 16 (hex_upper (c mod 16)) = Some (c mod 16)"
    by (intro hex_upper_val; simp)+
  have "c < 32 \<Longrightarrow> hex_upper (c div 16) \<noteq> BACKSLASH" by (simp add: hex_upper_def)
  then show ?thesis by (simp add: escape_llvm_char_def hex_byte_def d h)
qed

lemma unescape_escape: "llvm_unescape (escape_llvm_string t @ u) = map_option (map_prod ((@) t) id) (llvm_unescape u)"
proof (induction t)
  case (Cons c t)
  then show ?case by (cases "llvm_unescape u") (simp_all add: escape_llvm_string_def unescape_char prod.map_comp comp_def)
qed (cases "llvm_unescape u"; simp add: escape_llvm_string_def map_prod.identity)

text \<open>
  C33. A string constant is read by LLVM as the text it was made from with a zero byte at the end, whatever characters the text has: nothing in the
  text ends the constant early, and it has as many bytes as the type of the constant says.
\<close>

theorem string_constant_roundtrip:
  "\<exists>body. concat (string_constant (l, t))
       = lit ''@'' @ l @ lit '' = private constant ['' @ show_nat (length (utf8_bytes (t @ [0]))) @ lit '' x i8] c'' @ [QUOTE] @ body
     \<and> llvm_unescape body = Some (t @ [0], [])"
proof (intro exI conjI)
  let ?body = "escape_llvm_string t @ [BACKSLASH] @ lit ''00'' @ [QUOTE]"
  have "llvm_unescape ([BACKSLASH] @ lit ''00'' @ [QUOTE]) = Some ([0], [])"
    by (simp add: digit_val_def char_class_defs)
  then show "llvm_unescape ?body = Some (t @ [0], [])"
    by (simp only: unescape_escape option.map map_prod_simp id_apply)
  have "length (utf8_bytes (t @ [0])) = length (utf8_bytes t) + 1" by (simp add: utf8_bytes_def utf8_char_def)
  then show "concat (string_constant (l, t))
      = lit ''@'' @ l @ lit '' = private constant ['' @ show_nat (length (utf8_bytes (t @ [0]))) @ lit '' x i8] c'' @ [QUOTE] @ ?body"
    by (simp add: string_constant_def)
qed

section \<open>Debug information\<close>

text \<open>The numbers of nodes are natural numbers: they would not fit into an \<^verbatim>\<open>u32\<close> only with four billion nodes.\<close>

record debug_info =
  di_file_ids :: "rstring \<rightharpoonup> nat"
  di_metadata :: "rstring list"
  di_next_id :: nat
  di_compile_unit :: "nat option"
  di_subroutine_type :: "nat option"

definition debug_new :: debug_info where
  "debug_new = \<lparr>di_file_ids = Map.empty, di_metadata = [], di_next_id = 0, di_compile_unit = None, di_subroutine_type = None\<rparr>"

text \<open>A new node, with its text under its number\<close>

definition node_line :: "nat \<Rightarrow> rstring \<Rightarrow> rstring" where
  "node_line i t = lit ''!'' @ show_nat i @ lit '' = '' @ t"

definition push_node :: "rstring \<Rightarrow> debug_info \<Rightarrow> nat \<times> debug_info" where
  "push_node t d = (di_next_id d, d\<lparr>di_next_id := di_next_id d + 1, di_metadata := di_metadata d @ [node_line (di_next_id d) t]\<rparr>)"

text \<open>Name and directory of a file, whose path is absolute\<close>

definition di_directory :: "rstring \<Rightarrow> rstring" where
  "di_directory p = (let d = parent_dir p in if d = [] \<and> p \<noteq> [] \<and> hd p = SLASH then [SLASH] else d)"

definition file_node :: "rstring \<Rightarrow> rstring" where
  "file_node f = lit ''!DIFile(filename: '' @ [QUOTE] @ escape_di_string (file_name f) @ [QUOTE] @ lit '', directory: ''
     @ [QUOTE] @ escape_di_string (di_directory f) @ [QUOTE] @ lit '')''"

definition unit_node :: "nat \<Rightarrow> rstring" where
  "unit_node fi = lit ''distinct !DICompileUnit(language: DW_LANG_C99, file: !'' @ show_nat fi @ lit '', producer: ''
     @ [QUOTE] @ lit ''tinox'' @ [QUOTE] @ lit '', isOptimized: false, runtimeVersion: 0, emissionKind: FullDebug)''"

definition subroutine_node :: rstring where
  "subroutine_node = lit ''!DISubroutineType(types: !{null})''"

definition subprogram_node :: "rstring \<Rightarrow> nat \<Rightarrow> u32 \<Rightarrow> nat \<Rightarrow> nat \<Rightarrow> rstring" where
  "subprogram_node name fi line ty cu = lit ''distinct !DISubprogram(name: '' @ [QUOTE] @ escape_di_string name @ [QUOTE]
     @ lit '', scope: !'' @ show_nat fi @ lit '', file: !'' @ show_nat fi @ lit '', line: '' @ show_nat (unat line) @ lit '', type: !''
     @ show_nat ty @ lit '', spFlags: DISPFlagDefinition, unit: !'' @ show_nat cu @ lit '')''"

definition location_node :: "u32 \<Rightarrow> nat \<Rightarrow> rstring" where
  "location_node line sp = lit ''!DILocation(line: '' @ show_nat (unat line) @ lit '', column: 1, scope: !'' @ show_nat sp @ lit '')''"

definition di_file_id :: "rstring \<Rightarrow> debug_info \<Rightarrow> nat \<times> debug_info" where
  "di_file_id f d = (case di_file_ids d f of
       Some i \<Rightarrow> (i, d)
     | None \<Rightarrow> let (i, d1) = push_node (file_node f) d in (i, d1\<lparr>di_file_ids := (di_file_ids d1)(f \<mapsto> i)\<rparr>))"

definition di_compile_unit_id :: "rstring \<Rightarrow> debug_info \<Rightarrow> nat \<times> debug_info" where
  "di_compile_unit_id f d = (case di_compile_unit d of
       Some i \<Rightarrow> (i, d)
     | None \<Rightarrow> let (fi, d1) = di_file_id f d; (i, d2) = push_node (unit_node fi) d1 in (i, d2\<lparr>di_compile_unit := Some i\<rparr>))"

definition di_subroutine_type_id :: "debug_info \<Rightarrow> nat \<times> debug_info" where
  "di_subroutine_type_id d = (case di_subroutine_type d of
       Some i \<Rightarrow> (i, d)
     | None \<Rightarrow> let (i, d1) = push_node subroutine_node d in (i, d1\<lparr>di_subroutine_type := Some i\<rparr>))"

definition dbg_suffix :: "rstring \<Rightarrow> rstring \<Rightarrow> u32 \<Rightarrow> debug_info \<Rightarrow> (rstring \<times> rstring) \<times> debug_info" where
  "dbg_suffix name f line d =
     (if f = unknown_file then (([], []), d)
      else let (cu, d1) = di_compile_unit_id f d; (fi, d2) = di_file_id f d1; (ty, d3) = di_subroutine_type_id d2;
        (sp, d4) = push_node (subprogram_node name fi line ty cu) d3; (loc, d5) = push_node (location_node line sp) d4
      in ((lit '' !dbg !'' @ show_nat sp, lit '', !dbg !'' @ show_nat loc), d5))"

text \<open>The metadata at the end of the module\<close>

definition debug_section :: "debug_info \<Rightarrow> rstring" where
  "debug_section d = (case di_compile_unit d of None \<Rightarrow> []
     | Some cu \<Rightarrow>
         [LF] @ lit ''!llvm.dbg.cu = !{!'' @ show_nat cu @ lit ''}'' @ [LF]
         @ lit ''!llvm.module.flags = !{!'' @ show_nat (di_next_id d) @ lit ''}'' @ [LF]
         @ concat (map (\<lambda>m. m @ [LF]) (di_metadata d))
         @ node_line (di_next_id d) (lit ''!{i32 2, !'' @ [QUOTE] @ lit ''Debug Info Version'' @ [QUOTE] @ lit '', i32 3}'') @ [LF])"

text \<open>The pass that gives the calls in a body their location\<close>

definition is_call_line :: "rstring \<Rightarrow> bool" where
  "is_call_line l = (let t = trim_start l in starts_with (lit ''call '') t \<or> after_first (lit '' = call '') t \<noteq> None)"

definition attach_line :: "rstring \<Rightarrow> rstring \<Rightarrow> rstring" where
  "attach_line sfx l = (if is_call_line l then l @ sfx else l)"

function attach_lines :: "rstring \<Rightarrow> rstring \<Rightarrow> rstring" where
  "attach_lines sfx t = (if t = [] then []
     else let l = takeWhile (\<lambda>x. x \<noteq> LF) t in
       case dropWhile (\<lambda>x. x \<noteq> LF) t of [] \<Rightarrow> attach_line sfx l | _ # u \<Rightarrow> attach_line sfx l @ LF # attach_lines sfx u)"
  by pat_completeness auto
termination
proof (relation "measure (length \<circ> snd)", goal_cases)
  case (2 sfx t l c u)
  then show ?case using length_dropWhile_le [of "\<lambda>x. x \<noteq> LF" t] by simp
qed simp

declare attach_lines.simps [simp del]

definition attach_call_dbg :: "nat \<Rightarrow> rstring \<Rightarrow> rstring \<Rightarrow> rstring" where
  "attach_call_dbg body_start sfx t =
     (if sfx = [] then t else take body_start t @ attach_lines sfx (drop body_start t))"

section \<open>Metadata nodes\<close>

definition node_at :: "debug_info \<Rightarrow> nat \<Rightarrow> rstring \<Rightarrow> bool" where
  "node_at d i t \<longleftrightarrow> i < length (di_metadata d) \<and> di_metadata d ! i = node_line i t"

definition debug_ok :: "debug_info \<Rightarrow> bool" where
  "debug_ok d \<longleftrightarrow> di_next_id d = length (di_metadata d) \<and> (\<forall>i < length (di_metadata d). \<exists>t. node_at d i t)
     \<and> (\<forall>f i. di_file_ids d f = Some i \<longrightarrow> node_at d i (file_node f))
     \<and> (\<forall>i. di_compile_unit d = Some i \<longrightarrow> (\<exists>fi f. node_at d i (unit_node fi) \<and> node_at d fi (file_node f)))
     \<and> (\<forall>i. di_subroutine_type d = Some i \<longrightarrow> node_at d i subroutine_node)"

text \<open>Nodes are only added.\<close>

definition extends :: "debug_info \<Rightarrow> debug_info \<Rightarrow> bool" where
  "extends d d' \<longleftrightarrow> (\<exists>ms. di_metadata d' = di_metadata d @ ms)"

lemma extends_refl [simp]: "extends d d" and extends_trans: "extends d e \<Longrightarrow> extends e f \<Longrightarrow> extends d f"
  by (auto simp: extends_def)

lemma node_at_extends: "node_at d i t \<Longrightarrow> extends d d' \<Longrightarrow> node_at d' i t"
  by (auto simp: node_at_def extends_def nth_append)

lemma push_node:
  assumes "debug_ok d" "push_node t d = (i, d')"
  shows "debug_ok d'" "extends d d'" "node_at d' i t" "di_file_ids d' = di_file_ids d" "di_compile_unit d' = di_compile_unit d"
    "di_subroutine_type d' = di_subroutine_type d"
proof -
  have d': "d' = d\<lparr>di_next_id := di_next_id d + 1, di_metadata := di_metadata d @ [node_line (di_next_id d) t]\<rparr>" and i: "i = di_next_id d"
    using assms(2) by (auto simp: push_node_def)
  show e: "extends d d'" by (simp add: extends_def d')
  have n: "di_next_id d = length (di_metadata d)" using assms(1) by (simp add: debug_ok_def)
  show t: "node_at d' i t" by (simp add: node_at_def d' i n)
  have k: "\<exists>u. node_at d' k u" if "k < length (di_metadata d')" for k
  proof (cases "k = i")
    case False
    then have "k < length (di_metadata d)" using that by (simp add: d' i n)
    then show ?thesis using assms(1) node_at_extends [OF _ e] unfolding debug_ok_def by blast
  qed (use t in blast)
  show "di_file_ids d' = di_file_ids d" "di_compile_unit d' = di_compile_unit d" "di_subroutine_type d' = di_subroutine_type d"
    by (simp_all add: d')
  then show "debug_ok d'" using assms(1) k n node_at_extends [OF _ e] unfolding debug_ok_def by (auto simp: d') blast+
qed

lemma di_file_id:
  assumes "debug_ok d" "di_file_id f d = (i, d')"
  shows "debug_ok d' \<and> extends d d' \<and> node_at d' i (file_node f) \<and> di_compile_unit d' = di_compile_unit d"
proof (cases "di_file_ids d f")
  case None
  then obtain d1 where p: "push_node (file_node f) d = (i, d1)" and d': "d' = d1\<lparr>di_file_ids := (di_file_ids d1)(f \<mapsto> i)\<rparr>"
    using assms(2) by (auto simp: di_file_id_def split: prod.splits)
  note q = push_node [OF assms(1) p]
  have "node_at d' k u = node_at d1 k u" for k u by (simp add: node_at_def d')
  then show ?thesis using q by (auto simp: debug_ok_def extends_def d')
qed (use assms in \<open>auto simp: di_file_id_def debug_ok_def\<close>)

lemma di_compile_unit_id:
  assumes "debug_ok d" "di_compile_unit_id f d = (i, d')"
  shows "debug_ok d' \<and> extends d d' \<and> (\<exists>fi g. node_at d' i (unit_node fi) \<and> node_at d' fi (file_node g))"
proof (cases "di_compile_unit d")
  case None
  then obtain fi d1 d2 where f: "di_file_id f d = (fi, d1)" and p: "push_node (unit_node fi) d1 = (i, d2)"
    and d': "d' = d2\<lparr>di_compile_unit := Some i\<rparr>" using assms(2) by (auto simp: di_compile_unit_id_def split: prod.splits)
  note 1 = di_file_id [OF assms(1) f]
  then have ok: "debug_ok d1" by simp
  note 2 = push_node [OF ok p]
  have n: "node_at d' k u = node_at d2 k u" for k u by (simp add: node_at_def d')
  have fi: "node_at d2 fi (file_node f)" using 1 2(2) node_at_extends by blast
  have "debug_ok d'" using 2 fi n by (auto simp: debug_ok_def d')
  moreover have "extends d d'" using 1 2(2) extends_trans [of d d1 d2] by (auto simp: extends_def d')
  ultimately show ?thesis using n fi 2(3) by blast
qed (use assms in \<open>auto simp: di_compile_unit_id_def debug_ok_def\<close>)

lemma di_subroutine_type_id:
  assumes "debug_ok d" "di_subroutine_type_id d = (i, d')"
  shows "debug_ok d' \<and> extends d d' \<and> node_at d' i subroutine_node"
proof (cases "di_subroutine_type d")
  case None
  then obtain d1 where p: "push_node subroutine_node d = (i, d1)" and d': "d' = d1\<lparr>di_subroutine_type := Some i\<rparr>"
    using assms(2) by (auto simp: di_subroutine_type_id_def split: prod.splits)
  note q = push_node [OF assms(1) p]
  have "node_at d' k u = node_at d1 k u" for k u by (simp add: node_at_def d')
  then show ?thesis using q by (auto simp: debug_ok_def extends_def d')
qed (use assms in \<open>auto simp: di_subroutine_type_id_def debug_ok_def\<close>)

text \<open>What a function gets: a node for itself and one for its location, and they refer to nodes that are there\<close>

definition described :: "debug_info \<Rightarrow> rstring \<Rightarrow> rstring \<Rightarrow> u32 \<Rightarrow> rstring \<times> rstring \<Rightarrow> bool" where
  "described d name f line r \<longleftrightarrow> (\<exists>sp loc fi ty cu ui g. r = (lit '' !dbg !'' @ show_nat sp, lit '', !dbg !'' @ show_nat loc)
     \<and> node_at d sp (subprogram_node name fi line ty cu) \<and> node_at d loc (location_node line sp) \<and> node_at d fi (file_node f)
     \<and> node_at d ty subroutine_node \<and> node_at d cu (unit_node ui) \<and> node_at d ui (file_node g))"

lemma dbg_suffix:
  assumes "debug_ok d" "f \<noteq> unknown_file"
  shows "debug_ok (snd (dbg_suffix name f line d)) \<and> extends d (snd (dbg_suffix name f line d))
    \<and> described (snd (dbg_suffix name f line d)) name f line (fst (dbg_suffix name f line d))"
proof -
  obtain cu d1 fi d2 ty d3 sp d4 loc d5 where s: "di_compile_unit_id f d = (cu, d1)" "di_file_id f d1 = (fi, d2)"
    "di_subroutine_type_id d2 = (ty, d3)" "push_node (subprogram_node name fi line ty cu) d3 = (sp, d4)"
    "push_node (location_node line sp) d4 = (loc, d5)" by (metis surj_pair)
  obtain ui g where 1: "debug_ok d1" "extends d d1" "node_at d1 cu (unit_node ui)" "node_at d1 ui (file_node g)"
    using di_compile_unit_id [OF assms(1) s(1)] by blast
  have 2: "debug_ok d2" "extends d1 d2" "node_at d2 fi (file_node f)" using di_file_id [OF 1(1) s(2)] by blast+
  have 3: "debug_ok d3" "extends d2 d3" "node_at d3 ty subroutine_node" using di_subroutine_type_id [OF 2(1) s(3)] by blast+
  note 4 = push_node [OF 3(1) s(4)] and 5 = push_node [OF push_node(1) [OF 3(1) s(4)] s(5)]
  have e: "extends d1 d5" "extends d2 d5" "extends d3 d5" "extends d4 d5" using 2 3 4 5 extends_trans by blast+
  have "described d5 name f line (lit '' !dbg !'' @ show_nat sp, lit '', !dbg !'' @ show_nat loc)"
    unfolding described_def using 1 2 3 4 5 e node_at_extends by blast
  moreover have "dbg_suffix name f line d = ((lit '' !dbg !'' @ show_nat sp, lit '', !dbg !'' @ show_nat loc), d5)"
    using assms(2) s by (simp add: dbg_suffix_def)
  ultimately show ?thesis using 1(2) e(1) 5(1) extends_trans by auto
qed

text \<open>Functions are emitted one after the other: their name, file and line.\<close>

definition describe_step :: "rstring \<times> rstring \<times> u32 \<Rightarrow> debug_info \<Rightarrow> debug_info" where
  "describe_step x d = (case x of (n, f, l) \<Rightarrow> snd (dbg_suffix n f l d))"

definition describe :: "(rstring \<times> rstring \<times> u32) list \<Rightarrow> debug_info" where
  "describe fs = fold describe_step fs debug_new"

lemma debug_new_ok: "debug_ok debug_new"
  by (simp add: debug_ok_def debug_new_def node_at_def)

lemma describe_step_ok: "debug_ok d \<Longrightarrow> debug_ok (describe_step x d) \<and> extends d (describe_step x d)"
  using dbg_suffix by (cases x; cases "fst (snd x) = unknown_file") (auto simp: describe_step_def dbg_suffix_def [of _ unknown_file])

lemma describe_steps_ok: "debug_ok d \<Longrightarrow> debug_ok (fold describe_step fs d) \<and> extends d (fold describe_step fs d)"
proof (induction fs arbitrary: d)
  case (Cons x fs)
  then have "debug_ok (describe_step x d) \<and> extends d (describe_step x d)" using describe_step_ok by blast
  then show ?case using Cons.IH [of "describe_step x d"] extends_trans by auto
qed simp

lemma described_extends: "described d n f l r \<Longrightarrow> extends d d' \<Longrightarrow> described d' n f l r"
proof -
  assume "described d n f l r" and e: "extends d d'"
  then obtain sp loc fi ty cu ui g where "r = (lit '' !dbg !'' @ show_nat sp, lit '', !dbg !'' @ show_nat loc)"
    "node_at d sp (subprogram_node n fi l ty cu)" "node_at d loc (location_node l sp)" "node_at d fi (file_node f)"
    "node_at d ty subroutine_node" "node_at d cu (unit_node ui)" "node_at d ui (file_node g)" unfolding described_def by blast
  moreover note this(2-7) [THEN node_at_extends, OF e]
  ultimately show ?thesis unfolding described_def by blast
qed

text \<open>
  C34. The debug information of a module is complete and consistent, whatever functions come before and after: each function with a known file
  is attached to a node with its own name, file and line, all nodes that this one refers to are there and of the right kind, and every node stands under its number.
\<close>

theorem functions_described:
  assumes "f \<noteq> unknown_file"
  shows "described (describe (xs @ (n, f, l) # ys)) n f l (fst (dbg_suffix n f l (describe xs)))
    \<and> (\<forall>i < length (di_metadata (describe (xs @ (n, f, l) # ys))).
         \<exists>t. di_metadata (describe (xs @ (n, f, l) # ys)) ! i = lit ''!'' @ show_nat i @ lit '' = '' @ t)"
proof -
  let ?d = "describe xs" and ?s = "snd (dbg_suffix n f l (describe xs))"
  have d: "debug_ok ?d" unfolding describe_def using describe_steps_ok [OF debug_new_ok] by blast
  have s: "debug_ok ?s" "described ?s n f l (fst (dbg_suffix n f l ?d))" using dbg_suffix [OF d assms] by blast+
  have e: "describe (xs @ (n, f, l) # ys) = fold describe_step ys ?s" by (simp add: describe_def describe_step_def)
  show ?thesis using describe_steps_ok [OF s(1), of ys] described_extends [OF s(2)]
    unfolding e debug_ok_def node_at_def node_line_def by blast
qed

theorem functions_described_witness:
  "described (describe [(lit ''main'', lit ''/a/m.tnx'', 3), (lit ''f'', unknown_file, 1), (lit ''C.g'', lit ''/a/c.tnx'', 7)]) (lit ''C.g'') (lit ''/a/c.tnx'') 7
     (lit '' !dbg !6'', lit '', !dbg !7'')"
proof -
  let ?xs = "[(lit ''main'', lit ''/a/m.tnx'', 3), (lit ''f'', unknown_file, 1)]"
  have "fst (dbg_suffix (lit ''C.g'') (lit ''/a/c.tnx'') 7 (describe ?xs)) = (lit '' !dbg !6'', lit '', !dbg !7'')"
    by code_simp
  then show ?thesis using functions_described [of "lit ''/a/c.tnx''" ?xs "lit ''C.g''" 7 "[]"]
    by (simp add: unknown_file_def del: lit_simps)
qed

section \<open>Locations of calls\<close>

lemma attach_lines_line: "LF \<notin> set l \<Longrightarrow> attach_lines sfx (l @ LF # u) = attach_line sfx l @ LF # attach_lines sfx u"
  using takeWhile_LF [of l u] by (subst attach_lines.simps) (simp add: Let_def)

text \<open>Line by line: the lines of calls get the location, the others stay.\<close>

lemma attach_whole_lines:
  "(\<And>l. l \<in> set ls \<Longrightarrow> LF \<notin> set l) \<Longrightarrow>
    attach_lines sfx (concat (map (\<lambda>l. l @ [LF]) ls)) = concat (map (\<lambda>l. attach_line sfx l @ [LF]) ls)"
  by (induction ls) (simp_all add: attach_lines_line attach_lines.simps [of sfx "[]"])

end
