(* ===== verification/Tinox_Codegen_Module.thy ===== *)
theory Tinox_Codegen_Module
  imports Tinox_Codegen_Debug Tinox_Codegen_Dispatch "HOL-Library.List_Lexorder"
begin

text \<open>
  What the code generator (\<^verbatim>\<open>src/crates/tinox-codegen/src/codegen.rs\<close>) writes around bodies: the struct types, the
  tables of methods and the calls through them, constructors of immutables, wrappers of spawned functions, and the text of the
  module. Shown are: a call through an interface reaches the method of that name of the class, if the interface is the first of the class
  (and may reach another one if it is not).
\<close>

section \<open>Struct types\<close>

definition has_double_underscore :: "rstring \<Rightarrow> bool" where
  "has_double_underscore n \<longleftrightarrow> after_first (lit ''__'') n \<noteq> None"

definition emit_struct_type :: "ident \<Rightarrow> cg_tables \<times> emitter \<Rightarrow> cg_tables \<times> emitter" where
  "emit_struct_type n ts = (case ts of (t, s) \<Rightarrow>
     if generic_class_defs t n \<noteq> None \<or> has_double_underscore n then (t, s)
     else case register_named_struct_type n t of
         (None, t1) \<Rightarrow> (t1, s)
       | (Some def, t1) \<Rightarrow> (t1, emit_line [def] s))"

definition spec_types_mark :: rstring where
  "spec_types_mark = lit ''; @@SPEC_TYPES@@''"

text \<open>The names are the keys of the table of layouts, in any order.\<close>

definition emit_struct_type_defs :: "ident list \<Rightarrow> cg_tables \<Rightarrow> emitter \<Rightarrow> cg_tables \<times> emitter" where
  "emit_struct_type_defs names t s =
     (let (t1, s1) = fold emit_struct_type (sort names) (t, s) in (t1, emit_line [] (emit_line [spec_types_mark] s1)))"

section \<open>Tables of methods\<close>

definition vtable_entry :: "ident \<Rightarrow> ident \<Rightarrow> rstring" where
  "vtable_entry c m = lit ''i64 ptrtoint (i64* (i64*)* @'' @ impl_key c m @ lit '' to i64)''"

definition emit_vtable :: "cg_tables \<Rightarrow> class_def \<Rightarrow> emitter \<Rightarrow> emitter" where
  "emit_vtable t c s =
     (let ms = vtable_methods t (cl_implements c) in
      if ms = [] then s
      else emit_line [lit ''@'', cl_name c, lit ''_vtable = global ['', show_nat (length ms), lit '' x i64] ['',
             join_with (lit '', '') (map (vtable_entry (cl_name c)) ms), lit '']''] s)"

definition emit_vtable_globals :: "source_file \<Rightarrow> cg_tables \<Rightarrow> emitter \<Rightarrow> emitter" where
  "emit_vtable_globals sf t = fold (emit_vtable t) (filter (\<lambda>c. cl_implements c \<noteq> []) (all_classes sf))"

text \<open>The function that a slot of the table of a class holds\<close>

definition vtable_slot :: "cg_tables \<Rightarrow> class_def \<Rightarrow> nat \<Rightarrow> rstring option" where
  "vtable_slot t c i = (let ms = vtable_methods t (cl_implements c) in if i < length ms then Some (impl_key (cl_name c) (ms ! i)) else None)"

section \<open>Calls through an interface\<close>

definition dispatch_slot :: "cg_tables \<Rightarrow> ident \<Rightarrow> ident \<Rightarrow> nat" where
  "dispatch_slot t i m = (case Option.bind (vtable_layouts t i) (slot_of m) of Some k \<Rightarrow> k | None \<Rightarrow> 0)"

definition typed_arg :: "rstring \<times> rstring \<Rightarrow> rstring" where
  "typed_arg a = snd a @ lit '' '' @ fst a"

definition interface_ret_type :: "cg_tables \<Rightarrow> ident \<Rightarrow> ident \<Rightarrow> rstring" where
  "interface_ret_type t i m = (case Option.bind (interface_method_ret_types t i) (\<lambda>r. r m) of
     Some ty \<Rightarrow> type_to_llvm_inst (known_enum_types t) ty | None \<Rightarrow> lit ''i64'')"

text \<open>The receiver and the arguments are evaluated: their names and types.\<close>

definition emit_interface_call :: "cg_tables \<Rightarrow> ident \<Rightarrow> ident \<Rightarrow> rstring \<times> rstring \<Rightarrow> (rstring \<times> rstring) list \<Rightarrow> emitter
    \<Rightarrow> (rstring \<times> rstring) \<times> emitter" where
  "emit_interface_call t i m recv args s0 =
     (let (obj, s1) = (if snd recv = lit ''i64'' then assign [] [lit ''inttoptr i64 '', fst recv, lit '' to i64*''] s0 else (fst recv, s0));
          full = join_with (lit '', '') ((lit ''i64* '' @ obj) # map typed_arg args);
          (vp, s2) = assign [] [lit ''getelementptr i64, ptr '', obj, lit '', i64 0''] s1;
          (v, s3) = assign [] [lit ''load i64, i64* '', vp] s2;
          (p, s4) = assign [] [lit ''inttoptr i64 '', v, lit '' to i64*''] s3;
          (sp, s5) = assign [] [lit ''getelementptr i64, ptr '', p, lit '', i64 '', show_nat (dispatch_slot t i m)] s4;
          (f, s6) = assign [] [lit ''load i64, i64* '', sp] s5;
          ret = interface_ret_type t i m;
          fty = ret @ lit '' ('' @ join_with (lit '', '') (lit ''i64*'' # map snd args) @ lit '')*'';
          (cf, s7) = assign [] [lit ''inttoptr i64 '', f, lit '' to '', fty] s6
      in if ret = lit ''void'' then ((lit ''0'', lit ''void''), emit_line [lit ''call void '', cf, lit ''('', full, lit '')''] s7)
         else let (r, s8) = assign [] [lit ''call '', ret, lit '' '', cf, lit ''('', full, lit '')''] s7 in ((r, ret), s8))"

section \<open>Constructors of immutables\<close>

definition slot_conversion :: "rstring \<Rightarrow> ident \<Rightarrow> nat \<Rightarrow> rstring list list \<times> rstring" where
  "slot_conversion t n i =
     (let c = lit ''%fconv_'' @ show_nat i in
      if t = lit ''i8*'' then ([[indent, c, lit '' = ptrtoint i8* %'', n, lit '' to i64'']], c)
      else if t = lit ''i64*'' then ([[indent, c, lit '' = ptrtoint i64* %'', n, lit '' to i64'']], c)
      else if t = lit ''i1'' then ([[indent, c, lit '' = zext i1 %'', n, lit '' to i64'']], c)
      else if t = lit ''double'' then ([[indent, c, lit '' = bitcast double %'', n, lit '' to i64'']], c)
      else if t = lit ''float'' then
        ([[lit ''  %fconv_ext_'', show_nat i, lit '' = fpext float %'', n, lit '' to double''],
          [indent, c, lit '' = bitcast double %fconv_ext_'', show_nat i, lit '' to i64'']], c)
      else if t \<noteq> lit ''i64'' then ([[indent, c, lit '' = sext '', t, lit '' %'', n, lit '' to i64'']], c)
      else ([], lit ''%'' @ n))"

definition field_store :: "nat \<times> param \<Rightarrow> rstring list list" where
  "field_store x = (case x of (i, p) \<Rightarrow>
     let (ls, v) = slot_conversion (type_to_llvm (param_type p)) (param_name p) i
     in ls @ [[lit ''  %gep_'', show_nat i, lit '' = getelementptr i64, i64* %ptr, i64 '', show_nat i],
              [lit ''  store i64 '', v, lit '', i64* %gep_'', show_nat i]])"

definition emit_lines :: "rstring list list \<Rightarrow> emitter \<Rightarrow> emitter" where
  "emit_lines = fold emit_line"

definition emit_immutable_new :: "immutable_decl \<Rightarrow> emitter \<Rightarrow> emitter" where
  "emit_immutable_new u =
     (let fs = im_fields u in
      emit_lines ([[lit ''define i64* @'', im_name u, lit ''_new('',
            join_with (lit '', '') (map (\<lambda>p. type_to_llvm (param_type p) @ lit '' %'' @ param_name p) fs), lit '') {''],
          [lit ''entry.tnx:''],
          [lit ''  %raw = call i8* @tinox_alloc(i64 '', show_nat (length fs * 8), lit '')''],
          [lit ''  %ptr = bitcast i8* %raw to i64*'']]
        @ concat (map field_store (enumerate 0 fs))
        @ [[lit ''  ret i64* %ptr''], [lit ''}''], []]))"

section \<open>Wrappers of spawned functions\<close>

text \<open>Its temporaries are numbered from one, with a counter of its own.\<close>

definition wt :: "nat \<Rightarrow> rstring" where
  "wt n = lit ''%w'' @ show_nat n"

definition array_of :: "nat \<Rightarrow> rstring" where
  "array_of n = lit ''['' @ show_nat n @ lit '' x i64]''"

text \<open>One argument: the lines, its text in the call, and the counter\<close>

definition spawn_arg :: "nat \<Rightarrow> rstring \<Rightarrow> nat \<times> rstring \<Rightarrow> nat \<Rightarrow> (rstring list list \<times> rstring) \<times> nat" where
  "spawn_arg n ap x c = (case x of (i, t) \<Rightarrow>
     let slot = wt (c + 1); raw = wt (c + 2); x = wt (c + 3);
         ls = [[indent, slot, lit '' = getelementptr '', array_of n, lit '', '', array_of n, lit ''* '', ap, lit '', i64 0, i64 '', show_nat (i + 1)],
               [indent, raw, lit '' = load i64, i64* '', slot]]
     in if t = lit ''i64'' then ((ls, t @ lit '' '' @ raw), c + 2)
        else if t = lit ''double'' then ((ls @ [[indent, x, lit '' = bitcast i64 '', raw, lit '' to double'']], t @ lit '' '' @ x), c + 3)
        else if t = lit ''i1'' then ((ls @ [[indent, x, lit '' = trunc i64 '', raw, lit '' to i1'']], t @ lit '' '' @ x), c + 3)
        else if is_pointer t then ((ls @ [[indent, x, lit '' = inttoptr i64 '', raw, lit '' to '', t]], t @ lit '' '' @ x), c + 3)
        else ((ls, t @ lit '' '' @ raw), c + 2))"

fun spawn_args :: "nat \<Rightarrow> rstring \<Rightarrow> (nat \<times> rstring) list \<Rightarrow> nat \<Rightarrow> (rstring list list \<times> rstring list) \<times> nat" where
  "spawn_args n ap [] c = (([], []), c)"
| "spawn_args n ap (x # xs) c =
     (let ((ls, a), c1) = spawn_arg n ap x c; ((ms, as), c2) = spawn_args n ap xs c1 in ((ls @ ms, a # as), c2))"

definition spawn_result :: "rstring \<Rightarrow> rstring \<Rightarrow> rstring \<Rightarrow> nat \<Rightarrow> rstring list list" where
  "spawn_result ret f args c =
     (if ret = lit ''void'' then [[lit ''  call void '', f, lit ''('', args, lit '')''], [lit ''  ret i8* null'']]
      else let res = wt (c + 1); p = wt (c + 2); x = wt (c + 3) in
        [[indent, res, lit '' = call '', ret, lit '' '', f, lit ''('', args, lit '')'']]
        @ (if ret = lit ''i64'' then [[indent, p, lit '' = inttoptr i64 '', res, lit '' to i8*'']]
           else if ret = lit ''double'' then
             [[indent, x, lit '' = bitcast double '', res, lit '' to i64''], [indent, p, lit '' = inttoptr i64 '', x, lit '' to i8*'']]
           else if ret = lit ''i1'' then
             [[indent, x, lit '' = zext i1 '', res, lit '' to i64''], [indent, p, lit '' = inttoptr i64 '', x, lit '' to i8*'']]
           else if is_pointer ret then [[indent, p, lit '' = bitcast '', ret, lit '' '', res, lit '' to i8*'']]
           else [[indent, p, lit '' = inttoptr i64 '', res, lit '' to i8*'']])
        @ [[lit ''  ret i8* '', p]])"

definition spawn_wrapper :: "rstring \<Rightarrow> nat \<Rightarrow> rstring \<Rightarrow> rstring list \<Rightarrow> rstring list list" where
  "spawn_wrapper name n ret ts =
     (let ap = wt 1; slot = wt 2; fi = wt 3; f = wt 4; ((ls, as), c) = spawn_args n ap (enumerate 0 ts) 4 in
      [[lit ''define i8* @'', name, lit ''(i8* %raw) {''], [lit ''entry.tnx:''],
       [indent, ap, lit '' = bitcast i8* %raw to '', array_of n, lit ''*''],
       [indent, slot, lit '' = getelementptr '', array_of n, lit '', '', array_of n, lit ''* '', ap, lit '', i64 0, i64 0''],
       [indent, fi, lit '' = load i64, i64* '', slot],
       [indent, f, lit '' = inttoptr i64 '', fi, lit '' to '', ret, lit '' ('', join_with (lit '', '') ts, lit '')*'']]
      @ ls @ spawn_result ret f (join_with (lit '', '') as) c @ [[lit ''}''], []])"

definition emit_spawn_wrapper :: "rstring \<Rightarrow> nat \<Rightarrow> rstring \<Rightarrow> rstring list \<Rightarrow> emitter \<Rightarrow> emitter" where
  "emit_spawn_wrapper name n ret ts s = s\<lparr>lambda_ir := lambda_ir s @ ir (emit_lines (spawn_wrapper name n ret ts) emitter_new)\<rparr>"

section \<open>The module\<close>

text \<open>\<^verbatim>\<open>t.replacen(p, r, 1)\<close>\<close>

fun replace_first :: "rstring \<Rightarrow> rstring \<Rightarrow> rstring \<Rightarrow> rstring" where
  "replace_first p r t =
     (if starts_with p t then r @ drop (length p) t
      else case t of [] \<Rightarrow> [] | c # u \<Rightarrow> c # replace_first p r u)"

declare replace_first.simps [simp del]

definition into_ir :: "rstring \<Rightarrow> emitter \<Rightarrow> debug_info \<Rightarrow> rstring" where
  "into_ir spec_type_defs s d =
     replace_first spec_types_mark (trim_end_by is_whitespace spec_type_defs) (ir s) @ lambda_ir s @ debug_section d"

section \<open>Where a call through an interface arrives\<close>

lemma add_methods: "\<exists>zs. fold (\<lambda>m ms. if m \<in> set ms then ms else ms @ [m]) xs ms = ms @ zs"
proof (induction xs arbitrary: ms)
  case (Cons x xs)
  then show ?case using Cons.IH [of ms] Cons.IH [of "ms @ [x]"] by auto
qed simp

lemma add_distinct: "distinct (ms @ xs) \<Longrightarrow> fold (\<lambda>m ms. if m \<in> set ms then ms else ms @ [m]) xs ms = ms @ xs"
  by (induction xs arbitrary: ms) auto

lemma add_interfaces:
  "\<exists>zs. fold (\<lambda>i ms. case vtable_layouts t i of None \<Rightarrow> ms
     | Some xs \<Rightarrow> fold (\<lambda>m ms. if m \<in> set ms then ms else ms @ [m]) xs ms) is0 ms = ms @ zs"
proof (induction is0 arbitrary: ms)
  case (Cons i is0)
  let ?step = "\<lambda>ms. case vtable_layouts t i of None \<Rightarrow> ms | Some xs \<Rightarrow> fold (\<lambda>m ms. if m \<in> set ms then ms else ms @ [m]) xs ms"
  obtain ys where "?step ms = ms @ ys" using add_methods by (cases "vtable_layouts t i") auto
  then show ?case using Cons.IH [of "ms @ ys"] by auto
qed simp

lemma slot_of_nth: "m \<in> set ms \<Longrightarrow> \<exists>k < length ms. slot_of m ms = Some k \<and> ms ! k = m"
proof (induction ms)
  case (Cons x ms)
  show ?case
  proof (cases "x = m")
    case False
    then obtain k where "k < length ms" "slot_of m ms = Some k" "ms ! k = m" using Cons by auto
    then show ?thesis using False by (intro exI [of _ "Suc k"]) simp
  qed simp
qed simp

text \<open>
  C35. A method that is called through an interface is the method of that name of the class of the object, if the interface is the first one that the class
  implements and declares no method twice: the slot that the call looks up is the slot that holds this method.
\<close>

theorem interface_call_arrives:
  assumes "cl_implements c = i # others" "vtable_layouts t i = Some ms" "distinct ms" "m \<in> set ms"
  shows "vtable_slot t c (dispatch_slot t i m) = Some (impl_key (cl_name c) m)"
proof -
  obtain zs where v: "vtable_methods t (cl_implements c) = ms @ zs"
    using add_interfaces [of t others "ms"] add_distinct [of "[]" ms] assms(1-3) by (auto simp: vtable_methods_def)
  obtain k where "k < length ms" "slot_of m ms = Some k" "ms ! k = m" using slot_of_nth [OF assms(4)] by blast
  then show ?thesis using assms(2) by (simp add: vtable_slot_def v dispatch_slot_def nth_append)
qed

definition two_interfaces :: cg_tables where
  "two_interfaces = tables_new\<lparr>vtable_layouts := [lit ''Shape'' \<mapsto> [lit ''area'', lit ''name''], lit ''Show'' \<mapsto> [lit ''show'']]\<rparr>"

definition circle :: class_def where
  "circle = \<lparr>cl_name = lit ''Circle'', cl_type_params = [], cl_extends = None, cl_implements = [lit ''Shape'', lit ''Show''],
     cl_fields = [], cl_methods = [], cl_span = span_dummy, cl_doc = None, cl_annotations = []\<rparr>"

theorem interface_call_arrives_witness:
  "vtable_slot two_interfaces circle (dispatch_slot two_interfaces (lit ''Shape'') (lit ''name'')) = Some (lit ''Circle_name'')"
proof -
  have "vtable_slot two_interfaces circle (dispatch_slot two_interfaces (lit ''Shape'') (lit ''name''))
    = Some (impl_key (cl_name circle) (lit ''name''))"
    by (rule interface_call_arrives [of _ _ "[lit ''Show'']" _ "[lit ''area'', lit ''name'']"])
      (simp_all add: circle_def two_interfaces_def tables_new_def del: lit_simps)
  then show ?thesis by (simp add: circle_def impl_key_def)
qed

text \<open>For another interface of the class the slot may hold a method of the first one.\<close>

lemma second_interface_misses:
  "vtable_slot two_interfaces circle (dispatch_slot two_interfaces (lit ''Show'') (lit ''show'')) = Some (lit ''Circle_area'')"
  by (simp add: vtable_slot_def dispatch_slot_def vtable_methods_def two_interfaces_def tables_new_def circle_def impl_key_def)

text \<open>An argument of a spawned function that is an \<^verbatim>\<open>i32\<close> is passed as it was loaded, as an \<^verbatim>\<open>i64\<close>.\<close>

lemma spawned_small_int:
  "spawn_arg 2 ap (0, lit ''i32'') 4 = (([[indent, wt 5, lit '' = getelementptr '', array_of 2, lit '', '', array_of 2, lit ''* '', ap, lit '', i64 0, i64 '', show_nat 1],
     [indent, wt 6, lit '' = load i64, i64* '', wt 5]], lit ''i32 '' @ wt 6), 6)"
  by (simp add: spawn_arg_def Let_def is_pointer_def)

end
