(* ===== verification/Tinox_Codegen_Entry.thy ===== *)
theory Tinox_Codegen_Entry
  imports Tinox_Codegen_Module Tinox_Annotation_Process
begin

text \<open>
  The entry point of a program (\<^verbatim>\<open>src/crates/tinox-codegen/src/codegen.rs\<close>), the function \<^verbatim>\<open>tinox_main\<close>: it is a top-level
  \<^verbatim>\<open>main\<close>, or starts the servers that annotations ask for and the class \<^verbatim>\<open>Main\<close>, or parses the command line for a
  \<^verbatim>\<open>@Command\<close> class, or runs one test. Shown is which of them it is: at most one is emitted, and in which order of preference.
\<close>

record entry_state =
  has_main :: bool
  user_main_class :: bool
  test_entry :: "(ident \<times> ident) option"
  background_run_fns :: "rstring list"
  startup_endpoints :: "(rstring \<times> rstring) list"
  loaded_modules :: "rstring list"
  banner_enabled :: bool
  cli_entries :: "cli_command_info list"

definition entry_new :: entry_state where
  "entry_new = \<lparr>has_main = False, user_main_class = False, test_entry = None, background_run_fns = [], startup_endpoints = [],
     loaded_modules = [], banner_enabled = True, cli_entries = []\<rparr>"

definition lambda_line :: "rstring list \<Rightarrow> emitter \<Rightarrow> emitter" where
  "lambda_line ps s = s\<lparr>lambda_ir := lambda_ir s @ concat ps @ [LF]\<rparr>"

definition lambda_lines :: "rstring list list \<Rightarrow> emitter \<Rightarrow> emitter" where
  "lambda_lines = fold lambda_line"

definition emit_lambda_string_literal :: "rstring \<Rightarrow> emitter \<Rightarrow> rstring \<times> emitter" where
  "emit_lambda_string_literal t s =
     (let (n, s1) = intern_string (lit ''str'') t s; (p, s2) = temp s1
      in (p, lambda_line [indent, p, lit '' = '', const_ptr n t] s2))"

section \<open>The class \<^verbatim>\<open>Main\<close>\<close>

datatype entry_error = EE_Shape span "rstring list" | EE_Ambiguous span

definition entry_problems :: "method_def \<Rightarrow> rstring list" where
  "entry_problems m =
     (if me_static m then [] else [lit ''must be declared `fnc` (static), not `fn`''])
     @ (if me_params m = [] then [] else [lit ''must take no parameters, found '' @ show_nat (length (me_params m))])
     @ (if me_ret_type m = Ty_Int32 then [] else [lit ''must return Int32, found '' @ type_to_llvm (me_ret_type m)])"

definition emit_class_main_entry_point :: "source_file \<Rightarrow> entry_state \<Rightarrow> entry_error + entry_state" where
  "emit_class_main_entry_point sf e = (case find (\<lambda>c. cl_name c = lit ''Main'') (all_classes sf) of
       None \<Rightarrow> Inr e
     | Some c \<Rightarrow> (case find (\<lambda>m. me_name m = lit ''main'') (cl_methods c) of
         None \<Rightarrow> Inr e
       | Some m \<Rightarrow>
           if entry_problems m \<noteq> [] then Inl (EE_Shape (me_span m) (entry_problems m))
           else if has_main e then Inl (EE_Ambiguous (me_span m))
           else Inr (e\<lparr>user_main_class := True\<rparr>)))"

section \<open>Servers and the class \<^verbatim>\<open>Main\<close>\<close>

definition trampoline :: "nat \<Rightarrow> rstring" where
  "trampoline i = lit ''__tinox_trampoline_'' @ show_nat i"

definition trampoline_lines :: "nat \<times> rstring \<Rightarrow> rstring list list" where
  "trampoline_lines x = (case x of (i, f) \<Rightarrow>
     [[lit ''define i8* @'', trampoline i, lit ''(i8* %_unused) {''], [lit ''entry.tnx:''],
      [lit ''  %r = call i64 @'', f, lit ''()''], [lit ''  %rp = inttoptr i64 %r to i8*''], [lit ''  ret i8* %rp''], [lit ''}''], []])"

text \<open>\<^verbatim>\<open>{:<22}\<close>\<close>

definition pad_right :: "nat \<Rightarrow> rstring \<Rightarrow> rstring" where
  "pad_right n t = t @ replicate (n - length t) BLANK"

definition startup_banner :: "entry_state \<Rightarrow> rstring" where
  "startup_banner e =
     lit '' _____ _                 '' @ [LF] @ lit ''|_   _(_)_ __   _____  __'' @ [LF] @ lit ''  | | | | '' @ [39] @ lit ''_ '' @ [BACKSLASH]
     @ lit '' / _ '' @ [BACKSLASH] @ lit '' '' @ [BACKSLASH] @ lit ''/ /'' @ [LF] @ lit ''  | | | | | | | (_) >  < '' @ [LF]
     @ lit ''  |_| |_|_| |_|'' @ [BACKSLASH] @ lit ''___/_/'' @ [BACKSLASH] @ lit ''_'' @ [BACKSLASH, LF]
     @ (if loaded_modules e = [] then [] else lit ''Loaded tinox.core modules: '' @ join_with (lit '', '') (loaded_modules e) @ [LF])
     @ lit ''Endpoints:'' @ [LF] @ concat (map (\<lambda>(p, d). indent @ pad_right 22 p @ lit '' '' @ d @ [LF]) (startup_endpoints e))"

definition print_lambda :: "rstring \<Rightarrow> emitter \<Rightarrow> emitter" where
  "print_lambda t s = (let (p, s1) = emit_lambda_string_literal t s
     in lambda_line [lit ''  call void @tinox_print_string(i8* '', p, lit '')''] s1)"

definition bootstrap_main :: "entry_state \<Rightarrow> emitter \<Rightarrow> emitter" where
  "bootstrap_main e s0 =
     (let fs = enumerate 0 (background_run_fns e);
          banner = banner_enabled e \<and> background_run_fns e \<noteq> [];
          s1 = lambda_lines (concat (map trampoline_lines fs) @ [[lit ''define i32 @tinox_main() {''], [lit ''entry.tnx:'']]) s0;
          (t0, s2) = (if banner then let (t, s) = temp s1 in (t, print_lambda (startup_banner e) (lambda_line [indent, t, lit '' = call i64 @tinox_now_ms()''] s))
            else ([], s1));
          s3 = lambda_lines (map (\<lambda>(i, f). [lit ''  %h_'', show_nat i, lit '' = call i8* @tinox_task_spawn(i8* (i8*)* @'', trampoline i, lit '', i8* null)'']) fs) s2;
          s4 = (if banner then
              let (t1, s) = temp s3; (el, s') = temp (lambda_line [indent, t1, lit '' = call i64 @tinox_now_ms()''] s)
              in print_lambda (lit '' ms'' @ [LF])
                   (lambda_line [lit ''  call void @tinox_print_int(i64 '', el, lit '')'']
                     (print_lambda (lit ''Started in '') (lambda_line [indent, el, lit '' = sub i64 '', t1, lit '', '', t0] s')))
            else s3)
      in lambda_lines
           ((if user_main_class e then [[lit ''  %rc = call i32 @Main_main()'']] else [])
            @ map (\<lambda>(i, f). [lit ''  %j_'', show_nat i, lit '' = call i64 @tinox_task_await(i8* %h_'', show_nat i, lit '')'']) fs
            @ (if user_main_class e then [[lit ''  ret i32 %rc'']]
               else [[lit ''  %rc32 = trunc i64 %j_0 to i32''], [lit ''  ret i32 %rc32'']])
            @ [[lit ''}''], []]) s4)"

definition emit_tinox_main_bootstrap :: "entry_state \<Rightarrow> emitter \<Rightarrow> entry_state \<times> emitter" where
  "emit_tinox_main_bootstrap e s =
     (if test_entry e \<noteq> None \<or> has_main e \<or> (\<not> user_main_class e \<and> background_run_fns e = []) then (e, s)
      else (e\<lparr>has_main := True\<rparr>, bootstrap_main e s))"

section \<open>Tests\<close>

definition layout_of :: "cg_tables \<Rightarrow> ident \<Rightarrow> ident list" where
  "layout_of t c = (case struct_layouts t c of Some fs \<Rightarrow> fs | None \<Rightarrow> [])"

definition test_main :: "cg_tables \<Rightarrow> ident \<Rightarrow> ident \<Rightarrow> rstring list list" where
  "test_main t c m =
     (let n = length (layout_of t c) in
      [[lit ''define i64 @tinox_main() {''], [lit ''  %raw = call i8* @tinox_alloc(i64 '', show_nat (max (n * 8) 8), lit '')''],
       [lit ''  %obj = bitcast i8* %raw to i64*'']]
      @ concat (map (\<lambda>i. [[lit ''  %zi'', show_nat i, lit '' = getelementptr i64, i64* %obj, i64 '', show_nat i],
           [lit ''  store i64 0, i64* %zi'', show_nat i]]) [0..<n])
      @ [[lit ''  %result = call i1 @'', c, lit ''_'', m, lit ''(i64* %obj)''], [lit ''  %code = select i1 %result, i64 0, i64 1''],
         [lit ''  ret i64 %code''], [lit ''}''], []])"

definition emit_test_code :: "cg_tables \<Rightarrow> entry_state \<Rightarrow> emitter \<Rightarrow> entry_state \<times> emitter" where
  "emit_test_code t e s = (case test_entry e of
       Some (c, m) \<Rightarrow> if has_main e then (e, s) else (e\<lparr>has_main := True\<rparr>, lambda_lines (test_main t c m) s)
     | None \<Rightarrow> (e, s))"

section \<open>Command lines\<close>

definition cli_escape_char :: "rchar \<Rightarrow> rstring" where
  "cli_escape_char c = (if c = BACKSLASH then [BACKSLASH, BACKSLASH] else if c = QUOTE then [BACKSLASH, QUOTE] else [c])"

definition cli_escape :: "rstring \<Rightarrow> rstring" where
  "cli_escape t = concat (map cli_escape_char t)"

definition cli_const :: "rstring \<times> rstring \<Rightarrow> rstring list" where
  "cli_const x = [lit ''@'', fst x, lit '' = private constant ['', show_nat (length (utf8_bytes (snd x)) + 1), lit '' x i8] c'',
     [QUOTE], cli_escape (snd x), [BACKSLASH], lit ''00'', [QUOTE]]"

definition long_name :: "cli_option_info \<Rightarrow> rstring" where
  "long_name opt = (case find (starts_with (lit ''--'')) (co_names opt) of Some n \<Rightarrow> n | None \<Rightarrow> [])"

definition short_name :: "cli_option_info \<Rightarrow> rstring" where
  "short_name opt = (case find (\<lambda>n. starts_with (lit ''-'') n \<and> \<not> starts_with (lit ''--'') n) (co_names opt) of Some n \<Rightarrow> n | None \<Rightarrow> [])"

definition opt_label :: "nat \<Rightarrow> string \<Rightarrow> rstring" where
  "opt_label i k = lit ''__cli_opt'' @ show_nat i @ lit k"

definition option_help :: "cli_option_info \<Rightarrow> rstring \<times> rstring" where
  "option_help opt = (if short_name opt = [] then long_name opt else short_name opt @ lit '', '' @ long_name opt, co_description opt)"

definition argument_help :: "cli_argument_info \<Rightarrow> rstring \<times> rstring" where
  "argument_help a = (lit ''<'' @ ca_field_name a @ lit ''>'', ca_description a)"

definition help_lines :: "cli_command_info \<Rightarrow> (rstring \<times> rstring) list" where
  "help_lines c = map option_help (cm_options c) @ map argument_help (cm_arguments c)"

definition help_label :: "nat \<Rightarrow> string \<Rightarrow> rstring" where
  "help_label i k = lit ''__cli_help_entry'' @ show_nat i @ lit k"

definition command_version :: "cli_command_info \<Rightarrow> rstring" where
  "command_version c = (case cm_version c of Some v \<Rightarrow> v | None \<Rightarrow> [])"

text \<open>Labels and texts of all constants\<close>

definition cli_consts :: "cli_command_info \<Rightarrow> (rstring \<times> rstring) list" where
  "cli_consts c =
     [(lit ''__cli_help_long'', lit ''--help''), (lit ''__cli_help_short'', lit ''-h''), (lit ''__cli_ver_long'', lit ''--version''),
      (lit ''__cli_empty'', []), (lit ''__cli_cmd_name'', cm_cmd_name c), (lit ''__cli_cmd_desc'', cm_description c),
      (lit ''__cli_cmd_ver'', command_version c)]
     @ concat (map (\<lambda>(i, opt). [(opt_label i ''_long'', long_name opt), (opt_label i ''_short'', short_name opt), (opt_label i ''_desc'', co_description opt)])
         (enumerate 0 (cm_options c)))
     @ map (\<lambda>(i, a). (lit ''__cli_arg'' @ show_nat i @ lit ''_desc'', ca_description a)) (enumerate 0 (cm_arguments c))
     @ concat (map (\<lambda>(i, h). [(help_label i ''_names'', fst h), (help_label i ''_desc'', snd h)]) (enumerate 0 (help_lines c)))
     @ [(lit ''__cli_usage_prefix'', lit ''Usage: ''), (lit ''__cli_usage_suffix'', lit '' [options]'' @ [LF]), (lit ''__cli_nl'', [LF]),
        (lit ''__cli_ver_prefix'', lit ''Version: ''), (lit ''__cli_help_hdr'', lit ''Options:'')]"

text \<open>A pointer to a constant, by its label and the number of its bytes\<close>

definition gep :: "rstring \<Rightarrow> rstring \<Rightarrow> nat \<Rightarrow> rstring list" where
  "gep d l n = [indent, d, lit '' = getelementptr ['', show_nat n, lit '' x i8], ['', show_nat n, lit '' x i8]* @'', l, lit '', i64 0, i64 0'']"

definition gep_text :: "rstring \<Rightarrow> rstring \<Rightarrow> rstring \<Rightarrow> rstring list" where
  "gep_text d l t = gep d l (length (utf8_bytes t) + 1)"

definition print_ptr :: "rstring \<Rightarrow> rstring list" where
  "print_ptr p = [lit ''  call void @tinox_print_string(i8* '', p, lit '')'']"

definition print_newline :: "rstring list" where
  "print_newline = [lit ''  call void @tinox_print_newline()'']"

definition help_entry :: "nat \<times> rstring \<times> rstring \<Rightarrow> rstring list list" where
  "help_entry x = (case x of (i, names, desc) \<Rightarrow> let hn = lit ''%hn'' @ show_nat i; hd' = lit ''%hd'' @ show_nat i in
     [gep_text hn (help_label i ''_names'') names, gep_text hd' (help_label i ''_desc'') desc,
      [lit ''  call void @tinox_cli_print_option(i8* '', hn, lit '', i8* '', hd', lit '')'']])"

definition cli_help :: "cli_command_info \<Rightarrow> rstring list list" where
  "cli_help c =
     [[lit ''define void @__tinox_cli_help() {'']]
     @ (if cm_description c = [] then [] else
         [gep_text (lit ''%desc_ptr'') (lit ''__cli_cmd_desc'') (cm_description c), print_ptr (lit ''%desc_ptr''), print_newline])
     @ [gep_text (lit ''%usage_pfx'') (lit ''__cli_usage_prefix'') (lit ''Usage: ''),
        gep_text (lit ''%cmd_name_ptr'') (lit ''__cli_cmd_name'') (cm_cmd_name c),
        gep_text (lit ''%usage_sfx'') (lit ''__cli_usage_suffix'') (lit '' [options]'' @ [LF]),
        print_ptr (lit ''%usage_pfx''), print_ptr (lit ''%cmd_name_ptr''), print_ptr (lit ''%usage_sfx'')]
     @ (if help_lines c = [] then [] else
         [gep_text (lit ''%hdr_ptr'') (lit ''__cli_help_hdr'') (lit ''Options:''), gep_text (lit ''%nl_ptr'') (lit ''__cli_nl'') [LF],
          print_ptr (lit ''%hdr_ptr''), print_newline] @ concat (map help_entry (enumerate 0 (help_lines c))))
     @ (case cm_version c of None \<Rightarrow> [] | Some v \<Rightarrow>
         [gep_text (lit ''%vp_ptr'') (lit ''__cli_ver_prefix'') (lit ''Version: ''), gep_text (lit ''%ver_ptr'') (lit ''__cli_cmd_ver'') v,
          print_ptr (lit ''%vp_ptr''), print_ptr (lit ''%ver_ptr''), print_newline])
     @ [[lit ''  ret void''], [lit ''}''], []]"

text \<open>A value into the field of the command with this index\<close>

definition set_field :: "string \<Rightarrow> rstring \<Rightarrow> nat \<Rightarrow> rstring \<Rightarrow> rstring list list" where
  "set_field fp i k v = [[lit fp, i, lit '' = getelementptr i64, i64* %cmd_obj, i64 '', show_nat k], [lit ''  store i64 '', v, lit '', i64*'', drop 1 (lit fp), i]]"

definition parse_option :: "ident list \<Rightarrow> nat \<times> cli_option_info \<Rightarrow> rstring list list" where
  "parse_option layout x = (case x of (j, opt) \<Rightarrow>
     (case slot_of (co_field_name opt) layout of None \<Rightarrow> []
      | Some k \<Rightarrow>
        let i = show_nat j; names = lit ''(i8* %olong'' @ i @ lit '', i8* %oshort'' @ i in
        [gep_text (lit ''%olong'' @ i) (opt_label j ''_long'') (long_name opt), gep_text (lit ''%oshort'' @ i) (opt_label j ''_short'') (short_name opt)]
        @ (if co_field_type opt = lit ''Bool'' then
             [[lit ''  %opt_flag'', i, lit '' = call i64 @tinox_cli_has_flag'', names, lit '')'']] @ set_field ''  %opt_fp'' i k (lit ''%opt_flag'' @ i)
           else if co_field_type opt = lit ''Int'' then
             [[lit ''  %opt_int'', i, lit '' = call i64 @tinox_cli_get_int'', names, lit '', i64 0)'']] @ set_field ''  %opt_fp'' i k (lit ''%opt_int'' @ i)
           else
             [[lit ''  %opt_str'', i, lit '' = call i8* @tinox_cli_get_string'', names, lit '')''],
              [lit ''  %opt_null'', i, lit '' = icmp eq i8* %opt_str'', i, lit '', null''],
              [lit ''  br i1 %opt_null'', i, lit '', label %skip_opt'', i, lit '', label %set_opt'', i],
              [lit ''set_opt'', i, lit '':''],
              [lit ''  %opt_i64_'', i, lit '' = ptrtoint i8* %opt_str'', i, lit '' to i64'']]
             @ set_field ''  %opt_fp'' i k (lit ''%opt_i64_'' @ i)
             @ [[lit ''  br label %skip_opt'', i], [lit ''skip_opt'', i, lit '':'']])))"

definition parse_argument :: "ident list \<Rightarrow> nat \<times> cli_argument_info \<Rightarrow> rstring list list" where
  "parse_argument layout x = (case x of (j, a) \<Rightarrow>
     (case slot_of (ca_field_name a) layout of None \<Rightarrow> []
      | Some k \<Rightarrow>
        let i = show_nat j; int_arg = (ca_field_type a = lit ''Int'') in
        [[lit ''  %pos_str'', i, lit '' = call i8* @tinox_cli_get_positional(i32 '', show_nat (ca_index a), lit '')''],
         [lit ''  %pos_null'', i, lit '' = icmp eq i8* %pos_str'', i, lit '', null''],
         [lit ''  br i1 %pos_null'', i, lit '', label %skip_pos'', i, lit '', label %set_pos'', i],
         [lit ''set_pos'', i, lit '':''],
         (if int_arg then [lit ''  %pos_int'', i, lit '' = call i64 @tinox_string_to_int(i8* %pos_str'', i, lit '')'']
          else [lit ''  %pos_i64_'', i, lit '' = ptrtoint i8* %pos_str'', i, lit '' to i64''])]
        @ set_field ''  %pos_fp'' i k ((if int_arg then lit ''%pos_int'' else lit ''%pos_i64_'') @ i)
        @ [[lit ''  br label %skip_pos'', i], [lit ''skip_pos'', i, lit '':'']]))"

definition cli_main :: "ident list \<Rightarrow> cli_command_info \<Rightarrow> rstring list list" where
  "cli_main layout c =
     [[lit ''define i64 @tinox_main() {''], [lit ''entry.tnx:''],
      gep (lit ''%help_long'') (lit ''__cli_help_long'') 7, gep (lit ''%help_short'') (lit ''__cli_help_short'') 3,
      [lit ''  %has_help = call i64 @tinox_cli_has_flag(i8* %help_long, i8* %help_short)''], [lit ''  %help_cond = icmp ne i64 %has_help, 0''],
      [lit ''  br i1 %help_cond, label %show_help, label %check_version''], [lit ''show_help:''],
      [lit ''  call void @__tinox_cli_help()''], [lit ''  ret i64 0''], [lit ''check_version:''],
      gep (lit ''%ver_long'') (lit ''__cli_ver_long'') 10, gep (lit ''%empty_str'') (lit ''__cli_empty'') 1,
      [lit ''  %has_ver = call i64 @tinox_cli_has_flag(i8* %ver_long, i8* %empty_str)''], [lit ''  %ver_cond = icmp ne i64 %has_ver, 0''],
      [lit ''  br i1 %ver_cond, label %show_version, label %parse_args''], [lit ''show_version:''],
      gep_text (lit ''%ver_val'') (lit ''__cli_cmd_ver'') (command_version c), print_ptr (lit ''%ver_val''), print_newline,
      [lit ''  ret i64 0''], [lit ''parse_args:''],
      [lit ''  %cmd_raw = call i8* @tinox_alloc(i64 '', show_nat (max (length layout * 8) 8), lit '')''],
      [lit ''  %cmd_obj = bitcast i8* %cmd_raw to i64*'']]
     @ concat (map (\<lambda>i. [[lit ''  %zinit_'', show_nat i, lit '' = getelementptr i64, i64* %cmd_obj, i64 '', show_nat i],
          [lit ''  store i64 0, i64* %zinit_'', show_nat i]]) [0..<length layout])
     @ concat (map (parse_option layout) (enumerate 0 (cm_options c)))
     @ concat (map (parse_argument layout) (enumerate 0 (cm_arguments c)))
     @ [[lit ''  %cli_ret = call i64 @'', cm_class_name c, lit ''_run(i64* %cmd_obj)''], [lit ''  ret i64 %cli_ret''], [lit ''}''], []]"

text \<open>Only the first command is the entry point.\<close>

definition emit_cli_code :: "cg_tables \<Rightarrow> entry_state \<Rightarrow> emitter \<Rightarrow> entry_state \<times> emitter" where
  "emit_cli_code t e s = (case cli_entries e of
       [] \<Rightarrow> (e, s)
     | c # _ \<Rightarrow>
         if has_main e then (e, s)
         else (e\<lparr>has_main := True\<rparr>,
           lambda_lines (cli_help c @ cli_main (layout_of t (cm_class_name c)) c) (emit_line [] (emit_lines (map cli_const (cli_consts c)) s))))"

section \<open>Which entry point\<close>

text \<open>The order in which \<^verbatim>\<open>gen\<close> emits them, after the bodies and after \<^verbatim>\<open>emit_class_main_entry_point\<close>\<close>

definition emit_entry_points :: "cg_tables \<Rightarrow> entry_state \<Rightarrow> emitter \<Rightarrow> entry_state \<times> emitter" where
  "emit_entry_points t e s =
     (let (e1, s1) = emit_tinox_main_bootstrap e s; (e2, s2) = emit_cli_code t e1 s1 in emit_test_code t e2 s2)"

datatype entry_point = EP_Main | EP_Bootstrap | EP_Command cli_command_info | EP_Test ident ident | EP_None

fun chosen_entry :: "entry_state \<Rightarrow> entry_point" where
  "chosen_entry e =
     (if has_main e then EP_Main
      else if test_entry e = None \<and> (user_main_class e \<or> background_run_fns e \<noteq> []) then EP_Bootstrap
      else case cli_entries e of
          c # _ \<Rightarrow> EP_Command c
        | [] \<Rightarrow> (case test_entry e of Some (c, m) \<Rightarrow> EP_Test c m | None \<Rightarrow> EP_None))"

fun emit_entry :: "cg_tables \<Rightarrow> entry_state \<Rightarrow> entry_point \<Rightarrow> emitter \<Rightarrow> emitter" where
  "emit_entry t e EP_Main s = s"
| "emit_entry t e EP_Bootstrap s = bootstrap_main e s"
| "emit_entry t e (EP_Command c) s =
     lambda_lines (cli_help c @ cli_main (layout_of t (cm_class_name c)) c) (emit_line [] (emit_lines (map cli_const (cli_consts c)) s))"
| "emit_entry t e (EP_Test c m) s = lambda_lines (test_main t c m) s"
| "emit_entry t e EP_None s = s"


text \<open>A test in a file with a command is therefore not run: the program is the command.\<close>

lemma command_hides_test:
  "cli_entries e = c # cs \<Longrightarrow> \<not> has_main e \<Longrightarrow> test_entry e = Some x \<Longrightarrow> chosen_entry e = EP_Command c"
  by simp

text \<open>A quote in the description of a command ends the constant early.\<close>

lemma cli_quote_ends: "llvm_unescape (cli_escape (lit ''a'' @ [QUOTE] @ t) @ u) \<noteq> Some (lit ''a'' @ [QUOTE] @ t, [])"
  by (simp add: cli_escape_def cli_escape_char_def digit_val_def char_class_defs split: list.split option.split)

end
