(* ===== verification/Tinox_Codegen_Infer.thy ===== *)
theory Tinox_Codegen_Infer
  imports Tinox_Codegen_Generics Tinox_Codegen_Dispatch
begin

text \<open>
  What the code generator (\<^verbatim>\<open>src/crates/tinox-codegen/src/codegen.rs\<close>) knows of the types of expressions while it emits a body,
  and how it chooses the type arguments of generic methods by it: the markers of expressions, from the types that the checker has
  exported or from the tables, matching of parameter types against those of arguments, and the instance of a method. Shown are: type arguments
  are recovered from the types of arguments; two instances of a method with different arguments have different names,
  for the types whose names are kept.
\<close>

section \<open>The context of a body\<close>

record gen_ctx =
  local_types :: "ident \<rightharpoonup> rstring"
  current_struct :: "ident option"

definition or_some :: "'a option \<Rightarrow> 'a option \<Rightarrow> 'a option" where
  "or_some x y = (case x of Some a \<Rightarrow> Some a | None \<Rightarrow> y)"

primrec first_found :: "'a option list \<Rightarrow> 'a option" where
  "first_found [] = None"
| "first_found (x # xs) = or_some x (first_found xs)"

section \<open>Markers of expressions\<close>

definition rich_first :: "expr_kind \<Rightarrow> bool" where
  "rich_first k = (case k of
       E_EnumValue _ _ _ _ \<Rightarrow> True | E_MethodCall _ _ _ \<Rightarrow> True | E_Call _ _ \<Rightarrow> True | E_FieldAccess _ _ \<Rightarrow> True
     | E_Index _ _ \<Rightarrow> True | E_ArrayLiteral _ \<Rightarrow> True | E_MapLiteral _ \<Rightarrow> True | E_Ident _ \<Rightarrow> True | _ \<Rightarrow> False)"

definition rich_marker :: "cg_tables \<Rightarrow> u32 \<Rightarrow> rstring option" where
  "rich_marker t i = Option.bind (expr_value_types t i) (valuetype_to_marker (\<lambda>n. map_option cl_type_params (generic_class_defs t n)))"

text \<open>\<open>infer_struct_type\<close> of a node, with what \<open>infer_struct_type_local\<close> finds for it\<close>

definition infer_with :: "cg_tables \<Rightarrow> expr \<Rightarrow> rstring option \<Rightarrow> rstring option" where
  "infer_with t e m =
     (case if rich_first (node e) then rich_marker t (nid e) else None of
        Some r \<Rightarrow> Some r
      | None \<Rightarrow> or_some m (rich_marker t (nid e)))"

definition strip_list :: "rstring \<Rightarrow> rstring" where
  "strip_list m = (case strip_pre (lit ''List:'') m of Some c \<Rightarrow> c | None \<Rightarrow> m)"

definition array_marker :: "expr_kind \<Rightarrow> rstring option \<Rightarrow> rstring" where
  "array_marker first m = (case first of
       E_Literal (Lit_String _) \<Rightarrow> lit ''Array:String''
     | E_Literal (Lit_Float _) \<Rightarrow> lit ''Array:Float''
     | E_ArrayLiteral _ \<Rightarrow> nested_list m
     | E_MapLiteral _ \<Rightarrow> nested_list m
     | _ \<Rightarrow> lit ''Array'')"

definition map_literal_marker :: "expr_kind option \<Rightarrow> rstring" where
  "map_literal_marker v = (case v of
       Some (E_Literal (Lit_String _)) \<Rightarrow> lit ''Map:String''
     | Some (E_Literal (Lit_Float _)) \<Rightarrow> lit ''Map:Float''
     | _ \<Rightarrow> lit ''Map'')"

text \<open>The marker of the parts is there already; \<open>i\<close> is the number of the node itself.\<close>

definition call_marker :: "cg_tables \<Rightarrow> u32 \<Rightarrow> ident \<Rightarrow> rstring option \<Rightarrow> rstring option" where
  "call_marker t i m obj = (case methodcall_result_markers t i of
       Some r \<Rightarrow> Some r
     | None \<Rightarrow> Option.bind obj (\<lambda>c.
         or_some (if m = lit ''get'' then map_val_marker c else None) (method_ret_class t (impl_key c m))))"

primrec infer_local :: "cg_tables \<Rightarrow> gen_ctx \<Rightarrow> expr_kind \<Rightarrow> u32 \<Rightarrow> rstring option" where
  "infer_local t ctx (E_Ident n) = (\<lambda>i. map_option strip_list (local_types ctx n))"
| "infer_local t ctx (E_Index x k) = (\<lambda>i. Option.bind
     (case node x of E_Ident n \<Rightarrow> local_types ctx n
      | _ \<Rightarrow> infer_with t x (node (map_spanned (infer_local t ctx) x) (nid x))) elem_marker)"
| "infer_local t ctx E_This = (\<lambda>i. current_struct ctx)"
| "infer_local t ctx (E_FieldAccess x f) = (\<lambda>i. Option.bind (infer_with t x (node (map_spanned (infer_local t ctx) x) (nid x)))
     (\<lambda>c. Option.bind (struct_field_class_types t c) (\<lambda>m. m f)))"
| "infer_local t ctx (E_EnumValue c v ts args) = (\<lambda>i. method_ret_class t (impl_key c v))"
| "infer_local t ctx (E_MethodCall x m args) = (\<lambda>i. call_marker t i m (infer_with t x (node (map_spanned (infer_local t ctx) x) (nid x))))"
| "infer_local t ctx (E_Call f args) = (\<lambda>i. case node f of E_Ident n \<Rightarrow> method_ret_class t n | _ \<Rightarrow> None)"
| "infer_local t ctx (E_ArrayLiteral es) = (\<lambda>i. case (es, map (map_spanned (infer_local t ctx)) es) of
     (x # _, y # _) \<Rightarrow> Some (array_marker (node x) (infer_with t x (node y (nid x)))) | _ \<Rightarrow> None)"
| "infer_local t ctx (E_MapLiteral kvs) = (\<lambda>i. Some (map_literal_marker (case kvs of [] \<Rightarrow> None | kv # _ \<Rightarrow> Some (node (snd kv)))))"
| "infer_local t ctx (E_Literal l) = (\<lambda>i. None)"
| "infer_local t ctx (E_Binary p x y) = (\<lambda>i. None)"
| "infer_local t ctx (E_Unary p x) = (\<lambda>i. None)"
| "infer_local t ctx (E_SuperCall m args) = (\<lambda>i. None)"
| "infer_local t ctx (E_New c ts args) = (\<lambda>i. None)"
| "infer_local t ctx (E_StructLiteral n fs) = (\<lambda>i. None)"
| "infer_local t ctx (E_Block ss) = (\<lambda>i. None)"
| "infer_local t ctx (E_If c a b) = (\<lambda>i. None)"
| "infer_local t ctx (E_While c b) = (\<lambda>i. None)"
| "infer_local t ctx (E_For x it b) = (\<lambda>i. None)"
| "infer_local t ctx (E_Loop b) = (\<lambda>i. None)"
| "infer_local t ctx (E_Match x cs) = (\<lambda>i. None)"
| "infer_local t ctx (E_Return v) = (\<lambda>i. None)"
| "infer_local t ctx E_Break = (\<lambda>i. None)"
| "infer_local t ctx E_Continue = (\<lambda>i. None)"
| "infer_local t ctx (E_Throw x) = (\<lambda>i. None)"
| "infer_local t ctx (E_Try b cs f) = (\<lambda>i. None)"
| "infer_local t ctx (E_Assign x v) = (\<lambda>i. None)"
| "infer_local t ctx (E_CompoundAssign p x v) = (\<lambda>i. None)"
| "infer_local t ctx (E_Lambda ps r b) = (\<lambda>i. None)"
| "infer_local t ctx (E_Spawn x) = (\<lambda>i. None)"
| "infer_local t ctx (E_Await x) = (\<lambda>i. None)"
| "infer_local t ctx E_Channel = (\<lambda>i. None)"
| "infer_local t ctx (E_Send ch v) = (\<lambda>i. None)"
| "infer_local t ctx (E_Recv x) = (\<lambda>i. None)"
| "infer_local t ctx (E_Cast x ty) = (\<lambda>i. None)"
| "infer_local t ctx (E_Is x ty) = (\<lambda>i. None)"
| "infer_local t ctx (E_Range a b incl) = (\<lambda>i. None)"
| "infer_local t ctx (E_Tuple es) = (\<lambda>i. None)"
| "infer_local t ctx (E_TupleIndex x k) = (\<lambda>i. None)"

definition infer_struct_type_local :: "cg_tables \<Rightarrow> gen_ctx \<Rightarrow> expr \<Rightarrow> rstring option" where
  "infer_struct_type_local t ctx e = infer_local t ctx (node e) (nid e)"

definition infer_struct_type :: "cg_tables \<Rightarrow> gen_ctx \<Rightarrow> expr \<Rightarrow> rstring option" where
  "infer_struct_type t ctx e = infer_with t e (infer_struct_type_local t ctx e)"

text \<open>The marker of an argument, where a variable keeps the marker of the container\<close>

definition argument_marker :: "cg_tables \<Rightarrow> gen_ctx \<Rightarrow> expr \<Rightarrow> rstring option" where
  "argument_marker t ctx e = or_some (case node e of E_Ident n \<Rightarrow> local_types ctx n | _ \<Rightarrow> None) (infer_struct_type t ctx e)"

section \<open>Types of lambdas\<close>

text \<open>The expression that a body returns: the first \<^verbatim>\<open>return\<close> that is found\<close>

primrec returned_in :: "stmt_kind \<Rightarrow> expr option" where
  "returned_in (S_Return v) = v"
| "returned_in (S_Block ss) = first_found (map node (map (map_spanned returned_in) ss))"
| "returned_in (S_If c a b) = or_some (node (map_spanned returned_in a)) (Option.bind (map_option (map_spanned returned_in) b) node)"
| "returned_in (S_Expr e) = None"
| "returned_in (S_Let x t v) = None"
| "returned_in (S_Var x t v mu) = None"
| "returned_in (S_Assignment a v) = None"
| "returned_in (S_While c b) = None"
| "returned_in (S_For x it b) = None"
| "returned_in (S_ForC a c u b) = None"
| "returned_in (S_Loop b) = None"
| "returned_in S_Break = None"
| "returned_in S_Continue = None"
| "returned_in (S_Throw e) = None"
| "returned_in (S_Try b cs f) = None"
| "returned_in (S_Defer b) = None"
| "returned_in (S_Select arms d) = None"
| "returned_in S_Empty = None"

definition lambda_body_value_expr :: "expr \<Rightarrow> expr option" where
  "lambda_body_value_expr b = (case node b of
       E_Block ss \<Rightarrow> first_found (map (\<lambda>s. returned_in (node s)) ss)
     | _ \<Rightarrow> Some b)"

primrec those_some :: "'a option list \<Rightarrow> 'a list option" where
  "those_some [] = Some []"
| "those_some (x # xs) = (case x of None \<Rightarrow> None | Some y \<Rightarrow> map_option ((#) y) (those_some xs))"

primrec value_type_to_parser_type :: "value_type \<Rightarrow> ty option" where
  "value_type_to_parser_type VT_Int = Some Ty_Int64"
| "value_type_to_parser_type VT_Float = Some Ty_Float64"
| "value_type_to_parser_type VT_Bool = Some Ty_Bool"
| "value_type_to_parser_type VT_String = Some Ty_String"
| "value_type_to_parser_type (VT_Named n args) =
     (if args = [] then Some (Ty_Named n) else map_option (Ty_Generic n) (those_some (map value_type_to_parser_type args)))"
| "value_type_to_parser_type (VT_Array t) = map_option Ty_Array (value_type_to_parser_type t)"
| "value_type_to_parser_type (VT_Map v) = None"
| "value_type_to_parser_type (VT_Nullable t) = None"
| "value_type_to_parser_type VT_Char = None"
| "value_type_to_parser_type VT_Nothing = None"
| "value_type_to_parser_type VT_Never = None"
| "value_type_to_parser_type VT_Any = None"
| "value_type_to_parser_type VT_Ref = None"
| "value_type_to_parser_type VT_Fn = None"
| "value_type_to_parser_type VT_Tuple = None"
| "value_type_to_parser_type VT_Range = None"
| "value_type_to_parser_type VT_Null = None"

section \<open>Type arguments\<close>

text \<open>What stands in a type where a pattern has the parameter, in the first place where it has it\<close>

definition unify_all :: "(ty \<Rightarrow> ty option) list \<Rightarrow> ty list \<Rightarrow> ty option" where
  "unify_all us ts = first_found (map (\<lambda>(u, t). u t) (zip us ts))"

primrec unify_type_param :: "ident \<Rightarrow> ty \<Rightarrow> ty \<Rightarrow> ty option" where
  "unify_type_param tp (Ty_Named n) = (\<lambda>c. if n = tp then Some c else None)"
| "unify_type_param tp (Ty_Generic n ps) = (\<lambda>c. case c of
     Ty_Generic cn cs \<Rightarrow> if n = cn then unify_all (map (unify_type_param tp) ps) cs else None | _ \<Rightarrow> None)"
| "unify_type_param tp (Ty_Array p) = (\<lambda>c. case c of Ty_Array t \<Rightarrow> unify_type_param tp p t | _ \<Rightarrow> None)"
| "unify_type_param tp (Ty_Fn ps r) = (\<lambda>c. case c of
     Ty_Fn cs cr \<Rightarrow> or_some (unify_all (map (unify_type_param tp) ps) cs) (unify_type_param tp r cr) | _ \<Rightarrow> None)"
| "unify_type_param tp (Ty_Ref p) = (\<lambda>c. None)"
| "unify_type_param tp (Ty_Mutable p) = (\<lambda>c. None)"
| "unify_type_param tp (Ty_Map k v) = (\<lambda>c. None)"
| "unify_type_param tp (Ty_Tuple ts) = (\<lambda>c. None)"
| "unify_type_param tp (Ty_Nullable p) = (\<lambda>c. None)"
| "unify_type_param tp Ty_Int8 = (\<lambda>c. None)"
| "unify_type_param tp Ty_Int16 = (\<lambda>c. None)"
| "unify_type_param tp Ty_Int32 = (\<lambda>c. None)"
| "unify_type_param tp Ty_Int64 = (\<lambda>c. None)"
| "unify_type_param tp Ty_UInt8 = (\<lambda>c. None)"
| "unify_type_param tp Ty_UInt16 = (\<lambda>c. None)"
| "unify_type_param tp Ty_UInt32 = (\<lambda>c. None)"
| "unify_type_param tp Ty_UInt64 = (\<lambda>c. None)"
| "unify_type_param tp Ty_Float32 = (\<lambda>c. None)"
| "unify_type_param tp Ty_Float64 = (\<lambda>c. None)"
| "unify_type_param tp Ty_Bool = (\<lambda>c. None)"
| "unify_type_param tp Ty_Char = (\<lambda>c. None)"
| "unify_type_param tp Ty_String = (\<lambda>c. None)"
| "unify_type_param tp Ty_Nothing = (\<lambda>c. None)"
| "unify_type_param tp Ty_Never = (\<lambda>c. None)"
| "unify_type_param tp Ty_Any = (\<lambda>c. None)"
| "unify_type_param tp Ty_Infer = (\<lambda>c. None)"

text \<open>What one argument says of a type parameter of the method itself\<close>

definition lambda_binding :: "cg_tables \<Rightarrow> ident \<Rightarrow> ty list \<Rightarrow> ty \<Rightarrow> param list \<Rightarrow> ty option \<Rightarrow> expr \<Rightarrow> ty option" where
  "lambda_binding t tp ps r lps lr b =
     or_some (Option.bind lr (unify_type_param tp r))
       (or_some (unify_all (map (unify_type_param tp) ps) (map param_type lps))
         (Option.bind (lambda_body_value_expr b) (\<lambda>v. Option.bind (expr_value_types t (nid v)) (\<lambda>vt.
           Option.bind (value_type_to_parser_type vt) (unify_type_param tp r)))))"

definition argument_binding :: "cg_tables \<Rightarrow> gen_ctx \<Rightarrow> ident \<Rightarrow> param \<times> expr \<Rightarrow> ty option" where
  "argument_binding t ctx tp x = (case x of (p, arg) \<Rightarrow>
     let other = Option.bind (infer_struct_type t ctx arg) (\<lambda>m. unify_type_param tp (param_type p) (marker_to_type m)) in
     case param_type p of
       Ty_Named n \<Rightarrow> if n = tp then map_option marker_to_type (argument_marker t ctx arg) else other
     | Ty_Fn ps r \<Rightarrow> (case node arg of E_Lambda lps lr b \<Rightarrow> lambda_binding t tp ps r lps lr b | _ \<Rightarrow> None)
     | _ \<Rightarrow> other)"

text \<open>A parameter that no argument binds is an \<^verbatim>\<open>Int64\<close>.\<close>

definition or_int64 :: "ty option \<Rightarrow> ty" where
  "or_int64 t = (case t of Some x \<Rightarrow> x | None \<Rightarrow> Ty_Int64)"

definition infer_own_type_params :: "cg_tables \<Rightarrow> gen_ctx \<Rightarrow> method_def \<Rightarrow> expr list \<Rightarrow> type_subst" where
  "infer_own_type_params t ctx m args = collect_pairs (map (\<lambda>tp.
     (tp, or_int64 (first_found (map (argument_binding t ctx tp) (zip (me_params m) args))))) (me_type_params m))"

text \<open>The type arguments of a static call: given, or the marker of the first argument whose parameter is the type parameter\<close>

definition inferred_type_arg :: "cg_tables \<Rightarrow> gen_ctx \<Rightarrow> method_def \<Rightarrow> expr list \<Rightarrow> ident \<Rightarrow> ty option" where
  "inferred_type_arg t ctx m args tp = (case find (\<lambda>(i, p). param_type p = Ty_Named tp) (enumerate 0 (me_params m)) of
       None \<Rightarrow> None
     | Some (i, p) \<Rightarrow> if i < length args then map_option marker_to_type (argument_marker t ctx (args ! i)) else None)"

definition resolve_type_args :: "cg_tables \<Rightarrow> gen_ctx \<Rightarrow> method_def \<Rightarrow> ty list \<Rightarrow> expr list \<Rightarrow> ty list option" where
  "resolve_type_args t ctx m ts args =
     (let s = collect_pairs (map (\<lambda>(i, tp). (tp, if i < length ts then ts ! i else or_int64 (inferred_type_arg t ctx m args tp)))
        (enumerate 0 (me_type_params m)))
      in those_some (map s (me_type_params m)))"

section \<open>Instances of methods\<close>

definition method_suffix :: "ty list \<Rightarrow> rstring" where
  "method_suffix ts = join_with (lit ''__'') (map type_suffix ts)"

definition instance_param :: "type_subst \<Rightarrow> param \<Rightarrow> param" where
  "instance_param s p = p\<lparr>param_type := substitute_type s (param_type p)\<rparr>"

definition method_instance :: "rstring \<Rightarrow> method_def \<Rightarrow> type_subst \<Rightarrow> function_def" where
  "method_instance mangled m s =
     \<lparr>fn_name = mangled, fn_type_params = [], fn_params = map (instance_param s) (me_params m), fn_ret_type = substitute_type s (me_ret_type m),
      fn_body = me_body m, fn_span = me_span m, fn_is_async = me_is_async m, fn_doc = None, fn_annotations = [], fn_file = me_file m\<rparr>"

definition register_instance :: "rstring \<Rightarrow> function_def \<Rightarrow> cg_tables \<Rightarrow> cg_tables" where
  "register_instance mangled f t =
     (let t1 = t\<lparr>generated_specializations := insert mangled (generated_specializations t),
                 fn_sigs := (fn_sigs t)(mangled \<mapsto> (type_to_llvm (fn_ret_type f), map (type_to_llvm \<circ> param_type) (fn_params f)))\<rparr>
      in case fn_ret_type f of
           Ty_Named c \<Rightarrow> if c \<in> defined_classes t1 then t1\<lparr>method_ret_class := (method_ret_class t1)(mangled \<mapsto> c)\<rparr> else t1
         | r \<Rightarrow> (case container_marker r of Some k \<Rightarrow> t1\<lparr>method_ret_class := (method_ret_class t1)(mangled \<mapsto> k)\<rparr> | None \<Rightarrow> t1))"

text \<open>
  The instance of a static method: its name, its LLVM result, the function to emit if it is new, with the aliases of type
  parameters that hold while it is emitted, and the tables. A type parameter without an argument is a panic (\<open>None\<close>).
\<close>

definition ensure_generic_method_specialization :: "rstring \<Rightarrow> method_def \<Rightarrow> ty list \<Rightarrow> cg_tables
    \<Rightarrow> (rstring \<times> rstring \<times> (function_def \<times> (ident \<rightharpoonup> rstring)) option \<times> cg_tables) option" where
  "ensure_generic_method_specialization key m ts t =
     (let s = collect_pairs (zip (me_type_params m) ts) in
      case those_some (map s (me_type_params m)) of
        None \<Rightarrow> None
      | Some bound \<Rightarrow>
          let mangled = key @ lit ''__'' @ method_suffix bound; f = method_instance mangled m s; ret = type_to_llvm (fn_ret_type f) in
          if mangled \<in> generated_specializations t then Some (mangled, ret, None, t)
          else Some (mangled, ret, Some (f, \<lambda>n. case s n of Some (Ty_Named c) \<Rightarrow> Some c | _ \<Rightarrow> None), register_instance mangled f t))"

text \<open>The instance of a method of an object: names, and the method to emit if it is new\<close>

definition instance_method :: "ident \<Rightarrow> method_def \<Rightarrow> ident \<Rightarrow> type_subst \<Rightarrow> method_def" where
  "instance_method name m c s = m\<lparr>me_name := name, me_type_params := [], me_params := map (instance_param s) (me_params m),
     me_ret_type := substitute_type s (me_ret_type m), me_body := substitute_stmt s (c, c) (me_body m), me_doc := None, me_annotations := []\<rparr>"

definition instance_subst :: "bindings \<Rightarrow> type_subst \<Rightarrow> type_subst" where
  "instance_subst b own = llvm_subst b ++ own"

definition ensure_instance_method :: "ident \<Rightarrow> rstring \<Rightarrow> expr list \<Rightarrow> gen_ctx \<Rightarrow> cg_tables
    \<Rightarrow> (rstring \<times> ty \<times> method_def option \<times> cg_tables) option" where
  "ensure_instance_method mangled_class key args ctx t = (case generic_instance_methods t key of
       None \<Rightarrow> None
     | Some (c, b, m) \<Rightarrow>
         let s = instance_subst b (infer_own_type_params t ctx m args) in
         (case those_some (map s (me_type_params m)) of
            None \<Rightarrow> None
          | Some bound \<Rightarrow>
              let name = me_name m @ lit ''__'' @ method_suffix bound; target = impl_key mangled_class name; im = instance_method name m c s in
              if target \<in> generated_specializations t then Some (target, me_ret_type im, None, t)
              else Some (target, me_ret_type im, Some im, t\<lparr>generated_specializations := insert target (generated_specializations t)\<rparr>)))"

text \<open>After its emission, the marker of the result is registered for the method and for the node of the call.\<close>

definition result_marker :: "ty \<Rightarrow> cg_tables \<Rightarrow> (rstring option \<times> cg_tables) option" where
  "result_marker r t = (case r of
       Ty_Named c \<Rightarrow> Some (if c \<in> defined_classes t then Some c else container_marker r, t)
     | Ty_Generic n args \<Rightarrow>
         (case generic_class_defs t n of
            None \<Rightarrow> Some (container_marker r, t)
          | Some gc \<Rightarrow> map_option (\<lambda>(name, def, ms, t'). (Some name, t'))
              (specialise_class n (collect_pairs (zip (cl_type_params gc) (map type_to_llvm args))) t))
     | _ \<Rightarrow> Some (container_marker r, t))"

definition register_result :: "rstring \<Rightarrow> u32 \<Rightarrow> ty \<Rightarrow> cg_tables \<Rightarrow> cg_tables option" where
  "register_result key call r t = map_option (\<lambda>(m, t'). case m of
       None \<Rightarrow> t'
     | Some k \<Rightarrow> t'\<lparr>method_ret_class := (method_ret_class t')(key \<mapsto> k), methodcall_result_markers := (methodcall_result_markers t')(call \<mapsto> k)\<rparr>)
     (result_marker r t)"

section \<open>Matching against what was substituted\<close>

text \<open>Whether matching reaches the parameter: not inside of references, nullable types, maps and tuples\<close>

primrec reaches :: "ident \<Rightarrow> ty \<Rightarrow> bool" where
  "reaches tp (Ty_Named n) = (n = tp)"
| "reaches tp (Ty_Generic n ps) = (True \<in> set (map (reaches tp) ps))"
| "reaches tp (Ty_Array p) = reaches tp p"
| "reaches tp (Ty_Fn ps r) = (True \<in> set (map (reaches tp) ps) \<or> reaches tp r)"
| "reaches tp (Ty_Ref p) = False"
| "reaches tp (Ty_Mutable p) = False"
| "reaches tp (Ty_Map k v) = False"
| "reaches tp (Ty_Tuple ts) = False"
| "reaches tp (Ty_Nullable p) = False"
| "reaches tp Ty_Int8 = False"
| "reaches tp Ty_Int16 = False"
| "reaches tp Ty_Int32 = False"
| "reaches tp Ty_Int64 = False"
| "reaches tp Ty_UInt8 = False"
| "reaches tp Ty_UInt16 = False"
| "reaches tp Ty_UInt32 = False"
| "reaches tp Ty_UInt64 = False"
| "reaches tp Ty_Float32 = False"
| "reaches tp Ty_Float64 = False"
| "reaches tp Ty_Bool = False"
| "reaches tp Ty_Char = False"
| "reaches tp Ty_String = False"
| "reaches tp Ty_Nothing = False"
| "reaches tp Ty_Never = False"
| "reaches tp Ty_Any = False"
| "reaches tp Ty_Infer = False"

lemma unify_all_found:
  assumes "\<And>p. p \<in> set ps \<Longrightarrow> unify_type_param tp p (f p) = (if reaches tp p then Some t else None)"
  shows "unify_all (map (unify_type_param tp) ps) (map f ps) = (if True \<in> set (map (reaches tp) ps) then Some t else None)"
  using assms by (induction ps) (auto simp: unify_all_def or_some_def)

text \<open>No generic class has the name of the parameter.\<close>

primrec no_generic_named :: "ident \<Rightarrow> ty \<Rightarrow> bool" where
  "no_generic_named tp (Ty_Generic n ps) = (n \<noteq> tp \<and> list_all (\<lambda>b. b) (map (no_generic_named tp) ps))"
| "no_generic_named tp (Ty_Named n) = True"
| "no_generic_named tp (Ty_Array p) = no_generic_named tp p"
| "no_generic_named tp (Ty_Fn ps r) = (list_all (\<lambda>b. b) (map (no_generic_named tp) ps) \<and> no_generic_named tp r)"
| "no_generic_named tp (Ty_Ref p) = True"
| "no_generic_named tp (Ty_Mutable p) = True"
| "no_generic_named tp (Ty_Map k v) = True"
| "no_generic_named tp (Ty_Tuple ts) = True"
| "no_generic_named tp (Ty_Nullable p) = True"
| "no_generic_named tp Ty_Int8 = True"
| "no_generic_named tp Ty_Int16 = True"
| "no_generic_named tp Ty_Int32 = True"
| "no_generic_named tp Ty_Int64 = True"
| "no_generic_named tp Ty_UInt8 = True"
| "no_generic_named tp Ty_UInt16 = True"
| "no_generic_named tp Ty_UInt32 = True"
| "no_generic_named tp Ty_UInt64 = True"
| "no_generic_named tp Ty_Float32 = True"
| "no_generic_named tp Ty_Float64 = True"
| "no_generic_named tp Ty_Bool = True"
| "no_generic_named tp Ty_Char = True"
| "no_generic_named tp Ty_String = True"
| "no_generic_named tp Ty_Nothing = True"
| "no_generic_named tp Ty_Never = True"
| "no_generic_named tp Ty_Any = True"
| "no_generic_named tp Ty_Infer = True"

lemma unify_finds:
  assumes "s tp = Some t" "\<And>n. n \<noteq> tp \<Longrightarrow> s n = None"
  shows "no_generic_named tp p \<Longrightarrow> unify_type_param tp p (substitute_type s p) = (if reaches tp p then Some t else None)"
proof (induction p)
  case (Ty_Generic n ps)
  then have "\<And>p. p \<in> set ps \<Longrightarrow> unify_type_param tp p (substitute_type s p) = (if reaches tp p then Some t else None)"
    by (simp add: list_all_iff)
  then show ?case using Ty_Generic.prems unify_all_found [of ps tp "substitute_type s" t] assms(2) by simp
next
  case (Ty_Fn ps r)
  then have "\<And>p. p \<in> set ps \<Longrightarrow> unify_type_param tp p (substitute_type s p) = (if reaches tp p then Some t else None)"
    by (simp add: list_all_iff)
  then show ?case using Ty_Fn unify_all_found [of ps tp "substitute_type s" t] by (simp add: or_some_def)
qed (use assms in simp_all)

text \<open>The argument of a parameter that matching reaches is what was substituted for it.\<close>

lemma unify_substituted:
  "no_generic_named tp p \<Longrightarrow> unify_type_param tp p (substitute_type [tp \<mapsto> t] p) = (if reaches tp p then Some t else None)"
  by (rule unify_finds) simp_all

section \<open>Names of instances\<close>

text \<open>The types whose names the suffix keeps: some built-in ones, and classes that are named otherwise and without underscores\<close>

definition plain_arg :: "ty \<Rightarrow> bool" where
  "plain_arg t \<longleftrightarrow> t \<in> {Ty_Int64, Ty_Float64, Ty_Bool, Ty_String}
     \<or> (\<exists>c. t = Ty_Named c \<and> underscore \<notin> set c \<and> c \<notin> {lit ''Int64'', lit ''Float64'', lit ''Bool'', lit ''String''})"

lemma plain_suffix: "plain_arg t \<Longrightarrow> underscore \<notin> set (type_suffix t)"
  by (auto simp: plain_arg_def)

lemma plain_suffix_inject: "plain_arg t \<Longrightarrow> plain_arg u \<Longrightarrow> type_suffix t = type_suffix u \<Longrightarrow> t = u"
  unfolding plain_arg_def by (auto simp del: lit_simps)

lemma join_inject:
  assumes "length xs = length ys" "\<forall>x \<in> set xs. underscore \<notin> set x" "\<forall>y \<in> set ys. underscore \<notin> set y"
    and "join_with (lit ''__'') xs = join_with (lit ''__'') ys"
  shows "xs = ys"
  using assms
proof (induction xs ys rule: list_induct2)
  case (Cons x xs y ys)
  have first: "takeWhile (\<lambda>c. c \<noteq> underscore) (z @ underscore # u) = z" if "underscore \<notin> set z" for z u
    using that by (induction z) auto
  show ?case
  proof (cases xs)
    case Nil
    then show ?thesis using Cons by simp
  next
    case (Cons x' xs')
    then obtain y' ys' where ys: "ys = y' # ys'" using Cons.hyps by (cases ys) auto
    have e: "x @ underscore # underscore # join_with (lit ''__'') xs = y @ underscore # underscore # join_with (lit ''__'') ys"
      using Cons.prems(3) Cons ys by simp
    have "underscore \<notin> set x" "underscore \<notin> set y" using Cons.prems(1,2) by auto
    note first [OF this(1)] first [OF this(2)]
    then have "x = y" using arg_cong [OF e, of "takeWhile (\<lambda>c. c \<noteq> underscore)"] by metis
    then show ?thesis using e Cons.IH Cons.prems by simp
  qed
qed simp

lemma method_suffix_inject:
  assumes "length ts = length us" "\<forall>t \<in> set ts. plain_arg t" "\<forall>t \<in> set us. plain_arg t" "method_suffix ts = method_suffix us"
  shows "ts = us"
proof -
  have m: "map type_suffix ts = map type_suffix us"
    using assms plain_suffix unfolding method_suffix_def by (intro join_inject) auto
  show ?thesis using assms(1) m assms(2,3) by (induction ts us rule: list_induct2) (auto intro: plain_suffix_inject)
qed

lemma bound_params:
  assumes "length ks = length vs" "distinct ks"
  shows "those_some (map (collect_pairs (zip ks vs)) ks) = Some vs"
proof -
  have m: "map (collect_pairs (zip ks vs)) ks = map Some vs"
  proof (rule nth_equalityI)
    fix i assume "i < length (map (collect_pairs (zip ks vs)) ks)"
    then have i: "i < length ks" by simp
    have "distinct (map fst (zip ks vs))" using assms by simp
    then have "map_of (rev (zip ks vs)) = map_of (zip ks vs)" by (metis distinct_rev map_of_eqI map_of_inject_set rev_map set_rev)
    then show "map (collect_pairs (zip ks vs)) ks ! i = map Some vs ! i"
      using i assms map_of_zip_nth [of ks vs i] by (simp add: collect_pairs_def)
  qed (use assms in simp)
  have "those_some (map Some vs) = Some vs" by (induction vs) auto
  then show ?thesis using m by simp
qed

lemma specialization_of:
  assumes "length ts = length (me_type_params m)" "distinct (me_type_params m)"
    and "ensure_generic_method_specialization key m ts t = Some (n, r, f, t')"
  shows "n = key @ lit ''__'' @ method_suffix ts"
    "r = type_to_llvm (substitute_type (collect_pairs (zip (me_type_params m) ts)) (me_ret_type m))"
    "n \<in> generated_specializations t \<longleftrightarrow> f = None"
    "f \<noteq> None \<Longrightarrow> fn_sigs t' n = Some (r, map (\<lambda>p. type_to_llvm (substitute_type (collect_pairs (zip (me_type_params m) ts)) (param_type p))) (me_params m))"
proof -
  let ?n = "key @ lit ''__'' @ method_suffix ts" and ?f = "method_instance (key @ lit ''__'' @ method_suffix ts) m (collect_pairs (zip (me_type_params m) ts))"
  have r: "fn_ret_type ?f = substitute_type (collect_pairs (zip (me_type_params m) ts)) (me_ret_type m)"
    "map (type_to_llvm \<circ> param_type) (fn_params ?f)
      = map (\<lambda>p. type_to_llvm (substitute_type (collect_pairs (zip (me_type_params m) ts)) (param_type p))) (me_params m)"
    by (simp_all add: method_instance_def instance_param_def)
  have s: "fn_sigs (register_instance ?n ?f t) ?n = Some (type_to_llvm (fn_ret_type ?f), map (type_to_llvm \<circ> param_type) (fn_params ?f))"
    by (simp add: register_instance_def Let_def del: lit_simps split: ty.split option.split)
  note e = assms(3) [unfolded ensure_generic_method_specialization_def Let_def bound_params [OF assms(1) [symmetric] assms(2)] option.case]
  have "n = ?n \<and> r = type_to_llvm (fn_ret_type ?f) \<and> (n \<in> generated_specializations t \<longleftrightarrow> f = None)
      \<and> (f \<noteq> None \<longrightarrow> t' = register_instance ?n ?f t)"
    using e by (cases "?n \<in> generated_specializations t") (auto simp del: lit_simps)
  then show "n = ?n" "r = type_to_llvm (substitute_type (collect_pairs (zip (me_type_params m) ts)) (me_ret_type m))"
    "n \<in> generated_specializations t \<longleftrightarrow> f = None"
    "f \<noteq> None \<Longrightarrow> fn_sigs t' n = Some (r, map (\<lambda>p. type_to_llvm (substitute_type (collect_pairs (zip (me_type_params m) ts)) (param_type p))) (me_params m))"
    unfolding r [symmetric] using s by blast+
qed


definition id_method :: method_def where
  "id_method = \<lparr>me_name = lit ''id'', me_type_params = [lit ''T''],
     me_params = [\<lparr>param_name = lit ''x'', param_type = Ty_Named (lit ''T''), param_span = span_dummy, param_annotations = []\<rparr>],
     me_ret_type = Ty_Named (lit ''T''), me_body = spanned_new S_Empty span_dummy, me_static = True, me_visibility = V_Public, me_span = span_dummy,
     me_is_async = False, me_doc = None, me_annotations = [], me_file = []\<rparr>"

definition id_instances :: "(rstring \<times> rstring \<times> (function_def \<times> (ident \<rightharpoonup> rstring)) option \<times> cg_tables) option" where
  "id_instances = ensure_generic_method_specialization (lit ''C_id'') id_method [Ty_Bool] tables_new"


text \<open>All other types have one name: the second instance is the function of the first, whatever its types.\<close>

lemma suffixes_clash:
  "method_suffix [Ty_Int32] = method_suffix [Ty_Float32]" "type_to_llvm Ty_Int32 \<noteq> type_to_llvm Ty_Float32"
  by (simp_all add: method_suffix_def)

end
