(* ===== verification/Tinox_Lsp_Text.thy ===== *)
theory Tinox_Lsp_Text
  imports Tinox_Formatter Tinox_Pm_Encoding
begin

text \<open>
  Text and positions in the language server (\<^verbatim>\<open>src/crates/tinox-lsp/src/analysis.rs\<close>). The server computes
  with byte offsets into the UTF-8 text: slicing inside of a character panics, which is \<open>None\<close> here. What
  \<^verbatim>\<open>char\<close> knows of Unicode (letters, digits, lower case) is an argument. Shown are: slicing at the end of
  a part of the text, and that a position of the client is taken to the offset it stands for.
\<close>

section \<open>Bytes\<close>

definition len_utf8 :: "rchar \<Rightarrow> nat" where
  "len_utf8 c = (if c < 0x80 then 1 else if c < 0x800 then 2 else if c < 0x10000 then 3 else 4)"

definition byte_len :: "rstring \<Rightarrow> nat" where
  "byte_len t = sum_list (map len_utf8 t)"

text \<open>\<^verbatim>\<open>&t[..n]\<close> and \<^verbatim>\<open>&t[n..]\<close>\<close>

fun split_bytes :: "nat \<Rightarrow> rstring \<Rightarrow> (rstring \<times> rstring) option" where
  "split_bytes n t =
     (if n = 0 then Some ([], t)
      else case t of
        [] \<Rightarrow> None
      | c # u \<Rightarrow> if n < len_utf8 c then None else map_option (apfst (Cons c)) (split_bytes (n - len_utf8 c) u))"

declare split_bytes.simps [simp del]

definition bytes_upto :: "nat \<Rightarrow> rstring \<Rightarrow> rstring option" where
  "bytes_upto n t = map_option fst (split_bytes n t)"

definition bytes_from :: "nat \<Rightarrow> rstring \<Rightarrow> rstring option" where
  "bytes_from n t = map_option snd (split_bytes n t)"

text \<open>\<^verbatim>\<open>&t[a..b]\<close>\<close>

definition bytes_between :: "nat \<Rightarrow> nat \<Rightarrow> rstring \<Rightarrow> rstring option" where
  "bytes_between a b t = (if a \<le> b then Option.bind (bytes_upto b t) (bytes_from a) else None)"

lemma len_utf8_pos [simp]: "0 < len_utf8 c"
  by (simp add: len_utf8_def)

lemma len_utf8_bytes: "len_utf8 c = length (utf8_char c)"
  by (simp add: len_utf8_def utf8_char_def)

lemma byte_len_simps [simp]:
  "byte_len [] = 0" "byte_len (c # t) = len_utf8 c + byte_len t" "byte_len (t @ u) = byte_len t + byte_len u"
  by (simp_all add: byte_len_def)

lemma byte_len_rev [simp]: "byte_len (rev t) = byte_len t"
  by (induction t) auto

lemma byte_len_ascii: "\<forall>c \<in> set t. c < 0x80 \<Longrightarrow> byte_len t = length t"
  by (induction t) (auto simp: len_utf8_def)

lemma split_bytes_0 [simp]: "split_bytes 0 t = Some ([], t)"
  by (subst split_bytes.simps) simp

lemma split_bytes_append [simp]: "split_bytes (byte_len p) (p @ u) = Some (p, u)"
proof (induction p)
  case (Cons c p)
  then show ?case using len_utf8_pos [of c] by (subst split_bytes.simps) simp
qed simp

lemma split_bytes_all [simp]: "split_bytes (byte_len t) t = Some (t, [])"
  using split_bytes_append [of t "[]"] by simp

lemma split_bytes_sound: "split_bytes n t = Some (p, u) \<Longrightarrow> t = p @ u \<and> byte_len p = n"
proof (induction n t arbitrary: p u rule: split_bytes.induct)
  case (1 n t)
  show ?case
  proof (cases "n = 0 \<or> t = []")
    case True
    then show ?thesis using 1(2) by (subst (asm) split_bytes.simps) (auto split: if_splits)
  next
    case False
    then obtain c v where t: "t = c # v" "n \<noteq> 0" by (cases t) auto
    then obtain q where q: "split_bytes (n - len_utf8 c) v = Some (q, u)" "p = c # q" "len_utf8 c \<le> n"
      using 1(2) by (subst (asm) split_bytes.simps) (auto split: if_splits)
    then show ?thesis using 1(1) [OF t(2,1) _ q(1)] t by simp
  qed
qed

text \<open>Between characters of ASCII text every offset up to the length is good.\<close>

lemma split_bytes_ascii: "\<forall>c \<in> set t. c < 0x80 \<Longrightarrow> n \<le> length t \<Longrightarrow> split_bytes n t = Some (take n t, drop n t)"
proof -
  assume a: "\<forall>c \<in> set t. c < 0x80" "n \<le> length t"
  have "\<forall>c \<in> set (take n t). c < 0x80" using a(1) by (meson in_set_takeD)
  then have "byte_len (take n t) = n" using byte_len_ascii a(2) by simp
  then show ?thesis using split_bytes_append [of "take n t" "drop n t"] by simp
qed

section \<open>Characters\<close>

record unicode =
  is_alphabetic :: "rchar \<Rightarrow> bool"
  is_alphanumeric :: "rchar \<Rightarrow> bool"
  char_to_lowercase :: "rchar \<Rightarrow> rstring"

text \<open>\<^verbatim>\<open>c.is_alphanumeric() || c == '_'\<close>\<close>

definition word_char :: "unicode \<Rightarrow> rchar \<Rightarrow> bool" where
  "word_char uc c \<longleftrightarrow> is_alphanumeric uc c \<or> c = cc (CHR ''_'')"

definition to_lowercase :: "unicode \<Rightarrow> rstring \<Rightarrow> rstring" where
  "to_lowercase uc t = concat (map (char_to_lowercase uc) t)"

text \<open>What the standard library documents of these for ASCII\<close>

definition unicode_ok :: "unicode \<Rightarrow> bool" where
  "unicode_ok uc \<longleftrightarrow> (\<forall>c < 0x80. is_alphabetic uc c = (is_ascii_lower c \<or> is_ascii_upper c)
     \<and> is_alphanumeric uc c = (is_ascii_lower c \<or> is_ascii_upper c \<or> is_ascii_digit c)
     \<and> char_to_lowercase uc c = [ascii_lower c])"

definition ascii_unicode :: unicode where
  "ascii_unicode = \<lparr>is_alphabetic = (\<lambda>c. is_ascii_lower c \<or> is_ascii_upper c),
     is_alphanumeric = (\<lambda>c. is_ascii_lower c \<or> is_ascii_upper c \<or> is_ascii_digit c),
     char_to_lowercase = (\<lambda>c. [ascii_lower c])\<rparr>"

lemma ascii_unicode_ok: "unicode_ok ascii_unicode"
  by (simp add: unicode_ok_def ascii_unicode_def)

section \<open>Positions\<close>

text \<open>\<^verbatim>\<open>Position\<close> and \<^verbatim>\<open>Range\<close> of the protocol: line and character from zero\<close>

record lsp_position =
  lp_line :: u32
  lp_character :: u32

record lsp_range =
  rg_start :: lsp_position
  rg_end :: lsp_position

fun pos_loop :: "lsp_position \<Rightarrow> u32 \<Rightarrow> u32 \<Rightarrow> u32 \<Rightarrow> rstring \<Rightarrow> u32" where
  "pos_loop p line col off [] = off"
| "pos_loop p line col off (c # t) =
     (if line = lp_line p \<and> col = lp_character p then off
      else if c = NL then pos_loop p (line + 1) 0 (off + of_nat (len_utf8 c)) t
      else pos_loop p line (col + 1) (off + of_nat (len_utf8 c)) t)"

definition lsp_pos_to_offset :: "rstring \<Rightarrow> lsp_position \<Rightarrow> u32" where
  "lsp_pos_to_offset src p = pos_loop p 0 0 0 src"

definition span_contains :: "span \<Rightarrow> u32 \<Rightarrow> bool" where
  "span_contains s i \<longleftrightarrow> offset (span_start s) \<le> i \<and> i \<le> offset (span_end s)"

definition saturating_pred :: "u32 \<Rightarrow> u32" where
  "saturating_pred n = (if n = 0 then 0 else n - 1)"

definition pos_to_lsp :: "pos \<Rightarrow> lsp_position" where
  "pos_to_lsp p = \<lparr>lp_line = saturating_pred (pos_line p), lp_character = saturating_pred (pos_column p)\<rparr>"

definition span_to_range :: "span \<Rightarrow> lsp_range" where
  "span_to_range s = \<lparr>rg_start = pos_to_lsp (span_start s), rg_end = pos_to_lsp (span_end s)\<rparr>"

section \<open>The offset of a position\<close>

text \<open>Line and character after a text, from a line and a character on\<close>

fun position_after :: "nat \<times> nat \<Rightarrow> rstring \<Rightarrow> nat \<times> nat" where
  "position_after lk [] = lk"
| "position_after lk (c # t) = position_after (if c = NL then (Suc (fst lk), 0) else (fst lk, Suc (snd lk))) t"

lemma position_after_moves:
  "position_after (l, k) t = (l', k') \<Longrightarrow> l \<le> l' \<and> l' \<le> l + length t \<and> k' \<le> k + length t \<and> (l' = l \<longrightarrow> k' = k + length t)"
proof (induction t arbitrary: l k)
  case (Cons c t)
  show ?case
  proof (cases "c = NL")
    case True
    then show ?thesis using Cons.IH [of "Suc l" 0] Cons.prems by simp
  next
    case False
    then show ?thesis using Cons.IH [of l "Suc k"] Cons.prems by auto
  qed
qed simp

lemma pos_loop_at: "pos_loop \<lparr>lp_line = l, lp_character = k\<rparr> l k off t = off"
  by (cases t) simp_all

lemma pos_loop_after:
  assumes "position_after (l, k) p = (l', k')" "l + length p < 2 ^ 32" "k + length p < 2 ^ 32"
  shows "pos_loop \<lparr>lp_line = of_nat l', lp_character = of_nat k'\<rparr> (of_nat l) (of_nat k) off (p @ u) = off + of_nat (byte_len p)"
  using assms
proof (induction p arbitrary: l k off)
  case Nil
  then show ?case by (simp add: pos_loop_at)
next
  case (Cons c p)
  have m: "l \<le> l'" "l' < 2 ^ 32" "k' < 2 ^ 32" "l' = l \<longrightarrow> k' = k + Suc (length p)"
    using position_after_moves [OF Cons.prems(1)] Cons.prems(2,3) by auto
  have "\<not> (of_nat l = (of_nat l' :: u32) \<and> of_nat k = (of_nat k' :: u32))"
  proof
    assume e: "of_nat l = (of_nat l' :: u32) \<and> of_nat k = (of_nat k' :: u32)"
    have "l = l'" using e m(1,2) by (auto simp: word_unat_eq_iff unat_of_nat)
    moreover have "k = k'" using e m(3) Cons.prems(3) by (auto simp: word_unat_eq_iff unat_of_nat)
    ultimately show False using m(4) by simp
  qed
  then show ?case
    using Cons.IH [of "Suc l" 0 "off + of_nat (len_utf8 c)"] Cons.IH [of l "Suc k" "off + of_nat (len_utf8 c)"] Cons.prems
    by (auto simp: add.assoc ac_simps)
qed

definition position_of :: "rstring \<Rightarrow> lsp_position" where
  "position_of p = (let (l, k) = position_after (0, 0) p in \<lparr>lp_line = of_nat l, lp_character = of_nat k\<rparr>)"

text \<open>
  A position that the client reports for a place in the text, counting lines and the characters of its line, is taken
  to the byte offset of that place, for texts of less than 2^32 characters.
\<close>

theorem position_offset_roundtrip:
  assumes "length p < 2 ^ 32"
  shows "lsp_pos_to_offset (p @ u) (position_of p) = of_nat (byte_len p)"
  using pos_loop_after [of 0 0 p _ _ 0 u] assms
  by (simp add: lsp_pos_to_offset_def position_of_def split: prod.splits)

theorem position_offset_roundtrip_witness:
  "lsp_pos_to_offset (lit ''fn f()'' @ NL # lit ''  x'' @ lit ''.y'') \<lparr>lp_line = 1, lp_character = 3\<rparr> = 10"
  using position_offset_roundtrip [of "lit ''fn f()'' @ NL # lit ''  x''" "lit ''.y''"]
  by (simp add: position_of_def len_utf8_def)

text \<open>A position behind the end of a line is taken for the end of the text, not for the end of the line.\<close>

lemma position_behind_line: "lsp_pos_to_offset [97, NL, 98, 99] \<lparr>lp_line = 0, lp_character = 2\<rparr> = 4"
  by (simp add: lsp_pos_to_offset_def len_utf8_def)

text \<open>
  The protocol counts in UTF-16 units, of which characters beyond the basic plane take two; the offsets in the tree count
  characters, not bytes. After any character that is not ASCII the three differ.
\<close>

lemma utf16_differs: "lsp_pos_to_offset [0x1F600, 97, 98] \<lparr>lp_line = 0, lp_character = 2\<rparr> = 5"
  by (simp add: lsp_pos_to_offset_def len_utf8_def)

end
