(* ===== verification/Tinox_Lsp_Show.thy ===== *)
theory Tinox_Lsp_Show
  imports Tinox_Lsp_Text
begin

text \<open>
  What the language server (\<^verbatim>\<open>src/crates/tinox-lsp/src/analysis.rs\<close>) shows of types, literals, signatures
  and documentation, and its registry of the classes with their members. Types look as the formatter prints them.
\<close>

section \<open>Helpers\<close>

text \<open>\<^verbatim>\<open>a.or_else(|| b)\<close>, and the first of a list\<close>

definition or_try :: "'a option \<Rightarrow> 'a option \<Rightarrow> 'a option" where
  "or_try a b = (case a of Some x \<Rightarrow> Some x | None \<Rightarrow> b)"

primrec first_some :: "'a option list \<Rightarrow> 'a option" where
  "first_some [] = None"
| "first_some (x # xs) = or_try x (first_some xs)"

lemma or_try_simps [simp]: "or_try (Some x) b = Some x" "or_try None b = b" "or_try a None = a"
  by (auto simp: or_try_def split: option.splits)

lemma or_try_Some: "or_try a b = Some x \<longleftrightarrow> a = Some x \<or> a = None \<and> b = Some x"
  by (cases a) auto

lemma first_some_in: "first_some xs = Some x \<Longrightarrow> Some x \<in> set xs"
  by (induction xs) (auto simp: or_try_Some)

section \<open>Types and signatures\<close>

primrec type_str :: "ty \<Rightarrow> rstring" where
  "type_str Ty_Int8 = lit ''Int8''"
| "type_str Ty_Int16 = lit ''Int16''"
| "type_str Ty_Int32 = lit ''Int32''"
| "type_str Ty_Int64 = lit ''Int64''"
| "type_str Ty_UInt8 = lit ''UInt8''"
| "type_str Ty_UInt16 = lit ''UInt16''"
| "type_str Ty_UInt32 = lit ''UInt32''"
| "type_str Ty_UInt64 = lit ''UInt64''"
| "type_str Ty_Float32 = lit ''Float32''"
| "type_str Ty_Float64 = lit ''Float64''"
| "type_str Ty_Bool = lit ''Bool''"
| "type_str Ty_String = lit ''String''"
| "type_str Ty_Char = lit ''Char''"
| "type_str Ty_Nothing = lit ''Nothing''"
| "type_str Ty_Never = lit ''Never''"
| "type_str Ty_Any = lit ''Any''"
| "type_str Ty_Infer = lit ''_''"
| "type_str (Ty_Named n) = n"
| "type_str (Ty_Array t) = lit ''Array<'' @ type_str t @ lit ''>''"
| "type_str (Ty_Tuple ts) = lit ''('' @ commas (map type_str ts) @ lit '')''"
| "type_str (Ty_Fn ps r) = lit ''fn('' @ commas (map type_str ps) @ lit '') -> '' @ type_str r"
| "type_str (Ty_Generic n args) = n @ lit ''<'' @ commas (map type_str args) @ lit ''>''"
| "type_str (Ty_Map k v) = lit ''Map<'' @ type_str k @ lit '', '' @ type_str v @ lit ''>''"
| "type_str (Ty_Mutable t) = lit ''mut '' @ type_str t"
| "type_str (Ty_Ref t) = lit ''&'' @ type_str t"
| "type_str (Ty_Nullable t) = type_str t @ lit ''?''"

text \<open>Two functions of two crates: they agree.\<close>

lemma type_str_formats: "type_str t = fmt_type t"
  by (induction t) (simp_all cong: map_cong)

text \<open>\<^verbatim>\<open>{:02x}\<close>\<close>

definition hex2 :: "u8 \<Rightarrow> rstring" where
  "hex2 b = [digit_char (unat b div 16), digit_char (unat b mod 16)]"

fun literal_str :: "literal \<Rightarrow> rstring" where
  "literal_str (Lit_Integer n) = show_int n"
| "literal_str (Lit_Float f) = show_f64 f"
| "literal_str (Lit_String s) = [DQUOTE] @ s @ [DQUOTE]"
| "literal_str (Lit_Bool b) = (if b then lit ''true'' else lit ''false'')"
| "literal_str (Lit_Char c) = [QUOTE_CHAR, c, QUOTE_CHAR]"
| "literal_str (Lit_Byte b) = lit ''0x'' @ hex2 b"
| "literal_str Lit_Null = lit ''null''"

definition typed_name :: "ident \<Rightarrow> ty \<Rightarrow> rstring" where
  "typed_name n t = n @ lit '': '' @ type_str t"

definition param_list :: "param list \<Rightarrow> rstring" where
  "param_list ps = commas (map (\<lambda>p. typed_name (param_name p) (param_type p)) ps)"

definition fn_signature :: "function_def \<Rightarrow> rstring" where
  "fn_signature f = (if fn_is_async f then lit ''async '' else []) @ lit ''fn '' @ fn_name f @ lit ''('' @ param_list (fn_params f)
     @ lit '') -> '' @ type_str (fn_ret_type f)"

definition method_signature :: "ident \<Rightarrow> method_def \<Rightarrow> rstring" where
  "method_signature c m = c @ lit ''.'' @ me_name m @ lit ''('' @ param_list (me_params m) @ lit '') -> '' @ type_str (me_ret_type m)"

definition immutable_signature :: "immutable_decl \<Rightarrow> rstring" where
  "immutable_signature u = lit ''immutable '' @ im_name u @ lit ''('' @ param_list (im_fields u) @ lit '')''"

section \<open>Documentation\<close>

text \<open>\<^verbatim>\<open>t.trim_end_matches(p)\<close> for a text \<open>p\<close>\<close>

function trim_suffixes :: "rstring \<Rightarrow> rstring \<Rightarrow> rstring" where
  "trim_suffixes p t = (if p \<noteq> [] \<and> ends_with p t then trim_suffixes p (take (length t - length p) t) else t)"
  by auto
termination
proof (relation "measure (\<lambda>(p, t). length t)")
  fix p t :: rstring
  assume "p \<noteq> [] \<and> ends_with p t"
  then have "0 < length p" "length p \<le> length t" by (auto simp: ends_with_def)
  then have "length t - length p < length t" by linarith
  then show "((p, take (length t - length p) t), (p, t)) \<in> measure (\<lambda>(p, t). length t)" by simp
qed simp

declare trim_suffixes.simps [simp del]

definition trim_str_end :: "rstring \<Rightarrow> rstring" where
  "trim_str_end = trim_end_by is_whitespace"

definition doc_line :: "rstring \<Rightarrow> rstring" where
  "doc_line l =
     (let trimmed = trim l in
      if trimmed = [] then [NL]
      else let cleaned = trim (trim_suffixes (lit ''*/'') (dropWhile (\<lambda>c. c = cc (CHR ''*'')) trimmed)) in
        if cleaned = [] then [] else cleaned @ [NL])"

definition format_doc :: "rstring \<Rightarrow> rstring" where
  "format_doc doc =
     (if length (lines doc) \<le> 1 then trim doc else trim_str_end (concat (map doc_line (lines doc))))"

text \<open>What a declaration shows, with its documentation behind a rule\<close>

definition with_doc :: "rstring \<Rightarrow> rstring option \<Rightarrow> rstring" where
  "with_doc content doc = content @ (case doc of None \<Rightarrow> [] | Some d \<Rightarrow> [NL, NL] @ lit ''---'' @ [NL, NL] @ format_doc d)"

section \<open>The registry of classes\<close>

record field_info =
  fi_name :: ident
  fi_type_name :: rstring
  fi_doc :: "rstring option"

record method_info =
  mi_name :: ident
  mi_signature :: rstring
  mi_doc :: "rstring option"

record class_info =
  info_fields :: "field_info list"
  info_methods :: "method_info list"

type_synonym type_registry = "ident \<rightharpoonup> class_info"

definition field_to_info :: "field_def \<Rightarrow> field_info" where
  "field_to_info f = \<lparr>fi_name = fd_name f, fi_type_name = type_str (fd_type f), fi_doc = fd_doc f\<rparr>"

definition method_to_info :: "method_def \<Rightarrow> method_info" where
  "method_to_info m = \<lparr>mi_name = me_name m,
     mi_signature = (if me_static m then lit ''fnc'' else lit ''fn'') @ lit '' '' @ me_name m @ lit ''('' @ param_list (me_params m)
       @ lit '') -> '' @ type_str (me_ret_type m),
     mi_doc = me_doc m\<rparr>"

definition class_to_info :: "class_def \<Rightarrow> class_info" where
  "class_to_info c = \<lparr>info_fields = map field_to_info (cl_fields c), info_methods = map method_to_info (cl_methods c)\<rparr>"

definition clone_class_info :: "class_info \<Rightarrow> class_info" where
  "clone_class_info i = \<lparr>
     info_fields = map (\<lambda>f. \<lparr>fi_name = fi_name f, fi_type_name = fi_type_name f, fi_doc = fi_doc f\<rparr>) (info_fields i),
     info_methods = map (\<lambda>m. \<lparr>mi_name = mi_name m, mi_signature = mi_signature m, mi_doc = mi_doc m\<rparr>) (info_methods i)\<rparr>"

lemma clone_class_info_id: "clone_class_info i = i"
  by (cases i) (simp add: clone_class_info_def map_idI)

primrec collect_classes_from_decl :: "decl_kind \<Rightarrow> type_registry \<Rightarrow> type_registry" where
  "collect_classes_from_decl (D_Function f) = id"
| "collect_classes_from_decl (D_Class c) = (\<lambda>r. r(cl_name c \<mapsto> class_to_info c))"
| "collect_classes_from_decl (D_Interface i) = id"
| "collect_classes_from_decl (D_Enum e) = id"
| "collect_classes_from_decl (D_Trait t) = id"
| "collect_classes_from_decl (D_Import i) = id"
| "collect_classes_from_decl (D_Module n) = id"
| "collect_classes_from_decl (D_Namespace ns) = fold node (ns_decls (map_namespace (map_spanned collect_classes_from_decl) ns))"
| "collect_classes_from_decl (D_Immutable u) = id"

definition build_registry_from_source :: "source_file \<Rightarrow> type_registry" where
  "build_registry_from_source sf = fold (\<lambda>d. collect_classes_from_decl (node d)) (sf_decls sf) Map.empty"

text \<open>\<^verbatim>\<open>registry.entry(name).or_insert(info)\<close> for every class of another registry, in any order\<close>

definition add_missing :: "type_registry \<Rightarrow> type_registry \<Rightarrow> type_registry" where
  "add_missing new r = new ++ r"

text \<open>The registry has the classes at every depth of namespaces, the last of each name.\<close>

primrec declared_classes :: "decl_kind \<Rightarrow> class_def list" where
  "declared_classes (D_Function f) = []"
| "declared_classes (D_Class c) = [c]"
| "declared_classes (D_Interface i) = []"
| "declared_classes (D_Enum e) = []"
| "declared_classes (D_Trait t) = []"
| "declared_classes (D_Import i) = []"
| "declared_classes (D_Module n) = []"
| "declared_classes (D_Namespace ns) = concat (map node (ns_decls (map_namespace (map_spanned declared_classes) ns)))"
| "declared_classes (D_Immutable u) = []"

definition insert_class :: "class_def \<Rightarrow> type_registry \<Rightarrow> type_registry" where
  "insert_class c r = r(cl_name c \<mapsto> class_to_info c)"

lemma fold_concat_map: "(\<And>x. x \<in> set xs \<Longrightarrow> g x = fold f (h x)) \<Longrightarrow> fold (\<lambda>x. g x) xs = fold f (concat (map h xs))"
  by (induction xs) auto

lemma collect_classes: "collect_classes_from_decl d = fold insert_class (declared_classes d)"
proof (induction d)
  case (D_Namespace ns)
  have "fold (\<lambda>x. collect_classes_from_decl (node x)) (ns_decls ns)
      = fold insert_class (concat (map (\<lambda>x. declared_classes (node x)) (ns_decls ns)))"
  proof (rule fold_concat_map)
    fix x assume "x \<in> set (ns_decls ns)"
    then have "x \<in> set_namespace ns" by (cases ns) simp
    moreover have "node x \<in> set_spanned x" by (cases x) simp
    ultimately show "collect_classes_from_decl (node x) = fold insert_class (declared_classes (node x))"
      by (rule D_Namespace)
  qed
  then show ?case by (simp add: namespace.map_sel spanned.map_sel fold_map comp_def)
qed (auto simp: insert_class_def fun_eq_iff)

lemma registry_classes:
  "build_registry_from_source sf = fold insert_class (concat (map (\<lambda>d. declared_classes (node d)) (sf_decls sf))) Map.empty"
  unfolding build_registry_from_source_def by (simp add: fold_concat_map [OF collect_classes])

end
