(* ===== verification/Tinox_Lsp_Catalog.thy ===== *)
theory Tinox_Lsp_Catalog
  imports Tinox_Lsp_Show
begin

text \<open>
  What the language server (\<^verbatim>\<open>src/crates/tinox-lsp/src/analysis.rs\<close>) knows without a program: keywords, built-in
  functions and annotations with their documentation, and the items it offers for completion. Of the protocol's
  items the parts that the server sets are kept.
\<close>

section \<open>Items\<close>

datatype item_kind =
  K_Keyword | K_Value | K_Function | K_Method | K_Class | K_Struct | K_Enum | K_EnumMember | K_Interface | K_Field

record completion_item =
  it_label :: rstring
  it_kind :: item_kind
  it_detail :: "rstring option"
  it_documentation :: "rstring option"
  it_insert_text :: "rstring option"
  it_snippet :: bool

definition item_new :: "rstring \<Rightarrow> item_kind \<Rightarrow> rstring option \<Rightarrow> rstring option \<Rightarrow> completion_item" where
  "item_new label kind detail doc = \<lparr>it_label = label, it_kind = kind, it_detail = detail, it_documentation = doc,
     it_insert_text = None, it_snippet = False\<rparr>"

section \<open>Keywords and functions\<close>

definition lsp_keywords :: "(rstring \<times> item_kind) list" where
  "lsp_keywords = [(lit ''fn'', K_Keyword),
     (lit ''let'', K_Keyword),
     (lit ''var'', K_Keyword),
     (lit ''return'', K_Keyword),
     (lit ''if'', K_Keyword),
     (lit ''else'', K_Keyword),
     (lit ''while'', K_Keyword),
     (lit ''for'', K_Keyword),
     (lit ''in'', K_Keyword),
     (lit ''loop'', K_Keyword),
     (lit ''break'', K_Keyword),
     (lit ''continue'', K_Keyword),
     (lit ''class'', K_Keyword),
     (lit ''interface'', K_Keyword),
     (lit ''enum'', K_Keyword),
     (lit ''extends'', K_Keyword),
     (lit ''implements'', K_Keyword),
     (lit ''new'', K_Keyword),
     (lit ''this'', K_Keyword),
     (lit ''match'', K_Keyword),
     (lit ''try'', K_Keyword),
     (lit ''catch'', K_Keyword),
     (lit ''finally'', K_Keyword),
     (lit ''import'', K_Keyword),
     (lit ''async'', K_Keyword),
     (lit ''spawn'', K_Keyword),
     (lit ''await'', K_Keyword),
     (lit ''send'', K_Keyword),
     (lit ''recv'', K_Keyword),
     (lit ''channel'', K_Keyword),
     (lit ''true'', K_Value),
     (lit ''false'', K_Value),
     (lit ''null'', K_Value)]"

definition lsp_builtins :: "(rstring \<times> rstring) list" where
  "lsp_builtins = [(lit ''println'', lit ''println(value: Any)''),
     (lit ''print'', lit ''print(value: Any)''),
     (lit ''assert'', lit ''assert(cond: Bool)''),
     (lit ''exit'', lit ''exit(code: Int64)''),
     (lit ''abs'', lit ''abs(x: Int64) -> Int64''),
     (lit ''min'', lit ''min(a: Int64, b: Int64) -> Int64''),
     (lit ''max'', lit ''max(a: Int64, b: Int64) -> Int64''),
     (lit ''sqrt'', lit ''sqrt(x: Float64) -> Float64''),
     (lit ''pow'', lit ''pow(x: Float64, y: Float64) -> Float64''),
     (lit ''floor'', lit ''floor(x: Float64) -> Float64''),
     (lit ''ceil'', lit ''ceil(x: Float64) -> Float64''),
     (lit ''round'', lit ''round(x: Float64) -> Float64'')]"

section \<open>Annotations\<close>

record annotation_meta =
  am_name :: rstring
  am_detail :: rstring
  am_doc :: rstring
  am_insert :: rstring
  am_target :: rstring

definition lsp_annotations :: "annotation_meta list" where
  "lsp_annotations = [
     \<lparr>am_name = lit ''Command'', am_detail = lit ''CLI entry point'',
       am_doc = lit ''Marks a class as a CLI command.  '' @ [NL] @ lit ''**Args:** `name`, `description`[, `version`]'',
       am_insert = lit ''(\"${1:name}\", \"${2:description}\")'', am_target = lit ''class''\<rparr>,
     \<lparr>am_name = lit ''Option'', am_detail = lit ''CLI option'',
       am_doc = lit ''Binds a field to a command-line option.  '' @ [NL] @ lit ''**Args:** `\"--long,-s\"`, `\"description\"`[, `required`]'',
       am_insert = lit ''(\"${1:--name,-n}\", \"${2:description}\")'', am_target = lit ''field''\<rparr>,
     \<lparr>am_name = lit ''Argument'', am_detail = lit ''Positional CLI argument'',
       am_doc = lit ''Binds a field to a positional argument.  '' @ [NL] @ lit ''**Args:** `index`, `\"description\"`'',
       am_insert = lit ''(${1:0}, \"${2:description}\")'', am_target = lit ''field''\<rparr>,
     \<lparr>am_name = lit ''Test'', am_detail = lit ''Unit test method'',
       am_doc = lit ''Marks a method as a test case.  '' @ [NL] @ lit ''Return `true` to pass, `false` to fail.'',
       am_insert = lit ''(\"${1:test description}\")'', am_target = lit ''method''\<rparr>,
     \<lparr>am_name = lit ''GET'', am_detail = lit ''HTTP GET route'',
       am_doc = lit ''Maps the method to a GET endpoint.'',
       am_insert = [], am_target = lit ''method''\<rparr>,
     \<lparr>am_name = lit ''POST'', am_detail = lit ''HTTP POST route'',
       am_doc = lit ''Maps the method to a POST endpoint.'',
       am_insert = [], am_target = lit ''method''\<rparr>,
     \<lparr>am_name = lit ''PUT'', am_detail = lit ''HTTP PUT route'',
       am_doc = lit ''Maps the method to a PUT endpoint.'',
       am_insert = [], am_target = lit ''method''\<rparr>,
     \<lparr>am_name = lit ''DELETE'', am_detail = lit ''HTTP DELETE route'',
       am_doc = lit ''Maps the method to a DELETE endpoint.'',
       am_insert = [], am_target = lit ''method''\<rparr>,
     \<lparr>am_name = lit ''Path'', am_detail = lit ''URL path prefix'',
       am_doc = lit ''Sets the URL path for a controller class or route method.  '' @ [NL] @ lit ''**Arg:** `\"/path\"`'',
       am_insert = lit ''(\"${1:/path}\")'', am_target = lit ''class or method''\<rparr>,
     \<lparr>am_name = lit ''StatusCode'', am_detail = lit ''HTTP status code'',
       am_doc = lit ''Sets the default HTTP status code.  '' @ [NL] @ lit ''**Arg:** integer'',
       am_insert = lit ''(${1:200})'', am_target = lit ''method''\<rparr>,
     \<lparr>am_name = lit ''ApplicationComponent'', am_detail = lit ''Singleton DI component'',
       am_doc = lit ''One instance per application lifetime (lazy singleton).'',
       am_insert = [], am_target = lit ''class''\<rparr>,
     \<lparr>am_name = lit ''Startup'', am_detail = lit ''Eager singleton DI component'',
       am_doc = lit ''Created immediately at application startup.'',
       am_insert = [], am_target = lit ''class''\<rparr>,
     \<lparr>am_name = lit ''HttpRequestScoped'', am_detail = lit ''Per-request DI component'',
       am_doc = lit ''A fresh instance is created for each HTTP request.'',
       am_insert = [], am_target = lit ''class''\<rparr>,
     \<lparr>am_name = lit ''Inject'', am_detail = lit ''DI field injection'',
       am_doc = lit ''Marks a field for compile-time dependency injection.'',
       am_insert = [], am_target = lit ''field''\<rparr>,
     \<lparr>am_name = lit ''Config'', am_detail = lit ''application.properties injection'',
       am_doc = lit ''Injects a value from `application.properties`.  '' @ [NL] @ lit ''**Arg:** `\"key\"`'',
       am_insert = lit ''(\"${1:config.key}\")'', am_target = lit ''field''\<rparr>,
     \<lparr>am_name = lit ''Log'', am_detail = lit ''Logger injection'',
       am_doc = lit ''Injects a `log: Logger` field initialized with the class name.'',
       am_insert = [], am_target = lit ''class''\<rparr>,
     \<lparr>am_name = lit ''PATCH'', am_detail = lit ''HTTP PATCH route'',
       am_doc = lit ''Maps the method to a PATCH endpoint.'',
       am_insert = [], am_target = lit ''method''\<rparr>,
     \<lparr>am_name = lit ''Auth'', am_detail = lit ''HTTP authentication'',
       am_doc = lit ''Requires authentication on this route or controller.  '' @ [NL] @ lit ''**Arg:** `\"bearer\"` or `\"basic\"`'',
       am_insert = lit ''(\"${1:bearer}\")'', am_target = lit ''class or method''\<rparr>,
     \<lparr>am_name = lit ''Produces'', am_detail = lit ''Response Content-Type'',
       am_doc = lit ''Sets the `Content-Type` header of the response.  '' @ [NL] @ lit ''**Arg:** MIME type string, e.g. `\"application/json\"`'',
       am_insert = lit ''(\"${1:application/json}\")'', am_target = lit ''method''\<rparr>,
     \<lparr>am_name = lit ''Consumes'', am_detail = lit ''Accepted request Content-Type'',
       am_doc = lit ''Declares the expected `Content-Type` of the request body.  '' @ [NL] @ lit ''**Arg:** MIME type string, e.g. `\"application/json\"`'',
       am_insert = lit ''(\"${1:application/json}\")'', am_target = lit ''method''\<rparr>,
     \<lparr>am_name = lit ''Sensitive'', am_detail = lit ''Fully mask field in logs'',
       am_doc = lit ''Marks a field as sensitive.  '' @ [NL] @ lit ''The value is replaced with `***` in all log output.'',
       am_insert = [], am_target = lit ''field''\<rparr>,
     \<lparr>am_name = lit ''Masked'', am_detail = lit ''Partially mask field in logs'',
       am_doc = lit ''Marks a field for partial masking in log output.  '' @ [NL] @ lit ''Optional **args:** `visibleStart`, `visibleEnd` (default 2, 2).'',
       am_insert = [], am_target = lit ''field''\<rparr>,
     \<lparr>am_name = lit ''DoNotSerialize'', am_detail = lit ''Exclude field from serialization'',
       am_doc = lit ''Excludes the field from JSON/XML serialization.  '' @ [NL] @ lit ''The field is omitted when `toJson()` or `toXml()` is called.'',
       am_insert = [], am_target = lit ''field''\<rparr>,
     \<lparr>am_name = lit ''JsonSerializable'', am_detail = lit ''Generate toJson() method'',
       am_doc = lit ''Generates a `toJson(): String` method for the class.  '' @ [NL] @ lit ''Respects `@DoNotSerialize` on individual fields.'',
       am_insert = [], am_target = lit ''class''\<rparr>,
     \<lparr>am_name = lit ''annotation'', am_detail = lit ''Define a custom annotation'',
       am_doc = lit ''Marks a class as a custom annotation definition.  '' @ [NL] @ lit ''Instances of this class can then be used as `@ClassName` on other declarations.'',
       am_insert = [], am_target = lit ''class''\<rparr>,
     \<lparr>am_name = lit ''inline'', am_detail = lit ''Inline hint'',
       am_doc = lit ''Hints to the compiler that this function or method should be inlined.'',
       am_insert = [], am_target = lit ''fn or method''\<rparr>,
     \<lparr>am_name = lit ''deprecated'', am_detail = lit ''Deprecation marker'',
       am_doc = lit ''Marks the declaration as deprecated.  '' @ [NL] @ lit ''Optional **arg:** deprecation message.'',
       am_insert = lit ''(\"${1:use X instead}\")'', am_target = lit ''class, fn, or method''\<rparr>]"

text \<open>The dash is the character U+2014.\<close>

definition annotation_item :: "annotation_meta \<Rightarrow> completion_item" where
  "annotation_item a = \<lparr>it_label = am_name a, it_kind = K_Keyword,
     it_detail = Some (lit ''@'' @ am_name a @ lit '' '' @ [0x2014] @ lit '' '' @ am_detail a @ lit '' ['' @ am_target a @ lit '']''),
     it_documentation = Some (am_doc a),
     it_insert_text = Some (if am_insert a = [] then am_name a else am_name a @ am_insert a), it_snippet = True\<rparr>"

definition annotation_items :: "completion_item list" where
  "annotation_items = map annotation_item lsp_annotations"

definition annotation_text :: "annotation_meta \<Rightarrow> rstring" where
  "annotation_text a = lit ''**@'' @ am_name a @ lit ''** '' @ [0x2014] @ lit '' '' @ am_detail a @ lit ''  '' @ [NL, NL]
     @ lit ''Target: `'' @ am_target a @ lit ''`  '' @ [NL, NL] @ am_doc a"

definition annotation_doc :: "ident \<Rightarrow> rstring option" where
  "annotation_doc n = map_option annotation_text (find (\<lambda>a. am_name a = n) lsp_annotations)"

end
