(* ===== verification/Tinox_Lsp_Complete.thy ===== *)
theory Tinox_Lsp_Complete
  imports Tinox_Lsp_Catalog
begin

text \<open>
  Completion in the language server (\<^verbatim>\<open>src/crates/tinox-lsp/src/analysis.rs\<close>): after \<^verbatim>\<open>@\<close> the annotations, after a chain
  of names and dots the members of its type, otherwise everything. A slice inside of a character panics: the outer
  option of a result. Shown is that the chain before the cursor is read back, and that completion never panics in ASCII text.
\<close>

section \<open>Everything\<close>

definition doc_of :: "rstring option \<Rightarrow> rstring option" where
  "doc_of = map_option format_doc"

definition decl_items :: "decl \<Rightarrow> completion_item list" where
  "decl_items d = (case node d of
       D_Function f \<Rightarrow> [item_new (fn_name f) K_Function (Some (fn_signature f)) (doc_of (fn_doc f))]
     | D_Class c \<Rightarrow> [item_new (cl_name c) K_Class (Some (lit ''class '' @ cl_name c)) (doc_of (cl_doc c))]
     | D_Immutable u \<Rightarrow> [item_new (im_name u) K_Struct (Some (immutable_signature u)) None]
     | D_Enum e \<Rightarrow> item_new (en_name e) K_Enum None (doc_of (en_doc e))
         # map (\<lambda>v. item_new (en_name e @ lit ''.'' @ ev_name v) K_EnumMember None (doc_of (ev_doc v))) (en_variants e)
     | D_Interface n \<Rightarrow> [item_new (if_name n) K_Interface (Some (lit ''interface '' @ if_name n)) (doc_of (if_doc n))]
     | _ \<Rightarrow> [])"

definition completions :: "source_file \<Rightarrow> completion_item list" where
  "completions sf = map (\<lambda>(k, c). item_new k c None None) lsp_keywords
     @ map (\<lambda>(n, d). item_new n K_Function (Some d) None) lsp_builtins
     @ concat (map decl_items (sf_decls sf))"

definition member_completions :: "class_info \<Rightarrow> completion_item list" where
  "member_completions i = map (\<lambda>f. item_new (fi_name f) K_Field (Some (fi_type_name f)) (fi_doc f)) (info_fields i)
     @ map (\<lambda>m. item_new (mi_name m) K_Method (Some (mi_signature m)) (mi_doc m)) (info_methods i)"

section \<open>Before the cursor\<close>

abbreviation DOT :: rchar where "DOT \<equiv> 46"
abbreviation AT :: rchar where "AT \<equiv> 64"

text \<open>The last word of a text, and what precedes it\<close>

definition word_end :: "unicode \<Rightarrow> rstring \<Rightarrow> rstring" where
  "word_end uc t = rev (takeWhile (word_char uc) (rev t))"

definition word_begin :: "unicode \<Rightarrow> rstring \<Rightarrow> rstring" where
  "word_begin uc = trim_end_by (word_char uc)"

definition annotation_completions_at :: "unicode \<Rightarrow> rstring \<Rightarrow> completion_item list option" where
  "annotation_completions_at uc t =
     (let b = word_begin uc t in
      if b \<noteq> [] \<and> last b = AT
      then Some (filter (\<lambda>i. starts_with (to_lowercase uc (drop (length b) t)) (to_lowercase uc (it_label i))) annotation_items)
      else None)"

text \<open>
  The start of the word is taken for the byte after the first byte of the character before it: the
  slice panics if that character has more bytes.
\<close>

definition word_start_ok :: "rstring \<Rightarrow> bool" where
  "word_start_ok b \<longleftrightarrow> b = [] \<or> len_utf8 (last b) = 1"

lemma trim_end_by_length: "length (trim_end_by p t) \<le> length t"
  unfolding trim_end_by_def by (metis length_dropWhile_le length_rev)

function chain_loop :: "unicode \<Rightarrow> rstring \<Rightarrow> ident list \<Rightarrow> ident list option" where
  "chain_loop uc t chain =
     (let r = trim_str_end t; w = word_end uc r; b = word_begin uc r; before = trim_str_end b in
      if \<not> word_start_ok b then None
      else if w = [] \<or> \<not> (is_alphabetic uc (hd w) \<or> hd w = cc (CHR ''_'')) then Some chain
      else if before \<noteq> [] \<and> last before = DOT then chain_loop uc (butlast before) (w # chain)
      else Some (w # chain))"
  by auto

termination
proof (relation "measure (\<lambda>(uc, t, chain). length t)")
  fix uc and t r w b before :: rstring and chain :: "ident list"
  assume "r = trim_str_end t" "b = word_begin uc r" "before = trim_str_end b" and n: "before \<noteq> [] \<and> last before = DOT"
  then have "length before \<le> length t"
    unfolding word_begin_def trim_str_end_def by (meson le_trans trim_end_by_length)
  moreover have "length (butlast before) < length before" using n by (cases before) auto
  ultimately show "((uc, butlast before, w # chain), (uc, t, chain)) \<in> measure (\<lambda>(uc, t, chain). length t)" by simp
qed simp

declare chain_loop.simps [simp del]

definition is_blank :: "rchar \<Rightarrow> bool" where
  "is_blank c \<longleftrightarrow> c = 32 \<or> c = TAB"

definition extract_dot_chain :: "unicode \<Rightarrow> rstring \<Rightarrow> ident list option option" where
  "extract_dot_chain uc t =
     (let b = word_begin uc (trim_end_by is_blank t) in
      if b = [] \<or> last b \<noteq> DOT then Some None
      else map_option (\<lambda>chain. if chain = [] then None else Some chain) (chain_loop uc (butlast b) []))"

section \<open>The type of a chain\<close>

fun infer_type_from_expr :: "expr_kind \<Rightarrow> rstring option" where
  "infer_type_from_expr (E_New c ts args) = Some c"
| "infer_type_from_expr e = None"

definition binding_type :: "ident \<Rightarrow> ident \<Rightarrow> ty option \<Rightarrow> expr option \<Rightarrow> rstring option" where
  "binding_type name n t v =
     (if n = name then
        (case t of Some x \<Rightarrow> Some (type_str x)
         | None \<Rightarrow> (case v of Some e \<Rightarrow> infer_type_from_expr (node e) | None \<Rightarrow> None))
      else None)"

primrec find_var :: "stmt_kind \<Rightarrow> ident \<Rightarrow> rstring option" where
  "find_var (S_Block ss) = (\<lambda>name. first_some (map (\<lambda>s. node s name) (map (map_spanned find_var) ss)))"
| "find_var (S_Let n t v) = (\<lambda>name. binding_type name n t v)"
| "find_var (S_Var n t v mu) = (\<lambda>name. binding_type name n t v)"
| "find_var (S_If c t e) = (\<lambda>name. or_try (node (map_spanned find_var t) name)
     (Option.bind (map_option (map_spanned find_var) e) (\<lambda>s. node s name)))"
| "find_var (S_While c b) = node (map_spanned find_var b)"
| "find_var (S_Loop b) = node (map_spanned find_var b)"
| "find_var (S_For x it b) = node (map_spanned find_var b)"
| "find_var (S_Expr e) = (\<lambda>name. None)"
| "find_var (S_Assignment t v) = (\<lambda>name. None)"
| "find_var (S_ForC a c u b) = (\<lambda>name. None)"
| "find_var (S_Return v) = (\<lambda>name. None)"
| "find_var S_Break = (\<lambda>name. None)"
| "find_var S_Continue = (\<lambda>name. None)"
| "find_var (S_Throw e) = (\<lambda>name. None)"
| "find_var (S_Try b cs f) = (\<lambda>name. None)"
| "find_var (S_Defer b) = (\<lambda>name. None)"
| "find_var (S_Select arms d) = (\<lambda>name. None)"
| "find_var S_Empty = (\<lambda>name. None)"

definition find_var_in_stmt :: "stmt \<Rightarrow> ident \<Rightarrow> rstring option" where
  "find_var_in_stmt s = find_var (node s)"

definition var_type_in :: "param list \<Rightarrow> stmt \<Rightarrow> ident \<Rightarrow> rstring option" where
  "var_type_in ps b name = or_try (map_option (\<lambda>p. type_str (param_type p)) (find (\<lambda>p. param_name p = name) ps)) (find_var_in_stmt b name)"

definition resolve_var_type :: "source_file \<Rightarrow> ident \<Rightarrow> rstring option" where
  "resolve_var_type sf name = first_some (map (\<lambda>d. case node d of
       D_Function f \<Rightarrow> var_type_in (fn_params f) (fn_body f) name
     | D_Class c \<Rightarrow> if name = lit ''this'' then Some (cl_name c)
         else first_some (map (\<lambda>m. var_type_in (me_params m) (me_body m) name) (cl_methods c))
     | _ \<Rightarrow> None) (sf_decls sf))"

fun walk_fields :: "type_registry \<Rightarrow> rstring \<Rightarrow> ident list \<Rightarrow> rstring option" where
  "walk_fields reg t [] = Some t"
| "walk_fields reg t (f # fs) = Option.bind (reg t) (\<lambda>i.
     Option.bind (find (\<lambda>x. fi_name x = f) (info_fields i)) (\<lambda>x. walk_fields reg (fi_type_name x) fs))"

definition resolve_chain_type :: "source_file \<Rightarrow> type_registry \<Rightarrow> ident list \<Rightarrow> rstring option" where
  "resolve_chain_type sf reg chain = (case chain of
       [] \<Rightarrow> None
     | n # fs \<Rightarrow> Option.bind (or_try (resolve_var_type sf n) (if reg n \<noteq> None then Some n else None))
         (\<lambda>t. walk_fields reg t fs))"

section \<open>At the cursor\<close>

definition completions_at :: "unicode \<Rightarrow> source_file \<Rightarrow> rstring \<Rightarrow> u32 \<Rightarrow> type_registry \<Rightarrow> completion_item list option" where
  "completions_at uc sf t i stdlib =
     Option.bind (bytes_upto (unat (min i (of_nat (byte_len t)))) t) (\<lambda>before.
       case annotation_completions_at uc before of
         Some items \<Rightarrow> Some items
       | None \<Rightarrow> map_option (\<lambda>chain.
           let reg = add_missing (map_option clone_class_info \<circ> stdlib) (build_registry_from_source sf) in
           case Option.bind chain (\<lambda>ns. Option.bind (resolve_chain_type sf reg ns) reg) of
             Some info \<Rightarrow> member_completions info
           | None \<Rightarrow> completions sf) (extract_dot_chain uc before))"

section \<open>Reading a chain back\<close>

definition ident_char :: "rchar \<Rightarrow> bool" where
  "ident_char c \<longleftrightarrow> is_ascii_lower c \<or> is_ascii_upper c \<or> is_ascii_digit c \<or> c = cc (CHR ''_'')"

definition ident_word :: "rstring \<Rightarrow> bool" where
  "ident_word w \<longleftrightarrow> w \<noteq> [] \<and> list_all ident_char w \<and> \<not> is_ascii_digit (hd w)"

definition dotted :: "ident list \<Rightarrow> rstring" where
  "dotted ws = concat (map (\<lambda>w. w @ [DOT]) ws)"

text \<open>What may precede a chain: nothing, or a text that ends with a one-byte character that is not part of a word, and
  in which no dot is the last character but white space.\<close>

definition chain_context :: "unicode \<Rightarrow> rstring \<Rightarrow> bool" where
  "chain_context uc p \<longleftrightarrow> (p = [] \<or> \<not> word_char uc (last p) \<and> len_utf8 (last p) = 1)
     \<and> (trim_str_end p = [] \<or> last (trim_str_end p) \<noteq> DOT)"

lemma trim_end_by_keeps: "t \<noteq> [] \<Longrightarrow> \<not> p (last t) \<Longrightarrow> trim_end_by p t = t"
  by (cases t rule: rev_cases) (auto simp: trim_end_by_def)

lemma word_split:
  assumes "list_all (word_char uc) w" "b = [] \<or> \<not> word_char uc (last b)"
  shows "word_end uc (b @ w) = w" "word_begin uc (b @ w) = b"
proof -
  have "takeWhile (word_char uc) (rev b) = []" "dropWhile (word_char uc) (rev b) = rev b"
    using assms(2) by (cases b rule: rev_cases; simp)+
  moreover have "\<forall>c \<in> set (rev w). word_char uc c" using assms(1) by (simp add: list_all_iff)
  ultimately show "word_end uc (b @ w) = w" "word_begin uc (b @ w) = b"
    using takeWhile_append2 [of "rev w" "word_char uc" "rev b"] dropWhile_append2 [of "rev w" "word_char uc" "rev b"]
    by (auto simp: word_end_def word_begin_def trim_end_by_def)
qed

lemma ident_char_facts:
  assumes "unicode_ok uc" "ident_char c"
  shows "word_char uc c" "\<not> is_whitespace c" "\<not> is_blank c"
  using assms
  by (auto simp: ident_char_def unicode_ok_def word_char_def is_whitespace_def is_blank_def is_ascii_lower_def is_ascii_upper_def is_ascii_digit_def)

lemma dot_facts:
  assumes "unicode_ok uc"
  shows "\<not> word_char uc DOT" "\<not> is_whitespace DOT" "\<not> is_blank DOT" "len_utf8 DOT = 1"
proof -
  have "\<not> is_alphanumeric uc DOT"
    using assms by (simp add: unicode_ok_def is_ascii_lower_def is_ascii_upper_def is_ascii_digit_def)
  then show "\<not> word_char uc DOT" by (simp add: word_char_def)
qed (simp_all add: is_whitespace_def is_blank_def len_utf8_def)

lemma ident_word_facts:
  assumes "unicode_ok uc" "ident_word w"
  shows "list_all (word_char uc) w" "w \<noteq> []" "\<not> is_whitespace (last w)" "is_alphabetic uc (hd w) \<or> hd w = cc (CHR ''_'')"
proof -
  have c: "ident_char c" if "c \<in> set w" for c using assms(2) that by (simp add: ident_word_def list_all_iff)
  show "w \<noteq> []" using assms(2) by (simp add: ident_word_def)
  then have "ident_char (hd w)" "ident_char (last w)" by (simp_all add: c)
  then show "\<not> is_whitespace (last w)" "is_alphabetic uc (hd w) \<or> hd w = cc (CHR ''_'')"
    using assms ident_char_facts
    by (auto simp: ident_word_def ident_char_def unicode_ok_def is_ascii_lower_def is_ascii_upper_def)
  show "list_all (word_char uc) w" using c ident_char_facts(1) [OF assms(1)] by (simp add: list_all_iff)
qed

lemma chain_step:
  assumes "unicode_ok uc" "ident_word w" "b = [] \<or> \<not> word_char uc (last b)"
  shows "chain_loop uc (b @ w) chain =
    (if \<not> word_start_ok b then None
     else if trim_str_end b \<noteq> [] \<and> last (trim_str_end b) = DOT then chain_loop uc (butlast (trim_str_end b)) (w # chain)
     else Some (w # chain))"
proof -
  note w = ident_word_facts [OF assms(1,2)]
  have "trim_str_end (b @ w) = b @ w" unfolding trim_str_end_def by (rule trim_end_by_keeps) (use w in simp_all)
  then show ?thesis using w word_split [OF w(1) assms(3)] by (subst chain_loop.simps) (simp add: Let_def)
qed

lemma chain_loop_reads:
  assumes "unicode_ok uc" "chain_context uc p"
  shows "list_all ident_word ws \<Longrightarrow> ident_word v \<Longrightarrow> chain_loop uc (p @ dotted ws @ v) chain = Some (ws @ v # chain)"
proof (induction ws arbitrary: v chain rule: rev_induct)
  case Nil
  then show ?case using assms chain_step [OF assms(1) Nil(2), of p chain]
    by (auto simp: chain_context_def word_start_ok_def dotted_def)
next
  case (snoc w ws)
  let ?b = "p @ dotted ws @ w @ [DOT]"
  have b: "last ?b = DOT" "?b \<noteq> []" by simp_all
  have "trim_str_end ?b = ?b"
    unfolding trim_str_end_def by (rule trim_end_by_keeps) (simp_all only: b dot_facts [OF assms(1)] not_False_eq_True)
  moreover have "word_start_ok ?b" unfolding word_start_ok_def b using dot_facts(4) [OF assms(1)] by simp
  moreover have "?b = [] \<or> \<not> word_char uc (last ?b)" unfolding b using dot_facts(1) [OF assms(1)] by simp
  ultimately have "chain_loop uc (?b @ v) chain = chain_loop uc (butlast ?b) (v # chain)"
    using chain_step [OF assms(1) snoc.prems(2), of ?b chain] b by (simp only: if_True not_True_eq_False if_False) simp
  also have "butlast ?b = p @ dotted ws @ w" by (simp add: butlast_append)
  also have "chain_loop uc (p @ dotted ws @ w) (v # chain) = Some (ws @ w # v # chain)"
    using snoc by simp
  finally show ?case by (simp add: dotted_def)
qed

text \<open>
  Completion reads the chain of names before the cursor: behind any context that is not itself part of a
  chain, names each followed by a dot and then a part of a further name are recognised as the chain of
  those names, in order.
\<close>

theorem extract_dot_chain_reads:
  assumes "unicode_ok uc" "chain_context uc p" "ws \<noteq> []" "list_all ident_word ws" "list_all ident_char partial"
  shows "extract_dot_chain uc (p @ dotted ws @ partial) = Some (Some ws)"
proof -
  obtain vs v where ws: "ws = vs @ [v]" using assms(3) by (cases ws rule: rev_cases) auto
  let ?b = "p @ dotted vs @ v @ [DOT]"
  have e: "p @ dotted ws @ partial = ?b @ partial" by (simp add: ws dotted_def)
  have b: "last ?b = DOT" "?b \<noteq> []" "butlast ?b = p @ dotted vs @ v" by (simp_all add: butlast_append)
  have part: "list_all (word_char uc) partial" "\<not> is_blank (last partial)" if "partial \<noteq> []"
    using assms(1,5) that ident_char_facts [OF assms(1)] by (auto simp: list_all_iff)
  have "trim_end_by is_blank (?b @ partial) = ?b @ partial"
  proof (cases "partial = []")
    case True
    show ?thesis by (rule trim_end_by_keeps) (use True b dot_facts(3) [OF assms(1)] in \<open>simp_all only: append_Nil2 not_False_eq_True\<close>)
  next
    case False
    then show ?thesis by (intro trim_end_by_keeps) (use part in simp_all)
  qed
  moreover have "word_begin uc (?b @ partial) = ?b"
    by (rule word_split(2)) (use part b dot_facts(1) [OF assms(1)] in \<open>cases partial; simp\<close>)+
  moreover have "chain_loop uc (butlast ?b) [] = Some (vs @ [v])"
    unfolding b(3) by (rule chain_loop_reads [OF assms(1,2)]) (use assms(4) ws in simp_all)
  ultimately show ?thesis unfolding e extract_dot_chain_def Let_def using b(1,2) ws by (simp only: if_False option.map) simp
qed

theorem extract_dot_chain_reads_witness:
  "extract_dot_chain ascii_unicode (lit ''return ctx.response.he'') = Some (Some [lit ''ctx'', lit ''response''])"
proof -
  have "extract_dot_chain ascii_unicode (lit ''return '' @ dotted [lit ''ctx'', lit ''response''] @ lit ''he'') = Some (Some [lit ''ctx'', lit ''response''])"
  proof (rule extract_dot_chain_reads)
    show "chain_context ascii_unicode (lit ''return '')"
      by (simp add: chain_context_def word_char_def ascii_unicode_def len_utf8_def trim_str_end_def trim_end_by_def is_whitespace_def
        is_ascii_lower_def is_ascii_upper_def is_ascii_digit_def)
  qed (simp_all add: ascii_unicode_ok ident_word_def ident_char_def is_ascii_lower_def is_ascii_upper_def is_ascii_digit_def)
  then show ?thesis by (simp add: dotted_def)
qed

section \<open>Panics\<close>

text \<open>A character of several bytes before the first name makes the slice panic.\<close>

lemma arrow_panics: "extract_dot_chain ascii_unicode [0x2192, 120, DOT] = None"
proof -
  have w: "\<not> word_char ascii_unicode 0x2192" "word_char ascii_unicode 120" "\<not> word_char ascii_unicode DOT"
    by (simp_all add: word_char_def ascii_unicode_def is_ascii_lower_def is_ascii_upper_def is_ascii_digit_def)
  have "chain_loop ascii_unicode [0x2192, 120] [] = None"
    by (subst chain_loop.simps)
      (simp add: Let_def word_begin_def trim_str_end_def trim_end_by_def is_whitespace_def w word_start_ok_def len_utf8_def)
  then show ?thesis by (simp add: extract_dot_chain_def Let_def word_begin_def trim_end_by_def is_blank_def w)
qed

text \<open>In ASCII text nothing panics.\<close>

lemma trim_end_by_set: "set (trim_end_by p t) \<subseteq> set t"
  by (auto simp: trim_end_by_def dest: set_dropWhileD)

lemma word_start_ascii: "\<forall>c \<in> set b. c < 0x80 \<Longrightarrow> word_start_ok b"
  by (cases "b = []") (auto simp: word_start_ok_def len_utf8_def)

lemma chain_loop_ascii: "\<forall>c \<in> set t. c < 0x80 \<Longrightarrow> chain_loop uc t chain \<noteq> None"
proof (induction uc t chain rule: chain_loop.induct)
  case (1 uc t chain)
  let ?r = "trim_str_end t" let ?b = "word_begin uc ?r" let ?before = "trim_str_end ?b"
  have s: "set ?before \<subseteq> set t" "set ?b \<subseteq> set t"
    unfolding word_begin_def trim_str_end_def by (meson subset_trans trim_end_by_set)+
  then have ok: "word_start_ok ?b" using 1(2) word_start_ascii by blast
  have "set (butlast ?before) \<subseteq> set t" using s(1) by (meson in_set_butlastD subset_eq)
  then have "\<forall>c \<in> set (butlast ?before). c < 0x80" using 1(2) by blast
  then show ?case using 1(1) [OF refl refl refl refl] ok by (subst chain_loop.simps) (simp add: Let_def)
qed

lemma extract_dot_chain_ascii: "\<forall>c \<in> set t. c < 0x80 \<Longrightarrow> extract_dot_chain uc t \<noteq> None"
proof -
  assume a: "\<forall>c \<in> set t. c < 0x80"
  have "set (butlast (word_begin uc (trim_end_by is_blank t))) \<subseteq> set t"
    unfolding word_begin_def by (meson in_set_butlastD subsetD subsetI trim_end_by_set)
  then have "chain_loop uc (butlast (word_begin uc (trim_end_by is_blank t))) [] \<noteq> None"
    using a chain_loop_ascii by blast
  then show ?thesis by (simp add: extract_dot_chain_def Let_def)
qed

text \<open>
  Completion in ASCII text always returns, wherever the cursor is, even behind the end of the text.
\<close>

lemma completions_at_ascii:
  assumes "\<forall>c \<in> set t. c < 0x80"
  shows "\<exists>items. completions_at uc sf t i stdlib = Some items"
proof -
  let ?n = "unat (min i (of_nat (byte_len t)))"
  have "?n \<le> unat (of_nat (byte_len t) :: u32)" by (simp add: min_def word_le_nat_alt)
  also have "\<dots> \<le> byte_len t" by (simp add: unat_of_nat)
  finally have n: "?n \<le> length t" using byte_len_ascii [OF assms] by simp
  have "bytes_upto ?n t = Some (take ?n t)" unfolding bytes_upto_def using split_bytes_ascii [OF assms n] by simp
  moreover have "\<forall>c \<in> set (take ?n t). c < 0x80" using assms by (meson in_set_takeD)
  then have "extract_dot_chain uc (take ?n t) \<noteq> None" by (rule extract_dot_chain_ascii)
  ultimately show ?thesis by (auto simp: completions_at_def split: option.splits)
qed

end
