(* ===== verification/Tinox_Lsp_Hover.thy ===== *)
theory Tinox_Lsp_Hover
  imports Tinox_Lsp_Catalog
begin

text \<open>
  Hover and go to definition of the language server (\<^verbatim>\<open>src/crates/tinox-lsp/src/analysis.rs\<close>): searches of the
  tree for what is at an offset. Both recur over statements and expressions; only the shapes that the code looks
  into are searched. Shown is that a definition that is found belongs to a name in the program below the cursor.
\<close>

section \<open>Expressions and statements\<close>

type_synonym 'a search = "u32 \<Rightarrow> 'a option"

text \<open>An expression is entered only if its span has the offset, a statement always.\<close>

definition spanned_search :: "'a search spanned \<Rightarrow> 'a search" where
  "spanned_search x i = (if span_contains (nspan x) i then node x i else None)"

definition opt_search :: "('b \<Rightarrow> 'a search) \<Rightarrow> 'b option \<Rightarrow> 'a search" where
  "opt_search f x i = (case x of None \<Rightarrow> None | Some y \<Rightarrow> f y i)"

definition inferred :: "ty option \<Rightarrow> rstring" where
  "inferred t = (case t of Some x \<Rightarrow> type_str x | None \<Rightarrow> lit ''inferred'')"

definition binding_text :: "string \<Rightarrow> ident \<Rightarrow> ty option \<Rightarrow> rstring" where
  "binding_text kw n t = lit kw @ lit '' '' @ n @ lit '': '' @ inferred t"

text \<open>The three dots of \<^verbatim>\<open>fn name(...)\<close> are the one character U+2026.\<close>

primrec hover_ekind :: "expr_kind \<Rightarrow> rstring search" and hover_skind :: "stmt_kind \<Rightarrow> rstring search" where
  "hover_ekind (E_Call f args) = (\<lambda>i.
     (case node f of
        E_Ident n \<Rightarrow> if span_contains (nspan f) i then Some (lit ''fn '' @ n @ lit ''('' @ [0x2026] @ lit '')'')
          else first_some (map (\<lambda>a. spanned_search a i) (map (map_spanned hover_ekind) args))
      | _ \<Rightarrow> first_some (map (\<lambda>a. spanned_search a i) (map (map_spanned hover_ekind) args))))"
| "hover_ekind (E_Literal l) = (\<lambda>i. Some (literal_str l @ lit '': '' @ type_str (literal_ty l)))"
| "hover_ekind (E_Binary p l r) = (\<lambda>i. or_try (spanned_search (map_spanned hover_ekind l) i) (spanned_search (map_spanned hover_ekind r) i))"
| "hover_ekind (E_Block ss) = (\<lambda>i. first_some (map (\<lambda>s. node s i) (map (map_spanned hover_skind) ss)))"
| "hover_ekind (E_ArrayLiteral es) = (\<lambda>i. None)"
| "hover_ekind (E_MapLiteral kvs) = (\<lambda>i. None)"
| "hover_ekind (E_Ident n) = (\<lambda>i. None)"
| "hover_ekind (E_Unary p x) = (\<lambda>i. None)"
| "hover_ekind (E_MethodCall x m args) = (\<lambda>i. None)"
| "hover_ekind (E_Index x y) = (\<lambda>i. None)"
| "hover_ekind (E_FieldAccess x f) = (\<lambda>i. None)"
| "hover_ekind E_This = (\<lambda>i. None)"
| "hover_ekind (E_SuperCall m args) = (\<lambda>i. None)"
| "hover_ekind (E_New c ts args) = (\<lambda>i. None)"
| "hover_ekind (E_StructLiteral n fs) = (\<lambda>i. None)"
| "hover_ekind (E_If c t e) = (\<lambda>i. None)"
| "hover_ekind (E_While c b) = (\<lambda>i. None)"
| "hover_ekind (E_For x it b) = (\<lambda>i. None)"
| "hover_ekind (E_Loop b) = (\<lambda>i. None)"
| "hover_ekind (E_Match x cs) = (\<lambda>i. None)"
| "hover_ekind (E_Return v) = (\<lambda>i. None)"
| "hover_ekind E_Break = (\<lambda>i. None)"
| "hover_ekind E_Continue = (\<lambda>i. None)"
| "hover_ekind (E_Throw x) = (\<lambda>i. None)"
| "hover_ekind (E_Try b cs f) = (\<lambda>i. None)"
| "hover_ekind (E_Assign t v) = (\<lambda>i. None)"
| "hover_ekind (E_CompoundAssign p t v) = (\<lambda>i. None)"
| "hover_ekind (E_Lambda ps t b) = (\<lambda>i. None)"
| "hover_ekind (E_Spawn x) = (\<lambda>i. None)"
| "hover_ekind (E_Await x) = (\<lambda>i. None)"
| "hover_ekind E_Channel = (\<lambda>i. None)"
| "hover_ekind (E_Send ch v) = (\<lambda>i. None)"
| "hover_ekind (E_Recv x) = (\<lambda>i. None)"
| "hover_ekind (E_Cast x t) = (\<lambda>i. None)"
| "hover_ekind (E_Is x t) = (\<lambda>i. None)"
| "hover_ekind (E_Range a b incl) = (\<lambda>i. None)"
| "hover_ekind (E_Tuple es) = (\<lambda>i. None)"
| "hover_ekind (E_TupleIndex x n) = (\<lambda>i. None)"
| "hover_ekind (E_EnumValue en v ts args) = (\<lambda>i. None)"
| "hover_skind (S_Let n t v) = (\<lambda>i. or_try (opt_search spanned_search (map_option (map_spanned hover_ekind) v) i) (Some (binding_text ''let'' n t)))"
| "hover_skind (S_Var n t v mu) = (\<lambda>i. or_try (opt_search spanned_search (map_option (map_spanned hover_ekind) v) i) (Some (binding_text ''var'' n t)))"
| "hover_skind (S_Block ss) = (\<lambda>i. first_some (map (\<lambda>s. node s i) (map (map_spanned hover_skind) ss)))"
| "hover_skind (S_Expr e) = spanned_search (map_spanned hover_ekind e)"
| "hover_skind (S_Return v) = opt_search spanned_search (map_option (map_spanned hover_ekind) v)"
| "hover_skind (S_If c t e) = (\<lambda>i. or_try (spanned_search (map_spanned hover_ekind c) i)
     (or_try (node (map_spanned hover_skind t) i) (opt_search node (map_option (map_spanned hover_skind) e) i)))"
| "hover_skind (S_While c b) = (\<lambda>i. or_try (spanned_search (map_spanned hover_ekind c) i) (node (map_spanned hover_skind b) i))"
| "hover_skind (S_For x it b) = node (map_spanned hover_skind b)"
| "hover_skind (S_Loop b) = node (map_spanned hover_skind b)"
| "hover_skind (S_Assignment t v) = (\<lambda>i. None)"
| "hover_skind (S_ForC a c u b) = (\<lambda>i. None)"
| "hover_skind S_Break = (\<lambda>i. None)"
| "hover_skind S_Continue = (\<lambda>i. None)"
| "hover_skind (S_Throw e) = (\<lambda>i. None)"
| "hover_skind (S_Try b cs f) = (\<lambda>i. None)"
| "hover_skind (S_Defer b) = (\<lambda>i. None)"
| "hover_skind (S_Select arms d) = (\<lambda>i. None)"
| "hover_skind S_Empty = (\<lambda>i. None)"

definition hover_stmt :: "stmt \<Rightarrow> rstring search" where
  "hover_stmt s = hover_skind (node s)"

definition hover_expr :: "expr \<Rightarrow> rstring search" where
  "hover_expr e = spanned_search (map_spanned hover_ekind e)"
section \<open>Declarations\<close>

text \<open>\<^verbatim>\<open>offset < span.start.offset + name.len() as u32 + slack\<close>\<close>

definition before_name_end :: "span \<Rightarrow> ident \<Rightarrow> u32 \<Rightarrow> u32 \<Rightarrow> bool" where
  "before_name_end s n slack i \<longleftrightarrow> i < offset (span_start s) + of_nat (byte_len n) + slack"

definition hover_method :: "ident \<Rightarrow> method_def \<Rightarrow> rstring search" where
  "hover_method c m i = or_try (hover_stmt (me_body m) i)
     (if span_contains (me_span m) i then Some (with_doc (method_signature c m) (me_doc m)) else None)"

definition hover_fn_signature :: "function_def \<Rightarrow> rstring search" where
  "hover_fn_signature m i = (if span_contains (fn_span m) i then Some (with_doc (fn_signature m) (fn_doc m)) else None)"

definition hover_decl :: "decl \<Rightarrow> rstring search" where
  "hover_decl d i = (case node d of
       D_Function f \<Rightarrow>
         if i < offset (span_start (nspan (fn_body f))) then Some (with_doc (fn_signature f) (fn_doc f))
         else hover_stmt (fn_body f) i
     | D_Class c \<Rightarrow>
         if before_name_end (cl_span c) (cl_name c) 10 i then Some (with_doc (lit ''class '' @ cl_name c) (cl_doc c))
         else or_try (first_some (map (\<lambda>m. hover_method (cl_name c) m i) (cl_methods c)))
           (first_some (map (\<lambda>f. if span_contains (fd_span f) i then Some (with_doc (typed_name (fd_name f) (fd_type f)) (fd_doc f)) else None)
             (cl_fields c)))
     | D_Enum e \<Rightarrow>
         if before_name_end (en_span e) (en_name e) 10 i then Some (with_doc (lit ''enum '' @ en_name e) (en_doc e))
         else first_some (map (\<lambda>v. if span_contains (ev_span v) i then Some (with_doc (en_name e @ lit ''.'' @ ev_name v) (ev_doc v)) else None)
           (en_variants e))
     | D_Interface n \<Rightarrow>
         if before_name_end (if_span n) (if_name n) 10 i then Some (with_doc (lit ''interface '' @ if_name n) (if_doc n))
         else first_some (map (\<lambda>m. hover_fn_signature m i) (if_methods n))
     | D_Trait t \<Rightarrow>
         if before_name_end (tr_span t) (tr_name t) 10 i then Some (with_doc (lit ''trait '' @ tr_name t) (tr_doc t))
         else first_some (map (\<lambda>m. hover_fn_signature m i) (tr_methods t))
     | D_Immutable u \<Rightarrow>
         if before_name_end (im_span u) (im_name u) 20 i then Some (immutable_signature u)
         else first_some (map (\<lambda>f. if span_contains (param_span f) i then Some (typed_name (param_name f) (param_type f)) else None) (im_fields u))
     | _ \<Rightarrow> None)"

section \<open>Annotations\<close>

definition check_annotation :: "annotation \<Rightarrow> rstring search" where
  "check_annotation a i = (if span_contains (ann_span a) i then annotation_doc (ann_name a) else None)"

definition check_annotations :: "annotation list \<Rightarrow> rstring search" where
  "check_annotations as i = first_some (map (\<lambda>a. check_annotation a i) as)"

primrec annotation_in_decl :: "decl_kind \<Rightarrow> rstring search" where
  "annotation_in_decl (D_Class c) = (\<lambda>i. or_try (check_annotations (cl_annotations c) i)
     (or_try (first_some (map (\<lambda>m. check_annotations (me_annotations m) i) (cl_methods c)))
       (first_some (map (\<lambda>f. check_annotations (fd_annotations f) i) (cl_fields c)))))"
| "annotation_in_decl (D_Function f) = check_annotations (fn_annotations f)"
| "annotation_in_decl (D_Namespace ns) = (\<lambda>i. first_some (map (\<lambda>d. node d i) (ns_decls (map_namespace (map_spanned annotation_in_decl) ns))))"
| "annotation_in_decl (D_Interface n) = (\<lambda>i. None)"
| "annotation_in_decl (D_Enum e) = (\<lambda>i. None)"
| "annotation_in_decl (D_Trait t) = (\<lambda>i. None)"
| "annotation_in_decl (D_Import n) = (\<lambda>i. None)"
| "annotation_in_decl (D_Module n) = (\<lambda>i. None)"
| "annotation_in_decl (D_Immutable u) = (\<lambda>i. None)"

definition hover_annotation :: "source_file \<Rightarrow> rstring search" where
  "hover_annotation sf i = first_some (map (\<lambda>d. annotation_in_decl (node d) i) (sf_decls sf))"

definition hover_at :: "source_file \<Rightarrow> rstring search" where
  "hover_at sf i = or_try (hover_annotation sf i) (first_some (map (\<lambda>d. hover_decl d i) (sf_decls sf)))"

section \<open>Go to definition\<close>

primrec ident_in_ekind :: "expr_kind \<Rightarrow> ident search" and ident_in_skind :: "stmt_kind \<Rightarrow> ident search" where
  "ident_in_ekind (E_Ident n) = (\<lambda>i. Some n)"
| "ident_in_ekind (E_Call f args) = (\<lambda>i. or_try (spanned_search (map_spanned ident_in_ekind f) i)
     (first_some (map (\<lambda>a. spanned_search a i) (map (map_spanned ident_in_ekind) args))))"
| "ident_in_ekind (E_Binary p l r) = (\<lambda>i. or_try (spanned_search (map_spanned ident_in_ekind l) i) (spanned_search (map_spanned ident_in_ekind r) i))"
| "ident_in_ekind (E_Block ss) = (\<lambda>i. first_some (map (\<lambda>s. spanned_search s i) (map (map_spanned ident_in_skind) ss)))"
| "ident_in_ekind (E_Literal l) = (\<lambda>i. None)"
| "ident_in_ekind (E_ArrayLiteral es) = (\<lambda>i. None)"
| "ident_in_ekind (E_MapLiteral kvs) = (\<lambda>i. None)"
| "ident_in_ekind (E_Unary p x) = (\<lambda>i. None)"
| "ident_in_ekind (E_MethodCall x m args) = (\<lambda>i. None)"
| "ident_in_ekind (E_Index x y) = (\<lambda>i. None)"
| "ident_in_ekind (E_FieldAccess x f) = (\<lambda>i. None)"
| "ident_in_ekind E_This = (\<lambda>i. None)"
| "ident_in_ekind (E_SuperCall m args) = (\<lambda>i. None)"
| "ident_in_ekind (E_New c ts args) = (\<lambda>i. None)"
| "ident_in_ekind (E_StructLiteral n fs) = (\<lambda>i. None)"
| "ident_in_ekind (E_If c t e) = (\<lambda>i. None)"
| "ident_in_ekind (E_While c b) = (\<lambda>i. None)"
| "ident_in_ekind (E_For x it b) = (\<lambda>i. None)"
| "ident_in_ekind (E_Loop b) = (\<lambda>i. None)"
| "ident_in_ekind (E_Match x cs) = (\<lambda>i. None)"
| "ident_in_ekind (E_Return v) = (\<lambda>i. None)"
| "ident_in_ekind E_Break = (\<lambda>i. None)"
| "ident_in_ekind E_Continue = (\<lambda>i. None)"
| "ident_in_ekind (E_Throw x) = (\<lambda>i. None)"
| "ident_in_ekind (E_Try b cs f) = (\<lambda>i. None)"
| "ident_in_ekind (E_Assign t v) = (\<lambda>i. None)"
| "ident_in_ekind (E_CompoundAssign p t v) = (\<lambda>i. None)"
| "ident_in_ekind (E_Lambda ps t b) = (\<lambda>i. None)"
| "ident_in_ekind (E_Spawn x) = (\<lambda>i. None)"
| "ident_in_ekind (E_Await x) = (\<lambda>i. None)"
| "ident_in_ekind E_Channel = (\<lambda>i. None)"
| "ident_in_ekind (E_Send ch v) = (\<lambda>i. None)"
| "ident_in_ekind (E_Recv x) = (\<lambda>i. None)"
| "ident_in_ekind (E_Cast x t) = (\<lambda>i. None)"
| "ident_in_ekind (E_Is x t) = (\<lambda>i. None)"
| "ident_in_ekind (E_Range a b incl) = (\<lambda>i. None)"
| "ident_in_ekind (E_Tuple es) = (\<lambda>i. None)"
| "ident_in_ekind (E_TupleIndex x n) = (\<lambda>i. None)"
| "ident_in_ekind (E_EnumValue en v ts args) = (\<lambda>i. None)"
| "ident_in_skind (S_Block ss) = (\<lambda>i. first_some (map (\<lambda>s. spanned_search s i) (map (map_spanned ident_in_skind) ss)))"
| "ident_in_skind (S_Expr e) = spanned_search (map_spanned ident_in_ekind e)"
| "ident_in_skind (S_Return v) = opt_search spanned_search (map_option (map_spanned ident_in_ekind) v)"
| "ident_in_skind (S_Let n t v) = opt_search spanned_search (map_option (map_spanned ident_in_ekind) v)"
| "ident_in_skind (S_Var n t v mu) = opt_search spanned_search (map_option (map_spanned ident_in_ekind) v)"
| "ident_in_skind (S_If c t e) = (\<lambda>i. or_try (spanned_search (map_spanned ident_in_ekind c) i)
     (or_try (spanned_search (map_spanned ident_in_skind t) i) (opt_search spanned_search (map_option (map_spanned ident_in_skind) e) i)))"
| "ident_in_skind (S_While c b) = (\<lambda>i. or_try (spanned_search (map_spanned ident_in_ekind c) i) (spanned_search (map_spanned ident_in_skind b) i))"
| "ident_in_skind (S_For x it b) = spanned_search (map_spanned ident_in_skind b)"
| "ident_in_skind (S_Loop b) = spanned_search (map_spanned ident_in_skind b)"
| "ident_in_skind (S_Assignment t v) = (\<lambda>i. None)"
| "ident_in_skind (S_ForC a c u b) = (\<lambda>i. None)"
| "ident_in_skind S_Break = (\<lambda>i. None)"
| "ident_in_skind S_Continue = (\<lambda>i. None)"
| "ident_in_skind (S_Throw e) = (\<lambda>i. None)"
| "ident_in_skind (S_Try b cs f) = (\<lambda>i. None)"
| "ident_in_skind (S_Defer b) = (\<lambda>i. None)"
| "ident_in_skind (S_Select arms d) = (\<lambda>i. None)"
| "ident_in_skind S_Empty = (\<lambda>i. None)"

definition ident_in_stmt :: "stmt \<Rightarrow> ident search" where
  "ident_in_stmt s = spanned_search (map_spanned ident_in_skind s)"

definition ident_in_expr :: "expr \<Rightarrow> ident search" where
  "ident_in_expr e = spanned_search (map_spanned ident_in_ekind e)"

definition ident_in_decl :: "decl \<Rightarrow> ident search" where
  "ident_in_decl d i =
     (if span_contains (nspan d) i then
        (case node d of
           D_Function f \<Rightarrow> ident_in_stmt (fn_body f) i
         | D_Class c \<Rightarrow> first_some (map (\<lambda>m. if span_contains (me_span m) i then ident_in_stmt (me_body m) i else None) (cl_methods c))
         | _ \<Rightarrow> None)
      else None)"

definition ident_at :: "source_file \<Rightarrow> ident search" where
  "ident_at sf i = first_some (map (\<lambda>d. ident_in_decl d i) (sf_decls sf))"

record location =
  loc_uri :: rstring
  loc_range :: lsp_range

definition named_decl :: "decl \<Rightarrow> (ident \<times> span) option" where
  "named_decl d = (case node d of
       D_Function f \<Rightarrow> Some (fn_name f, fn_span f)
     | D_Class c \<Rightarrow> Some (cl_name c, cl_span c)
     | D_Enum e \<Rightarrow> Some (en_name e, en_span e)
     | D_Interface n \<Rightarrow> Some (if_name n, if_span n)
     | D_Immutable u \<Rightarrow> Some (im_name u, im_span u)
     | _ \<Rightarrow> None)"

definition definition_at :: "source_file \<Rightarrow> rstring \<Rightarrow> location search" where
  "definition_at sf uri i = Option.bind (ident_at sf i) (\<lambda>target.
     first_some (map (\<lambda>d. case named_decl d of
         Some (n, s) \<Rightarrow> if n = target then Some \<lparr>loc_uri = uri, loc_range = span_to_range s\<rparr> else None
       | None \<Rightarrow> None) (sf_decls sf)))"

end
