(* ===== verification/Tinox_Lsp_Symbols.thy ===== *)
theory Tinox_Lsp_Symbols
  imports Tinox_Lsp_Hover
begin

text \<open>
  The outline of a document (\<^verbatim>\<open>document_symbols\<close> in \<^verbatim>\<open>src/crates/tinox-lsp/src/analysis.rs\<close>). A symbol has
  the span of its declaration both as its range and as the range to select.
\<close>

datatype symbol_kind = SK_Function | SK_Method | SK_Class | SK_Enum | SK_EnumMember | SK_Interface | SK_Field | SK_Struct

datatype document_symbol = DocumentSymbol (sym_name: rstring) (sym_detail: "rstring option") (sym_kind: symbol_kind)
  (sym_range: lsp_range) (sym_selection_range: lsp_range) (sym_children: "document_symbol list option")

definition symbol :: "rstring \<Rightarrow> rstring option \<Rightarrow> symbol_kind \<Rightarrow> span \<Rightarrow> document_symbol list option \<Rightarrow> document_symbol" where
  "symbol n detail k s children = DocumentSymbol n detail k (span_to_range s) (span_to_range s) children"

definition signature_doc :: "rstring \<Rightarrow> rstring option \<Rightarrow> rstring" where
  "signature_doc s doc = (case doc of Some d \<Rightarrow> s @ [NL, NL] @ format_doc d | None \<Rightarrow> s)"

definition decl_to_symbol :: "decl \<Rightarrow> document_symbol option" where
  "decl_to_symbol d = (case node d of
       D_Function f \<Rightarrow> Some (symbol (fn_name f) (Some (signature_doc (fn_signature f) (fn_doc f))) SK_Function (fn_span f) None)
     | D_Class c \<Rightarrow> Some (symbol (cl_name c) (map_option format_doc (cl_doc c)) SK_Class (cl_span c)
         (Some (map (\<lambda>m. symbol (me_name m) (Some (signature_doc (method_signature (cl_name c) m) (me_doc m))) SK_Method (me_span m) None)
           (cl_methods c))))
     | D_Enum e \<Rightarrow> Some (symbol (en_name e) (map_option format_doc (en_doc e)) SK_Enum (en_span e)
         (Some (map (\<lambda>v. symbol (ev_name v) (map_option format_doc (ev_doc v)) SK_EnumMember (ev_span v) None) (en_variants e))))
     | D_Interface n \<Rightarrow> Some (symbol (if_name n) (map_option format_doc (if_doc n)) SK_Interface (if_span n) None)
     | D_Immutable u \<Rightarrow> Some (symbol (im_name u) (Some (immutable_signature u)) SK_Struct (im_span u)
         (Some (map (\<lambda>f. symbol (param_name f) (Some (type_str (param_type f))) SK_Field (param_span f) None) (im_fields u))))
     | _ \<Rightarrow> None)"

definition document_symbols :: "source_file \<Rightarrow> document_symbol list" where
  "document_symbols sf = List.map_filter decl_to_symbol (sf_decls sf)"

section \<open>The outline and go to definition agree\<close>

lemma symbol_of_decl:
  "map_option (\<lambda>y. (sym_name y, sym_range y)) (decl_to_symbol d) = map_option (\<lambda>(n, s). (n, span_to_range s)) (named_decl d)"
  by (simp add: decl_to_symbol_def named_decl_def symbol_def split: decl_kind.split)

lemma first_symbol:
  "first_some (map (\<lambda>d. case named_decl d of
       Some (n, s) \<Rightarrow> if n = target then Some \<lparr>loc_uri = uri, loc_range = span_to_range s\<rparr> else None | None \<Rightarrow> None) ds)
   = map_option (\<lambda>y. \<lparr>loc_uri = uri, loc_range = sym_range y\<rparr>)
       (find (\<lambda>y. sym_name y = target) (List.map_filter decl_to_symbol ds))"
proof (induction ds)
  case (Cons d ds)
  show ?case
  proof (cases "named_decl d")
    case None
    then have "decl_to_symbol d = None" using symbol_of_decl [of d] by simp
    then show ?thesis using None Cons by (simp add: List.map_filter_simps)
  next
    case (Some a)
    then obtain y where "decl_to_symbol d = Some y" "(sym_name y, sym_range y) = (fst a, span_to_range (snd a))"
      using symbol_of_decl [of d] by (auto simp: split_beta)
    then show ?thesis using Some Cons by (cases a) (auto simp: List.map_filter_simps)
  qed
qed (simp add: List.map_filter_simps)

text \<open>
  Go to definition leads to the first entry of the outline that has the name below the cursor, and it answers
  exactly if there is a name below the cursor and the outline has an entry of that name.
\<close>

theorem definition_is_in_outline:
  "definition_at sf uri i = (case ident_at sf i of
       None \<Rightarrow> None
     | Some n \<Rightarrow> map_option (\<lambda>y. \<lparr>loc_uri = uri, loc_range = sym_range y\<rparr>) (find (\<lambda>y. sym_name y = n) (document_symbols sf)))"
  by (simp add: definition_at_def document_symbols_def first_symbol split: option.split)

end
