(* ===== verification/Tinox_Lsp_Server.thy ===== *)
theory Tinox_Lsp_Server
  imports Tinox_Lsp_Complete Tinox_Lsp_Symbols Tinox_Compile
begin

text \<open>
  The language server (\<^verbatim>\<open>src/crates/tinox-lsp/src/main.rs\<close>): the documents and trees it keeps, the notifications that
  change them and the requests that read them. Two maps by URI are the state; a notification runs to its end before
  the next. The embedded standard library is an argument, and so is what the file system has of it. Outer options:
  a notification returns nothing if the type checker does not return, a request if it panics.
\<close>

section \<open>The standard library\<close>

definition parse_text :: "rstring \<Rightarrow> source_file option" where
  "parse_text t = (case parse_source t of Some (Inr sf) \<Rightarrow> Some sf | _ \<Rightarrow> None)"

type_synonym embedded_stdlib = "(ident \<times> rstring) list"

definition add_source :: "rstring \<Rightarrow> type_registry \<Rightarrow> type_registry" where
  "add_source src r = (case parse_text src of None \<Rightarrow> r | Some sf \<Rightarrow> add_missing (build_registry_from_source sf) r)"

definition build_embedded_stdlib :: "embedded_stdlib \<Rightarrow> type_registry" where
  "build_embedded_stdlib lib = fold (\<lambda>(n, src). add_source src) lib Map.empty"

definition load_embedded_module :: "embedded_stdlib \<Rightarrow> ident \<Rightarrow> type_registry \<Rightarrow> type_registry" where
  "load_embedded_module lib module r = (case find (\<lambda>(n, src). n = module) lib of None \<Rightarrow> r | Some (n, src) \<Rightarrow> add_source src r)"

text \<open>A directory of the file system: the names of its files and what reading them gives\<close>

type_synonym directory = "(rstring \<times> rstring option) list"

definition has_extension :: "rstring \<Rightarrow> rstring \<Rightarrow> bool" where
  "has_extension e n \<longleftrightarrow> DOT \<in> set (tl n) \<and> last_segment DOT n = e"

definition load_stdlib :: "directory option \<Rightarrow> type_registry" where
  "load_stdlib d = (case d of
       None \<Rightarrow> Map.empty
     | Some es \<Rightarrow> fold (\<lambda>(n, c) r. if has_extension (lit ''tnx'') n
           then (case Option.bind c parse_text of None \<Rightarrow> r | Some sf \<Rightarrow> r ++ build_registry_from_source sf)
           else r) es Map.empty)"

definition module_names_from_imports :: "source_file \<Rightarrow> ident list" where
  "module_names_from_imports sf = List.map_filter (\<lambda>d. case node d of
       D_Import i \<Rightarrow> if imp_path i = [] then None else Some (last (imp_path i)) | _ \<Rightarrow> None) (sf_decls sf)"

section \<open>State\<close>

record backend =
  be_docs :: "rstring \<rightharpoonup> rstring"
  be_asts :: "rstring \<rightharpoonup> source_file"
  be_stdlib_registry :: type_registry
  be_stdlib_asts :: "ident \<rightharpoonup> source_file"

text \<open>\<open>found\<close> is the directory that \<^verbatim>\<open>find_stdlib_path\<close> has found, if any, and what reading it gives.\<close>

definition backend_new :: "embedded_stdlib \<Rightarrow> directory option option \<Rightarrow> backend" where
  "backend_new lib found_dir = \<lparr>be_docs = Map.empty, be_asts = Map.empty,
     be_stdlib_registry = (case found_dir of
         None \<Rightarrow> build_embedded_stdlib lib | Some d \<Rightarrow> add_missing (load_stdlib d) (build_embedded_stdlib lib)),
     be_stdlib_asts = fold (\<lambda>(n, src) m. case parse_text src of None \<Rightarrow> m | Some sf \<Rightarrow> m(n \<mapsto> sf)) lib Map.empty\<rparr>"

section \<open>Diagnostics\<close>

datatype lsp_message = LM_Lexer rstring | LM_Parser parse_msg | LM_Type type_msg

record diagnostic =
  dg_range :: lsp_range
  dg_message :: lsp_message

definition err_to_diag :: "('m \<Rightarrow> lsp_message) \<Rightarrow> 'm error \<Rightarrow> diagnostic" where
  "err_to_diag f e = \<lparr>dg_range = \<lparr>rg_start = pos_to_lsp (span_start (err_span e)), rg_end = pos_to_lsp (span_end (err_span e))\<rparr>,
     dg_message = f (err_message e)\<rparr>"

text \<open>\<^verbatim>\<open>compile\<close> gives the tree to its last argument if there is one: the second result.\<close>

definition lsp_compile :: "hash_order \<Rightarrow> rstring \<Rightarrow> source_file list \<Rightarrow> (diagnostic list \<times> source_file option) option" where
  "lsp_compile order src preludes = (case parse_source src of
       None \<Rightarrow> None
     | Some (Inl (Inl errs)) \<Rightarrow> Some (map (err_to_diag LM_Lexer) errs, None)
     | Some (Inl (Inr bag)) \<Rightarrow> Some (map (err_to_diag LM_Parser) (bag_errors bag), None)
     | Some (Inr sf) \<Rightarrow> map_option (\<lambda>r. (case r of
           Inr _ \<Rightarrow> [] | Inl bag \<Rightarrow> map (err_to_diag LM_Type) (bag_errors bag), Some sf))
         (typecheck_with_prelude order sf preludes))"

section \<open>Notifications\<close>

datatype notification =
  Did_Open rstring rstring
| Did_Change rstring "rstring list"
| Did_Save rstring "rstring option"
| Did_Close rstring

type_synonym published = "rstring \<times> diagnostic list"

definition preludes_of :: "rstring \<Rightarrow> backend \<Rightarrow> source_file list" where
  "preludes_of t b = List.map_filter (be_stdlib_asts b)
     (case parse_text t of None \<Rightarrow> [] | Some sf \<Rightarrow> module_names_from_imports sf)"

definition update :: "hash_order \<Rightarrow> rstring \<Rightarrow> rstring \<Rightarrow> backend \<Rightarrow> (backend \<times> published list) option" where
  "update order uri t b = map_option (\<lambda>(diags, ast).
       (b\<lparr>be_asts := (case ast of None \<Rightarrow> be_asts b | Some sf \<Rightarrow> (be_asts b)(uri \<mapsto> sf)),
          be_docs := (be_docs b)(uri \<mapsto> t)\<rparr>, [(uri, diags)]))
     (lsp_compile order t (preludes_of t b))"

definition unwrap_text :: "rstring option \<Rightarrow> rstring" where
  "unwrap_text t = (case t of Some x \<Rightarrow> x | None \<Rightarrow> [])"

fun notify :: "hash_order \<Rightarrow> notification \<Rightarrow> backend \<Rightarrow> (backend \<times> published list) option" where
  "notify order (Did_Open uri t) b = update order uri t b"
| "notify order (Did_Change uri changes) b = (if changes = [] then Some (b, []) else update order uri (last changes) b)"
| "notify order (Did_Save uri t) b = update order uri (unwrap_text (or_try t (be_docs b uri))) b"
| "notify order (Did_Close uri) b = Some (b\<lparr>be_docs := (be_docs b)(uri := None), be_asts := (be_asts b)(uri := None)\<rparr>, [])"

section \<open>Requests\<close>

definition hover_block :: "rstring \<Rightarrow> rstring" where
  "hover_block content = lit ''```tinox'' @ [NL] @ content @ [NL] @ lit ''```''"

definition request_hover :: "rstring \<Rightarrow> lsp_position \<Rightarrow> backend \<Rightarrow> rstring option" where
  "request_hover uri p b = (case (be_docs b uri, be_asts b uri) of
       (Some t, Some sf) \<Rightarrow>
         (let content = unwrap_text (hover_at sf (lsp_pos_to_offset t p)) in
          if content = [] then None else Some (hover_block content))
     | _ \<Rightarrow> None)"

definition request_definition :: "rstring \<Rightarrow> lsp_position \<Rightarrow> backend \<Rightarrow> location option" where
  "request_definition uri p b = (case (be_docs b uri, be_asts b uri) of
       (Some t, Some sf) \<Rightarrow> definition_at sf uri (lsp_pos_to_offset t p)
     | _ \<Rightarrow> None)"

definition request_symbols :: "rstring \<Rightarrow> backend \<Rightarrow> document_symbol list option" where
  "request_symbols uri b = map_option document_symbols (be_asts b uri)"

text \<open>The line of the cursor is replaced by as many spaces as it has bytes.\<close>

definition blank_line :: "rstring \<Rightarrow> u32 \<Rightarrow> rstring option" where
  "blank_line t i = map_option (\<lambda>(before, after).
       (let pre = trim_end_by (\<lambda>c. c \<noteq> NL) before;
            line = drop (length pre) before @ takeWhile (\<lambda>c. c \<noteq> NL) after
        in pre @ replicate (byte_len line) 32 @ dropWhile (\<lambda>c. c \<noteq> NL) after))
     (split_bytes (unat i) t)"

definition parse_for_completion :: "rstring \<Rightarrow> u32 \<Rightarrow> source_file option option" where
  "parse_for_completion t i = map_option parse_text (blank_line t i)"

definition completions_generic :: "completion_item list" where
  "completions_generic = map (\<lambda>k. item_new k K_Keyword None None)
     [lit ''fn'', lit ''let'', lit ''var'', lit ''return'', lit ''if'', lit ''else'', lit ''while'', lit ''for'', lit ''class'', lit ''import'']"

text \<open>The excerpt for the log: the twenty bytes before the cursor.\<close>

definition log_excerpt :: "rstring \<Rightarrow> u32 \<Rightarrow> rstring option" where
  "log_excerpt t i = (let e = unat (min i (of_nat (byte_len t))) in bytes_between (e - 20) e t)"

definition effective_registry :: "embedded_stdlib \<Rightarrow> source_file option \<Rightarrow> type_registry \<Rightarrow> type_registry" where
  "effective_registry lib ast reg = fold (\<lambda>module r. if r module = None then load_embedded_module lib module r else r)
     (case ast of Some sf \<Rightarrow> module_names_from_imports sf | None \<Rightarrow> []) reg"

definition request_completion :: "unicode \<Rightarrow> embedded_stdlib \<Rightarrow> rstring \<Rightarrow> lsp_position \<Rightarrow> backend \<Rightarrow> completion_item list option option" where
  "request_completion uc lib uri p b = (case be_docs b uri of
       None \<Rightarrow> Some None
     | Some t \<Rightarrow>
         (let i = lsp_pos_to_offset t p in
          Option.bind (log_excerpt t i) (\<lambda>_.
          Option.bind (parse_for_completion t i) (\<lambda>fresh.
            case or_try fresh (be_asts b uri) of
              None \<Rightarrow> Some (Some completions_generic)
            | Some sf \<Rightarrow> map_option Some (completions_at uc sf t i (effective_registry lib (Some sf) (be_stdlib_registry b)))))))"

section \<open>What the server knows\<close>

fun run_server :: "hash_order \<Rightarrow> notification list \<Rightarrow> backend \<Rightarrow> (backend \<times> published list) option" where
  "run_server order [] b = Some (b, [])"
| "run_server order (e # es) b = Option.bind (notify order e b) (\<lambda>(b', out).
     map_option (apsnd (append out)) (run_server order es b'))"

text \<open>The texts that the client has sent for a document since it was last closed\<close>

fun sent :: "rstring \<Rightarrow> notification \<Rightarrow> rstring list \<Rightarrow> rstring list" where
  "sent u (Did_Open v t) ts = (if v = u then ts @ [t] else ts)"
| "sent u (Did_Change v cs) ts = (if v = u \<and> cs \<noteq> [] then ts @ [last cs] else ts)"
| "sent u (Did_Save v t) ts = (if v = u then ts @ [unwrap_text (or_try t (if ts = [] then None else Some (last ts)))] else ts)"
| "sent u (Did_Close v) ts = (if v = u then [] else ts)"

definition history :: "rstring \<Rightarrow> notification list \<Rightarrow> rstring list" where
  "history u es = fold (sent u) es []"

definition last_text :: "rstring list \<Rightarrow> rstring option" where
  "last_text ts = (if ts = [] then None else Some (last ts))"

definition last_parsed :: "rstring list \<Rightarrow> source_file option" where
  "last_parsed ts = first_some (rev (map parse_text ts))"

lemma history_snoc [simp]:
  "last_text (ts @ [t]) = Some t"
  "last_parsed (ts @ [t]) = or_try (parse_text t) (last_parsed ts)"
  by (simp_all add: last_text_def last_parsed_def)

lemma lsp_compile_tree: "lsp_compile order t ps = Some (ds, ast) \<Longrightarrow> ast = parse_text t"
proof -
  assume a: "lsp_compile order t ps = Some (ds, ast)"
  obtain r where "parse_source t = Some r" using parse_source_returns by blast
  then show ?thesis
  proof (cases r)
    case (Inl e)
    then show ?thesis using a \<open>parse_source t = Some r\<close> by (cases e) (auto simp: lsp_compile_def parse_text_def)
  qed (use a in \<open>auto simp: lsp_compile_def parse_text_def\<close>)
qed

lemma update_state:
  "update order uri t b = Some (b', out) \<Longrightarrow>
     be_docs b' = (be_docs b)(uri \<mapsto> t) \<and> be_asts b' = (case parse_text t of None \<Rightarrow> be_asts b | Some sf \<Rightarrow> (be_asts b)(uri \<mapsto> sf))"
  by (auto simp: update_def dest!: lsp_compile_tree)

definition knows :: "backend \<Rightarrow> (rstring \<Rightarrow> rstring list) \<Rightarrow> bool" where
  "knows b h \<longleftrightarrow> (\<forall>u. be_docs b u = last_text (h u) \<and> be_asts b u = last_parsed (h u))"

lemma update_knows:
  assumes "knows b h" "update order uri t b = Some (b', out)"
  shows "knows b' (h(uri := h uri @ [t]))"
  using assms(1) update_state [OF assms(2)] by (auto simp: knows_def or_try_def split: option.splits)

lemma notify_knows:
  assumes "knows b h" "notify order e b = Some (b', out)"
  shows "knows b' (\<lambda>u. sent u e (h u))"
proof (cases e)
  case (Did_Open uri t)
  then have "knows b' (h(uri := h uri @ [t]))" using assms update_knows by simp
  moreover have "h(uri := h uri @ [t]) = (\<lambda>u. sent u e (h u))" using Did_Open by auto
  ultimately show ?thesis by simp
next
  case (Did_Change uri cs)
  show ?thesis
  proof (cases "cs = []")
    case True
    then show ?thesis using Did_Change assms by simp
  next
    case False
    then have "knows b' (h(uri := h uri @ [last cs]))" using Did_Change assms update_knows by simp
    moreover have "h(uri := h uri @ [last cs]) = (\<lambda>u. sent u e (h u))" using Did_Change False by auto
    ultimately show ?thesis by simp
  qed
next
  case (Did_Save uri t)
  let ?t = "unwrap_text (or_try t (be_docs b uri))"
  have "knows b' (h(uri := h uri @ [?t]))" using Did_Save assms update_knows by simp
  moreover have "be_docs b uri = last_text (h uri)" using assms(1) by (simp add: knows_def)
  then have "h(uri := h uri @ [?t]) = (\<lambda>u. sent u e (h u))" using Did_Save by (auto simp: last_text_def)
  ultimately show ?thesis by simp
next
  case (Did_Close uri)
  then show ?thesis using assms by (auto simp: knows_def last_text_def last_parsed_def)
qed

lemma run_knows:
  "run_server order es b = Some (b', out) \<Longrightarrow> knows b h \<Longrightarrow> knows b' (\<lambda>u. fold (sent u) es (h u))"
proof (induction es arbitrary: b h out)
  case (Cons e es)
  then obtain b1 o1 o2 where "notify order e b = Some (b1, o1)" "run_server order es b1 = Some (b', o2)"
    by (auto simp: bind_eq_Some_conv)
  then show ?case using Cons.IH [of b1 o2 "\<lambda>u. sent u e (h u)"] notify_knows Cons.prems(2) by simp
qed simp

lemma new_knows: "knows (backend_new lib d) (\<lambda>_. [])"
  by (simp add: knows_def backend_new_def last_text_def last_parsed_def)

text \<open>
  C38. What the server knows is determined by what it was told: after any notifications it has, for each document, the last text
  that was sent since the document was last closed, and the tree of the last of these texts that could be parsed. So a
  tree is kept while the text is broken, never survives the closing of its document, and never belongs to another one.
\<close>

theorem server_state_from_history:
  assumes "run_server order es (backend_new lib d) = Some (b, out)"
  shows "be_docs b u = last_text (history u es) \<and> be_asts b u = last_parsed (history u es)"
  using run_knows [OF assms new_knows] by (simp add: knows_def history_def)

section \<open>Diagnostics\<close>

lemma parse_source_errors:
  "parse_source t = Some (Inl (Inl errs)) \<Longrightarrow> errs \<noteq> []"
  "parse_source t = Some (Inl (Inr bag)) \<Longrightarrow> bag_errors bag \<noteq> []"
  by (auto simp: parse_source_def tokenize_def parse_def Let_def split: sum.splits prod.splits if_splits outcome.splits)

text \<open>
  C39. A notification with a new text publishes one list of diagnostics for its document, and this list is empty
  exactly if the text can be parsed and the type checker, which has the imported modules of the standard library,
  accepts it. It returns whenever no chain of superclasses among these files is circular.
\<close>

theorem update_publishes:
  assumes "\<And>sf. parse_text t = Some sf \<Longrightarrow> classes_end (superclasses (preludes_of t b @ [sf]))"
  shows "\<exists>b' ds. update order uri t b = Some (b', [(uri, ds)])
    \<and> (ds = [] \<longleftrightarrow> (\<exists>sf. parse_text t = Some sf \<and> typecheck_with_prelude order sf (preludes_of t b) = Some (Inr sf)))"
proof -
  obtain r where r: "parse_source t = Some r" using parse_source_returns by blast
  show ?thesis
  proof (cases r)
    case (Inl e)
    then show ?thesis using r parse_source_errors [of t]
      by (cases e) (auto simp: update_def lsp_compile_def parse_text_def)
  next
    case (Inr sf)
    then have p: "parse_text t = Some sf" using r by (simp add: parse_text_def)
    obtain x where "typecheck_with_prelude order sf (preludes_of t b) = Some x"
      "case x of Inr sf' \<Rightarrow> sf' = sf \<and> validate_annotations sf = [] | Inl bag \<Rightarrow> bag_errors bag \<noteq> []"
      using typecheck_total [OF assms [OF p], of order] by blast
    then show ?thesis using r Inr p by (cases x) (auto simp: update_def lsp_compile_def)
  qed
qed

lemma empty_text: "parse_text [] = Some (source_file_new [])"
  by (simp add: parse_text_def parse_empty_source)

lemma empty_preludes: "preludes_of [] b = []"
  by (simp add: preludes_of_def empty_text module_names_from_imports_def source_file_new_def List.map_filter_simps)

theorem update_publishes_witness:
  "\<exists>b' ds. update id (lit ''file:///a.tnx'') [] (backend_new [] None) = Some (b', [(lit ''file:///a.tnx'', ds)])
    \<and> (ds = [] \<longleftrightarrow> (\<exists>sf. parse_text [] = Some sf \<and> typecheck_with_prelude id sf (preludes_of [] (backend_new [] None)) = Some (Inr sf)))"
  by (rule update_publishes) (simp add: empty_text empty_preludes empty_classes_end)

lemma empty_opened: "\<exists>b out. run_server id [Did_Open (lit ''file:///a.tnx'') []] (backend_new [] None) = Some (b, out)"
proof -
  have "classes_end (superclasses ([] @ [source_file_new []]))" using empty_classes_end by simp
  from typecheck_total [OF this, of id] show ?thesis
    using empty_text parse_source_returns [of "[]"]
    by (auto simp: update_def lsp_compile_def empty_preludes parse_text_def split: option.splits sum.splits)
qed

theorem server_state_from_history_witness:
  "\<exists>b out. run_server id [Did_Open (lit ''file:///a.tnx'') []] (backend_new [] None) = Some (b, out)
     \<and> be_docs b (lit ''file:///a.tnx'') = Some []"
proof -
  obtain b out where "run_server id [Did_Open (lit ''file:///a.tnx'') []] (backend_new [] None) = Some (b, out)"
    using empty_opened by blast
  moreover from server_state_from_history [OF this, of "lit ''file:///a.tnx''"]
  have "be_docs b (lit ''file:///a.tnx'') = Some []" by (simp add: history_def last_text_def)
  ultimately show ?thesis by blast
qed

section \<open>Completion never panics in ASCII text\<close>

lemma pos_loop_bound: "unat off + byte_len t < 2 ^ 32 \<Longrightarrow> unat (pos_loop p l c off t) \<le> unat off + byte_len t"
proof (induction p l c off t rule: pos_loop.induct)
  case (2 p line col off c t)
  have "unat (off + of_nat (len_utf8 c)) = unat off + len_utf8 c"
    using 2(3) by (simp add: unat_word_ariths unat_of_nat)
  then show ?case using 2 by auto
qed simp

lemma blank_line_ascii:
  assumes "\<forall>c \<in> set t. c < 0x80" "unat i \<le> length t"
  shows "blank_line t i \<noteq> None"
  using split_bytes_ascii [OF assms] by (simp add: blank_line_def)

lemma log_excerpt_ascii:
  assumes "\<forall>c \<in> set t. c < 0x80" "unat i \<le> length t"
  shows "log_excerpt t i \<noteq> None"
proof -
  let ?e = "unat (min i (of_nat (byte_len t)))"
  have e: "?e \<le> length t" using assms(2) by (simp add: min_def word_le_nat_alt)
  have "bytes_upto ?e t = Some (take ?e t)" unfolding bytes_upto_def using split_bytes_ascii [OF assms(1) e] by simp
  moreover have "\<forall>c \<in> set (take ?e t). c < 0x80" using assms(1) by (meson in_set_takeD)
  then have "bytes_from (?e - 20) (take ?e t) \<noteq> None"
    unfolding bytes_from_def using e by (simp add: split_bytes_ascii)
  ultimately show ?thesis by (simp add: log_excerpt_def Let_def bytes_between_def)
qed

text \<open>
  C40. A request for completion in an ASCII document, of less than 2^32 characters, returns for every position, be it inside of the text or not,
  whether the document can be parsed or not: none of the slices that the server takes of the text panics.
\<close>

theorem request_completion_returns:
  assumes "\<And>t. be_docs b uri = Some t \<Longrightarrow> (\<forall>c \<in> set t. c < 0x80) \<and> length t < 2 ^ 32"
  shows "\<exists>r. request_completion uc lib uri p b = Some r"
proof (cases "be_docs b uri")
  case (Some t)
  then have t: "\<forall>c \<in> set t. c < 0x80" "length t < 2 ^ 32" using assms by auto
  let ?i = "lsp_pos_to_offset t p"
  have i: "unat ?i \<le> length t"
    using pos_loop_bound [of 0 t p 0 0] t byte_len_ascii [OF t(1)] by (simp add: lsp_pos_to_offset_def)
  obtain x y where "log_excerpt t ?i = Some x" "parse_for_completion t ?i = Some y"
    using log_excerpt_ascii [OF t(1) i] blank_line_ascii [OF t(1) i] by (auto simp: parse_for_completion_def)
  moreover have "completions_at uc sf t ?i reg \<noteq> None" for sf reg
    using completions_at_ascii [OF t(1)] by blast
  ultimately show ?thesis using Some by (auto simp: request_completion_def Let_def split: option.splits)
qed (simp add: request_completion_def)

theorem request_completion_returns_witness:
  "\<exists>r. request_completion ascii_unicode [] (lit ''file:///a.tnx'') \<lparr>lp_line = 0, lp_character = 9\<rparr>
     ((backend_new [] None)\<lparr>be_docs := [lit ''file:///a.tnx'' \<mapsto> lit ''ctx.'']\<rparr>) = Some r"
  by (rule request_completion_returns) auto

text \<open>The excerpt for the log starts twenty bytes before the cursor, be it inside of a character: then completion panics.\<close>

lemma log_excerpt_panics: "log_excerpt (0xE9 # replicate 19 97) 21 = None"
proof -
  have "byte_len (0xE9 # replicate 19 97) = 21" by (simp add: byte_len_def len_utf8_def numeral_eq_Suc)
  moreover have "bytes_from 1 (0xE9 # replicate 19 97) = None"
    by (subst bytes_from_def, subst split_bytes.simps) (simp add: len_utf8_def)
  moreover have "bytes_upto 21 (0xE9 # replicate 19 97) = Some (0xE9 # replicate 19 97)"
    unfolding bytes_upto_def using split_bytes_all [of "0xE9 # replicate 19 97"] calculation(1) by simp
  ultimately show ?thesis by (simp add: log_excerpt_def Let_def bytes_between_def)
qed

section \<open>The text that is parsed for completion\<close>

text \<open>The line of the cursor becomes spaces, of as many bytes; everything else stays where it is.\<close>

lemma blank_line_blanks:
  assumes "pre = [] \<or> last pre = NL" "NL \<notin> set (l @ l')" "post = [] \<or> hd post = NL" "byte_len (pre @ l) < 2 ^ 32"
  shows "blank_line (pre @ l @ l' @ post) (of_nat (byte_len (pre @ l))) = Some (pre @ replicate (byte_len (l @ l')) 32 @ post)"
proof -
  have "unat (of_nat (byte_len (pre @ l)) :: u32) = byte_len (pre @ l)" using assms(4) by (simp add: unat_of_nat del: byte_len_simps(3))
  then have "split_bytes (unat (of_nat (byte_len (pre @ l)) :: u32)) (pre @ l @ l' @ post) = Some (pre @ l, l' @ post)"
    using split_bytes_append [of "pre @ l" "l' @ post"] by simp
  moreover have "trim_end_by (\<lambda>c. c \<noteq> NL) (pre @ l) = pre"
  proof -
    have "dropWhile (\<lambda>c. c \<noteq> NL) (rev l @ rev pre) = dropWhile (\<lambda>c. c \<noteq> NL) (rev pre)"
      by (rule dropWhile_append2) (use assms(2) in auto)
    also have "\<dots> = rev pre" using assms(1) by (cases pre rule: rev_cases) auto
    finally show ?thesis by (simp add: trim_end_by_def)
  qed
  moreover have "takeWhile (\<lambda>c. c \<noteq> NL) (l' @ post) = l'" "dropWhile (\<lambda>c. c \<noteq> NL) (l' @ post) = post"
  proof -
    have n: "c \<noteq> NL" if "c \<in> set l'" for c using assms(2) that by auto
    have "takeWhile (\<lambda>c. c \<noteq> NL) post = []" "dropWhile (\<lambda>c. c \<noteq> NL) post = post"
      using assms(3) by (cases post; simp)+
    then show "takeWhile (\<lambda>c. c \<noteq> NL) (l' @ post) = l'" "dropWhile (\<lambda>c. c \<noteq> NL) (l' @ post) = post"
      using takeWhile_append2 [OF n, of l' "\<lambda>c. c" post] dropWhile_append2 [OF n, of l' "\<lambda>c. c" post] by simp_all
  qed
  ultimately show ?thesis by (simp add: blank_line_def Let_def)
qed

lemma blank_line_same_length: "blank_line t i = Some u \<Longrightarrow> byte_len u = byte_len t"
proof -
  assume "blank_line t i = Some u"
  then obtain x y where s: "split_bytes (unat i) t = Some (x, y)"
    and u: "u = (let pre = trim_end_by (\<lambda>c. c \<noteq> NL) x; line = drop (length pre) x @ takeWhile (\<lambda>c. c \<noteq> NL) y
      in pre @ replicate (byte_len line) 32 @ dropWhile (\<lambda>c. c \<noteq> NL) y)"
    by (auto simp: blank_line_def)
  have x: "trim_end_by (\<lambda>c. c \<noteq> NL) x @ rev (takeWhile (\<lambda>c. c \<noteq> NL) (rev x)) = x"
    unfolding trim_end_by_def rev_append [symmetric] takeWhile_dropWhile_id rev_rev_ident ..
  let ?p = "trim_end_by (\<lambda>c. c \<noteq> NL) x"
  have "drop (length ?p) x = rev (takeWhile (\<lambda>c. c \<noteq> NL) (rev x))"
    by (subst (2) x [symmetric]) simp
  then have "byte_len x = byte_len ?p + byte_len (drop (length ?p) x)" by (subst (1) x [symmetric]) simp
  moreover have "byte_len y = byte_len (takeWhile (\<lambda>c. c \<noteq> NL) y) + byte_len (dropWhile (\<lambda>c. c \<noteq> NL) y)"
    by (metis byte_len_simps(3) takeWhile_dropWhile_id)
  moreover have "byte_len (replicate n 32) = n" for n by (induction n) (simp_all add: len_utf8_def)
  ultimately show ?thesis using split_bytes_sound [OF s] by (simp add: u Let_def)
qed

end
