(* ===== verification/Spec2Isabelle.thy ===== *)
theory Spec2Isabelle
  imports Tinox_Lexer_Props Tinox_Lexer_Strings Tinox_Lexer_Operators Tinox_Lexer_Roundtrip Tinox_Token_Weight
    Tinox_Parser_Precedence Tinox_Imports Tinox_Value_Types_Props Tinox_Checker_Props Tinox_Compile
    Tinox_Annotation_Props Tinox_Formatter_Props
    Tinox_Codegen_Dispatch Tinox_Codegen_Generics Tinox_Codegen_Slots Tinox_Codegen_Entry
    Tinox_Codegen_Infer Tinox_Lsp_Server
begin

text \<open>
  A verification library for the Tinox compiler, whose Rust sources are under \<^verbatim>\<open>src/crates\<close>.

  \<^bold>\<open>The program.\<close> \<^verbatim>\<open>tinox\<close> compiles a source file with everything it imports: the lexer
  (\<^verbatim>\<open>tinox-lexer\<close>) turns the text into tokens, the parser (\<^verbatim>\<open>tinox-parser\<close>) turns these into a tree, the
  driver (\<^verbatim>\<open>tinox/src/main.rs\<close>) resolves imports in the project, in installed packages and in the standard
  library and merges the trees, a pass numbers the expressions, then the type checker and the code
  generator follow. The package manager (\<^verbatim>\<open>tinox/src/pm.rs\<close>) keeps \<^verbatim>\<open>tinox.toml\<close> and \<^verbatim>\<open>tinox.lock\<close>, downloads and
  verifies packages and says which directories imports may be found in.

  \<^bold>\<open>Conventions.\<close> A Rust \<^verbatim>\<open>char\<close> is its code point, a string a list of them; \<^verbatim>\<open>u8\<close>, \<^verbatim>\<open>u32\<close>, \<^verbatim>\<open>u64\<close> are words,
  \<^verbatim>\<open>usize\<close> is \<open>nat\<close> (indices into data in memory). \<^verbatim>\<open>Result\<close> is a sum with the error on the left. Error
  messages are values that carry their arguments, not formatted text. What is not Rust of this
  repository (network, hash, archives, file system) is an argument of the definitions that use it.

  \<^bold>\<open>Prelude and strings.\<close> \<open>Tinox_Prelude\<close> has the types, the character classes and the shared lemmas;
  \<open>Tinox_Strings\<close> the \<^verbatim>\<open>str\<close> and \<^verbatim>\<open>Path\<close> functions that the driver uses.

  \<^bold>\<open>Lexer.\<close> \<open>Tinox_Common\<close> (positions, spans, errors of \<^verbatim>\<open>tinox-common\<close>), \<open>Tinox_Tokens\<close> (tokens, keywords),
  \<open>Tinox_Float\<close> (decimal to binary floating point, correctly rounded), \<open>Tinox_Lexer\<close> (every method of
  \<^verbatim>\<open>Lexer\<close>), \<open>Tinox_Tokenize\<close> (\<^verbatim>\<open>tokenize\<close> with its error recovery). \<open>Tinox_Lexer_Contract\<close> is the contract
  every reading operation satisfies (it consumes input, and says what), and the locale the token loop
  relies on. \<open>Tinox_Token_Types\<close>, \<open>Tinox_Lexer_Props\<close>, \<open>Tinox_Lexer_Operators\<close>, \<open>Tinox_Lexer_Roundtrip\<close> and
  \<open>Tinox_Lexer_Strings\<close> show: the tokens tile the input, spans are ordered, payloads are values of their Rust
  types, operators are read by longest match, words, numbers, strings and raw strings read back.

  \<^bold>\<open>Parser.\<close> \<open>Tinox_Ast\<close> is \<^verbatim>\<open>ast.rs\<close>; \<open>Tinox_Parser_State\<close> the token cursor, errors and panic-mode recovery;
  \<open>Tinox_Parser_Types\<close>, \<open>Tinox_Parser_Expr\<close>, \<open>Tinox_Parser_Stmt\<close>, \<open>Tinox_Parser_Decl\<close> the productions of
  \<^verbatim>\<open>parser.rs\<close>, each over the non-terminals it calls (\<open>knot\<close>); \<open>Tinox_Parser\<close> ties the knot with fuel. The
  fuel of a run is the weight of its tokens plus one: a token weighs one, a shift operator as many closing
  brackets as it may be split into, an interpolated string more than the tokens its embedded sources can
  have. \<open>Tinox_Parser_Contract\<close>, \<open>Tinox_Token_Weight\<close>, \<open>Tinox_Parser_Total_Types\<close>, \<open>Tinox_Parser_Total_Expr\<close> and
  \<open>Tinox_Parser_Total\<close> prove that this is always enough: every production either consumes weight or fails, and
  the locale \<open>knot_contract\<close> states what a production may assume of the others. \<open>Tinox_Parser_Precedence\<close> shows
  that an expression printed with the parentheses that precedence and associativity require parses back.
  \<open>Tinox_Node_Ids\<close> is \<^verbatim>\<open>node_ids.rs\<close>, with its \<^verbatim>\<open>u32\<close> counter.

  \<^bold>\<open>Package manager.\<close> \<open>Tinox_Pm_Lock\<close>: data, download locations, install directories, checksums; the lock file
  and the dependency list are instances of \<open>keyed_store\<close>, so that they refine maps; install directories stay
  below their root. \<open>Tinox_Pm_Encoding\<close>: base64, UTF-8 and the registry's envelope read back.
  \<open>Tinox_Pm_Manifest\<close>: \<^verbatim>\<open>parse_manifest\<close> and \<^verbatim>\<open>write_manifest\<close>; what is written reads back, and what is read can
  be written. \<open>Tinox_Config\<close>: the other readers of \<^verbatim>\<open>tinox.toml\<close> in \<^verbatim>\<open>main.rs\<close>, instances of \<open>section_reader\<close>, for
  which rewriting the manifest is invisible. \<open>Tinox_Pm_Walk\<close>: walks guarded by a visited set, their
  termination and what they reach; \<open>Tinox_Pm_Install\<close>: downloads, installation, \<^verbatim>\<open>tinox install\<close>, \<^verbatim>\<open>tinox add\<close>
  and the search of the package cache, both walks being instances. Walks have fuel for their nesting: more than
  the number of coordinates that occur is enough, and the result does not depend on it.

  \<^bold>\<open>Front end.\<close> \<open>Tinox_Imports\<close>: the checks on single files, the resolution of imports and \<^verbatim>\<open>compile_file\<close> up to
  the tree that the type checker gets. The fuel counts nested files: more than the number of files is enough.
  The first property below composes it with the lexer, the parser and the numbering.

  \<^bold>\<open>Type checker.\<close> \<open>Tinox_Value_Types\<close>: \<^verbatim>\<open>ValueType\<close> with conversions, compatibility, join, substitution and
  unification; \<open>Tinox_Value_Types_Props\<close> shows that the join is the least upper bound for compatibility and
  that unification recovers type arguments. \<open>Tinox_Checker_State\<close>: the tables of a \<^verbatim>\<open>TypeChecker\<close> (filled by
  registration, then only read: an argument) and what checking changes (variables, flags, errors, types of
  nodes), with the checks that do not recur. \<open>Tinox_Checker\<close>: \<^verbatim>\<open>infer_type\<close> and \<^verbatim>\<open>check_stmt\<close>, by recursion on
  the tree; \<open>Tinox_Checker_Builtins\<close>: \<^verbatim>\<open>TypeChecker::new\<close> with its signatures; \<open>Tinox_Checker_Register\<close>: the three
  passes of registration; \<open>Tinox_Typecheck\<close>: the entry points. The only loops that are not bounded by the tree walk up the
  superclasses: \<open>superclass_loop\<close> is a \<open>partial_function\<close>, so a check that never ends is \<open>None\<close>, while the loops of registration carry the
  sets that end them. The order in which a hash map is iterated is an argument.
  \<open>Tinox_Checker_Contract\<close> has the locale \<open>check_contract\<close>: a relation between the states before and after, closed
  under every step of the checker, holds of inference and checking as a whole; its interpretation \<open>fr\<close> says that errors, node types
  and variables are only added and that checking returns when no chain of superclasses is circular. \<open>Tinox_Checker_Props\<close> and
  \<open>Tinox_Typecheck_Props\<close> draw from it: visibility of fields, stray \<^verbatim>\<open>break\<close> and \<^verbatim>\<open>continue\<close>, the subclass test,
  the end of registration and of type checking. \<open>Tinox_Compile\<close> runs the checker on the front end's tree,
  processes the annotations and makes the checks that precede the code generator: the second property below.

  \<^bold>\<open>Annotations.\<close> \<open>Tinox_Annotation_Registry\<close>: the annotations the compiler knows; \<open>Tinox_Annotations\<close>: their
  validation, part of the type check; \<open>Tinox_Annotation_Process\<close>: what is collected from them (routes, components,
  commands, endpoints, ...); \<open>Tinox_Annotation_Props\<close>: routes of validated programs bind all their parameters.

  \<^bold>\<open>Formatter.\<close> \<open>Tinox_Formatter\<close> is \<^verbatim>\<open>formatter.rs\<close>, with \<open>Tinox_Float_Show\<close> for the numbers;
  \<open>Tinox_Formatter_Props\<close> puts it together with the lexer and the parser: expressions that need no parentheses read back,
  others do not, since the formatter prints none.

  \<^bold>\<open>Code generator.\<close> First what \<^verbatim>\<open>codegen.rs\<close> decides before it emits code. \<open>Tinox_Codegen_Types\<close>: the lowering of types and its
  inverse, container markers, discriminators of variants, names of instances. \<open>Tinox_Codegen_Effects\<close>: the analysis of what may
  throw, shown to be reachability in the call graph. \<open>Tinox_Codegen_Tables\<close>: all tables that \<^verbatim>\<open>gen\<close> fills, in its order, with
  the walks up the superclasses as \<open>partial_function\<close>s; \<open>Tinox_Codegen_Layout\<close> shows that they are filled whenever no chain of superclasses
  is circular, and that a layout extends that of the superclass (locale \<open>inherited\<close>, for what is collected along
  superclasses); \<open>Tinox_Codegen_Dispatch\<close> that a method is implemented by the nearest class that has it. \<open>Tinox_Codegen_Generics\<close>: the
  specialisation of generic classes and functions. \<open>Tinox_Codegen_Infer\<close>: the types of expressions that emission relies on, inferred type
  arguments and the instances of generic methods, with a condition under which a reused instance has the types that are expected.
  Then the code, which is text as in the source. \<open>Tinox_Codegen_Emit\<close>: the state of the emitter, the conversions of values and the
  other small operations that everything is emitted by; \<open>Tinox_Codegen_Ssa\<close>: a step relation of which these operations are the rules, with the invariant that
  no temporary is assigned twice; \<open>Tinox_Codegen_Slots\<close>: an interpreter of the casts that are emitted, by which values come back from the slots
  of arrays; \<open>Tinox_Codegen_Debug\<close>: string constants, which LLVM reads back, and the metadata of functions, which is complete;
  \<open>Tinox_Codegen_Module\<close>: struct types, tables of methods and calls through interfaces (which slot they reach), constructors, wrappers of
  spawned functions, the text of the module; \<open>Tinox_Codegen_Entry\<close>: the entry points, of which a program gets one.

  \<^bold>\<open>Language server.\<close> \<^verbatim>\<open>tinox-lsp\<close>. \<open>Tinox_Lsp_Text\<close>: UTF-8 offsets, slices that may panic, positions of the protocol;
  \<open>Tinox_Lsp_Show\<close>: what is shown of types, signatures and documentation, and the registry of classes; \<open>Tinox_Lsp_Catalog\<close>: keywords,
  built-in functions, annotations; \<open>Tinox_Lsp_Hover\<close>: hover and go to definition; \<open>Tinox_Lsp_Complete\<close>: completion, with the
  chain of names before the cursor; \<open>Tinox_Lsp_Symbols\<close>: the outline; \<open>Tinox_Lsp_Server\<close>: the state of the server, notifications and
  requests, with the lexer, the parser and the type checker of the theories above. They show that the server knows what it was told and nothing else,
  when diagnostics are empty, that completion does not panic in ASCII text (it may in other text), and that the outline and
  go to definition agree. The Unicode tables of \<^verbatim>\<open>char\<close>, the embedded standard library and the directory of the standard library are arguments.

  \<^bold>\<open>Not modelled.\<close> Of the code generator: the emission of statements and of most expressions, of declarations of the runtime and of the code that annotations
  other than commands ask for (servers, components, entities, queries, serialisation, the development interface), all of it text in LLVM's language. The commands of
  \<^verbatim>\<open>main.rs\<close> that run compilers, containers, tests and the REPL, the
  generated documentation, \<^verbatim>\<open>tinox package\<close>, the transport of the language server and the C runtime: input and
  output around other programs. The standard library is written in Tinox itself.
\<close>

section \<open>The front end as a whole\<close>



section \<open>Compilation up to the code generator\<close>

text \<open>
  C3. Compilation up to the code generator ends for every program that has finitely many files and no circular
  chain of superclasses. It fails with the errors of the front end, at least one error of the type checker or
  a reason of the driver; otherwise the code generator gets the tree of the front end, whose annotations are
  valid, and which has a class Main or a command, at most one HTTP/3 controller, and no two WebSocket endpoints
  on one port.
\<close>

theorem compile_to_codegen_returns:
  assumes "finite (canonical fe)" "card (canonical fe) < n"
    and "\<forall>sf k. compile_front n fe deps input = Some (Inr (sf, k)) \<longrightarrow> classes_end (superclasses [sf])"
    and "\<forall>ps. set (ports ps) = set ps"
  shows "\<exists>r. compile_to_codegen n fe deps order ports env input = Some r
    \<and> (\<forall>bag. r = Inl (CE_Type bag) \<longrightarrow> bag_errors bag \<noteq> [])
    \<and> (\<forall>ci. r = Inr ci \<longrightarrow> (\<exists>k. compile_front n fe deps input = Some (Inr (ci_tree ci, k)))
        \<and> validate_annotations (ci_tree ci) = []
        \<and> ci_annotations ci = process_annotations (ci_tree ci)
        \<and> (cli_commands (ci_annotations ci) \<noteq> [] \<or> has_class_named_main (sf_decls (ci_tree ci)))
        \<and> length (http3_rest_controllers (ci_annotations ci)) \<le> 1
        \<and> distinct (map (endpoint_port env) (ws_endpoints (ci_annotations ci))))"
proof -
  obtain x where x: "compile_front n fe deps input = Some x"
    using compile_front_total [OF assms(1,2)] by blast
  show ?thesis
  proof (cases x)
    case (Inl e)
    then show ?thesis using x by (simp add: compile_to_codegen_def)
  next
    case (Inr y)
    then obtain sf k where y: "x = Inr (sf, k)" by (cases y) simp
    then obtain r s where "tc_check order sf checker_new = Some (r, s)"
      "case r of Inr sf' \<Rightarrow> sf' = sf \<and> validate_annotations sf = [] | Inl bag \<Rightarrow> bag_errors bag \<noteq> []"
      using tc_check_returns assms(3) x by blast
    then show ?thesis using x y port_clash_None [OF assms(4)]
      by (cases r) (auto simp: compile_to_codegen_def check_endpoints_def http3_clash_def Let_def split: option.splits if_splits)
  qed
qed

theorem compile_to_codegen_returns_witness:
  "\<exists>r. compile_to_codegen 3 two_files ([], []) id id None (lit ''/a.tnx'') = Some r
     \<and> (\<forall>bag. r = Inl (CE_Type bag) \<longrightarrow> bag_errors bag \<noteq> [])
     \<and> (\<forall>ci. r = Inr ci \<longrightarrow> (\<exists>k. compile_front 3 two_files ([], []) (lit ''/a.tnx'') = Some (Inr (ci_tree ci, k)))
        \<and> validate_annotations (ci_tree ci) = []
        \<and> ci_annotations ci = process_annotations (ci_tree ci)
        \<and> (cli_commands (ci_annotations ci) \<noteq> [] \<or> has_class_named_main (sf_decls (ci_tree ci)))
        \<and> length (http3_rest_controllers (ci_annotations ci)) \<le> 1
        \<and> distinct (map (endpoint_port None) (ws_endpoints (ci_annotations ci))))"
  by (rule compile_to_codegen_returns [OF two_files_canonical])
    (simp_all add: empty_program empty_classes_end del: lit_simps)

end
